(* ===== verification/Prelude.thy ===== *)
theory Prelude
  imports Main "HOL-Library.Char_ord" "HOL-Library.List_Lexorder" "HOL-Library.AList"
begin

text \<open>
  Shared vocabulary of the development.

  Go values are represented as follows. A Go \<^verbatim>\<open>string\<close> is a \<^typ>\<open>string\<close>
  (a list of bytes, compared bytewise by \<^verbatim>\<open>sort.Strings\<close> and by \<open><\<close>).
  A \<^verbatim>\<open>map[string]V\<close> is an association list with distinct keys: lookup is
  \<^const>\<open>map_of\<close>, assignment \<^const>\<open>AList.update\<close>, \<^verbatim>\<open>delete\<close> is
  \<^const>\<open>AList.delete\<close>; the order of the list is one of the iteration orders Go may
  choose, and the theorems characterise the results by \<^const>\<open>map_of\<close>, by sets or by
  sorted lists, so that they do not depend on it. A nil pointer is \<^const>\<open>None\<close>. An
  \<^verbatim>\<open>error\<close> is a value of a datatype of the component, returned as the left summand.
\<close>

named_theorems gomap_simps "lookup laws of Go maps"

type_synonym 'v gomap = "(string \<times> 'v) list"

type_synonym gotime = nat

definition gomap_wf :: "('k \<times> 'v) list \<Rightarrow> bool" where
  "gomap_wf m \<longleftrightarrow> distinct (map fst m)"

definition get_or :: "'v \<Rightarrow> ('k \<times> 'v) list \<Rightarrow> 'k \<Rightarrow> 'v" where
  "get_or d m k = (case map_of m k of None \<Rightarrow> d | Some v \<Rightarrow> v)"

definition has_key :: "('k \<times> 'v) list \<Rightarrow> 'k \<Rightarrow> bool" where
  "has_key m k \<longleftrightarrow> map_of m k \<noteq> None"

lemma gomap_wf_Nil [simp, intro]: "gomap_wf []"
  by (simp add: gomap_wf_def)

lemma gomap_wf_update [simp, intro]: "gomap_wf m \<Longrightarrow> gomap_wf (AList.update k v m)"
  by (simp add: gomap_wf_def distinct_update)

lemma gomap_wf_delete [simp, intro]: "gomap_wf m \<Longrightarrow> gomap_wf (AList.delete k m)"
  by (simp add: gomap_wf_def distinct_delete)

lemma map_of_update [gomap_simps, simp]: "map_of (AList.update k v m) = (map_of m)(k \<mapsto> v)"
  by (simp add: update_conv')

lemma map_of_delete [gomap_simps, simp]: "map_of (AList.delete k m) = (map_of m)(k := None)"
  by (simp add: delete_conv')

lemma get_or_update [gomap_simps, simp]:
  "get_or d (AList.update k v m) k' = (if k' = k then v else get_or d m k')"
  by (simp add: get_or_def)

lemma has_key_update [gomap_simps, simp]:
  "has_key (AList.update k v m) k' \<longleftrightarrow> k' = k \<or> has_key m k'"
  by (simp add: has_key_def)

lemma has_key_iff: "has_key m k \<longleftrightarrow> k \<in> fst ` set m"
  by (simp add: has_key_def map_of_eq_None_iff)

lemma get_or_entry:
  assumes "gomap_wf m"
  shows "(\<exists>t. (n, t) \<in> set m \<and> t \<noteq> d \<and> P t) \<longleftrightarrow> get_or d m n \<noteq> d \<and> P (get_or d m n)"
proof -
  have "(n, t) \<in> set m \<longleftrightarrow> map_of m n = Some t" for t
    using assms by (simp add: gomap_wf_def)
  then show ?thesis by (auto simp: get_or_def split: option.splits)
qed

lemma get_or_Nil [simp]: "get_or d [] n = d"
  by (simp add: get_or_def)

lemma distinct_set_singleton: "distinct xs \<Longrightarrow> set xs = {x} \<Longrightarrow> xs = [x]"
proof (cases xs)
  case (Cons y ys)
  assume "distinct xs" "set xs = {x}"
  with Cons have "y = x" "ys = []" by (auto simp: subset_singleton_iff)
  with Cons show ?thesis by simp
qed simp

lemma find_append_or: "find P (xs @ ys) = (case find P xs of None \<Rightarrow> find P ys | Some x \<Rightarrow> Some x)"
  by (induction xs) auto

lemma is_none_iff [simp]: "Option.is_none x \<longleftrightarrow> x = None"
  by (simp add: Option.is_none_def)

subsection \<open>Go strings\<close>

text \<open>
  \<^verbatim>\<open>strings.TrimSpace\<close>, \<^verbatim>\<open>TrimPrefix\<close>, \<^verbatim>\<open>TrimSuffix\<close>, \<^verbatim>\<open>HasPrefix\<close>,
  \<^verbatim>\<open>HasSuffix\<close> on ASCII text (the white space of \<^verbatim>\<open>unicode.IsSpace\<close> below 128).
\<close>

definition is_space :: "char \<Rightarrow> bool" where
  "is_space c \<longleftrightarrow> c \<in> {CHR 0x09, CHR 0x0A, CHR 0x0B, CHR 0x0C, CHR 0x0D, CHR '' ''}"

definition TrimFunc :: "(char \<Rightarrow> bool) \<Rightarrow> string \<Rightarrow> string" where
  "TrimFunc p s = rev (dropWhile p (rev (dropWhile p s)))"

definition TrimSpace :: "string \<Rightarrow> string" where
  "TrimSpace s = TrimFunc is_space s"

definition HasPrefix :: "string \<Rightarrow> string \<Rightarrow> bool" where
  "HasPrefix s p \<longleftrightarrow> take (length p) s = p"

definition HasSuffix :: "string \<Rightarrow> string \<Rightarrow> bool" where
  "HasSuffix s p \<longleftrightarrow> length p \<le> length s \<and> drop (length s - length p) s = p"

definition TrimPrefix :: "string \<Rightarrow> string \<Rightarrow> string" where
  "TrimPrefix s p = (if HasPrefix s p then drop (length p) s else s)"

definition TrimSuffix :: "string \<Rightarrow> string \<Rightarrow> string" where
  "TrimSuffix s p = (if HasSuffix s p then take (length s - length p) s else s)"

text \<open>\<^verbatim>\<open>strings.ToLower\<close> and \<^verbatim>\<open>strings.EqualFold\<close> on ASCII text, and \<^verbatim>\<open>strings.Split\<close>,
  \<^verbatim>\<open>strings.SplitN(s, sep, 2)\<close> and \<^verbatim>\<open>strings.Join\<close> with a separator of one byte.\<close>

definition lower_char :: "char \<Rightarrow> char" where
  "lower_char c = (if CHR ''A'' \<le> c \<and> c \<le> CHR ''Z'' then char_of (of_char c + 32 :: nat) else c)"

definition ToLower :: "string \<Rightarrow> string" where
  "ToLower s = map lower_char s"

definition EqualFold :: "string \<Rightarrow> string \<Rightarrow> bool" where
  "EqualFold s t \<longleftrightarrow> map lower_char s = map lower_char t"

fun Split :: "char \<Rightarrow> string \<Rightarrow> string list" where
  "Split sep [] = [[]]"
| "Split sep (c # cs) =
     (if c = sep then [] # Split sep cs
      else case Split sep cs of [] \<Rightarrow> [[c]] | p # ps \<Rightarrow> (c # p) # ps)"

definition SplitN2 :: "char \<Rightarrow> string \<Rightarrow> string list" where
  "SplitN2 sep s =
     (if sep \<in> set s then [takeWhile (\<lambda>c. c \<noteq> sep) s, tl (dropWhile (\<lambda>c. c \<noteq> sep) s)] else [s])"

fun Join :: "string list \<Rightarrow> string \<Rightarrow> string" where
  "Join [] sep = []"
| "Join [x] sep = x"
| "Join (x # y # ys) sep = x @ sep @ Join (y # ys) sep"

lemma Split_no_sep [simp]: "sep \<notin> set s \<Longrightarrow> Split sep s = [s]"
  by (induction s) auto

lemma Split_append_sep: "sep \<notin> set s \<Longrightarrow> Split sep (s @ sep # t) = s # Split sep t"
  by (induction s) auto

lemma SplitN2_append [simp]: "sep \<notin> set s \<Longrightarrow> SplitN2 sep (s @ sep # t) = [s, t]"
  by (simp add: SplitN2_def takeWhile_tail) (induction s, auto)

lemma TrimFunc_Nil [simp]: "TrimFunc p [] = []"
  by (simp add: TrimFunc_def)

lemma TrimFunc_idem [simp]: "TrimFunc p (TrimFunc p s) = TrimFunc p s"
proof -
  define t where "t = dropWhile p s"
  define u where "u = rev (dropWhile p (rev t))"
  have u_pre: "\<exists>zs. t = u @ zs"
    unfolding u_def by (metis rev_append rev_rev_ident takeWhile_dropWhile_id)
  have "dropWhile p u = u"
  proof (cases u)
    case (Cons c cs)
    with u_pre obtain zs where "t = c # cs @ zs" by auto
    then have "\<not> p c" unfolding t_def by (metis hd_dropWhile list.distinct(1) list.sel(1))
    with Cons show ?thesis by simp
  qed simp
  moreover have "dropWhile p (rev u) = rev u"
    by (simp add: u_def dropWhile_idem)
  ultimately show ?thesis by (simp add: TrimFunc_def u_def t_def)
qed

lemma TrimSpace_Nil [simp]: "TrimSpace [] = []"
  by (simp add: TrimSpace_def)

lemma TrimSpace_idem [simp]: "TrimSpace (TrimSpace s) = TrimSpace s"
  by (simp add: TrimSpace_def)

lemma HasPrefix_append [simp]: "HasPrefix (p @ s) p"
  by (simp add: HasPrefix_def)

lemma TrimPrefix_append [simp]: "TrimPrefix (p @ s) p = s"
  by (simp add: TrimPrefix_def)

lemma HasSuffix_append [simp]: "HasSuffix (s @ p) p"
  by (simp add: HasSuffix_def)

lemma TrimSuffix_append [simp]: "TrimSuffix (s @ p) p = s"
  by (simp add: TrimSuffix_def)

subsection \<open>Decimal numbers\<close>

text \<open>\<^verbatim>\<open>strconv.Atoi\<close>: an optional sign, decimal digits, the range of a 64-bit integer.\<close>

definition is_digit :: "char \<Rightarrow> bool" where
  "is_digit c \<longleftrightarrow> CHR ''0'' \<le> c \<and> c \<le> CHR ''9''"

definition digits_value :: "string \<Rightarrow> int" where
  "digits_value s = fold (\<lambda>c n. 10 * n + (of_char c - 48)) s 0"

definition Atoi :: "string \<Rightarrow> int option" where
  "Atoi s =
     (let neg = (take 1 s = ''-'');
          ds = (if take 1 s = ''-'' \<or> take 1 s = ''+'' then drop 1 s else s);
          v = (if neg then - digits_value ds else digits_value ds)
      in if ds \<noteq> [] \<and> list_all is_digit ds \<and> - (2 ^ 63) \<le> v \<and> v < 2 ^ 63 then Some v else None)"

text \<open>\<^verbatim>\<open>%d\<close> of \<^verbatim>\<open>fmt.Sprintf\<close>.\<close>

definition digit_char :: "nat \<Rightarrow> char" where
  "digit_char d = char_of (48 + d)"

fun nat_digits :: "nat \<Rightarrow> string" where
  "nat_digits n = (if n < 10 then [digit_char n] else nat_digits (n div 10) @ [digit_char (n mod 10)])"

definition Itoa :: "int \<Rightarrow> string" where
  "Itoa i = (if i < 0 then CHR ''-'' # nat_digits (nat (- i)) else nat_digits (nat i))"

declare nat_digits.simps [simp del]

lemma digit_char_value: "d < 10 \<Longrightarrow> (of_char (digit_char d) :: int) = 48 + int d"
proof -
  assume "d < 10"
  then have "(of_char (digit_char d) :: nat) = 48 + d" by (simp add: digit_char_def)
  then show ?thesis by (metis of_nat_of_char of_nat_add of_nat_numeral)
qed

lemma digit_char_is_digit: "d < 10 \<Longrightarrow> is_digit (digit_char d)"
  by (auto simp: is_digit_def less_eq_char_def digit_char_def)

lemma digits_value_snoc: "digits_value (s @ [c]) = 10 * digits_value s + (of_char c - 48)"
  by (simp add: digits_value_def)

lemma nat_digits_value: "digits_value (nat_digits n) = int n \<and> list_all is_digit (nat_digits n) \<and> nat_digits n \<noteq> []"
proof (induction n rule: nat_digits.induct)
  case (1 n)
  show ?case
  proof (cases "n < 10")
    case True
    then show ?thesis
      by (simp add: nat_digits.simps [of n] digits_value_def digit_char_value digit_char_is_digit)
  next
    case False
    have "int n = 10 * int (n div 10) + int (n mod 10)"
      by (metis mult_div_mod_eq of_nat_add of_nat_mult of_nat_numeral)
    with False 1 show ?thesis
      by (simp add: nat_digits.simps [of n] digits_value_snoc digit_char_value digit_char_is_digit)
  qed
qed

lemma digit_not_sign: "is_digit c \<Longrightarrow> c \<noteq> CHR ''-'' \<and> c \<noteq> CHR ''+''"
  by (auto simp: is_digit_def less_eq_char_def)

lemma nat_digits_no_sign: "take 1 (nat_digits n) \<noteq> ''-'' \<and> take 1 (nat_digits n) \<noteq> ''+''"
  using nat_digits_value [of n] by (cases "nat_digits n") (auto dest: digit_not_sign)

lemma nat_digits_no_dash: "CHR ''-'' \<notin> set (nat_digits n)"
  using nat_digits_value [of n] digit_not_sign by (auto simp: list_all_iff)

lemma Atoi_Itoa: "- (2 ^ 63) \<le> i \<Longrightarrow> i < 2 ^ 63 \<Longrightarrow> Atoi (Itoa i) = Some i"
  using nat_digits_value [of "nat i"] nat_digits_value [of "nat (- i)"] nat_digits_no_sign [of "nat i"]
  by (simp add: Atoi_def Itoa_def Let_def)

end
