(* ===== verification/Level_Search.thy ===== *)
theory Level_Search
  imports Prelude
begin

text \<open>
  Breadth-first search by levels, the loop shape shared by the dependency graph's
  \<^verbatim>\<open>hasPath\<close> and by the upgrade-path service's \<^verbatim>\<open>FindPath\<close> and
  \<^verbatim>\<open>GetUpgradeableVersions\<close>: a set of visited nodes and the list of nodes first
  reached in the last round. The invariant says that after \<open>k\<close> rounds the visited nodes
  are exactly those within distance \<open>k\<close> of the start, and the current level those at
  distance exactly \<open>k\<close>.
\<close>

primrec within :: "('a \<times> 'a) set \<Rightarrow> 'a \<Rightarrow> nat \<Rightarrow> 'a set" where
  "within R s 0 = {s}"
| "within R s (Suc k) = within R s k \<union> R `` within R s k"

definition search_inv :: "('a \<times> 'a) set \<Rightarrow> 'a \<Rightarrow> nat \<Rightarrow> 'a set \<Rightarrow> 'a set \<Rightarrow> bool" where
  "search_inv R s k V L \<longleftrightarrow>
     V = within R s k \<and> L = within R s k - (if k = 0 then {} else within R s (k - 1))"

lemma within_mono: "i \<le> k \<Longrightarrow> within R s i \<subseteq> within R s k"
  by (induction k) (auto simp: le_Suc_eq)

lemma within_reachable: "within R s k \<subseteq> R\<^sup>* `` {s}"
  by (induction k) (auto intro: rtrancl_into_rtrancl)

lemma relpow_within: "(R ^^ k) `` {s} \<subseteq> within R s k"
proof (induction k)
  case (Suc k)
  then show ?case by (auto elim!: relpow_Suc_E)
qed simp

definition succ_rel :: "('a \<Rightarrow> 'a list) \<Rightarrow> ('a \<times> 'a) set" where
  "succ_rel succs = {(x, y). y \<in> set (succs x)}"

lemma succ_rel_iff [simp]: "(x, y) \<in> succ_rel succs \<longleftrightarrow> y \<in> set (succs x)"
  by (simp add: succ_rel_def)

lemma succ_rel_image: "succ_rel succs `` X = (\<Union>x\<in>X. set (succs x))"
  by (auto simp: succ_rel_def)

lemma search_inv_start: "search_inv R s 0 {s} {s}"
  by (simp add: search_inv_def)

lemma search_inv_step:
  assumes "search_inv R s k V L"
  shows "search_inv R s (Suc k) (V \<union> (R `` L - V)) (R `` L - V)"
proof -
  have V: "V = within R s k" using assms by (simp add: search_inv_def)
  have "R `` within R s k \<subseteq> V \<union> R `` L"
  proof (cases k)
    case 0
    with assms show ?thesis by (auto simp: search_inv_def)
  next
    case (Suc j)
    with assms have "within R s k = within R s j \<union> L"
      by (auto simp: search_inv_def)
    moreover have "R `` within R s j \<subseteq> V" using Suc V by auto
    ultimately show ?thesis by auto
  qed
  moreover have "L \<subseteq> V" using assms by (auto simp: search_inv_def)
  ultimately have "within R s (Suc k) = V \<union> R `` L" using V by auto
  then show ?thesis using V by (auto simp: search_inv_def)
qed

lemma search_inv_done:
  assumes "search_inv R s k V {}"
  shows "V = R\<^sup>* `` {s}"
proof
  have V: "V = within R s k" using assms by (simp add: search_inv_def)
  then show "V \<subseteq> R\<^sup>* `` {s}" using within_reachable [of R s k] by simp
  have closed: "R `` V \<subseteq> V"
  proof (cases k)
    case 0
    with assms show ?thesis by (auto simp: search_inv_def)
  next
    case (Suc j)
    with assms have "within R s k = within R s j"
      using within_mono [of j k R s] by (auto simp: search_inv_def)
    then show ?thesis using V Suc by auto
  qed
  have "s \<in> V" using V within_mono [of 0 k R s] by simp
  show "R\<^sup>* `` {s} \<subseteq> V"
  proof
    fix y assume "y \<in> R\<^sup>* `` {s}"
    then have "(s, y) \<in> R\<^sup>*" by simp
    then show "y \<in> V" by induction (use \<open>s \<in> V\<close> closed in auto)
  qed
qed

lemma search_inv_level: "search_inv R s k V L \<Longrightarrow> L \<subseteq> V \<and> V \<subseteq> R\<^sup>* `` {s}"
  using within_reachable [of R s k] by (auto simp: search_inv_def)

text \<open>
  The interface of one round: \<open>expand\<close> turns the current level and the visited nodes into
  the next ones, or stops with \<^const>\<open>None\<close> when it meets the goal.
\<close>

locale level_search =
  fixes succs :: "'a \<Rightarrow> 'a list"
    and goal :: "'a \<Rightarrow> bool"
    and expand :: "'a list \<Rightarrow> 'a list \<Rightarrow> ('a list \<times> 'a list) option"
  assumes expand_visited: "expand L V = Some (V', N) \<Longrightarrow> set V' = set V \<union> set N"
    and expand_next: "expand L V = Some (V', N) \<Longrightarrow>
          set N = (\<Union>x\<in>set L. set (succs x)) - set V"
    and expand_clear: "expand L V = Some (V', N) \<Longrightarrow> x \<in> set N \<Longrightarrow> \<not> goal x"
    and expand_hit: "expand L V = None \<Longrightarrow>
          \<exists>x\<in>set L. goal x \<or> (\<exists>y\<in>set (succs x). goal y)"
begin

lemma round_inv:
  assumes "search_inv (succ_rel succs) s k (set V) (set L)" and "expand L V = Some (V', N)"
  shows "search_inv (succ_rel succs) s (Suc k) (set V') (set N)"
  using search_inv_step [OF assms(1)] expand_visited [OF assms(2)] expand_next [OF assms(2)]
  by (simp add: succ_rel_image)

lemma round_hit:
  assumes "search_inv (succ_rel succs) s k (set V) (set L)" and "expand L V = None"
  shows "\<exists>y. goal y \<and> (s, y) \<in> (succ_rel succs)\<^sup>*"
proof -
  from expand_hit [OF assms(2)] obtain x where x: "x \<in> set L"
    and alt: "goal x \<or> (\<exists>y\<in>set (succs x). goal y)" by blast
  from x assms(1) have "(s, x) \<in> (succ_rel succs)\<^sup>*"
    using search_inv_level [OF assms(1)] by auto
  with alt show ?thesis
    by (meson rtrancl.rtrancl_into_rtrancl succ_rel_iff)
qed

lemma round_done:
  assumes "search_inv (succ_rel succs) s k (set V) {}" and "\<forall>x\<in>set V. \<not> goal x"
  shows "\<not> (\<exists>y. goal y \<and> (s, y) \<in> (succ_rel succs)\<^sup>*)"
  using search_inv_done [OF assms(1)] assms(2) by auto

end

end
