(* ===== verification/Topology.thy ===== *)
theory Topology
  imports Level_Search
begin

text \<open>
  The component dependency graph of \<^verbatim>\<open>pkg/topology\<close>: the directed graph with
  in-degree counters and its cycle check (\<^verbatim>\<open>graph.go\<close>), the graph with component
  metadata (\<^verbatim>\<open>component.go\<close>) and its construction from the components of a release
  (\<^verbatim>\<open>build.go\<close>, \<^verbatim>\<open>dependencies.go\<close>, \<^verbatim>\<open>defaults.go\<close>).

  The main results: the in-degree counters agree with the edges and the graph stays acyclic
  under every operation; \<^verbatim>\<open>hasPath\<close> decides reachability; an edge is refused exactly
  when it would close a cycle; \<^verbatim>\<open>TopologicalBatches\<close> succeeds exactly on acyclic
  graphs, its batches partition the nodes and every edge leads from an earlier batch to a
  later one; \<^verbatim>\<open>BuildUpgradeDAG\<close> succeeds exactly on well-formed component lists.
\<close>

section \<open>Definitions\<close>

datatype topo_error =
    EmptyEndpoint
  | SelfEdge string
  | EdgeClosesCycle string string
  | GraphHasCycles
  | NodeNameRequired
  | DuplicateComponent string
  | DependentNotInDAG string
  | PrerequisiteNotInDAG string
  | NoComponents
  | EmptyComponentName
  | ResolveError string string
  | DependsOnMissing string string
  | InvalidDAG topo_error

subsection \<open>graph.go\<close>

(* src: pkg/topology/graph.go 20-26 Graph *)
record graph =
  g_nodes :: "string list"
  g_outEdges :: "string list gomap"
  g_inDegree :: "int gomap"

(* src: pkg/topology/graph.go 29-35 NewGraph *)
definition NewGraph :: graph where
  "NewGraph = \<lparr>g_nodes = [], g_outEdges = [], g_inDegree = []\<rparr>"

(* src: pkg/topology/graph.go 38-52 Graph.AddNode *)
definition AddNode :: "graph \<Rightarrow> string \<Rightarrow> graph" where
  "AddNode g name =
     (if name = [] then g
      else if name \<in> set (g_nodes g) then g
      else g\<lparr>g_nodes := g_nodes g @ [name],
             g_inDegree := (if has_key (g_inDegree g) name then g_inDegree g
                            else AList.update name 0 (g_inDegree g)),
             g_outEdges := (if has_key (g_outEdges g) name then g_outEdges g
                            else AList.update name [] (g_outEdges g))\<rparr>)"

definition succs_of :: "graph \<Rightarrow> string \<Rightarrow> string list" where
  "succs_of g n = get_or [] (g_outEdges g) n"

text \<open>
  \<^verbatim>\<open>hasPath\<close>: the two-queue search. \<open>scan_succs\<close> is the inner loop over the successors
  of one node, \<open>scan_level\<close> the loop over the current queue; \<^const>\<open>None\<close> is the early
  \<^verbatim>\<open>return true\<close>.
\<close>

(* src: pkg/topology/graph.go 144-153 Graph.hasPath (successor loop) *)
fun scan_succs :: "string \<Rightarrow> string list \<Rightarrow> string list \<Rightarrow> string list \<Rightarrow>
    (string list \<times> string list) option" where
  "scan_succs to [] visited nxt = Some (visited, nxt)"
| "scan_succs to (succ # ss) visited nxt =
     (if succ = to then None
      else if succ \<in> set visited then scan_succs to ss visited nxt
      else scan_succs to ss (visited @ [succ]) (nxt @ [succ]))"

(* src: pkg/topology/graph.go 139-154 Graph.hasPath (one level) *)
fun scan_level :: "graph \<Rightarrow> string \<Rightarrow> string list \<Rightarrow> string list \<Rightarrow> string list \<Rightarrow>
    (string list \<times> string list) option" where
  "scan_level g to [] visited nxt = Some (visited, nxt)"
| "scan_level g to (cur # cs) visited nxt =
     (if cur = to then None
      else case scan_succs to (succs_of g cur) visited nxt of
             None \<Rightarrow> None
           | Some (visited', nxt') \<Rightarrow> scan_level g to cs visited' nxt')"

definition all_targets :: "graph \<Rightarrow> string set" where
  "all_targets g = (\<Union>p\<in>set (g_outEdges g). set (snd p))"

lemma succs_of_targets: "set (succs_of g n) \<subseteq> all_targets g"
  by (auto simp: succs_of_def get_or_def all_targets_def split: option.splits)
     (metis map_of_SomeD snd_conv)

lemma finite_all_targets [simp]: "finite (all_targets g)"
  by (simp add: all_targets_def)

lemma scan_succs_visited:
  "scan_succs to ss visited nxt = Some (v', n') \<Longrightarrow>
     \<exists>new. v' = visited @ new \<and> n' = nxt @ new \<and> set new = set ss - set visited \<and> to \<notin> set ss"
proof (induction ss arbitrary: visited nxt)
  case (Cons s ss)
  then show ?case by (fastforce split: if_splits)
qed simp

lemma scan_succs_hit: "scan_succs to ss visited nxt = None \<Longrightarrow> to \<in> set ss"
  by (induction ss arbitrary: visited nxt) (auto split: if_splits)

lemma scan_level_visited:
  "scan_level g to cs visited nxt = Some (v', n') \<Longrightarrow>
     \<exists>new. v' = visited @ new \<and> n' = nxt @ new \<and>
       set new = (\<Union>c\<in>set cs. set (succs_of g c)) - set visited \<and> to \<notin> set new \<and> to \<notin> set cs"
proof (induction cs arbitrary: visited nxt)
  case (Cons c cs)
  from Cons.prems obtain v1 n1 where ne: "c \<noteq> to"
    and s: "scan_succs to (succs_of g c) visited nxt = Some (v1, n1)"
    and r: "scan_level g to cs v1 n1 = Some (v', n')"
    by (auto split: if_splits option.splits)
  from scan_succs_visited [OF s] obtain new1 where 1: "v1 = visited @ new1" "n1 = nxt @ new1"
    "set new1 = set (succs_of g c) - set visited" "to \<notin> set (succs_of g c)" by blast
  from Cons.IH [OF r] obtain new2 where 2: "v' = v1 @ new2" "n' = n1 @ new2"
    "set new2 = (\<Union>c\<in>set cs. set (succs_of g c)) - set v1" "to \<notin> set new2" "to \<notin> set cs" by blast
  show ?case using 1 2 ne by (intro exI [of _ "new1 @ new2"]) auto
qed simp

lemma scan_level_hit:
  "scan_level g to cs visited nxt = None \<Longrightarrow>
     \<exists>x\<in>set cs. x = to \<or> (\<exists>y\<in>set (succs_of g x). y = to)"
  by (induction cs arbitrary: visited nxt)
     (auto split: if_splits option.splits dest: scan_succs_hit)

(* src: pkg/topology/graph.go 138-157 Graph.hasPath (queue loop) *)
function path_loop :: "graph \<Rightarrow> string \<Rightarrow> string list \<Rightarrow> string list \<Rightarrow> bool" where
  "path_loop g to current visited =
     (if current = [] then False
      else case scan_level g to current visited [] of
             None \<Rightarrow> True
           | Some (visited', nxt) \<Rightarrow> path_loop g to nxt visited')"
  by pat_completeness auto
termination
proof (relation "measures [\<lambda>(g, to, cur, vis). card (all_targets g - set vis), \<lambda>(g, to, cur, vis). length cur]",
    goal_cases)
  case (2 g to cur vis x v' n')
  then have s: "scan_level g to cur vis [] = Some (v', n')" by simp
  from scan_level_visited [OF s] have v: "v' = vis @ n'"
    and n: "set n' = (\<Union>c\<in>set cur. set (succs_of g c)) - set vis" by auto
  show ?case
  proof (cases "n' = []")
    case True
    with v 2(1) show ?thesis by simp
  next
    case False
    from False obtain a where a: "a \<in> set n'" by (cases n') auto
    with n have "a \<in> all_targets g" "a \<notin> set vis" using succs_of_targets by blast+
    with v a have "all_targets g - set v' \<subset> all_targets g - set vis" by auto
    then have "card (all_targets g - set v') < card (all_targets g - set vis)"
      by (intro psubset_card_mono) auto
    then show ?thesis by simp
  qed
qed simp

declare path_loop.simps [simp del]

(* src: pkg/topology/graph.go 127-158 Graph.hasPath *)
definition hasPath :: "graph \<Rightarrow> string \<Rightarrow> string \<Rightarrow> bool" where
  "hasPath g from to = (if from = to then True else path_loop g to [from] [from])"

(* src: pkg/topology/graph.go 70-71 Graph.AddEdge (insertion) *)
definition record_edge :: "graph \<Rightarrow> string \<Rightarrow> string \<Rightarrow> graph" where
  "record_edge g prerequisite dependent =
     g\<lparr>g_outEdges := AList.update prerequisite (succs_of g prerequisite @ [dependent]) (g_outEdges g),
       g_inDegree := AList.update dependent (get_or 0 (g_inDegree g) dependent + 1) (g_inDegree g)\<rparr>"

text \<open>A failed \<^verbatim>\<open>AddEdge\<close> may already have registered its endpoints, so the graph is
  returned beside the error.\<close>

(* src: pkg/topology/graph.go 55-73 Graph.AddEdge *)
definition AddEdge :: "graph \<Rightarrow> string \<Rightarrow> string \<Rightarrow> graph \<times> topo_error option" where
  "AddEdge g prerequisite dependent =
     (if prerequisite = [] \<or> dependent = [] then (g, Some EmptyEndpoint)
      else if prerequisite = dependent then (g, Some (SelfEdge prerequisite))
      else let g' = AddNode (AddNode g prerequisite) dependent
           in if hasPath g' dependent prerequisite
              then (g', Some (EdgeClosesCycle prerequisite dependent))
              else if dependent \<in> set (succs_of g' prerequisite) then (g', None)
              else (record_edge g' prerequisite dependent, None))"

(* src: pkg/topology/graph.go 76-83 Graph.Nodes *)
definition Nodes :: "graph \<Rightarrow> string list" where
  "Nodes g = sort (g_nodes g)"

(* src: pkg/topology/graph.go 101-113 Graph.TopologicalBatches (ready nodes) *)
definition ready_batch :: "graph \<Rightarrow> int gomap \<Rightarrow> string list \<Rightarrow> string list" where
  "ready_batch g inDegree processed =
     sort (filter (\<lambda>name. name \<notin> set processed \<and> get_or 0 inDegree name = 0) (g_nodes g))"

(* src: pkg/topology/graph.go 119-121 Graph.TopologicalBatches (settle one node) *)
fun release_succs :: "string list \<Rightarrow> int gomap \<Rightarrow> int gomap" where
  "release_succs [] inDegree = inDegree"
| "release_succs (succ # ss) inDegree =
     release_succs ss (AList.update succ (get_or 0 inDegree succ - 1) inDegree)"

(* src: pkg/topology/graph.go 116-122 Graph.TopologicalBatches (settle the batch) *)
fun settle_batch :: "graph \<Rightarrow> string list \<Rightarrow> int gomap \<Rightarrow> string list \<Rightarrow> int \<Rightarrow>
    int gomap \<times> string list \<times> int" where
  "settle_batch g [] inDegree processed remaining = (inDegree, processed, remaining)"
| "settle_batch g (name # ns) inDegree processed remaining =
     settle_batch g ns (release_succs (succs_of g name) inDegree) (processed @ [name]) (remaining - 1)"

lemma settle_batch_remaining:
  "settle_batch g batch indeg processed r = (i', p', r') \<Longrightarrow>
     p' = processed @ batch \<and> r' = r - int (length batch)"
  by (induction batch arbitrary: indeg processed r) fastforce+

(* src: pkg/topology/graph.go 100-124 Graph.TopologicalBatches (main loop) *)
function batches_loop :: "graph \<Rightarrow> int gomap \<Rightarrow> string list \<Rightarrow> int \<Rightarrow> string list list \<Rightarrow>
    topo_error + string list list" where
  "batches_loop g inDegree processed remaining batches =
     (if remaining > 0
      then let batch = ready_batch g inDegree processed
           in if batch = [] then Inl GraphHasCycles
              else case settle_batch g batch inDegree processed remaining of
                     (inDegree', processed', remaining') \<Rightarrow>
                       batches_loop g inDegree' processed' remaining' (batches @ [batch])
      else Inr batches)"
  by pat_completeness auto
termination
  by (relation "measure (\<lambda>(g, i, p, r, b). nat r)") (auto dest!: sym [THEN settle_batch_remaining])

declare batches_loop.simps [simp del]

(* src: pkg/topology/graph.go 87-125 Graph.TopologicalBatches *)
definition TopologicalBatches :: "graph \<Rightarrow> topo_error + string list list" where
  "TopologicalBatches g =
     (if g_nodes g = [] then Inr []
      else batches_loop g (g_inDegree g) [] (int (length (g_nodes g))) [])"

subsection \<open>component.go\<close>

(* src: pkg/topology/component.go 20-27 FailurePolicy *)
datatype failure_policy = FailFast | Continue | Rollback

(* src: pkg/topology/component.go 29-33 InlineRef *)
record inline_ref =
  ir_handler :: string
  ir_version :: string

(* src: pkg/topology/component.go 35-42 ComponentNode *)
record component_node =
  cn_name :: string
  cn_version :: string
  cn_inline :: "inline_ref option"
  cn_failurePolicy :: failure_policy
  cn_dependencies :: "string list"

(* src: pkg/topology/component.go 44-58 UpgradeDAG *)
record upgrade_dag =
  dag_graph :: graph
  dag_nodes :: "component_node gomap"

(* src: pkg/topology/component.go 61-66 NewUpgradeDAG *)
definition NewUpgradeDAG :: upgrade_dag where
  "NewUpgradeDAG = \<lparr>dag_graph = NewGraph, dag_nodes = []\<rparr>"

(* src: pkg/topology/component.go 75-86 UpgradeDAG.AddNode *)
definition DAG_AddNode :: "upgrade_dag \<Rightarrow> component_node option \<Rightarrow> topo_error + upgrade_dag" where
  "DAG_AddNode d node =
     (case node of
        None \<Rightarrow> Inl NodeNameRequired
      | Some n \<Rightarrow>
          if cn_name n = [] then Inl NodeNameRequired
          else if has_key (dag_nodes d) (cn_name n) then Inl (DuplicateComponent (cn_name n))
          else Inr \<lparr>dag_graph = AddNode (dag_graph d) (cn_name n),
                    dag_nodes = AList.update (cn_name n) n (dag_nodes d)\<rparr>)"

(* src: pkg/topology/component.go 89-100 UpgradeDAG.AddDependency *)
definition AddDependency :: "upgrade_dag \<Rightarrow> string \<Rightarrow> string \<Rightarrow> upgrade_dag \<times> topo_error option" where
  "AddDependency d prerequisite dependent =
     (if \<not> has_key (dag_nodes d) dependent then (d, Some (DependentNotInDAG dependent))
      else if prerequisite \<noteq> [] then
        (if \<not> has_key (dag_nodes d) prerequisite
         then (d, Some (PrerequisiteNotInDAG prerequisite))
         else case AddEdge (dag_graph d) prerequisite dependent of
                (g', err) \<Rightarrow> (d\<lparr>dag_graph := g'\<rparr>, err))
      else (d, None))"

(* src: pkg/topology/component.go 103-106 UpgradeDAG.GetNode *)
definition GetNode :: "upgrade_dag \<Rightarrow> string \<Rightarrow> component_node option" where
  "GetNode d name = map_of (dag_nodes d) name"

(* src: pkg/topology/component.go 109-111 UpgradeDAG.TopologicalBatches *)
definition DAG_TopologicalBatches :: "upgrade_dag \<Rightarrow> topo_error + string list list" where
  "DAG_TopologicalBatches d = TopologicalBatches (dag_graph d)"

(* src: pkg/topology/component.go 114-121 UpgradeDAG.NodeNames *)
definition NodeNames :: "upgrade_dag \<Rightarrow> string list" where
  "NodeNames d = sort (map fst (dag_nodes d))"

subsection \<open>dependencies.go, defaults.go, build.go\<close>

(* src: api/v1alpha1/releaseimage_types.go 68-72 ReleaseImageUpgradeInline *)
record upgrade_inline =
  ui_handler :: string
  ui_version :: string

(* src: api/v1alpha1/releaseimage_types.go 61-66 ReleaseImageUpgradeComponent *)
record upgrade_component =
  uc_name :: string
  uc_version :: string
  uc_inline :: "upgrade_inline option"

(* src: api/v1alpha1/componentversion_types.go 155-159 Dependency *)
record dependency =
  dep_name :: string
  dep_phase :: string

text \<open>A dependency resolver; \<^const>\<open>None\<close> stands for a nil function value.\<close>

(* src: pkg/topology/build.go 21-22 DependencyResolver *)
type_synonym resolver = "(string \<Rightarrow> string \<Rightarrow> string + string list) option"

(* src: pkg/topology/dependencies.go 20-28 ComponentDependencyNames *)
fun ComponentDependencyNames :: "dependency list \<Rightarrow> string list" where
  "ComponentDependencyNames [] = []"
| "ComponentDependencyNames (d # ds) =
     (if dep_name d \<noteq> [] then dep_name d # ComponentDependencyNames ds
      else ComponentDependencyNames ds)"

(* src: pkg/topology/defaults.go 30-32 DefaultDependenciesFor *)
definition DefaultDependenciesFor :: "string \<Rightarrow> string list" where
  "DefaultDependenciesFor name = []"

(* src: pkg/topology/defaults.go 35-39 DefaultDependencyResolver *)
definition DefaultDependencyResolver :: resolver where
  "DefaultDependencyResolver = Some (\<lambda>name version. Inr (DefaultDependenciesFor name))"

(* src: pkg/topology/build.go 84-95 resolveDependencies *)
definition resolveDependencies :: "string \<Rightarrow> string \<Rightarrow> resolver \<Rightarrow> string + string list" where
  "resolveDependencies name version res =
     (case res of
        None \<Rightarrow> Inr []
      | Some f \<Rightarrow> (case f name version of
                     Inl err \<Rightarrow> Inl err
                   | Inr deps \<Rightarrow> if deps \<noteq> [] then Inr deps else Inr []))"

(* src: pkg/topology/build.go 97-114 MergeDependencyResolver (loop) *)
fun first_nonempty :: "resolver list \<Rightarrow> string \<Rightarrow> string \<Rightarrow> string + string list" where
  "first_nonempty [] name version = Inr []"
| "first_nonempty (None # rs) name version = first_nonempty rs name version"
| "first_nonempty (Some f # rs) name version =
     (case f name version of
        Inl err \<Rightarrow> Inl err
      | Inr deps \<Rightarrow> if deps \<noteq> [] then Inr deps else first_nonempty rs name version)"

(* src: pkg/topology/build.go 98-114 MergeDependencyResolver *)
definition MergeDependencyResolver :: "resolver list \<Rightarrow> resolver" where
  "MergeDependencyResolver resolvers = Some (first_nonempty resolvers)"

(* src: pkg/topology/build.go 31-49 BuildUpgradeDAG (node construction) *)
definition component_node_of :: "upgrade_component \<Rightarrow> component_node" where
  "component_node_of c =
     \<lparr>cn_name = uc_name c, cn_version = uc_version c,
      cn_inline = map_option (\<lambda>i. \<lparr>ir_handler = ui_handler i, ir_version = ui_version i\<rparr>) (uc_inline c),
      cn_failurePolicy = FailFast, cn_dependencies = []\<rparr>"

(* src: pkg/topology/build.go 31-49 BuildUpgradeDAG (first loop) *)
fun add_components :: "upgrade_dag \<Rightarrow> upgrade_component list \<Rightarrow> topo_error + upgrade_dag" where
  "add_components d [] = Inr d"
| "add_components d (c # cs) =
     (if uc_name c = [] then Inl EmptyComponentName
      else case DAG_AddNode d (Some (component_node_of c)) of
             Inl err \<Rightarrow> Inl err
           | Inr d' \<Rightarrow> add_components d' cs)"

(* src: pkg/topology/build.go 56-66 BuildUpgradeDAG (dependency loop) *)
fun add_deps :: "upgrade_dag \<Rightarrow> string \<Rightarrow> string list \<Rightarrow> topo_error + upgrade_dag" where
  "add_deps d cname [] = Inr d"
| "add_deps d cname (dep # deps) =
     (if dep = cname then add_deps d cname deps
      else if GetNode d dep = None then Inl (DependsOnMissing cname dep)
      else case AddDependency d dep cname of
             (d', Some err) \<Rightarrow> Inl err
           | (d', None) \<Rightarrow> add_deps d' cname deps)"

(* src: pkg/topology/build.go 51-67 BuildUpgradeDAG (second loop) *)
fun connect_components :: "upgrade_dag \<Rightarrow> resolver \<Rightarrow> upgrade_component list \<Rightarrow> topo_error + upgrade_dag" where
  "connect_components d res [] = Inr d"
| "connect_components d res (c # cs) =
     (case resolveDependencies (uc_name c) (uc_version c) res of
        Inl err \<Rightarrow> Inl (ResolveError (uc_name c) err)
      | Inr deps \<Rightarrow> (case add_deps d (uc_name c) deps of
                       Inl err \<Rightarrow> Inl err
                     | Inr d' \<Rightarrow> connect_components d' res cs))"

(* src: pkg/topology/build.go 27-75 BuildUpgradeDAG *)
definition BuildUpgradeDAG :: "upgrade_component list \<Rightarrow> resolver \<Rightarrow> topo_error + upgrade_dag" where
  "BuildUpgradeDAG components res =
     (if components = [] then Inl NoComponents
      else case add_components NewUpgradeDAG components of
             Inl err \<Rightarrow> Inl err
           | Inr d \<Rightarrow> (case connect_components d res components of
                         Inl err \<Rightarrow> Inl err
                       | Inr d' \<Rightarrow> (case DAG_TopologicalBatches d' of
                                      Inl err \<Rightarrow> Inl (InvalidDAG err)
                                    | Inr bs \<Rightarrow> Inr d')))"

(* src: pkg/topology/build.go 80-82 BuildDAG *)
definition BuildDAG :: "upgrade_component list \<Rightarrow> resolver \<Rightarrow> topo_error + upgrade_dag" where
  "BuildDAG components res = BuildUpgradeDAG components res"

section \<open>Reachability and the graph invariant\<close>

definition edges :: "graph \<Rightarrow> (string \<times> string) set" where
  "edges g = succ_rel (succs_of g)"

definition wf_graph :: "graph \<Rightarrow> bool" where
  "wf_graph g \<longleftrightarrow> distinct (g_nodes g) \<and> [] \<notin> set (g_nodes g) \<and>
     gomap_wf (g_outEdges g) \<and> gomap_wf (g_inDegree g) \<and>
     edges g \<subseteq> set (g_nodes g) \<times> set (g_nodes g) \<and>
     (\<forall>n. distinct (succs_of g n)) \<and>
     (\<forall>n. get_or 0 (g_inDegree g) n = int (card {m. (m, n) \<in> edges g}))"

lemma edges_iff [simp]: "(a, b) \<in> edges g \<longleftrightarrow> b \<in> set (succs_of g a)"
  by (simp add: edges_def)

interpretation hp: level_search "succs_of g" "\<lambda>x. x = to" "\<lambda>L V. scan_level g to L V []" for g to
proof unfold_locales
  fix L V V' N
  assume "scan_level g to L V [] = Some (V', N)"
  from scan_level_visited [OF this]
  show "set V' = set V \<union> set N" "set N = (\<Union>x\<in>set L. set (succs_of g x)) - set V"
    "\<And>x. x \<in> set N \<Longrightarrow> x \<noteq> to" by auto
next
  fix L V
  assume "scan_level g to L V [] = None"
  then show "\<exists>x\<in>set L. x = to \<or> (\<exists>y\<in>set (succs_of g x). y = to)" by (rule scan_level_hit)
qed

lemma path_loop_reachable:
  "search_inv (edges g) s k (set visited) (set current) \<Longrightarrow> to \<notin> set visited \<Longrightarrow>
     path_loop g to current visited \<longleftrightarrow> (s, to) \<in> (edges g)\<^sup>*"
proof (induction g to current visited arbitrary: k rule: path_loop.induct)
  case (1 g to current visited)
  note inv = 1(2) [unfolded edges_def]
  show ?case
  proof (cases "current = []")
    case True
    with inv have "search_inv (succ_rel (succs_of g)) s k (set visited) {}" by simp
    from hp.round_done [OF this, of to] 1(3) True show ?thesis
      by (auto simp: path_loop.simps edges_def)
  next
    case ne: False
    show ?thesis
    proof (cases "scan_level g to current visited []")
      case None
      with ne hp.round_hit [OF inv None] show ?thesis
        by (simp add: path_loop.simps edges_def)
    next
      case (Some p)
      obtain v' n' where p: "p = (v', n')" by force
      note step = Some [unfolded p]
      have "search_inv (edges g) s (Suc k) (set v') (set n')"
        using hp.round_inv [OF inv step] by (simp add: edges_def)
      moreover have "to \<notin> set v'" using scan_level_visited [OF step] 1(3) by auto
      ultimately have "path_loop g to n' v' \<longleftrightarrow> (s, to) \<in> (edges g)\<^sup>*"
        using 1(1) [OF ne Some] p by blast
      with ne step show ?thesis by (simp add: path_loop.simps [of g to current])
    qed
  qed
qed

lemma hasPath_iff: "hasPath g a b \<longleftrightarrow> (a, b) \<in> (edges g)\<^sup>*"
  using path_loop_reachable [of g a 0 "[a]" "[a]" b] search_inv_start [of "edges g" a]
  by (auto simp: hasPath_def)

subsection \<open>Adding nodes and edges\<close>

lemma succs_of_AddNode [simp]: "succs_of (AddNode g n) = succs_of g"
  by (rule ext) (auto simp: AddNode_def succs_of_def get_or_def has_key_def)

lemma edges_AddNode [simp]: "edges (AddNode g n) = edges g"
  by (simp add: edges_def)

lemma inDegree_AddNode [simp]: "get_or 0 (g_inDegree (AddNode g n)) m = get_or 0 (g_inDegree g) m"
  by (auto simp: AddNode_def get_or_def has_key_def)

lemma set_nodes_AddNode: "set (g_nodes (AddNode g n)) = (if n = [] then {} else {n}) \<union> set (g_nodes g)"
  by (auto simp: AddNode_def)

lemma wf_graph_New: "wf_graph NewGraph"
  by (auto simp: wf_graph_def NewGraph_def edges_def succs_of_def get_or_def)

lemma edges_New [simp]: "edges NewGraph = {}"
  by (auto simp: NewGraph_def edges_def succs_of_def get_or_def)

lemma wf_graph_AddNode: "wf_graph g \<Longrightarrow> wf_graph (AddNode g n)"
  using set_nodes_AddNode [of g n]
  by (auto simp: wf_graph_def) (auto simp: AddNode_def)

lemma succs_of_record_edge [simp]:
  "succs_of (record_edge g p d) n = (if n = p then succs_of g p @ [d] else succs_of g n)"
  by (simp add: record_edge_def succs_of_def)

lemma edges_record_edge [simp]: "edges (record_edge g p d) = insert (p, d) (edges g)"
  by (auto simp: edges_def succ_rel_def split: if_splits)

lemma g_nodes_record_edge [simp]: "g_nodes (record_edge g p d) = g_nodes g"
  by (simp add: record_edge_def)

lemma inDegree_record_edge [simp]:
  "get_or 0 (g_inDegree (record_edge g p d)) n
     = (if n = d then get_or 0 (g_inDegree g) d + 1 else get_or 0 (g_inDegree g) n)"
  by (simp add: record_edge_def)

lemma wf_graph_record_edge:
  assumes wf: "wf_graph g" and "p \<in> set (g_nodes g)" "d \<in> set (g_nodes g)"
    and new: "d \<notin> set (succs_of g p)"
  shows "wf_graph (record_edge g p d)"
proof -
  have fin: "finite {m. (m, n) \<in> edges g}" for n
    using wf by (auto simp: wf_graph_def edges_def succ_rel_def
        intro: finite_subset [of _ "set (g_nodes g)"])
  have "get_or 0 (g_inDegree (record_edge g p d)) n
          = int (card {m. (m, n) \<in> edges (record_edge g p d)})" for n
  proof (cases "n = d")
    case True
    have "{m. (m, d) \<in> insert (p, d) (edges g)} = insert p {m. (m, d) \<in> edges g}" by auto
    then show ?thesis using wf fin [of d] new True
      by (simp add: wf_graph_def del: edges_iff) (simp add: edges_iff)
  next
    case False
    then have "{m. (m, n) \<in> insert (p, d) (edges g)} = {m. (m, n) \<in> edges g}" by auto
    then show ?thesis using wf False by (simp add: wf_graph_def del: edges_iff)
  qed
  moreover have "gomap_wf (g_outEdges (record_edge g p d))" "gomap_wf (g_inDegree (record_edge g p d))"
    using wf by (auto simp: wf_graph_def record_edge_def)
  ultimately show ?thesis using assms
    unfolding wf_graph_def edges_record_edge g_nodes_record_edge by auto
qed

lemma AddEdge_cases:
  "AddEdge g p d =
     (if p = [] \<or> d = [] then (g, Some EmptyEndpoint)
      else if p = d then (g, Some (SelfEdge p))
      else if (d, p) \<in> (edges g)\<^sup>* then (AddNode (AddNode g p) d, Some (EdgeClosesCycle p d))
      else if d \<in> set (succs_of g p) then (AddNode (AddNode g p) d, None)
      else (record_edge (AddNode (AddNode g p) d) p d, None))"
  by (simp add: AddEdge_def Let_def hasPath_iff)

lemma AddEdge_result:
  assumes "AddEdge g p d = (g', err)"
  shows AddEdge_nodes: "set (g_nodes g') = set (g_nodes g) \<union>
           (if p = [] \<or> d = [] \<or> p = d then {} else {p, d})"
    and AddEdge_edges: "edges g' = (if err = None then insert (p, d) (edges g) else edges g)"
    and AddEdge_err: "err = (if p = [] \<or> d = [] then Some EmptyEndpoint
                else if p = d then Some (SelfEdge p)
                else if (d, p) \<in> (edges g)\<^sup>* then Some (EdgeClosesCycle p d) else None)"
  using assms
  by (auto simp: AddEdge_cases set_nodes_AddNode insert_absorb split: if_splits)

lemma wf_graph_AddEdge:
  assumes "wf_graph g" and "AddEdge g p d = (g', err)"
  shows "wf_graph g'"
proof -
  have "wf_graph (AddNode (AddNode g p) d)" by (intro wf_graph_AddNode assms(1))
  then show ?thesis using assms
    by (auto simp: AddEdge_cases set_nodes_AddNode split: if_splits intro: wf_graph_record_edge)
qed

lemma acyclic_AddEdge:
  assumes "acyclic (edges g)" and "AddEdge g p d = (g', err)"
  shows "acyclic (edges g')"
  using assms AddEdge_result(2,3) [OF assms(2)] by (auto simp: acyclic_insert split: if_splits)

section \<open>Topological batches\<close>

text \<open>The order the batches promise: every prerequisite of a node of batch \<open>i\<close> is in a
  batch before \<open>i\<close>; and they are tight: a node of a later batch has a prerequisite in the
  batch just before it, so it could not have run earlier.\<close>

definition ordered_batches :: "(string \<times> string) set \<Rightarrow> string list list \<Rightarrow> bool" where
  "ordered_batches E bs \<longleftrightarrow>
     (\<forall>i<length bs. \<forall>b\<in>set (bs ! i). \<forall>a. (a, b) \<in> E \<longrightarrow> (\<exists>j<i. a \<in> set (bs ! j)))"

definition tight_batches :: "(string \<times> string) set \<Rightarrow> string list list \<Rightarrow> bool" where
  "tight_batches E bs \<longleftrightarrow>
     (\<forall>i. Suc i < length bs \<longrightarrow> (\<forall>b\<in>set (bs ! Suc i). \<exists>a\<in>set (bs ! i). (a, b) \<in> E))"

text \<open>The loop invariant. \<open>last_ready\<close> says that no unprocessed node was ready before the
  last batch was settled.\<close>

definition batch_inv :: "graph \<Rightarrow> int gomap \<Rightarrow> string list \<Rightarrow> int \<Rightarrow> string list list \<Rightarrow> bool" where
  "batch_inv g indeg processed remaining bs \<longleftrightarrow>
     processed = concat bs \<and> distinct processed \<and> set processed \<subseteq> set (g_nodes g) \<and>
     remaining = int (length (g_nodes g)) - int (length processed) \<and>
     (\<forall>n. get_or 0 indeg n = int (card {m. (m, n) \<in> edges g \<and> m \<notin> set processed})) \<and>
     (\<forall>b\<in>set bs. sorted b) \<and> ordered_batches (edges g) bs \<and> tight_batches (edges g) bs \<and>
     (bs \<noteq> [] \<longrightarrow> (\<forall>n\<in>set (g_nodes g) - set processed.
        \<exists>m. (m, n) \<in> edges g \<and> m \<notin> set (concat (butlast bs))))"

lemma batch_invD:
  assumes "batch_inv g indeg processed remaining bs"
  shows "processed = concat bs" "distinct processed" "set processed \<subseteq> set (g_nodes g)"
    "remaining = int (length (g_nodes g)) - int (length processed)"
    "\<And>n. get_or 0 indeg n = int (card {m. (m, n) \<in> edges g \<and> m \<notin> set processed})"
    "\<forall>b\<in>set bs. sorted b" "ordered_batches (edges g) bs" "tight_batches (edges g) bs"
    "\<And>n. bs \<noteq> [] \<Longrightarrow> n \<in> set (g_nodes g) - set processed \<Longrightarrow>
       \<exists>m. (m, n) \<in> edges g \<and> m \<notin> set (concat (butlast bs))"
  using assms unfolding batch_inv_def by blast+

lemma get_or_release_succs:
  "distinct ss \<Longrightarrow>
     get_or 0 (release_succs ss indeg) n = get_or 0 indeg n - (if n \<in> set ss then 1 else 0)"
  by (induction ss arbitrary: indeg) auto

lemma finite_preds: "wf_graph g \<Longrightarrow> finite {m. (m, n) \<in> edges g \<and> P m}"
  by (rule finite_subset [of _ "set (g_nodes g)"]) (auto simp: wf_graph_def edges_def succ_rel_def)

lemma settle_batch_inDegree:
  assumes "wf_graph g" and "settle_batch g batch indeg processed r = (i', p', r')"
    and "distinct batch" "set batch \<inter> set processed = {}"
    and "\<And>n. get_or 0 indeg n = int (card {m. (m, n) \<in> edges g \<and> m \<notin> set processed})"
  shows "get_or 0 i' n = int (card {m. (m, n) \<in> edges g \<and> m \<notin> set p'})"
  using assms(2-)
proof (induction batch arbitrary: indeg processed r)
  case (Cons b batch)
  show ?case
  proof (rule Cons.IH)
    show "settle_batch g batch (release_succs (succs_of g b) indeg) (processed @ [b]) (r - 1) = (i', p', r')"
      using Cons.prems(1) by simp
    fix n
    have "{m. (m, n) \<in> edges g \<and> m \<notin> set processed}
        = {m. (m, n) \<in> edges g \<and> m \<notin> set (processed @ [b])} \<union> (if n \<in> set (succs_of g b) then {b} else {})"
      using Cons.prems(3) by auto
    moreover have "distinct (succs_of g b)" using assms(1) by (simp add: wf_graph_def)
    ultimately show "get_or 0 (release_succs (succs_of g b) indeg) n
        = int (card {m. (m, n) \<in> edges g \<and> m \<notin> set (processed @ [b])})"
      using finite_preds [OF assms(1), of n "\<lambda>m. m \<notin> set (processed @ [b])"]
      by (auto simp: get_or_release_succs Cons.prems(4))
  qed (use Cons.prems in auto)
qed simp

lemma ready_batch_props:
  assumes "wf_graph g" "\<And>n. get_or 0 indeg n = int (card {m. (m, n) \<in> edges g \<and> m \<notin> set processed})"
  shows "distinct (ready_batch g indeg processed)" "sorted (ready_batch g indeg processed)"
    and "set (ready_batch g indeg processed) =
      {n\<in>set (g_nodes g) - set processed. \<forall>m. (m, n) \<in> edges g \<longrightarrow> m \<in> set processed}"
  using assms(1) finite_preds [OF assms(1)]
  by (auto simp: ready_batch_def wf_graph_def assms(2) card_eq_0_iff)

lemma mem_concat_nth: "m \<in> set (concat bs) \<longleftrightarrow> (\<exists>j<length bs. m \<in> set (bs ! j))"
  by (metis (no_types, lifting) UN_iff in_set_conv_nth set_concat)

lemma ordered_batches_snoc:
  "ordered_batches E (bs @ [b]) \<longleftrightarrow>
     ordered_batches E bs \<and> (\<forall>n\<in>set b. \<forall>m. (m, n) \<in> E \<longrightarrow> m \<in> set (concat bs))"
proof -
  have "(\<exists>j<i. a \<in> set ((bs @ [b]) ! j)) \<longleftrightarrow> (\<exists>j<i. a \<in> set (bs ! j))" if "i \<le> length bs" for a i
    using that by (metis nth_append order.strict_trans2)
  then have "ordered_batches E (bs @ [b]) \<longleftrightarrow>
     (\<forall>n\<in>set b. \<forall>m. (m, n) \<in> E \<longrightarrow> (\<exists>j<length bs. m \<in> set (bs ! j))) \<and> ordered_batches E bs"
    unfolding ordered_batches_def length_append_singleton All_less_Suc
    by (simp add: nth_append)
  then show ?thesis unfolding mem_concat_nth by blast
qed

lemma tight_batches_snoc:
  "tight_batches E (bs @ [b]) \<longleftrightarrow>
     tight_batches E bs \<and> (bs \<noteq> [] \<longrightarrow> (\<forall>n\<in>set b. \<exists>m\<in>set (last bs). (m, n) \<in> E))"
proof (cases bs rule: rev_cases)
  case (snoc xs x)
  then show ?thesis
    by (auto simp: tight_batches_def nth_append less_Suc_eq)
qed (simp add: tight_batches_def)

lemma batch_inv_step:
  assumes wf: "wf_graph g" and inv: "batch_inv g indeg processed remaining bs"
    and batch: "batch = ready_batch g indeg processed"
    and settle: "settle_batch g batch indeg processed remaining = (i', p', r')"
  shows "batch_inv g i' p' r' (bs @ [batch])"
proof -
  note I = batch_invD [OF inv]
  note rb = ready_batch_props [OF wf I(5), folded batch]
  from settle_batch_remaining [OF settle] have p': "p' = processed @ batch"
    and r': "r' = remaining - int (length batch)" by auto
  have disj: "set batch \<inter> set processed = {}" using rb(3) by blast
  have deg': "get_or 0 i' n = int (card {m. (m, n) \<in> edges g \<and> m \<notin> set p'})" for n
    by (rule settle_batch_inDegree [OF wf settle rb(1) disj I(5)])
  have ord: "ordered_batches (edges g) (bs @ [batch])"
    unfolding ordered_batches_snoc I(1) [symmetric] using I(7) rb(3) by blast
  have tight: "tight_batches (edges g) (bs @ [batch])"
    unfolding tight_batches_snoc
  proof (intro conjI impI ballI I(8))
    fix n assume ne: "bs \<noteq> []" and n: "n \<in> set batch"
    from n rb(3) I(9) [OF ne, of n] obtain m
      where m: "(m, n) \<in> edges g" "m \<notin> set (concat (butlast bs))" by blast
    moreover have "m \<in> set (concat bs)" using m(1) n rb(3) I(1) by blast
    moreover have "concat bs = concat (butlast bs) @ last bs"
      using ne by (metis append_butlast_last_id concat_append concat.simps append_Nil2)
    ultimately show "\<exists>m\<in>set (last bs). (m, n) \<in> edges g" by auto
  qed
  have "\<exists>m. (m, n) \<in> edges g \<and> m \<notin> set (concat bs)" if "n \<in> set (g_nodes g) - set p'" for n
    using that rb(3) I(1) unfolding p' set_append by blast
  then show ?thesis
    using I(1-4,6) rb p' r' deg' ord tight disj
    unfolding batch_inv_def butlast_snoc by auto
qed

lemma batch_inv_start:
  "wf_graph g \<Longrightarrow> batch_inv g (g_inDegree g) [] (int (length (g_nodes g))) []"
  by (simp add: batch_inv_def wf_graph_def ordered_batches_def tight_batches_def)

lemma batches_loop_sound:
  assumes "wf_graph g"
  shows "batch_inv g indeg processed remaining bs \<Longrightarrow>
     batches_loop g indeg processed remaining bs = Inr out \<Longrightarrow>
     \<exists>i p r. batch_inv g i p r out \<and> r \<le> 0"
  using assms
proof (induction g indeg processed remaining bs rule: batches_loop.induct)
  case (1 g indeg processed remaining bs)
  show ?case
  proof (cases "remaining > 0")
    case True
    define batch where "batch = ready_batch g indeg processed"
    obtain i' p' r' where s: "settle_batch g batch indeg processed remaining = (i', p', r')"
      using prod_cases3 by blast
    have ne: "batch \<noteq> []" and rec: "batches_loop g i' p' r' (bs @ [batch]) = Inr out"
      using "1.prems"(2) True s
      by (auto simp: batches_loop.simps [of g indeg] batch_def Let_def split: if_splits)
    show ?thesis
      using "1.IH" [OF True batch_def ne s [symmetric] refl]
        batch_inv_step [OF "1.prems"(3,1) batch_def s] rec "1.prems"(3) by blast
  next
    case False
    with "1.prems" have "out = bs" by (simp add: batches_loop.simps [of g indeg])
    with False "1.prems"(1) show ?thesis by (meson not_less)
  qed
qed

lemma ready_batch_nonempty:
  assumes wf: "wf_graph g" and ac: "acyclic (edges g)"
    and inv: "batch_inv g indeg processed remaining bs" and "remaining > 0"
  shows "ready_batch g indeg processed \<noteq> []"
proof -
  have deg: "\<And>n. get_or 0 indeg n = int (card {m. (m, n) \<in> edges g \<and> m \<notin> set processed})"
    using inv by (simp add: batch_inv_def)
  have "finite (edges g)"
    using wf by (auto simp: wf_graph_def intro: finite_subset)
  then have wfE: "wf (edges g)" using ac by (rule finite_acyclic_wf)
  let ?Q = "set (g_nodes g) - set processed"
  have "card (set processed) < card (set (g_nodes g))"
    using batch_invD(2,4) [OF inv] \<open>remaining > 0\<close> wf by (simp add: wf_graph_def distinct_card)
  then have "?Q \<noteq> {}" by (metis Diff_eq_empty_iff List.finite_set card_mono leD)
  then obtain n where n: "n \<in> ?Q" and min: "\<And>m. (m, n) \<in> edges g \<Longrightarrow> m \<notin> ?Q"
    using wfE_min [OF wfE] by (metis all_not_in_conv)
  have "n \<in> set (ready_batch g indeg processed)"
    unfolding ready_batch_props(3) [OF wf deg]
    using n min wf by (auto simp: wf_graph_def edges_def succ_rel_def)
  then show ?thesis by auto
qed

lemma batches_loop_complete:
  assumes "wf_graph g" "acyclic (edges g)"
  shows "batch_inv g indeg processed remaining bs \<Longrightarrow>
     \<exists>out. batches_loop g indeg processed remaining bs = Inr out"
  using assms
proof (induction g indeg processed remaining bs rule: batches_loop.induct)
  case (1 g indeg processed remaining bs)
  show ?case
  proof (cases "remaining > 0")
    case True
    define batch where "batch = ready_batch g indeg processed"
    obtain i' p' r' where s: "settle_batch g batch indeg processed remaining = (i', p', r')"
      using prod_cases3 by blast
    have ne: "batch \<noteq> []"
      using ready_batch_nonempty [OF "1.prems"(2,3,1) True] by (simp add: batch_def)
    have "\<exists>out. batches_loop g i' p' r' (bs @ [batch]) = Inr out"
      using "1.IH" [OF True batch_def ne s [symmetric] refl]
        batch_inv_step [OF "1.prems"(2,1) batch_def s] "1.prems" by blast
    with True ne s show ?thesis
      by (simp add: batches_loop.simps [of g indeg] batch_def [symmetric] Let_def)
  next
    case False
    then show ?thesis by (simp add: batches_loop.simps [of g indeg])
  qed
qed

lemma ordered_batches_acyclic:
  assumes "ordered_batches E bs" "distinct (concat bs)" "E \<subseteq> set (concat bs) \<times> set (concat bs)"
  shows "acyclic E"
proof -
  define pos where "pos n = (LEAST i. i < length bs \<and> n \<in> set (bs ! i))" for n
  have ex: "\<exists>i. i < length bs \<and> n \<in> set (bs ! i)" if "n \<in> set (concat bs)" for n
    using that by (metis (no_types, lifting) UN_iff in_set_conv_nth set_concat)
  have "(a, b) \<in> measure pos" if "(a, b) \<in> E" for a b
  proof -
    from that assms(3) have "b \<in> set (concat bs)" by auto
    from LeastI_ex [OF ex [OF this]] have "pos b < length bs" "b \<in> set (bs ! pos b)"
      by (auto simp: pos_def)
    with assms(1) that obtain j where "j < pos b" "a \<in> set (bs ! j)"
      unfolding ordered_batches_def by blast
    moreover from this \<open>pos b < length bs\<close> have "pos a \<le> j"
      unfolding pos_def by (intro Least_le) auto
    ultimately show ?thesis by simp
  qed
  then have "E \<subseteq> measure pos" by auto
  then show ?thesis by (meson acyclic_subset wf_acyclic wf_measure)
qed

lemma TopologicalBatches_Inr:
  assumes wf: "wf_graph g" and ok: "TopologicalBatches g = Inr bs"
  shows "distinct (concat bs)" "set (concat bs) = set (g_nodes g)"
    "ordered_batches (edges g) bs" "tight_batches (edges g) bs" "\<forall>b\<in>set bs. sorted b"
proof -
  have "\<exists>i p r. batch_inv g i p r bs \<and> r \<le> 0"
  proof (cases "g_nodes g = []")
    case True
    with ok show ?thesis using batch_inv_start [OF wf]
      by (auto simp: TopologicalBatches_def intro!: exI)
  next
    case False
    with ok batches_loop_sound [OF wf batch_inv_start [OF wf]] show ?thesis
      by (simp add: TopologicalBatches_def)
  qed
  then obtain i p r where inv: "batch_inv g i p r bs" and r: "r \<le> 0" by blast
  then have sub: "set (concat bs) \<subseteq> set (g_nodes g)" and d: "distinct (concat bs)"
    and len: "length (g_nodes g) \<le> length (concat bs)"
    using batch_invD(1-4) [OF inv] by auto
  have "set (concat bs) = set (g_nodes g)"
    using len wf distinct_card [OF d] by (intro card_seteq [OF _ sub]) (auto simp: wf_graph_def distinct_card)
  with inv d show "distinct (concat bs)" "set (concat bs) = set (g_nodes g)"
    "ordered_batches (edges g) bs" "tight_batches (edges g) bs" "\<forall>b\<in>set bs. sorted b"
    using batch_invD(6-8) [OF inv] by blast+
qed

lemma TopologicalBatches_acyclic:
  assumes wf: "wf_graph g"
  shows "(\<exists>bs. TopologicalBatches g = Inr bs) \<longleftrightarrow> acyclic (edges g)"
proof
  assume "\<exists>bs. TopologicalBatches g = Inr bs"
  then obtain bs where "TopologicalBatches g = Inr bs" ..
  note b = TopologicalBatches_Inr [OF wf this]
  show "acyclic (edges g)"
    using ordered_batches_acyclic [OF b(3,1)] b(2) wf by (auto simp: wf_graph_def)
next
  assume "acyclic (edges g)"
  then show "\<exists>bs. TopologicalBatches g = Inr bs"
    using batches_loop_complete [OF wf _ batch_inv_start [OF wf]]
    by (simp add: TopologicalBatches_def)
qed

section \<open>Building the DAG of a release\<close>

definition dag_wf :: "upgrade_dag \<Rightarrow> bool" where
  "dag_wf d \<longleftrightarrow> wf_graph (dag_graph d) \<and> acyclic (edges (dag_graph d)) \<and> gomap_wf (dag_nodes d) \<and>
     set (g_nodes (dag_graph d)) = fst ` set (dag_nodes d) \<and>
     (\<forall>(k, n)\<in>set (dag_nodes d). cn_name n = k)"

definition dep_edges :: "upgrade_component list \<Rightarrow> resolver \<Rightarrow> (string \<times> string) set" where
  "dep_edges comps res = {(x, n). \<exists>c\<in>set comps. n = uc_name c \<and> x \<noteq> n \<and>
      (\<exists>deps. resolveDependencies n (uc_version c) res = Inr deps \<and> x \<in> set deps)}"

definition buildable :: "upgrade_component list \<Rightarrow> resolver \<Rightarrow> bool" where
  "buildable comps res \<longleftrightarrow> comps \<noteq> [] \<and> [] \<notin> uc_name ` set comps \<and> distinct (map uc_name comps) \<and>
     (\<forall>c\<in>set comps. \<exists>deps. resolveDependencies (uc_name c) (uc_version c) res = Inr deps \<and>
        set deps \<subseteq> uc_name ` set comps) \<and>
     acyclic (dep_edges comps res)"

lemma dep_edges_names:
  assumes "buildable cs res" "(x, n) \<in> dep_edges cs res"
  shows "x \<in> uc_name ` set cs" "n \<in> uc_name ` set cs" "x \<noteq> n"
proof -
  from assms(2) obtain c deps where c: "c \<in> set cs" "n = uc_name c" "x \<noteq> n" "x \<in> set deps"
    "resolveDependencies n (uc_version c) res = Inr deps" by (auto simp: dep_edges_def)
  with assms(1) show "x \<in> uc_name ` set cs" by (force simp: buildable_def)
  from c show "n \<in> uc_name ` set cs" "x \<noteq> n" by auto
qed

lemma dag_wf_New: "dag_wf NewUpgradeDAG"
  using wf_graph_New by (simp add: dag_wf_def NewUpgradeDAG_def) (simp add: NewGraph_def acyclic_def)

lemma dag_wf_names: "dag_wf d \<Longrightarrow> has_key (dag_nodes d) n \<longleftrightarrow> n \<in> set (g_nodes (dag_graph d))"
  by (simp add: dag_wf_def has_key_iff)

lemma dag_wf_nonempty: "dag_wf d \<Longrightarrow> \<not> has_key (dag_nodes d) []"
  unfolding dag_wf_names by (simp only: dag_wf_def wf_graph_def) blast

lemma set_update_new: "\<not> has_key m k \<Longrightarrow> set (AList.update k v m) = insert (k, v) (set m)"
  by (induction m) (auto simp: has_key_def split: if_splits)

lemma DAG_AddNode_Inr:
  assumes "dag_wf d" and "DAG_AddNode d (Some n) = Inr d'"
  shows "dag_wf d'" and "edges (dag_graph d') = edges (dag_graph d)"
    and "dag_nodes d' = AList.update (cn_name n) n (dag_nodes d)"
proof -
  from assms(2) have ne: "cn_name n \<noteq> []" "\<not> has_key (dag_nodes d) (cn_name n)"
    and d': "d' = \<lparr>dag_graph = AddNode (dag_graph d) (cn_name n),
                  dag_nodes = AList.update (cn_name n) n (dag_nodes d)\<rparr>"
    by (auto simp: DAG_AddNode_def split: if_splits)
  show "dag_wf d'" using assms(1) ne
    by (auto simp: d' dag_wf_def wf_graph_AddNode set_nodes_AddNode set_update_new)
qed (use assms(2) in \<open>auto simp: DAG_AddNode_def split: if_splits\<close>)

lemma DAG_AddNode_fails:
  "DAG_AddNode d (Some n) = Inl e \<longleftrightarrow>
     (cn_name n = [] \<and> e = NodeNameRequired) \<or>
     (cn_name n \<noteq> [] \<and> has_key (dag_nodes d) (cn_name n) \<and> e = DuplicateComponent (cn_name n))"
  by (auto simp: DAG_AddNode_def)

lemma component_node_of_name [simp]: "cn_name (component_node_of c) = uc_name c"
  by (simp add: component_node_of_def)

lemma add_components_Inr:
  "dag_wf d \<Longrightarrow> add_components d cs = Inr d' \<Longrightarrow>
     dag_wf d' \<and> edges (dag_graph d') = edges (dag_graph d) \<and>
     map_of (dag_nodes d') = map_of (dag_nodes d) ++ map_of (map (\<lambda>c. (uc_name c, component_node_of c)) cs) \<and>
     distinct (map uc_name cs) \<and> [] \<notin> uc_name ` set cs \<and>
     (\<forall>c\<in>set cs. \<not> has_key (dag_nodes d) (uc_name c))"
proof (induction cs arbitrary: d)
  case (Cons c cs)
  from Cons.prems(2) obtain d1 where ne: "uc_name c \<noteq> []"
    and a: "DAG_AddNode d (Some (component_node_of c)) = Inr d1"
    and r: "add_components d1 cs = Inr d'"
    by (auto split: if_splits sum.splits)
  note d1 = DAG_AddNode_Inr [OF Cons.prems(1) a]
  from Cons.IH [OF d1(1) r] have
    IH: "dag_wf d'" "edges (dag_graph d') = edges (dag_graph d1)"
      "map_of (dag_nodes d') = map_of (dag_nodes d1) ++ map_of (map (\<lambda>c. (uc_name c, component_node_of c)) cs)"
      "distinct (map uc_name cs)" "[] \<notin> uc_name ` set cs"
      "\<forall>c\<in>set cs. \<not> has_key (dag_nodes d1) (uc_name c)" by auto
  have new: "\<not> has_key (dag_nodes d) (uc_name c)"
    using a by (auto simp: DAG_AddNode_def split: if_splits)
  have nc: "uc_name c \<notin> uc_name ` set cs" using IH(6) d1(3) by auto
  then have "map_of (map (\<lambda>c. (uc_name c, component_node_of c)) cs) (uc_name c) = None"
    by (auto simp: map_of_eq_None_iff)
  with IH d1 ne new nc show ?case
    by (auto simp: map_add_def fun_eq_iff split: option.splits)
qed simp

lemma add_components_ok:
  "dag_wf d \<Longrightarrow> distinct (map uc_name cs) \<Longrightarrow> [] \<notin> uc_name ` set cs \<Longrightarrow>
     \<forall>c\<in>set cs. \<not> has_key (dag_nodes d) (uc_name c) \<Longrightarrow> \<exists>d'. add_components d cs = Inr d'"
proof (induction cs arbitrary: d)
  case (Cons c cs)
  then obtain d1 where a: "DAG_AddNode d (Some (component_node_of c)) = Inr d1"
    by (auto simp: DAG_AddNode_def)
  note d1 = DAG_AddNode_Inr [OF Cons.prems(1) a]
  have "\<exists>d'. add_components d1 cs = Inr d'"
    using Cons.prems by (intro Cons.IH [OF d1(1)]) (auto simp: d1(3) image_iff)
  with a Cons.prems show ?case by auto
qed simp

lemma AddDependency_ok:
  assumes "dag_wf d" "AddDependency d p c = (d', None)" "p \<noteq> []"
  shows "dag_wf d'" "edges (dag_graph d') = insert (p, c) (edges (dag_graph d))"
    "dag_nodes d' = dag_nodes d"
proof -
  from assms obtain g' where k: "has_key (dag_nodes d) c" "has_key (dag_nodes d) p"
    and e: "AddEdge (dag_graph d) p c = (g', None)" and d': "d' = d\<lparr>dag_graph := g'\<rparr>"
    by (auto simp: AddDependency_def split: if_splits prod.splits)
  have wf: "wf_graph (dag_graph d)" "acyclic (edges (dag_graph d))" using assms(1) by (auto simp: dag_wf_def)
  have "set (g_nodes g') = set (g_nodes (dag_graph d))"
    using AddEdge_nodes [OF e] k dag_wf_names [OF assms(1)] by (auto split: if_splits)
  then show "dag_wf d'" using assms(1) wf_graph_AddEdge [OF wf(1) e] acyclic_AddEdge [OF wf(2) e]
    by (simp add: d' dag_wf_def)
  show "edges (dag_graph d') = insert (p, c) (edges (dag_graph d))"
    using AddEdge_edges [OF e] by (simp add: d')
qed (use assms in \<open>auto simp: AddDependency_def split: if_splits prod.splits\<close>)

lemma add_deps_Inr:
  "dag_wf d \<Longrightarrow> add_deps d c deps = Inr d' \<Longrightarrow>
     dag_wf d' \<and> dag_nodes d' = dag_nodes d \<and>
     edges (dag_graph d') = edges (dag_graph d) \<union> {(x, c) |x. x \<in> set deps \<and> x \<noteq> c} \<and>
     (\<forall>x\<in>set deps. x \<noteq> c \<longrightarrow> has_key (dag_nodes d) x)"
proof (induction deps arbitrary: d)
  case (Cons x deps)
  show ?case
  proof (cases "x = c")
    case True
    with Cons show ?thesis by auto
  next
    case False
    with Cons.prems obtain d1 where k: "has_key (dag_nodes d) x"
      and a: "AddDependency d x c = (d1, None)" and r: "add_deps d1 c deps = Inr d'"
      by (auto simp: GetNode_def has_key_def split: if_splits prod.splits option.splits)
    have "x \<noteq> []" using k dag_wf_nonempty [OF Cons.prems(1)] by auto
    note d1 = AddDependency_ok [OF Cons.prems(1) a this]
    from Cons.IH [OF d1(1) r] False k d1 show ?thesis by auto
  qed
qed auto

lemma add_deps_ok:
  "dag_wf d \<Longrightarrow> has_key (dag_nodes d) c \<Longrightarrow> acyclic E \<Longrightarrow> edges (dag_graph d) \<subseteq> E \<Longrightarrow>
     {(x, c) |x. x \<in> set deps \<and> x \<noteq> c} \<subseteq> E \<Longrightarrow>
     \<forall>x\<in>set deps. x \<noteq> c \<longrightarrow> has_key (dag_nodes d) x \<Longrightarrow> \<exists>d'. add_deps d c deps = Inr d'"
proof (induction deps arbitrary: d)
  case (Cons x deps)
  show ?case
  proof (cases "x = c")
    case True
    have "\<exists>d'. add_deps d c deps = Inr d'"
      using Cons.prems by (intro Cons.IH) auto
    with True show ?thesis by simp
  next
    case False
    have k: "has_key (dag_nodes d) x" using False Cons.prems(6) by simp
    then have ne: "x \<noteq> []" "c \<noteq> []" using Cons.prems(2) dag_wf_nonempty [OF Cons.prems(1)] by auto
    have xc: "(x, c) \<in> E" using False Cons.prems(5) by auto
    have "(c, x) \<notin> (edges (dag_graph d))\<^sup>*"
    proof
      assume "(c, x) \<in> (edges (dag_graph d))\<^sup>*"
      then have "(c, x) \<in> E\<^sup>*" using Cons.prems(4) rtrancl_mono by blast
      with xc have "(x, x) \<in> E\<^sup>+" by (rule rtrancl_into_trancl2)
      with Cons.prems(3) show False by (simp add: acyclic_def)
    qed
    then obtain d1 where a: "AddDependency d x c = (d1, None)"
      using k Cons.prems(2) ne False
      by (cases "AddEdge (dag_graph d) x c") (auto simp: AddDependency_def dest: AddEdge_err)
    note d1 = AddDependency_ok [OF Cons.prems(1) a ne(1)]
    have "\<exists>d'. add_deps d1 c deps = Inr d'"
      using Cons.prems d1 xc by (intro Cons.IH [OF d1(1)]) auto
    with a k False show ?thesis by (auto simp: GetNode_def has_key_def)
  qed
qed auto


lemma edges_NewUpgradeDAG [simp]: "edges (dag_graph NewUpgradeDAG) = {}"
  by (auto simp: edges_def succ_rel_def succs_of_def NewUpgradeDAG_def NewGraph_def get_or_def)

lemma nodes_NewUpgradeDAG [simp]: "dag_nodes NewUpgradeDAG = []"
  by (simp add: NewUpgradeDAG_def)

text \<open>A dependency on the component itself is skipped, so only the others need a node.\<close>

definition resolvable :: "upgrade_dag \<Rightarrow> resolver \<Rightarrow> upgrade_component \<Rightarrow> bool" where
  "resolvable d res c \<longleftrightarrow> (\<exists>deps. resolveDependencies (uc_name c) (uc_version c) res = Inr deps \<and>
     (\<forall>x\<in>set deps. x \<noteq> uc_name c \<longrightarrow> has_key (dag_nodes d) x))"

lemma dep_edges_Cons:
  assumes "resolveDependencies (uc_name c) (uc_version c) res = Inr deps"
  shows "dep_edges (c # cs) res = {(x, uc_name c) |x. x \<in> set deps \<and> x \<noteq> uc_name c} \<union> dep_edges cs res"
  using assms by (auto simp: dep_edges_def)

lemma connect_components_Inr:
  "dag_wf d \<Longrightarrow> connect_components d res cs = Inr d' \<Longrightarrow>
     dag_wf d' \<and> dag_nodes d' = dag_nodes d \<and>
     edges (dag_graph d') = edges (dag_graph d) \<union> dep_edges cs res \<and>
     (\<forall>c\<in>set cs. resolvable d res c)"
proof (induction cs arbitrary: d)
  case Nil
  then show ?case by (simp add: dep_edges_def)
next
  case (Cons c cs)
  from Cons.prems(2) obtain deps d1 where
    r: "resolveDependencies (uc_name c) (uc_version c) res = Inr deps"
    and a: "add_deps d (uc_name c) deps = Inr d1" and rest: "connect_components d1 res cs = Inr d'"
    by (auto split: sum.splits)
  from add_deps_Inr [OF Cons.prems(1) a] have
    d1: "dag_wf d1" "dag_nodes d1 = dag_nodes d"
      "edges (dag_graph d1) = edges (dag_graph d) \<union> {(x, uc_name c) |x. x \<in> set deps \<and> x \<noteq> uc_name c}"
      "\<forall>x\<in>set deps. x \<noteq> uc_name c \<longrightarrow> has_key (dag_nodes d) x" by auto
  from Cons.IH [OF d1(1) rest] d1 r show ?case
    by (simp add: dep_edges_Cons [OF r] resolvable_def Un_assoc)
qed

lemma connect_components_ok:
  "dag_wf d \<Longrightarrow> acyclic E \<Longrightarrow> edges (dag_graph d) \<subseteq> E \<Longrightarrow> dep_edges cs res \<subseteq> E \<Longrightarrow>
     \<forall>c\<in>set cs. resolvable d res c \<and> has_key (dag_nodes d) (uc_name c) \<Longrightarrow>
     \<exists>d'. connect_components d res cs = Inr d'"
proof (induction cs arbitrary: d)
  case (Cons c cs)
  from Cons.prems(5) obtain deps where
    r: "resolveDependencies (uc_name c) (uc_version c) res = Inr deps"
    and k: "\<forall>x\<in>set deps. x \<noteq> uc_name c \<longrightarrow> has_key (dag_nodes d) x"
    by (auto simp: resolvable_def)
  note E = Cons.prems(4) [unfolded dep_edges_Cons [OF r]]
  obtain d1 where a: "add_deps d (uc_name c) deps = Inr d1"
    using add_deps_ok [OF Cons.prems(1) _ Cons.prems(2,3) _ k] E Cons.prems(5) by auto
  from add_deps_Inr [OF Cons.prems(1) a] have d1: "dag_wf d1" "dag_nodes d1 = dag_nodes d"
    "edges (dag_graph d1) \<subseteq> E" using E Cons.prems(3) by auto
  have "\<exists>d'. connect_components d1 res cs = Inr d'"
    using Cons.prems(5) E by (intro Cons.IH d1 Cons.prems(2)) (auto simp: resolvable_def d1(2))
  with r a show ?case by simp
qed simp

lemma component_map_keys:
  "map_of (map (\<lambda>c. (uc_name c, component_node_of c)) cs) n = None \<longleftrightarrow> n \<notin> uc_name ` set cs"
  by (auto simp: map_of_eq_None_iff image_iff)

lemma resolvable_iff:
  assumes "map_of (dag_nodes d) = map_of (map (\<lambda>c. (uc_name c, component_node_of c)) cs)"
    and "c \<in> set cs"
  shows "resolvable d res c \<longleftrightarrow>
    (\<exists>deps. resolveDependencies (uc_name c) (uc_version c) res = Inr deps \<and> set deps \<subseteq> uc_name ` set cs)"
  using component_map_keys [of cs] assms by (auto simp: resolvable_def has_key_def)

lemma BuildUpgradeDAG_Inr:
  assumes "BuildUpgradeDAG cs res = Inr d"
  shows "dag_wf d" and "edges (dag_graph d) = dep_edges cs res" and "buildable cs res"
    and "map_of (dag_nodes d) = map_of (map (\<lambda>c. (uc_name c, component_node_of c)) cs)"
proof -
  from assms obtain d1 where ne: "cs \<noteq> []" and a: "add_components NewUpgradeDAG cs = Inr d1"
    and c: "connect_components d1 res cs = Inr d"
    by (auto simp: BuildUpgradeDAG_def split: if_splits sum.splits)
  from add_components_Inr [OF dag_wf_New a]
  have 1: "dag_wf d1" "edges (dag_graph d1) = {}" "distinct (map uc_name cs)" "[] \<notin> uc_name ` set cs"
    "map_of (dag_nodes d1) = map_of (map (\<lambda>c. (uc_name c, component_node_of c)) cs)" by auto
  note con = connect_components_Inr [OF 1(1) c]
  show 2: "dag_wf d" "edges (dag_graph d) = dep_edges cs res"
    "map_of (dag_nodes d) = map_of (map (\<lambda>c. (uc_name c, component_node_of c)) cs)"
    using con 1(2,5) by auto
  have "acyclic (dep_edges cs res)" using 2(1,2) by (simp add: dag_wf_def)
  with con ne 1(3,4) resolvable_iff [OF 1(5)] show "buildable cs res"
    unfolding buildable_def by blast
qed

lemma DAG_batches: "dag_wf d \<Longrightarrow> \<exists>bs. DAG_TopologicalBatches d = Inr bs"
  by (simp add: DAG_TopologicalBatches_def dag_wf_def TopologicalBatches_acyclic)

lemma BuildUpgradeDAG_ok:
  assumes b: "buildable cs res"
  shows "\<exists>d. BuildUpgradeDAG cs res = Inr d"
proof -
  from b have ne: "cs \<noteq> []" and "[] \<notin> uc_name ` set cs" "distinct (map uc_name cs)"
    and ac: "acyclic (dep_edges cs res)" by (auto simp: buildable_def)
  with add_components_ok [OF dag_wf_New, of cs] obtain d1
    where a: "add_components NewUpgradeDAG cs = Inr d1" by (auto simp: has_key_def)
  from add_components_Inr [OF dag_wf_New a]
  have 1: "dag_wf d1" "edges (dag_graph d1) = {}"
    "map_of (dag_nodes d1) = map_of (map (\<lambda>c. (uc_name c, component_node_of c)) cs)" by auto
  have "has_key (dag_nodes d1) (uc_name c)" if "c \<in> set cs" for c
    using that component_map_keys [of cs "uc_name c"] by (auto simp: has_key_def 1(3))
  moreover have "resolvable d1 res c" if "c \<in> set cs" for c
    using that b resolvable_iff [OF 1(3) that] by (auto simp: buildable_def)
  ultimately obtain d where c: "connect_components d1 res cs = Inr d"
    using connect_components_ok [OF 1(1) ac, of cs res] 1(2) by auto
  with DAG_batches connect_components_Inr [OF 1(1) c] obtain bs where
    "DAG_TopologicalBatches d = Inr bs" by blast
  with ne a c show ?thesis by (simp add: BuildUpgradeDAG_def)
qed

text \<open>The interface the scheduler relies on: a graph with named nodes whose batches respect a
  prerequisite relation. The client lemmas say that everything a node waits for, directly or
  not, is listed before it, and that no batch holds two nodes that depend on each other.\<close>

locale ordered_plan =
  fixes plan :: "'d \<Rightarrow> 'e + string list list"
    and prereq :: "'d \<Rightarrow> (string \<times> string) set"
    and names :: "'d \<Rightarrow> string set"
    and ok :: "'d \<Rightarrow> bool"
  assumes plan_total: "ok d \<Longrightarrow> \<exists>bs. plan d = Inr bs"
    and plan_ordered: "ok d \<Longrightarrow> plan d = Inr bs \<Longrightarrow> ordered_batches (prereq d) bs"
    and plan_names: "ok d \<Longrightarrow> plan d = Inr bs \<Longrightarrow> set (concat bs) = names d"
    and plan_distinct: "ok d \<Longrightarrow> plan d = Inr bs \<Longrightarrow> distinct (concat bs)"
begin

lemma plan_prefix:
  assumes "ok d" "plan d = Inr (pre @ b # post)" "n \<in> set b" "(m, n) \<in> prereq d"
  shows "m \<in> set (concat pre)"
proof -
  have "ordered_batches (prereq d) (pre @ b # post)" using plan_ordered assms by blast
  then obtain j where "j < length pre" "m \<in> set ((pre @ b # post) ! j)"
    using assms(3,4) unfolding ordered_batches_def
    by (auto dest!: spec [of _ "length pre"]) blast
  then show ?thesis by (auto simp: nth_append mem_concat_nth)
qed

lemma plan_prefix_trancl:
  assumes "ok d" "(m, n) \<in> (prereq d)\<^sup>+"
  shows "plan d = Inr (pre @ b # post) \<Longrightarrow> n \<in> set b \<Longrightarrow> m \<in> set (concat pre)"
  using assms(2)
proof (induction arbitrary: pre b post rule: trancl_induct)
  case (base y)
  then show ?case using plan_prefix [OF assms(1)] by blast
next
  case (step y z)
  from plan_prefix [OF assms(1) step.prems step.hyps(2)] obtain c where c: "c \<in> set pre" "y \<in> set c"
    by auto
  then obtain pre1 pre2 where p: "pre = pre1 @ c # pre2" by (meson split_list)
  with step.prems(1) have "plan d = Inr (pre1 @ c # (pre2 @ b # post))" by simp
  from step.IH [OF this c(2)] p show ?case by simp
qed

end

interpretation dp: ordered_plan DAG_TopologicalBatches "\<lambda>d. edges (dag_graph d)"
  "\<lambda>d. set (g_nodes (dag_graph d))" dag_wf
proof unfold_locales
  fix d bs
  assume "dag_wf d" "DAG_TopologicalBatches d = Inr bs"
  then have "wf_graph (dag_graph d)" "TopologicalBatches (dag_graph d) = Inr bs"
    by (auto simp: dag_wf_def DAG_TopologicalBatches_def)
  note b = TopologicalBatches_Inr [OF this]
  show "ordered_batches (edges (dag_graph d)) bs" "set (concat bs) = set (g_nodes (dag_graph d))"
    "distinct (concat bs)" by (rule b)+
qed (rule DAG_batches)

section \<open>Properties\<close>

datatype graph_op = OpNode string | OpEdge string string

fun run_ops :: "graph \<Rightarrow> graph_op list \<Rightarrow> graph" where
  "run_ops g [] = g"
| "run_ops g (OpNode n # ops) = run_ops (AddNode g n) ops"
| "run_ops g (OpEdge p d # ops) = run_ops (fst (AddEdge g p d)) ops"

lemma run_ops_wf:
  "wf_graph g \<Longrightarrow> acyclic (edges g) \<Longrightarrow> wf_graph (run_ops g ops) \<and> acyclic (edges (run_ops g ops))"
proof (induction g ops rule: run_ops.induct)
  case (3 g p d ops)
  obtain g' err where e: "AddEdge g p d = (g', err)" by force
  show ?case using "3.IH" wf_graph_AddEdge [OF "3.prems"(1) e] acyclic_AddEdge [OF "3.prems"(2) e]
    by (simp add: e)
qed (auto intro: wf_graph_AddNode)

lemma New_acyclic: "acyclic (edges NewGraph)"
  by (auto simp: edges_def succ_rel_def succs_of_def NewGraph_def get_or_def acyclic_def)

text \<open>C6. On a well-formed graph \<^verbatim>\<open>TopologicalBatches\<close> succeeds exactly when the graph is
  acyclic; then its batches list every node exactly once, each batch is sorted, every prerequisite
  of a node lies in a strictly earlier batch, and no node could have been placed earlier (each node
  of a later batch has a prerequisite in the batch just before).\<close>

theorem TopologicalBatches_correct:
  assumes "wf_graph g"
  shows "((\<exists>bs. TopologicalBatches g = Inr bs) \<longleftrightarrow> acyclic (edges g)) \<and>
    (\<forall>bs. TopologicalBatches g = Inr bs \<longrightarrow>
       distinct (concat bs) \<and> set (concat bs) = set (g_nodes g) \<and>
       ordered_batches (edges g) bs \<and> tight_batches (edges g) bs \<and> (\<forall>b\<in>set bs. sorted b))"
  using TopologicalBatches_acyclic [OF assms] TopologicalBatches_Inr [OF assms] by blast

definition diamond :: graph where
  "diamond = run_ops NewGraph
     [OpEdge ''etcd'' ''api'', OpEdge ''etcd'' ''sched'', OpEdge ''api'' ''addon'', OpEdge ''sched'' ''addon'']"

lemma diamond_wf: "wf_graph diamond"
  unfolding diamond_def using run_ops_wf [OF wf_graph_New New_acyclic] by blast

lemma diamond_batches: "TopologicalBatches diamond = Inr [[''etcd''], [''api'', ''sched''], [''addon'']]"
  by code_simp

theorem TopologicalBatches_correct_witness:
  "acyclic (edges diamond) \<and>
   ordered_batches (edges diamond) [[''etcd''], [''api'', ''sched''], [''addon'']]"
  using TopologicalBatches_correct [OF diamond_wf] diamond_batches by blast

text \<open>C14. Starting from \<^verbatim>\<open>NewGraph\<close>, no sequence of \<^verbatim>\<open>AddNode\<close> and \<^verbatim>\<open>AddEdge\<close>
  calls, failed ones included, ever makes the graph cyclic, lets the in-degree counters disagree
  with the edges, or makes \<^verbatim>\<open>TopologicalBatches\<close> fail.\<close>

theorem graph_ops_safe:
  "wf_graph (run_ops NewGraph ops) \<and> acyclic (edges (run_ops NewGraph ops)) \<and>
   (\<exists>bs. TopologicalBatches (run_ops NewGraph ops) = Inr bs)"
  using run_ops_wf [OF wf_graph_New New_acyclic, of ops] TopologicalBatches_acyclic by blast

text \<open>\<^verbatim>\<open>AddEdge\<close> accepts an edge between two different non-empty names exactly when the
  dependent does not already lead to the prerequisite, records exactly that edge, and leaves the
  edges alone when it fails; the error tells which check refused it.\<close>

theorem AddEdge_correct:
  "(case AddEdge g p d of
      (g', None) \<Rightarrow> p \<noteq> [] \<and> d \<noteq> [] \<and> (d, p) \<notin> (edges g)\<^sup>* \<and> edges g' = insert (p, d) (edges g) \<and>
                    set (g_nodes g') = set (g_nodes g) \<union> {p, d}
    | (g', Some EmptyEndpoint) \<Rightarrow> (p = [] \<or> d = []) \<and> g' = g
    | (g', Some (SelfEdge n)) \<Rightarrow> p = d \<and> n = p \<and> g' = g
    | (g', Some (EdgeClosesCycle a b)) \<Rightarrow> a = p \<and> b = d \<and> p \<noteq> d \<and> (d, p) \<in> (edges g)\<^sup>* \<and> edges g' = edges g
    | (g', Some e) \<Rightarrow> False)"
  by (auto simp: AddEdge_cases set_nodes_AddNode)

text \<open>C15. \<^verbatim>\<open>BuildUpgradeDAG\<close> succeeds exactly when the component list is non-empty, its names
  are non-empty and distinct, every component's dependencies resolve to names of the list, and the
  dependency relation (self-dependencies aside) is acyclic.\<close>

theorem BuildUpgradeDAG_succeeds_iff:
  "(\<exists>d. BuildUpgradeDAG components res = Inr d) \<longleftrightarrow> buildable components res"
  using BuildUpgradeDAG_Inr(3) BuildUpgradeDAG_ok by blast

text \<open>A graph built by \<^verbatim>\<open>BuildUpgradeDAG\<close> has one node per component, carrying its
  name, version and inline handler, exactly the resolved dependencies as edges, and an execution
  plan in which everything a component depends on, even transitively, is in an earlier batch.\<close>

theorem BuildUpgradeDAG_result:
  assumes built: "BuildUpgradeDAG components res = Inr d"
  shows "(\<forall>c\<in>set components. GetNode d (uc_name c) = Some (component_node_of c)) \<and>
    edges (dag_graph d) = dep_edges components res \<and>
    (\<exists>bs. DAG_TopologicalBatches d = Inr bs \<and> set (concat bs) = uc_name ` set components \<and>
       distinct (concat bs) \<and>
       (\<forall>pre b post m n. bs = pre @ b # post \<longrightarrow> n \<in> set b \<longrightarrow>
          (m, n) \<in> (dep_edges components res)\<^sup>+ \<longrightarrow> m \<in> set (concat pre)))"
  (is "?nodes \<and> ?edges \<and> ?plan")
proof (intro conjI)
  note d = BuildUpgradeDAG_Inr [OF built]
  have "distinct (map fst (map (\<lambda>c. (uc_name c, component_node_of c)) components))"
    using d(3) by (simp add: buildable_def comp_def)
  then show ?nodes by (auto simp: GetNode_def d(4) intro!: map_of_is_SomeI)
  show ?edges by (rule d(2))
  have names: "set (g_nodes (dag_graph d)) = uc_name ` set components"
    using dag_wf_names [OF d(1)] component_map_keys [of components] by (auto simp: has_key_def d(4))
  obtain bs where bs: "DAG_TopologicalBatches d = Inr bs" using dp.plan_total [OF d(1)] ..
  show ?plan
    using bs dp.plan_names [OF d(1) bs] dp.plan_distinct [OF d(1) bs] names
      dp.plan_prefix_trancl [OF d(1)] unfolding d(2) by metis
qed

definition demo_components :: "upgrade_component list" where
  "demo_components =
     [\<lparr>uc_name = ''addon'', uc_version = ''v2'', uc_inline = None\<rparr>,
      \<lparr>uc_name = ''api'', uc_version = ''v2'', uc_inline = Some \<lparr>ui_handler = ''h'', ui_version = ''v1''\<rparr>\<rparr>,
      \<lparr>uc_name = ''etcd'', uc_version = ''v2'', uc_inline = None\<rparr>]"

definition demo_resolver :: resolver where
  "demo_resolver = Some (\<lambda>name version. Inr (get_or [] [(''addon'', [''api'', ''etcd'']), (''api'', [''etcd''])] name))"

definition demo_dag :: upgrade_dag where
  "demo_dag = (case BuildUpgradeDAG demo_components demo_resolver of Inr d \<Rightarrow> d | Inl e \<Rightarrow> NewUpgradeDAG)"

lemma demo_dag_built: "BuildUpgradeDAG demo_components demo_resolver = Inr demo_dag"
  unfolding demo_dag_def by code_simp

lemma demo_dag_batches: "DAG_TopologicalBatches demo_dag = Inr [[''etcd''], [''api''], [''addon'']]"
  by code_simp

theorem BuildUpgradeDAG_result_witness:
  "GetNode demo_dag ''addon'' = Some (component_node_of (hd demo_components)) \<and>
   edges (dag_graph demo_dag) = dep_edges demo_components demo_resolver"
  using BuildUpgradeDAG_result [OF demo_dag_built] by (simp add: demo_components_def)

end
