(* ===== verification/Cluster_Config.thy ===== *)
theory Cluster_Config
  imports Prelude
begin

text \<open>
  The desired configuration of a cluster (\<^verbatim>\<open>api/bkecommon/v1beta1/bkecluster_spec.go\<close>) as records with
  the source's fields. Embedded structs are fields of their own; a pointer and a map that the code
  compares with \<^verbatim>\<open>nil\<close> is an option. A \<^verbatim>\<open>nil\<close> slice and an empty one are the same list: the code
  only ranges over them and appends to them.
\<close>

section \<open>Records\<close>

(* src: api/bkecommon/v1beta1/bkecluster_spec.go 81-89 APIEndpoint *)
record api_endpoint =
  ep_host :: string
  ep_port :: int

(* src: api/bkecommon/v1beta1/bkecluster_spec.go 92-97 Label *)
record label =
  lb_key :: string
  lb_value :: string

(* src: api/bkecommon/v1beta1/bkecluster_spec.go 58-64 KubeletConfigRef *)
record kubelet_ref =
  kr_name :: string
  kr_namespace :: string

(* src: api/bkecommon/v1beta1/bkecluster_spec.go 182-191 ContainerdConfigRef *)
record containerd_ref =
  cr_name :: string
  cr_namespace :: string

(* src: api/bkecommon/v1beta1/bkecluster_spec.go 167-179 ContainerRuntime *)
record container_runtime =
  rt_cri :: string
  rt_runtime :: string
  rt_param :: "string gomap option"

(* src: api/bkecommon/v1beta1/bkecluster_spec.go 220-236 AuthSecretRef *)
record auth_ref =
  au_name :: string
  au_namespace :: string
  au_usernameKey :: string
  au_passwordKey :: string

(* src: api/bkecommon/v1beta1/bkecluster_spec.go 239-259 TlsSecretRef *)
record tls_ref =
  tl_name :: string
  tl_namespace :: string
  tl_caKey :: string
  tl_certKey :: string
  tl_keyKey :: string

(* src: api/bkecommon/v1beta1/bkecluster_spec.go 193-217 Repo *)
record repo =
  rp_domain :: string
  rp_ip :: string
  rp_port :: string
  rp_prefix :: string
  rp_authSecretRef :: "auth_ref option"
  rp_tlsSecretRef :: "tls_ref option"
  rp_insecureSkipTLSVerify :: bool

(* src: api/bkecommon/v1beta1/bkecluster_spec.go 262-274 Networking *)
record networking =
  nw_serviceSubnet :: string
  nw_podSubnet :: string
  nw_dnsDomain :: string

(* src: api/bkecommon/v1beta1/bkecluster_spec.go 313-325 ValuesConfigMapRef *)
record values_ref =
  vr_name :: string
  vr_namespace :: string
  vr_valuesKey :: string

(* src: api/bkecommon/v1beta1/bkecluster_spec.go 280-311 Product *)
record product =
  pr_name :: string
  pr_version :: string
  pr_type :: string
  pr_releaseName :: string
  pr_namespace :: string
  pr_valuesConfigMapRef :: "values_ref option"
  pr_timeout :: int
  pr_param :: "string gomap option"
  pr_block :: bool

(* src: api/bkecommon/v1beta1/bkecluster_spec.go 357-368 HostPathMount *)
record host_path_mount =
  hm_name :: string
  hm_hostPath :: string
  hm_mountPath :: string
  hm_readOnly :: bool
  hm_pathType :: string

(* src: api/bkecommon/v1beta1/bkecluster_spec.go 346-354 ControlPlaneComponent *)
record control_component =
  cc_extraArgs :: "string gomap option"
  cc_extraVolumes :: "host_path_mount list"

(* src: api/bkecommon/v1beta1/bkecluster_spec.go 371-379 APIServer *)
record api_server =
  sv_endpoint :: api_endpoint
  sv_component :: control_component
  sv_certSANs :: "string list"

(* src: api/bkecommon/v1beta1/bkecluster_spec.go 382-395 Etcd *)
record etcd_config =
  et_component :: control_component
  et_dataDir :: string
  et_serverCertSANs :: "string list"
  et_peerCertSANs :: "string list"

(* src: api/bkecommon/v1beta1/bkecluster_spec.go 398-404 Kubelet *)
record kubelet_config =
  ku_component :: control_component
  ku_manifestsDir :: string

(* src: api/bkecommon/v1beta1/bkecluster_spec.go 327-343 ControlPlane *)
record control_plane =
  cp_controllerManager :: "control_component option"
  cp_scheduler :: "control_component option"
  cp_apiServer :: "api_server option"
  cp_etcd :: "etcd_config option"

text \<open>\<^verbatim>\<open>BKEConfig\<close> and the struct \<^verbatim>\<open>Cluster\<close> that it holds are one record: the cluster's fields first,
  then the add-ons and the extra arguments.\<close>

(* src: api/bkecommon/v1beta1/bkecluster_spec.go 67-165 BKEConfig, Cluster *)
record cluster_spec =
  cs_openFuyaoVersion :: string
  cs_containerdVersion :: string
  cs_kubernetesVersion :: string
  cs_etcdVersion :: string
  cs_controlPlane :: control_plane
  cs_kubelet :: "kubelet_config option"
  cs_networking :: networking
  cs_httpRepo :: repo
  cs_imageRepo :: repo
  cs_chartRepo :: repo
  cs_containerRuntime :: container_runtime
  cs_containerdConfigRef :: "containerd_ref option"
  cs_certificatesDir :: string
  cs_ntpServer :: string
  cs_agentHealthPort :: string
  cs_labels :: "label list"
  cs_addons :: "product list"
  cs_customExtra :: "string gomap option"

(* src: api/bkecommon/v1beta1/bkecluster_spec.go 23-56 BKEClusterSpec *)
record bke_spec =
  bs_controlPlaneEndpoint :: api_endpoint
  bs_clusterConfig :: "cluster_spec option"
  bs_kubeletConfigRef :: "kubelet_ref option"
  bs_pause :: bool
  bs_dryRun :: bool
  bs_reset :: bool

(* src: api/bkecommon/v1beta1/bkecluster_spec.go 407-409 APIEndpoint.IsZero *)
definition endpoint_IsZero :: "api_endpoint \<Rightarrow> bool" where
  "endpoint_IsZero v \<longleftrightarrow> ep_host v = [] \<and> ep_port v = 0"

(* src: api/bkecommon/v1beta1/bkecluster_spec.go 412-414 APIEndpoint.IsValid *)
definition endpoint_IsValid :: "api_endpoint \<Rightarrow> bool" where
  "endpoint_IsValid v \<longleftrightarrow> ep_host v \<noteq> [] \<and> ep_port v \<noteq> 0"

text \<open>\<^verbatim>\<open>net.JoinHostPort\<close>: a host with a colon is put in brackets.\<close>

definition JoinHostPort :: "string \<Rightarrow> string \<Rightarrow> string" where
  "JoinHostPort host port = (if CHR '':'' \<in> set host then ''['' @ host @ '']:'' @ port else host @ '':'' @ port)"

(* src: api/bkecommon/v1beta1/bkecluster_spec.go 417-419 APIEndpoint.String *)
definition endpoint_String :: "api_endpoint \<Rightarrow> string" where
  "endpoint_String v = JoinHostPort (ep_host v) (Itoa (ep_port v))"

section \<open>Zero values\<close>

definition zero_repo :: repo where
  "zero_repo = \<lparr>rp_domain = [], rp_ip = [], rp_port = [], rp_prefix = [], rp_authSecretRef = None, rp_tlsSecretRef = None,
     rp_insecureSkipTLSVerify = False\<rparr>"

definition zero_component :: control_component where
  "zero_component = \<lparr>cc_extraArgs = None, cc_extraVolumes = []\<rparr>"

definition zero_control_plane :: control_plane where
  "zero_control_plane = \<lparr>cp_controllerManager = None, cp_scheduler = None, cp_apiServer = None, cp_etcd = None\<rparr>"

definition zero_config :: cluster_spec where
  "zero_config = \<lparr>cs_openFuyaoVersion = [], cs_containerdVersion = [], cs_kubernetesVersion = [], cs_etcdVersion = [],
     cs_controlPlane = zero_control_plane, cs_kubelet = None,
     cs_networking = \<lparr>nw_serviceSubnet = [], nw_podSubnet = [], nw_dnsDomain = []\<rparr>,
     cs_httpRepo = zero_repo, cs_imageRepo = zero_repo, cs_chartRepo = zero_repo,
     cs_containerRuntime = \<lparr>rt_cri = [], rt_runtime = [], rt_param = None\<rparr>, cs_containerdConfigRef = None,
     cs_certificatesDir = [], cs_ntpServer = [], cs_agentHealthPort = [], cs_labels = [], cs_addons = [], cs_customExtra = None\<rparr>"

definition empty_spec :: bke_spec where
  "empty_spec = \<lparr>bs_controlPlaneEndpoint = \<lparr>ep_host = [], ep_port = 0\<rparr>, bs_clusterConfig = None, bs_kubeletConfigRef = None,
     bs_pause = False, bs_dryRun = False, bs_reset = False\<rparr>"

lemma empty_spec_simps [simp]:
  "bs_clusterConfig empty_spec = None" "\<not> bs_pause empty_spec" "\<not> bs_dryRun empty_spec" "\<not> bs_reset empty_spec"
  by (simp_all add: empty_spec_def)

end
