(* ===== verification/Cluster_Api.thy ===== *)
theory Cluster_Api
  imports Cluster_Config "HOL-Library.Word"
begin

text \<open>
  The cluster object of the provider, from \<^verbatim>\<open>api/bkecommon/v1beta1\<close> and
  \<^verbatim>\<open>api/capbke/v1beta1\<close>: its status record, the versions its specification asks for, the
  record of a declarative upgrade's progress (\<^verbatim>\<open>DeclarativeUpgradeStatus\<close> with its methods)
  and the lifecycle entry of a component.

  The lemmas say that the completion list never holds two records of one component and version,
  that it only grows between resets, that the methods answer what was recorded, and what the
  32-bit failure counter counts.
\<close>

section \<open>Definitions\<close>

subsection \<open>Phases\<close>

(* src: api/bkecommon/v1beta1/bkecluster_status.go 25-26 BKEClusterPhase *)
type_synonym bke_phase = string

(* src: api/bkecommon/v1beta1/bkecluster_status.go 30-37 BKEClusterPhase.In *)
fun phase_In :: "bke_phase \<Rightarrow> bke_phase list \<Rightarrow> bool" where
  "phase_In p [] = False"
| "phase_In p (q # qs) = (if q = p then True else phase_In p qs)"

(* src: api/bkecommon/v1beta1/bkecluster_status.go 39-41 BKEClusterPhase.NotIn *)
definition phase_NotIn :: "bke_phase \<Rightarrow> bke_phase list \<Rightarrow> bool" where
  "phase_NotIn p qs = (\<not> phase_In p qs)"

(* src: api/bkecommon/v1beta1/bkecluster_status.go 43-48 BKEClusterPhases.Add *)
fun phases_Add :: "bke_phase list \<Rightarrow> bke_phase list \<Rightarrow> bke_phase list" where
  "phases_Add ps [] = ps"
| "phases_Add ps (q # qs) = phases_Add (ps @ [q]) qs"

(* src: api/bkecommon/v1beta1/bkecluster_status.go 50-73 BKEClusterPhases.Remove *)
fun phases_Remove :: "bke_phase list \<Rightarrow> bke_phase list \<Rightarrow> bke_phase list" where
  "phases_Remove [] rs = []"
| "phases_Remove (p # ps) rs =
     (if phase_In p rs then phases_Remove ps rs else p # phases_Remove ps rs)"

subsection \<open>Progress of a declarative upgrade\<close>

(* src: api/bkecommon/v1beta1/bkecluster_status.go 114-124 DeclarativeUpgradeComponentRecord *)
record completed_record =
  cr_name :: string
  cr_version :: string
  cr_completedAt :: gotime

(* src: api/bkecommon/v1beta1/bkecluster_status.go 126-143 DeclarativeUpgradeFailureRecord *)
record failure_record =
  fr_name :: string
  fr_version :: string
  fr_failedAt :: gotime
  fr_error :: string
  fr_attempt :: "32 word"

(* src: api/bkecommon/v1beta1/bkecluster_status.go 85-112 DeclarativeUpgradeStatus *)
record declarative_upgrade =
  du_targetVersion :: string
  du_startedAt :: "gotime option"
  du_finishedAt :: "gotime option"
  du_lastError :: string
  du_lastFailure :: "failure_record option"
  du_completed :: "completed_record list"

(* src: api/bkecommon/v1beta1/bkecluster_status.go 186-187 defaultComponentVersion *)
definition defaultComponentVersion :: string where
  "defaultComponentVersion = ''v1.0.0''"

(* src: api/bkecommon/v1beta1/bkecluster_status.go 179-184 normalizeUpgradeComponentVersion *)
definition normalizeUpgradeComponentVersion :: "string \<Rightarrow> string" where
  "normalizeUpgradeComponentVersion version = (if version = [] then defaultComponentVersion else version)"

text \<open>Every method accepts a nil receiver, so the receiver is an option.\<close>

(* src: api/bkecommon/v1beta1/bkecluster_status.go 147-157 DeclarativeUpgradeStatus.ResetForTarget *)
fun ResetForTarget :: "declarative_upgrade option \<Rightarrow> string \<Rightarrow> gotime \<Rightarrow> declarative_upgrade option" where
  "ResetForTarget None targetVersion now = None"
| "ResetForTarget (Some s) targetVersion now =
     Some (s\<lparr>du_targetVersion := targetVersion, du_startedAt := Some now, du_finishedAt := None,
             du_lastError := [], du_lastFailure := None, du_completed := []\<rparr>)"

(* src: api/bkecommon/v1beta1/bkecluster_status.go 161-177 DeclarativeUpgradeStatus.EnsureInitialized *)
fun EnsureInitialized :: "declarative_upgrade option \<Rightarrow> string \<Rightarrow> gotime \<Rightarrow>
    declarative_upgrade option \<times> bool" where
  "EnsureInitialized None targetVersion now = (None, True)"
| "EnsureInitialized (Some s) targetVersion now =
     (if du_targetVersion s \<noteq> targetVersion then (ResetForTarget (Some s) targetVersion now, True)
      else (Some (s\<lparr>du_startedAt := (case du_startedAt s of None \<Rightarrow> Some now | Some t \<Rightarrow> Some t),
                    du_finishedAt := None\<rparr>), False))"

(* src: api/bkecommon/v1beta1/bkecluster_status.go 195-204 DeclarativeUpgradeStatus.IsCompleted (loop) *)
fun completed_in :: "completed_record list \<Rightarrow> string \<Rightarrow> string \<Rightarrow> bool" where
  "completed_in [] name version = False"
| "completed_in (rc # rs) name version =
     (if cr_name rc \<noteq> name then completed_in rs name version
      else if normalizeUpgradeComponentVersion (cr_version rc) = version then True
      else completed_in rs name version)"

(* src: api/bkecommon/v1beta1/bkecluster_status.go 190-205 DeclarativeUpgradeStatus.IsCompleted *)
fun IsCompleted :: "declarative_upgrade option \<Rightarrow> string \<Rightarrow> string \<Rightarrow> bool" where
  "IsCompleted None name version = False"
| "IsCompleted (Some s) name version =
     completed_in (du_completed s) name (normalizeUpgradeComponentVersion version)"

(* src: api/bkecommon/v1beta1/bkecluster_status.go 208-221 DeclarativeUpgradeStatus.MarkCompleted *)
fun MarkCompleted :: "declarative_upgrade option \<Rightarrow> string \<Rightarrow> string \<Rightarrow> gotime \<Rightarrow> declarative_upgrade option" where
  "MarkCompleted None name version now = None"
| "MarkCompleted (Some s) name version now =
     (let v = normalizeUpgradeComponentVersion version
      in if IsCompleted (Some s) name v then Some s
         else Some (s\<lparr>du_completed := du_completed s @
                        [\<lparr>cr_name = name, cr_version = v, cr_completedAt = now\<rparr>]\<rparr>))"

(* src: api/bkecommon/v1beta1/bkecluster_status.go 225-246 DeclarativeUpgradeStatus.MarkFailure *)
fun MarkFailure :: "declarative_upgrade option \<Rightarrow> string \<Rightarrow> string \<Rightarrow> string \<Rightarrow> gotime \<Rightarrow>
    declarative_upgrade option" where
  "MarkFailure None name version errMsg now = None"
| "MarkFailure (Some s) name version errMsg now =
     (let v = normalizeUpgradeComponentVersion version;
          attempt = (case du_lastFailure s of
                       None \<Rightarrow> 1
                     | Some f \<Rightarrow>
                         if fr_name f = name \<and> normalizeUpgradeComponentVersion (fr_version f) = v \<and>
                            0 <s fr_attempt f
                         then fr_attempt f + 1 else 1)
      in Some (s\<lparr>du_lastFailure := Some \<lparr>fr_name = name, fr_version = v, fr_failedAt = now,
                                          fr_error = errMsg, fr_attempt = attempt\<rparr>,
                 du_lastError := errMsg\<rparr>))"

(* src: api/bkecommon/v1beta1/bkecluster_status.go 248-253 DeclarativeUpgradeStatus.ClearFailure *)
fun ClearFailure :: "declarative_upgrade option \<Rightarrow> declarative_upgrade option" where
  "ClearFailure None = None"
| "ClearFailure (Some s) = Some (s\<lparr>du_lastFailure := None\<rparr>)"

subsection \<open>Lifecycle entries, cluster status and specification\<close>

text \<open>The phase of a fresh entry is the empty string, \<open>NoPhase\<close>.\<close>

(* src: api/bkecommon/v1beta1/bkecluster_status.go 255-268 LifecyclePhase *)
datatype lifecycle_phase = NoPhase | Pending | Installing | Installed | Upgrading | RollingBack
  | Uninstalling | Removed | Failed

(* src: api/bkecommon/v1beta1/bkecluster_status.go 270-278 LifecycleComponentType *)
datatype lifecycle_type = NoType | NodeType | ClusterType

(* src: api/bkecommon/v1beta1/bkecluster_status.go 280-313 ComponentLifecycleStatus *)
record lifecycle_status =
  ls_name :: string
  ls_nodeIP :: string
  ls_componentType :: lifecycle_type
  ls_phase :: lifecycle_phase
  ls_currentVersion :: string
  ls_targetVersion :: string
  ls_lastTransitionTime :: "gotime option"
  ls_message :: string

(* src: api/bkecommon/v1beta1/bkecluster_status.go 373-398 ClusterCondition *)
record cluster_condition =
  cc_type :: string
  cc_addonName :: string
  cc_status :: string
  cc_lastTransitionTime :: "gotime option"
  cc_reason :: string
  cc_message :: string

(* src: api/bkecommon/v1beta1/bkecluster_status.go 400-410 BKEAgentStatus *)
record agent_status =
  as_replies :: "32 word"
  as_unavailableReplies :: "32 word"
  as_status :: string

(* src: api/bkecommon/v1beta1/bkecluster_status.go 412-416 BKEAgentStatus.Reset *)
definition AgentStatus_Reset :: "agent_status \<Rightarrow> agent_status" where
  "AgentStatus_Reset a = a\<lparr>as_replies := 0, as_unavailableReplies := 0, as_status := ''0/0''\<rparr>"

(* src: api/bkecommon/v1beta1/bkecluster_status.go 418-420 BKEAgentStatus.Ready *)
definition AgentStatus_Ready :: "agent_status \<Rightarrow> bool" where
  "AgentStatus_Ready a = (as_unavailableReplies a = 0)"

(* src: api/bkecommon/v1beta1/bkecluster_status.go 422-426 BKEAgentStatus.Equal *)
definition AgentStatus_Equal :: "agent_status \<Rightarrow> agent_status \<Rightarrow> bool" where
  "AgentStatus_Equal a b = (as_replies a = as_replies b \<and>
     as_unavailableReplies a = as_unavailableReplies b \<and> as_status a = as_status b)"

(* src: api/bkecommon/v1beta1/bkecluster_status.go 430-446 PhaseState *)
record phase_state =
  ps_name :: bke_phase
  ps_startTime :: "gotime option"
  ps_endTime :: "gotime option"
  ps_status :: string
  ps_message :: string

text \<open>\<^verbatim>\<open>ClusterComponentStatuses\<close> may be a nil map, so it is an option.\<close>

(* src: api/bkecommon/v1beta1/bkecluster_status.go 315-367 BKEClusterStatus *)
record cluster_status =
  st_ready :: bool
  st_openFuyaoVersion :: string
  st_kubernetesVersion :: string
  st_etcdVersion :: string
  st_containerdVersion :: string
  st_agentStatus :: agent_status
  st_phase :: bke_phase
  st_clusterStatus :: string
  st_clusterHealthState :: string
  st_addonStatus :: "product list"
  st_phaseStatus :: "phase_state list"
  st_conditions :: "cluster_condition list"
  st_declarativeUpgrade :: "declarative_upgrade option"
  st_componentStatuses :: "lifecycle_status gomap option"

(* src: api/capbke/v1beta1/bkecluster_types.go 35-41 BKECluster *)
record bke_cluster =
  bc_name :: string
  bc_namespace :: string
  bc_uid :: string
  bc_resourceVersion :: string
  bc_deletionTimestamp :: "gotime option"
  bc_finalizers :: "string list"
  bc_labels :: "string gomap"
  bc_annotations :: "string gomap"
  bc_spec :: bke_spec
  bc_status :: cluster_status

definition empty_status :: cluster_status where
  "empty_status = \<lparr>st_ready = False, st_openFuyaoVersion = [], st_kubernetesVersion = [], st_etcdVersion = [],
     st_containerdVersion = [], st_agentStatus = \<lparr>as_replies = 0, as_unavailableReplies = 0, as_status = []\<rparr>,
     st_phase = [], st_clusterStatus = [], st_clusterHealthState = [], st_addonStatus = [],
     st_phaseStatus = [], st_conditions = [], st_declarativeUpgrade = None, st_componentStatuses = None\<rparr>"

text \<open>The zero value of a cluster object, with a name.\<close>

definition blank_cluster :: "string \<Rightarrow> string \<Rightarrow> bke_cluster" where
  "blank_cluster ns name = \<lparr>bc_name = name, bc_namespace = ns, bc_uid = [], bc_resourceVersion = [], bc_deletionTimestamp = None,
     bc_finalizers = [], bc_labels = [], bc_annotations = [], bc_spec = empty_spec, bc_status = empty_status\<rparr>"

lemma blank_cluster_simps [simp]:
  "bc_name (blank_cluster ns name) = name" "bc_namespace (blank_cluster ns name) = ns"
  "bc_uid (blank_cluster ns name) = []" "bc_annotations (blank_cluster ns name) = []"
  "bc_labels (blank_cluster ns name) = []" "bc_deletionTimestamp (blank_cluster ns name) = None"
  "bc_spec (blank_cluster ns name) = empty_spec" "bc_status (blank_cluster ns name) = empty_status"
  by (simp_all add: blank_cluster_def)

section \<open>Phase lists\<close>

lemma phase_In_iff [simp]: "phase_In p qs \<longleftrightarrow> p \<in> set qs"
  by (induction qs) auto

lemma phases_Add_append [simp]: "phases_Add ps qs = ps @ qs"
  by (induction qs arbitrary: ps) auto

lemma phases_Remove_filter [simp]: "phases_Remove ps rs = filter (\<lambda>p. p \<notin> set rs) ps"
  by (induction ps) auto

section \<open>The completion list\<close>

definition completed_keys :: "declarative_upgrade \<Rightarrow> (string \<times> string) list" where
  "completed_keys s = map (\<lambda>rc. (cr_name rc, normalizeUpgradeComponentVersion (cr_version rc))) (du_completed s)"

definition progress_wf :: "declarative_upgrade \<Rightarrow> bool" where
  "progress_wf s \<longleftrightarrow> distinct (completed_keys s)"

abbreviation norm_version :: "string \<Rightarrow> string" where
  "norm_version \<equiv> normalizeUpgradeComponentVersion"

lemma norm_version_nonempty [simp]: "norm_version v \<noteq> []"
  by (simp add: normalizeUpgradeComponentVersion_def defaultComponentVersion_def)

lemma norm_version_idem [simp]: "norm_version (norm_version v) = norm_version v"
  by (simp add: normalizeUpgradeComponentVersion_def defaultComponentVersion_def)

lemma completed_in_iff: "completed_in rs name v \<longleftrightarrow>
    (name, v) \<in> (\<lambda>rc. (cr_name rc, norm_version (cr_version rc))) ` set rs"
  by (induction rs) auto

lemma IsCompleted_iff [simp]:
  "IsCompleted (Some s) name v \<longleftrightarrow> (name, norm_version v) \<in> set (completed_keys s)"
  by (simp add: completed_in_iff completed_keys_def)

declare IsCompleted.simps(2) [simp del]

lemma MarkCompleted_keys:
  "completed_keys (the (MarkCompleted (Some s) name v now)) =
     (if (name, norm_version v) \<in> set (completed_keys s) then completed_keys s
      else completed_keys s @ [(name, norm_version v)])"
  by (simp add: Let_def) (simp add: completed_keys_def)

lemma MarkCompleted_Some: "\<exists>s'. MarkCompleted (Some s) name v now = Some s'"
  by (simp add: Let_def)

lemma MarkFailure_keys [simp]:
  "MarkFailure (Some s) name v e now = Some s' \<Longrightarrow> completed_keys s' = completed_keys s"
  by (auto simp: Let_def completed_keys_def)

text \<open>The record of progress as an interface: marking adds exactly one key, resetting removes all
  of them, and asking reports the keys.\<close>

locale progress_record =
  fixes done_keys :: "'s \<Rightarrow> (string \<times> string) set"
    and mark :: "'s \<Rightarrow> string \<Rightarrow> string \<Rightarrow> gotime \<Rightarrow> 's"
    and asked :: "'s \<Rightarrow> string \<Rightarrow> string \<Rightarrow> bool"
    and key :: "string \<Rightarrow> string"
  assumes mark_keys: "done_keys (mark s n v t) = insert (n, key v) (done_keys s)"
    and asked_iff: "asked s n v \<longleftrightarrow> (n, key v) \<in> done_keys s"
begin

lemma mark_all_keys:
  "done_keys (fold (\<lambda>(n, v) s. mark s n v t) ks s) = done_keys s \<union> {(n, key v) |n v. (n, v) \<in> set ks}"
  by (induction ks arbitrary: s) (auto simp: mark_keys)

lemma mark_asked: "asked (mark s n v t) n v"
  by (simp add: asked_iff mark_keys)

lemma mark_mono: "asked s m w \<Longrightarrow> asked (mark s n v t) m w"
  by (simp add: asked_iff mark_keys)

lemma mark_all_asked: "asked (fold (\<lambda>(n, v) s. mark s n v t) ks s) m w \<longleftrightarrow>
    asked s m w \<or> (\<exists>v. (m, v) \<in> set ks \<and> key v = key w)"
  by (auto simp: asked_iff mark_all_keys)

end

definition marked :: "declarative_upgrade \<Rightarrow> string \<Rightarrow> string \<Rightarrow> gotime \<Rightarrow> declarative_upgrade" where
  "marked s name v now = the (MarkCompleted (Some s) name v now)"

lemma MarkCompleted_marked [simp]: "MarkCompleted (Some s) name v now = Some (marked s name v now)"
  using MarkCompleted_Some [of s name v now] by (auto simp: marked_def)

declare MarkCompleted.simps(2) [simp del]

interpretation pr: progress_record "\<lambda>s. set (completed_keys s)" marked
  "\<lambda>s. IsCompleted (Some s)" norm_version
  by unfold_locales (auto simp: marked_def MarkCompleted_keys simp del: MarkCompleted_marked)

lemma marked_wf: "progress_wf s \<Longrightarrow> progress_wf (marked s name v now)"
  by (simp add: progress_wf_def marked_def MarkCompleted_keys del: MarkCompleted_marked)

definition progress_keys :: "declarative_upgrade option \<Rightarrow> (string \<times> string) set" where
  "progress_keys s = (case s of None \<Rightarrow> {} | Some d \<Rightarrow> set (completed_keys d))"

section \<open>Histories of a progress record\<close>

datatype progress_op =
    OpInit string gotime
  | OpDone string string gotime
  | OpFail string string string gotime
  | OpClear

fun progress_step :: "declarative_upgrade option \<Rightarrow> progress_op \<Rightarrow> declarative_upgrade option" where
  "progress_step s (OpInit target now) = fst (EnsureInitialized s target now)"
| "progress_step s (OpDone name v now) = MarkCompleted s name v now"
| "progress_step s (OpFail name v e now) = MarkFailure s name v e now"
| "progress_step s OpClear = ClearFailure s"

text \<open>What the record promises: the target and the set of components completed for it.\<close>

fun progress_spec :: "string \<times> (string \<times> string) set \<Rightarrow> progress_op \<Rightarrow> string \<times> (string \<times> string) set" where
  "progress_spec (target, K) (OpInit t now) = (if t = target then (target, K) else (t, {}))"
| "progress_spec (target, K) (OpDone name v now) = (target, insert (name, norm_version v) K)"
| "progress_spec (target, K) (OpFail name v e now) = (target, K)"
| "progress_spec (target, K) OpClear = (target, K)"

definition progress_abs :: "declarative_upgrade \<Rightarrow> string \<times> (string \<times> string) set" where
  "progress_abs s = (du_targetVersion s, set (completed_keys s))"

lemma marked_target [simp]: "du_targetVersion (marked s n v t) = du_targetVersion s"
  by (simp add: marked_def MarkCompleted.simps(2) Let_def del: MarkCompleted_marked)

lemma progress_step_refines:
  "\<exists>s'. progress_step (Some s) op = Some s' \<and> progress_abs s' = progress_spec (progress_abs s) op \<and>
     (progress_wf s \<longrightarrow> progress_wf s')"
proof (cases op)
  case (OpDone name v now)
  then show ?thesis by (simp add: progress_abs_def pr.mark_keys marked_wf)
qed (auto simp: progress_abs_def Let_def completed_keys_def progress_wf_def)

lemma progress_run_refines:
  "\<exists>s'. fold (\<lambda>op s. progress_step s op) ops (Some s) = Some s' \<and>
     progress_abs s' = fold (\<lambda>op a. progress_spec a op) ops (progress_abs s) \<and>
     (progress_wf s \<longrightarrow> progress_wf s')"
proof (induction ops arbitrary: s)
  case (Cons op ops)
  obtain s1 where s1: "progress_step (Some s) op = Some s1"
    "progress_abs s1 = progress_spec (progress_abs s) op" "progress_wf s \<longrightarrow> progress_wf s1"
    using progress_step_refines by blast
  from Cons.IH [of s1] s1 show ?case by auto
qed simp

section \<open>Properties\<close>

text \<open>C32. Whatever sequence of \<^verbatim>\<open>EnsureInitialized\<close>, \<^verbatim>\<open>MarkCompleted\<close>,
  \<^verbatim>\<open>MarkFailure\<close> and \<^verbatim>\<open>ClearFailure\<close> calls is applied to a progress record, its target and
  its completed components are those of the abstract history: a completion adds exactly its key,
  only a change of target forgets completions, failures never do; \<^verbatim>\<open>IsCompleted\<close> answers
  exactly membership, an empty version counting as the default one.\<close>

theorem progress_refines:
  "\<exists>s'. fold (\<lambda>op st. progress_step st op) ops (Some s) = Some s' \<and>
     progress_abs s' = fold (\<lambda>op a. progress_spec a op) ops (progress_abs s) \<and>
     (\<forall>name v. IsCompleted (Some s') name v \<longleftrightarrow>
        (name, norm_version v) \<in> snd (fold (\<lambda>op a. progress_spec a op) ops (progress_abs s)))"
proof -
  obtain s' where "fold (\<lambda>op st. progress_step st op) ops (Some s) = Some s'"
    and a: "progress_abs s' = fold (\<lambda>op a. progress_spec a op) ops (progress_abs s)"
    using progress_run_refines by blast
  moreover have "set (completed_keys s') = snd (fold (\<lambda>op a. progress_spec a op) ops (progress_abs s))"
    using a by (metis progress_abs_def snd_conv)
  ultimately show ?thesis by auto
qed

text \<open>The completion list never holds two records of the same component and version.\<close>

theorem progress_no_duplicates:
  assumes "progress_wf s"
  shows "case fold (\<lambda>op st. progress_step st op) ops (Some s) of
           None \<Rightarrow> False | Some s' \<Rightarrow> progress_wf s'"
  using progress_run_refines [of ops s] assms by auto

definition fresh_progress :: declarative_upgrade where
  "fresh_progress = \<lparr>du_targetVersion = ''v2'', du_startedAt = None, du_finishedAt = None,
     du_lastError = [], du_lastFailure = None, du_completed = []\<rparr>"

theorem progress_no_duplicates_witness:
  "case fold (\<lambda>op st. progress_step st op) [OpDone ''etcd'' [] 3, OpDone ''etcd'' ''v1.0.0'' 4] (Some fresh_progress) of
     None \<Rightarrow> False | Some s' \<Rightarrow> progress_wf s'"
  by (rule progress_no_duplicates) (simp add: progress_wf_def completed_keys_def fresh_progress_def)

fun fail_again :: "nat \<Rightarrow> string \<Rightarrow> string \<Rightarrow> string \<Rightarrow> declarative_upgrade option \<Rightarrow> declarative_upgrade option" where
  "fail_again 0 name v e s = s"
| "fail_again (Suc n) name v e s = fail_again n name v e (MarkFailure s name v e n)"

lemma sword_pos: "n < 2 ^ 31 \<Longrightarrow> 0 < n \<Longrightarrow> 0 <s (word_of_nat n :: 32 word)"
  by (simp add: word_sless_alt signed_of_nat signed_take_bit_int_eq_self)

lemma MarkFailure_again:
  assumes "du_lastFailure s = Some f" "fr_name f = name" "fr_version f = norm_version v"
    "fr_attempt f = word_of_nat k" "0 < k" "k < 2 ^ 31"
  shows "\<exists>s' f'. MarkFailure (Some s) name v e t = Some s' \<and> du_lastFailure s' = Some f' \<and>
    fr_name f' = name \<and> fr_version f' = norm_version v \<and> fr_attempt f' = word_of_nat (Suc k)"
  using assms sword_pos [of k] by (simp add: Let_def)

lemma fail_again_count:
  "du_lastFailure s = Some f \<Longrightarrow> fr_name f = name \<Longrightarrow> fr_version f = norm_version v \<Longrightarrow>
   fr_attempt f = word_of_nat k \<Longrightarrow> 0 < k \<Longrightarrow> k + n < 2 ^ 31 \<Longrightarrow>
   \<exists>s' f'. fail_again n name v e (Some s) = Some s' \<and> du_lastFailure s' = Some f' \<and>
     fr_name f' = name \<and> fr_attempt f' = word_of_nat (k + n)"
proof (induction n arbitrary: s f k)
  case (Suc n)
  from MarkFailure_again [OF Suc.prems(1-5), of e n] Suc.prems(6)
  obtain s1 f1 where "MarkFailure (Some s) name v e n = Some s1" "du_lastFailure s1 = Some f1"
    "fr_name f1 = name" "fr_version f1 = norm_version v" "fr_attempt f1 = word_of_nat (Suc k)" by auto
  with Suc.IH [of s1 f1 "Suc k"] Suc.prems(6) show ?case by simp
qed auto

text \<open>The attempt counter counts consecutive failures: after \<open>n + 1\<close> failures in a row of one
  component and version, the first of them following a failure of another component (or none), the
  recorded attempt is \<open>n + 1\<close>, for every count a signed 32-bit integer can hold.\<close>

theorem failure_attempts:
  assumes other: "\<forall>f. du_lastFailure s = Some f \<longrightarrow> fr_name f \<noteq> name" and bound: "n + 1 < 2 ^ 31"
  shows "\<exists>s' f. fail_again (n + 1) name v e (Some s) = Some s' \<and> du_lastFailure s' = Some f \<and>
    fr_name f = name \<and> fr_attempt f = word_of_nat (n + 1)"
proof -
  obtain s1 f1 where "MarkFailure (Some s) name v e n = Some s1" "du_lastFailure s1 = Some f1"
    "fr_name f1 = name" "fr_version f1 = norm_version v" "fr_attempt f1 = word_of_nat 1"
    using other by (cases "du_lastFailure s") (auto simp: Let_def)
  with fail_again_count [of s1 f1 name v 1 n e] bound show ?thesis by simp
qed

theorem failure_attempts_witness:
  "\<exists>s' f. fail_again (2 + 1) ''etcd'' [] ''timeout'' (Some fresh_progress) = Some s' \<and>
     du_lastFailure s' = Some f \<and> fr_name f = ''etcd'' \<and> fr_attempt f = word_of_nat (2 + 1)"
  by (rule failure_attempts) (simp_all add: fresh_progress_def)

end
