(* ===== verification/Upgrade_Plan.thy ===== *)
theory Upgrade_Plan
  imports Topology Cluster_Api
begin

text \<open>
  From a release to an upgrade plan (\<^verbatim>\<open>pkg/upgrade\<close>, \<^verbatim>\<open>pkg/phaseframe/version_context.go\<close>):
  the release bundle, the per-component current and target versions (\<^verbatim>\<open>VersionContext\<close>), the
  decision whether a component has to run, the dependency graph of a bundle, and the write-back of
  versions into the cluster's specification and status.

  The results: a decision is \<^verbatim>\<open>Skip\<close> exactly when there is nothing to align; the context built
  for an upgrade holds the bundle's versions, the upgrade entries overriding the install entries;
  every component of a bundle runs after \<^verbatim>\<open>pre-upgrade-resources\<close> when the bundle has it; the
  sync of targets into the specification is idempotent and leaves nothing to sync; after a finished
  hop the cluster reports the versions of the hop and nothing is left to upgrade.
\<close>

section \<open>Definitions\<close>

subsection \<open>Releases and bundles\<close>

(* src: api/v1alpha1/componentversion_types.go 57-61 InlineSpec *)
record inline_spec =
  is_handler :: string
  is_version :: string

(* src: api/v1alpha1/componentversion_types.go 138-142 SubComponent *)
record sub_component =
  sc_name :: string
  sc_version :: string

(* src: api/v1alpha1/componentversion_types.go 149-153 Constraint *)
record compat_constraint =
  cn_component :: string
  cn_rule :: string

text \<open>Of a \<^verbatim>\<open>ComponentVersion\<close>, the fields that decide planning and compatibility; the
  manifests themselves are data for the appliers.\<close>

(* src: api/v1alpha1/componentversion_types.go 31-45 ComponentVersionSpec *)
record component_version =
  cv_name :: string
  cv_type :: string
  cv_version :: string
  cv_inline :: "inline_spec option"
  cv_subComponents :: "sub_component list"
  cv_constraints :: "compat_constraint list"
  cv_dependencies :: "dependency list"

(* src: api/v1alpha1/releaseimage_types.go 50-54 ReleaseImageInstallComponent *)
record install_component =
  ic_name :: string
  ic_version :: string

(* src: api/v1alpha1/releaseimage_types.go 34-43 ReleaseImageSpec *)
record release_spec =
  rs_version :: string
  rs_digest :: string
  rs_verifySignature :: bool
  rs_signatureKey :: string
  rs_allowCacheFallback :: bool
  rs_install :: "install_component list option"
  rs_upgrade :: "upgrade_component list option"

(* src: api/v1alpha1/releaseimage_types.go 25-32 ReleaseImage *)
record release_image =
  ri_name :: string
  ri_spec :: release_spec

(* src: pkg/release/manifest/types.go 50-58 Bundle *)
record release_bundle =
  bu_release :: release_image
  bu_components :: "component_version gomap"
  bu_files :: "string gomap"
  bu_digest :: string
  bu_source :: string
  bu_cacheFallback :: bool

(* src: pkg/release/manifest/types.go 89-91 ComponentKey *)
definition ComponentKey :: "string \<Rightarrow> string \<Rightarrow> string" where
  "ComponentKey name version = TrimSpace name @ ''@'' @ TrimSpace version"

(* src: pkg/topology/build.go 117-128 ComponentVersionResolver *)
definition ComponentVersionResolver :: "(string \<Rightarrow> string \<Rightarrow> string + component_version option) option \<Rightarrow> resolver" where
  "ComponentVersionResolver lookup = Some (\<lambda>name version.
     (case lookup of
        None \<Rightarrow> Inr []
      | Some f \<Rightarrow> (case f name version of
                     Inl err \<Rightarrow> Inl err
                   | Inr None \<Rightarrow> Inr []
                   | Inr (Some cv) \<Rightarrow> Inr (ComponentDependencyNames (cv_dependencies cv)))))"

subsection \<open>components.go, catalog.go\<close>

(* src: pkg/upgrade/components.go 17-17 ComponentEtcd *)
definition ComponentEtcd :: string where
  "ComponentEtcd = ''etcd''"

(* src: pkg/upgrade/components.go 18-18 ComponentKubernetesMaster *)
definition ComponentKubernetesMaster :: string where
  "ComponentKubernetesMaster = ''kubernetes-master''"

(* src: pkg/upgrade/components.go 19-19 ComponentKubernetesWorker *)
definition ComponentKubernetesWorker :: string where
  "ComponentKubernetesWorker = ''kubernetes-worker''"

(* src: pkg/upgrade/components.go 20-20 ComponentOpenFuyao *)
definition ComponentOpenFuyao :: string where
  "ComponentOpenFuyao = ''openfuyao''"

(* src: pkg/upgrade/components.go 21-21 ComponentContainerd *)
definition ComponentContainerd :: string where
  "ComponentContainerd = ''containerd''"

(* src: pkg/upgrade/components.go 22-22 ComponentBKEAgent *)
definition ComponentBKEAgent :: string where
  "ComponentBKEAgent = ''bkeagent''"

(* src: pkg/upgrade/components.go 23-23 ComponentPreUpgradeResources *)
definition ComponentPreUpgradeResources :: string where
  "ComponentPreUpgradeResources = ''pre-upgrade-resources''"

(* src: pkg/upgrade/components.go 24-24 ComponentProvider *)
definition ComponentProvider :: string where
  "ComponentProvider = ''provider''"

(* src: pkg/upgrade/components.go 25-25 ComponentKubeProxy *)
definition ComponentKubeProxy :: string where
  "ComponentKubeProxy = ''kube-proxy''"

(* src: pkg/upgrade/components.go 26-26 ComponentCoreDNS *)
definition ComponentCoreDNS :: string where
  "ComponentCoreDNS = ''coredns''"

lemmas component_names = ComponentEtcd_def ComponentKubernetesMaster_def ComponentKubernetesWorker_def
  ComponentOpenFuyao_def ComponentContainerd_def ComponentBKEAgent_def ComponentPreUpgradeResources_def
  ComponentProvider_def ComponentKubeProxy_def ComponentCoreDNS_def

(* src: pkg/upgrade/catalog.go 31-37 UpgradeExecutionMode *)
datatype execution_mode = ManifestMode | InlineMode

(* src: pkg/upgrade/catalog.go 39-51 UpgradeComponentSpec *)
record upgrade_component_spec =
  us_name :: string
  us_version :: string
  us_mode :: execution_mode
  us_manifestPath :: string
  us_legacyPhase :: string
  us_inlineHandler :: string

(* src: pkg/upgrade/catalog.go 15-16 ComponentManifestVersion *)
definition ComponentManifestVersion :: string where
  "ComponentManifestVersion = ''v1.0.0''"

(* src: pkg/upgrade/catalog.go 120-122 ManifestComponentManifestPath *)
definition ManifestComponentManifestPath :: "string \<Rightarrow> string \<Rightarrow> string" where
  "ManifestComponentManifestPath componentName version = componentName @ ''/'' @ version @ ''/component.yaml''"

(* src: pkg/upgrade/catalog.go 18-29 InlineHandler constants, inline catalog entry *)
definition inline_entry :: "string \<Rightarrow> string \<Rightarrow> upgrade_component_spec" where
  "inline_entry name handler =
     \<lparr>us_name = name, us_version = ComponentManifestVersion, us_mode = InlineMode, us_manifestPath = [],
      us_legacyPhase = handler, us_inlineHandler = handler\<rparr>"

(* src: pkg/upgrade/catalog.go 62-68 DeclarativeUpgradeCatalog (manifest entry) *)
definition manifest_entry :: "string \<Rightarrow> string \<Rightarrow> upgrade_component_spec" where
  "manifest_entry name legacy =
     \<lparr>us_name = name, us_version = ComponentManifestVersion, us_mode = ManifestMode,
      us_manifestPath = ManifestComponentManifestPath name ComponentManifestVersion,
      us_legacyPhase = legacy, us_inlineHandler = []\<rparr>"

(* src: pkg/upgrade/catalog.go 53-117 DeclarativeUpgradeCatalog *)
definition DeclarativeUpgradeCatalog :: "upgrade_component_spec list" where
  "DeclarativeUpgradeCatalog =
     [inline_entry ComponentPreUpgradeResources ''EnsurePreUpgradeResources'',
      manifest_entry ComponentProvider ''EnsureProviderSelfUpgrade'',
      inline_entry ComponentBKEAgent ''EnsureAgentUpgrade'',
      manifest_entry ComponentKubeProxy [],
      manifest_entry ComponentCoreDNS ''EnsureComponentUpgrade'',
      inline_entry ComponentEtcd ''EnsureEtcdUpgrade'',
      inline_entry ComponentKubernetesMaster ''EnsureMasterUpgrade'',
      inline_entry ComponentKubernetesWorker ''EnsureWorkerUpgrade'',
      inline_entry ComponentContainerd ''EnsureContainerdUpgrade'']"

(* src: pkg/upgrade/catalog.go 125-133 InlineUpgradeHandlers *)
definition InlineUpgradeHandlers :: "string list" where
  "InlineUpgradeHandlers =
     map us_inlineHandler (filter (\<lambda>s. us_mode s = InlineMode \<and> us_inlineHandler s \<noteq> []) DeclarativeUpgradeCatalog)"

subsection \<open>context.go\<close>

(* src: pkg/upgrade/context.go 20-30 Decision *)
datatype decision = DecisionSkip | DecisionUpgrade

(* src: pkg/upgrade/context.go 32-37 VersionContext *)
record version_context =
  vc_current :: "string gomap"
  vc_target :: "string gomap"

(* src: pkg/upgrade/context.go 40-45 NewVersionContext *)
definition NewVersionContext :: version_context where
  "NewVersionContext = \<lparr>vc_current = [], vc_target = []\<rparr>"

(* src: pkg/upgrade/context.go 48-55 VersionContext.SetCurrent *)
definition SetCurrent :: "string \<Rightarrow> string \<Rightarrow> version_context \<Rightarrow> version_context" where
  "SetCurrent name version vc = vc\<lparr>vc_current := AList.update name version (vc_current vc)\<rparr>"

(* src: pkg/upgrade/context.go 58-65 VersionContext.SetTarget *)
definition SetTarget :: "string \<Rightarrow> string \<Rightarrow> version_context \<Rightarrow> version_context" where
  "SetTarget name version vc = vc\<lparr>vc_target := AList.update name version (vc_target vc)\<rparr>"

(* src: pkg/upgrade/context.go 80-91 VersionContext.CurrentVersion *)
definition CurrentVersion :: "version_context option \<Rightarrow> string \<Rightarrow> string \<times> bool" where
  "CurrentVersion vco name =
     (case vco of None \<Rightarrow> ([], False)
      | Some vc \<Rightarrow> let v = get_or [] (vc_current vc) name in if v = [] then ([], False) else (v, True))"

(* src: pkg/upgrade/context.go 94-105 VersionContext.TargetVersion *)
definition TargetVersion :: "version_context option \<Rightarrow> string \<Rightarrow> string \<times> bool" where
  "TargetVersion vco name =
     (case vco of None \<Rightarrow> ([], False)
      | Some vc \<Rightarrow> let v = get_or [] (vc_target vc) name in if v = [] then ([], False) else (v, True))"

(* src: pkg/upgrade/context.go 68-71 VersionContext.GetCurrent *)
definition GetCurrent :: "version_context option \<Rightarrow> string \<Rightarrow> string" where
  "GetCurrent vco name = fst (CurrentVersion vco name)"

(* src: pkg/upgrade/context.go 74-77 VersionContext.GetTarget *)
definition GetTarget :: "version_context option \<Rightarrow> string \<Rightarrow> string" where
  "GetTarget vco name = fst (TargetVersion vco name)"

(* src: pkg/upgrade/context.go 108-111 VersionContext.HasCurrent *)
definition HasCurrent :: "version_context option \<Rightarrow> string \<Rightarrow> bool" where
  "HasCurrent vco name = snd (CurrentVersion vco name)"

(* src: pkg/upgrade/context.go 114-117 VersionContext.HasTarget *)
definition HasTarget :: "version_context option \<Rightarrow> string \<Rightarrow> bool" where
  "HasTarget vco name = snd (TargetVersion vco name)"

(* src: pkg/upgrade/context.go 121-132 VersionContext.NeedsUpgrade *)
definition NeedsUpgrade :: "version_context option \<Rightarrow> string \<Rightarrow> bool" where
  "NeedsUpgrade vco name =
     (case vco of None \<Rightarrow> False
      | Some vc \<Rightarrow> let target = get_or [] (vc_target vc) name
                   in if target = [] then False else get_or [] (vc_current vc) name \<noteq> target)"

(* src: pkg/upgrade/context.go 139-149 Decide *)
definition Decide :: "version_context option \<Rightarrow> string \<Rightarrow> decision" where
  "Decide vco name =
     (case vco of None \<Rightarrow> DecisionUpgrade
      | Some vc \<Rightarrow> if get_or [] (vc_current vc) name = get_or [] (vc_target vc) name \<or>
                      get_or [] (vc_target vc) name = []
                   then DecisionSkip else DecisionUpgrade)"

(* src: pkg/upgrade/context.go 152-154 NeedsExecution *)
definition NeedsExecution :: "version_context option \<Rightarrow> string \<Rightarrow> bool" where
  "NeedsExecution vco name = (Decide vco name \<noteq> DecisionSkip)"

(* src: pkg/upgrade/context.go 163-170 VersionContext.AnyTargetNeedsUpgrade (loop) *)
fun any_target :: "string gomap \<Rightarrow> version_context \<Rightarrow> bool" where
  "any_target [] vc = False"
| "any_target ((name, target) # ts) vc =
     (if target = [] then any_target ts vc
      else if get_or [] (vc_current vc) name \<noteq> target then True
      else any_target ts vc)"

(* src: pkg/upgrade/context.go 157-172 VersionContext.AnyTargetNeedsUpgrade *)
definition AnyTargetNeedsUpgrade :: "version_context option \<Rightarrow> bool" where
  "AnyTargetNeedsUpgrade vco = (case vco of None \<Rightarrow> False | Some vc \<Rightarrow> any_target (vc_target vc) vc)"

(* src: pkg/upgrade/context.go 175-189 VersionContext.TargetNames *)
definition TargetNames :: "version_context option \<Rightarrow> string list" where
  "TargetNames vco =
     (case vco of None \<Rightarrow> [] | Some vc \<Rightarrow> sort (map fst (filter (\<lambda>(n, v). v \<noteq> []) (vc_target vc))))"

subsection \<open>build.go, build_release.go\<close>

(* src: pkg/upgrade/build.go 21-49 BuildVersionContextFromBKECluster *)
definition BuildVersionContextFromBKECluster :: "bke_cluster option \<Rightarrow> version_context" where
  "BuildVersionContextFromBKECluster bco =
     (case bco of None \<Rightarrow> NewVersionContext
      | Some bc \<Rightarrow> (case bs_clusterConfig (bc_spec bc) of
          None \<Rightarrow> NewVersionContext
        | Some spec \<Rightarrow>
            let status = bc_status bc;
                k8sCurrent = st_kubernetesVersion status; k8sTarget = cs_kubernetesVersion spec
            in (SetTarget ComponentContainerd (cs_containerdVersion spec) \<circ>
                SetCurrent ComponentContainerd (st_containerdVersion status) \<circ>
                SetTarget ComponentOpenFuyao (cs_openFuyaoVersion spec) \<circ>
                SetCurrent ComponentOpenFuyao (st_openFuyaoVersion status) \<circ>
                SetTarget ComponentKubernetesWorker k8sTarget \<circ>
                SetCurrent ComponentKubernetesWorker k8sCurrent \<circ>
                SetTarget ComponentKubernetesMaster k8sTarget \<circ>
                SetCurrent ComponentKubernetesMaster k8sCurrent \<circ>
                SetTarget ComponentEtcd (cs_etcdVersion spec) \<circ>
                SetCurrent ComponentEtcd (st_etcdVersion status)) NewVersionContext))"

(* src: pkg/upgrade/build_release.go 65-81 applyReleaseComponents *)
definition applyReleaseComponents :: "(string \<Rightarrow> string \<Rightarrow> version_context \<Rightarrow> version_context) \<Rightarrow> release_bundle \<Rightarrow>
    version_context \<Rightarrow> version_context" where
  "applyReleaseComponents set_version b vc =
     (let spec = ri_spec (bu_release b);
          vc1 = (case rs_install spec of None \<Rightarrow> vc
                 | Some cs \<Rightarrow> fold (\<lambda>c. if ic_name c \<noteq> [] \<and> ic_version c \<noteq> []
                                         then set_version (ic_name c) (ic_version c) else id) cs vc)
      in (case rs_upgrade spec of None \<Rightarrow> vc1
          | Some cs \<Rightarrow> fold (\<lambda>c. if uc_name c \<noteq> [] \<and> uc_version c \<noteq> []
                                  then set_version (uc_name c) (uc_version c) else id) cs vc1))"

(* src: pkg/upgrade/build_release.go 22-27 FillTargetFromBundle *)
definition FillTargetFromBundle :: "version_context \<Rightarrow> release_bundle option \<Rightarrow> version_context" where
  "FillTargetFromBundle vc b = (case b of None \<Rightarrow> vc | Some b \<Rightarrow> applyReleaseComponents SetTarget b vc)"

(* src: pkg/upgrade/build_release.go 30-35 FillCurrentFromBundle *)
definition FillCurrentFromBundle :: "version_context \<Rightarrow> release_bundle option \<Rightarrow> version_context" where
  "FillCurrentFromBundle vc b = (case b of None \<Rightarrow> vc | Some b \<Rightarrow> applyReleaseComponents SetCurrent b vc)"

(* src: pkg/upgrade/build_release.go 114-118 clusterCurrentForReleaseComponent (addon loop) *)
fun addon_version :: "product list \<Rightarrow> string \<Rightarrow> string option" where
  "addon_version [] name = None"
| "addon_version (a # as) name =
     (if pr_name a = name \<and> pr_version a \<noteq> [] then Some (pr_version a) else addon_version as name)"

(* src: pkg/upgrade/build_release.go 98-123 clusterCurrentForReleaseComponent *)
definition clusterCurrentForReleaseComponent :: "bke_cluster option \<Rightarrow> string \<Rightarrow> string" where
  "clusterCurrentForReleaseComponent bco componentName =
     (case bco of None \<Rightarrow> []
      | Some bc \<Rightarrow>
          let st = bc_status bc
          in if componentName = ComponentEtcd then st_etcdVersion st
             else if componentName = ComponentKubernetesMaster \<or> componentName = ComponentKubernetesWorker
             then st_kubernetesVersion st
             else if componentName = ComponentContainerd then st_containerdVersion st
             else if componentName = ComponentOpenFuyao then st_openFuyaoVersion st
             else case addon_version (st_addonStatus st) componentName of
                    Some v \<Rightarrow> v
                  | None \<Rightarrow>
                      (case st_componentStatuses st of None \<Rightarrow> []
                       | Some m \<Rightarrow> (case map_of m componentName of None \<Rightarrow> []
                                    | Some ls \<Rightarrow> if ls_currentVersion ls \<noteq> [] then ls_currentVersion ls else [])))"

(* src: pkg/upgrade/build_release.go 83-95 fillCurrentFromBKECluster *)
definition fillCurrentFromBKECluster :: "version_context \<Rightarrow> bke_cluster option \<Rightarrow> version_context" where
  "fillCurrentFromBKECluster vc bco =
     (case bco of None \<Rightarrow> vc
      | Some bc \<Rightarrow> fold (\<lambda>name vc.
           if GetCurrent (Some vc) name \<noteq> [] then vc
           else let cur = clusterCurrentForReleaseComponent bco name
                in if cur \<noteq> [] then SetCurrent name cur vc else vc)
           (TargetNames (Some vc)) vc)"

(* src: pkg/upgrade/build_release.go 40-63 BuildVersionContextForUpgrade *)
definition BuildVersionContextForUpgrade :: "release_bundle option \<Rightarrow> release_bundle option \<Rightarrow> bke_cluster option \<Rightarrow> version_context" where
  "BuildVersionContextForUpgrade targetBundle currentBundle bco =
     (let vc = (case targetBundle of
                  Some b \<Rightarrow> FillTargetFromBundle NewVersionContext (Some b)
                | None \<Rightarrow> (case bco of None \<Rightarrow> NewVersionContext
                    | Some bc \<Rightarrow> fold (\<lambda>(name, version). if version \<noteq> [] then SetTarget name version else id)
                                   (vc_target (BuildVersionContextFromBKECluster bco)) NewVersionContext))
      in (case currentBundle of
            Some b \<Rightarrow> FillCurrentFromBundle vc (Some b)
          | None \<Rightarrow> fillCurrentFromBKECluster vc bco))"

subsection \<open>bundle.go, releaseimage.go\<close>

datatype plan_error = NilBundle | NoUpgradeComponents | NilRelease | PlanError topo_error

(* src: pkg/upgrade/bundle.go 81-91 bundleHasUpgradeComponent *)
definition bundleHasUpgradeComponent :: "release_bundle option \<Rightarrow> string \<Rightarrow> bool" where
  "bundleHasUpgradeComponent bo name =
     (case bo of None \<Rightarrow> False
      | Some b \<Rightarrow> (case rs_upgrade (ri_spec (bu_release b)) of None \<Rightarrow> False
                   | Some cs \<Rightarrow> list_ex (\<lambda>c. uc_name c = name) cs))"

(* src: pkg/upgrade/bundle.go 65-79 appendImplicitPreUpgradeDependency *)
definition appendImplicitPreUpgradeDependency :: "release_bundle option \<Rightarrow> string \<Rightarrow> string list \<Rightarrow> string list" where
  "appendImplicitPreUpgradeDependency bo name deps =
     (if bo = None \<or> name = ComponentPreUpgradeResources \<or>
         \<not> bundleHasUpgradeComponent bo ComponentPreUpgradeResources then deps
      else if list_ex (\<lambda>d. d = ComponentPreUpgradeResources) deps then deps
      else deps @ [ComponentPreUpgradeResources])"

(* src: pkg/upgrade/bundle.go 51-63 BundleDependencyResolver *)
definition BundleDependencyResolver :: "release_bundle option \<Rightarrow> resolver" where
  "BundleDependencyResolver bo = Some (\<lambda>name version.
     (case bo of None \<Rightarrow> Inr []
      | Some b \<Rightarrow>
          Inr (appendImplicitPreUpgradeDependency bo name
                (case map_of (bu_components b) (ComponentKey name version) of
                   None \<Rightarrow> []
                 | Some cv \<Rightarrow> ComponentDependencyNames (cv_dependencies cv)))))"

(* src: pkg/upgrade/bundle.go 93-110 enrichUpgradeComponent *)
definition enrichUpgradeComponent :: "upgrade_component \<Rightarrow> release_bundle option \<Rightarrow> upgrade_component" where
  "enrichUpgradeComponent c bo =
     (if uc_inline c \<noteq> None then c
      else case bo of None \<Rightarrow> c
           | Some b \<Rightarrow> (case map_of (bu_components b) (ComponentKey (uc_name c) (uc_version c)) of
                          None \<Rightarrow> c
                        | Some cv \<Rightarrow> (case cv_inline cv of None \<Rightarrow> c
                            | Some i \<Rightarrow> c\<lparr>uc_inline := Some \<lparr>ui_handler = is_handler i, ui_version = is_version i\<rparr>\<rparr>)))"

(* src: pkg/upgrade/bundle.go 36-48 UpgradeComponentsFromBundle *)
definition UpgradeComponentsFromBundle :: "release_bundle option \<Rightarrow> plan_error + upgrade_component list" where
  "UpgradeComponentsFromBundle bo =
     (case bo of None \<Rightarrow> Inl NilBundle
      | Some b \<Rightarrow> (case rs_upgrade (ri_spec (bu_release b)) of
                     None \<Rightarrow> Inl NoUpgradeComponents
                   | Some cs \<Rightarrow> if cs = [] then Inl NoUpgradeComponents
                                else Inr (map (\<lambda>c. enrichUpgradeComponent c bo) cs)))"

definition plan_result :: "topo_error + upgrade_dag \<Rightarrow> plan_error + upgrade_dag" where
  "plan_result r = (case r of Inl e \<Rightarrow> Inl (PlanError e) | Inr d \<Rightarrow> Inr d)"

(* src: pkg/upgrade/bundle.go 24-33 BuildDAGFromBundle *)
definition BuildDAGFromBundle :: "release_bundle option \<Rightarrow> resolver \<Rightarrow> plan_error + upgrade_dag" where
  "BuildDAGFromBundle bo resolve =
     (case UpgradeComponentsFromBundle bo of
        Inl err \<Rightarrow> Inl err
      | Inr components \<Rightarrow>
          plan_result (BuildUpgradeDAG components
            (MergeDependencyResolver [resolve, DefaultDependencyResolver])))"

(* src: pkg/upgrade/releaseimage.go 23-34 BuildDAGFromReleaseImage *)
definition BuildDAGFromReleaseImage :: "release_image option \<Rightarrow> resolver \<Rightarrow> plan_error + upgrade_dag" where
  "BuildDAGFromReleaseImage rio resolve =
     (case rio of None \<Rightarrow> Inl NilRelease
      | Some ri \<Rightarrow> (case rs_upgrade (ri_spec ri) of
                      None \<Rightarrow> Inl NoUpgradeComponents
                    | Some cs \<Rightarrow> if cs = [] then Inl NoUpgradeComponents
                                 else plan_result (BuildUpgradeDAG cs
                                        (MergeDependencyResolver [resolve, DefaultDependencyResolver]))))"

subsection \<open>spec_sync.go, status_sync.go\<close>

definition with_cluster_spec :: "(cluster_spec \<Rightarrow> cluster_spec) \<Rightarrow> bke_cluster \<Rightarrow> bke_cluster" where
  "with_cluster_spec f bc = bc\<lparr>bc_spec := (bc_spec bc)\<lparr>bs_clusterConfig := map_option f (bs_clusterConfig (bc_spec bc))\<rparr>\<rparr>"

(* src: pkg/upgrade/spec_sync.go 44-58 KubernetesTargetFromVersionContext *)
definition KubernetesTargetFromVersionContext :: "version_context option \<Rightarrow> string" where
  "KubernetesTargetFromVersionContext vco =
     (case vco of None \<Rightarrow> []
      | Some vc \<Rightarrow>
          (case filter (\<lambda>v. v \<noteq> []) (map (\<lambda>n. TrimSpace (GetTarget vco n))
                  [ComponentKubernetesMaster, ComponentKubernetesWorker, ''kubernetes'']) of
             [] \<Rightarrow> [] | v # _ \<Rightarrow> v))"

(* src: pkg/upgrade/spec_sync.go 30-39 ApplyVersionContextTargetsToClusterSpec (body) *)
definition sync_targets :: "version_context \<Rightarrow> cluster_spec \<Rightarrow> cluster_spec" where
  "sync_targets vc cluster =
     (let c1 = (let v = GetTarget (Some vc) ComponentEtcd in if v \<noteq> [] then cluster\<lparr>cs_etcdVersion := v\<rparr> else cluster);
          c2 = (let v = GetTarget (Some vc) ComponentContainerd in if v \<noteq> [] then c1\<lparr>cs_containerdVersion := v\<rparr> else c1)
      in (let v = KubernetesTargetFromVersionContext (Some vc)
          in if v \<noteq> [] then c2\<lparr>cs_kubernetesVersion := v\<rparr> else c2))"

(* src: pkg/upgrade/spec_sync.go 26-40 ApplyVersionContextTargetsToClusterSpec *)
definition ApplyVersionContextTargetsToClusterSpec :: "bke_cluster option \<Rightarrow> version_context option \<Rightarrow> bke_cluster option" where
  "ApplyVersionContextTargetsToClusterSpec bco vco =
     (case (bco, vco) of
        (Some bc, Some vc) \<Rightarrow> Some (with_cluster_spec (sync_targets vc) bc)
      | _ \<Rightarrow> bco)"

(* src: pkg/upgrade/spec_sync.go 61-75 ClusterSpecHasUpgradeTargets *)
definition ClusterSpecHasUpgradeTargets :: "cluster_spec \<Rightarrow> version_context option \<Rightarrow> bool" where
  "ClusterSpecHasUpgradeTargets cluster vco =
     (case vco of None \<Rightarrow> False
      | Some vc \<Rightarrow>
          (let v = GetTarget vco ComponentEtcd in v \<noteq> [] \<and> cs_etcdVersion cluster \<noteq> v) \<or>
          (let v = GetTarget vco ComponentContainerd in v \<noteq> [] \<and> cs_containerdVersion cluster \<noteq> v) \<or>
          (let v = KubernetesTargetFromVersionContext vco in v \<noteq> [] \<and> cs_kubernetesVersion cluster \<noteq> v))"

(* src: pkg/upgrade/status_sync.go 23-30 ApplyUpgradeHopToClusterSpec *)
definition ApplyUpgradeHopToClusterSpec :: "bke_cluster option \<Rightarrow> string \<Rightarrow> bke_cluster option" where
  "ApplyUpgradeHopToClusterSpec bco hop =
     map_option (with_cluster_spec (\<lambda>c. let v = TrimSpace hop
                                        in if v \<noteq> [] then c\<lparr>cs_openFuyaoVersion := v\<rparr> else c)) bco"

(* src: pkg/upgrade/status_sync.go 34-54 ApplyUpgradeHopToClusterStatus *)
definition ApplyUpgradeHopToClusterStatus :: "bke_cluster option \<Rightarrow> string \<Rightarrow> bke_cluster option" where
  "ApplyUpgradeHopToClusterStatus bco hop =
     (case bco of None \<Rightarrow> None
      | Some bc \<Rightarrow> (case bs_clusterConfig (bc_spec bc) of
          None \<Rightarrow> Some bc
        | Some spec \<Rightarrow>
            let st = bc_status bc;
                st1 = (let v = TrimSpace hop
                       in if v \<noteq> [] then st\<lparr>st_openFuyaoVersion := v\<rparr>
                          else if cs_openFuyaoVersion spec \<noteq> []
                          then st\<lparr>st_openFuyaoVersion := cs_openFuyaoVersion spec\<rparr> else st);
                st2 = (if cs_kubernetesVersion spec \<noteq> [] then st1\<lparr>st_kubernetesVersion := cs_kubernetesVersion spec\<rparr> else st1);
                st3 = (if cs_etcdVersion spec \<noteq> [] then st2\<lparr>st_etcdVersion := cs_etcdVersion spec\<rparr> else st2);
                st4 = (if cs_containerdVersion spec \<noteq> [] then st3\<lparr>st_containerdVersion := cs_containerdVersion spec\<rparr> else st3)
            in Some (bc\<lparr>bc_status := st4\<rparr>)))"

subsection \<open>pkg/phaseframe/version\_context.go\<close>

(* src: pkg/phaseframe/version_context.go 30-39 BasePhase.ComponentVersionDecision *)
definition ComponentVersionDecision :: "version_context option \<Rightarrow> string \<Rightarrow> bool \<times> bool" where
  "ComponentVersionDecision vco component =
     (case vco of None \<Rightarrow> (False, False)
      | Some vc \<Rightarrow> if HasTarget vco component then (True, NeedsUpgrade vco component) else (False, False))"

(* src: pkg/phaseframe/version_context.go 42-54 BasePhase.NeedExecuteWithVersionContext *)
definition NeedExecuteWithVersionContext :: "version_context option \<Rightarrow> string \<Rightarrow> 'c \<Rightarrow> 'c \<Rightarrow>
    ('c \<Rightarrow> 'c \<Rightarrow> bool) option \<Rightarrow> bool" where
  "NeedExecuteWithVersionContext vco component old new legacy =
     (case ComponentVersionDecision vco component of
        (True, need) \<Rightarrow> need
      | (False, _) \<Rightarrow> (case legacy of None \<Rightarrow> False | Some f \<Rightarrow> f old new))"

section \<open>Version contexts\<close>

abbreviation current_of :: "version_context \<Rightarrow> string \<Rightarrow> string" where
  "current_of vc n \<equiv> get_or [] (vc_current vc) n"

abbreviation target_of :: "version_context \<Rightarrow> string \<Rightarrow> string" where
  "target_of vc n \<equiv> get_or [] (vc_target vc) n"

lemma GetCurrent_eq [simp]: "GetCurrent (Some vc) n = current_of vc n"
  by (simp add: GetCurrent_def CurrentVersion_def Let_def)

lemma GetTarget_eq [simp]: "GetTarget (Some vc) n = target_of vc n"
  by (simp add: GetTarget_def TargetVersion_def Let_def)

lemma NeedsExecution_iff: "NeedsExecution (Some vc) n \<longleftrightarrow> target_of vc n \<noteq> [] \<and> current_of vc n \<noteq> target_of vc n"
  by (simp add: NeedsExecution_def Decide_def)

lemma NeedsUpgrade_iff: "NeedsUpgrade (Some vc) n \<longleftrightarrow> target_of vc n \<noteq> [] \<and> current_of vc n \<noteq> target_of vc n"
  by (simp add: NeedsUpgrade_def Let_def)

lemma SetCurrent_simps [simp]:
  "vc_target (SetCurrent n v vc) = vc_target vc"
  "current_of (SetCurrent n v vc) m = (if m = n then v else current_of vc m)"
  by (simp_all add: SetCurrent_def)

lemma SetTarget_simps [simp]:
  "vc_current (SetTarget n v vc) = vc_current vc"
  "target_of (SetTarget n v vc) m = (if m = n then v else target_of vc m)"
  "gomap_wf (vc_target vc) \<Longrightarrow> gomap_wf (vc_target (SetTarget n v vc))"
  by (simp_all add: SetTarget_def)

lemma NewVersionContext_simps [simp]:
  "vc_target NewVersionContext = []" "vc_current NewVersionContext = []"
  by (simp_all add: NewVersionContext_def)

lemma any_target_iff:
  "any_target ts vc \<longleftrightarrow> (\<exists>(n, t)\<in>set ts. t \<noteq> [] \<and> current_of vc n \<noteq> t)"
  by (induction ts vc rule: any_target.induct) (auto split: if_splits)

lemma AnyTargetNeedsUpgrade_iff:
  assumes "gomap_wf (vc_target vc)"
  shows "AnyTargetNeedsUpgrade (Some vc) \<longleftrightarrow> (\<exists>n. NeedsUpgrade (Some vc) n)"
proof -
  have "AnyTargetNeedsUpgrade (Some vc) \<longleftrightarrow>
      (\<exists>n t. (n, t) \<in> set (vc_target vc) \<and> t \<noteq> [] \<and> current_of vc n \<noteq> t)"
    by (auto simp: AnyTargetNeedsUpgrade_def any_target_iff)
  then show ?thesis by (simp add: get_or_entry [OF assms] NeedsUpgrade_iff)
qed

lemma set_TargetNames:
  assumes "gomap_wf (vc_target vc)"
  shows "set (TargetNames (Some vc)) = {n. target_of vc n \<noteq> []}"
  using get_or_entry [OF assms, of _ "[]" "\<lambda>_. True"]
  by (fastforce simp: TargetNames_def image_iff)

text \<open>The version a bundle releases a component at: its last valid upgrade entry, or else its last
  valid install entry.\<close>

definition release_entries :: "release_bundle \<Rightarrow> (string \<times> string) list" where
  "release_entries b = filter (\<lambda>(n, v). n \<noteq> [] \<and> v \<noteq> [])
     (map (\<lambda>c. (ic_name c, ic_version c)) (case rs_install (ri_spec (bu_release b)) of None \<Rightarrow> [] | Some cs \<Rightarrow> cs) @
      map (\<lambda>c. (uc_name c, uc_version c)) (case rs_upgrade (ri_spec (bu_release b)) of None \<Rightarrow> [] | Some cs \<Rightarrow> cs))"

definition release_version :: "release_bundle \<Rightarrow> string \<Rightarrow> string" where
  "release_version b n = get_or [] (rev (release_entries b)) n"

lemma fold_guarded:
  "fold (\<lambda>c. if P c then f (g c) (h c) else id) cs vc =
   fold (\<lambda>(n, v). f n v) (map (\<lambda>c. (g c, h c)) (filter P cs)) vc"
  by (induction cs arbitrary: vc) auto

lemma applyReleaseComponents_fold:
  "applyReleaseComponents set_version b vc = fold (\<lambda>(n, v). set_version n v) (release_entries b) vc"
  using fold_guarded [of "\<lambda>c::install_component. ic_name c \<noteq> [] \<and> ic_version c \<noteq> []" set_version ic_name ic_version]
    fold_guarded [of "\<lambda>c::upgrade_component. uc_name c \<noteq> [] \<and> uc_version c \<noteq> []" set_version uc_name uc_version]
  unfolding applyReleaseComponents_def Let_def release_entries_def
  by (simp add: filter_map comp_def split: option.splits)

lemma fold_SetTarget:
  "target_of (fold (\<lambda>(n, v). SetTarget n v) es vc) m = (case map_of (rev es) m of None \<Rightarrow> target_of vc m | Some v \<Rightarrow> v)"
  "vc_current (fold (\<lambda>(n, v). SetTarget n v) es vc) = vc_current vc"
  "gomap_wf (vc_target vc) \<Longrightarrow> gomap_wf (vc_target (fold (\<lambda>(n, v). SetTarget n v) es vc))"
  by (induction es arbitrary: vc) (auto simp: map_add_def split: option.splits)

lemma fold_SetCurrent:
  "current_of (fold (\<lambda>(n, v). SetCurrent n v) es vc) m = (case map_of (rev es) m of None \<Rightarrow> current_of vc m | Some v \<Rightarrow> v)"
  "vc_target (fold (\<lambda>(n, v). SetCurrent n v) es vc) = vc_target vc"
  by (induction es arbitrary: vc) (auto simp: map_add_def split: option.splits)

lemma fill_current_fold:
  "current_of (fold (\<lambda>name vc. if current_of vc name \<noteq> [] then vc
       else if f name \<noteq> [] then SetCurrent name (f name) vc else vc) ns vc) m =
     (if m \<in> set ns \<and> current_of vc m = [] then f m else current_of vc m)"
  "vc_target (fold (\<lambda>name vc. if current_of vc name \<noteq> [] then vc
       else if f name \<noteq> [] then SetCurrent name (f name) vc else vc) ns vc) = vc_target vc"
  by (induction ns arbitrary: vc) auto

lemma FillTarget_New:
  "target_of (FillTargetFromBundle NewVersionContext (Some b)) m = release_version b m"
  "vc_current (FillTargetFromBundle NewVersionContext (Some b)) = []"
  "gomap_wf (vc_target (FillTargetFromBundle NewVersionContext (Some b)))"
  by (simp_all add: FillTargetFromBundle_def applyReleaseComponents_fold fold_SetTarget release_version_def)
     (simp add: get_or_def split: option.splits)

section \<open>Properties\<close>

text \<open>A component runs exactly when its release targets a non-empty version that differs from
  what the cluster reports for it (or from the version in the bundle it is upgraded from).\<close>

theorem upgrade_context_decides:
  "NeedsExecution (Some (BuildVersionContextForUpgrade (Some b) cb (Some bc))) n \<longleftrightarrow>
     release_version b n \<noteq> [] \<and>
     release_version b n \<noteq> (case cb of Some c \<Rightarrow> release_version c n
                              | None \<Rightarrow> clusterCurrentForReleaseComponent (Some bc) n)"
proof (cases cb)
  case None
  then show ?thesis
    unfolding BuildVersionContextForUpgrade_def fillCurrentFromBKECluster_def Let_def GetCurrent_eq
    by (auto simp: NeedsExecution_iff fill_current_fold set_TargetNames FillTarget_New Let_def)
next
  case (Some c)
  then show ?thesis
    by (auto simp: NeedsExecution_iff BuildVersionContextForUpgrade_def FillCurrentFromBundle_def
        applyReleaseComponents_fold fold_SetCurrent FillTarget_New release_version_def [of c] Let_def
        get_or_def [of _ "rev _"] split: option.splits)
qed

text \<open>Once the specification and then the status of a cluster have been moved to an upgrade hop,
  no component of the cluster-derived version context asks for an upgrade any more.\<close>

theorem hop_leaves_nothing:
  "\<not> AnyTargetNeedsUpgrade (Some (BuildVersionContextFromBKECluster
       (ApplyUpgradeHopToClusterStatus (ApplyUpgradeHopToClusterSpec (Some bc) hop) hop)))"
proof (cases "bs_clusterConfig (bc_spec bc)")
  case None
  then show ?thesis
    by (simp add: BuildVersionContextFromBKECluster_def ApplyUpgradeHopToClusterStatus_def
        ApplyUpgradeHopToClusterSpec_def with_cluster_spec_def AnyTargetNeedsUpgrade_def)
next
  case (Some spec)
  then show ?thesis
    by (simp add: BuildVersionContextFromBKECluster_def ApplyUpgradeHopToClusterStatus_def
        ApplyUpgradeHopToClusterSpec_def with_cluster_spec_def AnyTargetNeedsUpgrade_iff
        NeedsUpgrade_iff Let_def)
qed

text \<open>Copying the targets of a version context into the specification leaves nothing to copy,
  changes nothing when there was nothing to copy, and touches no other version.\<close>

theorem spec_sync_settles:
  "\<not> ClusterSpecHasUpgradeTargets (sync_targets vc c) (Some vc) \<and>
   (ClusterSpecHasUpgradeTargets c (Some vc) \<longleftrightarrow> sync_targets vc c \<noteq> c) \<and>
   cs_openFuyaoVersion (sync_targets vc c) = cs_openFuyaoVersion c"
  by (cases c) (auto simp: ClusterSpecHasUpgradeTargets_def sync_targets_def Let_def)

section \<open>Planning a bundle\<close>

lemma bundle_dag:
  assumes "BuildDAGFromBundle (Some b) res = Inr d"
  shows "\<exists>cs. UpgradeComponentsFromBundle (Some b) = Inr cs \<and>
    BuildUpgradeDAG cs (MergeDependencyResolver [res, DefaultDependencyResolver]) = Inr d \<and>
    uc_name ` set cs = {n. bundleHasUpgradeComponent (Some b) n}"
proof -
  have [simp]: "uc_name (enrichUpgradeComponent c bo) = uc_name c" for c bo
    by (simp add: enrichUpgradeComponent_def split: option.splits)
  from assms show ?thesis
    by (auto simp: BuildDAGFromBundle_def plan_result_def UpgradeComponentsFromBundle_def
        bundleHasUpgradeComponent_def image_iff list_ex_iff split: sum.splits option.splits if_splits) blast
qed

lemma bundle_resolver_pre:
  assumes "bundleHasUpgradeComponent (Some b) ComponentPreUpgradeResources" "n \<noteq> ComponentPreUpgradeResources"
  shows "\<exists>deps. resolveDependencies n v
      (MergeDependencyResolver [BundleDependencyResolver (Some b), DefaultDependencyResolver]) = Inr deps \<and>
    ComponentPreUpgradeResources \<in> set deps"
proof -
  have "\<exists>deps. appendImplicitPreUpgradeDependency (Some b) n ds = deps \<and> ComponentPreUpgradeResources \<in> set deps \<and>
      deps \<noteq> []" for ds
    using assms by (auto simp: appendImplicitPreUpgradeDependency_def list_ex_iff)
  then show ?thesis
    by (simp add: resolveDependencies_def MergeDependencyResolver_def BundleDependencyResolver_def)
qed

lemma first_batch_unique:
  assumes "ordered_batches E bs" "tight_batches E bs" "r \<in> set (concat bs)"
    and root: "\<And>n. n \<in> set (concat bs) \<Longrightarrow> n \<noteq> r \<Longrightarrow> (r, n) \<in> E" and top: "\<And>m. (m, r) \<notin> E"
  shows "\<exists>b rest. bs = b # rest \<and> set b = {r}"
proof -
  obtain i where i: "i < length bs" "r \<in> set (bs ! i)" using assms(3) unfolding mem_concat_nth by blast
  have "i = 0"
  proof (cases i)
    case (Suc j)
    with assms(2) i top show ?thesis by (auto simp: tight_batches_def)
  qed
  with i obtain b rest where bs: "bs = b # rest" and r: "r \<in> set b" by (cases bs) auto
  have "n = r" if "n \<in> set b" for n
  proof (rule ccontr)
    assume "n \<noteq> r"
    with root [of n] that bs have "(r, n) \<in> E" by simp
    moreover have "\<forall>x\<in>set b. \<forall>a. (a, x) \<notin> E"
      using assms(1) bs unfolding ordered_batches_def by (auto dest: spec [of _ 0])
    ultimately show False using that by blast
  qed
  with r have "set b = {r}" by blast
  with bs show ?thesis by blast
qed

lemma batches_of_built:
  assumes "BuildUpgradeDAG cs res = Inr d"
  obtains bs where "DAG_TopologicalBatches d = Inr bs" "set (concat bs) = uc_name ` set cs"
    "ordered_batches (dep_edges cs res) bs" "tight_batches (dep_edges cs res) bs" "distinct (concat bs)"
    "acyclic (dep_edges cs res)"
proof -
  note d = BuildUpgradeDAG_Inr [OF assms]
  obtain bs where bs: "DAG_TopologicalBatches d = Inr bs" using dp.plan_total [OF d(1)] ..
  have wf: "wf_graph (dag_graph d)" using d(1) by (simp add: dag_wf_def)
  note t = TopologicalBatches_Inr [OF wf bs [unfolded DAG_TopologicalBatches_def]]
  have "set (concat bs) = uc_name ` set cs"
    using t(2) dag_wf_names [OF d(1)] component_map_keys [of cs] by (auto simp: has_key_def d(4))
  then show thesis using that bs t d by (simp add: dag_wf_def)
qed

text \<open>C27. When a bundle contains \<^verbatim>\<open>pre-upgrade-resources\<close>, the plan built from the bundle with
  its own resolver runs that component alone in the first batch, before everything else.\<close>

theorem pre_upgrade_first:
  assumes built: "BuildDAGFromBundle (Some b) (BundleDependencyResolver (Some b)) = Inr d"
    and has: "bundleHasUpgradeComponent (Some b) ComponentPreUpgradeResources"
  shows "\<exists>rest. DAG_TopologicalBatches d = Inr ([ComponentPreUpgradeResources] # rest)"
proof -
  let ?R = "MergeDependencyResolver [BundleDependencyResolver (Some b), DefaultDependencyResolver]"
  let ?p = ComponentPreUpgradeResources
  obtain cs where cs: "BuildUpgradeDAG cs ?R = Inr d" and names: "?p \<in> uc_name ` set cs"
    using bundle_dag [OF built] has by auto
  obtain bs where bs: "DAG_TopologicalBatches d = Inr bs" "set (concat bs) = uc_name ` set cs"
    "ordered_batches (dep_edges cs ?R) bs" "tight_batches (dep_edges cs ?R) bs" "distinct (concat bs)"
    and ac: "acyclic (dep_edges cs ?R)"
    by (rule batches_of_built [OF cs])
  have edge: "(?p, n) \<in> dep_edges cs ?R" if "n \<in> uc_name ` set cs" "n \<noteq> ?p" for n
    using that bundle_resolver_pre [OF has that(2)] by (auto simp: dep_edges_def)
  have "(m, ?p) \<notin> dep_edges cs ?R" for m
  proof
    assume m: "(m, ?p) \<in> dep_edges cs ?R"
    from edge [OF dep_edges_names(1,3) [OF BuildUpgradeDAG_Inr(3) [OF cs] m]] m ac show False by (meson acyclic_def r_into_trancl trancl_trans)
  qed
  with first_batch_unique [OF bs(3,4) names [folded bs(2)]] edge [folded bs(2)]
  obtain b0 rest where b0: "bs = b0 # rest" "set b0 = {?p}" by blast
  then have "b0 = [?p]" using bs(5) by (intro distinct_set_singleton) auto
  with b0 bs(1) show ?thesis by auto
qed

definition demo_bundle :: release_bundle where
  "demo_bundle = \<lparr>bu_release = \<lparr>ri_name = ''r2'', ri_spec = \<lparr>rs_version = ''v2'', rs_digest = [],
       rs_verifySignature = False, rs_signatureKey = [], rs_allowCacheFallback = False, rs_install = None,
       rs_upgrade = Some [\<lparr>uc_name = ''etcd'', uc_version = ''v3'', uc_inline = None\<rparr>,
          \<lparr>uc_name = ComponentPreUpgradeResources, uc_version = ''v1'', uc_inline = None\<rparr>]\<rparr>\<rparr>,
     bu_components = [], bu_files = [], bu_digest = [], bu_source = [], bu_cacheFallback = False\<rparr>"

definition demo_bundle_dag :: upgrade_dag where
  "demo_bundle_dag = (case BuildDAGFromBundle (Some demo_bundle) (BundleDependencyResolver (Some demo_bundle)) of
     Inr d \<Rightarrow> d | Inl e \<Rightarrow> NewUpgradeDAG)"

lemma demo_bundle_built:
  "BuildDAGFromBundle (Some demo_bundle) (BundleDependencyResolver (Some demo_bundle)) = Inr demo_bundle_dag"
  unfolding demo_bundle_dag_def by code_simp

theorem pre_upgrade_first_witness:
  "\<exists>rest. DAG_TopologicalBatches demo_bundle_dag = Inr ([ComponentPreUpgradeResources] # rest)"
  by (rule pre_upgrade_first [OF demo_bundle_built]) code_simp

end
