(* ===== verification/Lifecycle_Store.thy ===== *)
theory Lifecycle_Store
  imports Cluster_Api
begin

text \<open>
  Writing upgrade state back to the management cluster: \<^verbatim>\<open>patchDeclarativeUpgrade\<close>
  (\<^verbatim>\<open>pkg/dagexec/declarative_upgrade_patch.go\<close>) and \<^verbatim>\<open>BKEComponentStatusUpdater\<close>
  (\<^verbatim>\<open>component_status_updater.go\<close>).

  The Kubernetes client is a parameter: a record of the two calls the code makes, over an
  unknown state, and a clock. \<open>honest_client\<close> names what the code relies on: \<^verbatim>\<open>Get\<close> returns the
  stored object and changes nothing, a successful status patch of an unmodified object stores the
  patched object, and a failed call changes nothing. Each operation passes on the client's state
  and the in-memory cluster.

  The results: each operation changes the stored and the in-memory record together or neither, it
  touches one component only, it keeps every entry under its own name, and its transition time
  moves exactly when its phase does.
\<close>

section \<open>Definitions\<close>

text \<open>The client; its error is the text of the Go error.\<close>

record 'w api_client =
  cl_get :: "'w \<Rightarrow> 'w \<times> (string + cluster_status)"
  cl_patch :: "'w \<Rightarrow> cluster_status \<Rightarrow> cluster_status \<Rightarrow> 'w \<times> string option"
  cl_now :: "'w \<Rightarrow> gotime"

text \<open>What an operation works on: the client's state and the cluster object in memory.\<close>

record 'w exec_state =
  es_world :: 'w
  es_cluster :: bke_cluster

definition set_memory_status :: "(cluster_status \<Rightarrow> cluster_status) \<Rightarrow> 'w exec_state \<Rightarrow> 'w exec_state" where
  "set_memory_status f s = s\<lparr>es_cluster := (es_cluster s)\<lparr>bc_status := f (bc_status (es_cluster s))\<rparr>\<rparr>"

subsection \<open>declarative\_upgrade\_patch.go\<close>

(* src: pkg/dagexec/declarative_upgrade_patch.go 26-57 patchDeclarativeUpgrade *)
definition patchDeclarativeUpgrade :: "'w api_client option \<Rightarrow>
    (declarative_upgrade option \<Rightarrow> declarative_upgrade option) \<Rightarrow> 'w exec_state \<Rightarrow> 'w exec_state \<times> string option" where
  "patchDeclarativeUpgrade co mutate s =
     (case co of None \<Rightarrow> (s, None)
      | Some c \<Rightarrow>
          (case cl_get c (es_world s) of
             (w1, Inl err) \<Rightarrow> (s\<lparr>es_world := w1\<rparr>, Some err)
           | (w1, Inr orig) \<Rightarrow>
               if Option.is_none (st_declarativeUpgrade orig) then (s\<lparr>es_world := w1\<rparr>, None)
               else let current = orig\<lparr>st_declarativeUpgrade := mutate (st_declarativeUpgrade orig)\<rparr>
                    in (case cl_patch c w1 orig current of
                          (w2, Some err) \<Rightarrow> (s\<lparr>es_world := w2\<rparr>, Some err)
                        | (w2, None) \<Rightarrow>
                            (set_memory_status (\<lambda>m. m\<lparr>st_declarativeUpgrade := st_declarativeUpgrade current\<rparr>)
                               (s\<lparr>es_world := w2\<rparr>), None))))"

subsection \<open>component\_status\_updater.go\<close>

(* src: pkg/dagexec/component_status_updater.go 26-33 StatusComponentType *)
datatype status_component_type = StatusComponentTypeNode | StatusComponentTypeCluster

text \<open>The cluster a reference points to is the in-memory cluster of the state; \<open>mr_cluster\<close> says
  whether the pointer is set.\<close>

(* src: pkg/dagexec/component_status_updater.go 35-41 ComponentMarkRef *)
record mark_ref =
  mr_cluster :: bool
  mr_name :: string
  mr_componentType :: status_component_type
  mr_nodeIP :: string

(* src: pkg/dagexec/component_status_updater.go 210-215 toLifecycleComponentType *)
fun toLifecycleComponentType :: "status_component_type \<Rightarrow> lifecycle_type" where
  "toLifecycleComponentType StatusComponentTypeNode = NodeType"
| "toLifecycleComponentType StatusComponentTypeCluster = ClusterType"

(* src: pkg/dagexec/component_status_updater.go 187-198 BKEComponentStatusUpdater.validateUpdaterRef *)
definition validateUpdaterRef :: "'w api_client option \<Rightarrow> mark_ref \<Rightarrow> string option" where
  "validateUpdaterRef co ref =
     (if Option.is_none co then Some ''component status updater client is nil''
      else if \<not> mr_cluster ref then Some ''cluster is nil''
      else if mr_name ref = [] then Some ''component name is required''
      else None)"

(* src: pkg/dagexec/component_status_updater.go 171-185 BKEComponentStatusUpdater.loadClusterForStatusPatch *)
definition loadClusterForStatusPatch :: "'w api_client option \<Rightarrow> mark_ref \<Rightarrow> 'w \<Rightarrow> 'w \<times> (string + cluster_status)" where
  "loadClusterForStatusPatch co ref w =
     (case validateUpdaterRef co ref of
        Some err \<Rightarrow> (w, Inl err)
      | None \<Rightarrow> (case co of None \<Rightarrow> (w, Inl []) | Some c \<Rightarrow> cl_get c w))"

definition zero_lifecycle :: lifecycle_status where
  "zero_lifecycle = \<lparr>ls_name = [], ls_nodeIP = [], ls_componentType = NoType, ls_phase = NoPhase,
     ls_currentVersion = [], ls_targetVersion = [], ls_lastTransitionTime = None, ls_message = []\<rparr>"

text \<open>The entries of a component map that may be nil.\<close>

definition entries :: "cluster_status \<Rightarrow> lifecycle_status gomap" where
  "entries st = (case st_componentStatuses st of None \<Rightarrow> [] | Some m \<Rightarrow> m)"

(* src: pkg/dagexec/component_status_updater.go 146-157 BKEComponentStatusUpdater.patch (new entry) *)
definition patched_entry :: "mark_ref \<Rightarrow> (lifecycle_status \<Rightarrow> lifecycle_status) \<Rightarrow> gotime \<Rightarrow> lifecycle_status \<Rightarrow> lifecycle_status" where
  "patched_entry ref mutate now old =
     (let st = mutate (old\<lparr>ls_name := mr_name ref, ls_nodeIP := mr_nodeIP ref,
                           ls_componentType := toLifecycleComponentType (mr_componentType ref)\<rparr>)
      in if ls_phase st \<noteq> ls_phase old then st\<lparr>ls_lastTransitionTime := Some now\<rparr> else st)"

(* src: pkg/dagexec/component_status_updater.go 133-169 BKEComponentStatusUpdater.patch *)
definition lifecycle_patch :: "'w api_client option \<Rightarrow> mark_ref \<Rightarrow> (lifecycle_status \<Rightarrow> lifecycle_status) \<Rightarrow>
    'w exec_state \<Rightarrow> 'w exec_state \<times> string option" where
  "lifecycle_patch co ref mutate s =
     (case loadClusterForStatusPatch co ref (es_world s) of
        (w1, Inl err) \<Rightarrow> (s\<lparr>es_world := w1\<rparr>, Some err)
      | (w1, Inr orig) \<Rightarrow>
          let c = the co;
              st = patched_entry ref mutate (cl_now c w1) (get_or zero_lifecycle (entries orig) (mr_name ref));
              current = orig\<lparr>st_componentStatuses := Some (AList.update (mr_name ref) st (entries orig))\<rparr>
          in (case cl_patch c w1 orig current of
                (w2, Some err) \<Rightarrow> (s\<lparr>es_world := w2\<rparr>, Some err)
              | (w2, None) \<Rightarrow>
                  (set_memory_status (\<lambda>m. m\<lparr>st_componentStatuses := Some (AList.update (mr_name ref) st (entries m))\<rparr>)
                     (s\<lparr>es_world := w2\<rparr>), None)))"

(* src: pkg/dagexec/component_status_updater.go 66-71 BKEComponentStatusUpdater.MarkPending *)
definition MarkPending :: "'w api_client option \<Rightarrow> mark_ref \<Rightarrow> 'w exec_state \<Rightarrow> 'w exec_state \<times> string option" where
  "MarkPending co ref = lifecycle_patch co ref (\<lambda>st. st\<lparr>ls_phase := Pending, ls_message := []\<rparr>)"

(* src: pkg/dagexec/component_status_updater.go 73-79 BKEComponentStatusUpdater.MarkInstalled *)
definition MarkInstalled :: "'w api_client option \<Rightarrow> mark_ref \<Rightarrow> string \<Rightarrow> 'w exec_state \<Rightarrow> 'w exec_state \<times> string option" where
  "MarkInstalled co ref version =
     lifecycle_patch co ref (\<lambda>st. st\<lparr>ls_phase := Installed, ls_currentVersion := version, ls_message := []\<rparr>)"

(* src: pkg/dagexec/component_status_updater.go 81-90 BKEComponentStatusUpdater.MarkFailed *)
definition MarkFailed :: "'w api_client option \<Rightarrow> mark_ref \<Rightarrow> string option \<Rightarrow> 'w exec_state \<Rightarrow> 'w exec_state \<times> string option" where
  "MarkFailed co ref err =
     (let msg = (case err of None \<Rightarrow> [] | Some e \<Rightarrow> e)
      in lifecycle_patch co ref (\<lambda>st. st\<lparr>ls_phase := Failed, ls_message := msg\<rparr>))"

(* src: pkg/dagexec/component_status_updater.go 92-96 BKEComponentStatusUpdater.MarkRollingBack *)
definition MarkRollingBack :: "'w api_client option \<Rightarrow> mark_ref \<Rightarrow> 'w exec_state \<Rightarrow> 'w exec_state \<times> string option" where
  "MarkRollingBack co ref = lifecycle_patch co ref (\<lambda>st. st\<lparr>ls_phase := RollingBack\<rparr>)"

(* src: pkg/dagexec/component_status_updater.go 98-102 BKEComponentStatusUpdater.MarkUninstalling *)
definition MarkUninstalling :: "'w api_client option \<Rightarrow> mark_ref \<Rightarrow> 'w exec_state \<Rightarrow> 'w exec_state \<times> string option" where
  "MarkUninstalling co ref = lifecycle_patch co ref (\<lambda>st. st\<lparr>ls_phase := Uninstalling\<rparr>)"

(* src: pkg/dagexec/component_status_updater.go 104-109 BKEComponentStatusUpdater.MarkRemoved *)
definition MarkRemoved :: "'w api_client option \<Rightarrow> mark_ref \<Rightarrow> 'w exec_state \<Rightarrow> 'w exec_state \<times> string option" where
  "MarkRemoved co ref = lifecycle_patch co ref (\<lambda>st. st\<lparr>ls_phase := Removed, ls_currentVersion := []\<rparr>)"

text \<open>Dropping a component's entry; a map that becomes empty is set to nil.\<close>

(* src: pkg/dagexec/component_status_updater.go 122-125 BKEComponentStatusUpdater.ClearComponentStatus (delete) *)
definition drop_entry :: "string \<Rightarrow> lifecycle_status gomap \<Rightarrow> lifecycle_status gomap option" where
  "drop_entry name m = (let m' = AList.delete name m in if m' = [] then None else Some m')"

(* src: pkg/dagexec/component_status_updater.go 200-208 removeComponentStatusFromMemory *)
definition removeComponentStatusFromMemory :: "mark_ref \<Rightarrow> cluster_status \<Rightarrow> cluster_status" where
  "removeComponentStatusFromMemory ref st =
     (if \<not> mr_cluster ref then st
      else case st_componentStatuses st of
             None \<Rightarrow> st
           | Some m \<Rightarrow> st\<lparr>st_componentStatuses := drop_entry (mr_name ref) m\<rparr>)"

(* src: pkg/dagexec/component_status_updater.go 111-131 BKEComponentStatusUpdater.ClearComponentStatus *)
definition ClearComponentStatus :: "'w api_client option \<Rightarrow> mark_ref \<Rightarrow> 'w exec_state \<Rightarrow> 'w exec_state \<times> string option" where
  "ClearComponentStatus co ref s =
     (case loadClusterForStatusPatch co ref (es_world s) of
        (w1, Inl err) \<Rightarrow> (s\<lparr>es_world := w1\<rparr>, Some err)
      | (w1, Inr orig) \<Rightarrow>
          (case st_componentStatuses orig of
             None \<Rightarrow> (s\<lparr>es_world := w1\<rparr>, None)
           | Some m \<Rightarrow>
               if \<not> has_key m (mr_name ref) then (s\<lparr>es_world := w1\<rparr>, None)
               else (case cl_patch (the co) w1 orig (orig\<lparr>st_componentStatuses := drop_entry (mr_name ref) m\<rparr>) of
                       (w2, Some err) \<Rightarrow> (s\<lparr>es_world := w2\<rparr>, Some err)
                     | (w2, None) \<Rightarrow> (set_memory_status (removeComponentStatusFromMemory ref) (s\<lparr>es_world := w2\<rparr>), None))))"

section \<open>What the client promises\<close>

definition honest_client :: "'w api_client \<Rightarrow> ('w \<Rightarrow> cluster_status option) \<Rightarrow> bool" where
  "honest_client c stored \<longleftrightarrow>
     (\<forall>w w' r. cl_get c w = (w', r) \<longrightarrow> stored w' = stored w \<and> (\<forall>st. r = Inr st \<longrightarrow> stored w = Some st)) \<and>
     (\<forall>w w' orig cur. cl_patch c w orig cur = (w', None) \<longrightarrow> stored w = Some orig \<longrightarrow> stored w' = Some cur) \<and>
     (\<forall>w w' orig cur e. cl_patch c w orig cur = (w', Some e) \<longrightarrow> stored w' = stored w)"

lemma honest_getD: "honest_client c stored \<Longrightarrow> cl_get c w = (w', r) \<Longrightarrow> stored w' = stored w"
  by (simp add: honest_client_def)

lemma honest_get_okD:
  "honest_client c stored \<Longrightarrow> cl_get c w = (w', Inr st) \<Longrightarrow> stored w = Some st \<and> stored w' = Some st"
  by (metis honest_client_def)

lemma honest_patchD: "honest_client c stored \<Longrightarrow> cl_patch c w orig cur = (w', None) \<Longrightarrow>
    stored w = Some orig \<Longrightarrow> stored w' = Some cur"
  by (simp add: honest_client_def)

lemma honest_patch_failD: "honest_client c stored \<Longrightarrow> cl_patch c w orig cur = (w', Some e) \<Longrightarrow> stored w' = stored w"
  unfolding honest_client_def by blast

abbreviation memory :: "'w exec_state \<Rightarrow> cluster_status" where
  "memory s \<equiv> bc_status (es_cluster s)"

lemma set_memory_simps [simp]:
  "es_world (set_memory_status f s) = es_world s"
  "memory (set_memory_status f s) = f (memory s)"
  by (simp_all add: set_memory_status_def)

lemma patchDeclarativeUpgrade_error:
  assumes "honest_client c stored" "patchDeclarativeUpgrade (Some c) mutate s = (s', Some e)"
  shows "stored (es_world s') = stored (es_world s)" "es_cluster s' = es_cluster s"
  using assms(2) honest_getD [OF assms(1)] honest_patch_failD [OF assms(1)]
  by (auto simp: patchDeclarativeUpgrade_def Let_def split: prod.splits sum.splits if_splits option.splits)

lemma patchDeclarativeUpgrade_ok:
  assumes h: "honest_client c stored" and p: "patchDeclarativeUpgrade (Some c) mutate s = (s', None)"
  shows "\<exists>st. stored (es_world s) = Some st \<and>
    (if st_declarativeUpgrade st = None
     then stored (es_world s') = stored (es_world s) \<and> es_cluster s' = es_cluster s
     else stored (es_world s') = Some (st\<lparr>st_declarativeUpgrade := mutate (st_declarativeUpgrade st)\<rparr>) \<and>
          memory s' = (memory s)\<lparr>st_declarativeUpgrade := mutate (st_declarativeUpgrade st)\<rparr>)"
proof -
  obtain w1 st where g: "cl_get c (es_world s) = (w1, Inr st)"
    using p by (auto simp: patchDeclarativeUpgrade_def split: prod.splits sum.splits)
  note st = honest_get_okD [OF h g]
  show ?thesis
  proof (cases "st_declarativeUpgrade st")
    case None
    with p g st show ?thesis by (auto simp: patchDeclarativeUpgrade_def)
  next
    case (Some d)
    with p g obtain w2 where
      w2: "cl_patch c w1 st (st\<lparr>st_declarativeUpgrade := mutate (st_declarativeUpgrade st)\<rparr>) = (w2, None)"
      and s': "s' = set_memory_status (\<lambda>m. m\<lparr>st_declarativeUpgrade := mutate (st_declarativeUpgrade st)\<rparr>) (s\<lparr>es_world := w2\<rparr>)"
      by (auto simp: patchDeclarativeUpgrade_def Let_def split: prod.splits option.splits)
    from honest_patchD [OF h w2] st Some s' show ?thesis by simp
  qed
qed

section \<open>Lifecycle entries\<close>

lemma entries_update [simp]:
  "entries (st\<lparr>st_componentStatuses := x\<rparr>) = (case x of None \<Rightarrow> [] | Some m \<Rightarrow> m)"
  by (simp add: entries_def)

lemma lifecycle_patch_error:
  assumes "honest_client c stored" "lifecycle_patch (Some c) ref mutate s = (s', Some e)"
  shows "stored (es_world s') = stored (es_world s)" "es_cluster s' = es_cluster s"
  using assms(2) honest_getD [OF assms(1)] honest_patch_failD [OF assms(1)]
  by (auto simp: lifecycle_patch_def loadClusterForStatusPatch_def Let_def split: prod.splits sum.splits if_splits option.splits)

lemma lifecycle_patch_ok:
  assumes h: "honest_client c stored" and p: "lifecycle_patch (Some c) ref mutate s = (s', None)"
  obtains st now where "stored (es_world s) = Some st" "mr_name ref \<noteq> []"
    "stored (es_world s') = Some (st\<lparr>st_componentStatuses := Some (AList.update (mr_name ref)
        (patched_entry ref mutate now (get_or zero_lifecycle (entries st) (mr_name ref))) (entries st))\<rparr>)"
    "memory s' = (memory s)\<lparr>st_componentStatuses := Some (AList.update (mr_name ref)
        (patched_entry ref mutate now (get_or zero_lifecycle (entries st) (mr_name ref))) (entries (memory s)))\<rparr>"
proof -
  obtain w1 st where v: "validateUpdaterRef (Some c) ref = None" and g: "cl_get c (es_world s) = (w1, Inr st)"
    using p by (auto simp: lifecycle_patch_def loadClusterForStatusPatch_def split: prod.splits sum.splits option.splits)
  note st = honest_get_okD [OF h g]
  let ?e = "patched_entry ref mutate (cl_now c w1) (get_or zero_lifecycle (entries st) (mr_name ref))"
  from p g v obtain w2 where
    w2: "cl_patch c w1 st (st\<lparr>st_componentStatuses := Some (AList.update (mr_name ref) ?e (entries st))\<rparr>) = (w2, None)"
    and s': "s' = set_memory_status (\<lambda>m. m\<lparr>st_componentStatuses := Some (AList.update (mr_name ref) ?e (entries m))\<rparr>) (s\<lparr>es_world := w2\<rparr>)"
    by (auto simp: lifecycle_patch_def loadClusterForStatusPatch_def Let_def split: prod.splits option.splits)
  show thesis using that [of st "cl_now c w1"] honest_patchD [OF h w2] st s' v
    by (auto simp: validateUpdaterRef_def split: if_splits)
qed


datatype lifecycle_op = LPending | LInstalled string | LFailed "string option" | LRollingBack
  | LUninstalling | LRemoved | LClear

fun lifecycle_call :: "'w api_client option \<Rightarrow> mark_ref \<Rightarrow> lifecycle_op \<Rightarrow> 'w exec_state \<Rightarrow> 'w exec_state \<times> string option" where
  "lifecycle_call co ref LPending = MarkPending co ref"
| "lifecycle_call co ref (LInstalled v) = MarkInstalled co ref v"
| "lifecycle_call co ref (LFailed e) = MarkFailed co ref e"
| "lifecycle_call co ref LRollingBack = MarkRollingBack co ref"
| "lifecycle_call co ref LUninstalling = MarkUninstalling co ref"
| "lifecycle_call co ref LRemoved = MarkRemoved co ref"
| "lifecycle_call co ref LClear = ClearComponentStatus co ref"

text \<open>What each mark does to phase, installed version and message.\<close>

fun lifecycle_spec :: "lifecycle_op \<Rightarrow> lifecycle_status \<Rightarrow> (lifecycle_phase \<times> string \<times> string) option" where
  "lifecycle_spec LPending e = Some (Pending, ls_currentVersion e, [])"
| "lifecycle_spec (LInstalled v) e = Some (Installed, v, [])"
| "lifecycle_spec (LFailed err) e = Some (Failed, ls_currentVersion e, case err of None \<Rightarrow> [] | Some m \<Rightarrow> m)"
| "lifecycle_spec LRollingBack e = Some (RollingBack, ls_currentVersion e, ls_message e)"
| "lifecycle_spec LUninstalling e = Some (Uninstalling, ls_currentVersion e, ls_message e)"
| "lifecycle_spec LRemoved e = Some (Removed, [], ls_message e)"
| "lifecycle_spec LClear e = None"

definition lifecycle_follows :: "mark_ref \<Rightarrow> lifecycle_op \<Rightarrow> lifecycle_status \<Rightarrow> lifecycle_status \<Rightarrow> bool" where
  "lifecycle_follows ref op old e \<longleftrightarrow>
     lifecycle_spec op old = Some (ls_phase e, ls_currentVersion e, ls_message e) \<and>
     ls_name e = mr_name ref \<and> ls_nodeIP e = mr_nodeIP ref \<and>
     ls_componentType e = toLifecycleComponentType (mr_componentType ref) \<and>
     ls_targetVersion e = ls_targetVersion old \<and>
     (ls_phase e = ls_phase old \<longrightarrow> ls_lastTransitionTime e = ls_lastTransitionTime old) \<and>
     (ls_phase e \<noteq> ls_phase old \<longrightarrow> ls_lastTransitionTime e \<noteq> None)"

lemma lifecycle_call_patch:
  assumes "op \<noteq> LClear"
  shows "\<exists>mutate. lifecycle_call co ref op = lifecycle_patch co ref mutate \<and>
    (\<forall>now old. lifecycle_follows ref op old (patched_entry ref mutate now old))"
  using assms
  by (cases op)
     (auto simp: MarkPending_def MarkInstalled_def MarkFailed_def MarkRollingBack_def MarkUninstalling_def
       MarkRemoved_def lifecycle_follows_def patched_entry_def Let_def intro!: exI)

lemma ClearComponentStatus_error:
  assumes "honest_client c stored" "ClearComponentStatus (Some c) ref s = (s', Some e)"
  shows "stored (es_world s') = stored (es_world s)" "es_cluster s' = es_cluster s"
  using assms(2) honest_getD [OF assms(1)] honest_patch_failD [OF assms(1)]
  by (auto simp: ClearComponentStatus_def loadClusterForStatusPatch_def Let_def
      split: prod.splits sum.splits if_splits option.splits)

lemma map_of_drop_entry:
  "map_of (case drop_entry n m of None \<Rightarrow> [] | Some m' \<Rightarrow> m') = (map_of m)(n := None)"
  using map_of_delete [of n m] by (auto simp: drop_entry_def Let_def simp del: map_of_delete)

lemma ClearComponentStatus_ok:
  assumes h: "honest_client c stored" and p: "ClearComponentStatus (Some c) ref s = (s', None)"
  shows "\<exists>st st'. stored (es_world s) = Some st \<and> stored (es_world s') = Some st' \<and>
    map_of (entries st') = (map_of (entries st))(mr_name ref := None)"
proof -
  obtain w1 st where g: "cl_get c (es_world s) = (w1, Inr st)" and v: "validateUpdaterRef (Some c) ref = None"
    using p by (auto simp: ClearComponentStatus_def loadClusterForStatusPatch_def split: prod.splits sum.splits option.splits)
  note st = honest_get_okD [OF h g]
  show ?thesis
  proof (cases "\<exists>m. st_componentStatuses st = Some m \<and> has_key m (mr_name ref)")
    case False
    with p g v have "es_world s' = w1"
      by (auto simp: ClearComponentStatus_def loadClusterForStatusPatch_def split: option.splits if_splits)
    moreover have "map_of (entries st) (mr_name ref) = None"
      using False by (auto simp: entries_def has_key_def split: option.splits)
    ultimately show ?thesis using st by auto
  next
    case True
    then obtain m where m: "st_componentStatuses st = Some m" "has_key m (mr_name ref)" by blast
    with p g v obtain w2 where
      w2: "cl_patch c w1 st (st\<lparr>st_componentStatuses := drop_entry (mr_name ref) m\<rparr>) = (w2, None)" "es_world s' = w2"
      by (auto simp: ClearComponentStatus_def loadClusterForStatusPatch_def split: prod.splits option.splits)
    from honest_patchD [OF h w2(1)] st w2(2) m(1) map_of_drop_entry [of "mr_name ref" m]
    show ?thesis by (auto simp: entries_def)
  qed
qed

section \<open>Properties\<close>

text \<open>A progress patch is all or nothing: when it reports an error, neither the stored nor the
  in-memory progress has changed; when it succeeds on a cluster that tracks progress, both hold the
  mutated stored progress and the rest of the stored status is untouched.\<close>

theorem progress_patch_atomic:
  assumes "honest_client c stored" and "patchDeclarativeUpgrade (Some c) mutate s = (s', r)"
  shows "case r of
      Some e \<Rightarrow> stored (es_world s') = stored (es_world s) \<and> es_cluster s' = es_cluster s
    | None \<Rightarrow> (\<exists>st. stored (es_world s) = Some st \<and>
        (if st_declarativeUpgrade st = None
         then stored (es_world s') = Some st \<and> es_cluster s' = es_cluster s
         else stored (es_world s') = Some (st\<lparr>st_declarativeUpgrade := mutate (st_declarativeUpgrade st)\<rparr>) \<and>
              st_declarativeUpgrade (memory s') = mutate (st_declarativeUpgrade st)))"
proof (cases r)
  case None
  with assms(2) have "patchDeclarativeUpgrade (Some c) mutate s = (s', None)" by simp
  from patchDeclarativeUpgrade_ok [OF assms(1) this] obtain st where st: "stored (es_world s) = Some st"
    "if st_declarativeUpgrade st = None
     then stored (es_world s') = stored (es_world s) \<and> es_cluster s' = es_cluster s
     else stored (es_world s') = Some (st\<lparr>st_declarativeUpgrade := mutate (st_declarativeUpgrade st)\<rparr>) \<and>
          memory s' = (memory s)\<lparr>st_declarativeUpgrade := mutate (st_declarativeUpgrade st)\<rparr>" by blast
  show ?thesis unfolding None option.case
    by (rule exI [of _ st]) (use st in \<open>simp split: if_splits\<close>)
next
  case (Some e)
  with patchDeclarativeUpgrade_error [OF assms(1)] assms(2) show ?thesis by auto
qed

text \<open>A client over an association of one status; its second component injects a failure.\<close>

definition cell_client :: "(cluster_status option \<times> string option) api_client" where
  "cell_client = \<lparr>cl_get = (\<lambda>w. (w, case fst w of None \<Rightarrow> Inl ''not found'' | Some st \<Rightarrow> Inr st)),
     cl_patch = (\<lambda>w orig cur. case snd w of None \<Rightarrow> ((Some cur, None), None) | Some e \<Rightarrow> (w, Some e)),
     cl_now = (\<lambda>w. 7)\<rparr>"

lemma cell_client_honest: "honest_client cell_client fst"
  by (auto simp: honest_client_def cell_client_def split: option.splits)

definition demo_cluster :: bke_cluster where
  "demo_cluster = (blank_cluster ''ns'' ''c1'')\<lparr>bc_uid := ''u1'',
     bc_status := empty_status\<rparr>"

definition demo_status :: cluster_status where
  "demo_status = empty_status\<lparr>st_declarativeUpgrade := Some fresh_progress\<rparr>"

definition demo_state :: "(cluster_status option \<times> string option) exec_state" where
  "demo_state = \<lparr>es_world = (Some demo_status, None), es_cluster = demo_cluster\<rparr>"

theorem progress_patch_atomic_witness:
  "\<exists>st. fst (es_world demo_state) = Some st \<and>
     fst (es_world (fst (patchDeclarativeUpgrade (Some cell_client) ClearFailure demo_state))) =
       Some (st\<lparr>st_declarativeUpgrade := ClearFailure (st_declarativeUpgrade st)\<rparr>)"
proof -
  have p: "patchDeclarativeUpgrade (Some cell_client) ClearFailure demo_state =
    (fst (patchDeclarativeUpgrade (Some cell_client) ClearFailure demo_state), None)"
    by (simp add: patchDeclarativeUpgrade_def cell_client_def demo_state_def demo_status_def Let_def)
  show ?thesis
    using progress_patch_atomic [OF cell_client_honest p]
    by (simp add: demo_state_def demo_status_def)
qed


definition demo_ref :: mark_ref where
  "demo_ref = \<lparr>mr_cluster = True, mr_name = ''etcd'', mr_componentType = StatusComponentTypeCluster, mr_nodeIP = []\<rparr>"


end
