(* ===== verification/Scheduler.thy ===== *)
theory Scheduler
  imports Upgrade_Plan Lifecycle_Store
begin

text \<open>
  Executing a plan: the scheduler of \<^verbatim>\<open>pkg/dagexec\<close> (\<^verbatim>\<open>scheduler.go\<close>, \<^verbatim>\<open>registry.go\<close>,
  \<^verbatim>\<open>inline_executor.go\<close>, \<^verbatim>\<open>execution_context.go\<close>, \<^verbatim>\<open>feature_gate.go\<close>).

  The batches of a plan run one after the other. The goroutines of a batch are a step relation
  (\<open>batch_step\<close>): a waiting component takes a slot of the semaphore and starts, a running one
  finishes with the outcome of \<^verbatim>\<open>executeComponent\<close>, a fail-fast failure cancels the batch
  context after the slot is released, and a waiting component may give up once the context is
  cancelled. The runners, the manifest store and the applier are parameters; they receive a moment,
  so that two calls with equal arguments may end differently.

  The results: a batch always ends, within a bound on its steps, and never runs more components at
  a time than the limit; without an outside cancellation every component that runs does so after all
  its prerequisites have been settled; a fail-fast failure stops all later batches; completed
  components and components that need no upgrade are never run; a failure is always reported; what
  ran well is recorded as completed, so that a later run skips it.
\<close>

section \<open>Definitions\<close>

subsection \<open>pkg/manifest/skip.go\<close>

(* src: pkg/manifest/skip.go 24-27 SkipNotInstalledError *)
datatype comp_error = SkipNotInstalled string | OtherError string

(* src: pkg/manifest/skip.go 29-34 SkipNotInstalledError.Error *)
fun err_text :: "comp_error \<Rightarrow> string" where
  "err_text (SkipNotInstalled c) =
     (if c = [] then ''manifest upgrade skipped: component not installed''
      else ''manifest upgrade skipped: component not installed: '' @ c)"
| "err_text (OtherError m) = m"

(* src: pkg/manifest/skip.go 46-48 IsSkipNotInstalled *)
fun IsSkipNotInstalled :: "comp_error option \<Rightarrow> bool" where
  "IsSkipNotInstalled None = False"
| "IsSkipNotInstalled (Some (SkipNotInstalled c)) = True"
| "IsSkipNotInstalled (Some (OtherError m)) = False"

subsection \<open>execution\_context.go, registry.go, feature\_gate.go\<close>

(* src: pkg/manifest/types.go 26-32 TemplateContext *)
record template_context =
  tc_clusterName :: string
  tc_namespace :: string
  tc_kubernetesVersion :: string
  tc_openFuyaoVersion :: string

(* src: pkg/dagexec/execution_context.go 66-80 buildTemplateContext *)
definition buildTemplateContext :: "bke_cluster option \<Rightarrow> template_context" where
  "buildTemplateContext co =
     (case co of
        None \<Rightarrow> \<lparr>tc_clusterName = [], tc_namespace = [], tc_kubernetesVersion = [], tc_openFuyaoVersion = []\<rparr>
      | Some c \<Rightarrow> (case bs_clusterConfig (bc_spec c) of
          None \<Rightarrow> \<lparr>tc_clusterName = bc_name c, tc_namespace = bc_namespace c,
                    tc_kubernetesVersion = [], tc_openFuyaoVersion = []\<rparr>
        | Some spec \<Rightarrow> \<lparr>tc_clusterName = bc_name c, tc_namespace = bc_namespace c,
                    tc_kubernetesVersion = cs_kubernetesVersion spec, tc_openFuyaoVersion = cs_openFuyaoVersion spec\<rparr>))"

text \<open>The cluster of the context is the in-memory cluster of the execution state. The updater is nil,
  or a \<^verbatim>\<open>BKEComponentStatusUpdater\<close> over a client that may be nil.\<close>

(* src: pkg/dagexec/execution_context.go 24-37 ExecutionContext *)
record 'w exec_ctx =
  xc_hasCluster :: bool
  xc_updater :: "'w api_client option option"
  xc_versionContext :: "version_context option"
  xc_template :: template_context
  xc_client :: "'w api_client option"

type_synonym moment = nat

(* src: pkg/dagexec/executor.go 30-34 ComponentExecutor *)
record executor =
  ex_type :: string
  ex_run :: "moment \<Rightarrow> version_context option \<Rightarrow> component_node option \<Rightarrow> comp_error option"

(* src: pkg/dagexec/inline_runner.go 21-25 InlineRunner *)
type_synonym inline_runner = "moment \<Rightarrow> string \<Rightarrow> string \<Rightarrow> comp_error option"

datatype registry_error = NilRegistry | NilExecutor | EmptyType

(* src: pkg/dagexec/registry.go 27-31 NewExecutorRegistry *)
definition NewExecutorRegistry :: "executor gomap" where
  "NewExecutorRegistry = []"

(* src: pkg/dagexec/registry.go 35-53 ExecutorRegistry.Register *)
definition Register :: "executor gomap option \<Rightarrow> executor option \<Rightarrow> registry_error + executor gomap" where
  "Register ro eo =
     (case ro of None \<Rightarrow> Inl NilRegistry
      | Some r \<Rightarrow> (case eo of None \<Rightarrow> Inl NilExecutor
          | Some e \<Rightarrow> if ex_type e = [] then Inl EmptyType else Inr (AList.update (ex_type e) e r)))"

(* src: pkg/dagexec/registry.go 56-64 ExecutorRegistry.Get *)
definition Registry_Get :: "executor gomap option \<Rightarrow> string \<Rightarrow> executor option" where
  "Registry_Get ro typ = (case ro of None \<Rightarrow> None | Some r \<Rightarrow> map_of r typ)"

(* src: pkg/dagexec/registry.go 67-70 ExecutorRegistry.Has *)
definition Registry_Has :: "executor gomap option \<Rightarrow> string \<Rightarrow> bool" where
  "Registry_Has ro typ = (\<not> Option.is_none (Registry_Get ro typ))"

(* src: pkg/dagexec/inline_executor.go 27-70 InlineComponentExecutor *)
definition InlineComponentExecutor :: "inline_runner option \<Rightarrow> executor" where
  "InlineComponentExecutor runner =
     \<lparr>ex_type = ''inline'',
      ex_run = (\<lambda>t vc no.
        (case runner of None \<Rightarrow> Some (OtherError ''inline runner is nil'')
         | Some run \<Rightarrow> (case no of None \<Rightarrow> Some (OtherError ''component node is nil'')
             | Some node \<Rightarrow> (case cn_inline node of
                 None \<Rightarrow> Some (OtherError ''missing inline ref'')
               | Some i \<Rightarrow>
                   if \<not> NeedsExecution vc (cn_name node) then None
                   else if ir_handler i = [] then Some (OtherError ''missing handler'')
                   else run t (ir_handler i)
                          (if ir_version i = [] then defaultComponentVersion else ir_version i)))))\<rparr>"

text \<open>A package of manifests: its name and the manifests.\<close>

(* src: pkg/manifest/types.go 18-24 ComponentPackage *)
record component_package =
  pkg_name :: string
  pkg_version :: string
  pkg_manifests :: "string list"
  pkg_applyStrategy :: string

(* src: pkg/dagexec/scheduler.go 47-58 Config *)
record sched_config =
  cfg_inlineRunner :: "inline_runner option"
  cfg_manifestStore :: "(moment \<Rightarrow> string \<Rightarrow> string \<Rightarrow> template_context \<Rightarrow> comp_error + component_package) option"
  cfg_manifestApplier :: "(moment \<Rightarrow> component_package \<Rightarrow> comp_error option) option"
  cfg_maxParallel :: int
  cfg_yamlExecutor :: "executor option"
  cfg_helmExecutor :: "executor option"
  cfg_cvStore :: "(string \<Rightarrow> string \<Rightarrow> string + component_version option) option"

(* src: pkg/dagexec/feature_gate.go 18-27 WithFeatureGateExecutors *)
definition WithFeatureGateExecutors :: "sched_config \<Rightarrow> bool \<Rightarrow> executor option \<Rightarrow> executor option \<Rightarrow> sched_config" where
  "WithFeatureGateExecutors cfg enabled yamlExecutor helmExecutor =
     (if \<not> enabled then cfg\<lparr>cfg_yamlExecutor := None, cfg_helmExecutor := None\<rparr>
      else cfg\<lparr>cfg_yamlExecutor := yamlExecutor, cfg_helmExecutor := helmExecutor\<rparr>)"

(* src: pkg/dagexec/scheduler.go 37-45 Scheduler *)
record scheduler =
  sc_inlineRunner :: "inline_runner option"
  sc_manifestStore :: "(moment \<Rightarrow> string \<Rightarrow> string \<Rightarrow> template_context \<Rightarrow> comp_error + component_package) option"
  sc_manifestApplier :: "(moment \<Rightarrow> component_package \<Rightarrow> comp_error option) option"
  sc_maxParallelPerBatch :: int
  sc_registry :: "executor gomap option"
  sc_cvStore :: "(string \<Rightarrow> string \<Rightarrow> string + component_version option) option"

(* src: pkg/dagexec/scheduler.go 32-35 defaultMaxParallelPerBatch *)
definition defaultMaxParallelPerBatch :: int where
  "defaultMaxParallelPerBatch = 8"

(* src: pkg/dagexec/scheduler.go 85-89 registerExecutorOrLog *)
definition registerExecutorOrLog :: "executor gomap \<Rightarrow> executor \<Rightarrow> executor gomap" where
  "registerExecutorOrLog reg e = (case Register (Some reg) (Some e) of Inl err \<Rightarrow> reg | Inr reg' \<Rightarrow> reg')"

(* src: pkg/dagexec/scheduler.go 62-83 NewScheduler *)
definition NewScheduler :: "sched_config \<Rightarrow> scheduler" where
  "NewScheduler cfg =
     (let maxParallel = (if cfg_maxParallel cfg = 0 then defaultMaxParallelPerBatch else cfg_maxParallel cfg);
          r1 = registerExecutorOrLog NewExecutorRegistry (InlineComponentExecutor (cfg_inlineRunner cfg));
          r2 = (case cfg_yamlExecutor cfg of None \<Rightarrow> r1 | Some e \<Rightarrow> registerExecutorOrLog r1 e);
          r3 = (case cfg_helmExecutor cfg of None \<Rightarrow> r2 | Some e \<Rightarrow> registerExecutorOrLog r2 e)
      in \<lparr>sc_inlineRunner = cfg_inlineRunner cfg, sc_manifestStore = cfg_manifestStore cfg,
          sc_manifestApplier = cfg_manifestApplier cfg, sc_maxParallelPerBatch = maxParallel,
          sc_registry = Some r3, sc_cvStore = cfg_cvStore cfg\<rparr>)"

subsection \<open>scheduler.go: one component\<close>

(* src: pkg/dagexec/scheduler.go 330-332 isFailFast *)
definition isFailFast :: "component_node \<Rightarrow> bool" where
  "isFailFast node = (cn_failurePolicy node = FailFast)"

(* src: pkg/dagexec/scheduler.go 334-346 Scheduler.maxParallel *)
definition maxParallel :: "scheduler \<Rightarrow> int \<Rightarrow> int" where
  "maxParallel s batchLen =
     (if batchLen \<le> 0 then 1
      else let limit = (if sc_maxParallelPerBatch s \<le> 0 then defaultMaxParallelPerBatch else sc_maxParallelPerBatch s)
           in if limit > batchLen then batchLen else limit)"

(* src: pkg/dagexec/scheduler.go 348-362 Scheduler.nodeVersionKey *)
definition nodeVersionKey :: "component_node \<Rightarrow> string" where
  "nodeVersionKey node =
     (case cn_inline node of
        Some i \<Rightarrow> if ir_version i \<noteq> [] then ir_version i else defaultComponentVersion
      | None \<Rightarrow> if cn_version node \<noteq> [] then cn_version node else defaultComponentVersion)"

(* src: pkg/dagexec/scheduler.go 516-527 componentStatusVersion *)
definition componentStatusVersion :: "component_node \<Rightarrow> string" where
  "componentStatusVersion node =
     (if cn_version node \<noteq> [] then cn_version node
      else case cn_inline node of
             Some i \<Rightarrow> if ir_version i \<noteq> [] then ir_version i else defaultComponentVersion
           | None \<Rightarrow> defaultComponentVersion)"

(* src: pkg/dagexec/scheduler.go 364-373 Scheduler.shouldSkipComponent *)
definition shouldSkipComponent :: "'w exec_ctx \<Rightarrow> 'w exec_state \<Rightarrow> component_node \<Rightarrow> bool" where
  "shouldSkipComponent ctx st node =
     (if \<not> xc_hasCluster ctx then False
      else IsCompleted (st_declarativeUpgrade (memory st)) (cn_name node) (nodeVersionKey node))"

(* src: pkg/dagexec/scheduler.go 376-385 Scheduler.componentNeedsUpgrade *)
definition componentNeedsUpgrade :: "'w exec_ctx \<Rightarrow> component_node \<Rightarrow> bool" where
  "componentNeedsUpgrade ctx node = NeedsExecution (xc_versionContext ctx) (cn_name node)"

(* src: pkg/dagexec/scheduler.go 531-544 Scheduler.resolveComponentType *)
definition resolveComponentType :: "scheduler \<Rightarrow> component_node \<Rightarrow> string option" where
  "resolveComponentType s node =
     (case sc_cvStore s of None \<Rightarrow> None
      | Some lookup \<Rightarrow>
          (case lookup (cn_name node) (if cn_version node = [] then defaultComponentVersion else cn_version node) of
             Inl err \<Rightarrow> None
           | Inr None \<Rightarrow> None
           | Inr (Some cv) \<Rightarrow> if cv_type cv = [] then None else Some (cv_type cv)))"

(* src: pkg/dagexec/scheduler.go 460-467 Scheduler.usesRegistryExecutor *)
definition usesRegistryExecutor :: "scheduler \<Rightarrow> component_node \<Rightarrow> bool" where
  "usesRegistryExecutor s node =
     (case resolveComponentType s node of None \<Rightarrow> False | Some typ \<Rightarrow> \<not> Option.is_none (Registry_Get (sc_registry s) typ))"

(* src: pkg/dagexec/scheduler.go 563-580 Scheduler.executeInline *)
definition executeInline :: "scheduler \<Rightarrow> moment \<Rightarrow> inline_ref \<Rightarrow> comp_error option" where
  "executeInline s t i =
     (case sc_inlineRunner s of None \<Rightarrow> Some (OtherError ''inline runner is nil'')
      | Some run \<Rightarrow> if ir_handler i = [] then Some (OtherError ''missing handler'')
                    else run t (ir_handler i) (if ir_version i = [] then defaultComponentVersion else ir_version i))"

(* src: pkg/dagexec/scheduler.go 587-621 Scheduler.executeManifest *)
definition executeManifest :: "scheduler \<Rightarrow> 'w exec_ctx \<Rightarrow> moment \<Rightarrow> component_node \<Rightarrow> comp_error option" where
  "executeManifest s ctx t node =
     (if \<not> NeedsExecution (xc_versionContext ctx) (cn_name node) then None
      else let version = (if cn_version node = [] then defaultComponentVersion else cn_version node)
           in (case sc_manifestStore s of None \<Rightarrow> Some (OtherError ''manifest store is not configured'')
               | Some load \<Rightarrow> (case load t (cn_name node) version (xc_template ctx) of
                   Inl err \<Rightarrow> Some err
                 | Inr pkg \<Rightarrow>
                     if pkg_manifests pkg = [] then Some (OtherError ''no manifests to apply'')
                     else (case sc_manifestApplier s of None \<Rightarrow> Some (OtherError ''manifest applier is not configured'')
                           | Some app \<Rightarrow> app t pkg))))"

(* src: pkg/dagexec/scheduler.go 556-561 Scheduler.executeComponentLegacy *)
definition executeComponentLegacy :: "scheduler \<Rightarrow> 'w exec_ctx \<Rightarrow> moment \<Rightarrow> component_node \<Rightarrow> comp_error option" where
  "executeComponentLegacy s ctx t node =
     (case cn_inline node of Some i \<Rightarrow> executeInline s t i | None \<Rightarrow> executeManifest s ctx t node)"

(* src: pkg/dagexec/scheduler.go 435-456 Scheduler.executeComponent *)
definition executeComponent :: "scheduler \<Rightarrow> 'w exec_ctx \<Rightarrow> moment \<Rightarrow> component_node \<Rightarrow> comp_error option" where
  "executeComponent s ctx t node =
     (case resolveComponentType s node of
        None \<Rightarrow> executeComponentLegacy s ctx t node
      | Some typ \<Rightarrow> (case Registry_Get (sc_registry s) typ of
                       Some e \<Rightarrow> ex_run e t (xc_versionContext ctx) (Some node)
                     | None \<Rightarrow> executeComponentLegacy s ctx t node))"

subsection \<open>scheduler.go: recording progress\<close>

(* src: pkg/dagexec/scheduler.go 388-407 Scheduler.markComponentsCompleted *)
definition markComponentsCompleted :: "'w exec_ctx \<Rightarrow> component_node list \<Rightarrow> 'w exec_state \<Rightarrow> 'w exec_state \<times> string option" where
  "markComponentsCompleted ctx nodes st =
     (if \<not> xc_hasCluster ctx \<or> Option.is_none (xc_client ctx) \<or> nodes = [] then (st, None)
      else let now = cl_now (the (xc_client ctx)) (es_world st)
           in patchDeclarativeUpgrade (xc_client ctx)
                (\<lambda>du. ClearFailure (map_option (\<lambda>d. d\<lparr>du_lastError := []\<rparr>)
                        (fold (\<lambda>node du. MarkCompleted du (cn_name node) (nodeVersionKey node) now) nodes du))) st)"

(* src: pkg/dagexec/scheduler.go 420-433 Scheduler.markComponentFailed *)
definition markComponentFailed :: "'w exec_ctx \<Rightarrow> component_node \<Rightarrow> comp_error \<Rightarrow> 'w exec_state \<Rightarrow> 'w exec_state \<times> string option" where
  "markComponentFailed ctx node err st =
     (if \<not> xc_hasCluster ctx \<or> Option.is_none (xc_client ctx) then (st, None)
      else let now = cl_now (the (xc_client ctx)) (es_world st)
           in patchDeclarativeUpgrade (xc_client ctx)
                (\<lambda>du. MarkFailure du (cn_name node) (nodeVersionKey node) (err_text err) now) st)"

(* src: pkg/dagexec/scheduler.go 501-507 lifecycleMarkRef *)
definition lifecycleMarkRef :: "component_node \<Rightarrow> mark_ref" where
  "lifecycleMarkRef node = \<lparr>mr_cluster = True, mr_name = cn_name node,
     mr_componentType = StatusComponentTypeCluster, mr_nodeIP = []\<rparr>"

(* src: pkg/dagexec/scheduler.go 509-514 lifecycleUpdater *)
definition with_updater :: "'w exec_ctx \<Rightarrow> ('w api_client option \<Rightarrow> 'w exec_state \<Rightarrow> 'w exec_state \<times> string option) \<Rightarrow>
    'w exec_state \<Rightarrow> 'w exec_state \<times> string option" where
  "with_updater ctx f st =
     (case xc_updater ctx of None \<Rightarrow> (st, None)
      | Some co \<Rightarrow> if \<not> xc_hasCluster ctx then (st, None) else f co st)"

(* src: pkg/dagexec/scheduler.go 469-475 Scheduler.markLifecyclePending *)
definition markLifecyclePending :: "'w exec_ctx \<Rightarrow> component_node \<Rightarrow> 'w exec_state \<Rightarrow> 'w exec_state \<times> string option" where
  "markLifecyclePending ctx node = with_updater ctx (\<lambda>co. MarkPending co (lifecycleMarkRef node))"

(* src: pkg/dagexec/scheduler.go 477-483 Scheduler.markLifecycleInstalled *)
definition markLifecycleInstalled :: "'w exec_ctx \<Rightarrow> component_node \<Rightarrow> 'w exec_state \<Rightarrow> 'w exec_state \<times> string option" where
  "markLifecycleInstalled ctx node =
     with_updater ctx (\<lambda>co. MarkInstalled co (lifecycleMarkRef node) (componentStatusVersion node))"

(* src: pkg/dagexec/scheduler.go 485-491 Scheduler.markLifecycleFailed *)
definition markLifecycleFailed :: "'w exec_ctx \<Rightarrow> component_node \<Rightarrow> comp_error \<Rightarrow> 'w exec_state \<Rightarrow> 'w exec_state \<times> string option" where
  "markLifecycleFailed ctx node err =
     with_updater ctx (\<lambda>co. MarkFailed co (lifecycleMarkRef node) (Some (err_text err)))"

(* src: pkg/dagexec/scheduler.go 493-499 Scheduler.markLifecycleClear *)
definition markLifecycleClear :: "'w exec_ctx \<Rightarrow> component_node \<Rightarrow> 'w exec_state \<Rightarrow> 'w exec_state \<times> string option" where
  "markLifecycleClear ctx node = with_updater ctx (\<lambda>co. ClearComponentStatus co (lifecycleMarkRef node))"

subsection \<open>scheduler.go: one batch\<close>

datatype sched_error =
    NilScheduler | NilDAG | NilContext | NilCluster | PlanFailed topo_error
  | ComponentNotFound nat string
  | PendingNotPersisted string string
  | ClearNotPersisted string string
  | FailureNotPersisted string string
  | LifecycleFailureNotPersisted string string
  | CompletionNotPersisted string string
  | LifecycleCompletionNotPersisted string string
  | ComponentFailed string comp_error

(* src: pkg/dagexec/scheduler.go 153-157 workItem *)
record work_item =
  wi_name :: string
  wi_node :: component_node
  wi_viaRegistry :: bool

text \<open>The entry of a component that never started has a nil node; it is \<^const>\<open>None\<close> here.\<close>

(* src: pkg/dagexec/scheduler.go 91-96 componentResult *)
type_synonym component_result = "(work_item \<times> comp_error option) option"

text \<open>Collecting the runnable items of a batch, one name at a time: the item if the component has to
  run, the errors, and whether a fail-fast component stops the batch.\<close>

(* src: pkg/dagexec/scheduler.go 161-182 Scheduler.executeBatchParallel (one component) *)
definition collect_one :: "scheduler \<Rightarrow> 'w exec_ctx \<Rightarrow> nat \<Rightarrow> upgrade_dag \<Rightarrow> string \<Rightarrow> 'w exec_state \<Rightarrow>
    'w exec_state \<times> work_item list \<times> sched_error list \<times> bool" where
  "collect_one s ctx batchIdx dag compName st =
     (case GetNode dag compName of
        None \<Rightarrow> (st, [], [ComponentNotFound batchIdx compName], False)
      | Some node \<Rightarrow>
          if shouldSkipComponent ctx st node then (st, [], [], False)
          else if \<not> componentNeedsUpgrade ctx node then (st, [], [], False)
          else if usesRegistryExecutor s node
          then (case markLifecyclePending ctx node st of
                  (st', Some err) \<Rightarrow> (st', [], [PendingNotPersisted compName err], isFailFast node)
                | (st', None) \<Rightarrow> (st', [\<lparr>wi_name = compName, wi_node = node, wi_viaRegistry = True\<rparr>], [], False))
          else (st, [\<lparr>wi_name = compName, wi_node = node, wi_viaRegistry = False\<rparr>], [], False))"

(* src: pkg/dagexec/scheduler.go 159-183 Scheduler.executeBatchParallel (collect items) *)
fun collect_items :: "scheduler \<Rightarrow> 'w exec_ctx \<Rightarrow> nat \<Rightarrow> upgrade_dag \<Rightarrow> string list \<Rightarrow> 'w exec_state \<Rightarrow>
    'w exec_state \<times> work_item list \<times> sched_error list \<times> bool" where
  "collect_items s ctx batchIdx dag [] st = (st, [], [], False)"
| "collect_items s ctx batchIdx dag (compName # rest) st =
     (case collect_one s ctx batchIdx dag compName st of
        (st1, its1, errs1, True) \<Rightarrow> (st1, its1, errs1, True)
      | (st1, its1, errs1, False) \<Rightarrow>
          (case collect_items s ctx batchIdx dag rest st1 of
             (st2, its2, errs2, stop) \<Rightarrow> (st2, its1 @ its2, errs1 @ errs2, stop)))"

(* src: pkg/dagexec/scheduler.go 262-287 Scheduler.persistBatchFailure *)
definition persistBatchFailure :: "'w exec_ctx \<Rightarrow> work_item \<Rightarrow> comp_error \<Rightarrow> 'w exec_state \<Rightarrow>
    'w exec_state \<times> bool \<times> sched_error list" where
  "persistBatchFailure ctx it err st =
     (let node = wi_node it; compName = wi_name it
      in if IsSkipNotInstalled (Some err)
         then (if wi_viaRegistry it
               then (case markLifecycleClear ctx node st of
                       (st', Some e) \<Rightarrow> (st', False, [ClearNotPersisted compName e])
                     | (st', None) \<Rightarrow> (st', False, []))
               else (st, False, []))
         else (case markComponentFailed ctx node err st of
                 (st1, r1) \<Rightarrow>
                   (case (if wi_viaRegistry it then markLifecycleFailed ctx node err st1 else (st1, None)) of
                      (st2, r2) \<Rightarrow>
                        (st2, isFailFast node,
                         (case r1 of None \<Rightarrow> [] | Some e \<Rightarrow> [FailureNotPersisted compName e]) @
                         (case r2 of None \<Rightarrow> [] | Some e \<Rightarrow> [LifecycleFailureNotPersisted compName e]) @
                         [ComponentFailed compName err]))))"

(* src: pkg/dagexec/scheduler.go 316-326 Scheduler.persistBatchSuccesses (lifecycle loop) *)
fun mark_installed_all :: "'w exec_ctx \<Rightarrow> work_item list \<Rightarrow> 'w exec_state \<Rightarrow> bool \<Rightarrow> sched_error list \<Rightarrow>
    'w exec_state \<times> bool \<times> sched_error list" where
  "mark_installed_all ctx [] st stop errs = (st, stop, errs)"
| "mark_installed_all ctx (it # its) st stop errs =
     (if \<not> wi_viaRegistry it then mark_installed_all ctx its st stop errs
      else (case markLifecycleInstalled ctx (wi_node it) st of
              (st', Some e) \<Rightarrow> mark_installed_all ctx its st' (stop \<or> isFailFast (wi_node it))
                                 (errs @ [LifecycleCompletionNotPersisted (wi_name it) e])
            | (st', None) \<Rightarrow> mark_installed_all ctx its st' stop errs))"

(* src: pkg/dagexec/scheduler.go 291-328 Scheduler.persistBatchSuccesses *)
definition persistBatchSuccesses :: "'w exec_ctx \<Rightarrow> work_item list \<Rightarrow> 'w exec_state \<Rightarrow>
    'w exec_state \<times> bool \<times> sched_error list" where
  "persistBatchSuccesses ctx successes st =
     (if successes = [] then (st, False, [])
      else (case markComponentsCompleted ctx (map wi_node successes) st of
              (st1, Some e) \<Rightarrow>
                mark_installed_all ctx successes st1 (list_ex (\<lambda>it. isFailFast (wi_node it)) successes)
                  (map (\<lambda>it. CompletionNotPersisted (wi_name it) e) successes)
            | (st1, None) \<Rightarrow> mark_installed_all ctx successes st1 False []))"

(* src: pkg/dagexec/scheduler.go 239-252 Scheduler.persistBatchResults (result loop) *)
fun persist_failures :: "'w exec_ctx \<Rightarrow> component_result list \<Rightarrow> 'w exec_state \<Rightarrow> work_item list \<Rightarrow> bool \<Rightarrow>
    sched_error list \<Rightarrow> 'w exec_state \<times> work_item list \<times> bool \<times> sched_error list" where
  "persist_failures ctx [] st succ stop errs = (st, succ, stop, errs)"
| "persist_failures ctx (None # rs) st succ stop errs = persist_failures ctx rs st succ stop errs"
| "persist_failures ctx (Some (it, Some err) # rs) st succ stop errs =
     (case persistBatchFailure ctx it err st of
        (st', stop', errs') \<Rightarrow> persist_failures ctx rs st' succ (stop \<or> stop') (errs @ errs'))"
| "persist_failures ctx (Some (it, None) # rs) st succ stop errs =
     persist_failures ctx rs st (succ @ [it]) stop errs"

(* src: pkg/dagexec/scheduler.go 230-260 Scheduler.persistBatchResults *)
definition persistBatchResults :: "'w exec_ctx \<Rightarrow> component_result list \<Rightarrow> sched_error list \<Rightarrow> 'w exec_state \<Rightarrow>
    'w exec_state \<times> sched_error list \<times> bool" where
  "persistBatchResults ctx results batchErrs st =
     (case persist_failures ctx results st [] False batchErrs of
        (st1, succ, stop1, errs1) \<Rightarrow>
          (case persistBatchSuccesses ctx succ st1 of
             (st2, stop2, errs2) \<Rightarrow> (st2, errs1 @ errs2, stop1 \<or> stop2)))"

text \<open>The goroutines of a batch. \<open>bt_failing\<close> are the fail-fast failures that have released their
  slot but not yet cancelled the batch context.\<close>

record batch_state =
  bt_waiting :: "nat set"
  bt_running :: "nat set"
  bt_failing :: "nat set"
  bt_cancelled :: bool
  bt_results :: "nat \<rightharpoonup> comp_error option"

(* src: pkg/dagexec/scheduler.go 214-220 Scheduler.executeBatchParallel (worker result) *)
definition worker_fails :: "component_node \<Rightarrow> comp_error option \<Rightarrow> bool" where
  "worker_fails node err \<longleftrightarrow> \<not> (err = None \<or> IsSkipNotInstalled err) \<and> cn_failurePolicy node = FailFast"

(* src: pkg/dagexec/scheduler.go 197-224 Scheduler.executeBatchParallel (goroutines) *)
inductive batch_step :: "bool \<Rightarrow> int \<Rightarrow> (nat \<Rightarrow> component_node) \<Rightarrow> (moment \<Rightarrow> component_node \<Rightarrow> comp_error option) \<Rightarrow>
    batch_state \<Rightarrow> batch_state \<Rightarrow> bool" for ext limit node exec where
  start: "i \<in> bt_waiting b \<Longrightarrow> int (card (bt_running b)) < limit \<Longrightarrow>
     batch_step ext limit node exec b
       (b\<lparr>bt_waiting := bt_waiting b - {i}, bt_running := insert i (bt_running b)\<rparr>)"
| finish: "i \<in> bt_running b \<Longrightarrow> r = exec t (node i) \<Longrightarrow>
     batch_step ext limit node exec b
       (b\<lparr>bt_running := bt_running b - {i}, bt_results := (bt_results b)(i \<mapsto> r),
          bt_failing := (if worker_fails (node i) r then insert i (bt_failing b) else bt_failing b)\<rparr>)"
| fail: "i \<in> bt_failing b \<Longrightarrow>
     batch_step ext limit node exec b (b\<lparr>bt_failing := bt_failing b - {i}, bt_cancelled := True\<rparr>)"
| give_up: "i \<in> bt_waiting b \<Longrightarrow> bt_cancelled b \<Longrightarrow>
     batch_step ext limit node exec b (b\<lparr>bt_waiting := bt_waiting b - {i}\<rparr>)"
| outside: "ext \<Longrightarrow> \<not> bt_cancelled b \<Longrightarrow> batch_step ext limit node exec b (b\<lparr>bt_cancelled := True\<rparr>)"

definition batch_start :: "nat \<Rightarrow> batch_state" where
  "batch_start n = \<lparr>bt_waiting = {..<n}, bt_running = {}, bt_failing = {}, bt_cancelled = False, bt_results = Map.empty\<rparr>"

definition batch_final :: "batch_state \<Rightarrow> bool" where
  "batch_final b \<longleftrightarrow> bt_waiting b = {} \<and> bt_running b = {} \<and> bt_failing b = {}"

definition dummy_node :: component_node where
  "dummy_node = \<lparr>cn_name = [], cn_version = [], cn_inline = None, cn_failurePolicy = FailFast, cn_dependencies = []\<rparr>"

definition item_node :: "work_item list \<Rightarrow> nat \<Rightarrow> component_node" where
  "item_node items i = (if i < length items then wi_node (items ! i) else dummy_node)"

text \<open>The outcomes \<^verbatim>\<open>g.Wait\<close> may leave behind: those of a final state reached from the start.\<close>

definition batch_outcome :: "bool \<Rightarrow> scheduler \<Rightarrow> 'w exec_ctx \<Rightarrow> work_item list \<Rightarrow> component_result list \<Rightarrow> bool" where
  "batch_outcome ext s ctx items results \<longleftrightarrow>
     (\<exists>b. (batch_step ext (maxParallel s (int (length items))) (item_node items) (executeComponent s ctx))\<^sup>*\<^sup>*
             (batch_start (length items)) b \<and> batch_final b \<and>
          results = map (\<lambda>i. map_option (\<lambda>r. (items ! i, r)) (bt_results b i)) [0..<length items])"

(* src: pkg/dagexec/scheduler.go 144-228 Scheduler.executeBatchParallel *)
inductive executeBatchParallel :: "bool \<Rightarrow> scheduler \<Rightarrow> 'w exec_ctx \<Rightarrow> nat \<Rightarrow> upgrade_dag \<Rightarrow> string list \<Rightarrow> 'w exec_state \<Rightarrow>
    component_result list \<Rightarrow> 'w exec_state \<Rightarrow> sched_error list \<Rightarrow> bool \<Rightarrow> bool" for ext s ctx batchIdx dag batch st where
  pending_stop: "collect_items s ctx batchIdx dag batch st = (st', items, errs, True) \<Longrightarrow>
     executeBatchParallel ext s ctx batchIdx dag batch st [] st' errs True"
| nothing_runnable: "collect_items s ctx batchIdx dag batch st = (st', [], errs, False) \<Longrightarrow>
     executeBatchParallel ext s ctx batchIdx dag batch st [] st' errs False"
| run_items: "collect_items s ctx batchIdx dag batch st = (st1, items, errs, False) \<Longrightarrow> items \<noteq> [] \<Longrightarrow>
     batch_outcome ext s ctx items results \<Longrightarrow>
     persistBatchResults ctx results errs st1 = (st2, errs', stop) \<Longrightarrow>
     executeBatchParallel ext s ctx batchIdx dag batch st results st2 errs' stop"

text \<open>The history of a run: for every batch the state it started in and the results of its
  components.\<close>

(* src: pkg/dagexec/scheduler.go 129-141 Scheduler.ExecuteDAG (batch loop) *)
inductive execute_batches :: "bool \<Rightarrow> scheduler \<Rightarrow> 'w exec_ctx \<Rightarrow> upgrade_dag \<Rightarrow> nat \<Rightarrow> string list list \<Rightarrow> 'w exec_state \<Rightarrow>
    ('w exec_state \<times> component_result list) list \<Rightarrow> 'w exec_state \<Rightarrow> sched_error list \<Rightarrow> bool" for ext s ctx dag where
  all_done: "execute_batches ext s ctx dag k [] st [] st []"
| stopped: "executeBatchParallel ext s ctx k dag batch st results st' errs True \<Longrightarrow>
     execute_batches ext s ctx dag k (batch # rest) st [(st, results)] st' errs"
| next_batch: "executeBatchParallel ext s ctx k dag batch st results st1 errs False \<Longrightarrow>
     execute_batches ext s ctx dag (Suc k) rest st1 hist st' errs' \<Longrightarrow>
     execute_batches ext s ctx dag k (batch # rest) st ((st, results) # hist) st' (errs @ errs')"

(* src: pkg/dagexec/scheduler.go 99-142 Scheduler.ExecuteDAG *)
inductive ExecuteDAG :: "bool \<Rightarrow> scheduler option \<Rightarrow> 'w exec_ctx option \<Rightarrow> upgrade_dag option \<Rightarrow> 'w exec_state \<Rightarrow>
    ('w exec_state \<times> component_result list) list \<Rightarrow> 'w exec_state \<Rightarrow> sched_error list \<Rightarrow> bool" for ext where
  nil_scheduler: "ExecuteDAG ext None co do st [] st [NilScheduler]"
| nil_dag: "ExecuteDAG ext (Some s) co None st [] st [NilDAG]"
| nil_context: "ExecuteDAG ext (Some s) None (Some dag) st [] st [NilContext]"
| nil_cluster: "\<not> xc_hasCluster ctx \<Longrightarrow> ExecuteDAG ext (Some s) (Some ctx) (Some dag) st [] st [NilCluster]"
| plan_failed: "xc_hasCluster ctx \<Longrightarrow> DAG_TopologicalBatches dag = Inl e \<Longrightarrow>
     ExecuteDAG ext (Some s) (Some ctx) (Some dag) st [] st [PlanFailed e]"
| executed: "xc_hasCluster ctx \<Longrightarrow> DAG_TopologicalBatches dag = Inr batches \<Longrightarrow>
     ctx' = (if tc_clusterName (xc_template ctx) = [] \<and> tc_namespace (xc_template ctx) = []
             then ctx\<lparr>xc_template := buildTemplateContext (Some (es_cluster st))\<rparr> else ctx) \<Longrightarrow>
     execute_batches ext s ctx' dag 0 batches st hist st' errs \<Longrightarrow>
     ExecuteDAG ext (Some s) (Some ctx) (Some dag) st hist st' errs"

inductive_cases batch_stepE: "batch_step ext limit node exec b b'"
inductive_cases executeBatchE: "executeBatchParallel ext s ctx k dag batch st results st' errs stop"
inductive_cases execute_batches_NilE: "execute_batches ext s ctx dag k [] st hist st' errs"
inductive_cases execute_batches_ConsE: "execute_batches ext s ctx dag k (batch # rest) st hist st' errs"


section \<open>A batch\<close>

definition batch_ok :: "bool \<Rightarrow> int \<Rightarrow> (nat \<Rightarrow> component_node) \<Rightarrow> (moment \<Rightarrow> component_node \<Rightarrow> comp_error option) \<Rightarrow> nat \<Rightarrow>
    batch_state \<Rightarrow> bool" where
  "batch_ok ext limit node exec n b \<longleftrightarrow>
     bt_waiting b \<subseteq> {..<n} \<and> bt_running b \<subseteq> {..<n} \<and> dom (bt_results b) \<subseteq> {..<n} \<and>
     bt_waiting b \<inter> bt_running b = {} \<and> dom (bt_results b) \<inter> (bt_waiting b \<union> bt_running b) = {} \<and>
     int (card (bt_running b)) \<le> limit \<and>
     (\<forall>i r. bt_results b i = Some r \<longrightarrow> (\<exists>t. r = exec t (node i))) \<and>
     (\<forall>i\<in>bt_failing b. \<exists>r. bt_results b i = Some r \<and> worker_fails (node i) r) \<and>
     (\<not> bt_cancelled b \<longrightarrow> bt_waiting b \<union> bt_running b \<union> dom (bt_results b) = {..<n}) \<and>
     (bt_cancelled b \<longrightarrow> ext \<or> (\<exists>i r. bt_results b i = Some r \<and> worker_fails (node i) r))"

lemma batch_ok_finite: "batch_ok ext limit node exec n b \<Longrightarrow> finite (bt_waiting b) \<and> finite (bt_running b) \<and> finite (bt_failing b)"
proof -
  assume ok: "batch_ok ext limit node exec n b"
  then have "bt_failing b \<subseteq> dom (bt_results b)" by (auto simp: batch_ok_def)
  moreover have "dom (bt_results b) \<subseteq> {..<n}" "bt_waiting b \<subseteq> {..<n}" "bt_running b \<subseteq> {..<n}"
    using ok by (simp_all add: batch_ok_def)
  ultimately have "bt_failing b \<subseteq> {..<n}" "bt_waiting b \<subseteq> {..<n}" "bt_running b \<subseteq> {..<n}" by blast+
  then show ?thesis by (auto intro: finite_subset)
qed

lemma batch_ok_cancelled:
  "batch_ok ext limit node exec n b \<Longrightarrow> bt_cancelled b \<Longrightarrow>
     ext \<or> (\<exists>i r. bt_results b i = Some r \<and> worker_fails (node i) r)"
  by (simp add: batch_ok_def)

lemma batch_ok_start: "0 \<le> limit \<Longrightarrow> batch_ok ext limit node exec n (batch_start n)"
  by (auto simp: batch_ok_def batch_start_def)

lemma batch_ok_step:
  assumes "batch_step ext limit node exec b b'" and ok: "batch_ok ext limit node exec n b"
  shows "batch_ok ext limit node exec n b'"
  using assms(1)
proof cases
  case (start i)
  then have "card (insert i (bt_running b)) \<le> Suc (card (bt_running b))" by (simp add: card_insert_if batch_ok_finite [OF ok])
  with start ok show ?thesis by (auto simp: batch_ok_def)
next
  case (finish i r t)
  have "card (bt_running b - {i}) \<le> card (bt_running b)"
    using batch_ok_finite [OF ok] by (intro card_mono) auto
  moreover have "i \<notin> dom (bt_results b)" "i \<notin> bt_waiting b" "i < n" using finish ok by (auto simp: batch_ok_def)
  ultimately show ?thesis using finish ok unfolding batch_ok_def by (auto split: if_splits)
next
  case (fail i)
  with ok show ?thesis by (auto simp: batch_ok_def)
next
  case (give_up i)
  with ok show ?thesis by (auto simp: batch_ok_def)
next
  case outside
  with ok show ?thesis by (auto simp: batch_ok_def)
qed

lemma batch_ok_run:
  assumes "(batch_step ext limit node exec)\<^sup>*\<^sup>* b b'" and "batch_ok ext limit node exec n b"
  shows "batch_ok ext limit node exec n b'"
  using assms by induction (auto intro: batch_ok_step)

text \<open>Every step lowers this count.\<close>

definition batch_work :: "batch_state \<Rightarrow> nat" where
  "batch_work b = 3 * card (bt_waiting b) + 2 * card (bt_running b) + card (bt_failing b) + (if bt_cancelled b then 0 else 1)"

lemma card_Diff_one: "finite A \<Longrightarrow> i \<in> A \<Longrightarrow> Suc (card (A - {i})) = card A"
  by (metis card_Suc_Diff1)

lemma batch_step_work:
  assumes "batch_step ext limit node exec b b'" and ok: "batch_ok ext limit node exec n b"
  shows "batch_work b' < batch_work b"
  using assms(1)
proof cases
  case (start i)
  then have "i \<notin> bt_running b" using ok by (auto simp: batch_ok_def)
  with start batch_ok_finite [OF ok] card_Diff_one [of "bt_waiting b" i] show ?thesis
    by (simp add: batch_work_def)
next
  case (finish i r t)
  with batch_ok_finite [OF ok] card_Diff_one [of "bt_running b" i] show ?thesis
    by (auto simp: batch_work_def card_insert_if)
next
  case (fail i)
  with batch_ok_finite [OF ok] card_Diff_one [of "bt_failing b" i] show ?thesis
    by (auto simp: batch_work_def)
next
  case (give_up i)
  with batch_ok_finite [OF ok] card_Diff_one [of "bt_waiting b" i] show ?thesis
    by (auto simp: batch_work_def)
next
  case outside
  then show ?thesis by (auto simp: batch_work_def)
qed

lemma batch_step_exists:
  assumes "batch_ok ext limit node exec n b" "0 < limit" "\<not> batch_final b"
  shows "\<exists>b'. batch_step ext limit node exec b b'"
proof (cases "bt_running b = {}")
  case True
  show ?thesis
  proof (cases "bt_failing b = {}")
    case F: True
    with True assms(3) obtain i where "i \<in> bt_waiting b" by (auto simp: batch_final_def)
    then have "batch_step ext limit node exec b
        (b\<lparr>bt_waiting := bt_waiting b - {i}, bt_running := insert i (bt_running b)\<rparr>)"
      using True assms(2) by (intro batch_step.start) auto
    then show ?thesis ..
  next
    case False
    then obtain i where "i \<in> bt_failing b" by auto
    then show ?thesis using batch_step.fail by blast
  qed
next
  case False
  then obtain i where "i \<in> bt_running b" by auto
  then show ?thesis using batch_step.finish [OF _ refl] by blast
qed

lemma batch_reaches_final:
  assumes "batch_ok ext limit node exec n b" "0 < limit"
  shows "\<exists>b'. (batch_step ext limit node exec)\<^sup>*\<^sup>* b b' \<and> batch_final b'"
  using assms(1)
proof (induction "batch_work b" arbitrary: b rule: less_induct)
  case less
  show ?case
  proof (cases "batch_final b")
    case False
    from batch_step_exists [OF less.prems assms(2) False] obtain b1
      where b1: "batch_step ext limit node exec b b1" by blast
    from less.hyps [OF batch_step_work [OF b1 less.prems] batch_ok_step [OF b1 less.prems]] b1
    show ?thesis by (meson converse_rtranclp_into_rtranclp)
  qed auto
qed

lemma maxParallel_bounds: "0 < maxParallel s n" "0 < n \<Longrightarrow> maxParallel s n \<le> n"
  by (auto simp: maxParallel_def Let_def defaultMaxParallelPerBatch_def)

lemma maxParallel_le_config: "0 < sc_maxParallelPerBatch s \<Longrightarrow> 0 < n \<Longrightarrow> maxParallel s n \<le> sc_maxParallelPerBatch s"
  by (auto simp: maxParallel_def Let_def)

lemma batch_outcome_exists: "\<exists>results. batch_outcome ext s ctx items results"
  unfolding batch_outcome_def
  using batch_reaches_final [OF batch_ok_start] maxParallel_bounds(1) less_imp_le by blast

lemma batch_outcomeE:
  assumes "batch_outcome ext s ctx items results"
  obtains b where "batch_ok ext (maxParallel s (int (length items))) (item_node items) (executeComponent s ctx) (length items) b"
    "batch_final b"
    "\<forall>x r. Some (x, r) \<in> set results \<longleftrightarrow> (\<exists>i<length items. x = items ! i \<and> bt_results b i = Some r)"
proof -
  let ?n = "length items"
  obtain b where run: "(batch_step ext (maxParallel s (int ?n)) (item_node items) (executeComponent s ctx))\<^sup>*\<^sup>* (batch_start ?n) b"
    and fin: "batch_final b" and res: "results = map (\<lambda>i. map_option (\<lambda>r. (items ! i, r)) (bt_results b i)) [0..<?n]"
    using assms by (auto simp: batch_outcome_def)
  have ok: "batch_ok ext (maxParallel s (int ?n)) (item_node items) (executeComponent s ctx) ?n b"
    by (rule batch_ok_run [OF run batch_ok_start]) (use maxParallel_bounds(1) [of s "int ?n"] in simp)
  have mem: "Some (x, r) \<in> set results \<longleftrightarrow> (\<exists>i<?n. x = items ! i \<and> bt_results b i = Some r)" for x r
    by (auto simp: res image_iff eq_commute [of "Some (x, r)" "map_option _ _"])
  show thesis by (rule that [OF ok fin]) (simp add: mem)
qed

lemma batch_outcome_member:
  assumes "batch_outcome ext s ctx items results" "Some (it, r) \<in> set results"
  shows "it \<in> set items" "\<exists>t. r = executeComponent s ctx t (wi_node it)"
proof -
  from assms(1) obtain b where ok: "batch_ok ext (maxParallel s (int (length items))) (item_node items) (executeComponent s ctx) (length items) b"
    and "batch_final b"
    and mem: "\<forall>x r. Some (x, r) \<in> set results \<longleftrightarrow> (\<exists>i<length items. x = items ! i \<and> bt_results b i = Some r)"
    by (rule batch_outcomeE)
  from assms(2) obtain i where i: "i < length items" "it = items ! i" "bt_results b i = Some r" using mem by blast
  then show "it \<in> set items" by simp
  from ok i(3) have "\<exists>t. r = executeComponent s ctx t (item_node items i)" unfolding batch_ok_def by blast
  with i show "\<exists>t. r = executeComponent s ctx t (wi_node it)" by (simp add: item_node_def)
qed

lemma batch_outcome_complete:
  assumes "batch_outcome False s ctx items results"
  shows "(\<forall>it\<in>set items. \<exists>r. Some (it, r) \<in> set results) \<or>
      (\<exists>it err. Some (it, Some err) \<in> set results \<and> \<not> IsSkipNotInstalled (Some err) \<and> isFailFast (wi_node it))"
proof -
  let ?n = "length items"
  from assms obtain b where ok: "batch_ok False (maxParallel s (int ?n)) (item_node items) (executeComponent s ctx) ?n b"
    and fin: "batch_final b"
    and mem: "\<forall>x r. Some (x, r) \<in> set results \<longleftrightarrow> (\<exists>i<?n. x = items ! i \<and> bt_results b i = Some r)"
    by (rule batch_outcomeE)
  show ?thesis
  proof (cases "bt_cancelled b")
    case False
    with ok fin have "dom (bt_results b) = {..<?n}" by (simp add: batch_ok_def batch_final_def)
    then have "\<exists>r. bt_results b i = Some r" if "i < ?n" for i using that by auto
    then show ?thesis using mem by (metis in_set_conv_nth)
  next
    case True
    with batch_ok_cancelled [OF ok] obtain i r
      where i: "bt_results b i = Some r" "worker_fails (item_node items i) r" by blast
    moreover have "dom (bt_results b) \<subseteq> {..<?n}" using ok by (simp add: batch_ok_def)
    with i(1) have "i < ?n" by blast
    moreover from i obtain err where err: "r = Some err" by (auto simp: worker_fails_def)
    ultimately have "Some (items ! i, Some err) \<in> set results" using mem by blast
    moreover have "\<not> IsSkipNotInstalled (Some err)" "isFailFast (wi_node (items ! i))"
      using i(2) err \<open>i < ?n\<close> by (simp_all add: worker_fails_def item_node_def isFailFast_def)
    ultimately show ?thesis by blast
  qed
qed

section \<open>Collecting and persisting\<close>

lemma patch_memory: "patchDeclarativeUpgrade co mutate st = (st', r) \<Longrightarrow>
    entries (memory st') = entries (memory st)"
  by (auto simp: patchDeclarativeUpgrade_def Let_def entries_def split: option.splits prod.splits sum.splits if_splits)

lemma lifecycle_patch_keeps: "lifecycle_patch co ref mutate st = (st', r) \<Longrightarrow>
    st_declarativeUpgrade (memory st') = st_declarativeUpgrade (memory st)"
  by (auto simp: lifecycle_patch_def Let_def split: option.splits prod.splits sum.splits if_splits)

lemma ClearComponentStatus_keeps: "ClearComponentStatus co ref st = (st', r) \<Longrightarrow>
    st_declarativeUpgrade (memory st') = st_declarativeUpgrade (memory st)"
  by (auto simp: ClearComponentStatus_def removeComponentStatusFromMemory_def split: option.splits prod.splits sum.splits if_splits)

lemmas lifecycle_marks = markLifecyclePending_def markLifecycleInstalled_def markLifecycleFailed_def
  markLifecycleClear_def with_updater_def MarkPending_def MarkInstalled_def MarkFailed_def

lemma lifecycle_marks_keep:
  "markLifecyclePending ctx node st = (st', r) \<Longrightarrow> st_declarativeUpgrade (memory st') = st_declarativeUpgrade (memory st)"
  "markLifecycleInstalled ctx node st = (st', r) \<Longrightarrow> st_declarativeUpgrade (memory st') = st_declarativeUpgrade (memory st)"
  "markLifecycleFailed ctx node err st = (st', r) \<Longrightarrow> st_declarativeUpgrade (memory st') = st_declarativeUpgrade (memory st)"
  "markLifecycleClear ctx node st = (st', r) \<Longrightarrow> st_declarativeUpgrade (memory st') = st_declarativeUpgrade (memory st)"
  by (auto simp: lifecycle_marks Let_def dest: lifecycle_patch_keeps ClearComponentStatus_keeps split: option.splits if_splits)

text \<open>A component that the collection of a batch leaves out on purpose.\<close>

definition not_needed :: "'w exec_ctx \<Rightarrow> 'w exec_state \<Rightarrow> component_node \<Rightarrow> bool" where
  "not_needed ctx st node \<longleftrightarrow> shouldSkipComponent ctx st node \<or> \<not> componentNeedsUpgrade ctx node"

lemma not_needed_cong: "st_declarativeUpgrade (memory st') = st_declarativeUpgrade (memory st) \<Longrightarrow>
    not_needed ctx st' node \<longleftrightarrow> not_needed ctx st node"
  by (simp add: not_needed_def shouldSkipComponent_def)

lemma collect_one_spec:
  assumes "collect_one s ctx k dag n st = (st', its, errs, stop)"
  shows "st_declarativeUpgrade (memory st') = st_declarativeUpgrade (memory st)"
    and "its = [] \<or> (\<exists>it. its = [it] \<and> wi_name it = n \<and> GetNode dag n = Some (wi_node it) \<and> \<not> not_needed ctx st (wi_node it))"
    and "GetNode dag n = Some node \<Longrightarrow> not_needed ctx st node \<or> its \<noteq> [] \<or> (\<exists>e. errs = [PendingNotPersisted n e] \<and> stop = isFailFast node)"
    and "GetNode dag n = None \<Longrightarrow> errs = [ComponentNotFound k n]"
    and "stop \<longrightarrow> errs \<noteq> []"
  using assms lifecycle_marks_keep(1)
  by (auto simp: collect_one_def not_needed_def split: option.splits if_splits prod.splits)

lemma collect_items_ConsE:
  assumes "collect_items s ctx k dag (n # rest) st = (st', its, errs, stop)"
  obtains (halt) "collect_one s ctx k dag n st = (st', its, errs, True)" "stop"
  | (go) st1 its1 errs1 its2 errs2 where "collect_one s ctx k dag n st = (st1, its1, errs1, False)"
      "collect_items s ctx k dag rest st1 = (st', its2, errs2, stop)" "its = its1 @ its2" "errs = errs1 @ errs2"
proof -
  obtain st1 its1 errs1 stop1 where c: "collect_one s ctx k dag n st = (st1, its1, errs1, stop1)"
    using prod_cases4 by blast
  obtain st2 its2 errs2 stop2 where r: "collect_items s ctx k dag rest st1 = (st2, its2, errs2, stop2)"
    using prod_cases4 by blast
  show thesis using assms c r that by (cases stop1) auto
qed

lemma collect_items_memory:
  "collect_items s ctx k dag batch st = (st', its, errs, stop) \<Longrightarrow>
     st_declarativeUpgrade (memory st') = st_declarativeUpgrade (memory st)"
proof (induction batch arbitrary: st its errs)
  case (Cons n rest)
  from Cons.prems show ?case
    by (cases rule: collect_items_ConsE) (use Cons.IH collect_one_spec(1) in force)+
qed simp

lemma collect_items_sound:
  "collect_items s ctx k dag batch st = (st', its, errs, stop) \<Longrightarrow> it \<in> set its \<Longrightarrow>
     wi_name it \<in> set batch \<and> GetNode dag (wi_name it) = Some (wi_node it) \<and> \<not> not_needed ctx st (wi_node it)"
proof (induction batch arbitrary: st its errs)
  case (Cons n rest)
  from Cons.prems(1) show ?case
  proof (cases rule: collect_items_ConsE)
    case halt
    with collect_one_spec(2) [OF halt(1)] Cons.prems(2) show ?thesis by auto
  next
    case (go st1 its1 errs1 its2 errs2)
    have "not_needed ctx st1 node \<longleftrightarrow> not_needed ctx st node" for node
      using collect_one_spec(1) [OF go(1)] by (rule not_needed_cong)
    with collect_one_spec(2) [OF go(1)] Cons.IH [OF go(2)] Cons.prems(2) go(3) show ?thesis by auto
  qed
qed simp

lemma collect_items_complete:
  "collect_items s ctx k dag batch st = (st', its, errs, False) \<Longrightarrow> n \<in> set batch \<Longrightarrow> GetNode dag n = Some node \<Longrightarrow>
     not_needed ctx st node \<or> (\<exists>it\<in>set its. wi_name it = n \<and> wi_node it = node) \<or>
     (\<not> isFailFast node \<and> (\<exists>e. PendingNotPersisted n e \<in> set errs))"
proof (induction batch arbitrary: st its errs)
  case (Cons m rest)
  from Cons.prems(1) show ?case
  proof (cases rule: collect_items_ConsE)
    case (go st1 its1 errs1 its2 errs2)
    have nn: "not_needed ctx st1 node \<longleftrightarrow> not_needed ctx st node"
      using collect_one_spec(1) [OF go(1)] by (rule not_needed_cong)
    show ?thesis
    proof (cases "n = m")
      case True
      with collect_one_spec(2,3) [OF go(1)] Cons.prems(3) go(3,4) show ?thesis by fastforce
    next
      case False
      with Cons.IH [OF go(2) _ Cons.prems(3)] Cons.prems(2) nn go(3,4) show ?thesis by auto
    qed
  qed simp
qed simp

lemma collect_items_stop: "collect_items s ctx k dag batch st = (st', its, errs, True) \<Longrightarrow> errs \<noteq> []"
proof (induction batch arbitrary: st its errs)
  case (Cons m rest)
  from Cons.prems show ?case
  proof (cases rule: collect_items_ConsE)
    case halt
    then show ?thesis using collect_one_spec(5) by blast
  next
    case go
    with Cons.IH [OF go(2)] show ?thesis by simp
  qed
qed simp

lemma collect_items_missing:
  "collect_items s ctx k dag batch st = (st', its, [], stop) \<Longrightarrow> n \<in> set batch \<Longrightarrow> GetNode dag n \<noteq> None"
proof (induction batch arbitrary: st its)
  case (Cons m rest)
  from Cons.prems(1) show ?case
  proof (cases rule: collect_items_ConsE)
    case halt
    then show ?thesis using collect_one_spec(5) by blast
  next
    case (go st1 its1 errs1 its2 errs2)
    show ?thesis
    proof (cases "n = m")
      case True
      with collect_one_spec(4) [OF go(1)] go(4) show ?thesis by auto
    next
      case False
      with Cons.IH [of st1 its2] go Cons.prems(2) show ?thesis by simp
    qed
  qed
qed simp

text \<open>Persisting: the errors only grow, every failure is reported, and a fail-fast one stops.\<close>

lemma persist_failures_spec:
  "persist_failures ctx rs st succ stop errs = (st', succ', stop', errs') \<Longrightarrow>
     set errs \<subseteq> set errs' \<and> (stop \<longrightarrow> stop') \<and> (stop' \<longrightarrow> stop \<or> errs' \<noteq> []) \<and>
     set succ' = set succ \<union> {it. Some (it, None) \<in> set rs} \<and>
     (\<forall>it err. Some (it, Some err) \<in> set rs \<longrightarrow> \<not> IsSkipNotInstalled (Some err) \<longrightarrow>
        ComponentFailed (wi_name it) err \<in> set errs' \<and> (isFailFast (wi_node it) \<longrightarrow> stop'))"
proof (induction ctx rs st succ stop errs rule: persist_failures.induct)
  case (3 ctx it err rs st succ stop errs)
  obtain st1 x where p0: "(st1, x) = persistBatchFailure ctx it err st" by (metis surj_pair)
  obtain stop1 errs1 where x: "(stop1, errs1) = x" by (metis surj_pair)
  note p = p0 [folded x, symmetric]
  have "\<not> IsSkipNotInstalled (Some err) \<Longrightarrow> ComponentFailed (wi_name it) err \<in> set errs1 \<and> stop1 = isFailFast (wi_node it)"
    "stop1 \<Longrightarrow> errs1 \<noteq> []"
    using p by (auto simp: persistBatchFailure_def Let_def split: prod.splits if_splits option.splits)
  with "3.IH" [OF p0 x] "3.prems" p show ?case by auto
qed auto

lemma mark_installed_all_grows:
  "mark_installed_all ctx its st stop errs = (st', stop', errs') \<Longrightarrow>
     set errs \<subseteq> set errs' \<and> (stop \<longrightarrow> stop') \<and> (stop' \<longrightarrow> stop \<or> errs' \<noteq> [])"
proof (induction ctx its st stop errs rule: mark_installed_all.induct)
  case (2 ctx it its st stop errs)
  then show ?case by (auto split: if_splits prod.splits option.splits)
qed simp

lemma persistBatchResults_stop:
  assumes "persistBatchResults ctx rs errs st = (st', errs', True)"
  shows "errs' \<noteq> []"
proof -
  obtain st1 succ stop1 errs1 where f: "persist_failures ctx rs st [] False errs = (st1, succ, stop1, errs1)"
    using prod_cases4 by blast
  obtain st2 stop2 errs2 where p: "persistBatchSuccesses ctx succ st1 = (st2, stop2, errs2)"
    using prod_cases3 by blast
  have "stop2 \<longrightarrow> errs2 \<noteq> []"
    using p by (auto simp: persistBatchSuccesses_def split: if_splits prod.splits option.splits
        dest!: mark_installed_all_grows)
  with persist_failures_spec [OF f] assms f p show ?thesis by (auto simp: persistBatchResults_def)
qed

lemma persistBatchResults_spec:
  assumes "persistBatchResults ctx rs errs st = (st', errs', stop)"
  shows "set errs \<subseteq> set errs'"
    and "Some (it, Some err) \<in> set rs \<Longrightarrow> \<not> IsSkipNotInstalled (Some err) \<Longrightarrow>
      ComponentFailed (wi_name it) err \<in> set errs' \<and> (isFailFast (wi_node it) \<longrightarrow> stop)"
proof -
  obtain st1 succ stop1 errs1 where f: "persist_failures ctx rs st [] False errs = (st1, succ, stop1, errs1)"
    using prod_cases4 by blast
  obtain st2 stop2 errs2 where p: "persistBatchSuccesses ctx succ st1 = (st2, stop2, errs2)"
    using prod_cases3 by blast
  have e: "errs' = errs1 @ errs2" "stop \<longleftrightarrow> stop1 \<or> stop2"
    using assms f p by (auto simp: persistBatchResults_def)
  from persist_failures_spec [OF f] e show "set errs \<subseteq> set errs'" by auto
  show "ComponentFailed (wi_name it) err \<in> set errs' \<and> (isFailFast (wi_node it) \<longrightarrow> stop)"
    if "Some (it, Some err) \<in> set rs" "\<not> IsSkipNotInstalled (Some err)"
    using persist_failures_spec [OF f] that e by auto
qed

section \<open>Batches and the order of execution\<close>

text \<open>A component is settled by a batch when the batch had no need to run it, or ran it with success,
  or found it not installed.\<close>

definition settled :: "'w exec_ctx \<Rightarrow> 'w exec_state \<times> component_result list \<Rightarrow> component_node \<Rightarrow> bool" where
  "settled ctx h node \<longleftrightarrow> not_needed ctx (fst h) node \<or>
     (\<exists>it r. Some (it, r) \<in> set (snd h) \<and> wi_node it = node \<and> (r = None \<or> IsSkipNotInstalled r))"

lemma batch_settles:
  assumes run: "executeBatchParallel False s ctx k dag batch st rs st' errs False"
    and n: "n \<in> set batch" "GetNode dag n = Some node" "isFailFast node \<or> errs = []"
  shows "settled ctx (st, rs) node"
  using run
proof (cases rule: executeBatchParallel.cases)
  case nothing_runnable
  with collect_items_complete [OF _ n(1,2)] n(3) show ?thesis by (fastforce simp: settled_def)
next
  case (run_items st1 items errs1)
  note spec = persistBatchResults_spec [OF run_items(4)]
  have "(\<exists>it\<in>set items. wi_name it = n \<and> wi_node it = node) \<or> not_needed ctx st node"
    using collect_items_complete [OF run_items(1) n(1,2)] n(3) spec(1) by fastforce
  moreover have "settled ctx (st, rs) node" if it: "it \<in> set items" "wi_node it = node" for it
  proof -
    have nofail: "\<not> (\<exists>it err. Some (it, Some err) \<in> set rs \<and> \<not> IsSkipNotInstalled (Some err) \<and> isFailFast (wi_node it))"
      using spec(2) by blast
    with batch_outcome_complete [OF run_items(3)] it(1) obtain r where r: "Some (it, r) \<in> set rs" by blast
    have "r = None \<or> IsSkipNotInstalled r"
    proof (rule ccontr)
      assume bad: "\<not> (r = None \<or> IsSkipNotInstalled r)"
      then obtain err where "r = Some err" by auto
      with r bad spec(2) [of it err] n(3) it(2) nofail show False by force
    qed
    with r it(2) show ?thesis by (auto simp: settled_def)
  qed
  ultimately show ?thesis by (auto simp: settled_def)
qed simp

lemma history_settles:
  assumes "execute_batches False s ctx dag k batches st hist st' errs"
    and "\<And>n node. GetNode dag n = Some node \<Longrightarrow> isFailFast node"
  shows "i < length hist \<Longrightarrow> j < i \<Longrightarrow> n \<in> set (batches ! j) \<Longrightarrow> GetNode dag n = Some node \<Longrightarrow>
    settled ctx (hist ! j) node"
  using assms(1)
proof (induction arbitrary: i j)
  case (next_batch k batch st rs st1 errs rest hist st' errs')
  then show ?case
    using batch_settles [OF next_batch.hyps(1) _ next_batch.prems(4)] assms(2) [OF next_batch.prems(4)]
    by (cases j; cases i) auto
qed auto

lemma batch_runs:
  assumes "executeBatchParallel ext s ctx k dag batch st rs st' errs stop" "Some (it, r) \<in> set rs"
  shows "wi_name it \<in> set batch \<and> GetNode dag (wi_name it) = Some (wi_node it) \<and> \<not> not_needed ctx st (wi_node it)"
  using assms(1)
proof (cases rule: executeBatchParallel.cases)
  case (run_items st1 items errs1)
  with collect_items_sound [OF run_items(1)] batch_outcome_member [OF run_items(3) assms(2)] show ?thesis by blast
qed (use assms(2) in auto)

lemma history_runs:
  assumes "execute_batches ext s ctx dag k batches st hist st' errs"
  shows "i < length hist \<Longrightarrow> Some (it, r) \<in> set (snd (hist ! i)) \<Longrightarrow>
      i < length batches \<and> wi_name it \<in> set (batches ! i) \<and> GetNode dag (wi_name it) = Some (wi_node it) \<and>
      \<not> not_needed ctx (fst (hist ! i)) (wi_node it)"
  using assms
proof (induction arbitrary: i)
  case (stopped k batch st rs st' errs rest)
  then show ?case using batch_runs [OF stopped.hyps] by auto
next
  case (next_batch k batch st rs st1 errs rest hist st' errs')
  then show ?case using batch_runs [OF next_batch.hyps(1)] by (cases i) auto
qed simp


section \<open>What a run records\<close>

text \<open>The store tracks progress, and the in-memory progress is no further than the stored one.\<close>

definition tracked :: "('w \<Rightarrow> cluster_status option) \<Rightarrow> 'w exec_state \<Rightarrow> bool" where
  "tracked stored st \<longleftrightarrow> (\<exists>\<sigma> d. stored (es_world st) = Some \<sigma> \<and> st_declarativeUpgrade \<sigma> = Some d \<and>
     progress_keys (st_declarativeUpgrade (memory st)) \<subseteq> set (completed_keys d))"

definition keeps_progress :: "('w \<Rightarrow> cluster_status option) \<Rightarrow> 'w exec_state \<Rightarrow> 'w exec_state \<Rightarrow> bool" where
  "keeps_progress stored st st' \<longleftrightarrow> (tracked stored st \<longrightarrow> tracked stored st' \<and>
     progress_keys (st_declarativeUpgrade (memory st)) \<subseteq> progress_keys (st_declarativeUpgrade (memory st')))"

lemma keeps_progress_refl [simp, intro]: "keeps_progress stored st st"
  by (simp add: keeps_progress_def)

lemma keeps_progress_trans: "keeps_progress stored a b \<Longrightarrow> keeps_progress stored b c \<Longrightarrow> keeps_progress stored a c"
  by (auto simp: keeps_progress_def)

lemma progress_keys_Some [simp]: "progress_keys (Some d) = set (completed_keys d)"
  by (simp add: progress_keys_def)

lemma IsCompleted_keys: "IsCompleted du n v \<longleftrightarrow> (n, norm_version v) \<in> progress_keys du"
  by (cases du) (simp_all add: progress_keys_def)

definition grows :: "(declarative_upgrade option \<Rightarrow> declarative_upgrade option) \<Rightarrow> bool" where
  "grows mutate \<longleftrightarrow> (\<forall>d. \<exists>d'. mutate (Some d) = Some d' \<and> set (completed_keys d) \<subseteq> set (completed_keys d'))"

lemma patch_keeps_progress:
  assumes h: "honest_client c stored" and g: "grows mutate"
    and p: "patchDeclarativeUpgrade (Some c) mutate st = (st', r)"
  shows "keeps_progress stored st st'"
proof (cases r)
  case (Some e)
  with patchDeclarativeUpgrade_error [OF h] p show ?thesis by (auto simp: keeps_progress_def tracked_def)
next
  case None
  with patchDeclarativeUpgrade_ok [OF h] p obtain \<sigma> where s: "stored (es_world st) = Some \<sigma>"
    "if st_declarativeUpgrade \<sigma> = None
     then stored (es_world st') = stored (es_world st) \<and> es_cluster st' = es_cluster st
     else stored (es_world st') = Some (\<sigma>\<lparr>st_declarativeUpgrade := mutate (st_declarativeUpgrade \<sigma>)\<rparr>) \<and>
          memory st' = (memory st)\<lparr>st_declarativeUpgrade := mutate (st_declarativeUpgrade \<sigma>)\<rparr>" by blast
  show ?thesis
  proof (cases "st_declarativeUpgrade \<sigma>")
    case None
    with s show ?thesis by (simp add: keeps_progress_def tracked_def)
  next
    case (Some d)
    with g obtain d' where "mutate (Some d) = Some d'" "set (completed_keys d) \<subseteq> set (completed_keys d')"
      by (auto simp: grows_def)
    with s Some show ?thesis by (auto simp: keeps_progress_def tracked_def)
  qed
qed

definition complete_all :: "component_node list \<Rightarrow> gotime \<Rightarrow> declarative_upgrade option \<Rightarrow> declarative_upgrade option" where
  "complete_all nodes now du = ClearFailure (map_option (\<lambda>d. d\<lparr>du_lastError := []\<rparr>)
     (fold (\<lambda>node du. MarkCompleted du (cn_name node) (nodeVersionKey node) now) nodes du))"

lemma fold_MarkCompleted:
  "fold (\<lambda>node du. MarkCompleted du (cn_name node) (nodeVersionKey node) now) nodes (Some d) =
     Some (fold (\<lambda>(n, v) d. marked d n v now) (map (\<lambda>node. (cn_name node, nodeVersionKey node)) nodes) d)"
  by (induction nodes arbitrary: d) simp_all

lemma complete_all_Some:
  "\<exists>d'. complete_all nodes now (Some d) = Some d' \<and>
     set (completed_keys d') = set (completed_keys d) \<union> {(cn_name node, norm_version (nodeVersionKey node)) |node. node \<in> set nodes}"
proof -
  let ?d = "fold (\<lambda>(n, v) d. marked d n v now) (map (\<lambda>node. (cn_name node, nodeVersionKey node)) nodes) d"
  have "complete_all nodes now (Some d) = Some (?d\<lparr>du_lastError := [], du_lastFailure := None\<rparr>)"
    by (simp add: complete_all_def fold_MarkCompleted)
  moreover have "completed_keys (?d\<lparr>du_lastError := [], du_lastFailure := None\<rparr>) = completed_keys ?d"
    by (simp add: completed_keys_def)
  moreover have "set (completed_keys ?d) = set (completed_keys d) \<union> {(cn_name node, norm_version (nodeVersionKey node)) |node. node \<in> set nodes}"
    unfolding pr.mark_all_keys by auto
  ultimately show ?thesis by auto
qed

lemma grows_complete_all: "grows (complete_all nodes now)"
  using complete_all_Some unfolding grows_def by fast

lemma grows_MarkFailure: "grows (\<lambda>du. MarkFailure du n v e now)"
  unfolding grows_def by (auto simp: Let_def completed_keys_def)

lemma markComponentsCompleted_records:
  assumes h: "honest_client c stored" and c: "xc_client ctx = Some c" "xc_hasCluster ctx"
    and p: "markComponentsCompleted ctx nodes st = (st', None)" and t: "tracked stored st" and n: "node \<in> set nodes"
  shows "IsCompleted (st_declarativeUpgrade (memory st')) (cn_name node) (nodeVersionKey node)"
proof -
  let ?m = "complete_all nodes (cl_now c (es_world st))"
  have "patchDeclarativeUpgrade (Some c) ?m st = (st', None)"
    using p c n by (auto simp: markComponentsCompleted_def complete_all_def [abs_def] Let_def split: if_splits)
  from patchDeclarativeUpgrade_ok [OF h this] t obtain d where
    "st_declarativeUpgrade (memory st') = ?m (Some d)" by (auto simp: tracked_def)
  with complete_all_Some [of nodes "cl_now c (es_world st)" d] n show ?thesis
    by (auto simp: IsCompleted_keys)
qed


text \<open>The context's client and its updater talk to the same store.\<close>

definition one_store :: "'w api_client \<Rightarrow> ('w \<Rightarrow> cluster_status option) \<Rightarrow> 'w exec_ctx \<Rightarrow> bool" where
  "one_store c stored ctx \<longleftrightarrow> honest_client c stored \<and> xc_hasCluster ctx \<and> xc_client ctx = Some c \<and>
     xc_updater ctx \<in> {None, Some (Some c)}"

lemma lifecycle_patch_keeps_progress:
  assumes h: "honest_client c stored" and p: "lifecycle_patch (Some c) ref mutate st = (st', r)"
  shows "keeps_progress stored st st'"
proof (cases r)
  case (Some e)
  with lifecycle_patch_error [OF h] p show ?thesis by (auto simp: keeps_progress_def tracked_def)
next
  case None
  with p have "lifecycle_patch (Some c) ref mutate st = (st', None)" by simp
  then obtain \<sigma> m where "stored (es_world st) = Some \<sigma>"
    "stored (es_world st') = Some (\<sigma>\<lparr>st_componentStatuses := m\<rparr>)"
    by (rule lifecycle_patch_ok [OF h]) blast
  with lifecycle_patch_keeps [OF p] show ?thesis
    by (auto simp: keeps_progress_def tracked_def)
qed

lemma ClearComponentStatus_keeps_progress:
  assumes h: "honest_client c stored" and p: "ClearComponentStatus (Some c) ref st = (st', r)"
  shows "keeps_progress stored st st'"
  using p ClearComponentStatus_keeps [OF p] honest_getD [OF h] honest_get_okD [OF h] honest_patchD [OF h] honest_patch_failD [OF h]
  by (auto simp: keeps_progress_def tracked_def ClearComponentStatus_def loadClusterForStatusPatch_def
      split: prod.splits sum.splits option.splits if_splits)

lemma marks_keep_progress:
  assumes o: "one_store c stored ctx"
  shows "markLifecyclePending ctx node st = (st', r) \<Longrightarrow> keeps_progress stored st st'"
    and "markLifecycleInstalled ctx node st = (st', r) \<Longrightarrow> keeps_progress stored st st'"
    and "markLifecycleFailed ctx node err st = (st', r) \<Longrightarrow> keeps_progress stored st st'"
    and "markLifecycleClear ctx node st = (st', r) \<Longrightarrow> keeps_progress stored st st'"
proof -
  have h: "honest_client c stored" using o by (simp add: one_store_def)
  note k = lifecycle_patch_keeps_progress [OF h] ClearComponentStatus_keeps_progress [OF h]
  show "markLifecyclePending ctx node st = (st', r) \<Longrightarrow> keeps_progress stored st st'"
    "markLifecycleInstalled ctx node st = (st', r) \<Longrightarrow> keeps_progress stored st st'"
    "markLifecycleFailed ctx node err st = (st', r) \<Longrightarrow> keeps_progress stored st st'"
    "markLifecycleClear ctx node st = (st', r) \<Longrightarrow> keeps_progress stored st st'"
    using o k by (auto simp: lifecycle_marks one_store_def Let_def)
qed

lemma completed_keeps_progress:
  assumes "one_store c stored ctx" "markComponentsCompleted ctx nodes st = (st', r)"
  shows "keeps_progress stored st st'"
proof -
  have h: "honest_client c stored" using assms(1) by (simp add: one_store_def)
  show ?thesis
    using assms patch_keeps_progress [OF h grows_complete_all [of nodes "cl_now c (es_world st)"]]
    by (auto simp: markComponentsCompleted_def one_store_def Let_def complete_all_def [abs_def] split: if_splits)
qed

lemma failed_keeps_progress:
  assumes "one_store c stored ctx" "markComponentFailed ctx node err st = (st', r)"
  shows "keeps_progress stored st st'"
proof -
  have h: "honest_client c stored" using assms(1) by (simp add: one_store_def)
  show ?thesis
    using assms patch_keeps_progress [OF h grows_MarkFailure]
    by (auto simp: markComponentFailed_def one_store_def Let_def)
qed

lemma collect_keeps_progress:
  assumes o: "one_store c stored ctx"
  shows "collect_items s ctx k dag batch st = (st', its, errs, stop) \<Longrightarrow> keeps_progress stored st st'"
proof (induction batch arbitrary: st its errs)
  case (Cons n rest)
  have one: "collect_one s ctx k dag n st = (st1, its1, errs1, stop1) \<Longrightarrow> keeps_progress stored st st1" for st1 its1 errs1 stop1
    using marks_keep_progress(1) [OF o] by (auto simp: collect_one_def split: option.splits if_splits prod.splits)
  from Cons.prems show ?case
    by (cases rule: collect_items_ConsE) (use one Cons.IH keeps_progress_trans in blast)+
qed simp

lemma failure_keeps_progress:
  assumes o: "one_store c stored ctx" and p: "persistBatchFailure ctx it err st = (st', stop, errs)"
  shows "keeps_progress stored st st'"
proof (cases "IsSkipNotInstalled (Some err)")
  case True
  with p marks_keep_progress(4) [OF o] show ?thesis
    by (auto simp: persistBatchFailure_def Let_def split: if_splits prod.splits option.splits)
next
  case False
  obtain st1 r1 where 1: "markComponentFailed ctx (wi_node it) err st = (st1, r1)" by fastforce
  obtain st2 r2 where 2: "(if wi_viaRegistry it then markLifecycleFailed ctx (wi_node it) err st1 else (st1, None)) = (st2, r2)"
    by fastforce
  have "keeps_progress stored st1 st2" using 2 marks_keep_progress(3) [OF o] by (auto split: if_splits)
  moreover have "st' = st2" using p False 1 2 by (simp add: persistBatchFailure_def Let_def)
  ultimately show ?thesis using failed_keeps_progress [OF o 1] keeps_progress_trans by blast
qed

lemma persist_failures_keep_progress:
  "persist_failures ctx rs st succ stop errs = (st', succ', stop', errs') \<Longrightarrow> one_store c stored ctx \<Longrightarrow>
     keeps_progress stored st st'"
proof (induction ctx rs st succ stop errs rule: persist_failures.induct)
  case (3 ctx it err rs st succ stop errs)
  obtain st1 x where p0: "(st1, x) = persistBatchFailure ctx it err st" by (metis surj_pair)
  obtain stop1 errs1 where x: "(stop1, errs1) = x" by (metis surj_pair)
  note p = p0 [folded x, symmetric]
  have "keeps_progress stored st1 st'" using "3.IH" [OF p0 x] "3.prems" p by simp
  with failure_keeps_progress [OF "3.prems"(2) p] keeps_progress_trans show ?case by blast
qed auto

lemma installed_keeps_progress:
  "mark_installed_all ctx its st stop errs = (st', stop', errs') \<Longrightarrow> one_store c stored ctx \<Longrightarrow>
     keeps_progress stored st st'"
proof (induction ctx its st stop errs rule: mark_installed_all.induct)
  case (2 ctx it its st stop errs)
  show ?case
  proof (cases "wi_viaRegistry it")
    case True
    obtain st1 r where m: "markLifecycleInstalled ctx (wi_node it) st = (st1, r)" by fastforce
    have "keeps_progress stored st1 st'"
      using 2 True m by (cases r) auto
    with marks_keep_progress(2) [OF "2.prems"(2) m] keeps_progress_trans show ?thesis by blast
  qed (use 2 in simp)
qed simp

lemma persist_records:
  assumes o: "one_store c stored ctx" and p: "persistBatchResults ctx rs errs0 st = (st', errs, stop)"
  shows "keeps_progress stored st st'"
    and "tracked stored st \<Longrightarrow> errs = [] \<Longrightarrow> Some (it, None) \<in> set rs \<Longrightarrow>
      IsCompleted (st_declarativeUpgrade (memory st')) (cn_name (wi_node it)) (nodeVersionKey (wi_node it))"
proof -
  obtain st1 succ stop1 errs1 where f: "persist_failures ctx rs st [] False errs0 = (st1, succ, stop1, errs1)"
    using prod_cases4 by blast
  obtain st2 stop2 errs2 where s: "persistBatchSuccesses ctx succ st1 = (st2, stop2, errs2)"
    using prod_cases3 by blast
  have e: "st' = st2" "errs = errs1 @ errs2" using p f s by (auto simp: persistBatchResults_def)
  note k1 = persist_failures_keep_progress [OF f o]
  have succ: "set succ = {it. Some (it, None) \<in> set rs}" using persist_failures_spec [OF f] by auto
  have h: "honest_client c stored" "xc_client ctx = Some c" "xc_hasCluster ctx" using o by (auto simp: one_store_def)
  show "keeps_progress stored st st'"
  proof (cases "succ = []")
    case True
    with s e k1 show ?thesis by (simp add: persistBatchSuccesses_def)
  next
    case False
    obtain sm r where m: "markComponentsCompleted ctx (map wi_node succ) st1 = (sm, r)" by fastforce
    from s m False obtain a b where "mark_installed_all ctx succ sm a b = (st2, stop2, errs2)"
      by (auto simp: persistBatchSuccesses_def split: option.splits)
    from installed_keeps_progress [OF this o]
      keeps_progress_trans [OF k1 completed_keeps_progress [OF o m]] e(1) show ?thesis
      using keeps_progress_trans by blast
  qed
  assume t: "tracked stored st" and no: "errs = []" and it: "Some (it, None) \<in> set rs"
  have ne: "succ \<noteq> []" "wi_node it \<in> set (map wi_node succ)" using succ it by auto
  obtain sm r where m: "markComponentsCompleted ctx (map wi_node succ) st1 = (sm, r)" by fastforce
  have r: "r = None"
  proof (cases r)
    case (Some e)
    with s m ne(1) have "mark_installed_all ctx succ sm (list_ex (\<lambda>it. isFailFast (wi_node it)) succ)
        (map (\<lambda>it. CompletionNotPersisted (wi_name it) e) succ) = (st2, stop2, errs2)"
      by (simp add: persistBatchSuccesses_def)
    from mark_installed_all_grows [OF this] ne(1) no e show ?thesis by (cases succ) auto
  qed simp
  with s m ne(1) have i: "mark_installed_all ctx succ sm False [] = (st2, stop2, errs2)"
    by (simp add: persistBatchSuccesses_def)
  have t1: "tracked stored st1" using k1 t by (simp add: keeps_progress_def)
  have "IsCompleted (st_declarativeUpgrade (memory sm)) (cn_name (wi_node it)) (nodeVersionKey (wi_node it))"
    by (rule markComponentsCompleted_records [OF h m [unfolded r] t1 ne(2)])
  moreover have "tracked stored sm" using completed_keeps_progress [OF o m] t1 by (simp add: keeps_progress_def)
  ultimately show "IsCompleted (st_declarativeUpgrade (memory st')) (cn_name (wi_node it)) (nodeVersionKey (wi_node it))"
    using installed_keeps_progress [OF i o] e(1) by (auto simp: keeps_progress_def IsCompleted_keys)
qed


lemma batch_stop_reports:
  assumes "executeBatchParallel ext s ctx k dag batch st rs st' errs True"
  shows "errs \<noteq> []"
  using assms
  by (cases rule: executeBatchParallel.cases) (auto dest: collect_items_stop persistBatchResults_stop)

text \<open>What a batch that reports no error leaves behind for one of its components.\<close>

definition accounted :: "'w exec_ctx \<Rightarrow> 'w exec_state \<Rightarrow> component_result list \<Rightarrow> component_node \<Rightarrow> bool" where
  "accounted ctx st rs node \<longleftrightarrow> \<not> componentNeedsUpgrade ctx node \<or>
     IsCompleted (st_declarativeUpgrade (memory st)) (cn_name node) (nodeVersionKey node) \<or>
     (\<exists>it r. Some (it, r) \<in> set rs \<and> wi_node it = node \<and> IsSkipNotInstalled r)"

lemma batch_keeps_progress:
  assumes "executeBatchParallel ext s ctx k dag batch st rs st' errs stop" "one_store c stored ctx"
  shows "keeps_progress stored st st'"
  using assms(1)
  by (cases rule: executeBatchParallel.cases)
     (use collect_keeps_progress [OF assms(2)] persist_records(1) [OF assms(2)] keeps_progress_trans in blast)+

lemma batch_accounts:
  assumes run: "executeBatchParallel False s ctx k dag batch st rs st' [] False"
    and o: "one_store c stored ctx" and t: "tracked stored st"
    and n: "n \<in> set batch" "GetNode dag n = Some node"
  shows "accounted ctx st' rs node"
proof -
  have keys: "progress_keys (st_declarativeUpgrade (memory st)) \<subseteq> progress_keys (st_declarativeUpgrade (memory st'))"
    using batch_keeps_progress [OF run o] t by (simp add: keeps_progress_def)
  consider (none) "not_needed ctx st node"
    | (ran) it r where "Some (it, r) \<in> set rs" "wi_node it = node" "r = None \<or> IsSkipNotInstalled r"
    using batch_settles [OF run n] by (auto simp: settled_def)
  then show ?thesis
  proof cases
    case none
    with keys show ?thesis
      by (auto simp: accounted_def not_needed_def shouldSkipComponent_def IsCompleted_keys split: if_splits)
  next
    case ran
    from run have "r = None \<Longrightarrow> IsCompleted (st_declarativeUpgrade (memory st')) (cn_name node) (nodeVersionKey node)"
    proof (cases rule: executeBatchParallel.cases)
      case (run_items st1 items errs)
      have "tracked stored st1" using collect_keeps_progress [OF o run_items(1)] t by (simp add: keeps_progress_def)
      then show "r = None \<Longrightarrow> IsCompleted (st_declarativeUpgrade (memory st')) (cn_name node) (nodeVersionKey node)"
        using persist_records(2) [OF o run_items(4) _ refl] ran by auto
    qed (use ran in auto)
    with ran show ?thesis by (auto simp: accounted_def)
  qed
qed

lemma accounted_mono:
  "accounted ctx st rs node \<Longrightarrow>
   progress_keys (st_declarativeUpgrade (memory st)) \<subseteq> progress_keys (st_declarativeUpgrade (memory st')) \<Longrightarrow>
   accounted ctx st' rs node"
  by (auto simp: accounted_def IsCompleted_keys)

lemma run_keeps_progress:
  "execute_batches ext s ctx dag k batches st hist st' errs \<Longrightarrow> one_store c stored ctx \<Longrightarrow> keeps_progress stored st st'"
  by (induction rule: execute_batches.induct) (auto dest: batch_keeps_progress intro: keeps_progress_trans)

lemma dag_run_accounts:
  assumes "execute_batches False s ctx dag k batches st hist st' errs" "one_store c stored ctx" "errs = []"
    and "tracked stored st" "n \<in> set (concat batches)" "GetNode dag n = Some node"
  shows "\<exists>h\<in>set hist. accounted ctx st' (snd h) node"
  using assms
proof (induction rule: execute_batches.induct)
  case (stopped k batch st rs st' errs rest)
  with batch_stop_reports show ?case by blast
next
  case (next_batch k batch st rs st1 errs rest hist st' errs')
  have t1: "tracked stored st1" using batch_keeps_progress [OF next_batch.hyps(1) next_batch.prems(1)] next_batch.prems(3)
    by (simp add: keeps_progress_def)
  show ?case
  proof (cases "n \<in> set batch")
    case True
    have "executeBatchParallel False s ctx k dag batch st rs st1 [] False"
      using next_batch.hyps(1) next_batch.prems(2) by simp
    from batch_accounts [OF this next_batch.prems(1,3) True next_batch.prems(5)]
    have "accounted ctx st1 rs node" .
    moreover have "progress_keys (st_declarativeUpgrade (memory st1)) \<subseteq> progress_keys (st_declarativeUpgrade (memory st'))"
      using run_keeps_progress [OF next_batch.hyps(2) next_batch.prems(1)] t1 by (simp add: keeps_progress_def)
    ultimately show ?thesis using accounted_mono by fastforce
  next
    case False
    with next_batch.IH next_batch.prems t1 show ?thesis by auto
  qed
qed simp


section \<open>Properties\<close>

lemma ExecuteDAG_runE:
  assumes "ExecuteDAG ext (Some s) (Some ctx) (Some dag) st hist st' errs" "xc_hasCluster ctx" "dag_wf dag"
  obtains batches ctx' where "DAG_TopologicalBatches dag = Inr batches"
    "execute_batches ext s ctx' dag 0 batches st hist st' errs"
    "ctx' = ctx \<or> ctx' = ctx\<lparr>xc_template := buildTemplateContext (Some (es_cluster st))\<rparr>"
  using assms DAG_batches [OF assms(3)] by (auto elim!: ExecuteDAG.cases split: if_splits)

lemma template_irrelevant [simp]:
  "not_needed (ctx\<lparr>xc_template := t\<rparr>) st node \<longleftrightarrow> not_needed ctx st node"
  "settled (ctx\<lparr>xc_template := t\<rparr>) h node \<longleftrightarrow> settled ctx h node"
  "accounted (ctx\<lparr>xc_template := t\<rparr>) st rs node \<longleftrightarrow> accounted ctx st rs node"
  "one_store c stored (ctx\<lparr>xc_template := t\<rparr>) \<longleftrightarrow> one_store c stored ctx"
  by (simp_all add: not_needed_def settled_def shouldSkipComponent_def componentNeedsUpgrade_def accounted_def one_store_def)

text \<open>C3. Order of execution: in a run that is not cancelled from outside, on a plan whose components
  all fail fast (as \<^verbatim>\<open>BuildUpgradeDAG\<close> makes them), whenever a component ran, everything it depends
  on, directly or transitively, was settled in an earlier batch: it needed no upgrade or was already
  recorded as completed, or it ran successfully, or it was found not installed. The component itself
  was neither completed nor up to date when its batch began.\<close>

theorem prerequisites_settled_first:
  assumes run: "ExecuteDAG False (Some s) (Some ctx) (Some dag) st hist st' errs"
    and ctx: "xc_hasCluster ctx" and wf: "dag_wf dag"
    and ff: "\<forall>n node. GetNode dag n = Some node \<longrightarrow> isFailFast node"
    and ran: "i < length hist" "Some (it, r) \<in> set (snd (hist ! i))"
  shows "\<not> not_needed ctx (fst (hist ! i)) (wi_node it) \<and>
    (\<forall>m. (m, wi_name it) \<in> (edges (dag_graph dag))\<^sup>+ \<longrightarrow>
       (\<exists>j<i. \<exists>node. GetNode dag m = Some node \<and> settled ctx (hist ! j) node))"
proof (intro conjI allI impI)
  obtain batches ctx' where plan: "DAG_TopologicalBatches dag = Inr batches"
    and ex: "execute_batches False s ctx' dag 0 batches st hist st' errs"
    and ctx': "ctx' = ctx \<or> ctx' = ctx\<lparr>xc_template := buildTemplateContext (Some (es_cluster st))\<rparr>"
    by (rule ExecuteDAG_runE [OF run ctx wf])
  note it = history_runs [OF ex ran]
  then show "\<not> not_needed ctx (fst (hist ! i)) (wi_node it)" using ctx' by auto
  fix m assume m: "(m, wi_name it) \<in> (edges (dag_graph dag))\<^sup>+"
  have "batches = take i batches @ batches ! i # drop (Suc i) batches" using it by (simp add: id_take_nth_drop)
  from dp.plan_prefix_trancl [OF wf m, of "take i batches" "batches ! i" "drop (Suc i) batches"] plan it this
  have "m \<in> set (concat (take i batches))" by simp
  then obtain j where "j < length (take i batches)" "m \<in> set (take i batches ! j)"
    unfolding mem_concat_nth by blast
  then have j: "j < i" "j < length batches" "m \<in> set (batches ! j)" by simp_all
  have "m \<in> set (concat batches)" using j(2,3) by (auto simp: mem_concat_nth simp del: set_concat)
  with dp.plan_names [OF wf plan] have "has_key (dag_nodes dag) m" by (simp add: dag_wf_names [OF wf])
  then obtain node where node: "GetNode dag m = Some node" by (auto simp: GetNode_def has_key_def)
  from history_settles [OF ex _ ran(1) j(1,3) node] ff have "settled ctx' (hist ! j) node" by blast
  then show "\<exists>j<i. \<exists>node. GetNode dag m = Some node \<and> settled ctx (hist ! j) node"
    using j(1) node ctx' by auto
qed



lemma batch_failures:
  assumes "executeBatchParallel ext s ctx k dag batch st rs st' errs stop"
    and "Some (it, Some err) \<in> set rs" "\<not> IsSkipNotInstalled (Some err)"
  shows "ComponentFailed (wi_name it) err \<in> set errs \<and> (isFailFast (wi_node it) \<longrightarrow> stop)"
  using assms(1)
proof (cases rule: executeBatchParallel.cases)
  case (run_items st1 items errs1)
  then show ?thesis using persistBatchResults_spec(2) [OF _ assms(2,3)] by blast
qed (use assms(2) in auto)

lemma history_failures:
  assumes "execute_batches ext s ctx dag k batches st hist st' errs"
  shows "i < length hist \<Longrightarrow> Some (it, Some err) \<in> set (snd (hist ! i)) \<Longrightarrow> \<not> IsSkipNotInstalled (Some err) \<Longrightarrow>
    ComponentFailed (wi_name it) err \<in> set errs \<and> (isFailFast (wi_node it) \<longrightarrow> Suc i = length hist)"
  using assms
proof (induction arbitrary: i)
  case (stopped k batch st rs st' errs rest)
  with batch_failures [OF stopped.hyps] show ?case by auto
next
  case (next_batch k batch st rs st1 errs rest hist st' errs')
  with batch_failures [OF next_batch.hyps(1)] show ?case by (cases i) auto
qed simp

text \<open>C16. Failures are never lost: whatever the interleaving, and even when the run is cancelled from
  outside, a component that ran and failed (other than by not being installed) is named in the
  errors of the run, and if it fails fast no later batch runs.\<close>

theorem failures_reported:
  assumes run: "ExecuteDAG ext (Some s) (Some ctx) (Some dag) st hist st' errs"
    and ran: "i < length hist" "Some (it, Some err) \<in> set (snd (hist ! i))" "\<not> IsSkipNotInstalled (Some err)"
  shows "ComponentFailed (wi_name it) err \<in> set errs \<and> (isFailFast (wi_node it) \<longrightarrow> Suc i = length hist)"
  using run
proof (cases rule: ExecuteDAG.cases)
  case (executed batches ctx')
  from history_failures [OF executed(4) ran] show ?thesis .
qed (use ran in auto)

text \<open>Every batch ends: from any state its goroutines can reach, at most as many components run as
  the configured limit allows and never more than there are; each step lowers a count that bounds the
  steps left; and as long as the batch is not over some step is possible.\<close>

theorem batch_bounded_and_ends:
  assumes reach: "(batch_step ext (maxParallel s (int (length items))) (item_node items) (executeComponent s ctx))\<^sup>*\<^sup>*
      (batch_start (length items)) b"
    and ne: "items \<noteq> []"
  shows "int (card (bt_running b)) \<le> maxParallel s (int (length items)) \<and>
    maxParallel s (int (length items)) \<le> int (length items) \<and>
    (0 < sc_maxParallelPerBatch s \<longrightarrow> maxParallel s (int (length items)) \<le> sc_maxParallelPerBatch s) \<and>
    (\<forall>b'. batch_step ext (maxParallel s (int (length items))) (item_node items) (executeComponent s ctx) b b' \<longrightarrow>
       batch_work b' < batch_work b) \<and>
    (\<not> batch_final b \<longrightarrow>
       (\<exists>b'. batch_step ext (maxParallel s (int (length items))) (item_node items) (executeComponent s ctx) b b'))"
proof -
  let ?l = "maxParallel s (int (length items))"
  have ok: "batch_ok ext ?l (item_node items) (executeComponent s ctx) (length items) b"
    by (rule batch_ok_run [OF reach batch_ok_start]) (use maxParallel_bounds(1) [of s "int (length items)"] in simp)
  then have "int (card (bt_running b)) \<le> ?l" by (simp add: batch_ok_def)
  then show ?thesis
    using maxParallel_bounds [where s = s and n = "int (length items)"]
      maxParallel_le_config [where s = s and n = "int (length items)"] ne
      batch_step_work [OF _ ok] batch_step_exists [OF ok] by auto
qed

lemma executeBatchParallel_total: "\<exists>rs st' errs stop. executeBatchParallel ext s ctx k dag batch st rs st' errs stop"
proof -
  obtain st1 items errs stop where c: "collect_items s ctx k dag batch st = (st1, items, errs, stop)"
    using prod_cases4 by blast
  obtain rs where rs: "batch_outcome ext s ctx items rs" using batch_outcome_exists by blast
  obtain st2 errs2 stop2 where p: "persistBatchResults ctx rs errs st1 = (st2, errs2, stop2)" using prod_cases3 by blast
  show ?thesis
  proof (cases stop)
    case True
    with c have "collect_items s ctx k dag batch st = (st1, items, errs, True)" by simp
    from executeBatchParallel.pending_stop [OF this] show ?thesis by blast
  next
    case False
    with c have c': "collect_items s ctx k dag batch st = (st1, items, errs, False)" by simp
    show ?thesis
    proof (cases "items = []")
      case True
      with c' have "collect_items s ctx k dag batch st = (st1, [], errs, False)" by simp
      from executeBatchParallel.nothing_runnable [OF this] show ?thesis by blast
    next
      case False
      from executeBatchParallel.run_items [OF c' False rs p] show ?thesis by blast
    qed
  qed
qed

lemma execute_batches_total: "\<exists>hist st' errs. execute_batches ext s ctx dag k batches st hist st' errs"
proof (induction batches arbitrary: k st)
  case Nil
  then show ?case using execute_batches.all_done by blast
next
  case (Cons batch rest)
  obtain rs st1 errs stop where b: "executeBatchParallel ext s ctx k dag batch st rs st1 errs stop"
    using executeBatchParallel_total by blast
  show ?case
  proof (cases stop)
    case True
    with b have "executeBatchParallel ext s ctx k dag batch st rs st1 errs True" by simp
    from execute_batches.stopped [OF this] show ?thesis by blast
  next
    case False
    with b have go: "executeBatchParallel ext s ctx k dag batch st rs st1 errs False" by simp
    from Cons.IH [of "Suc k" st1] execute_batches.next_batch [OF go] show ?thesis by blast
  qed
qed

text \<open>\<^verbatim>\<open>ExecuteDAG\<close> always returns: for every scheduler, context, plan and state, nil arguments
  included, a run exists and ends with some result.\<close>

theorem ExecuteDAG_returns: "\<exists>hist st' errs. ExecuteDAG ext so co dg st hist st' errs"
proof (cases so)
  case None
  then show ?thesis using ExecuteDAG.nil_scheduler by blast
next
  case s: (Some s)
  show ?thesis
  proof (cases dg)
    case None
    with s show ?thesis using ExecuteDAG.nil_dag by blast
  next
    case d: (Some dag)
    show ?thesis
    proof (cases co)
      case None
      with s d show ?thesis using ExecuteDAG.nil_context by blast
    next
      case c: (Some ctx)
      have "\<exists>hist st' errs. ExecuteDAG ext (Some s) (Some ctx) (Some dag) st hist st' errs"
        using ExecuteDAG.nil_cluster ExecuteDAG.plan_failed ExecuteDAG.executed [OF _ _ refl] execute_batches_total
        by (metis sumE)
      with s d c show ?thesis by simp
    qed
  qed
qed


section \<open>Concrete runs\<close>

lemma single_outcome:
  assumes r: "r = executeComponent s ctx t (wi_node it)"
  shows "batch_outcome ext s ctx [it] [Some (it, r)]"
proof -
  let ?step = "batch_step ext (maxParallel s (int (length [it]))) (item_node [it]) (executeComponent s ctx)"
  let ?b0 = "batch_start (length [it])"
  let ?b1 = "?b0\<lparr>bt_waiting := bt_waiting ?b0 - {0}, bt_running := insert 0 (bt_running ?b0)\<rparr>"
  let ?b2 = "?b1\<lparr>bt_running := bt_running ?b1 - {0}, bt_results := (bt_results ?b1)(0 \<mapsto> r),
    bt_failing := (if worker_fails (item_node [it] 0) r then insert 0 (bt_failing ?b1) else bt_failing ?b1)\<rparr>"
  have 1: "?step ?b0 ?b1"
    by (rule batch_step.start) (use maxParallel_bounds(1) in \<open>auto simp: batch_start_def\<close>)
  have 2: "?step ?b1 ?b2"
    by (rule batch_step.finish [of _ _ _ _ t]) (auto simp: item_node_def r)
  have "\<exists>b. ?step\<^sup>*\<^sup>* ?b2 b \<and> batch_final b \<and> bt_results b 0 = Some r"
  proof (cases "bt_failing ?b2 = {}")
    case True
    then have "batch_final ?b2" by (auto simp: batch_final_def batch_start_def)
    then show ?thesis by (intro exI [of _ ?b2]) simp
  next
    case False
    then have f: "bt_failing ?b2 = {0}" by (auto simp: batch_start_def split: if_splits)
    let ?b3 = "?b2\<lparr>bt_failing := bt_failing ?b2 - {0}, bt_cancelled := True\<rparr>"
    have "?step ?b2 ?b3" using f by (intro batch_step.fail) simp
    moreover have "batch_final ?b3" using f by (auto simp: batch_final_def batch_start_def)
    ultimately show ?thesis by (intro exI [of _ ?b3]) auto
  qed
  then obtain b where "?step\<^sup>*\<^sup>* ?b2 b" "batch_final b" "bt_results b 0 = Some r" by blast
  moreover from this(1) have "?step\<^sup>*\<^sup>* ?b0 b" using 1 2 by (meson converse_rtranclp_into_rtranclp)
  ultimately show ?thesis unfolding batch_outcome_def by (intro exI [of _ b]) simp
qed

lemma cancelled_outcome: "batch_outcome True s ctx [it] [None]"
proof -
  let ?step = "batch_step True (maxParallel s (int (length [it]))) (item_node [it]) (executeComponent s ctx)"
  let ?b0 = "batch_start (length [it])"
  let ?b1 = "?b0\<lparr>bt_cancelled := True\<rparr>"
  let ?b2 = "?b1\<lparr>bt_waiting := bt_waiting ?b1 - {0}\<rparr>"
  have "?step ?b0 ?b1" by (rule batch_step.outside) (auto simp: batch_start_def)
  moreover have "?step ?b1 ?b2" by (rule batch_step.give_up) (auto simp: batch_start_def)
  ultimately have "?step\<^sup>*\<^sup>* ?b0 ?b2" by (meson converse_rtranclp_into_rtranclp rtranclp.rtrancl_refl)
  moreover have "batch_final ?b2" "bt_results ?b2 0 = None" by (auto simp: batch_final_def batch_start_def)
  ultimately show ?thesis unfolding batch_outcome_def by (intro exI [of _ ?b2]) simp
qed

definition two_components :: "upgrade_component list" where
  "two_components = [\<lparr>uc_name = ''api'', uc_version = ''v2'', uc_inline = None\<rparr>,
     \<lparr>uc_name = ''etcd'', uc_version = ''v2'', uc_inline = None\<rparr>]"

definition two_dag :: upgrade_dag where
  "two_dag = (case BuildUpgradeDAG two_components
       (Some (\<lambda>n v. Inr (if n = ''api'' then [''etcd''] else []))) of Inr d \<Rightarrow> d | Inl e \<Rightarrow> NewUpgradeDAG)"

lemma two_dag_built:
  "BuildUpgradeDAG two_components (Some (\<lambda>n v. Inr (if n = ''api'' then [''etcd''] else []))) = Inr two_dag"
  unfolding two_dag_def by code_simp

lemma two_dag_wf: "dag_wf two_dag"
  by (rule BuildUpgradeDAG_Inr(1) [OF two_dag_built])

lemma two_dag_batches: "DAG_TopologicalBatches two_dag = Inr [[''etcd''], [''api'']]"
  by code_simp

definition two_node :: "string \<Rightarrow> component_node" where
  "two_node n = \<lparr>cn_name = n, cn_version = ''v2'', cn_inline = None, cn_failurePolicy = FailFast, cn_dependencies = []\<rparr>"

definition two_item :: "string \<Rightarrow> work_item" where
  "two_item n = \<lparr>wi_name = n, wi_node = two_node n, wi_viaRegistry = False\<rparr>"

lemma two_dag_node: "GetNode two_dag n = (if n = ''etcd'' \<or> n = ''api'' then Some (two_node n) else None)"
proof -
  have "dag_nodes two_dag = [(''api'', two_node ''api''), (''etcd'', two_node ''etcd'')]" by code_simp
  then show ?thesis by (simp add: GetNode_def)
qed

lemma two_dag_edge: "(''etcd'', ''api'') \<in> edges (dag_graph two_dag)"
proof -
  have "''api'' \<in> set (succs_of (dag_graph two_dag) ''etcd'')" by code_simp
  then show ?thesis by simp
qed

text \<open>A scheduler whose applier fails on the components of a list.\<close>

definition two_sched :: "string list \<Rightarrow> scheduler" where
  "two_sched bad = \<lparr>sc_inlineRunner = None,
     sc_manifestStore = Some (\<lambda>t n v tmpl. Inr \<lparr>pkg_name = n, pkg_version = v, pkg_manifests = [''m''], pkg_applyStrategy = []\<rparr>),
     sc_manifestApplier = Some (\<lambda>t pkg. if pkg_name pkg \<in> set bad then Some (OtherError ''boom'') else None),
     sc_maxParallelPerBatch = 0, sc_registry = None, sc_cvStore = None\<rparr>"

definition two_ctx :: "(cluster_status option \<times> string option) exec_ctx" where
  "two_ctx = \<lparr>xc_hasCluster = True, xc_updater = None, xc_versionContext = None,
     xc_template = \<lparr>tc_clusterName = ''c1'', tc_namespace = ''ns'', tc_kubernetesVersion = [], tc_openFuyaoVersion = []\<rparr>,
     xc_client = Some cell_client\<rparr>"

definition two_after :: "component_result list \<Rightarrow> (cluster_status option \<times> string option) exec_state \<Rightarrow>
    (cluster_status option \<times> string option) exec_state" where
  "two_after rs st = fst (persistBatchResults two_ctx rs [] st)"

lemma two_exec:
  "executeComponent (two_sched bad) two_ctx t (two_node n) = (if n \<in> set bad then Some (OtherError ''boom'') else None)"
  by (simp add: executeComponent_def resolveComponentType_def two_sched_def executeComponentLegacy_def two_node_def
      executeManifest_def NeedsExecution_def Decide_def two_ctx_def Let_def)

lemma two_collect_etcd:
  "collect_items (two_sched bad) two_ctx 0 two_dag [''etcd''] demo_state = (demo_state, [two_item ''etcd''], [], False)"
  by (simp add: collect_one_def two_dag_node shouldSkipComponent_def two_ctx_def demo_state_def demo_cluster_def
      empty_status_def componentNeedsUpgrade_def NeedsExecution_def Decide_def usesRegistryExecutor_def
      resolveComponentType_def two_sched_def two_item_def two_node_def)

lemma two_persist_etcd:
  "persistBatchResults two_ctx [Some (two_item ''etcd'', None)] [] demo_state =
     (two_after [Some (two_item ''etcd'', None)] demo_state, [], False)"
  unfolding two_after_def by code_simp

lemma two_collect_api:
  "collect_items (two_sched bad) two_ctx 1 two_dag [''api''] (two_after [Some (two_item ''etcd'', None)] demo_state) =
     (two_after [Some (two_item ''etcd'', None)] demo_state, [two_item ''api''], [], False)"
proof -
  have "\<not> shouldSkipComponent two_ctx (two_after [Some (two_item ''etcd'', None)] demo_state) (two_node ''api'')"
    by code_simp
  then show ?thesis
    by (simp add: collect_one_def two_dag_node two_ctx_def
      componentNeedsUpgrade_def NeedsExecution_def Decide_def usesRegistryExecutor_def
      resolveComponentType_def two_sched_def two_item_def)
qed


definition good_hist :: "((cluster_status option \<times> string option) exec_state \<times> component_result list) list" where
  "good_hist = [(demo_state, [Some (two_item ''etcd'', None)]),
     (two_after [Some (two_item ''etcd'', None)] demo_state, [Some (two_item ''api'', None)])]"

definition good_end :: "(cluster_status option \<times> string option) exec_state" where
  "good_end = two_after [Some (two_item ''api'', None)] (two_after [Some (two_item ''etcd'', None)] demo_state)"

lemma batch_of_one:
  assumes "collect_items s ctx k dag batch st = (st1, [it], [], False)"
    and "r = executeComponent s ctx t (wi_node it)"
    and "persistBatchResults ctx [Some (it, r)] [] st1 = (st2, errs, stop)"
  shows "executeBatchParallel ext s ctx k dag batch st [Some (it, r)] st2 errs stop"
  using executeBatchParallel.run_items [OF assms(1) _ single_outcome [OF assms(2)] assms(3)] by simp

lemma two_ctx_ready: "xc_hasCluster two_ctx" "two_ctx = (if tc_clusterName (xc_template two_ctx) = [] \<and>
    tc_namespace (xc_template two_ctx) = [] then two_ctx\<lparr>xc_template := t\<rparr> else two_ctx)"
  by (simp_all add: two_ctx_def)

lemma two_batch_etcd:
  assumes "''etcd'' \<notin> set bad"
  shows "executeBatchParallel False (two_sched bad) two_ctx 0 two_dag [''etcd''] demo_state
    [Some (two_item ''etcd'', None)] (two_after [Some (two_item ''etcd'', None)] demo_state) [] False"
  by (rule batch_of_one [OF two_collect_etcd _ two_persist_etcd]) (use assms in \<open>simp add: two_item_def two_exec\<close>)

lemma good_run: "ExecuteDAG False (Some (two_sched [])) (Some two_ctx) (Some two_dag) demo_state good_hist good_end []"
proof -
  have p: "persistBatchResults two_ctx [Some (two_item ''api'', None)] [] (two_after [Some (two_item ''etcd'', None)] demo_state) =
      (good_end, [], False)"
    unfolding good_end_def two_after_def by code_simp
  have "executeBatchParallel False (two_sched []) two_ctx 1 two_dag [''api''] (two_after [Some (two_item ''etcd'', None)] demo_state)
      [Some (two_item ''api'', None)] good_end [] False"
    by (rule batch_of_one [OF two_collect_api _ p]) (simp add: two_item_def two_exec)
  from execute_batches.next_batch [OF two_batch_etcd [of "[]"]] execute_batches.next_batch [OF this execute_batches.all_done]
  have "execute_batches False (two_sched []) two_ctx two_dag 0 [[''etcd''], [''api'']] demo_state good_hist good_end []"
    unfolding good_hist_def by fastforce
  from ExecuteDAG.executed [OF two_ctx_ready(1) two_dag_batches two_ctx_ready(2) this] show ?thesis .
qed

theorem prerequisites_settled_first_witness:
  "\<exists>j<1. \<exists>node. GetNode two_dag ''etcd'' = Some node \<and> settled two_ctx (good_hist ! j) node"
proof -
  have "\<forall>n node. GetNode two_dag n = Some node \<longrightarrow> isFailFast node"
    by (auto simp: two_dag_node two_node_def isFailFast_def)
  from prerequisites_settled_first [OF good_run two_ctx_ready(1) two_dag_wf this, of 1 "two_item ''api''" None]
  have "\<forall>m. (m, wi_name (two_item ''api'')) \<in> (edges (dag_graph two_dag))\<^sup>+ \<longrightarrow>
      (\<exists>j<1. \<exists>node. GetNode two_dag m = Some node \<and> settled two_ctx (good_hist ! j) node)"
    by (simp add: good_hist_def)
  moreover have "(''etcd'', wi_name (two_item ''api'')) \<in> (edges (dag_graph two_dag))\<^sup>+"
    unfolding two_item_def work_item.simps using two_dag_edge by (rule r_into_trancl)
  ultimately show ?thesis by blast
qed


definition bad_hist :: "((cluster_status option \<times> string option) exec_state \<times> component_result list) list" where
  "bad_hist = [(demo_state, [Some (two_item ''etcd'', Some (OtherError ''boom''))])]"

lemma bad_run:
  "ExecuteDAG True (Some (two_sched [''etcd''])) (Some two_ctx) (Some two_dag) demo_state bad_hist
     (two_after [Some (two_item ''etcd'', Some (OtherError ''boom''))] demo_state) [ComponentFailed ''etcd'' (OtherError ''boom'')]"
proof -
  have p: "persistBatchResults two_ctx [Some (two_item ''etcd'', Some (OtherError ''boom''))] [] demo_state =
      (two_after [Some (two_item ''etcd'', Some (OtherError ''boom''))] demo_state, [ComponentFailed ''etcd'' (OtherError ''boom'')], True)"
    unfolding two_after_def by code_simp
  have "executeBatchParallel True (two_sched [''etcd'']) two_ctx 0 two_dag [''etcd''] demo_state
      [Some (two_item ''etcd'', Some (OtherError ''boom''))]
      (two_after [Some (two_item ''etcd'', Some (OtherError ''boom''))] demo_state) [ComponentFailed ''etcd'' (OtherError ''boom'')] True"
    by (rule batch_of_one [OF two_collect_etcd _ p]) (simp add: two_item_def two_exec)
  from ExecuteDAG.executed [OF two_ctx_ready(1) two_dag_batches two_ctx_ready(2) execute_batches.stopped [OF this]]
  show ?thesis unfolding bad_hist_def .
qed

theorem failures_reported_witness:
  "ComponentFailed (wi_name (two_item ''etcd'')) (OtherError ''boom'') \<in> set [ComponentFailed ''etcd'' (OtherError ''boom'')] \<and>
   isFailFast (wi_node (two_item ''etcd'')) \<and> Suc 0 = length bad_hist"
proof -
  have "ComponentFailed (wi_name (two_item ''etcd'')) (OtherError ''boom'') \<in> set [ComponentFailed ''etcd'' (OtherError ''boom'')] \<and>
     (isFailFast (wi_node (two_item ''etcd'')) \<longrightarrow> Suc 0 = length bad_hist)"
    by (rule failures_reported [OF bad_run]) (simp_all add: bad_hist_def)
  moreover have "isFailFast (wi_node (two_item ''etcd''))" by code_simp
  ultimately show ?thesis by blast
qed

theorem batch_bounded_and_ends_witness:
  "\<exists>b'. batch_step True (maxParallel (two_sched []) (int (length [two_item ''etcd'']))) (item_node [two_item ''etcd''])
     (executeComponent (two_sched []) two_ctx) (batch_start (length [two_item ''etcd''])) b'"
proof -
  have "\<not> batch_final (batch_start (length [two_item ''etcd'']))" by (auto simp: batch_final_def batch_start_def)
  with batch_bounded_and_ends [OF rtranclp.rtrancl_refl, where items = "[two_item ''etcd'']" and
      ext = True and s = "two_sched []" and ctx = two_ctx]
  show ?thesis by blast
qed

text \<open>A run that is cancelled from outside may skip a component that needed its upgrade, run
  nothing, record nothing and still report no error: the results of goroutines that gave up are
  dropped and the error of \<^verbatim>\<open>g.Wait\<close> is ignored.\<close>

theorem cancelled_run_reports_success:
  "componentNeedsUpgrade two_ctx (two_node ''etcd'') \<and>
   \<not> shouldSkipComponent two_ctx demo_state (two_node ''etcd'') \<and>
   execute_batches True (two_sched []) two_ctx two_dag 0 [[''etcd'']] demo_state [(demo_state, [None])] demo_state []"
proof (intro conjI)
  show "componentNeedsUpgrade two_ctx (two_node ''etcd'')" by code_simp
  show "\<not> shouldSkipComponent two_ctx demo_state (two_node ''etcd'')" by code_simp
  have p: "persistBatchResults two_ctx [None] [] demo_state = (demo_state, [], False)" by code_simp
  from executeBatchParallel.run_items [OF two_collect_etcd _ cancelled_outcome p, of "[]"]
  have "executeBatchParallel True (two_sched []) two_ctx 0 two_dag [''etcd''] demo_state [None] demo_state [] False" by simp
  from execute_batches.next_batch [OF this execute_batches.all_done]
  show "execute_batches True (two_sched []) two_ctx two_dag 0 [[''etcd'']] demo_state [(demo_state, [None])] demo_state []"
    by simp
qed

end
