(* ===== verification/Api_Retry.thy ===== *)
theory Api_Retry
  imports Prelude
begin

text \<open>
  Errors of the Kubernetes API and the retry helpers of
  \<^verbatim>\<open>pkg/phaseframe/phaseutil/retry.go\<close>. An error is known to the code by the predicate of
  \<^verbatim>\<open>apimachinery\<close> that accepts it; \<open>ErrMsg\<close> is any other error. The loop behind the helpers,
  \<^verbatim>\<open>retry.OnError\<close> of client-go with its \<^verbatim>\<open>DefaultRetry\<close>, is a parameter; \<open>retry_loop_ok\<close> states
  its documented behaviour: call the function until it succeeds, the error is not retriable or the
  steps are used.

  The result: a function that fails only with conflicts and succeeds within the steps succeeds.
\<close>

datatype api_error = ApiNotFound | ApiConflict | ApiAlreadyExists | ApiForbidden | ApiBadRequest | ApiInvalid
  | ApiTooManyRequests | ApiServerTimeout | ApiServiceUnavailable | ApiTimeout
  | ApiConnectionRefused | ApiConnectionReset | ApiProbableEOF | ApiNamespaceTerminating | ErrMsg string

(* src: pkg/phaseframe/phaseutil/retry.go 29-29 IsConflict *)
definition IsConflict :: "api_error \<Rightarrow> bool" where
  "IsConflict e \<longleftrightarrow> e = ApiConflict"

(* src: pkg/phaseframe/phaseutil/retry.go 32-32 IsNotFound *)
definition IsNotFound :: "api_error \<Rightarrow> bool" where
  "IsNotFound e \<longleftrightarrow> e = ApiNotFound"

(* src: pkg/phaseframe/phaseutil/retry.go 37-51 IsTransient *)
definition IsTransient :: "api_error option \<Rightarrow> bool" where
  "IsTransient err =
     (case err of None \<Rightarrow> False
      | Some e \<Rightarrow>
          if IsConflict e \<or> e = ApiTooManyRequests \<or> e = ApiServerTimeout \<or> e = ApiServiceUnavailable \<or> e = ApiTimeout then True
          else e = ApiConnectionRefused \<or> e = ApiConnectionReset \<or> e = ApiProbableEOF)"

text \<open>Durations in milliseconds, the factor and the jitter in tenths.\<close>

record backoff =
  bo_steps :: nat
  bo_duration :: nat
  bo_factor :: nat
  bo_jitter :: nat

type_synonym 'w attempt = "'w \<Rightarrow> 'w \<times> api_error option"

record 'w retry_lib =
  rl_DefaultRetry :: backoff
  rl_OnError :: "backoff \<Rightarrow> (api_error \<Rightarrow> bool) \<Rightarrow> 'w attempt \<Rightarrow> 'w attempt"

(* src: pkg/phaseframe/phaseutil/retry.go 56-56 DefaultBackoff *)
definition DefaultBackoff :: "'w retry_lib \<Rightarrow> backoff" where
  "DefaultBackoff lib = rl_DefaultRetry lib"

(* src: pkg/phaseframe/phaseutil/retry.go 59-66 ExponentialBackoff *)
definition ExponentialBackoff :: backoff where
  "ExponentialBackoff = \<lparr>bo_steps = 8, bo_duration = 50, bo_factor = 20, bo_jitter = 1\<rparr>"

(* src: pkg/phaseframe/phaseutil/retry.go 69-76 ReadBackoff *)
definition ReadBackoff :: backoff where
  "ReadBackoff = \<lparr>bo_steps = 3, bo_duration = 500, bo_factor = 20, bo_jitter = 1\<rparr>"

(* src: pkg/phaseframe/phaseutil/retry.go 122-126 retryConfig *)
record retry_config =
  rc_backoff :: backoff
  rc_predicate :: "api_error \<Rightarrow> bool"

(* src: pkg/phaseframe/phaseutil/retry.go 129-131 WithBackoff *)
definition WithBackoff :: "backoff \<Rightarrow> retry_config \<Rightarrow> retry_config" where
  "WithBackoff b c = c\<lparr>rc_backoff := b\<rparr>"

(* src: pkg/phaseframe/phaseutil/retry.go 134-136 WithPredicate *)
definition WithPredicate :: "(api_error \<Rightarrow> bool) \<Rightarrow> retry_config \<Rightarrow> retry_config" where
  "WithPredicate p c = c\<lparr>rc_predicate := p\<rparr>"

text \<open>The callback before a retry only logs, so that the two branches of \<^verbatim>\<open>RetryOnError\<close> are one.\<close>

(* src: pkg/phaseframe/phaseutil/retry.go 145-167 RetryOnError *)
definition RetryOnError :: "'w retry_lib \<Rightarrow> 'w attempt \<Rightarrow> (retry_config \<Rightarrow> retry_config) list \<Rightarrow> 'w attempt" where
  "RetryOnError lib fn opts =
     (let cfg = fold (\<lambda>opt c. opt c) opts \<lparr>rc_backoff = DefaultBackoff lib, rc_predicate = IsConflict\<rparr>
      in rl_OnError lib (rc_backoff cfg) (rc_predicate cfg) fn)"

(* src: pkg/phaseframe/phaseutil/retry.go 82-91 RetryOnConflict *)
definition RetryOnConflict :: "'w retry_lib \<Rightarrow> 'w attempt \<Rightarrow> 'w attempt" where
  "RetryOnConflict lib fn = RetryOnError lib fn [WithBackoff (DefaultBackoff lib), WithPredicate IsConflict]"

(* src: pkg/phaseframe/phaseutil/retry.go 94-103 RetryOnTransient *)
definition RetryOnTransient :: "'w retry_lib \<Rightarrow> 'w attempt \<Rightarrow> 'w attempt" where
  "RetryOnTransient lib fn = RetryOnError lib fn [WithBackoff ExponentialBackoff, WithPredicate (\<lambda>e. IsTransient (Some e))]"

(* src: pkg/phaseframe/phaseutil/retry.go 106-115 RetryRead *)
definition RetryRead :: "'w retry_lib \<Rightarrow> 'w attempt \<Rightarrow> 'w attempt" where
  "RetryRead lib fn = RetryOnError lib fn [WithBackoff ReadBackoff, WithPredicate (\<lambda>e. IsTransient (Some e))]"

section \<open>The loop\<close>

text \<open>The documented behaviour of \<^verbatim>\<open>retry.OnError\<close>: with no steps it gives a timeout at once.\<close>

fun retry_loop :: "nat \<Rightarrow> (api_error \<Rightarrow> bool) \<Rightarrow> 'w attempt \<Rightarrow> 'w attempt" where
  "retry_loop 0 p fn w = (w, Some (ErrMsg ''timed out waiting for the condition''))"
| "retry_loop (Suc n) p fn w =
     (case fn w of (w', None) \<Rightarrow> (w', None)
      | (w', Some e) \<Rightarrow> if p e \<and> n \<noteq> 0 then retry_loop n p fn w' else (w', Some e))"

definition retry_loop_ok :: "'w retry_lib \<Rightarrow> bool" where
  "retry_loop_ok lib \<longleftrightarrow> 0 < bo_steps (rl_DefaultRetry lib) \<and>
     (\<forall>b p fn w. rl_OnError lib b p fn w = retry_loop (bo_steps b) p fn w)"

lemma RetryOnConflict_loop:
  "retry_loop_ok lib \<Longrightarrow> RetryOnConflict lib fn w = retry_loop (bo_steps (rl_DefaultRetry lib)) IsConflict fn w"
  by (simp add: RetryOnConflict_def RetryOnError_def WithBackoff_def WithPredicate_def DefaultBackoff_def retry_loop_ok_def)

text \<open>What holds after every call of the function holds of the result of the loop: the rule for
  clients of the helpers.\<close>

lemma retry_loop_induct:
  assumes "retry_loop n p fn w = (w', r)" "0 < n" "I w"
    and fail: "\<And>u u' e. I u \<Longrightarrow> fn u = (u', Some e) \<Longrightarrow> I u' \<and> Q u' (Some e)"
    and good: "\<And>u u'. I u \<Longrightarrow> fn u = (u', None) \<Longrightarrow> Q u' None"
  shows "Q w' r"
  using assms(1-3)
proof (induction n arbitrary: w)
  case (Suc n)
  obtain u r' where f: "fn w = (u, r')" by fastforce
  with Suc fail [of w u] good [of w u] show ?case by (cases r') (auto split: if_splits)
qed simp

lemma RetryOnConflict_induct:
  assumes "retry_loop_ok lib" "RetryOnConflict lib fn w = (w', r)" "I w"
    and "\<And>u u' e. I u \<Longrightarrow> fn u = (u', Some e) \<Longrightarrow> I u' \<and> Q u' (Some e)"
    and "\<And>u u'. I u \<Longrightarrow> fn u = (u', None) \<Longrightarrow> Q u' None"
  shows "Q w' r"
  using assms(2) RetryOnConflict_loop [OF assms(1), of fn w]
    retry_loop_induct [of _ IsConflict fn w w' r I Q, OF _ _ assms(3-5)] assms(1)
  unfolding retry_loop_ok_def by simp

fun conflicts_then_ok :: "nat \<Rightarrow> 'w attempt \<Rightarrow> 'w \<Rightarrow> bool" where
  "conflicts_then_ok 0 fn w \<longleftrightarrow> snd (fn w) = None"
| "conflicts_then_ok (Suc n) fn w \<longleftrightarrow> snd (fn w) = Some ApiConflict \<and> conflicts_then_ok n fn (fst (fn w))"

lemma retry_loop_succeeds: "conflicts_then_ok k fn w \<Longrightarrow> k < n \<Longrightarrow> snd (retry_loop n IsConflict fn w) = None"
proof (induction k arbitrary: n w)
  case 0
  then show ?case by (cases n) (auto split: prod.splits option.splits)
next
  case (Suc k)
  then obtain m where n: "n = Suc m" by (cases n) auto
  obtain u where "fn w = (u, Some ApiConflict)" using Suc.prems(1) by (metis conflicts_then_ok.simps(2) prod.collapse)
  with Suc n show ?case by (simp add: IsConflict_def)
qed

lemma RetryOnConflict_succeeds:
  assumes "retry_loop_ok lib" "conflicts_then_ok k fn w" "k < bo_steps (rl_DefaultRetry lib)"
  shows "snd (RetryOnConflict lib fn w) = None"
  using retry_loop_succeeds [OF assms(2,3)] RetryOnConflict_loop [OF assms(1)] by simp

text \<open>An instance for the witnesses.\<close>

definition demo_retry :: "'w retry_lib" where
  "demo_retry = \<lparr>rl_DefaultRetry = \<lparr>bo_steps = 5, bo_duration = 10, bo_factor = 10, bo_jitter = 1\<rparr>,
     rl_OnError = (\<lambda>b p fn. retry_loop (bo_steps b) p fn)\<rparr>"

lemma demo_retry_ok [simp]: "retry_loop_ok demo_retry"
  by (simp add: retry_loop_ok_def demo_retry_def)

end
