(* ===== verification/Agent_Command.thy ===== *)
theory Agent_Command
  imports Api_Retry
begin

text \<open>
  Commands that the management cluster hands to the agents of the nodes: the object
  (\<^verbatim>\<open>api/bkeagent/v1beta1/command_types.go\<close>), the bookkeeping of its conditions
  (\<^verbatim>\<open>condition.go\<close>), the agent's table of tasks (\<^verbatim>\<open>pkg/job/job.go\<close>), the dispatch to
  the executors (\<^verbatim>\<open>pkg/job/builtin\<close>, \<^verbatim>\<open>pkg/job/shell\<close>) and the execution of a task
  (\<^verbatim>\<open>startTask\<close> and what it calls in \<^verbatim>\<open>controllers/bkeagent/command_controller.go\<close>).

  The agent's surroundings are a record of functions over a world of any type: the clock, the stop
  channel of the task, the API server and the executors. A condition is a pointer that the status
  holds while it is executed; writing through it is replacing the conditions with its identifier.
  Times are in seconds.

  The results: a command is tried at most once more than the retry limit and completes exactly when
  some try succeeds in time; a fresh task stops at the first command that fails; the summary, which
  reads the last condition only, says "completed" only when every command completed or was skipped.
\<close>

section \<open>Data\<close>

(* src: api/bkeagent/v1beta1/command_types.go 23-29 CommandType *)
datatype command_type = CommandBuiltIn | CommandShell | CommandKubernetes | CommandOther string

text \<open>The unset phase and the unset status are the empty string.\<close>

(* src: api/bkeagent/v1beta1/command_types.go 31-42 CommandPhase *)
datatype command_phase = CommandUnset | CommandPending | CommandRunning | CommandComplete | CommandSuspend
  | CommandSkip | CommandFailed | CommandUnKnown

datatype condition_status = ConditionUnset | ConditionTrue | ConditionFalse | ConditionUnknown

(* src: api/bkeagent/v1beta1/command_types.go 74-101 ExecCommand *)
record exec_command =
  ec_id :: string
  ec_command :: "string list"
  ec_type :: command_type
  ec_backoffIgnore :: bool
  ec_backoffDelay :: int

text \<open>Of the node selector, its match labels.\<close>

(* src: api/bkeagent/v1beta1/command_types.go 48-72 CommandSpec *)
record command_spec =
  csp_nodeName :: string
  csp_suspend :: bool
  csp_commands :: "exec_command list"
  csp_backoffLimit :: int
  csp_activeDeadlineSecond :: int
  csp_ttlSecondsAfterFinished :: int
  csp_nodeSelector :: "string gomap option"

(* src: api/bkeagent/v1beta1/command_types.go 139-161 Condition *)
record agent_condition =
  ac_id :: string
  ac_status :: condition_status
  ac_phase :: command_phase
  ac_lastStartTime :: "gotime option"
  ac_stdOut :: "string list"
  ac_stdErr :: "string list"
  ac_count :: int

(* src: api/bkeagent/v1beta1/command_types.go 104-133 CommandStatus *)
record command_status =
  cst_conditions :: "agent_condition list"
  cst_lastStartTime :: "gotime option"
  cst_completionTime :: "gotime option"
  cst_succeeded :: int
  cst_failed :: int
  cst_phase :: command_phase
  cst_status :: condition_status

(* src: api/bkeagent/v1beta1/command_types.go 172-178 Command *)
record command =
  cmd_namespace :: string
  cmd_name :: string
  cmd_resourceVersion :: string
  cmd_generation :: int
  cmd_deletionTimestamp :: "gotime option"
  cmd_finalizers :: "string list"
  cmd_labels :: "string gomap"
  cmd_spec :: command_spec
  cmd_status :: "command_status gomap option"

section \<open>Conditions of a command\<close>

(* src: api/bkeagent/v1beta1/condition.go 51-55 GetCondition (loop) *)
fun find_condition :: "agent_condition list \<Rightarrow> string \<Rightarrow> agent_condition option" where
  "find_condition [] i = None"
| "find_condition (c # cs) i = (if ac_id c = i then Some c else find_condition cs i)"

(* src: api/bkeagent/v1beta1/condition.go 47-57 GetCondition *)
definition GetCondition :: "agent_condition list \<Rightarrow> agent_condition option \<Rightarrow> agent_condition option" where
  "GetCondition cond con =
     (case con of None \<Rightarrow> None | Some k \<Rightarrow> if cond = [] then None else find_condition cond (ac_id k))"

(* src: api/bkeagent/v1beta1/condition.go 29-45 RemoveCondition *)
definition RemoveAgentCondition :: "agent_condition list \<Rightarrow> agent_condition option \<Rightarrow> agent_condition list" where
  "RemoveAgentCondition cond con =
     (case con of None \<Rightarrow> cond
      | Some k \<Rightarrow> (case GetCondition cond con of
                     None \<Rightarrow> cond | Some _ \<Rightarrow> filter (\<lambda>c1. ac_id c1 \<noteq> ac_id k) cond))"

(* src: api/bkeagent/v1beta1/condition.go 59-77 ReplaceCondition *)
definition ReplaceCondition :: "agent_condition list \<Rightarrow> agent_condition option \<Rightarrow> agent_condition list" where
  "ReplaceCondition cond con =
     (case con of None \<Rightarrow> cond
      | Some k \<Rightarrow> (case GetCondition cond con of
                     None \<Rightarrow> cond @ [k] | Some _ \<Rightarrow> map (\<lambda>c1. if ac_id c1 = ac_id k then k else c1) cond))"

(* src: api/bkeagent/v1beta1/condition.go 80-92 determineStatus *)
definition determineStatus :: "agent_condition \<Rightarrow> nat \<Rightarrow> nat \<Rightarrow> condition_status" where
  "determineStatus latestCond condLen commandCount =
     (if condLen < commandCount then ConditionUnknown
      else case ac_status latestCond of
             ConditionTrue \<Rightarrow> ConditionTrue | ConditionFalse \<Rightarrow> ConditionFalse | _ \<Rightarrow> ConditionUnknown)"

(* src: api/bkeagent/v1beta1/condition.go 95-113 determinePhase *)
definition determinePhase :: "agent_condition \<Rightarrow> nat \<Rightarrow> nat \<Rightarrow> command_phase" where
  "determinePhase latestCond condLen commandCount =
     (if ac_phase latestCond = CommandFailed then CommandFailed
      else if condLen < commandCount \<and> ac_phase latestCond \<in> {CommandRunning, CommandSkip, CommandComplete}
      then CommandRunning
      else if condLen = commandCount \<and> ac_phase latestCond = CommandRunning then CommandRunning
      else if condLen = commandCount \<and> ac_phase latestCond \<in> {CommandSkip, CommandComplete} then CommandComplete
      else CommandUnKnown)"

(* src: api/bkeagent/v1beta1/condition.go 116-125 countSucceededFailed *)
fun countSucceededFailed :: "agent_condition list \<Rightarrow> int \<times> int" where
  "countSucceededFailed [] = (0, 0)"
| "countSucceededFailed (c # cs) =
     (let (s, f) = countSucceededFailed cs in if ac_status c = ConditionFalse then (s, f + 1) else (s + 1, f))"

(* src: api/bkeagent/v1beta1/condition.go 18-27 ConditionCountResult *)
record condition_count =
  cnt_succeeded :: int
  cnt_failed :: int
  cnt_status :: condition_status
  cnt_phase :: command_phase

(* src: api/bkeagent/v1beta1/condition.go 127-150 ConditionCount *)
definition ConditionCount :: "agent_condition list \<Rightarrow> nat \<Rightarrow> condition_count" where
  "ConditionCount cond commandCount =
     (if cond = [] then \<lparr>cnt_succeeded = 0, cnt_failed = 0, cnt_status = ConditionUnknown, cnt_phase = CommandRunning\<rparr>
      else let (s, f) = countSucceededFailed cond;
               latestCond = last cond;
               status = determineStatus latestCond (length cond) commandCount;
               phase = determinePhase latestCond (length cond) commandCount
           in \<lparr>cnt_succeeded = s, cnt_failed = f,
               cnt_status = (if phase = CommandFailed then ConditionFalse else status), cnt_phase = phase\<rparr>)"

section \<open>Tasks of the agent\<close>

text \<open>Closing the stop channel is the flag \<open>tk_closed\<close>: \<^verbatim>\<open>sync.Once\<close> makes closing idempotent.\<close>

(* src: pkg/job/job.go 28-37 Task *)
record task =
  tk_closed :: bool
  tk_phase :: command_phase
  tk_resourceVersion :: string
  tk_generation :: int
  tk_ttl :: int
  tk_hasAddTimer :: bool

(* src: pkg/job/job.go 108-112 Task.SafeClose *)
definition SafeClose :: "task \<Rightarrow> task" where
  "SafeClose t = t\<lparr>tk_closed := True\<rparr>"

(* src: pkg/job/job.go 39-43 Task.SetPhase *)
definition SetPhase :: "command_phase \<Rightarrow> task \<Rightarrow> task" where
  "SetPhase phase t = t\<lparr>tk_phase := phase\<rparr>"

(* src: pkg/job/job.go 64-68 Task.ShouldProcessTTL *)
definition ShouldProcessTTL :: "task \<Rightarrow> bool" where
  "ShouldProcessTTL t \<longleftrightarrow> \<not> tk_hasAddTimer t \<and> tk_ttl t \<noteq> 0 \<and> tk_phase t = CommandComplete"

(* src: pkg/job/job.go 72-80 Task.MarkTimerAdded *)
definition MarkTimerAdded :: "task \<Rightarrow> task \<times> int \<times> bool" where
  "MarkTimerAdded t = (if tk_hasAddTimer t then (t, 0, False) else (t\<lparr>tk_hasAddTimer := True\<rparr>, tk_ttl t, True))"

type_synonym tasks = "task gomap"

(* src: pkg/job/job.go 114-119 Job.GetTask *)
definition GetTask :: "tasks \<Rightarrow> string \<Rightarrow> task option" where
  "GetTask ts gid = map_of ts gid"

(* src: pkg/job/job.go 121-125 Job.SetTask *)
definition SetTask :: "string \<Rightarrow> task \<Rightarrow> tasks \<Rightarrow> tasks" where
  "SetTask gid t ts = AList.update gid t ts"

(* src: pkg/job/job.go 127-131 Job.DeleteTask *)
definition DeleteTask :: "string \<Rightarrow> tasks \<Rightarrow> tasks" where
  "DeleteTask gid ts = AList.delete gid ts"

text \<open>A task is shared by pointer: changing it changes the entry of the table.\<close>

definition change_task :: "string \<Rightarrow> (task \<Rightarrow> task) \<Rightarrow> tasks \<Rightarrow> tasks" where
  "change_task gid f ts = (case GetTask ts gid of None \<Rightarrow> ts | Some t \<Rightarrow> SetTask gid (f t) ts)"

section \<open>Executors\<close>

text \<open>An executor returns its output and possibly an error.\<close>

type_synonym 'w executor = "string list \<Rightarrow> 'w \<Rightarrow> 'w \<times> string list \<times> string option"

(* src: pkg/job/job.go 82-88 Job *)
record 'w job =
  j_builtIn :: "'w executor"
  j_k8s :: "'w executor"
  j_shell :: "'w executor"

text \<open>A plugin returns or panics. \<^verbatim>\<open>Execute\<close> has unnamed results, so that after a recovered panic
  it returns their zero values: no output and no error.\<close>

datatype 'w plugin_run = Returns 'w "string list" "string option" | Panics 'w

(* src: pkg/job/builtin/builtin.go 100-129 Task.Execute *)
definition builtin_Execute :: "(string list \<Rightarrow> 'w \<Rightarrow> 'w plugin_run) gomap \<Rightarrow> 'w executor" where
  "builtin_Execute registry execCommands w =
     (case execCommands of [] \<Rightarrow> (w, [], Some ''Instructions cannot be null'')
      | name # _ \<Rightarrow>
          (case map_of registry (ToLower name) of
             None \<Rightarrow> (w, [], Some ''Instruction not found'')
           | Some plugin \<Rightarrow>
               (case plugin execCommands w of
                  Returns w' res err \<Rightarrow> (w', res, err)
                | Panics w' \<Rightarrow> (w', [], None))))"

text \<open>The operating system's shell is a parameter: \<open>sh w script\<close> is its output and its error.\<close>

(* src: pkg/job/shell/shell.go 32-43 Task.Execute *)
definition shell_Execute :: "('w \<Rightarrow> string \<Rightarrow> 'w \<times> string \<times> string option) \<Rightarrow> 'w executor" where
  "shell_Execute sh execCommands w =
     (if execCommands = [] then (w, [], Some ''The execution instruction is null '')
      else case sh w (Join execCommands '' '') of
             (w', s, Some e) \<Rightarrow> (w', [], Some (''{code:'' @ e @ '', reason: '' @ s @ ''}''))
           | (w', s, None) \<Rightarrow> (w', [s], None))"

(* src: controllers/bkeagent/command_controller.go 462-474 CommandReconciler.executeByType *)
fun executeByType :: "'w job \<Rightarrow> command_type \<Rightarrow> 'w executor" where
  "executeByType j CommandBuiltIn cs w = j_builtIn j cs w"
| "executeByType j CommandKubernetes cs w = j_k8s j cs w"
| "executeByType j CommandShell cs w = j_shell j cs w"
| "executeByType j (CommandOther t) cs w = (w, [], None)"

section \<open>The agent's surroundings\<close>

text \<open>What \<^verbatim>\<open>select\<close> finds at the head of the loop that writes the status: nothing, the agent's
  context done, or the timeout. When several are ready it takes any of them.\<close>

datatype poll = PollGo | PollAgentDone | PollTimeout

record 'w agent_env =
  ae_nodeName :: string
  ae_nodeIP :: string
  ae_now :: "'w \<Rightarrow> 'w \<times> gotime"
  ae_sleep :: "int \<Rightarrow> 'w \<Rightarrow> 'w"
  ae_stopped :: "'w \<Rightarrow> bool"
  ae_poll :: "'w \<Rightarrow> poll"
  ae_get :: "string \<Rightarrow> string \<Rightarrow> 'w \<Rightarrow> 'w \<times> (api_error + command)"
  ae_patchStatus :: "command \<Rightarrow> command \<Rightarrow> 'w \<Rightarrow> 'w \<times> api_error option"
  ae_job :: "'w job"

(* src: controllers/bkeagent/command_controller.go 608-613 CommandReconciler.commandStatusKey *)
definition commandStatusKey :: "'w agent_env \<Rightarrow> string" where
  "commandStatusKey env =
     (if ae_nodeIP env = [] then ae_nodeName env else ae_nodeName env @ ''/'' @ ae_nodeIP env)"

definition status_map :: "command \<Rightarrow> command_status gomap" where
  "status_map c = (case cmd_status c of None \<Rightarrow> [] | Some m \<Rightarrow> m)"

definition put_status :: "string \<Rightarrow> command_status \<Rightarrow> command \<Rightarrow> command" where
  "put_status key st c = c\<lparr>cmd_status := Some (AList.update key st (status_map c))\<rparr>"

definition sync_timeout :: api_error where
  "sync_timeout = ErrMsg ''The update failed to complete after 5 minutes. ''"

text \<open>The loop sleeps one second before each try (\<^verbatim>\<open>rand.IntnRange(1, 2)\<close> is 1), so at most 300
  tries fit into the five minutes; the try after them meets the timeout.\<close>

(* src: controllers/bkeagent/command_controller.go 697-733 CommandReconciler.syncStatusUntilComplete (loop) *)
fun sync_loop :: "'w agent_env \<Rightarrow> nat \<Rightarrow> command \<Rightarrow> command_status \<Rightarrow> api_error option \<Rightarrow> 'w \<Rightarrow>
    'w \<times> api_error option" where
  "sync_loop env 0 cmd st err w = (w, Some sync_timeout)"
| "sync_loop env (Suc n) cmd st err w =
     (case ae_poll env w of
        PollAgentDone \<Rightarrow> (w, err)
      | PollTimeout \<Rightarrow> (w, Some sync_timeout)
      | PollGo \<Rightarrow>
          (case ae_get env (cmd_namespace cmd) (cmd_name cmd) (ae_sleep env 1 w) of
             (w1, Inl e) \<Rightarrow> if e = ApiNotFound then (w1, None) else sync_loop env n cmd st (Some e) w1
           | (w1, Inr obj) \<Rightarrow>
               let base = obj\<lparr>cmd_status := Some (status_map obj)\<rparr>
               in (case ae_patchStatus env base (put_status (commandStatusKey env) st base) w1 of
                     (w2, None) \<Rightarrow> (w2, None)
                   | (w2, Some e) \<Rightarrow> sync_loop env n cmd st (Some e) w2)))"

(* src: controllers/bkeagent/command_controller.go 693-735 CommandReconciler.syncStatusUntilComplete *)
definition syncStatusUntilComplete :: "'w agent_env \<Rightarrow> command \<Rightarrow> command_status \<Rightarrow> 'w \<Rightarrow> 'w \<times> api_error option" where
  "syncStatusUntilComplete env cmd st w = sync_loop env 300 cmd st None w"

section \<open>Execution of a task\<close>

(* src: api/bkeagent/v1beta1/command_types.go 19-21 DefaultActiveDeadlineSecond *)
definition DefaultActiveDeadlineSecond :: nat where
  "DefaultActiveDeadlineSecond = 600"

(* src: controllers/bkeagent/command_controller.go 434-439 calculateStopTime *)
definition calculateStopTime :: "gotime \<Rightarrow> int \<Rightarrow> gotime" where
  "calculateStopTime lastStartTime activeDeadlineSecond =
     (if activeDeadlineSecond > 0 then lastStartTime + nat activeDeadlineSecond
      else lastStartTime + DefaultActiveDeadlineSecond)"

(* src: controllers/bkeagent/command_controller.go 448-458 newCondition *)
definition newCondition :: "string \<Rightarrow> gotime \<Rightarrow> agent_condition" where
  "newCondition i now = \<lparr>ac_id = i, ac_status = ConditionUnknown, ac_phase = CommandRunning,
     ac_lastStartTime = Some now, ac_stdOut = [], ac_stdErr = [], ac_count = 0\<rparr>"

(* src: controllers/bkeagent/command_controller.go 442-445 isCommandCompleted *)
definition isCommandCompleted :: "agent_condition list \<Rightarrow> string \<Rightarrow> bool" where
  "isCommandCompleted conditions commandID =
     (case GetCondition conditions (Some (newCondition commandID 0)) of
        None \<Rightarrow> False | Some c \<Rightarrow> ac_phase c = CommandComplete)"

(* src: controllers/bkeagent/command_controller.go 482-510 CommandReconciler.executeWithRetry *)
function executeWithRetry :: "'w agent_env \<Rightarrow> exec_command \<Rightarrow> gotime \<Rightarrow> int \<Rightarrow> agent_condition \<Rightarrow> 'w \<Rightarrow>
    agent_condition \<times> 'w \<times> bool" where
  "executeWithRetry env ec stopTime backoffLimit c w =
     (if 0 \<le> backoffLimit \<and> ac_count c \<le> backoffLimit then
        (case ae_now env w of (w1, t1) \<Rightarrow>
           if stopTime < t1 then (c, w1, True)
           else (let w2 = (if ec_backoffDelay ec \<noteq> 0 \<and> 0 < ac_count c then ae_sleep env (ec_backoffDelay ec) w1 else w1)
                 in case ae_now env w2 of (w3, t3) \<Rightarrow>
                      (let c1 = c\<lparr>ac_lastStartTime := Some t3, ac_count := ac_count c + 1\<rparr>
                       in case executeByType (ae_job env) (ec_type ec) (ec_command ec) w3 of
                            (w4, res, Some e) \<Rightarrow>
                              executeWithRetry env ec stopTime backoffLimit
                                (c1\<lparr>ac_status := ConditionFalse, ac_phase := CommandFailed, ac_stdErr := ac_stdErr c1 @ [e]\<rparr>) w4
                          | (w4, res, None) \<Rightarrow>
                              (c1\<lparr>ac_status := ConditionTrue, ac_phase := CommandComplete, ac_stdOut := ac_stdOut c1 @ res\<rparr>,
                               w4, False))))
      else (c, w, False))"
  by pat_completeness auto
termination
  by (relation "measure (\<lambda>(env, ec, stopTime, backoffLimit, c, w). nat (backoffLimit + 1 - ac_count c))") auto

(* src: controllers/bkeagent/command_controller.go 519-541 CommandReconciler.processExecCommand *)
definition processExecCommand :: "'w agent_env \<Rightarrow> command \<Rightarrow> exec_command \<Rightarrow> command_status \<Rightarrow> gotime \<Rightarrow> 'w \<Rightarrow>
    command_status \<times> 'w \<times> (api_error + bool)" where
  "processExecCommand env cmd ec st stopTime w =
     (case ae_now env w of (w0, t0) \<Rightarrow>
        (let c0 = newCondition (ec_id ec) t0;
             conds0 = ReplaceCondition (cst_conditions st) (Some c0)
         in case executeWithRetry env ec stopTime (csp_backoffLimit (cmd_spec cmd)) c0 w0 of (c1, w1, timedOut) \<Rightarrow>
              (let c2 = (if ac_status c1 = ConditionFalse \<and> ec_backoffIgnore ec then c1\<lparr>ac_phase := CommandSkip\<rparr> else c1);
                   st' = st\<lparr>cst_conditions := ReplaceCondition conds0 (Some c2)\<rparr>
               in case syncStatusUntilComplete env cmd st' w1 of
                    (w2, Some e) \<Rightarrow> (st', w2, Inl e)
                  | (w2, None) \<Rightarrow> (st', w2, Inr (\<not> timedOut \<and> ac_phase c2 = CommandFailed)))))"

datatype task_end = TaskStopped | TaskSyncError api_error | TaskFinished

(* src: controllers/bkeagent/command_controller.go 572-600 CommandReconciler.startTask (loop) *)
fun run_commands :: "'w agent_env \<Rightarrow> command \<Rightarrow> gotime \<Rightarrow> exec_command list \<Rightarrow> command_status \<Rightarrow> 'w \<Rightarrow>
    command_status \<times> 'w \<times> task_end" where
  "run_commands env cmd stopTime [] st w = (st, w, TaskFinished)"
| "run_commands env cmd stopTime (ec # ecs) st w =
     (if ae_stopped env w then (st, w, TaskStopped)
      else case ae_now env w of (w1, t) \<Rightarrow>
        if stopTime < t then (st, w1, TaskFinished)
        else if isCommandCompleted (cst_conditions st) (ec_id ec) then run_commands env cmd stopTime ecs st w1
        else case processExecCommand env cmd ec st stopTime w1 of
               (st', w2, Inl e) \<Rightarrow> (st', w2, TaskSyncError e)
             | (st', w2, Inr shouldBreak) \<Rightarrow>
                 if shouldBreak then (st', w2, TaskFinished) else run_commands env cmd stopTime ecs st' w2)"

text \<open>The counts that the summary of the conditions writes into the status.\<close>

(* src: controllers/bkeagent/command_controller.go 547-551 CommandReconciler.finalizeTaskStatus (counts) *)
definition summarised :: "command \<Rightarrow> command_status \<Rightarrow> command_status" where
  "summarised cmd st =
     (let r = ConditionCount (cst_conditions st) (length (csp_commands (cmd_spec cmd)))
      in st\<lparr>cst_succeeded := cnt_succeeded r, cst_failed := cnt_failed r, cst_status := cnt_status r, cst_phase := cnt_phase r\<rparr>)"

(* src: controllers/bkeagent/command_controller.go 544-564 CommandReconciler.finalizeTaskStatus *)
definition finalizeTaskStatus :: "'w agent_env \<Rightarrow> command \<Rightarrow> command_status \<Rightarrow> string \<Rightarrow> tasks \<Rightarrow> 'w \<Rightarrow>
    command_status \<times> tasks \<times> 'w \<times> api_error option" where
  "finalizeTaskStatus env cmd st gid ts w =
     (case ae_now env w of (w1, t) \<Rightarrow>
        (let st' = (summarised cmd st)\<lparr>cst_completionTime := Some t\<rparr>
         in case syncStatusUntilComplete env cmd st' w1 of
              (w2, Some e) \<Rightarrow> (st', ts, w2, Some e)
            | (w2, None) \<Rightarrow> (st', change_task gid (\<lambda>v. SafeClose (SetPhase (cst_phase st') v)) ts, w2, None)))"

definition command_gid :: "command \<Rightarrow> string" where
  "command_gid cmd = cmd_namespace cmd @ ''/'' @ cmd_name cmd"

text \<open>The status of the node and its start time are pointers that \<^verbatim>\<open>startTask\<close> follows: a missing
  one is a panic, \<^const>\<open>None\<close>.\<close>

(* src: controllers/bkeagent/command_controller.go 566-606 CommandReconciler.startTask *)
definition startTask :: "'w agent_env \<Rightarrow> command \<Rightarrow> tasks \<Rightarrow> 'w \<Rightarrow> (command_status \<times> tasks \<times> 'w \<times> task_end) option" where
  "startTask env cmd ts w =
     (case map_of (status_map cmd) (commandStatusKey env) of None \<Rightarrow> None
      | Some st0 \<Rightarrow>
          (case cst_lastStartTime st0 of None \<Rightarrow> None
           | Some start \<Rightarrow>
               let stopTime = calculateStopTime start (csp_activeDeadlineSecond (cmd_spec cmd))
               in (case run_commands env cmd stopTime (csp_commands (cmd_spec cmd)) st0 w of
                     (st, w1, TaskFinished) \<Rightarrow>
                       (case finalizeTaskStatus env cmd st (command_gid cmd) ts w1 of
                          (st', ts', w2, None) \<Rightarrow> Some (st', ts', w2, TaskFinished)
                        | (st', ts', w2, Some e) \<Rightarrow> Some (st', ts', w2, TaskSyncError e))
                   | (st, w1, r) \<Rightarrow> Some (st, ts, w1, r))))"

section \<open>The retry loop\<close>

declare executeWithRetry.simps [simp del]

definition retry_state :: "agent_condition \<Rightarrow> bool" where
  "retry_state c \<longleftrightarrow> ac_count c = 0 \<and> ac_phase c = CommandRunning \<and> ac_status c = ConditionUnknown \<and> ac_stdErr c = [] \<or>
     0 < ac_count c \<and> ac_phase c = CommandFailed \<and> ac_status c = ConditionFalse \<and> int (length (ac_stdErr c)) = ac_count c"

definition failed_again :: "gotime \<Rightarrow> string \<Rightarrow> agent_condition \<Rightarrow> agent_condition" where
  "failed_again t e c = c\<lparr>ac_lastStartTime := Some t, ac_count := ac_count c + 1, ac_status := ConditionFalse,
     ac_phase := CommandFailed, ac_stdErr := ac_stdErr c @ [e]\<rparr>"

definition completed_at :: "gotime \<Rightarrow> string list \<Rightarrow> agent_condition \<Rightarrow> agent_condition" where
  "completed_at t res c = c\<lparr>ac_lastStartTime := Some t, ac_count := ac_count c + 1, ac_status := ConditionTrue,
     ac_phase := CommandComplete, ac_stdOut := ac_stdOut c @ res\<rparr>"

text \<open>One turn of the retry loop: it ends because the budget is used or the time is over or the
  executor succeeds, or it records the error and goes on.\<close>

lemma executeWithRetry_cases:
  assumes "0 \<le> limit"
  obtains (used) "limit < ac_count c" "executeWithRetry env ec stopTime limit c w = (c, w, False)"
  | (late) w1 t where "ac_count c \<le> limit" "ae_now env w = (w1, t)" "stopTime < t"
      "executeWithRetry env ec stopTime limit c w = (c, w1, True)"
  | (ok) w1 t1 w2 w3 t3 w4 res where "ac_count c \<le> limit" "ae_now env w = (w1, t1)" "t1 \<le> stopTime"
      "w2 = w1 \<or> w2 = ae_sleep env (ec_backoffDelay ec) w1" "ae_now env w2 = (w3, t3)"
      "executeByType (ae_job env) (ec_type ec) (ec_command ec) w3 = (w4, res, None)"
      "executeWithRetry env ec stopTime limit c w = (completed_at t3 res c, w4, False)"
  | (err) w1 t1 w2 w3 t3 w4 res e where "ac_count c \<le> limit" "ae_now env w = (w1, t1)" "t1 \<le> stopTime"
      "w2 = w1 \<or> w2 = ae_sleep env (ec_backoffDelay ec) w1" "ae_now env w2 = (w3, t3)"
      "executeByType (ae_job env) (ec_type ec) (ec_command ec) w3 = (w4, res, Some e)"
      "executeWithRetry env ec stopTime limit c w = executeWithRetry env ec stopTime limit (failed_again t3 e c) w4"
proof (cases "ac_count c \<le> limit")
  case False
  with assms show ?thesis by (intro used) (simp_all add: executeWithRetry.simps [of env ec stopTime limit c w])
next
  case True
  obtain w1 t1 where n1: "ae_now env w = (w1, t1)" by fastforce
  define w2 where "w2 = (if ec_backoffDelay ec \<noteq> 0 \<and> 0 < ac_count c then ae_sleep env (ec_backoffDelay ec) w1 else w1)"
  obtain w3 t3 where n3: "ae_now env w2 = (w3, t3)" by fastforce
  obtain w4 res r where x: "executeByType (ae_job env) (ec_type ec) (ec_command ec) w3 = (w4, res, r)"
    using prod_cases3 by blast
  note step = executeWithRetry.simps [of env ec stopTime limit c w, unfolded n1 prod.case Let_def, folded w2_def, unfolded n3 prod.case x]
  have w2: "w2 = w1 \<or> w2 = ae_sleep env (ec_backoffDelay ec) w1" by (simp add: w2_def)
  show ?thesis
  proof (cases "stopTime < t1")
    case late': True
    show ?thesis by (rule late [OF True n1 late']) (simp add: step True assms late')
  next
    case False
    then have t1: "t1 \<le> stopTime" by simp
    show ?thesis
    proof (cases r)
      case None
      show ?thesis by (rule ok [OF True n1 t1 w2 n3 x [unfolded None]])
        (simp add: step True assms t1 False None completed_at_def)
    next
      case (Some e)
      show ?thesis by (rule err [OF True n1 t1 w2 n3 x [unfolded Some]])
        (simp add: step True assms t1 False Some failed_again_def)
    qed
  qed
qed

lemma executeWithRetry_spec:
  assumes "executeWithRetry env ec stopTime limit c w = (c', w', timedOut)" "retry_state c" "0 \<le> limit" "ac_count c \<le> limit + 1"
  shows "ac_id c' = ac_id c \<and> ac_count c \<le> ac_count c' \<and> ac_count c' \<le> limit + 1 \<and>
    (if ac_phase c' = CommandComplete then \<not> timedOut \<and> ac_status c' = ConditionTrue \<and> int (length (ac_stdErr c')) = ac_count c' - 1
     else retry_state c' \<and> (\<not> timedOut \<longrightarrow> ac_count c' = limit + 1))"
  using assms
proof (induction "nat (limit + 1 - ac_count c)" arbitrary: c w rule: less_induct)
  case less
  from \<open>0 \<le> limit\<close> show ?case
  proof (cases rule: executeWithRetry_cases [of limit c env ec stopTime w])
    case used
    with less.prems show ?thesis by (auto simp: retry_state_def)
  next
    case late
    with less.prems show ?thesis by (auto simp: retry_state_def)
  next
    case ok
    with less.prems show ?thesis by (auto simp: retry_state_def completed_at_def)
  next
    case (err w1 t1 w2 w3 t3 w4 res e)
    have "retry_state (failed_again t3 e c)" using less.prems(2) by (auto simp: retry_state_def failed_again_def)
    with less.hyps [of "failed_again t3 e c" w4] err less.prems show ?thesis by (simp add: failed_again_def)
  qed
qed

section \<open>Time\<close>

text \<open>What the code relies on of the clock: it does not run backwards.\<close>

definition clock_ok :: "'w agent_env \<Rightarrow> ('w \<Rightarrow> gotime) \<Rightarrow> bool" where
  "clock_ok env clk \<longleftrightarrow>
     (\<forall>w. snd (ae_now env w) = clk w \<and> clk w \<le> clk (fst (ae_now env w))) \<and>
     (\<forall>n w. clk w \<le> clk (ae_sleep env n w)) \<and>
     (\<forall>ns name w. clk w \<le> clk (fst (ae_get env ns name w))) \<and>
     (\<forall>old new w. clk w \<le> clk (fst (ae_patchStatus env old new w))) \<and>
     (\<forall>ty cs w. clk w \<le> clk (fst (executeByType (ae_job env) ty cs w)))"

lemma clock_now: "clock_ok env clk \<Longrightarrow> ae_now env w = (w', t) \<Longrightarrow> t = clk w \<and> clk w \<le> clk w'"
  by (metis clock_ok_def fst_conv snd_conv)

lemma clock_exec: "clock_ok env clk \<Longrightarrow> executeByType (ae_job env) ty cs w = (w', r) \<Longrightarrow> clk w \<le> clk w'"
  by (metis clock_ok_def fst_conv)

lemma clock_sleep: "clock_ok env clk \<Longrightarrow> clk w \<le> clk (ae_sleep env n w)"
  by (simp add: clock_ok_def)

lemma clock_sync_loop: "clock_ok env clk \<Longrightarrow> sync_loop env n cmd st err w = (w', r) \<Longrightarrow> clk w \<le> clk w'"
proof (induction n arbitrary: err w)
  case (Suc n)
  show ?case
  proof (cases "ae_poll env w")
    case PollGo
    obtain w1 g where g: "ae_get env (cmd_namespace cmd) (cmd_name cmd) (ae_sleep env 1 w) = (w1, g)" by fastforce
    have "clk w \<le> clk w1"
      using Suc.prems(1) clock_sleep [OF Suc.prems(1), of w 1] g unfolding clock_ok_def by (metis fst_conv order_trans)
    show ?thesis
    proof (cases g)
      case (Inl e)
      with Suc g PollGo \<open>clk w \<le> clk w1\<close> show ?thesis by (auto split: if_splits intro: order_trans)
    next
      case (Inr obj)
      let ?b = "obj\<lparr>cmd_status := Some (status_map obj)\<rparr>"
      obtain w2 p where p: "ae_patchStatus env ?b (put_status (commandStatusKey env) st ?b) w1 = (w2, p)" by fastforce
      have "clk w1 \<le> clk w2" using Suc.prems(1) p unfolding clock_ok_def by (metis fst_conv)
      with Suc g PollGo Inr p \<open>clk w \<le> clk w1\<close> show ?thesis
        by (cases p) (auto simp: Let_def intro: order_trans)
    qed
  qed (use Suc in simp_all)
qed simp

lemma clock_sync: "clock_ok env clk \<Longrightarrow> syncStatusUntilComplete env cmd st w = (w', r) \<Longrightarrow> clk w \<le> clk w'"
  unfolding syncStatusUntilComplete_def by (rule clock_sync_loop)

lemma clock_retry:
  assumes "clock_ok env clk" "executeWithRetry env ec stopTime limit c w = (c', w', timedOut)" "0 \<le> limit"
  shows "clk w \<le> clk w' \<and> (timedOut \<longrightarrow> stopTime < clk w')"
  using assms(2)
proof (induction "nat (limit + 1 - ac_count c)" arbitrary: c w rule: less_induct)
  case less
  from \<open>0 \<le> limit\<close> show ?case
  proof (cases rule: executeWithRetry_cases [of limit c env ec stopTime w])
    case (late w1 t)
    with less.prems clock_now [OF assms(1), of w w1 t] show ?thesis by auto
  next
    case (ok w1 t1 w2 w3 t3 w4 res)
    with less.prems clock_now [OF assms(1), of w w1 t1] clock_now [OF assms(1), of w2 w3 t3]
      clock_exec [OF assms(1), of _ _ w3 w4] clock_sleep [OF assms(1), of w1 "ec_backoffDelay ec"]
    show ?thesis by force
  next
    case (err w1 t1 w2 w3 t3 w4 res e)
    with clock_now [OF assms(1), of w w1 t1] clock_now [OF assms(1), of w2 w3 t3]
      clock_exec [OF assms(1), of _ _ w3 w4] clock_sleep [OF assms(1), of w1 "ec_backoffDelay ec"]
    have "clk w \<le> clk w4" by force
    with less.hyps [of "failed_again t3 e c" w4] err less.prems show ?thesis by (simp add: failed_again_def)
  qed (use less.prems in simp)
qed

lemma find_condition_None: "find_condition cs i = None \<longleftrightarrow> i \<notin> ac_id ` set cs"
  by (induction cs) auto

lemma GetCondition_None: "GetCondition cs (Some k) = None \<longleftrightarrow> ac_id k \<notin> ac_id ` set cs"
  by (auto simp: GetCondition_def find_condition_None)

lemma ReplaceCondition_new: "ac_id k \<notin> ac_id ` set cs \<Longrightarrow> ReplaceCondition cs (Some k) = cs @ [k]"
  using GetCondition_None [of cs k] by (simp add: ReplaceCondition_def)

lemma ReplaceCondition_snoc:
  "ac_id k \<notin> ac_id ` set cs \<Longrightarrow> ac_id k = ac_id c \<Longrightarrow> ReplaceCondition (cs @ [c]) (Some k) = cs @ [k]"
  using GetCondition_None [of "cs @ [c]" k] by (auto simp: ReplaceCondition_def split: option.splits intro!: map_idI) (metis imageI)

lemma isCommandCompleted_new: "i \<notin> ac_id ` set cs \<Longrightarrow> \<not> isCommandCompleted cs i"
  using GetCondition_None [of cs "newCondition i 0"] by (simp add: isCommandCompleted_def newCondition_def)

text \<open>A condition that lets the next command run.\<close>

definition done_condition :: "agent_condition \<Rightarrow> bool" where
  "done_condition c \<longleftrightarrow> ac_phase c = CommandComplete \<and> ac_status c = ConditionTrue \<or>
     ac_phase c = CommandSkip \<and> ac_status c = ConditionFalse"

lemma processExecCommand_spec:
  assumes "clock_ok env clk" "0 \<le> csp_backoffLimit (cmd_spec cmd)" "ec_id ec \<notin> ac_id ` set (cst_conditions st)"
    "processExecCommand env cmd ec st stopTime w = (st', w', r)"
  obtains c where "st' = st\<lparr>cst_conditions := cst_conditions st @ [c]\<rparr>" "ac_id c = ec_id ec" "clk w \<le> clk w'"
    "done_condition c \<or> ac_phase c = CommandFailed \<and> ac_status c = ConditionFalse \<or>
       ac_phase c = CommandRunning \<and> ac_status c = ConditionUnknown \<and> stopTime < clk w'"
    "\<And>brk. r = Inr brk \<Longrightarrow> if brk then ac_phase c = CommandFailed else done_condition c \<or> stopTime < clk w'"
proof -
  obtain w0 t0 where n: "ae_now env w = (w0, t0)" by fastforce
  let ?c0 = "newCondition (ec_id ec) t0"
  obtain c1 w1 timedOut where x: "executeWithRetry env ec stopTime (csp_backoffLimit (cmd_spec cmd)) ?c0 w0 = (c1, w1, timedOut)"
    using prod_cases3 by blast
  define c2 where "c2 = (if ac_status c1 = ConditionFalse \<and> ec_backoffIgnore ec then c1\<lparr>ac_phase := CommandSkip\<rparr> else c1)"
  have "retry_state ?c0" "ac_count ?c0 \<le> csp_backoffLimit (cmd_spec cmd) + 1" "ac_id ?c0 = ec_id ec"
    using assms(2) by (simp_all add: retry_state_def newCondition_def)
  note c1 = executeWithRetry_spec [OF x this(1) assms(2) this(2)] this(3)
  have id: "ac_id c2 = ec_id ec" using c1 by (simp add: c2_def)
  have conds: "ReplaceCondition (ReplaceCondition (cst_conditions st) (Some ?c0)) (Some c2) = cst_conditions st @ [c2]"
    using assms(3) id \<open>ac_id ?c0 = ec_id ec\<close> by (simp add: ReplaceCondition_new ReplaceCondition_snoc)
  define st1 where "st1 = st\<lparr>cst_conditions := cst_conditions st @ [c2]\<rparr>"
  obtain w2 e where s: "syncStatusUntilComplete env cmd st1 w1 = (w2, e)" by fastforce
  have res: "st' = st1" "w' = w2" "r = (case e of Some x \<Rightarrow> Inl x | None \<Rightarrow> Inr (\<not> timedOut \<and> ac_phase c2 = CommandFailed))"
    using assms(4) s by (auto simp: processExecCommand_def n x Let_def c2_def [symmetric] conds st1_def [symmetric] split: option.splits)
  have clk: "clk w \<le> clk w'" "timedOut \<Longrightarrow> stopTime < clk w'"
    using clock_now [OF assms(1) n] clock_retry [OF assms(1) x assms(2)] clock_sync [OF assms(1) s] res by auto
  have c2: "done_condition c2 \<or> ac_phase c2 = CommandFailed \<and> ac_status c2 = ConditionFalse \<or>
       ac_phase c2 = CommandRunning \<and> ac_status c2 = ConditionUnknown \<and> timedOut"
    using c1 assms(2) by (auto simp: c2_def done_condition_def retry_state_def newCondition_def split: if_splits)
  show ?thesis
    by (rule that [of c2]) (use res st1_def id clk c2 in \<open>auto split: option.splits\<close>)
qed

section \<open>A task from its first command\<close>

lemma run_commands_late:
  assumes "clock_ok env clk" "stopTime < clk w" "run_commands env cmd stopTime ecs st w = (st', w', r)"
  shows "st' = st \<and> clk w \<le> clk w'"
proof (cases ecs)
  case (Cons ec rest)
  obtain w1 t where "ae_now env w = (w1, t)" by fastforce
  with Cons assms clock_now [OF assms(1), of w w1 t] show ?thesis by (auto split: if_splits)
qed (use assms in simp)

text \<open>How the conditions of a task stand to its commands: those of a prefix of them, in order, all
  done but perhaps the last.\<close>

definition task_progress :: "exec_command list \<Rightarrow> agent_condition list \<Rightarrow> bool" where
  "task_progress ecs cs \<longleftrightarrow> (\<exists>k\<le>length ecs. map ac_id cs = map ec_id (take k ecs)) \<and>
     list_all done_condition (butlast cs)"

definition run_outcome :: "exec_command list \<Rightarrow> bool \<Rightarrow> agent_condition list \<Rightarrow> bool" where
  "run_outcome ecs late cs \<longleftrightarrow>
     list_all done_condition cs \<and> (length cs = length ecs \<or> late) \<or>
     cs \<noteq> [] \<and> ac_phase (last cs) = CommandFailed \<and> ac_status (last cs) = ConditionFalse \<or>
     cs \<noteq> [] \<and> ac_phase (last cs) = CommandRunning \<and> ac_status (last cs) = ConditionUnknown \<and> late"

lemma run_commands_progress:
  assumes ok: "clock_ok env clk" and lim: "0 \<le> csp_backoffLimit (cmd_spec cmd)"
    and "distinct (map ec_id (pre @ ecs))" "map ac_id (cst_conditions st) = map ec_id pre"
    "list_all done_condition (cst_conditions st)" "run_commands env cmd stopTime ecs st w = (st', w', r)"
  shows "\<exists>cs. st' = st\<lparr>cst_conditions := cs\<rparr> \<and> task_progress (pre @ ecs) cs \<and>
    (r = TaskFinished \<longrightarrow> run_outcome (pre @ ecs) (stopTime < clk w') cs)"
  using assms(3-6)
proof (induction ecs arbitrary: pre st w)
  case Nil
  then have "take (length pre) pre = pre" "length (cst_conditions st) = length pre"
    by (auto dest: map_eq_imp_length_eq)
  with Nil show ?case
    by (auto intro!: exI [of _ "cst_conditions st"] exI [of _ "length pre"] simp: task_progress_def run_outcome_def
        list_all_iff dest: in_set_butlastD)
next
  case (Cons ec ecs)
  let ?cs = "cst_conditions st"
  have len: "length ?cs = length pre" using Cons.prems(2) by (auto dest: map_eq_imp_length_eq)
  have here: "task_progress (pre @ ec # ecs) ?cs"
    using Cons.prems(2,3) by (auto intro!: exI [of _ "length pre"] simp: task_progress_def list_all_iff dest: in_set_butlastD)
  have ids: "ac_id ` set ?cs = ec_id ` set pre" using Cons.prems(2) by (metis list.set_map)
  have new: "ec_id ec \<notin> ac_id ` set ?cs" using Cons.prems(1) ids by auto
  obtain w1 t where n: "ae_now env w = (w1, t)" by fastforce
  obtain st1 w2 p where pr: "processExecCommand env cmd ec st stopTime w1 = (st1, w2, p)" using prod_cases3 by blast
  obtain c where c: "st1 = st\<lparr>cst_conditions := ?cs @ [c]\<rparr>" "ac_id c = ec_id ec"
      "done_condition c \<or> ac_phase c = CommandFailed \<and> ac_status c = ConditionFalse \<or>
       ac_phase c = CommandRunning \<and> ac_status c = ConditionUnknown \<and> stopTime < clk w2"
      "\<And>brk. p = Inr brk \<Longrightarrow> if brk then ac_phase c = CommandFailed else done_condition c \<or> stopTime < clk w2"
    using processExecCommand_spec [OF ok lim new pr] by metis
  have next_progress: "task_progress (pre @ ec # ecs) (?cs @ [c])"
    using Cons.prems(2,3) c(2) by (auto intro!: exI [of _ "Suc (length pre)"] simp: task_progress_def)
  consider "r = TaskStopped" "st' = st" | "st' = st" "r = TaskFinished" "stopTime < clk w'"
    | e where "r = TaskSyncError e" "st' = st1"
    | "p = Inr True" "st' = st1" "r = TaskFinished"
    | "p = Inr False" "run_commands env cmd stopTime ecs st1 w2 = (st', w', r)"
    using Cons.prems(4) n pr clock_now [OF ok n] isCommandCompleted_new [OF new]
    by (auto split: if_splits sum.splits)
  then show ?case
  proof cases
    case 1
    with here show ?thesis by (auto intro!: exI [of _ ?cs])
  next
    case 2
    with here Cons.prems(3) show ?thesis by (auto intro!: exI [of _ ?cs] simp: run_outcome_def)
  next
    case 3
    with next_progress c show ?thesis by auto
  next
    case 4
    with next_progress c show ?thesis by (auto simp: run_outcome_def done_condition_def)
  next
    case 5
    show ?thesis
    proof (cases "done_condition c")
      case True
      with Cons.IH [of "pre @ [ec]" st1 w2] Cons.prems c 5 show ?thesis by auto
    next
      case False
      with c(4) 5 have late: "stopTime < clk w2" by auto
      from run_commands_late [OF ok late 5(2)] late have "st' = st1" "stopTime < clk w'" by auto
      with next_progress c(1,3) False show ?thesis by (auto simp: run_outcome_def)
    qed
  qed
qed

lemma countSucceededFailed_conv:
  "countSucceededFailed cs = (int (length (filter (\<lambda>c. ac_status c \<noteq> ConditionFalse) cs)),
     int (length (filter (\<lambda>c. ac_status c = ConditionFalse) cs)))"
  by (induction cs) auto

lemma ConditionCount_phase: "cs \<noteq> [] \<Longrightarrow> cnt_phase (ConditionCount cs n) = determinePhase (last cs) (length cs) n"
  by (simp add: ConditionCount_def countSucceededFailed_conv Let_def)

lemma ConditionCount_status: "cs \<noteq> [] \<Longrightarrow> cnt_status (ConditionCount cs n) =
    (if determinePhase (last cs) (length cs) n = CommandFailed then ConditionFalse else determineStatus (last cs) (length cs) n)"
  by (simp add: ConditionCount_def countSucceededFailed_conv Let_def)

lemma ConditionCount_failed: "cnt_failed (ConditionCount cs n) = int (length (filter (\<lambda>c. ac_status c = ConditionFalse) cs))"
  by (simp add: ConditionCount_def countSucceededFailed_conv Let_def)

lemma done_last_phase: "done_condition c \<Longrightarrow> length cs \<le> n \<Longrightarrow>
    determinePhase c (length cs) n = (if length cs = n then CommandComplete else CommandRunning)"
  by (auto simp: determinePhase_def done_condition_def)

text \<open>What the summary makes of an outcome.\<close>

lemma summary_of_outcome:
  assumes "task_progress ecs cs" "run_outcome ecs late cs" "ecs \<noteq> []"
  shows "case cnt_phase (ConditionCount cs (length ecs)) of
      CommandComplete \<Rightarrow> map ac_id cs = map ec_id ecs \<and> list_all done_condition cs
    | CommandFailed \<Rightarrow> cs \<noteq> [] \<and> ac_phase (last cs) = CommandFailed \<and> cnt_status (ConditionCount cs (length ecs)) = ConditionFalse
    | CommandRunning \<Rightarrow> late
    | _ \<Rightarrow> False"
proof -
  obtain k where k: "k \<le> length ecs" "map ac_id cs = map ec_id (take k ecs)" using assms(1) by (auto simp: task_progress_def)
  then have len: "length cs = k" by (auto dest!: map_eq_imp_length_eq)
  show ?thesis
  proof (cases "cs = []")
    case True
    with assms(2,3) show ?thesis by (auto simp: ConditionCount_def run_outcome_def)
  next
    case False
    note simps = ConditionCount_phase [OF False] ConditionCount_status [OF False]
    from assms(2) consider "list_all done_condition cs" "k = length ecs \<or> late"
      | "ac_phase (last cs) = CommandFailed" | "ac_phase (last cs) = CommandRunning" late
      using len by (auto simp: run_outcome_def)
    then show ?thesis
    proof cases
      case 1
      then have "done_condition (last cs)" using False by (simp add: list_all_iff)
      from done_last_phase [OF this, of cs "length ecs"] k 1 len show ?thesis by (auto simp: simps)
    next
      case 2
      then show ?thesis by (auto simp: simps determinePhase_def False)
    next
      case 3
      then show ?thesis using k len by (auto simp: simps determinePhase_def split: command_phase.splits)
    qed
  qed
qed

section \<open>The status of other nodes\<close>

text \<open>What the code relies on of the API server: reading and waiting change nothing, a merge patch
  changes the entries in which the two objects differ and no others, a failed patch changes nothing,
  and an object is reported missing only when it is.\<close>

definition status_api :: "'w agent_env \<Rightarrow> ('w \<Rightarrow> command option) \<Rightarrow> bool" where
  "status_api env stored \<longleftrightarrow>
     (\<forall>n w. stored (ae_sleep env n w) = stored w) \<and>
     (\<forall>ns name w w' r. ae_get env ns name w = (w', r) \<longrightarrow> stored w' = stored w \<and>
        (case r of Inr c \<Rightarrow> stored w = Some c | Inl e \<Rightarrow> e = ApiNotFound \<longrightarrow> stored w = None)) \<and>
     (\<forall>old new w w' r. ae_patchStatus env old new w = (w', r) \<longrightarrow>
        (case r of Some e \<Rightarrow> stored w' = stored w
         | None \<Rightarrow> \<exists>c c'. stored w = Some c \<and> stored w' = Some c' \<and>
             (\<forall>k. map_of (status_map c') k =
                (if map_of (status_map new) k = map_of (status_map old) k then map_of (status_map c) k else map_of (status_map new) k))))"

lemma status_getD: "status_api env stored \<Longrightarrow> ae_get env ns name w = (w', r) \<Longrightarrow> stored w' = stored w \<and>
    (case r of Inr c \<Rightarrow> stored w = Some c | Inl e \<Rightarrow> e = ApiNotFound \<longrightarrow> stored w = None)"
  unfolding status_api_def by blast

lemma status_patchD: "status_api env stored \<Longrightarrow> ae_patchStatus env old new w = (w', r) \<Longrightarrow>
    (case r of Some e \<Rightarrow> stored w' = stored w
     | None \<Rightarrow> \<exists>c c'. stored w = Some c \<and> stored w' = Some c' \<and>
         (\<forall>k. map_of (status_map c') k =
            (if map_of (status_map new) k = map_of (status_map old) k then map_of (status_map c) k else map_of (status_map new) k)))"
  unfolding status_api_def by blast

lemma merge_eq: "(\<And>k. f k = (if g k = h k then h k else g k)) \<Longrightarrow> f = g"
  by (rule ext) metis

lemma status_map_put [simp]: "map_of (status_map (put_status key st c)) = (map_of (status_map c))(key \<mapsto> st)"
  by (simp add: put_status_def status_map_def)

lemma status_map_base [simp]: "status_map (obj\<lparr>cmd_status := Some (status_map obj)\<rparr>) = status_map obj"
  by (simp add: status_map_def)

definition wrote :: "string \<Rightarrow> command_status \<Rightarrow> command \<Rightarrow> command \<Rightarrow> bool" where
  "wrote key st c c' \<longleftrightarrow> map_of (status_map c') = (map_of (status_map c))(key \<mapsto> st)"

lemma sync_loop_spec:
  assumes "status_api env stored" "sync_loop env n cmd st err w = (w', r)" "stored w = Some c"
  shows "(\<exists>c'. stored w' = Some c' \<and> wrote (commandStatusKey env) st c c' \<and> r = None) \<or>
    stored w' = Some c \<and> (r = None \<longrightarrow> ae_poll env w' = PollAgentDone)"
  using assms(2,3)
proof (induction n arbitrary: err w)
  case (Suc n)
  show ?case
  proof (cases "ae_poll env w")
    case PollGo
    obtain w1 g where g: "ae_get env (cmd_namespace cmd) (cmd_name cmd) (ae_sleep env 1 w) = (w1, g)" by fastforce
    have s1: "stored w1 = Some c" "case g of Inr x \<Rightarrow> x = c | Inl e \<Rightarrow> e \<noteq> ApiNotFound"
      using status_getD [OF assms(1) g] assms(1) Suc.prems(2) by (auto simp: status_api_def split: sum.splits)
    show ?thesis
    proof (cases g)
      case (Inl e)
      with s1 Suc g PollGo show ?thesis by simp
    next
      case (Inr obj)
      then have obj: "obj = c" using s1 by simp
      let ?b = "c\<lparr>cmd_status := Some (status_map c)\<rparr>"
      obtain w2 p where p: "ae_patchStatus env ?b (put_status (commandStatusKey env) st ?b) w1 = (w2, p)" by fastforce
      show ?thesis
      proof (cases p)
        case None
        with status_patchD [OF assms(1) p] s1(1)
        obtain c' where "stored w2 = Some c'" and m: "\<And>k. map_of (status_map c') k =
            (if map_of (status_map (put_status (commandStatusKey env) st ?b)) k = map_of (status_map ?b) k
             then map_of (status_map c) k else map_of (status_map (put_status (commandStatusKey env) st ?b)) k)"
          by fastforce
        moreover have "map_of (status_map c') = (map_of (status_map c))(commandStatusKey env \<mapsto> st)"
          using merge_eq [of "map_of (status_map c')", OF m [unfolded status_map_put status_map_base]] .
        ultimately have "stored w2 = Some c' \<and> wrote (commandStatusKey env) st c c'" by (simp add: wrote_def)
        with Suc.prems g PollGo Inr obj p None show ?thesis by (auto simp: Let_def)
      next
        case (Some e)
        have "stored w2 = Some c" using status_patchD [OF assms(1) p] s1(1) Some by simp
        with Suc g PollGo Inr obj p Some show ?thesis by (simp add: Let_def)
      qed
    qed
  qed (use Suc.prems in auto)
qed auto

section \<open>Properties\<close>

text \<open>What is left when a task has finished: its conditions and the summary of them.\<close>

lemma task_finished:
  assumes "clock_ok env clk" and "0 \<le> csp_backoffLimit (cmd_spec cmd)"
    and "distinct (map ec_id (csp_commands (cmd_spec cmd)))"
    and "map_of (status_map cmd) (commandStatusKey env) = Some st0" and "cst_conditions st0 = []"
    and "cst_lastStartTime st0 = Some start" and "startTask env cmd ts w = Some (st', ts', w', TaskFinished)"
  obtains cs late where "cst_conditions st' = cs" "task_progress (csp_commands (cmd_spec cmd)) cs"
    "run_outcome (csp_commands (cmd_spec cmd)) late cs"
    "late \<Longrightarrow> calculateStopTime start (csp_activeDeadlineSecond (cmd_spec cmd)) < clk w'"
    "cst_phase st' = cnt_phase (ConditionCount cs (length (csp_commands (cmd_spec cmd))))"
    "cst_status st' = cnt_status (ConditionCount cs (length (csp_commands (cmd_spec cmd))))"
    "cst_failed st' = cnt_failed (ConditionCount cs (length (csp_commands (cmd_spec cmd))))"
    "cst_completionTime st' \<noteq> None"
proof -
  let ?ecs = "csp_commands (cmd_spec cmd)" and ?stop = "calculateStopTime start (csp_activeDeadlineSecond (cmd_spec cmd))"
  obtain st w1 r where run: "run_commands env cmd ?stop ?ecs st0 w = (st, w1, r)" using prod_cases3 by blast
  have r: "r = TaskFinished" and "\<exists>ts'. finalizeTaskStatus env cmd st (command_gid cmd) ts w1 = (st', ts', w', None)"
    using assms(4,6,7) run by (auto simp: startTask_def Let_def split: task_end.splits option.splits prod.splits)
  then obtain w2 t where fin: "st' = (summarised cmd st)\<lparr>cst_completionTime := Some t\<rparr>"
      "ae_now env w1 = (w2, t)" "syncStatusUntilComplete env cmd st' w2 = (w', None)"
    by (auto simp: finalizeTaskStatus_def Let_def split: option.splits prod.splits)
  have "clk w1 \<le> clk w'" using clock_now [OF assms(1) fin(2)] clock_sync [OF assms(1) fin(3)] by simp
  obtain cs where cs: "st = st0\<lparr>cst_conditions := cs\<rparr>" "task_progress ?ecs cs" "run_outcome ?ecs (?stop < clk w1) cs"
    using run_commands_progress [OF assms(1,2) _ _ _ run, of "[]"] assms(3,5) r by auto
  show ?thesis
    by (rule that [of cs "?stop < clk w1"]) (use cs \<open>clk w1 \<le> clk w'\<close> in \<open>simp_all add: fin(1) summarised_def Let_def\<close>)
qed

text \<open>C7. The outcome of a task started on a command of which nothing was recorded yet. If the
  agent reports it completed, every command has its condition, in the order of the specification,
  and each of them succeeded or failed and may be ignored; with no failure counted all succeeded. If
  it reports failure, the last condition failed and every command before it is done. It reports
  nothing but these two or that the task still runs, and the latter only after the deadline.\<close>

theorem task_outcome:
  assumes "clock_ok env clk" and "0 \<le> csp_backoffLimit (cmd_spec cmd)"
    and "distinct (map ec_id (csp_commands (cmd_spec cmd)))" and "csp_commands (cmd_spec cmd) \<noteq> []"
    and "map_of (status_map cmd) (commandStatusKey env) = Some st0" and "cst_conditions st0 = []"
    and "cst_lastStartTime st0 = Some start" and "startTask env cmd ts w = Some (st', ts', w', TaskFinished)"
  shows "case cst_phase st' of
      CommandComplete \<Rightarrow> map ac_id (cst_conditions st') = map ec_id (csp_commands (cmd_spec cmd)) \<and>
        list_all done_condition (cst_conditions st') \<and>
        (cst_failed st' = 0 \<longrightarrow> list_all (\<lambda>c. ac_phase c = CommandComplete) (cst_conditions st'))
    | CommandFailed \<Rightarrow> cst_status st' = ConditionFalse \<and> task_progress (csp_commands (cmd_spec cmd)) (cst_conditions st') \<and>
        cst_conditions st' \<noteq> [] \<and> ac_phase (last (cst_conditions st')) = CommandFailed
    | CommandRunning \<Rightarrow> calculateStopTime start (csp_activeDeadlineSecond (cmd_spec cmd)) < clk w' \<and> cst_completionTime st' \<noteq> None
    | _ \<Rightarrow> False"
proof -
  let ?ecs = "csp_commands (cmd_spec cmd)"
  obtain cs late where cs: "cst_conditions st' = cs" "task_progress ?ecs cs" "run_outcome ?ecs late cs"
    "late \<Longrightarrow> calculateStopTime start (csp_activeDeadlineSecond (cmd_spec cmd)) < clk w'"
    "cst_phase st' = cnt_phase (ConditionCount cs (length ?ecs))" "cst_status st' = cnt_status (ConditionCount cs (length ?ecs))"
    "cst_failed st' = cnt_failed (ConditionCount cs (length ?ecs))" "cst_completionTime st' \<noteq> None"
    by (rule task_finished [OF assms(1-3,5-8)]) blast
  have failed: "cst_failed st' = 0 \<Longrightarrow> list_all done_condition cs \<Longrightarrow> list_all (\<lambda>c. ac_phase c = CommandComplete) cs"
    unfolding cs(7) ConditionCount_failed by (auto simp: list_all_iff filter_empty_conv done_condition_def)
  show ?thesis
    using summary_of_outcome [OF cs(2,3) assms(4)] failed cs unfolding cs(1,5,6)
    by (cases "cnt_phase (ConditionCount cs (length ?ecs))") auto
qed

text \<open>An agent for the witnesses: the world is the time and the stored command; the shell echoes, and
  fails on \<^verbatim>\<open>false\<close>; every reading of the clock takes a second.\<close>

type_synonym demo_world = "gotime \<times> command option"

definition demo_job :: "demo_world job" where
  "demo_job = \<lparr>j_builtIn = builtin_Execute [(''boom'', \<lambda>_ w. Panics w)],
     j_k8s = (\<lambda>cs w. (w, [], None)),
     j_shell = shell_Execute (\<lambda>w s. (w, s, if s = ''false'' then Some ''exit status 1'' else None))\<rparr>"

definition demo_env :: "demo_world agent_env" where
  "demo_env = \<lparr>ae_nodeName = ''n1'', ae_nodeIP = ''10.0.0.1'',
     ae_now = (\<lambda>(t, c). ((t + 1, c), t)), ae_sleep = (\<lambda>n (t, c). (t + nat n, c)),
     ae_stopped = (\<lambda>_. False), ae_poll = (\<lambda>_. PollGo),
     ae_get = (\<lambda>ns name (t, c). ((t, c), case c of None \<Rightarrow> Inl ApiNotFound | Some x \<Rightarrow> Inr x)),
     ae_patchStatus = (\<lambda>old new (t, c). case c of None \<Rightarrow> ((t, c), Some ApiNotFound)
        | Some x \<Rightarrow> if status_map x = status_map old then ((t, Some (x\<lparr>cmd_status := cmd_status new\<rparr>)), None)
                    else ((t, c), Some ApiConflict)),
     ae_job = demo_job\<rparr>"

definition demo_exec :: "string \<Rightarrow> string \<Rightarrow> bool \<Rightarrow> exec_command" where
  "demo_exec i s ign = \<lparr>ec_id = i, ec_command = [s], ec_type = CommandShell, ec_backoffIgnore = ign, ec_backoffDelay = 0\<rparr>"

definition demo_status :: command_status where
  "demo_status = \<lparr>cst_conditions = [], cst_lastStartTime = Some 0, cst_completionTime = None, cst_succeeded = -1, cst_failed = -1,
     cst_phase = CommandRunning, cst_status = ConditionUnknown\<rparr>"

definition demo_command :: "exec_command list \<Rightarrow> command" where
  "demo_command ecs = \<lparr>cmd_namespace = ''ns'', cmd_name = ''cmd'', cmd_resourceVersion = ''1'', cmd_generation = 1,
     cmd_deletionTimestamp = None, cmd_finalizers = [], cmd_labels = [],
     cmd_spec = \<lparr>csp_nodeName = [], csp_suspend = False, csp_commands = ecs, csp_backoffLimit = 1, csp_activeDeadlineSecond = 100,
       csp_ttlSecondsAfterFinished = 0, csp_nodeSelector = Some [(''10.0.0.1'', ''10.0.0.1'')]\<rparr>,
     cmd_status = Some [(''n1/10.0.0.1'', demo_status)]\<rparr>"

lemma demo_clock: "clock_ok demo_env fst"
  unfolding clock_ok_def
proof (intro conjI allI)
  fix ty cs w
  show "fst w \<le> fst (fst (executeByType (ae_job demo_env) ty cs w))"
    by (cases ty) (auto simp: demo_env_def demo_job_def builtin_Execute_def shell_Execute_def split: list.splits prod.splits option.splits)
qed (auto simp: demo_env_def split: option.splits)

lemma demo_api: "status_api demo_env snd"
  by (auto simp: status_api_def demo_env_def status_map_def split: option.splits if_splits)

theorem task_outcome_witness:
  "\<exists>st' ts' w'. startTask demo_env (demo_command [demo_exec ''a'' ''false'' True, demo_exec ''b'' ''date'' False]) [] (0, None) =
     Some (st', ts', w', TaskFinished) \<and> cst_phase st' = CommandComplete \<and>
     map ac_id (cst_conditions st') = [''a'', ''b''] \<and> list_all done_condition (cst_conditions st')"
proof -
  let ?c = "demo_command [demo_exec ''a'' ''false'' True, demo_exec ''b'' ''date'' False]"
  have "case startTask demo_env ?c [] (0, None) of None \<Rightarrow> False | Some (st', ts', w', r) \<Rightarrow> r = TaskFinished \<and> cst_phase st' = CommandComplete"
    by code_simp
  then obtain st' ts' w' where s: "startTask demo_env ?c [] (0, None) = Some (st', ts', w', TaskFinished)" "cst_phase st' = CommandComplete"
    by (auto split: option.splits)
  have "map_of (status_map ?c) (commandStatusKey demo_env) = Some demo_status" by code_simp
  from task_outcome [OF demo_clock _ _ _ this _ _ s(1), of 0] s show ?thesis
    by (simp add: demo_command_def demo_exec_def demo_status_def)
qed

text \<open>Writing the status of one node leaves the entries of all other nodes alone and stores
  exactly the given entry for its own node; when it reports an error nothing was written, and it
  reports success without writing only when the agent is shutting down.\<close>

theorem status_write_isolated:
  assumes "status_api env stored" and "stored w = Some c" and "syncStatusUntilComplete env cmd st w = (w', r)"
  shows "case r of
      None \<Rightarrow> (\<exists>c'. stored w' = Some c' \<and> map_of (status_map c') = (map_of (status_map c))(commandStatusKey env \<mapsto> st)) \<or>
        stored w' = Some c \<and> ae_poll env w' = PollAgentDone
    | Some e \<Rightarrow> stored w' = Some c"
  using sync_loop_spec [OF assms(1) assms(3) [unfolded syncStatusUntilComplete_def] assms(2)]
  by (auto simp: wrote_def split: option.splits)

theorem status_write_isolated_witness:
  "\<exists>c'. snd (fst (syncStatusUntilComplete demo_env (demo_command []) demo_status (7, Some (demo_command [])))) = Some c' \<and>
     map_of (status_map c') ''n1/10.0.0.1'' = Some demo_status"
proof -
  obtain w' r where s: "syncStatusUntilComplete demo_env (demo_command []) demo_status (7, Some (demo_command [])) = (w', r)" by fastforce
  have "snd (syncStatusUntilComplete demo_env (demo_command []) demo_status (7, Some (demo_command []))) = None" by code_simp
  then have "r = None" using s by simp
  moreover have "commandStatusKey demo_env = ''n1/10.0.0.1''" "ae_poll demo_env w' = PollGo"
    by (simp_all add: commandStatusKey_def demo_env_def)
  ultimately show ?thesis using status_write_isolated [OF demo_api _ s, of "demo_command []"] s by (auto split: option.splits)
qed

text \<open>A command is tried at most once more than the retry limit: the number of tries is recorded,
  it completes as soon as one of them succeeds, and when it neither completes nor meets the deadline
  all of the tries were made and each of them left its error.\<close>

theorem retry_budget:
  assumes "0 \<le> limit" and "executeWithRetry env ec stopTime limit (newCondition i t) w = (c, w', timedOut)"
  shows "ac_id c = i \<and> 0 \<le> ac_count c \<and> ac_count c \<le> limit + 1 \<and>
    (if ac_phase c = CommandComplete
     then ac_status c = ConditionTrue \<and> int (length (ac_stdErr c)) = ac_count c - 1 \<and> \<not> timedOut
     else int (length (ac_stdErr c)) = ac_count c \<and> (timedOut \<or> ac_count c = limit + 1 \<and> ac_phase c = CommandFailed))"
  using executeWithRetry_spec [OF assms(2) _ assms(1)] assms(1)
  by (auto simp: retry_state_def newCondition_def split: if_splits)

theorem retry_budget_witness:
  "\<exists>c w'. executeWithRetry demo_env (demo_exec ''a'' ''false'' False) 100 1 (newCondition ''a'' 0) (0, None) = (c, w', False) \<and>
     ac_count c = 2 \<and> length (ac_stdErr c) = 2"
proof -
  obtain c w' b where x: "executeWithRetry demo_env (demo_exec ''a'' ''false'' False) 100 1 (newCondition ''a'' 0) (0, None) = (c, w', b)"
    using prod_cases3 by blast
  have "case executeWithRetry demo_env (demo_exec ''a'' ''false'' False) 100 1 (newCondition ''a'' 0) (0, None) of
      (c, w', b) \<Rightarrow> ac_phase c = CommandFailed \<and> \<not> b" by code_simp
  with x retry_budget [OF _ x] show ?thesis by auto
qed

text \<open>Surroundings in which nothing goes wrong: no stop, no failing executor, the status can be
  written, and the clock stays before the deadline.\<close>

definition smooth :: "'w agent_env \<Rightarrow> command \<Rightarrow> gotime \<Rightarrow> bool" where
  "smooth env cmd stopTime \<longleftrightarrow> (\<forall>u. \<not> ae_stopped env u \<and> snd (ae_now env u) \<le> stopTime) \<and>
     (\<forall>st u. snd (syncStatusUntilComplete env cmd st u) = None) \<and>
     (\<forall>ty cs u. snd (snd (executeByType (ae_job env) ty cs u)) = None)"

definition success :: "agent_condition \<Rightarrow> bool" where
  "success c \<longleftrightarrow> ac_phase c = CommandComplete \<and> ac_status c = ConditionTrue"

lemma smooth_process:
  assumes "smooth env cmd stopTime" "0 \<le> csp_backoffLimit (cmd_spec cmd)" "ec_id ec \<notin> ac_id ` set (cst_conditions st)"
  obtains c w' where "processExecCommand env cmd ec st stopTime w = (st\<lparr>cst_conditions := cst_conditions st @ [c]\<rparr>, w', Inr False)"
    "ac_id c = ec_id ec" "success c"
proof -
  obtain w0 t0 where n: "ae_now env w = (w0, t0)" by fastforce
  let ?c0 = "newCondition (ec_id ec) t0"
  obtain c w1 where x: "executeWithRetry env ec stopTime (csp_backoffLimit (cmd_spec cmd)) ?c0 w0 = (c, w1, False)"
    and c: "ac_id c = ec_id ec" "success c"
  proof (cases rule: executeWithRetry_cases [OF assms(2), of ?c0 env ec stopTime w0])
    case 1
    then show ?thesis using assms(2) by (simp add: newCondition_def)
  next
    case (2 u t)
    then show ?thesis using assms(1) by (auto simp: smooth_def dest: spec [of _ w0])
  next
    case (3 u1 t1 u2 u3 t3 u4 res)
    then show ?thesis using that by (auto simp: success_def completed_at_def newCondition_def)
  next
    case (4 u1 t1 u2 u3 t3 u4 res e)
    then show ?thesis using assms(1) by (metis option.distinct(1) smooth_def snd_conv)
  qed
  let ?st = "st\<lparr>cst_conditions := cst_conditions st @ [c]\<rparr>"
  obtain w2 where s: "syncStatusUntilComplete env cmd ?st w1 = (w2, None)"
    using assms(1) unfolding smooth_def by (metis prod.collapse)
  have "ReplaceCondition (ReplaceCondition (cst_conditions st) (Some ?c0)) (Some c) = cst_conditions st @ [c]"
    using assms(3) c by (simp add: ReplaceCondition_new ReplaceCondition_snoc newCondition_def)
  with n x s c show ?thesis
    by (intro that [of c w2]) (auto simp: processExecCommand_def success_def Let_def)
qed

lemma smooth_run:
  assumes "smooth env cmd stopTime" "0 \<le> csp_backoffLimit (cmd_spec cmd)" "distinct (map ec_id ecs)"
    "ec_id ` set ecs \<inter> ac_id ` set (cst_conditions st) = {}"
  shows "\<exists>cs w'. run_commands env cmd stopTime ecs st w = (st\<lparr>cst_conditions := cst_conditions st @ cs\<rparr>, w', TaskFinished) \<and>
    map ac_id cs = map ec_id ecs \<and> list_all success cs"
  using assms(3,4)
proof (induction ecs arbitrary: st w)
  case (Cons ec ecs)
  have new: "ec_id ec \<notin> ac_id ` set (cst_conditions st)" using Cons.prems by auto
  obtain w1 t where n: "ae_now env w = (w1, t)" by fastforce
  have ok: "\<not> ae_stopped env w" "t \<le> stopTime" using assms(1) n by (auto simp: smooth_def dest: spec [of _ w])
  obtain c w2 where p: "processExecCommand env cmd ec st stopTime w1 = (st\<lparr>cst_conditions := cst_conditions st @ [c]\<rparr>, w2, Inr False)"
    "ac_id c = ec_id ec" "success c" using smooth_process [OF assms(1,2) new] by metis
  have "ec_id ` set ecs \<inter> ac_id ` set (cst_conditions (st\<lparr>cst_conditions := cst_conditions st @ [c]\<rparr>)) = {}"
    using Cons.prems p(2) by auto
  from Cons.IH [OF _ this, of w2] Cons.prems obtain cs w' where
    "run_commands env cmd stopTime ecs (st\<lparr>cst_conditions := cst_conditions st @ [c]\<rparr>) w2 =
       (st\<lparr>cst_conditions := cst_conditions st @ c # cs\<rparr>, w', TaskFinished)" "map ac_id cs = map ec_id ecs" "list_all success cs"
    by auto
  with n ok p isCommandCompleted_new [OF new] show ?case by (intro exI [of _ "c # cs"]) auto
qed (auto intro: exI [of _ "[]"])


text \<open>A calm agent for the witness: its clock stands still.\<close>

definition calm_env :: "demo_world agent_env" where
  "calm_env = demo_env\<lparr>ae_now := (\<lambda>w. (w, 7)), ae_get := (\<lambda>ns name w. (w, Inl ApiNotFound)),
     ae_job := \<lparr>j_builtIn = (\<lambda>_ w. (w, [], None)), j_k8s = (\<lambda>_ w. (w, [], None)), j_shell = (\<lambda>_ w. (w, [], None))\<rparr>\<rparr>"

lemma calm_smooth: "7 \<le> stop \<Longrightarrow> smooth calm_env cmd stop"
  unfolding smooth_def
proof (intro conjI allI)
  fix ty cs u
  show "snd (snd (executeByType (ae_job calm_env) ty cs u)) = None" by (cases ty) (simp_all add: calm_env_def)
  fix st show "snd (syncStatusUntilComplete calm_env cmd st u) = None"
    using sync_loop.simps(2) [of calm_env 299 cmd st None u]
    by (simp add: syncStatusUntilComplete_def calm_env_def demo_env_def)
qed (simp_all add: calm_env_def demo_env_def)


text \<open>A built-in plugin that panics counts as a success: the recovered error is lost, and the
  command is recorded as completed.\<close>

theorem panic_counts_as_success:
  assumes "j_builtIn (ae_job env) = builtin_Execute registry" and "map_of registry (ToLower name) = Some plugin"
    and "ec_type ec = CommandBuiltIn" and "ec_command ec = name # args"
    and "\<forall>w. \<exists>w'. plugin (name # args) w = Panics w'" and "0 \<le> limit" and "snd (ae_now env w) \<le> stopTime"
  shows "\<exists>c w'. executeWithRetry env ec stopTime limit (newCondition i t) w = (c, w', False) \<and>
    ac_phase c = CommandComplete \<and> ac_status c = ConditionTrue \<and> ac_stdErr c = []"
proof -
  have run: "\<exists>w'. executeByType (ae_job env) (ec_type ec) (ec_command ec) u = (w', [], None)" for u
    using assms(1-4) spec [OF assms(5), of u] by (auto simp: builtin_Execute_def)
  from \<open>0 \<le> limit\<close> show ?thesis
  proof (cases rule: executeWithRetry_cases [of limit "newCondition i t" env ec stopTime w])
    case (err w1 t1 w2 w3 t3 w4 res e)
    with run [of w3] show ?thesis by auto
  qed (use assms(6,7) in \<open>auto simp: newCondition_def completed_at_def\<close>)
qed

theorem panic_counts_as_success_witness:
  "\<exists>c w'. executeWithRetry demo_env ((demo_exec ''a'' ''boom'' False)\<lparr>ec_type := CommandBuiltIn\<rparr>) 100 0 (newCondition ''a'' 0) (5, None) =
     (c, w', False) \<and> ac_phase c = CommandComplete \<and> ac_status c = ConditionTrue \<and> ac_stdErr c = []"
  by (rule panic_counts_as_success [where registry = "[(''boom'', \<lambda>_ w. Panics w)]" and name = "''boom''" and args = "[]" and plugin = "\<lambda>_ w. Panics w"])
    (simp_all add: demo_env_def demo_job_def demo_exec_def ToLower_def lower_char_def)

end
