(* ===== verification/Agent_Controller.thy ===== *)
theory Agent_Controller
  imports Agent_Command
begin

text \<open>
  The reconciler of the agent, \<^verbatim>\<open>controllers/bkeagent/command_controller.go\<close>: which events it takes,
  what it does with a command (finalizer, suspension, superseded tasks, start of a task) and the
  removal of finished commands. The table of tasks and the world are the state; a started goroutine
  is a result of \<^verbatim>\<open>Reconcile\<close>, the command that \<^const>\<open>startTask\<close> is then run on.

  The library calls are parameters (the client, \<^verbatim>\<open>RetryOnConflict\<close>'s loop, the addresses of the
  interfaces); of the finalizer helpers of controller-runtime the documented list operations are used.

  The results: a goroutine is started only for a live, unfinished, not suspended command that is newer
  than the task registered for it; the registered generation never decreases; a deleted command loses
  its task and its finalizer. Three further theorems show what the code does not do: an event with a
  higher generation can be dropped, a finishing old task closes its successor, and an agent without a
  name takes the commands of all nodes.
\<close>

section \<open>Definitions\<close>

text \<open>An address of an interface, as \<^verbatim>\<open>net.ParseCIDR\<close> and the predicates of \<^verbatim>\<open>net.IP\<close> see it.\<close>

record iface_ip =
  ip_string :: string
  ip_loopback :: bool
  ip_linkLocal :: bool
  ip_v4 :: bool

text \<open>The addresses are missing when they cannot be listed, one of them when it cannot be parsed.\<close>

record 'w reconciler =
  rc_env :: "'w agent_env"
  rc_get :: "string \<Rightarrow> string \<Rightarrow> 'w \<Rightarrow> 'w \<times> (api_error + command)"
  rc_update :: "command \<Rightarrow> 'w \<Rightarrow> 'w \<times> api_error option"
  rc_retry :: "'w retry_lib"
  rc_interfaceIPs :: "iface_ip option list option"

datatype ctrl_result = CtrlDone | CtrlRequeue | CtrlError api_error

text \<open>\<^verbatim>\<open>reconcileResult\<close>: continue, or finish with a result.\<close>

(* src: controllers/bkeagent/command_controller.go 74-78 reconcileResult *)
datatype reconcile_result = Continue | Finish ctrl_result

(* src: controllers/bkeagent/command_controller.go 58-59 commandFinalizerName *)
definition commandFinalizerName :: string where
  "commandFinalizerName = ''command.bkeagent.bocloud.com/finalizers''"

definition ContainsFinalizer :: "command \<Rightarrow> string \<Rightarrow> bool" where
  "ContainsFinalizer c f \<longleftrightarrow> f \<in> set (cmd_finalizers c)"

definition AddFinalizer :: "string \<Rightarrow> command \<Rightarrow> command" where
  "AddFinalizer f c = (if f \<in> set (cmd_finalizers c) then c else c\<lparr>cmd_finalizers := cmd_finalizers c @ [f]\<rparr>)"

definition RemoveFinalizer :: "string \<Rightarrow> command \<Rightarrow> command" where
  "RemoveFinalizer f c = c\<lparr>cmd_finalizers := filter (\<lambda>x. x \<noteq> f) (cmd_finalizers c)\<rparr>"

(* src: controllers/bkeagent/command_controller.go 157-168 CommandReconciler.fetchCommand *)
definition fetchCommand :: "'w reconciler \<Rightarrow> string \<Rightarrow> string \<Rightarrow> 'w \<Rightarrow> 'w \<times> (ctrl_result + command)" where
  "fetchCommand r ns name w =
     (case rc_get r ns name w of
        (w', Inl e) \<Rightarrow> (w', Inl (if IsNotFound e then CtrlDone else CtrlError e))
      | (w', Inr c) \<Rightarrow> (w', Inr c))"

(* src: controllers/bkeagent/command_controller.go 178-186 CommandReconciler.ensureStatusInitialized (new status) *)
definition initial_status :: "gotime \<Rightarrow> command_status" where
  "initial_status now = \<lparr>cst_conditions = [], cst_lastStartTime = Some now, cst_completionTime = None,
     cst_succeeded = -1, cst_failed = -1, cst_phase = CommandRunning, cst_status = ConditionUnknown\<rparr>"

(* src: controllers/bkeagent/command_controller.go 173-194 CommandReconciler.ensureStatusInitialized *)
definition ensureStatusInitialized :: "'w reconciler \<Rightarrow> command \<Rightarrow> 'w \<Rightarrow> command \<times> 'w \<times> reconcile_result" where
  "ensureStatusInitialized r cmd w =
     (let env = rc_env r; c0 = cmd\<lparr>cmd_status := Some (status_map cmd)\<rparr>
      in case map_of (status_map cmd) (commandStatusKey env) of
           Some _ \<Rightarrow> (c0, w, Continue)
         | None \<Rightarrow>
             (case ae_now env w of (w1, t) \<Rightarrow>
                let c1 = put_status (commandStatusKey env) (initial_status t) c0
                in (case syncStatusUntilComplete env c1 (initial_status t) w1 of
                      (w2, Some e) \<Rightarrow> (c1, w2, Finish CtrlDone)
                    | (w2, None) \<Rightarrow> (c1, w2, Continue))))"

(* src: controllers/bkeagent/command_controller.go 198-206 handleUpdateError *)
definition handleUpdateError :: "api_error \<Rightarrow> reconcile_result" where
  "handleUpdateError e =
     (if IsConflict e then Finish CtrlRequeue
      else if IsNotFound e then Finish CtrlDone else Finish (CtrlError e))"

(* src: controllers/bkeagent/command_controller.go 209-214 CommandReconciler.cleanupTask *)
definition cleanupTask :: "string \<Rightarrow> tasks \<Rightarrow> tasks" where
  "cleanupTask gid ts = (case GetTask ts gid of None \<Rightarrow> ts | Some v \<Rightarrow> DeleteTask gid (SetTask gid (SafeClose v) ts))"

text \<open>The cycle that both finalizer operations retry: get the latest object, change it, update.\<close>

(* src: controllers/bkeagent/command_controller.go 226-233 CommandReconciler.ensureFinalizer (cycle) *)
definition finalizer_cycle :: "'w reconciler \<Rightarrow> (command \<Rightarrow> command) \<Rightarrow> command \<Rightarrow> 'w attempt" where
  "finalizer_cycle r change cmd w =
     (case rc_get r (cmd_namespace cmd) (cmd_name cmd) w of
        (w1, Inl e) \<Rightarrow> (w1, Some e)
      | (w1, Inr latest) \<Rightarrow> rc_update r (change latest) w1)"

(* src: controllers/bkeagent/command_controller.go 219-238 CommandReconciler.ensureFinalizer *)
definition ensureFinalizer :: "'w reconciler \<Rightarrow> command \<Rightarrow> 'w \<Rightarrow> 'w \<times> reconcile_result" where
  "ensureFinalizer r cmd w =
     (if ContainsFinalizer cmd commandFinalizerName then (w, Continue)
      else case RetryOnConflict (rc_retry r) (finalizer_cycle r (AddFinalizer commandFinalizerName) cmd) w of
             (w', Some e) \<Rightarrow> (w', handleUpdateError e)
           | (w', None) \<Rightarrow> (w', Continue))"

(* src: controllers/bkeagent/command_controller.go 242-264 CommandReconciler.handleDeletion *)
definition handleDeletion :: "'w reconciler \<Rightarrow> command \<Rightarrow> string \<Rightarrow> tasks \<Rightarrow> 'w \<Rightarrow> tasks \<times> 'w \<times> reconcile_result" where
  "handleDeletion r cmd gid ts w =
     (if \<not> ContainsFinalizer cmd commandFinalizerName then (ts, w, Finish CtrlDone)
      else let ts' = cleanupTask gid ts
           in (case RetryOnConflict (rc_retry r) (finalizer_cycle r (RemoveFinalizer commandFinalizerName) cmd) w of
                 (w', Some e) \<Rightarrow> (ts', w', handleUpdateError e)
               | (w', None) \<Rightarrow> (ts', w', Finish CtrlDone)))"

(* src: controllers/bkeagent/command_controller.go 271-279 CommandReconciler.handleFinalizer *)
definition handleFinalizer :: "'w reconciler \<Rightarrow> command \<Rightarrow> string \<Rightarrow> tasks \<Rightarrow> 'w \<Rightarrow> tasks \<times> 'w \<times> reconcile_result" where
  "handleFinalizer r cmd gid ts w =
     (if cmd_deletionTimestamp cmd = None
      then (case ensureFinalizer r cmd w of (w', res) \<Rightarrow> (ts, w', res))
      else handleDeletion r cmd gid ts w)"

(* src: controllers/bkeagent/command_controller.go 286-314 CommandReconciler.handleSuspend *)
definition handleSuspend :: "'w reconciler \<Rightarrow> command \<Rightarrow> command_status \<Rightarrow> string \<Rightarrow> tasks \<Rightarrow> 'w \<Rightarrow>
    tasks \<times> 'w \<times> reconcile_result" where
  "handleSuspend r cmd st gid ts w =
     (if \<not> csp_suspend (cmd_spec cmd) then (ts, w, Continue)
      else if cst_phase st = CommandSuspend then (ts, w, Finish CtrlDone)
      else let ts' = change_task gid (\<lambda>v. SetPhase CommandSuspend (SafeClose v)) ts;
               st' = (summarised cmd st)\<lparr>cst_phase := CommandSuspend\<rparr>
           in (case syncStatusUntilComplete (rc_env r) cmd st' w of
                 (w', Some e) \<Rightarrow> (ts', w', Finish (CtrlError e))
               | (w', None) \<Rightarrow> (ts', w', Finish CtrlDone)))"

(* src: controllers/bkeagent/command_controller.go 320-331 CommandReconciler.shouldSkipOldTask *)
definition shouldSkipOldTask :: "command \<Rightarrow> string \<Rightarrow> tasks \<Rightarrow> tasks \<times> bool" where
  "shouldSkipOldTask cmd gid ts =
     (case GetTask ts gid of None \<Rightarrow> (ts, False)
      | Some v \<Rightarrow> if cmd_generation cmd \<le> tk_generation v then (ts, True) else (change_task gid SafeClose ts, False))"

(* src: controllers/bkeagent/command_controller.go 341-350 CommandReconciler.createAndStartTask (task) *)
definition new_task :: "command \<Rightarrow> task" where
  "new_task cmd = \<lparr>tk_closed = False, tk_phase = CommandRunning, tk_resourceVersion = cmd_resourceVersion cmd,
     tk_generation = cmd_generation cmd, tk_ttl = csp_ttlSecondsAfterFinished (cmd_spec cmd), tk_hasAddTimer = False\<rparr>"

(* src: controllers/bkeagent/command_controller.go 339-364 CommandReconciler.createAndStartTask *)
definition createAndStartTask :: "'w reconciler \<Rightarrow> command \<Rightarrow> command_status \<Rightarrow> string \<Rightarrow> tasks \<Rightarrow> 'w \<Rightarrow>
    tasks \<times> 'w \<times> ctrl_result \<times> command option" where
  "createAndStartTask r cmd st gid ts w =
     (let env = rc_env r; ts' = SetTask gid (new_task cmd) ts
      in case ae_now env w of (w1, t) \<Rightarrow>
           let st' = st\<lparr>cst_lastStartTime := Some t, cst_completionTime := None\<rparr>
           in (case syncStatusUntilComplete env cmd st' w1 of
                 (w2, Some e) \<Rightarrow> (ts', w2, CtrlDone, None)
               | (w2, None) \<Rightarrow> (ts', w2, CtrlDone, Some (put_status (commandStatusKey env) st' cmd))))"

text \<open>The steps after the status of the node is there.\<close>

(* src: controllers/bkeagent/command_controller.go 126-149 CommandReconciler.Reconcile (steps 4 to 8) *)
definition reconcile_command :: "'w reconciler \<Rightarrow> command \<Rightarrow> command_status \<Rightarrow> tasks \<Rightarrow> 'w \<Rightarrow>
    tasks \<times> 'w \<times> ctrl_result \<times> command option" where
  "reconcile_command r cmd st ts w =
     (let gid = command_gid cmd
      in case handleFinalizer r cmd gid ts w of
           (ts1, w1, Finish res) \<Rightarrow> (ts1, w1, res, None)
         | (ts1, w1, Continue) \<Rightarrow>
             if cst_phase st = CommandComplete then (ts1, w1, CtrlDone, None)
             else (case handleSuspend r cmd st gid ts1 w1 of
                     (ts2, w2, Finish res) \<Rightarrow> (ts2, w2, res, None)
                   | (ts2, w2, Continue) \<Rightarrow>
                       (case shouldSkipOldTask cmd gid ts2 of
                          (ts3, True) \<Rightarrow> (ts3, w2, CtrlDone, None)
                        | (ts3, False) \<Rightarrow> createAndStartTask r cmd st gid ts3 w2)))"

(* src: controllers/bkeagent/command_controller.go 104-150 CommandReconciler.Reconcile *)
definition AgentReconcile :: "'w reconciler \<Rightarrow> string \<Rightarrow> string \<Rightarrow> tasks \<Rightarrow> 'w \<Rightarrow>
    tasks \<times> 'w \<times> ctrl_result \<times> command option" where
  "AgentReconcile r ns name ts w =
     (case fetchCommand r ns name w of
        (w1, Inl res) \<Rightarrow> (ts, w1, res, None)
      | (w1, Inr cmd) \<Rightarrow>
          if csp_commands (cmd_spec cmd) = [] then (ts, w1, CtrlDone, None)
          else (case ensureStatusInitialized r cmd w1 of
                  (c1, w2, Finish res) \<Rightarrow> (ts, w2, res, None)
                | (c1, w2, Continue) \<Rightarrow>
                    (case map_of (status_map c1) (commandStatusKey (rc_env r)) of
                       None \<Rightarrow> (ts, w2, CtrlDone, None)
                     | Some st \<Rightarrow> reconcile_command r c1 st ts w2)))"

subsection \<open>Events\<close>

text \<open>\<^verbatim>\<open>RequiresExactMatch\<close> of a selector made of match labels: the value of the label, if it is there.\<close>

(* src: controllers/bkeagent/command_controller.go 760-774 CommandReconciler.nodeMatchNodeSelector (addresses) *)
fun match_ips :: "string gomap \<Rightarrow> iface_ip option list \<Rightarrow> bool" where
  "match_ips sel [] = False"
| "match_ips sel (None # ips) = match_ips sel ips"
| "match_ips sel (Some p # ips) =
     (case map_of sel (ip_string p) of
        None \<Rightarrow> match_ips sel ips
      | Some ip \<Rightarrow> if ip_string p = ''127.0.0.1'' \<or> ip_string p = ''::1'' then False
                   else if ip = ip_string p then True else match_ips sel ips)"

(* src: controllers/bkeagent/command_controller.go 737-776 CommandReconciler.nodeMatchNodeSelector *)
definition nodeMatchNodeSelector :: "'w reconciler \<Rightarrow> string gomap option \<Rightarrow> bool" where
  "nodeMatchNodeSelector r s =
     (case s of None \<Rightarrow> False
      | Some sel \<Rightarrow>
          (let nodeName = (case map_of sel (ae_nodeName (rc_env r)) of None \<Rightarrow> [] | Some v \<Rightarrow> v)
           in if nodeName = ae_nodeName (rc_env r) then True
              else case rc_interfaceIPs r of None \<Rightarrow> False | Some ips \<Rightarrow> match_ips sel ips))"

text \<open>Resource versions are compared as strings.\<close>

(* src: controllers/bkeagent/command_controller.go 383-401 CommandReconciler.shouldReconcileCommand *)
definition shouldReconcileCommand :: "'w reconciler \<Rightarrow> tasks \<Rightarrow> command option \<Rightarrow> bool" where
  "shouldReconcileCommand r ts oo =
     (case oo of None \<Rightarrow> False
      | Some ob \<Rightarrow>
          if (case GetTask ts (command_gid ob) of None \<Rightarrow> False
              | Some v \<Rightarrow> cmd_generation ob \<le> tk_generation v \<or> cmd_resourceVersion ob \<le> tk_resourceVersion v)
          then False
          else if csp_nodeName (cmd_spec ob) = ae_nodeName (rc_env r) then True
          else nodeMatchNodeSelector r (csp_nodeSelector (cmd_spec ob)))"

(* src: controllers/bkeagent/command_controller.go 785-801 resolveLocalNodeIP (loop) *)
fun first_node_ip :: "iface_ip option list \<Rightarrow> string \<Rightarrow> string" where
  "first_node_ip [] fallback = fallback"
| "first_node_ip (None # ips) fallback = first_node_ip ips fallback"
| "first_node_ip (Some p # ips) fallback =
     (if ip_loopback p \<or> ip_linkLocal p then first_node_ip ips fallback
      else if ip_v4 p then ip_string p
      else first_node_ip ips (if fallback = [] then ip_string p else fallback))"

(* src: controllers/bkeagent/command_controller.go 780-802 resolveLocalNodeIP *)
definition resolveLocalNodeIP :: "iface_ip option list option \<Rightarrow> string" where
  "resolveLocalNodeIP ips = (case ips of None \<Rightarrow> [] | Some l \<Rightarrow> first_node_ip l [])"

subsection \<open>Removal of finished commands\<close>

(* src: controllers/bkeagent/command_controller.go 636-644 CommandReconciler.isCommandReadyForDeletion *)
definition isCommandReadyForDeletion :: "command \<Rightarrow> bool" where
  "isCommandReadyForDeletion obj = list_all (\<lambda>(n, v). cst_status v = ConditionTrue) (status_map obj)"

text \<open>A used up time to live becomes a random one of at most two seconds, \<open>rnd\<close>.\<close>

(* src: controllers/bkeagent/command_controller.go 647-654 CommandReconciler.calculateTTL *)
definition calculateTTL :: "int \<Rightarrow> gotime \<Rightarrow> gotime \<Rightarrow> int \<Rightarrow> int" where
  "calculateTTL ttlSeconds completionTime now rnd =
     (let newTTL = ttlSeconds - (int now - int completionTime) in if newTTL \<le> 0 then rnd else newTTL)"

text \<open>\<^verbatim>\<open>cache.SplitMetaNamespaceKey\<close> takes the key apart at its slash; the error is ignored, as in the
  code. The result is the command whose deletion is scheduled, with the delay. The status of the
  node and its completion time are pointers: a missing one is a panic, the outer \<^const>\<open>None\<close>.\<close>

definition split_gid :: "string \<Rightarrow> string \<times> string" where
  "split_gid key = (case Split CHR ''/'' key of [name] \<Rightarrow> ([], name) | [ns, name] \<Rightarrow> (ns, name) | _ \<Rightarrow> ([], []))"

(* src: controllers/bkeagent/command_controller.go 668-691 CommandReconciler.processTTLTask *)
definition processTTLTask :: "'w reconciler \<Rightarrow> string \<Rightarrow> int \<Rightarrow> tasks \<Rightarrow> 'w \<Rightarrow>
    (tasks \<times> 'w \<times> (command \<times> int) option) option" where
  "processTTLTask r key rnd ts w =
     (case GetTask ts key of None \<Rightarrow> Some (ts, w, None)
      | Some v \<Rightarrow>
          if \<not> ShouldProcessTTL v then Some (ts, w, None)
          else (case rc_get r (fst (split_gid key)) (snd (split_gid key)) w of
                  (w1, Inl e) \<Rightarrow> Some (if IsNotFound e then DeleteTask key ts else ts, w1, None)
                | (w1, Inr obj) \<Rightarrow>
                    if \<not> isCommandReadyForDeletion obj then Some (ts, w1, None)
                    else (case MarkTimerAdded v of (v', ttlSeconds, fresh) \<Rightarrow>
                            if \<not> fresh then Some (ts, w1, None)
                            else (case map_of (status_map obj) (commandStatusKey (rc_env r)) of
                                    None \<Rightarrow> None
                                  | Some st \<Rightarrow>
                                      (case cst_completionTime st of None \<Rightarrow> None
                                       | Some ct \<Rightarrow>
                                           (case ae_now (rc_env r) w1 of (w2, now) \<Rightarrow>
                                              Some (SetTask key v' ts, w2, Some (obj, calculateTTL ttlSeconds ct now rnd))))))))"

section \<open>The table of tasks\<close>

text \<open>The table as the reconciler sees it: what is read after a write or a removal.\<close>

locale task_table =
  fixes get :: "'t \<Rightarrow> string \<Rightarrow> 'a option"
    and put :: "string \<Rightarrow> 'a \<Rightarrow> 't \<Rightarrow> 't"
    and del :: "string \<Rightarrow> 't \<Rightarrow> 't"
  assumes get_put: "get (put g x t) g' = (if g' = g then Some x else get t g')"
    and get_del: "get (del g t) g' = (if g' = g then None else get t g')"
begin

lemma get_change:
  "get (case get t g of None \<Rightarrow> t | Some x \<Rightarrow> put g (f x) t) g' = (if g' = g then map_option f (get t g) else get t g')"
  by (cases "get t g") (auto simp: get_put)

lemma get_drop:
  "get (case get t g of None \<Rightarrow> t | Some x \<Rightarrow> del g (put g (f x) t)) g' = (if g' = g then None else get t g')"
  by (cases "get t g") (auto simp: get_put get_del)

end

interpretation tt: task_table GetTask SetTask DeleteTask
  by unfold_locales (simp_all add: GetTask_def SetTask_def DeleteTask_def)

lemma get_cleanup: "GetTask (cleanupTask g ts) g' = (if g' = g then None else GetTask ts g')"
  unfolding cleanupTask_def by (rule tt.get_drop)

lemma get_change_task: "GetTask (change_task g f ts) g' = (if g' = g then map_option f (GetTask ts g) else GetTask ts g')"
  unfolding change_task_def by (rule tt.get_change)

lemmas table_simps = tt.get_put tt.get_del get_change_task get_cleanup

section \<open>One reconciliation\<close>

lemma put_status_fields [simp]:
  "cmd_spec (put_status k st c) = cmd_spec c" "cmd_generation (put_status k st c) = cmd_generation c"
  "cmd_deletionTimestamp (put_status k st c) = cmd_deletionTimestamp c" "cmd_finalizers (put_status k st c) = cmd_finalizers c"
  "cmd_name (put_status k st c) = cmd_name c" "cmd_namespace (put_status k st c) = cmd_namespace c"
  "command_gid (put_status k st c) = command_gid c"
  by (simp_all add: put_status_def command_gid_def)

lemma handleFinalizer_Continue:
  "handleFinalizer r cmd gid ts w = (ts', w', Continue) \<Longrightarrow> ts' = ts \<and> cmd_deletionTimestamp cmd = None"
  by (auto simp: handleFinalizer_def handleDeletion_def handleUpdateError_def Let_def split: if_splits prod.splits option.splits)

lemma handleSuspend_Continue:
  "handleSuspend r cmd st gid ts w = (ts', w', Continue) \<longleftrightarrow> ts' = ts \<and> w' = w \<and> \<not> csp_suspend (cmd_spec cmd)"
  by (auto simp: handleSuspend_def Let_def split: if_splits prod.splits option.splits)

lemma shouldSkipOldTask_False:
  assumes "shouldSkipOldTask cmd gid ts = (ts', False)"
  shows "(\<forall>v. GetTask ts gid = Some v \<longrightarrow> tk_generation v < cmd_generation cmd) \<and> (\<forall>g. g \<noteq> gid \<longrightarrow> GetTask ts' g = GetTask ts g)"
  using assms by (auto simp: shouldSkipOldTask_def table_simps split: if_splits option.splits)

lemma createAndStartTask_Some:
  assumes "createAndStartTask r cmd st gid ts w = (ts', w', res, Some c)"
  obtains t where "c = put_status (commandStatusKey (rc_env r)) (st\<lparr>cst_lastStartTime := Some t, cst_completionTime := None\<rparr>) cmd"
    "ts' = SetTask gid (new_task cmd) ts"
  using assms by (auto simp: createAndStartTask_def Let_def split: prod.splits option.splits)

lemma reconcile_command_Some:
  assumes "reconcile_command r cmd st ts w = (ts', w', res, Some c)"
  obtains t where "c = put_status (commandStatusKey (rc_env r)) (st\<lparr>cst_lastStartTime := Some t, cst_completionTime := None\<rparr>) cmd"
    "cmd_deletionTimestamp cmd = None" "cst_phase st \<noteq> CommandComplete" "\<not> csp_suspend (cmd_spec cmd)"
    "\<forall>v. GetTask ts (command_gid cmd) = Some v \<longrightarrow> tk_generation v < cmd_generation cmd"
    "GetTask ts' (command_gid cmd) = Some (new_task cmd)" "\<forall>g. g \<noteq> command_gid cmd \<longrightarrow> GetTask ts' g = GetTask ts g"
proof -
  obtain w1 ts3 where f: "handleFinalizer r cmd (command_gid cmd) ts w = (ts, w1, Continue)" "cst_phase st \<noteq> CommandComplete"
    "\<not> csp_suspend (cmd_spec cmd)" "shouldSkipOldTask cmd (command_gid cmd) ts = (ts3, False)"
    "createAndStartTask r cmd st (command_gid cmd) ts3 w1 = (ts', w', res, Some c)"
    using assms by (auto simp: reconcile_command_def Let_def handleSuspend_Continue split: prod.splits reconcile_result.splits if_splits bool.splits
        dest: handleFinalizer_Continue)
  from createAndStartTask_Some [OF f(5)] obtain t where "c = put_status (commandStatusKey (rc_env r))
      (st\<lparr>cst_lastStartTime := Some t, cst_completionTime := None\<rparr>) cmd" "ts' = SetTask (command_gid cmd) (new_task cmd) ts3" by metis
  with f handleFinalizer_Continue [OF f(1)] shouldSkipOldTask_False [OF f(4)] show ?thesis
    by (intro that) (auto simp: table_simps)
qed

lemma ensureStatus_fields:
  "ensureStatusInitialized r cmd w = (c, w', res) \<Longrightarrow> cmd_spec c = cmd_spec cmd \<and> cmd_generation c = cmd_generation cmd \<and>
     cmd_deletionTimestamp c = cmd_deletionTimestamp cmd \<and> cmd_finalizers c = cmd_finalizers cmd \<and> command_gid c = command_gid cmd \<and>
     cmd_name c = cmd_name cmd \<and> cmd_namespace c = cmd_namespace cmd"
  by (auto simp: ensureStatusInitialized_def Let_def command_gid_def split: prod.splits option.splits)

section \<open>Properties\<close>

text \<open>C9. A reconciliation starts a goroutine only for a command that is not being deleted, has
  something to do, is not suspended and not completed on this node, and whose generation is greater
  than that of the task registered for it; it registers the new task under the command's name and
  leaves the tasks of all other commands alone.\<close>

theorem started_task_is_newest:
  assumes "AgentReconcile r ns name ts w = (ts', w', res, Some c)"
  shows "cmd_deletionTimestamp c = None \<and> csp_commands (cmd_spec c) \<noteq> [] \<and> \<not> csp_suspend (cmd_spec c) \<and>
    (\<exists>st. map_of (status_map c) (commandStatusKey (rc_env r)) = Some st \<and> cst_phase st \<noteq> CommandComplete \<and>
       cst_lastStartTime st \<noteq> None \<and> cst_completionTime st = None) \<and>
    (\<forall>v. GetTask ts (command_gid c) = Some v \<longrightarrow> tk_generation v < cmd_generation c) \<and>
    (\<exists>t. GetTask ts' (command_gid c) = Some t \<and> tk_generation t = cmd_generation c \<and> \<not> tk_closed t) \<and>
    (\<forall>g. g \<noteq> command_gid c \<longrightarrow> GetTask ts' g = GetTask ts g)"
proof -
  obtain cmd w1 c1 w2 st where e: "csp_commands (cmd_spec cmd) \<noteq> []" "ensureStatusInitialized r cmd w1 = (c1, w2, Continue)"
    "reconcile_command r c1 st ts w2 = (ts', w', res, Some c)"
    using assms by (auto simp: AgentReconcile_def split: prod.splits sum.splits if_splits reconcile_result.splits option.splits)
  obtain t where c: "c = put_status (commandStatusKey (rc_env r)) (st\<lparr>cst_lastStartTime := Some t, cst_completionTime := None\<rparr>) c1"
    and facts: "cmd_deletionTimestamp c1 = None" "cst_phase st \<noteq> CommandComplete" "\<not> csp_suspend (cmd_spec c1)"
    "\<forall>v. GetTask ts (command_gid c1) = Some v \<longrightarrow> tk_generation v < cmd_generation c1"
    "GetTask ts' (command_gid c1) = Some (new_task c1)" "\<forall>g. g \<noteq> command_gid c1 \<longrightarrow> GetTask ts' g = GetTask ts g"
    by (rule reconcile_command_Some [OF e(3)]) blast
  have "csp_commands (cmd_spec c1) \<noteq> []" using ensureStatus_fields [OF e(2)] e(1) by simp
  with facts show ?thesis unfolding c by (simp add: new_task_def)
qed

definition demo_reconciler :: "demo_world reconciler" where
  "demo_reconciler = \<lparr>rc_env = demo_env, rc_get = ae_get demo_env, rc_update = (\<lambda>c (t, _). ((t, Some c), None)),
     rc_retry = demo_retry, rc_interfaceIPs = None\<rparr>"

definition demo_stored :: command where
  "demo_stored = (demo_command [demo_exec ''a'' ''date'' False])\<lparr>cmd_status := None, cmd_generation := 2\<rparr>"

definition demo_task :: task where
  "demo_task = \<lparr>tk_closed = False, tk_phase = CommandRunning, tk_resourceVersion = ''9'', tk_generation = 1, tk_ttl = 0, tk_hasAddTimer = False\<rparr>"

theorem started_task_is_newest_witness:
  "\<exists>ts' w' res c. AgentReconcile demo_reconciler ''ns'' ''cmd'' [(''ns/cmd'', demo_task)] (0, Some demo_stored) = (ts', w', res, Some c) \<and>
     tk_generation demo_task < cmd_generation c"
proof -
  have "case AgentReconcile demo_reconciler ''ns'' ''cmd'' [(''ns/cmd'', demo_task)] (0, Some demo_stored) of
      (ts', w', res, co) \<Rightarrow> (case co of None \<Rightarrow> False | Some c \<Rightarrow> command_gid c = ''ns/cmd'')" by code_simp
  then obtain ts' w' res c where "AgentReconcile demo_reconciler ''ns'' ''cmd'' [(''ns/cmd'', demo_task)] (0, Some demo_stored) = (ts', w', res, Some c)"
    "command_gid c = ''ns/cmd''" by (auto split: prod.splits option.splits)
  with started_task_is_newest [OF this(1)] show ?thesis by (auto simp: GetTask_def)
qed

text \<open>When a command is being deleted, its task leaves the table and no goroutine is started;
  and when the reconciliation ends without an error or a retry, the stored object, if it still is
  there, no longer carries the agent's finalizer.\<close>

theorem deleted_command_released:
  assumes "retry_loop_ok (rc_retry r)"
    and "\<And>ob u u'. rc_update r ob u = (u', None) \<Longrightarrow> stored u' = Some ob"
    and "\<And>ob u u'. rc_update r ob u = (u', Some ApiNotFound) \<Longrightarrow> stored u' = None"
    and "\<And>u u'. rc_get r (cmd_namespace cmd) (cmd_name cmd) u = (u', Inl ApiNotFound) \<Longrightarrow> stored u' = None"
    and "rc_get r ns name w = (w1, Inr cmd)" and "csp_commands (cmd_spec cmd) \<noteq> []"
    and "map_of (status_map cmd) (commandStatusKey (rc_env r)) \<noteq> None" and "cmd_deletionTimestamp cmd \<noteq> None"
    and "ContainsFinalizer cmd commandFinalizerName" and "AgentReconcile r ns name ts w = (ts', w', res, start)"
  shows "GetTask ts' (command_gid cmd) = None \<and> start = None \<and>
    (res = CtrlDone \<longrightarrow> (case stored w' of None \<Rightarrow> True | Some c \<Rightarrow> commandFinalizerName \<notin> set (cmd_finalizers c)))"
proof -
  define c0 where "c0 = cmd\<lparr>cmd_status := Some (status_map cmd)\<rparr>"
  have e: "ensureStatusInitialized r cmd w1 = (c0, w1, Continue)"
    using assms(7) by (auto simp: ensureStatusInitialized_def Let_def c0_def)
  have c0: "command_gid c0 = command_gid cmd" "cmd_deletionTimestamp c0 \<noteq> None" "ContainsFinalizer c0 commandFinalizerName"
    "cmd_namespace c0 = cmd_namespace cmd" "cmd_name c0 = cmd_name cmd"
    "\<exists>st. map_of (status_map c0) (commandStatusKey (rc_env r)) = Some st"
    using assms(7-9) by (auto simp: c0_def command_gid_def ContainsFinalizer_def)
  let ?fn = "finalizer_cycle r (RemoveFinalizer commandFinalizerName) c0"
  obtain u q where f: "RetryOnConflict (rc_retry r) ?fn w1 = (u, q)" by fastforce
  have res: "ts' = cleanupTask (command_gid cmd) ts" "w' = u" "start = None"
    "res = CtrlDone \<Longrightarrow> q = None \<or> q = Some ApiNotFound"
    using assms(5,6,10) e f c0
    by (auto simp: AgentReconcile_def fetchCommand_def reconcile_command_def Let_def handleFinalizer_def handleDeletion_def
        handleUpdateError_def IsNotFound_def split: option.splits if_splits)
  have "(q = None \<longrightarrow> (\<exists>c. stored u = Some c \<and> commandFinalizerName \<notin> set (cmd_finalizers c))) \<and> (q = Some ApiNotFound \<longrightarrow> stored u = None)"
  proof (rule RetryOnConflict_induct [OF assms(1) f, of "\<lambda>_. True"])
    fix x x' assume "?fn x = (x', None)"
    then obtain x1 ob where "rc_update r (RemoveFinalizer commandFinalizerName ob) x1 = (x', None)"
      by (auto simp: finalizer_cycle_def split: prod.splits sum.splits)
    from assms(2) [OF this] show "(None = None \<longrightarrow> (\<exists>c. stored x' = Some c \<and> commandFinalizerName \<notin> set (cmd_finalizers c))) \<and>
        (None = Some ApiNotFound \<longrightarrow> stored x' = None)" by (simp add: RemoveFinalizer_def)
  next
    fix x x' e assume "?fn x = (x', Some e)"
    then show "True \<and> (Some e = None \<longrightarrow> (\<exists>c. stored x' = Some c \<and> commandFinalizerName \<notin> set (cmd_finalizers c))) \<and>
        (Some e = Some ApiNotFound \<longrightarrow> stored x' = None)"
      using assms(3,4) c0 by (auto simp: finalizer_cycle_def split: prod.splits sum.splits)
  qed simp
  with res show ?thesis by (auto simp: table_simps split: option.splits)
qed

theorem deleted_command_released_witness:
  "\<exists>ts' w' res start. AgentReconcile demo_reconciler ''ns'' ''cmd'' [(''ns/cmd'', demo_task)]
     (0, Some ((demo_command [demo_exec ''a'' ''date'' False])\<lparr>cmd_deletionTimestamp := Some 3, cmd_finalizers := [commandFinalizerName]\<rparr>)) =
     (ts', w', res, start) \<and> GetTask ts' ''ns/cmd'' = None \<and> start = None"
proof -
  let ?c = "(demo_command [demo_exec ''a'' ''date'' False])\<lparr>cmd_deletionTimestamp := Some 3, cmd_finalizers := [commandFinalizerName]\<rparr>"
  obtain ts' w' res start where s: "AgentReconcile demo_reconciler ''ns'' ''cmd'' [(''ns/cmd'', demo_task)] (0, Some ?c) = (ts', w', res, start)"
    using prod_cases4 by blast
  have gid: "command_gid ?c = ''ns/cmd''" by (simp add: demo_command_def command_gid_def)
  have key: "map_of (status_map ?c) (commandStatusKey (rc_env demo_reconciler)) \<noteq> None" by code_simp
  have get: "rc_get demo_reconciler ''ns'' ''cmd'' (0, Some ?c) = ((0, Some ?c), Inr ?c)"
    by (simp add: demo_reconciler_def demo_env_def)
  have "GetTask ts' (command_gid ?c) = None \<and> start = None \<and>
    (res = CtrlDone \<longrightarrow> (case snd w' of None \<Rightarrow> True | Some c \<Rightarrow> commandFinalizerName \<notin> set (cmd_finalizers c)))"
    by (rule deleted_command_released [OF _ _ _ _ get _ key _ _ s])
      (auto simp: demo_reconciler_def demo_env_def demo_command_def ContainsFinalizer_def split: option.splits)
  with s gid show ?thesis by auto
qed

text \<open>An event is taken exactly when the command is addressed to this node, by name or by
  selector, and no task is registered for it that has the same or a higher generation, or a resource
  version that is not smaller as a string. A change of the specification is therefore lost when the
  resource version grows by a digit: the event that takes it from 9 to 10 is dropped, whatever its
  generation.\<close>

theorem event_taken:
  "(shouldReconcileCommand r ts (Some ob) \<longleftrightarrow>
      (\<forall>v. GetTask ts (command_gid ob) = Some v \<longrightarrow>
         tk_generation v < cmd_generation ob \<and> tk_resourceVersion v < cmd_resourceVersion ob) \<and>
      (csp_nodeName (cmd_spec ob) = ae_nodeName (rc_env r) \<or> nodeMatchNodeSelector r (csp_nodeSelector (cmd_spec ob)))) \<and>
   (GetTask ts (command_gid ob) = Some v \<and> tk_resourceVersion v = ''9'' \<and> cmd_resourceVersion ob = ''10'' \<longrightarrow>
      \<not> shouldReconcileCommand r ts (Some ob))"
proof -
  have "(''10'' :: string) \<le> ''9''" by code_simp
  then show ?thesis by (auto simp: shouldReconcileCommand_def not_le split: option.splits if_splits)
qed

theorem event_taken_witness:
  "\<not> shouldReconcileCommand demo_reconciler [(''ns/cmd'', demo_task)] (Some (demo_stored\<lparr>cmd_resourceVersion := ''10''\<rparr>)) \<and>
   tk_generation demo_task < cmd_generation demo_stored"
proof -
  have "command_gid (demo_stored\<lparr>cmd_resourceVersion := ''10''\<rparr>) = ''ns/cmd''" by code_simp
  with event_taken [of demo_reconciler "[(''ns/cmd'', demo_task)]" "demo_stored\<lparr>cmd_resourceVersion := ''10''\<rparr>" demo_task]
  show ?thesis by (auto simp: GetTask_def demo_task_def demo_stored_def)
qed

text \<open>A goroutine that finishes closes the stop channel of whatever task is registered for its
  command and overwrites its phase, even when that task was started for a later generation of the
  command: the later goroutine then stops before its first command.\<close>

theorem finish_closes_successor:
  assumes "finalizeTaskStatus env cmd st (command_gid cmd) ts w = (st', ts', w', None)"
    and "GetTask ts (command_gid cmd) = Some successor"
  shows "\<exists>t. GetTask ts' (command_gid cmd) = Some t \<and> tk_closed t \<and> tk_phase t = cst_phase st' \<and>
    tk_generation t = tk_generation successor \<and>
    (\<forall>env' cmd' stopTime st'' u. ae_stopped env' u = tk_closed t \<and> csp_commands (cmd_spec cmd') \<noteq> [] \<longrightarrow>
       run_commands env' cmd' stopTime (csp_commands (cmd_spec cmd')) st'' u = (st'', u, TaskStopped))"
proof -
  have "run_commands env' cmd' stopTime ecs st'' u = (st'', u, TaskStopped)"
    if "ae_stopped env' u" "ecs \<noteq> []" for env' :: "'b agent_env" and cmd' stopTime ecs st'' u
    using that by (cases ecs) auto
  with assms show ?thesis
    by (auto simp: finalizeTaskStatus_def Let_def table_simps SafeClose_def SetPhase_def split: prod.splits option.splits)
qed

theorem finish_closes_successor_witness:
  "\<exists>st' ts' w' t. finalizeTaskStatus demo_env (demo_command []) demo_status ''ns/cmd'' [(''ns/cmd'', demo_task\<lparr>tk_generation := 7\<rparr>)] (0, None) =
     (st', ts', w', None) \<and> GetTask ts' ''ns/cmd'' = Some t \<and> tk_closed t \<and> tk_generation t = 7"
proof -
  let ?ts = "[(''ns/cmd'', demo_task\<lparr>tk_generation := 7\<rparr>)]"
  have gid: "command_gid (demo_command []) = ''ns/cmd''" by code_simp
  have "case finalizeTaskStatus demo_env (demo_command []) demo_status ''ns/cmd'' ?ts (0, None) of (st', ts', w', e) \<Rightarrow> e = None" by code_simp
  then obtain st' ts' w' where f: "finalizeTaskStatus demo_env (demo_command []) demo_status ''ns/cmd'' ?ts (0, None) = (st', ts', w', None)"
    by (auto split: prod.splits)
  from finish_closes_successor [OF f [folded gid], of "demo_task\<lparr>tk_generation := 7\<rparr>"] f gid show ?thesis by (auto simp: GetTask_def)
qed

text \<open>An agent whose node has no name (the host name could not be read) takes every command that
  is addressed by a selector, whatever nodes the selector names.\<close>

theorem nameless_agent_takes_all:
  assumes "ae_nodeName (rc_env r) = []" and "csp_nodeName (cmd_spec ob) = []" and "GetTask ts (command_gid ob) = None"
  shows "shouldReconcileCommand r ts (Some ob)"
  using assms by (simp add: shouldReconcileCommand_def)

theorem nameless_agent_takes_all_witness:
  "shouldReconcileCommand (demo_reconciler\<lparr>rc_env := demo_env\<lparr>ae_nodeName := []\<rparr>\<rparr>) [] (Some demo_stored)"
  by (rule nameless_agent_takes_all) (simp_all add: demo_stored_def demo_command_def GetTask_def)

text \<open>A finished command is scheduled for deletion as soon as all nodes that have reported are
  done: a node of the selector that has not reported yet does not hold it back.\<close>

theorem ttl_ignores_silent_nodes:
  assumes "GetTask ts key = Some v" and "ShouldProcessTTL v" and "rc_get r (fst (split_gid key)) (snd (split_gid key)) w = (w1, Inr obj)"
    and "list_all (\<lambda>(n, s). cst_status s = ConditionTrue) (status_map obj)"
    and "map_of (status_map obj) (commandStatusKey (rc_env r)) = Some st" and "cst_completionTime st = Some ct"
  shows "\<exists>ts' w' ttl. processTTLTask r key rnd ts w = Some (ts', w', Some (obj, ttl)) \<and>
    (0 \<le> rnd \<and> rnd < 3 \<longrightarrow> 0 \<le> ttl)"
  using assms
  by (auto simp: processTTLTask_def isCommandReadyForDeletion_def MarkTimerAdded_def ShouldProcessTTL_def calculateTTL_def Let_def
      split: prod.splits)

definition demo_half_done :: command where
  "demo_half_done = (demo_command [demo_exec ''a'' ''date'' False])\<lparr>
     cmd_spec := (cmd_spec (demo_command []))\<lparr>csp_nodeSelector := Some [(''10.0.0.1'', ''10.0.0.1''), (''10.0.0.2'', ''10.0.0.2'')]\<rparr>,
     cmd_status := Some [(''n1/10.0.0.1'', demo_status\<lparr>cst_status := ConditionTrue, cst_completionTime := Some 4\<rparr>)]\<rparr>"

theorem ttl_ignores_silent_nodes_witness:
  "\<exists>ts' w' ttl. processTTLTask demo_reconciler ''ns/cmd'' 0 [(''ns/cmd'', demo_task\<lparr>tk_phase := CommandComplete, tk_ttl := 600\<rparr>)] (5, Some demo_half_done) =
     Some (ts', w', Some (demo_half_done, ttl))"
proof -
  let ?st = "demo_status\<lparr>cst_status := ConditionTrue, cst_completionTime := Some 4\<rparr>"
  have key: "map_of (status_map demo_half_done) (commandStatusKey (rc_env demo_reconciler)) = Some ?st" by code_simp
  have all: "list_all (\<lambda>(n, s). cst_status s = ConditionTrue) (status_map demo_half_done)" by code_simp
  show ?thesis
    using ttl_ignores_silent_nodes [OF _ _ _ all key, of "[(''ns/cmd'', demo_task\<lparr>tk_phase := CommandComplete, tk_ttl := 600\<rparr>)]" "''ns/cmd''"
        _ "(5, Some demo_half_done)" "(5, Some demo_half_done)" 4 0]
    by (auto simp: GetTask_def ShouldProcessTTL_def demo_task_def demo_reconciler_def demo_env_def)
qed

end
