(* ===== verification/Bke_Nodes.thy ===== *)
theory Bke_Nodes
  imports Cluster_Config "HOL-Library.Word"
begin

text \<open>
  The node list of a cluster: \<^verbatim>\<open>api/capbke/v1beta1/bkenode_types.go\<close> with the node states and
  the bit flags of \<^verbatim>\<open>bkecluster_consts.go\<close>. The state code is a Go \<^verbatim>\<open>int\<close>, here a 64-bit
  word with its bit operations.

  Every method works on the first node with the given address. The flags are the interface
  \<open>flag_store\<close>: what a client may rely on after setting or clearing flags is proved there once.
\<close>

unbundle bit_operations_syntax

section \<open>Definitions\<close>

(* src: api/bkecommon/v1beta1/bkenode_types.go 46-69 BKENodeSpec *)
record node_spec =
  ns_role :: "string list"
  ns_ip :: string
  ns_port :: string
  ns_username :: string
  ns_password :: string
  ns_hostname :: string
  ns_controlPlane :: control_plane
  ns_kubelet :: "kubelet_config option"
  ns_labels :: "label list"

(* src: api/bkecommon/v1beta1/bkenode_types.go 85-105 BKENodeStatus *)
record node_status =
  nst_state :: string
  nst_stateCode :: "64 word"
  nst_message :: string
  nst_needSkip :: bool
  nst_retryCount :: "64 word"

(* src: api/bkecommon/v1beta1/bkenode_types.go 116-122 BKENode *)
record bke_node =
  bn_namespace :: string
  bn_name :: string
  bn_labels :: "string gomap"
  bn_annotations :: "string gomap"
  bn_resourceVersion :: string
  bn_deletionTimestamp :: "gotime option"
  bn_finalizers :: "string list"
  bn_spec :: node_spec
  bn_status :: node_status

(* src: api/capbke/v1beta1/bkecluster_consts.go 261-274 node flags *)
datatype node_flag = NodeAgentPushedFlag | NodeAgentReadyFlag | NodeEnvFlag | NodeBootFlag | NodeHAFlag
  | MasterInitFlag | NodeDeletingFlag | NodeFailedFlag | NodeStateNeedRecord | NodePostProcessFlag

(* src: api/capbke/v1beta1/bkecluster_consts.go 262-273 iota *)
fun flag_index :: "node_flag \<Rightarrow> nat" where
  "flag_index NodeAgentPushedFlag = 0"
| "flag_index NodeAgentReadyFlag = 1"
| "flag_index NodeEnvFlag = 2"
| "flag_index NodeBootFlag = 3"
| "flag_index NodeHAFlag = 4"
| "flag_index MasterInitFlag = 5"
| "flag_index NodeDeletingFlag = 6"
| "flag_index NodeFailedFlag = 7"
| "flag_index NodeStateNeedRecord = 8"
| "flag_index NodePostProcessFlag = 9"

definition flag_value :: "node_flag \<Rightarrow> 64 word" where
  "flag_value f = push_bit (flag_index f) 1"

definition upd_status :: "(node_status \<Rightarrow> node_status) \<Rightarrow> bke_node \<Rightarrow> bke_node" where
  "upd_status g n = n\<lparr>bn_status := g (bn_status n)\<rparr>"

text \<open>The loop that all writing methods share: change the status of the first node with the address.\<close>

fun upd_first :: "(bke_node \<Rightarrow> bke_node) \<Rightarrow> string \<Rightarrow> bke_node list \<Rightarrow> bke_node list" where
  "upd_first g ip [] = []"
| "upd_first g ip (n # ns) = (if ns_ip (bn_spec n) = ip then g n # ns else n # upd_first g ip ns)"

(* src: api/capbke/v1beta1/bkenode_types.go 41-48 BKENodes.GetNodeByIP *)
fun GetNodeByIP :: "bke_node list \<Rightarrow> string \<Rightarrow> bke_node option" where
  "GetNodeByIP [] ip = None"
| "GetNodeByIP (n # ns) ip = (if ns_ip (bn_spec n) = ip then Some n else GetNodeByIP ns ip)"

(* src: api/capbke/v1beta1/bkenode_types.go 51-58 BKENodes.GetNodeState *)
definition GetNodeState :: "bke_node list \<Rightarrow> string \<Rightarrow> string" where
  "GetNodeState ns ip = (case GetNodeByIP ns ip of None \<Rightarrow> [] | Some n \<Rightarrow> nst_state (bn_status n))"

(* src: api/capbke/v1beta1/bkenode_types.go 61-70 BKENodes.SetNodeStateWithMessage *)
definition SetNodeStateWithMessage :: "bke_node list \<Rightarrow> string \<Rightarrow> string \<Rightarrow> string \<Rightarrow> bke_node list" where
  "SetNodeStateWithMessage ns ip state msg = upd_first (upd_status (\<lambda>s. s\<lparr>nst_state := state, nst_message := msg,
     nst_stateCode := nst_stateCode s OR flag_value NodeStateNeedRecord\<rparr>)) ip ns"

(* src: common/cluster/node/node.go 30-30 WorkerNodeRole *)
definition WorkerNodeRole :: string where
  "WorkerNodeRole = ''node''"

(* src: utils/utils.go 185-195 ContainsString *)
definition ContainsString :: "string list \<Rightarrow> string \<Rightarrow> bool" where
  "ContainsString xs s \<longleftrightarrow> list_ex (\<lambda>item. filter (\<lambda>ch. ch \<noteq> CHR 0x0A) item = s) xs"

(* src: api/capbke/v1beta1/bkenode_types.go 73-83 BKENodes.SetSkipNodeError *)
definition SetSkipNodeError :: "bke_node list \<Rightarrow> string \<Rightarrow> bke_node list" where
  "SetSkipNodeError ns ip =
     upd_first (\<lambda>n. if ContainsString (ns_role (bn_spec n)) WorkerNodeRole then upd_status (\<lambda>s. s\<lparr>nst_needSkip := True\<rparr>) n else n) ip ns"

(* src: api/capbke/v1beta1/bkenode_types.go 86-94 BKENodes.SetNodeState *)
definition SetNodeState :: "bke_node list \<Rightarrow> string \<Rightarrow> string \<Rightarrow> bke_node list" where
  "SetNodeState ns ip state = upd_first (upd_status (\<lambda>s. s\<lparr>nst_state := state,
     nst_stateCode := nst_stateCode s OR flag_value NodeStateNeedRecord\<rparr>)) ip ns"

(* src: api/capbke/v1beta1/bkenode_types.go 97-104 BKENodes.SetNodeStateMessage *)
definition SetNodeStateMessage :: "bke_node list \<Rightarrow> string \<Rightarrow> string \<Rightarrow> bke_node list" where
  "SetNodeStateMessage ns ip msg = upd_first (upd_status (\<lambda>s. s\<lparr>nst_message := msg\<rparr>)) ip ns"

(* src: api/capbke/v1beta1/bkenode_types.go 107-118 BKENodes.RemoveNode *)
fun RemoveNode :: "bke_node list \<Rightarrow> string \<Rightarrow> bke_node list" where
  "RemoveNode [] ip = []"
| "RemoveNode (n # ns) ip = (if ns_ip (bn_spec n) = ip then ns else n # RemoveNode ns ip)"

(* src: api/capbke/v1beta1/bkenode_types.go 121-128 BKENodes.MarkNodeStateFlag *)
definition MarkNodeStateFlag :: "bke_node list \<Rightarrow> string \<Rightarrow> node_flag \<Rightarrow> bke_node list" where
  "MarkNodeStateFlag ns ip f = upd_first (upd_status (\<lambda>s. s\<lparr>nst_stateCode := nst_stateCode s OR flag_value f\<rparr>)) ip ns"

(* src: api/capbke/v1beta1/bkenode_types.go 131-138 BKENodes.UnmarkNodeStateFlag *)
definition UnmarkNodeStateFlag :: "bke_node list \<Rightarrow> string \<Rightarrow> node_flag \<Rightarrow> bke_node list" where
  "UnmarkNodeStateFlag ns ip f = upd_first (upd_status (\<lambda>s. s\<lparr>nst_stateCode := nst_stateCode s AND NOT (flag_value f)\<rparr>)) ip ns"

definition has_flag :: "bke_node \<Rightarrow> node_flag \<Rightarrow> bool" where
  "has_flag n f \<longleftrightarrow> nst_stateCode (bn_status n) AND flag_value f \<noteq> 0"

(* src: api/capbke/v1beta1/bkenode_types.go 141-148 BKENodes.GetNodeStateFlag *)
definition GetNodeStateFlag :: "bke_node list \<Rightarrow> string \<Rightarrow> node_flag \<Rightarrow> bool" where
  "GetNodeStateFlag ns ip f = (case GetNodeByIP ns ip of None \<Rightarrow> False | Some n \<Rightarrow> has_flag n f)"

(* src: api/capbke/v1beta1/bkenode_types.go 151-158 BKENodes.GetNodeStateNeedSkip *)
definition GetNodeStateNeedSkip :: "bke_node list \<Rightarrow> string \<Rightarrow> bool" where
  "GetNodeStateNeedSkip ns ip = (case GetNodeByIP ns ip of None \<Rightarrow> False | Some n \<Rightarrow> nst_needSkip (bn_status n))"

(* src: api/capbke/v1beta1/bkenode_types.go 161-168 BKENodes.SetNodeStateNeedSkip *)
definition SetNodeStateNeedSkip :: "bke_node list \<Rightarrow> string \<Rightarrow> bool \<Rightarrow> bke_node list" where
  "SetNodeStateNeedSkip ns ip skip = upd_first (upd_status (\<lambda>s. s\<lparr>nst_needSkip := skip\<rparr>)) ip ns"

(* src: api/capbke/v1beta1/bkenode_types.go 194-202 BKENodes.GetModifiedNodes *)
definition GetModifiedNodes :: "bke_node list \<Rightarrow> bke_node list" where
  "GetModifiedNodes ns = filter (\<lambda>n. has_flag n NodeStateNeedRecord) ns"

(* src: api/capbke/v1beta1/bkenode_types.go 205-209 BKENodes.ClearRecordFlags *)
definition ClearRecordFlags :: "bke_node list \<Rightarrow> bke_node list" where
  "ClearRecordFlags ns = map (upd_status (\<lambda>s. s\<lparr>nst_stateCode := nst_stateCode s AND NOT (flag_value NodeStateNeedRecord)\<rparr>)) ns"

section \<open>Bits\<close>

lemma flag_index_inj: "flag_index f = flag_index g \<longleftrightarrow> f = g"
  by (cases f; cases g) simp_all

lemma flag_index_less: "flag_index f < 64"
  by (cases f) simp_all

declare flag_index.simps [simp del]

lemma bit_flag: "bit (flag_value f) i \<longleftrightarrow> i = flag_index f"
  using flag_index_less [of f] by (auto simp: flag_value_def bit_exp_iff)

lemma and_flag: "w AND flag_value f \<noteq> 0 \<longleftrightarrow> bit w (flag_index f)"
proof -
  have "bit (w AND flag_value f) i \<longleftrightarrow> bit w (flag_index f) \<and> i = flag_index f" for i
    by (auto simp: bit_and_iff bit_flag)
  then show ?thesis by (metis bit_0_eq bot_apply bot_bool_def bit_eqI)
qed

lemma has_flag_bit [simp]: "has_flag n f \<longleftrightarrow> bit (nst_stateCode (bn_status n)) (flag_index f)"
  by (simp add: has_flag_def and_flag)

lemma bit_or_flag [simp]: "bit (w OR flag_value f) (flag_index g) \<longleftrightarrow> bit w (flag_index g) \<or> g = f"
  by (simp add: bit_or_iff bit_flag flag_index_inj)

lemma bit_and_not_flag [simp]: "bit (w AND NOT (flag_value f)) (flag_index g) \<longleftrightarrow> bit w (flag_index g) \<and> g \<noteq> f"
  using flag_index_less [of g] by (auto simp: bit_and_iff bit_not_iff bit_flag flag_index_inj)

section \<open>The first node with an address\<close>

lemma upd_status_simps [simp]: "bn_spec (upd_status g n) = bn_spec n" "bn_status (upd_status g n) = g (bn_status n)"
  by (simp_all add: upd_status_def)

text \<open>A change keeps the addresses and changes the answer for one address only.\<close>

lemma upd_first_get:
  assumes "\<And>n. bn_spec (g n) = bn_spec n"
  shows "GetNodeByIP (upd_first g ip ns) ip' = (if ip' = ip then map_option g (GetNodeByIP ns ip') else GetNodeByIP ns ip')"
  using assms by (induction ns) auto

lemma upd_first_ips:
  assumes "\<And>n. bn_spec (g n) = bn_spec n"
  shows "map (ns_ip \<circ> bn_spec) (upd_first g ip ns) = map (ns_ip \<circ> bn_spec) ns"
  using assms by (induction ns) auto

lemma upd_first_absent: "GetNodeByIP ns ip = None \<Longrightarrow> upd_first g ip ns = ns"
  by (induction ns) (auto split: if_splits)

lemma length_upd_first [simp]: "length (upd_first g ip ns) = length ns"
  by (induction ns) auto

lemma GetNodeByIP_None: "GetNodeByIP ns ip = None \<longleftrightarrow> ip \<notin> (ns_ip \<circ> bn_spec) ` set ns"
  by (induction ns) auto

lemma GetNodeByIP_nth: "distinct (map (ns_ip \<circ> bn_spec) ns) \<Longrightarrow> i < length ns \<Longrightarrow> GetNodeByIP ns (ns_ip (bn_spec (ns ! i))) = Some (ns ! i)"
proof (induction ns arbitrary: i)
  case (Cons n ns)
  show ?case
  proof (cases i)
    case (Suc j)
    with Cons.prems have "j < length ns" by simp
    then have "ns_ip (bn_spec (ns ! j)) \<noteq> ns_ip (bn_spec n)" using Cons.prems(1) by (auto simp: image_iff) (metis nth_mem)
    with Suc Cons show ?thesis by simp
  qed simp
qed simp

lemmas node_ops = SetNodeStateWithMessage_def SetNodeState_def SetNodeStateMessage_def MarkNodeStateFlag_def
  UnmarkNodeStateFlag_def SetNodeStateNeedSkip_def

section \<open>Flags as an interface\<close>

text \<open>Setting and clearing a flag of a node that exists changes that flag of that node only.\<close>

locale flag_store =
  fixes present :: "'s \<Rightarrow> 'k \<Rightarrow> bool"
    and flag :: "'s \<Rightarrow> 'k \<Rightarrow> 'f \<Rightarrow> bool"
    and mark :: "'s \<Rightarrow> 'k \<Rightarrow> 'f \<Rightarrow> 's"
    and unmark :: "'s \<Rightarrow> 'k \<Rightarrow> 'f \<Rightarrow> 's"
  assumes mark_flag: "present s k \<Longrightarrow> flag (mark s k f) k' f' \<longleftrightarrow> k' = k \<and> f' = f \<or> flag s k' f'"
    and unmark_flag: "present s k \<Longrightarrow> flag (unmark s k f) k' f' \<longleftrightarrow> \<not> (k' = k \<and> f' = f) \<and> flag s k' f'"
    and present_mark: "present (mark s k f) k' \<longleftrightarrow> present s k'"
    and present_unmark: "present (unmark s k f) k' \<longleftrightarrow> present s k'"
begin

lemma mark_unmark: "present s k \<Longrightarrow> flag (unmark (mark s k f) k f) k' f' \<longleftrightarrow> \<not> (k' = k \<and> f' = f) \<and> flag s k' f'"
  by (auto simp: unmark_flag mark_flag present_mark)

lemma mark_all: "present s k \<Longrightarrow> flag (fold (\<lambda>f s. mark s k f) fs s) k' f' \<longleftrightarrow> k' = k \<and> f' \<in> set fs \<or> flag s k' f'"
  by (induction fs arbitrary: s) (auto simp: mark_flag present_mark)

lemma unmark_all: "present s k \<Longrightarrow> flag (fold (\<lambda>f s. unmark s k f) fs s) k' f' \<longleftrightarrow> \<not> (k' = k \<and> f' \<in> set fs) \<and> flag s k' f'"
  by (induction fs arbitrary: s) (auto simp: unmark_flag present_unmark)

end

interpretation nf: flag_store "\<lambda>ns ip. GetNodeByIP ns ip \<noteq> None" GetNodeStateFlag MarkNodeStateFlag UnmarkNodeStateFlag
  by unfold_locales
    (auto simp: GetNodeStateFlag_def MarkNodeStateFlag_def UnmarkNodeStateFlag_def upd_first_get split: option.splits)

lemma RemoveNode_ips: "distinct (map (ns_ip \<circ> bn_spec) ns) \<Longrightarrow> RemoveNode ns ip = filter (\<lambda>n. ns_ip (bn_spec n) \<noteq> ip) ns"
proof (induction ns)
  case (Cons n ns)
  have "ns_ip (bn_spec n) = ip \<Longrightarrow> filter (\<lambda>n. ns_ip (bn_spec n) \<noteq> ip) ns = ns"
    using Cons.prems by (auto simp: filter_id_conv image_iff)
  with Cons show ?case by simp
qed simp

section \<open>Properties\<close>

text \<open>The flags of a node are independent bits: setting a list of flags of a node sets exactly these,
  clearing a list clears exactly these, and no flag of another node and no other flag changes.\<close>
theorem node_flags_independent:
  assumes "GetNodeByIP ns ip \<noteq> None"
  shows "(GetNodeStateFlag (fold (\<lambda>f s. MarkNodeStateFlag s ip f) fs ns) ip' f' \<longleftrightarrow>
            ip' = ip \<and> f' \<in> set fs \<or> GetNodeStateFlag ns ip' f') \<and>
         (GetNodeStateFlag (fold (\<lambda>f s. UnmarkNodeStateFlag s ip f) fs ns) ip' f' \<longleftrightarrow>
            \<not> (ip' = ip \<and> f' \<in> set fs) \<and> GetNodeStateFlag ns ip' f')"
  using nf.mark_all [of ns ip fs] nf.unmark_all [of ns ip fs] assms by simp

definition sample_node :: "string \<Rightarrow> bke_node" where
  "sample_node ip = \<lparr>bn_namespace = ''ns'', bn_name = ''c-'' @ ip, bn_labels = [], bn_annotations = [], bn_resourceVersion = [], bn_deletionTimestamp = None,
     bn_finalizers = [], bn_spec = \<lparr>ns_role = [''node''], ns_ip = ip, ns_port = ''22'', ns_username = ''root'', ns_password = [], ns_hostname = [],
     ns_controlPlane = zero_control_plane, ns_kubelet = None, ns_labels = []\<rparr>,
     bn_status = \<lparr>nst_state = [], nst_stateCode = 0, nst_message = [], nst_needSkip = False, nst_retryCount = 0\<rparr>\<rparr>"

theorem node_flags_independent_witness:
  "GetNodeStateFlag (MarkNodeStateFlag [sample_node ''a'', sample_node ''b''] ''b'' NodeBootFlag) ''b'' NodeBootFlag \<and>
   \<not> GetNodeStateFlag (MarkNodeStateFlag [sample_node ''a'', sample_node ''b''] ''b'' NodeBootFlag) ''b'' NodeHAFlag"
proof -
  have "GetNodeByIP [sample_node ''a'', sample_node ''b''] ''b'' \<noteq> None" by (simp add: sample_node_def)
  from node_flags_independent [OF this, of "[NodeBootFlag]"] show ?thesis
    by (simp add: GetNodeStateFlag_def sample_node_def)
qed

text \<open>Writing the state of a node marks exactly that node as modified, and clearing the record
  flags leaves no modified node and no state changed.\<close>
theorem modified_nodes_tracked:
  "GetModifiedNodes (SetNodeState (ClearRecordFlags ns) ip state) =
     (case GetNodeByIP (SetNodeState (ClearRecordFlags ns) ip state) ip of None \<Rightarrow> [] | Some n \<Rightarrow> [n]) \<and>
   GetModifiedNodes (ClearRecordFlags ns) = [] \<and>
   map (nst_state \<circ> bn_status) (ClearRecordFlags ns) = map (nst_state \<circ> bn_status) ns \<and>
   GetNodeState (SetNodeState ns ip state) ip' = (if ip' = ip \<and> GetNodeByIP ns ip \<noteq> None then state else GetNodeState ns ip')"
proof -
  have clear: "GetModifiedNodes (ClearRecordFlags ns) = []" for ns
    by (auto simp: GetModifiedNodes_def ClearRecordFlags_def filter_empty_conv)
  have "GetModifiedNodes ms = [] \<Longrightarrow> GetModifiedNodes (SetNodeState ms ip state) =
      (case GetNodeByIP (SetNodeState ms ip state) ip of None \<Rightarrow> [] | Some n \<Rightarrow> [n])" for ms
    by (induction ms) (auto simp: GetModifiedNodes_def SetNodeState_def split: if_splits)
  then show ?thesis using clear [of ns]
    by (auto simp: ClearRecordFlags_def GetNodeState_def SetNodeState_def upd_first_get split: option.splits)
qed

end
