(* ===== verification/Command_Client.thy ===== *)
theory Command_Client
  imports Agent_Controller Bke_Nodes
begin

text \<open>
  The management side of commands, \<^verbatim>\<open>pkg/command\<close>: building, creating, waiting for and removing a
  command, and the reading of the agents' statuses. The parameters of a built-in command are read back
  by the agent with \<^verbatim>\<open>ParseCommands\<close> (\<^verbatim>\<open>pkg/job/builtin/plugin/interface.go\<close>) and
  \<^verbatim>\<open>SplitNameSpaceName\<close> (\<^verbatim>\<open>utils/utils.go\<close>).

  The API client is a parameter over a world of any type. \<^verbatim>\<open>wait.PollImmediateUntil\<close> polls at once
  and then at intervals until the timeout; the number of polls that fit is an argument, at least one.
  The current time and the fresh identifiers of \<^verbatim>\<open>uuid.New\<close> are arguments.

  The results: when a command is complete, what the statuses mean and that the order in which Go walks
  the map does not matter; that a failure which may be ignored makes the node fail all the same; that
  after a timeout every target node is accounted for; the round trip of the cluster reference through
  a command; and how far \<^verbatim>\<open>Unique\<close> commands are unique.
\<close>

section \<open>Definitions\<close>

subsection \<open>Base command\<close>

text \<open>Client and scheme are present or nil; the owner reference is set by controller-runtime, which
  may fail.\<close>

(* src: pkg/command/command.go 39-62 BaseCommand *)
record base_command =
  bcm_hasClient :: bool
  bcm_hasScheme :: bool
  bcm_nameSpace :: string
  bcm_clusterName :: string
  bcm_removeAfterWait :: bool
  bcm_unique :: bool
  bcm_forceRemove :: bool
  bcm_commandName :: string
  bcm_command :: "command option"

record 'w command_api =
  ca_list :: "string \<Rightarrow> 'w \<Rightarrow> 'w \<times> (api_error + command list)"
  ca_get :: "string \<Rightarrow> string \<Rightarrow> 'w \<Rightarrow> 'w \<times> (api_error + command)"
  ca_create :: "command \<Rightarrow> 'w \<Rightarrow> 'w \<times> api_error option"
  ca_delete :: "command \<Rightarrow> 'w \<Rightarrow> 'w \<times> api_error option"
  ca_patch :: "command \<Rightarrow> 'w \<Rightarrow> 'w \<times> api_error option"
  ca_setOwner :: "command \<Rightarrow> api_error + command"

(* src: pkg/command/command.go 91-102 BaseCommand.validate *)
definition base_validate :: "base_command \<Rightarrow> string option" where
  "base_validate b =
     (if \<not> bcm_hasClient b then Some ''client is nil''
      else if \<not> bcm_hasScheme b then Some ''scheme is nil''
      else if bcm_nameSpace b = [] then Some ''name space is empty'' else None)"

(* src: pkg/command/command.go 105-116 ValidateBkeCommand *)
definition ValidateBkeCommand :: "node_spec list \<Rightarrow> string \<Rightarrow> base_command \<Rightarrow> string option" where
  "ValidateBkeCommand nodes bkeConfigName b =
     (if \<not> bcm_hasClient b then Some ''client is nil''
      else if length nodes = 0 then Some (''env command except at least one node but got '' @ Itoa (int (length nodes)))
      else if bkeConfigName = [] then Some ''bkeConfigName is empty''
      else base_validate b)"

(* src: pkg/command/command.go 119-121 GenerateBkeConfigStr *)
definition GenerateBkeConfigStr :: "string \<Rightarrow> string \<Rightarrow> string" where
  "GenerateBkeConfigStr ns bkeConfigName = ''bkeConfig='' @ ns @ '':'' @ bkeConfigName"

text \<open>\<^verbatim>\<open>strings.LastIndex\<close> of a dash.\<close>

definition last_dash :: "string \<Rightarrow> nat option" where
  "last_dash s = (if CHR ''-'' \<in> set s then Some (length s - Suc (length (takeWhile (\<lambda>c. c \<noteq> CHR ''-'') (rev s)))) else None)"

(* src: pkg/command/command.go 203-212 uniqueCommandBase *)
definition uniqueCommandBase :: "string \<Rightarrow> string" where
  "uniqueCommandBase name =
     (case last_dash name of
        None \<Rightarrow> name
      | Some idx \<Rightarrow> if idx = 0 then name
                    else (case Atoi (drop (idx + 1) name) of None \<Rightarrow> name | Some _ \<Rightarrow> take idx name))"

(* src: pkg/command/command.go 214-216 isSameUniqueCommandFamily *)
definition isSameUniqueCommandFamily :: "string \<Rightarrow> string \<Rightarrow> bool" where
  "isSameUniqueCommandFamily want existing \<longleftrightarrow> uniqueCommandBase want = uniqueCommandBase existing"

(* src: pkg/command/command.go 228-239 BaseCommand.handleUniqueCommand (loop) *)
fun delete_first_of_family :: "'w command_api \<Rightarrow> string \<Rightarrow> command list \<Rightarrow> 'w \<Rightarrow> 'w \<times> api_error option" where
  "delete_first_of_family api name [] w = (w, None)"
| "delete_first_of_family api name (c # cs) w =
     (if \<not> isSameUniqueCommandFamily name (cmd_name c) then delete_first_of_family api name cs w
      else case ca_delete api c w of
             (w', None) \<Rightarrow> (w', None)
           | (w', Some e) \<Rightarrow> if IsNotFound e then (w', None) else (w', Some e))"

(* src: pkg/command/command.go 219-241 BaseCommand.handleUniqueCommand *)
definition handleUniqueCommand :: "'w command_api \<Rightarrow> base_command \<Rightarrow> string \<Rightarrow> 'w \<Rightarrow> 'w \<times> api_error option" where
  "handleUniqueCommand api b name w =
     (if \<not> bcm_unique b then (w, None)
      else case ca_list api (bcm_nameSpace b) w of
             (w1, Inl e) \<Rightarrow> (w1, Some e)
           | (w1, Inr items) \<Rightarrow> delete_first_of_family api name items w1)"

(* src: pkg/command/command.go 259-270 BaseCommand.buildLabels *)
definition buildLabels :: "base_command \<Rightarrow> string \<Rightarrow> string list \<Rightarrow> string gomap" where
  "buildLabels b labelKey customLabel =
     (let m0 = [(labelKey, [])];
          m1 = (if bcm_clusterName b \<noteq> [] then AList.update ''cluster.x-k8s.io/cluster-name'' (bcm_clusterName b) m0 else m0)
      in fold (\<lambda>label m. AList.update label [] m) customLabel m1)"

(* src: pkg/command/command.go 244-256 BaseCommand.buildCommandObject *)
definition buildCommandObject :: "base_command \<Rightarrow> string \<Rightarrow> string \<Rightarrow> command_spec \<Rightarrow> string list \<Rightarrow> command" where
  "buildCommandObject b name labelKey spec customLabel =
     \<lparr>cmd_namespace = bcm_nameSpace b, cmd_name = name, cmd_resourceVersion = [], cmd_generation = 0,
      cmd_deletionTimestamp = None, cmd_finalizers = [], cmd_labels = buildLabels b labelKey customLabel,
      cmd_spec = spec, cmd_status = None\<rparr>"

(* src: pkg/command/command.go 300-310 BaseCommand.GetCommand *)
definition GetCommand :: "'w command_api \<Rightarrow> base_command \<Rightarrow> 'w \<Rightarrow> base_command \<times> 'w \<times> (api_error + command)" where
  "GetCommand api b w =
     (if bcm_commandName b = [] then (b, w, Inl (ErrMsg ''command name is empty''))
      else case ca_get api (bcm_nameSpace b) (bcm_commandName b) w of
             (w', Inl e) \<Rightarrow> (b, w', Inl e)
           | (w', Inr c) \<Rightarrow> (b\<lparr>bcm_command := Some c\<rparr>, w', Inr c))"

(* src: pkg/command/command.go 284-294 BaseCommand.createCommand *)
definition createCommand :: "'w command_api \<Rightarrow> base_command \<Rightarrow> command \<Rightarrow> 'w \<Rightarrow> base_command \<times> 'w \<times> api_error option" where
  "createCommand api b c w =
     (case ca_create api c w of
        (w1, None) \<Rightarrow> (b, w1, None)
      | (w1, Some e) \<Rightarrow>
          if e = ApiAlreadyExists
          then (case GetCommand api b w1 of (b', w2, Inl e') \<Rightarrow> (b', w2, Some e') | (b', w2, Inr _) \<Rightarrow> (b', w2, None))
          else (b, w1, Some e))"

(* src: pkg/command/command.go 185-199 BaseCommand.newCommand *)
definition newCommand :: "'w command_api \<Rightarrow> base_command \<Rightarrow> string \<Rightarrow> string \<Rightarrow> command_spec \<Rightarrow> string list \<Rightarrow> 'w \<Rightarrow>
    base_command \<times> 'w \<times> api_error option" where
  "newCommand api b name labelKey spec customLabel w =
     (case handleUniqueCommand api b name w of
        (w1, Some e) \<Rightarrow> (b, w1, Some e)
      | (w1, None) \<Rightarrow>
          (let b1 = b\<lparr>bcm_commandName := name\<rparr>
           in case ca_setOwner api (buildCommandObject b1 name labelKey spec customLabel) of
                Inl e \<Rightarrow> (b1, w1, Some e)
              | Inr c \<Rightarrow> createCommand api b1 c w1))"

text \<open>Failures to remove the finalizer are only logged.\<close>

(* src: pkg/command/command.go 312-333 BaseCommand.deleteCommand *)
definition deleteCommand :: "'w command_api \<Rightarrow> base_command \<Rightarrow> 'w \<Rightarrow> 'w \<times> api_error option" where
  "deleteCommand api b w =
     (case bcm_command b of None \<Rightarrow> (w, None)
      | Some c \<Rightarrow>
          (let w1 = (if bcm_forceRemove b then fst (ca_patch api (RemoveFinalizer commandFinalizerName c) w) else w)
           in ca_delete api c w1))"

subsection \<open>Reading the statuses\<close>

text \<open>The walk over the statuses: it ends early, with what it has, at a node that still runs.\<close>

(* src: pkg/command/command.go 505-525 CheckCommandStatus (loop) *)
fun check_nodes :: "command_status gomap \<Rightarrow> string list \<Rightarrow> string list \<Rightarrow> bool \<times> string list \<times> string list" where
  "check_nodes [] succ fail = (True, succ, fail)"
| "check_nodes ((n, st) # sts) succ fail =
     (if cst_phase st = CommandSuspend then (False, succ, fail)
      else if cst_phase st = CommandRunning then (False, succ, fail)
      else if cst_phase st = CommandFailed then check_nodes sts succ (fail @ [n])
      else if cst_status st \<noteq> ConditionTrue then check_nodes sts succ (fail @ [n])
      else if cst_failed st > 0 then check_nodes sts succ (fail @ [n])
      else check_nodes sts (succ @ [n]) fail)"

text \<open>A missing selector is a nil pointer, whose labels cannot be read: a panic, \<^const>\<open>None\<close>.\<close>

(* src: pkg/command/command.go 493-534 CheckCommandStatus *)
definition CheckCommandStatus :: "command \<Rightarrow> (bool \<times> string list \<times> string list) option" where
  "CheckCommandStatus c =
     (if status_map c = [] then Some (False, [], [])
      else if csp_suspend (cmd_spec c) then Some (False, [], [])
      else case check_nodes (status_map c) [] [] of
             (False, succ, fail) \<Rightarrow> Some (False, succ, fail)
           | (True, succ, fail) \<Rightarrow>
               (case csp_nodeSelector (cmd_spec c) of None \<Rightarrow> None
                | Some labels \<Rightarrow>
                    let count = length (status_map c)
                    in Some (length succ + length fail = count \<and> count \<noteq> 0 \<and> length labels = count, succ, fail)))"

(* src: utils/utils.go 431-438 GetNodeIPFromCommandWaitResult *)
definition GetNodeIPFromCommandWaitResult :: "string \<Rightarrow> string" where
  "GetNodeIPFromCommandWaitResult result =
     (case Split CHR ''/'' result of [a, b] \<Rightarrow> b | p # _ \<Rightarrow> p | [] \<Rightarrow> [])"

subsection \<open>Waiting\<close>

(* src: pkg/command/command.go 393-410 BaseCommand.waitForCommandCompletion *)
fun waitForCommandCompletion :: "'w command_api \<Rightarrow> nat \<Rightarrow> base_command \<Rightarrow> bool \<times> string list \<times> string list \<Rightarrow> 'w \<Rightarrow>
    (base_command \<times> 'w \<times> (bool \<times> string list \<times> string list) \<times> bool) option" where
  "waitForCommandCompletion api 0 b res w = Some (b, w, res, True)"
| "waitForCommandCompletion api (Suc n) b res w =
     (case GetCommand api b w of
        (b1, w1, Inl e) \<Rightarrow> waitForCommandCompletion api n b1 res w1
      | (b1, w1, Inr c) \<Rightarrow>
          (case CheckCommandStatus c of None \<Rightarrow> None
           | Some (complete, succ, fail) \<Rightarrow>
               if complete then Some (b1, w1, (complete, succ, fail), False)
               else waitForCommandCompletion api n b1 (complete, succ, fail) w1))"

(* src: pkg/command/command.go 440-450 BaseCommand.handleTimeoutCase (targets) *)
fun add_missing :: "string list \<Rightarrow> string list \<Rightarrow> string list \<Rightarrow> string list \<Rightarrow> string list" where
  "add_missing [] succIPs failIPs fail = fail"
| "add_missing (n # ns) succIPs failIPs fail =
     (if n \<in> set succIPs \<or> n \<in> set failIPs then add_missing ns succIPs failIPs fail
      else add_missing ns succIPs (n # failIPs) (fail @ [n]))"

(* src: pkg/command/command.go 413-457 BaseCommand.handleTimeoutCase *)
definition handleTimeoutCase :: "'w command_api \<Rightarrow> base_command \<Rightarrow> bool \<times> string list \<times> string list \<Rightarrow> 'w \<Rightarrow>
    (base_command \<times> 'w \<times> (bool \<times> string list \<times> string list) \<times> api_error option) option" where
  "handleTimeoutCase api b res w =
     (case res of (complete, succ, fail) \<Rightarrow>
        (case GetCommand api b w of
           (b1, w1, Inl e) \<Rightarrow> Some (b1, w1, (complete, succ, fail), Some e)
         | (b1, w1, Inr c) \<Rightarrow>
             (case csp_nodeSelector (cmd_spec c) of None \<Rightarrow> None
              | Some labels \<Rightarrow>
                  Some (b1, w1,
                        (complete, succ, add_missing (map fst labels) (map GetNodeIPFromCommandWaitResult succ)
                                           (map GetNodeIPFromCommandWaitResult fail) fail), None))))"

(* src: pkg/command/command.go 345-390 BaseCommand.waitCommandCompleteWithStruct *)
definition waitCommandComplete :: "'w command_api \<Rightarrow> nat \<Rightarrow> base_command \<Rightarrow> 'w \<Rightarrow>
    (base_command \<times> 'w \<times> (bool \<times> string list \<times> string list) \<times> api_error option) option" where
  "waitCommandComplete api polls b w =
     (if bcm_commandName b = [] then Some (b, w, (False, [], []), Some (ErrMsg ''command name is empty''))
      else case waitForCommandCompletion api polls b (False, [], []) w of
             None \<Rightarrow> None
           | Some (b1, w1, res, timedOut) \<Rightarrow>
               (case (if timedOut then handleTimeoutCase api b1 res w1 else Some (b1, w1, res, None)) of
                  None \<Rightarrow> None
                | Some (b2, w2, res2, e) \<Rightarrow>
                    Some (b2, if bcm_removeAfterWait b2 then fst (deleteCommand api b2 w2) else w2, res2, e)))"

subsection \<open>The commands\<close>

(* src: pkg/command/command.go 177-182 DefaultBackoffLimit *)
definition DefaultBackoffLimit :: int where
  "DefaultBackoffLimit = 3"

(* src: pkg/command/command.go 469-479 GenerateDefaultCommandSpec *)
definition GenerateDefaultCommandSpec :: command_spec where
  "GenerateDefaultCommandSpec = \<lparr>csp_nodeName = [], csp_suspend = False, csp_commands = [], csp_backoffLimit = DefaultBackoffLimit,
     csp_activeDeadlineSecond = 1000, csp_ttlSecondsAfterFinished = 600, csp_nodeSelector = Some []\<rparr>"

text \<open>\<^verbatim>\<open>metav1.AddLabelToSelector\<close> ignores an empty key.\<close>

(* src: pkg/command/command.go 546-552 getNodeSelector *)
definition getNodeSelector :: "node_spec list \<Rightarrow> string gomap" where
  "getNodeSelector nodes = fold (\<lambda>n m. if ns_ip n = [] then m else AList.update (ns_ip n) (ns_ip n) m) nodes []"

definition builtin_command :: "string \<Rightarrow> string list \<Rightarrow> bool \<Rightarrow> int \<Rightarrow> exec_command" where
  "builtin_command i args ignorable delay = \<lparr>ec_id = i, ec_command = args, ec_type = CommandBuiltIn,
     ec_backoffIgnore = ignorable, ec_backoffDelay = delay\<rparr>"

definition spec_for :: "exec_command list \<Rightarrow> node_spec list \<Rightarrow> command_spec" where
  "spec_for cmds nodes = GenerateDefaultCommandSpec\<lparr>csp_commands := cmds, csp_nodeSelector := Some (getNodeSelector nodes)\<rparr>"

definition spec_kept :: "exec_command list \<Rightarrow> node_spec list \<Rightarrow> command_spec" where
  "spec_kept cmds nodes = (spec_for cmds nodes)\<lparr>csp_ttlSecondsAfterFinished := 0\<rparr>"

text \<open>What every \<^verbatim>\<open>New\<close> does: validate, then create.\<close>

definition new_checked :: "'w command_api \<Rightarrow> string option \<Rightarrow> base_command \<Rightarrow> string \<Rightarrow> string \<Rightarrow> command_spec \<Rightarrow> string list \<Rightarrow> 'w \<Rightarrow>
    base_command \<times> 'w \<times> api_error option" where
  "new_checked api invalid b name labelKey spec custom w =
     (case invalid of Some e \<Rightarrow> (b, w, Some (ErrMsg e)) | None \<Rightarrow> newCommand api b name labelKey spec custom w)"

definition BKEClusterLabel :: string where "BKEClusterLabel = ''bke.bocloud.com/cluster-command''"

definition BKEMachineLabel :: string where "BKEMachineLabel = ''bke.bocloud.com/machine-command''"

(* src: pkg/command/bootstrap.go 35-44 Bootstrap.Validate *)
definition Bootstrap_Validate :: "base_command \<Rightarrow> string \<Rightarrow> string \<Rightarrow> string option" where
  "Bootstrap_Validate b bkeConfig phase =
     (if phase = [] then Some ''phase is empty'' else if bkeConfig = [] then Some ''bkeConfig is empty'' else base_validate b)"

(* src: pkg/command/bootstrap.go 54-64 Bootstrap.New (label) *)
definition bootstrap_label :: "string \<Rightarrow> string" where
  "bootstrap_label phase =
     (if phase = ''InitControlPlane'' then ''bke.bocloud.com/master-init-command''
      else if phase = ''JoinControlPlane'' then ''bke.bocloud.com/master-join-command''
      else if phase = ''JoinWorker'' then ''bke.bocloud.com/worker-join-command'' else [])"

(* src: pkg/command/bootstrap.go 46-101 Bootstrap.New *)
definition Bootstrap_New :: "'w command_api \<Rightarrow> base_command \<Rightarrow> node_spec \<Rightarrow> string \<Rightarrow> string \<Rightarrow> int \<Rightarrow> 'w \<Rightarrow>
    base_command \<times> 'w \<times> api_error option" where
  "Bootstrap_New api b node bkeConfig phase now w =
     (let cfg = GenerateBkeConfigStr (bcm_nameSpace b) bkeConfig
      in new_checked api (Bootstrap_Validate b bkeConfig phase) b (''bootstrap-'' @ ns_ip node @ ''-'' @ Itoa now) BKEMachineLabel
           (spec_kept
              [builtin_command ''check container runtime'' [''K8sEnvInit'', ''init=false'', ''check=true'', ''scope=runtime'', cfg] False 3,
               builtin_command ''bootstrap'' [''Kubeadm'', ''phase='' @ phase, cfg] False 3] [node])
           [bootstrap_label phase] w)"

(* src: pkg/command/cleannode.go 47-77 Reset.New *)
definition Reset_New :: "'w command_api \<Rightarrow> base_command \<Rightarrow> node_spec option \<Rightarrow> string \<Rightarrow> string list \<Rightarrow> int \<Rightarrow> 'w \<Rightarrow>
    base_command \<times> 'w \<times> api_error option" where
  "Reset_New api b nodep bkeConfig extra now w =
     (case nodep of
        None \<Rightarrow> (b, w, Some (ErrMsg (if bkeConfig = [] then ''bkeConfig is empty'' else ''nodes is empty'')))
      | Some node \<Rightarrow>
          new_checked api (if bkeConfig = [] then Some ''bkeConfig is empty'' else base_validate b) b
            (''reset-node-'' @ ns_ip node @ ''-'' @ Itoa now) BKEMachineLabel
            (spec_for [builtin_command ''reset'' [''Reset'', GenerateBkeConfigStr (bcm_nameSpace b) bkeConfig,
               ''scope=cert,manifests,kubelet,container,containerRuntime,source,extra,global-cert'', ''extra='' @ Join extra '',''] False 0] [node])
            [] w)"

(* src: pkg/command/collect.go 34-48 Collect.Validate *)
definition Collect_Validate :: "base_command \<Rightarrow> node_spec option \<Rightarrow> string \<Rightarrow> string \<Rightarrow> string option" where
  "Collect_Validate b nodep etcdDir k8sDir =
     (if etcdDir = [] then Some ''etcdCertificatesDir is empty''
      else if k8sDir = [] then Some ''k8sCertificatesDir is empty''
      else if nodep = None then Some ''node is empty''
      else if bcm_clusterName b = [] then Some ''cluster name is empty'' else base_validate b)"

(* src: pkg/command/collect.go 50-79 Collect.New *)
definition Collect_New :: "'w command_api \<Rightarrow> base_command \<Rightarrow> node_spec option \<Rightarrow> string \<Rightarrow> string \<Rightarrow> string \<Rightarrow> int \<Rightarrow> 'w \<Rightarrow>
    base_command \<times> 'w \<times> api_error option" where
  "Collect_New api b nodep etcdDir k8sDir uuid now w =
     new_checked api (Collect_Validate b nodep etcdDir k8sDir) b (''collect--'' @ bcm_clusterName b @ ''-'' @ Itoa now) BKEClusterLabel
       (spec_for [builtin_command uuid [''Collect'', ''clusterName='' @ bcm_clusterName b, ''namespace='' @ bcm_nameSpace b,
          ''k8sCertDir='' @ k8sDir, ''etcdCertDir='' @ etcdDir] False 0] (case nodep of None \<Rightarrow> [] | Some node \<Rightarrow> [node])) [] w"

(* src: pkg/command/custom.go 31-45 Custom.Validate *)
definition Custom_Validate :: "base_command \<Rightarrow> node_spec list \<Rightarrow> string \<Rightarrow> command_spec option \<Rightarrow> string option" where
  "Custom_Validate b nodes name spec =
     (case base_validate b of Some e \<Rightarrow> Some e
      | None \<Rightarrow> if length nodes = 0 then Some ''nodes is empty''
                else if name = [] then Some ''commandName is empty''
                else if spec = None then Some ''commandSpec is empty'' else None)"

(* src: pkg/command/custom.go 47-56 Custom.New *)
definition Custom_New :: "'w command_api \<Rightarrow> base_command \<Rightarrow> node_spec list \<Rightarrow> string \<Rightarrow> command_spec option \<Rightarrow> string \<Rightarrow> 'w \<Rightarrow>
    base_command \<times> 'w \<times> api_error option" where
  "Custom_New api b nodes name spec labelKey w =
     new_checked api (Custom_Validate b nodes name spec) b name labelKey
       ((case spec of None \<Rightarrow> GenerateDefaultCommandSpec | Some s \<Rightarrow> s)\<lparr>csp_nodeSelector := Some (getNodeSelector nodes)\<rparr>) [] w"

(* src: pkg/command/env.go 50-77 ENV.NewConatinerdReset *)
definition NewConatinerdReset :: "'w command_api \<Rightarrow> base_command \<Rightarrow> node_spec list \<Rightarrow> string \<Rightarrow> string list \<Rightarrow> int \<Rightarrow> 'w \<Rightarrow>
    base_command \<times> 'w \<times> api_error option" where
  "NewConatinerdReset api b nodes bkeConfig extra now w =
     new_checked api (ValidateBkeCommand nodes bkeConfig b) b (''k8s-containerd-reset-'' @ Itoa now) BKEClusterLabel
       (spec_kept [builtin_command ''reset'' [''Reset'', GenerateBkeConfigStr (bcm_nameSpace b) bkeConfig,
          ''scope=containerd-cfg'', ''extra='' @ Join extra '',''] True 0] nodes) [] w"

(* src: pkg/command/env.go 79-111 ENV.NewConatinerdRedeploy *)
definition NewConatinerdRedeploy :: "'w command_api \<Rightarrow> base_command \<Rightarrow> node_spec list \<Rightarrow> string \<Rightarrow> string \<Rightarrow> int \<Rightarrow> 'w \<Rightarrow>
    base_command \<times> 'w \<times> api_error option" where
  "NewConatinerdRedeploy api b nodes bkeConfig containerdVersion now w =
     new_checked api (ValidateBkeCommand nodes bkeConfig b) b (''k8s-containerd-redeploy-'' @ Itoa now) BKEClusterLabel
       (spec_kept [builtin_command ''init and check node env''
          ([''K8sEnvInit'', ''init=true'', ''check=true'', ''scope=runtime'', GenerateBkeConfigStr (bcm_nameSpace b) bkeConfig] @
           (if containerdVersion \<noteq> [] then [''containerdVersion='' @ containerdVersion] else [])) False 5] nodes) [] w"

(* src: pkg/command/env.go 139-145 ENV.getCommandName *)
definition env_getCommandName :: "bool \<Rightarrow> string" where
  "env_getCommandName dryRun = (if dryRun then ''k8s-env-dry-run'' else ''k8s-env-init'')"

(* src: pkg/command/env.go 148-157 ENV.getScope *)
definition env_getScope :: "bool \<Rightarrow> bool \<Rightarrow> string" where
  "env_getScope immutableOS deepRestore =
     (if immutableOS then ''scope=cert,manifests,container,kubelet''
      else if deepRestore then ''scope=cert,manifests,container,kubelet,containerRuntime,extra''
      else ''scope=cert,manifests,container,kubelet,extra'')"

(* src: pkg/command/env.go 160-166 ENV.getInitScope *)
definition env_getInitScope :: "bool \<Rightarrow> string" where
  "env_getInitScope immutableOS =
     (if immutableOS then ''scope=time,hosts,dns,kernel,runtime,iptables,registry,image''
      else ''scope=time,hosts,dns,kernel,firewall,selinux,swap,httpRepo,runtime,iptables,registry,image,extra'')"

(* src: pkg/command/env.go 169-215 ENV.buildCommandSpec *)
definition env_commands :: "string \<Rightarrow> string \<Rightarrow> string \<Rightarrow> string \<Rightarrow> bool \<Rightarrow> exec_command list" where
  "env_commands cfg extra extraHosts scope immutableOS =
     [builtin_command ''node hardware resources check'' [''K8sEnvInit'', ''init=true'', ''check=true'', ''scope=node'', cfg] False 0,
      builtin_command ''reset'' [''Reset'', cfg, scope, extra] True 0,
      builtin_command ''init and check node env''
        [''K8sEnvInit'', ''init=true'', ''check=true'', env_getInitScope immutableOS, cfg, extraHosts] False 5]"

(* src: pkg/command/env.go 114-136 ENV.New *)
definition ENV_New :: "'w command_api \<Rightarrow> base_command \<Rightarrow> node_spec list \<Rightarrow> string \<Rightarrow> string list \<Rightarrow> string list \<Rightarrow> bool \<Rightarrow> bool \<Rightarrow> bool \<Rightarrow>
    int \<Rightarrow> 'w \<Rightarrow> base_command \<times> 'w \<times> api_error option" where
  "ENV_New api b nodes bkeConfig extra extraHosts dryRun deepRestore immutableOS now w =
     (let cmds = env_commands (GenerateBkeConfigStr (bcm_nameSpace b) bkeConfig) (''extra='' @ Join extra '','')
                   (''extraHosts='' @ Join extraHosts '','') (env_getScope immutableOS deepRestore) immutableOS
      in new_checked api (ValidateBkeCommand nodes bkeConfig b) b (env_getCommandName dryRun @ ''-'' @ Itoa now) BKEClusterLabel
           (spec_kept (if dryRun then take 1 cmds else cmds) nodes) [] w)"

(* src: pkg/command/hosts.go 35-64 Hosts.New *)
definition Hosts_New :: "'w command_api \<Rightarrow> base_command \<Rightarrow> node_spec list \<Rightarrow> string \<Rightarrow> int \<Rightarrow> 'w \<Rightarrow>
    base_command \<times> 'w \<times> api_error option" where
  "Hosts_New api b nodes bkeConfig now w =
     new_checked api (ValidateBkeCommand nodes bkeConfig b) b (''k8s-hosts-generate-'' @ Itoa now) BKEClusterLabel
       (spec_for [builtin_command ''init and check node env''
          [''K8sEnvInit'', ''init=true'', ''check=true'', ''scope=hosts'', GenerateBkeConfigStr (bcm_nameSpace b) bkeConfig] False 5] nodes) [] w"

(* src: pkg/command/ping.go 33-52 Ping.New *)
definition Ping_New :: "'w command_api \<Rightarrow> base_command \<Rightarrow> node_spec list \<Rightarrow> int \<Rightarrow> 'w \<Rightarrow> base_command \<times> 'w \<times> api_error option" where
  "Ping_New api b nodes now w =
     new_checked api (base_validate b) b (''ping--'' @ Itoa now) BKEClusterLabel
       (spec_for [builtin_command ''ping'' [''Ping''] False 3] nodes) [] w"

(* src: pkg/command/switchcluster.go 39-61 Switch.New *)
definition Switch_New :: "'w command_api \<Rightarrow> base_command \<Rightarrow> node_spec list \<Rightarrow> string \<Rightarrow> string \<Rightarrow> int \<Rightarrow> 'w \<Rightarrow>
    base_command \<times> 'w \<times> api_error option" where
  "Switch_New api b nodes clusterName uuid now w =
     new_checked api (if clusterName = [] then Some ''cluster name is empty'' else base_validate b) b
       (''switch-cluster--'' @ clusterName @ ''-'' @ Itoa now) BKEClusterLabel
       (spec_for [builtin_command uuid [''SwitchCluster'', ''kubeconfig='' @ bcm_nameSpace b @ ''/'' @ clusterName @ ''-kubeconfig'',
          ''clusterName='' @ clusterName] False 0] nodes) [] w"

definition fmt_bool :: "bool \<Rightarrow> string" where
  "fmt_bool x = (if x then ''true'' else ''false'')"

(* src: pkg/command/upgrade.go 52-87 Upgrade.New *)
definition Upgrade_New :: "'w command_api \<Rightarrow> base_command \<Rightarrow> node_spec option \<Rightarrow> string \<Rightarrow> string \<Rightarrow> string \<Rightarrow> bool \<Rightarrow> string \<Rightarrow> int \<Rightarrow> 'w \<Rightarrow>
    base_command \<times> 'w \<times> api_error option" where
  "Upgrade_New api b nodep bkeConfig clusterFrom phase backUpEtcd etcdVersion now w =
     (case nodep of
        None \<Rightarrow> (b, w, Some (ErrMsg (if bkeConfig = [] then ''bkeConfig is empty'' else ''nodes is empty'')))
      | Some node \<Rightarrow>
          new_checked api (if bkeConfig = [] then Some ''bkeConfig is empty'' else base_validate b) b
            (''upgrade-node-'' @ ns_ip node @ ''-'' @ Itoa now) BKEClusterLabel
            (spec_for [builtin_command ''upgrade''
               ([''Kubeadm'', ''phase='' @ phase, GenerateBkeConfigStr (bcm_nameSpace b) bkeConfig,
                 ''clusterType='' @ (if clusterFrom = [] then ''bke'' else clusterFrom), ''backUpEtcd='' @ fmt_bool backUpEtcd] @
                (if etcdVersion \<noteq> [] then [''etcdVersion='' @ etcdVersion] else [])) False 3] [node]) [] w)"

text \<open>The load balancer command, for masters or for ingress nodes but not for both.\<close>

(* src: pkg/command/loadbalance.go 27-41 HA *)
record ha_command =
  ha_masterNodes :: "node_spec list"
  ha_ingressNodes :: "node_spec list"
  ha_ingressVIP :: string
  ha_controlPlaneEndpointPort :: int
  ha_controlPlaneEndpointVIP :: string
  ha_thirdImageRepo :: string
  ha_fuyaoImageRepo :: string
  ha_manifestsDir :: string
  ha_virtualRouterId :: string
  ha_waitVIP :: bool

(* src: pkg/command/loadbalance.go 43-80 HA.Validate *)
definition HA_Validate :: "base_command \<Rightarrow> ha_command \<Rightarrow> string option" where
  "HA_Validate b l =
     (if ha_thirdImageRepo l = [] then Some ''ThirdImageRepo is empty''
      else if ha_fuyaoImageRepo l = [] then Some ''FuyaoImageRepo is empty''
      else if ha_manifestsDir l = [] then Some ''manifestsDir is empty''
      else if ha_masterNodes l \<noteq> [] \<and> ha_ingressNodes l \<noteq> [] then
        Some ''loadbalance command except configure one type of Ha, but both types (master ha,ingress ha) are configured''
      else if ha_masterNodes l \<noteq> [] \<and> ha_controlPlaneEndpointPort l = 0 then Some ''controlPlaneEndpointPort is empty''
      else if ha_masterNodes l \<noteq> [] \<and> ha_controlPlaneEndpointVIP l = [] then Some ''controlPlaneEndpointVIP is empty''
      else if ha_ingressNodes l \<noteq> [] \<and> ha_ingressVIP l = [] then Some ''ingressVIP is empty''
      else if ha_masterNodes l = [] \<and> ha_ingressNodes l = [] then
        Some ''loadbalance command except at least one node but got 0''
      else base_validate b)"

(* src: pkg/command/loadbalance.go 161-167 HA.getHaNodesParam *)
definition getHaNodesParam :: "node_spec list \<Rightarrow> string" where
  "getHaNodesParam nodes = ''haNodes='' @ Join (map (\<lambda>n. ns_hostname n @ '':'' @ ns_ip n) nodes) '',''"

(* src: pkg/command/loadbalance.go 109-133 HA.setupMasterHACommand *)
definition setupMasterHACommand :: "ha_command \<Rightarrow> exec_command" where
  "setupMasterHACommand l = builtin_command ''master-ha''
     [''HA'', getHaNodesParam (ha_masterNodes l), ''controlPlaneEndpointPort='' @ Itoa (ha_controlPlaneEndpointPort l),
      ''controlPlaneEndpointVIP='' @ ha_controlPlaneEndpointVIP l, ''virtualRouterId='' @ ha_virtualRouterId l,
      ''thirdImageRepo='' @ ha_thirdImageRepo l, ''fuyaoImageRepo='' @ ha_fuyaoImageRepo l,
      ''manifestsDir='' @ ha_manifestsDir l, ''wait='' @ fmt_bool (ha_waitVIP l)] False 0"

(* src: pkg/command/loadbalance.go 136-158 HA.setupIngressHACommand *)
definition setupIngressHACommand :: "ha_command \<Rightarrow> exec_command" where
  "setupIngressHACommand l = builtin_command ''ingress-ha''
     [''HA'', getHaNodesParam (ha_ingressNodes l), ''ingressVIP='' @ ha_ingressVIP l,
      ''thirdImageRepo='' @ ha_thirdImageRepo l, ''fuyaoImageRepo='' @ ha_fuyaoImageRepo l,
      ''virtualRouterId='' @ ha_virtualRouterId l, ''manifestsDir='' @ ha_manifestsDir l,
      ''wait='' @ fmt_bool (ha_waitVIP l)] False 0"

(* src: pkg/command/loadbalance.go 83-106 HA.New *)
definition HA_New :: "'w command_api \<Rightarrow> base_command \<Rightarrow> ha_command \<Rightarrow> int \<Rightarrow> 'w \<Rightarrow> base_command \<times> 'w \<times> api_error option" where
  "HA_New api b l now w =
     new_checked api (HA_Validate b l) b (''k8s-ha-deploy-'' @ Itoa now) BKEClusterLabel
       (if ha_masterNodes l \<noteq> [] then spec_for [setupMasterHACommand l] (ha_masterNodes l)
        else spec_for [setupIngressHACommand l] (ha_ingressNodes l)) [] w"

text \<open>When nothing was executed, the commands report the nodes that did not succeed: most of them by
  host name, \<^verbatim>\<open>Ping\<close> by address.\<close>

(* src: pkg/command/env.go 248-260 ENV.Wait *)
definition ENV_Wait :: "node_spec list \<Rightarrow> bool \<times> string list \<times> string list \<Rightarrow> string list \<times> string list" where
  "ENV_Wait nodes res =
     (case res of (complete, succ, fail) \<Rightarrow>
        if \<not> complete \<and> fail = []
        then (succ, map ns_hostname (filter (\<lambda>n. \<not> ContainsString succ (ns_hostname n)) nodes)) else (succ, fail))"

(* src: pkg/command/ping.go 55-71 Ping.Wait *)
definition Ping_Wait :: "node_spec list \<Rightarrow> bool \<times> string list \<times> string list \<Rightarrow> string list \<times> string list" where
  "Ping_Wait nodes res =
     (case res of (complete, succ, fail) \<Rightarrow>
        if \<not> complete \<and> fail = []
        then (succ, map ns_ip (filter (\<lambda>n. \<not> ContainsString (map GetNodeIPFromCommandWaitResult succ) (ns_ip n)) nodes))
        else (succ, fail))"

(* src: pkg/command/switchcluster.go 63-72 Switch.Wait *)
definition Switch_Wait :: "node_spec list \<Rightarrow> bool \<times> string list \<times> string list \<Rightarrow> string list \<times> string list" where
  "Switch_Wait nodes res =
     (case res of (complete, succ, fail) \<Rightarrow>
        if \<not> complete \<and> succ = [] \<and> fail = [] then (succ, map ns_hostname nodes) else (succ, fail))"

subsection \<open>Parameters on the agent\<close>

(* src: pkg/job/builtin/plugin/interface.go 52-58 PluginParam *)
record plugin_param =
  pp_required :: bool
  pp_default :: string

(* src: pkg/job/builtin/plugin/interface.go 72-78 ParseCommands (arguments) *)
fun external_params :: "string list \<Rightarrow> string gomap \<Rightarrow> string gomap" where
  "external_params [] m = m"
| "external_params (c # cs) m =
     (case SplitN2 CHR ''='' c of [k, v] \<Rightarrow> external_params cs (AList.update k v m) | _ \<Rightarrow> external_params cs m)"

(* src: pkg/job/builtin/plugin/interface.go 80-91 ParseCommands (checking) *)
fun check_params :: "string gomap \<Rightarrow> plugin_param gomap \<Rightarrow> string gomap \<Rightarrow> string gomap \<times> string option" where
  "check_params ext [] m = (m, None)"
| "check_params ext ((key, p) # ps) m =
     (case map_of ext key of
        Some v \<Rightarrow> check_params ext ps (AList.update key v m)
      | None \<Rightarrow> if pp_required p then (m, Some (''Missing required parameters '' @ key))
                else check_params ext ps (AList.update key (pp_default p) m))"

(* src: pkg/job/builtin/plugin/interface.go 66-94 ParseCommands *)
definition ParseCommands :: "plugin_param gomap \<Rightarrow> string list \<Rightarrow> string gomap \<times> string option" where
  "ParseCommands params commands = check_params (external_params (drop 1 commands) []) params []"

(* src: utils/utils.go 74-80 SplitNameSpaceName *)
definition SplitNameSpaceName :: "string \<Rightarrow> (string \<times> string) option" where
  "SplitNameSpaceName nn = (case Split CHR '':'' nn of [a, b] \<Rightarrow> Some (a, b) | _ \<Rightarrow> None)"

section \<open>Lemmas\<close>

definition node_ok :: "command_status \<Rightarrow> bool" where
  "node_ok st \<longleftrightarrow> cst_phase st \<noteq> CommandFailed \<and> cst_status st = ConditionTrue \<and> cst_failed st \<le> 0"

definition still_running :: "command_status \<Rightarrow> bool" where
  "still_running st \<longleftrightarrow> cst_phase st = CommandSuspend \<or> cst_phase st = CommandRunning"

lemma check_nodes_running: "\<exists>(n, st) \<in> set sts. still_running st \<Longrightarrow> \<not> fst (check_nodes sts s f)"
  by (induction sts s f rule: check_nodes.induct) (auto simp: still_running_def)

lemma check_nodes_finished: "\<forall>(n, st) \<in> set sts. \<not> still_running st \<Longrightarrow>
    check_nodes sts s f = (True, s @ map fst (filter (node_ok \<circ> snd) sts), f @ map fst (filter (Not \<circ> node_ok \<circ> snd) sts))"
  by (induction sts s f rule: check_nodes.induct) (auto simp: still_running_def node_ok_def)

lemma filter_partition_length: "length (filter p xs) + length (filter (Not \<circ> p) xs) = length xs"
  by (induction xs) auto

lemma CheckCommandStatus_complete:
  assumes "csp_nodeSelector (cmd_spec c) = Some labels" "status_map c \<noteq> []" "\<not> csp_suspend (cmd_spec c)"
    "\<forall>(n, st) \<in> set (status_map c). \<not> still_running st"
  shows "CheckCommandStatus c = Some (length labels = length (status_map c),
    map fst (filter (node_ok \<circ> snd) (status_map c)), map fst (filter (Not \<circ> node_ok \<circ> snd) (status_map c)))"
  using check_nodes_finished [OF assms(4), of "[]" "[]"] assms(1-3) filter_partition_length [of "node_ok \<circ> snd" "status_map c"]
  by (simp add: CheckCommandStatus_def Let_def comp_assoc)

lemma add_missing_accounts:
  "set fail \<subseteq> set (add_missing ns succIPs failIPs fail) \<and>
   (\<forall>n\<in>set ns. n \<in> set succIPs \<or> n \<in> set failIPs \<or> n \<in> set (add_missing ns succIPs failIPs fail)) \<and>
   (\<forall>n\<in>set (add_missing ns succIPs failIPs fail). n \<in> set fail \<or> n \<in> set ns \<and> n \<notin> set succIPs)"
proof (induction ns succIPs failIPs fail rule: add_missing.induct)
  case (2 n ns succIPs failIPs fail)
  show ?case
  proof (cases "n \<in> set succIPs \<or> n \<in> set failIPs")
    case True
    with 2(1) show ?thesis by auto
  next
    case False
    with 2(2) have ih: "set (fail @ [n]) \<subseteq> set (add_missing ns succIPs (n # failIPs) (fail @ [n]))"
      "\<forall>m\<in>set ns. m \<in> set succIPs \<or> m \<in> set (n # failIPs) \<or> m \<in> set (add_missing ns succIPs (n # failIPs) (fail @ [n]))"
      "\<forall>m\<in>set (add_missing ns succIPs (n # failIPs) (fail @ [n])). m \<in> set (fail @ [n]) \<or> m \<in> set ns \<and> m \<notin> set succIPs" by blast+
    with False show ?thesis by auto
  qed
qed simp

lemma wait_result_ip [simp]: "CHR ''/'' \<notin> set n \<Longrightarrow> GetNodeIPFromCommandWaitResult n = n"
  by (simp add: GetNodeIPFromCommandWaitResult_def)

lemma wait_result_key: "CHR ''/'' \<notin> set h \<Longrightarrow> CHR ''/'' \<notin> set ip \<Longrightarrow> GetNodeIPFromCommandWaitResult (h @ CHR ''/'' # ip) = ip"
  by (simp add: GetNodeIPFromCommandWaitResult_def Split_append_sep)

lemma external_params_other: "\<forall>c\<in>set cs. SplitN2 CHR ''='' c \<noteq> [k, v] \<and> (\<forall>v. SplitN2 CHR ''='' c \<noteq> [k, v]) \<Longrightarrow>
    map_of (external_params cs m) k = map_of m k"
  by (induction cs m rule: external_params.induct) (auto split: list.splits)

lemma external_params_append: "external_params (xs @ ys) m = external_params ys (external_params xs m)"
  by (induction xs m rule: external_params.induct) (auto split: list.splits)

lemma check_params_given: "check_params ext ps m0 = (m, None) \<Longrightarrow> map_of ext k = Some v \<Longrightarrow>
    k \<in> fst ` set ps \<or> map_of m0 k = Some v \<Longrightarrow> map_of m k = Some v"
  by (induction ext ps m0 rule: check_params.induct) (auto split: option.splits if_splits; metis option.distinct(1) option.sel)+

lemma last_dash_stamp: "last_dash (base @ CHR ''-'' # nat_digits n) = Some (length base)"
proof -
  have "takeWhile (\<lambda>c. c \<noteq> CHR ''-'') (rev (base @ CHR ''-'' # nat_digits n)) = rev (nat_digits n)"
    using nat_digits_no_dash [of n] by (auto simp: takeWhile_append2 takeWhile_tail)
  then show ?thesis by (simp add: last_dash_def)
qed

lemma uniqueCommandBase_stamped:
  assumes "0 \<le> t" "t < 2 ^ 63" "base \<noteq> []"
  shows "uniqueCommandBase (base @ ''-'' @ Itoa t) = base"
proof -
  have "Itoa t = nat_digits (nat t)" using assms(1) by (simp add: Itoa_def)
  with assms last_dash_stamp [of base "nat t"] Atoi_Itoa [of t] show ?thesis
    by (simp add: uniqueCommandBase_def)
qed

lemma CheckCommandStatus_True:
  assumes "CheckCommandStatus c = Some (True, succ, fail)"
  shows "(\<forall>(n, st) \<in> set (status_map c). \<not> still_running st) \<and>
    succ = map fst (filter (node_ok \<circ> snd) (status_map c)) \<and> fail = map fst (filter (Not \<circ> node_ok \<circ> snd) (status_map c))"
proof -
  obtain labels where c: "csp_nodeSelector (cmd_spec c) = Some labels" "status_map c \<noteq> []" "\<not> csp_suspend (cmd_spec c)"
    "fst (check_nodes (status_map c) [] [])"
    using assms by (auto simp: CheckCommandStatus_def Let_def split: if_splits prod.splits option.splits bool.splits)
  then have "\<forall>(n, st) \<in> set (status_map c). \<not> still_running st" using check_nodes_running [of "status_map c" "[]" "[]"] by auto
  with CheckCommandStatus_complete [OF c(1-3) this] assms show ?thesis by simp
qed

section \<open>Properties\<close>

text \<open>C10. When a command is complete: the agents have reported as many statuses as the selector
  has nodes, none of them still runs and the command is not suspended. Then the two lists are exactly
  the nodes that succeeded without a counted failure and all others, in whatever order the map of
  statuses is walked.\<close>

theorem command_status_read:
  assumes "csp_nodeSelector (cmd_spec c) = Some labels"
  shows "\<exists>complete succ fail. CheckCommandStatus c = Some (complete, succ, fail) \<and>
    (complete \<longleftrightarrow> status_map c \<noteq> [] \<and> \<not> csp_suspend (cmd_spec c) \<and>
       (\<forall>(n, st) \<in> set (status_map c). \<not> still_running st) \<and> length labels = length (status_map c)) \<and>
    (complete \<longrightarrow> set succ = {n. \<exists>st. (n, st) \<in> set (status_map c) \<and> node_ok st} \<and>
       set fail = {n. \<exists>st. (n, st) \<in> set (status_map c) \<and> \<not> node_ok st})"
proof (cases "status_map c \<noteq> [] \<and> \<not> csp_suspend (cmd_spec c)")
  case True
  show ?thesis
  proof (cases "\<forall>(n, st) \<in> set (status_map c). \<not> still_running st")
    case fin: True
    with CheckCommandStatus_complete [OF assms _ _ fin] True show ?thesis by (auto simp: image_iff)
  next
    case False
    then have "\<not> fst (check_nodes (status_map c) [] [])" using check_nodes_running [of "status_map c" "[]" "[]"] by auto
    then obtain s f where "check_nodes (status_map c) [] [] = (False, s, f)" by (metis prod.collapse)
    with True False show ?thesis by (auto simp: CheckCommandStatus_def)
  qed
qed (auto simp: CheckCommandStatus_def)

text \<open>A failure that the command may ignore still makes its node fail: when the agent reports
  such a command completed with a skipped condition, the management side counts the node among the
  failed ones.\<close>

theorem ignored_failure_fails_node:
  assumes "clock_ok env clk" and "0 \<le> csp_backoffLimit (cmd_spec cmd)"
    and "distinct (map ec_id (csp_commands (cmd_spec cmd)))" and "csp_commands (cmd_spec cmd) \<noteq> []"
    and "startTask env cmd ts w = Some (st', ts', w', TaskFinished)"
    and "map_of (status_map cmd) (commandStatusKey env) = Some st0" and "cst_conditions st0 = []"
    and "cst_lastStartTime st0 = Some start" and "c \<in> set (cst_conditions st')" and "ac_phase c = CommandSkip"
    and "(n, st') \<in> set (status_map obj)" and "CheckCommandStatus obj = Some (True, succ, fail)"
  shows "n \<in> set fail"
proof -
  obtain cs late where cs: "cst_conditions st' = cs" "task_progress (csp_commands (cmd_spec cmd)) cs"
    "run_outcome (csp_commands (cmd_spec cmd)) late cs" "cst_failed st' = cnt_failed (ConditionCount cs (length (csp_commands (cmd_spec cmd))))"
    by (rule task_finished [OF assms(1-3,6-8,5)]) blast
  have "cs \<noteq> []" "c \<in> set (butlast cs) \<or> c = last cs"
    using assms(9) cs(1) by (cases cs rule: rev_cases; auto)+
  with cs(2,3) assms(10) have "done_condition c"
    by (auto simp: task_progress_def run_outcome_def list_all_iff)
  with assms(10) have "ac_status c = ConditionFalse" by (simp add: done_condition_def)
  then have "0 < cst_failed st'"
    using assms(9) unfolding cs(4) ConditionCount_failed cs(1) by (auto simp: filter_empty_conv)
  with assms(11) CheckCommandStatus_True [OF assms(12)] show ?thesis by (force simp: node_ok_def)
qed

theorem command_status_read_witness:
  "\<exists>complete succ fail. CheckCommandStatus demo_half_done = Some (complete, succ, fail) \<and> \<not> complete"
proof -
  have "csp_nodeSelector (cmd_spec demo_half_done) = Some [(''10.0.0.1'', ''10.0.0.1''), (''10.0.0.2'', ''10.0.0.2'')]"
    "length (status_map demo_half_done) = 1"
    by (simp_all add: demo_half_done_def status_map_def)
  from command_status_read [OF this(1)] this(2) show ?thesis by auto
qed

definition demo_reported :: "command_status \<Rightarrow> command" where
  "demo_reported st = (demo_command [])\<lparr>cmd_status := Some [(''n1/10.0.0.1'', st)]\<rparr>"

theorem ignored_failure_fails_node_witness:
  "\<exists>st' ts' w' succ fail. startTask demo_env (demo_command [demo_exec ''a'' ''false'' True, demo_exec ''b'' ''date'' False]) [] (0, None) =
     Some (st', ts', w', TaskFinished) \<and> CheckCommandStatus (demo_reported st') = Some (True, succ, fail) \<and> ''n1/10.0.0.1'' \<in> set fail"
proof -
  let ?c = "demo_command [demo_exec ''a'' ''false'' True, demo_exec ''b'' ''date'' False]"
  have "case startTask demo_env ?c [] (0, None) of None \<Rightarrow> False
      | Some (st', ts', w', r) \<Rightarrow> r = TaskFinished \<and> (\<exists>c\<in>set (cst_conditions st'). ac_phase c = CommandSkip) \<and>
          (case CheckCommandStatus (demo_reported st') of None \<Rightarrow> False | Some (ok, s, f) \<Rightarrow> ok)"
    by code_simp
  then obtain st' ts' w' c succ fail where s: "startTask demo_env ?c [] (0, None) = Some (st', ts', w', TaskFinished)"
    "c \<in> set (cst_conditions st')" "ac_phase c = CommandSkip" "CheckCommandStatus (demo_reported st') = Some (True, succ, fail)"
    by (auto split: option.splits prod.splits)
  have "map_of (status_map ?c) (commandStatusKey demo_env) = Some demo_status" by code_simp
  from ignored_failure_fails_node [OF demo_clock _ _ _ s(1) this _ _ s(2,3) _ s(4), of 0 "''n1/10.0.0.1''"] s
  show ?thesis by (simp add: demo_command_def demo_exec_def demo_status_def demo_reported_def status_map_def)
qed

text \<open>After a timeout every node that the command was sent to is accounted for: it is among the
  successful ones or among the failed ones, nodes already reported as failed stay, and no node that
  succeeded is added to them.\<close>

theorem timeout_accounts_for_nodes:
  assumes "handleTimeoutCase api b (complete, succ, fail) w = Some (b', w', (complete', succ', fail'), None)"
    and "bcm_command b' = Some c" and "csp_nodeSelector (cmd_spec c) = Some labels"
    and "\<forall>n \<in> fst ` set labels. CHR ''/'' \<notin> set n"
  shows "complete' = complete \<and> succ' = succ \<and> set fail \<subseteq> set fail' \<and>
    (\<forall>n \<in> fst ` set labels. n \<in> GetNodeIPFromCommandWaitResult ` set succ' \<or> n \<in> GetNodeIPFromCommandWaitResult ` set fail') \<and>
    (\<forall>n \<in> set fail' - set fail. n \<in> fst ` set labels \<and> n \<notin> GetNodeIPFromCommandWaitResult ` set succ)"
proof -
  let ?ip = GetNodeIPFromCommandWaitResult
  have res: "complete' = complete" "succ' = succ"
    "fail' = add_missing (map fst labels) (map ?ip succ) (map ?ip fail) fail"
    using assms(1-3) by (auto simp: handleTimeoutCase_def GetCommand_def split: prod.splits sum.splits option.splits if_splits)
  note acc = add_missing_accounts [of fail "map fst labels" "map ?ip succ" "map ?ip fail", folded res(3)]
  have "n \<in> ?ip ` set succ' \<or> n \<in> ?ip ` set fail'" if n: "n \<in> fst ` set labels" for n
  proof -
    have "?ip n = n" using assms(4) n by (auto intro: wait_result_ip)
    with acc n res(2) show ?thesis by (metis image_eqI image_set subset_iff imageE)
  qed
  with acc res show ?thesis by auto
qed

text \<open>The reference to the cluster survives the way to the agent: whatever plugin reads the
  arguments of a command that carries it, if the plugin knows the parameter and its parameters are
  accepted, it finds the name space and the name again.\<close>

theorem cluster_reference_roundtrip:
  assumes "CHR '':'' \<notin> set ns" and "CHR '':'' \<notin> set name"
    and "commands = plugin # before @ GenerateBkeConfigStr ns name # after"
    and "\<forall>c \<in> set after. \<forall>v. SplitN2 CHR ''='' c \<noteq> [''bkeConfig'', v]"
    and "''bkeConfig'' \<in> fst ` set params" and "ParseCommands params commands = (m, None)"
  shows "\<exists>v. map_of m ''bkeConfig'' = Some v \<and> SplitNameSpaceName v = Some (ns, name)"
proof -
  let ?v = "ns @ '':'' @ name" and ?ext = "external_params (drop 1 commands) []"
  have cfg: "SplitN2 CHR ''='' (GenerateBkeConfigStr ns name) = [''bkeConfig'', ?v]"
    using SplitN2_append [of "CHR ''=''" "''bkeConfig''" ?v] by (simp add: GenerateBkeConfigStr_def)
  have "map_of ?ext ''bkeConfig'' = Some ?v"
    using external_params_other [of after "''bkeConfig''"] assms(4) by (simp add: assms(3) external_params_append cfg)
  with check_params_given [of ?ext params "[]" m "''bkeConfig''" ?v] assms(5,6) have "map_of m ''bkeConfig'' = Some ?v"
    by (simp add: ParseCommands_def)
  moreover have "SplitNameSpaceName ?v = Some (ns, name)"
    using assms(1,2) by (simp add: SplitNameSpaceName_def Split_append_sep)
  ultimately show ?thesis by blast
qed

theorem cluster_reference_roundtrip_witness:
  "\<exists>v. map_of (fst (ParseCommands [(''phase'', \<lparr>pp_required = True, pp_default = []\<rparr>), (''bkeConfig'', \<lparr>pp_required = True, pp_default = []\<rparr>)]
       [''Kubeadm'', ''phase=JoinWorker'', GenerateBkeConfigStr ''bke-system'' ''c1''])) ''bkeConfig'' = Some v \<and>
     SplitNameSpaceName v = Some (''bke-system'', ''c1'')"
proof -
  let ?p = "[(''phase'', \<lparr>pp_required = True, pp_default = []\<rparr>), (''bkeConfig'', \<lparr>pp_required = True, pp_default = []\<rparr>)]"
  let ?c = "[''Kubeadm'', ''phase=JoinWorker'', GenerateBkeConfigStr ''bke-system'' ''c1'']"
  have "snd (ParseCommands ?p ?c) = None" by code_simp
  then have "ParseCommands ?p ?c = (fst (ParseCommands ?p ?c), None)" by (metis prod.collapse)
  then show ?thesis
    by (intro cluster_reference_roundtrip [of _ _ ?c "''Kubeadm''" "[''phase=JoinWorker'']" "[]" ?p]) simp_all
qed

section \<open>Unique commands\<close>

text \<open>The documented behaviour of the API server, for the commands of one cluster: an object with
  finalizers is only marked by a deletion, and stays until they are removed.\<close>

definition same_key :: "command \<Rightarrow> command \<Rightarrow> bool" where
  "same_key c d \<longleftrightarrow> cmd_namespace c = cmd_namespace d \<and> cmd_name c = cmd_name d"

definition mark_deleted :: "command \<Rightarrow> command" where
  "mark_deleted c = (if cmd_deletionTimestamp c = None then c\<lparr>cmd_deletionTimestamp := Some 0\<rparr> else c)"

definition store_api :: "command list command_api" where
  "store_api = \<lparr>
     ca_list = (\<lambda>ns cs. (cs, Inr (filter (\<lambda>c. cmd_namespace c = ns) cs))),
     ca_get = (\<lambda>ns name cs. (cs, case find (\<lambda>c. cmd_namespace c = ns \<and> cmd_name c = name) cs of None \<Rightarrow> Inl ApiNotFound | Some c \<Rightarrow> Inr c)),
     ca_create = (\<lambda>c cs. if \<exists>d\<in>set cs. same_key c d then (cs, Some ApiAlreadyExists) else (cs @ [c], None)),
     ca_delete = (\<lambda>c cs. if \<forall>d\<in>set cs. \<not> same_key c d then (cs, Some ApiNotFound)
        else (map mark_deleted (filter (\<lambda>d. same_key c d \<and> cmd_finalizers d \<noteq> []) cs) @ filter (\<lambda>d. \<not> same_key c d) cs, None)),
     ca_patch = (\<lambda>c cs. (map (\<lambda>d. if same_key c d then c else d) cs, None)),
     ca_setOwner = Inr\<rparr>"

definition in_family :: "string \<Rightarrow> string \<Rightarrow> command \<Rightarrow> bool" where
  "in_family ns name c \<longleftrightarrow> cmd_namespace c = ns \<and> isSameUniqueCommandFamily name (cmd_name c)"

lemma delete_first_find:
  "delete_first_of_family api name cs w =
     (case find (\<lambda>c. isSameUniqueCommandFamily name (cmd_name c)) cs of None \<Rightarrow> (w, None)
      | Some c \<Rightarrow> (case ca_delete api c w of (w', None) \<Rightarrow> (w', None)
                   | (w', Some e) \<Rightarrow> if IsNotFound e then (w', None) else (w', Some e)))"
  by (induction cs) auto

lemma find_filter: "find p (filter q xs) = find (\<lambda>x. q x \<and> p x) xs"
  by (induction xs) auto

text \<open>A \<^verbatim>\<open>Unique\<close> command replaces the one of its family: if the family has at most one command
  in the name space and it carries no finalizer, then after a successful creation the only command of
  the family is the new one.\<close>

theorem unique_command_replaces:
  assumes "bcm_unique b" and "length (filter (in_family (bcm_nameSpace b) name) cs) \<le> 1"
    and "\<forall>c \<in> set cs. in_family (bcm_nameSpace b) name c \<longrightarrow> cmd_finalizers c = []"
    and "newCommand store_api b name labelKey spec custom cs = (b', cs', None)"
  shows "filter (in_family (bcm_nameSpace b) name) cs' = [buildCommandObject b name labelKey spec custom]"
proof -
  let ?fam = "in_family (bcm_nameSpace b) name" and ?new = "buildCommandObject (b\<lparr>bcm_commandName := name\<rparr>) name labelKey spec custom"
  have new: "?new = buildCommandObject b name labelKey spec custom" "?fam ?new"
    by (simp_all add: buildCommandObject_def buildLabels_def in_family_def isSameUniqueCommandFamily_def Let_def)
  define cs1 where "cs1 = fst (handleUniqueCommand store_api b name cs)"
  have "handleUniqueCommand store_api b name cs = (cs1, None) \<and> filter ?fam cs1 = []"
  proof (cases "find ?fam cs")
    case None
    then have "filter ?fam cs = []" by (simp add: find_None_iff filter_empty_conv)
    with None assms(1) show ?thesis
      by (simp add: handleUniqueCommand_def store_api_def delete_first_find find_filter in_family_def [abs_def] cs1_def)
  next
    case (Some c)
    then have c: "c \<in> set cs" "?fam c" by (auto simp: find_Some_iff)
    have "c \<in> set (filter ?fam cs)" using c by simp
    then have "filter ?fam cs = [c]" using assms(2) by (cases "filter ?fam cs") auto
    then have only: "d \<in> set cs \<Longrightarrow> ?fam d \<Longrightarrow> d = c" for d
      using set_filter [of ?fam cs] by auto
    have same: "same_key c d \<Longrightarrow> ?fam d" for d using c by (auto simp: same_key_def in_family_def)
    have gone: "filter (\<lambda>d. same_key c d \<and> cmd_finalizers d \<noteq> []) cs = []"
      using assms(3) same by (auto simp: filter_empty_conv)
    have "handleUniqueCommand store_api b name cs = (filter (\<lambda>d. \<not> same_key c d) cs, None)"
      using assms(1) Some c(1) gone
      by (auto simp: handleUniqueCommand_def store_api_def delete_first_find find_filter in_family_def [abs_def] same_key_def)
    moreover have "filter ?fam (filter (\<lambda>d. \<not> same_key c d) cs) = []"
      using only by (auto simp: filter_empty_conv same_key_def)
    ultimately show ?thesis by (simp add: cs1_def)
  qed
  moreover from this have "\<not> (\<exists>d\<in>set cs1. same_key ?new d)"
    using new(2) by (auto simp: filter_empty_conv same_key_def in_family_def)
  ultimately have "cs' = cs1 @ [?new]"
    using assms(4) by (auto simp: newCommand_def createCommand_def store_api_def Let_def)
  with \<open>handleUniqueCommand store_api b name cs = (cs1, None) \<and> filter ?fam cs1 = []\<close> new show ?thesis by simp
qed

definition demo_base :: base_command where
  "demo_base = \<lparr>bcm_hasClient = True, bcm_hasScheme = True, bcm_nameSpace = ''ns'', bcm_clusterName = ''c1'', bcm_removeAfterWait = False,
     bcm_unique = True, bcm_forceRemove = False, bcm_commandName = [], bcm_command = None\<rparr>"

definition named_command :: "string \<Rightarrow> string list \<Rightarrow> gotime option \<Rightarrow> command" where
  "named_command name fins del = (demo_command [])\<lparr>cmd_name := name, cmd_finalizers := fins, cmd_deletionTimestamp := del\<rparr>"

theorem unique_command_replaces_witness:
  "\<exists>b' cs'. newCommand store_api demo_base ''k8s-env-init-20'' BKEClusterLabel GenerateDefaultCommandSpec []
       [named_command ''k8s-env-init-7'' [] None] = (b', cs', None) \<and>
     filter (in_family ''ns'' ''k8s-env-init-20'') cs' =
       [buildCommandObject demo_base ''k8s-env-init-20'' BKEClusterLabel GenerateDefaultCommandSpec []]"
proof -
  let ?cs = "[named_command ''k8s-env-init-7'' [] None]"
  have "snd (snd (newCommand store_api demo_base ''k8s-env-init-20'' BKEClusterLabel GenerateDefaultCommandSpec [] ?cs)) = None" by code_simp
  then obtain b' cs' where n: "newCommand store_api demo_base ''k8s-env-init-20'' BKEClusterLabel GenerateDefaultCommandSpec [] ?cs = (b', cs', None)"
    by (metis prod.collapse)
  have "bcm_nameSpace demo_base = ''ns''" by (simp add: demo_base_def)
  with unique_command_replaces [OF _ _ _ n] n show ?thesis by (simp add: demo_base_def named_command_def)
qed

text \<open>With finalizers it does not hold: while an older command of the family waits for its
  agent to release it, only that one is deleted again, and a second live command joins the first.\<close>

theorem unique_command_duplicates:
  "case newCommand store_api demo_base ''k8s-env-init-20'' BKEClusterLabel GenerateDefaultCommandSpec []
       [named_command ''k8s-env-init-7'' [commandFinalizerName] (Some 3), named_command ''k8s-env-init-9'' [commandFinalizerName] None] of
     (b', cs', e) \<Rightarrow> e = None \<and>
       map cmd_name (filter (\<lambda>c. in_family ''ns'' ''k8s-env-init-20'' c \<and> cmd_deletionTimestamp c = None) cs') =
         [''k8s-env-init-9'', ''k8s-env-init-20'']"
  by code_simp

theorem timeout_accounts_for_nodes_witness:
  "\<exists>b' w' fail'. handleTimeoutCase store_api (demo_base\<lparr>bcm_commandName := ''cmd''\<rparr>) (False, [], []) [demo_half_done] =
     Some (b', w', (False, [], fail'), None) \<and> ''10.0.0.2'' \<in> GetNodeIPFromCommandWaitResult ` set fail'"
proof -
  let ?b = "demo_base\<lparr>bcm_commandName := ''cmd''\<rparr>"
  let ?l = "[(''10.0.0.1'', ''10.0.0.1''), (''10.0.0.2'', ''10.0.0.2'')]"
  have l: "csp_nodeSelector (cmd_spec demo_half_done) = Some ?l" by (simp add: demo_half_done_def)
  have get: "GetCommand store_api ?b [demo_half_done] = (?b\<lparr>bcm_command := Some demo_half_done\<rparr>, [demo_half_done], Inr demo_half_done)"
    by (simp add: GetCommand_def store_api_def demo_base_def demo_half_done_def demo_command_def)
  then obtain fail' where h: "handleTimeoutCase store_api ?b (False, [], []) [demo_half_done] =
      Some (?b\<lparr>bcm_command := Some demo_half_done\<rparr>, [demo_half_done], (False, [], fail'), None)"
    by (simp add: handleTimeoutCase_def l)
  from timeout_accounts_for_nodes [OF h _ l] h show ?thesis by auto
qed

end
