(* ===== verification/Conditions.thy ===== *)
theory Conditions
  imports Cluster_Api
begin

text \<open>
  Annotations and conditions of a cluster object: \<^verbatim>\<open>utils/capbke/annotation/helper.go\<close>,
  \<^verbatim>\<open>utils/capbke/condition/condition.go\<close> and the feature gates of
  \<^verbatim>\<open>pkg/featuregate/features.go\<close>. The time of a mark is an argument.

  The results: default annotations fill gaps and overwrite nothing; marking a condition sets exactly
  that condition and keeps the types of the list distinct; and the condition of an add-on is lost
  when another add-on is marked.
\<close>

section \<open>Annotations\<close>

(* src: utils/capbke/annotation/helper.go 115-122 HasAnnotation *)
definition HasAnnotation :: "bke_cluster \<Rightarrow> string \<Rightarrow> string option" where
  "HasAnnotation obj key = map_of (bc_annotations obj) key"

(* src: utils/capbke/annotation/helper.go 124-131 SetAnnotation *)
definition SetAnnotation :: "bke_cluster \<Rightarrow> string \<Rightarrow> string \<Rightarrow> bke_cluster" where
  "SetAnnotation obj key v = obj\<lparr>bc_annotations := AList.update key v (bc_annotations obj)\<rparr>"

(* src: utils/capbke/annotation/helper.go 133-140 RemoveAnnotation *)
definition RemoveAnnotation :: "bke_cluster \<Rightarrow> string \<Rightarrow> bke_cluster" where
  "RemoveAnnotation obj key = obj\<lparr>bc_annotations := AList.delete key (bc_annotations obj)\<rparr>"

(* src: utils/capbke/annotation/helper.go 32-32 StatusRecordAnnotationKey *)
definition StatusRecordAnnotationKey :: string where
  "StatusRecordAnnotationKey = ''bke.bocloud.com/status-record''"

(* src: utils/capbke/annotation/helper.go 74-74 CVOUpgradeReadyAnnotationKey *)
definition CVOUpgradeReadyAnnotationKey :: string where
  "CVOUpgradeReadyAnnotationKey = ''cvo.openfuyao.cn/upgrade-ready''"

(* src: utils/capbke/annotation/helper.go 75-75 CVOClusterVersionAnnotationKey *)
definition CVOClusterVersionAnnotationKey :: string where
  "CVOClusterVersionAnnotationKey = ''cvo.openfuyao.cn/cluster-version''"

(* src: utils/capbke/annotation/helper.go 76-76 CVOUpgradePathAnnotationKey *)
definition CVOUpgradePathAnnotationKey :: string where
  "CVOUpgradePathAnnotationKey = ''cvo.openfuyao.cn/upgrade-path''"

(* src: utils/capbke/annotation/helper.go 77-77 CVODeclarativeUpgradeAnnotationKey *)
definition CVODeclarativeUpgradeAnnotationKey :: string where
  "CVODeclarativeUpgradeAnnotationKey = ''cvo.openfuyao.cn/declarative-upgrade''"

(* src: pkg/featuregate/features.go 29-31 HelmComponentAnnotationKey *)
definition HelmComponentAnnotationKey :: string where
  "HelmComponentAnnotationKey = ''cvo.openfuyao.cn/helm-component''"

(* src: utils/capbke/annotation/helper.go 89-91 SetBKEClusterDefaultAnnotation (one key) *)
definition set_default :: "string \<times> string \<Rightarrow> bke_cluster \<Rightarrow> bke_cluster" where
  "set_default kv obj = (case HasAnnotation obj (fst kv) of None \<Rightarrow> SetAnnotation obj (fst kv) (snd kv) | Some v \<Rightarrow> obj)"

(* src: utils/capbke/annotation/helper.go 47-69 annotation keys with defaults *)
definition default_annotations :: "(string \<times> string) list" where
  "default_annotations =
     [(''bke.bocloud.com/ignore-target-cluster-delete'', ''true''),
      (''bke.bocloud.com/ignore-namespace-delete'', ''true''),
      (''bke.bocloud.com/bkeagent-listener'', ''current''),
      (''bke.bocloud.com/cluster-from'', ''''),
      (''bke.bocloud.com/deep-restore-node'', ''true''),
      (''bke.bocloud.com/master-schedulable'', ''false''),
      (''bke.bocloud.com/node-boot-wait-timeout'', ''10m''),
      (''bke.bocloud.com/launcher-wait-timeout'', ''5m'')]"

(* src: utils/capbke/annotation/helper.go 88-113 SetBKEClusterDefaultAnnotation *)
definition SetBKEClusterDefaultAnnotation :: "bke_cluster \<Rightarrow> bke_cluster" where
  "SetBKEClusterDefaultAnnotation obj = fold set_default default_annotations obj"

section \<open>Feature gates\<close>



(* src: pkg/featuregate/features.go 36-45 DeclarativeUpgradeEnabled *)
definition DeclarativeUpgradeEnabled :: "bool \<Rightarrow> bke_cluster option \<Rightarrow> bool" where
  "DeclarativeUpgradeEnabled flag obj =
     (if flag then True
      else case obj of None \<Rightarrow> False
           | Some c \<Rightarrow> (case HasAnnotation c CVODeclarativeUpgradeAnnotationKey of
                          None \<Rightarrow> False | Some v \<Rightarrow> EqualFold (TrimSpace v) ''true''))"

(* src: pkg/featuregate/features.go 48-55 UpgradeReady *)
definition UpgradeReady :: "bke_cluster option \<Rightarrow> string \<times> bool" where
  "UpgradeReady obj =
     (case obj of None \<Rightarrow> ([], False)
      | Some c \<Rightarrow> (case HasAnnotation c CVOUpgradeReadyAnnotationKey of
                     None \<Rightarrow> ([], False) | Some v \<Rightarrow> (TrimSpace v, TrimSpace v \<noteq> [])))"

(* src: pkg/featuregate/features.go 59-66 HelmComponentEnabled *)
definition HelmComponentEnabled :: "bool \<Rightarrow> bke_cluster option \<Rightarrow> bool" where
  "HelmComponentEnabled support obj =
     (case obj of None \<Rightarrow> support
      | Some c \<Rightarrow> (case HasAnnotation c HelmComponentAnnotationKey of
                     None \<Rightarrow> support | Some v \<Rightarrow> EqualFold (TrimSpace v) ''true''))"

section \<open>Conditions\<close>

(* src: api/capbke/v1beta1/bkecluster_consts.go 134-134 ClusterAddonCondition *)
definition ClusterAddonCondition :: string where
  "ClusterAddonCondition = ''Addon''"

(* src: api/capbke/v1beta1/bkecluster_consts.go 143-143 ClusterHealthyStateCondition *)
definition ClusterHealthyStateCondition :: string where
  "ClusterHealthyStateCondition = ''ClusterHealthyState''"

definition conds :: "bke_cluster \<Rightarrow> cluster_condition list" where
  "conds c = st_conditions (bc_status c)"

definition set_conds :: "bke_cluster \<Rightarrow> cluster_condition list \<Rightarrow> bke_cluster" where
  "set_conds c cs = c\<lparr>bc_status := (bc_status c)\<lparr>st_conditions := cs\<rparr>\<rparr>"

(* src: utils/capbke/condition/condition.go 75-87 HasCondition *)
definition HasCondition :: "string \<Rightarrow> bke_cluster \<Rightarrow> cluster_condition option" where
  "HasCondition ty c = find (\<lambda>x. cc_type x = ty) (conds c)"

(* src: utils/capbke/condition/condition.go 89-99 HasAddonCondition *)
definition HasAddonCondition :: "bke_cluster \<Rightarrow> string \<Rightarrow> cluster_condition option" where
  "HasAddonCondition c addon = find (\<lambda>x. cc_type x = ClusterAddonCondition \<and> cc_addonName x = addon) (conds c)"

(* src: utils/capbke/condition/condition.go 101-107 HasConditionStatus *)
definition HasConditionStatus :: "string \<Rightarrow> bke_cluster \<Rightarrow> string \<Rightarrow> bool" where
  "HasConditionStatus ty c st = (case HasCondition ty c of None \<Rightarrow> False | Some x \<Rightarrow> cc_status x = st)"

(* src: utils/capbke/condition/condition.go 39-43 AddonConditionMark (write-back loop) *)
definition overwrite_type :: "string \<Rightarrow> cluster_condition \<Rightarrow> cluster_condition list \<Rightarrow> cluster_condition list" where
  "overwrite_type ty x cs = map (\<lambda>y. if cc_type y = ty then x else y) cs"

(* src: utils/capbke/condition/condition.go 27-73 AddonConditionMark *)
definition AddonConditionMark :: "bke_cluster \<Rightarrow> string \<Rightarrow> string \<Rightarrow> string \<Rightarrow> string \<Rightarrow> string \<Rightarrow> gotime \<Rightarrow> bke_cluster" where
  "AddonConditionMark c ty st reason msg addon now =
     (case (if addon \<noteq> [] \<and> ty = ClusterAddonCondition then HasAddonCondition c addon else None) of
        Some x \<Rightarrow> set_conds c (overwrite_type ty
                    (x\<lparr>cc_status := st, cc_reason := reason, cc_message := msg, cc_lastTransitionTime := Some now\<rparr>) (conds c))
      | None \<Rightarrow>
          (case HasCondition ty c of
             Some x \<Rightarrow> set_conds c (overwrite_type ty
                         (x\<lparr>cc_lastTransitionTime := Some now, cc_reason := reason, cc_message := msg,
                            cc_status := st, cc_addonName := addon\<rparr>) (conds c))
           | None \<Rightarrow> set_conds c (conds c @
                       [\<lparr>cc_type = ty, cc_addonName = addon, cc_status = st, cc_lastTransitionTime = Some now,
                         cc_reason = reason, cc_message = msg\<rparr>])))"

(* src: utils/capbke/condition/condition.go 23-25 ConditionMark *)
definition ConditionMark :: "bke_cluster \<Rightarrow> string \<Rightarrow> string \<Rightarrow> string \<Rightarrow> string \<Rightarrow> gotime \<Rightarrow> bke_cluster" where
  "ConditionMark c ty st reason msg now = AddonConditionMark c ty st reason msg [] now"

(* src: utils/capbke/condition/condition.go 115-127 RemoveCondition (search and cut) *)
fun remove_first :: "string \<Rightarrow> cluster_condition list \<Rightarrow> cluster_condition list" where
  "remove_first ty [] = []"
| "remove_first ty (x # xs) = (if cc_type x = ty then xs else x # remove_first ty xs)"

(* src: utils/capbke/condition/condition.go 109-128 RemoveCondition *)
definition RemoveCondition :: "string \<Rightarrow> bke_cluster \<Rightarrow> bke_cluster" where
  "RemoveCondition ty c = set_conds c (remove_first ty (conds c))"

section \<open>Lemmas\<close>

lemma annotation_laws [simp]:
  "HasAnnotation (SetAnnotation c k v) k' = (if k' = k then Some v else HasAnnotation c k')"
  "HasAnnotation (RemoveAnnotation c k) k' = (if k' = k then None else HasAnnotation c k')"
  by (simp_all add: HasAnnotation_def SetAnnotation_def RemoveAnnotation_def)

lemma annotation_frame [simp]:
  "bc_status (SetAnnotation c k v) = bc_status c" "bc_status (RemoveAnnotation c k) = bc_status c"
  "bc_spec (SetAnnotation c k v) = bc_spec c" "bc_spec (RemoveAnnotation c k) = bc_spec c"
  "bc_name (SetAnnotation c k v) = bc_name c" "bc_name (RemoveAnnotation c k) = bc_name c"
  "bc_namespace (SetAnnotation c k v) = bc_namespace c" "bc_namespace (RemoveAnnotation c k) = bc_namespace c"
  by (simp_all add: SetAnnotation_def RemoveAnnotation_def)

lemma set_default_HasAnnotation:
  "HasAnnotation (set_default kv c) k = (case HasAnnotation c k of Some v \<Rightarrow> Some v | None \<Rightarrow> if k = fst kv then Some (snd kv) else None)"
  by (auto simp: set_default_def split: option.splits)

lemma fold_set_default:
  "HasAnnotation (fold set_default kvs c) k = (case HasAnnotation c k of Some v \<Rightarrow> Some v | None \<Rightarrow> map_of kvs k)"
  by (induction kvs arbitrary: c) (auto simp: set_default_HasAnnotation split: option.splits)

lemma conds_set [simp]: "conds (set_conds c cs) = cs" "set_conds (set_conds c cs) ds = set_conds c ds"
  by (simp_all add: conds_def set_conds_def)

lemma set_conds_frame [simp]:
  "bc_annotations (set_conds c cs) = bc_annotations c" "bc_spec (set_conds c cs) = bc_spec c"
  "st_clusterStatus (bc_status (set_conds c cs)) = st_clusterStatus (bc_status c)"
  "st_clusterHealthState (bc_status (set_conds c cs)) = st_clusterHealthState (bc_status c)"
  "bc_name (set_conds c cs) = bc_name c" "bc_namespace (set_conds c cs) = bc_namespace c"
  by (simp_all add: set_conds_def)

definition conds_wf :: "bke_cluster \<Rightarrow> bool" where
  "conds_wf c \<longleftrightarrow> distinct (map cc_type (conds c))"

lemma find_type_None: "find (\<lambda>x. cc_type x = ty) cs = None \<longleftrightarrow> ty \<notin> cc_type ` set cs"
  by (auto simp: find_None_iff)

lemma overwrite_types: "cc_type x = ty \<Longrightarrow> map cc_type (overwrite_type ty x cs) = map cc_type cs"
  by (simp add: overwrite_type_def)

lemma overwrite_find:
  "cc_type x = ty \<Longrightarrow> ty \<in> cc_type ` set cs \<Longrightarrow> find (\<lambda>y. cc_type y = ty) (overwrite_type ty x cs) = Some x"
  "ty' \<noteq> ty \<Longrightarrow> cc_type x = ty \<Longrightarrow> find (\<lambda>y. cc_type y = ty') (overwrite_type ty x cs) = find (\<lambda>y. cc_type y = ty') cs"
  by (induction cs) (auto simp: overwrite_type_def)

lemma find_some_type: "find (\<lambda>x. cc_type x = ty) cs = Some x \<Longrightarrow> cc_type x = ty \<and> ty \<in> cc_type ` set cs"
  by (auto simp: find_Some_iff)

lemma find_addon_type:
  "find (\<lambda>x. cc_type x = ty \<and> cc_addonName x = a) cs = Some x \<Longrightarrow> cc_type x = ty \<and> cc_addonName x = a \<and> ty \<in> cc_type ` set cs"
  by (auto simp: find_Some_iff)

text \<open>The three ways a mark ends, as one: the list has the marked condition for its type, and the
  same conditions as before for the others.\<close>

lemma AddonConditionMark_cases:
  obtains (over) x where "cc_type x = ty" "cc_addonName x = addon" "cc_status x = st" "cc_reason x = reason"
      "cc_message x = msg" "cc_lastTransitionTime x = Some now" "ty \<in> cc_type ` set (conds c)"
      "AddonConditionMark c ty st reason msg addon now = set_conds c (overwrite_type ty x (conds c))"
  | (new) x where "cc_type x = ty" "cc_addonName x = addon" "cc_status x = st" "cc_reason x = reason"
      "cc_message x = msg" "cc_lastTransitionTime x = Some now" "ty \<notin> cc_type ` set (conds c)"
      "AddonConditionMark c ty st reason msg addon now = set_conds c (conds c @ [x])"
proof (cases "if addon \<noteq> [] \<and> ty = ClusterAddonCondition then HasAddonCondition c addon else None")
  case (Some x)
  then have a: "addon \<noteq> []" "ty = ClusterAddonCondition" "HasAddonCondition c addon = Some x" by (auto split: if_splits)
  then have "cc_type x = ty \<and> cc_addonName x = addon \<and> ty \<in> cc_type ` set (conds c)"
    using find_addon_type unfolding HasAddonCondition_def by blast
  with a show ?thesis
    by (intro over [of "x\<lparr>cc_status := st, cc_reason := reason, cc_message := msg, cc_lastTransitionTime := Some now\<rparr>"])
      (simp_all add: AddonConditionMark_def)
next
  case None
  show ?thesis
  proof (cases "HasCondition ty c")
    case (Some x)
    with find_some_type [of ty "conds c" x] None show ?thesis
      by (intro over [of "x\<lparr>cc_lastTransitionTime := Some now, cc_reason := reason, cc_message := msg,
            cc_status := st, cc_addonName := addon\<rparr>"]) (simp_all add: AddonConditionMark_def HasCondition_def)
  next
    case None2: None
    then have "ty \<notin> cc_type ` set (conds c)" by (simp add: HasCondition_def find_type_None)
    with None None2 show ?thesis
      by (intro new [of "\<lparr>cc_type = ty, cc_addonName = addon, cc_status = st, cc_lastTransitionTime = Some now,
            cc_reason = reason, cc_message = msg\<rparr>"]) (simp_all add: AddonConditionMark_def)
  qed
qed

lemma AddonConditionMark_frame [simp]:
  "bc_annotations (AddonConditionMark c ty st reason msg addon now) = bc_annotations c"
  "bc_name (AddonConditionMark c ty st reason msg addon now) = bc_name c"
  "bc_namespace (AddonConditionMark c ty st reason msg addon now) = bc_namespace c"
  "st_clusterStatus (bc_status (AddonConditionMark c ty st reason msg addon now)) = st_clusterStatus (bc_status c)"
  "st_clusterHealthState (bc_status (AddonConditionMark c ty st reason msg addon now)) = st_clusterHealthState (bc_status c)"
  by (rule AddonConditionMark_cases [of ty addon st reason msg now c]; simp)+

lemma conds_wf_mark: "conds_wf c \<Longrightarrow> conds_wf (AddonConditionMark c ty st reason msg addon now)"
  by (rule AddonConditionMark_cases [of ty addon st reason msg now c]) (simp_all add: conds_wf_def overwrite_types)

lemma remove_first_types:
  "distinct (map cc_type cs) \<Longrightarrow> remove_first ty cs = filter (\<lambda>x. cc_type x \<noteq> ty) cs"
proof (induction cs)
  case (Cons x cs)
  have "cc_type x = ty \<Longrightarrow> filter (\<lambda>x. cc_type x \<noteq> ty) cs = cs" using Cons.prems by (auto simp: filter_id_conv image_iff)
  with Cons show ?case by simp
qed simp

lemma conds_wf_remove: "conds_wf c \<Longrightarrow> conds_wf (RemoveCondition ty c)"
  by (simp add: conds_wf_def RemoveCondition_def remove_first_types distinct_map_filter)

section \<open>Properties\<close>

text \<open>Setting the default annotations keeps every annotation that is present, fills in exactly the
  missing defaults, and does nothing the second time.\<close>
theorem default_annotations_fill_gaps:
  "HasAnnotation (SetBKEClusterDefaultAnnotation c) k =
     (case HasAnnotation c k of Some v \<Rightarrow> Some v | None \<Rightarrow> map_of default_annotations k) \<and>
   SetBKEClusterDefaultAnnotation (SetBKEClusterDefaultAnnotation c) = SetBKEClusterDefaultAnnotation c"
proof -
  have keep: "fold set_default kvs c = c" if "\<forall>kv\<in>set kvs. HasAnnotation c (fst kv) \<noteq> None" for kvs c
    using that by (induction kvs) (auto simp: set_default_def)
  have "SetBKEClusterDefaultAnnotation (SetBKEClusterDefaultAnnotation c) = SetBKEClusterDefaultAnnotation c"
    unfolding SetBKEClusterDefaultAnnotation_def
  proof (rule keep, rule ballI)
    fix kv assume "kv \<in> set default_annotations"
    then have "map_of default_annotations (fst kv) \<noteq> None" by (simp add: map_of_eq_None_iff)
    then show "HasAnnotation (fold set_default default_annotations c) (fst kv) \<noteq> None"
      by (simp add: fold_set_default split: option.splits)
  qed
  then show ?thesis by (simp add: SetBKEClusterDefaultAnnotation_def fold_set_default)
qed

text \<open>Marking a condition makes exactly that condition present with the given status, reason,
  message and time, leaves the conditions of all other types alone, and keeps a list without two
  conditions of one type that way; removing it makes it absent.\<close>
theorem ConditionMark_correct:
  assumes "conds_wf c"
  shows "let c' = ConditionMark c ty st reason msg now in
     conds_wf c' \<and>
     HasCondition ty c' = Some \<lparr>cc_type = ty, cc_addonName = [], cc_status = st, cc_lastTransitionTime = Some now,
                            cc_reason = reason, cc_message = msg\<rparr> \<and>
     (ty' = ty \<or> HasCondition ty' c' = HasCondition ty' c) \<and>
     HasConditionStatus ty c' st \<and> conds_wf (RemoveCondition ty c') \<and> HasCondition ty (RemoveCondition ty c') = None"
proof -
  let ?c = "AddonConditionMark c ty st reason msg [] now"
  let ?x = "\<lparr>cc_type = ty, cc_addonName = [], cc_status = st, cc_lastTransitionTime = Some now, cc_reason = reason, cc_message = msg\<rparr>"
  have wf: "conds_wf ?c" using assms by (rule conds_wf_mark)
  have "HasCondition ty ?c = Some ?x \<and> (ty' = ty \<or> HasCondition ty' ?c = HasCondition ty' c)"
  proof (cases rule: AddonConditionMark_cases [of ty "[]" st reason msg now c])
    case (over x)
    then have "x = ?x" by simp
    with over show ?thesis by (cases "ty' = ty") (simp_all add: HasCondition_def overwrite_find)
  next
    case (new x)
    then have "x = ?x" by simp
    moreover have "find (\<lambda>x. cc_type x = ty) (conds c) = None" using new(7) by (simp add: find_type_None)
    ultimately show ?thesis using new(8)
      by (cases "ty' = ty") (simp_all add: HasCondition_def find_append_or option.case_eq_if)
  qed
  moreover have "HasCondition ty (RemoveCondition ty ?c) = None"
    using wf by (simp add: HasCondition_def RemoveCondition_def conds_wf_def remove_first_types find_None_iff)
  ultimately show ?thesis
    using wf conds_wf_remove [OF wf] by (simp add: ConditionMark_def HasConditionStatus_def Let_def)
qed

theorem ConditionMark_correct_witness:
  "let c = blank_cluster ''n'' ''c''
   in conds_wf c \<and> HasConditionStatus ''BKEAgent'' (ConditionMark c ''BKEAgent'' ''True'' ''Ready'' '''' 7) ''True''"
proof -
  let ?c = "blank_cluster ''n'' ''c''"
  have "conds_wf ?c" by (simp add: conds_wf_def conds_def empty_status_def)
  with ConditionMark_correct [OF this, of "''BKEAgent''" "''True''" "''Ready''" "''''" 7 "''Addon''"]
  show ?thesis by (simp add: Let_def)
qed

text \<open>Marking the condition of one add-on makes the conditions of all other add-ons disappear,
  whatever was recorded before: the condition list holds one add-on at a time.\<close>
theorem addon_mark_forgets_others:
  "HasAddonCondition (AddonConditionMark c ClusterAddonCondition st reason msg addon now) other = None \<or> other = addon"
proof (cases rule: AddonConditionMark_cases [of ClusterAddonCondition addon st reason msg now c])
  case (over x)
  then show ?thesis by (auto simp: HasAddonCondition_def overwrite_type_def find_None_iff)
next
  case (new x)
  then show ?thesis by (auto simp: HasAddonCondition_def find_None_iff image_iff)
qed

end
