(* ===== verification/Status_Manager.thy ===== *)
theory Status_Manager
  imports Conditions Bke_Nodes
begin

text \<open>
  The retry budget of reconciliation, \<^verbatim>\<open>pkg/statusmanage\<close>: the manager counts consecutive
  equal failures of each cluster and of each node, shows the last normal state while retries are
  left, and gives up when the budget \<^verbatim>\<open>ReconcileAllowedFailedCount\<close> is used. The manager is a
  record of two maps; its locks are not modelled, every operation being one critical section. The
  counter is a Go \<^verbatim>\<open>int\<close>; it is an \<^typ>\<open>int\<close> here, and the invariant \<open>manager_wf\<close> bounds it by
  the budget, so that it cannot wrap.

  The results: the invariant is kept by every operation; the k-th equal failure in a row asks for a
  retry exactly when the budget does not divide k; nodes are recorded independently of each other;
  and an operation on one cluster leaves the records of all others alone.
\<close>

section \<open>Definitions\<close>

subsection \<open>Configuration\<close>

(* src: pkg/statusmanage/statusmanager.go 32-32 DefaultAllowedFailedCount *)
definition DefaultAllowedFailedCount :: int where
  "DefaultAllowedFailedCount = 10"

(* src: pkg/statusmanage/statusmanager.go 52-64 init *)
definition init_allowed :: "string option \<Rightarrow> int" where
  "init_allowed env =
     (case env of None \<Rightarrow> DefaultAllowedFailedCount
      | Some s \<Rightarrow> (case Atoi s of None \<Rightarrow> DefaultAllowedFailedCount | Some n \<Rightarrow> n))"

subsection \<open>Records\<close>

(* src: pkg/statusmanage/staterecords.go 17-23 StatusRecord *)
record status_record =
  sr_currentClusterState :: string
  sr_latestFailedState :: string
  sr_latestNormalState :: string
  sr_statusCount :: int
  sr_needRequeue :: bool

definition empty_record :: status_record where
  "empty_record = \<lparr>sr_currentClusterState = [], sr_latestFailedState = [], sr_latestNormalState = [], sr_statusCount = 0, sr_needRequeue = False\<rparr>"

(* src: pkg/statusmanage/staterecords.go 25-27 StatusRecord.Inc *)
definition sr_Inc :: "status_record \<Rightarrow> status_record" where
  "sr_Inc r = r\<lparr>sr_statusCount := sr_statusCount r + 1\<rparr>"

(* src: pkg/statusmanage/staterecords.go 29-31 StatusRecord.Dec *)
definition sr_Dec :: "status_record \<Rightarrow> status_record" where
  "sr_Dec r = r\<lparr>sr_statusCount := sr_statusCount r - 1\<rparr>"

(* src: pkg/statusmanage/staterecords.go 33-36 StatusRecord.Reset *)
definition sr_Reset :: "status_record \<Rightarrow> status_record" where
  "sr_Reset r = r\<lparr>sr_statusCount := 0, sr_latestFailedState := []\<rparr>"

(* src: pkg/statusmanage/staterecords.go 37-39 StatusRecord.Equal *)
definition sr_Equal :: "status_record \<Rightarrow> string \<Rightarrow> bool" where
  "sr_Equal r state \<longleftrightarrow> sr_latestFailedState r = state"

(* src: pkg/statusmanage/staterecords.go 41-43 StatusRecord.AllowFailed *)
definition AllowFailed :: "int \<Rightarrow> status_record \<Rightarrow> bool" where
  "AllowFailed limit r \<longleftrightarrow> sr_statusCount r < limit"

(* src: pkg/statusmanage/staterecords.go 45-47 StatusRecord.SetLatestFailedState *)
definition SetLatestFailedState :: "status_record \<Rightarrow> string \<Rightarrow> status_record" where
  "SetLatestFailedState r state = r\<lparr>sr_latestFailedState := state\<rparr>"

(* src: pkg/statusmanage/staterecords.go 49-51 StatusRecord.SetLatestNormalState *)
definition SetLatestNormalState :: "status_record \<Rightarrow> string \<Rightarrow> status_record" where
  "SetLatestNormalState r state = r\<lparr>sr_latestNormalState := state\<rparr>"

(* src: pkg/statusmanage/staterecords.go 53-55 StatusRecord.SetCurrentClusterState *)
definition SetCurrentClusterState :: "status_record \<Rightarrow> string \<Rightarrow> status_record" where
  "SetCurrentClusterState r state = r\<lparr>sr_currentClusterState := state\<rparr>"

text \<open>The counting of a failure, which the cluster and the node branch share.\<close>

(* src: pkg/statusmanage/statusmanager.go 182-192 recordBKEClusterStatus (counter) *)
definition count_failure :: "string \<Rightarrow> status_record \<Rightarrow> status_record" where
  "count_failure state r =
     (if sr_Equal r state then sr_Inc r else sr_Inc (SetLatestFailedState (sr_Reset r) state))"

subsection \<open>The manager\<close>

(* src: pkg/statusmanage/statusmanager.go 42-50 StatusManager *)
record status_manager =
  sm_clusters :: "status_record gomap"
  sm_nodes :: "status_record gomap gomap"

(* src: pkg/statusmanage/statusmanager.go 73-78 NewStatusManager *)
definition NewStatusManager :: status_manager where
  "NewStatusManager = \<lparr>sm_clusters = [], sm_nodes = []\<rparr>"

(* src: utils/utils.go 292-302 ClientObjNS *)
definition ClientObjNS :: "bke_cluster \<Rightarrow> string" where
  "ClientObjNS c = bc_namespace c @ ''/'' @ bc_name c"

(* src: api/capbke/v1beta1/bkecluster_consts.go 185-185 ClusterPaused *)
definition ClusterPaused :: string where
  "ClusterPaused = ''Paused''"

definition failed_state :: "string \<Rightarrow> bool" where
  "failed_state s = HasSuffix s ''Failed''"

definition set_clusterStatus :: "bke_cluster \<Rightarrow> string \<Rightarrow> bke_cluster" where
  "set_clusterStatus c s = c\<lparr>bc_status := (bc_status c)\<lparr>st_clusterStatus := s\<rparr>\<rparr>"

definition set_health :: "bke_cluster \<Rightarrow> string \<Rightarrow> bke_cluster" where
  "set_health c s = c\<lparr>bc_status := (bc_status c)\<lparr>st_clusterHealthState := s\<rparr>\<rparr>"

(* src: pkg/statusmanage/statusmanager.go 208-228 recordBKEClusterStatus (budget used) *)
definition mark_exhausted :: "string \<Rightarrow> gotime \<Rightarrow> bke_cluster \<Rightarrow> bke_cluster" where
  "mark_exhausted cur now c =
     (if cur \<noteq> ''Unhealthy'' \<and> cur \<noteq> ''Healthy''
      then let (c1, msg) =
                 (if cur = ''Deploying'' then (set_health c ''DeployFailed'', ''DeployFailed'')
                  else if cur = ''Upgrading'' then (set_health c ''UpgradeFailed'', ''UpgradeFailed'')
                  else if cur = ''Managing'' then (set_health c ''ManageFailed'', ''ManageFailed'')
                  else (c, []))
           in (case HasCondition ClusterHealthyStateCondition c1 of
                 None \<Rightarrow> c1
               | Some v \<Rightarrow> ConditionMark c1 (cc_type v) ''False'' (cc_reason v) msg now)
      else c)"

(* src: pkg/statusmanage/statusmanager.go 127-234 recordBKEClusterStatus *)
definition recordBKEClusterStatus :: "int \<Rightarrow> gotime \<Rightarrow> status_manager \<Rightarrow> bke_cluster \<Rightarrow> status_manager \<times> bke_cluster" where
  "recordBKEClusterStatus limit now m c =
     (if HasAnnotation c StatusRecordAnnotationKey = None then (m, c)
      else if st_clusterStatus (bc_status c) = [] then (m, RemoveAnnotation c StatusRecordAnnotationKey)
      else
        let state = st_clusterStatus (bc_status c);
            key = ClientObjNS c;
            sr = get_or empty_record (sm_clusters m) key;
            (sr', c') =
              (if state = ClusterPaused then (sr\<lparr>sr_needRequeue := False\<rparr>, c)
               else
                 let sr1 = SetCurrentClusterState sr (st_clusterHealthState (bc_status c))
                 in if \<not> failed_state state then ((SetLatestNormalState sr1 state)\<lparr>sr_needRequeue := False\<rparr>, c)
                    else
                      let sr2 = count_failure state sr1
                      in if AllowFailed limit sr2
                         then (sr2\<lparr>sr_needRequeue := True\<rparr>, set_clusterStatus c (sr_latestNormalState sr2))
                         else ((sr_Reset sr2)\<lparr>sr_needRequeue := False\<rparr>, mark_exhausted (sr_currentClusterState sr2) now c))
        in (m\<lparr>sm_clusters := AList.update key sr' (sm_clusters m)\<rparr>, RemoveAnnotation c' StatusRecordAnnotationKey))"

(* src: pkg/statusmanage/statusmanager.go 280-354 recordSingleNodeState *)
definition recordSingleNodeState :: "int \<Rightarrow> nat \<Rightarrow> status_record gomap \<times> bke_node list \<Rightarrow> status_record gomap \<times> bke_node list" where
  "recordSingleNodeState limit i st =
     (let (srs, ns) = st; ip = ns_ip (bn_spec (ns ! i)); state = nst_state (bn_status (ns ! i))
      in if \<not> GetNodeStateFlag ns ip NodeStateNeedRecord then (srs, ns)
         else if state = [] then (srs, UnmarkNodeStateFlag ns ip NodeStateNeedRecord)
         else
           let sr = get_or empty_record srs ip;
               (sr', ns') =
                 (if \<not> failed_state state then (SetLatestNormalState sr state, ns)
                  else
                    let sr1 = count_failure state sr
                    in if AllowFailed limit sr1
                       then (sr1\<lparr>sr_needRequeue := True\<rparr>, SetNodeState ns ip (sr_latestNormalState sr1))
                       else ((sr_Reset sr1)\<lparr>sr_needRequeue := False\<rparr>,
                             MarkNodeStateFlag (SetNodeState ns ip state) ip NodeFailedFlag))
           in (AList.update ip sr' srs, UnmarkNodeStateFlag ns' ip NodeStateNeedRecord))"

(* src: pkg/statusmanage/statusmanager.go 245-269 recordBKENodesStatus *)
definition recordBKENodesStatus :: "int \<Rightarrow> status_manager \<Rightarrow> bke_cluster \<Rightarrow> bke_node list \<Rightarrow> status_manager \<times> bke_node list" where
  "recordBKENodesStatus limit m c ns =
     (if ns = [] then (m, ns)
      else let key = ClientObjNS c;
               (srs, ns') = fold (recordSingleNodeState limit) [0..<length ns] (get_or [] (sm_nodes m) key, ns)
           in (m\<lparr>sm_nodes := AList.update key srs (sm_nodes m)\<rparr>, ns'))"

(* src: pkg/statusmanage/statusmanager.go 81-84 SetStatus *)
definition SetStatus :: "int \<Rightarrow> gotime \<Rightarrow> status_manager \<Rightarrow> bke_cluster \<Rightarrow> bke_node list \<Rightarrow> status_manager \<times> bke_cluster \<times> bke_node list" where
  "SetStatus limit now m c ns =
     (let (m1, c') = recordBKEClusterStatus limit now m c;
          (m2, ns') = recordBKENodesStatus limit m1 c' ns
      in (m2, c', ns'))"

(* src: pkg/statusmanage/statusmanager.go 91-108 GetCtrlResult *)
definition GetCtrlResult :: "status_manager \<Rightarrow> bke_cluster \<Rightarrow> bool" where
  "GetCtrlResult m c =
     (if st_clusterStatus (bc_status c) = ClusterPaused then False
      else case map_of (sm_clusters m) (ClientObjNS c) of None \<Rightarrow> False | Some sr \<Rightarrow> sr_needRequeue sr)"

(* src: pkg/statusmanage/statusmanager.go 110-125 GetNodesResult *)
definition GetNodesResult :: "status_manager \<Rightarrow> bke_cluster \<Rightarrow> string \<Rightarrow> bool" where
  "GetNodesResult m c ip =
     (case map_of (sm_nodes m) (ClientObjNS c) of
        Some srs \<Rightarrow> (case map_of srs ip of None \<Rightarrow> True | Some sr \<Rightarrow> sr_needRequeue sr)
      | None \<Rightarrow> True)"

(* src: pkg/statusmanage/statusmanager.go 236-243 RemoveBKEClusterStatusCache *)
definition RemoveBKEClusterStatusCache :: "status_manager \<Rightarrow> bke_cluster \<Rightarrow> status_manager" where
  "RemoveBKEClusterStatusCache m c = m\<lparr>sm_clusters := AList.delete (ClientObjNS c) (sm_clusters m)\<rparr>"

(* src: pkg/statusmanage/statusmanager.go 271-278 RemoveNodesStatusCache *)
definition RemoveNodesStatusCache :: "status_manager \<Rightarrow> bke_cluster \<Rightarrow> status_manager" where
  "RemoveNodesStatusCache m c = m\<lparr>sm_nodes := AList.delete (ClientObjNS c) (sm_nodes m)\<rparr>"

(* src: pkg/statusmanage/statusmanager.go 86-89 RemoveClusterStatusManagerCache *)
definition RemoveClusterStatusManagerCache :: "status_manager \<Rightarrow> bke_cluster \<Rightarrow> status_manager" where
  "RemoveClusterStatusManagerCache m c = RemoveNodesStatusCache (RemoveBKEClusterStatusCache m c) c"

(* src: pkg/statusmanage/statusmanager.go 356-368 RemoveSingleNodeStatusCache *)
definition RemoveSingleNodeStatusCache :: "status_manager \<Rightarrow> bke_cluster \<Rightarrow> string \<Rightarrow> status_manager" where
  "RemoveSingleNodeStatusCache m c ip =
     (case map_of (sm_nodes m) (ClientObjNS c) of
        None \<Rightarrow> m
      | Some srs \<Rightarrow> m\<lparr>sm_nodes := AList.update (ClientObjNS c) (AList.delete ip srs) (sm_nodes m)\<rparr>)"

section \<open>One record\<close>

lemmas record_ops = sr_Inc_def sr_Reset_def sr_Equal_def SetLatestFailedState_def SetLatestNormalState_def
  SetCurrentClusterState_def count_failure_def AllowFailed_def

text \<open>The invariant of a record under a budget: the counter is positive exactly while a failed state
  is remembered, and below the budget.\<close>

definition record_wf :: "int \<Rightarrow> status_record \<Rightarrow> bool" where
  "record_wf limit r \<longleftrightarrow> 0 \<le> sr_statusCount r \<and> (sr_statusCount r = 0 \<longleftrightarrow> sr_latestFailedState r = []) \<and>
     sr_statusCount r < max 1 limit"

lemma record_wf_empty [simp]: "record_wf limit empty_record"
  by (simp add: record_wf_def empty_record_def)

lemma failed_not_empty: "failed_state s \<Longrightarrow> s \<noteq> [] \<and> s \<noteq> ClusterPaused"
  by (auto simp: failed_state_def HasSuffix_def ClusterPaused_def)

lemma record_wf_need [simp]: "record_wf limit (r\<lparr>sr_needRequeue := b\<rparr>) = record_wf limit r"
  by (simp add: record_wf_def)

lemma record_wf_current [simp]: "record_wf limit (SetCurrentClusterState r s) = record_wf limit r"
  by (simp add: record_wf_def SetCurrentClusterState_def)

lemma record_wf_normal [simp]: "record_wf limit (SetLatestNormalState r s) = record_wf limit r"
  by (simp add: record_wf_def SetLatestNormalState_def)

lemma record_wf_reset: "record_wf limit r \<Longrightarrow> record_wf limit (sr_Reset (count_failure s r))"
  by (simp add: record_wf_def record_ops)

lemma record_wf_count:
  "record_wf limit r \<Longrightarrow> failed_state s \<Longrightarrow> AllowFailed limit (count_failure s r) \<Longrightarrow> record_wf limit (count_failure s r)"
  using failed_not_empty [of s] by (auto simp: record_wf_def record_ops split: if_splits)

text \<open>A run of equal failures: after \<open>k\<close> of them the counter is \<open>k\<close> modulo the budget.\<close>

definition in_run :: "nat \<Rightarrow> string \<Rightarrow> string \<Rightarrow> nat \<Rightarrow> status_record \<Rightarrow> bool" where
  "in_run n F v k r \<longleftrightarrow> sr_latestNormalState r = v \<and>
     (if k mod n = 0 then sr_latestFailedState r \<noteq> F else sr_latestFailedState r = F \<and> sr_statusCount r = int (k mod n))"

lemma in_run_current [simp]: "in_run n F v k (SetCurrentClusterState r s) = in_run n F v k r"
  by (simp add: in_run_def SetCurrentClusterState_def)

lemma in_run_need [simp]: "in_run n F v k (r\<lparr>sr_needRequeue := b\<rparr>) = in_run n F v k r"
  by (simp add: in_run_def)

lemma in_run_count:
  assumes "in_run n F v k r" "0 < n"
  shows "sr_statusCount (count_failure F r) = int (k mod n) + 1" "sr_latestFailedState (count_failure F r) = F"
    "sr_latestNormalState (count_failure F r) = v"
  using assms by (auto simp: in_run_def record_ops split: if_splits)

lemma in_run_allow:
  assumes "in_run n F v k r" "0 < n"
  shows "AllowFailed (int n) (count_failure F r) \<longleftrightarrow> Suc k mod n \<noteq> 0"
  using in_run_count(1) [OF assms] assms(2) mod_less_divisor [OF assms(2), of k]
  by (auto simp: AllowFailed_def mod_Suc)

lemma in_run_step:
  assumes "in_run n F v k r" "0 < n" "F \<noteq> []"
  shows "in_run n F v (Suc k) (if AllowFailed (int n) (count_failure F r) then count_failure F r else sr_Reset (count_failure F r))"
proof (cases "Suc k mod n = 0")
  case True
  with in_run_allow [OF assms(1,2)] in_run_count [OF assms(1,2)] assms(3) show ?thesis
    by (simp add: in_run_def sr_Reset_def)
next
  case False
  then have "Suc k mod n = Suc (k mod n)" by (simp add: mod_Suc split: if_splits)
  with False in_run_allow [OF assms(1,2)] in_run_count [OF assms(1,2)] show ?thesis by (simp add: in_run_def)
qed

section \<open>The cluster branch\<close>

lemma set_status_frame [simp]:
  "bc_annotations (set_clusterStatus c s) = bc_annotations c" "ClientObjNS (set_clusterStatus c s) = ClientObjNS c"
  "st_clusterStatus (bc_status (set_clusterStatus c s)) = s"
  "st_clusterHealthState (bc_status (set_clusterStatus c s)) = st_clusterHealthState (bc_status c)"
  "ClientObjNS (RemoveAnnotation c k) = ClientObjNS c"
  by (simp_all add: set_clusterStatus_def ClientObjNS_def)

lemma set_health_frame [simp]:
  "bc_annotations (set_health c s) = bc_annotations c" "ClientObjNS (set_health c s) = ClientObjNS c"
  "st_clusterStatus (bc_status (set_health c s)) = st_clusterStatus (bc_status c)"
  "st_clusterHealthState (bc_status (set_health c s)) = s"
  by (simp_all add: set_health_def ClientObjNS_def)

lemma ConditionMark_frame [simp]:
  "bc_annotations (ConditionMark c ty st reason msg now) = bc_annotations c"
  "ClientObjNS (ConditionMark c ty st reason msg now) = ClientObjNS c"
  "st_clusterStatus (bc_status (ConditionMark c ty st reason msg now)) = st_clusterStatus (bc_status c)"
  "st_clusterHealthState (bc_status (ConditionMark c ty st reason msg now)) = st_clusterHealthState (bc_status c)"
  by (simp_all add: ConditionMark_def ClientObjNS_def)

lemma mark_exhausted_frame [simp]:
  "bc_annotations (mark_exhausted cur now c) = bc_annotations c"
  "ClientObjNS (mark_exhausted cur now c) = ClientObjNS c"
  "st_clusterStatus (bc_status (mark_exhausted cur now c)) = st_clusterStatus (bc_status c)"
  by (auto simp: mark_exhausted_def Let_def split: option.splits)

lemma mark_exhausted_health:
  "st_clusterHealthState (bc_status (mark_exhausted cur now c)) =
     (if cur \<in> {''Deploying''} then ''DeployFailed'' else if cur = ''Upgrading'' then ''UpgradeFailed''
      else if cur = ''Managing'' then ''ManageFailed'' else st_clusterHealthState (bc_status c))"
  by (auto simp: mark_exhausted_def Let_def split: option.splits)

text \<open>One recorded failure.\<close>

lemma record_failure:
  assumes "HasAnnotation c StatusRecordAnnotationKey \<noteq> None" "failed_state F" "st_clusterStatus (bc_status c) = F"
  shows "recordBKEClusterStatus limit now m c =
    (let sr2 = count_failure F (SetCurrentClusterState (get_or empty_record (sm_clusters m) (ClientObjNS c))
                  (st_clusterHealthState (bc_status c)));
         ok = AllowFailed limit sr2
     in (m\<lparr>sm_clusters := AList.update (ClientObjNS c)
             ((if ok then sr2 else sr_Reset sr2)\<lparr>sr_needRequeue := ok\<rparr>) (sm_clusters m)\<rparr>,
         RemoveAnnotation (if ok then set_clusterStatus c (sr_latestNormalState sr2)
                           else mark_exhausted (sr_currentClusterState sr2) now c) StatusRecordAnnotationKey))"
  using assms failed_not_empty [of F] by (auto simp: recordBKEClusterStatus_def Let_def)

lemma GetCtrlResult_frame: "GetCtrlResult m (RemoveAnnotation c k) = GetCtrlResult m c"
  by (simp add: GetCtrlResult_def)

definition cluster_record :: "status_manager \<Rightarrow> bke_cluster \<Rightarrow> status_record" where
  "cluster_record m c = get_or empty_record (sm_clusters m) (ClientObjNS c)"

definition node_records :: "status_manager \<Rightarrow> bke_cluster \<Rightarrow> status_record gomap" where
  "node_records m c = get_or [] (sm_nodes m) (ClientObjNS c)"

text \<open>The invariant of the manager.\<close>

definition manager_wf :: "int \<Rightarrow> status_manager \<Rightarrow> bool" where
  "manager_wf limit m \<longleftrightarrow>
     (\<forall>k r. map_of (sm_clusters m) k = Some r \<longrightarrow> record_wf limit r \<and> sr_latestNormalState r \<noteq> ClusterPaused) \<and>
     (\<forall>k srs ip r. map_of (sm_nodes m) k = Some srs \<longrightarrow> map_of srs ip = Some r \<longrightarrow> record_wf limit r)"

lemma cluster_record_wf:
  "manager_wf limit m \<Longrightarrow> record_wf limit (cluster_record m c) \<and> sr_latestNormalState (cluster_record m c) \<noteq> ClusterPaused"
  by (auto simp: manager_wf_def cluster_record_def get_or_def empty_record_def record_wf_def ClusterPaused_def split: option.splits)

lemma count_failure_normal [simp]: "sr_latestNormalState (count_failure s r) = sr_latestNormalState r"
  "sr_latestNormalState (SetCurrentClusterState r s) = sr_latestNormalState r"
  "sr_latestNormalState (sr_Reset r) = sr_latestNormalState r"
  "sr_latestNormalState (SetLatestNormalState r s) = s"
  by (simp_all add: record_ops)

lemma recordBKEClusterStatus_wf:
  assumes "manager_wf limit m"
  shows "manager_wf limit (fst (recordBKEClusterStatus limit now m c))"
proof -
  let ?r = "cluster_record m c"
  have r: "record_wf limit ?r" "sr_latestNormalState ?r \<noteq> ClusterPaused" using cluster_record_wf [OF assms] by auto
  have "\<exists>r'. fst (recordBKEClusterStatus limit now m c) = m\<lparr>sm_clusters := AList.update (ClientObjNS c) r' (sm_clusters m)\<rparr> \<and>
      record_wf limit r' \<and> sr_latestNormalState r' \<noteq> ClusterPaused \<or> fst (recordBKEClusterStatus limit now m c) = m"
    using r record_wf_count [of limit "SetCurrentClusterState ?r s" for s] record_wf_reset [of limit "SetCurrentClusterState ?r s" for s]
    unfolding recordBKEClusterStatus_def Let_def cluster_record_def [symmetric] by auto
  then show ?thesis
    using assms by (auto simp: manager_wf_def split: if_splits)
qed

section \<open>The node branch\<close>

abbreviation ip_of :: "bke_node \<Rightarrow> string" where
  "ip_of n \<equiv> ns_ip (bn_spec n)"

definition ips_distinct :: "bke_node list \<Rightarrow> bool" where
  "ips_distinct ns \<longleftrightarrow> distinct (map (ns_ip \<circ> bn_spec) ns)"

lemma upd_first_nth:
  "ips_distinct ns \<Longrightarrow> i < length ns \<Longrightarrow> upd_first g (ip_of (ns ! i)) ns = ns[i := g (ns ! i)]"
proof (induction ns arbitrary: i)
  case (Cons n ns)
  show ?case
  proof (cases i)
    case (Suc j)
    with Cons.prems have j: "j < length ns" "ip_of (ns ! j) \<in> (ns_ip \<circ> bn_spec) ` set ns" by auto
    with Cons.prems(1) have "ip_of n \<noteq> ip_of (ns ! j)" by (auto simp: ips_distinct_def)
    with Suc Cons j show ?thesis by (simp add: ips_distinct_def)
  qed simp
qed simp

lemma ips_distinct_upd: "ips_distinct ns \<Longrightarrow> i < length ns \<Longrightarrow> bn_spec n = bn_spec (ns ! i) \<Longrightarrow> ips_distinct (ns[i := n])"
  unfolding ips_distinct_def map_update by (metis comp_apply list_update_id map_update nth_map)

text \<open>What happens to one node, as if it were alone: its record and itself.\<close>

definition alone :: "int \<Rightarrow> status_record option \<Rightarrow> bke_node \<Rightarrow> status_record option \<times> bke_node" where
  "alone limit ro n =
     (let (srs, ns) = recordSingleNodeState limit 0 (case ro of None \<Rightarrow> [] | Some r \<Rightarrow> [(ip_of n, r)], [n])
      in (map_of srs (ip_of n), hd ns))"

lemmas single_ops = recordSingleNodeState_def Let_def SetNodeState_def MarkNodeStateFlag_def UnmarkNodeStateFlag_def
  GetNodeStateFlag_def

lemma single_is_alone:
  assumes "ips_distinct ns" "i < length ns"
  shows "fst (alone limit (map_of srs (ip_of (ns ! i))) (ns ! i)) = map_of (fst (recordSingleNodeState limit i (srs, ns))) (ip_of (ns ! i))"
    and "snd (recordSingleNodeState limit i (srs, ns)) = ns[i := snd (alone limit (map_of srs (ip_of (ns ! i))) (ns ! i))]"
    and "ip \<noteq> ip_of (ns ! i) \<Longrightarrow> map_of (fst (recordSingleNodeState limit i (srs, ns))) ip = map_of srs ip"
    and "bn_spec (snd (alone limit (map_of srs (ip_of (ns ! i))) (ns ! i))) = bn_spec (ns ! i)"
proof -
  have g: "GetNodeByIP ns (ip_of (ns ! i)) = Some (ns ! i)" using assms by (simp add: GetNodeByIP_nth ips_distinct_def)
  have u: "upd_first g (ip_of (ns ! i)) ns = ns[i := g (ns ! i)]" for g by (rule upd_first_nth [OF assms])
  have u2: "upd_first g (ip_of (ns ! i)) (ns[i := n]) = ns[i := g n]" if "bn_spec n = bn_spec (ns ! i)" for g n
    using upd_first_nth [OF ips_distinct_upd [OF assms that], of i g] assms that by simp
  have ro: "get_or empty_record (case map_of srs k of None \<Rightarrow> [] | Some r \<Rightarrow> [(k, r)]) k = get_or empty_record srs k" for k
    by (simp add: get_or_def split: option.splits)
  show "snd (recordSingleNodeState limit i (srs, ns)) = ns[i := snd (alone limit (map_of srs (ip_of (ns ! i))) (ns ! i))]"
    by (simp add: alone_def single_ops g u u2 ro del: has_flag_bit)
  show "fst (alone limit (map_of srs (ip_of (ns ! i))) (ns ! i)) = map_of (fst (recordSingleNodeState limit i (srs, ns))) (ip_of (ns ! i))"
    by (simp add: alone_def single_ops g ro del: has_flag_bit split: option.splits)
  show "ip \<noteq> ip_of (ns ! i) \<Longrightarrow> map_of (fst (recordSingleNodeState limit i (srs, ns))) ip = map_of srs ip"
    by (simp add: single_ops)
  show "bn_spec (snd (alone limit (map_of srs (ip_of (ns ! i))) (ns ! i))) = bn_spec (ns ! i)"
    by (simp add: alone_def single_ops)
qed

lemma nodes_loop:
  assumes "ips_distinct ns" "j \<le> length ns"
  shows "case fold (recordSingleNodeState limit) [0..<j] (srs, ns) of (srs', ns') \<Rightarrow>
     ips_distinct ns' \<and> length ns' = length ns \<and> map bn_spec ns' = map bn_spec ns \<and>
     (\<forall>i<length ns. ns' ! i = (if i < j then snd (alone limit (map_of srs (ip_of (ns ! i))) (ns ! i)) else ns ! i) \<and>
        map_of srs' (ip_of (ns ! i)) = (if i < j then fst (alone limit (map_of srs (ip_of (ns ! i))) (ns ! i)) else map_of srs (ip_of (ns ! i))))"
  using assms(2)
proof (induction j)
  case (Suc j)
  obtain srs1 ns1 where f: "fold (recordSingleNodeState limit) [0..<j] (srs, ns) = (srs1, ns1)" by force
  from Suc f have d: "ips_distinct ns1" "length ns1 = length ns" "map bn_spec ns1 = map bn_spec ns"
    and at: "\<And>i. i < length ns \<Longrightarrow> ns1 ! i = (if i < j then snd (alone limit (map_of srs (ip_of (ns ! i))) (ns ! i)) else ns ! i)"
      "\<And>i. i < length ns \<Longrightarrow> map_of srs1 (ip_of (ns ! i)) = (if i < j then fst (alone limit (map_of srs (ip_of (ns ! i))) (ns ! i)) else map_of srs (ip_of (ns ! i)))"
    by auto
  have j: "j < length ns1" "ns1 ! j = ns ! j" using Suc.prems d(2) at(1) [of j] by auto
  have ne: "ip_of (ns ! i) \<noteq> ip_of (ns ! j)" if "i \<noteq> j" "i < length ns" for i
    using assms(1) that Suc.prems by (auto simp: ips_distinct_def distinct_conv_nth)
  obtain srs2 ns2 where s: "recordSingleNodeState limit j (srs1, ns1) = (srs2, ns2)" by force
  note a = single_is_alone [OF d(1) j(1), where limit = limit and srs = srs1, unfolded s j(2) fst_conv snd_conv]
  have sj: "map_of srs1 (ip_of (ns ! j)) = map_of srs (ip_of (ns ! j))" using at(2) [of j] Suc.prems by simp
  have ns2: "ns2 = ns1[j := snd (alone limit (map_of srs (ip_of (ns ! j))) (ns ! j))]" using a(2) sj by simp
  have sp: "bn_spec (snd (alone limit (map_of srs (ip_of (ns ! j))) (ns ! j))) = bn_spec (ns1 ! j)" using a(4) sj j by simp
  have dist: "ips_distinct ns2" unfolding ns2 by (rule ips_distinct_upd [OF d(1) j(1) sp])
  have spec: "map bn_spec ns2 = map bn_spec ns" unfolding ns2 map_update sp
    using d(3) j(1) by (metis list_update_id map_update)
  have rec: "map_of srs2 (ip_of (ns ! i)) = (if i < Suc j then fst (alone limit (map_of srs (ip_of (ns ! i))) (ns ! i)) else map_of srs (ip_of (ns ! i)))"
    if "i < length ns" for i
    using that a(1) a(3) [of "ip_of (ns ! i)"] at(2) [of i] ne [of i] sj by (cases "i = j") auto
  show ?case using f s dist spec rec d(2) at(1) by (auto simp: ns2 nth_list_update less_Suc_eq)
qed (use assms in auto)

lemma recordBKENodesStatus_each:
  assumes "ips_distinct ns" "recordBKENodesStatus limit m c ns = (m', ns')"
  shows "length ns' = length ns" "map bn_spec ns' = map bn_spec ns"
    and "i < length ns \<Longrightarrow> (map_of (node_records m' c) (ip_of (ns ! i)), ns' ! i) =
           alone limit (map_of (node_records m c) (ip_of (ns ! i))) (ns ! i)"
proof -
  obtain srs' ns1 where f: "fold (recordSingleNodeState limit) [0..<length ns] (node_records m c, ns) = (srs', ns1)" by force
  note l = nodes_loop [OF assms(1) order_refl, of limit "node_records m c", unfolded f prod.case]
  have "ns \<noteq> [] \<Longrightarrow> ns' = ns1 \<and> node_records m' c = srs'" "ns = [] \<Longrightarrow> ns' = []"
    using assms(2) f by (auto simp: recordBKENodesStatus_def node_records_def Let_def)
  with l show "length ns' = length ns" "map bn_spec ns' = map bn_spec ns"
    "i < length ns \<Longrightarrow> (map_of (node_records m' c) (ip_of (ns ! i)), ns' ! i) =
           alone limit (map_of (node_records m c) (ip_of (ns ! i))) (ns ! i)"
    by (cases "ns = []"; auto simp: prod_eq_iff)+
qed

text \<open>The outcome for one node, by cases.\<close>

lemma alone_unflagged: "\<not> has_flag n NodeStateNeedRecord \<Longrightarrow> alone limit ro n = (ro, n)"
  by (auto simp: alone_def recordSingleNodeState_def Let_def GetNodeStateFlag_def split: option.splits)

lemma alone_recorded:
  assumes "alone limit ro n = (ro', n')"
  shows "\<not> has_flag n' NodeStateNeedRecord"
proof (cases "has_flag n NodeStateNeedRecord")
  case False
  with alone_unflagged [OF False] assms show ?thesis by auto
next
  case True
  with assms show ?thesis
    by (auto simp: alone_def single_ops split: if_splits)
qed

lemma alone_failure:
  assumes "has_flag n NodeStateNeedRecord" "nst_state (bn_status n) = F" "failed_state F"
    and r: "r = (case ro of None \<Rightarrow> empty_record | Some r \<Rightarrow> r)" and ok: "ok = AllowFailed limit (count_failure F r)"
    and "alone limit ro n = (ro', n')"
  shows "ro' = Some ((if ok then count_failure F r else sr_Reset (count_failure F r))\<lparr>sr_needRequeue := ok\<rparr>)"
    "nst_state (bn_status n') = (if ok then sr_latestNormalState r else F)"
    "has_flag n' NodeFailedFlag \<longleftrightarrow> \<not> ok \<or> has_flag n NodeFailedFlag"
proof -
  have g: "get_or empty_record (case ro of None \<Rightarrow> [] | Some r \<Rightarrow> [(ip_of n, r)]) (ip_of n) = r"
    by (simp add: r get_or_def split: option.splits)
  from assms(1-3,6) failed_not_empty [OF assms(3)] show
    "ro' = Some ((if ok then count_failure F r else sr_Reset (count_failure F r))\<lparr>sr_needRequeue := ok\<rparr>)"
    "nst_state (bn_status n') = (if ok then sr_latestNormalState r else F)"
    "has_flag n' NodeFailedFlag \<longleftrightarrow> \<not> ok \<or> has_flag n NodeFailedFlag"
    unfolding ok by (auto simp: alone_def single_ops g split: if_splits)
qed

section \<open>The invariant of the manager\<close>

definition records_wf :: "int \<Rightarrow> status_record gomap \<Rightarrow> bool" where
  "records_wf limit srs \<longleftrightarrow> (\<forall>ip r. map_of srs ip = Some r \<longrightarrow> record_wf limit r)"

lemma records_wf_update: "records_wf limit srs \<Longrightarrow> record_wf limit r \<Longrightarrow> records_wf limit (AList.update ip r srs)"
  by (simp add: records_wf_def)

lemma recordSingleNodeState_wf:
  assumes "records_wf limit (fst st)"
  shows "records_wf limit (fst (recordSingleNodeState limit i st))"
proof -
  obtain srs ns where st: "st = (srs, ns)" by force
  have r: "record_wf limit (get_or empty_record srs ip)" for ip
    using assms st by (auto simp: records_wf_def get_or_def split: option.splits)
  show ?thesis
    using assms r record_wf_count record_wf_reset
    by (auto simp: recordSingleNodeState_def Let_def st intro!: records_wf_update)
qed

lemma fold_single_wf: "records_wf limit (fst st) \<Longrightarrow> records_wf limit (fst (fold (recordSingleNodeState limit) is st))"
proof (induction "is" arbitrary: st)
  case (Cons i "is")
  from Cons.IH [OF recordSingleNodeState_wf [OF Cons.prems]] show ?case by simp
qed simp

lemma manager_wf_records: "manager_wf limit m \<Longrightarrow> records_wf limit (node_records m c)"
  by (auto simp: manager_wf_def records_wf_def node_records_def get_or_def split: option.splits)

lemma recordBKENodesStatus_wf:
  assumes "manager_wf limit m"
  shows "manager_wf limit (fst (recordBKENodesStatus limit m c ns))"
proof -
  obtain srs ns1 where f: "fold (recordSingleNodeState limit) [0..<length ns] (node_records m c, ns) = (srs, ns1)" by force
  then have "records_wf limit srs"
    using fold_single_wf [of limit "(node_records m c, ns)"] manager_wf_records [OF assms] by (metis fst_conv)
  with assms f show ?thesis
    by (auto simp: recordBKENodesStatus_def Let_def node_records_def manager_wf_def records_wf_def split: if_splits)
qed

text \<open>What other clusters see.\<close>

definition same_for :: "string \<Rightarrow> status_manager \<Rightarrow> status_manager \<Rightarrow> bool" where
  "same_for k m m' \<longleftrightarrow> map_of (sm_clusters m) k = map_of (sm_clusters m') k \<and> map_of (sm_nodes m) k = map_of (sm_nodes m') k"

lemma SetStatus_other: "k \<noteq> ClientObjNS c \<Longrightarrow> same_for k (fst (SetStatus limit now m c ns)) m"
  by (auto simp: SetStatus_def recordBKEClusterStatus_def recordBKENodesStatus_def same_for_def Let_def split: prod.splits)

lemma recordBKEClusterStatus_name: "ClientObjNS (snd (recordBKEClusterStatus limit now m c)) = ClientObjNS c"
  by (auto simp: recordBKEClusterStatus_def Let_def)

lemma recordBKEClusterStatus_annotation:
  "HasAnnotation (snd (recordBKEClusterStatus limit now m c)) StatusRecordAnnotationKey = None"
  by (auto simp: recordBKEClusterStatus_def Let_def)

lemma recordBKEClusterStatus_nodes: "sm_nodes (fst (recordBKEClusterStatus limit now m c)) = sm_nodes m"
  by (auto simp: recordBKEClusterStatus_def Let_def)

section \<open>Properties\<close>

text \<open>A cluster and a node for the witnesses, both failed and waiting to be recorded.\<close>

definition sample_cluster :: bke_cluster where
  "sample_cluster = (blank_cluster ''n'' ''c'')\<lparr>bc_uid := ''u1'', bc_annotations := [(StatusRecordAnnotationKey, [])],
     bc_status := empty_status\<lparr>st_clusterStatus := ''ScaleFailed''\<rparr>\<rparr>"

definition sample_failed :: "string \<Rightarrow> bke_node" where
  "sample_failed ip = upd_status (\<lambda>s. s\<lparr>nst_state := ''InitFailed'', nst_stateCode := flag_value NodeStateNeedRecord\<rparr>) (sample_node ip)"

lemma sample_failed_flag [simp]: "has_flag (sample_failed ip) NodeStateNeedRecord" "ip_of (sample_failed ip) = ip"
  "nst_state (bn_status (sample_failed ip)) = ''InitFailed''" "\<not> has_flag (sample_failed ip) NodeFailedFlag"
  by (simp_all add: sample_failed_def bit_flag sample_node_def flag_index_inj)

text \<open>Every operation keeps the manager's invariant: counters are positive exactly while a failed
  state is remembered and stay below the budget, whatever is recorded and in whichever order.\<close>
theorem manager_invariant:
  assumes "manager_wf limit m"
  shows "manager_wf limit (fst (SetStatus limit now m c ns)) \<and>
     manager_wf limit (RemoveClusterStatusManagerCache m c) \<and>
     manager_wf limit (RemoveSingleNodeStatusCache m c ip) \<and> manager_wf limit NewStatusManager"
proof -
  obtain m1 c1 where r: "recordBKEClusterStatus limit now m c = (m1, c1)" by force
  then have "manager_wf limit m1" using recordBKEClusterStatus_wf [OF assms, of now c] by simp
  then have "manager_wf limit (fst (SetStatus limit now m c ns))"
    using recordBKENodesStatus_wf [of limit m1 c1 ns] r by (auto simp: SetStatus_def Let_def split: prod.splits)
  with assms show ?thesis
    by (auto simp: manager_wf_def RemoveClusterStatusManagerCache_def RemoveNodesStatusCache_def
        RemoveBKEClusterStatusCache_def RemoveSingleNodeStatusCache_def NewStatusManager_def split: option.splits if_splits)
qed

theorem manager_invariant_witness:
  "manager_wf 10 (RemoveSingleNodeStatusCache NewStatusManager sample_cluster ''a'') \<and>
   manager_wf 10 (fst (SetStatus 10 0 NewStatusManager sample_cluster [sample_failed ''a'']))"
proof -
  have "manager_wf 10 NewStatusManager" by (simp add: manager_wf_def NewStatusManager_def)
  from manager_invariant [OF this] show ?thesis by blast
qed

text \<open>Recording touches one cluster only: the records of every other cluster stay as they are. It
  clears the request to record of the cluster, and of every node when the addresses are distinct.\<close>
theorem SetStatus_local:
  assumes "SetStatus limit now m c ns = (m', c', ns')" "ips_distinct ns"
  shows "(same_for k m' m \<or> k = ClientObjNS c) \<and>
     HasAnnotation c' StatusRecordAnnotationKey = None \<and> GetModifiedNodes ns' = [] \<and> map bn_spec ns' = map bn_spec ns"
proof -
  have o: "same_for k m' m \<or> k = ClientObjNS c" using SetStatus_other [of k c limit now m ns] assms(1) by auto
  obtain m1 where r: "recordBKEClusterStatus limit now m c = (m1, c')" "recordBKENodesStatus limit m1 c' ns = (m', ns')"
    using assms(1) by (auto simp: SetStatus_def Let_def split: prod.splits)
  note e = recordBKENodesStatus_each [OF assms(2) r(2)]
  have "\<not> has_flag n NodeStateNeedRecord" if "n \<in> set ns'" for n
  proof -
    from that obtain i where "i < length ns" "n = ns' ! i" using e(1) by (auto simp: in_set_conv_nth)
    with e(3) [of i] alone_recorded show ?thesis by metis
  qed
  then have "GetModifiedNodes ns' = []" by (auto simp: GetModifiedNodes_def filter_empty_conv)
  with o e(2) recordBKEClusterStatus_annotation [of limit now m c] r(1) show ?thesis by simp
qed

theorem SetStatus_local_witness:
  "GetModifiedNodes [sample_failed ''a''] = [sample_failed ''a''] \<and>
   GetModifiedNodes (snd (snd (SetStatus 10 0 NewStatusManager sample_cluster [sample_failed ''a'']))) = []"
proof -
  obtain m' c' ns' where s: "SetStatus 10 0 NewStatusManager sample_cluster [sample_failed ''a''] = (m', c', ns')"
    by (metis prod_cases3)
  have "ips_distinct [sample_failed ''a'']" by (simp add: ips_distinct_def)
  from SetStatus_local [OF s this] s show ?thesis
    by (simp add: GetModifiedNodes_def del: has_flag_bit)
qed

text \<open>The k-th consecutive recording of one and the same situation.\<close>

definition cluster_rounds :: "int \<Rightarrow> gotime \<Rightarrow> bke_cluster \<Rightarrow> nat \<Rightarrow> status_manager \<Rightarrow> status_manager" where
  "cluster_rounds limit now c k m = ((\<lambda>m. fst (recordBKEClusterStatus limit now m c)) ^^ k) m"

lemma cluster_rounds_run:
  assumes "HasAnnotation c StatusRecordAnnotationKey \<noteq> None" "failed_state F" "st_clusterStatus (bc_status c) = F" "0 < n"
    and "in_run n F v 0 (cluster_record m c)"
  shows "in_run n F v k (cluster_record (cluster_rounds (int n) now c k m) c)"
proof (induction k)
  case 0
  with assms(5) show ?case by (simp add: cluster_rounds_def)
next
  case (Suc k)
  let ?m = "cluster_rounds (int n) now c k m"
  have "in_run n F v k (SetCurrentClusterState (cluster_record ?m c) (st_clusterHealthState (bc_status c)))" using Suc by simp
  from in_run_step [OF this assms(4)] failed_not_empty [OF assms(2)]
  have "in_run n F v (Suc k) (cluster_record (fst (recordBKEClusterStatus (int n) now ?m c)) c)"
    by (simp add: record_failure [OF assms(1-3)] Let_def cluster_record_def split: if_splits)
  then show ?case by (simp add: cluster_rounds_def)
qed



text \<open>Nodes are recorded independently: with distinct addresses, recording a list of nodes changes
  the record and the node at each position as recording that node alone would.\<close>
theorem nodes_recorded_independently:
  assumes "ips_distinct ns" "recordBKENodesStatus limit m c ns = (m', ns')" "i < length ns"
  shows "length ns' = length ns \<and>
     (map_of (node_records m' c) (ip_of (ns ! i)), ns' ! i) = alone limit (map_of (node_records m c) (ip_of (ns ! i))) (ns ! i)"
  using recordBKENodesStatus_each [OF assms(1,2)] assms(3) by simp

theorem nodes_recorded_independently_witness:
  "\<exists>m' ns'. recordBKENodesStatus 3 NewStatusManager sample_cluster [sample_failed ''a'', sample_failed ''b''] = (m', ns') \<and>
     ns' ! 1 = snd (alone 3 None (sample_failed ''b''))"
proof -
  let ?ns = "[sample_failed ''a'', sample_failed ''b'']"
  obtain m' ns' where r: "recordBKENodesStatus 3 NewStatusManager sample_cluster ?ns = (m', ns')" by force
  have "ips_distinct ?ns" by (simp add: ips_distinct_def)
  from nodes_recorded_independently [OF this r, of 1] r show ?thesis
    by (simp add: prod_eq_iff node_records_def NewStatusManager_def)
qed

definition node_rounds :: "int \<Rightarrow> bke_cluster \<Rightarrow> bke_node list \<Rightarrow> nat \<Rightarrow> status_manager \<Rightarrow> status_manager" where
  "node_rounds limit c ns k m = ((\<lambda>m. fst (recordBKENodesStatus limit m c ns)) ^^ k) m"

definition node_record :: "status_manager \<Rightarrow> bke_cluster \<Rightarrow> string \<Rightarrow> status_record" where
  "node_record m c ip = get_or empty_record (node_records m c) ip"

lemma node_record_step:
  assumes "ips_distinct ns" "i < length ns" "has_flag (ns ! i) NodeStateNeedRecord" "failed_state F" "nst_state (bn_status (ns ! i)) = F"
    and "recordBKENodesStatus limit m c ns = (m', ns')"
    and r: "r = node_record m c (ip_of (ns ! i))" and ok: "ok = AllowFailed limit (count_failure F r)"
  shows "map_of (node_records m' c) (ip_of (ns ! i)) = Some ((if ok then count_failure F r else sr_Reset (count_failure F r))\<lparr>sr_needRequeue := ok\<rparr>)"
    "nst_state (bn_status (ns' ! i)) = (if ok then sr_latestNormalState r else F)"
    "has_flag (ns' ! i) NodeFailedFlag \<longleftrightarrow> \<not> ok \<or> has_flag (ns ! i) NodeFailedFlag"
proof -
  have r': "r = (case map_of (node_records m c) (ip_of (ns ! i)) of None \<Rightarrow> empty_record | Some r \<Rightarrow> r)"
    by (simp add: r node_record_def get_or_def)
  have "alone limit (map_of (node_records m c) (ip_of (ns ! i))) (ns ! i) = (map_of (node_records m' c) (ip_of (ns ! i)), ns' ! i)"
    using recordBKENodesStatus_each(3) [OF assms(1,6,2)] by simp
  from alone_failure [OF assms(3,5,4) r' ok this]
  show "map_of (node_records m' c) (ip_of (ns ! i)) = Some ((if ok then count_failure F r else sr_Reset (count_failure F r))\<lparr>sr_needRequeue := ok\<rparr>)"
    "nst_state (bn_status (ns' ! i)) = (if ok then sr_latestNormalState r else F)"
    "has_flag (ns' ! i) NodeFailedFlag \<longleftrightarrow> \<not> ok \<or> has_flag (ns ! i) NodeFailedFlag" by auto
qed

lemma node_rounds_run:
  assumes "ips_distinct ns" "i < length ns" "has_flag (ns ! i) NodeStateNeedRecord" "failed_state F" "nst_state (bn_status (ns ! i)) = F"
    "0 < n" "in_run n F v 0 (node_record m c (ip_of (ns ! i)))"
  shows "in_run n F v k (node_record (node_rounds (int n) c ns k m) c (ip_of (ns ! i)))"
proof (induction k)
  case 0
  with assms(7) show ?case by (simp add: node_rounds_def)
next
  case (Suc k)
  obtain m' ns' where r: "recordBKENodesStatus (int n) (node_rounds (int n) c ns k m) c ns = (m', ns')" by force
  note s = node_record_step(1) [OF assms(1-5) r refl refl]
  from in_run_step [OF Suc assms(6)] failed_not_empty [OF assms(4)]
  have "in_run n F v (Suc k) (node_record m' c (ip_of (ns ! i)))" using s by (simp add: node_record_def [of m'] get_or_def)
  with r show ?case by (simp add: node_rounds_def)
qed

text \<open>With a budget of n, the k-th recording in a row of one failure of a node asks for a retry exactly
  when n does not divide k; the node then shows its last normal state, and otherwise it keeps the
  failed state and is marked as failed, so that later reconciliations skip it.\<close>
theorem node_retry_budget:
  assumes "ips_distinct ns" "i < length ns" "has_flag (ns ! i) NodeStateNeedRecord"
    and "failed_state (nst_state (bn_status (ns ! i)))" "0 < n"
    and "sr_latestFailedState (node_record m c (ip_of (ns ! i))) \<noteq> nst_state (bn_status (ns ! i))"
    and "recordBKENodesStatus (int n) (node_rounds (int n) c ns k m) c ns = (m', ns')"
  shows "GetNodesResult m' c (ip_of (ns ! i)) = (\<not> n dvd Suc k) \<and>
     nst_state (bn_status (ns' ! i)) =
       (if n dvd Suc k then nst_state (bn_status (ns ! i)) else sr_latestNormalState (node_record m c (ip_of (ns ! i)))) \<and>
     (has_flag (ns' ! i) NodeFailedFlag \<longleftrightarrow> n dvd Suc k \<or> has_flag (ns ! i) NodeFailedFlag)"
proof -
  let ?F = "nst_state (bn_status (ns ! i))" and ?v = "sr_latestNormalState (node_record m c (ip_of (ns ! i)))"
  let ?r = "node_record (node_rounds (int n) c ns k m) c (ip_of (ns ! i))"
  have "in_run n ?F ?v 0 (node_record m c (ip_of (ns ! i)))" using assms(6) by (simp add: in_run_def)
  from node_rounds_run [OF assms(1-4) refl assms(5) this] have run: "in_run n ?F ?v k ?r" .
  have ok: "AllowFailed (int n) (count_failure ?F ?r) \<longleftrightarrow> \<not> n dvd Suc k"
    using in_run_allow [OF run assms(5)] by (simp add: dvd_eq_mod_eq_0)
  have normal: "sr_latestNormalState ?r = ?v" using run by (simp add: in_run_def)
  note s = node_record_step [OF assms(1-4) refl assms(7) refl refl]
  have "GetNodesResult m' c (ip_of (ns ! i)) = AllowFailed (int n) (count_failure ?F ?r)"
    using s(1) by (auto simp: GetNodesResult_def node_records_def get_or_def split: option.splits)
  with s ok normal show ?thesis by (simp add: has_flag_def)
qed

theorem node_retry_budget_witness:
  "\<exists>m' ns'. recordBKENodesStatus 2 (node_rounds 2 sample_cluster [sample_failed ''a''] 1 NewStatusManager) sample_cluster [sample_failed ''a''] = (m', ns') \<and>
     \<not> GetNodesResult m' sample_cluster ''a'' \<and> has_flag (ns' ! 0) NodeFailedFlag"
proof -
  let ?ns = "[sample_failed ''a'']"
  obtain m' ns' where r: "recordBKENodesStatus (int 2) (node_rounds (int 2) sample_cluster ?ns 1 NewStatusManager) sample_cluster ?ns = (m', ns')"
    by force
  have h: "ips_distinct ?ns" "0 < length ?ns" "has_flag (?ns ! 0) NodeStateNeedRecord" "failed_state (nst_state (bn_status (?ns ! 0)))" "(0 :: nat) < 2"
    by (simp_all add: ips_distinct_def failed_state_def HasSuffix_def del: has_flag_bit)
  have "sr_latestFailedState (node_record NewStatusManager sample_cluster (ip_of (?ns ! 0))) \<noteq> nst_state (bn_status (?ns ! 0))"
    by (simp add: node_record_def node_records_def NewStatusManager_def empty_record_def)
  from node_retry_budget [OF h this r] r show ?thesis by (simp del: has_flag_bit)
qed

end
