(* ===== verification/Merge_Cluster.thy ===== *)
theory Merge_Cluster
  imports Status_Manager Api_Retry "HOL-Library.Sublist"
begin

text \<open>
  Writing a cluster object back: \<^verbatim>\<open>pkg/mergecluster/bkecluster.go\<close> with the diff of
  \<^verbatim>\<open>utils/capbke/patchutil\<close>. A controller works on a copy of the cluster object; before it is
  stored, the copy is merged with what others wrote meanwhile: the declarative progress is taken from
  the stored object, edits of the specification are applied to the copy as a JSON patch, the phase
  history is trimmed, and the status manager counts failures.

  Parameters (\<open>merge_env\<close>): the client of the API server over an unknown state, the patch helper, the
  JSON and JSON patch packages and the clock. The in-memory object is passed on explicitly, since the
  code changes it through a pointer.

  The results: what is stored after a successful write; progress of a declarative upgrade is never
  overwritten by an older copy; the phase history is a subsequence without repetitions and with at
  most three failures of \<^verbatim>\<open>EnsureCluster\<close>; the retry loop always ends; node states are written for
  the marked nodes only.
\<close>

section \<open>Phase history\<close>

(* src: api/capbke/v1beta1/bkecluster_consts.go 215-215 PhaseFailed *)
definition PhaseFailed :: string where
  "PhaseFailed = ''Failed''"

definition failed_ensure :: "phase_state \<Rightarrow> bool" where
  "failed_ensure p \<longleftrightarrow> ps_name p = ''EnsureCluster'' \<and> ps_status p = PhaseFailed"

definition phase_key :: "phase_state \<Rightarrow> bke_phase \<times> string \<times> string" where
  "phase_key p = (ps_name p, ps_status p, ps_message p)"

text \<open>The map from keys to their last index, filled in one pass.\<close>

(* src: pkg/mergecluster/bkecluster.go 793-801 deduplicatePhaseStatus (first loop) *)
definition last_index :: "phase_state list \<Rightarrow> (bke_phase \<times> string \<times> string) \<Rightarrow> nat option" where
  "last_index ph = foldl (\<lambda>m i. m(phase_key (ph ! i) \<mapsto> i)) Map.empty [0..<length ph]"

(* src: pkg/mergecluster/bkecluster.go 786-815 deduplicatePhaseStatus *)
definition deduplicatePhaseStatus :: "phase_state list \<Rightarrow> phase_state list" where
  "deduplicatePhaseStatus ph =
     map (\<lambda>i. ph ! i) (filter (\<lambda>i. last_index ph (phase_key (ph ! i)) = Some i) [0..<length ph])"

(* src: pkg/mergecluster/bkecluster.go 817-828 getLastFailedEnsureClusterIndices *)
definition getLastFailedEnsureClusterIndices :: "phase_state list \<Rightarrow> nat \<Rightarrow> nat list" where
  "getLastFailedEnsureClusterIndices ph maxFailures =
     (let indices = filter (\<lambda>i. failed_ensure (ph ! i)) (rev [0..<length ph])
      in if maxFailures = 0 then indices else take maxFailures indices)"

(* src: pkg/mergecluster/bkecluster.go 830-843 removeOldFailedEnsureCluster *)
definition removeOldFailedEnsureCluster :: "phase_state list \<Rightarrow> nat list \<Rightarrow> phase_state list" where
  "removeOldFailedEnsureCluster ph indices =
     (let lastStart = last indices; tail = drop lastStart ph
      in filter (\<lambda>p. \<not> failed_ensure p) (take lastStart ph) @ tail)"

(* src: pkg/mergecluster/bkecluster.go 769-784 fixPhaseStatus *)
definition fixPhaseStatus :: "phase_state list \<Rightarrow> phase_state list" where
  "fixPhaseStatus ph =
     (if ph = [] then ph
      else let deduped = deduplicatePhaseStatus ph;
               lastEnsureIndices = getLastFailedEnsureClusterIndices deduped 3
           in if lastEnsureIndices = [] then deduped else removeOldFailedEnsureCluster deduped lastEnsureIndices)"

section \<open>The trimmed history\<close>

text \<open>The reference: of the entries with one key only the last stays.\<close>

fun keep_last :: "phase_state list \<Rightarrow> phase_state list" where
  "keep_last [] = []"
| "keep_last (p # ps) = (if phase_key p \<in> phase_key ` set ps then keep_last ps else p # keep_last ps)"

lemma upt_Suc_map: "[0..<Suc n] = 0 # map Suc [0..<n]"
  by (simp add: upt_conv_Cons map_Suc_upt del: upt_Suc)

lemma last_index_upto:
  "(foldl (\<lambda>m i. m(phase_key (ph ! i) \<mapsto> i)) Map.empty [0..<n]) k = Some i \<longleftrightarrow>
     i < n \<and> phase_key (ph ! i) = k \<and> k \<notin> phase_key ` (!) ph ` {Suc i..<n}"
proof (induction n arbitrary: i)
  case (Suc n)
  show ?case
  proof (cases "i < n")
    case True
    then have "{Suc i..<Suc n} = insert n {Suc i..<n}" by auto
    with Suc True show ?thesis by auto
  next
    case False
    with Suc show ?thesis by (cases "i = n") auto
  qed
qed simp

lemma last_index_iff:
  assumes "i < length ph"
  shows "last_index ph (phase_key (ph ! i)) = Some i \<longleftrightarrow> phase_key (ph ! i) \<notin> phase_key ` set (drop (Suc i) ph)"
proof -
  have "drop (Suc i) ph = map ((!) ph) [Suc i..<length ph]" by (metis drop_map drop_upt map_nth add_0)
  with assms show ?thesis by (simp add: last_index_def last_index_upto)
qed

lemma deduplicate_eq: "deduplicatePhaseStatus ph = keep_last ph"
proof -
  have "deduplicatePhaseStatus ph = map (\<lambda>i. ph ! i) (filter (\<lambda>i. phase_key (ph ! i) \<notin> phase_key ` set (drop (Suc i) ph)) [0..<length ph])"
    unfolding deduplicatePhaseStatus_def by (rule arg_cong [of _ _ "map ((!) ph)"], rule filter_cong) (simp_all add: last_index_iff)
  also have "\<dots> = keep_last ph"
  proof (induction ph)
    case (Cons p ph)
    then show ?case by (simp add: upt_Suc_map filter_map o_def del: upt_Suc)
  qed simp
  finally show ?thesis .
qed

lemma keep_last_keys: "phase_key ` set (keep_last ph) = phase_key ` set ph"
  by (induction ph) auto

lemma keep_last_distinct: "distinct (map phase_key (keep_last ph))"
  by (induction ph) (auto simp: keep_last_keys)

lemma keep_last_subseq: "subseq (keep_last ph) ph"
  by (induction ph) auto

lemma keep_last_id: "distinct (map phase_key ph) \<Longrightarrow> keep_last ph = ph"
  by (induction ph) auto

text \<open>The reference of the second step: of the failures of \<^verbatim>\<open>EnsureCluster\<close> the last \<open>k\<close> stay.\<close>

fun drop_failed :: "nat \<Rightarrow> phase_state list \<Rightarrow> phase_state list" where
  "drop_failed k [] = []"
| "drop_failed k (p # ps) =
     (if failed_ensure p \<and> k \<le> length (filter failed_ensure ps) then drop_failed k ps else p # drop_failed k ps)"

lemma drop_failed_id: "length (filter failed_ensure ph) \<le> k \<Longrightarrow> drop_failed k ph = ph"
  by (induction ph) (auto split: if_splits)

lemma drop_failed_append:
  "length (filter failed_ensure ys) = k \<Longrightarrow> drop_failed k (xs @ ys) = filter (\<lambda>p. \<not> failed_ensure p) xs @ ys"
  by (induction xs) (auto simp: drop_failed_id)

lemma drop_failed_count: "length (filter failed_ensure (drop_failed k ph)) = min k (length (filter failed_ensure ph))"
proof (induction ph)
  case (Cons p ph)
  then show ?case by (cases "k \<le> length (filter failed_ensure ph)") auto
qed simp

lemma drop_failed_subseq: "subseq (drop_failed k ph) ph"
  by (induction ph) auto

lemma drop_failed_distinct: "distinct (map phase_key ph) \<Longrightarrow> distinct (map phase_key (drop_failed k ph))"
proof (induction ph)
  case (Cons p ph)
  have "set (drop_failed k ph) \<subseteq> set ph" by (induction ph) auto
  with Cons show ?case by auto
qed simp

lemma drop_failed_others: "filter (\<lambda>p. \<not> failed_ensure p) (drop_failed k ph) = filter (\<lambda>p. \<not> failed_ensure p) ph"
  by (induction ph) auto

definition failures :: "phase_state list \<Rightarrow> nat list" where
  "failures ph = filter (\<lambda>i. failed_ensure (ph ! i)) [0..<length ph]"

lemma failures_simps [simp]:
  "failures [] = []"
  "failures (p # ph) = (if failed_ensure p then 0 # map Suc (failures ph) else map Suc (failures ph))"
  by (simp_all add: failures_def upt_Suc_map filter_map o_def del: upt_Suc)

lemma length_failures: "length (failures ph) = length (filter failed_ensure ph)"
  by (induction ph) auto

lemma failures_from:
  "m < length (failures ph) \<Longrightarrow> length (filter failed_ensure (drop (failures ph ! m) ph)) = length (failures ph) - m"
proof (induction ph arbitrary: m)
  case (Cons p ph)
  show ?case
  proof (cases "failed_ensure p")
    case True
    with Cons show ?thesis by (cases m) (auto simp: length_failures)
  qed (use Cons in auto)
qed simp

lemma last_indices: "getLastFailedEnsureClusterIndices ph 3 = take 3 (rev (failures ph))"
  by (simp add: getLastFailedEnsureClusterIndices_def failures_def rev_filter Let_def)

lemma drop_failed_eq:
  assumes "getLastFailedEnsureClusterIndices ph 3 = is" "is \<noteq> []"
  shows "removeOldFailedEnsureCluster ph is = drop_failed 3 ph"
proof -
  let ?f = "failures ph" and ?n = "min 3 (length (failures ph))"
  have "?f \<noteq> []" using assms by (auto simp: last_indices)
  then have m: "length ?f - ?n < length ?f" "0 < ?n" by auto
  have "last is = rev ?f ! (?n - 1)"
    using assms m by (simp add: last_conv_nth last_indices min.commute flip: assms(1))
  also have "\<dots> = ?f ! (length ?f - ?n)" using m by (subst rev_nth) (auto simp: min_def)
  finally have l: "last is = ?f ! (length ?f - ?n)" .
  then have c: "length (filter failed_ensure (drop (last is) ph)) = ?n" using failures_from [OF m(1)] by simp
  have split: "ph = take (last is) ph @ drop (last is) ph" by simp
  have tot: "length (filter failed_ensure ph) = length (filter failed_ensure (take (last is) ph)) + ?n"
    by (subst split) (simp only: filter_append length_append c)
  show ?thesis
  proof (cases "3 \<le> length ?f")
    case True
    with c have "drop_failed 3 (take (last is) ph @ drop (last is) ph) = filter (\<lambda>p. \<not> failed_ensure p) (take (last is) ph) @ drop (last is) ph"
      by (intro drop_failed_append) simp
    then show ?thesis by (simp add: removeOldFailedEnsureCluster_def Let_def)
  next
    case False
    with tot have "filter failed_ensure (take (last is) ph) = []" by (simp add: length_failures)
    then have "filter (\<lambda>p. \<not> failed_ensure p) (take (last is) ph) = take (last is) ph" by (simp add: filter_empty_conv filter_id_conv)
    moreover have "drop_failed 3 ph = ph" using False by (intro drop_failed_id) (simp add: length_failures)
    ultimately show ?thesis by (simp add: removeOldFailedEnsureCluster_def Let_def)
  qed
qed

lemma fixPhaseStatus_eq: "fixPhaseStatus ph = drop_failed 3 (keep_last ph)"
proof (cases "getLastFailedEnsureClusterIndices (keep_last ph) 3 = []")
  case True
  then have "length (filter failed_ensure (keep_last ph)) = 0" by (simp add: last_indices flip: length_failures)
  then have "drop_failed 3 (keep_last ph) = keep_last ph" by (intro drop_failed_id) simp
  with True show ?thesis by (simp add: fixPhaseStatus_def deduplicate_eq)
next
  case False
  then have "ph \<noteq> []" by (auto simp: last_indices)
  with False drop_failed_eq [OF refl False] show ?thesis by (simp add: fixPhaseStatus_def deduplicate_eq)
qed

text \<open>The trimmed history of phases is a subsequence of the history; no two entries agree in
  name, status and message; at most three entries are failures of \<^verbatim>\<open>EnsureCluster\<close>, and these are
  the latest; every other kind of entry is kept in its latest form; and trimming twice changes
  nothing more.\<close>

theorem fixPhaseStatus_correct:
  "subseq (fixPhaseStatus ph) ph \<and> distinct (map phase_key (fixPhaseStatus ph)) \<and>
   length (filter failed_ensure (fixPhaseStatus ph)) = min 3 (length (filter failed_ensure (keep_last ph))) \<and>
   filter (\<lambda>p. \<not> failed_ensure p) (fixPhaseStatus ph) = filter (\<lambda>p. \<not> failed_ensure p) (keep_last ph) \<and>
   suffix (filter failed_ensure (fixPhaseStatus ph)) (filter failed_ensure (keep_last ph)) \<and>
   fixPhaseStatus (fixPhaseStatus ph) = fixPhaseStatus ph"
proof -
  have d: "distinct (map phase_key (fixPhaseStatus ph))"
    using drop_failed_distinct [OF keep_last_distinct] by (simp add: fixPhaseStatus_eq)
  have "drop_failed 3 (fixPhaseStatus ph) = fixPhaseStatus ph"
    by (intro drop_failed_id) (simp add: fixPhaseStatus_eq drop_failed_count)
  then have "fixPhaseStatus (fixPhaseStatus ph) = fixPhaseStatus ph" using d by (simp add: fixPhaseStatus_eq [of "fixPhaseStatus ph"] keep_last_id)
  moreover have "suffix (filter failed_ensure (drop_failed k qs)) (filter failed_ensure qs)" for k qs
    by (induction qs) (auto intro: suffix_ConsI simp: drop_failed_id)
  moreover have "subseq (fixPhaseStatus ph) ph"
    using drop_failed_subseq [of 3 "keep_last ph"] keep_last_subseq [of ph] by (metis fixPhaseStatus_eq subseq_order.trans)
  ultimately show ?thesis using d by (simp add: fixPhaseStatus_eq drop_failed_count drop_failed_others)
qed

section \<open>The environment\<close>

text \<open>A config map; the data of \<^verbatim>\<open>None\<close> is the nil map.\<close>

record config_map =
  cm_namespace :: string
  cm_name :: string
  cm_annotations :: "string gomap"
  cm_data :: "string gomap option"

text \<open>A nil pointer that is followed ends the call; everything else is an error value.\<close>

datatype merge_error = Failed_with api_error | Panicked

text \<open>The client, the patch helper of cluster-api (\<^verbatim>\<open>me_newHelper\<close> takes the object as it is before,
  \<^verbatim>\<open>me_patch\<close> that object and the changed one), the JSON package for clusters, config maps and node
  lists, and the two JSON patch packages: \<^verbatim>\<open>me_createPatch\<close> gives a list of operations and
  \<^verbatim>\<open>me_decodePatch\<close> turns it into a patch. \<^verbatim>\<open>me_unmarshal\<close> reads a document into an existing object, which
  keeps what the document does not mention; the object may be changed when it fails.\<close>

record ('w, 'o, 'p) merge_env =
  me_get :: "string \<Rightarrow> string \<Rightarrow> 'w \<Rightarrow> 'w \<times> (api_error + bke_cluster)"
  me_list :: "'w \<Rightarrow> 'w \<times> (api_error + bke_cluster list)"
  me_delete :: "string \<Rightarrow> string \<Rightarrow> 'w \<Rightarrow> 'w \<times> api_error option"
  me_getCM :: "string \<Rightarrow> string \<Rightarrow> 'w \<Rightarrow> 'w \<times> (api_error + config_map)"
  me_createCM :: "config_map \<Rightarrow> 'w \<Rightarrow> 'w \<times> api_error option"
  me_updateCM :: "config_map \<Rightarrow> 'w \<Rightarrow> 'w \<times> api_error option"
  me_deleteCM :: "string \<Rightarrow> string \<Rightarrow> 'w \<Rightarrow> 'w \<times> api_error option"
  me_setOwner :: "bke_cluster \<Rightarrow> config_map \<Rightarrow> api_error + config_map"
  me_newHelper :: "bke_cluster \<Rightarrow> api_error option"
  me_patch :: "bke_cluster \<Rightarrow> bke_cluster \<Rightarrow> 'w \<Rightarrow> 'w \<times> api_error option"
  me_listNodes :: "string \<Rightarrow> string \<Rightarrow> 'w \<Rightarrow> 'w \<times> (api_error + bke_node list)"
  me_getNode :: "string \<Rightarrow> string \<Rightarrow> 'w \<Rightarrow> 'w \<times> (api_error + bke_node)"
  me_updateNodeStatus :: "bke_node \<Rightarrow> 'w \<Rightarrow> 'w \<times> api_error option"
  me_now :: "'w \<Rightarrow> gotime"
  me_retry :: "'w retry_lib"
  me_marshal :: "bke_cluster \<Rightarrow> api_error + string"
  me_unmarshal :: "string \<Rightarrow> bke_cluster \<Rightarrow> bke_cluster \<times> api_error option"
  me_marshalCM :: "config_map \<Rightarrow> api_error + string"
  me_unmarshalCM :: "string \<Rightarrow> api_error + config_map"
  me_marshalNodes :: "node_spec list \<Rightarrow> api_error + string"
  me_unmarshalNodes :: "string \<Rightarrow> api_error + node_spec list"
  me_createPatch :: "string \<Rightarrow> string \<Rightarrow> api_error + 'o list"
  me_decodePatch :: "'o list \<Rightarrow> api_error + 'p"
  me_apply :: "'p \<Rightarrow> string \<Rightarrow> api_error + string"
  me_internalUpdate :: bool
  me_allowedFailed :: int

(* src: utils/capbke/annotation/helper.go 27-27 LastUpdateConfigurationAnnotationKey *)
definition LastUpdateConfigurationAnnotationKey :: string where
  "LastUpdateConfigurationAnnotationKey = ''bke.bocloud.com/last-update-configuration''"

(* src: api/capbke/v1beta1/bkecluster_consts.go 155-155 InternalSpecChangeCondition *)
definition InternalSpecChangeCondition :: string where
  "InternalSpecChangeCondition = ''InternalSpecChange''"

section \<open>The config map of a cluster\<close>

definition default_data :: "string gomap" where
  "default_data = [(''nodes'', ''[]''), (''status'', ''[]'')]"

(* src: pkg/mergecluster/bkecluster.go 756-767 newBlankBKEConfigMap *)
definition newBlankBKEConfigMap :: "bke_cluster \<Rightarrow> config_map" where
  "newBlankBKEConfigMap c = \<lparr>cm_namespace = bc_namespace c, cm_name = bc_name c, cm_annotations = [], cm_data = Some default_data\<rparr>"

(* src: pkg/mergecluster/bkecluster.go 578-594 createDefaultConfigMap *)
definition createDefaultConfigMap :: "('w, 'o, 'p) merge_env \<Rightarrow> string \<Rightarrow> string \<Rightarrow> bke_cluster \<Rightarrow> api_error + config_map" where
  "createDefaultConfigMap e ns name c =
     me_setOwner e c \<lparr>cm_namespace = ns, cm_name = name, cm_annotations = [], cm_data = Some default_data\<rparr>"

(* src: pkg/mergecluster/bkecluster.go 606-632 handleConfigMapNotFound, handleConfigMapNotFoundWithParams *)
definition handleConfigMapNotFound :: "('w, 'o, 'p) merge_env \<Rightarrow> string \<Rightarrow> string \<Rightarrow> bke_cluster \<Rightarrow> 'w \<Rightarrow> 'w \<times> (api_error + config_map)" where
  "handleConfigMapNotFound e ns name c w =
     (case createDefaultConfigMap e ns name c of
        Inl err \<Rightarrow> (w, Inl err)
      | Inr newCm \<Rightarrow>
          (case me_createCM e newCm w of
             (w', Some err) \<Rightarrow> if err = ApiNamespaceTerminating then (w', Inr (newBlankBKEConfigMap c)) else (w', Inl err)
           | (w', None) \<Rightarrow> (w', Inr newCm)))"

(* src: pkg/mergecluster/bkecluster.go 635-642 ensureConfigMapData *)
definition ensureConfigMapData :: "config_map \<Rightarrow> config_map" where
  "ensureConfigMapData cm = (if cm_data cm = None then cm\<lparr>cm_data := Some default_data\<rparr> else cm)"

(* src: pkg/mergecluster/bkecluster.go 645-659 GetCombinedBKEClusterCM *)
definition GetCombinedBKEClusterCM :: "('w, 'o, 'p) merge_env \<Rightarrow> bke_cluster \<Rightarrow> 'w \<Rightarrow> 'w \<times> (api_error + config_map)" where
  "GetCombinedBKEClusterCM e c w =
     (let ns = bc_namespace c; name = bc_name c
      in case me_getCM e ns name w of
           (w', Inl err) \<Rightarrow> if IsNotFound err then handleConfigMapNotFound e ns name c w' else (w', Inl err)
         | (w', Inr cm) \<Rightarrow> (w', Inr (ensureConfigMapData cm)))"

(* src: pkg/mergecluster/bkecluster.go 661-677 getBkeClusterAssociateNodesCM *)
definition getBkeClusterAssociateNodesCM :: "('w, 'o, 'p) merge_env \<Rightarrow> bke_cluster \<Rightarrow> 'w \<Rightarrow> 'w \<times> (api_error + config_map \<times> node_spec list)" where
  "getBkeClusterAssociateNodesCM e c w =
     (case GetCombinedBKEClusterCM e c w of
        (w', Inl err) \<Rightarrow> (w', Inl err)
      | (w', Inr cm) \<Rightarrow>
          let cm' = cm\<lparr>cm_annotations := AList.delete LastUpdateConfigurationAnnotationKey (cm_annotations cm)\<rparr>
          in (case (case cm_data cm of None \<Rightarrow> None | Some d \<Rightarrow> map_of d ''nodes'') of
                None \<Rightarrow> (w', Inr (cm', []))
              | Some v \<Rightarrow> (case me_unmarshalNodes e v of Inl err \<Rightarrow> (w', Inl err) | Inr ns \<Rightarrow> (w', Inr (cm', ns)))))"

section \<open>The combined cluster\<close>

(* src: pkg/mergecluster/bkecluster.go 558-562 setDefaultCustomExtra *)
definition setDefaultCustomExtra :: "bke_cluster \<Rightarrow> merge_error + bke_cluster" where
  "setDefaultCustomExtra c =
     (case bs_clusterConfig (bc_spec c) of
        None \<Rightarrow> Inl Panicked
      | Some cfg \<Rightarrow>
          if cs_customExtra cfg = None
          then Inr (c\<lparr>bc_spec := (bc_spec c)\<lparr>bs_clusterConfig := Some (cfg\<lparr>cs_customExtra := Some []\<rparr>)\<rparr>\<rparr>)
          else Inr c)"

text \<open>The two functions call each other: the annotation may hold a cluster that has the annotation
  again. \<open>combine\<close> is the call for the inner cluster.\<close>

(* src: pkg/mergecluster/bkecluster.go 528-555 handleLastUpdateConfiguration *)
definition handleLastUpdateConfiguration :: "(bke_cluster \<Rightarrow> config_map \<Rightarrow> merge_error + bke_cluster) \<Rightarrow>
    ('w, 'o, 'p) merge_env \<Rightarrow> bke_cluster \<Rightarrow> config_map \<Rightarrow> merge_error + bke_cluster" where
  "handleLastUpdateConfiguration combine e c cm =
     (case (HasAnnotation c LastUpdateConfigurationAnnotationKey, map_of (cm_annotations cm) LastUpdateConfigurationAnnotationKey) of
        (Some lastBke, Some lastCM) \<Rightarrow>
          let c1 = RemoveAnnotation c LastUpdateConfigurationAnnotationKey
          in (case me_unmarshal e lastBke (blank_cluster [] []) of
                (_, Some err) \<Rightarrow> Inl (Failed_with err)
              | (lastCluster, None) \<Rightarrow>
                  (case me_unmarshalCM e lastCM of
                     Inl err \<Rightarrow> Inl (Failed_with err)
                   | Inr innerCM \<Rightarrow>
                       (case combine lastCluster innerCM of
                          Inl err \<Rightarrow> Inl err
                        | Inr lastAnnotation \<Rightarrow>
                            (case me_marshal e lastAnnotation of
                               Inl err \<Rightarrow> Inl (Failed_with err)
                             | Inr v \<Rightarrow> Inr (SetAnnotation c1 LastUpdateConfigurationAnnotationKey v)))))
      | _ \<Rightarrow> Inr c)"

(* src: pkg/mergecluster/bkecluster.go 565-575 CombinedBKECluster *)
fun combined_at :: "nat \<Rightarrow> ('w, 'o, 'p) merge_env \<Rightarrow> bke_cluster \<Rightarrow> config_map \<Rightarrow> merge_error + bke_cluster" where
  "combined_at 0 e c cm = Inl (Failed_with (ErrMsg ''nesting''))"
| "combined_at (Suc n) e c cm =
     (case handleLastUpdateConfiguration (combined_at n e) e c cm of
        Inl err \<Rightarrow> Inl err
      | Inr c1 \<Rightarrow> setDefaultCustomExtra c1)"

text \<open>The nesting is bounded by the length of the annotation: a string inside a document is shorter
  than the document (\<open>nested_shorter\<close>); \<open>combined_depth\<close> below shows that more does not change the
  result.\<close>

definition annotation_size :: "bke_cluster \<Rightarrow> nat" where
  "annotation_size c = (case HasAnnotation c LastUpdateConfigurationAnnotationKey of None \<Rightarrow> 0 | Some v \<Rightarrow> Suc (length v))"

definition CombinedBKECluster :: "('w, 'o, 'p) merge_env \<Rightarrow> bke_cluster \<Rightarrow> config_map \<Rightarrow> merge_error + bke_cluster" where
  "CombinedBKECluster e c cm = combined_at (Suc (annotation_size c)) e c cm"

(* src: pkg/mergecluster/bkecluster.go 107-118 GetCombinedBKECluster *)
definition GetCombinedBKECluster :: "('w, 'o, 'p) merge_env \<Rightarrow> string \<Rightarrow> string \<Rightarrow> 'w \<Rightarrow> 'w \<times> (merge_error + bke_cluster)" where
  "GetCombinedBKECluster e ns name w =
     (case me_get e ns name w of
        (w1, Inl err) \<Rightarrow> (w1, Inl (Failed_with err))
      | (w1, Inr c) \<Rightarrow>
          (case GetCombinedBKEClusterCM e c w1 of
             (w2, Inl err) \<Rightarrow> (w2, Inl (Failed_with err))
           | (w2, Inr cm) \<Rightarrow> (w2, CombinedBKECluster e c cm)))"

(* src: pkg/mergecluster/bkecluster.go 484-504 DeleteCombinedBKECluster *)
definition DeleteCombinedBKECluster :: "('w, 'o, 'p) merge_env \<Rightarrow> string \<Rightarrow> string \<Rightarrow> 'w \<Rightarrow> 'w \<times> api_error option" where
  "DeleteCombinedBKECluster e ns name w =
     (case me_delete e ns name w of
        (w1, Some err) \<Rightarrow> (w1, Some err)
      | (w1, None) \<Rightarrow> me_deleteCM e ns name w1)"

(* src: pkg/mergecluster/bkecluster.go 513-523 ListCombinedBKECluster (loop) *)
fun combine_all :: "('w, 'o, 'p) merge_env \<Rightarrow> bke_cluster list \<Rightarrow> 'w \<Rightarrow> 'w \<times> (merge_error + bke_cluster list)" where
  "combine_all e [] w = (w, Inr [])"
| "combine_all e (c # cs) w =
     (case GetCombinedBKEClusterCM e c w of
        (w1, Inl err) \<Rightarrow> (w1, Inl (Failed_with err))
      | (w1, Inr cm) \<Rightarrow>
          (case CombinedBKECluster e c cm of
             Inl err \<Rightarrow> (w1, Inl err)
           | Inr c' \<Rightarrow> (case combine_all e cs w1 of
                          (w2, Inl err) \<Rightarrow> (w2, Inl err)
                        | (w2, Inr cs') \<Rightarrow> (w2, Inr (c' # cs')))))"

(* src: pkg/mergecluster/bkecluster.go 506-525 ListCombinedBKECluster *)
definition ListCombinedBKECluster :: "('w, 'o, 'p) merge_env \<Rightarrow> 'w \<Rightarrow> 'w \<times> (merge_error + bke_cluster list)" where
  "ListCombinedBKECluster e w =
     (case me_list e w of
        (w1, Inl err) \<Rightarrow> (w1, Inl (Failed_with err))
      | (w1, Inr cs) \<Rightarrow> combine_all e cs w1)"

(* src: pkg/mergecluster/bkecluster.go 742-754 GetLastUpdatedBKECluster *)
definition GetLastUpdatedBKECluster :: "('w, 'o, 'p) merge_env \<Rightarrow> bke_cluster \<Rightarrow> api_error + bke_cluster option" where
  "GetLastUpdatedBKECluster e c =
     (case HasAnnotation c LastUpdateConfigurationAnnotationKey of
        None \<Rightarrow> Inr None
      | Some v \<Rightarrow>
          if v = [] then Inr None
          else (case me_unmarshal e v (blank_cluster [] []) of
                  (_, Some err) \<Rightarrow> Inl err
                | (old, None) \<Rightarrow> Inr (Some old)))"

section \<open>Merging and writing\<close>

text \<open>A patch of the caller, applied to the copy and to the stored object.\<close>

(* src: pkg/mergecluster/bkecluster.go 120-120 PatchFunc *)
type_synonym patch_func = "bke_cluster \<Rightarrow> bke_cluster"

definition upd_clusterStatus :: "(cluster_status \<Rightarrow> cluster_status) \<Rightarrow> bke_cluster \<Rightarrow> bke_cluster" where
  "upd_clusterStatus f c = c\<lparr>bc_status := f (bc_status c)\<rparr>"

(* src: pkg/mergecluster/bkecluster.go 153-158 PreserveDeclarativeUpgradeFromFresh *)
definition PreserveDeclarativeUpgradeFromFresh :: "bke_cluster option \<Rightarrow> bke_cluster option \<Rightarrow> bke_cluster option" where
  "PreserveDeclarativeUpgradeFromFresh fresh target =
     (case (fresh, target) of
        (Some f, Some t) \<Rightarrow>
          (case st_declarativeUpgrade (bc_status f) of
             None \<Rightarrow> Some t
           | Some d \<Rightarrow> Some (upd_clusterStatus (\<lambda>st. st\<lparr>st_declarativeUpgrade := Some d\<rparr>) t))
      | _ \<Rightarrow> target)"

text \<open>Returns the fresh object and the changed copy.\<close>

(* src: pkg/mergecluster/bkecluster.go 131-150 prepareClusterData *)
definition prepareClusterData :: "('w, 'o, 'p) merge_env \<Rightarrow> patch_func list \<Rightarrow> bke_cluster \<Rightarrow> 'w \<Rightarrow>
    'w \<times> bke_cluster \<times> (merge_error + bke_cluster)" where
  "prepareClusterData e patchs combined w =
     (case GetCombinedBKECluster e (bc_namespace combined) (bc_name combined) w of
        (w1, Inl err) \<Rightarrow> (w1, combined, Inl err)
      | (w1, Inr current) \<Rightarrow>
          let current1 = upd_clusterStatus (\<lambda>st. st\<lparr>st_phaseStatus := fixPhaseStatus (st_phaseStatus st)\<rparr>) current;
              current2 = fold (\<lambda>p. p) patchs current1;
              combined1 = fold (\<lambda>p. p) patchs combined
          in (w1, the (PreserveDeclarativeUpgradeFromFresh (Some current2) (Some combined1)), Inr current2))"

(* src: utils/capbke/patchutil/helper.go 21-50 Diff *)
definition Diff :: "('w, 'o, 'p) merge_env \<Rightarrow> bke_cluster \<Rightarrow> bke_cluster \<Rightarrow> api_error + 'p option" where
  "Diff e old new =
     (case me_marshal e old of
        Inl err \<Rightarrow> Inl err
      | Inr oldBytes \<Rightarrow>
          (case me_marshal e new of
             Inl err \<Rightarrow> Inl err
           | Inr newBytes \<Rightarrow>
               (case me_createPatch e oldBytes newBytes of
                  Inl err \<Rightarrow> Inl err
                | Inr patches \<Rightarrow>
                    if patches = [] then Inr None
                    else (case me_decodePatch e patches of Inl err \<Rightarrow> Inl err | Inr p \<Rightarrow> Inr (Some p)))))"

text \<open>What is compared: labels, annotations without the record of the last update, the resource
  version and the specification.\<close>

(* src: pkg/mergecluster/bkecluster.go 712-729 GetCurrentBkeClusterPatches (cleared copy) *)
definition comparable :: "bke_cluster \<Rightarrow> bke_cluster" where
  "comparable c = (blank_cluster [] [])\<lparr>bc_labels := bc_labels c,
     bc_annotations := bc_annotations (RemoveAnnotation c LastUpdateConfigurationAnnotationKey),
     bc_resourceVersion := bc_resourceVersion c, bc_spec := bc_spec c\<rparr>"

(* src: pkg/mergecluster/bkecluster.go 710-732 GetCurrentBkeClusterPatches *)
definition GetCurrentBkeClusterPatches :: "('w, 'o, 'p) merge_env \<Rightarrow> bke_cluster \<Rightarrow> bke_cluster \<Rightarrow> api_error + 'p option" where
  "GetCurrentBkeClusterPatches e old new = Diff e (comparable old) (comparable new)"

(* src: pkg/mergecluster/bkecluster.go 161-187 handleExternalUpdates *)
definition handleExternalUpdates :: "('w, 'o, 'p) merge_env \<Rightarrow> bke_cluster \<Rightarrow> bke_cluster \<Rightarrow> bke_cluster \<times> api_error option" where
  "handleExternalUpdates e combined current =
     (case GetCurrentBkeClusterPatches e combined current of
        Inl err \<Rightarrow> (combined, Some err)
      | Inr None \<Rightarrow> (combined, None)
      | Inr (Some patches) \<Rightarrow>
          (case me_marshal e combined of
             Inl err \<Rightarrow> (combined, Some err)
           | Inr combinedByte \<Rightarrow>
               (case me_apply e patches combinedByte of
                  Inl err \<Rightarrow> (combined, Some err)
                | Inr applied \<Rightarrow> me_unmarshal e applied combined)))"

text \<open>The object to patch, if it still exists; it is also the helper's object before the change.\<close>

(* src: pkg/mergecluster/bkecluster.go 190-206 initializePatchHelper *)
definition initializePatchHelper :: "('w, 'o, 'p) merge_env \<Rightarrow> bke_cluster \<Rightarrow> 'w \<Rightarrow> 'w \<times> (api_error + bke_cluster option)" where
  "initializePatchHelper e combined w =
     (case me_get e (bc_namespace combined) (bc_name combined) w of
        (w', Inl err) \<Rightarrow> if IsNotFound err then (w', Inr None) else (w', Inl err)
      | (w', Inr current) \<Rightarrow>
          (case me_newHelper e current of Some err \<Rightarrow> (w', Inl err) | None \<Rightarrow> (w', Inr (Some current))))"

(* src: pkg/mergecluster/bkecluster.go 241-245 handlePatchesNotEmpty *)
definition handlePatchesNotEmpty :: "('w, 'o, 'p) merge_env \<Rightarrow> bke_cluster \<Rightarrow> bke_cluster \<Rightarrow> 'w \<Rightarrow> 'w \<times> bke_cluster \<times> api_error option" where
  "handlePatchesNotEmpty e before current w =
     (let c1 = ConditionMark current InternalSpecChangeCondition [] [] [] (me_now e w);
          (w', err) = me_patch e before c1 w
      in (w', c1, err))"

(* src: pkg/mergecluster/bkecluster.go 248-254 handlePatchesEmpty *)
definition handlePatchesEmpty :: "('w, 'o, 'p) merge_env \<Rightarrow> bke_cluster \<Rightarrow> bke_cluster \<Rightarrow> 'w \<Rightarrow> 'w \<times> bke_cluster \<times> api_error option" where
  "handlePatchesEmpty e before current w =
     (if HasCondition InternalSpecChangeCondition current \<noteq> None
      then let c1 = RemoveCondition InternalSpecChangeCondition current;
               (w', err) = me_patch e before c1 w
           in (w', c1, err)
      else (w, current, None))"

(* src: pkg/mergecluster/bkecluster.go 217-238 handleInternalUpdateCondition, handleInternalUpdateConditionWithParams *)
definition handleInternalUpdateCondition :: "('w, 'o, 'p) merge_env \<Rightarrow> patch_func list \<Rightarrow> bke_cluster \<Rightarrow> 'w \<Rightarrow> 'w \<times> bke_cluster \<times> api_error option" where
  "handleInternalUpdateCondition e patchs current w =
     (if \<not> me_internalUpdate e then (w, current, None)
      else if patchs \<noteq> [] then handlePatchesNotEmpty e current current w
      else handlePatchesEmpty e current current w)"

(* src: pkg/mergecluster/bkecluster.go 703-707 newTmpBkeNodesCluster *)
definition newTmpBkeNodesCluster :: "bke_cluster \<Rightarrow> node_spec list" where
  "newTmpBkeNodesCluster c = []"

text \<open>The nodes of the copy that are not to be deleted, split by whether the config map lists them
  once.\<close>

(* src: pkg/mergecluster/bkecluster.go 274-314 processNodeData *)
definition processNodeData :: "('w, 'o, 'p) merge_env \<Rightarrow> bke_cluster \<Rightarrow> string list \<Rightarrow> 'w \<Rightarrow>
    'w \<times> (api_error + config_map \<times> node_spec list \<times> node_spec list \<times> node_spec list)" where
  "processNodeData e combined deleteNodes w =
     (case getBkeClusterAssociateNodesCM e combined w of
        (w', Inl err) \<Rightarrow> (w', Inl err)
      | (w', Inr (cm, nodesCM)) \<Rightarrow>
          let kept = filter (\<lambda>n. \<not> ContainsString deleteNodes (ns_ip n)) (newTmpBkeNodesCluster combined);
              inCM = (\<lambda>n. length (filter (\<lambda>m. ns_ip m = ns_ip n) nodesCM) = 1)
          in (w', Inr (cm, nodesCM, newTmpBkeNodesCluster (blank_cluster [] []) @ filter (\<lambda>n. \<not> inCM n) kept,
                       newTmpBkeNodesCluster (blank_cluster [] []) @ filter inCM kept)))"

(* src: pkg/mergecluster/bkecluster.go 93-104 bkeNodes.toCMData *)
definition toCMData :: "('w, 'o, 'p) merge_env \<Rightarrow> node_spec list option \<Rightarrow> api_error + string gomap" where
  "toCMData e spec =
     (case spec of None \<Rightarrow> Inr []
      | Some ns \<Rightarrow> (case me_marshalNodes e ns of Inl err \<Rightarrow> Inl err | Inr v \<Rightarrow> Inr [(''nodes'', v)]))"

(* src: pkg/mergecluster/bkecluster.go 679-699 newTmpBkeCluster *)
definition newTmpBkeCluster :: "bke_cluster \<Rightarrow> bke_cluster \<Rightarrow> bke_cluster" where
  "newTmpBkeCluster combined current =
     combined\<lparr>bc_name := bc_name current, bc_namespace := bc_namespace current, bc_uid := bc_uid current,
       bc_resourceVersion := bc_resourceVersion current, bc_deletionTimestamp := bc_deletionTimestamp current,
       bc_annotations := bc_annotations (RemoveAnnotation combined LastUpdateConfigurationAnnotationKey),
       bc_labels := bc_labels combined, bc_finalizers := bc_finalizers combined\<rparr>"

(* src: pkg/mergecluster/bkecluster.go 734-740 cleanBkeCluster *)
definition cleanBkeCluster :: "bke_cluster \<Rightarrow> bke_cluster" where
  "cleanBkeCluster c = (blank_cluster (bc_namespace c) (bc_name c))\<lparr>bc_spec := bc_spec c\<rparr>"

(* src: pkg/mergecluster/bkecluster.go 847-858 getBKENodesForCluster *)
definition getBKENodesForCluster :: "('w, 'o, 'p) merge_env \<Rightarrow> bke_cluster \<Rightarrow> 'w \<Rightarrow> 'w \<times> (api_error + bke_node list)" where
  "getBKENodesForCluster e c w = me_listNodes e (bc_namespace c) (bc_name c) w"

(* src: pkg/mergecluster/bkecluster.go 870-881 UpdateModifiedBKENodes (one attempt) *)
definition write_node :: "('w, 'o, 'p) merge_env \<Rightarrow> bke_node \<Rightarrow> 'w attempt" where
  "write_node e node w =
     (case me_getNode e (bn_namespace node) (bn_name node) w of
        (w', Inl err) \<Rightarrow> (w', Some err)
      | (w', Inr latest) \<Rightarrow>
          me_updateNodeStatus e (upd_status (\<lambda>s. s\<lparr>nst_state := nst_state (bn_status node), nst_message := nst_message (bn_status node),
            nst_stateCode := nst_stateCode (bn_status node) AND NOT (flag_value NodeStateNeedRecord)\<rparr>) latest) w')"

(* src: pkg/mergecluster/bkecluster.go 868-889 UpdateModifiedBKENodes (loop) *)
fun write_nodes :: "('w, 'o, 'p) merge_env \<Rightarrow> bke_node list \<Rightarrow> 'w \<Rightarrow> 'w \<times> api_error option" where
  "write_nodes e [] w = (w, None)"
| "write_nodes e (n # ns) w =
     (case RetryOnConflict (me_retry e) (write_node e n) w of
        (w', Some err) \<Rightarrow> if IsNotFound err then write_nodes e ns w' else (w', Some err)
      | (w', None) \<Rightarrow> write_nodes e ns w')"

(* src: pkg/mergecluster/bkecluster.go 862-892 UpdateModifiedBKENodes *)
definition UpdateModifiedBKENodes :: "('w, 'o, 'p) merge_env \<Rightarrow> bke_node list \<Rightarrow> 'w \<Rightarrow> 'w \<times> bke_node list \<times> api_error option" where
  "UpdateModifiedBKENodes e ns w =
     (case GetModifiedNodes ns of
        [] \<Rightarrow> (w, ns, None)
      | n # rest \<Rightarrow>
          (case write_nodes e (n # rest) w of
             (w', Some err) \<Rightarrow> (w', ns, Some err)
           | (w', None) \<Rightarrow> (w', ClearRecordFlags ns, None)))"

text \<open>The new object shares the annotation map of the copy (an empty map counts as nil here), and the
  copy takes over its slice of conditions, so later changes of the new object show in the copy.\<close>

definition share_annotations :: "bke_cluster \<Rightarrow> bke_cluster \<Rightarrow> bke_cluster" where
  "share_annotations combined new = (if bc_annotations combined = [] then combined else combined\<lparr>bc_annotations := bc_annotations new\<rparr>)"

text \<open>Removing an element in place: a holder of the same slice still sees its length.\<close>

definition cut_in_place :: "string \<Rightarrow> cluster_condition list \<Rightarrow> cluster_condition list" where
  "cut_in_place ty cs = (if \<exists>c\<in>set cs. cc_type c = ty then remove_first ty cs @ [last cs] else cs)"

(* src: pkg/mergecluster/bkecluster.go 461-481 updateClusterAndConfigMapWithParams (step 9) *)
definition write_config_map :: "('w, 'o, 'p) merge_env \<Rightarrow> node_spec list \<Rightarrow> config_map \<Rightarrow> 'w \<Rightarrow> 'w \<times> api_error option" where
  "write_config_map e finalCMNodes cm w =
     (case toCMData e (Some finalCMNodes) of
        Inl err \<Rightarrow> (w, Some err)
      | Inr data \<Rightarrow>
          let cm1 = cm\<lparr>cm_data := Some data\<rparr>
          in (case me_marshalCM e cm1 of
                Inl err \<Rightarrow> (w, Some err)
              | Inr cmByte \<Rightarrow>
                  (case me_updateCM e (cm1\<lparr>cm_annotations := AList.update LastUpdateConfigurationAnnotationKey cmByte (cm_annotations cm1)\<rparr>) w of
                     (w', None) \<Rightarrow> (w', None)
                   | (w', Some err) \<Rightarrow> if IsNotFound err then (w', None) else (w', Some err))))"

(* src: pkg/mergecluster/bkecluster.go 417-482 updateClusterAndConfigMapWithParams *)
definition updateClusterAndConfigMap :: "('w, 'o, 'p) merge_env \<Rightarrow> patch_func list \<Rightarrow> bke_cluster \<Rightarrow> bke_cluster \<Rightarrow> bke_cluster \<Rightarrow>
    node_spec list \<Rightarrow> config_map \<Rightarrow> status_manager \<times> 'w \<Rightarrow> (status_manager \<times> 'w) \<times> bke_cluster \<times> api_error option" where
  "updateClusterAndConfigMap e patchs combined before current finalCMNodes cm mw =
     (let (m, w) = mw;
          new0 = newTmpBkeCluster combined current;
          new1 = upd_clusterStatus (\<lambda>st. st\<lparr>st_phaseStatus := fixPhaseStatus (st_phaseStatus st)\<rparr>) new0
      in case me_marshal e (cleanBkeCluster new1) of
           Inl err \<Rightarrow> ((m, w), share_annotations combined new1, Some err)
         | Inr configByte \<Rightarrow>
             let new2 = SetAnnotation new1 LastUpdateConfigurationAnnotationKey configByte;
                 (w1, nodes) = (case getBKENodesForCluster e new2 w of (w1, Inl _) \<Rightarrow> (w1, []) | (w1, Inr ns) \<Rightarrow> (w1, ns));
                 (m', new3, nodes') = SetStatus (me_allowedFailed e) (me_now e w1) m new2 nodes;
                 (w2, _, _) = UpdateModifiedBKENodes e nodes' w1;
                 combined1 = upd_clusterStatus (\<lambda>st. st\<lparr>st_clusterHealthState := st_clusterHealthState (bc_status new3),
                   st_clusterStatus := st_clusterStatus (bc_status new3), st_conditions := st_conditions (bc_status new3)\<rparr>)
                   (share_annotations combined new3);
                 (w3, err) = me_patch e before new3 w2;
                 (w4, err') = (if err \<noteq> None then (w3, err) else write_config_map e finalCMNodes cm w3)
             in if me_internalUpdate e \<and> patchs \<noteq> []
                then ((m', fst (me_patch e before (RemoveCondition InternalSpecChangeCondition new3) w4)),
                      upd_clusterStatus (\<lambda>st. st\<lparr>st_conditions := cut_in_place InternalSpecChangeCondition (st_conditions st)\<rparr>) combined1, err')
                else ((m', w4), combined1, err'))"

(* src: pkg/mergecluster/bkecluster.go 327-401 UpdateCombinedBKECluster, updateCombinedBKEClusterWithParams *)
definition UpdateCombinedBKECluster :: "('w, 'o, 'p) merge_env \<Rightarrow> string list \<Rightarrow> patch_func list \<Rightarrow> bke_cluster \<Rightarrow>
    status_manager \<times> 'w \<Rightarrow> (status_manager \<times> 'w) \<times> bke_cluster \<times> merge_error option" where
  "UpdateCombinedBKECluster e deleteNodes patchs combined mw =
     (let (m, w) = mw
      in case prepareClusterData e patchs combined w of
           (w1, c1, Inl err) \<Rightarrow> ((m, w1), c1, Some err)
         | (w1, c1, Inr fresh) \<Rightarrow>
             (case handleExternalUpdates e c1 fresh of
                (c2, Some err) \<Rightarrow> ((m, w1), c2, Some (Failed_with err))
              | (c2, None) \<Rightarrow>
                  (case initializePatchHelper e c2 w1 of
                     (w2, Inl err) \<Rightarrow> ((m, w2), c2, Some (Failed_with err))
                   | (w2, Inr None) \<Rightarrow> ((m, w2), c2, None)
                   | (w2, Inr (Some before)) \<Rightarrow>
                       (case handleInternalUpdateCondition e patchs before w2 of
                          (w3, current, Some err) \<Rightarrow> ((m, w3), c2, Some (Failed_with err))
                        | (w3, current, None) \<Rightarrow>
                            (case processNodeData e c2 deleteNodes w3 of
                               (w4, Inl err) \<Rightarrow> ((m, w4), c2, Some (Failed_with err))
                             | (w4, Inr (cm, nodesCM, finalClusterNodes, finalCMNodes)) \<Rightarrow>
                                 (case updateClusterAndConfigMap e patchs c2 before current finalCMNodes cm (m, w4) of
                                    (mw', c3, err) \<Rightarrow> (mw', c3, map_option Failed_with err)))))))"

text \<open>The loop of \<^verbatim>\<open>SyncStatusUntilComplete\<close> with its two minutes: \<open>clock\<close> reads the seconds of the world
  and the context is done at the deadline. A panic ends it.\<close>

(* src: pkg/mergecluster/bkecluster.go 47-48 SyncStatusTimeout *)
definition SyncStatusTimeout :: nat where
  "SyncStatusTimeout = 120"

datatype sync_result = Sync_done | Sync_error api_error | Sync_timeout | Sync_panic

(* src: pkg/mergecluster/bkecluster.go 62-90 SyncStatusUntilComplete (loop) *)
partial_function (option) cluster_sync_loop :: "('w, 'o, 'p) merge_env \<Rightarrow> ('w \<Rightarrow> nat) \<Rightarrow> nat \<Rightarrow> patch_func list \<Rightarrow> bke_cluster \<Rightarrow>
    status_manager \<times> 'w \<Rightarrow> ((status_manager \<times> 'w) \<times> bke_cluster \<times> sync_result) option" where
  "cluster_sync_loop e clock deadline patchs c mw =
     (if deadline \<le> clock (snd mw) then Some (mw, c, Sync_timeout)
      else case UpdateCombinedBKECluster e [] patchs c mw of
             (mw', c', None) \<Rightarrow> Some (mw', c', Sync_done)
           | (mw', c', Some Panicked) \<Rightarrow> Some (mw', c', Sync_panic)
           | (mw', c', Some (Failed_with err)) \<Rightarrow>
               if IsNotFound err then Some (mw', c', Sync_done)
               else if IsConflict err then cluster_sync_loop e clock deadline patchs c' mw'
               else if err = ApiForbidden \<or> err = ApiBadRequest \<or> err = ApiInvalid then Some (mw', c', Sync_error err)
               else cluster_sync_loop e clock deadline patchs c' mw')"

declare cluster_sync_loop.simps [code]

(* src: pkg/mergecluster/bkecluster.go 58-91 SyncStatusUntilComplete *)
definition SyncStatusUntilComplete :: "('w, 'o, 'p) merge_env \<Rightarrow> ('w \<Rightarrow> nat) \<Rightarrow> patch_func list \<Rightarrow> bke_cluster \<Rightarrow>
    status_manager \<times> 'w \<Rightarrow> ((status_manager \<times> 'w) \<times> bke_cluster \<times> sync_result) option" where
  "SyncStatusUntilComplete e clock patchs c mw = cluster_sync_loop e clock (clock (snd mw) + SyncStatusTimeout) patchs c mw"

section \<open>What the calls leave alone\<close>

text \<open>Recording a status changes the cluster state, its health, the conditions and one annotation.\<close>

definition core :: "bke_cluster \<Rightarrow> bke_cluster" where
  "core c = c\<lparr>bc_annotations := AList.delete StatusRecordAnnotationKey (bc_annotations c),
     bc_status := (bc_status c)\<lparr>st_clusterStatus := [], st_clusterHealthState := [], st_conditions := []\<rparr>\<rparr>"

lemma core_set [simp]:
  "core (set_clusterStatus c s) = core c" "core (set_health c s) = core c" "core (set_conds c cs) = core c"
  "core (RemoveAnnotation c StatusRecordAnnotationKey) = core c"
  by (simp_all add: core_def set_clusterStatus_def set_health_def set_conds_def RemoveAnnotation_def AList.delete_idem)

lemma core_mark [simp]: "core (ConditionMark c ty st reason msg now) = core c"
  by (auto simp: ConditionMark_def AddonConditionMark_def split: option.splits)

lemma core_exhausted [simp]: "core (mark_exhausted cur now c) = core c"
  by (auto simp: mark_exhausted_def Let_def split: option.splits)

lemma SetStatus_core: "SetStatus limit now m c ns = (m', c', ns') \<Longrightarrow> core c' = core c"
  by (auto simp: SetStatus_def recordBKEClusterStatus_def Let_def split: prod.splits if_splits)

lemma core_fields:
  assumes "core c' = core c"
  shows "bc_spec c' = bc_spec c" "bc_name c' = bc_name c" "bc_namespace c' = bc_namespace c" "bc_uid c' = bc_uid c"
    "bc_resourceVersion c' = bc_resourceVersion c" "bc_deletionTimestamp c' = bc_deletionTimestamp c"
    "st_declarativeUpgrade (bc_status c') = st_declarativeUpgrade (bc_status c)"
    "st_phaseStatus (bc_status c') = st_phaseStatus (bc_status c)"
proof -
  show "bc_spec c' = bc_spec c" using arg_cong [OF assms, of bc_spec] by (simp add: core_def)
  show "bc_name c' = bc_name c" using arg_cong [OF assms, of bc_name] by (simp add: core_def)
  show "bc_namespace c' = bc_namespace c" using arg_cong [OF assms, of bc_namespace] by (simp add: core_def)
  show "bc_uid c' = bc_uid c" using arg_cong [OF assms, of bc_uid] by (simp add: core_def)
  show "bc_resourceVersion c' = bc_resourceVersion c" using arg_cong [OF assms, of bc_resourceVersion] by (simp add: core_def)
  show "bc_deletionTimestamp c' = bc_deletionTimestamp c" using arg_cong [OF assms, of bc_deletionTimestamp] by (simp add: core_def)
  show "st_declarativeUpgrade (bc_status c') = st_declarativeUpgrade (bc_status c)"
    using arg_cong [OF assms, of "st_declarativeUpgrade \<circ> bc_status"] by (simp add: core_def)
  show "st_phaseStatus (bc_status c') = st_phaseStatus (bc_status c)"
    using arg_cong [OF assms, of "st_phaseStatus \<circ> bc_status"] by (simp add: core_def)
qed

lemma core_annotation: "core c' = core c \<Longrightarrow> k \<noteq> StatusRecordAnnotationKey \<Longrightarrow> HasAnnotation c' k = HasAnnotation c k"
  by (drule arg_cong [of _ _ "\<lambda>c. map_of (bc_annotations c) k"]) (simp add: core_def HasAnnotation_def AList.delete_conv)

text \<open>A relation between states of the world that every call but a patch of the cluster respects is
  respected by everything up to the final patch.\<close>

definition calls_respect :: "('w, 'o, 'p) merge_env \<Rightarrow> ('w \<Rightarrow> 'w \<Rightarrow> bool) \<Rightarrow> bool" where
  "calls_respect e R \<longleftrightarrow> reflp R \<and> transp R \<and> retry_loop_ok (me_retry e) \<and>
     (\<forall>w ns name. R w (fst (me_get e ns name w))) \<and> (\<forall>w ns name. R w (fst (me_getCM e ns name w))) \<and>
     (\<forall>w cm. R w (fst (me_createCM e cm w))) \<and> (\<forall>w cm. R w (fst (me_updateCM e cm w))) \<and>
     (\<forall>w ns name. R w (fst (me_listNodes e ns name w))) \<and> (\<forall>w ns name. R w (fst (me_getNode e ns name w))) \<and>
     (\<forall>w n. R w (fst (me_updateNodeStatus e n w)))"

lemma calls_respectD:
  assumes "calls_respect e R"
  shows "R w w" "R u w \<Longrightarrow> R w w' \<Longrightarrow> R u w'" "retry_loop_ok (me_retry e)"
    "R u w \<Longrightarrow> me_get e ns name w = (w', r1) \<Longrightarrow> R u w'" "R u w \<Longrightarrow> me_getCM e ns name w = (w', r2) \<Longrightarrow> R u w'"
    "R u w \<Longrightarrow> me_createCM e cm w = (w', r3) \<Longrightarrow> R u w'" "R u w \<Longrightarrow> me_updateCM e cm w = (w', r3) \<Longrightarrow> R u w'"
    "R u w \<Longrightarrow> me_listNodes e ns name w = (w', r5) \<Longrightarrow> R u w'" "R u w \<Longrightarrow> me_getNode e ns name w = (w', r6) \<Longrightarrow> R u w'"
    "R u w \<Longrightarrow> me_updateNodeStatus e n w = (w', r3) \<Longrightarrow> R u w'"
proof -
  have R: "reflp R" "transp R" "retry_loop_ok (me_retry e)" using assms by (auto simp: calls_respect_def)
  have t: "R u w \<Longrightarrow> R w (fst p) \<Longrightarrow> p = (w', r) \<Longrightarrow> R u w'" for u w w' and p :: "_ \<times> 'x" and r
    using R(2) by (auto dest: transpD)
  note c = assms [unfolded calls_respect_def]
  show "R w w" "R u w \<Longrightarrow> R w w' \<Longrightarrow> R u w'" "retry_loop_ok (me_retry e)" using R by (auto dest: reflpD transpD)
  show "R u w \<Longrightarrow> me_get e ns name w = (w', r1) \<Longrightarrow> R u w'" using c t by (metis fst_conv R(2) transpD)
  show "R u w \<Longrightarrow> me_getCM e ns name w = (w', r2) \<Longrightarrow> R u w'" using c by (metis fst_conv R(2) transpD)
  show "R u w \<Longrightarrow> me_createCM e cm w = (w', r3) \<Longrightarrow> R u w'" using c by (metis fst_conv R(2) transpD)
  show "R u w \<Longrightarrow> me_updateCM e cm w = (w', r3) \<Longrightarrow> R u w'" using c by (metis fst_conv R(2) transpD)
  show "R u w \<Longrightarrow> me_listNodes e ns name w = (w', r5) \<Longrightarrow> R u w'" using c by (metis fst_conv R(2) transpD)
  show "R u w \<Longrightarrow> me_getNode e ns name w = (w', r6) \<Longrightarrow> R u w'" using c by (metis fst_conv R(2) transpD)
  show "R u w \<Longrightarrow> me_updateNodeStatus e n w = (w', r3) \<Longrightarrow> R u w'" using c by (metis fst_conv R(2) transpD)
qed

lemma GetCombinedBKEClusterCM_R:
  assumes "calls_respect e R" "GetCombinedBKEClusterCM e c w = (w', r)"
  shows "R w w'"
  using assms(2)
  by (auto simp: GetCombinedBKEClusterCM_def handleConfigMapNotFound_def Let_def split: prod.splits sum.splits if_splits option.splits)
    (blast intro: calls_respectD(1,5,6) [OF assms(1)])+

lemma GetCombinedBKECluster_R:
  assumes "calls_respect e R" "GetCombinedBKECluster e ns name w = (w', r)"
  shows "R w w'"
proof -
  obtain w1 r1 where g: "me_get e ns name w = (w1, r1)" by fastforce
  have "R w w1" using calls_respectD(1,4) [OF assms(1)] g by blast
  moreover have "R w1 w'"
  proof (cases r1)
    case (Inl err)
    with g assms(2) calls_respectD(1) [OF assms(1)] show ?thesis by (simp add: GetCombinedBKECluster_def)
  next
    case (Inr c)
    obtain w2 r2 where c: "GetCombinedBKEClusterCM e c w1 = (w2, r2)" by fastforce
    with Inr g assms(2) have "w' = w2" by (auto simp: GetCombinedBKECluster_def split: sum.splits)
    with GetCombinedBKEClusterCM_R [OF assms(1) c] show ?thesis by simp
  qed
  ultimately show ?thesis by (rule calls_respectD(2) [OF assms(1)])
qed

lemma processNodeData_R:
  assumes "calls_respect e R" "processNodeData e c del w = (w', r)"
  shows "R w w'"
proof -
  obtain w1 r1 where g: "GetCombinedBKEClusterCM e c w = (w1, r1)" by fastforce
  with assms(2) have "w' = w1"
    by (auto simp: processNodeData_def getBkeClusterAssociateNodesCM_def Let_def split: sum.splits option.splits)
  with GetCombinedBKEClusterCM_R [OF assms(1) g] show ?thesis by simp
qed

lemma write_nodes_R:
  assumes "calls_respect e R" "write_nodes e ns w = (w', r)"
  shows "R w w'"
  using assms(2)
proof (induction ns arbitrary: w)
  case Nil
  then show ?case using calls_respectD(1) [OF assms(1)] by simp
next
  case (Cons n ns)
  obtain w1 r1 where l: "RetryOnConflict (me_retry e) (write_node e n) w = (w1, r1)" by fastforce
  have step: "R w u \<Longrightarrow> write_node e n u = (u', q) \<Longrightarrow> R w u'" for u u' q
    by (auto simp: write_node_def split: prod.splits sum.splits) (blast intro: calls_respectD(9,10) [OF assms(1)])+
  have "R w w1"
    by (rule RetryOnConflict_induct [OF calls_respectD(3) [OF assms(1)] l, where I = "R w" and Q = "\<lambda>u _. R w u"])
      (use calls_respectD(1) [OF assms(1)] step in auto)
  moreover have "R w1 w'" using Cons l calls_respectD(1) [OF assms(1)] by (auto split: option.splits if_splits)
  ultimately show ?case by (rule calls_respectD(2) [OF assms(1)])
qed

lemma UpdateModifiedBKENodes_R:
  assumes "calls_respect e R" "UpdateModifiedBKENodes e ns w = (w', ns', r)"
  shows "R w w'"
proof (cases "GetModifiedNodes ns")
  case Nil
  with assms(2) calls_respectD(1) [OF assms(1)] show ?thesis by (simp add: UpdateModifiedBKENodes_def)
next
  case (Cons n rest)
  obtain w1 r1 where l: "write_nodes e (n # rest) w = (w1, r1)" by fastforce
  with assms(2) Cons have "w' = w1" by (auto simp: UpdateModifiedBKENodes_def simp del: write_nodes.simps split: option.splits)
  with write_nodes_R [OF assms(1) l] show ?thesis by simp
qed

lemma write_config_map_R:
  assumes "calls_respect e R" "write_config_map e ns cm w = (w', r)"
  shows "R w w'"
  using assms(2)
  by (auto simp: write_config_map_def Let_def split: sum.splits prod.splits option.splits if_splits)
    (blast intro: calls_respectD(1,7) [OF assms(1)])+

section \<open>What is stored\<close>

text \<open>The client keeps clusters under their name: reading returns what is stored and answers ``not
  found'' only for what is absent, a patch made from the stored object stores the new one under a
  resource version of the server's choice, and the other calls do not touch clusters.\<close>

definition keeps_clusters :: "('w, 'o, 'p) merge_env \<Rightarrow> ('w \<Rightarrow> string \<times> string \<Rightarrow> bke_cluster option) \<Rightarrow> bool" where
  "keeps_clusters e store \<longleftrightarrow> calls_respect e (\<lambda>w w'. store w' = store w) \<and>
     (\<forall>ns name w w' c. me_get e ns name w = (w', Inr c) \<longrightarrow> store w (ns, name) = Some c \<and> bc_namespace c = ns \<and> bc_name c = name) \<and>
     (\<forall>ns name w w'. me_get e ns name w = (w', Inl ApiNotFound) \<longrightarrow> store w (ns, name) = None) \<and>
     (\<forall>before after w w'. me_patch e before after w = (w', None) \<longrightarrow> store w (bc_namespace before, bc_name before) = Some before \<longrightarrow>
        (\<exists>rv. store w' = (store w)((bc_namespace before, bc_name before) \<mapsto> after\<lparr>bc_resourceVersion := rv\<rparr>)))"

lemma keeps_get:
  assumes "keeps_clusters e store" "me_get e ns name w = (w', Inr c)"
  shows "store w (ns, name) = Some c" "bc_namespace c = ns" "bc_name c = name"
  using assms unfolding keeps_clusters_def by blast+

text \<open>A JSON patch changes only what the compared documents differ in: with equal status and identity
  it leaves status and identity of the patched object alone.\<close>

definition merges_differences :: "('w, 'o, 'p) merge_env \<Rightarrow> bool" where
  "merges_differences e \<longleftrightarrow>
     (\<forall>old new p c b b' c'. Diff e old new = Inr (Some p) \<longrightarrow> me_marshal e c = Inr b \<longrightarrow> me_apply e p b = Inr b' \<longrightarrow>
        me_unmarshal e b' c = (c', None) \<longrightarrow> bc_status old = bc_status new \<longrightarrow> bc_namespace old = bc_namespace new \<longrightarrow>
        bc_name old = bc_name new \<longrightarrow> bc_status c' = bc_status c \<and> bc_namespace c' = bc_namespace c \<and> bc_name c' = bc_name c)"

text \<open>Patches of callers change neither the identity of a cluster nor its declarative progress.\<close>

definition patch_ok :: "patch_func \<Rightarrow> bool" where
  "patch_ok p \<longleftrightarrow> (\<forall>c. bc_namespace (p c) = bc_namespace c \<and> bc_name (p c) = bc_name c \<and>
     st_declarativeUpgrade (bc_status (p c)) = st_declarativeUpgrade (bc_status c))"

lemma fold_patch_ok:
  assumes "\<forall>p\<in>set ps. patch_ok p"
  shows "bc_namespace (fold (\<lambda>p. p) ps c) = bc_namespace c" "bc_name (fold (\<lambda>p. p) ps c) = bc_name c"
    "st_declarativeUpgrade (bc_status (fold (\<lambda>p. p) ps c)) = st_declarativeUpgrade (bc_status c)"
  using assms by (induction ps arbitrary: c) (auto simp: patch_ok_def)

lemma combined_at_status: "combined_at n e c cm = Inr c' \<Longrightarrow> bc_status c' = bc_status c"
  by (cases n) (auto simp: handleLastUpdateConfiguration_def setDefaultCustomExtra_def Let_def
      split: sum.splits option.splits prod.splits if_splits)

lemma upd_clusterStatus_frame [simp]:
  "bc_status (upd_clusterStatus f c) = f (bc_status c)" "bc_namespace (upd_clusterStatus f c) = bc_namespace c"
  "bc_name (upd_clusterStatus f c) = bc_name c" "bc_spec (upd_clusterStatus f c) = bc_spec c"
  "bc_uid (upd_clusterStatus f c) = bc_uid c" "bc_deletionTimestamp (upd_clusterStatus f c) = bc_deletionTimestamp c"
  "bc_annotations (upd_clusterStatus f c) = bc_annotations c" "bc_labels (upd_clusterStatus f c) = bc_labels c"
  by (simp_all add: upd_clusterStatus_def)

lemma comparable_frame [simp]:
  "bc_status (comparable c) = empty_status" "bc_namespace (comparable c) = []" "bc_name (comparable c) = []"
  by (simp_all add: comparable_def blank_cluster_def)

lemma handleExternalUpdates_keeps:
  assumes "merges_differences e" "handleExternalUpdates e c fresh = (c', None)"
  shows "bc_status c' = bc_status c" "bc_namespace c' = bc_namespace c" "bc_name c' = bc_name c"
proof -
  have "bc_status c' = bc_status c \<and> bc_namespace c' = bc_namespace c \<and> bc_name c' = bc_name c"
  proof (cases "GetCurrentBkeClusterPatches e c fresh = Inr None")
    case False
    then obtain p b b' where "Diff e (comparable c) (comparable fresh) = Inr (Some p)" "me_marshal e c = Inr b"
      "me_apply e p b = Inr b'" "me_unmarshal e b' c = (c', None)"
      using assms(2) by (auto simp: handleExternalUpdates_def GetCurrentBkeClusterPatches_def split: sum.splits option.splits)
    with assms(1) [unfolded merges_differences_def, rule_format, of "comparable c" "comparable fresh" p c b b' c'] show ?thesis by simp
  qed (use assms(2) in \<open>simp add: handleExternalUpdates_def\<close>)
  then show "bc_status c' = bc_status c" "bc_namespace c' = bc_namespace c" "bc_name c' = bc_name c" by simp_all
qed

text \<open>What the copy is after the fresh object has been read.\<close>

lemma prepareClusterData_result:
  assumes "keeps_clusters e store" "\<forall>p\<in>set ps. patch_ok p" "prepareClusterData e ps c w = (w', c', Inr fresh)"
  shows "store w' = store w"
    "\<exists>stored. store w (bc_namespace c, bc_name c) = Some stored \<and>
       st_declarativeUpgrade (bc_status c') =
         (case st_declarativeUpgrade (bc_status stored) of Some d \<Rightarrow> Some d | None \<Rightarrow> st_declarativeUpgrade (bc_status c)) \<and>
       st_phaseStatus (bc_status c') = st_phaseStatus (bc_status (fold (\<lambda>p. p) ps c)) \<and>
       bc_namespace c' = bc_namespace c \<and> bc_name c' = bc_name c"
proof -
  have resp: "calls_respect e (\<lambda>w w'. store w' = store w)" using assms(1) by (simp add: keeps_clusters_def)
  let ?ns = "bc_namespace c" and ?n = "bc_name c"
  obtain cur where g: "GetCombinedBKECluster e ?ns ?n w = (w', Inr cur)"
    using assms(3) by (auto simp: prepareClusterData_def Let_def split: prod.splits sum.splits)
  from GetCombinedBKECluster_R [OF resp g] show "store w' = store w" by simp
  from g obtain w1 stored cm where s: "me_get e ?ns ?n w = (w1, Inr stored)" "CombinedBKECluster e stored cm = Inr cur"
    by (auto simp: GetCombinedBKECluster_def split: prod.splits sum.splits)
  then have st: "store w (?ns, ?n) = Some stored" using assms(1) by (simp add: keeps_clusters_def)
  have cur: "bc_status cur = bc_status stored" using combined_at_status s(2) by (simp only: CombinedBKECluster_def)
  from assms(3) g fold_patch_ok [OF assms(2)]
  have "st_declarativeUpgrade (bc_status c') =
         (case st_declarativeUpgrade (bc_status stored) of Some d \<Rightarrow> Some d | None \<Rightarrow> st_declarativeUpgrade (bc_status c))"
    "st_phaseStatus (bc_status c') = st_phaseStatus (bc_status (fold (\<lambda>p. p) ps c))" "bc_namespace c' = ?ns" "bc_name c' = ?n"
    by (auto simp: prepareClusterData_def Let_def PreserveDeclarativeUpgradeFromFresh_def cur split: option.splits)
  with st show "\<exists>stored. store w (?ns, ?n) = Some stored \<and>
       st_declarativeUpgrade (bc_status c') =
         (case st_declarativeUpgrade (bc_status stored) of Some d \<Rightarrow> Some d | None \<Rightarrow> st_declarativeUpgrade (bc_status c)) \<and>
       st_phaseStatus (bc_status c') = st_phaseStatus (bc_status (fold (\<lambda>p. p) ps c)) \<and>
       bc_namespace c' = ?ns \<and> bc_name c' = ?n" by blast
qed

text \<open>The final patch: the object that is stored.\<close>

lemma updateClusterAndConfigMap_result:
  assumes k: "keeps_clusters e store" and i: "\<not> me_internalUpdate e"
    and u: "updateClusterAndConfigMap e ps c before before fcm cm (m, w) = ((m', w'), c', None)"
    and b: "store w (bc_namespace before, bc_name before) = Some before"
  shows "\<exists>s v. store w' (bc_namespace before, bc_name before) = Some s \<and>
    bc_spec s = bc_spec c \<and> bc_uid s = bc_uid before \<and> bc_deletionTimestamp s = bc_deletionTimestamp before \<and>
    st_declarativeUpgrade (bc_status s) = st_declarativeUpgrade (bc_status c) \<and>
    st_phaseStatus (bc_status s) = fixPhaseStatus (st_phaseStatus (bc_status c)) \<and>
    HasAnnotation s LastUpdateConfigurationAnnotationKey = Some v \<and> me_marshal e (cleanBkeCluster s) = Inr v"
proof -
  have resp: "calls_respect e (\<lambda>w w'. store w' = store w)" using k by (simp add: keeps_clusters_def)
  define new1 where "new1 = upd_clusterStatus (\<lambda>st. st\<lparr>st_phaseStatus := fixPhaseStatus (st_phaseStatus st)\<rparr>) (newTmpBkeCluster c before)"
  from u obtain v where v: "me_marshal e (cleanBkeCluster new1) = Inr v"
    by (cases "me_marshal e (cleanBkeCluster new1)") (auto simp: updateClusterAndConfigMap_def Let_def new1_def)
  define new2 where "new2 = SetAnnotation new1 LastUpdateConfigurationAnnotationKey v"
  obtain w1 r1 where l: "getBKENodesForCluster e new2 w = (w1, r1)" by fastforce
  define nodes where "nodes = (case r1 of Inl _ \<Rightarrow> [] | Inr ns \<Rightarrow> ns)"
  obtain m3 new3 nodes' where s: "SetStatus (me_allowedFailed e) (me_now e w1) m new2 nodes = (m3, new3, nodes')" by (metis prod.collapse)
  obtain w2 ns2 r2 where n: "UpdateModifiedBKENodes e nodes' w1 = (w2, ns2, r2)" by (metis prod.collapse)
  obtain w3 r3 where p: "me_patch e before new3 w2 = (w3, r3)" by fastforce
  have sel: "(case getBKENodesForCluster e new2 w of (w1, Inl _) \<Rightarrow> (w1, []) | (w1, Inr ns) \<Rightarrow> (w1, ns)) = (w1, nodes)"
    by (simp add: l nodes_def split: sum.splits)
  from u have fin: "r3 = None" "write_config_map e fcm cm w3 = (w', None)"
    using i by (auto simp: updateClusterAndConfigMap_def Let_def new1_def [symmetric] v new2_def [symmetric] sel s n p split: if_splits prod.splits)
  have "store w2 = store w"
    using calls_respectD(8) [OF resp refl, of new_ns new_n w w1 r1 for new_ns new_n] l UpdateModifiedBKENodes_R [OF resp n]
    unfolding getBKENodesForCluster_def by metis
  then obtain rv where "store w3 = (store w2)((bc_namespace before, bc_name before) \<mapsto> new3\<lparr>bc_resourceVersion := rv\<rparr>)"
    using k p fin(1) b unfolding keeps_clusters_def by metis
  then have st: "store w' (bc_namespace before, bc_name before) = Some (new3\<lparr>bc_resourceVersion := rv\<rparr>)"
    using write_config_map_R [OF resp fin(2)] by simp
  note c3 = SetStatus_core [OF s]
  have "HasAnnotation new3 LastUpdateConfigurationAnnotationKey = Some v"
    using core_annotation [OF c3, of LastUpdateConfigurationAnnotationKey]
    by (simp add: new2_def StatusRecordAnnotationKey_def LastUpdateConfigurationAnnotationKey_def)
  moreover have "cleanBkeCluster (new3\<lparr>bc_resourceVersion := rv\<rparr>) = cleanBkeCluster new1"
    using core_fields(1-3) [OF c3] by (simp add: cleanBkeCluster_def new2_def)
  ultimately show ?thesis using st v core_fields [OF c3]
    by (intro exI [of _ "new3\<lparr>bc_resourceVersion := rv\<rparr>"] exI [of _ v])
      (simp add: HasAnnotation_def new2_def new1_def newTmpBkeCluster_def SetAnnotation_def)
qed

lemma UpdateCombinedBKECluster_result:
  assumes k: "keeps_clusters e store" and d: "merges_differences e" and i: "\<not> me_internalUpdate e"
    and ok: "\<forall>p\<in>set ps. patch_ok p"
    and u: "UpdateCombinedBKECluster e del ps c (m, w) = ((m', w'), c', None)"
  shows "\<exists>stored c1 c2 fresh w1 s v. prepareClusterData e ps c w = (w1, c1, Inr fresh) \<and> handleExternalUpdates e c1 fresh = (c2, None) \<and>
    store w (bc_namespace c, bc_name c) = Some stored \<and> store w' (bc_namespace c, bc_name c) = Some s \<and>
    bc_spec s = bc_spec c2 \<and> bc_uid s = bc_uid stored \<and> bc_deletionTimestamp s = bc_deletionTimestamp stored \<and>
    st_declarativeUpgrade (bc_status s) =
      (case st_declarativeUpgrade (bc_status stored) of Some d \<Rightarrow> Some d | None \<Rightarrow> st_declarativeUpgrade (bc_status c)) \<and>
    st_phaseStatus (bc_status s) = fixPhaseStatus (st_phaseStatus (bc_status (fold (\<lambda>p. p) ps c))) \<and>
    HasAnnotation s LastUpdateConfigurationAnnotationKey = Some v \<and> me_marshal e (cleanBkeCluster s) = Inr v"
proof -
  have resp: "calls_respect e (\<lambda>w w'. store w' = store w)" using k by (simp add: keeps_clusters_def)
  obtain w1 c1 fresh where p: "prepareClusterData e ps c w = (w1, c1, Inr fresh)"
    using u by (auto simp: UpdateCombinedBKECluster_def split: prod.splits sum.splits)
  obtain c2 where h: "handleExternalUpdates e c1 fresh = (c2, None)"
    using u by (auto simp: UpdateCombinedBKECluster_def p split: prod.splits option.splits)
  obtain stored where st: "store w (bc_namespace c, bc_name c) = Some stored"
    "st_declarativeUpgrade (bc_status c1) =
      (case st_declarativeUpgrade (bc_status stored) of Some d \<Rightarrow> Some d | None \<Rightarrow> st_declarativeUpgrade (bc_status c))"
    "st_phaseStatus (bc_status c1) = st_phaseStatus (bc_status (fold (\<lambda>p. p) ps c))"
    "bc_namespace c1 = bc_namespace c" "bc_name c1 = bc_name c"
    using prepareClusterData_result(2) [OF k ok p] by blast
  note c2 = handleExternalUpdates_keeps [OF d h]
  obtain w2 r2 where g: "me_get e (bc_namespace c) (bc_name c) w1 = (w2, r2)" by fastforce
  have same: "store w1 = store w" "store w2 = store w"
    using prepareClusterData_result(1) [OF k ok p] calls_respectD(4) [OF resp refl g] by simp_all
  have "r2 \<noteq> Inl ApiNotFound" using g st(1) same(1) k unfolding keeps_clusters_def by (metis option.distinct(1))
  with u obtain before where b: "r2 = Inr before"
    by (auto simp: UpdateCombinedBKECluster_def p h initializePatchHelper_def c2 st(4,5) g IsNotFound_def split: sum.splits if_splits)
  with g k same(1) st(1) have before: "before = stored" "bc_namespace before = bc_namespace c" "bc_name before = bc_name c"
    using keeps_get [OF k g [unfolded b]] by simp_all
  obtain w4 cm ncm fcl fcm where n: "processNodeData e c2 del w2 = (w4, Inr (cm, ncm, fcl, fcm))"
    and f: "updateClusterAndConfigMap e ps c2 before before fcm cm (m, w4) = ((m', w'), c', None)"
    using u i by (auto simp: UpdateCombinedBKECluster_def p h initializePatchHelper_def c2 st(4,5) g b
        handleInternalUpdateCondition_def split: prod.splits sum.splits option.splits if_splits)
  have "store w4 (bc_namespace before, bc_name before) = Some before"
    using processNodeData_R [OF resp n] same st(1) before by simp
  from updateClusterAndConfigMap_result [OF k i f this] obtain s v where
    "store w' (bc_namespace before, bc_name before) = Some s" "bc_spec s = bc_spec c2" "bc_uid s = bc_uid before"
    "bc_deletionTimestamp s = bc_deletionTimestamp before" "st_declarativeUpgrade (bc_status s) = st_declarativeUpgrade (bc_status c2)"
    "st_phaseStatus (bc_status s) = fixPhaseStatus (st_phaseStatus (bc_status c2))"
    "HasAnnotation s LastUpdateConfigurationAnnotationKey = Some v" "me_marshal e (cleanBkeCluster s) = Inr v" by blast
  with p h st c2 before show ?thesis by metis
qed

section \<open>Properties of a write\<close>

text \<open>C5. A successful write of a cluster never sets the progress of a declarative upgrade back: if
  the stored object has progress then exactly this progress is stored, whatever the written copy
  says. The stored object keeps its identity, its history of phases is the trimmed history of the
  copy, and its annotation records exactly the specification that is stored with it.\<close>

theorem write_back_result:
  assumes "keeps_clusters e store" and "merges_differences e" and "\<not> me_internalUpdate e"
    and "\<forall>p \<in> set patchs. patch_ok p"
    and "UpdateCombinedBKECluster e deleteNodes patchs c (m, w) = ((m', w'), c', None)"
  shows "\<exists>stored s v. store w (bc_namespace c, bc_name c) = Some stored \<and> store w' (bc_namespace c, bc_name c) = Some s \<and>
    bc_uid s = bc_uid stored \<and> bc_deletionTimestamp s = bc_deletionTimestamp stored \<and>
    st_declarativeUpgrade (bc_status s) =
      (case st_declarativeUpgrade (bc_status stored) of Some d \<Rightarrow> Some d | None \<Rightarrow> st_declarativeUpgrade (bc_status c)) \<and>
    st_phaseStatus (bc_status s) = fixPhaseStatus (st_phaseStatus (bc_status (fold (\<lambda>p. p) patchs c))) \<and>
    HasAnnotation s LastUpdateConfigurationAnnotationKey = Some v \<and> me_marshal e (cleanBkeCluster s) = Inr v"
  using UpdateCombinedBKECluster_result [OF assms] by metis

text \<open>Reading a document into an object keeps the fields that the document leaves out. Of the
  switches of a specification \<^verbatim>\<open>pause\<close> is always written and \<^verbatim>\<open>reset\<close> only when it is set; what two
  documents agree in, a patch between them does not touch.\<close>

definition reads_switches :: "('w, 'o, 'p) merge_env \<Rightarrow> bool" where
  "reads_switches e \<longleftrightarrow>
     (\<forall>old new p c b b' c'. Diff e old new = Inr (Some p) \<longrightarrow> bc_spec c = bc_spec old \<longrightarrow> me_marshal e c = Inr b \<longrightarrow>
        me_apply e p b = Inr b' \<longrightarrow> me_unmarshal e b' c = (c', None) \<longrightarrow>
        bs_pause (bc_spec c') = bs_pause (bc_spec new) \<and> bs_reset (bc_spec c') = (bs_reset (bc_spec new) \<or> bs_reset (bc_spec c))) \<and>
     (\<forall>old new. Diff e old new = Inr None \<longrightarrow> bs_pause (bc_spec old) = bs_pause (bc_spec new) \<and> bs_reset (bc_spec old) = bs_reset (bc_spec new))"

lemma prepare_fresh_spec:
  assumes "keeps_clusters e store" "prepareClusterData e [] c w = (w', c', Inr fresh)" "store w (bc_namespace c, bc_name c) = Some stored"
  shows "bs_pause (bc_spec fresh) = bs_pause (bc_spec stored)" "bs_reset (bc_spec fresh) = bs_reset (bc_spec stored)"
    "bc_spec c' = bc_spec c"
proof -
  obtain cur where g: "GetCombinedBKECluster e (bc_namespace c) (bc_name c) w = (w', Inr cur)" and f: "bc_spec fresh = bc_spec cur"
    using assms(2) by (auto simp: prepareClusterData_def Let_def split: prod.splits sum.splits)
  from g assms(1,3) obtain cm where "CombinedBKECluster e stored cm = Inr cur"
    by (auto simp: GetCombinedBKECluster_def keeps_clusters_def split: prod.splits sum.splits)
  then have "bs_pause (bc_spec cur) = bs_pause (bc_spec stored) \<and> bs_reset (bc_spec cur) = bs_reset (bc_spec stored)"
    by (auto simp: CombinedBKECluster_def handleLastUpdateConfiguration_def setDefaultCustomExtra_def Let_def
        split: sum.splits option.splits prod.splits if_splits)
  with f show "bs_pause (bc_spec fresh) = bs_pause (bc_spec stored)" "bs_reset (bc_spec fresh) = bs_reset (bc_spec stored)" by simp_all
  show "bc_spec c' = bc_spec c"
    using assms(2) g by (auto simp: prepareClusterData_def Let_def PreserveDeclarativeUpgradeFromFresh_def split: option.splits)
qed

text \<open>Edits of others while the copy was held: the switch to pause a cluster is stored as they
  left it, but a reset that they took back is set again by a copy that still has it.\<close>

theorem edits_of_switches:
  assumes "keeps_clusters e store" and "merges_differences e" and "reads_switches e" and "\<not> me_internalUpdate e"
    and "UpdateCombinedBKECluster e deleteNodes [] c (m, w) = ((m', w'), c', None)"
  shows "\<exists>stored s. store w (bc_namespace c, bc_name c) = Some stored \<and> store w' (bc_namespace c, bc_name c) = Some s \<and>
    bs_pause (bc_spec s) = bs_pause (bc_spec stored) \<and>
    bs_reset (bc_spec s) = (bs_reset (bc_spec stored) \<or> bs_reset (bc_spec c))"
proof -
  obtain stored c1 c2 fresh w1 s where r: "prepareClusterData e [] c w = (w1, c1, Inr fresh)" "handleExternalUpdates e c1 fresh = (c2, None)"
    "store w (bc_namespace c, bc_name c) = Some stored" "store w' (bc_namespace c, bc_name c) = Some s" "bc_spec s = bc_spec c2"
    using UpdateCombinedBKECluster_result [OF assms(1,2,4) _ assms(5)] by (metis empty_iff list.set(1))
  note fs = prepare_fresh_spec [OF assms(1) r(1,3)]
  have "bs_pause (bc_spec c2) = bs_pause (bc_spec fresh) \<and> bs_reset (bc_spec c2) = (bs_reset (bc_spec fresh) \<or> bs_reset (bc_spec c1))"
  proof (cases "GetCurrentBkeClusterPatches e c1 fresh = Inr None")
    case True
    then have "c2 = c1" "Diff e (comparable c1) (comparable fresh) = Inr None"
      using r(2) by (auto simp: handleExternalUpdates_def GetCurrentBkeClusterPatches_def)
    moreover have "bc_spec (comparable d) = bc_spec d" for d by (simp add: comparable_def)
    ultimately show ?thesis using assms(3) unfolding reads_switches_def by metis
  next
    case False
    then obtain p b b' where "Diff e (comparable c1) (comparable fresh) = Inr (Some p)" "me_marshal e c1 = Inr b"
      "me_apply e p b = Inr b'" "me_unmarshal e b' c1 = (c2, None)"
      using r(2) by (auto simp: handleExternalUpdates_def GetCurrentBkeClusterPatches_def split: sum.splits option.splits)
    moreover have "bc_spec (comparable d) = bc_spec d" for d by (simp add: comparable_def)
    ultimately show ?thesis using assms(3) unfolding reads_switches_def by metis
  qed
  with r fs show ?thesis by metis
qed

section \<open>The retry loop\<close>

text \<open>Every call takes time, a read of the cluster at least one unit.\<close>

definition time_passes :: "('w, 'o, 'p) merge_env \<Rightarrow> ('w \<Rightarrow> nat) \<Rightarrow> bool" where
  "time_passes e clock \<longleftrightarrow> calls_respect e (\<lambda>w w'. clock w \<le> clock w') \<and>
     (\<forall>ns name w. clock w < clock (fst (me_get e ns name w))) \<and> (\<forall>before after w. clock w \<le> clock (fst (me_patch e before after w)))"

lemma GetCombinedBKECluster_time:
  assumes "time_passes e clock" "GetCombinedBKECluster e ns name w = (w', r)"
  shows "clock w < clock w'"
proof -
  have resp: "calls_respect e (\<lambda>w w'. clock w \<le> clock w')" using assms(1) by (simp add: time_passes_def)
  obtain w1 r1 where g: "me_get e ns name w = (w1, r1)" by fastforce
  have "clock w < clock w1" using assms(1) g unfolding time_passes_def by (metis fst_conv)
  moreover have "clock w1 \<le> clock w'"
    using assms(2) g GetCombinedBKEClusterCM_R [OF resp]
    by (auto simp: GetCombinedBKECluster_def split: sum.splits prod.splits)
  ultimately show ?thesis by simp
qed

lemma handleInternalUpdateCondition_time:
  assumes "time_passes e clock" "handleInternalUpdateCondition e ps c w = (w', c', r)"
  shows "clock w \<le> clock w'"
proof -
  have "clock w \<le> clock (fst (me_patch e b a w))" for b a using assms(1) by (simp add: time_passes_def)
  with assms(2) show ?thesis
    by (auto simp: handleInternalUpdateCondition_def handlePatchesNotEmpty_def handlePatchesEmpty_def Let_def
        split: if_splits prod.splits) (metis fst_conv)+
qed

lemma updateClusterAndConfigMap_time:
  assumes "time_passes e clock" "updateClusterAndConfigMap e ps c before cur fcm cm (m, w) = ((m', w'), c', r)"
  shows "clock w \<le> clock w'"
proof -
  have resp: "calls_respect e (\<lambda>w w'. clock w \<le> clock w')" and pt: "\<And>b a w. clock w \<le> clock (fst (me_patch e b a w))"
    using assms(1) by (auto simp: time_passes_def)
  define new1 where "new1 = upd_clusterStatus (\<lambda>st. st\<lparr>st_phaseStatus := fixPhaseStatus (st_phaseStatus st)\<rparr>) (newTmpBkeCluster c cur)"
  show ?thesis
  proof (cases "me_marshal e (cleanBkeCluster new1)")
    case (Inl err)
    with assms(2) show ?thesis by (simp add: updateClusterAndConfigMap_def Let_def new1_def)
  next
    case (Inr v)
    define new2 where "new2 = SetAnnotation new1 LastUpdateConfigurationAnnotationKey v"
    obtain w1 r1 where l: "getBKENodesForCluster e new2 w = (w1, r1)" by fastforce
    define nodes where "nodes = (case r1 of Inl _ \<Rightarrow> [] | Inr ns \<Rightarrow> ns)"
    have sel: "(case getBKENodesForCluster e new2 w of (w1, Inl _) \<Rightarrow> (w1, []) | (w1, Inr ns) \<Rightarrow> (w1, ns)) = (w1, nodes)"
      by (simp add: l nodes_def split: sum.splits)
    obtain m3 new3 nodes' where s: "SetStatus (me_allowedFailed e) (me_now e w1) m new2 nodes = (m3, new3, nodes')" by (metis prod.collapse)
    obtain w2 ns2 r2 where n: "UpdateModifiedBKENodes e nodes' w1 = (w2, ns2, r2)" by (metis prod.collapse)
    obtain w3 r3 where p: "me_patch e before new3 w2 = (w3, r3)" by fastforce
    obtain w4 r4 where f: "(if r3 \<noteq> None then (w3, r3) else write_config_map e fcm cm w3) = (w4, r4)" by fastforce
    have "clock w \<le> clock w1" using calls_respectD(8) [OF resp order_refl] l unfolding getBKENodesForCluster_def by metis
    also have "\<dots> \<le> clock w2" by (rule UpdateModifiedBKENodes_R [OF resp n])
    also have "\<dots> \<le> clock w3" using pt [of w2 before new3] p by simp
    also have "\<dots> \<le> clock w4" using f write_config_map_R [OF resp] by (auto split: if_splits)
    also have "\<dots> \<le> clock w'"
    proof -
      have "w' = w4 \<or> w' = fst (me_patch e before (RemoveCondition InternalSpecChangeCondition new3) w4)"
        using assms(2) f by (auto simp: updateClusterAndConfigMap_def Let_def new1_def [symmetric] Inr new2_def [symmetric] sel s n p split: if_splits prod.splits)
      with pt show ?thesis by auto
    qed
    finally show ?thesis .
  qed
qed

lemma UpdateCombinedBKECluster_time:
  assumes t: "time_passes e clock" and u: "UpdateCombinedBKECluster e del ps c (m, w) = ((m', w'), c', r)"
  shows "clock w < clock w'"
proof -
  have resp: "calls_respect e (\<lambda>w w'. clock w \<le> clock w')" using t by (simp add: time_passes_def)
  obtain w1 c1 r1 where p: "prepareClusterData e ps c w = (w1, c1, r1)" by (metis prod.collapse)
  have "fst (prepareClusterData e ps c w) = fst (GetCombinedBKECluster e (bc_namespace c) (bc_name c) w)"
    by (simp add: prepareClusterData_def Let_def split: prod.splits sum.splits)
  with p have s: "clock w < clock w1" using GetCombinedBKECluster_time [OF t] by (metis fst_conv prod.collapse)
  show ?thesis
  proof (cases "(\<exists>err. r1 = Inl err) \<or> snd (handleExternalUpdates e c1 (projr r1)) \<noteq> None")
    case True
    with u p s show ?thesis by (auto simp: UpdateCombinedBKECluster_def split: sum.splits prod.splits option.splits)
  next
    case False
    then obtain fresh c2 where h: "r1 = Inr fresh" "handleExternalUpdates e c1 fresh = (c2, None)"
      by (cases r1) (auto simp: prod_eq_iff intro: that)
    obtain w2 r2 where i: "initializePatchHelper e c2 w1 = (w2, r2)" by fastforce
    obtain w2' r2' where "me_get e (bc_namespace c2) (bc_name c2) w1 = (w2', r2')" by fastforce
    with i have "clock w1 \<le> clock w2"
      using calls_respectD(4) [OF resp order_refl, of _ _ w1 w2' r2'] by (auto simp: initializePatchHelper_def split: sum.splits if_splits option.splits)
    moreover have "clock w2 \<le> clock w'"
    proof (cases r2)
      case (Inr b)
      show ?thesis
      proof (cases b)
        case (Some before)
        obtain w3 cur r3 where k: "handleInternalUpdateCondition e ps before w2 = (w3, cur, r3)" by (metis prod.collapse)
        obtain w4 r4 where n: "processNodeData e c2 del w3 = (w4, r4)" by fastforce
        have m: "clock w2 \<le> clock w3" "clock w3 \<le> clock w4"
          using handleInternalUpdateCondition_time [OF t k] processNodeData_R [OF resp n] by auto
        show ?thesis
        proof (cases "r3 \<noteq> None \<or> isl r4")
          case True
          with u p h i Inr Some k n m show ?thesis by (auto simp: UpdateCombinedBKECluster_def isl_def split: option.splits)
        next
          case False
          then obtain cm ncm fcl fcm where r: "r3 = None" "r4 = Inr (cm, ncm, fcl, fcm)" by (cases r4) auto
          obtain m5 w5 c5 r5 where f: "updateClusterAndConfigMap e ps c2 before cur fcm cm (m, w4) = ((m5, w5), c5, r5)" by (metis prod.collapse)
          with u p h i Inr Some k n r have "w' = w5" by (simp add: UpdateCombinedBKECluster_def)
          with m updateClusterAndConfigMap_time [OF t f] show ?thesis by simp
        qed
      qed (use u p h i Inr in \<open>simp add: UpdateCombinedBKECluster_def\<close>)
    qed (use u p h i in \<open>simp add: UpdateCombinedBKECluster_def\<close>)
    ultimately show ?thesis using s by simp
  qed
qed

text \<open>How the loop can end, given the last call and the state it leaves.\<close>

fun ended_well :: "('w, 'o, 'p) merge_env \<Rightarrow> ('w \<Rightarrow> nat) \<Rightarrow> nat \<Rightarrow> patch_func list \<Rightarrow> (status_manager \<times> 'w) \<times> bke_cluster \<times> sync_result \<Rightarrow> bool" where
  "ended_well e clock deadline ps (mw', c', Sync_timeout) \<longleftrightarrow> deadline \<le> clock (snd mw')"
| "ended_well e clock deadline ps (mw', c', Sync_done) \<longleftrightarrow>
     (\<exists>c mw. UpdateCombinedBKECluster e [] ps c mw = (mw', c', None) \<or>
             UpdateCombinedBKECluster e [] ps c mw = (mw', c', Some (Failed_with ApiNotFound)))"
| "ended_well e clock deadline ps (mw', c', Sync_error err) \<longleftrightarrow> err \<in> {ApiForbidden, ApiBadRequest, ApiInvalid} \<and>
     (\<exists>c mw. UpdateCombinedBKECluster e [] ps c mw = (mw', c', Some (Failed_with err)))"
| "ended_well e clock deadline ps (mw', c', Sync_panic) \<longleftrightarrow>
     (\<exists>c mw. UpdateCombinedBKECluster e [] ps c mw = (mw', c', Some Panicked))"

lemma cluster_sync_loop_ends:
  assumes t: "time_passes e clock"
  shows "\<exists>r. cluster_sync_loop e clock deadline ps c mw = Some r \<and> ended_well e clock deadline ps r"
proof (induction "deadline - clock (snd mw)" arbitrary: c mw rule: less_induct)
  case less
  obtain m w where mw: "mw = (m, w)" by fastforce
  obtain m' w' c' r where u: "UpdateCombinedBKECluster e [] ps c mw = ((m', w'), c', r)" by (metis prod.collapse)
  note adv = UpdateCombinedBKECluster_time [OF t u [unfolded mw]]
  show ?case
  proof (cases "deadline \<le> clock w")
    case True
    then show ?thesis by (auto simp: cluster_sync_loop.simps [of e clock deadline ps c "(m, w)"] mw)
  next
    case False
    then have IH: "\<exists>r. cluster_sync_loop e clock deadline ps c' (m', w') = Some r \<and> ended_well e clock deadline ps r"
      using adv mw by (intro less) simp
    show ?thesis
    proof (cases r)
      case None
      with u False mw show ?thesis by (simp add: cluster_sync_loop.simps [of e clock deadline ps c "(m, w)"]) blast
    next
      case (Some f)
      show ?thesis
      proof (cases f)
        case (Failed_with err)
        with u False mw Some IH show ?thesis
          by (simp add: cluster_sync_loop.simps [of e clock deadline ps c "(m, w)"] IsNotFound_def) blast
      qed (use u False mw Some in \<open>simp add: cluster_sync_loop.simps [of e clock deadline ps c "(m, w)"], blast\<close>)
    qed
  qed
qed


section \<open>Node states\<close>

definition node_key :: "bke_node \<Rightarrow> string \<times> string" where
  "node_key n = (bn_namespace n, bn_name n)"

text \<open>The client keeps nodes under their name.\<close>

definition keeps_nodes :: "('w, 'o, 'p) merge_env \<Rightarrow> ('w \<Rightarrow> string \<times> string \<Rightarrow> bke_node option) \<Rightarrow> bool" where
  "keeps_nodes e store \<longleftrightarrow> retry_loop_ok (me_retry e) \<and>
     (\<forall>ns name w w' n. me_getNode e ns name w = (w', Inr n) \<longrightarrow> store w' = store w \<and> store w (ns, name) = Some n \<and> node_key n = (ns, name)) \<and>
     (\<forall>ns name w w' err. me_getNode e ns name w = (w', Inl err) \<longrightarrow> store w' = store w \<and> (err = ApiNotFound \<longrightarrow> store w (ns, name) = None)) \<and>
     (\<forall>n w w'. me_updateNodeStatus e n w = (w', None) \<longrightarrow> store w' = (store w)(node_key n \<mapsto> n)) \<and>
     (\<forall>n w w' err. me_updateNodeStatus e n w = (w', Some err) \<longrightarrow> store w' = store w \<and> (err = ApiNotFound \<longrightarrow> store w (node_key n) = None))"

lemma keeps_nodesD:
  assumes "keeps_nodes e store"
  shows "me_getNode e ns name w = (w', Inr n) \<Longrightarrow> store w' = store w \<and> store w (ns, name) = Some n \<and> node_key n = (ns, name)"
    "me_getNode e ns name w = (w', Inl err) \<Longrightarrow> store w' = store w \<and> (err = ApiNotFound \<longrightarrow> store w (ns, name) = None)"
    "me_updateNodeStatus e n w = (w', None) \<Longrightarrow> store w' = (store w)(node_key n \<mapsto> n)"
    "me_updateNodeStatus e n w = (w', Some err) \<Longrightarrow> store w' = store w \<and> (err = ApiNotFound \<longrightarrow> store w (node_key n) = None)"
  using assms unfolding keeps_nodes_def by blast+

text \<open>What the stored node becomes: the state of the node in memory, with the record flag cleared.\<close>

definition recorded :: "bke_node \<Rightarrow> bke_node \<Rightarrow> bke_node" where
  "recorded node latest = upd_status (\<lambda>s. s\<lparr>nst_state := nst_state (bn_status node), nst_message := nst_message (bn_status node),
     nst_stateCode := nst_stateCode (bn_status node) AND NOT (flag_value NodeStateNeedRecord)\<rparr>) latest"

lemma write_node_result:
  assumes "keeps_nodes e store" "RetryOnConflict (me_retry e) (write_node e n) w = (w', r)"
  shows "case r of None \<Rightarrow> \<exists>latest. store w (node_key n) = Some latest \<and> store w' = (store w)(node_key n \<mapsto> recorded n latest)
    | Some err \<Rightarrow> store w' = store w \<and> (err = ApiNotFound \<longrightarrow> store w (node_key n) = None)"
proof -
  have r: "retry_loop_ok (me_retry e)" using assms(1) by (simp add: keeps_nodes_def)
  have key: "node_key (recorded n l) = node_key l" for l by (simp add: node_key_def recorded_def upd_status_def)
  have one: "case q of None \<Rightarrow> \<exists>latest. store w (node_key n) = Some latest \<and> store u' = (store w)(node_key n \<mapsto> recorded n latest)
    | Some err \<Rightarrow> store u' = store w \<and> (err = ApiNotFound \<longrightarrow> store w (node_key n) = None)"
    if u: "store u = store w" "write_node e n u = (u', q)" for u u' q
  proof -
    obtain v l where g: "me_getNode e (bn_namespace n) (bn_name n) u = (v, l)" by fastforce
    show ?thesis
    proof (cases l)
      case (Inl err)
      with g u keeps_nodesD(2) [OF assms(1), of "bn_namespace n" "bn_name n" u v err] show ?thesis
        by (auto simp: write_node_def node_key_def)
    next
      case (Inr latest)
      with keeps_nodesD(1) [OF assms(1) g [unfolded Inr]] u(1)
      have l: "store v = store w" "store w (node_key n) = Some latest" "node_key latest = node_key n"
        by (simp_all add: node_key_def)
      from Inr g u(2) have "me_updateNodeStatus e (recorded n latest) v = (u', q)" by (simp add: write_node_def recorded_def)
      with l key keeps_nodesD(3,4) [OF assms(1), of "recorded n latest" v u'] show ?thesis by (cases q) auto
    qed
  qed
  show ?thesis
  proof (rule RetryOnConflict_induct [OF r assms(2), where I = "\<lambda>u. store u = store w"])
    fix u u' err
    assume "store u = store w" "write_node e n u = (u', Some err)"
    from one [OF this] show "store u' = store w \<and> (case Some err of None \<Rightarrow>
        \<exists>latest. store w (node_key n) = Some latest \<and> store u' = (store w)(node_key n \<mapsto> recorded n latest)
      | Some err \<Rightarrow> store u' = store w \<and> (err = ApiNotFound \<longrightarrow> store w (node_key n) = None))" by simp
  next
    fix u u'
    assume "store u = store w" "write_node e n u = (u', None)"
    from one [OF this] show "case None of None \<Rightarrow>
        \<exists>latest. store w (node_key n) = Some latest \<and> store u' = (store w)(node_key n \<mapsto> recorded n latest)
      | Some err \<Rightarrow> store u' = store w \<and> (err = ApiNotFound \<longrightarrow> store w (node_key n) = None)" .
  qed simp
qed

lemma write_nodes_result:
  assumes "keeps_nodes e store" "distinct (map node_key ns)" "write_nodes e ns w = (w', None)"
  shows "store w' k = (case find (\<lambda>n. node_key n = k) ns of None \<Rightarrow> store w k | Some n \<Rightarrow> map_option (recorded n) (store w k))"
  using assms(2,3)
proof (induction ns arbitrary: w)
  case (Cons n ns)
  obtain w1 r where l: "RetryOnConflict (me_retry e) (write_node e n) w = (w1, r)" by fastforce
  have "store w1 = (case store w (node_key n) of None \<Rightarrow> store w | Some latest \<Rightarrow> (store w)(node_key n \<mapsto> recorded n latest))"
    and rest: "write_nodes e ns w1 = (w', None)"
    using write_node_result [OF assms(1) l] Cons.prems(2) l by (auto simp: IsNotFound_def split: option.splits if_splits)
  moreover have "find (\<lambda>m. node_key m = node_key n) ns = None" using Cons.prems(1) by (auto simp: find_None_iff image_iff)
  ultimately show ?case using Cons.IH [OF _ rest] Cons.prems(1) by (auto split: option.splits)
qed simp

text \<open>Writing node states back touches the marked nodes only: a stored node that is marked in
  memory gets the state, message and flags of memory without the mark, every other stored node stays,
  no node is created, and no mark is left in memory.\<close>

theorem modified_nodes_written:
  assumes "keeps_nodes e store" and "distinct (map node_key ns)" and "UpdateModifiedBKENodes e ns w = (w', ns', None)"
  shows "store w' k = (case find (\<lambda>n. node_key n = k) (GetModifiedNodes ns) of
      None \<Rightarrow> store w k | Some n \<Rightarrow> map_option (recorded n) (store w k)) \<and> GetModifiedNodes ns' = []"
proof (cases "GetModifiedNodes ns")
  case Nil
  with assms(3) show ?thesis by (simp add: UpdateModifiedBKENodes_def)
next
  case (Cons n rest)
  with assms(3) have w: "write_nodes e (GetModifiedNodes ns) w = (w', None)" and c: "ns' = ClearRecordFlags ns"
    by (auto simp: UpdateModifiedBKENodes_def simp del: write_nodes.simps split: option.splits prod.splits)
  have "distinct (map node_key (GetModifiedNodes ns))" using assms(2) by (simp add: GetModifiedNodes_def distinct_map_filter)
  from write_nodes_result [OF assms(1) this w] c show ?thesis
    by (simp add: GetModifiedNodes_def ClearRecordFlags_def filter_empty_conv)
qed

section \<open>Nested annotations\<close>

definition nested_shorter :: "('w, 'o, 'p) merge_env \<Rightarrow> bool" where
  "nested_shorter e \<longleftrightarrow> (\<forall>v c. me_unmarshal e v (blank_cluster [] []) = (c, None) \<longrightarrow> annotation_size c < Suc (length v))"

lemma combined_depth:
  assumes "nested_shorter e" "annotation_size c < n" "annotation_size c < k"
  shows "combined_at n e c cm = combined_at k e c cm"
  using assms(2,3)
proof (induction n arbitrary: k c cm)
  case (Suc n)
  then obtain j where k: "k = Suc j" by (cases k) auto
  have inner: "combined_at n e d dm = combined_at j e d dm"
    if "HasAnnotation c LastUpdateConfigurationAnnotationKey = Some v" "me_unmarshal e v (blank_cluster [] []) = (d, None)" for v d dm
  proof -
    have "annotation_size c = Suc (length v)" "annotation_size d < Suc (length v)"
      using that assms(1) by (auto simp: nested_shorter_def annotation_size_def [of c])
    with Suc.prems k show ?thesis by (intro Suc.IH) auto
  qed
  have "handleLastUpdateConfiguration (combined_at n e) e c cm = handleLastUpdateConfiguration (combined_at j e) e c cm"
    using inner by (auto simp: handleLastUpdateConfiguration_def Let_def split: option.splits prod.splits sum.splits)
  with k show ?case by simp
qed simp

lemma CombinedBKECluster_unfold:
  assumes "nested_shorter e"
  shows "CombinedBKECluster e c cm =
     (case handleLastUpdateConfiguration (CombinedBKECluster e) e c cm of Inl err \<Rightarrow> Inl err | Inr c1 \<Rightarrow> setDefaultCustomExtra c1)"
proof -
  have "combined_at (annotation_size c) e d dm = CombinedBKECluster e d dm"
    if "HasAnnotation c LastUpdateConfigurationAnnotationKey = Some v" "me_unmarshal e v (blank_cluster [] []) = (d, None)" for v d dm
  proof -
    have "annotation_size c = Suc (length v)" "annotation_size d < Suc (length v)"
      using that assms by (auto simp: nested_shorter_def annotation_size_def [of c])
    with assms show ?thesis unfolding CombinedBKECluster_def by (intro combined_depth) auto
  qed
  then have "handleLastUpdateConfiguration (combined_at (annotation_size c) e) e c cm = handleLastUpdateConfiguration (CombinedBKECluster e) e c cm"
    by (auto simp: handleLastUpdateConfiguration_def Let_def split: option.splits prod.splits sum.splits)
  then show ?thesis by (simp add: CombinedBKECluster_def [of e c cm])
qed

section \<open>Witnesses\<close>

text \<open>A client over association lists with a clock. Its documents hold the switches of a
  specification only, a patch is the new document.\<close>

record demo_world =
  dw_clusters :: "((string \<times> string) \<times> bke_cluster) list"
  dw_nodes :: "((string \<times> string) \<times> bke_node) list"
  dw_time :: nat

definition tick :: "demo_world \<Rightarrow> demo_world" where
  "tick w = w\<lparr>dw_time := Suc (dw_time w)\<rparr>"

definition switches :: "bke_cluster \<Rightarrow> string" where
  "switches c = (if bs_pause (bc_spec c) then ''p'' else ''-'') @ (if bs_reset (bc_spec c) then ''r'' else [])"

definition demo_merge :: "(demo_world, string, string) merge_env" where
  "demo_merge = \<lparr>
     me_get = (\<lambda>ns name w. (tick w, case map_of (dw_clusters w) (ns, name) of
        Some c \<Rightarrow> if bc_namespace c = ns \<and> bc_name c = name then Inr c else Inl ApiInvalid | None \<Rightarrow> Inl ApiNotFound)),
     me_list = (\<lambda>w. (w, Inr (map snd (dw_clusters w)))),
     me_delete = (\<lambda>ns name w. (w\<lparr>dw_clusters := AList.delete (ns, name) (dw_clusters w)\<rparr>, None)),
     me_getCM = (\<lambda>ns name w. (w, Inr \<lparr>cm_namespace = ns, cm_name = name, cm_annotations = [], cm_data = None\<rparr>)),
     me_createCM = (\<lambda>cm w. (w, None)), me_updateCM = (\<lambda>cm w. (w, None)), me_deleteCM = (\<lambda>ns name w. (w, None)),
     me_setOwner = (\<lambda>c cm. Inr cm), me_newHelper = (\<lambda>c. None),
     me_patch = (\<lambda>before after w. (w\<lparr>dw_clusters := AList.update (bc_namespace before, bc_name before) (after\<lparr>bc_resourceVersion := ''2''\<rparr>) (dw_clusters w)\<rparr>, None)),
     me_listNodes = (\<lambda>ns name w. (w, Inr (map snd (dw_nodes w)))),
     me_getNode = (\<lambda>ns name w. (w, case map_of (dw_nodes w) (ns, name) of
        Some n \<Rightarrow> if node_key n = (ns, name) then Inr n else Inl ApiInvalid | None \<Rightarrow> Inl ApiNotFound)),
     me_updateNodeStatus = (\<lambda>n w. (w\<lparr>dw_nodes := AList.update (node_key n) n (dw_nodes w)\<rparr>, None)),
     me_now = dw_time, me_retry = demo_retry,
     me_marshal = (\<lambda>c. Inr (switches c)),
     me_unmarshal = (\<lambda>b c. (c\<lparr>bc_spec := (bc_spec c)\<lparr>bs_pause := (take 1 b = ''p''), bs_reset := (length b = 2 \<or> bs_reset (bc_spec c))\<rparr>\<rparr>, None)),
     me_marshalCM = (\<lambda>cm. Inr []), me_unmarshalCM = (\<lambda>s. Inl (ErrMsg s)),
     me_marshalNodes = (\<lambda>ns. Inr ''[]''), me_unmarshalNodes = (\<lambda>s. Inr []),
     me_createPatch = (\<lambda>a b. Inr (if a = b then [] else [b])), me_decodePatch = (\<lambda>ops. Inr (hd ops)),
     me_apply = (\<lambda>p b. Inr p), me_internalUpdate = False, me_allowedFailed = 10\<rparr>"

lemma demo_keeps_clusters: "keeps_clusters demo_merge (\<lambda>w. map_of (dw_clusters w))"
  by (auto simp: keeps_clusters_def calls_respect_def demo_merge_def tick_def update_conv' reflp_def transp_def
      split: option.splits if_splits)

lemma demo_keeps_nodes: "keeps_nodes demo_merge (\<lambda>w. map_of (dw_nodes w))"
  by (auto simp: keeps_nodes_def demo_merge_def update_conv' split: option.splits if_splits)

lemma demo_time_passes: "time_passes demo_merge dw_time"
  by (auto simp: time_passes_def calls_respect_def demo_merge_def tick_def reflp_def transp_def)

lemma demo_merges_differences: "merges_differences demo_merge"
  by (auto simp: merges_differences_def demo_merge_def)

lemma demo_reads_switches: "reads_switches demo_merge"
  by (auto simp: reads_switches_def demo_merge_def Diff_def switches_def split: if_splits)

definition demo_spec :: "bool \<Rightarrow> bool \<Rightarrow> bke_spec" where
  "demo_spec pause reset = empty_spec\<lparr>bs_clusterConfig := Some (zero_config\<lparr>cs_openFuyaoVersion := ''v1''\<rparr>), bs_pause := pause, bs_reset := reset\<rparr>"

text \<open>The stored cluster has finished \<^verbatim>\<open>a\<close>, was paused and its reset was taken back; the copy knows
  none of this.\<close>

definition demo_stored :: bke_cluster where
  "demo_stored = (blank_cluster ''ns'' ''c1'')\<lparr>bc_spec := demo_spec True False,
     bc_status := empty_status\<lparr>st_declarativeUpgrade := MarkCompleted (Some fresh_progress) ''a'' ''v2'' 7\<rparr>\<rparr>"

definition demo_copy :: bke_cluster where
  "demo_copy = (blank_cluster ''ns'' ''c1'')\<lparr>bc_spec := demo_spec False True,
     bc_status := empty_status\<lparr>st_declarativeUpgrade := Some fresh_progress\<rparr>\<rparr>"

definition demo_cluster_world :: demo_world where
  "demo_cluster_world = \<lparr>dw_clusters = [((''ns'', ''c1''), demo_stored)], dw_nodes = [], dw_time = 0\<rparr>"

lemma demo_update_ok: "snd (snd (UpdateCombinedBKECluster demo_merge [] [] demo_copy (NewStatusManager, demo_cluster_world))) = None"
  by code_simp

theorem write_back_result_witness:
  "\<exists>m' w' c' s. UpdateCombinedBKECluster demo_merge [] [] demo_copy (NewStatusManager, demo_cluster_world) = ((m', w'), c', None) \<and>
     map_of (dw_clusters w') (''ns'', ''c1'') = Some s \<and>
     st_declarativeUpgrade (bc_status s) = MarkCompleted (Some fresh_progress) ''a'' ''v2'' 7"
proof -
  obtain m' w' c' where u: "UpdateCombinedBKECluster demo_merge [] [] demo_copy (NewStatusManager, demo_cluster_world) = ((m', w'), c', None)"
    using demo_update_ok by (metis prod.collapse)
  have i: "\<not> me_internalUpdate demo_merge" by (simp add: demo_merge_def)
  have n: "bc_namespace demo_copy = ''ns''" "bc_name demo_copy = ''c1''" by (simp_all add: demo_copy_def)
  have "map_of (dw_clusters demo_cluster_world) (''ns'', ''c1'') = Some demo_stored" by (simp add: demo_cluster_world_def)
  moreover have "\<exists>d. st_declarativeUpgrade (bc_status demo_stored) = Some d" by (simp add: demo_stored_def)
  moreover have "st_declarativeUpgrade (bc_status demo_stored) = MarkCompleted (Some fresh_progress) ''a'' ''v2'' 7" by (simp add: demo_stored_def)
  ultimately show ?thesis
    using write_back_result [OF demo_keeps_clusters demo_merges_differences i _ u] u by (auto simp: n)
qed

theorem edits_of_switches_witness:
  "\<exists>m' w' c' s. UpdateCombinedBKECluster demo_merge [] [] demo_copy (NewStatusManager, demo_cluster_world) = ((m', w'), c', None) \<and>
     map_of (dw_clusters w') (''ns'', ''c1'') = Some s \<and> bs_pause (bc_spec s) \<and> bs_reset (bc_spec s) \<and> \<not> bs_reset (bc_spec demo_stored)"
proof -
  obtain m' w' c' where u: "UpdateCombinedBKECluster demo_merge [] [] demo_copy (NewStatusManager, demo_cluster_world) = ((m', w'), c', None)"
    using demo_update_ok by (metis prod.collapse)
  have i: "\<not> me_internalUpdate demo_merge" by (simp add: demo_merge_def)
  have n: "bc_namespace demo_copy = ''ns''" "bc_name demo_copy = ''c1''" "bs_reset (bc_spec demo_copy)"
    "bs_pause (bc_spec demo_stored)" "\<not> bs_reset (bc_spec demo_stored)"
    by (simp_all add: demo_copy_def demo_stored_def demo_spec_def)
  have "map_of (dw_clusters demo_cluster_world) (''ns'', ''c1'') = Some demo_stored" by (simp add: demo_cluster_world_def)
  then show ?thesis
    using edits_of_switches [OF demo_keeps_clusters demo_merges_differences demo_reads_switches i u] u by (auto simp: n)
qed


theorem modified_nodes_written_witness:
  "\<exists>w' ns'. UpdateModifiedBKENodes demo_merge (SetNodeState [sample_node ''a''] ''a'' ''Ready'')
       (demo_cluster_world\<lparr>dw_nodes := [((''ns'', ''c-a''), sample_node ''a'')]\<rparr>) = (w', ns', None) \<and>
     map_option (\<lambda>n. nst_state (bn_status n)) (map_of (dw_nodes w') (''ns'', ''c-a'')) = Some ''Ready''"
proof -
  let ?ns = "SetNodeState [sample_node ''a''] ''a'' ''Ready''"
  let ?w = "demo_cluster_world\<lparr>dw_nodes := [((''ns'', ''c-a''), sample_node ''a'')]\<rparr>"
  have "snd (snd (UpdateModifiedBKENodes demo_merge ?ns ?w)) = None" by code_simp
  then obtain w' ns' where u: "UpdateModifiedBKENodes demo_merge ?ns ?w = (w', ns', None)" by (metis prod.collapse)
  have "distinct (map node_key ?ns)" by (simp add: SetNodeState_def sample_node_def)
  from modified_nodes_written [OF demo_keeps_nodes this u, of "(''ns'', ''c-a'')"] u show ?thesis
    by (auto simp: SetNodeState_def sample_node_def GetModifiedNodes_def recorded_def node_key_def upd_status_def bit_flag)
qed

end
