(* ===== verification/Phase_History.thy ===== *)
theory Phase_History
  imports Merge_Cluster
begin

text \<open>
  The history of phases in the status of a cluster: how a phase reports itself
  (\<^verbatim>\<open>pkg/phaseframe/base.go\<close>) and how the flow trims the history before a run
  (\<^verbatim>\<open>pkg/phaseframe/phases/phase_flow.go\<close>). The loops search the list from its end.

  The results: whatever is reported, a phase is never shown as waiting or running twice; a report
  changes one entry; the trimmed history is a short piece of the history, and the piece ends before
  the first failure after the last success.
\<close>

section \<open>Definitions\<close>

(* src: api/capbke/v1beta1/bkecluster_consts.go 214-214 PhaseSucceeded *)
definition PhaseSucceeded :: string where
  "PhaseSucceeded = ''Succeeded''"

(* src: api/capbke/v1beta1/bkecluster_consts.go 216-216 PhaseUnknown *)
definition PhaseUnknown :: string where
  "PhaseUnknown = ''Unknown''"

(* src: api/capbke/v1beta1/bkecluster_consts.go 217-217 PhaseWaiting *)
definition PhaseWaiting :: string where
  "PhaseWaiting = ''Waiting''"

(* src: api/capbke/v1beta1/bkecluster_consts.go 218-218 PhaseRunning *)
definition PhaseRunning :: string where
  "PhaseRunning = ''Running''"

(* src: api/capbke/v1beta1/bkecluster_consts.go 219-219 PhaseSkipped *)
definition PhaseSkipped :: string where
  "PhaseSkipped = ''Skipped''"

lemmas phase_constants = PhaseSucceeded_def PhaseFailed_def PhaseUnknown_def PhaseWaiting_def PhaseRunning_def PhaseSkipped_def

text \<open>What a phase keeps of its own run.\<close>

(* src: pkg/phaseframe/base.go 32-52 BasePhase *)
record base_phase =
  bp_name :: bke_phase
  bp_cname :: string
  bp_status :: string
  bp_startTime :: gotime

definition open_status :: "string \<Rightarrow> bool" where
  "open_status s \<longleftrightarrow> s = PhaseWaiting \<or> s = PhaseRunning"

definition open_entry :: "bke_phase \<Rightarrow> phase_state \<Rightarrow> bool" where
  "open_entry name p \<longleftrightarrow> ps_name p = name \<and> open_status (ps_status p)"

text \<open>Change the last entry with a property.\<close>

fun change_first :: "('a \<Rightarrow> bool) \<Rightarrow> ('a \<Rightarrow> 'a) \<Rightarrow> 'a list \<Rightarrow> 'a list option" where
  "change_first p f [] = None"
| "change_first p f (x # xs) = (if p x then Some (f x # xs) else map_option ((#) x) (change_first p f xs))"

definition change_last :: "('a \<Rightarrow> bool) \<Rightarrow> ('a \<Rightarrow> 'a) \<Rightarrow> 'a list \<Rightarrow> 'a list option" where
  "change_last p f xs = map_option rev (change_first p f (rev xs))"

definition change_or_append :: "('a \<Rightarrow> bool) \<Rightarrow> ('a \<Rightarrow> 'a) \<Rightarrow> 'a \<Rightarrow> 'a list \<Rightarrow> 'a list" where
  "change_or_append p f new xs = (case change_last p f xs of Some ys \<Rightarrow> ys | None \<Rightarrow> xs @ [new])"

(* src: pkg/phaseframe/base.go 256-274 BasePhase.handleSkippedStatus *)
definition handleSkippedStatus :: "phase_state list \<Rightarrow> bke_phase \<Rightarrow> phase_state list" where
  "handleSkippedStatus status name =
     change_or_append (open_entry name) (\<lambda>p. p\<lparr>ps_status := PhaseSkipped, ps_startTime := None, ps_endTime := None\<rparr>)
       \<lparr>ps_name = name, ps_startTime = None, ps_endTime = None, ps_status = PhaseSkipped, ps_message = []\<rparr> status"

definition decided_status :: "string \<Rightarrow> bool" where
  "decided_status s \<longleftrightarrow> open_status s \<or> s = PhaseFailed \<or> s = PhaseSucceeded"

definition decided_entry :: "bke_phase \<Rightarrow> phase_state \<Rightarrow> bool" where
  "decided_entry name p \<longleftrightarrow> ps_name p = name \<and> decided_status (ps_status p)"

(* src: pkg/phaseframe/base.go 277-309 BasePhase.handleWaitingStatus *)
definition handleWaitingStatus :: "base_phase \<Rightarrow> phase_state list \<Rightarrow> bke_phase \<Rightarrow> phase_state list" where
  "handleWaitingStatus b status name =
     (case find (decided_entry name) (rev status) of
        Some p \<Rightarrow>
          if ps_status p = PhaseFailed
          then status @ [\<lparr>ps_name = name, ps_startTime = None, ps_endTime = None, ps_status = bp_status b, ps_message = []\<rparr>]
          else (case change_last (decided_entry name)
                   (\<lambda>p. p\<lparr>ps_status := bp_status b, ps_startTime := None, ps_endTime := None\<rparr>) status of
                  Some ys \<Rightarrow> ys | None \<Rightarrow> status)
      | None \<Rightarrow> status @ [\<lparr>ps_name = name, ps_startTime = None, ps_endTime = None, ps_status = bp_status b, ps_message = []\<rparr>])"

(* src: pkg/phaseframe/base.go 312-333 BasePhase.handleRunningStatus *)
definition handleRunningStatus :: "base_phase \<Rightarrow> phase_state list \<Rightarrow> bke_phase \<Rightarrow> bke_cluster \<Rightarrow> phase_state list \<times> bke_cluster" where
  "handleRunningStatus b status name c =
     (change_or_append (open_entry name) (\<lambda>p. p\<lparr>ps_status := PhaseRunning, ps_startTime := Some (bp_startTime b)\<rparr>)
        \<lparr>ps_name = name, ps_startTime = Some (bp_startTime b), ps_endTime = None, ps_status = PhaseRunning, ps_message = []\<rparr> status,
      upd_clusterStatus (\<lambda>st. st\<lparr>st_phase := name\<rparr>) c)"

(* src: pkg/phaseframe/base.go 336-359 BasePhase.handleCompletedStatus *)
definition handleCompletedStatus :: "base_phase \<Rightarrow> gotime \<Rightarrow> phase_state list \<Rightarrow> bke_phase \<Rightarrow> string \<Rightarrow> phase_state list" where
  "handleCompletedStatus b now status name msg =
     change_or_append (open_entry name)
       (\<lambda>p. p\<lparr>ps_status := bp_status b, ps_startTime := Some (bp_startTime b), ps_endTime := Some now, ps_message := msg\<rparr>)
       \<lparr>ps_name = name, ps_startTime = Some (bp_startTime b), ps_endTime = Some now, ps_status = bp_status b, ps_message = msg\<rparr> status"

text \<open>What a report makes of the cluster, before it is written.\<close>

(* src: pkg/phaseframe/base.go 225-252 BasePhase.Report (record) *)
definition report_record :: "base_phase \<Rightarrow> gotime \<Rightarrow> string \<Rightarrow> bke_cluster \<Rightarrow> bke_cluster" where
  "report_record b now msg c =
     (let status = st_phaseStatus (bc_status c); name = bp_name b;
          (status', c') =
            (if bp_status b = PhaseSkipped then (handleSkippedStatus status name, c)
             else if bp_status b = PhaseWaiting then (handleWaitingStatus b status name, c)
             else if bp_status b = PhaseRunning then handleRunningStatus b status name c
             else (handleCompletedStatus b now status name msg, c))
      in upd_clusterStatus (\<lambda>st. st\<lparr>st_phaseStatus := status'\<rparr>) c')"

(* src: pkg/phaseframe/phases/phase_flow.go 53-54 MaxPhaseStatusHistory *)
definition MaxPhaseStatusHistory :: nat where
  "MaxPhaseStatusHistory = 20"

(* src: pkg/phaseframe/phases/phase_flow.go 169-175 PhaseFlow.processPhaseStatus (last success) *)
definition lastSuccessPhaseIndex :: "phase_state list \<Rightarrow> nat" where
  "lastSuccessPhaseIndex ph = foldl (\<lambda>k i. if ps_status (ph ! i) = PhaseSucceeded then i else k) 0 [0..<length ph]"

(* src: pkg/phaseframe/phases/phase_flow.go 178-181 PhaseFlow.processPhaseStatus (cut) *)
function cut_index :: "phase_state list \<Rightarrow> nat \<Rightarrow> nat" where
  "cut_index ph k = (if k < length ph \<and> ps_status (ph ! k) \<noteq> PhaseFailed then cut_index ph (Suc k) else k)"
  by pat_completeness auto
termination by (relation "measure (\<lambda>(ph, k). length ph - k)") auto

declare cut_index.simps [simp del]

(* src: pkg/phaseframe/phases/phase_flow.go 167-189 PhaseFlow.processPhaseStatus *)
definition process_history :: "phase_state list \<Rightarrow> phase_state list" where
  "process_history ph =
     (let kept = take (cut_index ph (lastSuccessPhaseIndex ph + 1)) ph
      in if length kept > MaxPhaseStatusHistory then drop (length kept - MaxPhaseStatusHistory) kept else kept)"

(* src: pkg/phaseframe/phases/phase_flow.go 243-247 PhaseFlow.cleanupUnexecutedPhases (history) *)
definition forget_phases :: "bke_phase list \<Rightarrow> phase_state list \<Rightarrow> phase_state list" where
  "forget_phases names ph = map (\<lambda>p. if phase_In (ps_name p) names then p\<lparr>ps_status := PhaseUnknown\<rparr> else p) ph"

(* src: pkg/phaseframe/phases/phase_flow.go 340-348 PhaseFlow.getWaitingPhases *)
definition waiting_phases :: "phase_state list \<Rightarrow> bke_phase list" where
  "waiting_phases ph = fold (\<lambda>p acc. if ps_status p = PhaseWaiting then phases_Add acc [ps_name p] else acc) ph []"

section \<open>Searching from the end\<close>

lemma change_first_Some:
  "change_first p f xs = Some ys \<Longrightarrow> \<exists>as x bs. xs = as @ x # bs \<and> p x \<and> (\<forall>a\<in>set as. \<not> p a) \<and> ys = as @ f x # bs"
proof (induction xs arbitrary: ys)
  case (Cons z zs)
  show ?case
  proof (cases "p z")
    case True
    with Cons.prems show ?thesis by (intro exI [of _ "[]"]) auto
  next
    case False
    with Cons.prems obtain ws where "change_first p f zs = Some ws" "ys = z # ws" by auto
    with Cons.IH False show ?thesis by (metis append_Cons set_ConsD)
  qed
qed simp

lemma change_first_None: "change_first p f xs = None \<longleftrightarrow> (\<forall>x\<in>set xs. \<not> p x)"
  by (induction xs) auto

lemma change_last_Some:
  assumes "change_last p f xs = Some ys"
  obtains as x bs where "xs = as @ x # bs" "p x" "\<forall>b\<in>set bs. \<not> p b" "ys = as @ f x # bs"
proof -
  from assms obtain zs where z: "change_first p f (rev xs) = Some zs" "ys = rev zs" by (auto simp: change_last_def)
  from change_first_Some [OF z(1)] obtain as x bs where "rev xs = as @ x # bs" "p x" "\<forall>a\<in>set as. \<not> p a" "zs = as @ f x # bs" by blast
  with z(2) show ?thesis by (intro that [of "rev bs" x "rev as"]) (auto simp: rev_swap)
qed

lemma change_last_None: "change_last p f xs = None \<longleftrightarrow> (\<forall>x\<in>set xs. \<not> p x)"
  by (simp add: change_last_def change_first_None)

lemma find_rev_Some:
  assumes "find p (rev xs) = Some x"
  obtains as bs where "xs = as @ x # bs" "p x" "\<forall>b\<in>set bs. \<not> p b"
proof -
  from assms obtain i where i: "i < length xs" "p (rev xs ! i)" "x = rev xs ! i" "\<forall>j<i. \<not> p (rev xs ! j)" by (auto simp: find_Some_iff)
  then have "rev xs = take i (rev xs) @ x # drop (Suc i) (rev xs)" by (simp add: id_take_nth_drop)
  then have "xs = rev (drop (Suc i) (rev xs)) @ x # rev (take i (rev xs))" by (metis rev_append rev_rev_ident rev.simps(2) append_assoc append_Cons append_Nil)
  moreover have "\<forall>b\<in>set (rev (take i (rev xs))). \<not> p b" using i(1,4) by (auto simp: in_set_conv_nth)
  ultimately show ?thesis using that i(2,3) by blast
qed

text \<open>The decided entry that a waiting report changes is the one the search found.\<close>

lemma change_last_split:
  "p x \<Longrightarrow> \<forall>b\<in>set bs. \<not> p b \<Longrightarrow> change_last p f (as @ x # bs) = Some (as @ f x # bs)"
proof -
  have skip: "\<forall>c\<in>set cs. \<not> p c \<Longrightarrow> p x \<Longrightarrow> change_first p f (cs @ x # ds) = Some (cs @ f x # ds)" for cs ds
    by (induction cs) auto
  assume "p x" "\<forall>b\<in>set bs. \<not> p b"
  then show ?thesis using skip [of "rev bs" "rev as"] by (simp add: change_last_def)
qed

section \<open>No phase is open twice\<close>

text \<open>The invariant: behind an open entry there is no other decided entry of its phase.\<close>

fun history_wf :: "phase_state list \<Rightarrow> bool" where
  "history_wf [] \<longleftrightarrow> True"
| "history_wf (p # ps) \<longleftrightarrow> (open_entry (ps_name p) p \<longrightarrow> (\<forall>q\<in>set ps. \<not> decided_entry (ps_name p) q)) \<and> history_wf ps"

lemma history_wf_append:
  "history_wf (xs @ ys) \<longleftrightarrow> history_wf xs \<and> history_wf ys \<and>
     (\<forall>x\<in>set xs. open_entry (ps_name x) x \<longrightarrow> (\<forall>y\<in>set ys. \<not> decided_entry (ps_name x) y))"
  by (induction xs) auto

lemma open_decided: "open_status s \<Longrightarrow> decided_status s"
  by (simp add: decided_status_def)

lemmas entry_defs = open_entry_def decided_entry_def

lemma history_wf_change:
  assumes "history_wf (as @ x # bs)" "decided_entry n x" "\<forall>b\<in>set bs. \<not> decided_entry n b" "ps_name x' = n"
  shows "history_wf (as @ x' # bs)"
  using assms by (auto simp: history_wf_append entry_defs)

lemma history_wf_snoc:
  assumes "history_wf xs" "\<forall>x\<in>set xs. \<not> open_entry n x" "ps_name x' = n"
  shows "history_wf (xs @ [x'])"
  using assms by (auto simp: history_wf_append entry_defs)

lemma history_wf_open:
  assumes "history_wf ph"
  shows "length (filter (open_entry n) ph) \<le> 1"
  using assms
proof (induction ph)
  case (Cons p ps)
  show ?case
  proof (cases "open_entry n p")
    case True
    then have "\<forall>q\<in>set ps. \<not> open_entry n q" using Cons.prems by (auto simp: entry_defs open_decided)
    then have "filter (open_entry n) ps = []" by (simp add: filter_empty_conv)
    with True show ?thesis by simp
  qed (use Cons in simp)
qed simp

lemma change_or_append_open_wf:
  assumes "history_wf ph" "\<And>p. ps_name (f p) = ps_name p" "ps_name new = n"
  shows "history_wf (change_or_append (open_entry n) f new ph)"
proof (cases "change_last (open_entry n) f ph")
  case None
  then have "\<forall>x\<in>set ph. \<not> open_entry n x" by (simp add: change_last_None)
  with None assms history_wf_snoc [of ph n new] show ?thesis by (simp add: change_or_append_def)
next
  case (Some ys)
  from change_last_Some [OF Some] obtain as x bs where s: "ph = as @ x # bs" "open_entry n x" "ys = as @ f x # bs" by blast
  moreover have "\<forall>b\<in>set bs. \<not> decided_entry n b" using assms(1) s by (auto simp: history_wf_append entry_defs)
  moreover have "decided_entry n x" "ps_name (f x) = n" using s(2) assms(2) by (auto simp: entry_defs open_decided)
  ultimately show ?thesis using assms(1) history_wf_change [of as x bs n "f x"] Some by (simp add: change_or_append_def)
qed

lemma handleWaitingStatus_wf:
  assumes "history_wf ph"
  shows "history_wf (handleWaitingStatus b ph n)"
proof (cases "find (decided_entry n) (rev ph)")
  case None
  then have "\<forall>x\<in>set ph. \<not> open_entry n x" by (auto simp: find_None_iff entry_defs open_decided)
  with assms None show ?thesis by (simp add: handleWaitingStatus_def history_wf_snoc)
next
  case (Some p)
  from find_rev_Some [OF Some] obtain as bs where s: "ph = as @ p # bs" "decided_entry n p" "\<forall>b\<in>set bs. \<not> decided_entry n b" by blast
  show ?thesis
  proof (cases "ps_status p = PhaseFailed")
    case True
    then have "\<not> open_status (ps_status p)" by (simp add: open_status_def phase_constants)
    with assms s have "\<forall>x\<in>set ph. \<not> open_entry n x" by (auto simp: history_wf_append entry_defs open_decided)
    with assms Some True show ?thesis by (simp add: handleWaitingStatus_def history_wf_snoc)
  next
    case False
    let ?f = "\<lambda>p. p\<lparr>ps_status := bp_status b, ps_startTime := None, ps_endTime := None\<rparr>"
    have "ps_name (?f p) = n" using s(2) by (simp add: decided_entry_def)
    from history_wf_change [OF assms [unfolded s(1)] s(2,3) this] show ?thesis
      using Some False change_last_split [of "decided_entry n" p bs ?f as] s by (simp add: handleWaitingStatus_def)
  qed
qed

lemma report_record_wf:
  "history_wf (st_phaseStatus (bc_status c)) \<Longrightarrow> history_wf (st_phaseStatus (bc_status (report_record b now msg c)))"
  by (simp add: report_record_def Let_def handleSkippedStatus_def handleRunningStatus_def handleCompletedStatus_def
      change_or_append_open_wf handleWaitingStatus_wf)

lemma history_wf_subseq: "subseq qs ph \<Longrightarrow> history_wf ph \<Longrightarrow> history_wf qs"
proof (induction rule: list_emb.induct)
  case (list_emb_Cons2 x y xs ys)
  have "set xs \<subseteq> set ys" using list_emb_Cons2(2) by (induction rule: list_emb.induct) auto
  with list_emb_Cons2 show ?case by auto
qed auto

lemma process_history_piece: "sublist (process_history ph) ph"
proof -
  have "sublist (take n ph) ph" for n by (simp add: sublist_take)
  moreover have "sublist (drop k (take n ph)) (take n ph)" for k n by (simp add: sublist_drop)
  ultimately show ?thesis by (auto simp: process_history_def Let_def intro: sublist_order.order_trans)
qed

lemma forget_phases_wf: "history_wf ph \<Longrightarrow> history_wf (forget_phases names ph)"
proof (induction ph)
  case (Cons p ps)
  have "\<not> open_status PhaseUnknown" "\<not> decided_status PhaseUnknown"
    by (simp_all add: open_status_def decided_status_def phase_constants)
  with Cons show ?case by (auto simp: forget_phases_def entry_defs)
qed (simp add: forget_phases_def)

section \<open>Properties\<close>

text \<open>Everything that changes a history: reports of phases with any status, and the three ways of
  trimming it.\<close>

inductive history_step :: "phase_state list \<Rightarrow> phase_state list \<Rightarrow> bool" where
  report: "st_phaseStatus (bc_status c) = ph \<Longrightarrow> history_step ph (st_phaseStatus (bc_status (report_record b now msg c)))"
| process: "history_step ph (process_history ph)"
| trim: "history_step ph (fixPhaseStatus ph)"
| forget: "history_step ph (forget_phases names ph)"

inductive_cases history_stepE: "history_step ph ph'"

lemma fixPhaseStatus_subseq: "subseq (fixPhaseStatus ph) ph"
  using drop_failed_subseq [of 3 "keep_last ph"] keep_last_subseq [of ph] by (metis fixPhaseStatus_eq subseq_order.trans)

lemma history_step_wf: "history_step ph ph' \<Longrightarrow> history_wf ph \<Longrightarrow> history_wf ph'"
  by (erule history_stepE)
    (auto intro: report_record_wf forget_phases_wf history_wf_subseq [OF fixPhaseStatus_subseq]
      history_wf_subseq [OF sublist_imp_subseq [OF process_history_piece]])

text \<open>C19. Whatever sequence of reports, trimmings and clean-ups a history has gone through, no phase is
  shown as waiting or running by two entries.\<close>

theorem phase_open_once:
  assumes "history_step\<^sup>*\<^sup>* [] ph"
  shows "length (filter (open_entry name) ph) \<le> 1"
proof -
  from assms have "history_wf ph" by (induction rule: rtranclp_induct) (auto intro: history_step_wf)
  then show ?thesis by (rule history_wf_open)
qed

definition demo_base_phase :: "bke_phase \<Rightarrow> string \<Rightarrow> base_phase" where
  "demo_base_phase name status = \<lparr>bp_name = name, bp_cname = [], bp_status = status, bp_startTime = 3\<rparr>"

theorem phase_open_once_witness:
  "length (filter (open_entry ''EnsureCerts'') (st_phaseStatus (bc_status (report_record (demo_base_phase ''EnsureCerts'' PhaseRunning) 4 []
      (report_record (demo_base_phase ''EnsureCerts'' PhaseWaiting) 3 [] (blank_cluster ''ns'' ''c1'')))))) \<le> 1"
proof -
  let ?c = "blank_cluster ''ns'' ''c1''"
  let ?d = "report_record (demo_base_phase ''EnsureCerts'' PhaseWaiting) 3 [] ?c"
  have "st_phaseStatus (bc_status ?c) = []" by (simp add: blank_cluster_def empty_status_def)
  from history_step.report [OF this] have "history_step [] (st_phaseStatus (bc_status ?d))" .
  moreover have "history_step (st_phaseStatus (bc_status ?d)) (st_phaseStatus (bc_status (report_record (demo_base_phase ''EnsureCerts'' PhaseRunning) 4 [] ?d)))"
    by (rule history_step.report [OF refl])
  ultimately show ?thesis by (intro phase_open_once) (meson converse_rtranclp_into_rtranclp rtranclp.rtrancl_refl)
qed

lemma change_last_other:
  assumes "change_last (\<lambda>p. ps_name p = n \<and> q p) f xs = Some ys" "\<And>p. ps_name (f p) = ps_name p"
  shows "filter (\<lambda>p. ps_name p \<noteq> n) ys = filter (\<lambda>p. ps_name p \<noteq> n) xs" "length ys = length xs" "\<exists>p. ps_name p = n \<and> f p \<in> set ys"
proof -
  from change_last_Some [OF assms(1)] obtain as x bs where "xs = as @ x # bs" "ps_name x = n" "ys = as @ f x # bs" by blast
  with assms(2) show "filter (\<lambda>p. ps_name p \<noteq> n) ys = filter (\<lambda>p. ps_name p \<noteq> n) xs" "length ys = length xs"
    "\<exists>p. ps_name p = n \<and> f p \<in> set ys" by auto
qed

lemma change_or_append_other:
  assumes "\<And>p. ps_name (f p) = ps_name p" "ps_name new = n" "\<And>p. ps_status (f p) = s" "ps_status new = s"
  shows "filter (\<lambda>p. ps_name p \<noteq> n) (change_or_append (open_entry n) f new xs) = filter (\<lambda>p. ps_name p \<noteq> n) xs"
    "length xs \<le> length (change_or_append (open_entry n) f new xs)" "length (change_or_append (open_entry n) f new xs) \<le> Suc (length xs)"
    "\<exists>p\<in>set (change_or_append (open_entry n) f new xs). ps_name p = n \<and> ps_status p = s"
proof -
  let ?r = "change_or_append (open_entry n) f new xs"
  have "filter (\<lambda>p. ps_name p \<noteq> n) ?r = filter (\<lambda>p. ps_name p \<noteq> n) xs \<and> length xs \<le> length ?r \<and> length ?r \<le> Suc (length xs) \<and>
    (\<exists>p\<in>set ?r. ps_name p = n \<and> ps_status p = s)"
  proof (cases "change_last (open_entry n) f xs")
    case None
    with assms show ?thesis by (simp add: change_or_append_def)
  next
    case (Some ys)
    then have "change_last (\<lambda>p. ps_name p = n \<and> open_status (ps_status p)) f xs = Some ys" by (simp add: open_entry_def [abs_def])
    note o = change_last_other [OF this assms(1)]
    from o(3) obtain p where "ps_name p = n" "f p \<in> set ys" by blast
    then have "\<exists>p\<in>set ys. ps_name p = n \<and> ps_status p = s" using assms(1,3) by (intro bexI [of _ "f p"]) auto
    with o(1,2) Some show ?thesis by (simp add: change_or_append_def)
  qed
  then show "filter (\<lambda>p. ps_name p \<noteq> n) ?r = filter (\<lambda>p. ps_name p \<noteq> n) xs" "length xs \<le> length ?r" "length ?r \<le> Suc (length xs)"
    "\<exists>p\<in>set ?r. ps_name p = n \<and> ps_status p = s" by simp_all
qed

lemma handleWaitingStatus_other:
  "filter (\<lambda>p. ps_name p \<noteq> n) (handleWaitingStatus b xs n) = filter (\<lambda>p. ps_name p \<noteq> n) xs \<and>
   length xs \<le> length (handleWaitingStatus b xs n) \<and> length (handleWaitingStatus b xs n) \<le> Suc (length xs) \<and>
   (\<exists>p\<in>set (handleWaitingStatus b xs n). ps_name p = n \<and> ps_status p = bp_status b)"
proof (cases "find (decided_entry n) (rev xs)")
  case None
  then show ?thesis by (simp add: handleWaitingStatus_def)
next
  case (Some p)
  let ?f = "\<lambda>p. p\<lparr>ps_status := bp_status b, ps_startTime := None, ps_endTime := None\<rparr>"
  from find_rev_Some [OF Some] obtain as bs where s: "xs = as @ p # bs" "decided_entry n p" "\<forall>b\<in>set bs. \<not> decided_entry n b" by blast
  have "change_last (decided_entry n) ?f xs = Some (as @ ?f p # bs)" using change_last_split [of "decided_entry n" p bs ?f as] s by simp
  with Some s show ?thesis by (auto simp: handleWaitingStatus_def decided_entry_def)
qed

text \<open>A report is local: entries of other phases stay as they are and in order, at most one entry is
  added and none is lost, and afterwards an entry of the phase has the reported status. The rest of
  the cluster is not touched, except that a running phase becomes the current one.\<close>

theorem report_local:
  "let c' = report_record b now msg c; ph = st_phaseStatus (bc_status c); ph' = st_phaseStatus (bc_status c') in
   filter (\<lambda>p. ps_name p \<noteq> bp_name b) ph' = filter (\<lambda>p. ps_name p \<noteq> bp_name b) ph \<and>
   length ph \<le> length ph' \<and> length ph' \<le> Suc (length ph) \<and>
   (\<exists>p. p \<in> set ph' \<and> ps_name p = bp_name b \<and> ps_status p = bp_status b) \<and>
   c' = upd_clusterStatus (\<lambda>st. st\<lparr>st_phaseStatus := ph', st_phase := (if bp_status b = PhaseRunning then bp_name b else st_phase st)\<rparr>) c"
proof -
  have "PhaseRunning \<noteq> PhaseSkipped" "PhaseRunning \<noteq> PhaseWaiting" by (simp_all add: phase_constants)
  then show ?thesis
    using change_or_append_other [of "\<lambda>p. p\<lparr>ps_status := PhaseSkipped, ps_startTime := None, ps_endTime := None\<rparr>"
        "\<lparr>ps_name = bp_name b, ps_startTime = None, ps_endTime = None, ps_status = PhaseSkipped, ps_message = []\<rparr>" "bp_name b" PhaseSkipped "st_phaseStatus (bc_status c)"]
      change_or_append_other [of "\<lambda>p. p\<lparr>ps_status := PhaseRunning, ps_startTime := Some (bp_startTime b)\<rparr>"
        "\<lparr>ps_name = bp_name b, ps_startTime = Some (bp_startTime b), ps_endTime = None, ps_status = PhaseRunning, ps_message = []\<rparr>" "bp_name b" PhaseRunning "st_phaseStatus (bc_status c)"]
      change_or_append_other [of "\<lambda>p. p\<lparr>ps_status := bp_status b, ps_startTime := Some (bp_startTime b), ps_endTime := Some now, ps_message := msg\<rparr>"
        "\<lparr>ps_name = bp_name b, ps_startTime = Some (bp_startTime b), ps_endTime = Some now, ps_status = bp_status b, ps_message = msg\<rparr>" "bp_name b" "bp_status b" "st_phaseStatus (bc_status c)"]
      handleWaitingStatus_other [of "bp_name b" b "st_phaseStatus (bc_status c)"]
    by (auto simp: report_record_def Let_def handleSkippedStatus_def handleRunningStatus_def handleCompletedStatus_def upd_clusterStatus_def)
qed

text \<open>The index of the last success.\<close>

lemma last_success_from:
  "ps_status p \<noteq> PhaseSucceeded" if "p \<in> set (drop (Suc (lastSuccessPhaseIndex ph)) ph)"
proof -
  let ?f = "\<lambda>n. foldl (\<lambda>k i. if ps_status (ph ! i) = PhaseSucceeded then i else k) 0 [0..<n]"
  have later: "?f n < j \<Longrightarrow> j < n \<Longrightarrow> ps_status (ph ! j) \<noteq> PhaseSucceeded" for n j
    by (induction n) (auto simp: less_Suc_eq split: if_splits)
  from that obtain j where "lastSuccessPhaseIndex ph < j" "j < length ph" "p = ph ! j"
    by (auto simp: in_set_conv_nth) (metis add_Suc less_add_Suc1 less_diff_conv add.commute)
  with later [of "length ph" j] show ?thesis by (simp add: lastSuccessPhaseIndex_def)
qed

lemma cut_index_spec:
  "k \<le> cut_index ph k \<and> (\<forall>j. k \<le> j \<and> j < cut_index ph k \<longrightarrow> ps_status (ph ! j) \<noteq> PhaseFailed) \<and>
   (cut_index ph k < length ph \<longrightarrow> ps_status (ph ! cut_index ph k) = PhaseFailed)"
proof (induction ph k rule: cut_index.induct)
  case (1 ph k)
  show ?case
  proof (cases "k < length ph \<and> ps_status (ph ! k) \<noteq> PhaseFailed")
    case True
    then have e: "cut_index ph k = cut_index ph (Suc k)" by (simp add: cut_index.simps [of ph k])
    have "\<forall>j. k \<le> j \<and> j < cut_index ph (Suc k) \<longrightarrow> ps_status (ph ! j) \<noteq> PhaseFailed"
      using 1 [OF True] True by (metis Suc_leI le_neq_implies_less)
    with 1 [OF True] show ?thesis unfolding e by simp
  next
    case False
    then have "cut_index ph k = k" by (auto simp: cut_index.simps [of ph k])
    with False show ?thesis by auto
  qed
qed

text \<open>Before a run the history is cut to one piece of it with at most twenty entries. What is cut off
  at its end starts with a failure and holds no success: the entries of the failed run are forgotten,
  the failure itself included.\<close>

theorem history_trimmed:
  "\<exists>before after. ph = before @ process_history ph @ after \<and> length (process_history ph) \<le> 20 \<and>
     (before = [] \<or> length (process_history ph) = 20) \<and>
     (after = [] \<or> ps_status (hd after) = PhaseFailed) \<and> PhaseSucceeded \<notin> ps_status ` set after"
proof -
  let ?k = "lastSuccessPhaseIndex ph + 1" and ?c = "cut_index ph (lastSuccessPhaseIndex ph + 1)"
  let ?kept = "take ?c ph" and ?after = "drop ?c ph"
  have c: "?k \<le> ?c" "?c < length ph \<Longrightarrow> ps_status (ph ! ?c) = PhaseFailed" using cut_index_spec [of ?k ph] by auto
  then have "set ?after \<subseteq> set (drop ?k ph)" by (simp add: set_drop_subset_set_drop)
  then have ok: "PhaseSucceeded \<notin> ps_status ` set ?after" using last_success_from [of _ ph] by (metis (no_types, lifting) Suc_eq_plus1 imageE subsetD)
  have hd: "?after = [] \<or> ps_status (hd ?after) = PhaseFailed" using c(2) by (cases "?c < length ph") (auto simp: hd_drop_conv_nth)
  define d where "d = length ?kept - 20"
  have p: "process_history ph = drop d ?kept"
    by (auto simp: process_history_def MaxPhaseStatusHistory_def Let_def d_def min_def)
  have "ph = take d ?kept @ drop d ?kept @ ?after" by (metis append_assoc append_take_drop_id)
  with ok hd show ?thesis unfolding p
    by (intro exI [of _ "take d ?kept"] exI [of _ ?after]) (auto simp: d_def)
qed

end
