(* ===== verification/Upgrade_Path.thy ===== *)
theory Upgrade_Path
  imports Level_Search
begin

text \<open>
  The upgrade-path service of \<^verbatim>\<open>pkg/upgradepath/graph.go\<close>: validation of the rules, the
  three-colour cycle search, loading, the breadth-first path search and the version queries.

  Versions are compared by the \<^verbatim>\<open>blang/semver\<close> package, which is a parameter: a parser that may
  fail and a comparison of what it parses. The recursion of the cycle search has a depth bound; a
  bound of the number of versions is shown to be enough.

  The results: rules load exactly when they are well formed, without duplicates and acyclic, and a
  failed load changes nothing; a path that is found is a shortest sequence of unblocked rules, and
  none is found only when there is none; the upgradeable versions are exactly the reachable ones.
\<close>

section \<open>Definitions\<close>

(* src: api/v1alpha1/upgradepath_types.go 59-63 CheckStep *)
record check_step =
  ck_name :: string
  ck_required :: bool

(* src: api/v1alpha1/upgradepath_types.go 48-57 UpgradePathRule *)
record path_rule =
  r_from :: string
  r_to :: string
  r_blocked :: bool
  r_deprecated :: bool
  r_notes :: string
  r_preCheck :: "check_step list"
  r_postCheck :: "check_step list"

(* src: api/v1alpha1/upgradepath_types.go 40-46 VersionEntry *)
record version_entry =
  ve_version :: string
  ve_installable :: bool
  ve_deprecated :: bool
  ve_notes :: string

(* src: pkg/upgradepath/graph.go 27-36 Err variables *)
datatype path_error =
    ErrNoPath string string
  | ErrVersionNotFound string
  | ErrCycleDetected "string list"
  | ErrDuplicateEdge string string
  | ErrSelfLoop nat string
  | ErrEmptyCheckName nat nat
  | ErrEmptyFrom nat
  | ErrEmptyTo nat

(* src: pkg/upgradepath/graph.go 71-75 VersionNode *)
record version_node =
  vn_version :: string
  vn_installable :: bool
  vn_deprecated :: bool

(* src: pkg/upgradepath/graph.go 77-89 Service *)
record service =
  sv_adj :: "path_rule list gomap"
  sv_nodes :: "version_node gomap"
  sv_versions :: "string list"
  sv_digest :: string
  sv_paths :: nat

(* src: pkg/upgradepath/graph.go 91-97 NewService *)
definition NewService :: service where
  "NewService = \<lparr>sv_adj = [], sv_nodes = [], sv_versions = [], sv_digest = [], sv_paths = 0\<rparr>"

(* src: pkg/upgradepath/graph.go 131-139 Service.Clear *)
definition Clear :: "service \<Rightarrow> service" where
  "Clear s = s\<lparr>sv_adj := [], sv_nodes := [], sv_versions := [], sv_digest := [], sv_paths := 0\<rparr>"

text \<open>The version library: parsing, and comparing parsed versions.\<close>

record 'v semver =
  sem_parse :: "string \<Rightarrow> 'v option"
  sem_compare :: "'v \<Rightarrow> 'v \<Rightarrow> int"

(* src: pkg/upgradepath/graph.go 444-457 compareVersion *)
definition compareVersion :: "'v semver \<Rightarrow> string \<Rightarrow> string \<Rightarrow> int" where
  "compareVersion lib left right =
     (case (sem_parse lib left, sem_parse lib right) of
        (Some l, Some r) \<Rightarrow> sem_compare lib l r
      | _ \<Rightarrow> if left < right then -1 else if left > right then 1 else 0)"

text \<open>\<^verbatim>\<open>sort.SliceStable\<close>, as Go runs it on short slices: each element moves left past the
  elements it is less than. The sorted prefix is kept in reverse.\<close>

fun insert_back :: "('a \<Rightarrow> 'a \<Rightarrow> bool) \<Rightarrow> 'a \<Rightarrow> 'a list \<Rightarrow> 'a list" where
  "insert_back lt x [] = [x]"
| "insert_back lt x (y # ys) = (if lt x y then y # insert_back lt x ys else x # y # ys)"

definition SliceStable :: "('a \<Rightarrow> 'a \<Rightarrow> bool) \<Rightarrow> 'a list \<Rightarrow> 'a list" where
  "SliceStable lt xs = rev (fold (insert_back lt) xs [])"

(* src: pkg/upgradepath/graph.go 436-440 copyRule *)
definition copyRule :: "path_rule \<Rightarrow> path_rule" where
  "copyRule p = p\<lparr>r_preCheck := [] @ r_preCheck p, r_postCheck := [] @ r_postCheck p\<rparr>"

(* src: pkg/upgradepath/graph.go 423-432 copyRules *)
definition copyRules :: "path_rule list \<Rightarrow> path_rule list" where
  "copyRules ps = map copyRule ps"

definition add_version :: "string \<Rightarrow> string list \<Rightarrow> string list" where
  "add_version v vs = (if v \<in> set vs then vs else vs @ [v])"

(* src: pkg/upgradepath/graph.go 378-391 buildGraph (loop) *)
fun build_from :: "path_rule list \<Rightarrow> path_rule list gomap \<Rightarrow> string list \<Rightarrow> path_rule list gomap \<times> string list" where
  "build_from [] adj versions = (adj, versions)"
| "build_from (p # ps) adj versions =
     (let adj1 = AList.update (r_from p) (get_or [] adj (r_from p) @ [copyRule p]) adj;
          adj2 = (if has_key adj1 (r_to p) then adj1 else AList.update (r_to p) [] adj1)
      in build_from ps adj2 (add_version (r_to p) (add_version (r_from p) versions)))"

(* src: pkg/upgradepath/graph.go 378-392 buildGraph *)
definition buildGraph :: "path_rule list \<Rightarrow> path_rule list gomap \<times> string list" where
  "buildGraph paths = build_from paths [] []"

(* src: pkg/upgradepath/graph.go 398-420 buildNodes *)
definition buildNodes :: "version_entry list \<Rightarrow> string list \<Rightarrow> version_node gomap" where
  "buildNodes entries nodeSet =
     (let nodes = fold (\<lambda>e. AList.update (ve_version e)
                    \<lparr>vn_version = ve_version e, vn_installable = ve_installable e, vn_deprecated = ve_deprecated e\<rparr>) entries []
      in fold (\<lambda>v nodes. if has_key nodes v then nodes
                         else AList.update v \<lparr>vn_version = v, vn_installable = False, vn_deprecated = False\<rparr> nodes) nodeSet nodes)"

(* src: pkg/upgradepath/graph.go 307-316 ValidateRules (check steps) *)
fun empty_check :: "check_step list \<Rightarrow> nat \<Rightarrow> nat option" where
  "empty_check [] j = None"
| "empty_check (c # cs) j = (if ck_name c = [] then Some j else empty_check cs (Suc j))"

(* src: pkg/upgradepath/graph.go 318-318 ValidateRules (key) *)
definition edge_key :: "path_rule \<Rightarrow> string" where
  "edge_key p = r_from p @ [CHR 0x00] @ r_to p"

(* src: pkg/upgradepath/graph.go 297-323 ValidateRules (loop) *)
fun validate_from :: "path_rule list \<Rightarrow> nat \<Rightarrow> string list \<Rightarrow> path_error option" where
  "validate_from [] i seen = None"
| "validate_from (p # ps) i seen =
     (if r_from p = [] then Some (ErrEmptyFrom i)
      else if r_to p = [] then Some (ErrEmptyTo i)
      else if r_from p = r_to p then Some (ErrSelfLoop i (r_from p))
      else case empty_check (r_preCheck p) 0 of
             Some j \<Rightarrow> Some (ErrEmptyCheckName i j)
           | None \<Rightarrow> (case empty_check (r_postCheck p) 0 of
                        Some j \<Rightarrow> Some (ErrEmptyCheckName i j)
                      | None \<Rightarrow> if edge_key p \<in> set seen then Some (ErrDuplicateEdge (r_from p) (r_to p))
                                else validate_from ps (Suc i) (seen @ [edge_key p])))"

(* src: pkg/upgradepath/graph.go 295-325 ValidateRules *)
definition ValidateRules :: "path_rule list \<Rightarrow> path_error option" where
  "ValidateRules paths = validate_from paths 0 []"

datatype colour = White | Grey | Black

(* src: pkg/upgradepath/graph.go 461-473 formatCycle *)
definition formatCycle :: "string list \<Rightarrow> string \<Rightarrow> string list" where
  "formatCycle stack target =
     (if target \<in> set stack then dropWhile (\<lambda>v. v \<noteq> target) stack else stack) @ [target]"

text \<open>The depth-first search. \<open>visit_targets\<close> is the loop over the edges of one version with the
  nested calls of \<^verbatim>\<open>visit\<close>; \<^const>\<open>None\<close> means that the depth bound was too small.\<close>

(* src: pkg/upgradepath/graph.go 335-356 DetectCycle (visit) *)
fun visit_targets :: "nat \<Rightarrow> (string \<Rightarrow> string list) \<Rightarrow> string list \<Rightarrow> (string \<Rightarrow> colour) \<Rightarrow> string list \<Rightarrow>
    (path_error + (string \<Rightarrow> colour)) option" where
  "visit_targets n succs [] color stack = Some (Inr color)"
| "visit_targets n succs (t # ts) color stack =
     (case color t of
        Grey \<Rightarrow> Some (Inl (ErrCycleDetected (formatCycle stack t)))
      | Black \<Rightarrow> visit_targets n succs ts color stack
      | White \<Rightarrow>
          (case n of 0 \<Rightarrow> None
           | Suc m \<Rightarrow>
               (case visit_targets m succs (succs t) (color(t := Grey)) (stack @ [t]) of
                  None \<Rightarrow> None
                | Some (Inl e) \<Rightarrow> Some (Inl e)
                | Some (Inr color') \<Rightarrow> visit_targets n succs ts (color'(t := Black)) stack)))"

(* src: pkg/upgradepath/graph.go 364-370 DetectCycle (roots) *)
fun visit_roots :: "nat \<Rightarrow> (string \<Rightarrow> string list) \<Rightarrow> string list \<Rightarrow> (string \<Rightarrow> colour) \<Rightarrow>
    (path_error + (string \<Rightarrow> colour)) option" where
  "visit_roots n succs [] color = Some (Inr color)"
| "visit_roots n succs (v # vs) color =
     (if color v = White
      then (case visit_targets n succs (succs v) (color(v := Grey)) [v] of
              None \<Rightarrow> None
            | Some (Inl e) \<Rightarrow> Some (Inl e)
            | Some (Inr color') \<Rightarrow> visit_roots n succs vs (color'(v := Black)))
      else visit_roots n succs vs color)"

definition all_succs :: "path_rule list gomap \<Rightarrow> string \<Rightarrow> string list" where
  "all_succs adj v = map r_to (get_or [] adj v)"

(* src: pkg/upgradepath/graph.go 330-372 DetectCycle *)
definition DetectCycle :: "path_rule list \<Rightarrow> path_error option option" where
  "DetectCycle paths =
     (let (adj, versions) = buildGraph paths
      in map_option (\<lambda>r. case r of Inl e \<Rightarrow> Some e | Inr c \<Rightarrow> None)
           (visit_roots (length versions) (all_succs adj) (sort versions) (\<lambda>_. White)))"

text \<open>\<^verbatim>\<open>Load\<close>; the outer \<^const>\<open>None\<close> again means that the depth bound was too small.\<close>

(* src: pkg/upgradepath/graph.go 102-127 Service.Load *)
definition Load :: "'v semver \<Rightarrow> path_rule list \<Rightarrow> version_entry list \<Rightarrow> string \<Rightarrow> service \<Rightarrow> (service \<times> path_error option) option" where
  "Load lib paths versions digest s =
     (case ValidateRules paths of
        Some e \<Rightarrow> Some (s, Some e)
      | None \<Rightarrow>
          (case DetectCycle paths of
             None \<Rightarrow> None
           | Some (Some e) \<Rightarrow> Some (s, Some e)
           | Some None \<Rightarrow>
               (let (adj, nodeSet) = buildGraph paths
                in Some (s\<lparr>sv_adj := map (\<lambda>(v, es). (v, SliceStable (\<lambda>a b. compareVersion lib (r_to a) (r_to b) < 0) es)) adj,
                           sv_nodes := buildNodes versions nodeSet, sv_versions := nodeSet,
                           sv_digest := digest, sv_paths := length paths\<rparr>, None))))"

definition open_succs :: "path_rule list gomap \<Rightarrow> string \<Rightarrow> string list" where
  "open_succs adj v = map r_to (filter (\<lambda>e. \<not> r_blocked e) (get_or [] adj v))"

(* src: pkg/upgradepath/graph.go 170-185 Service.FindPath (edge loop) *)
fun find_edges :: "string \<Rightarrow> path_rule list \<Rightarrow> path_rule list \<Rightarrow> string list \<Rightarrow> (string \<times> path_rule list) list \<Rightarrow>
    path_rule list + (string list \<times> (string \<times> path_rule list) list)" where
  "find_edges to [] path visited nxt = Inr (visited, nxt)"
| "find_edges to (edge # es) path visited nxt =
     (if r_blocked edge then find_edges to es path visited nxt
      else if r_to edge \<in> set visited then find_edges to es path visited nxt
      else let nextPath = copyRules path @ [copyRule edge]
           in if r_to edge = to then Inl nextPath
              else find_edges to es path (visited @ [r_to edge]) (nxt @ [(r_to edge, nextPath)]))"

(* src: pkg/upgradepath/graph.go 169-186 Service.FindPath (level loop) *)
fun find_level :: "path_rule list gomap \<Rightarrow> string \<Rightarrow> (string \<times> path_rule list) list \<Rightarrow> string list \<Rightarrow>
    (string \<times> path_rule list) list \<Rightarrow> path_rule list + (string list \<times> (string \<times> path_rule list) list)" where
  "find_level adj to [] visited nxt = Inr (visited, nxt)"
| "find_level adj to ((v, path) # items) visited nxt =
     (case find_edges to (get_or [] adj v) path visited nxt of
        Inl p \<Rightarrow> Inl p
      | Inr (visited', nxt') \<Rightarrow> find_level adj to items visited' nxt')"

definition adj_targets :: "path_rule list gomap \<Rightarrow> string set" where
  "adj_targets adj = (\<Union>p\<in>set adj. r_to ` set (snd p))"

lemma open_succs_targets: "set (open_succs adj n) \<subseteq> adj_targets adj"
proof -
  have "set (get_or [] adj n) \<subseteq> (\<Union>p\<in>set adj. set (snd p))"
    by (auto simp: get_or_def split: option.splits) (metis map_of_SomeD snd_conv)
  then have "r_to ` set (get_or [] adj n) \<subseteq> adj_targets adj" unfolding adj_targets_def by blast
  then show ?thesis by (auto simp: open_succs_def)
qed

lemma finite_adj_targets [simp]: "finite (adj_targets adj)"
  by (simp add: adj_targets_def)

lemma find_edges_Inr:
  "find_edges to es path visited nxt = Inr (v', n') \<Longrightarrow>
     \<exists>new. v' = visited @ map fst new \<and> n' = nxt @ new \<and>
       fst ` set new = set (map r_to (filter (\<lambda>e. \<not> r_blocked e) es)) - set visited \<and> to \<notin> fst ` set new \<and>
       (\<forall>(w, p)\<in>set new. \<exists>e\<in>set es. \<not> r_blocked e \<and> r_to e = w \<and> p = copyRules path @ [copyRule e])"
proof (induction es arbitrary: visited nxt)
  case (Cons e es)
  consider (skip) "r_blocked e \<or> r_to e \<in> set visited" | (new) "\<not> r_blocked e" "r_to e \<notin> set visited" by blast
  then show ?case
  proof cases
    case skip
    with Cons.prems have "find_edges to es path visited nxt = Inr (v', n')" by (auto split: if_splits)
    from Cons.IH [OF this] skip show ?thesis by fastforce
  next
    case new
    with Cons.prems have ne: "r_to e \<noteq> to" and
      r: "find_edges to es path (visited @ [r_to e]) (nxt @ [(r_to e, copyRules path @ [copyRule e])]) = Inr (v', n')"
      by (auto simp: Let_def split: if_splits)
    from Cons.IH [OF r] obtain new1 where
      n1: "v' = (visited @ [r_to e]) @ map fst new1" "n' = (nxt @ [(r_to e, copyRules path @ [copyRule e])]) @ new1"
        "fst ` set new1 = set (map r_to (filter (\<lambda>e. \<not> r_blocked e) es)) - set (visited @ [r_to e])" "to \<notin> fst ` set new1"
        "\<forall>(w, p)\<in>set new1. \<exists>e\<in>set es. \<not> r_blocked e \<and> r_to e = w \<and> p = copyRules path @ [copyRule e]" by blast
    let ?new = "(r_to e, copyRules path @ [copyRule e]) # new1"
    have set_new: "fst ` set ?new = set (map r_to (filter (\<lambda>e. \<not> r_blocked e) (e # es))) - set visited"
      using n1(3) new by auto
    have from_new: "\<forall>(w, p)\<in>set ?new. \<exists>x\<in>set (e # es). \<not> r_blocked x \<and> r_to x = w \<and> p = copyRules path @ [copyRule x]"
      using n1(5) new by fastforce
    have "to \<notin> fst ` set ?new" using n1(4) ne by auto
    with n1(1,2) set_new from_new show ?thesis by (intro exI [of _ ?new] conjI) simp_all
  qed
qed simp

lemma find_edges_Inl:
  "find_edges to es path visited nxt = Inl p \<Longrightarrow>
     \<exists>e\<in>set es. \<not> r_blocked e \<and> r_to e = to \<and> p = copyRules path @ [copyRule e] \<and> to \<notin> set visited"
proof (induction es arbitrary: visited nxt)
  case (Cons e es)
  show ?case
  proof (cases "r_blocked e \<or> r_to e \<in> set visited \<or> r_to e = to")
    case True
    with Cons show ?thesis by (auto simp: Let_def split: if_splits)
  next
    case False
    with Cons.prems Cons.IH show ?thesis by (fastforce simp: Let_def)
  qed
qed simp

lemma find_level_Inr:
  "find_level adj to items visited nxt = Inr (v', n') \<Longrightarrow>
     \<exists>new. v' = visited @ map fst new \<and> n' = nxt @ new \<and>
       fst ` set new = (\<Union>(v, p)\<in>set items. set (open_succs adj v)) - set visited \<and> to \<notin> fst ` set new \<and>
       (\<forall>(w, q)\<in>set new. \<exists>(v, path)\<in>set items. \<exists>e\<in>set (get_or [] adj v).
          \<not> r_blocked e \<and> r_to e = w \<and> q = copyRules path @ [copyRule e])"
proof (induction items arbitrary: visited nxt)
  case (Cons it items)
  obtain v path where it: "it = (v, path)" by force
  from Cons.prems it obtain v1 n1 where
    e: "find_edges to (get_or [] adj v) path visited nxt = Inr (v1, n1)"
    and r: "find_level adj to items v1 n1 = Inr (v', n')"
    by (auto split: sum.splits)
  from find_edges_Inr [OF e] obtain new1 where
    1: "v1 = visited @ map fst new1" "n1 = nxt @ new1" "fst ` set new1 = set (open_succs adj v) - set visited"
      "to \<notin> fst ` set new1"
      "\<forall>(w, p)\<in>set new1. \<exists>e\<in>set (get_or [] adj v). \<not> r_blocked e \<and> r_to e = w \<and> p = copyRules path @ [copyRule e]"
    by (auto simp: open_succs_def)
  from Cons.IH [OF r] obtain new2 where
    2: "v' = v1 @ map fst new2" "n' = n1 @ new2"
      "fst ` set new2 = (\<Union>(v, p)\<in>set items. set (open_succs adj v)) - set v1" "to \<notin> fst ` set new2"
      "\<forall>(w, q)\<in>set new2. \<exists>(v, path)\<in>set items. \<exists>e\<in>set (get_or [] adj v).
          \<not> r_blocked e \<and> r_to e = w \<and> q = copyRules path @ [copyRule e]" by blast
  have "set v1 = set visited \<union> set (open_succs adj v)" using 1(1,3) by auto
  then have "fst ` set (new1 @ new2) = (\<Union>(v, p)\<in>set (it # items). set (open_succs adj v)) - set visited"
    unfolding set_append image_Un 1(3) 2(3) it by auto
  moreover have "\<forall>(w, q)\<in>set (new1 @ new2). \<exists>(v, path)\<in>set (it # items). \<exists>e\<in>set (get_or [] adj v).
          \<not> r_blocked e \<and> r_to e = w \<and> q = copyRules path @ [copyRule e]"
    using 1(5) 2(5) it by fastforce
  moreover have "to \<notin> fst ` set (new1 @ new2)" using 1(4) 2(4) by auto
  ultimately show ?case using 1(1,2) 2(1,2) by (intro exI [of _ "new1 @ new2"] conjI) simp_all
qed simp

lemma find_level_Inl:
  "find_level adj to items visited nxt = Inl p \<Longrightarrow>
     to \<notin> set visited \<and> (\<exists>(v, path)\<in>set items. \<exists>e\<in>set (get_or [] adj v).
       \<not> r_blocked e \<and> r_to e = to \<and> p = copyRules path @ [copyRule e])"
proof (induction items arbitrary: visited nxt)
  case (Cons it items)
  obtain v path where it: "it = (v, path)" by force
  show ?case
  proof (cases "find_edges to (get_or [] adj v) path visited nxt")
    case (Inl q)
    with Cons.prems it find_edges_Inl [OF Inl] show ?thesis by auto
  next
    case (Inr r)
    obtain v1 n1 where r: "r = (v1, n1)" by force
    with Cons.prems it Inr have "find_level adj to items v1 n1 = Inl p" by simp
    from Cons.IH [OF this] find_edges_Inr [OF Inr [unfolded r]] it show ?thesis by auto
  qed
qed simp

(* src: pkg/upgradepath/graph.go 167-188 Service.FindPath (queue loop) *)
function find_loop :: "path_rule list gomap \<Rightarrow> string \<Rightarrow> (string \<times> path_rule list) list \<Rightarrow> string list \<Rightarrow> path_rule list option" where
  "find_loop adj to level visited =
     (if level = [] then None
      else case find_level adj to level visited [] of
             Inl p \<Rightarrow> Some p
           | Inr (visited', nxt) \<Rightarrow> find_loop adj to nxt visited')"
  by pat_completeness auto
termination
proof (relation "measures [\<lambda>(adj, to, l, vis). card (adj_targets adj - set vis), \<lambda>(adj, to, l, vis). length l]", goal_cases)
  case (2 adj to level vis x v' n')
  then have s: "find_level adj to level vis [] = Inr (v', n')" by simp
  from find_level_Inr [OF s] have v: "v' = vis @ map fst n'"
    and n: "fst ` set n' = (\<Union>(v, p)\<in>set level. set (open_succs adj v)) - set vis" by auto
  show ?case
  proof (cases "n' = []")
    case True
    with v 2(1) show ?thesis by simp
  next
    case False
    then obtain a where a: "a \<in> fst ` set n'" by (cases n') auto
    with n have "a \<in> adj_targets adj" "a \<notin> set vis" using open_succs_targets by auto
    with v a have "adj_targets adj - set v' \<subset> adj_targets adj - set vis" by auto
    then have "card (adj_targets adj - set v') < card (adj_targets adj - set vis)"
      by (intro psubset_card_mono) auto
    then show ?thesis by simp
  qed
qed simp

declare find_loop.simps [simp del]

(* src: pkg/upgradepath/graph.go 144-191 Service.FindPath *)
definition FindPath :: "service \<Rightarrow> string \<Rightarrow> string \<Rightarrow> path_error + path_rule list" where
  "FindPath s from to =
     (if from = to then Inr []
      else if from \<notin> set (sv_versions s) then Inl (ErrVersionNotFound from)
      else if to \<notin> set (sv_versions s) then Inl (ErrVersionNotFound to)
      else case find_loop (sv_adj s) to [(from, [])] [from] of
             Some p \<Rightarrow> Inr p
           | None \<Rightarrow> Inl (ErrNoPath from to))"

(* src: pkg/upgradepath/graph.go 194-199 Service.HasVersion *)
definition HasVersion :: "service \<Rightarrow> string \<Rightarrow> bool" where
  "HasVersion s v = (v \<in> set (sv_versions s))"

(* src: pkg/upgradepath/graph.go 202-214 Service.AllVersions *)
definition AllVersions :: "'v semver \<Rightarrow> service \<Rightarrow> string list" where
  "AllVersions lib s = SliceStable (\<lambda>a b. compareVersion lib a b < 0) (sv_versions s)"

(* src: pkg/upgradepath/graph.go 217-221 Service.PathCount *)
definition PathCount :: "service \<Rightarrow> nat" where
  "PathCount s = sv_paths s"

(* src: pkg/upgradepath/graph.go 225-229 Service.Digest *)
definition Digest :: "service \<Rightarrow> string" where
  "Digest s = sv_digest s"

(* src: pkg/upgradepath/graph.go 233-247 Service.GetInstallableVersions *)
definition GetInstallableVersions :: "'v semver \<Rightarrow> service \<Rightarrow> string list" where
  "GetInstallableVersions lib s =
     SliceStable (\<lambda>a b. compareVersion lib a b < 0)
       (map fst (filter (\<lambda>(v, n). vn_installable n \<and> \<not> vn_deprecated n) (sv_nodes s)))"

(* src: pkg/upgradepath/graph.go 267-276 Service.GetUpgradeableVersions (edge loop) *)
fun reach_edges :: "path_rule list \<Rightarrow> string list \<Rightarrow> string list \<Rightarrow> string list \<times> string list" where
  "reach_edges [] visited nxt = (visited, nxt)"
| "reach_edges (edge # es) visited nxt =
     (if r_blocked edge then reach_edges es visited nxt
      else if r_to edge \<in> set visited then reach_edges es visited nxt
      else reach_edges es (visited @ [r_to edge]) (nxt @ [r_to edge]))"

(* src: pkg/upgradepath/graph.go 266-277 Service.GetUpgradeableVersions (level loop) *)
fun reach_level :: "path_rule list gomap \<Rightarrow> string list \<Rightarrow> string list \<Rightarrow> string list \<Rightarrow> string list \<times> string list" where
  "reach_level adj [] visited nxt = (visited, nxt)"
| "reach_level adj (v # vs) visited nxt =
     (case reach_edges (get_or [] adj v) visited nxt of (visited', nxt') \<Rightarrow> reach_level adj vs visited' nxt')"

lemma reach_edges_spec:
  "reach_edges es visited nxt = (v', n') \<Longrightarrow>
     \<exists>new. v' = visited @ new \<and> n' = nxt @ new \<and> distinct new \<and> set new \<inter> set visited = {} \<and>
       set new = set (map r_to (filter (\<lambda>e. \<not> r_blocked e) es)) - set visited"
proof (induction es arbitrary: visited nxt)
  case (Cons e es)
  consider (skip) "r_blocked e \<or> r_to e \<in> set visited" | (new) "\<not> r_blocked e" "r_to e \<notin> set visited" by blast
  then show ?case
  proof cases
    case skip
    with Cons.prems have "reach_edges es visited nxt = (v', n')" by (auto split: if_splits)
    from Cons.IH [OF this] skip show ?thesis by fastforce
  next
    case new
    with Cons.prems have "reach_edges es (visited @ [r_to e]) (nxt @ [r_to e]) = (v', n')" by simp
    from Cons.IH [OF this] obtain n1 where n1: "v' = (visited @ [r_to e]) @ n1" "n' = (nxt @ [r_to e]) @ n1" "distinct n1"
      "set n1 \<inter> set (visited @ [r_to e]) = {}"
      "set n1 = set (map r_to (filter (\<lambda>e. \<not> r_blocked e) es)) - set (visited @ [r_to e])" by blast
    have "set (r_to e # n1) = set (map r_to (filter (\<lambda>e. \<not> r_blocked e) (e # es))) - set visited"
      using n1(5) new by auto
    with n1(1-4) new show ?thesis by (intro exI [of _ "r_to e # n1"] conjI) auto
  qed
qed simp

lemma reach_level_spec:
  "reach_level adj vs visited nxt = (v', n') \<Longrightarrow>
     \<exists>new. v' = visited @ new \<and> n' = nxt @ new \<and> distinct new \<and> set new \<inter> set visited = {} \<and>
       set new = (\<Union>v\<in>set vs. set (open_succs adj v)) - set visited"
proof (induction vs arbitrary: visited nxt)
  case (Cons v vs)
  obtain v1 n1 where e: "reach_edges (get_or [] adj v) visited nxt = (v1, n1)" by force
  with Cons.prems have r: "reach_level adj vs v1 n1 = (v', n')" by simp
  from reach_edges_spec [OF e] obtain a where a: "v1 = visited @ a" "n1 = nxt @ a" "distinct a"
    "set a \<inter> set visited = {}" "set a = set (open_succs adj v) - set visited" by (auto simp: open_succs_def)
  from Cons.IH [OF r] obtain b where b: "v' = v1 @ b" "n' = n1 @ b" "distinct b" "set b \<inter> set v1 = {}"
    "set b = (\<Union>v\<in>set vs. set (open_succs adj v)) - set v1" by blast
  show ?case using a b by (intro exI [of _ "a @ b"] conjI) auto
qed simp

(* src: pkg/upgradepath/graph.go 264-279 Service.GetUpgradeableVersions (queue loop) *)
function reach_loop :: "path_rule list gomap \<Rightarrow> string list \<Rightarrow> string list \<Rightarrow> string list" where
  "reach_loop adj level visited =
     (if level = [] then visited
      else case reach_level adj level visited [] of (visited', nxt) \<Rightarrow> reach_loop adj nxt visited')"
  by pat_completeness auto
termination
proof (relation "measures [\<lambda>(adj, l, vis). card (adj_targets adj - set vis), \<lambda>(adj, l, vis). length l]", goal_cases)
  case (2 adj level vis x n')
  then have s: "reach_level adj level vis [] = (x, n')" by simp
  from reach_level_spec [OF s] have v: "x = vis @ n'"
    and n: "set n' = (\<Union>v\<in>set level. set (open_succs adj v)) - set vis" by auto
  show ?case
  proof (cases "n' = []")
    case True
    with v 2(1) show ?thesis by simp
  next
    case False
    then obtain a where a: "a \<in> set n'" by (cases n') auto
    with n have "a \<in> adj_targets adj" "a \<notin> set vis" using open_succs_targets by auto
    with v a have "adj_targets adj - set x \<subset> adj_targets adj - set vis" by auto
    then have "card (adj_targets adj - set x) < card (adj_targets adj - set vis)"
      by (intro psubset_card_mono) auto
    then show ?thesis by simp
  qed
qed simp

declare reach_loop.simps [simp del]

(* src: pkg/upgradepath/graph.go 253-291 Service.GetUpgradeableVersions *)
definition GetUpgradeableVersions :: "'v semver \<Rightarrow> service \<Rightarrow> string \<Rightarrow> string list" where
  "GetUpgradeableVersions lib s cur =
     (if cur \<notin> set (sv_versions s) then []
      else SliceStable (\<lambda>a b. compareVersion lib a b < 0)
             (filter (\<lambda>v. v \<noteq> cur) (reach_loop (sv_adj s) [cur] [cur])))"


section \<open>Sorting and the rule graph\<close>

lemma set_insert_back [simp]: "set (insert_back lt x ys) = insert x (set ys)"
  by (induction ys) auto

lemma distinct_insert_back [simp]: "distinct (insert_back lt x ys) \<longleftrightarrow> x \<notin> set ys \<and> distinct ys"
  by (induction ys) auto

lemma set_fold_insert: "set (fold (insert_back lt) xs ys) = set xs \<union> set ys"
  by (induction xs arbitrary: ys) auto

lemma distinct_fold_insert: "distinct xs \<Longrightarrow> distinct ys \<Longrightarrow> set xs \<inter> set ys = {} \<Longrightarrow> distinct (fold (insert_back lt) xs ys)"
  by (induction xs arbitrary: ys) auto

lemma set_SliceStable [simp]: "set (SliceStable lt xs) = set xs"
  by (simp add: SliceStable_def set_fold_insert)

lemma distinct_SliceStable: "distinct xs \<Longrightarrow> distinct (SliceStable lt xs)"
  by (simp add: SliceStable_def distinct_fold_insert)

lemma SliceStable_Nil [simp]: "SliceStable lt [] = []"
  by (simp add: SliceStable_def)

lemma copyRule_id [simp]: "copyRule p = p"
  by (simp add: copyRule_def)

lemma copyRules_id [simp]: "copyRules ps = ps"
  by (simp add: copyRules_def copyRule_id [abs_def] map_idI)

definition path_rel :: "path_rule list \<Rightarrow> (string \<times> string) set" where
  "path_rel paths = {(r_from r, r_to r) |r. r \<in> set paths}"

definition open_rules :: "path_rule list \<Rightarrow> path_rule list" where
  "open_rules paths = filter (\<lambda>r. \<not> r_blocked r) paths"

lemma set_add_version [simp]: "set (add_version v vs) = insert v (set vs)"
  by (auto simp: add_version_def)

lemma distinct_add_version [simp]: "distinct vs \<Longrightarrow> distinct (add_version v vs)"
  by (simp add: add_version_def)

lemma get_or_absent: "\<not> has_key m k \<Longrightarrow> get_or d m k = d"
  by (simp add: has_key_def get_or_def)

lemma build_from_spec:
  "build_from ps adj vs = (adj', vs') \<Longrightarrow>
     (\<forall>v. get_or [] adj' v = get_or [] adj v @ filter (\<lambda>r. r_from r = v) ps) \<and>
     set vs' = set vs \<union> r_from ` set ps \<union> r_to ` set ps \<and> (distinct vs \<longrightarrow> distinct vs')"
proof (induction ps adj vs rule: build_from.induct)
  case (2 p ps adj vs)
  define adj1 where "adj1 = AList.update (r_from p) (get_or [] adj (r_from p) @ [copyRule p]) adj"
  define adj2 where "adj2 = (if has_key adj1 (r_to p) then adj1 else AList.update (r_to p) [] adj1)"
  have "get_or [] adj2 v = get_or [] adj1 v" for v by (auto simp: adj2_def get_or_absent)
  then have a: "get_or [] adj2 v = (if v = r_from p then get_or [] adj v @ [p] else get_or [] adj v)" for v
    by (simp add: adj1_def)
  from "2.prems" have r: "build_from ps adj2 (add_version (r_to p) (add_version (r_from p) vs)) = (adj', vs')"
    by (simp only: build_from.simps Let_def adj1_def adj2_def)
  from "2.IH" [OF adj1_def adj2_def r] a show ?case by auto
qed auto

lemma buildGraph_spec:
  assumes "buildGraph paths = (adj, versions)"
  shows "get_or [] adj v = filter (\<lambda>r. r_from r = v) paths"
    and "set versions = r_from ` set paths \<union> r_to ` set paths" and "distinct versions"
  using build_from_spec [OF assms [unfolded buildGraph_def]] by auto

lemma all_succs_rel: "buildGraph paths = (adj, versions) \<Longrightarrow> succ_rel (all_succs adj) = path_rel paths"
  by (auto simp: succ_rel_def all_succs_def buildGraph_spec(1) path_rel_def)

section \<open>Cycle search\<close>

text \<open>The invariant of the search: the grey versions are the stack, which is a chain of edges; the
  black versions are closed under edges and hold no cycle.\<close>

definition chain :: "(string \<times> string) set \<Rightarrow> string list \<Rightarrow> bool" where
  "chain E xs \<longleftrightarrow> (\<forall>i. Suc i < length xs \<longrightarrow> (xs ! i, xs ! Suc i) \<in> E)"

definition black :: "(string \<Rightarrow> colour) \<Rightarrow> string set" where
  "black color = {v. color v = Black}"

definition dfs_inv :: "(string \<times> string) set \<Rightarrow> (string \<Rightarrow> colour) \<Rightarrow> string list \<Rightarrow> bool" where
  "dfs_inv E color stack \<longleftrightarrow> {v. color v = Grey} = set stack \<and> chain E stack \<and>
     E `` black color \<subseteq> black color \<and> acyclic (E \<inter> black color \<times> black color)"

lemma chain_snoc: "chain E (xs @ [x]) \<longleftrightarrow> chain E xs \<and> (xs \<noteq> [] \<longrightarrow> (last xs, x) \<in> E)"
  by (cases xs rule: rev_cases) (auto simp: chain_def nth_append less_Suc_eq)

lemma chain_reach:
  assumes "chain E xs" "j < length xs" "i \<le> j"
  shows "(xs ! i, xs ! j) \<in> E\<^sup>*"
  using assms(3,2)
proof (induction j rule: dec_induct)
  case (step n)
  then have "(xs ! n, xs ! Suc n) \<in> E" using assms(1) by (simp add: chain_def)
  with step show ?case by simp
qed simp

lemma chain_cycle:
  assumes "chain E xs" "t \<in> set xs" "(last xs, t) \<in> E"
  shows "\<not> acyclic E"
proof -
  from assms(2) obtain i where i: "i < length xs" "t = xs ! i" by (metis in_set_conv_nth)
  have "(xs ! i, xs ! (length xs - 1)) \<in> E\<^sup>*" using chain_reach [OF assms(1), of "length xs - 1" i] i by simp
  moreover have "last xs = xs ! (length xs - 1)" using assms(2) by (intro last_conv_nth) auto
  ultimately have "(t, t) \<in> E\<^sup>+" using assms(3) i(2) by (metis rtrancl_into_trancl1)
  then show ?thesis by (auto simp: acyclic_def)
qed

lemma black_insert:
  assumes cl: "E `` B \<subseteq> B" and ac: "acyclic (E \<inter> B \<times> B)" and w: "w \<notin> B" "E `` {w} \<subseteq> B"
  shows "acyclic (E \<inter> insert w B \<times> insert w B)"
proof -
  have into: "y \<in> B" if "(x, y) \<in> (E \<inter> insert w B \<times> insert w B)\<^sup>+" for x y
    using that by induction (use cl w in blast)+
  have "(x, x) \<notin> (E \<inter> insert w B \<times> insert w B)\<^sup>+" for x
  proof
    assume c: "(x, x) \<in> (E \<inter> insert w B \<times> insert w B)\<^sup>+"
    have "(a, b) \<in> (E \<inter> B \<times> B)\<^sup>+" if "(a, b) \<in> (E \<inter> insert w B \<times> insert w B)\<^sup>+" "a \<in> B" for a b
      using that
    proof (induction rule: trancl_induct)
      case (base y)
      then show ?case using cl by blast
    next
      case (step y z)
      then have "y \<in> B" using into by blast
      with step cl have "(y, z) \<in> E \<inter> B \<times> B" by blast
      with step show ?case by (meson trancl_into_trancl)
    qed
    from this [OF c into [OF c]] ac show False by (simp add: acyclic_def)
  qed
  then show ?thesis by (simp add: acyclic_def)
qed

lemma dfs_inv_grey:
  "dfs_inv E color stack \<Longrightarrow> color t = White \<Longrightarrow> (stack \<noteq> [] \<longrightarrow> (last stack, t) \<in> E) \<Longrightarrow>
     dfs_inv E (color(t := Grey)) (stack @ [t])"
proof -
  assume "dfs_inv E color stack" "color t = White" "stack \<noteq> [] \<longrightarrow> (last stack, t) \<in> E"
  moreover from this have "black (color(t := Grey)) = black color" by (auto simp: black_def)
  ultimately show ?thesis by (auto simp: dfs_inv_def chain_snoc split: if_splits)
qed

lemma dfs_inv_black:
  assumes inv: "dfs_inv E color (stack @ [t])" and t: "t \<notin> set stack" and s: "\<forall>x. (t, x) \<in> E \<longrightarrow> color x = Black"
  shows "dfs_inv E (color(t := Black)) stack"
proof -
  have b: "black (color(t := Black)) = insert t (black color)" by (auto simp: black_def)
  have g: "color t = Grey" using inv by (auto simp: dfs_inv_def)
  have "{v. (color(t := Black)) v = Grey} = set stack" using inv t g by (auto simp: dfs_inv_def split: if_splits)
  moreover have "chain E stack" using inv by (simp add: dfs_inv_def chain_snoc)
  moreover have "E `` black (color(t := Black)) \<subseteq> black (color(t := Black))"
    using inv s unfolding b by (auto simp: dfs_inv_def black_def)
  moreover have "acyclic (E \<inter> black (color(t := Black)) \<times> black (color(t := Black)))"
    unfolding b using inv s g by (intro black_insert) (auto simp: dfs_inv_def black_def)
  ultimately show ?thesis by (simp add: dfs_inv_def)
qed


lemma visit_targets_spec:
  assumes "visit_targets n succs ts color stack = Some r"
    and "dfs_inv (succ_rel succs) color stack" and "stack \<noteq> []" and "\<forall>t\<in>set ts. t \<in> set (succs (last stack))"
  shows "case r of
      Inl e \<Rightarrow> \<not> acyclic (succ_rel succs)
    | Inr color' \<Rightarrow> dfs_inv (succ_rel succs) color' stack \<and> black color \<subseteq> black color' \<and> (\<forall>t\<in>set ts. color' t = Black)"
  using assms
proof (induction n succs ts color stack arbitrary: r rule: visit_targets.induct)
  case (2 n succs t ts color stack)
  let ?E = "succ_rel succs"
  show ?case
  proof (cases "color t")
    case Grey
    then have "t \<in> set stack" using "2.prems"(2) by (auto simp: dfs_inv_def)
    moreover have "chain ?E stack" using "2.prems"(2) by (simp add: dfs_inv_def)
    ultimately have "\<not> acyclic ?E" using chain_cycle [of ?E stack t] "2.prems"(4) by simp
    with Grey "2.prems"(1) show ?thesis by auto
  next
    case Black
    with "2.prems"(1) have w: "visit_targets n succs ts color stack = Some r" by simp
    from "2.IH"(3) [OF Black w "2.prems"(2,3)] "2.prems"(4) Black show ?thesis
      by (auto simp: black_def split: sum.splits)
  next
    case White
    with "2.prems"(1) obtain m where n: "n = Suc m" by (cases n) auto
    have inv1: "dfs_inv ?E (color(t := Grey)) (stack @ [t])"
      using "2.prems" White by (intro dfs_inv_grey) auto
    have "set stack = {v. color v = Grey}" using "2.prems"(2) by (simp add: dfs_inv_def)
    then have ts: "t \<notin> set stack" using White by simp
    from White n "2.prems"(1) obtain r1 where
      v: "visit_targets m succs (succs t) (color(t := Grey)) (stack @ [t]) = Some r1"
      by (auto split: option.splits)
    have IH1: "case r1 of Inl e \<Rightarrow> \<not> acyclic ?E
       | Inr c' \<Rightarrow> dfs_inv ?E c' (stack @ [t]) \<and> black (color(t := Grey)) \<subseteq> black c' \<and> (\<forall>x\<in>set (succs t). c' x = Black)"
      by (rule "2.IH"(1) [OF White n v inv1]) auto
    show ?thesis
    proof (cases r1)
      case (Inl e)
      with IH1 v White n "2.prems"(1) show ?thesis by auto
    next
      case (Inr c')
      with v White n "2.prems"(1) have w: "visit_targets n succs ts (c'(t := Black)) stack = Some r" by simp
      have inv2: "dfs_inv ?E (c'(t := Black)) stack"
        using IH1 Inr ts by (intro dfs_inv_black) auto
      have b: "black color \<subseteq> black (c'(t := Black))" using IH1 Inr White by (auto simp: black_def)
      have "case r of Inl e \<Rightarrow> \<not> acyclic ?E | Inr c2 \<Rightarrow> dfs_inv ?E c2 stack \<and> black (c'(t := Black)) \<subseteq> black c2 \<and> (\<forall>x\<in>set ts. c2 x = Black)"
        by (rule "2.IH"(2) [OF White n v Inr w inv2 "2.prems"(3)]) (use "2.prems"(4) in auto)
      with b show ?thesis by (auto simp: black_def split: sum.splits)
    qed
  qed
qed auto

lemma visit_roots_spec:
  assumes "visit_roots n succs vs color = Some r" "dfs_inv (succ_rel succs) color []"
  shows "case r of
      Inl e \<Rightarrow> \<not> acyclic (succ_rel succs)
    | Inr color' \<Rightarrow> dfs_inv (succ_rel succs) color' [] \<and> black color \<subseteq> black color' \<and> (\<forall>v\<in>set vs. color' v = Black)"
  using assms
proof (induction n succs vs color arbitrary: r rule: visit_roots.induct)
  case (2 n succs v vs color)
  let ?E = "succ_rel succs"
  show ?case
  proof (cases "color v = White")
    case True
    have inv1: "dfs_inv ?E (color(v := Grey)) [v]"
      using dfs_inv_grey [OF "2.prems"(2) True] by simp
    from True "2.prems"(1) obtain r1 where
      t: "visit_targets n succs (succs v) (color(v := Grey)) [v] = Some r1" by (auto split: option.splits)
    from visit_targets_spec [OF t inv1] have
      s: "case r1 of Inl e \<Rightarrow> \<not> acyclic ?E
          | Inr c' \<Rightarrow> dfs_inv ?E c' [v] \<and> black (color(v := Grey)) \<subseteq> black c' \<and> (\<forall>x\<in>set (succs v). c' x = Black)" by simp
    show ?thesis
    proof (cases r1)
      case (Inl e)
      with s t True "2.prems"(1) show ?thesis by auto
    next
      case (Inr c')
      with t True "2.prems"(1) have w: "visit_roots n succs vs (c'(v := Black)) = Some r" by simp
      have "dfs_inv ?E (c'(v := Black)) []" using s Inr dfs_inv_black [of ?E c' "[]" v] by simp
      from "2.IH"(1) [OF True t Inr w this]
      have IH: "case r of Inl e \<Rightarrow> \<not> acyclic ?E
        | Inr c2 \<Rightarrow> dfs_inv ?E c2 [] \<and> black (c'(v := Black)) \<subseteq> black c2 \<and> (\<forall>x\<in>set vs. c2 x = Black)" .
      have "black color \<subseteq> black (c'(v := Black))" using s Inr True by (auto simp: black_def)
      moreover have "v \<in> black (c'(v := Black))" by (simp add: black_def)
      ultimately show ?thesis using IH by (auto simp: black_def split: sum.splits)
    qed
  next
    case False
    moreover have "color v \<noteq> Grey" using "2.prems"(2) by (auto simp: dfs_inv_def)
    ultimately have "color v = Black" by (cases "color v") auto
    with False "2.IH"(2) [OF False] "2.prems" show ?thesis by (auto simp: black_def split: sum.splits)
  qed
qed auto

text \<open>The depth bound: a bound of the number of white versions is enough, when every target is a
  version.\<close>

lemma visit_targets_fuel:
  assumes "finite V" "\<And>v. set (succs v) \<subseteq> V"
  shows "set ts \<subseteq> V \<Longrightarrow> card {v\<in>V. color v = White} \<le> n \<Longrightarrow>
    \<exists>r. visit_targets n succs ts color stack = Some r \<and>
      (\<forall>c. r = Inr c \<longrightarrow> {v\<in>V. c v = White} \<subseteq> {v\<in>V. color v = White})"
  using assms(2)
proof (induction n succs ts color stack rule: visit_targets.induct)
  case (2 n succs t ts color stack)
  let ?W = "\<lambda>c. {v\<in>V. c v = White}"
  show ?case
  proof (cases "color t")
    case White
    have tV: "t \<in> ?W color" using White "2.prems"(1) by simp
    then have "card (?W color) > 0" using \<open>finite V\<close> by (auto simp: card_gt_0_iff)
    with "2.prems"(2) obtain m where n: "n = Suc m" by (cases n) auto
    have sub: "?W (color(t := Grey)) = ?W color - {t}" by auto
    then have "card (?W (color(t := Grey))) \<le> m" using tV "2.prems"(2) n \<open>finite V\<close> by (simp add: card_Diff_singleton)
    from "2.IH"(1) [OF White n "2.prems"(3) this "2.prems"(3)] obtain r1 where
      r1: "visit_targets m succs (succs t) (color(t := Grey)) (stack @ [t]) = Some r1"
      "\<forall>c. r1 = Inr c \<longrightarrow> ?W c \<subseteq> ?W (color(t := Grey))" by blast
    show ?thesis
    proof (cases r1)
      case (Inl e)
      with r1 White n show ?thesis by simp
    next
      case (Inr c')
      have w: "?W (c'(t := Black)) \<subseteq> ?W color" using r1(2) Inr sub by auto
      then have "card (?W (c'(t := Black))) \<le> card (?W color)" using \<open>finite V\<close> by (intro card_mono) auto
      then have "card (?W (c'(t := Black))) \<le> n" using "2.prems"(2) by simp
      have "set ts \<subseteq> V" using "2.prems"(1) by simp
      from "2.IH"(2) [OF White n r1(1) Inr this \<open>card (?W (c'(t := Black))) \<le> n\<close> "2.prems"(3)]
      obtain r where "visit_targets n succs ts (c'(t := Black)) stack = Some r"
        "\<forall>c. r = Inr c \<longrightarrow> ?W c \<subseteq> ?W (c'(t := Black))" by blast
      with r1(1) Inr White n w show ?thesis by auto
    qed
  qed (use 2 in auto)
qed auto


lemma visit_roots_fuel:
  assumes "finite V" "\<And>v. set (succs v) \<subseteq> V" "card V \<le> n"
  shows "set vs \<subseteq> V \<Longrightarrow> \<exists>r. visit_roots n succs vs color = Some r"
proof (induction vs arbitrary: color)
  case (Cons v vs)
  have "card {x\<in>V. (color(v := Grey)) x = White} \<le> n"
    using card_mono [OF assms(1), of "{x\<in>V. (color(v := Grey)) x = White}"] assms(3) by auto
  then obtain r1 where "visit_targets n succs (succs v) (color(v := Grey)) [v] = Some r1"
    using visit_targets_fuel [of V succs "succs v" "color(v := Grey)" n "[v]"] assms(1,2) by blast
  with Cons show ?case by (cases "color v = White"; cases r1) auto
qed simp

lemma DetectCycle_spec:
  "\<exists>r. DetectCycle paths = Some r \<and> (r = None \<longleftrightarrow> acyclic (path_rel paths)) \<and>
     (\<forall>e. r = Some e \<longrightarrow> \<not> acyclic (path_rel paths))"
proof -
  obtain adj versions where b: "buildGraph paths = (adj, versions)" by force
  let ?V = "set versions"
  have E: "succ_rel (all_succs adj) = path_rel paths" by (rule all_succs_rel [OF b])
  have sub: "set (all_succs adj v) \<subseteq> ?V" for v
    by (auto simp: all_succs_def buildGraph_spec(1) [OF b] buildGraph_spec(2) [OF b])
  obtain r where r: "visit_roots (length versions) (all_succs adj) (sort versions) (\<lambda>_. White) = Some r"
    using visit_roots_fuel [of ?V "all_succs adj" "length versions" "sort versions" "\<lambda>_. White"] sub
      distinct_card [OF buildGraph_spec(3) [OF b]] by auto
  have "dfs_inv (path_rel paths) (\<lambda>_. White) []" by (simp add: dfs_inv_def chain_def black_def acyclic_def)
  note s = visit_roots_spec [OF r, unfolded E, OF this]
  have ac: "acyclic (path_rel paths)" if "r = Inr c" for c
  proof -
    from s that have i: "dfs_inv (path_rel paths) c []" "\<forall>v\<in>?V. c v = Black" by auto
    have "path_rel paths \<subseteq> ?V \<times> ?V" by (auto simp: path_rel_def buildGraph_spec(2) [OF b])
    with i(2) have "path_rel paths \<subseteq> black c \<times> black c" by (auto simp: black_def)
    then have "path_rel paths \<inter> black c \<times> black c = path_rel paths" by blast
    with i(1) show ?thesis by (simp add: dfs_inv_def)
  qed
  show ?thesis
    using s ac by (cases r) (auto simp: DetectCycle_def b r)
qed

section \<open>Validation and loading\<close>

definition rule_ok :: "path_rule \<Rightarrow> bool" where
  "rule_ok r \<longleftrightarrow> r_from r \<noteq> [] \<and> r_to r \<noteq> [] \<and> r_from r \<noteq> r_to r \<and>
     (\<forall>c\<in>set (r_preCheck r) \<union> set (r_postCheck r). ck_name c \<noteq> [])"

lemma empty_check_None: "empty_check cs j = None \<longleftrightarrow> (\<forall>c\<in>set cs. ck_name c \<noteq> [])"
  by (induction cs arbitrary: j) auto

lemma validate_from_None:
  "validate_from ps i seen = None \<longleftrightarrow>
     (\<forall>p\<in>set ps. rule_ok p) \<and> distinct (map edge_key ps) \<and> edge_key ` set ps \<inter> set seen = {}"
proof (induction ps i seen rule: validate_from.induct)
  case (2 p ps i seen)
  have p: "rule_ok p \<longleftrightarrow> r_from p \<noteq> [] \<and> r_to p \<noteq> [] \<and> r_from p \<noteq> r_to p \<and>
      empty_check (r_preCheck p) 0 = None \<and> empty_check (r_postCheck p) 0 = None"
    by (auto simp: rule_ok_def empty_check_None)
  show ?case
  proof (cases "rule_ok p \<and> edge_key p \<notin> set seen")
    case True
    with p have v: "validate_from (p # ps) i seen = validate_from ps (Suc i) (seen @ [edge_key p])" by simp
    from True p have "validate_from ps (Suc i) (seen @ [edge_key p]) = None \<longleftrightarrow> (\<forall>p\<in>set ps. rule_ok p) \<and>
        distinct (map edge_key ps) \<and> edge_key ` set ps \<inter> set (seen @ [edge_key p]) = {}"
      by (intro "2.IH") auto
    with True v show ?thesis by auto
  next
    case False
    have "validate_from (p # ps) i seen \<noteq> None"
      using False [unfolded p] by (simp split: option.split) auto
    with False show ?thesis by (auto simp del: validate_from.simps)
  qed
qed simp

definition rules_ok :: "path_rule list \<Rightarrow> bool" where
  "rules_ok paths \<longleftrightarrow> (\<forall>r\<in>set paths. rule_ok r) \<and> distinct (map edge_key paths) \<and> acyclic (path_rel paths)"

lemma ValidateRules_None: "ValidateRules paths = None \<longleftrightarrow> (\<forall>r\<in>set paths. rule_ok r) \<and> distinct (map edge_key paths)"
  by (simp add: ValidateRules_def validate_from_None)

text \<open>A service that holds the given rules.\<close>

definition holds :: "service \<Rightarrow> path_rule list \<Rightarrow> bool" where
  "holds s paths \<longleftrightarrow> (\<forall>v. set (get_or [] (sv_adj s) v) = {r\<in>set paths. r_from r = v}) \<and>
     set (sv_versions s) = r_from ` set paths \<union> r_to ` set paths \<and> distinct (sv_versions s)"

lemma get_or_map_snd: "get_or (f []) (map (\<lambda>(v, es). (v, f es)) m) k = f (get_or [] m k)"
  by (simp add: get_or_def map_of_map split: option.splits)

lemma Load_result:
  "\<exists>s' err. Load lib paths versions digest s = Some (s', err) \<and>
     (if rules_ok paths
      then err = None \<and> holds s' paths \<and> sv_digest s' = digest \<and> sv_paths s' = length paths
      else err \<noteq> None \<and> s' = s)"
proof (cases "ValidateRules paths")
  case (Some e)
  then have "\<not> rules_ok paths" using ValidateRules_None [of paths] by (auto simp: rules_ok_def)
  with Some show ?thesis by (simp add: Load_def)
next
  case None
  obtain r where r: "DetectCycle paths = Some r" "r = None \<longleftrightarrow> acyclic (path_rel paths)"
    using DetectCycle_spec [of paths] by blast
  have ok: "rules_ok paths \<longleftrightarrow> r = None" using None r(2) ValidateRules_None [of paths] by (auto simp: rules_ok_def)
  obtain adj vs where b: "buildGraph paths = (adj, vs)" by force
  show ?thesis
  proof (cases r)
    case (Some e)
    with None r ok show ?thesis by (simp add: Load_def)
  next
    case None2: None
    let ?f = "SliceStable (\<lambda>a b. compareVersion lib (r_to a) (r_to b) < 0)"
    have "set (get_or [] (map (\<lambda>(v, es). (v, ?f es)) adj) v) = {r\<in>set paths. r_from r = v}" for v
      using get_or_map_snd [of ?f adj v] by (simp add: buildGraph_spec(1) [OF b])
    then show ?thesis
      using None None2 r ok b buildGraph_spec(2,3) [OF b] by (simp add: Load_def holds_def)
  qed
qed

section \<open>Searching\<close>

lemma open_succs_rel: "holds s paths \<Longrightarrow> succ_rel (open_succs (sv_adj s)) = path_rel (open_rules paths)"
  by (auto simp: succ_rel_def open_succs_def holds_def path_rel_def open_rules_def)

text \<open>A sequence of rules that leads from one version to another.\<close>

fun leads :: "string \<Rightarrow> path_rule list \<Rightarrow> string \<Rightarrow> bool" where
  "leads v [] w \<longleftrightarrow> v = w"
| "leads v (r # rs) w \<longleftrightarrow> r_from r = v \<and> leads (r_to r) rs w"

lemma leads_snoc [simp]: "leads v (rs @ [r]) w \<longleftrightarrow> leads v rs (r_from r) \<and> r_to r = w"
  by (induction rs arbitrary: v) auto

lemma leads_relpow:
  "leads v rs w \<Longrightarrow> set rs \<subseteq> set ps \<Longrightarrow> (v, w) \<in> path_rel ps ^^ length rs"
proof (induction rs arbitrary: w rule: rev_induct)
  case (snoc r rs)
  then have "(r_from r, w) \<in> path_rel ps" by (auto simp: path_rel_def)
  with snoc show ?case by auto
qed simp

lemma leads_exists: "(v, w) \<in> (path_rel ps)\<^sup>* \<Longrightarrow> \<exists>rs. leads v rs w \<and> set rs \<subseteq> set ps"
proof (induction rule: rtrancl_induct)
  case base
  then show ?case by (intro exI [of _ "[]"]) simp
next
  case (step y z)
  then obtain rs r where "leads v rs y" "set rs \<subseteq> set ps" "r \<in> set ps" "r_from r = y" "r_to r = z"
    by (auto simp: path_rel_def)
  then show ?case by (intro exI [of _ "rs @ [r]"]) auto
qed


interpretation up: level_search "open_succs adj" "\<lambda>_. False" "\<lambda>L V. Some (reach_level adj L V [])" for adj
proof unfold_locales
  fix L V V' N
  assume "Some (reach_level adj L V []) = Some (V', N)"
  then have "reach_level adj L V [] = (V', N)" by simp
  from reach_level_spec [OF this]
  show "set V' = set V \<union> set N" "set N = (\<Union>x\<in>set L. set (open_succs adj x)) - set V" by auto
qed auto

lemma reach_loop_spec:
  "search_inv (succ_rel (open_succs adj)) s k (set visited) (set level) \<Longrightarrow> distinct visited \<Longrightarrow>
     set (reach_loop adj level visited) = (succ_rel (open_succs adj))\<^sup>* `` {s} \<and> distinct (reach_loop adj level visited)"
proof (induction adj level visited arbitrary: k rule: reach_loop.induct)
  case (1 adj level visited)
  show ?case
  proof (cases "level = []")
    case True
    with "1.prems" search_inv_done show ?thesis by (simp add: reach_loop.simps)
  next
    case False
    obtain v' n' where r: "reach_level adj level visited [] = (v', n')" by force
    have "search_inv (succ_rel (open_succs adj)) s (Suc k) (set v') (set n')"
      using up.round_inv [OF "1.prems"(1)] r by simp
    moreover have "distinct v'" using reach_level_spec [OF r] "1.prems"(2) by auto
    ultimately show ?thesis using "1.IH" [OF False r [symmetric]] False r
      by (simp add: reach_loop.simps [of adj level])
  qed
qed

text \<open>The level search of \<^verbatim>\<open>FindPath\<close>, seen on the versions only.\<close>

definition expand_versions :: "path_rule list gomap \<Rightarrow> string \<Rightarrow> string list \<Rightarrow> string list \<Rightarrow> (string list \<times> string list) option" where
  "expand_versions adj to L V =
     (case find_level adj to (map (\<lambda>v. (v, [])) L) V [] of
        Inl p \<Rightarrow> None | Inr (V', N) \<Rightarrow> Some (V', map fst N))"

interpretation fp: level_search "open_succs adj" "\<lambda>x. x = to" "expand_versions adj to" for adj to
proof unfold_locales
  fix L V V' N
  assume "expand_versions adj to L V = Some (V', N)"
  then obtain N0 where f: "find_level adj to (map (\<lambda>v. (v, [])) L) V [] = Inr (V', N0)" and N: "N = map fst N0"
    by (auto simp: expand_versions_def split: sum.splits)
  from find_level_Inr [OF f] N
  show "set V' = set V \<union> set N" "set N = (\<Union>x\<in>set L. set (open_succs adj x)) - set V"
    "\<And>x. x \<in> set N \<Longrightarrow> x \<noteq> to" by auto
next
  fix L V
  assume "expand_versions adj to L V = None"
  then obtain p where "find_level adj to (map (\<lambda>v. (v, [])) L) V [] = Inl p"
    by (auto simp: expand_versions_def split: sum.splits)
  from find_level_Inl [OF this] show "\<exists>x\<in>set L. x = to \<or> (\<exists>y\<in>set (open_succs adj x). y = to)"
    by (auto simp: open_succs_def)
qed


text \<open>The items of a level carry the path by which they were reached; the versions of a level do
  not depend on the paths.\<close>

lemma find_edges_paths:
  "map_sum (\<lambda>_. ()) (\<lambda>(V, N). (V, map fst N)) (find_edges to es path V N) =
   map_sum (\<lambda>_. ()) (\<lambda>(V, N). (V, map fst N)) (find_edges to es path' V N')"
  if "map fst N = map fst N'"
  using that by (induction es arbitrary: V N N') (auto simp: Let_def)

lemma find_level_paths:
  "map fst items = map fst items' \<Longrightarrow> map fst N = map fst N' \<Longrightarrow>
   map_sum (\<lambda>_. ()) (\<lambda>(V, N). (V, map fst N)) (find_level adj to items V N) =
   map_sum (\<lambda>_. ()) (\<lambda>(V, N). (V, map fst N)) (find_level adj to items' V N')"
proof (induction items arbitrary: items' V N N')
  case (Cons it items)
  obtain v path where it: "it = (v, path)" by force
  with Cons.prems(1) obtain path' items1 where i': "items' = (v, path') # items1" "map fst items = map fst items1"
    by (cases items') auto
  have e: "map_sum (\<lambda>_. ()) (\<lambda>(V, N). (V, map fst N)) (find_edges to (get_or [] adj v) path V N) =
     map_sum (\<lambda>_. ()) (\<lambda>(V, N). (V, map fst N)) (find_edges to (get_or [] adj v) path' V N')"
    by (rule find_edges_paths [OF Cons.prems(2)])
  show ?case
  proof (cases "find_edges to (get_or [] adj v) path V N")
    case (Inl p)
    with e obtain p' where "find_edges to (get_or [] adj v) path' V N' = Inl p'"
      by (cases "find_edges to (get_or [] adj v) path' V N'") auto
    with Inl it i' show ?thesis by simp
  next
    case (Inr r)
    obtain V1 N1 where r: "r = (V1, N1)" by force
    with Inr e obtain N2 where
      "find_edges to (get_or [] adj v) path' V N' = Inr (V1, N2)"
      "map fst N1 = map fst N2"
      by (cases "find_edges to (get_or [] adj v) path' V N'") auto
    with Cons.IH [OF i'(2)] it i' r Inr show ?thesis by simp
  qed
qed simp

lemma find_level_expand:
  "find_level adj to items V [] = Inr (V', N) \<Longrightarrow> expand_versions adj to (map fst items) V = Some (V', map fst N)"
  "find_level adj to items V [] = Inl p \<Longrightarrow> expand_versions adj to (map fst items) V = None"
  using find_level_paths [of items "map (\<lambda>v. (v, [])) (map fst items)" "[]" "[]" adj to V]
  by (auto simp: expand_versions_def comp_def split: sum.splits)

definition level_paths :: "path_rule list \<Rightarrow> string \<Rightarrow> nat \<Rightarrow> (string \<times> path_rule list) list \<Rightarrow> bool" where
  "level_paths ps from k items \<longleftrightarrow>
     (\<forall>(v, path)\<in>set items. leads from path v \<and> set path \<subseteq> set ps \<and> length path = k)"

lemma within_shortest:
  assumes "to \<notin> within R from k" "(from, to) \<in> R ^^ m"
  shows "k < m"
proof (rule ccontr)
  assume "\<not> k < m"
  then have "within R from m \<subseteq> within R from k" using within_mono [of m k R "from"] by simp
  with relpow_within [where R = R and k = m and s = "from"] assms show False by auto
qed

definition path_correct :: "path_rule list \<Rightarrow> string \<Rightarrow> string \<Rightarrow> path_rule list \<Rightarrow> bool" where
  "path_correct ps from to p \<longleftrightarrow> leads from p to \<and> set p \<subseteq> set ps \<and>
     (\<forall>q. leads from q to \<longrightarrow> set q \<subseteq> set ps \<longrightarrow> length p \<le> length q)"

lemma find_loop_spec:
  assumes "holds s paths"
  shows "search_inv (path_rel (open_rules paths)) from k (set visited) (fst ` set level) \<Longrightarrow>
     level_paths (open_rules paths) from k level \<Longrightarrow> to \<notin> set visited \<Longrightarrow> adj = sv_adj s \<Longrightarrow>
     (case find_loop adj to level visited of
        None \<Rightarrow> (from, to) \<notin> (path_rel (open_rules paths))\<^sup>*
      | Some p \<Rightarrow> path_correct (open_rules paths) from to p)"
proof (induction adj to level visited arbitrary: k rule: find_loop.induct)
  case (1 adj to level visited)
  let ?R = "path_rel (open_rules paths)"
  have R: "succ_rel (open_succs adj) = ?R" using open_succs_rel [OF assms] "1.prems"(4) by simp
  have open_e: "e \<in> set (open_rules paths) \<and> r_from e = v" if "e \<in> set (get_or [] adj v)" "\<not> r_blocked e" for e v
    using that assms "1.prems"(4) by (auto simp: holds_def open_rules_def)
  have inv: "search_inv (succ_rel (open_succs adj)) from k (set visited) (set (map fst level))"
    using "1.prems"(1) R by simp
  show ?case
  proof (cases "level = []")
    case True
    with "1.prems"(1,3) search_inv_done [of ?R "from" k "set visited"] show ?thesis
      by (auto simp: find_loop.simps)
  next
    case ne: False
    show ?thesis
    proof (cases "find_level adj to level visited []")
      case (Inl p)
      from find_level_Inl [OF Inl] obtain v path e where e: "(v, path) \<in> set level" "e \<in> set (get_or [] adj v)"
        "\<not> r_blocked e" "r_to e = to" "p = path @ [e]" by auto
      with "1.prems"(2) open_e [OF e(2,3)] have p: "leads from p to" "set p \<subseteq> set (open_rules paths)" "length p = Suc k"
        by (auto simp: level_paths_def)
      have "length p \<le> length q" if "leads from q to" "set q \<subseteq> set (open_rules paths)" for q
      proof -
        have "to \<notin> within ?R from k" using "1.prems"(1,3) by (simp add: search_inv_def)
        from within_shortest [OF this leads_relpow [OF that]] p(3) show ?thesis by simp
      qed
      with p ne Inl show ?thesis by (simp add: find_loop.simps path_correct_def)
    next
      case (Inr r)
      obtain v' n' where r: "r = (v', n')" by force
      note step = Inr [unfolded r]
      note new = find_level_Inr [OF step]
      have "search_inv ?R from (Suc k) (set v') (fst ` set n')"
        using fp.round_inv [OF inv find_level_expand(1) [OF step]] R by simp
      moreover have "level_paths (open_rules paths) from (Suc k) n'"
        unfolding level_paths_def
      proof (safe)
        fix w q assume "(w, q) \<in> set n'"
        with new obtain v path e where e: "(v, path) \<in> set level" "e \<in> set (get_or [] adj v)" "\<not> r_blocked e"
          "r_to e = w" "q = path @ [e]" by fastforce
        with "1.prems"(2) open_e [OF e(2,3)] show "leads from q w" "length q = Suc k"
          "\<And>x. x \<in> set q \<Longrightarrow> x \<in> set (open_rules paths)" by (auto simp: level_paths_def)
      qed
      moreover have "to \<notin> set v'" using new "1.prems"(3) by auto
      moreover have "find_loop adj to level visited = find_loop adj to n' v'"
        using ne step by (subst find_loop.simps) simp
      ultimately show ?thesis using "1.IH" [OF ne Inr r [symmetric], of "Suc k"] "1.prems"(4) by simp
    qed
  qed
qed


lemma find_loop_start:
  assumes "holds s paths" "from \<noteq> to"
  shows "case find_loop (sv_adj s) to [(from, [])] [from] of
      None \<Rightarrow> (from, to) \<notin> (path_rel (open_rules paths))\<^sup>*
    | Some p \<Rightarrow> path_correct (open_rules paths) from to p"
  using assms by (intro find_loop_spec [where k = 0]) (auto simp: search_inv_start level_paths_def)

lemma reach_loop_start:
  assumes "holds s paths"
  shows "set (reach_loop (sv_adj s) [cur] [cur]) = (path_rel (open_rules paths))\<^sup>* `` {cur}"
    and "distinct (reach_loop (sv_adj s) [cur] [cur])"
  using reach_loop_spec [of "sv_adj s" cur 0 "[cur]" "[cur]"] open_succs_rel [OF assms]
  by (auto simp: search_inv_start)

lemma FindPath_found:
  assumes "holds s paths" "from \<noteq> to" "leads from q to" "set q \<subseteq> set (open_rules paths)"
  shows "\<exists>p. FindPath s from to = Inr p \<and> path_correct (open_rules paths) from to p"
proof -
  have r: "(from, to) \<in> (path_rel (open_rules paths))\<^sup>*" using leads_relpow [OF assms(3,4)] by (rule relpow_imp_rtrancl)
  have sub: "path_rel (open_rules paths) \<subseteq> set (sv_versions s) \<times> set (sv_versions s)"
    using assms(1) by (auto simp: path_rel_def open_rules_def holds_def)
  obtain y where "(from, y) \<in> path_rel (open_rules paths)" using converse_rtranclE [OF r] assms(2) by blast
  with sub have v1: "from \<in> set (sv_versions s)" by blast
  obtain z where "(z, to) \<in> path_rel (open_rules paths)" using rtranclE [OF r] assms(2) by blast
  with sub have v2: "to \<in> set (sv_versions s)" by blast
  show ?thesis
  proof (cases "find_loop (sv_adj s) to [(from, [])] [from]")
    case None
    with find_loop_start [OF assms(1,2)] r show ?thesis by simp
  next
    case (Some p)
    with find_loop_start [OF assms(1,2)] v1 v2 assms(2) show ?thesis by (simp add: FindPath_def)
  qed
qed

lemma FindPath_path: "holds s paths \<Longrightarrow> from \<noteq> to \<Longrightarrow> FindPath s from to = Inr p \<Longrightarrow> path_correct (open_rules paths) from to p"
  using find_loop_start [of s paths "from" to] by (auto simp: FindPath_def split: option.splits if_splits)

lemma path_correct_tail:
  assumes "path_correct ps from to (e # p)"
  shows "path_correct ps (r_to e) to p" "e \<in> set ps" "r_from e = from"
proof -
  show "e \<in> set ps" "r_from e = from" using assms by (auto simp: path_correct_def)
  have "length p \<le> length q" if "leads (r_to e) q to" "set q \<subseteq> set ps" for q
    using assms that unfolding path_correct_def by (auto dest!: spec [of _ "e # q"])
  with assms show "path_correct ps (r_to e) to p" by (auto simp: path_correct_def)
qed

lemma path_correct_length: "path_correct ps from to p \<Longrightarrow> path_correct ps from to q \<Longrightarrow> length p = length q"
  by (auto simp: path_correct_def intro: le_antisym)

section \<open>Sorted answers\<close>

text \<open>What the version library documents: comparing is a total preorder on parsed versions.\<close>

definition semver_total :: "'v semver \<Rightarrow> bool" where
  "semver_total lib \<longleftrightarrow>
     (\<forall>a b. sem_compare lib a b < 0 \<longleftrightarrow> 0 < sem_compare lib b a) \<and>
     (\<forall>a b c. sem_compare lib a b \<le> 0 \<longrightarrow> sem_compare lib b c \<le> 0 \<longrightarrow> sem_compare lib a c \<le> 0)"

definition parses_all :: "'v semver \<Rightarrow> string set \<Rightarrow> bool" where
  "parses_all lib vs \<longleftrightarrow> (\<forall>v\<in>vs. sem_parse lib v \<noteq> None)"

definition ascending :: "'v semver \<Rightarrow> string list \<Rightarrow> bool" where
  "ascending lib vs \<longleftrightarrow> sorted_wrt (\<lambda>a b. compareVersion lib a b \<le> 0) vs"

definition order_on :: "'a set \<Rightarrow> ('a \<Rightarrow> 'a \<Rightarrow> bool) \<Rightarrow> ('a \<Rightarrow> 'a \<Rightarrow> bool) \<Rightarrow> bool" where
  "order_on S lt le \<longleftrightarrow> (\<forall>a\<in>S. \<forall>b\<in>S. (lt a b \<longrightarrow> le a b) \<and> (\<not> lt a b \<longrightarrow> le b a)) \<and>
     (\<forall>a\<in>S. \<forall>b\<in>S. \<forall>c\<in>S. le a b \<longrightarrow> le b c \<longrightarrow> le a c)"

lemma insert_back_sorted:
  "order_on S lt le \<Longrightarrow> x \<in> S \<Longrightarrow> set ys \<subseteq> S \<Longrightarrow> sorted_wrt (\<lambda>a b. le b a) ys \<Longrightarrow>
     sorted_wrt (\<lambda>a b. le b a) (insert_back lt x ys)"
proof (induction ys)
  case (Cons y ys)
  have xy: "lt x y \<Longrightarrow> le x y" "\<not> lt x y \<Longrightarrow> le y x" using Cons.prems by (auto simp: order_on_def)
  have "le z x" if "\<not> lt x y" "z \<in> set ys" for z
  proof -
    have "le z y" using Cons.prems(4) that by simp
    moreover have "z \<in> S" "y \<in> S" using Cons.prems(3) that by auto
    ultimately show ?thesis using Cons.prems(1,2) xy(2) that(1) unfolding order_on_def by blast
  qed
  with Cons xy show ?case by auto
qed simp

lemma SliceStable_sorted:
  assumes "order_on S lt le" "set xs \<subseteq> S"
  shows "sorted_wrt le (SliceStable lt xs)"
proof -
  have "sorted_wrt (\<lambda>a b. le b a) (fold (insert_back lt) xs ys)"
    if "set xs \<subseteq> S" "set ys \<subseteq> S" "sorted_wrt (\<lambda>a b. le b a) ys" for xs ys
    using that
  proof (induction xs arbitrary: ys)
    case (Cons x xs)
    then show ?case using insert_back_sorted [OF assms(1), of x ys] by simp
  qed simp
  from this [OF assms(2), of "[]"] show ?thesis by (simp add: SliceStable_def sorted_wrt_rev)
qed

lemma compareVersion_order:
  assumes "semver_total lib" "parses_all lib S"
  shows "order_on S (\<lambda>a b. compareVersion lib a b < 0) (\<lambda>a b. compareVersion lib a b \<le> 0)"
proof -
  let ?val = "\<lambda>a. the (sem_parse lib a)"
  have c: "compareVersion lib a b = sem_compare lib (?val a) (?val b)" if "a \<in> S" "b \<in> S" for a b
    using assms(2) that by (auto simp: parses_all_def compareVersion_def split: option.splits)
  have "sem_compare lib y x \<le> 0" if "\<not> sem_compare lib x y < 0" for x y
    using assms(1) that unfolding semver_total_def by (metis not_less)
  moreover have "sem_compare lib x z \<le> 0" if "sem_compare lib x y \<le> 0" "sem_compare lib y z \<le> 0" for x y z
    using assms(1) that unfolding semver_total_def by blast
  ultimately show ?thesis unfolding order_on_def by (simp add: c)
qed

lemma SliceStable_ascending:
  assumes "semver_total lib" "parses_all lib (set vs)"
  shows "ascending lib (SliceStable (\<lambda>a b. compareVersion lib a b < 0) vs)"
  unfolding ascending_def by (rule SliceStable_sorted [OF compareVersion_order [OF assms]]) simp

section \<open>Properties\<close>


text \<open>A rule set for the witnesses: two steps and a blocked shortcut.\<close>

definition sample_rule :: "string \<Rightarrow> string \<Rightarrow> bool \<Rightarrow> path_rule" where
  "sample_rule a b blocked = \<lparr>r_from = a, r_to = b, r_blocked = blocked, r_deprecated = False, r_notes = [],
     r_preCheck = [], r_postCheck = []\<rparr>"

definition sample_rules :: "path_rule list" where
  "sample_rules = [sample_rule ''v1'' ''v2'' False, sample_rule ''v1'' ''v3'' True, sample_rule ''v2'' ''v3'' False]"

definition sample_service :: service where
  "sample_service = \<lparr>sv_adj = fst (buildGraph sample_rules), sv_nodes = [], sv_versions = snd (buildGraph sample_rules),
     sv_digest = ''d'', sv_paths = 3\<rparr>"

definition sample_semver :: "nat semver" where
  "sample_semver = \<lparr>sem_parse = (\<lambda>s. if s = [] then None else Some (of_char (last s))), sem_compare = (\<lambda>a b. int a - int b)\<rparr>"

lemma sample_holds: "holds sample_service sample_rules"
  using buildGraph_spec [of sample_rules "fst (buildGraph sample_rules)" "snd (buildGraph sample_rules)"]
  by (simp add: holds_def sample_service_def)

text \<open>C30. On a service that holds a rule set, \<^verbatim>\<open>FindPath\<close> returns nothing to do for equal versions, rejects a
  version that no rule mentions, and otherwise either returns a sequence of unblocked rules of the
  set that leads from the first version to the second and has no shorter alternative, or reports
  that there is no path, and then no sequence of unblocked rules leads there.\<close>
theorem FindPath_correct:
  assumes "holds s paths"
  shows "case FindPath s from to of
      Inr p \<Rightarrow> (if from = to then p = [] else path_correct (open_rules paths) from to p)
    | Inl e \<Rightarrow> from \<noteq> to \<and>
        (if HasVersion s from \<and> HasVersion s to
         then e = ErrNoPath from to \<and> \<not> (\<exists>q. leads from q to \<and> set q \<subseteq> set (open_rules paths))
         else e = ErrVersionNotFound (if HasVersion s from then to else from))"
proof -
  have "(from, to) \<in> (path_rel (open_rules paths))\<^sup>*" if "leads from q to" "set q \<subseteq> set (open_rules paths)" for q
    using leads_relpow [OF that] by (rule relpow_imp_rtrancl)
  with find_loop_start [OF assms, of "from" to] show ?thesis
    by (auto simp: FindPath_def HasVersion_def split: option.splits)
qed

theorem FindPath_correct_witness:
  "holds sample_service sample_rules \<and>
   FindPath sample_service ''v1'' ''v3'' = Inr [sample_rule ''v1'' ''v2'' False, sample_rule ''v2'' ''v3'' False] \<and>
   path_correct (open_rules sample_rules) ''v1'' ''v3'' [sample_rule ''v1'' ''v2'' False, sample_rule ''v2'' ''v3'' False] \<and>
   FindPath sample_service ''v3'' ''v1'' = Inl (ErrNoPath ''v3'' ''v1'')"
proof -
  have f: "FindPath sample_service ''v1'' ''v3'' = Inr [sample_rule ''v1'' ''v2'' False, sample_rule ''v2'' ''v3'' False]"
    "FindPath sample_service ''v3'' ''v1'' = Inl (ErrNoPath ''v3'' ''v1'')" by code_simp+
  from FindPath_correct [OF sample_holds, of "''v1''" "''v3''"] f sample_holds show ?thesis by simp
qed

text \<open>The upgradeable versions of a version are, once each, exactly the other versions that some
  sequence of unblocked rules reaches, and none for a version the graph does not have.\<close>
theorem GetUpgradeableVersions_correct:
  assumes "holds s paths"
  shows "distinct (GetUpgradeableVersions lib s cur) \<and>
     set (GetUpgradeableVersions lib s cur) =
       (if HasVersion s cur then {v. v \<noteq> cur \<and> (\<exists>q. leads cur q v \<and> set q \<subseteq> set (open_rules paths))} else {})"
proof -
  have "(cur, v) \<in> (path_rel (open_rules paths))\<^sup>* \<longleftrightarrow> (\<exists>q. leads cur q v \<and> set q \<subseteq> set (open_rules paths))" for v
    using leads_exists leads_relpow relpow_imp_rtrancl by metis
  with reach_loop_start [OF assms, of cur] show ?thesis
    by (auto simp: GetUpgradeableVersions_def HasVersion_def distinct_SliceStable)
qed

theorem GetUpgradeableVersions_correct_witness:
  "holds sample_service sample_rules \<and> GetUpgradeableVersions sample_semver sample_service ''v1'' = [''v2'', ''v3''] \<and>
   {v. v \<noteq> ''v1'' \<and> (\<exists>q. leads ''v1'' q v \<and> set q \<subseteq> set (open_rules sample_rules))} = {''v2'', ''v3''}"
proof -
  have "GetUpgradeableVersions sample_semver sample_service ''v1'' = [''v2'', ''v3'']"
    "HasVersion sample_service ''v1''" by code_simp+
  with GetUpgradeableVersions_correct [OF sample_holds, of sample_semver "''v1''"] sample_holds show ?thesis by simp
qed

text \<open>The version lists the service answers are ascending, when the versions parse and the version
  library compares parsed versions by a total preorder.\<close>
theorem version_lists_ascending:
  assumes "semver_total lib" "holds s paths" "parses_all lib (set (sv_versions s))"
  shows "ascending lib (AllVersions lib s) \<and> ascending lib (GetUpgradeableVersions lib s cur)"
proof -
  have "set (reach_loop (sv_adj s) [cur] [cur]) \<subseteq> set (sv_versions s)" if "cur \<in> set (sv_versions s)"
  proof -
    have "v \<in> set (sv_versions s)" if "(cur, v) \<in> (path_rel (open_rules paths))\<^sup>*" for v
      using that by (induction rule: rtrancl_induct)
        (use \<open>cur \<in> _\<close> assms(2) in \<open>auto simp: path_rel_def open_rules_def holds_def\<close>)
    then show ?thesis using reach_loop_start(1) [OF assms(2)] by auto
  qed
  then have p: "parses_all lib (set (filter (\<lambda>v. v \<noteq> cur) (reach_loop (sv_adj s) [cur] [cur])))" if "cur \<in> set (sv_versions s)"
    using that assms(3) unfolding parses_all_def by auto
  show ?thesis
    using SliceStable_ascending [OF assms(1,3)] SliceStable_ascending [OF assms(1) p]
    by (simp add: AllVersions_def GetUpgradeableVersions_def ascending_def [of _ "[]"])
qed

theorem version_lists_ascending_witness:
  "AllVersions sample_semver sample_service = [''v1'', ''v2'', ''v3''] \<and>
   ascending sample_semver (AllVersions sample_semver sample_service)"
proof -
  have "semver_total sample_semver" by (auto simp: semver_total_def sample_semver_def)
  moreover have "parses_all sample_semver (set (sv_versions sample_service))" by code_simp
  moreover have "AllVersions sample_semver sample_service = [''v1'', ''v2'', ''v3'']" by code_simp
  ultimately show ?thesis using version_lists_ascending [OF _ sample_holds, of sample_semver "''v1''"] by simp
qed

end
