(* ===== verification/Cluster_Version.thy ===== *)
theory Cluster_Version
  imports Conditions Upgrade_Plan Upgrade_Path
begin

text \<open>
  The version orchestration above a single upgrade: the objects of
  \<^verbatim>\<open>api/v1alpha1/clusterversion_types.go\<close>, the helpers of \<^verbatim>\<open>pkg/clusterversion\<close>, the
  reconciler of \<^verbatim>\<open>controllers/clusterversion/clusterversion_controller.go\<close> and, of
  \<^verbatim>\<open>controllers/capbke/bkecluster_upgrade_dag.go\<close>, the completion of a hop.

  The API server is a record of object lists. A call may fail: \<open>fails c\<close> says that the call \<open>c\<close>
  returns an error, and every definition has the branch the code takes then. A patch writes the
  object that was read before in the same call; writers do not interleave inside one reconcile.
  The registry is a parameter: the references that are tried for a version and what pulling and
  parsing one of them yields. Messages are kept as values of a datatype, not as rendered text.
  Events and logs are left out.
\<close>

section \<open>Objects\<close>

(* src: api/v1alpha1/clusterversion_types.go 44-57 ClusterVersionPhase *)
datatype cv_phase = CvNone | CvPending | CvInstalling | CvInstalled | CvReady | CvPreChecking | CvUpgrading
  | CvUpgraded | CvBlocked | CvPreCheckFailed | CvFailed

text \<open>The calls to the API server that can fail, by what they do.\<close>

datatype api_call = GetCV | GetBC | ListCV | ListUP | ListRI_install | ListRI_ensure | GetRI | CreateRI | CreateCV | SetOwner
  | PatchCV cv_phase | PatchBC | PatchBCStatus

datatype cv_error =
    ErrApi api_call
  | ErrNotFound
  | ErrEmptyVersion
  | ErrReleasePhase string string string
  | ErrRefs string
  | ErrPull string cv_error
  | ErrText string
  | ErrNoRef
  | ErrUpgradePathMissing
  | ErrPath path_error
  | ErrSearch

datatype cv_message =
    MText string
  | MError cv_error
  | MBlocked string string path_error
  | MResolve cv_error
  | MEnsure string cv_error

(* src: api/v1alpha1/clusterversion_types.go 79-85 ClusterUpgradeRecordStatus *)
datatype record_status = Succeeded | RecordFailed | RolledBack

(* src: api/v1alpha1/clusterversion_types.go 69-75 ClusterUpgradeRecord *)
record upgrade_record =
  ur_from :: string
  ur_to :: string
  ur_startedAt :: "gotime option"
  ur_completedAt :: "gotime option"
  ur_status :: record_status

(* src: api/v1alpha1/clusterversion_types.go 88-94 ClusterVersionCondition *)
record cv_condition =
  vc_type :: string
  vc_status :: bool
  vc_reason :: string
  vc_message :: cv_message
  vc_time :: gotime

record owner_ref =
  or_kind :: string
  or_name :: string
  or_uid :: string

(* src: api/v1alpha1/clusterversion_types.go 28-66 ClusterVersion *)
record cluster_version =
  clv_name :: string
  clv_namespace :: string
  clv_owners :: "owner_ref list"
  clv_desiredVersion :: string
  clv_currentVersion :: string
  clv_phase :: cv_phase
  clv_upgradeHistory :: "upgrade_record list"
  clv_conditions :: "cv_condition list"

text \<open>A release image as stored: its name and specification, and of its status the phase and message.\<close>

(* src: api/v1alpha1/releaseimage_types.go 81-91 ReleaseImageStatus *)
record release_cr =
  rc_image :: release_image
  rc_namespace :: string
  rc_annotations :: "string gomap"
  rc_phase :: string
  rc_message :: string

(* src: api/v1alpha1/upgradepath_types.go 25-38 UpgradePath *)
record upgrade_path_cr =
  up_paths :: "path_rule list"
  up_versions :: "version_entry list"
  up_phase :: string
  up_lastDigest :: string

record kube_store =
  ks_cvs :: "cluster_version list"
  ks_bcs :: "bke_cluster list"
  ks_ris :: "release_cr list"
  ks_ups :: "upgrade_path_cr list"

text \<open>The registry: the references of \<^verbatim>\<open>pkg/release/imageref\<close> for namespace, cluster and version,
  and the parsed \<^verbatim>\<open>release.yaml\<close> of a reference.\<close>

record release_source =
  src_refs :: "string \<Rightarrow> string \<Rightarrow> string \<Rightarrow> string + string list"
  src_layer :: "string \<Rightarrow> string + release_cr"

type_synonym faults = "api_call \<Rightarrow> bool"

definition find_cv :: "kube_store \<Rightarrow> string \<Rightarrow> string \<Rightarrow> cluster_version option" where
  "find_cv ks ns name = find (\<lambda>v. clv_namespace v = ns \<and> clv_name v = name) (ks_cvs ks)"

definition find_bc :: "kube_store \<Rightarrow> string \<Rightarrow> string \<Rightarrow> bke_cluster option" where
  "find_bc ks ns name = find (\<lambda>b. bc_namespace b = ns \<and> bc_name b = name) (ks_bcs ks)"

definition put_cv :: "cluster_version \<Rightarrow> kube_store \<Rightarrow> kube_store" where
  "put_cv v ks = ks\<lparr>ks_cvs := map (\<lambda>o'. if clv_namespace o' = clv_namespace v \<and> clv_name o' = clv_name v then v else o') (ks_cvs ks)\<rparr>"

definition put_bc :: "bke_cluster \<Rightarrow> kube_store \<Rightarrow> kube_store" where
  "put_bc b ks = ks\<lparr>ks_bcs := map (\<lambda>o'. if bc_namespace o' = bc_namespace b \<and> bc_name o' = bc_name b then b else o') (ks_bcs ks)\<rparr>"

section \<open>ensure.go, install\_complete.go, lookup.go\<close>

(* src: pkg/clusterversion/ensure.go 41-52 OpenFuyaoVersionForBKECluster *)
definition OpenFuyaoVersionForBKECluster :: "bke_cluster \<Rightarrow> string" where
  "OpenFuyaoVersionForBKECluster bc =
     (if st_openFuyaoVersion (bc_status bc) \<noteq> [] then TrimSpace (st_openFuyaoVersion (bc_status bc))
      else case bs_clusterConfig (bc_spec bc) of None \<Rightarrow> [] | Some s \<Rightarrow> TrimSpace (cs_openFuyaoVersion s))"

(* src: pkg/clusterversion/ensure.go 55-60 ReleaseImageRefForVersion *)
definition ReleaseImageRefForVersion :: "string \<Rightarrow> string" where
  "ReleaseImageRefForVersion version =
     (let v = TrimPrefix (map lower_char (TrimSpace version)) ''v'';
          v' = map (\<lambda>ch. if ch \<in> {CHR ''/'', CHR ''_'', CHR ''@'', CHR '':''} then CHR ''-'' else ch) v
      in ''release-v'' @ TrimFunc (\<lambda>ch. ch = CHR ''-'') v')"

(* src: pkg/clusterversion/ensure.go 63-85 NewClusterVersionFromBKECluster *)
definition NewClusterVersionFromBKECluster :: "bke_cluster \<Rightarrow> cv_error + cluster_version" where
  "NewClusterVersionFromBKECluster bc =
     (let desired = OpenFuyaoVersionForBKECluster bc
      in if desired = [] then Inl ErrEmptyVersion
         else Inr \<lparr>clv_name = bc_name bc, clv_namespace = bc_namespace bc, clv_owners = [], clv_desiredVersion = desired,
                   clv_currentVersion = [], clv_phase = CvNone, clv_upgradeHistory = [], clv_conditions = []\<rparr>)"

(* src: pkg/clusterversion/install_complete.go 30-49 NeedsInstallCompletion *)
definition NeedsInstallCompletion :: "cluster_version \<Rightarrow> bool" where
  "NeedsInstallCompletion cv =
     (let desired = TrimSpace (clv_desiredVersion cv); current = TrimSpace (clv_currentVersion cv)
      in if desired = [] then False
         else if desired \<noteq> [] \<and> current \<noteq> [] \<and> current \<noteq> desired then False
         else if clv_phase cv \<noteq> CvUpgrading then True
         else current = [])"

(* src: pkg/clusterversion/install_complete.go 71-82 upsertClusterVersionCondition *)
fun upsertClusterVersionCondition :: "cv_condition list \<Rightarrow> cv_condition \<Rightarrow> cv_condition list" where
  "upsertClusterVersionCondition [] c = [c]"
| "upsertClusterVersionCondition (x # xs) c = (if vc_type x = vc_type c then c # xs else x # upsertClusterVersionCondition xs c)"

(* src: pkg/clusterversion/install_complete.go 52-69 ApplyInstallCompleteStatus *)
definition ApplyInstallCompleteStatus :: "gotime \<Rightarrow> cluster_version \<Rightarrow> string \<Rightarrow> cluster_version" where
  "ApplyInstallCompleteStatus now cv installed =
     cv\<lparr>clv_currentVersion := TrimSpace installed, clv_phase := CvReady,
        clv_conditions := upsertClusterVersionCondition (clv_conditions cv)
          \<lparr>vc_type = ''Ready'', vc_status = True, vc_reason = ''InstallComplete'', vc_message = MText ''cluster install complete'', vc_time = now\<rparr>\<rparr>"

(* src: pkg/clusterversion/lookup.go 103-117 clusterVersionOwnsBKECluster *)
definition clusterVersionOwnsBKECluster :: "cluster_version \<Rightarrow> bke_cluster \<Rightarrow> bool" where
  "clusterVersionOwnsBKECluster cv bc =
     list_ex (\<lambda>ref. or_kind ref = ''BKECluster'' \<and> or_name ref = bc_name bc \<and> (or_uid ref = [] \<or> or_uid ref = bc_uid bc)) (clv_owners cv)"

(* src: pkg/clusterversion/lookup.go 30-67 GetClusterVersionForBKECluster *)
definition GetClusterVersionForBKECluster :: "faults \<Rightarrow> kube_store \<Rightarrow> bke_cluster \<Rightarrow> cv_error + cluster_version" where
  "GetClusterVersionForBKECluster fails ks bc =
     (if fails ListCV then Inl (ErrApi ListCV)
      else case find (\<lambda>cv. clusterVersionOwnsBKECluster cv bc) (filter (\<lambda>cv. clv_namespace cv = bc_namespace bc) (ks_cvs ks)) of
             Some cv \<Rightarrow> Inr cv
           | None \<Rightarrow> if fails GetCV then Inl (ErrApi GetCV)
                     else (case find_cv ks (bc_namespace bc) (bc_name bc) of None \<Rightarrow> Inl ErrNotFound | Some cv \<Rightarrow> Inr cv))"

(* src: pkg/clusterversion/lookup.go 70-101 GetBKEClusterForClusterVersion *)
definition GetBKEClusterForClusterVersion :: "faults \<Rightarrow> kube_store \<Rightarrow> cluster_version \<Rightarrow> cv_error + bke_cluster" where
  "GetBKEClusterForClusterVersion fails ks cv =
     (let name = (case find (\<lambda>ref. or_kind ref = ''BKECluster'') (clv_owners cv) of Some ref \<Rightarrow> or_name ref | None \<Rightarrow> clv_name cv)
      in if fails GetBC then Inl (ErrApi GetBC)
         else case find_bc ks (clv_namespace cv) name of None \<Rightarrow> Inl ErrNotFound | Some bc \<Rightarrow> Inr bc)"

(* src: pkg/clusterversion/ensure.go 89-123 EnsureClusterVersionForBKECluster *)
definition EnsureClusterVersionForBKECluster :: "faults \<Rightarrow> kube_store \<Rightarrow> bke_cluster \<Rightarrow> bool \<Rightarrow> kube_store \<times> (cv_error + bool)" where
  "EnsureClusterVersionForBKECluster fails ks bc deleting =
     (if deleting then (ks, Inr False)
      else case GetClusterVersionForBKECluster fails ks bc of
        Inr cv \<Rightarrow> (ks, Inr False)
      | Inl e \<Rightarrow>
          if e \<noteq> ErrNotFound then (ks, Inl e)
          else (case NewClusterVersionFromBKECluster bc of
                  Inl e \<Rightarrow> (ks, Inl e)
                | Inr cv \<Rightarrow>
                    if fails SetOwner then (ks, Inl (ErrApi SetOwner))
                    else if fails CreateCV then (ks, Inl (ErrApi CreateCV))
                    else if find_cv ks (clv_namespace cv) (clv_name cv) \<noteq> None then (ks, Inr False)
                    else (ks\<lparr>ks_cvs := ks_cvs ks @
                            [cv\<lparr>clv_owners := [\<lparr>or_kind = ''BKECluster'', or_name = bc_name bc, or_uid = bc_uid bc\<rparr>]\<rparr>]\<rparr>, Inr True)))"

section \<open>releaseimage\_ensure.go\<close>

abbreviation rc_version :: "release_cr \<Rightarrow> string" where
  "rc_version r \<equiv> rs_version (ri_spec (rc_image r))"

(* src: pkg/clusterversion/releaseimage_ensure.go 86-100 findReleaseImageByVersion *)
definition findReleaseImageByVersion :: "faults \<Rightarrow> kube_store \<Rightarrow> string \<Rightarrow> string \<Rightarrow> cv_error + release_cr option" where
  "findReleaseImageByVersion fails ks ns version =
     (if fails ListRI_ensure then Inl (ErrApi ListRI_ensure)
      else Inr (find (\<lambda>r. rc_version r = version) (filter (\<lambda>r. rc_namespace r = ns) (ks_ris ks))))"

(* src: pkg/clusterversion/releaseimage_ensure.go 154-174 pullReleaseImageSpec *)
definition pullReleaseImageSpec :: "release_source \<Rightarrow> string \<Rightarrow> cv_error + release_cr" where
  "pullReleaseImageSpec src ref =
     (case src_layer src ref of
        Inl e \<Rightarrow> Inl (ErrText e)
      | Inr parsed \<Rightarrow> if TrimSpace (rc_version parsed) = [] then Inl ErrEmptyVersion else Inr parsed)"

(* src: pkg/clusterversion/releaseimage_ensure.go 113-133 createReleaseImageFromOCI (pull loop) *)
fun pull_first :: "release_source \<Rightarrow> string list \<Rightarrow> cv_error option \<Rightarrow> cv_error + release_cr" where
  "pull_first src [] lastErr = Inl (case lastErr of None \<Rightarrow> ErrNoRef | Some e \<Rightarrow> e)"
| "pull_first src (ref # refs) lastErr =
     (case pullReleaseImageSpec src ref of
        Inr parsed \<Rightarrow> Inr parsed
      | Inl e \<Rightarrow> pull_first src refs (Some (ErrPull ref e)))"

(* src: pkg/clusterversion/releaseimage_ensure.go 176-198 releaseImageCRFromParsed *)
definition releaseImageCRFromParsed :: "release_cr \<Rightarrow> string \<Rightarrow> string \<Rightarrow> release_cr" where
  "releaseImageCRFromParsed parsed ns cluster =
     parsed\<lparr>rc_namespace := ns,
            rc_image := (rc_image parsed)\<lparr>ri_name :=
               (if TrimSpace (ri_name (rc_image parsed)) = [] then ReleaseImageRefForVersion (rc_version parsed) else ri_name (rc_image parsed))\<rparr>,
            rc_annotations := AList.update ''cvo.openfuyao.cn/bkecluster-name'' cluster (rc_annotations parsed),
            rc_phase := [], rc_message := []\<rparr>"

(* src: pkg/clusterversion/releaseimage_ensure.go 102-152 createReleaseImageFromOCI *)
definition createReleaseImageFromOCI :: "release_source \<Rightarrow> faults \<Rightarrow> kube_store \<Rightarrow> cluster_version \<Rightarrow> string \<Rightarrow> kube_store \<times> (cv_error + release_cr)" where
  "createReleaseImageFromOCI src fails ks cv version =
     (case src_refs src (clv_namespace cv) (clv_name cv) version of
        Inl e \<Rightarrow> (ks, Inl (ErrRefs e))
      | Inr refs \<Rightarrow>
          (case pull_first src refs None of
             Inl e \<Rightarrow> (ks, Inl e)
           | Inr parsed \<Rightarrow>
               let ri = releaseImageCRFromParsed parsed (clv_namespace cv) (clv_name cv)
               in if fails SetOwner then (ks, Inl (ErrApi SetOwner))
                  else if fails CreateRI then (ks, Inl (ErrApi CreateRI))
                  else (case find (\<lambda>r. rc_namespace r = rc_namespace ri \<and> ri_name (rc_image r) = ri_name (rc_image ri)) (ks_ris ks) of
                          Some existing \<Rightarrow> (ks, if fails GetRI then Inl (ErrApi GetRI) else Inr existing)
                        | None \<Rightarrow> (ks\<lparr>ks_ris := ks_ris ks @ [ri]\<rparr>, Inr ri))))"

(* src: pkg/clusterversion/releaseimage_ensure.go 73-83 ReleaseImageEnsurer.Ensure (phase) *)
definition phase_outcome :: "release_cr \<Rightarrow> cv_error + bool" where
  "phase_outcome ri =
     (if rc_phase ri = ''Valid'' then Inr False
      else if rc_phase ri = ''Invalid'' \<or> rc_phase ri = ''ManifestMissing'' \<or> rc_phase ri = ''CompatibilityFailed''
      then Inl (ErrReleasePhase (ri_name (rc_image ri)) (rc_phase ri) (rc_message ri))
      else Inr True)"

text \<open>The result says whether to come back later.\<close>

(* src: pkg/clusterversion/releaseimage_ensure.go 46-84 ReleaseImageEnsurer.Ensure *)
definition Ensure :: "release_source \<Rightarrow> faults \<Rightarrow> kube_store \<Rightarrow> cluster_version \<Rightarrow> string \<Rightarrow> kube_store \<times> (cv_error + bool)" where
  "Ensure src fails ks cv version0 =
     (let version = TrimSpace version0
      in if version = [] then (ks, Inl ErrEmptyVersion)
         else case findReleaseImageByVersion fails ks (clv_namespace cv) version of
           Inl e \<Rightarrow> (ks, Inl e)
         | Inr (Some ri) \<Rightarrow> (ks, phase_outcome ri)
         | Inr None \<Rightarrow>
             (case createReleaseImageFromOCI src fails ks cv version of
                (ks1, Inl e) \<Rightarrow> (ks1, Inl e)
              | (ks1, Inr ri) \<Rightarrow> (ks1, phase_outcome ri)))"

section \<open>clusterversion\_controller.go\<close>

(* src: controllers/clusterversion/clusterversion_controller.go 381-388 firstNonEmpty *)
fun firstNonEmpty :: "string list \<Rightarrow> string" where
  "firstNonEmpty [] = []"
| "firstNonEmpty (v # vs) = (if TrimSpace v \<noteq> [] then TrimSpace v else firstNonEmpty vs)"

(* src: controllers/clusterversion/clusterversion_controller.go 373-379 formatPath *)
definition formatPath :: "path_rule list \<Rightarrow> string" where
  "formatPath path = (case map (\<lambda>e. r_from e @ ''->'' @ r_to e) path of
     [] \<Rightarrow> [] | s # ss \<Rightarrow> s @ concat (map (\<lambda>x. '','' @ x) ss))"

(* src: controllers/clusterversion/clusterversion_controller.go 301-309 failureCondition *)
definition failureCondition :: "gotime \<Rightarrow> string \<Rightarrow> cv_message \<Rightarrow> cv_condition list" where
  "failureCondition now reason msg = [\<lparr>vc_type = ''Ready'', vc_status = False, vc_reason = reason, vc_message = msg, vc_time = now\<rparr>]"

text \<open>The in-memory object is changed even when the patch fails; both are returned.\<close>

(* src: controllers/clusterversion/clusterversion_controller.go 275-291 setStatus *)
definition setStatus :: "faults \<Rightarrow> kube_store \<Rightarrow> cluster_version \<Rightarrow> cv_phase \<Rightarrow> cv_condition list option \<Rightarrow>
    kube_store \<times> cluster_version \<times> cv_error option" where
  "setStatus fails ks cv phase conditions =
     (let cv1 = cv\<lparr>clv_phase := phase\<rparr>;
          cv2 = (case conditions of None \<Rightarrow> cv1 | Some cs \<Rightarrow> cv1\<lparr>clv_conditions := cs\<rparr>)
      in if fails (PatchCV phase) then (ks, cv2, Some (ErrApi (PatchCV phase))) else (put_cv cv2 ks, cv2, None))"

(* src: controllers/clusterversion/clusterversion_controller.go 252-266 hasReleaseImageForVersion *)
definition hasReleaseImageForVersion :: "faults \<Rightarrow> kube_store \<Rightarrow> string \<Rightarrow> string \<Rightarrow> cv_error + bool" where
  "hasReleaseImageForVersion fails ks ns version =
     (if fails ListRI_install then Inl (ErrApi ListRI_install)
      else Inr (list_ex (\<lambda>r. TrimSpace (rc_version r) = version) (filter (\<lambda>r. rc_namespace r = ns) (ks_ris ks))))"

(* src: controllers/clusterversion/clusterversion_controller.go 223-250 isInstallPhase *)
definition isInstallPhase :: "faults \<Rightarrow> kube_store \<Rightarrow> bke_cluster \<Rightarrow> cluster_version \<Rightarrow> bool" where
  "isInstallPhase fails ks bc cv =
     (let desired = TrimSpace (clv_desiredVersion cv); current = TrimSpace (clv_currentVersion cv);
          ready = (st_clusterStatus (bc_status bc) = ''Ready'')
      in if current \<noteq> [] \<and> current \<noteq> desired then False
         else if current \<noteq> [] \<and> current = desired then
           (if ready then False
            else case hasReleaseImageForVersion fails ks (clv_namespace cv) current of
                   Inl e \<Rightarrow> True | Inr has \<Rightarrow> \<not> has)
         else \<not> ready)"

(* src: controllers/clusterversion/clusterversion_controller.go 311-327 resolveUpgradePath *)
definition resolveUpgradePath :: "'v semver \<Rightarrow> faults \<Rightarrow> kube_store \<Rightarrow> service \<Rightarrow> service \<times> cv_error option" where
  "resolveUpgradePath lib fails ks svc =
     (if fails ListUP then (svc, Some (ErrApi ListUP))
      else case ks_ups ks of
        [] \<Rightarrow> (svc, Some ErrUpgradePathMissing)
      | u # us \<Rightarrow>
          let sel = (case find (\<lambda>x. up_phase x = ''Active'') (u # us) of Some x \<Rightarrow> x | None \<Rightarrow> u)
          in (case Load lib (up_paths sel) (up_versions sel) (up_lastDigest sel) svc of
                None \<Rightarrow> (svc, Some ErrSearch)
              | Some (svc', e) \<Rightarrow> (svc', map_option ErrPath e)))"

(* src: controllers/clusterversion/clusterversion_controller.go 329-344 markUpgradeReady *)
definition markUpgradeReady :: "faults \<Rightarrow> kube_store \<Rightarrow> bke_cluster \<Rightarrow> cluster_version \<Rightarrow> path_rule list \<Rightarrow> string \<Rightarrow> kube_store \<times> cv_error option" where
  "markUpgradeReady fails ks bc cv path target =
     (let bc' = SetAnnotation (SetAnnotation (SetAnnotation bc CVOUpgradeReadyAnnotationKey target)
                  CVOClusterVersionAnnotationKey (clv_name cv)) CVOUpgradePathAnnotationKey (formatPath path)
      in if fails PatchBC then (ks, Some (ErrApi PatchBC)) else (put_bc bc' ks, None))"

definition drop_upgrade_annotations :: "bke_cluster \<Rightarrow> bke_cluster" where
  "drop_upgrade_annotations bc = RemoveAnnotation (RemoveAnnotation (RemoveAnnotation bc CVOUpgradeReadyAnnotationKey)
     CVOUpgradePathAnnotationKey) CVOClusterVersionAnnotationKey"

(* src: controllers/clusterversion/clusterversion_controller.go 346-358 clearUpgradeReady *)
definition clearUpgradeReady :: "faults \<Rightarrow> kube_store \<Rightarrow> bke_cluster \<Rightarrow> kube_store \<times> cv_error option" where
  "clearUpgradeReady fails ks bc =
     (if HasAnnotation bc CVOUpgradeReadyAnnotationKey = None then (ks, None)
      else if fails PatchBC then (ks, Some (ErrApi PatchBC))
      else (put_bc (drop_upgrade_annotations bc) ks, None))"

(* src: controllers/clusterversion/clusterversion_controller.go 63-63 ctrl.Result *)
datatype rec_result = RDone | RRequeue | RFail cv_error

text \<open>Recording a failed precheck, then returning: \<open>res\<close> is what the reconciler returns when the
  record could be written.\<close>

(* src: controllers/clusterversion/clusterversion_controller.go 149-158 reconcileUpgrade (failed precheck) *)
definition precheck_failed :: "faults \<Rightarrow> gotime \<Rightarrow> kube_store \<Rightarrow> cluster_version \<Rightarrow> string \<Rightarrow> cv_message \<Rightarrow> rec_result \<Rightarrow> kube_store \<times> rec_result" where
  "precheck_failed fails now ks cv reason msg res =
     (case setStatus fails ks cv CvPreCheckFailed (Some (failureCondition now reason msg)) of
        (ks1, cv1, Some e) \<Rightarrow> (ks1, RFail e)
      | (ks1, cv1, None) \<Rightarrow> (ks1, res))"

(* src: controllers/clusterversion/clusterversion_controller.go 173-215 reconcileUpgrade (hop) *)
definition reconcileHop :: "release_source \<Rightarrow> faults \<Rightarrow> gotime \<Rightarrow> kube_store \<Rightarrow> cluster_version \<Rightarrow> bke_cluster \<Rightarrow> path_rule list \<Rightarrow> kube_store \<times> rec_result" where
  "reconcileHop src fails now ks cv bc path =
     (case path of
        [] \<Rightarrow> (ks, RDone)
      | first # _ \<Rightarrow>
          let hopTarget = r_to first
          in (case Ensure src fails ks cv hopTarget of
                (ks1, Inl e) \<Rightarrow> precheck_failed fails now ks1 cv ''ReleaseImageEnsureFailed'' (MEnsure hopTarget e) (RFail e)
              | (ks1, Inr True) \<Rightarrow> (ks1, RRequeue)
              | (ks1, Inr False) \<Rightarrow>
                  if HasAnnotation bc CVOUpgradeReadyAnnotationKey = Some hopTarget then (ks1, RDone)
                  else (case setStatus fails ks1 cv CvPreChecking None of
                          (ks2, cv2, Some e) \<Rightarrow> (ks2, RFail e)
                        | (ks2, cv2, None) \<Rightarrow>
                            (case markUpgradeReady fails ks2 bc cv2 path hopTarget of
                               (ks3, Some e) \<Rightarrow> (ks3, RFail e)
                             | (ks3, None) \<Rightarrow> (ks3, RDone)))))"

(* src: controllers/clusterversion/clusterversion_controller.go 119-216 reconcileUpgrade *)
definition reconcileUpgrade :: "'v semver \<Rightarrow> release_source \<Rightarrow> faults \<Rightarrow> gotime \<Rightarrow> kube_store \<times> service \<Rightarrow> cluster_version \<Rightarrow> bke_cluster \<Rightarrow> string \<Rightarrow>
    (kube_store \<times> service) \<times> rec_result" where
  "reconcileUpgrade lib src fails now st cv bc desired =
     (let (ks, svc) = st; current = firstNonEmpty [clv_currentVersion cv, OpenFuyaoVersionForBKECluster bc]
      in if current = [] then (st, RDone)
         else if current = desired then
           (case clearUpgradeReady fails ks bc of (ks1, Some e) \<Rightarrow> ((ks1, svc), RFail e) | (ks1, None) \<Rightarrow> ((ks1, svc), RDone))
         else if clv_phase cv = CvFailed then (st, RDone)
         else (case resolveUpgradePath lib fails ks svc of
                 (svc1, Some e) \<Rightarrow>
                   (let (ks1, res) = precheck_failed fails now ks cv ''UpgradePathResolveFailed'' (MResolve e) RDone in ((ks1, svc1), res))
               | (svc1, None) \<Rightarrow>
                   (case FindPath svc1 current desired of
                      Inl e \<Rightarrow>
                        (let (ks1, res) = precheck_failed fails now ks cv ''UpgradePathBlocked'' (MBlocked current desired e) RDone in ((ks1, svc1), res))
                    | Inr path \<Rightarrow> (let (ks1, res) = reconcileHop src fails now ks cv bc path in ((ks1, svc1), res)))))"

(* src: controllers/clusterversion/clusterversion_controller.go 90-114 Reconcile (install) *)
definition reconcileInstall :: "release_source \<Rightarrow> faults \<Rightarrow> gotime \<Rightarrow> kube_store \<Rightarrow> cluster_version \<Rightarrow> string \<Rightarrow> kube_store \<times> rec_result" where
  "reconcileInstall src fails now ks cv desired =
     (case setStatus fails ks cv CvInstalling None of
        (ks1, cv1, Some e) \<Rightarrow> (ks1, RFail e)
      | (ks1, cv1, None) \<Rightarrow>
          (case Ensure src fails ks1 cv1 desired of
             (ks2, Inl e) \<Rightarrow>
               (case setStatus fails ks2 cv1 CvFailed (Some (failureCondition now ''ReleaseImageEnsureFailed'' (MError e))) of
                  (ks3, cv3, Some e') \<Rightarrow> (ks3, RFail e')
                | (ks3, cv3, None) \<Rightarrow> (ks3, RFail e))
           | (ks2, Inr True) \<Rightarrow> (ks2, RRequeue)
           | (ks2, Inr False) \<Rightarrow> (ks2, RDone)))"

(* src: controllers/clusterversion/clusterversion_controller.go 63-117 Reconcile *)
definition Reconcile :: "'v semver \<Rightarrow> release_source \<Rightarrow> faults \<Rightarrow> gotime \<Rightarrow> kube_store \<times> service \<Rightarrow> string \<Rightarrow> string \<Rightarrow> (kube_store \<times> service) \<times> rec_result" where
  "Reconcile lib src fails now st ns name =
     (if fails GetCV then (st, RFail (ErrApi GetCV))
      else case find_cv (fst st) ns name of
        None \<Rightarrow> (st, RDone)
      | Some cv \<Rightarrow>
          let desired = TrimSpace (clv_desiredVersion cv)
          in if desired = [] then (st, RDone)
             else if fails GetBC then (st, RFail (ErrApi GetBC))
             else (case find_bc (fst st) (clv_namespace cv) (clv_name cv) of
                     None \<Rightarrow> (st, RFail ErrNotFound)
                   | Some bc \<Rightarrow>
                       if isInstallPhase fails (fst st) bc cv
                       then (let (ks1, res) = reconcileInstall src fails now (fst st) cv desired in ((ks1, snd st), res))
                       else reconcileUpgrade lib src fails now st cv bc desired))"

section \<open>status.go\<close>

(* src: pkg/clusterversion/status.go 30-64 ShouldSyncClusterVersionInstallStatus *)
definition ShouldSyncClusterVersionInstallStatus :: "faults \<Rightarrow> kube_store \<Rightarrow> bke_cluster \<Rightarrow> cv_error + bool" where
  "ShouldSyncClusterVersionInstallStatus fails ks bc =
     (if TrimSpace (get_or [] (bc_annotations bc) CVOUpgradeReadyAnnotationKey) \<noteq> [] then Inr False
      else case GetClusterVersionForBKECluster fails ks bc of
        Inl e \<Rightarrow> if e = ErrNotFound then Inr False else Inl e
      | Inr cv \<Rightarrow>
          let desired = TrimSpace (clv_desiredVersion cv); current = TrimSpace (clv_currentVersion cv);
              installed = OpenFuyaoVersionForBKECluster bc
          in if \<not> NeedsInstallCompletion cv then Inr False
             else if desired \<noteq> [] \<and> current \<noteq> [] \<and> current \<noteq> desired then Inr False
             else if desired = [] \<or> installed = [] \<or> installed \<noteq> desired then Inr False
             else if clv_phase cv = CvReady \<and> current = desired then Inr False
             else Inr True)"

(* src: pkg/clusterversion/status.go 68-92 SyncClusterVersionInstallStatus *)
definition SyncClusterVersionInstallStatus :: "faults \<Rightarrow> gotime \<Rightarrow> kube_store \<Rightarrow> bke_cluster \<Rightarrow> kube_store \<times> cv_error option" where
  "SyncClusterVersionInstallStatus fails now ks bc =
     (case ShouldSyncClusterVersionInstallStatus fails ks bc of
        Inl e \<Rightarrow> (ks, Some e)
      | Inr False \<Rightarrow> (ks, None)
      | Inr True \<Rightarrow>
          (case GetClusterVersionForBKECluster fails ks bc of
             Inl e \<Rightarrow> (ks, if e = ErrNotFound then None else Some e)
           | Inr cv \<Rightarrow>
               let installed = OpenFuyaoVersionForBKECluster bc
               in if installed = [] then (ks, None)
                  else if fails (PatchCV CvReady) then (ks, Some (ErrApi (PatchCV CvReady)))
                  else (put_cv (ApplyInstallCompleteStatus now cv installed) ks, None)))"

(* src: pkg/clusterversion/status.go 109-125 CompleteUpgradeHop (status) *)
definition hop_status :: "gotime \<Rightarrow> cluster_version \<Rightarrow> string \<Rightarrow> cluster_version" where
  "hop_status now cv hop =
     (let fromVersion = TrimSpace (clv_currentVersion cv);
          cv1 = cv\<lparr>clv_currentVersion := hop, clv_phase := (if hop = clv_desiredVersion cv then CvReady else CvUpgrading)\<rparr>
      in if fromVersion \<noteq> [] \<and> hop \<noteq> fromVersion
         then cv1\<lparr>clv_upgradeHistory := clv_upgradeHistory cv1 @
                [\<lparr>ur_from = fromVersion, ur_to = hop, ur_startedAt = None, ur_completedAt = Some now, ur_status = Succeeded\<rparr>]\<rparr>
         else cv1)"

(* src: pkg/clusterversion/status.go 95-127 CompleteUpgradeHop *)
definition CompleteUpgradeHop :: "faults \<Rightarrow> gotime \<Rightarrow> kube_store \<Rightarrow> cluster_version \<Rightarrow> string \<Rightarrow> kube_store \<times> cv_error option" where
  "CompleteUpgradeHop fails now ks cv hopVersion =
     (let hop = TrimSpace hopVersion; cv' = hop_status now cv hop
      in if hop = [] then (ks, Some ErrEmptyVersion)
         else if fails (PatchCV (clv_phase cv')) then (ks, Some (ErrApi (PatchCV (clv_phase cv'))))
         else (put_cv cv' ks, None))"

(* src: pkg/clusterversion/status.go 162-170 upgradeFailureCondition *)
definition upgradeFailureCondition :: "gotime \<Rightarrow> string \<Rightarrow> cv_condition list" where
  "upgradeFailureCondition now msg =
     [\<lparr>vc_type = ''Ready'', vc_status = False, vc_reason = ''UpgradeHopFailed'', vc_message = MText msg, vc_time = now\<rparr>]"

(* src: pkg/clusterversion/status.go 130-160 FailUpgradeHop *)
definition FailUpgradeHop :: "faults \<Rightarrow> gotime \<Rightarrow> kube_store \<Rightarrow> cluster_version \<Rightarrow> string \<Rightarrow> string option \<Rightarrow> kube_store \<times> cv_error option" where
  "FailUpgradeHop fails now ks cv hopTarget0 cause =
     (let hopTarget = TrimSpace hopTarget0;
          msg = (case cause of None \<Rightarrow> ''declarative upgrade failed'' | Some e \<Rightarrow> e);
          fromVersion = TrimSpace (clv_currentVersion cv);
          cv1 = cv\<lparr>clv_phase := CvFailed, clv_conditions := upgradeFailureCondition now msg\<rparr>;
          cv2 = (if hopTarget \<noteq> [] \<and> fromVersion \<noteq> [] \<and> hopTarget \<noteq> fromVersion
                 then cv1\<lparr>clv_upgradeHistory := clv_upgradeHistory cv1 @
                        [\<lparr>ur_from = fromVersion, ur_to = hopTarget, ur_startedAt = None, ur_completedAt = Some now, ur_status = RecordFailed\<rparr>]\<rparr>
                 else cv1)
      in if fails (PatchCV CvFailed) then (ks, Some (ErrApi (PatchCV CvFailed))) else (put_cv cv2 ks, None))"

(* src: pkg/clusterversion/status.go 173-180 HasUpgradeRecord *)
definition HasUpgradeRecord :: "upgrade_record list \<Rightarrow> string \<Rightarrow> string \<Rightarrow> bool" where
  "HasUpgradeRecord records from to = list_ex (\<lambda>r. ur_from r = from \<and> ur_to r = to) records"

section \<open>Completing a hop, bkecluster\_upgrade\_dag.go\<close>

(* src: controllers/capbke/bkecluster_upgrade_dag.go 164-167 shouldUseDeclarativeUpgrade *)
definition shouldUseDeclarativeUpgrade :: "bke_cluster \<Rightarrow> bool" where
  "shouldUseDeclarativeUpgrade bc = snd (UpgradeReady (Some bc))"

(* src: controllers/capbke/bkecluster_upgrade_dag.go 171-180 declarativeUpgradeTargetVersion *)
definition declarativeUpgradeTargetVersion :: "bke_cluster \<Rightarrow> cv_error + string" where
  "declarativeUpgradeTargetVersion bc =
     (case UpgradeReady (Some bc) of (target, ok) \<Rightarrow> if ok then Inr target else Inl (ErrText ''missing annotation''))"

(* src: controllers/capbke/bkecluster_upgrade_dag.go 490-496 persistDeclarativeUpgradeFinished (progress) *)
definition finished_progress :: "gotime \<Rightarrow> declarative_upgrade option \<Rightarrow> declarative_upgrade option" where
  "finished_progress now p = ClearFailure (map_option (\<lambda>d. d\<lparr>du_finishedAt := Some now, du_lastError := []\<rparr>) p)"

text \<open>The status subresource is patched, so the stored specification stays as it is.\<close>

(* src: controllers/capbke/bkecluster_upgrade_dag.go 481-526 persistDeclarativeUpgradeFinished *)
definition persistDeclarativeUpgradeFinished :: "faults \<Rightarrow> gotime \<Rightarrow> kube_store \<Rightarrow> bke_cluster \<Rightarrow> string \<Rightarrow> kube_store \<times> cv_error option" where
  "persistDeclarativeUpgradeFinished fails now ks mem hop =
     (let progress = finished_progress now (st_declarativeUpgrade (bc_status mem))
      in if fails GetBC then (ks, Some (ErrApi GetBC))
         else case find_bc ks (bc_namespace mem) (bc_name mem) of
           None \<Rightarrow> (ks, Some ErrNotFound)
         | Some cur0 \<Rightarrow>
             let cur1 = (case bs_clusterConfig (bc_spec mem) of
                           None \<Rightarrow> cur0 | Some cfg \<Rightarrow> cur0\<lparr>bc_spec := (bc_spec cur0)\<lparr>bs_clusterConfig := Some cfg\<rparr>\<rparr>);
                 cur2 = (case ApplyUpgradeHopToClusterStatus (Some cur1) hop of None \<Rightarrow> cur1 | Some c \<Rightarrow> c);
                 status = (case progress of None \<Rightarrow> bc_status cur2
                           | Some p \<Rightarrow> (bc_status cur2)\<lparr>st_declarativeUpgrade := Some p\<rparr>)
             in if fails PatchBCStatus then (ks, Some (ErrApi PatchBCStatus))
                else (put_bc (cur0\<lparr>bc_status := status\<rparr>) ks, None))"

(* src: controllers/capbke/bkecluster_upgrade_dag.go 440-477 completeDeclarativeUpgrade *)
definition completeDeclarativeUpgrade :: "faults \<Rightarrow> gotime \<Rightarrow> kube_store \<Rightarrow> bke_cluster \<Rightarrow> kube_store \<times> cv_error option" where
  "completeDeclarativeUpgrade fails now ks mem =
     (case declarativeUpgradeTargetVersion mem of
        Inl e \<Rightarrow> (ks, Some e)
      | Inr hopTarget \<Rightarrow>
          (case persistDeclarativeUpgradeFinished fails now ks mem hopTarget of
             (ks1, Some e) \<Rightarrow> (ks1, Some e)
           | (ks1, None) \<Rightarrow>
               if fails PatchBC then (ks1, Some (ErrApi PatchBC))
               else (case find_bc ks1 (bc_namespace mem) (bc_name mem) of
                       None \<Rightarrow> (ks1, Some ErrNotFound)
                     | Some stored \<Rightarrow>
                         let ks2 = put_bc (drop_upgrade_annotations stored) ks1
                         in (case GetClusterVersionForBKECluster fails ks2 mem of
                               Inl e \<Rightarrow> (ks2, if e = ErrNotFound then None else Some e)
                             | Inr cv \<Rightarrow> CompleteUpgradeHop fails now ks2 cv hopTarget))))"

text \<open>One round of both controllers around an upgrade: the version reconciler, and, when it made a hop
  ready, the execution of the hop's components \<open>run\<close>, which may change the cluster object, and the
  completion of the hop.\<close>

definition no_faults :: faults where
  "no_faults c = False"

definition hop_round :: "'v semver \<Rightarrow> release_source \<Rightarrow> (bke_cluster \<Rightarrow> bke_cluster) \<Rightarrow> gotime \<Rightarrow> string \<Rightarrow> string \<Rightarrow> kube_store \<times> service \<Rightarrow> kube_store \<times> service" where
  "hop_round lib src run now ns name st =
     (let (st1, res) = Reconcile lib src no_faults now st ns name
      in case find_bc (fst st1) ns name of
           None \<Rightarrow> st1
         | Some bc \<Rightarrow>
             if shouldUseDeclarativeUpgrade bc
             then (fst (completeDeclarativeUpgrade no_faults now (put_bc (run bc) (fst st1)) (run bc)), snd st1)
             else st1)"

section \<open>The store\<close>

lemma find_replace:
  "find P xs = Some a \<Longrightarrow> K a \<Longrightarrow> P b \<Longrightarrow> find P (map (\<lambda>x. if K x then b else x) xs) = Some b"
  by (induction xs) (auto split: if_splits)

lemma find_replace_None:
  "find P xs = None \<Longrightarrow> \<not> P b \<Longrightarrow> find P (map (\<lambda>x. if K x then b else x) xs) = None"
  by (auto simp: find_None_iff)

lemma find_Some_P: "find P xs = Some x \<Longrightarrow> P x"
  by (auto simp: find_Some_iff)

lemma find_cv_key: "find_cv ks ns name = Some cv \<Longrightarrow> clv_namespace cv = ns \<and> clv_name cv = name"
  unfolding find_cv_def by (drule find_Some_P) simp

lemma find_bc_key: "find_bc ks ns name = Some bc \<Longrightarrow> bc_namespace bc = ns \<and> bc_name bc = name"
  unfolding find_bc_def by (drule find_Some_P) simp

lemma find_cv_put:
  "find_cv ks ns name = Some cv \<Longrightarrow> clv_namespace cv' = ns \<Longrightarrow> clv_name cv' = name \<Longrightarrow> find_cv (put_cv cv' ks) ns name = Some cv'"
  using find_cv_key [of ks ns name cv] unfolding find_cv_def put_cv_def by (auto intro: find_replace)

lemma find_bc_put:
  "find_bc ks ns name = Some bc \<Longrightarrow> bc_namespace bc' = ns \<Longrightarrow> bc_name bc' = name \<Longrightarrow> find_bc (put_bc bc' ks) ns name = Some bc'"
  using find_bc_key [of ks ns name bc] unfolding find_bc_def put_bc_def by (auto intro: find_replace)

lemma put_frame [simp]:
  "find_bc (put_cv cv ks) = find_bc ks" "find_cv (put_bc bc ks) = find_cv ks"
  "ks_ris (put_cv cv ks) = ks_ris ks" "ks_ris (put_bc bc ks) = ks_ris ks"
  "ks_ups (put_cv cv ks) = ks_ups ks" "ks_ups (put_bc bc ks) = ks_ups ks"
  "ks_cvs (put_bc bc ks) = ks_cvs ks" "ks_bcs (put_cv cv ks) = ks_bcs ks"
  by (simp_all add: find_bc_def find_cv_def put_cv_def put_bc_def fun_eq_iff)

text \<open>The lookup of a cluster's version object depends on the names and owners only.\<close>

definition same_identity :: "cluster_version \<Rightarrow> cluster_version \<Rightarrow> bool" where
  "same_identity a b \<longleftrightarrow> clv_namespace a = clv_namespace b \<and> clv_name a = clv_name b \<and> clv_owners a = clv_owners b"

lemma GetClusterVersion_put_bc [simp]: "GetClusterVersionForBKECluster fails (put_bc b ks) bc = GetClusterVersionForBKECluster fails ks bc"
  by (simp add: GetClusterVersionForBKECluster_def split: option.split)

lemma GetClusterVersion_put:
  assumes "GetClusterVersionForBKECluster no_faults ks bc = Inr cv" "same_identity cv' cv"
  shows "GetClusterVersionForBKECluster no_faults (put_cv cv' ks) bc = Inr cv'"
proof -
  let ?own = "\<lambda>v. clusterVersionOwnsBKECluster v bc \<and> clv_namespace v = bc_namespace bc"
  let ?K = "\<lambda>v. clv_namespace v = clv_namespace cv' \<and> clv_name v = clv_name cv'"
  have ff: "find (\<lambda>v. clusterVersionOwnsBKECluster v bc) (filter (\<lambda>v. clv_namespace v = bc_namespace bc) vs) = find ?own vs" for vs
    by (induction vs) auto
  have own: "?own cv' \<longleftrightarrow> ?own cv" using assms(2) by (simp add: same_identity_def clusterVersionOwnsBKECluster_def)
  show ?thesis
  proof (cases "find ?own (ks_cvs ks)")
    case (Some v)
    with assms(1) have v: "v = cv" by (simp add: GetClusterVersionForBKECluster_def ff no_faults_def)
    with find_Some_P [OF Some] own have "?own cv'" by simp
    moreover have "?K cv" using assms(2) by (simp add: same_identity_def)
    ultimately have "find ?own (map (\<lambda>x. if ?K x then cv' else x) (ks_cvs ks)) = Some cv'"
      using Some v by (intro find_replace) auto
    then show ?thesis by (simp add: GetClusterVersionForBKECluster_def ff no_faults_def put_cv_def)
  next
    case None
    with assms(1) have f: "find_cv ks (bc_namespace bc) (bc_name bc) = Some cv"
      by (simp add: GetClusterVersionForBKECluster_def ff no_faults_def split: option.splits)
    then have "cv \<in> set (ks_cvs ks)" by (auto simp: find_cv_def find_Some_iff)
    with None own have "\<not> ?own cv'" by (auto simp: find_None_iff)
    with None have "find ?own (map (\<lambda>x. if ?K x then cv' else x) (ks_cvs ks)) = None" by (intro find_replace_None)
    moreover have "find_cv (put_cv cv' ks) (bc_namespace bc) (bc_name bc) = Some cv'"
      using find_cv_put [OF f] find_cv_key [OF f] assms(2) by (simp add: same_identity_def)
    ultimately show ?thesis by (simp add: GetClusterVersionForBKECluster_def ff no_faults_def put_cv_def find_cv_def)
  qed
qed

section \<open>A round\<close>

text \<open>The situation of a cluster on its way to a version: what both controllers find in the store.\<close>

definition clean_version :: "string \<Rightarrow> bool" where
  "clean_version v \<longleftrightarrow> v \<noteq> [] \<and> TrimSpace v = v"

definition selected_rules :: "kube_store \<Rightarrow> path_rule list" where
  "selected_rules ks = (case ks_ups ks of [] \<Rightarrow> []
     | u # us \<Rightarrow> up_paths (case find (\<lambda>x. up_phase x = ''Active'') (u # us) of Some x \<Rightarrow> x | None \<Rightarrow> u))"

definition catalog_ready :: "kube_store \<Rightarrow> string \<Rightarrow> bool" where
  "catalog_ready ks ns \<longleftrightarrow> ks_ups ks \<noteq> [] \<and> rules_ok (selected_rules ks) \<and>
     (\<forall>r\<in>set (open_rules (selected_rules ks)). clean_version (r_to r) \<and>
        (\<exists>ri. find (\<lambda>x. rc_version x = r_to r) (filter (\<lambda>x. rc_namespace x = ns) (ks_ris ks)) = Some ri \<and> rc_phase ri = ''Valid''))"

definition version_state :: "kube_store \<Rightarrow> string \<Rightarrow> string \<Rightarrow> string \<Rightarrow> string \<Rightarrow> cluster_version \<Rightarrow> bke_cluster \<Rightarrow> bool" where
  "version_state ks ns name current desired cv bc \<longleftrightarrow>
     find_cv ks ns name = Some cv \<and> find_bc ks ns name = Some bc \<and>
     GetClusterVersionForBKECluster no_faults ks bc = Inr cv \<and>
     clv_desiredVersion cv = desired \<and> clv_currentVersion cv = current \<and> clv_phase cv \<noteq> CvFailed \<and>
     clean_version current \<and> clean_version desired \<and> HasAnnotation bc CVOUpgradeReadyAnnotationKey = None"

text \<open>The execution of a hop may change the object, but not who it is and which hop it runs.\<close>

definition keeps_identity :: "(bke_cluster \<Rightarrow> bke_cluster) \<Rightarrow> bool" where
  "keeps_identity run \<longleftrightarrow> (\<forall>b. bc_namespace (run b) = bc_namespace b \<and> bc_name (run b) = bc_name b \<and>
     bc_uid (run b) = bc_uid b \<and> bc_annotations (run b) = bc_annotations b)"

lemma resolve_ready:
  assumes "catalog_ready ks ns"
  shows "\<exists>svc'. resolveUpgradePath lib no_faults ks svc = (svc', None) \<and> holds svc' (selected_rules ks)"
proof -
  obtain u us where u: "ks_ups ks = u # us" using assms by (auto simp: catalog_ready_def neq_Nil_conv)
  define sel where "sel = (case find (\<lambda>x. up_phase x = ''Active'') (u # us) of Some x \<Rightarrow> x | None \<Rightarrow> u)"
  have ps: "selected_rules ks = up_paths sel" by (simp add: selected_rules_def u sel_def)
  obtain s' err where "Load lib (up_paths sel) (up_versions sel) (up_lastDigest sel) svc = Some (s', err)"
      "err = None" "holds s' (up_paths sel)"
    using Load_result [of lib "up_paths sel" "up_versions sel" "up_lastDigest sel" svc] assms ps by (auto simp: catalog_ready_def)
  then show ?thesis unfolding resolveUpgradePath_def u list.case Let_def sel_def [symmetric] ps
    by (simp add: no_faults_def)
qed

definition marked_ready :: "bke_cluster \<Rightarrow> string \<Rightarrow> path_rule list \<Rightarrow> bke_cluster" where
  "marked_ready bc name path = SetAnnotation (SetAnnotation (SetAnnotation bc CVOUpgradeReadyAnnotationKey (r_to (hd path)))
     CVOClusterVersionAnnotationKey name) CVOUpgradePathAnnotationKey (formatPath path)"

text \<open>The reconciler marks the first hop of a shortest path.\<close>

lemma Reconcile_marks:
  assumes "version_state ks ns name current desired cv bc" "catalog_ready ks ns" "current \<noteq> desired"
    and "leads current q desired" "set q \<subseteq> set (open_rules (selected_rules ks))"
  shows "\<exists>svc' path. Reconcile lib src no_faults now (ks, svc) ns name =
       ((put_bc (marked_ready bc name path) (put_cv (cv\<lparr>clv_phase := CvPreChecking\<rparr>) ks), svc'), RDone) \<and>
     path_correct (open_rules (selected_rules ks)) current desired path \<and> path \<noteq> []"
proof -
  note vs = assms(1) [unfolded version_state_def clean_version_def]
  obtain svc' where svc: "resolveUpgradePath lib no_faults ks svc = (svc', None)" "holds svc' (selected_rules ks)"
    using resolve_ready [OF assms(2)] by blast
  obtain path where p: "FindPath svc' current desired = Inr path" "path_correct (open_rules (selected_rules ks)) current desired path"
    using FindPath_found [OF svc(2) assms(3-5)] by blast
  obtain e rest where path: "path = e # rest" using p(2) assms(3) by (cases path) (auto simp: path_correct_def)
  have e: "e \<in> set (open_rules (selected_rules ks))" using p(2) path by (simp add: path_correct_def)
  obtain ri where ri: "find (\<lambda>x. rc_version x = r_to e) (filter (\<lambda>x. rc_namespace x = ns) (ks_ris ks)) = Some ri" "rc_phase ri = ''Valid''"
    and clean: "r_to e \<noteq> []" "TrimSpace (r_to e) = r_to e"
    using assms(2) e by (auto simp: catalog_ready_def clean_version_def)
  have key: "clv_namespace cv = ns" "clv_name cv = name" using find_cv_key vs by blast+
  have en: "Ensure src no_faults ks cv (r_to e) = (ks, Inr False)"
    using ri clean key by (simp add: Ensure_def findReleaseImageByVersion_def no_faults_def phase_outcome_def Let_def)
  have hop: "reconcileHop src no_faults now ks cv bc path =
      (put_bc (marked_ready bc name path) (put_cv (cv\<lparr>clv_phase := CvPreChecking\<rparr>) ks), RDone)"
    using vs key by (simp add: reconcileHop_def path en setStatus_def markUpgradeReady_def no_faults_def Let_def marked_ready_def)
  have "Reconcile lib src no_faults now (ks, svc) ns name =
       ((put_bc (marked_ready bc name path) (put_cv (cv\<lparr>clv_phase := CvPreChecking\<rparr>) ks), svc'), RDone)"
    using vs key assms(3) svc p(1) hop
    by (simp add: Reconcile_def isInstallPhase_def reconcileUpgrade_def no_faults_def Let_def)
  with p(2) path show ?thesis by blast
qed

lemma GetClusterVersion_bc:
  "bc_namespace b = bc_namespace b' \<Longrightarrow> bc_name b = bc_name b' \<Longrightarrow> bc_uid b = bc_uid b' \<Longrightarrow>
     GetClusterVersionForBKECluster fails ks b = GetClusterVersionForBKECluster fails ks b'"
  by (simp add: GetClusterVersionForBKECluster_def clusterVersionOwnsBKECluster_def cong: option.case_cong)

lemma drop_annotations [simp]:
  "HasAnnotation (drop_upgrade_annotations bc) CVOUpgradeReadyAnnotationKey = None"
  "bc_namespace (drop_upgrade_annotations bc) = bc_namespace bc" "bc_name (drop_upgrade_annotations bc) = bc_name bc"
  "bc_uid (drop_upgrade_annotations bc) = bc_uid bc"
  by (simp_all add: drop_upgrade_annotations_def) (simp_all add: RemoveAnnotation_def)

lemma annotation_keys [simp]:
  "CVOUpgradeReadyAnnotationKey \<noteq> CVOClusterVersionAnnotationKey" "CVOUpgradeReadyAnnotationKey \<noteq> CVOUpgradePathAnnotationKey"
  by (simp_all add: CVOUpgradeReadyAnnotationKey_def CVOClusterVersionAnnotationKey_def CVOUpgradePathAnnotationKey_def)

lemma marked_ready_simps [simp]:
  "HasAnnotation (marked_ready bc name path) CVOUpgradeReadyAnnotationKey = Some (r_to (hd path))"
  "bc_namespace (marked_ready bc name path) = bc_namespace bc" "bc_name (marked_ready bc name path) = bc_name bc"
  "bc_uid (marked_ready bc name path) = bc_uid bc"
  by (simp_all add: marked_ready_def) (simp_all add: SetAnnotation_def)

text \<open>Completing a hop moves the current version to the hop and nothing else about the version object's
  identity and goal.\<close>

lemma complete_moves:
  assumes "find_bc ks ns name = Some mem" "find_cv ks ns name = Some cv" "GetClusterVersionForBKECluster no_faults ks mem = Inr cv"
    and "HasAnnotation mem CVOUpgradeReadyAnnotationKey = Some hop" "clean_version hop"
  shows "\<exists>bc'. completeDeclarativeUpgrade no_faults now ks mem = (put_cv (hop_status now cv hop) (put_bc bc' ks), None) \<and>
     find_bc (put_cv (hop_status now cv hop) (put_bc bc' ks)) ns name = Some bc' \<and>
     HasAnnotation bc' CVOUpgradeReadyAnnotationKey = None \<and> bc_uid bc' = bc_uid mem"
proof -
  have key: "bc_namespace mem = ns" "bc_name mem = name" using find_bc_key [OF assms(1)] by auto
  have target: "declarativeUpgradeTargetVersion mem = Inr hop"
    using assms(4,5) by (simp add: declarativeUpgradeTargetVersion_def UpgradeReady_def clean_version_def)
  obtain status where ps: "persistDeclarativeUpgradeFinished no_faults now ks mem hop = (put_bc (mem\<lparr>bc_status := status\<rparr>) ks, None)"
    using assms(1) key by (simp add: persistDeclarativeUpgradeFinished_def no_faults_def Let_def)
  let ?ks1 = "put_bc (mem\<lparr>bc_status := status\<rparr>) ks" and ?bc' = "drop_upgrade_annotations (mem\<lparr>bc_status := status\<rparr>)"
  have f1: "find_bc ?ks1 ns name = Some (mem\<lparr>bc_status := status\<rparr>)" using find_bc_put [OF assms(1)] key by simp
  have pp: "put_bc ?bc' ?ks1 = put_bc ?bc' ks" by (simp add: put_bc_def key)
  have get: "GetClusterVersionForBKECluster no_faults (put_bc ?bc' ks) mem = Inr cv" using assms(3) by simp
  have "completeDeclarativeUpgrade no_faults now ks mem = CompleteUpgradeHop no_faults now (put_bc ?bc' ks) cv hop"
    using target ps key f1 get by (simp add: completeDeclarativeUpgrade_def no_faults_def [abs_def] Let_def pp)
  also have "\<dots> = (put_cv (hop_status now cv hop) (put_bc ?bc' ks), None)"
    using assms(5) by (simp add: CompleteUpgradeHop_def no_faults_def clean_version_def)
  finally show ?thesis
    using find_bc_put [OF assms(1), of ?bc'] key by (intro exI [of _ ?bc']) simp
qed

lemma hop_status_simps [simp]:
  "clv_namespace (hop_status now cv hop) = clv_namespace cv" "clv_name (hop_status now cv hop) = clv_name cv"
  "clv_owners (hop_status now cv hop) = clv_owners cv" "clv_desiredVersion (hop_status now cv hop) = clv_desiredVersion cv"
  "clv_currentVersion (hop_status now cv hop) = hop"
  "clv_phase (hop_status now cv hop) = (if hop = clv_desiredVersion cv then CvReady else CvUpgrading)"
  by (simp_all add: hop_status_def Let_def)

definition history :: "cluster_version \<Rightarrow> (string \<times> string \<times> record_status) list" where
  "history cv = map (\<lambda>r. (ur_from r, ur_to r, ur_status r)) (clv_upgradeHistory cv)"

definition hops :: "path_rule list \<Rightarrow> (string \<times> string \<times> record_status) list" where
  "hops p = map (\<lambda>e. (r_from e, r_to e, Succeeded)) p"

lemma hop_round_step:
  assumes vs: "version_state ks ns name current desired cv bc" and cat: "catalog_ready ks ns" and "current \<noteq> desired"
    and "leads current q desired" "set q \<subseteq> set (open_rules (selected_rules ks))" and run: "keeps_identity run"
  shows "\<exists>ks' svc' cv' bc' e rest. hop_round lib src run now ns name (ks, svc) = (ks', svc') \<and>
     path_correct (open_rules (selected_rules ks)) current desired (e # rest) \<and>
     version_state ks' ns name (r_to e) desired cv' bc' \<and> ks_ups ks' = ks_ups ks \<and> ks_ris ks' = ks_ris ks \<and>
     history cv' = history cv @ hops [e] \<and> (r_to e = desired \<longrightarrow> clv_phase cv' = CvReady)"
proof -
  note v = vs [unfolded version_state_def]
  let ?cv1 = "cv\<lparr>clv_phase := CvPreChecking\<rparr>"
  obtain svc' e rest where r: "Reconcile lib src no_faults now (ks, svc) ns name =
       ((put_bc (marked_ready bc name (e # rest)) (put_cv ?cv1 ks), svc'), RDone)"
    and p: "path_correct (open_rules (selected_rules ks)) current desired (e # rest)"
    using Reconcile_marks [OF vs cat assms(3-5)] by (metis neq_Nil_conv)
  let ?bc1 = "marked_ready bc name (e # rest)" and ?mem = "run (marked_ready bc name (e # rest))"
  let ?ks1 = "put_bc ?bc1 (put_cv ?cv1 ks)"
  have e: "e \<in> set (open_rules (selected_rules ks))" "r_from e = current" using path_correct_tail [OF p] by auto
  then have hop: "clean_version (r_to e)" "r_to e \<noteq> current"
    using cat by (auto simp: catalog_ready_def rules_ok_def rule_ok_def open_rules_def)
  have bkey: "bc_namespace bc = ns" "bc_name bc = name" using find_bc_key v by blast+
  have ckey: "clv_namespace cv = ns" "clv_name cv = name" using find_cv_key v by blast+
  have id: "bc_namespace ?mem = ns" "bc_name ?mem = name" "bc_uid ?mem = bc_uid bc" "bc_annotations ?mem = bc_annotations ?bc1"
    using run bkey by (simp_all add: keeps_identity_def)
  have f1: "find_bc ?ks1 ns name = Some ?bc1" using v bkey by (intro find_bc_put [of _ _ _ bc]) simp_all
  have f2: "find_bc (put_bc ?mem ?ks1) ns name = Some ?mem" using find_bc_put [OF f1] id by simp
  have c1: "find_cv (put_bc ?mem ?ks1) ns name = Some ?cv1" using v ckey by (simp add: find_cv_put)
  have g0: "GetClusterVersionForBKECluster no_faults (put_cv ?cv1 ks) bc = Inr ?cv1"
    using v by (intro GetClusterVersion_put [of _ _ cv]) (simp_all add: same_identity_def)
  have ident: "GetClusterVersionForBKECluster no_faults k b = GetClusterVersionForBKECluster no_faults k bc"
    if "bc_namespace b = ns" "bc_name b = name" "bc_uid b = bc_uid bc" for k b
    using that bkey by (intro GetClusterVersion_bc) simp_all
  have g1: "GetClusterVersionForBKECluster no_faults (put_bc ?mem ?ks1) ?mem = Inr ?cv1" using g0 ident [OF id(1-3)] by simp
  have ann: "HasAnnotation ?mem CVOUpgradeReadyAnnotationKey = Some (r_to e)"
    using id(4) marked_ready_simps(1) [of bc name "e # rest"] by (simp add: HasAnnotation_def)
  obtain bc' where d: "completeDeclarativeUpgrade no_faults now (put_bc ?mem ?ks1) ?mem =
        (put_cv (hop_status now ?cv1 (r_to e)) (put_bc bc' (put_bc ?mem ?ks1)), None)"
      "find_bc (put_cv (hop_status now ?cv1 (r_to e)) (put_bc bc' (put_bc ?mem ?ks1))) ns name = Some bc'"
      "HasAnnotation bc' CVOUpgradeReadyAnnotationKey = None" "bc_uid bc' = bc_uid ?mem"
    using complete_moves [OF f2 c1 g1 ann hop(1)] by blast
  let ?ks' = "put_cv (hop_status now ?cv1 (r_to e)) (put_bc bc' (put_bc ?mem ?ks1))"
  have "shouldUseDeclarativeUpgrade ?bc1"
    using hop(1) by (simp add: shouldUseDeclarativeUpgrade_def UpgradeReady_def clean_version_def)
  then have round: "hop_round lib src run now ns name (ks, svc) = (?ks', svc')"
    using r f1 d(1) by (simp add: hop_round_def)
  have g2: "GetClusterVersionForBKECluster no_faults ?ks' bc' = Inr (hop_status now ?cv1 (r_to e))"
  proof -
    have "GetClusterVersionForBKECluster no_faults (put_bc bc' (put_bc ?mem ?ks1)) bc' = Inr ?cv1"
      using g0 ident [of bc'] find_bc_key [OF d(2)] d(4) id(3) by simp
    then show ?thesis by (rule GetClusterVersion_put) (simp add: same_identity_def)
  qed
  have "find_cv ?ks' ns name = Some (hop_status now ?cv1 (r_to e))"
    using c1 ckey by (intro find_cv_put [of _ _ _ ?cv1]) simp_all
  with d(2,3) g2 v hop have state: "version_state ?ks' ns name (r_to e) desired (hop_status now ?cv1 (r_to e)) bc'"
    by (simp add: version_state_def)
  have "history (hop_status now ?cv1 (r_to e)) = history cv @ hops [e]"
    using v hop(2) e(2) by (simp add: history_def hops_def hop_status_def clean_version_def Let_def)
  moreover have "r_to e = desired \<longrightarrow> clv_phase (hop_status now ?cv1 (r_to e)) = CvReady" using v by simp
  moreover have "ks_ups ?ks' = ks_ups ks" "ks_ris ?ks' = ks_ris ks" by simp_all
  ultimately show ?thesis using round p state by blast
qed

lemma catalog_ready_cong:
  "ks_ups ks' = ks_ups ks \<Longrightarrow> ks_ris ks' = ks_ris ks \<Longrightarrow> selected_rules ks' = selected_rules ks \<and> catalog_ready ks' ns = catalog_ready ks ns"
  by (simp add: catalog_ready_def selected_rules_def)

lemma upgrade_rounds:
  assumes "keeps_identity run"
  shows "path_correct (open_rules (selected_rules ks)) current desired p \<Longrightarrow> catalog_ready ks ns \<Longrightarrow>
     version_state ks ns name current desired cv bc \<Longrightarrow>
     \<exists>p' ks' svc' cv' bc'. path_correct (open_rules (selected_rules ks)) current desired p' \<and>
       (hop_round lib src run now ns name ^^ length p') (ks, svc) = (ks', svc') \<and>
       version_state ks' ns name desired desired cv' bc' \<and> history cv' = history cv @ hops p' \<and>
       (p' = [] \<or> clv_phase cv' = CvReady)"
proof (induction "length p" arbitrary: p ks svc current cv bc)
  case 0
  then have "current = desired" by (simp add: path_correct_def)
  with 0 show ?case by (intro exI [of _ "[]"]) (auto simp: hops_def)
next
  case (Suc n)
  let ?R = "open_rules (selected_rules ks)"
  have ne: "current \<noteq> desired"
    using Suc.prems(1) Suc.hyps(2) by (auto simp: path_correct_def dest!: spec [of _ "[]"])
  have q: "leads current p desired" "set p \<subseteq> set ?R" using Suc.prems(1) by (auto simp: path_correct_def)
  obtain ks1 svc1 cv1 bc1 e rest where s: "hop_round lib src run now ns name (ks, svc) = (ks1, svc1)"
    and p1: "path_correct ?R current desired (e # rest)" and v1: "version_state ks1 ns name (r_to e) desired cv1 bc1"
    and same: "ks_ups ks1 = ks_ups ks" "ks_ris ks1 = ks_ris ks"
    and h1: "history cv1 = history cv @ hops [e]" and ph: "r_to e = desired \<longrightarrow> clv_phase cv1 = CvReady"
    using hop_round_step [OF Suc.prems(3,2) ne q assms, of lib src now svc] by blast
  have R1: "selected_rules ks1 = selected_rules ks" "catalog_ready ks1 ns" using catalog_ready_cong [OF same] Suc.prems(2) by auto
  have n: "n = length rest" using path_correct_length [OF p1 Suc.prems(1)] Suc.hyps(2) by simp
  have "path_correct (open_rules (selected_rules ks1)) (r_to e) desired rest" using path_correct_tail(1) [OF p1] R1 by simp
  from Suc.hyps(1) [OF n this R1(2) v1, of svc1] R1(1) obtain p' ks' svc' cv' bc' where
    IH: "path_correct ?R (r_to e) desired p'" "(hop_round lib src run now ns name ^^ length p') (ks1, svc1) = (ks', svc')"
      "version_state ks' ns name desired desired cv' bc'" "history cv' = history cv1 @ hops p'" "p' = [] \<or> clv_phase cv' = CvReady"
    by auto
  have len: "length p' = length rest" using path_correct_length [OF IH(1)] path_correct_tail(1) [OF p1] by simp
  have full: "path_correct ?R current desired (e # p')"
    using p1 IH(1) len by (auto simp: path_correct_def)
  have it: "(hop_round lib src run now ns name ^^ length (e # p')) (ks, svc) = (ks', svc')"
    using s IH(2) by (simp add: funpow_swap1)
  have "clv_phase cv' = CvReady"
  proof (cases "p' = []")
    case True
    then have "r_to e = desired" "cv' = cv1" using IH(1,2,3) v1 by (auto simp: path_correct_def version_state_def)
    with ph show ?thesis by simp
  qed (use IH(5) in simp)
  with full it IH(3) h1 IH(4) show ?case by (intro exI [of _ "e # p'"]) (auto simp: hops_def)
qed

section \<open>What a reconcile does to the cluster object\<close>

lemma setStatus_bc: "setStatus fails ks cv ph cs = (ks', cv', e) \<Longrightarrow> find_bc ks' = find_bc ks \<and> clv_name cv' = clv_name cv"
  by (auto simp: setStatus_def Let_def split: if_splits option.splits)

lemma precheck_failed_bc: "precheck_failed fails now ks cv reason msg res = (ks', r) \<Longrightarrow> find_bc ks' = find_bc ks"
  by (auto simp: precheck_failed_def split: prod.splits option.splits dest: setStatus_bc)

lemma Ensure_bc: "Ensure src fails ks cv v = (ks', r) \<Longrightarrow> find_bc ks' = find_bc ks"
  by (auto simp: Ensure_def createReleaseImageFromOCI_def Let_def find_bc_def fun_eq_iff
      split: sum.splits option.splits if_splits)

lemma reconcileInstall_bc: "reconcileInstall src fails now ks cv d = (ks', r) \<Longrightarrow> find_bc ks' = find_bc ks"
  by (auto simp: reconcileInstall_def split: prod.splits option.splits sum.splits bool.splits
      dest!: setStatus_bc Ensure_bc)

text \<open>The hop branch either leaves the cluster objects alone or marks the first hop.\<close>

lemma reconcileHop_bc:
  assumes "reconcileHop src fails now ks cv bc path = (ks', r)"
  shows "find_bc ks' = find_bc ks \<or>
     path \<noteq> [] \<and> (\<exists>ks1. find_bc ks1 = find_bc ks \<and> ks' = put_bc (marked_ready bc (clv_name cv) path) ks1)"
proof (cases path)
  case (Cons e rest)
  obtain ks1 en where en: "Ensure src fails ks cv (r_to e) = (ks1, en)" by force
  note b = Ensure_bc [OF en]
  show ?thesis
  proof (cases "en = Inr False \<and> HasAnnotation bc CVOUpgradeReadyAnnotationKey \<noteq> Some (r_to e)")
    case True
    obtain ks2 cv2 er where s: "setStatus fails ks1 cv CvPreChecking None = (ks2, cv2, er)" by (metis prod_cases3)
    from assms True Cons en s setStatus_bc [OF s] b show ?thesis
      by (auto simp: reconcileHop_def markUpgradeReady_def marked_ready_def Let_def split: option.splits if_splits)
  next
    case False
    from assms False Cons en b show ?thesis
      by (auto simp: reconcileHop_def Let_def split: sum.splits bool.splits if_splits dest: precheck_failed_bc)
  qed
qed (use assms in \<open>simp add: reconcileHop_def\<close>)

lemma resolve_holds:
  assumes "resolveUpgradePath lib fails ks svc = (svc', None)"
  shows "holds svc' (selected_rules ks)"
proof -
  obtain u us where u: "ks_ups ks = u # us" using assms by (auto simp: resolveUpgradePath_def split: list.splits if_splits)
  define sel where "sel = (case find (\<lambda>x. up_phase x = ''Active'') (u # us) of Some x \<Rightarrow> x | None \<Rightarrow> u)"
  have ps: "selected_rules ks = up_paths sel" by (simp add: selected_rules_def u sel_def)
  obtain s' err where l: "Load lib (up_paths sel) (up_versions sel) (up_lastDigest sel) svc = Some (s', err)"
      "err = None \<Longrightarrow> holds s' (up_paths sel)"
    using Load_result [of lib "up_paths sel" "up_versions sel" "up_lastDigest sel" svc] by (auto split: if_splits)
  then show ?thesis using assms unfolding resolveUpgradePath_def u list.case Let_def sel_def [symmetric] ps
    by (auto split: if_splits)
qed

lemma reconcileUpgrade_bc:
  assumes "reconcileUpgrade lib src fails now (ks, svc) cv bc desired = ((ks', svc'), r)"
    and bc: "find_bc ks ns name = Some bc" and "clv_name cv = name"
  shows "find_bc ks' ns name = Some bc \<or> find_bc ks' ns name = Some (drop_upgrade_annotations bc) \<or>
     (\<exists>path. find_bc ks' ns name = Some (marked_ready bc name path) \<and> path \<noteq> [] \<and>
        path_correct (open_rules (selected_rules ks)) (firstNonEmpty [clv_currentVersion cv, OpenFuyaoVersionForBKECluster bc]) desired path)"
proof -
  let ?c = "firstNonEmpty [clv_currentVersion cv, OpenFuyaoVersionForBKECluster bc]"
  have key: "bc_namespace bc = ns" "bc_name bc = name" using find_bc_key [OF bc] by auto
  consider (early) "?c = [] \<or> clv_phase cv = CvFailed \<and> ?c \<noteq> desired" | (clear) "?c \<noteq> []" "?c = desired"
    | (go) "?c \<noteq> []" "?c \<noteq> desired" "clv_phase cv \<noteq> CvFailed" by blast
  then show ?thesis
  proof cases
    case early
    with assms show ?thesis by (auto simp: reconcileUpgrade_def Let_def)
  next
    case clear
    from assms clear find_bc_put [OF bc, of "drop_upgrade_annotations bc"] key show ?thesis
      by (auto simp: reconcileUpgrade_def clearUpgradeReady_def Let_def split: if_splits)
  next
    case go
    obtain svc1 e where r: "resolveUpgradePath lib fails ks svc = (svc1, e)" by force
    show ?thesis
    proof (cases "e = None \<and> (\<exists>path. FindPath svc1 ?c desired = Inr path)")
      case True
      then obtain path where e: "e = None" and f: "FindPath svc1 ?c desired = Inr path" by blast
      have p: "path_correct (open_rules (selected_rules ks)) ?c desired path"
        by (rule FindPath_path [OF resolve_holds [OF r [unfolded e]] go(2) f])
      have "reconcileHop src fails now ks cv bc path = (ks', r)"
        using assms(1) go r e f by (simp add: reconcileUpgrade_def Let_def split: prod.splits)
      from reconcileHop_bc [OF this] show ?thesis
        using p bc key assms(3) find_bc_put [of _ ns name bc "marked_ready bc name path"] by auto
    next
      case False
      with assms(1) go r bc show ?thesis
        by (auto simp: reconcileUpgrade_def Let_def split: prod.splits option.splits sum.splits dest: precheck_failed_bc)
    qed
  qed
qed

lemma current_of_clean: "TrimSpace (clv_currentVersion cv) \<noteq> [] \<Longrightarrow>
    firstNonEmpty [clv_currentVersion cv, v] = TrimSpace (clv_currentVersion cv)"
  by simp

section \<open>Properties\<close>

text \<open>A store for the witnesses: a cluster at \<^verbatim>\<open>v1\<close> that should get to \<^verbatim>\<open>v3\<close>, with the sample rules.\<close>

definition sample_release :: "string \<Rightarrow> release_cr" where
  "sample_release v = \<lparr>rc_image = \<lparr>ri_name = ''release-'' @ v, ri_spec = \<lparr>rs_version = v, rs_digest = [], rs_verifySignature = False,
       rs_signatureKey = [], rs_allowCacheFallback = False, rs_install = None, rs_upgrade = None\<rparr>\<rparr>,
     rc_namespace = ''n'', rc_annotations = [], rc_phase = ''Valid'', rc_message = []\<rparr>"

definition sample_cv :: cluster_version where
  "sample_cv = \<lparr>clv_name = ''c'', clv_namespace = ''n'', clv_owners = [], clv_desiredVersion = ''v3'', clv_currentVersion = ''v1'',
     clv_phase = CvReady, clv_upgradeHistory = [], clv_conditions = []\<rparr>"

definition sample_bc :: bke_cluster where
  "sample_bc = (blank_cluster ''n'' ''c'')\<lparr>bc_uid := ''u1''\<rparr>"

definition sample_store :: kube_store where
  "sample_store = \<lparr>ks_cvs = [sample_cv], ks_bcs = [sample_bc], ks_ris = [sample_release ''v2'', sample_release ''v3''],
     ks_ups = [\<lparr>up_paths = sample_rules, up_versions = [], up_phase = ''Active'', up_lastDigest = ''d''\<rparr>]\<rparr>"

lemma sample_rules_ok: "rules_ok sample_rules"
proof -
  have "DetectCycle sample_rules = Some None" "ValidateRules sample_rules = None" by code_simp+
  with DetectCycle_spec [of sample_rules] ValidateRules_None [of sample_rules] show ?thesis
    by (auto simp: rules_ok_def)
qed

lemma sample_state: "version_state sample_store ''n'' ''c'' ''v1'' ''v3'' sample_cv sample_bc"
  by code_simp

lemma sample_selected: "selected_rules sample_store = sample_rules"
  by (simp add: selected_rules_def sample_store_def)

lemma sample_catalog: "catalog_ready sample_store ''n''"
  unfolding catalog_ready_def sample_selected
  using sample_rules_ok
  by (simp add: sample_store_def open_rules_def sample_rules_def sample_rule_def sample_release_def
      clean_version_def TrimSpace_def TrimFunc_def is_space_def)

lemma sample_path: "leads ''v1'' [sample_rule ''v1'' ''v2'' False, sample_rule ''v2'' ''v3'' False] ''v3''"
  "set [sample_rule ''v1'' ''v2'' False, sample_rule ''v2'' ''v3'' False] \<subseteq> set (open_rules (selected_rules sample_store))"
  by (simp_all add: sample_selected sample_rules_def sample_rule_def open_rules_def)



text \<open>C2. Whatever calls fail, a reconcile puts an upgrade on a cluster only along the catalogue: afterwards the
  cluster object is as before, or without its upgrade annotations, or marked with the first hop of
  a shortest sequence of unblocked rules from the current to the desired version.\<close>
theorem reconcile_marks_safely:
  assumes "find_cv ks ns name = Some cv" "find_bc ks ns name = Some bc"
    and "Reconcile lib src fails now (ks, svc) ns name = ((ks', svc'), r)"
  shows "find_bc ks' ns name = Some bc \<or> find_bc ks' ns name = Some (drop_upgrade_annotations bc) \<or>
     (\<exists>path. find_bc ks' ns name = Some (marked_ready bc name path) \<and> path \<noteq> [] \<and>
        path_correct (open_rules (selected_rules ks)) (firstNonEmpty [clv_currentVersion cv, OpenFuyaoVersionForBKECluster bc])
          (TrimSpace (clv_desiredVersion cv)) path)"
proof -
  have key: "clv_namespace cv = ns" "clv_name cv = name" using find_cv_key [OF assms(1)] by auto
  consider (same) "(ks', svc') = (ks, svc)"
    | (install) "reconcileInstall src fails now ks cv (TrimSpace (clv_desiredVersion cv)) = (ks', r)"
    | (upgrade) "reconcileUpgrade lib src fails now (ks, svc) cv bc (TrimSpace (clv_desiredVersion cv)) = ((ks', svc'), r)"
    using assms key by (auto simp: Reconcile_def Let_def split: if_splits prod.splits)
  then show ?thesis
  proof cases
    case upgrade
    from reconcileUpgrade_bc [OF this assms(2) key(2)] show ?thesis .
  qed (use assms(2) reconcileInstall_bc in auto)
qed

theorem reconcile_marks_safely_witness:
  "\<exists>ks' svc' r path. Reconcile sample_semver \<lparr>src_refs = \<lambda>_ _ _. Inl [], src_layer = \<lambda>_. Inl []\<rparr> no_faults 5 (sample_store, NewService) ''n'' ''c'' = ((ks', svc'), r) \<and>
     find_bc ks' ''n'' ''c'' = Some (marked_ready sample_bc ''c'' path) \<and> r_to (hd path) = ''v2''"
proof -
  let ?src = "\<lparr>src_refs = \<lambda>_ _ _. Inl [], src_layer = \<lambda>_. Inl []\<rparr>"
  obtain ks' svc' r where R: "Reconcile sample_semver ?src no_faults 5 (sample_store, NewService) ''n'' ''c'' = ((ks', svc'), r)"
    by (metis prod.collapse)
  have a: "map_option (\<lambda>b. HasAnnotation b CVOUpgradeReadyAnnotationKey)
      (find_bc (fst (fst (Reconcile sample_semver ?src no_faults 5 (sample_store, NewService) ''n'' ''c''))) ''n'' ''c'') = Some (Some ''v2'')"
    by code_simp
  have "HasAnnotation sample_bc CVOUpgradeReadyAnnotationKey = None" by code_simp
  moreover have "find_cv sample_store ''n'' ''c'' = Some sample_cv" "find_bc sample_store ''n'' ''c'' = Some sample_bc" by code_simp+
  ultimately show ?thesis
    using reconcile_marks_safely [OF _ _ R, of sample_cv sample_bc] a R by fastforce
qed

text \<open>A hop that failed for good stays stopped: once it is recorded as failed, the version object is in its
  failed phase with the version it had, and no later reconcile changes anything in the store,
  whatever the desired version is by then (other than the current one) and whatever calls fail.\<close>
theorem failed_hop_stops:
  assumes "find_cv ks ns name = Some cv" "TrimSpace (clv_currentVersion cv) \<noteq> []"
    and "FailUpgradeHop fails now ks cv hop cause = (ks', None)"
    and "TrimSpace desired \<noteq> TrimSpace (clv_currentVersion cv)"
  shows "\<exists>cv'. find_cv ks' ns name = Some cv' \<and> clv_phase cv' = CvFailed \<and> clv_currentVersion cv' = clv_currentVersion cv \<and>
     (let ks2 = put_cv (cv'\<lparr>clv_desiredVersion := desired\<rparr>) ks' in
      fst (Reconcile lib src fails2 now2 (ks2, svc) ns name) = (ks2, svc))"
proof -
  have key: "clv_namespace cv = ns" "clv_name cv = name" using find_cv_key [OF assms(1)] by auto
  obtain cv' where cv': "ks' = put_cv cv' ks" "clv_namespace cv' = ns" "clv_name cv' = name" "clv_phase cv' = CvFailed"
    "clv_currentVersion cv' = clv_currentVersion cv"
    using assms(3) key by (auto simp: FailUpgradeHop_def Let_def split: if_splits)
  have f: "find_cv ks' ns name = Some cv'" using find_cv_put [OF assms(1)] cv' by simp
  let ?cv2 = "cv'\<lparr>clv_desiredVersion := desired\<rparr>"
  have f2: "find_cv (put_cv ?cv2 ks') ns name = Some ?cv2" using find_cv_put [OF f, of ?cv2] cv' by simp
  have "fst (Reconcile lib src fails2 now2 (put_cv ?cv2 ks', svc) ns name) = (put_cv ?cv2 ks', svc)"
    using f2 assms(2,4) cv' by (auto simp: Reconcile_def isInstallPhase_def reconcileUpgrade_def Let_def split: option.splits)
  with f cv' show ?thesis by (auto simp: Let_def)
qed

theorem failed_hop_stops_witness:
  "\<exists>ks' cv'. FailUpgradeHop no_faults 5 sample_store sample_cv ''v2'' (Some ''boom'') = (ks', None) \<and>
     find_cv ks' ''n'' ''c'' = Some cv' \<and> clv_phase cv' = CvFailed \<and> clv_currentVersion cv' = ''v1''"
proof -
  obtain ks' where f: "FailUpgradeHop no_faults 5 sample_store sample_cv ''v2'' (Some ''boom'') = (ks', None)"
    by (simp add: FailUpgradeHop_def no_faults_def Let_def)
  have h: "find_cv sample_store ''n'' ''c'' = Some sample_cv" "TrimSpace (clv_currentVersion sample_cv) \<noteq> []"
    "TrimSpace ''v3'' \<noteq> TrimSpace (clv_currentVersion sample_cv)" "clv_currentVersion sample_cv = ''v1''" by code_simp+
  from failed_hop_stops [OF h(1,2) f h(3)] f h(4) show ?thesis by metis
qed

end
