(* ===== verification/Cluster_Kinds.thy ===== *)
theory Cluster_Kinds
  imports Conditions Bke_Nodes
begin

text \<open>
  Kinds of clusters, by their annotations: \<^verbatim>\<open>utils/capbke/clusterutil/helper.go\<close> and
  \<^verbatim>\<open>osutil.go\<close>. A cluster is the provider's own, one of the vendor's platform, or another one; the
  information that has been collected of a cluster that is managed but not built by the provider is
  recorded in an annotation.
\<close>

definition BKEClusterFromAnnotationKey :: string where
  "BKEClusterFromAnnotationKey = ''bke.bocloud.com/cluster-from''"

(* src: utils/capbke/clusterutil/helper.go 43-46 IsBKECluster *)
definition IsBKECluster :: "bke_cluster \<Rightarrow> bool" where
  "IsBKECluster c = (case HasAnnotation c BKEClusterFromAnnotationKey of None \<Rightarrow> True | Some v \<Rightarrow> v = ''bke'' \<or> v = [])"

(* src: utils/capbke/clusterutil/helper.go 49-52 IsBocloudCluster *)
definition IsBocloudCluster :: "bke_cluster \<Rightarrow> bool" where
  "IsBocloudCluster c = (case HasAnnotation c BKEClusterFromAnnotationKey of None \<Rightarrow> False | Some v \<Rightarrow> v = ''bocloud'')"

(* src: utils/capbke/clusterutil/helper.go 55-58 IsOtherCluster *)
definition IsOtherCluster :: "bke_cluster \<Rightarrow> bool" where
  "IsOtherCluster c = (case HasAnnotation c BKEClusterFromAnnotationKey of None \<Rightarrow> False | Some v \<Rightarrow> v = ''other'')"

(* src: utils/capbke/annotation/helper.go 26-26 KONKFullManagementClusterAnnotationKey *)
definition KONKFullManagementClusterAnnotationKey :: string where
  "KONKFullManagementClusterAnnotationKey = ''bke.bocloud.com/full-management''"

(* src: utils/capbke/clusterutil/helper.go 27-39 FullyControlled *)
definition FullyControlled :: "bke_cluster \<Rightarrow> bool" where
  "FullyControlled c =
     (if IsBKECluster c then True
      else if IsOtherCluster c then False
      else if IsBocloudCluster c then HasAnnotation c KONKFullManagementClusterAnnotationKey = Some ''true''
      else False)"

(* src: utils/capbke/clusterutil/helper.go 60-66 GetClusterType *)
definition GetClusterType :: "bke_cluster \<Rightarrow> string" where
  "GetClusterType c = (case HasAnnotation c BKEClusterFromAnnotationKey of None \<Rightarrow> ''bke'' | Some v \<Rightarrow> if v = [] then ''bke'' else v)"

(* src: utils/capbke/annotation/helper.go 25-25 ClusterCollectdAnnotationKey *)
definition ClusterCollectdAnnotationKey :: string where
  "ClusterCollectdAnnotationKey = ''bke.bocloud.com/collectd''"

(* src: utils/capbke/clusterutil/helper.go 73-89 ClusterBaseInfoHasCollected, ClusterAgentInfoHasCollected *)
definition has_collected :: "string \<Rightarrow> bke_cluster \<Rightarrow> bool" where
  "has_collected scope c =
     (case HasAnnotation c ClusterCollectdAnnotationKey of None \<Rightarrow> False | Some v \<Rightarrow> ContainsString (Split CHR '','' v) scope)"

(* src: utils/capbke/clusterutil/helper.go 69-71 ClusterInfoHasCollected *)
definition ClusterInfoHasCollected :: "bke_cluster \<Rightarrow> bool" where
  "ClusterInfoHasCollected c = (has_collected ''base'' c \<or> has_collected ''agent'' c)"

(* src: utils/capbke/clusterutil/helper.go 92-114 MarkClusterBaseInfoCollected, MarkClusterAgentInfoCollected *)
definition mark_collected :: "string \<Rightarrow> bke_cluster \<Rightarrow> bke_cluster" where
  "mark_collected scope c =
     (if has_collected scope c then c
      else case HasAnnotation c ClusterCollectdAnnotationKey of
             None \<Rightarrow> SetAnnotation c ClusterCollectdAnnotationKey scope
           | Some v \<Rightarrow> SetAnnotation c ClusterCollectdAnnotationKey (v @ '','' @ scope))"

(* src: utils/capbke/clusterutil/helper.go 116-118 MarkClusterFullyControlled *)
definition MarkClusterFullyControlled :: "bke_cluster \<Rightarrow> bke_cluster" where
  "MarkClusterFullyControlled c = SetAnnotation c KONKFullManagementClusterAnnotationKey ''true''"

(* src: common/constants.go 39-39 ImmutableOSAnnotation *)
definition ImmutableOSAnnotation :: string where
  "ImmutableOSAnnotation = ''openfuyao.io/immutable-os''"

(* src: utils/capbke/clusterutil/osutil.go 22-27 IsImmutableOSMode *)
definition IsImmutableOSMode :: "bke_cluster option \<Rightarrow> bool" where
  "IsImmutableOSMode co = (case co of None \<Rightarrow> False | Some c \<Rightarrow> get_or [] (bc_annotations c) ImmutableOSAnnotation = ''kubeos'')"

section \<open>Results\<close>

lemma Split_join: "Split sep (v @ sep # s) = Split sep v @ Split sep s"
proof (induction v)
  case (Cons c v)
  have "Split sep v \<noteq> []" by (cases v) (auto split: list.splits)
  with Cons show ?case by (auto split: list.splits)
qed simp

lemma ContainsString_append: "ContainsString (xs @ ys) s \<longleftrightarrow> ContainsString xs s \<or> ContainsString ys s"
  by (simp add: ContainsString_def)

text \<open>What is marked as collected is collected, and stays so when more is marked; the kind of the
  cluster does not change.\<close>

lemma collected_scopes:
  assumes "scope \<in> {''base'', ''agent''}"
  shows "has_collected scope (mark_collected scope c) \<and>
    (has_collected other c \<longrightarrow> has_collected other (mark_collected scope c)) \<and>
    IsBKECluster (mark_collected scope c) = IsBKECluster c \<and> FullyControlled (mark_collected scope c) = FullyControlled c"
proof -
  have s: "ContainsString [scope] scope" "CHR '','' \<notin> set scope" using assms by (auto simp: ContainsString_def)
  have keys: "BKEClusterFromAnnotationKey \<noteq> ClusterCollectdAnnotationKey" "KONKFullManagementClusterAnnotationKey \<noteq> ClusterCollectdAnnotationKey"
    by (simp_all add: BKEClusterFromAnnotationKey_def ClusterCollectdAnnotationKey_def KONKFullManagementClusterAnnotationKey_def)
  have kinds: "IsBKECluster (SetAnnotation c ClusterCollectdAnnotationKey v) = IsBKECluster c \<and>
      FullyControlled (SetAnnotation c ClusterCollectdAnnotationKey v) = FullyControlled c" for v
    using keys by (simp add: IsBKECluster_def FullyControlled_def IsOtherCluster_def IsBocloudCluster_def HasAnnotation_def SetAnnotation_def)
  show ?thesis
  proof (cases "has_collected scope c")
    case False
    have "HasAnnotation (SetAnnotation c k v) k = Some v" for k v by (simp add: HasAnnotation_def SetAnnotation_def)
    with False s kinds show ?thesis
      by (auto simp: mark_collected_def has_collected_def Split_join ContainsString_append split: option.splits)
  qed (simp add: mark_collected_def)
qed

end
