(* ===== verification/Phase_Flow.thy ===== *)
theory Phase_Flow
  imports Phase_History Cluster_Version Cluster_Kinds
begin

text \<open>
  The flow of phases: \<^verbatim>\<open>pkg/phaseframe/context.go\<close>, the hooks and conditions of
  \<^verbatim>\<open>pkg/phaseframe/base.go\<close>, \<^verbatim>\<open>pkg/phaseframe/phases/phase_flow.go\<close> and \<^verbatim>\<open>list.go\<close>, and the runner of single phases of
  \<^verbatim>\<open>pkg/componentfactory/runner.go\<close>.

  A phase is a record of the methods of the interface \<^verbatim>\<open>Phase\<close>: when it is needed, what it does, and
  the hooks it overrides or registers. Its own code is a parameter; everything around it is modelled:
  which phases are taken, in which order, what is reported, what a failure or a panic does. The
  status is written by \<^verbatim>\<open>SyncStatusUntilComplete\<close>, which always returns when time passes.

  The results: which phases a run takes, that a failing phase ends it and what it leaves, what a panic
  looks like to the caller, and what the state of the cluster becomes after each phase.
\<close>

section \<open>Deletion\<close>

(* src: pkg/phaseframe/phaseutil/bkecluster.go 42-44 IsDeleteOrReset *)
definition IsDeleteOrReset :: "bke_cluster \<Rightarrow> bool" where
  "IsDeleteOrReset c = (bc_deletionTimestamp c \<noteq> None \<or> bs_reset (bc_spec c))"

section \<open>Names of phases\<close>

(* src: pkg/phaseframe/phases/list.go 23-29 CommonPhases *)
definition CommonPhases :: "bke_phase list" where
  "CommonPhases = [''EnsureFinalizer'', ''EnsurePaused'', ''EnsureClusterManage'', ''EnsureDeleteOrReset'', ''EnsureDryRun'']"

(* src: pkg/phaseframe/phases/list.go 32-44 DeployPhases *)
definition DeployPhases :: "bke_phase list" where
  "DeployPhases = [''EnsureBKEAgent'', ''EnsureNodesEnv'', ''EnsureClusterAPIObj'', ''EnsureCerts'', ''EnsureLoadBalance'',
     ''EnsureMasterInit'', ''EnsureMasterJoin'', ''EnsureWorkerJoin'', ''EnsureAddonDeploy'', ''EnsureNodesPostProcess'', ''EnsureAgentSwitch'']"

(* src: pkg/phaseframe/phases/list.go 65-78 PostDeployPhases *)
definition PostDeployPhases :: "bke_phase list" where
  "PostDeployPhases = [''EnsureProviderSelfUpgrade'', ''EnsureAgentUpgrade'', ''EnsureContainerdUpgrade'', ''EnsureEtcdUpgrade'',
     ''EnsureWorkerUpgrade'', ''EnsureMasterUpgrade'', ''EnsureWorkerDelete'', ''EnsureMasterDelete'', ''EnsureComponentUpgrade'',
     ''EnsureClusterAPIManagerManifest'', ''EnsureCluster'']"

(* src: pkg/phaseframe/phases/list.go 81-84 DeletePhases *)
definition DeletePhases :: "bke_phase list" where
  "DeletePhases = [''EnsurePaused'', ''EnsureDeleteOrReset'']"

(* src: pkg/phaseframe/phases/phase_flow.go 45-51 FullPhasesRegisFunc *)
definition FullPhasesRegisFunc :: "bke_phase list" where
  "FullPhasesRegisFunc = CommonPhases @ DeployPhases @ PostDeployPhases"

(* src: pkg/phaseframe/phases/list.go 88-97 ClusterInitPhaseNames *)
definition ClusterInitPhaseNames :: "bke_phase list" where
  "ClusterInitPhaseNames = [''EnsureFinalizer'', ''EnsureCerts'', ''EnsureClusterAPIObj'', ''EnsureMasterInit'', ''EnsureBKEAgent'',
     ''EnsureNodesEnv'', ''EnsureLoadBalance'', ''EnsureAgentSwitch'']"

(* src: pkg/phaseframe/phases/list.go 99-105 ClusterUpgradePhaseNames *)
definition ClusterUpgradePhaseNames :: "bke_phase list" where
  "ClusterUpgradePhaseNames = [''EnsureAgentUpgrade'', ''EnsureContainerdUpgrade'', ''EnsureMasterUpgrade'', ''EnsureWorkerUpgrade'', ''EnsureComponentUpgrade'']"

(* src: pkg/phaseframe/phases/list.go 108-115 DeclarativeClusterUpgradePhaseNames *)
definition DeclarativeClusterUpgradePhaseNames :: "bke_phase list" where
  "DeclarativeClusterUpgradePhaseNames = [''EnsurePreUpgradeResources'', ''EnsureAgentUpgrade'', ''EnsureEtcdUpgrade'',
     ''EnsureContainerdUpgrade'', ''EnsureMasterUpgrade'', ''EnsureWorkerUpgrade'']"

(* src: pkg/phaseframe/phases/list.go 155-158 ClusterDeleteResetPhaseNames *)
definition ClusterDeleteResetPhaseNames :: "bke_phase list" where
  "ClusterDeleteResetPhaseNames = [''EnsurePaused'', ''EnsureDeleteOrReset'']"

(* src: pkg/phaseframe/phases/list.go 192-195 IsDeclarativeInlineUpgradePhase *)
definition IsDeclarativeInlineUpgradePhase :: "bke_phase \<Rightarrow> bool" where
  "IsDeclarativeInlineUpgradePhase name \<longleftrightarrow> name \<in> set DeclarativeClusterUpgradePhaseNames"

(* src: pkg/phaseframe/phases/phase_flow.go 122-134 isLegacyClusterUpgradePhase *)
definition isLegacyClusterUpgradePhase :: "bke_phase \<Rightarrow> bool" where
  "isLegacyClusterUpgradePhase name =
     (phase_In name ClusterUpgradePhaseNames \<or> phase_In name DeclarativeClusterUpgradePhaseNames \<or> name = ''EnsureProviderSelfUpgrade'')"

section \<open>The context of a run\<close>

text \<open>The world of a run is the status manager and the state of the client. \<open>fe_clock\<close> is the clock of
  the status writer, \<open>fe_owner\<close> finds the owning cluster object, \<open>fe_hasPaused\<close> and \<open>fe_lowest\<close> are the helpers
  of cluster-api, \<open>fe_clusterVersion\<close> reads the version object of a cluster, and \<open>fe_errorText\<close>
  is the text of an error.\<close>

record ctrl_outcome =
  co_requeue :: bool
  co_requeueAfter :: nat

definition no_requeue :: ctrl_outcome where
  "no_requeue = \<lparr>co_requeue = False, co_requeueAfter = 0\<rparr>"

record ('w, 'o, 'p) flow_env =
  fe_merge :: "('w, 'o, 'p) merge_env"
  fe_clock :: "'w \<Rightarrow> nat"
  fe_owner :: "bke_cluster \<Rightarrow> 'w \<Rightarrow> 'w \<times> (api_error + string option)"
  fe_hasPaused :: "bke_cluster \<Rightarrow> bool"
  fe_clusterVersion :: "bke_cluster \<Rightarrow> 'w \<Rightarrow> 'w \<times> (cv_error + cluster_version)"
  fe_lowest :: "ctrl_outcome \<Rightarrow> ctrl_outcome \<Rightarrow> ctrl_outcome"
  fe_errorText :: "api_error \<Rightarrow> string"

(* src: pkg/phaseframe/context.go 41-59 PhaseContext *)
record 'w phase_ctx =
  pc_world :: "status_manager \<times> 'w"
  pc_cluster :: bke_cluster
  pc_owner :: "string option"
  pc_hasClient :: bool
  pc_versionContext :: "version_context option"
  pc_dagCompleted :: bool
  pc_cancelled :: bool

definition pc_upd_w :: "'w \<Rightarrow> 'w phase_ctx \<Rightarrow> 'w phase_ctx" where
  "pc_upd_w w ctx = ctx\<lparr>pc_world := (fst (pc_world ctx), w)\<rparr>"

text \<open>Writing the status of the cluster of the context. \<open>sync_total\<close> below shows that the loop returns;
  its error is passed on, a panic is \<open>Panicked\<close>.\<close>

definition sync_cluster :: "('w, 'o, 'p) flow_env \<Rightarrow> patch_func list \<Rightarrow> 'w phase_ctx \<Rightarrow> 'w phase_ctx \<times> merge_error option" where
  "sync_cluster e patchs ctx =
     (case SyncStatusUntilComplete (fe_merge e) (fe_clock e) patchs (pc_cluster ctx) (pc_world ctx) of
        None \<Rightarrow> (ctx, None)
      | Some (mw, c, r) \<Rightarrow>
          (ctx\<lparr>pc_world := mw, pc_cluster := c\<rparr>,
           case r of Sync_done \<Rightarrow> None | Sync_error err \<Rightarrow> Some (Failed_with err)
           | Sync_timeout \<Rightarrow> Some (Failed_with (ErrMsg ''The update failed to complete after 2 minutes. '')) | Sync_panic \<Rightarrow> Some Panicked))"

(* src: pkg/phaseframe/context.go 168-186 fetchNewestBKECluster, GetNewestBKECluster *)
definition GetNewestBKECluster :: "('w, 'o, 'p) flow_env \<Rightarrow> 'w phase_ctx \<Rightarrow> 'w phase_ctx \<times> (merge_error + bke_cluster)" where
  "GetNewestBKECluster e ctx =
     (let c = pc_cluster ctx; (w, r) = GetCombinedBKECluster (fe_merge e) (bc_namespace c) (bc_name c) (snd (pc_world ctx))
      in (pc_upd_w w ctx, r))"

(* src: pkg/phaseframe/context.go 188-204 RefreshCtxBKECluster *)
definition RefreshCtxBKECluster :: "('w, 'o, 'p) flow_env \<Rightarrow> 'w phase_ctx \<Rightarrow> 'w phase_ctx \<times> merge_error option" where
  "RefreshCtxBKECluster e ctx =
     (case GetNewestBKECluster e ctx of
        (ctx', Inl err) \<Rightarrow> (ctx', Some err)
      | (ctx', Inr c) \<Rightarrow> (ctx'\<lparr>pc_cluster := c\<rparr>, None))"

(* src: pkg/phaseframe/context.go 206-231 RefreshCtxCluster *)
definition RefreshCtxCluster :: "('w, 'o, 'p) flow_env \<Rightarrow> 'w phase_ctx \<Rightarrow> 'w phase_ctx \<times> merge_error option" where
  "RefreshCtxCluster e ctx =
     (case RefreshCtxBKECluster e ctx of
        (ctx1, Some err) \<Rightarrow> (ctx1, Some err)
      | (ctx1, None) \<Rightarrow>
          (case fe_owner e (pc_cluster ctx1) (snd (pc_world ctx1)) of
             (w, Inl err) \<Rightarrow> (pc_upd_w w ctx1, Some (Failed_with err))
           | (w, Inr None) \<Rightarrow> (pc_upd_w w ctx1, Some (Failed_with (ErrMsg ''owner cluster is nil'')))
           | (w, Inr (Some own)) \<Rightarrow> ((pc_upd_w w ctx1)\<lparr>pc_owner := Some own\<rparr>, None)))"

(* src: pkg/phaseframe/context.go 132-141 BuildAndSetVersionContext *)
definition BuildAndSetVersionContext :: "'w phase_ctx \<Rightarrow> 'w phase_ctx" where
  "BuildAndSetVersionContext ctx =
     (if pc_versionContext ctx \<noteq> None then ctx
      else ctx\<lparr>pc_versionContext := Some (BuildVersionContextFromBKECluster (Some (pc_cluster ctx)))\<rparr>)"

(* src: pkg/phaseframe/context.go 144-149 BuildAndSetVersionContextFromBundle *)
definition BuildAndSetVersionContextFromBundle :: "release_bundle option \<Rightarrow> release_bundle option \<Rightarrow> 'w phase_ctx \<Rightarrow> 'w phase_ctx" where
  "BuildAndSetVersionContextFromBundle target current ctx =
     ctx\<lparr>pc_versionContext := Some (BuildVersionContextForUpgrade target current (Some (pc_cluster ctx)))\<rparr>"

(* src: pkg/phaseframe/context.go 153-160 FinishDeclarativeDAGForPhaseFlow *)
definition FinishDeclarativeDAGForPhaseFlow :: "('w, 'o, 'p) flow_env \<Rightarrow> 'w phase_ctx \<Rightarrow> 'w phase_ctx \<times> merge_error option" where
  "FinishDeclarativeDAGForPhaseFlow e ctx = RefreshCtxBKECluster e (ctx\<lparr>pc_versionContext := None, pc_dagCompleted := True\<rparr>)"

(* src: pkg/phaseframe/spec_sync.go 23-45 SyncUpgradeTargetsToClusterSpec *)
definition SyncUpgradeTargetsToClusterSpec :: "('w, 'o, 'p) flow_env \<Rightarrow> 'w phase_ctx \<Rightarrow> 'w phase_ctx \<times> merge_error option" where
  "SyncUpgradeTargetsToClusterSpec e ctx =
     (let ctx1 = BuildAndSetVersionContext ctx; vc = pc_versionContext ctx1;
          apply = (\<lambda>c. case ApplyVersionContextTargetsToClusterSpec (Some c) vc of Some c' \<Rightarrow> c' | None \<Rightarrow> c)
      in case bs_clusterConfig (bc_spec (pc_cluster ctx1)) of
           None \<Rightarrow> (ctx1, None)
         | Some cfg \<Rightarrow>
             if \<not> ClusterSpecHasUpgradeTargets cfg vc \<or> \<not> pc_hasClient ctx1
             then (ctx1\<lparr>pc_cluster := apply (pc_cluster ctx1)\<rparr>, None)
             else sync_cluster e [apply] ctx1)"

text \<open>The watch beside a run: its tickers cannot have fired when the selection is made once at the
  start, so that it either sees a cancelled context or takes the default.\<close>

(* src: pkg/phaseframe/context.go 317-333 handleDeletingBKECluster *)
definition handleDeletingBKECluster :: "('w, 'o, 'p) flow_env \<Rightarrow> 'w phase_ctx \<Rightarrow> 'w phase_ctx \<times> bool" where
  "handleDeletingBKECluster e ctx =
     (if bc_deletionTimestamp (pc_cluster ctx) = None \<or> st_clusterStatus (bc_status (pc_cluster ctx)) = ''Deleting'' then (ctx, False)
      else ((fst (sync_cluster e [] (ctx\<lparr>pc_cluster := set_clusterStatus (pc_cluster ctx) ''Deleting''\<rparr>)))\<lparr>pc_cancelled := True\<rparr>, True))"

(* src: pkg/phaseframe/context.go 237-282 WatchBKEClusterStatus *)
definition WatchBKEClusterStatus :: "('w, 'o, 'p) flow_env \<Rightarrow> 'w phase_ctx \<Rightarrow> 'w phase_ctx" where
  "WatchBKEClusterStatus e ctx =
     (case GetNewestBKECluster e ctx of
        (ctx1, Inl err) \<Rightarrow> ctx1
      | (ctx1, Inr c) \<Rightarrow> if pc_cancelled ctx1 then ctx1 else fst (handleDeletingBKECluster e ctx1))"

section \<open>The state of the cluster after a phase\<close>

(* src: pkg/phaseframe/phases/phase_flow.go 408-504 handleCluster...Phase *)
definition set_by_result :: "string \<Rightarrow> string \<Rightarrow> merge_error option \<Rightarrow> bke_cluster \<Rightarrow> bke_cluster" where
  "set_by_result good bad err c = set_clusterStatus c (if err \<noteq> None then bad else good)"

(* src: pkg/phaseframe/phases/phase_flow.go 371-405 calculateClusterStatusByPhase *)
definition calculateClusterStatusByPhase :: "bke_phase \<Rightarrow> merge_error option \<Rightarrow> bke_cluster \<Rightarrow> bke_cluster" where
  "calculateClusterStatusByPhase name err c =
     (if phase_In name [''EnsureCluster''] then c
      else if phase_In name ClusterInitPhaseNames then set_by_result ''Initializing'' ''InitializationFailed'' err c
      else if phase_In name [''EnsureMasterJoin''] then set_by_result ''ScalingMasterNodesUp'' ''ScaleFailed'' err c
      else if phase_In name [''EnsureWorkerJoin''] then set_by_result ''ScalingWorkerNodesUp'' ''ScaleFailed'' err c
      else if phase_In name [''EnsureDeleteOrReset''] then set_by_result ''Deleting'' ''DeleteFailed'' err c
      else if phase_In name [''EnsurePaused''] then set_by_result ClusterPaused ''PauseFailed'' err c
      else if phase_In name [''EnsureDryRun''] then set_by_result ''DryRun'' ''DryRunFailed'' err c
      else if phase_In name [''EnsureAddonDeploy''] then set_by_result ''DeployingAddon'' ''DeployAddonFailed'' err c
      else if phase_In name ClusterUpgradePhaseNames \<or> phase_In name DeclarativeClusterUpgradePhaseNames
        then set_by_result ''Upgrading'' ''UpgradeFailed'' err c
      else if phase_In name [''EnsureMasterDelete''] then set_by_result ''ScalingMasterNodesDown'' ''ScaleFailed'' err c
      else if phase_In name [''EnsureWorkerDelete''] then set_by_result ''ScalingWorkerNodesDown'' ''ScaleFailed'' err c
      else if phase_In name [''EnsureClusterManage''] then set_by_result ''Managing'' ''ManageFailed'' err c
      else set_clusterStatus c ''Unknown'')"

(* src: pkg/phaseframe/phases/phase_flow.go 350-358 calculatingClusterPreStatusByPhase *)
definition calculatingClusterPreStatusByPhase :: "bke_phase \<Rightarrow> bke_cluster \<Rightarrow> bke_cluster" where
  "calculatingClusterPreStatusByPhase name c =
     (if name = ''EnsureCluster'' then set_clusterStatus c ''Checking'' else calculateClusterStatusByPhase name None c)"

(* src: pkg/phaseframe/phases/phase_flow.go 360-369 calculatingClusterPostStatusByPhase *)
definition calculatingClusterPostStatusByPhase :: "bke_phase \<Rightarrow> merge_error option \<Rightarrow> bke_cluster \<Rightarrow> bke_cluster" where
  "calculatingClusterPostStatusByPhase name err c =
     (let c' = calculateClusterStatusByPhase name err c
      in if st_clusterStatus (bc_status c') \<noteq> ''Unknown'' then SetAnnotation c' StatusRecordAnnotationKey [] else c')"

section \<open>Phases and their hooks\<close>

(* src: pkg/phaseframe/base.go 222-253 BasePhase.Report *)
definition Report :: "('w, 'o, 'p) flow_env \<Rightarrow> base_phase \<Rightarrow> string \<Rightarrow> bool \<Rightarrow> 'w phase_ctx \<Rightarrow> 'w phase_ctx \<times> merge_error option" where
  "Report e b msg onlyRecord ctx =
     (if bp_status b = [] then (ctx, None)
      else let ctx1 = ctx\<lparr>pc_cluster := report_record b (me_now (fe_merge e) (snd (pc_world ctx))) msg (pc_cluster ctx)\<rparr>
           in if onlyRecord then (ctx1, None)
              else (case sync_cluster e [] ctx1 of
                      (ctx2, Some Panicked) \<Rightarrow> (ctx2, Some Panicked)
                    | (ctx2, _) \<Rightarrow> (ctx2, None)))"

type_synonym 'w hook = "base_phase \<Rightarrow> 'w phase_ctx \<Rightarrow> base_phase \<times> 'w phase_ctx \<times> merge_error option"

(* src: pkg/phaseframe/base.go 87-91 BasePhase.DefaultPreHook (custom hooks) *)
fun run_hooks :: "'w hook list \<Rightarrow> 'w hook" where
  "run_hooks [] b ctx = (b, ctx, None)"
| "run_hooks (h # hs) b ctx =
     (case h b ctx of (b', ctx', Some err) \<Rightarrow> (b', ctx', Some err) | (b', ctx', None) \<Rightarrow> run_hooks hs b' ctx')"

(* src: pkg/phaseframe/base.go 72-95 BasePhase.DefaultPreHook *)
definition DefaultPreHook :: "('w, 'o, 'p) flow_env \<Rightarrow> 'w hook list \<Rightarrow> 'w hook" where
  "DefaultPreHook e hooks b ctx =
     (case RefreshCtxBKECluster e ctx of
        (ctx1, Some err) \<Rightarrow> (b, ctx1, Some err)
      | (ctx1, None) \<Rightarrow>
          (case RefreshCtxCluster e ctx1 of
             (ctx2, Some Panicked) \<Rightarrow> (b, ctx2, Some Panicked)
           | (ctx2, _) \<Rightarrow>
               let b1 = b\<lparr>bp_status := PhaseRunning, bp_startTime := me_now (fe_merge e) (snd (pc_world ctx2))\<rparr>
               in (case run_hooks hooks b1 ctx2 of
                     (b2, ctx3, Some err) \<Rightarrow> (b2, ctx3, Some err)
                   | (b2, ctx3, None) \<Rightarrow> (case Report e b2 [] False ctx3 of (ctx4, r) \<Rightarrow> (b2, ctx4, r)))))"

definition error_message :: "('w, 'o, 'p) flow_env \<Rightarrow> merge_error option \<Rightarrow> string" where
  "error_message e err = (case err of Some (Failed_with x) \<Rightarrow> fe_errorText e x | _ \<Rightarrow> [])"

(* src: pkg/phaseframe/base.go 98-126 BasePhase.DefaultPostHook *)
definition DefaultPostHook :: "('w, 'o, 'p) flow_env \<Rightarrow> (merge_error option \<Rightarrow> 'w hook) list \<Rightarrow> merge_error option \<Rightarrow> 'w hook" where
  "DefaultPostHook e hooks err b ctx =
     (let msg = error_message e err
      in if bp_status b = PhaseSkipped then (case Report e b msg False ctx of (ctx', r) \<Rightarrow> (b, ctx', r))
         else let b1 = b\<lparr>bp_status := (if err \<noteq> None then PhaseFailed else PhaseSucceeded)\<rparr>
              in (case run_hooks (map (\<lambda>h. h err) hooks) b1 ctx of
                    (b2, ctx2, Some er) \<Rightarrow> (b2, ctx2, Some er)
                  | (b2, ctx2, None) \<Rightarrow> (case Report e b2 msg False ctx2 of (ctx3, r) \<Rightarrow> (b2, ctx3, r))))"

(* src: pkg/phaseframe/base.go 129-146 BasePhase.checkCommonNeedExecute *)
definition checkCommonNeedExecute :: "('w, 'o, 'p) flow_env \<Rightarrow> bke_cluster \<Rightarrow> bool" where
  "checkCommonNeedExecute e new =
     (if bc_deletionTimestamp new \<noteq> None then False
      else if bs_pause (bc_spec new) \<or> fe_hasPaused e new then False
      else if bs_dryRun (bc_spec new) then False
      else if HasSuffix (st_clusterStatus (bc_status new)) ''Failed'' then False
      else True)"

(* src: pkg/phaseframe/base.go 150-162 BasePhase.DefaultNeedExecute *)
definition DefaultNeedExecute :: "('w, 'o, 'p) flow_env \<Rightarrow> bke_cluster \<Rightarrow> bool" where
  "DefaultNeedExecute e new =
     (if \<not> checkCommonNeedExecute e new then False
      else if \<not> IsBKECluster new \<and> \<not> FullyControlled new then False
      else True)"

text \<open>The methods of a phase. \<open>ph_pre\<close> and \<open>ph_post\<close> are the overridden hooks, as functions of the default ones.\<close>

(* src: pkg/phaseframe/interface.go 24-62 Phase *)
record 'w phase =
  ph_base :: base_phase
  ph_need :: "bke_cluster option \<Rightarrow> bke_cluster \<Rightarrow> base_phase \<Rightarrow> 'w phase_ctx \<Rightarrow> base_phase \<times> 'w phase_ctx \<times> bool"
  ph_exec :: "base_phase \<Rightarrow> 'w phase_ctx \<Rightarrow> base_phase \<times> 'w phase_ctx \<times> ctrl_outcome \<times> merge_error option"
  ph_preHooks :: "'w hook list"
  ph_postHooks :: "(merge_error option \<Rightarrow> 'w hook) list"
  ph_pre :: "'w hook \<Rightarrow> 'w hook"
  ph_post :: "(merge_error option \<Rightarrow> 'w hook) \<Rightarrow> merge_error option \<Rightarrow> 'w hook"

definition ph_name :: "'w phase \<Rightarrow> bke_phase" where
  "ph_name ph = bp_name (ph_base ph)"

section \<open>Choosing phases\<close>

(* src: pkg/phaseframe/phases/phase_flow.go 36-43 PhaseFlow *)
record 'w flow =
  fl_ctx :: "'w phase_ctx"
  fl_phases :: "'w phase list"
  fl_old :: "bke_cluster option"
  fl_new :: "bke_cluster option"

(* src: pkg/phaseframe/phases/phase_flow.go 56-60 NewPhaseFlow *)
definition NewPhaseFlow :: "'w phase_ctx \<Rightarrow> 'w flow" where
  "NewPhaseFlow ctx = \<lparr>fl_ctx = ctx, fl_phases = [], fl_old = None, fl_new = None\<rparr>"

(* src: pkg/phaseframe/phases/phase_flow.go 70-75 PhaseFlow.determinePhasesFuncs *)
definition determinePhasesFuncs :: "'w phase_ctx \<Rightarrow> bke_phase list" where
  "determinePhasesFuncs ctx = (if IsDeleteOrReset (pc_cluster ctx) then DeletePhases else FullPhasesRegisFunc)"

(* src: pkg/phaseframe/phases/phase_flow.go 96-120 shouldSkipLegacyUpgrade *)
definition shouldSkipLegacyUpgrade :: "('w, 'o, 'p) flow_env \<Rightarrow> 'w phase_ctx \<Rightarrow> 'w phase_ctx \<times> bool" where
  "shouldSkipLegacyUpgrade e ctx =
     (let c = pc_cluster ctx
      in if st_clusterHealthState (bc_status c) = ''UpgradeFailed'' then (ctx, True)
         else if (case HasCondition ClusterHealthyStateCondition c of
                    Some v \<Rightarrow> cc_status v = ''False'' \<and> cc_message v = ''UpgradeFailed'' | None \<Rightarrow> False) then (ctx, True)
         else if \<not> pc_hasClient ctx then (ctx, False)
         else (case fe_clusterVersion e c (snd (pc_world ctx)) of
                 (w, Inl err) \<Rightarrow> (pc_upd_w w ctx, False)
               | (w, Inr cv) \<Rightarrow>
                   let desired = TrimSpace (clv_desiredVersion cv); current = TrimSpace (clv_currentVersion cv)
                   in (pc_upd_w w ctx, clv_phase cv = CvFailed \<and> desired \<noteq> [] \<and> desired \<noteq> current)))"

(* src: pkg/phaseframe/phases/phase_flow.go 137-142 PhaseFlow.skipPhaseAfterDeclarativeDAG *)
definition skipPhaseAfterDeclarativeDAG :: "'w phase_ctx \<Rightarrow> bke_phase \<Rightarrow> bool" where
  "skipPhaseAfterDeclarativeDAG ctx name = (pc_dagCompleted ctx \<and> IsDeclarativeInlineUpgradePhase name)"

(* src: pkg/phaseframe/phases/phase_flow.go 82-93 PhaseFlow.calculateAndAddPhases (loop) *)
fun add_phases :: "(bke_phase \<Rightarrow> 'w phase) \<Rightarrow> bool \<Rightarrow> bke_cluster option \<Rightarrow> bke_cluster \<Rightarrow> bke_phase list \<Rightarrow> 'w phase_ctx \<Rightarrow> 'w phase_ctx \<times> 'w phase list" where
  "add_phases mk skipLegacy old new [] ctx = (ctx, [])"
| "add_phases mk skipLegacy old new (name # names) ctx =
     (let ph = mk name
      in if skipPhaseAfterDeclarativeDAG ctx (ph_name ph) then add_phases mk skipLegacy old new names ctx
         else if skipLegacy \<and> isLegacyClusterUpgradePhase (ph_name ph) then add_phases mk skipLegacy old new names ctx
         else (case ph_need ph old new (ph_base ph) ctx of
                 (b, ctx1, False) \<Rightarrow> add_phases mk skipLegacy old new names ctx1
               | (b, ctx1, True) \<Rightarrow> (case add_phases mk skipLegacy old new names ctx1 of (ctx2, phs) \<Rightarrow> (ctx2, ph\<lparr>ph_base := b\<rparr> # phs))))"

(* src: pkg/phaseframe/phases/phase_flow.go 78-94 PhaseFlow.calculateAndAddPhases *)
definition calculateAndAddPhases :: "('w, 'o, 'p) flow_env \<Rightarrow> (bke_phase \<Rightarrow> 'w phase) \<Rightarrow> bke_cluster option \<Rightarrow> bke_cluster \<Rightarrow> bke_phase list \<Rightarrow> 'w flow \<Rightarrow> 'w flow" where
  "calculateAndAddPhases e mk old new names p =
     (let (ctx1, skipLegacy) = shouldSkipLegacyUpgrade e (fl_ctx p);
          (ctx2, phs) = add_phases mk skipLegacy old new names ctx1
      in p\<lparr>fl_ctx := ctx2, fl_phases := fl_phases p @ phs\<rparr>)"

(* src: pkg/phaseframe/phases/phase_flow.go 330-338 PhaseFlow.refreshOldAndNewBKECluster *)
definition refreshOldAndNewBKECluster :: "('w, 'o, 'p) flow_env \<Rightarrow> 'w flow \<Rightarrow> 'w flow \<times> merge_error option" where
  "refreshOldAndNewBKECluster e p =
     (case GetLastUpdatedBKECluster (fe_merge e) (pc_cluster (fl_ctx p)) of
        Inl err \<Rightarrow> (p, Some (Failed_with err))
      | Inr old \<Rightarrow> (p\<lparr>fl_old := old, fl_new := Some (pc_cluster (fl_ctx p))\<rparr>, None))"

(* src: pkg/phaseframe/phases/phase_flow.go 192-205 PhaseFlow.reportPhases *)
fun reportPhases :: "('w, 'o, 'p) flow_env \<Rightarrow> 'w phase list \<Rightarrow> 'w phase_ctx \<Rightarrow> 'w phase_ctx \<times> nat" where
  "reportPhases e [] ctx = (ctx, 0)"
| "reportPhases e (ph # phs) ctx =
     (let (ctx1, _) = Report e (ph_base ph) [] True ctx; (ctx2, n) = reportPhases e phs ctx1
      in (ctx2, if bp_status (ph_base ph) = PhaseWaiting then Suc n else n))"

(* src: pkg/phaseframe/phases/phase_flow.go 145-164 PhaseFlow.ReportPhaseStatus *)
definition ReportPhaseStatus :: "('w, 'o, 'p) flow_env \<Rightarrow> 'w flow \<Rightarrow> 'w flow \<times> merge_error option" where
  "ReportPhaseStatus e p =
     (if fl_phases p = [] then (p, None)
      else let ctx1 = (fl_ctx p)\<lparr>pc_cluster := upd_clusterStatus (\<lambda>st. st\<lparr>st_phaseStatus := process_history (st_phaseStatus st)\<rparr>) (pc_cluster (fl_ctx p))\<rparr>;
               (ctx2, _) = reportPhases e (fl_phases p) ctx1
           in refreshOldAndNewBKECluster e (p\<lparr>fl_ctx := ctx2\<rparr>))"

(* src: pkg/phaseframe/phases/phase_flow.go 63-67 PhaseFlow.CalculatePhase *)
definition CalculatePhase :: "('w, 'o, 'p) flow_env \<Rightarrow> (bke_phase \<Rightarrow> 'w phase) \<Rightarrow> bke_cluster option \<Rightarrow> bke_cluster \<Rightarrow> 'w flow \<Rightarrow> 'w flow \<times> merge_error option" where
  "CalculatePhase e mk old new p =
     ReportPhaseStatus e (calculateAndAddPhases e mk old new (determinePhasesFuncs (fl_ctx p)) p)"

section \<open>Executing phases\<close>

(* src: pkg/phaseframe/phases/phase_flow.go 513-517 registerPhaseCName *)
definition registerPhaseCName :: "(string \<Rightarrow> string) \<Rightarrow> 'w hook" where
  "registerPhaseCName cn b ctx = (b\<lparr>bp_cname := cn (bp_name b)\<rparr>, ctx, None)"

definition pre_status_hook :: "'w hook" where
  "pre_status_hook b ctx = (b, ctx\<lparr>pc_cluster := calculatingClusterPreStatusByPhase (bp_name b) (pc_cluster ctx)\<rparr>, None)"

definition post_status_hook :: "merge_error option \<Rightarrow> 'w hook" where
  "post_status_hook err b ctx = (b, ctx\<lparr>pc_cluster := calculatingClusterPostStatusByPhase (bp_name b) err (pc_cluster ctx)\<rparr>, None)"

text \<open>What the loop carries: the flow, the names that still wait, the result so far and the errors. It
  ends by a return with its errors or by a panic.\<close>

record 'w loop_state =
  lo_flow :: "'w flow"
  lo_names :: "bke_phase list"
  lo_res :: ctrl_outcome
  lo_errs :: "merge_error list"

datatype loop_end = Loop_return ctrl_outcome "merge_error list" | Loop_panic

datatype 'w loop_step = Next "'w loop_state" | End "'w flow" "bke_phase list" loop_end

definition lo_upd_ctx :: "'w phase_ctx \<Rightarrow> 'w loop_state \<Rightarrow> 'w loop_state" where
  "lo_upd_ctx ctx s = s\<lparr>lo_flow := (lo_flow s)\<lparr>fl_ctx := ctx\<rparr>\<rparr>"

definition lo_end :: "'w loop_state \<Rightarrow> loop_end \<Rightarrow> 'w loop_step" where
  "lo_end s r = End (lo_flow s) (lo_names s) r"

definition errors_of :: "merge_error option \<Rightarrow> merge_error list" where
  "errors_of r = (case r of None \<Rightarrow> [] | Some err \<Rightarrow> [err])"

(* src: pkg/phaseframe/phases/phase_flow.go 300-325 PhaseFlow.executePhases (after the run of a phase) *)
definition finish_phase :: "('w, 'o, 'p) flow_env \<Rightarrow> 'w phase \<Rightarrow> merge_error option \<Rightarrow> base_phase \<Rightarrow> 'w loop_state \<Rightarrow> 'w loop_step" where
  "finish_phase e ph err b s =
     (let ctx = fl_ctx (lo_flow s)
      in if bp_status b = PhaseSkipped
         then (case Report e b [] False ctx of
                 (ctx', Some er) \<Rightarrow> lo_end (lo_upd_ctx ctx' s) (if er = Panicked then Loop_panic else Loop_return no_requeue [er])
               | (ctx', None) \<Rightarrow> Next (lo_upd_ctx ctx' s))
         else (case ph_post ph (DefaultPostHook e (ph_postHooks ph @ [post_status_hook])) err b ctx of
                 (b', ctx', r) \<Rightarrow>
                   if r = Some Panicked then lo_end (lo_upd_ctx ctx' s) Loop_panic
                   else let (p', r') = refreshOldAndNewBKECluster e ((lo_flow s)\<lparr>fl_ctx := ctx'\<rparr>);
                            errs = lo_errs s @ errors_of r @ errors_of r'
                        in if errs \<noteq> [] then lo_end (s\<lparr>lo_flow := p'\<rparr>) (Loop_return (lo_res s) errs)
                           else Next (s\<lparr>lo_flow := p'\<rparr>)))"

(* src: pkg/phaseframe/phases/phase_flow.go 262-325 PhaseFlow.executePhases (one phase) *)
definition run_phase :: "('w, 'o, 'p) flow_env \<Rightarrow> (string \<Rightarrow> string) \<Rightarrow> 'w phase \<Rightarrow> 'w loop_state \<Rightarrow> 'w loop_step" where
  "run_phase e cn ph s =
     (let p = lo_flow s; ctx = fl_ctx p
      in if \<not> phase_In (ph_name ph) (lo_names s) then finish_phase e ph None ((ph_base ph)\<lparr>bp_status := PhaseSkipped\<rparr>) s
         else let s1 = s\<lparr>lo_names := phases_Remove (lo_names s) [ph_name ph]\<rparr>
              in case fl_new p of
                   None \<Rightarrow> lo_end s1 Loop_panic
                 | Some new \<Rightarrow>
                     (case ph_need ph (fl_old p) new (ph_base ph) ctx of
                        (b1, ctx1, False) \<Rightarrow> finish_phase e ph None (b1\<lparr>bp_status := PhaseSkipped\<rparr>) (lo_upd_ctx ctx1 s1)
                      | (b1, ctx1, True) \<Rightarrow>
                          (case ph_pre ph (DefaultPreHook e (ph_preHooks ph @ [pre_status_hook, registerPhaseCName cn])) b1 ctx1 of
                             (b2, ctx2, Some er) \<Rightarrow>
                               lo_end (lo_upd_ctx ctx2 s1) (if er = Panicked then Loop_panic else Loop_return (lo_res s) [er])
                           | (b2, ctx2, None) \<Rightarrow>
                               (case ph_exec ph b2 ctx2 of
                                  (b3, ctx3, res, perr) \<Rightarrow>
                                    if perr = Some Panicked then lo_end (lo_upd_ctx ctx3 s1) Loop_panic
                                    else finish_phase e ph perr b3
                                           ((lo_upd_ctx ctx3 s1)\<lparr>lo_errs := lo_errs s @ errors_of perr, lo_res := fe_lowest e (lo_res s) res\<rparr>)))))"

(* src: pkg/phaseframe/phases/phase_flow.go 262-328 PhaseFlow.executePhases (loop) *)
fun run_phases :: "('w, 'o, 'p) flow_env \<Rightarrow> (string \<Rightarrow> string) \<Rightarrow> 'w phase list \<Rightarrow> 'w loop_state \<Rightarrow> 'w flow \<times> bke_phase list \<times> loop_end" where
  "run_phases e cn [] s = (lo_flow s, lo_names s, Loop_return (lo_res s) [])"
| "run_phases e cn (ph # phs) s =
     (case run_phase e cn ph s of
        Next s' \<Rightarrow> run_phases e cn phs s'
      | End p names r \<Rightarrow> (p, names, r))"

(* src: pkg/phaseframe/phases/phase_flow.go 241-252 PhaseFlow.cleanupUnexecutedPhases *)
definition cleanupUnexecutedPhases :: "('w, 'o, 'p) flow_env \<Rightarrow> bke_phase list \<Rightarrow> 'w flow \<Rightarrow> 'w flow \<times> merge_error option" where
  "cleanupUnexecutedPhases e names p =
     (if names = [] then (p, None)
      else let ctx1 = (fl_ctx p)\<lparr>pc_cluster := upd_clusterStatus (\<lambda>st. st\<lparr>st_phaseStatus := forget_phases names (st_phaseStatus st)\<rparr>) (pc_cluster (fl_ctx p))\<rparr>;
               (ctx2, r) = sync_cluster e [] ctx1
           in (p\<lparr>fl_ctx := ctx2\<rparr>, if r = Some Panicked then r else None))"

(* src: pkg/phaseframe/phases/phase_flow.go 255-328 PhaseFlow.executePhases *)
definition executePhases :: "('w, 'o, 'p) flow_env \<Rightarrow> (string \<Rightarrow> string) \<Rightarrow> bke_phase list \<Rightarrow> 'w flow \<Rightarrow> 'w flow \<times> loop_end" where
  "executePhases e cn names p =
     (let (p1, rest, r) = run_phases e cn (fl_phases p) \<lparr>lo_flow = p, lo_names = names, lo_res = no_requeue, lo_errs = []\<rparr>;
          (p2, r2) = cleanupUnexecutedPhases e rest p1
      in (p2, if r2 \<noteq> None then Loop_panic else r))"

(* src: pkg/phaseframe/phases/phase_flow.go 228-238 PhaseFlow.determinePhases *)
definition determinePhases :: "'w flow \<Rightarrow> bke_phase list" where
  "determinePhases p =
     (if IsDeleteOrReset (pc_cluster (fl_ctx p)) then ClusterDeleteResetPhaseNames
      else waiting_phases (st_phaseStatus (bc_status (pc_cluster (fl_ctx p)))))"

text \<open>The caller sees a result and errors; a recovered panic leaves the zero values of both. The watch
  that runs beside it is \<^const>\<open>WatchBKEClusterStatus\<close>.\<close>

(* src: pkg/phaseframe/phases/phase_flow.go 207-225 PhaseFlow.Execute, handlePanic *)
definition flow_Execute :: "('w, 'o, 'p) flow_env \<Rightarrow> (string \<Rightarrow> string) \<Rightarrow> 'w flow \<Rightarrow> 'w flow \<times> ctrl_outcome \<times> merge_error list" where
  "flow_Execute e cn p =
     (case executePhases e cn (determinePhases p) p of
        (p', Loop_panic) \<Rightarrow> (p', no_requeue, [])
      | (p', Loop_return res errs) \<Rightarrow> (p', res, errs))"

section \<open>Running a single phase\<close>

datatype runner_error = Runner_message string | Runner_failed merge_error

text \<open>\<open>resolve\<close> is the factory: the phase for a handler and a version.\<close>

(* src: pkg/componentfactory/runner.go 28-57 PhaseRunner.Execute *)
definition PhaseRunner_Execute :: "('w, 'o, 'p) flow_env \<Rightarrow> (string \<Rightarrow> string \<Rightarrow> string + 'w phase) option \<Rightarrow> bke_cluster option \<Rightarrow> bke_cluster \<Rightarrow>
    string \<Rightarrow> string \<Rightarrow> 'w phase_ctx \<Rightarrow> 'w phase_ctx \<times> runner_error option" where
  "PhaseRunner_Execute e factory old new handler version ctx =
     (case factory of None \<Rightarrow> (ctx, Some (Runner_message ''phase runner or factory is nil''))
      | Some resolve \<Rightarrow>
          (case resolve handler version of Inl msg \<Rightarrow> (ctx, Some (Runner_message msg))
           | Inr ph \<Rightarrow>
               (case ph_need ph old new (ph_base ph) ctx of
                  (b1, ctx1, False) \<Rightarrow> (ctx1, None)
                | (b1, ctx1, True) \<Rightarrow>
                    (case ph_pre ph (DefaultPreHook e (ph_preHooks ph)) b1 ctx1 of
                       (b2, ctx2, Some er) \<Rightarrow> (ctx2, Some (Runner_failed er))
                     | (b2, ctx2, None) \<Rightarrow>
                         (case ph_exec ph b2 ctx2 of
                            (b3, ctx3, res, perr) \<Rightarrow>
                              if perr = Some Panicked then (ctx3, Some (Runner_failed Panicked))
                              else (case ph_post ph (DefaultPostHook e (ph_postHooks ph)) perr b3 ctx3 of
                                      (b4, ctx4, Some er) \<Rightarrow> (ctx4, Some (Runner_failed er))
                                    | (b4, ctx4, None) \<Rightarrow>
                                        (ctx4, if perr \<noteq> None then map_option Runner_failed perr
                                               else if co_requeue res \<or> co_requeueAfter res > 0
                                                    then Some (Runner_message (''inline phase '' @ handler @ '' requested requeue''))
                                               else None)))))))"

section \<open>Lemmas\<close>

lemma sync_total: "time_passes (fe_merge e) (fe_clock e) \<Longrightarrow> SyncStatusUntilComplete (fe_merge e) (fe_clock e) ps c mw \<noteq> None"
  using cluster_sync_loop_ends by (fastforce simp: SyncStatusUntilComplete_def)

text \<open>The methods of the phases know their names and do not touch the mark of a finished upgrade.\<close>

definition phases_ok :: "(bke_phase \<Rightarrow> 'w phase) \<Rightarrow> bool" where
  "phases_ok mk \<longleftrightarrow> (\<forall>name. ph_name (mk name) = name) \<and>
     (\<forall>name old new b ctx b' ctx' r. ph_need (mk name) old new b ctx = (b', ctx', r) \<longrightarrow>
        bp_name b' = bp_name b \<and> pc_dagCompleted ctx' = pc_dagCompleted ctx)"

lemma phases_okD:
  assumes "phases_ok mk"
  shows "ph_name (mk name) = name" "ph_need (mk name) old new b ctx = (b', ctx', r) \<Longrightarrow> bp_name b' = bp_name b"
    "ph_need (mk name) old new b ctx = (b', ctx', r) \<Longrightarrow> pc_dagCompleted ctx' = pc_dagCompleted ctx"
  using assms unfolding phases_ok_def by blast+

lemma add_phases_names:
  assumes "phases_ok mk" "add_phases mk skip old new names ctx = (ctx', phs)"
  shows "subseq (map ph_name phs) names \<and>
    (\<forall>n\<in>set (map ph_name phs). \<not> (pc_dagCompleted ctx \<and> IsDeclarativeInlineUpgradePhase n) \<and> \<not> (skip \<and> isLegacyClusterUpgradePhase n))"
  using assms(2)
proof (induction names arbitrary: ctx ctx' phs)
  case (Cons name names)
  note nm = phases_okD(1) [OF assms(1)]
  show ?case
  proof (cases "skipPhaseAfterDeclarativeDAG ctx name \<or> skip \<and> isLegacyClusterUpgradePhase name")
    case True
    with Cons.prems nm have "add_phases mk skip old new names ctx = (ctx', phs)" by (auto simp: Let_def split: if_splits)
    from Cons.IH [OF this] show ?thesis by auto
  next
    case False
    obtain b ctx1 r where nd: "ph_need (mk name) old new (ph_base (mk name)) ctx = (b, ctx1, r)" by (metis prod.collapse)
    obtain ctx2 phs' where rest: "add_phases mk skip old new names ctx1 = (ctx2, phs')" by fastforce
    note IH = Cons.IH [OF rest]
    have dag: "pc_dagCompleted ctx1 = pc_dagCompleted ctx" by (rule phases_okD(3) [OF assms(1) nd])
    have "phs = (if r then (mk name)\<lparr>ph_base := b\<rparr> # phs' else phs')"
      using Cons.prems False nd rest nm by (auto simp: Let_def split: if_splits bool.splits)
    moreover have "ph_name ((mk name)\<lparr>ph_base := b\<rparr>) = name" using phases_okD(2) [OF assms(1) nd] nm by (simp add: ph_name_def)
    ultimately show ?thesis using IH dag False by (auto simp: skipPhaseAfterDeclarativeDAG_def)
  qed
qed simp

lemma shouldSkipLegacyUpgrade_ctx:
  "shouldSkipLegacyUpgrade e ctx = (ctx', r) \<Longrightarrow> pc_dagCompleted ctx' = pc_dagCompleted ctx"
  by (auto simp: shouldSkipLegacyUpgrade_def Let_def pc_upd_w_def split: if_splits prod.splits sum.splits)

text \<open>A step of the loop takes the name of its phase off the list, and an end has errors.\<close>

lemma finish_phase_names:
  "(finish_phase e ph err b s = Next s' \<longrightarrow> lo_names s' = lo_names s) \<and>
   (finish_phase e ph err b s = End p names r \<longrightarrow> names = lo_names s \<and> (\<forall>res. r \<noteq> Loop_return res []))"
  by (auto simp: finish_phase_def Let_def lo_end_def lo_upd_ctx_def split: if_splits prod.splits option.splits)

lemma run_phase_names:
  "(run_phase e cn ph s = Next s' \<longrightarrow> lo_names s' = filter (\<lambda>n. n \<noteq> ph_name ph) (lo_names s)) \<and>
   (run_phase e cn ph s = End p names r \<longrightarrow> names = filter (\<lambda>n. n \<noteq> ph_name ph) (lo_names s) \<and> (\<forall>res. r \<noteq> Loop_return res []))"
proof (cases "phase_In (ph_name ph) (lo_names s)")
  case False
  then have "filter (\<lambda>n. n \<noteq> ph_name ph) (lo_names s) = lo_names s" by (auto simp: phase_In_iff filter_id_conv)
  with False finish_phase_names [of e ph None "(ph_base ph)\<lparr>bp_status := PhaseSkipped\<rparr>" s s' p names r] show ?thesis
    by (auto simp: run_phase_def Let_def)
next
  case True
  define s1 where "s1 = s\<lparr>lo_names := phases_Remove (lo_names s) [ph_name ph]\<rparr>"
  have n1: "lo_names s1 = filter (\<lambda>n. n \<noteq> ph_name ph) (lo_names s)" by (simp add: s1_def phases_Remove_filter)
  have f: "(finish_phase e ph err b t = Next s' \<longrightarrow> lo_names s' = lo_names t) \<and>
      (finish_phase e ph err b t = End p names r \<longrightarrow> names = lo_names t \<and> (\<forall>res. r \<noteq> Loop_return res []))" for err b t
    by (rule finish_phase_names)
  have u: "lo_names (lo_upd_ctx ctx t) = lo_names t" for ctx t by (simp add: lo_upd_ctx_def)
  show ?thesis
  proof (cases "fl_new (lo_flow s)")
    case None
    with True n1 show ?thesis by (auto simp: run_phase_def Let_def lo_end_def s1_def)
  next
    case (Some new)
    obtain b1 ctx1 nd where 1: "ph_need ph (fl_old (lo_flow s)) new (ph_base ph) (fl_ctx (lo_flow s)) = (b1, ctx1, nd)" by (metis prod.collapse)
    obtain b2 ctx2 r2 where 2: "ph_pre ph (DefaultPreHook e (ph_preHooks ph @ [pre_status_hook, registerPhaseCName cn])) b1 ctx1 = (b2, ctx2, r2)" by (metis prod.collapse)
    obtain b3 ctx3 res perr where 3: "ph_exec ph b2 ctx2 = (b3, ctx3, res, perr)" by (metis prod.collapse)
    let ?skip = "finish_phase e ph None (b1\<lparr>bp_status := PhaseSkipped\<rparr>) (lo_upd_ctx ctx1 s1)"
    let ?run = "finish_phase e ph perr b3 ((lo_upd_ctx ctx3 s1)\<lparr>lo_errs := lo_errs s @ errors_of perr, lo_res := fe_lowest e (lo_res s) res\<rparr>)"
    have "run_phase e cn ph s =
      (if \<not> nd then ?skip
       else case r2 of Some er \<Rightarrow> lo_end (lo_upd_ctx ctx2 s1) (if er = Panicked then Loop_panic else Loop_return (lo_res s) [er])
            | None \<Rightarrow> if perr = Some Panicked then lo_end (lo_upd_ctx ctx3 s1) Loop_panic else ?run)"
      using True Some 1 2 3 by (simp add: run_phase_def Let_def s1_def split: bool.splits option.splits)
    with f [of None "b1\<lparr>bp_status := PhaseSkipped\<rparr>" "lo_upd_ctx ctx1 s1"]
      f [of perr b3 "(lo_upd_ctx ctx3 s1)\<lparr>lo_errs := lo_errs s @ errors_of perr, lo_res := fe_lowest e (lo_res s) res\<rparr>"]
    show ?thesis by (auto simp: u n1 lo_end_def split: if_splits option.splits)
  qed
qed

lemma run_phases_accounts:
  assumes "run_phases e cn phs s = (p, names, r)"
  shows "\<exists>done rest. phs = done @ rest \<and> names = filter (\<lambda>n. n \<notin> ph_name ` set done) (lo_names s) \<and> ((\<exists>res. r = Loop_return res []) \<longrightarrow> rest = [])"
  using assms
proof (induction phs arbitrary: s)
  case Nil
  then show ?case by simp
next
  case (Cons ph phs)
  show ?case
  proof (cases "run_phase e cn ph s")
    case (Next s')
    then have n: "lo_names s' = filter (\<lambda>n. n \<noteq> ph_name ph) (lo_names s)" using run_phase_names [of e cn ph s s'] by blast
    from Next Cons.prems have "run_phases e cn phs s' = (p, names, r)" by simp
    from Cons.IH [OF this] obtain d rest where d: "phs = d @ rest" "names = filter (\<lambda>n. n \<notin> ph_name ` set d) (lo_names s')"
      "(\<exists>res. r = Loop_return res []) \<longrightarrow> rest = []" by blast
    then have "names = filter (\<lambda>n. n \<notin> ph_name ` set (ph # d)) (lo_names s)" by (simp add: n conj_commute)
    with d show ?thesis by (intro exI [of _ "ph # d"] exI [of _ rest]) simp
  next
    case (End p' names' r')
    with Cons.prems have e: "p' = p" "names' = names" "r' = r" by auto
    from run_phase_names [of e cn ph s _ p' names' r'] End
    have "names' = filter (\<lambda>n. n \<noteq> ph_name ph) (lo_names s)" "\<forall>res. r' \<noteq> Loop_return res []" by blast+
    with e show ?thesis by (intro exI [of _ "[ph]"] exI [of _ phs]) auto
  qed
qed

lemma subseq_subset: "subseq xs ys \<Longrightarrow> set xs \<subseteq> set ys"
  by (induction rule: list_emb.induct) auto

section \<open>Properties\<close>

text \<open>C8. The phases of a run are a part of the registered ones, in their order. A cluster that is deleted
  or reset gets deletion phases only; after a finished declarative upgrade no phase of that upgrade
  is run again; and a cluster whose upgrade has failed gets no upgrade phase.\<close>

theorem phases_chosen:
  assumes "phases_ok mk" and "calculateAndAddPhases e mk old new (determinePhasesFuncs (fl_ctx p)) p = p'" and "fl_phases p = []"
  shows "subseq (map ph_name (fl_phases p')) (determinePhasesFuncs (fl_ctx p)) \<and>
    (IsDeleteOrReset (pc_cluster (fl_ctx p)) \<longrightarrow> set (map ph_name (fl_phases p')) \<subseteq> {''EnsurePaused'', ''EnsureDeleteOrReset''}) \<and>
    (pc_dagCompleted (fl_ctx p) \<longrightarrow> set (map ph_name (fl_phases p')) \<inter> set DeclarativeClusterUpgradePhaseNames = {}) \<and>
    (st_clusterHealthState (bc_status (pc_cluster (fl_ctx p))) = ''UpgradeFailed'' \<longrightarrow>
       (\<forall>n \<in> set (map ph_name (fl_phases p')). \<not> isLegacyClusterUpgradePhase n))"
proof -
  obtain ctx1 skip where sk: "shouldSkipLegacyUpgrade e (fl_ctx p) = (ctx1, skip)" by fastforce
  obtain ctx2 phs where ad: "add_phases mk skip old new (determinePhasesFuncs (fl_ctx p)) ctx1 = (ctx2, phs)" by fastforce
  have phs: "fl_phases p' = phs" using assms(2,3) sk ad by (auto simp: calculateAndAddPhases_def)
  note nm = add_phases_names [OF assms(1) ad, folded phs, unfolded shouldSkipLegacyUpgrade_ctx [OF sk]]
  have sub: "set (map ph_name (fl_phases p')) \<subseteq> set (determinePhasesFuncs (fl_ctx p))"
    using nm by (blast dest: subseq_subset)
  have "st_clusterHealthState (bc_status (pc_cluster (fl_ctx p))) = ''UpgradeFailed'' \<longrightarrow> skip"
    using sk by (auto simp: shouldSkipLegacyUpgrade_def Let_def)
  with nm sub show ?thesis
    by (auto simp: determinePhasesFuncs_def DeletePhases_def IsDeclarativeInlineUpgradePhase_def)
qed

text \<open>A run deals with its phases from the front: when it ends, exactly the names of the phases of a
  first part of the list are off the list of waiting names, and a run that reports no error and does
  not panic has dealt with all of them.\<close>

theorem run_accounts:
  assumes "run_phases e cn phs s = (p, names, r)"
  shows "\<exists>done rest. phs = done @ rest \<and> names = filter (\<lambda>n. n \<notin> ph_name ` set done) (lo_names s) \<and>
    (\<forall>res. r = Loop_return res [] \<longrightarrow> rest = [])"
  using run_phases_accounts [OF assms] by blast

text \<open>C31. A phase that fails ends the run: the outcome does not depend on the phases behind it, and the
  failure is among the reported errors unless writing the status panics.\<close>

theorem failing_phase_stops:
  assumes "phase_In (ph_name ph) (lo_names s)" and "fl_new (lo_flow s) = Some new"
    and "ph_need ph (fl_old (lo_flow s)) new (ph_base ph) (fl_ctx (lo_flow s)) = (b1, ctx1, True)"
    and "ph_pre ph (DefaultPreHook e (ph_preHooks ph @ [pre_status_hook, registerPhaseCName cn])) b1 ctx1 = (b2, ctx2, None)"
    and "ph_exec ph b2 ctx2 = (b3, ctx3, res, Some (Failed_with err))" and "bp_status b3 \<noteq> PhaseSkipped"
  shows "\<exists>p' r. (\<forall>phs. run_phases e cn (ph # phs) s = (p', filter (\<lambda>n. n \<noteq> ph_name ph) (lo_names s), r)) \<and>
    (r = Loop_panic \<or> (\<exists>res' errs. r = Loop_return res' errs \<and> Failed_with err \<in> set errs))"
proof -
  define s1 where "s1 = s\<lparr>lo_names := phases_Remove (lo_names s) [ph_name ph]\<rparr>"
  let ?t = "(lo_upd_ctx ctx3 s1)\<lparr>lo_errs := lo_errs s @ [Failed_with err], lo_res := fe_lowest e (lo_res s) res\<rparr>"
  have run: "run_phase e cn ph s = finish_phase e ph (Some (Failed_with err)) b3 ?t"
    using assms by (simp add: run_phase_def Let_def s1_def errors_of_def)
  obtain b4 ctx4 r4 where post: "ph_post ph (DefaultPostHook e (ph_postHooks ph @ [post_status_hook])) (Some (Failed_with err)) b3 (fl_ctx (lo_flow ?t)) = (b4, ctx4, r4)"
    by (metis prod.collapse)
  obtain p5 r5 where ref: "refreshOldAndNewBKECluster e ((lo_flow ?t)\<lparr>fl_ctx := ctx4\<rparr>) = (p5, r5)" by fastforce
  have names: "lo_names ?t = filter (\<lambda>n. n \<noteq> ph_name ph) (lo_names s)" by (simp add: lo_upd_ctx_def s1_def phases_Remove_filter)
  have "finish_phase e ph (Some (Failed_with err)) b3 ?t =
      (if r4 = Some Panicked then lo_end (lo_upd_ctx ctx4 ?t) Loop_panic
       else lo_end (?t\<lparr>lo_flow := p5\<rparr>) (Loop_return (lo_res ?t) (lo_errs ?t @ errors_of r4 @ errors_of r5)))"
    using assms(6) post ref by (simp add: finish_phase_def Let_def)
  with run names show ?thesis by (auto simp: lo_end_def lo_upd_ctx_def)
qed

text \<open>The state that a failure of a phase leaves, for all phases at once.\<close>

definition failure_state :: "bke_phase \<Rightarrow> string" where
  "failure_state name = st_clusterStatus (bc_status (calculateClusterStatusByPhase name (Some Panicked) (blank_cluster [] [])))"

lemma failure_state_set:
  "name \<noteq> ''EnsureCluster'' \<Longrightarrow> err \<noteq> None \<Longrightarrow> calculateClusterStatusByPhase name err c = set_clusterStatus c (failure_state name)"
  by (simp add: failure_state_def calculateClusterStatusByPhase_def set_by_result_def)

lemma failure_state_table:
  "list_all (\<lambda>name. name = ''EnsureCluster'' \<or>
      (failed_state (failure_state name) \<longleftrightarrow> name \<notin> {''EnsureNodesPostProcess'', ''EnsureProviderSelfUpgrade'', ''EnsureClusterAPIManagerManifest''}) \<and>
      (failure_state name \<noteq> ''Unknown'' \<longleftrightarrow> failed_state (failure_state name))) FullPhasesRegisFunc"
  by code_simp

text \<open>The state of the cluster after a failed phase: every registered phase but four leaves a state
  that counts as failed, with the request to record it. The health check sets the state itself; the
  processing after the deployment, the upgrade of the provider and the manifests of the cluster
  manager leave the state unknown, and their failures are not recorded.\<close>

theorem phase_failure_state:
  assumes "name \<in> set FullPhasesRegisFunc" and "name \<noteq> ''EnsureCluster''" and "err \<noteq> None"
    and "HasAnnotation c StatusRecordAnnotationKey = None"
  shows "let c' = calculatingClusterPostStatusByPhase name err c in
    (failed_state (st_clusterStatus (bc_status c')) \<longleftrightarrow> name \<notin> {''EnsureNodesPostProcess'', ''EnsureProviderSelfUpgrade'', ''EnsureClusterAPIManagerManifest''}) \<and>
    (HasAnnotation c' StatusRecordAnnotationKey \<noteq> None \<longleftrightarrow> failed_state (st_clusterStatus (bc_status c')))"
proof -
  let ?st = "failure_state name"
  have c: "calculateClusterStatusByPhase name err c = set_clusterStatus c ?st" using failure_state_set assms(2,3) by blast
  have "name = ''EnsureCluster'' \<or> (failed_state ?st \<longleftrightarrow> name \<notin> {''EnsureNodesPostProcess'', ''EnsureProviderSelfUpgrade'', ''EnsureClusterAPIManagerManifest''}) \<and>
      (?st \<noteq> ''Unknown'' \<longleftrightarrow> failed_state ?st)"
    by (rule bspec [OF failure_state_table [unfolded list_all_iff] assms(1)])
  with assms(2) have t: "failed_state ?st \<longleftrightarrow> name \<notin> {''EnsureNodesPostProcess'', ''EnsureProviderSelfUpgrade'', ''EnsureClusterAPIManagerManifest''}"
    "?st \<noteq> ''Unknown'' \<longleftrightarrow> failed_state ?st" by blast+
  have a: "HasAnnotation (set_clusterStatus c ?st) StatusRecordAnnotationKey = None" using assms(4) by (simp only: HasAnnotation_def set_status_frame)
  define c' where "c' = calculatingClusterPostStatusByPhase name err c"
  have "c' = (if failed_state ?st then SetAnnotation (set_clusterStatus c ?st) StatusRecordAnnotationKey [] else set_clusterStatus c ?st)"
    unfolding c'_def calculatingClusterPostStatusByPhase_def Let_def c set_status_frame t(2) by (rule refl)
  then have "st_clusterStatus (bc_status c') = ?st" "HasAnnotation c' StatusRecordAnnotationKey \<noteq> None \<longleftrightarrow> failed_state ?st"
    using a by simp_all
  with t(1) show ?thesis unfolding c'_def Let_def by simp
qed

section \<open>Witnesses\<close>


definition demo_flow_env :: "(demo_world, string, string) flow_env" where
  "demo_flow_env = \<lparr>fe_merge = demo_merge, fe_clock = dw_time, fe_owner = (\<lambda>c w. (w, Inr None)), fe_hasPaused = (\<lambda>c. False),
     fe_clusterVersion = (\<lambda>c w. (w, Inl ErrNotFound)), fe_lowest = (\<lambda>a b. a), fe_errorText = (\<lambda>x. ''failed'')\<rparr>"

text \<open>A phase that is always needed and ends as given.\<close>

definition demo_phase :: "merge_error option \<Rightarrow> bke_phase \<Rightarrow> demo_world phase" where
  "demo_phase r name = \<lparr>ph_base = demo_base_phase name [],
     ph_need = (\<lambda>old new b ctx. (b\<lparr>bp_status := PhaseWaiting\<rparr>, ctx, True)), ph_exec = (\<lambda>b ctx. (b, ctx, no_requeue, r)),
     ph_preHooks = [], ph_postHooks = [], ph_pre = (\<lambda>d. d), ph_post = (\<lambda>d. d)\<rparr>"

definition demo_ctx :: "bke_cluster \<Rightarrow> demo_world phase_ctx" where
  "demo_ctx c = \<lparr>pc_world = (NewStatusManager, \<lparr>dw_clusters = [((bc_namespace c, bc_name c), c)], dw_nodes = [], dw_time = 0\<rparr>),
     pc_cluster = c, pc_owner = None, pc_hasClient = True, pc_versionContext = None, pc_dagCompleted = True, pc_cancelled = False\<rparr>"

definition demo_flow_cluster :: bke_cluster where
  "demo_flow_cluster = (blank_cluster ''ns'' ''c1'')\<lparr>bc_spec := demo_spec False False\<rparr>"

definition demo_flow :: "demo_world flow" where
  "demo_flow = NewPhaseFlow (demo_ctx demo_flow_cluster)"

lemma demo_phases_ok: "phases_ok (demo_phase r)"
  by (simp add: phases_ok_def demo_phase_def ph_name_def demo_base_phase_def)

theorem phases_chosen_witness:
  "\<exists>p'. calculateAndAddPhases demo_flow_env (demo_phase None) None demo_flow_cluster FullPhasesRegisFunc demo_flow = p' \<and>
     set (map ph_name (fl_phases p')) \<inter> set DeclarativeClusterUpgradePhaseNames = {}"
proof -
  have d: "determinePhasesFuncs (fl_ctx demo_flow) = FullPhasesRegisFunc" "fl_phases demo_flow = []" "pc_dagCompleted (fl_ctx demo_flow)"
    by (simp_all add: determinePhasesFuncs_def demo_flow_def NewPhaseFlow_def demo_ctx_def demo_flow_cluster_def IsDeleteOrReset_def demo_spec_def)
  from phases_chosen [OF demo_phases_ok [of None] refl d(2), of demo_flow_env None demo_flow_cluster] show ?thesis
    by (simp add: d)
qed

definition demo_loop :: "bke_phase list \<Rightarrow> demo_world loop_state" where
  "demo_loop names = \<lparr>lo_flow = demo_flow\<lparr>fl_new := Some demo_flow_cluster\<rparr>, lo_names = names, lo_res = no_requeue, lo_errs = []\<rparr>"

theorem run_accounts_witness:
  "\<exists>p names r. run_phases demo_flow_env id [demo_phase None ''EnsureCerts''] (demo_loop [''EnsureCerts'', ''EnsurePaused'']) = (p, names, r) \<and>
     set names \<subseteq> {''EnsureCerts'', ''EnsurePaused''}"
proof -
  obtain p names r where run: "run_phases demo_flow_env id [demo_phase None ''EnsureCerts''] (demo_loop [''EnsureCerts'', ''EnsurePaused'']) = (p, names, r)"
    by (metis prod.collapse)
  from run_accounts [OF run] have "set names \<subseteq> set (lo_names (demo_loop [''EnsureCerts'', ''EnsurePaused'']))" by auto
  with run show ?thesis by (simp add: demo_loop_def)
qed

theorem failing_phase_stops_witness:
  "\<exists>p' r. (\<lambda>phs. run_phases demo_flow_env id (demo_phase (Some (Failed_with ApiTimeout)) ''EnsureCerts'' # phs) (demo_loop [''EnsureCerts'', ''EnsurePaused''])) =
       (\<lambda>phs. (p', [''EnsurePaused''], r)) \<and> r \<noteq> Loop_return no_requeue []"
proof -
  let ?ph = "demo_phase (Some (Failed_with ApiTimeout)) ''EnsureCerts''" and ?s = "demo_loop [''EnsureCerts'', ''EnsurePaused'']"
  let ?b1 = "(ph_base ?ph)\<lparr>bp_status := PhaseWaiting\<rparr>" and ?ctx = "fl_ctx (lo_flow ?s)"
  have nm: "ph_name ?ph = ''EnsureCerts''" by (simp add: demo_phase_def ph_name_def demo_base_phase_def)
  have "snd (snd (DefaultPreHook demo_flow_env [pre_status_hook, registerPhaseCName id] ?b1 ?ctx)) = None \<and>
      bp_status (fst (DefaultPreHook demo_flow_env [pre_status_hook, registerPhaseCName id] ?b1 ?ctx)) \<noteq> PhaseSkipped" by code_simp
  then obtain b2 ctx2 where pre: "DefaultPreHook demo_flow_env [pre_status_hook, registerPhaseCName id] ?b1 ?ctx = (b2, ctx2, None)"
    and b2: "bp_status b2 \<noteq> PhaseSkipped" by (metis prod.collapse)
  have "\<exists>p' r. (\<forall>phs. run_phases demo_flow_env id (?ph # phs) ?s = (p', filter (\<lambda>n. n \<noteq> ph_name ?ph) (lo_names ?s), r)) \<and>
    (r = Loop_panic \<or> (\<exists>res' errs. r = Loop_return res' errs \<and> Failed_with ApiTimeout \<in> set errs))"
  proof (rule failing_phase_stops)
    show "phase_In (ph_name ?ph) (lo_names ?s)" by (simp add: nm demo_loop_def)
    show "fl_new (lo_flow ?s) = Some demo_flow_cluster" by (simp add: demo_loop_def)
    show "ph_need ?ph (fl_old (lo_flow ?s)) demo_flow_cluster (ph_base ?ph) ?ctx = (?b1, ?ctx, True)" by (simp add: demo_phase_def)
    show "ph_pre ?ph (DefaultPreHook demo_flow_env (ph_preHooks ?ph @ [pre_status_hook, registerPhaseCName id])) ?b1 ?ctx = (b2, ctx2, None)"
      using pre by (simp add: demo_phase_def)
    show "ph_exec ?ph b2 ctx2 = (b2, ctx2, no_requeue, Some (Failed_with ApiTimeout))" by (simp add: demo_phase_def)
  qed (rule b2)
  then show ?thesis unfolding nm by (auto simp: demo_loop_def fun_eq_iff)
qed

theorem phase_failure_state_witness:
  "failed_state (st_clusterStatus (bc_status (calculatingClusterPostStatusByPhase ''EnsureEtcdUpgrade'' (Some (Failed_with ApiTimeout)) demo_flow_cluster)))"
proof -
  have m: "''EnsureEtcdUpgrade'' \<in> set FullPhasesRegisFunc" "HasAnnotation demo_flow_cluster StatusRecordAnnotationKey = None" by code_simp+
  from phase_failure_state [OF m(1) _ _ m(2), of "Some (Failed_with ApiTimeout)"] show ?thesis by (simp add: Let_def)
qed

definition demo_waiting :: bke_cluster where
  "demo_waiting = report_record (demo_base_phase ''EnsureCerts'' PhaseWaiting) 0 [] demo_flow_cluster"

text \<open>A panic in a phase looks like success to the caller: the recovered run returns no error and asks
  for no further round, while the history still shows the phase as running.\<close>

theorem panic_looks_like_success:
  "case flow_Execute demo_flow_env id ((NewPhaseFlow (demo_ctx demo_waiting))\<lparr>fl_phases := [demo_phase (Some Panicked) ''EnsureCerts''], fl_new := Some demo_waiting\<rparr>) of
     (p', res, errs) \<Rightarrow> errs = [] \<and> res = no_requeue \<and>
       map (\<lambda>p. (ps_name p, ps_status p)) (st_phaseStatus (bc_status (pc_cluster (fl_ctx p')))) = [(''EnsureCerts'', PhaseRunning)]"
  by code_simp

end
