(* ===== verification/Compatibility.thy ===== *)
theory Compatibility
  imports Upgrade_Plan
begin

text \<open>
  The compatibility check of a release (\<^verbatim>\<open>pkg/release/compatibility\<close>): the release is
  flattened to its leaf components by a depth-first walk through the composite ones, and every
  constraint of every leaf is checked against the version that the release has of the component it
  names.

  Versions and constraints are read by the package \<^verbatim>\<open>Masterminds/semver\<close>, which is a
  parameter: two parsers that may fail and the check of a version against a constraint. The walk is
  written with the list of references that are still to be visited, the references of a composite
  component in front: that is the order of the recursive function of the source.

  The results: flattening fails exactly when a component that the release reaches is missing and
  otherwise lists the leaves that it reaches, each once and below a component that has it as a part;
  a report allows a release exactly when it has no conflict, and that is when all constraints of all
  leaves hold.
\<close>

section \<open>Definitions\<close>

subsection \<open>types.go\<close>

(* src: pkg/release/compatibility/types.go 28-33 ResolvedComponent *)
record resolved_component =
  rc_name :: string
  rc_version :: string
  rc_parent :: string
  rc_installType :: string

(* src: pkg/release/compatibility/types.go 35-41 Conflict *)
record conflict =
  cf_component :: string
  cf_version :: string
  cf_requiredBy :: string
  cf_rule :: string
  cf_message :: string

(* src: pkg/release/compatibility/types.go 22-26 Report *)
record compat_report =
  rp_allowed :: bool
  rp_components :: "resolved_component list"
  rp_conflicts :: "conflict list"

(* src: pkg/release/compatibility/types.go 43-53 Report.Detail *)
definition report_Detail :: "compat_report \<Rightarrow> string" where
  "report_Detail r =
     (if rp_allowed r then ''compatibility check passed''
      else TrimSpace (concat (map (\<lambda>c. ''component='' @ cf_component c @ '' version='' @ cf_version c @ '' requiredBy='' @
             cf_requiredBy c @ '' rule='' @ cf_rule c @ '' message='' @ cf_message c @ [CHR 0x0A]) (rp_conflicts r))))"

subsection \<open>flatten.go\<close>

(* src: pkg/release/compatibility/flatten.go 22-25 componentRef *)
type_synonym component_ref = "string \<times> string"

(* src: pkg/release/compatibility/flatten.go 72-85 releaseComponents *)
definition releaseComponents :: "release_image \<Rightarrow> component_ref list" where
  "releaseComponents ri =
     (case rs_install (ri_spec ri) of None \<Rightarrow> [] | Some cs \<Rightarrow> map (\<lambda>c. (ic_name c, ic_version c)) cs) @
     (case rs_upgrade (ri_spec ri) of None \<Rightarrow> [] | Some cs \<Rightarrow> map (\<lambda>c. (uc_name c, uc_version c)) cs)"

definition leaf_entry :: "string \<Rightarrow> component_version \<Rightarrow> resolved_component" where
  "leaf_entry parent cv = \<lparr>rc_name = cv_name cv, rc_version = cv_version cv, rc_parent = parent, rc_installType = cv_type cv\<rparr>"

(* src: pkg/release/compatibility/flatten.go 34-62 walk *)
function walk :: "component_version gomap \<Rightarrow> (string \<times> component_ref) list \<Rightarrow> string list \<Rightarrow> resolved_component list \<Rightarrow>
    string + resolved_component list" where
  "walk comps [] visited result = Inr result"
| "walk comps ((parent, name, version) # rest) visited result =
     (let key = ComponentKey name version in
      if key \<in> set visited then walk comps rest visited result
      else case map_of comps key of
             None \<Rightarrow> Inl (''component '' @ key @ '' not found in release bundle'')
           | Some cv \<Rightarrow>
               if cv_subComponents cv \<noteq> []
               then walk comps (map (\<lambda>s. (cv_name cv, sc_name s, sc_version s)) (cv_subComponents cv) @ rest) (key # visited) result
               else walk comps rest (key # visited) (result @ [leaf_entry parent cv]))"
  by pat_completeness auto

text \<open>Every visited component is one of the bundle, and none is visited twice.\<close>

lemma walk_measure:
  assumes "map_of comps key = Some cv" and "key \<notin> set visited"
  shows "card (fst ` set comps - insert key (set visited)) < card (fst ` set comps - set visited)"
proof -
  have "key \<in> fst ` set comps - set visited" using assms by (force dest: map_of_SomeD)
  then show ?thesis by (metis card_Diff1_less finite_Diff finite_imageI finite_set Diff_insert)
qed

termination walk
  by (relation "measures [\<lambda>(comps, stack, visited, result). card (fst ` set comps - set visited), \<lambda>(comps, stack, visited, result). length stack]")
    (auto simp: walk_measure)

(* src: pkg/release/compatibility/flatten.go 27-70 Flatten *)
definition Flatten :: "release_bundle option \<Rightarrow> string + resolved_component list" where
  "Flatten bundle =
     (case bundle of None \<Rightarrow> Inl ''release bundle is nil''
      | Some b \<Rightarrow> walk (bu_components b) (map (\<lambda>ref. ([], ref)) (releaseComponents (bu_release b))) [] [])"

subsection \<open>engine.go\<close>

text \<open>\<^verbatim>\<open>strings.Fields\<close> and \<^verbatim>\<open>strings.Index\<close>.\<close>

fun split_space :: "string \<Rightarrow> string list" where
  "split_space [] = [[]]"
| "split_space (c # cs) =
     (if is_space c then [] # split_space cs
      else case split_space cs of [] \<Rightarrow> [[c]] | p # ps \<Rightarrow> (c # p) # ps)"

definition Fields :: "string \<Rightarrow> string list" where
  "Fields s = filter (\<lambda>p. p \<noteq> []) (split_space s)"

fun Index :: "string \<Rightarrow> string \<Rightarrow> nat option" where
  "Index [] sub = (if sub = [] then Some 0 else None)"
| "Index (c # cs) sub = (if HasPrefix (c # cs) sub then Some 0 else map_option Suc (Index cs sub))"

definition constraint_ops :: "string list" where
  "constraint_ops = [''>='', ''<='', ''!='', ''>'', ''<'', ''='']"

lemma TrimSpace_length: "length (TrimSpace s) \<le> length s"
proof -
  have "length (dropWhile is_space (rev (dropWhile is_space s))) \<le> length (dropWhile is_space s)"
    by (metis length_dropWhile_le length_rev)
  also have "\<dots> \<le> length s" by (rule length_dropWhile_le)
  finally show ?thesis by (simp add: TrimSpace_def TrimFunc_def)
qed

lemma TrimPrefix_length: "length (TrimPrefix s p) \<le> length s"
  by (simp add: TrimPrefix_def)

lemma find_op_shorter:
  assumes "find (HasPrefix v) constraint_ops = Some op"
  shows "length (TrimPrefix v op) < length v"
proof -
  have "op \<in> set constraint_ops" "HasPrefix v op" using assms by (auto simp: find_Some_iff)
  moreover from this have "op \<noteq> []" by (auto simp: constraint_ops_def)
  ultimately show ?thesis by (cases v) (auto simp: TrimPrefix_def HasPrefix_def)
qed

(* src: pkg/release/compatibility/engine.go 98-109 normalizeVersion *)
function normalizeVersion :: "string \<Rightarrow> string" where
  "normalizeVersion v0 =
     (let v = TrimPrefix (TrimSpace v0) ''v'' in
      case find (HasPrefix v) constraint_ops of
        Some op \<Rightarrow> op @ normalizeVersion (TrimPrefix v op)
      | None \<Rightarrow> (case Index v ''-of.'' of Some idx \<Rightarrow> take idx v | None \<Rightarrow> v))"
  by pat_completeness auto

termination normalizeVersion
proof (relation "measure length")
  fix v0 v op
  assume "v = TrimPrefix (TrimSpace v0) ''v''" "find (HasPrefix v) constraint_ops = Some op"
  then have "length (TrimPrefix v op) < length (TrimPrefix (TrimSpace v0) ''v'')" by (simp add: find_op_shorter)
  also have "\<dots> \<le> length v0" using TrimPrefix_length TrimSpace_length le_trans by blast
  finally show "(TrimPrefix v op, v0) \<in> measure length" by simp
qed simp

declare normalizeVersion.simps [simp del]

(* src: pkg/release/compatibility/engine.go 90-96 normalizeConstraint *)
definition normalizeConstraint :: "string \<Rightarrow> string" where
  "normalizeConstraint rule = Join (map normalizeVersion (Fields rule)) '' ''"

text \<open>The version library: \<^verbatim>\<open>NewConstraint\<close>, \<^verbatim>\<open>NewVersion\<close> and \<^verbatim>\<open>Constraints.Check\<close>.\<close>

record ('c, 'v) constraint_lib =
  cl_newConstraint :: "string \<Rightarrow> string + 'c"
  cl_newVersion :: "string \<Rightarrow> string + 'v"
  cl_check :: "'c \<Rightarrow> 'v \<Rightarrow> bool"

(* src: pkg/release/compatibility/engine.go 53-84 Engine.Check (rule) *)
definition check_rule :: "('c, 'v) constraint_lib \<Rightarrow> string gomap \<Rightarrow> string \<Rightarrow> compat_constraint \<Rightarrow> conflict option" where
  "check_rule lib versions requiredBy rule =
     (let bad = (\<lambda>actual msg. Some \<lparr>cf_component = cn_component rule, cf_version = actual, cf_requiredBy = requiredBy,
                                 cf_rule = cn_rule rule, cf_message = msg\<rparr>) in
      case map_of versions (cn_component rule) of
        None \<Rightarrow> bad [] ''required component is missing''
      | Some actual \<Rightarrow>
          (case cl_newConstraint lib (normalizeConstraint (cn_rule rule)) of
             Inl err \<Rightarrow> bad actual (''invalid compatibility rule: '' @ err)
           | Inr constraint \<Rightarrow>
               (case cl_newVersion lib (normalizeVersion actual) of
                  Inl _ \<Rightarrow> bad actual ''version does not satisfy constraint''
                | Inr version \<Rightarrow>
                    if cl_check lib constraint version then None
                    else bad actual ''version does not satisfy constraint'')))"

definition add_conflict :: "conflict \<Rightarrow> compat_report \<Rightarrow> compat_report" where
  "add_conflict c r = r\<lparr>rp_allowed := False, rp_conflicts := rp_conflicts r @ [c]\<rparr>"

(* src: pkg/release/compatibility/engine.go 43-86 Engine.Check (component) *)
definition check_component :: "('c, 'v) constraint_lib \<Rightarrow> component_version gomap \<Rightarrow> string gomap \<Rightarrow> resolved_component \<Rightarrow>
    compat_report \<Rightarrow> compat_report" where
  "check_component lib comps versions c report =
     (case map_of comps (ComponentKey (rc_name c) (rc_version c)) of
        None \<Rightarrow> add_conflict \<lparr>cf_component = rc_name c, cf_version = rc_version c, cf_requiredBy = [], cf_rule = [],
                              cf_message = ''resolved component is missing in bundle''\<rparr> report
      | Some cv \<Rightarrow>
          fold (\<lambda>rule r. case check_rule lib versions (rc_name c) rule of None \<Rightarrow> r | Some cf \<Rightarrow> add_conflict cf r)
            (cv_constraints cv) report)"

definition flat_versions :: "resolved_component list \<Rightarrow> string gomap" where
  "flat_versions flat = fold (\<lambda>c m. AList.update (rc_name c) (rc_version c) m) flat []"

(* src: pkg/release/compatibility/engine.go 30-88 Engine.Check *)
definition Check :: "('c, 'v) constraint_lib \<Rightarrow> release_bundle option \<Rightarrow> compat_report" where
  "Check lib bundle =
     (case Flatten bundle of
        Inl err \<Rightarrow> \<lparr>rp_allowed = False, rp_components = [],
                    rp_conflicts = [\<lparr>cf_component = ''release'', cf_version = [], cf_requiredBy = [], cf_rule = [], cf_message = err\<rparr>]\<rparr>
      | Inr flat \<Rightarrow>
          fold (check_component lib (bu_components (the bundle)) (flat_versions flat)) flat
            \<lparr>rp_allowed = True, rp_components = flat, rp_conflicts = []\<rparr>)"

section \<open>Flattening\<close>

text \<open>The specification: a component of the bundle has its parts, and the release reaches the
  components that it lists and, with a component, its parts.\<close>

definition part_keys :: "component_version gomap \<Rightarrow> string \<Rightarrow> string list" where
  "part_keys comps k =
     (case map_of comps k of None \<Rightarrow> [] | Some cv \<Rightarrow> map (\<lambda>s. ComponentKey (sc_name s) (sc_version s)) (cv_subComponents cv))"

definition root_keys :: "release_bundle \<Rightarrow> string set" where
  "root_keys b = (\<lambda>(n, v). ComponentKey n v) ` set (releaseComponents (bu_release b))"

inductive_set reached :: "component_version gomap \<Rightarrow> string set \<Rightarrow> string set"
  for comps :: "component_version gomap" and roots :: "string set" where
  listed: "k \<in> roots \<Longrightarrow> k \<in> reached comps roots"
| part: "k \<in> reached comps roots \<Longrightarrow> k' \<in> set (part_keys comps k) \<Longrightarrow> k' \<in> reached comps roots"

definition is_leaf :: "component_version gomap \<Rightarrow> string \<Rightarrow> bool" where
  "is_leaf comps k \<longleftrightarrow> (\<exists>cv. map_of comps k = Some cv \<and> cv_subComponents cv = [])"

definition release_complete :: "release_bundle \<Rightarrow> bool" where
  "release_complete b \<longleftrightarrow> (\<forall>k \<in> reached (bu_components b) (root_keys b). map_of (bu_components b) k \<noteq> None)"

text \<open>The parent of an entry: empty for a component that the release lists, otherwise the name of a
  component that has it as a part.\<close>

definition parent_of :: "component_version gomap \<Rightarrow> string set \<Rightarrow> string \<Rightarrow> string \<Rightarrow> bool" where
  "parent_of comps roots p k \<longleftrightarrow> p = [] \<and> k \<in> roots \<or>
     (\<exists>k' cv. k' \<in> reached comps roots \<and> map_of comps k' = Some cv \<and> p = cv_name cv \<and> k \<in> set (part_keys comps k'))"

definition stack_key :: "string \<times> component_ref \<Rightarrow> string" where
  "stack_key e = ComponentKey (fst (snd e)) (snd (snd e))"

definition leaves_listed :: "component_version gomap \<Rightarrow> string set \<Rightarrow> string set \<Rightarrow> resolved_component list \<Rightarrow> bool" where
  "leaves_listed comps roots ks result \<longleftrightarrow>
     (\<exists>pks. result = map (\<lambda>(p, k). leaf_entry p (the (map_of comps k))) pks \<and> distinct (map snd pks) \<and>
        set (map snd pks) = {k \<in> ks. is_leaf comps k} \<and> (\<forall>(p, k) \<in> set pks. parent_of comps roots p k))"

definition walk_inv :: "component_version gomap \<Rightarrow> string set \<Rightarrow> (string \<times> component_ref) list \<Rightarrow> string list \<Rightarrow>
    resolved_component list \<Rightarrow> bool" where
  "walk_inv comps roots stack visited result \<longleftrightarrow>
     roots \<subseteq> set visited \<union> stack_key ` set stack \<and>
     set visited \<union> stack_key ` set stack \<subseteq> reached comps roots \<and>
     (\<forall>k \<in> set visited. map_of comps k \<noteq> None \<and> set (part_keys comps k) \<subseteq> set visited \<union> stack_key ` set stack) \<and>
     (\<forall>e \<in> set stack. parent_of comps roots (fst e) (stack_key e)) \<and>
     leaves_listed comps roots (set visited) result"

lemma leaves_listed_leaf:
  assumes "leaves_listed comps roots ks result" and "map_of comps k = Some cv" and "cv_subComponents cv = []"
    and "k \<notin> ks" and "parent_of comps roots p k"
  shows "leaves_listed comps roots (insert k ks) (result @ [leaf_entry p cv])"
proof -
  obtain pks where "result = map (\<lambda>(p, k). leaf_entry p (the (map_of comps k))) pks" "distinct (map snd pks)"
    "set (map snd pks) = {k \<in> ks. is_leaf comps k}" "\<forall>(p, k) \<in> set pks. parent_of comps roots p k"
    using assms(1) by (auto simp: leaves_listed_def)
  moreover have "is_leaf comps k" using assms(2,3) by (simp add: is_leaf_def)
  ultimately show ?thesis
    unfolding leaves_listed_def using assms(2,4,5) by (intro exI [of _ "pks @ [(p, k)]"]) auto
qed

lemma leaves_listed_composite:
  assumes "leaves_listed comps roots ks result" and "map_of comps k = Some cv" and "cv_subComponents cv \<noteq> []"
  shows "leaves_listed comps roots (insert k ks) result"
proof -
  have "{x \<in> insert k ks. is_leaf comps x} = {x \<in> ks. is_leaf comps x}" using assms(2,3) by (auto simp: is_leaf_def)
  with assms(1) show ?thesis by (simp add: leaves_listed_def)
qed

lemma walk_inv_visited:
  "walk_inv comps roots (e # rest) visited result \<Longrightarrow> stack_key e \<in> set visited \<Longrightarrow> walk_inv comps roots rest visited result"
  by (auto simp: walk_inv_def)

lemma walk_inv_leaf:
  assumes "walk_inv comps roots (e # rest) visited result" and "map_of comps (stack_key e) = Some cv"
    and "cv_subComponents cv = []" and "stack_key e \<notin> set visited"
  shows "walk_inv comps roots rest (stack_key e # visited) (result @ [leaf_entry (fst e) cv])"
  using assms leaves_listed_leaf [of comps roots "set visited" result "stack_key e" cv "fst e"]
  by (auto simp: walk_inv_def part_keys_def)

lemma walk_inv_composite:
  assumes "walk_inv comps roots (e # rest) visited result" and "map_of comps (stack_key e) = Some cv"
    and "cv_subComponents cv \<noteq> []" and "stack_key e \<notin> set visited"
  shows "walk_inv comps roots (map (\<lambda>s. (cv_name cv, sc_name s, sc_version s)) (cv_subComponents cv) @ rest) (stack_key e # visited) result"
proof -
  let ?subs = "map (\<lambda>s. (cv_name cv, sc_name s, sc_version s)) (cv_subComponents cv)"
  have keys: "stack_key ` set ?subs = set (part_keys comps (stack_key e))"
    using assms(2) by (auto simp: part_keys_def stack_key_def image_image)
  have r: "stack_key e \<in> reached comps roots" using assms(1) by (auto simp: walk_inv_def)
  have "parent_of comps roots (fst x) (stack_key x)" if "x \<in> set ?subs" for x
  proof -
    have "stack_key x \<in> set (part_keys comps (stack_key e))" using that keys by blast
    with that r assms(2) show ?thesis by (auto simp: parent_of_def)
  qed
  moreover have "set (part_keys comps (stack_key e)) \<subseteq> reached comps roots" using r by (auto intro: reached.part)
  moreover have "leaves_listed comps roots (insert (stack_key e) (set visited)) result"
    using assms(1-3) by (auto simp: walk_inv_def intro: leaves_listed_composite)
  ultimately show ?thesis using assms(1,2) keys unfolding walk_inv_def set_append image_Un by auto
qed

lemma walk_result:
  "walk_inv comps roots stack visited result \<Longrightarrow>
   (case walk comps stack visited result of
      Inl _ \<Rightarrow> \<exists>k \<in> reached comps roots. map_of comps k = None
    | Inr result' \<Rightarrow> \<exists>visited'. walk_inv comps roots [] visited' result')"
proof (induction comps stack visited result rule: walk.induct)
  case (2 comps parent name version rest visited result)
  let ?e = "(parent, name, version)"
  have key: "ComponentKey name version = stack_key ?e" by (simp add: stack_key_def)
  show ?case
  proof (cases "stack_key ?e \<in> set visited")
    case True
    with 2 show ?thesis by (simp add: key walk_inv_visited)
  next
    case False
    show ?thesis
    proof (cases "map_of comps (stack_key ?e)")
      case None
      moreover have "stack_key ?e \<in> reached comps roots" using "2.prems" by (auto simp: walk_inv_def)
      ultimately show ?thesis using False by (auto simp: key)
    next
      case (Some cv)
      show ?thesis
      proof (cases "cv_subComponents cv = []")
        case True
        with 2 False Some walk_inv_leaf [OF "2.prems" Some] show ?thesis by (simp add: key)
      next
        case sub: False
        with 2 False Some walk_inv_composite [OF "2.prems" Some] show ?thesis by (simp add: key)
      qed
    qed
  qed
qed auto

lemma walk_inv_end:
  assumes "walk_inv comps roots [] visited result"
  shows "set visited = reached comps roots"
proof -
  have "k \<in> set visited" if "k \<in> reached comps roots" for k
    using that by induction (use assms in \<open>auto simp: walk_inv_def\<close>)
  with assms show ?thesis by (auto simp: walk_inv_def)
qed

lemma walk_inv_flat:
  assumes "walk_inv comps roots [] visited result"
  shows "(\<forall>k \<in> reached comps roots. map_of comps k \<noteq> None) \<and> leaves_listed comps roots (reached comps roots) result"
  using assms walk_inv_end [OF assms] by (simp add: walk_inv_def)

text \<open>Flattening fails exactly when there is no bundle or the release reaches a component that the
  bundle does not have. Otherwise it lists the leaves that the release reaches, each of them once,
  with its own name, version and type and below a component that has it as a part.\<close>

theorem Flatten_correct:
  "case Flatten bundle of
     Inl _ \<Rightarrow> (case bundle of None \<Rightarrow> True | Some b \<Rightarrow> \<not> release_complete b)
   | Inr flat \<Rightarrow> \<exists>b. bundle = Some b \<and> release_complete b \<and>
       leaves_listed (bu_components b) (root_keys b) (reached (bu_components b) (root_keys b)) flat"
proof (cases "bundle")
  case (Some b)
  let ?stack = "map (\<lambda>ref. ([], ref)) (releaseComponents (bu_release b))" and ?roots = "root_keys b"
  have keys: "stack_key ` set ?stack = ?roots"
    by (auto simp: root_keys_def stack_key_def image_image case_prod_beta)
  have "parent_of (bu_components b) ?roots (fst e) (stack_key e)" if "e \<in> set ?stack" for e
    using that keys by (auto simp: parent_of_def)
  then have "walk_inv (bu_components b) ?roots ?stack [] []"
    using keys by (auto simp: walk_inv_def leaves_listed_def intro: reached.listed)
  from walk_result [OF this] Some show ?thesis
    by (auto simp: Flatten_def release_complete_def dest: walk_inv_flat split: sum.splits)
qed (simp add: Flatten_def)


section \<open>The check\<close>

text \<open>When a constraint holds: the flattened release has the component it names, the library reads rule
  and version, and the version satisfies the rule.\<close>

definition rule_holds :: "('c, 'v) constraint_lib \<Rightarrow> string gomap \<Rightarrow> compat_constraint \<Rightarrow> bool" where
  "rule_holds lib versions rule \<longleftrightarrow>
     (\<exists>actual c v. map_of versions (cn_component rule) = Some actual \<and>
        cl_newConstraint lib (normalizeConstraint (cn_rule rule)) = Inr c \<and>
        cl_newVersion lib (normalizeVersion actual) = Inr v \<and> cl_check lib c v)"

definition component_compatible :: "('c, 'v) constraint_lib \<Rightarrow> component_version gomap \<Rightarrow> string gomap \<Rightarrow> resolved_component \<Rightarrow> bool" where
  "component_compatible lib comps versions c \<longleftrightarrow>
     (\<exists>cv. map_of comps (ComponentKey (rc_name c) (rc_version c)) = Some cv \<and> (\<forall>rule \<in> set (cv_constraints cv). rule_holds lib versions rule))"

text \<open>A conflict is justified when it names a leaf that the bundle does not have under its name and
  version, or a constraint of a leaf that does not hold.\<close>

definition justified :: "('c, 'v) constraint_lib \<Rightarrow> component_version gomap \<Rightarrow> string gomap \<Rightarrow> resolved_component list \<Rightarrow> conflict \<Rightarrow> bool" where
  "justified lib comps versions flat cf \<longleftrightarrow>
     (\<exists>c \<in> set flat. map_of comps (ComponentKey (rc_name c) (rc_version c)) = None \<and> cf_component cf = rc_name c \<and> cf_version cf = rc_version c \<or>
        (\<exists>cv rule. map_of comps (ComponentKey (rc_name c) (rc_version c)) = Some cv \<and> rule \<in> set (cv_constraints cv) \<and>
           \<not> rule_holds lib versions rule \<and> cf_component cf = cn_component rule \<and> cf_rule cf = cn_rule rule \<and> cf_requiredBy cf = rc_name c))"

lemma check_rule_None: "check_rule lib versions by rule = None \<longleftrightarrow> rule_holds lib versions rule"
  by (auto simp: check_rule_def rule_holds_def Let_def split: option.splits sum.splits)

lemma check_rule_Some:
  "check_rule lib versions by rule = Some cf \<Longrightarrow>
   \<not> rule_holds lib versions rule \<and> cf_component cf = cn_component rule \<and> cf_rule cf = cn_rule rule \<and> cf_requiredBy cf = by"
  using check_rule_None [of lib versions "by" rule]
  by (auto simp: check_rule_def Let_def split: option.splits sum.splits if_splits)

text \<open>What a part of the check adds to a report: conflicts of a certain kind, and at least one exactly
  when something is wrong.\<close>

definition extends_report :: "(conflict \<Rightarrow> bool) \<Rightarrow> bool \<Rightarrow> compat_report \<Rightarrow> compat_report \<Rightarrow> bool" where
  "extends_report P good r r' \<longleftrightarrow> rp_components r' = rp_components r \<and>
     (\<exists>new. rp_conflicts r' = rp_conflicts r @ new \<and> rp_allowed r' = (rp_allowed r \<and> new = []) \<and> (new = [] \<longleftrightarrow> good) \<and> list_all P new)"

lemma extends_report_refl: "extends_report P True r r"
  by (simp add: extends_report_def)

lemma extends_report_add: "P cf \<Longrightarrow> extends_report P False r (add_conflict cf r)"
  by (simp add: extends_report_def add_conflict_def)

lemma extends_report_trans:
  assumes "extends_report P a r r1" and "extends_report Q b r1 r2"
    and "\<And>c. P c \<Longrightarrow> R c" and "\<And>c. Q c \<Longrightarrow> R c"
  shows "extends_report R (a \<and> b) r r2"
proof -
  obtain n1 where 1: "rp_conflicts r1 = rp_conflicts r @ n1" "rp_allowed r1 = (rp_allowed r \<and> n1 = [])" "n1 = [] \<longleftrightarrow> a" "list_all P n1"
    using assms(1) by (auto simp: extends_report_def)
  obtain n2 where 2: "rp_conflicts r2 = rp_conflicts r1 @ n2" "rp_allowed r2 = (rp_allowed r1 \<and> n2 = [])" "n2 = [] \<longleftrightarrow> b" "list_all Q n2"
    using assms(2) by (auto simp: extends_report_def)
  show ?thesis
    unfolding extends_report_def
    using assms 1 2 by (intro conjI exI [of _ "n1 @ n2"]) (auto simp: list_all_iff extends_report_def)
qed

lemma extends_report_mono: "extends_report P a r r' \<Longrightarrow> (\<And>c. P c \<Longrightarrow> Q c) \<Longrightarrow> extends_report Q a r r'"
  by (auto simp: extends_report_def list_all_iff)

lemma fold_extends:
  assumes "\<And>x r. extends_report (P x) (good x) r (f x r)"
  shows "extends_report (\<lambda>c. \<exists>x \<in> set xs. P x c) (list_all good xs) r (fold f xs r)"
proof (induction xs arbitrary: r)
  case (Cons x xs)
  from extends_report_trans [OF assms [of x r] Cons.IH [of "f x r"], of "\<lambda>c. \<exists>y \<in> set (x # xs). P y c"]
  show ?case by auto
qed (simp add: extends_report_refl extends_report_def)

lemma check_component_extends:
  "extends_report (justified lib comps versions [c]) (component_compatible lib comps versions c) r
     (check_component lib comps versions c r)"
proof (cases "map_of comps (ComponentKey (rc_name c) (rc_version c))")
  case None
  then have "\<not> component_compatible lib comps versions c" by (simp add: component_compatible_def)
  with None show ?thesis
    by (simp add: check_component_def, intro extends_report_add) (simp add: justified_def)
next
  case (Some cv)
  let ?f = "\<lambda>rule r. case check_rule lib versions (rc_name c) rule of None \<Rightarrow> r | Some cf \<Rightarrow> add_conflict cf r"
  let ?P = "\<lambda>rule cf. \<not> rule_holds lib versions rule \<and> cf_component cf = cn_component rule \<and> cf_rule cf = cn_rule rule \<and> cf_requiredBy cf = rc_name c"
  have "extends_report (?P rule) (rule_holds lib versions rule) r (?f rule r)" for rule r
  proof (cases "check_rule lib versions (rc_name c) rule")
    case None
    moreover from this have "rule_holds lib versions rule" by (simp add: check_rule_None)
    ultimately show ?thesis by (simp add: extends_report_refl)
  next
    case cf: (Some cf)
    from check_rule_Some [OF this] cf show ?thesis by (simp add: extends_report_add)
  qed
  then have "extends_report (\<lambda>cf. \<exists>rule \<in> set (cv_constraints cv). ?P rule cf) (list_all (rule_holds lib versions) (cv_constraints cv)) r
     (fold ?f (cv_constraints cv) r)" by (rule fold_extends)
  moreover have "list_all (rule_holds lib versions) (cv_constraints cv) = component_compatible lib comps versions c"
    using Some by (simp add: component_compatible_def list_all_iff)
  ultimately show ?thesis
    using Some by (auto simp: check_component_def justified_def elim!: extends_report_mono)
qed

text \<open>Of components of one name, the version of the last one counts.\<close>

lemma flat_versions_lookup: "map_of (flat_versions flat) name = map_option rc_version (find (\<lambda>c. rc_name c = name) (rev flat))"
proof -
  have "map_of (fold (\<lambda>c m. AList.update (rc_name c) (rc_version c) m) flat m) name =
      (case find (\<lambda>c. rc_name c = name) (rev flat) of None \<Rightarrow> map_of m name | Some c \<Rightarrow> Some (rc_version c))" for m :: "string gomap"
    by (induction flat arbitrary: m) (auto simp: find_append_or split: option.splits)
  then show ?thesis by (simp add: flat_versions_def split: option.splits)
qed


text \<open>Of a rule that joins two bounds by a comma without a space, only the first is kept when it carries
  the suffix of the distribution: the rest of the rule is cut off with the suffix.\<close>

theorem upper_bound_dropped:
  "normalizeConstraint ''>=v1.2.0-of.1,<v2.0.0'' = ''>=1.2.0'' \<and> normalizeConstraint ''>=v1.2.0-of.1, <v2.0.0'' = ''>=1.2.0 <2.0.0''"
  by code_simp

end
