(* ===== verification/Net_Addr.thy ===== *)
theory Net_Addr
  imports Prelude "HOL-Library.Word"
begin

text \<open>
  Network addresses and names: \<^verbatim>\<open>common/utils/net/net.go\<close>, the address of the cluster DNS of
  \<^verbatim>\<open>common/cluster/initialize/defaults.go\<close>, and of the standard library what they use:
  \<^verbatim>\<open>net.ParseIP\<close>, \<^verbatim>\<open>net.ParseCIDR\<close>, \<^verbatim>\<open>IPNet.Contains\<close> and \<^verbatim>\<open>IP.String\<close>. An \<^verbatim>\<open>IP\<close> is its
  16-byte form, a 128-bit word.

  The results: the address with an index in a subnet exists exactly when the subnet is large enough,
  and then it is the sum of base and index; a parsed IPv4 address is printed as it was read.
\<close>

unbundle bit_operations_syntax

section \<open>Addresses of the standard library\<close>

datatype ip_addr = IPv4 "32 word" | IPv6 "128 word"

definition v4_prefix :: "128 word" where
  "v4_prefix = push_bit 32 0xFFFF"

fun As16 :: "ip_addr \<Rightarrow> 128 word" where
  "As16 (IPv4 a) = v4_prefix OR ucast a"
| "As16 (IPv6 a) = a"

definition To4 :: "128 word \<Rightarrow> 32 word option" where
  "To4 ip = (if drop_bit 32 ip = 0xFFFF then Some (ucast ip) else None)"

subsection \<open>Reading\<close>

definition v4_field :: "string \<Rightarrow> nat option" where
  "v4_field s =
     (if s \<noteq> [] \<and> list_all is_digit s \<and> (1 < length s \<longrightarrow> hd s \<noteq> CHR ''0'') \<and> digits_value s \<le> 255
      then Some (nat (digits_value s)) else None)"

definition fields_word :: "nat \<Rightarrow> nat list \<Rightarrow> 'a::len word" where
  "fields_word base fs = fold (\<lambda>f a. a * of_nat base + of_nat f) fs 0"

definition parseIPv4 :: "string \<Rightarrow> nat list option" where
  "parseIPv4 s =
     (let fs = map v4_field (Split CHR ''.'' s)
      in if length fs = 4 \<and> None \<notin> set fs then Some (map the fs) else None)"

definition hex_digit :: "char \<Rightarrow> nat option" where
  "hex_digit c =
     (if is_digit c then Some (of_char c - 48)
      else if CHR ''a'' \<le> c \<and> c \<le> CHR ''f'' then Some (of_char c - 87)
      else if CHR ''A'' \<le> c \<and> c \<le> CHR ''F'' then Some (of_char c - 55) else None)"

definition hex_value :: "string \<Rightarrow> nat" where
  "hex_value s = fold (\<lambda>c a. 16 * a + the (hex_digit c)) s 0"

text \<open>The groups of an IPv6 address: what is left to read, the groups read so far and where a double
  colon stood. The first argument is the number of groups that may still come.\<close>

fun v6_groups :: "nat \<Rightarrow> string \<Rightarrow> nat list \<Rightarrow> nat option \<Rightarrow> (string \<times> nat list \<times> nat option) option" where
  "v6_groups 0 s gs e = Some (s, gs, e)"
| "v6_groups (Suc n) s gs e =
     (let hs = takeWhile (\<lambda>c. hex_digit c \<noteq> None) s; rest = dropWhile (\<lambda>c. hex_digit c \<noteq> None) s; gs' = gs @ [hex_value hs] in
      if hs = [] \<or> 4 < length hs then None
      else (case rest of
              [] \<Rightarrow> Some ([], gs', e)
            | c # s' \<Rightarrow>
                if c = CHR ''.''
                then if e = None \<and> length gs \<noteq> 6 \<or> 6 < length gs then None
                     else (case parseIPv4 s of
                             Some [a, b, c, d] \<Rightarrow> Some ([], gs @ [256 * a + b, 256 * c + d], e)
                           | _ \<Rightarrow> None)
                else if c \<noteq> CHR '':'' \<or> s' = [] then None
                else if hd s' = CHR '':''
                then if e \<noteq> None then None
                     else if tl s' = [] then Some ([], gs', Some (length gs'))
                     else v6_groups n (tl s') gs' (Some (length gs'))
                else v6_groups n s' gs' e))"

definition parseIPv6 :: "string \<Rightarrow> nat list option" where
  "parseIPv6 s =
     (let (s1, e) = (if HasPrefix s ''::'' then (drop 2 s, Some 0) else (s, None)) in
      if e \<noteq> None \<and> s1 = [] then Some (replicate 8 0)
      else case v6_groups 8 s1 [] e of
             None \<Rightarrow> None
           | Some (rest, gs, e') \<Rightarrow>
               if rest \<noteq> [] then None
               else if length gs < 8
               then (case e' of None \<Rightarrow> None | Some k \<Rightarrow> Some (take k gs @ replicate (8 - length gs) 0 @ drop k gs))
               else if e' \<noteq> None then None else Some gs)"

text \<open>\<^verbatim>\<open>netip.ParseAddr\<close> without zones, as \<^verbatim>\<open>net.ParseIP\<close> and \<^verbatim>\<open>net.ParseCIDR\<close> use it.\<close>

definition ParseAddr :: "string \<Rightarrow> ip_addr option" where
  "ParseAddr s =
     (case dropWhile (\<lambda>c. c \<notin> {CHR ''.'', CHR '':'', CHR ''%''}) s of
        [] \<Rightarrow> None
      | c # _ \<Rightarrow>
          if c = CHR ''.'' then map_option (\<lambda>fs. IPv4 (fields_word 256 fs)) (parseIPv4 s)
          else if c = CHR '':'' \<and> CHR ''%'' \<notin> set s then map_option (\<lambda>gs. IPv6 (fields_word 65536 gs)) (parseIPv6 s)
          else None)"

definition ParseIP :: "string \<Rightarrow> 128 word option" where
  "ParseIP s = map_option As16 (ParseAddr s)"

text \<open>A subnet: its base address, masked, with the number of bits behind the prefix.\<close>

datatype ip_net = Net4 "32 word" nat | Net6 "128 word" nat

definition dtoi :: "string \<Rightarrow> nat option" where
  "dtoi s = (if s \<noteq> [] \<and> list_all is_digit s \<and> digits_value s < 0xFFFFFF then Some (nat (digits_value s)) else None)"

definition ParseCIDR :: "string \<Rightarrow> ip_net option" where
  "ParseCIDR s =
     (case SplitN2 CHR ''/'' s of
        [addr, m] \<Rightarrow>
          (case (ParseAddr addr, dtoi m) of
             (Some (IPv4 a), Some n) \<Rightarrow> if n \<le> 32 then Some (Net4 (a AND NOT (mask (32 - n))) (32 - n)) else None
           | (Some (IPv6 a), Some n) \<Rightarrow> if n \<le> 128 then Some (Net6 (a AND NOT (mask (128 - n))) (128 - n)) else None
           | _ \<Rightarrow> None)
      | _ \<Rightarrow> None)"

fun net_base :: "ip_net \<Rightarrow> 128 word" where
  "net_base (Net4 a h) = v4_prefix OR ucast a"
| "net_base (Net6 a h) = a"

text \<open>\<^verbatim>\<open>IPNet.Contains\<close>: an address in the IPv4 range is compared in its short form.\<close>

fun Contains :: "ip_net \<Rightarrow> 128 word \<Rightarrow> bool" where
  "Contains (Net4 a h) ip \<longleftrightarrow> (case To4 ip of None \<Rightarrow> False | Some x \<Rightarrow> a AND NOT (mask h) = x AND NOT (mask h))"
| "Contains (Net6 a h) ip \<longleftrightarrow>
     (case (To4 a, To4 ip) of
        (None, None) \<Rightarrow> a AND NOT (mask h) = ip AND NOT (mask h)
      | (Some a4, Some x) \<Rightarrow> a4 AND NOT (mask h) = x AND NOT (mask h)
      | _ \<Rightarrow> False)"

subsection \<open>Printing\<close>

fun hex_digits :: "nat \<Rightarrow> string" where
  "hex_digits n =
     (let d = (if n mod 16 < 10 then char_of (48 + n mod 16) else char_of (87 + n mod 16))
      in if n < 16 then [d] else hex_digits (n div 16) @ [d])"

declare hex_digits.simps [simp del]

definition v4_bytes :: "32 word \<Rightarrow> nat list" where
  "v4_bytes a = [unat (drop_bit 24 a), unat (take_bit 8 (drop_bit 16 a)), unat (take_bit 8 (drop_bit 8 a)), unat (take_bit 8 a)]"

definition v4_String :: "32 word \<Rightarrow> string" where
  "v4_String a = Join (map nat_digits (v4_bytes a)) ''.''"

text \<open>The first longest run of at least two zero groups: its start and its end.\<close>

definition zero_run :: "nat list \<Rightarrow> nat \<Rightarrow> nat" where
  "zero_run gs i = length (takeWhile (\<lambda>g. g = 0) (drop i gs))"

definition longest_run :: "nat list \<Rightarrow> (nat \<times> nat) option" where
  "longest_run gs =
     fold (\<lambda>i best. if zero_run gs i > (case best of None \<Rightarrow> 1 | Some (a, b) \<Rightarrow> b - a) then Some (i, i + zero_run gs i) else best)
       [0..<8] None"

definition v6_String :: "128 word \<Rightarrow> string" where
  "v6_String a =
     (let gs = map (\<lambda>k. unat (take_bit 16 (drop_bit (16 * k) a))) [7, 6, 5, 4, 3, 2, 1, 0] in
      case longest_run gs of
        None \<Rightarrow> Join (map hex_digits gs) '':''
      | Some (x, y) \<Rightarrow> Join (map hex_digits (take x gs)) '':'' @ ''::'' @ Join (map hex_digits (drop y gs)) '':'')"

definition ip_String :: "128 word \<Rightarrow> string" where
  "ip_String ip = (case To4 ip of Some a \<Rightarrow> v4_String a | None \<Rightarrow> v6_String ip)"

section \<open>net.go and the address of the cluster DNS\<close>

(* src: common/utils/net/net.go 34-42 ValidIP *)
definition ValidIP :: "string \<Rightarrow> bool" where
  "ValidIP ip \<longleftrightarrow> (if ip = [] then False else ParseIP ip \<noteq> None)"

text \<open>The slices panic on an address with fewer than three parts.\<close>

(* src: common/utils/net/net.go 66-73 SameNetworkSegment *)
definition SameNetworkSegment :: "string \<Rightarrow> string \<Rightarrow> bool option" where
  "SameNetworkSegment ip1 ip2 =
     (if length (Split CHR ''.'' ip1) < 3 \<or> length (Split CHR ''.'' ip2) < 3 then None
      else Some (concat (take 3 (Split CHR ''.'' ip1)) = concat (take 3 (Split CHR ''.'' ip2))))"

definition alnum :: "char \<Rightarrow> bool" where
  "alnum c \<longleftrightarrow> is_digit c \<or> CHR ''a'' \<le> c \<and> c \<le> CHR ''z''"

(* src: common/utils/net/net.go 75-75 dns1123LabelFmt *)
definition dns_label :: "string \<Rightarrow> bool" where
  "dns_label s \<longleftrightarrow> s \<noteq> [] \<and> alnum (hd s) \<and> alnum (last s) \<and> list_all (\<lambda>c. alnum c \<or> c = CHR ''-'') s"

(* src: common/utils/net/net.go 86-94 IsDNS1123Subdomain *)
definition IsDNS1123Subdomain :: "string \<Rightarrow> string option" where
  "IsDNS1123Subdomain value =
     (if length value > 253 then Some ''must be no more than 253 characters''
      else if \<not> list_all dns_label (Split CHR ''.'' value) then Some (value @ '' is not valid domain'')
      else None)"

(* src: common/cluster/initialize/defaults.go 29-29 DefaultServicesSubnet *)
definition DefaultServicesSubnet :: string where
  "DefaultServicesSubnet = ''10.96.0.0/16''"

(* src: common/cluster/initialize/defaults.go 31-31 DefaultClusterDNSIP *)
definition DefaultClusterDNSIP :: string where
  "DefaultClusterDNSIP = ''10.96.0.10''"

(* src: common/cluster/initialize/defaults.go 35-35 DefaultDNSIPIndex *)
definition DefaultDNSIPIndex :: nat where
  "DefaultDNSIPIndex = 10"

(* src: common/cluster/initialize/defaults.go 341-349 getIndexedIP *)
definition getIndexedIP :: "ip_net \<Rightarrow> nat \<Rightarrow> 128 word option" where
  "getIndexedIP subnet index =
     (let ip = net_base subnet + of_nat index
      in if Contains subnet ip then Some ip else None)"

(* src: common/cluster/initialize/defaults.go 325-338 GetClusterDNSIP *)
definition GetClusterDNSIP :: "string \<Rightarrow> string option" where
  "GetClusterDNSIP serviceSubnet =
     (if serviceSubnet = DefaultServicesSubnet then Some DefaultClusterDNSIP
      else case ParseCIDR serviceSubnet of
             None \<Rightarrow> None
           | Some subnet \<Rightarrow> map_option ip_String (getIndexedIP subnet DefaultDNSIPIndex))"

section \<open>Subnets\<close>

fun host_bits :: "ip_net \<Rightarrow> nat" where
  "host_bits (Net4 a h) = h"
| "host_bits (Net6 a h) = h"

fun net_ok :: "ip_net \<Rightarrow> bool" where
  "net_ok (Net4 a h) \<longleftrightarrow> h \<le> 32 \<and> a AND mask h = 0"
| "net_ok (Net6 a h) \<longleftrightarrow> h \<le> 128 \<and> a AND mask h = 0"

lemma ParseCIDR_ok: "ParseCIDR s = Some n \<Longrightarrow> net_ok n"
  by (auto simp: ParseCIDR_def and.assoc split: list.splits option.splits ip_addr.splits if_splits)

lemma drop_prefix: "drop_bit h (x AND NOT (mask h)) = drop_bit h (x :: 'a::len word)"
  by (rule bit_word_eqI) (auto simp: bit_simps dest: bit_imp_le_length)

lemma push_drop: "push_bit h (drop_bit h x) = x AND NOT (mask h)" for x :: "'a::len word"
  by (rule bit_word_eqI) (auto simp: bit_simps)

lemma prefix_eq_iff: "x AND NOT (mask h) = y AND NOT (mask h) \<longleftrightarrow> drop_bit h x = drop_bit h (y :: 'a::len word)"
  by (metis drop_prefix push_drop)

lemma unat_drop: "unat (drop_bit h x) = unat (x :: 'a::len word) div 2 ^ h"
  by (subst unat_drop_bit_eq) (simp only: drop_bit_eq_div)

lemma aligned_unat:
  assumes "(a :: 'a::len word) AND mask h = 0"
  shows "unat a = unat (drop_bit h a) * 2 ^ h"
proof -
  have "take_bit h a = 0" using assms by (simp add: take_bit_eq_mask)
  then have "unat a mod 2 ^ h = 0" by (metis take_bit_eq_mod unat_eq_zero unsigned_take_bit_eq)
  then show ?thesis by (simp add: unat_drop dvd_div_mult_self mod_0_imp_dvd)
qed

lemma unat_div_less: "h \<le> LENGTH('a) \<Longrightarrow> unat (a :: 'a::len word) div 2 ^ h < 2 ^ (LENGTH('a) - h)"
  by (metis less_mult_imp_div_less power_add le_add_diff_inverse2 unsigned_less)

text \<open>A block of addresses that starts at a multiple of its size holds exactly the first addresses.\<close>

lemma aligned_add:
  assumes "(a :: 'a::len word) AND mask h = 0" and "h \<le> LENGTH('a)" and "i < 2 ^ LENGTH('a)"
  shows "drop_bit h (a + of_nat i) = drop_bit h a \<longleftrightarrow> i < 2 ^ h"
proof -
  let ?q = "unat (drop_bit h a)" and ?L = "LENGTH('a)"
  have ua: "unat a = ?q * 2 ^ h" by (rule aligned_unat [OF assms(1)])
  have q: "?q < 2 ^ (?L - h)" using unat_div_less [OF assms(2), of a] by (simp add: unat_drop)
  have L: "(2::nat) ^ ?L = 2 ^ h * 2 ^ (?L - h)" using assms(2) by (simp flip: power_add)
  have "unat (a + of_nat i) = (?q * 2 ^ h + i) mod 2 ^ ?L"
    using assms(3) by (simp add: unat_word_ariths ua unat_of_nat)
  then have "unat (drop_bit h (a + of_nat i)) = ((?q * 2 ^ h + i) div 2 ^ h) mod 2 ^ (?L - h)"
    by (simp add: unat_drop L mod_mult2_eq)
  then have sum: "unat (drop_bit h (a + of_nat i)) = (?q + i div 2 ^ h) mod 2 ^ (?L - h)" by simp
  have "i div 2 ^ h < 2 ^ (?L - h)" using assms(3) L by (metis less_mult_imp_div_less mult.commute)
  then have "(?q + i div 2 ^ h) mod 2 ^ (?L - h) = ?q \<longleftrightarrow> i div 2 ^ h = 0"
    using q by (cases "?q + i div 2 ^ h < 2 ^ (?L - h)") (auto simp: mod_if)
  then have "unat (drop_bit h (a + of_nat i)) = ?q \<longleftrightarrow> i < 2 ^ h" using sum by (simp add: div_eq_0_iff)
  then show ?thesis by (simp add: word_unat_eq_iff)
qed

lemma push_bit_disjoint:
  fixes x y :: "'a::len word"
  assumes "\<And>n. n \<ge> k \<Longrightarrow> \<not> bit y n"
  shows "push_bit k x AND y = 0"
  by (rule bit_word_eqI) (use assms in \<open>auto simp: bit_simps\<close>)

lemma net_base_unat: "unat (v4_prefix OR ucast (a :: 32 word) :: 128 word) = 0xFFFF * 2 ^ 32 + unat a"
proof -
  have "v4_prefix AND (ucast a :: 128 word) = 0"
    unfolding v4_prefix_def by (rule push_bit_disjoint) (auto simp: bit_simps dest: bit_imp_le_length)
  then have "v4_prefix OR (ucast a :: 128 word) = v4_prefix + ucast a" by (simp add: disjunctive_add_eq_or)
  moreover have "unat a < 2 ^ 32" using unsigned_less [of a] by simp
  moreover have "unat v4_prefix = 0xFFFF * 2 ^ 32" by (simp add: v4_prefix_def push_bit_eq_mult)
  moreover have "unat (ucast a :: 128 word) = unat a"
    using \<open>unat a < 2 ^ 32\<close> by (simp add: unsigned_ucast_eq take_bit_nat_eq_self_iff)
  ultimately show ?thesis by (simp add: unat_word_ariths)
qed

lemma To4_unat: "To4 ip = (if unat ip div 2 ^ 32 = 0xFFFF then Some (of_nat (unat ip)) else None)"
proof -
  have "drop_bit 32 ip = 0xFFFF \<longleftrightarrow> unat ip div 2 ^ 32 = 0xFFFF" by (simp add: word_unat_eq_iff unat_drop)
  moreover have "(ucast ip :: 32 word) = of_nat (unat ip)" by simp
  ultimately show ?thesis by (simp add: To4_def)
qed

lemma To4_add:
  assumes "i < 2 ^ 32"
  shows "To4 ((v4_prefix OR ucast (a :: 32 word)) + of_nat i) = (if unat a + i < 2 ^ 32 then Some (a + of_nat i) else None)"
proof -
  have a: "unat a < 2 ^ 32" using unsigned_less [of a] by simp
  have s: "unat ((v4_prefix OR ucast a :: 128 word) + of_nat i) = 0xFFFF * 2 ^ 32 + (unat a + i)"
    using a assms by (simp add: unat_word_ariths net_base_unat unat_of_nat)
  have "(0xFFFF * 2 ^ 32 + (unat a + i)) div 2 ^ 32 = 0xFFFF + (unat a + i) div (2 ^ 32 :: nat)"
    using div_mult_self4 [of "2 ^ 32 :: nat" 65535 "unat a + i"] by (simp add: mult.commute)
  then have "(0xFFFF * 2 ^ 32 + (unat a + i)) div 2 ^ 32 = 0xFFFF \<longleftrightarrow> unat a + i < (2 ^ 32 :: nat)"
    by (simp add: div_eq_0_iff)
  moreover have "(of_nat (0xFFFF * 2 ^ 32 + (unat a + i)) :: 32 word) = a + of_nat i"
  proof -
    have "(of_nat (0xFFFF * 2 ^ 32) :: 32 word) = 0" by simp
    then show ?thesis by (simp only: of_nat_add of_nat_unat ucast_id add_0)
  qed
  ultimately show ?thesis by (simp only: To4_unat s)
qed

lemma To4_cong: "drop_bit 32 x = drop_bit 32 y \<Longrightarrow> To4 x = None \<longleftrightarrow> To4 y = None"
  by (simp add: To4_def)

lemma drop_bit_weaken: "drop_bit h x = drop_bit h y \<Longrightarrow> h \<le> k \<Longrightarrow> drop_bit k x = drop_bit k (y :: 'a::len word)"
  by (metis drop_bit_drop_bit le_add_diff_inverse2)

text \<open>Adding an index below \<open>2 ^ 32\<close> to the base of a subnet of IPv6 addresses with at least 32 host
  bits leaves the upper part alone.\<close>

lemma same_range:
  assumes "(a :: 128 word) AND mask h = 0" and "h \<le> 128" and "i < 2 ^ 32" and "i < 2 ^ h"
  shows "drop_bit 32 (a + of_nat i) = drop_bit 32 a"
proof (cases "h \<le> 32")
  case True
  have "drop_bit h (a + of_nat i) = drop_bit h a" using aligned_add [of a h i] assms by simp
  with True show ?thesis by (rule drop_bit_weaken [rotated])
next
  case False
  have "a AND mask 32 = 0"
    by (rule bit_word_eqI) (use assms(1) False in \<open>auto simp: bit_eq_iff bit_simps\<close>)
  then show ?thesis using aligned_add [of a 32 i] assms(3) by simp
qed

lemma To4_ucast_add: "(ucast (a + of_nat i :: 128 word) :: 32 word) = ucast a + of_nat i"
proof -
  have "unat (ucast (a + of_nat i :: 128 word) :: 32 word) = (unat a + i) mod 2 ^ 128 mod 2 ^ 32"
    by (simp add: unat_word_ariths unat_of_nat unsigned_ucast_eq take_bit_eq_mod mod_add_right_eq)
  also have "\<dots> = (unat a + i) mod 2 ^ 32" by (simp add: mod_mod_cancel)
  also have "\<dots> = unat (ucast a + of_nat i :: 32 word)"
    by (simp add: unat_word_ariths unat_of_nat unsigned_ucast_eq take_bit_eq_mod mod_add_eq)
  finally show ?thesis by (simp add: word_unat_eq_iff)
qed

lemma Contains_indexed:
  assumes "net_ok n" and "i < 2 ^ 32"
  shows "Contains n (net_base n + of_nat i) \<longleftrightarrow> i < 2 ^ host_bits n"
proof (cases n)
  case (Net4 a h)
  with assms(1) have a: "a AND mask h = 0" "h \<le> 32" by auto
  have "unat a + i < 2 ^ 32" if "i < 2 ^ h"
  proof -
    have "drop_bit h (a + of_nat i) = drop_bit h a" using aligned_add [OF a(1)] a(2) that assms(2) by simp
    have "unat a = unat (drop_bit h a) * 2 ^ h" by (rule aligned_unat [OF a(1)])
    moreover have "unat (drop_bit h a) < 2 ^ (32 - h)" using unat_div_less [of h a] a(2) by (simp add: unat_drop)
    ultimately have "unat a + i < (unat (drop_bit h a) + 1) * 2 ^ h" using that by simp
    also have "\<dots> \<le> 2 ^ (32 - h) * 2 ^ h" using \<open>unat (drop_bit h a) < 2 ^ (32 - h)\<close> by (intro mult_right_mono) auto
    also have "\<dots> = 2 ^ 32" using a(2) by (simp flip: power_add)
    finally show ?thesis .
  qed
  then show ?thesis
    using aligned_add [OF a(1), of i] a(2) assms(2)
    by (auto simp: Net4 To4_add [OF assms(2)] prefix_eq_iff)
next
  case (Net6 a h)
  with assms(1) have a: "a AND mask h = 0" "h \<le> 128" by auto
  have p: "drop_bit h (a + of_nat i) = drop_bit h a \<longleftrightarrow> i < 2 ^ h" using aligned_add [OF a(1)] a(2) assms(2) by simp
  have r: "To4 (a + of_nat i) = None \<longleftrightarrow> To4 a = None" if "i < 2 ^ h"
    using To4_cong [OF same_range [OF a assms(2) that]] .
  show ?thesis
  proof (cases "To4 a")
    case None
    with p r show ?thesis by (auto simp: Net6 prefix_eq_iff split: option.splits)
  next
    case (Some a4)
    then have a4: "drop_bit 32 a = 0xFFFF" "a4 = ucast a" by (auto simp: To4_def split: if_splits)
    have h: "h \<le> 32"
    proof (rule ccontr)
      assume "\<not> h \<le> 32"
      then have "\<not> bit a 32" using arg_cong [OF a(1), of "\<lambda>x. bit x 32"] by (simp add: bit_simps)
      moreover have "bit (drop_bit 32 a) 0" by (simp add: a4(1))
      ultimately show False by (simp add: bit_drop_bit_eq)
    qed
    have "a4 AND mask h = 0"
      by (rule bit_word_eqI) (use a(1) in \<open>auto simp: a4(2) bit_eq_iff bit_simps\<close>)
    then have q: "drop_bit h (a4 + of_nat i) = drop_bit h a4 \<longleftrightarrow> i < 2 ^ h" using aligned_add [of a4 h i] h assms(2) by simp
    have "To4 (a + of_nat i) = None \<or> To4 (a + of_nat i) = Some (a4 + of_nat i)"
      by (auto simp: To4_def a4(2) To4_ucast_add)
    with Some q r show ?thesis by (auto simp: Net6 prefix_eq_iff)
  qed
qed

text \<open>The address with an index exists exactly when the subnet has so many addresses, and then it is the
  base plus the index; it lies in the subnet.\<close>

theorem getIndexedIP_correct:
  assumes "ParseCIDR s = Some n" and "i < 2 ^ 32"
  shows "getIndexedIP n i = (if i < 2 ^ host_bits n then Some (net_base n + of_nat i) else None)"
  using Contains_indexed [OF ParseCIDR_ok [OF assms(1)] assms(2)] by (simp add: getIndexedIP_def)

theorem getIndexedIP_correct_witness:
  "getIndexedIP (Net4 0x0A600000 4) 10 = Some (net_base (Net4 0x0A600000 4) + 10) \<and> getIndexedIP (Net4 0x0A600000 3) 10 = None"
proof -
  have "ParseCIDR ''10.96.0.0/28'' = Some (Net4 0x0A600000 4)" "ParseCIDR ''10.96.0.0/29'' = Some (Net4 0x0A600000 3)"
    by code_simp+
  from this [THEN getIndexedIP_correct, of 10] show ?thesis by simp
qed

section \<open>Printed IPv4 addresses\<close>

lemma nat_digits_hd: "0 < n \<Longrightarrow> hd (nat_digits n) \<noteq> CHR ''0''"
proof (induction n rule: nat_digits.induct)
  case (1 n)
  show ?case
  proof (cases "n < 10")
    case True
    have "char_of (48 + n) \<noteq> CHR ''0''"
    proof
      assume "char_of (48 + n) = CHR ''0''"
      then have "of_char (char_of (48 + n) :: char) = (48 :: nat)" by simp
      with True 1 show False by (simp add: of_char_of)
    qed
    with True show ?thesis by (simp add: nat_digits.simps [of n] digit_char_def)
  next
    case False
    then have "nat_digits (n div 10) \<noteq> []" using nat_digits_value by blast
    with False 1 show ?thesis by (simp add: nat_digits.simps [of n])
  qed
qed

lemma v4_field_digits:
  assumes "n \<le> 255"
  shows "v4_field (nat_digits n) = Some n"
proof -
  have "hd (nat_digits n) \<noteq> CHR ''0''" if "1 < length (nat_digits n)"
  proof (rule nat_digits_hd)
    show "0 < n" using that by (cases n) (auto simp: nat_digits.simps [of 0])
  qed
  with nat_digits_value [of n] assms show ?thesis by (simp add: v4_field_def)
qed

lemma nat_digits_no_dot: "CHR ''.'' \<notin> set (nat_digits n)"
proof
  assume "CHR ''.'' \<in> set (nat_digits n)"
  then have "is_digit CHR ''.''" using nat_digits_value [of n] by (auto simp: list_all_iff)
  then show False by (simp add: is_digit_def less_eq_char_def)
qed

lemma unat_take: "unat (take_bit h x) = unat (x :: 'a::len word) mod 2 ^ h"
  by (subst unsigned_take_bit_eq) (simp only: take_bit_eq_mod)

lemma v4_bytes_nat:
  "v4_bytes a = [unat a div 2 ^ 24, unat a div 2 ^ 16 mod 2 ^ 8, unat a div 2 ^ 8 mod 2 ^ 8, unat a mod 2 ^ 8]"
  by (simp only: v4_bytes_def unat_take unat_drop)

lemma v4_bytes_word: "fields_word 256 (v4_bytes (a :: 32 word)) = a"
proof -
  define u where "u = unat a"
  have d: "u div 2 ^ 24 = u div 256 div 256 div 256" "u div 2 ^ 16 = u div 256 div 256" "u div 2 ^ 8 = u div 256"
    by (simp_all flip: div_mult2_eq)
  have e: "(2::nat) ^ 8 = 256" by simp
  have u: "((u div 2 ^ 24 * 256 + u div 2 ^ 16 mod 2 ^ 8) * 256 + u div 2 ^ 8 mod 2 ^ 8) * 256 + u mod 2 ^ 8 = u"
    unfolding d by (simp only: e div_mult_mod_eq)
  have "fields_word 256 (v4_bytes a) =
      of_nat (((u div 2 ^ 24 * 256 + u div 2 ^ 16 mod 2 ^ 8) * 256 + u div 2 ^ 8 mod 2 ^ 8) * 256 + u mod 2 ^ 8)"
    unfolding fields_word_def v4_bytes_nat u_def by (simp only: fold_simps of_nat_add of_nat_mult of_nat_numeral mult_zero_left add_0)
  also have "\<dots> = a" by (simp only: u) (simp add: u_def)
  finally show ?thesis .
qed

lemma v4_bytes_le: "list_all (\<lambda>b. b \<le> 255) (v4_bytes a)"
proof -
  have "unat a < 2 ^ 8 * 2 ^ 24" using unsigned_less [of a] by simp
  then have "unat a div 2 ^ 24 < 2 ^ 8" by (rule less_mult_imp_div_less)
  moreover have "m mod 2 ^ 8 \<le> 255" for m :: nat
  proof -
    have "m mod 256 < 256" by (rule mod_less_divisor) simp
    then show ?thesis by simp
  qed
  ultimately show ?thesis unfolding v4_bytes_nat by simp
qed

lemma nat_digits_digit: "c \<in> set (nat_digits n) \<Longrightarrow> is_digit c"
  using nat_digits_value [of n] by (auto simp: list_all_iff)

lemma ParseAddr_v4_String: "ParseAddr (v4_String a) = Some (IPv4 a)"
proof -
  obtain x y z w where b: "v4_bytes a = [x, y, z, w]" by (simp add: v4_bytes_def)
  have s: "v4_String a = nat_digits x @ CHR ''.'' # nat_digits y @ CHR ''.'' # nat_digits z @ CHR ''.'' # nat_digits w"
    by (simp add: v4_String_def b)
  have "Split CHR ''.'' (v4_String a) = map nat_digits (v4_bytes a)"
    by (simp add: s b Split_append_sep nat_digits_no_dot)
  then have "parseIPv4 (v4_String a) = Some (v4_bytes a)"
    using v4_bytes_le [of a] by (simp add: parseIPv4_def b v4_field_digits)
  moreover have "dropWhile (\<lambda>c. c \<notin> {CHR ''.'', CHR '':'', CHR ''%''}) (v4_String a) =
      CHR ''.'' # nat_digits y @ CHR ''.'' # nat_digits z @ CHR ''.'' # nat_digits w"
  proof -
    have "c \<notin> {CHR ''.'', CHR '':'', CHR ''%''}" if "c \<in> set (nat_digits x)" for c
      using nat_digits_digit [OF that] by (auto simp: is_digit_def less_eq_char_def)
    then show ?thesis unfolding s by (subst dropWhile_append2) auto
  qed
  ultimately show ?thesis using v4_bytes_word [of a] by (simp add: ParseAddr_def)
qed

lemma ParseIP_ip_String:
  assumes "To4 ip = Some a"
  shows "ParseIP (ip_String ip) = Some ip"
proof -
  have "drop_bit 32 ip = 0xFFFF" "a = ucast ip" using assms by (auto simp: To4_def split: if_splits)
  moreover have "ip = push_bit 32 (drop_bit 32 ip) OR ucast (ucast ip :: 32 word)"
    by (rule bit_word_eqI) (auto simp: bit_simps)
  ultimately have "v4_prefix OR ucast a = ip" by (simp add: v4_prefix_def)
  then show ?thesis by (simp add: ParseIP_def ip_String_def assms ParseAddr_v4_String)
qed

text \<open>The address that the cluster gets for its DNS: of a subnet of IPv4 addresses with at least sixteen
  of them it is the printed form of base plus ten, which reads back as this address and lies in the
  subnet; of a smaller subnet there is none. For the default subnet the default address is the same.\<close>

theorem cluster_dns_address:
  assumes "ParseCIDR subnet = Some (Net4 a h)"
  shows "case GetClusterDNSIP subnet of
      None \<Rightarrow> h < 4
    | Some s \<Rightarrow> 4 \<le> h \<and> ParseIP s = Some (net_base (Net4 a h) + 10) \<and> Contains (Net4 a h) (net_base (Net4 a h) + 10)"
proof -
  let ?n = "Net4 a h"
  have c: "Contains ?n (net_base ?n + 10) \<longleftrightarrow> 10 < (2::nat) ^ h"
    using Contains_indexed [OF ParseCIDR_ok [OF assms], of 10] by simp
  have h: "10 < (2::nat) ^ h \<longleftrightarrow> 4 \<le> h"
  proof
    assume "10 < (2::nat) ^ h"
    show "4 \<le> h"
    proof (rule ccontr)
      assume "\<not> 4 \<le> h"
      then have "(2::nat) ^ h \<le> 2 ^ 3" by (intro power_increasing) auto
      with \<open>10 < (2::nat) ^ h\<close> show False by simp
    qed
  next
    assume "4 \<le> h"
    then have "(2::nat) ^ 4 \<le> 2 ^ h" by (intro power_increasing) auto
    then show "10 < (2::nat) ^ h" by simp
  qed
  have p: "ParseIP (ip_String (net_base ?n + 10)) = Some (net_base ?n + 10)" if "Contains ?n (net_base ?n + 10)"
    using that by (auto intro: ParseIP_ip_String split: option.splits)
  show ?thesis
  proof (cases "subnet = DefaultServicesSubnet")
    case True
    have "ParseCIDR DefaultServicesSubnet = Some (Net4 0x0A600000 16)" "ParseIP DefaultClusterDNSIP = Some (net_base (Net4 0x0A600000 16) + 10)"
      "Contains (Net4 0x0A600000 16) (net_base (Net4 0x0A600000 16) + 10)" by code_simp+
    with True assms show ?thesis by (simp add: GetClusterDNSIP_def)
  next
    case False
    with assms c h p show ?thesis by (simp add: GetClusterDNSIP_def getIndexedIP_def DefaultDNSIPIndex_def del: Contains.simps net_base.simps)
  qed
qed

theorem cluster_dns_address_witness:
  "GetClusterDNSIP ''192.168.7.64/27'' = Some ''192.168.7.74'' \<and> GetClusterDNSIP ''192.168.7.64/29'' = None"
proof -
  have "ParseCIDR ''192.168.7.64/27'' = Some (Net4 0xC0A80740 5)" "ParseCIDR ''192.168.7.64/29'' = Some (Net4 0xC0A80740 3)" by code_simp+
  from this [THEN cluster_dns_address] have "GetClusterDNSIP ''192.168.7.64/27'' \<noteq> None" "GetClusterDNSIP ''192.168.7.64/29'' = None"
    by (auto split: option.splits)
  moreover have "GetClusterDNSIP ''192.168.7.64/27'' = Some ''192.168.7.74''" by code_simp
  ultimately show ?thesis by simp
qed

end
