(* ===== verification/Cluster_Defaults.thy ===== *)
theory Cluster_Defaults
  imports Cluster_Config Net_Addr
begin

text \<open>
  Defaults of a cluster configuration: \<^verbatim>\<open>common/cluster/initialize/defaults.go\<close>, the example
  configuration of \<^verbatim>\<open>export.go\<close>, the addresses of repositories of \<^verbatim>\<open>config.go\<close> and the embedded
  manifest of versions of \<^verbatim>\<open>versions/versions.go\<close>. A field that the code compares with its zero value
  is empty; the embedded file \<^verbatim>\<open>versions.yaml\<close> is a value of the model.

  The results: setting defaults is idempotent, changes no field that has a value, and leaves no gap in
  what the rest of the program requires.
\<close>

section \<open>Versions\<close>

(* src: common/cluster/initialize/versions/versions.go 31-56 Manifest *)
record version_manifest =
  vm_apiVersion :: string
  vm_kind :: string
  vm_manifestVersion :: string
  vm_kubernetes :: string
  vm_etcd :: string
  vm_containerd :: string
  vm_openFuyao :: string
  vm_etcdTag :: string
  vm_pauseTag :: string

(* src: common/cluster/initialize/versions/versions.go 95-128 Validate *)
definition manifest_Validate :: "version_manifest option \<Rightarrow> string option" where
  "manifest_Validate mo =
     (case mo of None \<Rightarrow> Some ''invalid versions manifest: manifest is required''
      | Some m \<Rightarrow>
          let required = [(''apiVersion'', vm_apiVersion m), (''kind'', vm_kind m), (''spec.manifestVersion'', vm_manifestVersion m),
                          (''spec.componentVersions.kubernetes'', vm_kubernetes m), (''spec.componentVersions.etcd'', vm_etcd m),
                          (''spec.componentVersions.containerd'', vm_containerd m), (''spec.componentVersions.openFuyao'', vm_openFuyao m),
                          (''spec.imageTags.etcd'', vm_etcdTag m), (''spec.imageTags.pause'', vm_pauseTag m)]
          in (case find (\<lambda>(p, v). TrimSpace v = []) required of
                Some (p, v) \<Rightarrow> Some (''invalid versions manifest: '' @ p @ '' is required'')
              | None \<Rightarrow>
                  if vm_apiVersion m \<noteq> ''bke.bocloud.com/v1'' then Some ''invalid versions manifest: unsupported apiVersion''
                  else if vm_kind m \<noteq> ''VersionManifest'' then Some ''invalid versions manifest: unsupported kind''
                  else if vm_manifestVersion m \<noteq> ''1'' then Some ''invalid versions manifest: unsupported spec.manifestVersion''
                  else None))"

text \<open>The embedded \<^verbatim>\<open>versions.yaml\<close>; \<^verbatim>\<open>mustLoad\<close> would panic on an invalid one.\<close>

definition embedded_manifest :: version_manifest where
  "embedded_manifest = \<lparr>vm_apiVersion = ''bke.bocloud.com/v1'', vm_kind = ''VersionManifest'', vm_manifestVersion = ''1'',
     vm_kubernetes = ''v1.34.3-of.1'', vm_etcd = ''v3.6.7-of.1'', vm_containerd = ''v2.1.1'', vm_openFuyao = ''latest'',
     vm_etcdTag = ''3.6.7-of.1'', vm_pauseTag = ''3.9''\<rparr>"

lemma embedded_manifest_valid: "manifest_Validate (Some embedded_manifest) = None"
  by code_simp

lemma manifest_Validate_versions:
  assumes "manifest_Validate (Some m) = None"
  shows "vm_kubernetes m \<noteq> [] \<and> vm_etcd m \<noteq> [] \<and> vm_containerd m \<noteq> [] \<and> vm_openFuyao m \<noteq> []"
  using assms by (auto simp: manifest_Validate_def Let_def split: if_splits option.splits)

section \<open>Defaults\<close>

definition or_default :: "string \<Rightarrow> string \<Rightarrow> string" where
  "or_default v d = (if v = [] then d else v)"

(* src: common/cluster/initialize/defaults.go 147-151 SetDefaultCertificatesDir *)
definition SetDefaultCertificatesDir :: "cluster_spec \<Rightarrow> cluster_spec" where
  "SetDefaultCertificatesDir c = c\<lparr>cs_certificatesDir := or_default (cs_certificatesDir c) ''/etc/kubernetes/pki''\<rparr>"

(* src: common/cluster/initialize/defaults.go 153-157 SetDefaultKubernetesVersion *)
definition SetDefaultKubernetesVersion :: "version_manifest \<Rightarrow> cluster_spec \<Rightarrow> cluster_spec" where
  "SetDefaultKubernetesVersion m c = c\<lparr>cs_kubernetesVersion := or_default (cs_kubernetesVersion c) (vm_kubernetes m)\<rparr>"

(* src: common/cluster/initialize/defaults.go 160-164 SetDefaultEtcdVersion *)
definition SetDefaultEtcdVersion :: "version_manifest \<Rightarrow> cluster_spec \<Rightarrow> cluster_spec" where
  "SetDefaultEtcdVersion m c = c\<lparr>cs_etcdVersion := or_default (cs_etcdVersion c) (vm_etcd m)\<rparr>"

(* src: common/cluster/initialize/defaults.go 167-171 SetDefaultContainerdVersion *)
definition SetDefaultContainerdVersion :: "version_manifest \<Rightarrow> cluster_spec \<Rightarrow> cluster_spec" where
  "SetDefaultContainerdVersion m c = c\<lparr>cs_containerdVersion := or_default (cs_containerdVersion c) (vm_containerd m)\<rparr>"

(* src: common/cluster/initialize/defaults.go 174-178 SetDefaultOpenFuyaoVersion *)
definition SetDefaultOpenFuyaoVersion :: "version_manifest \<Rightarrow> cluster_spec \<Rightarrow> cluster_spec" where
  "SetDefaultOpenFuyaoVersion m c = c\<lparr>cs_openFuyaoVersion := or_default (cs_openFuyaoVersion c) (vm_openFuyao m)\<rparr>"

(* src: common/cluster/initialize/defaults.go 61-61 DefaultYumRepo *)
definition DefaultYumRepo :: string where
  "DefaultYumRepo = ''http.bocloud.k8s''"

(* src: common/cluster/initialize/defaults.go 62-62 DefaultYumRepoPort *)
definition DefaultYumRepoPort :: string where
  "DefaultYumRepoPort = ''40080''"

(* src: common/cluster/initialize/defaults.go 58-58 DefaultImageRepo *)
definition DefaultImageRepo :: string where
  "DefaultImageRepo = ''deploy.bocloud.k8s''"

(* src: common/cluster/initialize/defaults.go 59-59 DefaultImageRepoPort *)
definition DefaultImageRepoPort :: string where
  "DefaultImageRepoPort = ''40443''"

(* src: common/cluster/initialize/defaults.go 60-60 ImageRegistryKubernetes *)
definition ImageRegistryKubernetes :: string where
  "ImageRegistryKubernetes = ''kubernetes''"

(* src: common/cluster/initialize/defaults.go 63-63 DefaultChartRepo *)
definition DefaultChartRepo :: string where
  "DefaultChartRepo = ''cr.openfuyao.cn''"

(* src: common/cluster/initialize/defaults.go 65-65 DefaultOnlineChartRepoPort *)
definition DefaultOnlineChartRepoPort :: string where
  "DefaultOnlineChartRepoPort = ''443''"

(* src: common/cluster/initialize/defaults.go 64-64 DefaultOfflineChartRepoPort *)
definition DefaultOfflineChartRepoPort :: string where
  "DefaultOfflineChartRepoPort = ''40443''"

(* src: common/cluster/initialize/defaults.go 66-66 DefaultChartRepoPrefix *)
definition DefaultChartRepoPrefix :: string where
  "DefaultChartRepoPrefix = ''chart''"

lemma repo_constants [simp]: "DefaultYumRepo \<noteq> []" "DefaultYumRepoPort \<noteq> []" "DefaultImageRepo \<noteq> []" "DefaultImageRepoPort \<noteq> []" "ImageRegistryKubernetes \<noteq> []" "DefaultChartRepo \<noteq> []" "DefaultOnlineChartRepoPort \<noteq> []" "DefaultOfflineChartRepoPort \<noteq> []" "DefaultChartRepoPrefix \<noteq> []"
  by (simp_all add: DefaultYumRepo_def DefaultYumRepoPort_def DefaultImageRepo_def DefaultImageRepoPort_def ImageRegistryKubernetes_def DefaultChartRepo_def DefaultOnlineChartRepoPort_def DefaultOfflineChartRepoPort_def DefaultChartRepoPrefix_def)

(* src: common/cluster/initialize/defaults.go 180-187 SetDefaultHttpRepo *)
definition SetDefaultHttpRepo :: "repo \<Rightarrow> repo" where
  "SetDefaultHttpRepo r =
     (let r1 = r\<lparr>rp_domain := or_default (rp_domain r) DefaultYumRepo\<rparr>
      in if rp_port r1 = [] \<and> rp_domain r1 = DefaultYumRepo then r1\<lparr>rp_port := DefaultYumRepoPort\<rparr> else r1)"

(* src: common/cluster/initialize/defaults.go 189-199 SetDefaultImageRepo *)
definition SetDefaultImageRepo :: "repo \<Rightarrow> repo" where
  "SetDefaultImageRepo r =
     (let r1 = r\<lparr>rp_domain := or_default (rp_domain r) DefaultImageRepo\<rparr>;
          r2 = (if rp_port r1 = [] \<and> rp_domain r1 = DefaultImageRepo then r1\<lparr>rp_port := DefaultImageRepoPort\<rparr> else r1)
      in if rp_prefix r2 = [] \<and> rp_domain r2 = DefaultImageRepo then r2\<lparr>rp_prefix := ImageRegistryKubernetes\<rparr> else r2)"

(* src: common/cluster/initialize/defaults.go 202-215 SetDefaultChartRepo *)
definition SetDefaultChartRepo :: "repo \<Rightarrow> repo" where
  "SetDefaultChartRepo r =
     (let r1 = (if rp_domain r = [] \<and> rp_ip r = [] then r\<lparr>rp_domain := DefaultChartRepo\<rparr> else r);
          r2 = (if rp_port r1 = [] \<and> rp_domain r1 = DefaultChartRepo then r1\<lparr>rp_port := DefaultOnlineChartRepoPort\<rparr> else r1);
          r3 = (if rp_port r2 = [] \<and> rp_domain r2 \<noteq> DefaultChartRepo then r2\<lparr>rp_port := DefaultOfflineChartRepoPort\<rparr> else r2)
      in if rp_prefix r3 = [] \<and> rp_domain r3 = DefaultChartRepo then r3\<lparr>rp_prefix := DefaultChartRepoPrefix\<rparr> else r3)"

(* src: common/cluster/initialize/defaults.go 217-227 SetDefaultClusterNetworking *)
definition SetDefaultClusterNetworking :: "networking \<Rightarrow> networking" where
  "SetDefaultClusterNetworking n = n\<lparr>nw_dnsDomain := or_default (nw_dnsDomain n) ''cluster.local'',
     nw_serviceSubnet := or_default (nw_serviceSubnet n) DefaultServicesSubnet,
     nw_podSubnet := or_default (nw_podSubnet n) ''10.250.0.0/16''\<rparr>"

definition zero_etcd :: etcd_config where
  "zero_etcd = \<lparr>et_component = zero_component, et_dataDir = [], et_serverCertSANs = [], et_peerCertSANs = []\<rparr>"

definition zero_api_server :: api_server where
  "zero_api_server = \<lparr>sv_endpoint = \<lparr>ep_host = [], ep_port = 0\<rparr>, sv_component = zero_component, sv_certSANs = []\<rparr>"

definition zero_kubelet :: kubelet_config where
  "zero_kubelet = \<lparr>ku_component = zero_component, ku_manifestsDir = []\<rparr>"

definition or_zero :: "'a option \<Rightarrow> 'a \<Rightarrow> 'a" where
  "or_zero v z = (case v of None \<Rightarrow> z | Some x \<Rightarrow> x)"

text \<open>Write a key of a map, which is made when it is nil, unless the key is there.\<close>

definition default_key :: "string \<Rightarrow> string \<Rightarrow> string gomap option \<Rightarrow> string gomap option" where
  "default_key k v m = (let m' = or_zero m [] in if has_key m' k then Some m' else Some (AList.update k v m'))"

(* src: common/cluster/initialize/defaults.go 229-237 SetDefaultEtcd *)
definition SetDefaultEtcd :: "control_plane \<Rightarrow> control_plane" where
  "SetDefaultEtcd cp =
     (let e = or_zero (cp_etcd cp) zero_etcd
      in cp\<lparr>cp_etcd := Some (e\<lparr>et_dataDir := or_default (et_dataDir e) ''/var/lib/openFuyao/etcd''\<rparr>)\<rparr>)"

(* src: common/cluster/initialize/defaults.go 239-254 SetDefaultAPIServer *)
definition SetDefaultAPIServer :: "control_plane \<Rightarrow> control_plane" where
  "SetDefaultAPIServer cp =
     (let s = or_zero (cp_apiServer cp) zero_api_server;
          ep = (if ep_port (sv_endpoint s) = 0 then (sv_endpoint s)\<lparr>ep_port := 6443\<rparr> else sv_endpoint s);
          co = (sv_component s)\<lparr>cc_extraArgs := default_key ''authorization-mode'' ''Node,RBAC'' (cc_extraArgs (sv_component s))\<rparr>
      in cp\<lparr>cp_apiServer := Some (s\<lparr>sv_endpoint := ep, sv_component := co\<rparr>)\<rparr>)"

(* src: common/cluster/initialize/defaults.go 256-260 SetDefaultControllerManager *)
definition SetDefaultControllerManager :: "control_plane \<Rightarrow> control_plane" where
  "SetDefaultControllerManager cp = cp\<lparr>cp_controllerManager := Some (or_zero (cp_controllerManager cp) zero_component)\<rparr>"

(* src: common/cluster/initialize/defaults.go 262-266 SetDefaultScheduler *)
definition SetDefaultScheduler :: "control_plane \<Rightarrow> control_plane" where
  "SetDefaultScheduler cp = cp\<lparr>cp_scheduler := Some (or_zero (cp_scheduler cp) zero_component)\<rparr>"

(* src: common/cluster/initialize/defaults.go 268-295 SetDefaultKubelet *)
definition SetDefaultKubelet :: "kubelet_config option \<Rightarrow> kubelet_config" where
  "SetDefaultKubelet ko =
     (let k = or_zero ko zero_kubelet;
          vols = cc_extraVolumes (ku_component k);
          vols' = (if list_ex (\<lambda>v. hm_name v = ''kubelet-root-dir'') vols then vols
                   else vols @ [\<lparr>hm_name = ''kubelet-root-dir'', hm_hostPath = ''/var/lib/kubelet'', hm_mountPath = [],
                                  hm_readOnly = False, hm_pathType = []\<rparr>])
      in k\<lparr>ku_manifestsDir := or_default (ku_manifestsDir k) ''/etc/kubernetes/manifests'',
           ku_component := (ku_component k)\<lparr>cc_extraArgs := Some (or_zero (cc_extraArgs (ku_component k)) []), cc_extraVolumes := vols'\<rparr>\<rparr>)"

(* src: common/cluster/initialize/defaults.go 297-323 SetDefaultContainerRuntime *)
definition SetDefaultContainerRuntime :: "container_runtime \<Rightarrow> container_runtime" where
  "SetDefaultContainerRuntime r =
     (let cri = or_default (rt_cri r) ''containerd'';
          p = default_key ''cgroupDriver'' ''systemd'' (rt_param r)
      in r\<lparr>rt_cri := cri, rt_runtime := or_default (rt_runtime r) ''runc'',
           rt_param := (if cri = ''containerd'' then default_key ''data-root'' ''/var/lib/containerd'' p
                        else if cri = ''docker'' then default_key ''data-root'' ''/var/lib/docker'' p else p)\<rparr>)"

(* src: common/cluster/initialize/defaults.go 129-145 SetDefaultCluster *)
definition SetDefaultCluster :: "version_manifest \<Rightarrow> cluster_spec \<Rightarrow> cluster_spec" where
  "SetDefaultCluster m c0 =
     (let c1 = SetDefaultOpenFuyaoVersion m (SetDefaultContainerdVersion m (SetDefaultEtcdVersion m
                 (SetDefaultKubernetesVersion m (SetDefaultCertificatesDir c0))));
          c2 = c1\<lparr>cs_httpRepo := SetDefaultHttpRepo (cs_httpRepo c1), cs_imageRepo := SetDefaultImageRepo (cs_imageRepo c1),
                  cs_chartRepo := SetDefaultChartRepo (cs_chartRepo c1), cs_networking := SetDefaultClusterNetworking (cs_networking c1)\<rparr>
      in c2\<lparr>cs_controlPlane := SetDefaultScheduler (SetDefaultControllerManager (SetDefaultAPIServer (SetDefaultEtcd (cs_controlPlane c2)))),
            cs_kubelet := Some (SetDefaultKubelet (cs_kubelet c2)),
            cs_containerRuntime := SetDefaultContainerRuntime (cs_containerRuntime c2)\<rparr>)"

(* src: common/cluster/initialize/defaults.go 125-127 SetDefaultBKEConfig *)
definition SetDefaultBKEConfig :: "version_manifest \<Rightarrow> cluster_spec \<Rightarrow> cluster_spec" where
  "SetDefaultBKEConfig m c = SetDefaultCluster m c"

lemmas default_defs = SetDefaultCluster_def SetDefaultOpenFuyaoVersion_def SetDefaultContainerdVersion_def SetDefaultEtcdVersion_def
  SetDefaultKubernetesVersion_def SetDefaultCertificatesDir_def Let_def

section \<open>Results\<close>

lemma or_default_simps [simp]: "or_default v d = [] \<longleftrightarrow> v = [] \<and> d = []" "or_default (or_default v d) d = or_default v d"
  "v \<noteq> [] \<Longrightarrow> or_default v d = v" "or_default [] d = d"
  by (auto simp: or_default_def)

lemma or_zero_simps [simp]: "or_zero None z = z" "or_zero (Some x) z = x"
  by (simp_all add: or_zero_def)

lemma default_key_lookup: "\<exists>m'. default_key k v m = Some m' \<and>
    map_of m' = (map_of (or_zero m []))(k \<mapsto> (case map_of (or_zero m []) k of None \<Rightarrow> v | Some u \<Rightarrow> u))"
  by (auto simp: default_key_def Let_def has_key_def split: option.splits)

lemma default_key_has: "default_key k v (default_key k v m) = default_key k v m"
  by (simp add: default_key_def Let_def)

lemma default_key_other: "k \<noteq> k' \<Longrightarrow> m \<noteq> None \<Longrightarrow> has_key (the m) k \<Longrightarrow>
    default_key k v (default_key k' v' m) = default_key k' v' m"
  by (auto simp: default_key_def Let_def)

lemma default_key_Some: "default_key k v m \<noteq> None" "has_key (the (default_key k v m)) k"
  by (auto simp: default_key_def Let_def)

lemma default_key_keeps: "m \<noteq> None \<Longrightarrow> has_key (the m) k \<Longrightarrow> has_key (the (default_key k' v' m)) k"
  by (auto simp: default_key_def Let_def)

lemma default_key_id: "m \<noteq> None \<Longrightarrow> has_key (the m) k \<Longrightarrow> default_key k v m = m"
  by (auto simp: default_key_def)

lemma http_defaults_idem: "SetDefaultHttpRepo (SetDefaultHttpRepo r) = SetDefaultHttpRepo r"
  by (cases "rp_domain r = []"; cases "rp_port r = []"; cases "rp_domain r = DefaultYumRepo"; simp add: SetDefaultHttpRepo_def)

lemma image_defaults_idem: "SetDefaultImageRepo (SetDefaultImageRepo r) = SetDefaultImageRepo r"
  by (cases "rp_domain r = []"; cases "rp_port r = []"; cases "rp_prefix r = []"; cases "rp_domain r = DefaultImageRepo";
      simp add: SetDefaultImageRepo_def)

lemma chart_defaults_idem: "SetDefaultChartRepo (SetDefaultChartRepo r) = SetDefaultChartRepo r"
  by (cases "rp_domain r = []"; cases "rp_ip r = []"; cases "rp_port r = []"; cases "rp_prefix r = []"; cases "rp_domain r = DefaultChartRepo";
      simp add: SetDefaultChartRepo_def)

lemmas repo_defaults_idem = http_defaults_idem image_defaults_idem chart_defaults_idem

lemma runtime_defaults_idem: "SetDefaultContainerRuntime (SetDefaultContainerRuntime r) = SetDefaultContainerRuntime r"
  by (auto simp: SetDefaultContainerRuntime_def Let_def default_key_id default_key_Some default_key_keeps)

lemma part_defaults_idem:
  "SetDefaultClusterNetworking (SetDefaultClusterNetworking n) = SetDefaultClusterNetworking n"
  "SetDefaultKubelet (Some (SetDefaultKubelet k)) = SetDefaultKubelet k"
  by (auto simp: SetDefaultClusterNetworking_def SetDefaultKubelet_def Let_def)

lemma control_plane_defaults_idem:
  "SetDefaultScheduler (SetDefaultControllerManager (SetDefaultAPIServer (SetDefaultEtcd
     (SetDefaultScheduler (SetDefaultControllerManager (SetDefaultAPIServer (SetDefaultEtcd cp))))))) =
   SetDefaultScheduler (SetDefaultControllerManager (SetDefaultAPIServer (SetDefaultEtcd cp)))"
  by (auto simp: SetDefaultScheduler_def SetDefaultControllerManager_def SetDefaultAPIServer_def SetDefaultEtcd_def Let_def default_key_has)

lemma SetDefaultCluster_idem: "SetDefaultCluster m (SetDefaultCluster m c) = SetDefaultCluster m c"
  by (simp add: default_defs repo_defaults_idem runtime_defaults_idem part_defaults_idem control_plane_defaults_idem)

text \<open>What a value may become: it stays unless it was empty.\<close>

definition kept :: "string \<Rightarrow> string \<Rightarrow> bool" where
  "kept v v' \<longleftrightarrow> v = [] \<or> v' = v"

definition kept_map :: "string gomap option \<Rightarrow> string gomap option \<Rightarrow> bool" where
  "kept_map m m' \<longleftrightarrow> (\<forall>k v. map_of (or_zero m []) k = Some v \<longrightarrow> map_of (or_zero m' []) k = Some v)"

definition kept_repo :: "repo \<Rightarrow> repo \<Rightarrow> bool" where
  "kept_repo r r' \<longleftrightarrow> kept (rp_domain r) (rp_domain r') \<and> kept (rp_port r) (rp_port r') \<and> kept (rp_prefix r) (rp_prefix r') \<and>
     rp_ip r' = rp_ip r \<and> rp_authSecretRef r' = rp_authSecretRef r \<and> rp_tlsSecretRef r' = rp_tlsSecretRef r \<and>
     rp_insecureSkipTLSVerify r' = rp_insecureSkipTLSVerify r"

definition kept_control_plane :: "control_plane \<Rightarrow> control_plane \<Rightarrow> bool" where
  "kept_control_plane p p' \<longleftrightarrow>
     (\<forall>x. cp_controllerManager p = Some x \<longrightarrow> cp_controllerManager p' = Some x) \<and>
     (\<forall>x. cp_scheduler p = Some x \<longrightarrow> cp_scheduler p' = Some x) \<and>
     (\<forall>e. cp_etcd p = Some e \<longrightarrow> (\<exists>d. cp_etcd p' = Some (e\<lparr>et_dataDir := d\<rparr>) \<and> kept (et_dataDir e) d)) \<and>
     (\<forall>s. cp_apiServer p = Some s \<longrightarrow>
        (\<exists>s'. cp_apiServer p' = Some s' \<and> sv_certSANs s' = sv_certSANs s \<and> ep_host (sv_endpoint s') = ep_host (sv_endpoint s) \<and>
           (ep_port (sv_endpoint s) \<noteq> 0 \<longrightarrow> ep_port (sv_endpoint s') = ep_port (sv_endpoint s)) \<and>
           cc_extraVolumes (sv_component s') = cc_extraVolumes (sv_component s) \<and>
           kept_map (cc_extraArgs (sv_component s)) (cc_extraArgs (sv_component s'))))"

definition kept_kubelet :: "kubelet_config option \<Rightarrow> kubelet_config \<Rightarrow> bool" where
  "kept_kubelet ko k' \<longleftrightarrow> (\<forall>k. ko = Some k \<longrightarrow> kept (ku_manifestsDir k) (ku_manifestsDir k') \<and>
     kept_map (cc_extraArgs (ku_component k)) (cc_extraArgs (ku_component k')) \<and>
     take (length (cc_extraVolumes (ku_component k))) (cc_extraVolumes (ku_component k')) = cc_extraVolumes (ku_component k))"

definition kept_runtime :: "container_runtime \<Rightarrow> container_runtime \<Rightarrow> bool" where
  "kept_runtime r r' \<longleftrightarrow> kept (rt_cri r) (rt_cri r') \<and> kept (rt_runtime r) (rt_runtime r') \<and> kept_map (rt_param r) (rt_param r')"

definition kept_config :: "cluster_spec \<Rightarrow> cluster_spec \<Rightarrow> bool" where
  "kept_config c c' \<longleftrightarrow>
     kept (cs_openFuyaoVersion c) (cs_openFuyaoVersion c') \<and> kept (cs_containerdVersion c) (cs_containerdVersion c') \<and>
     kept (cs_kubernetesVersion c) (cs_kubernetesVersion c') \<and> kept (cs_etcdVersion c) (cs_etcdVersion c') \<and>
     kept (cs_certificatesDir c) (cs_certificatesDir c') \<and>
     kept (nw_dnsDomain (cs_networking c)) (nw_dnsDomain (cs_networking c')) \<and>
     kept (nw_serviceSubnet (cs_networking c)) (nw_serviceSubnet (cs_networking c')) \<and>
     kept (nw_podSubnet (cs_networking c)) (nw_podSubnet (cs_networking c')) \<and>
     kept_repo (cs_httpRepo c) (cs_httpRepo c') \<and> kept_repo (cs_imageRepo c) (cs_imageRepo c') \<and> kept_repo (cs_chartRepo c) (cs_chartRepo c') \<and>
     kept_control_plane (cs_controlPlane c) (cs_controlPlane c') \<and> kept_kubelet (cs_kubelet c) (the (cs_kubelet c')) \<and>
     kept_runtime (cs_containerRuntime c) (cs_containerRuntime c') \<and>
     cs_containerdConfigRef c' = cs_containerdConfigRef c \<and> cs_ntpServer c' = cs_ntpServer c \<and> cs_agentHealthPort c' = cs_agentHealthPort c \<and>
     cs_labels c' = cs_labels c \<and> cs_addons c' = cs_addons c \<and> cs_customExtra c' = cs_customExtra c"

text \<open>What the rest of the program may rely on after the defaults.\<close>

definition config_complete :: "cluster_spec \<Rightarrow> bool" where
  "config_complete c \<longleftrightarrow>
     cs_openFuyaoVersion c \<noteq> [] \<and> cs_containerdVersion c \<noteq> [] \<and> cs_kubernetesVersion c \<noteq> [] \<and> cs_etcdVersion c \<noteq> [] \<and>
     cs_certificatesDir c \<noteq> [] \<and> nw_dnsDomain (cs_networking c) \<noteq> [] \<and> nw_serviceSubnet (cs_networking c) \<noteq> [] \<and>
     nw_podSubnet (cs_networking c) \<noteq> [] \<and> rp_domain (cs_httpRepo c) \<noteq> [] \<and> rp_domain (cs_imageRepo c) \<noteq> [] \<and>
     (rp_domain (cs_chartRepo c) \<noteq> [] \<or> rp_ip (cs_chartRepo c) \<noteq> []) \<and> rp_port (cs_chartRepo c) \<noteq> [] \<and>
     (\<exists>e. cp_etcd (cs_controlPlane c) = Some e \<and> et_dataDir e \<noteq> []) \<and>
     (\<exists>s m. cp_apiServer (cs_controlPlane c) = Some s \<and> ep_port (sv_endpoint s) \<noteq> 0 \<and>
        cc_extraArgs (sv_component s) = Some m \<and> has_key m ''authorization-mode'') \<and>
     cp_controllerManager (cs_controlPlane c) \<noteq> None \<and> cp_scheduler (cs_controlPlane c) \<noteq> None \<and>
     (\<exists>k. cs_kubelet c = Some k \<and> ku_manifestsDir k \<noteq> [] \<and> list_ex (\<lambda>v. hm_name v = ''kubelet-root-dir'') (cc_extraVolumes (ku_component k))) \<and>
     rt_cri (cs_containerRuntime c) \<noteq> [] \<and> rt_runtime (cs_containerRuntime c) \<noteq> [] \<and>
     (\<exists>m. rt_param (cs_containerRuntime c) = Some m \<and> has_key m ''cgroupDriver'')"

lemma kept_default [simp]: "kept v (or_default v d)"
  by (simp add: kept_def or_default_def)

lemma kept_map_trans: "kept_map a b \<Longrightarrow> kept_map b c \<Longrightarrow> kept_map a c"
  by (auto simp: kept_map_def)

lemma kept_map_default [simp]: "kept_map m (default_key k v m)"
  by (auto simp: kept_map_def default_key_def Let_def has_key_def)

lemma kept_map_wrap [simp]: "kept_map m (Some (or_zero m []))"
  by (simp add: kept_map_def)

lemma kept_repos: "kept_repo r (SetDefaultHttpRepo r)" "kept_repo r (SetDefaultImageRepo r)" "kept_repo r (SetDefaultChartRepo r)"
  by (simp_all add: kept_repo_def kept_def or_default_def SetDefaultHttpRepo_def SetDefaultImageRepo_def SetDefaultChartRepo_def Let_def)

lemma kept_control_planes:
  "kept_control_plane p (SetDefaultScheduler (SetDefaultControllerManager (SetDefaultAPIServer (SetDefaultEtcd p))))"
  by (auto simp: kept_control_plane_def SetDefaultScheduler_def SetDefaultControllerManager_def SetDefaultAPIServer_def SetDefaultEtcd_def Let_def)

lemma kept_kubelets: "kept_kubelet k (SetDefaultKubelet k)"
  by (auto simp: kept_kubelet_def SetDefaultKubelet_def Let_def)

lemma kept_runtimes: "kept_runtime r (SetDefaultContainerRuntime r)"
  using kept_map_trans [OF kept_map_default kept_map_default]
  by (auto simp: kept_runtime_def SetDefaultContainerRuntime_def Let_def)

lemma networking_complete: "nw_dnsDomain (SetDefaultClusterNetworking n) \<noteq> []" "nw_serviceSubnet (SetDefaultClusterNetworking n) \<noteq> []"
  "nw_podSubnet (SetDefaultClusterNetworking n) \<noteq> []"
  by (simp_all add: SetDefaultClusterNetworking_def DefaultServicesSubnet_def)

lemma repos_complete: "rp_domain (SetDefaultHttpRepo r) \<noteq> []" "rp_domain (SetDefaultImageRepo r) \<noteq> []"
  by (simp_all add: SetDefaultHttpRepo_def SetDefaultImageRepo_def Let_def)

lemma chart_address: "rp_domain (SetDefaultChartRepo r) = [] \<longrightarrow> rp_ip (SetDefaultChartRepo r) \<noteq> []"
  by (cases "rp_domain r = []"; cases "rp_ip r = []"; cases "rp_port r = []"; cases "rp_prefix r = []"; cases "rp_domain r = DefaultChartRepo";
      simp add: SetDefaultChartRepo_def)

lemma chart_port: "rp_port (SetDefaultChartRepo r) \<noteq> []"
  by (cases "rp_domain r = []"; cases "rp_ip r = []"; cases "rp_port r = []"; cases "rp_prefix r = []"; cases "rp_domain r = DefaultChartRepo";
      simp add: SetDefaultChartRepo_def)

lemma control_plane_complete:
  fixes p defines "p' \<equiv> SetDefaultScheduler (SetDefaultControllerManager (SetDefaultAPIServer (SetDefaultEtcd p)))"
  shows "\<exists>e. cp_etcd p' = Some e \<and> et_dataDir e \<noteq> []"
    "\<exists>s. cp_apiServer p' = Some s \<and> ep_port (sv_endpoint s) \<noteq> 0 \<and> (\<exists>m. cc_extraArgs (sv_component s) = Some m \<and> has_key m ''authorization-mode'')"
    "cp_controllerManager p' \<noteq> None" "cp_scheduler p' \<noteq> None"
  by (auto simp: p'_def SetDefaultScheduler_def SetDefaultControllerManager_def SetDefaultAPIServer_def SetDefaultEtcd_def Let_def default_key_def)

lemma kubelet_complete: "ku_manifestsDir (SetDefaultKubelet k) \<noteq> []"
  "list_ex (\<lambda>v. hm_name v = ''kubelet-root-dir'') (cc_extraVolumes (ku_component (SetDefaultKubelet k)))"
  by (auto simp: SetDefaultKubelet_def Let_def)

lemma runtime_complete: "rt_cri (SetDefaultContainerRuntime r) \<noteq> []" "rt_runtime (SetDefaultContainerRuntime r) \<noteq> []"
  "\<exists>m'. rt_param (SetDefaultContainerRuntime r) = Some m' \<and> has_key m' ''cgroupDriver''"
  by (auto simp: SetDefaultContainerRuntime_def Let_def default_key_def)

lemmas parts_complete = networking_complete repos_complete chart_address chart_port control_plane_complete kubelet_complete runtime_complete

text \<open>Setting defaults changes no value that is set, adds at most one volume to the kubelet, fills every
  field that is required, and is idempotent.\<close>

theorem defaults_fill_gaps:
  assumes "manifest_Validate (Some m) = None"
  shows "kept_config c (SetDefaultBKEConfig m c) \<and> config_complete (SetDefaultBKEConfig m c) \<and>
    SetDefaultBKEConfig m (SetDefaultBKEConfig m c) = SetDefaultBKEConfig m c"
proof (intro conjI)
  show "kept_config c (SetDefaultBKEConfig m c)"
    by (simp add: SetDefaultBKEConfig_def kept_config_def default_defs kept_repos kept_control_planes kept_kubelets kept_runtimes)
      (simp add: SetDefaultClusterNetworking_def)
  show "config_complete (SetDefaultBKEConfig m c)"
    using manifest_Validate_versions [OF assms]
    by (simp add: SetDefaultBKEConfig_def config_complete_def default_defs parts_complete)
qed (simp add: SetDefaultBKEConfig_def SetDefaultCluster_idem)

theorem defaults_fill_gaps_witness:
  "let c = zero_config\<lparr>cs_kubernetesVersion := ''v1.30.0'', cs_containerRuntime := \<lparr>rt_cri = ''docker'', rt_runtime = [], rt_param = Some [(''data-root'', ''/data'')]\<rparr>\<rparr>;
     c' = SetDefaultBKEConfig embedded_manifest c
   in cs_kubernetesVersion c' = ''v1.30.0'' \<and> config_complete c' \<and> map_of (the (rt_param (cs_containerRuntime c'))) ''data-root'' = Some ''/data''"
proof -
  define c where "c = zero_config\<lparr>cs_kubernetesVersion := ''v1.30.0'', cs_containerRuntime := \<lparr>rt_cri = ''docker'', rt_runtime = [], rt_param = Some [(''data-root'', ''/data'')]\<rparr>\<rparr>"
  have "config_complete (SetDefaultBKEConfig embedded_manifest c)"
    using defaults_fill_gaps [OF embedded_manifest_valid, of c] by blast
  moreover have "cs_kubernetesVersion (SetDefaultBKEConfig embedded_manifest c) = ''v1.30.0''"
    "map_of (the (rt_param (cs_containerRuntime (SetDefaultBKEConfig embedded_manifest c)))) ''data-root'' = Some ''/data''"
    unfolding c_def by code_simp+
  ultimately show ?thesis unfolding Let_def c_def by blast
qed

end
