(* ===== verification/Password.thy ===== *)
theory Password
  imports Prelude "HOL-Library.Word"
begin

text \<open>
  Stored passwords: \<^verbatim>\<open>common/security/security.go\<close>. A byte is a \<^typ>\<open>char\<close>. Of the standard
  library the model has base64 and the chaining of blocks (CBC); the block cipher itself,
  \<^verbatim>\<open>crypto/aes\<close>, is a parameter of which the theorems assume that decryption undoes encryption. The
  random initial vector is an argument, and so is the value of the environment variable with the key,
  which a process reads once.

  The results: what is encrypted can be decrypted, with the vector and key of the encryption; a
  password in the format of older releases stays readable; a password that happens to look like one
  is taken for an encrypted one.
\<close>

section \<open>Base64\<close>

definition b64_alphabet :: string where
  "b64_alphabet = ''ABCDEFGHIJKLMNOPQRSTUVWXYZabcdefghijklmnopqrstuvwxyz0123456789+/''"

definition b64_char :: "nat \<Rightarrow> char" where
  "b64_char n = b64_alphabet ! n"

fun index_of :: "'a list \<Rightarrow> 'a \<Rightarrow> nat option" where
  "index_of [] y = None"
| "index_of (x # xs) y = (if x = y then Some 0 else map_option Suc (index_of xs y))"

definition b64_val :: "char \<Rightarrow> nat option" where
  "b64_val c = index_of b64_alphabet c"

abbreviation byte :: "char \<Rightarrow> nat" where
  "byte c \<equiv> of_char c"

definition quad :: "char \<Rightarrow> char \<Rightarrow> char \<Rightarrow> nat list" where
  "quad a b c = [byte a div 4, byte a mod 4 * 16 + byte b div 16, byte b mod 16 * 4 + byte c div 64, byte c mod 64]"

fun EncodeToString :: "string \<Rightarrow> string" where
  "EncodeToString [] = []"
| "EncodeToString [a] = map b64_char (take 2 (quad a (CHR 0x00) (CHR 0x00))) @ ''==''"
| "EncodeToString [a, b] = map b64_char (take 3 (quad a b (CHR 0x00))) @ ''=''"
| "EncodeToString (a # b # c # rest) = map b64_char (quad a b c) @ EncodeToString rest"

definition triple :: "nat \<Rightarrow> nat \<Rightarrow> nat \<Rightarrow> nat \<Rightarrow> string" where
  "triple w x y z = [char_of (w * 4 + x div 16), char_of (x mod 16 * 16 + y div 4), char_of (y mod 4 * 64 + z)]"

fun decode_quads :: "string \<Rightarrow> string option" where
  "decode_quads [] = Some []"
| "decode_quads (c1 # c2 # c3 # c4 # rest) =
     (if c3 = CHR ''='' \<and> c4 = CHR ''='' \<and> rest = []
      then (case (b64_val c1, b64_val c2) of
              (Some w, Some x) \<Rightarrow> Some (take 1 (triple w x 0 0)) | _ \<Rightarrow> None)
      else if c4 = CHR ''='' \<and> rest = []
      then (case (b64_val c1, b64_val c2, b64_val c3) of
              (Some w, Some x, Some y) \<Rightarrow> Some (take 2 (triple w x y 0)) | _ \<Rightarrow> None)
      else (case (b64_val c1, b64_val c2, b64_val c3, b64_val c4) of
              (Some w, Some x, Some y, Some z) \<Rightarrow> map_option ((@) (triple w x y z)) (decode_quads rest) | _ \<Rightarrow> None))"
| "decode_quads _ = None"

text \<open>Line breaks are skipped.\<close>

definition DecodeString :: "string \<Rightarrow> string option" where
  "DecodeString s = decode_quads (filter (\<lambda>c. c \<noteq> CHR 0x0A \<and> c \<noteq> CHR 0x0D) s)"

section \<open>Chained blocks\<close>

definition xor_char :: "char \<Rightarrow> char \<Rightarrow> char" where
  "xor_char a b = char_of (Bit_Operations.xor (byte a) (byte b))"

definition xor_block :: "string \<Rightarrow> string \<Rightarrow> string" where
  "xor_block xs ys = map2 xor_char xs ys"

function cbc_encrypt :: "(string \<Rightarrow> string) \<Rightarrow> string \<Rightarrow> string \<Rightarrow> string" where
  "cbc_encrypt E iv data =
     (if data = [] then []
      else let c = E (xor_block (take 16 data) iv) in c @ cbc_encrypt E c (drop 16 data))"
  by pat_completeness auto

termination cbc_encrypt
  by (relation "measure (\<lambda>(E, iv, data). length data)") auto

function cbc_decrypt :: "(string \<Rightarrow> string) \<Rightarrow> string \<Rightarrow> string \<Rightarrow> string" where
  "cbc_decrypt D iv data =
     (if data = [] then []
      else xor_block (D (take 16 data)) iv @ cbc_decrypt D (take 16 data) (drop 16 data))"
  by pat_completeness auto

termination cbc_decrypt
  by (relation "measure (\<lambda>(D, iv, data). length data)") auto

declare cbc_encrypt.simps [simp del] cbc_decrypt.simps [simp del]

text \<open>The block cipher for a key; \<^verbatim>\<open>aes.NewCipher\<close> takes keys of 16, 24 and 32 bytes.\<close>

record block_cipher =
  bc_encrypt :: "string \<Rightarrow> string \<Rightarrow> string"
  bc_decrypt :: "string \<Rightarrow> string \<Rightarrow> string"

definition NewCipher_ok :: "string \<Rightarrow> bool" where
  "NewCipher_ok k \<longleftrightarrow> length k \<in> {16, 24, 32}"

section \<open>security.go\<close>

datatype secret_error = BadKey string | RefuseLegacyKey | BadCipherKey | NoRandom | BadBase64 | BadLength | BadPadding

(* src: common/security/security.go 34-34 legacySignature *)
definition legacySignature :: string where
  "legacySignature = ''c02ba0b582501608''"

(* src: common/security/security.go 46-46 magicPrefix *)
definition magicPrefix :: string where
  "magicPrefix = ''OFMK''"

(* src: common/security/security.go 64-87 loadKey *)
definition loadKey :: "string \<Rightarrow> secret_error + string" where
  "loadKey env =
     (if env \<noteq> []
      then (case DecodeString env of
              None \<Rightarrow> Inl (BadKey ''base64 decode failed'')
            | Some k \<Rightarrow> if length k \<noteq> 32 then Inl (BadKey ''expected 32 bytes'') else Inr k)
      else Inr legacySignature)"

(* src: common/security/security.go 91-93 isLegacyKey *)
definition isLegacyKey :: "string \<Rightarrow> bool" where
  "isLegacyKey k \<longleftrightarrow> k = legacySignature"

(* src: common/security/security.go 222-226 pkcs7Padding *)
definition pkcs7Padding :: "string \<Rightarrow> string" where
  "pkcs7Padding s = (let padding = 16 - length s mod 16 in s @ replicate padding (char_of padding))"

(* src: common/security/security.go 209-219 pkcs7UnPaddingSafe *)
definition pkcs7UnPaddingSafe :: "string \<Rightarrow> secret_error + string" where
  "pkcs7UnPaddingSafe s =
     (if s = [] then Inl BadPadding
      else let unpadding = byte (last s) :: nat
           in if unpadding > length s \<or> unpadding = 0 \<or> unpadding > 16 then Inl BadPadding
              else Inr (take (length s - unpadding) s))"

text \<open>The random vector is \<^const>\<open>None\<close> when the generator fails.\<close>

(* src: common/security/security.go 97-131 AesEncrypt *)
definition AesEncrypt :: "block_cipher \<Rightarrow> string \<Rightarrow> string option \<Rightarrow> string \<Rightarrow> secret_error + string" where
  "AesEncrypt aes env rnd password =
     (case loadKey env of
        Inl e \<Rightarrow> Inl e
      | Inr k \<Rightarrow>
          if isLegacyKey k then Inl RefuseLegacyKey
          else if \<not> NewCipher_ok k then Inl BadCipherKey
          else (case rnd of
                  None \<Rightarrow> Inl NoRandom
                | Some iv \<Rightarrow> Inr (EncodeToString (magicPrefix @ iv @ cbc_encrypt (bc_encrypt aes k) iv (pkcs7Padding password)))))"

(* src: common/security/security.go 138-206 AesDecrypt *)
definition AesDecrypt :: "block_cipher \<Rightarrow> string \<Rightarrow> string \<Rightarrow> secret_error + string" where
  "AesDecrypt aes env crypted =
     (case DecodeString crypted of
        None \<Rightarrow> Inl BadBase64
      | Some data \<Rightarrow>
          if HasPrefix data magicPrefix
          then (case loadKey env of
                  Inl e \<Rightarrow> Inl e
                | Inr k \<Rightarrow>
                    if isLegacyKey k then Inl RefuseLegacyKey
                    else let remainder = drop (length magicPrefix) data
                         in if length remainder \<le> 16 \<or> length remainder mod 16 \<noteq> 0 then Inl BadLength
                            else if \<not> NewCipher_ok k then Inl BadCipherKey
                            else pkcs7UnPaddingSafe (cbc_decrypt (bc_decrypt aes k) (take 16 remainder) (drop 16 remainder)))
          else if data = [] \<or> length data mod 16 \<noteq> 0 then Inl BadLength
          else pkcs7UnPaddingSafe (cbc_decrypt (bc_decrypt aes legacySignature) (take 16 legacySignature) data))"

section \<open>Round trips\<close>

lemma b64_table: "list_all (\<lambda>n. b64_val (b64_char n) = Some n \<and> b64_char n \<notin> {CHR ''='', CHR 0x0A, CHR 0x0D}) [0..<64]"
  by code_simp

lemma b64_inverse:
  assumes "n < 64"
  shows "b64_val (b64_char n) = Some n" "b64_char n \<noteq> CHR ''=''" "b64_char n \<noteq> CHR 0x0A" "b64_char n \<noteq> CHR 0x0D"
  using b64_table assms by (auto simp: list_all_iff)

lemma byte_less: "byte c < (256 :: nat)"
  by (metis nat_of_char_less_256)

lemma quad_less: "n \<in> set (quad a b c) \<Longrightarrow> n < 64"
proof -
  have "byte a div 4 < (64 :: nat)" "byte b div 16 < (16 :: nat)" "byte c div 64 < (4 :: nat)"
    using byte_less [of a] byte_less [of b] byte_less [of c] by (simp_all add: div_less_iff_less_mult)
  moreover have "byte a mod 4 < (4 :: nat)" "byte b mod 16 < (16 :: nat)" "byte c mod 64 < (64 :: nat)" by simp_all
  ultimately show "n \<in> set (quad a b c) \<Longrightarrow> n < 64" unfolding quad_def by auto
qed

lemma join_bits: "n div k * k + n mod k = (n :: nat)"
  by (rule div_mult_mod_eq)

lemma triple_quad:
  assumes "quad a b c = [w, x, y, z]"
  shows "triple w x y z = [a, b, c]"
proof -
  have d: "w = byte a div 4" "x = byte a mod 4 * 16 + byte b div 16" "y = byte b mod 16 * 4 + byte c div 64" "z = byte c mod 64"
    using assms by (simp_all add: quad_def)
  have l: "byte b div 16 < (16 :: nat)" "byte c div 64 < (4 :: nat)" using byte_less [of b] byte_less [of c] by (simp_all add: div_less_iff_less_mult)
  have x: "x div 16 = byte a mod 4" "x mod 16 = byte b div 16" using l(1) by (simp_all add: d)
  have y: "y div 4 = byte b mod 16" "y mod 4 = byte c div 64" using l(2) by (simp_all add: d)
  show ?thesis unfolding triple_def x y unfolding d by (simp only: join_bits char_of_char)
qed

lemma decode_encode: "decode_quads (EncodeToString s) = Some s \<and> list_all (\<lambda>c. c \<noteq> CHR 0x0A \<and> c \<noteq> CHR 0x0D) (EncodeToString s)"
proof (induction s rule: EncodeToString.induct)
  case (2 a)
  obtain w x y z where q: "quad a (CHR 0x00) (CHR 0x00) = [w, x, y, z]" by (simp add: quad_def)
  have zy: "y = 0" "z = 0" using q by (auto simp: quad_def)
  have l: "w < 64" "x < 64" using quad_less q by (metis list.set_intros)+
  show ?case using triple_quad [OF q] by (simp add: q b64_inverse l zy)
next
  case (3 a b)
  obtain w x y z where q: "quad a b (CHR 0x00) = [w, x, y, z]" by (simp add: quad_def)
  have zy: "z = 0" using q by (auto simp: quad_def)
  have l: "w < 64" "x < 64" "y < 64" using quad_less q by (metis list.set_intros)+
  show ?case using triple_quad [OF q] by (simp add: q b64_inverse l zy)
next
  case (4 a b c rest)
  obtain w x y z where q: "quad a b c = [w, x, y, z]" by (simp add: quad_def)
  have l: "w < 64" "x < 64" "y < 64" "z < 64" using quad_less q by (metis list.set_intros)+
  show ?case using triple_quad [OF q] 4 by (simp add: q b64_inverse l)
qed simp

lemma DecodeString_EncodeToString: "DecodeString (EncodeToString s) = Some s"
  using decode_encode [of s] by (simp add: DecodeString_def list_all_iff filter_True)

lemma xor_char_twice: "xor_char (xor_char a b) b = a"
proof -
  have "of_char (xor_char a b) = (Bit_Operations.xor (byte a) (byte b) mod 256 :: nat)" by (simp add: xor_char_def)
  also have "\<dots> = take_bit 8 (Bit_Operations.xor (byte a) (byte b) :: nat)" by (simp add: take_bit_eq_mod)
  also have "\<dots> = Bit_Operations.xor (byte a) (byte b :: nat)"
    using byte_less [of a] byte_less [of b] by (simp add: take_bit_nat_eq_self)
  finally show ?thesis by (simp add: xor_char_def xor.assoc)
qed

lemma xor_block_length: "length (xor_block xs ys) = min (length xs) (length ys)"
  by (simp add: xor_block_def)

lemma xor_block_twice: "length xs = length ys \<Longrightarrow> xor_block (xor_block xs ys) ys = xs"
  by (induction xs ys rule: list_induct2) (simp_all add: xor_block_def xor_char_twice)

definition cipher_ok :: "block_cipher \<Rightarrow> bool" where
  "cipher_ok aes \<longleftrightarrow> (\<forall>k b. NewCipher_ok k \<and> length b = 16 \<longrightarrow>
     length (bc_encrypt aes k b) = 16 \<and> bc_decrypt aes k (bc_encrypt aes k b) = b)"

lemma cbc_roundtrip:
  assumes "\<And>b. length b = 16 \<Longrightarrow> length (E b) = 16 \<and> D (E b) = b" and "length iv = 16" and "length data mod 16 = 0"
  shows "cbc_decrypt D iv (cbc_encrypt E iv data) = data \<and> length (cbc_encrypt E iv data) = length data"
  using assms(2,3)
proof (induction "length data" arbitrary: iv data rule: less_induct)
  case less
  show ?case
  proof (cases "data = []")
    case False
    with less.prems have l: "16 \<le> length data" by (metis length_0_conv mod_less not_le)
    let ?c = "E (xor_block (take 16 data) iv)" and ?rest = "drop 16 data"
    have b: "length (xor_block (take 16 data) iv) = 16" using l less.prems by (simp add: xor_block_length)
    have c: "length ?c = 16" "D ?c = xor_block (take 16 data) iv" using assms(1) [OF b] by auto
    have "length ?rest mod 16 = 0" using l less.prems(2) by (simp add: mod_if mod_diff_eq le_mod_geq)
    with less.hyps [of ?rest ?c] c l have IH: "cbc_decrypt D ?c (cbc_encrypt E ?c ?rest) = ?rest" "length (cbc_encrypt E ?c ?rest) = length ?rest"
      by auto
    have e: "cbc_encrypt E iv data = ?c @ cbc_encrypt E ?c ?rest" using False by (simp add: cbc_encrypt.simps [of E iv data] Let_def)
    have "cbc_decrypt D iv (cbc_encrypt E iv data) = xor_block (D ?c) iv @ cbc_decrypt D ?c (cbc_encrypt E ?c ?rest)"
      using c(1) unfolding e by (subst cbc_decrypt.simps) auto
    also have "\<dots> = data" using l less.prems(1) by (simp add: c(2) IH xor_block_twice)
    finally show ?thesis using l c(1) IH(2) by (simp add: e)
  qed (simp add: cbc_encrypt.simps cbc_decrypt.simps)
qed

lemma unpad_pad: "pkcs7UnPaddingSafe (pkcs7Padding s) = Inr s"
proof -
  define p where "p = 16 - length s mod 16"
  have "length s mod 16 < 16" by simp
  then have p: "p \<noteq> 0" "p \<le> 16" by (simp_all add: p_def)
  then have "(byte (char_of p) :: nat) = p" by simp
  with p show ?thesis by (simp add: pkcs7UnPaddingSafe_def pkcs7Padding_def Let_def flip: p_def)
qed

lemma pad_length: "length (pkcs7Padding s) mod 16 = 0" "pkcs7Padding s \<noteq> []"
proof -
  have "length (pkcs7Padding s) = (length s div 16 + 1) * 16"
  proof -
    have "length s mod 16 < 16" by simp
    then have "length s + (16 - length s mod 16) = length s div 16 * 16 + 16" using div_mult_mod_eq [of "length s" 16] by linarith
    then show ?thesis by (simp add: pkcs7Padding_def Let_def)
  qed
  then show "length (pkcs7Padding s) mod 16 = 0" "pkcs7Padding s \<noteq> []" by auto
qed

lemma decrypt_encrypt:
  assumes "cipher_ok aes" and "case rnd of None \<Rightarrow> True | Some iv \<Rightarrow> length iv = 16" and "AesEncrypt aes env rnd password = Inr c"
  shows "AesDecrypt aes env c = Inr password"
proof -
  obtain k iv where e: "loadKey env = Inr k" "\<not> isLegacyKey k" "NewCipher_ok k" "rnd = Some iv"
    and c: "c = EncodeToString (magicPrefix @ iv @ cbc_encrypt (bc_encrypt aes k) iv (pkcs7Padding password))"
    using assms(3) by (auto simp: AesEncrypt_def split: sum.splits if_splits option.splits)
  have iv: "length iv = 16" using assms(2) e(4) by simp
  let ?ct = "cbc_encrypt (bc_encrypt aes k) iv (pkcs7Padding password)"
  have rt: "cbc_decrypt (bc_decrypt aes k) iv ?ct = pkcs7Padding password" "length ?ct = length (pkcs7Padding password)"
    using cbc_roundtrip [of "bc_encrypt aes k" "bc_decrypt aes k" iv "pkcs7Padding password"] assms(1) e(3) iv pad_length(1) by (auto simp: cipher_ok_def)
  then have "length ?ct mod 16 = 0" "?ct \<noteq> []" using pad_length by (metis, metis length_0_conv)
  then show ?thesis
    using e iv by (simp add: AesDecrypt_def c DecodeString_EncodeToString rt(1) unpad_pad Let_def)
qed

text \<open>C20. What is encrypted can be decrypted: when encryption succeeds, decryption under the same key gives
  the password back, whatever the random vector was.\<close>

theorem password_roundtrip:
  assumes "cipher_ok aes" and "case rnd of None \<Rightarrow> True | Some iv \<Rightarrow> length iv = 16" and "AesEncrypt aes env rnd password = Inr c"
  shows "AesDecrypt aes env c = Inr password"
  using assms by (rule decrypt_encrypt)

text \<open>A password of an older release, encrypted under the fixed key with the key as vector, can be read
  with or without a key of one's own, unless it starts with the marker of the new format.\<close>

theorem legacy_password_readable:
  assumes "cipher_ok aes" and "data = cbc_encrypt (bc_encrypt aes legacySignature) legacySignature (pkcs7Padding password)"
    and "\<not> HasPrefix data magicPrefix"
  shows "AesDecrypt aes env (EncodeToString data) = Inr password"
proof -
  have l: "length legacySignature = 16" by (simp add: legacySignature_def)
  then have rt: "cbc_decrypt (bc_decrypt aes legacySignature) legacySignature data = pkcs7Padding password" "length data = length (pkcs7Padding password)"
    using cbc_roundtrip [of "bc_encrypt aes legacySignature" "bc_decrypt aes legacySignature" legacySignature "pkcs7Padding password"] assms(1) pad_length(1)
    by (auto simp: cipher_ok_def NewCipher_ok_def assms(2))
  then have "length data mod 16 = 0" "data \<noteq> []" using pad_length by (metis, metis length_0_conv)
  then show ?thesis
    using l assms(3) by (simp add: AesDecrypt_def DecodeString_EncodeToString rt(1) unpad_pad Let_def)
qed

text \<open>A cipher for the witnesses: it adds the key.\<close>

definition toy_cipher :: block_cipher where
  "toy_cipher = \<lparr>bc_encrypt = (\<lambda>k b. xor_block b (take 16 k)), bc_decrypt = (\<lambda>k b. xor_block b (take 16 k))\<rparr>"

lemma toy_cipher_ok: "cipher_ok toy_cipher"
  by (auto simp: cipher_ok_def toy_cipher_def NewCipher_ok_def xor_block_length xor_block_twice)

definition demo_key :: string where
  "demo_key = EncodeToString (replicate 32 CHR ''k'')"

theorem password_roundtrip_witness:
  "\<exists>c. AesEncrypt toy_cipher demo_key (Some (replicate 16 CHR ''i'')) ''secret'' = Inr c \<and> AesDecrypt toy_cipher demo_key c = Inr ''secret''"
proof -
  have "case AesEncrypt toy_cipher demo_key (Some (replicate 16 CHR ''i'')) ''secret'' of Inl _ \<Rightarrow> False | Inr _ \<Rightarrow> True" by code_simp
  then obtain c where "AesEncrypt toy_cipher demo_key (Some (replicate 16 CHR ''i'')) ''secret'' = Inr c" by (auto split: sum.splits)
  with password_roundtrip [OF toy_cipher_ok _ this] show ?thesis by simp
qed

theorem legacy_password_readable_witness:
  "AesDecrypt toy_cipher [] (EncodeToString (cbc_encrypt (bc_encrypt toy_cipher legacySignature) legacySignature (pkcs7Padding ''secret''))) = Inr ''secret''"
proof (rule legacy_password_readable [OF toy_cipher_ok refl])
  show "\<not> HasPrefix (cbc_encrypt (bc_encrypt toy_cipher legacySignature) legacySignature (pkcs7Padding ''secret'')) magicPrefix" by code_simp
qed

end
