(* ===== verification/Node_Lists.thy ===== *)
theory Node_Lists
  imports Bke_Nodes Net_Addr Password
begin

text \<open>
  Lists of node specifications: \<^verbatim>\<open>common/cluster/node/node.go\<close> and \<^verbatim>\<open>compare.go\<close> with the helpers on
  slices of \<^verbatim>\<open>common/utils/utils.go\<close>. \<^verbatim>\<open>Node\<close> is another name of \<^verbatim>\<open>BKENodeSpec\<close>. A filter names fields
  of a node; the fields that are not strings are only ever named by \<^verbatim>\<open>Role\<close>.

  The results: filtering and excluding split a list when address and host name identify a node; the
  comparison of two lists gives the operations that turn one into the other, as far as it looks at
  the nodes.
\<close>

section \<open>Slices\<close>

definition strip_newlines :: "string \<Rightarrow> string" where
  "strip_newlines s = filter (\<lambda>ch. ch \<noteq> CHR 0x0A) s"

(* src: common/utils/utils.go 29-43 SliceContainsString *)
definition SliceContainsString :: "string list \<Rightarrow> string \<Rightarrow> bool" where
  "SliceContainsString xs s \<longleftrightarrow> list_ex (\<lambda>item. strip_newlines item = strip_newlines s) xs"

(* src: utils/utils.go 198-208 SliceContainsSlice *)
definition SliceContainsSlice :: "string list \<Rightarrow> string list \<Rightarrow> bool" where
  "SliceContainsSlice src dst \<longleftrightarrow> (if src = [] then False else list_all (ContainsString src) dst)"

(* src: common/utils/utils.go 51-61 SliceEqualString *)
definition SliceEqualString :: "string list \<Rightarrow> string list \<Rightarrow> bool" where
  "SliceEqualString src dst \<longleftrightarrow> length src = length dst \<and> list_all (SliceContainsString dst) src"

text \<open>The loop of \<^verbatim>\<open>TrimSpaceSlice\<close> appends nothing.\<close>

(* src: utils/utils.go 211-229 TrimSpaceSlice *)
fun TrimSpaceSlice :: "string list \<Rightarrow> string list \<Rightarrow> string list" where
  "TrimSpaceSlice [] result = result"
| "TrimSpaceSlice (item # rest) result =
     (if item \<in> set [[], [CHR 0x0A], [CHR 0x0D, CHR 0x0A], [CHR 0x09], '' ''] then TrimSpaceSlice rest result
      else TrimSpaceSlice rest result)"

section \<open>node.go\<close>

(* src: common/cluster/node/node.go 31-31 MasterNodeRole *)
definition MasterNodeRole :: string where
  "MasterNodeRole = ''master''"

(* src: common/cluster/node/node.go 32-32 EtcdNodeRole *)
definition EtcdNodeRole :: string where
  "EtcdNodeRole = ''etcd''"

(* src: common/cluster/node/node.go 33-33 MasterWorkerNodeRole *)
definition MasterWorkerNodeRole :: string where
  "MasterWorkerNodeRole = MasterNodeRole @ ''/'' @ WorkerNodeRole"

type_synonym nodes = "node_spec list"

(* src: api/bkecommon/v1beta1/bkenode_types.go 145-157 BKENode.ToNode *)
definition ToNode :: "bke_node \<Rightarrow> node_spec" where
  "ToNode n = \<lparr>ns_role = ns_role (bn_spec n), ns_ip = ns_ip (bn_spec n), ns_port = ns_port (bn_spec n),
     ns_username = ns_username (bn_spec n), ns_password = ns_password (bn_spec n), ns_hostname = ns_hostname (bn_spec n),
     ns_controlPlane = ns_controlPlane (bn_spec n), ns_kubelet = ns_kubelet (bn_spec n), ns_labels = ns_labels (bn_spec n)\<rparr>"

(* src: api/bkecommon/v1beta1/bkenode_types.go 160-172 FromNode *)
definition FromNode :: "node_spec \<Rightarrow> node_spec" where
  "FromNode n = \<lparr>ns_role = ns_role n, ns_ip = ns_ip n, ns_port = ns_port n, ns_username = ns_username n, ns_password = ns_password n,
     ns_hostname = ns_hostname n, ns_controlPlane = ns_controlPlane n, ns_kubelet = ns_kubelet n, ns_labels = ns_labels n\<rparr>"

(* src: common/cluster/node/node.go 56-65 ConvertBKENodeListToNodes *)
definition ConvertBKENodeListToNodes :: "bke_node list option \<Rightarrow> nodes" where
  "ConvertBKENodeListToNodes l = (case l of None \<Rightarrow> [] | Some items \<Rightarrow> map ToNode items)"

(* src: common/cluster/node/node.go 68-77 ConvertBKENodesToNodes *)
definition ConvertBKENodesToNodes :: "bke_node list \<Rightarrow> nodes" where
  "ConvertBKENodesToNodes ns = map ToNode ns"

(* src: common/cluster/node/node.go 102-106 GenerateBKENodeName *)
definition GenerateBKENodeName :: "string \<Rightarrow> string \<Rightarrow> string" where
  "GenerateBKENodeName clusterName nodeIP = clusterName @ ''-'' @ map (\<lambda>c. if c = CHR ''.'' then CHR ''-'' else c) nodeIP"

(* src: common/cluster/node/node.go 80-99 ConvertNodesToBKENodes *)
definition ConvertNodesToBKENodes :: "nodes \<Rightarrow> string \<Rightarrow> string \<Rightarrow> bke_node list" where
  "ConvertNodesToBKENodes ns namespace clusterName =
     map (\<lambda>n. \<lparr>bn_namespace = namespace, bn_name = GenerateBKENodeName clusterName (ns_ip n),
               bn_labels = [(''cluster.x-k8s.io/cluster-name'', clusterName)], bn_annotations = [], bn_resourceVersion = [],
               bn_deletionTimestamp = None, bn_finalizers = [], bn_spec = FromNode n,
               bn_status = \<lparr>nst_state = [], nst_stateCode = 0, nst_message = [], nst_needSkip = False, nst_retryCount = 0\<rparr>\<rparr>) ns"

(* src: common/cluster/node/node.go 110-125 SetDefaultsForNodes *)
definition SetDefaultsForNodes :: "nodes \<Rightarrow> nodes" where
  "SetDefaultsForNodes ns =
     map (\<lambda>n. n\<lparr>ns_port := (if ns_port n = [] then ''22'' else ns_port n),
               ns_username := (if ns_username n = [] then ''root'' else ns_username n)\<rparr>) ns"

definition node_field :: "node_spec \<Rightarrow> string \<Rightarrow> string option" where
  "node_field n key = map_of [(''IP'', ns_ip n), (''Port'', ns_port n), (''Username'', ns_username n),
     (''Password'', ns_password n), (''Hostname'', ns_hostname n)] key"

(* src: common/cluster/node/node.go 250-274 matchesOptions *)
fun matchesOptions :: "node_spec \<Rightarrow> string gomap \<Rightarrow> bool" where
  "matchesOptions n [] \<longleftrightarrow> True"
| "matchesOptions n ((key, v) # options) \<longleftrightarrow>
     (if key = ''Role'' then SliceContainsSlice (ns_role n) (Split CHR '','' v) \<and> matchesOptions n options
      else (case node_field n key of None \<Rightarrow> False | Some f \<Rightarrow> f = v \<and> matchesOptions n options))"

(* src: common/cluster/node/node.go 239-247 Nodes.Filter *)
definition nodes_Filter :: "nodes \<Rightarrow> string gomap \<Rightarrow> nodes" where
  "nodes_Filter ns options = filter (\<lambda>n. matchesOptions n options) ns"

(* src: common/cluster/node/node.go 277-280 nodeKey *)
definition nodeKey :: "node_spec \<Rightarrow> string \<times> string" where
  "nodeKey n = (ns_ip n, ns_hostname n)"

(* src: common/cluster/node/node.go 284-298 Nodes.Exclude *)
definition nodes_Exclude :: "nodes \<Rightarrow> string gomap \<Rightarrow> nodes" where
  "nodes_Exclude ns options =
     (let excluded = map nodeKey (nodes_Filter ns options) in filter (\<lambda>n. nodeKey n \<notin> set excluded) ns)"

(* src: common/cluster/node/node.go 127-131 Nodes.Master *)
definition nodes_Master :: "nodes \<Rightarrow> nodes" where
  "nodes_Master ns = nodes_Filter ns [(''Role'', MasterNodeRole)] @ nodes_Filter ns [(''Role'', MasterWorkerNodeRole)]"

(* src: common/cluster/node/node.go 133-135 Nodes.Etcd *)
definition nodes_Etcd :: "nodes \<Rightarrow> nodes" where
  "nodes_Etcd ns = nodes_Filter ns [(''Role'', EtcdNodeRole)]"

(* src: common/cluster/node/node.go 137-139 Nodes.Worker *)
definition nodes_Worker :: "nodes \<Rightarrow> nodes" where
  "nodes_Worker ns = nodes_Filter ns [(''Role'', WorkerNodeRole)]"

(* src: common/cluster/node/node.go 141-143 Nodes.MasterWorker *)
definition nodes_MasterWorker :: "nodes \<Rightarrow> nodes" where
  "nodes_MasterWorker ns = nodes_Filter ns [(''Role'', MasterWorkerNodeRole)]"

(* src: common/cluster/node/node.go 145-153 NodeInfo *)
definition NodeInfo :: "node_spec \<Rightarrow> string" where
  "NodeInfo n = (if ns_hostname n = [] then ns_ip n else if ns_ip n = [] then ns_hostname n else ns_hostname n @ ''/'' @ ns_ip n)"

(* src: common/cluster/node/node.go 162-164 Node.IsMaster *)
definition IsMaster :: "node_spec \<Rightarrow> bool" where
  "IsMaster n \<longleftrightarrow> SliceContainsString (ns_role n) MasterNodeRole"

(* src: common/cluster/node/node.go 166-168 Node.IsWorker *)
definition IsWorker :: "node_spec \<Rightarrow> bool" where
  "IsWorker n \<longleftrightarrow> SliceContainsString (ns_role n) WorkerNodeRole"

(* src: common/cluster/node/node.go 170-172 Node.IsEtcd *)
definition IsEtcd :: "node_spec \<Rightarrow> bool" where
  "IsEtcd n \<longleftrightarrow> SliceContainsString (ns_role n) EtcdNodeRole"

(* src: common/cluster/node/node.go 174-176 Node.IsMasterWorker *)
definition IsMasterWorker :: "node_spec \<Rightarrow> bool" where
  "IsMasterWorker n \<longleftrightarrow> SliceContainsString (ns_role n) MasterWorkerNodeRole"

text \<open>The addresses of the host come from its interfaces.\<close>

(* src: common/cluster/node/node.go 179-218 Nodes.CurrentNode *)
definition CurrentNode :: "string + string list \<Rightarrow> nodes \<Rightarrow> string + node_spec" where
  "CurrentNode interfaceIPs ns =
     (case interfaceIPs of
        Inl err \<Rightarrow> Inl (''get ips from interface failed: '' @ err)
      | Inr ips \<Rightarrow>
          let nodeIPs = List.map_filter (\<lambda>n. map_option (\<lambda>ip. (ip, n)) (ParseIP (ns_ip n))) ns;
              here = List.map_filter (\<lambda>ip. case ParseIP (hd (SplitN2 CHR ''/'' ip)) of None \<Rightarrow> None
                       | Some l \<Rightarrow> map_option snd (find (\<lambda>(ip, n). l = ip) nodeIPs)) ips
          in (case here of [] \<Rightarrow> Inl ''can not find the current node from bkeConfig nodes'' | n # _ \<Rightarrow> Inr n))"

(* src: common/cluster/node/node.go 220-233 Nodes.Decrypt *)
definition nodes_Decrypt :: "block_cipher \<Rightarrow> string \<Rightarrow> nodes \<Rightarrow> nodes" where
  "nodes_Decrypt aes env ns =
     map (\<lambda>n. case AesDecrypt aes env (ns_password n) of Inl _ \<Rightarrow> n | Inr p \<Rightarrow> n\<lparr>ns_password := p\<rparr>) ns"

section \<open>compare.go\<close>

(* src: common/cluster/node/compare.go 20-27 NodeOperate *)
datatype node_operate = CreateNode | UpdateNode | RemoveNode | UpgradeNode

(* src: common/cluster/node/compare.go 29-32 NodeTransfer *)
type_synonym node_transfer = "node_spec \<times> node_operate"

(* src: common/cluster/node/compare.go 60-67 IsExistInNodeList *)
definition IsExistInNodeList :: "node_spec \<Rightarrow> nodes \<Rightarrow> node_spec option" where
  "IsExistInNodeList p dst = find (\<lambda>d. ns_ip d = ns_ip p) dst"

(* src: common/cluster/node/compare.go 69-81 IsNodeEqual *)
definition IsNodeEqual :: "node_spec \<Rightarrow> node_spec \<Rightarrow> bool" where
  "IsNodeEqual p d \<longleftrightarrow> \<not> (ns_ip p \<noteq> ns_ip d \<or> ns_hostname p \<noteq> ns_hostname d \<or> \<not> SliceEqualString (ns_role p) (ns_role d))"

(* src: common/cluster/node/compare.go 83-102 IsNodeUpdate *)
definition IsNodeUpdate :: "node_spec \<Rightarrow> node_spec \<Rightarrow> bool" where
  "IsNodeUpdate p d \<longleftrightarrow> ns_hostname p \<noteq> ns_hostname d \<or> ns_port p \<noteq> ns_port d \<or> ns_username p \<noteq> ns_username d \<or>
     ns_password p \<noteq> ns_password d \<or> \<not> SliceEqualString (ns_role p) (ns_role d)"

(* src: common/cluster/node/compare.go 35-58 CompareBKEConfigNode *)
definition CompareBKEConfigNode :: "nodes \<Rightarrow> nodes \<Rightarrow> node_transfer list \<times> bool" where
  "CompareBKEConfigNode old dst =
     (let changed = List.map_filter (\<lambda>p. case IsExistInNodeList p old of
                      None \<Rightarrow> Some (p, CreateNode)
                    | Some pp \<Rightarrow> if IsNodeUpdate p pp then Some (p, UpdateNode)
                                 else if \<not> IsNodeEqual p pp then Some (p, UpdateNode) else None) dst;
          removed = List.map_filter (\<lambda>p. if IsExistInNodeList p dst = None then Some (p, RemoveNode) else None) old;
          transfers = changed @ removed
      in (transfers, transfers \<noteq> []))"

section \<open>Comparing lists of nodes\<close>

definition node_map :: "nodes \<Rightarrow> string \<Rightarrow> node_spec option" where
  "node_map ns ip = find (\<lambda>n. ns_ip n = ip) ns"

fun apply_transfer :: "node_transfer \<Rightarrow> (string \<Rightarrow> node_spec option) \<Rightarrow> string \<Rightarrow> node_spec option" where
  "apply_transfer (n, RemoveNode) m = m(ns_ip n := None)"
| "apply_transfer (n, _) m = m(ns_ip n \<mapsto> n)"

text \<open>What the comparison takes for the same node.\<close>

definition same_node :: "node_spec \<Rightarrow> node_spec \<Rightarrow> bool" where
  "same_node d p \<longleftrightarrow> ns_ip p = ns_ip d \<and> ns_hostname p = ns_hostname d \<and> ns_port p = ns_port d \<and> ns_username p = ns_username d \<and>
     ns_password p = ns_password d \<and> (ns_role p = ns_role d \<or> SliceEqualString (ns_role p) (ns_role d))"

lemma map_filter_Cons: "List.map_filter f (x # xs) = (case f x of None \<Rightarrow> List.map_filter f xs | Some y \<Rightarrow> y # List.map_filter f xs)"
  by (simp add: List.map_filter_simps split: option.splits)

lemma apply_transfer_local: "m ip = m' ip \<Longrightarrow> apply_transfer t m ip = apply_transfer t m' ip"
  by (cases t; cases "snd t") auto

text \<open>Applying a list of changes to nodes with different addresses: each address is changed by its own
  change only.\<close>

lemma apply_changes:
  assumes "\<And>p n op. f p = Some (n, op) \<Longrightarrow> ns_ip n = ns_ip p" and "distinct (map ns_ip ps)"
  shows "fold apply_transfer (List.map_filter f ps) m ip =
    (case node_map ps ip of None \<Rightarrow> m ip | Some p \<Rightarrow> (case f p of None \<Rightarrow> m ip | Some t \<Rightarrow> apply_transfer t m ip))"
  using assms(2)
proof (induction ps arbitrary: m)
  case (Cons p ps)
  have other: "apply_transfer t m' ip = m' ip" if "f p = Some t" "ns_ip p \<noteq> ip" for t m'
    using assms(1) [of p "fst t" "snd t"] that by (cases "(t, m')" rule: apply_transfer.cases) auto

  have none: "node_map ps ip = None" if "ns_ip p = ip"
    using Cons.prems that by (auto simp: node_map_def find_None_iff image_iff)
  show ?case
  proof (cases "ns_ip p = ip")
    case True
    with Cons none show ?thesis by (simp add: map_filter_Cons node_map_def split: option.splits)
  next
    case False
    then have nm: "node_map (p # ps) ip = node_map ps ip" by (simp add: node_map_def)
    define m1 where "m1 = (case f p of None \<Rightarrow> m | Some t \<Rightarrow> apply_transfer t m)"
    have m1: "m1 ip = m ip" using other False by (simp add: m1_def split: option.splits)
    have "fold apply_transfer (List.map_filter f (p # ps)) m = fold apply_transfer (List.map_filter f ps) m1"
      by (simp add: map_filter_Cons m1_def split: option.splits)
    then show ?thesis
      using Cons.IH [of m1] Cons.prems apply_transfer_local [of m1 ip m, OF m1] by (simp add: nm m1 cong: option.case_cong)
  qed
qed (simp add: node_map_def List.map_filter_simps)

lemma node_map_ip: "node_map ns ip = Some n \<Longrightarrow> ns_ip n = ip"
  by (auto simp: node_map_def find_Some_iff)

text \<open>Comparing two lists without repeated addresses gives a change exactly when there is one, and the
  changes applied to the old nodes give nodes that the comparison cannot tell from the new ones.\<close>

theorem CompareBKEConfigNode_correct:
  assumes "distinct (map ns_ip old)" and "distinct (map ns_ip dst)" and "CompareBKEConfigNode old dst = (ts, changed)"
  shows "rel_option same_node (fold apply_transfer ts (node_map old) ip) (node_map dst ip) \<and> (changed \<longleftrightarrow> ts \<noteq> [])"
proof -
  let ?f = "\<lambda>p. case IsExistInNodeList p old of None \<Rightarrow> Some (p, CreateNode)
      | Some pp \<Rightarrow> if IsNodeUpdate p pp then Some (p, UpdateNode) else if \<not> IsNodeEqual p pp then Some (p, UpdateNode) else None"
  let ?g = "\<lambda>p. if IsExistInNodeList p dst = None then Some (p, RemoveNode) else None"
  have ts: "ts = List.map_filter ?f dst @ List.map_filter ?g old" "changed \<longleftrightarrow> ts \<noteq> []"
    using assms(3) by (auto simp: CompareBKEConfigNode_def Let_def)
  have ex: "IsExistInNodeList p l = node_map l (ns_ip p)" for p l by (simp add: IsExistInNodeList_def node_map_def)
  have f: "fold apply_transfer (List.map_filter ?f dst) m ip =
      (case node_map dst ip of None \<Rightarrow> m ip | Some p \<Rightarrow> (case ?f p of None \<Rightarrow> m ip | Some t \<Rightarrow> apply_transfer t m ip))" for m
    by (rule apply_changes) (use assms(2) in \<open>auto split: option.splits if_splits\<close>)
  have g: "fold apply_transfer (List.map_filter ?g old) m ip =
      (case node_map old ip of None \<Rightarrow> m ip | Some p \<Rightarrow> (case ?g p of None \<Rightarrow> m ip | Some t \<Rightarrow> apply_transfer t m ip))" for m
    by (rule apply_changes) (use assms(1) in \<open>auto split: if_splits\<close>)
  note all = ts(1) fold_append comp_apply g f
  have "rel_option same_node (fold apply_transfer ts (node_map old) ip) (node_map dst ip)"
  proof (cases "node_map dst ip")
    case None
    then show ?thesis unfolding all by (auto simp: ex split: option.splits dest: node_map_ip)
  next
    case (Some p)
    then have ip: "ns_ip p = ip" by (rule node_map_ip)
    with Some show ?thesis
      unfolding all by (auto simp: ex same_node_def IsNodeUpdate_def IsNodeEqual_def split: option.splits dest: node_map_ip)
  qed
  with ts show ?thesis by simp
qed

definition demo_spec_node :: "string \<Rightarrow> string list \<Rightarrow> node_spec" where
  "demo_spec_node ip roles = \<lparr>ns_role = roles, ns_ip = ip, ns_port = ''22'', ns_username = ''root'', ns_password = ''x'', ns_hostname = [],
     ns_controlPlane = zero_control_plane, ns_kubelet = None, ns_labels = []\<rparr>"

theorem CompareBKEConfigNode_correct_witness:
  "let old = [demo_spec_node ''10.0.0.1'' [''master''], demo_spec_node ''10.0.0.2'' [''node'']];
     dst = [demo_spec_node ''10.0.0.1'' [''master'', ''etcd''], demo_spec_node ''10.0.0.3'' [''node'']];
     ts = fst (CompareBKEConfigNode old dst)
   in map snd ts = [UpdateNode, CreateNode, node_operate.RemoveNode] \<and>
      rel_option same_node (fold apply_transfer ts (node_map old) ''10.0.0.1'') (node_map dst ''10.0.0.1'')"
proof -
  let ?old = "[demo_spec_node ''10.0.0.1'' [''master''], demo_spec_node ''10.0.0.2'' [''node'']]"
  let ?dst = "[demo_spec_node ''10.0.0.1'' [''master'', ''etcd''], demo_spec_node ''10.0.0.3'' [''node'']]"
  have "distinct (map ns_ip ?old)" "distinct (map ns_ip ?dst)" by (simp_all add: demo_spec_node_def)
  from CompareBKEConfigNode_correct [OF this surjective_pairing]
  have "rel_option same_node (fold apply_transfer (fst (CompareBKEConfigNode ?old ?dst)) (node_map ?old) ''10.0.0.1'') (node_map ?dst ''10.0.0.1'')"
    by blast
  moreover have "map snd (fst (CompareBKEConfigNode ?old ?dst)) = [UpdateNode, CreateNode, node_operate.RemoveNode]" by code_simp
  ultimately show ?thesis by (simp only: Let_def simp_thms)
qed

text \<open>The comparison of roles looks only from the new list into the old one: when a role is named twice
  in the new list it misses that another one is gone.\<close>

theorem lost_role_unnoticed:
  "CompareBKEConfigNode [demo_spec_node ''10.0.0.1'' [''master'', ''etcd'']] [demo_spec_node ''10.0.0.1'' [''master'', ''master'']] = ([], False)"
  by code_simp

text \<open>The list of nodes that an ingress add-on names is lost: the helper that is to drop empty entries
  returns the list it was given to fill.\<close>

theorem TrimSpaceSlice_empty: "TrimSpaceSlice items result = result"
  by (induction items) auto

section \<open>Splitting a list\<close>

lemma Filter_Exclude_split:
  assumes "distinct (map nodeKey ns)"
  shows "nodes_Exclude ns options = filter (\<lambda>n. \<not> matchesOptions n options) ns"
  unfolding nodes_Exclude_def Let_def
proof (rule filter_cong [OF refl])
  fix n assume n: "n \<in> set ns"
  have "matchesOptions n options" if "m \<in> set ns" "matchesOptions m options" "nodeKey n = nodeKey m" for m
    using assms n that by (metis distinct_map inj_onD)
  then show "nodeKey n \<notin> set (map nodeKey (nodes_Filter ns options)) \<longleftrightarrow> \<not> matchesOptions n options"
    using n by (auto simp: nodes_Filter_def)
qed

end
