(* ===== verification/Cluster_Validation.thy ===== *)
theory Cluster_Validation
  imports Cluster_Defaults Node_Lists Upgrade_Path
begin

text \<open>
  Validation of nodes and configurations: \<^verbatim>\<open>common/cluster/validation/validation.go\<close> and
  \<^verbatim>\<open>error.go\<close>, the filter of add-ons of \<^verbatim>\<open>common/cluster/addon/addon.go\<close> and the addresses of
  \<^verbatim>\<open>common/cluster/initialize/config.go\<close>. An error is its message, with a quoted argument written
  without its quotation marks. Versions are read by the package
  \<^verbatim>\<open>blang/semver\<close>, a parameter as in the upgrade paths; whether a repository answers is asked of a
  parameter too: the status of an HTTP request and whether a connection can be opened.

  The results: exactly which lists of nodes are accepted; that a configuration whose own values are
  valid is accepted once its gaps are filled with the defaults; which addresses a repository gets.
\<close>

section \<open>Shared pieces\<close>

definition first_error :: "string option list \<Rightarrow> string option" where
  "first_error es = (case dropWhile (\<lambda>e. e = None) es of [] \<Rightarrow> None | e # _ \<Rightarrow> e)"

lemma first_error_None [simp]: "first_error es = None \<longleftrightarrow> list_all (\<lambda>e. e = None) es"
  by (induction es) (auto simp: first_error_def split: list.splits)

text \<open>\<^verbatim>\<open>net.SplitHostPort\<close>.\<close>

definition SplitHostPort :: "string \<Rightarrow> (string \<times> string) option" where
  "SplitHostPort s =
     (let port = rev (takeWhile (\<lambda>c. c \<noteq> CHR '':'') (rev s));
          host = take (length s - length port - 1) s in
      if CHR '':'' \<notin> set s then None
      else if take 1 s = ''[''
      then let inner = takeWhile (\<lambda>c. c \<noteq> CHR '']'') (drop 1 s)
           in if host = ''['' @ inner @ '']'' \<and> CHR ''['' \<notin> set (drop 1 s) \<and> CHR '']'' \<notin> set port then Some (inner, port) else None
      else if CHR '':'' \<in> set host \<or> CHR ''['' \<in> set s \<or> CHR '']'' \<in> set s then None
      else Some (host, port))"

text \<open>The network as it answers: the status of a request by method and URL, and whether an address can
  be dialled.\<close>

record net_env =
  ne_status :: "string \<Rightarrow> string \<Rightarrow> nat option"
  ne_dial :: "string \<Rightarrow> bool"

record 'v val_env =
  ve_semver :: "'v semver"
  ve_net :: net_env

section \<open>error.go\<close>

(* src: common/cluster/validation/error.go 22-24 NoMasterNodeError *)
definition NoMasterNodeError :: string where
  "NoMasterNodeError = ''nodes at least one node contain master or master/node role''"

(* src: common/cluster/validation/error.go 27-29 MasterNodeOddError *)
definition MasterNodeOddError :: string where
  "MasterNodeOddError = ''nodes master and master/node role node count must be odd''"

(* src: common/cluster/validation/error.go 32-36 NoEtcdNodeError *)
definition NoEtcdNodeError :: string where
  "NoEtcdNodeError = ''nodes at least one master or master/node role node contain etcd role''"

(* src: common/cluster/validation/error.go 39-41 NoWorkerNodeError *)
definition NoWorkerNodeError :: string where
  "NoWorkerNodeError = ''nodes at least one node or master/node role node''"

section \<open>Nodes\<close>

(* src: common/cluster/validation/validation.go 200-218 validateRequiredNodes *)
definition validateRequiredNodes :: "nodes \<Rightarrow> string option" where
  "validateRequiredNodes ns =
     (if ns = [] then Some ''nodes is required''
      else if nodes_Master ns = [] then Some NoMasterNodeError
      else if even (length (nodes_Master ns)) then Some MasterNodeOddError
      else if nodes_Etcd ns = [] then Some NoEtcdNodeError
      else None)"

(* src: common/cluster/validation/validation.go 234-242 ValidateSingleNode (roles) *)
definition role_conflict :: "node_spec \<Rightarrow> string option" where
  "role_conflict n =
     (if SliceContainsSlice (ns_role n) [MasterNodeRole, WorkerNodeRole]
      then Some (''node '' @ NodeInfo n @ '' cannot set master and node roles at the same time, please set master/node instead'')
      else if SliceContainsSlice (ns_role n) [MasterNodeRole, EtcdNodeRole, MasterWorkerNodeRole]
      then Some (''node '' @ NodeInfo n @ '' cannot set master, etcd and master/node roles at the same time'')
      else if SliceContainsSlice (ns_role n) [WorkerNodeRole, EtcdNodeRole]
      then Some (''node '' @ NodeInfo n @ '' with node role cannot set node and etcd roles at the same time'')
      else None)"

(* src: common/cluster/validation/validation.go 249-267 ValidateSingleNode (string fields) *)
definition field_error :: "node_spec \<Rightarrow> string \<Rightarrow> string \<Rightarrow> string option" where
  "field_error n name v =
     (if v = [] \<and> name \<noteq> ''Hostname'' then Some (''node '' @ NodeInfo n @ '' field '' @ name @ '' is required'')
      else if length v > 255 then Some (''nodes '' @ NodeInfo n @ '' field '' @ name @ '' cannot be longer than 255 characters'')
      else if name = ''IP'' \<and> \<not> ValidIP v then Some (''node '' @ NodeInfo n @ '' field IP '' @ v @ '' is not valid'')
      else None)"

(* src: common/cluster/validation/validation.go 220-269 ValidateSingleNode *)
definition ValidateSingleNode :: "node_spec \<Rightarrow> string option" where
  "ValidateSingleNode n =
     first_error
       [role_conflict n,
        (if SliceContainsString (ns_role n) WorkerNodeRole \<and> ns_controlPlane n \<noteq> zero_control_plane
         then Some (''node '' @ NodeInfo n @ '' with node role cannot configure control plane components'') else None),
        field_error n ''IP'' (ns_ip n), field_error n ''Port'' (ns_port n), field_error n ''Username'' (ns_username n),
        field_error n ''Password'' (ns_password n), field_error n ''Hostname'' (ns_hostname n)]"

(* src: common/cluster/validation/validation.go 112-139 ValidateNodesFields *)
definition ValidateNodesFields :: "nodes \<Rightarrow> string option" where
  "ValidateNodesFields ns =
     first_error
       ([validateRequiredNodes ns,
         (if nodes_Worker ns = [] \<and> nodes_MasterWorker ns = [] then Some NoWorkerNodeError else None)] @
        concat (map (\<lambda>n. [ValidateSingleNode n,
          (if ns_hostname n \<noteq> [] \<and> length (nodes_Filter ns [(''Hostname'', ns_hostname n)]) > 1
           then Some (''node field is not valid, hostname is not unique '' @ ns_hostname n) else None),
          (if length (nodes_Filter ns [(''IP'', ns_ip n)]) > 1
           then Some (''node field is not valid, IP is not unique '' @ ns_ip n) else None)]) ns))"

(* src: common/cluster/validation/validation.go 157-166 ValidateNodesHostnameUnique *)
definition ValidateNodesHostnameUnique :: "nodes \<Rightarrow> string option" where
  "ValidateNodesHostnameUnique ns =
     first_error (map (\<lambda>n. if ns_hostname n \<noteq> [] \<and> length (nodes_Filter ns [(''Hostname'', ns_hostname n)]) > 1
       then Some (''nodes field is not valid, hostname is not unique '' @ ns_hostname n) else None) ns)"

(* src: common/cluster/validation/validation.go 168-178 ValidateNodesIPUnique *)
definition ValidateNodesIPUnique :: "nodes \<Rightarrow> string option" where
  "ValidateNodesIPUnique ns =
     first_error (map (\<lambda>n. if ns_ip n = [] then Some (''node '' @ NodeInfo n @ '' field is not valid, IP is required'')
       else if length (nodes_Filter ns [(''IP'', ns_ip n)]) > 1 then Some (''node field is not valid, IP is not unique '' @ ns_ip n)
       else None) ns)"

(* src: common/cluster/validation/validation.go 180-198 ValidateNodesRole *)
definition ValidateNodesRole :: "nodes \<Rightarrow> string option" where
  "ValidateNodesRole ns = first_error (validateRequiredNodes ns # map role_conflict ns)"

(* src: common/cluster/validation/validation.go 141-155 ValidateNonStandardNodesFields *)
definition ValidateNonStandardNodesFields :: "nodes \<Rightarrow> string option" where
  "ValidateNonStandardNodesFields ns =
     (if ns = [] then None
      else first_error [ValidateNodesRole ns, ValidateNodesHostnameUnique ns, ValidateNodesIPUnique ns])"

(* src: common/cluster/validation/validation.go 46-56 ValidateBKENodes *)
definition ValidateBKENodes :: "bke_node list \<Rightarrow> string option" where
  "ValidateBKENodes bns =
     (if bns = [] then Some ''at least one BKENode must be defined'' else ValidateNodesFields (ConvertBKENodesToNodes bns))"

(* src: common/cluster/validation/validation.go 59-69 ValidateBKENodesNonStandard *)
definition ValidateBKENodesNonStandard :: "bke_node list \<Rightarrow> string option" where
  "ValidateBKENodesNonStandard bns =
     (if bns = [] then None else ValidateNonStandardNodesFields (ConvertBKENodesToNodes bns))"

section \<open>Repositories\<close>

(* src: common/cluster/validation/validation.go 345-351 BuildRepoURL *)
definition BuildRepoURL :: "string \<Rightarrow> string \<Rightarrow> string \<Rightarrow> string" where
  "BuildRepoURL host port prefix = (if port \<noteq> [] then JoinHostPort host port else host) @ ''/'' @ prefix"

(* src: common/cluster/validation/validation.go 376-387 parseHostPort *)
definition parseHostPort :: "string \<Rightarrow> string \<times> string" where
  "parseHostPort addr0 =
     (let addr = TrimSpace addr0 in
      if addr = [] then ([], [])
      else case SplitHostPort addr of Some (host, port) \<Rightarrow> (TrimSpace host, TrimSpace port) | None \<Rightarrow> (TrimSpace addr, []))"

(* src: common/cluster/validation/validation.go 389-394 buildDialAddress *)
definition buildDialAddress :: "string \<Rightarrow> string \<Rightarrow> string" where
  "buildDialAddress host port = JoinHostPort host (if port = [] then ''80'' else port)"

(* src: common/cluster/validation/validation.go 396-401 buildHTTPProbeURL *)
definition buildHTTPProbeURL :: "string \<Rightarrow> string \<Rightarrow> string" where
  "buildHTTPProbeURL host port = ''http://'' @ (if port = [] then host else JoinHostPort host port)"

(* src: common/cluster/validation/validation.go 403-429 checkHTTPReachable *)
definition checkHTTPReachable :: "net_env \<Rightarrow> string \<Rightarrow> string \<Rightarrow> bool" where
  "checkHTTPReachable net host port \<longleftrightarrow>
     list_ex (\<lambda>m. case ne_status net m (buildHTTPProbeURL host port) of None \<Rightarrow> False | Some code \<Rightarrow> code < 500) [''HEAD'', ''GET'']"

(* src: common/cluster/validation/validation.go 354-374 checkReachable *)
definition checkReachable :: "net_env \<Rightarrow> string \<Rightarrow> bool" where
  "checkReachable net addr =
     (case parseHostPort addr of
        (host, port) \<Rightarrow> if host = [] then False
                        else if checkHTTPReachable net host port then True
                        else ne_dial net (buildDialAddress host port))"

(* src: common/cluster/validation/validation.go 432-446 ResolveReachableRepoAddress *)
definition ResolveReachableRepoAddress :: "net_env \<Rightarrow> repo \<Rightarrow> string + string" where
  "ResolveReachableRepoAddress net r =
     (if rp_domain r \<noteq> [] \<and> checkReachable net (JoinHostPort (rp_domain r) (rp_port r))
      then Inr (BuildRepoURL (rp_domain r) (rp_port r) (rp_prefix r))
      else if rp_ip r \<noteq> [] \<and> checkReachable net (JoinHostPort (rp_ip r) (rp_port r))
      then Inr (BuildRepoURL (rp_ip r) (rp_port r) (rp_prefix r))
      else Inl ''repo not reachable via domain or ip'')"

(* src: common/cluster/validation/validation.go 449-460 BuildHTTPRepoBaseURL *)
definition BuildHTTPRepoBaseURL :: "string \<Rightarrow> string \<Rightarrow> string" where
  "BuildHTTPRepoBaseURL host port =
     (if host = [] then (if port = [] then ''http://'' else ''http://:'' @ port)
      else if port = [] then ''http://'' @ host else ''http://'' @ JoinHostPort host port)"

(* src: common/cluster/validation/validation.go 463-478 ResolveReachableHTTPRepoHost *)
definition ResolveReachableHTTPRepoHost :: "net_env \<Rightarrow> repo \<Rightarrow> string" where
  "ResolveReachableHTTPRepoHost net r =
     (let up = checkReachable net (JoinHostPort (rp_domain r) (rp_port r)) in
      if rp_domain r \<noteq> [] \<and> rp_ip r \<noteq> [] then (if up then rp_domain r else rp_ip r)
      else if rp_domain r \<noteq> [] \<and> up then rp_domain r
      else if rp_ip r \<noteq> [] then rp_ip r else rp_domain r)"

(* src: common/cluster/validation/validation.go 482-484 ResolveReachableHTTPRepoBaseURL *)
definition ResolveReachableHTTPRepoBaseURL :: "net_env \<Rightarrow> repo \<Rightarrow> string" where
  "ResolveReachableHTTPRepoBaseURL net r = BuildHTTPRepoBaseURL (ResolveReachableHTTPRepoHost net r) (rp_port r)"

(* src: common/cluster/validation/validation.go 566-590 ValidateRepo *)
definition ValidateRepo :: "repo \<Rightarrow> string option" where
  "ValidateRepo r =
     (case (if rp_domain r \<noteq> [] then IsDNS1123Subdomain (rp_domain r) else None) of
        Some e \<Rightarrow> Some e
      | None \<Rightarrow>
          if rp_ip r \<noteq> [] \<and> \<not> ValidIP (rp_ip r) then Some ''repo ip is not a valid IP''
          else case (if rp_port r \<noteq> []
                     then (case Atoi (rp_port r) of
                             None \<Rightarrow> Some (''The repo port '' @ rp_port r @ '' is invalid'')
                           | Some v \<Rightarrow> if v \<le> 0 then Some (''The repo port '' @ rp_port r @ '' is invalid, port can't less than or equal to zero'') else None)
                     else None) of
                 Some e \<Rightarrow> Some e
               | None \<Rightarrow> if rp_domain r = [] \<and> rp_ip r = [] then Some ''The domain or ip are required when repo is public.'' else None)"

(* src: common/cluster/validation/validation.go 592-625 GetImageRepoAddress *)
definition GetImageRepoAddress :: "repo \<Rightarrow> string" where
  "GetImageRepoAddress r =
     (let with_port = (\<lambda>host. if rp_port r = ''443'' then host else host @ '':'' @ rp_port r) in
      if rp_domain r \<noteq> [] \<and> rp_port r \<noteq> [] \<and> rp_ip r = [] then with_port (rp_domain r)
      else if rp_domain r = [] \<and> rp_port r \<noteq> [] \<and> rp_ip r \<noteq> [] then with_port (rp_ip r)
      else if rp_domain r \<noteq> [] \<and> rp_port r \<noteq> [] \<and> rp_ip r \<noteq> [] then with_port (rp_domain r)
      else if rp_domain r \<noteq> [] \<and> rp_port r = [] \<and> rp_ip r = [] then rp_domain r
      else if rp_domain r = [] \<and> rp_port r = [] \<and> rp_ip r \<noteq> [] then rp_ip r
      else [])"

section \<open>Add-ons\<close>

definition addon_field :: "product \<Rightarrow> string \<Rightarrow> string option" where
  "addon_field p key = map_of [(''Name'', pr_name p), (''Version'', pr_version p), (''Type'', pr_type p),
     (''ReleaseName'', pr_releaseName p), (''Namespace'', pr_namespace p)] key"

text \<open>A key that is no field of an add-on makes it fail only until a later key matches.\<close>

(* src: common/cluster/addon/addon.go 36-49 Addons.Filter (options) *)
fun addon_have :: "product \<Rightarrow> string gomap \<Rightarrow> bool \<Rightarrow> bool" where
  "addon_have p [] hv = hv"
| "addon_have p ((key, v) # options) hv =
     (case addon_field p key of
        None \<Rightarrow> addon_have p options False
      | Some f \<Rightarrow> if f \<noteq> v then False else addon_have p options True)"

(* src: common/cluster/addon/addon.go 31-55 Addons.Filter *)
definition addons_Filter :: "product list \<Rightarrow> string gomap \<Rightarrow> product list" where
  "addons_Filter as options = filter (\<lambda>p. addon_have p options True) as"

(* src: common/cluster/validation/validation.go 644-657 ValidateAddons *)
definition ValidateAddons :: "product list \<Rightarrow> string option" where
  "ValidateAddons addons =
     first_error (concat (map (\<lambda>ad.
       [(if length (addons_Filter addons [(''Name'', pr_name ad), (''Version'', pr_version ad)]) \<noteq> 1
         then Some (''The addon name: '' @ pr_name ad @ '' version: '' @ pr_version ad @ '' must be unique'') else None),
        (if pr_type ad \<noteq> ''yaml'' \<and> pr_type ad \<noteq> ''chart'' \<and> pr_type ad \<noteq> []
         then Some (''the addon '' @ pr_name ad @ '' type error'') else None)]) addons))"

(* src: common/cluster/validation/validation.go 311-322 IsContainChartAddon *)
definition IsContainChartAddon :: "product list \<Rightarrow> bool" where
  "IsContainChartAddon addons \<longleftrightarrow> list_ex (\<lambda>p. pr_type p = ''chart'') addons"

(* src: common/cluster/validation/validation.go 325-342 ValidateChartRepo *)
definition ValidateChartRepo :: "net_env \<Rightarrow> repo \<Rightarrow> product list \<Rightarrow> string option" where
  "ValidateChartRepo net r addons =
     (if \<not> IsContainChartAddon addons then None
      else if r = zero_repo then Some ''not set chart repo, please set it in the cluster config file''
      else case ValidateRepo r of
             Some e \<Rightarrow> Some e
           | None \<Rightarrow> (case ResolveReachableRepoAddress net r of Inl e \<Rightarrow> Some e | Inr _ \<Rightarrow> None))"

section \<open>Configurations\<close>

(* src: common/cluster/validation/validation.go 37-37 MinSupportedK8sVersion *)
definition MinSupportedK8sVersion :: string where
  "MinSupportedK8sVersion = ''v1.21.0''"

text \<open>The minimal version is read once by the same library, which is taken to read it.\<close>

(* src: common/cluster/validation/validation.go 486-500 ValidateK8sVersion *)
definition ValidateK8sVersion :: "'v semver \<Rightarrow> string \<Rightarrow> string option" where
  "ValidateK8sVersion lib version =
     (if version = [] then Some ''The kubernetesVersion is required. ''
      else case sem_parse lib version of
             None \<Rightarrow> Some (''cannot parse version '' @ version)
           | Some v \<Rightarrow> if sem_compare lib v (the (sem_parse lib MinSupportedK8sVersion)) < 0
                       then Some (''The kubernetesVersion '' @ version @ '' is not supported.'') else None)"

(* src: common/cluster/validation/validation.go 502-510 ValidateControlPlaneComponents *)
definition ValidateControlPlaneComponents :: "control_plane \<Rightarrow> string option" where
  "ValidateControlPlaneComponents cp =
     (case cp_etcd cp of None \<Rightarrow> Some ''The etcd is required. ''
      | Some e \<Rightarrow> if et_dataDir e = [] then Some ''Cluster etcd dataDir is required. '' else None)"

(* src: common/cluster/validation/validation.go 512-520 ValidateKubeletComponent *)
definition ValidateKubeletComponent :: "kubelet_config option \<Rightarrow> string option" where
  "ValidateKubeletComponent ko =
     (case ko of None \<Rightarrow> None
      | Some k \<Rightarrow> if ku_manifestsDir k = [] then Some ''Cluster kubelet manifestsDir is required. '' else None)"

(* src: common/cluster/validation/validation.go 558-564 ValidateIPNet *)
definition ValidateIPNet :: "string \<Rightarrow> string option" where
  "ValidateIPNet cidr = (case ParseCIDR cidr of None \<Rightarrow> Some (cidr @ '' is invalid, couldn't parse subnet'') | Some _ \<Rightarrow> None)"

(* src: common/cluster/validation/validation.go 522-542 ValidateNetworking *)
definition ValidateNetworking :: "networking \<Rightarrow> string option" where
  "ValidateNetworking n =
     (if nw_podSubnet n = [] then Some ''The podSubnet is required. ''
      else case ValidateIPNet (nw_podSubnet n) of
             Some e \<Rightarrow> Some (''Cluster podSubnet '' @ e)
           | None \<Rightarrow>
               if nw_serviceSubnet n = [] then Some ''The serviceSubnet is required. ''
               else case ValidateIPNet (nw_serviceSubnet n) of
                      Some e \<Rightarrow> Some (''Cluster serviceSubnet '' @ e)
                    | None \<Rightarrow> if nw_dnsDomain n = [] then Some ''The dnsDomain is required. '' else IsDNS1123Subdomain (nw_dnsDomain n))"

(* src: common/cluster/validation/validation.go 544-556 ValidateContainerRuntime *)
definition ValidateContainerRuntime :: "container_runtime \<Rightarrow> string option" where
  "ValidateContainerRuntime r =
     (if rt_cri r \<noteq> [] \<and> rt_cri r \<noteq> ''docker'' \<and> rt_cri r \<noteq> ''containerd'' then Some ''The cri only support docker or containerd. ''
      else if rt_runtime r \<noteq> [] \<and> rt_runtime r \<noteq> ''kata'' \<and> rt_runtime r \<noteq> ''runc'' \<and> rt_runtime r \<noteq> ''richrunc''
      then Some ''The runtime only support kata, runc or richrunc. '' else None)"

text \<open>The pattern \<^verbatim>\<open>^containerd-([a-z0-9\.]+)-([a-z0-9]+)-([a-z0-9\.\{\}]+).tar.gz$\<close>, in which two dots
  stand for any byte but a line break. No class of it holds a dash, so the first part is split at the
  dashes.\<close>

(* src: common/cluster/validation/validation.go 634-634 containerd pattern *)
definition containerd_pattern :: "string \<Rightarrow> bool" where
  "containerd_pattern s \<longleftrightarrow>
     (let body = take (length s - 7) s; tail = drop (length s - 7) s in
      length s > 7 \<and> HasPrefix body ''containerd-'' \<and>
      tail ! 0 \<noteq> CHR 0x0A \<and> tail ! 4 \<noteq> CHR 0x0A \<and> take 3 (drop 1 tail) = ''tar'' \<and> drop 5 tail = ''gz'' \<and>
      (case Split CHR ''-'' (drop 11 body) of
         [a, b, c] \<Rightarrow> a \<noteq> [] \<and> b \<noteq> [] \<and> c \<noteq> [] \<and> list_all (\<lambda>x. alnum x \<or> x = CHR ''.'') a \<and> list_all alnum b \<and>
           list_all (\<lambda>x. alnum x \<or> x \<in> set ''.{}'') c
       | _ \<Rightarrow> False))"

(* src: common/cluster/validation/validation.go 627-642 ValidateCustomExtra *)
definition ValidateCustomExtra :: "string gomap option \<Rightarrow> string option" where
  "ValidateCustomExtra extra =
     (case map_of (or_zero extra []) ''containerd'' of
        None \<Rightarrow> Some ''must contain the required parameter containerd''
      | Some v \<Rightarrow> if containerd_pattern v then None else Some ''The value of containerd must meet the regular expression'')"

(* src: common/cluster/validation/validation.go 272-308 ValidateCluster *)
definition ValidateCluster :: "'v val_env \<Rightarrow> cluster_spec \<Rightarrow> string option" where
  "ValidateCluster env c =
     first_error
       [(if cs_certificatesDir c = [] then Some ''The certificatesDir is required. '' else None),
        ValidateK8sVersion (ve_semver env) (cs_kubernetesVersion c),
        ValidateKubeletComponent (cs_kubelet c),
        ValidateControlPlaneComponents (cs_controlPlane c),
        ValidateNetworking (cs_networking c),
        ValidateContainerRuntime (cs_containerRuntime c),
        map_option ((@) ''Cluster httpRepo '') (ValidateRepo (cs_httpRepo c)),
        map_option ((@) ''Cluster imageRepo '') (ValidateRepo (cs_imageRepo c)),
        map_option ((@) ''Cluster chartRepo '') (ValidateChartRepo (ve_net env) (cs_chartRepo c) (cs_addons c))]"

(* src: common/cluster/validation/validation.go 71-83 ValidateBKEConfig *)
definition ValidateBKEConfig :: "'v val_env \<Rightarrow> cluster_spec \<Rightarrow> string option" where
  "ValidateBKEConfig env c = first_error [ValidateCluster env c, ValidateCustomExtra (cs_customExtra c), ValidateAddons (cs_addons c)]"

(* src: common/cluster/validation/validation.go 85-110 ValidateNonStandardBKEConfig *)
definition ValidateNonStandardBKEConfig :: "'v val_env \<Rightarrow> cluster_spec \<Rightarrow> string option" where
  "ValidateNonStandardBKEConfig env c =
     first_error
       [(if cs_kubernetesVersion c \<noteq> [] then ValidateK8sVersion (ve_semver env) (cs_kubernetesVersion c) else None),
        ValidateKubeletComponent (cs_kubelet c),
        ValidateNetworking (cs_networking c),
        ValidateContainerRuntime (cs_containerRuntime c),
        map_option ((@) ''Cluster httpRepo '') (ValidateRepo (cs_httpRepo c)),
        map_option ((@) ''Cluster imageRepo '') (ValidateRepo (cs_imageRepo c))]"

section \<open>config.go and export.go\<close>

(* src: common/cluster/initialize/config.go 138-140 BkeConfig.YumRepo *)
definition YumRepo :: "cluster_spec \<Rightarrow> string" where
  "YumRepo c = ''http://'' @ rp_domain (cs_httpRepo c) @ '':'' @ rp_port (cs_httpRepo c)"

definition prefixed_repo :: "string \<Rightarrow> repo \<Rightarrow> string" where
  "prefixed_repo otherwise r = (if rp_prefix r = [] then otherwise else GetImageRepoAddress r @ ''/'' @ rp_prefix r @ ''/'')"

(* src: common/cluster/initialize/config.go 142-149 BkeConfig.ImageRepo *)
definition ImageRepo :: "cluster_spec \<Rightarrow> string" where
  "ImageRepo c = prefixed_repo [] (cs_imageRepo c)"

(* src: common/cluster/initialize/config.go 151-158 BkeConfig.ImageFuyaoRepo *)
definition ImageFuyaoRepo :: "cluster_spec \<Rightarrow> string" where
  "ImageFuyaoRepo c = prefixed_repo ''cr.openfuyao.cn/openfuyao/'' (cs_imageRepo c)"

(* src: common/cluster/initialize/config.go 160-167 BkeConfig.ImageThirdRepo *)
definition ImageThirdRepo :: "cluster_spec \<Rightarrow> string" where
  "ImageThirdRepo c = prefixed_repo ''hub.oepkgs.net/openfuyao/'' (cs_imageRepo c)"

(* src: common/cluster/initialize/config.go 170-176 BkeConfig.ChartRepo *)
definition ChartRepo :: "cluster_spec \<Rightarrow> string" where
  "ChartRepo c = GetImageRepoAddress (cs_chartRepo c) @ (if rp_prefix (cs_chartRepo c) \<noteq> [] then ''/'' @ rp_prefix (cs_chartRepo c) @ ''/'' else ''/'')"

text \<open>The names of a certificate are the keys of a map, in the order of its iteration.\<close>

(* src: common/cluster/initialize/config.go 183-197 generateSANS *)
definition generateSANS :: "string list \<Rightarrow> string" where
  "generateSANS sans =
     (let sa = fold (\<lambda>s m. AList.update s () m) sans [(''127.0.0.1'', ()), (''localhost'', ()), (DefaultClusterDNSIP, ())]
      in concat (map (\<lambda>(key, _). ''- '' @ key @ [CHR 0x0A] @ replicate 10 CHR '' '') sa))"

(* src: common/cluster/initialize/config.go 102-136 BkeConfig.buildPadding *)
definition buildPadding :: "cluster_spec \<Rightarrow> string \<Rightarrow> string \<Rightarrow> string gomap option \<Rightarrow> string gomap option" where
  "buildPadding c name namespace externalEtcd =
     (case (cp_apiServer (cs_controlPlane c), GetClusterDNSIP (nw_serviceSubnet (cs_networking c))) of
        (Some server, Some dnsIP) \<Rightarrow>
          let repo = rp_domain (cs_imageRepo c) @ '':'' @ rp_port (cs_imageRepo c) @
                       (if rp_prefix (cs_imageRepo c) \<noteq> [] then ''/'' @ rp_prefix (cs_imageRepo c) else []);
              padding = [(''name'', name), (''namespace'', namespace), (''repo'', repo), (''masterReplicas'', ''1''), (''workerReplicas'', ''0''),
                         (''kubernetesVersion'', cs_kubernetesVersion c), (''workerVersion'', cs_kubernetesVersion c),
                         (''servicesCIDR'', nw_serviceSubnet (cs_networking c)), (''podsCIDR'', nw_podSubnet (cs_networking c)),
                         (''serviceDomain'', nw_dnsDomain (cs_networking c)), (''SANS'', generateSANS (sv_certSANs server @ [dnsIP])),
                         (''externalEtcd'', ''false'')]
          in Some (case externalEtcd of None \<Rightarrow> padding
                   | Some e \<Rightarrow> fold (\<lambda>(k, v) m. AList.update k v m) e (AList.update ''externalEtcd'' ''true'' padding))
      | _ \<Rightarrow> None)"

(* src: common/cluster/initialize/export.go 139-179 defaultAddons *)
definition defaultAddons :: "product list" where
  "defaultAddons =
     map (\<lambda>(name, version, param). \<lparr>pr_name = name, pr_version = version, pr_type = [], pr_releaseName = [], pr_namespace = [],
            pr_valuesConfigMapRef = None, pr_timeout = 0, pr_param = param, pr_block = False\<rparr>)
       [(''kubeproxy'', ''1.25.6'', Some [(''clusterNetworkMode'', ''calico'')]), (''calico'', ''v3.4.1'', Some [(''calicoMode'', ''bgp'')]),
        (''coredns'', ''v1.8.0'', None), (''nfs-csi'', ''v4.1.0'', Some [(''nfsServer'', ''[your nfs server ip]'')]),
        (''bocoperator'', ''latest'', Some [(''boc.version'', ''v4.0''), (''boc.nfsServer'', ''[your nfs server ip]'')]),
        (''cluster-api'', ''v1.3.2'', None)]"

(* src: common/cluster/initialize/export.go 181-185 defaultCustomExtra *)
definition defaultCustomExtra :: "string gomap" where
  "defaultCustomExtra = [(''containerd'', ''containerd-1.6.16-linux-{.arch}.tar.gz'')]"

(* src: common/cluster/initialize/export.go 65-100 defaultControlPlane *)
definition defaultControlPlane :: control_plane where
  "defaultControlPlane = \<lparr>cp_controllerManager = Some zero_component,
     cp_scheduler = Some (zero_component\<lparr>cc_extraVolumes := [\<lparr>hm_name = ''example'', hm_hostPath = ''/host/exam'', hm_mountPath = ''/host/exam'',
       hm_readOnly = True, hm_pathType = ''Directory''\<rparr>]\<rparr>),
     cp_apiServer = Some (zero_api_server\<lparr>sv_endpoint := \<lparr>ep_host = [], ep_port = 6443\<rparr>\<rparr>),
     cp_etcd = Some (zero_etcd\<lparr>et_component := zero_component\<lparr>cc_extraArgs := Some []\<rparr>\<rparr>)\<rparr>"

(* src: common/cluster/initialize/export.go 102-110 defaultKubelet *)
definition defaultKubelet :: kubelet_config where
  "defaultKubelet = zero_kubelet\<lparr>ku_component := zero_component\<lparr>cc_extraArgs := Some []\<rparr>\<rparr>"

(* src: common/cluster/initialize/export.go 48-63 defaultCluster *)
definition defaultCluster :: cluster_spec where
  "defaultCluster = zero_config\<lparr>cs_controlPlane := defaultControlPlane, cs_kubelet := Some defaultKubelet, cs_ntpServer := ''cn.pool.ntp.org:123''\<rparr>"

(* src: common/cluster/initialize/export.go 37-46 GetDefaultBKEConfig *)
definition GetDefaultBKEConfig :: cluster_spec where
  "GetDefaultBKEConfig =
     SetDefaultBKEConfig embedded_manifest (defaultCluster\<lparr>cs_addons := defaultAddons, cs_customExtra := Some defaultCustomExtra\<rparr>)"

(* src: common/cluster/initialize/export.go 187-196 newNode *)
definition newNode :: "string \<Rightarrow> string \<Rightarrow> string list \<Rightarrow> node_spec" where
  "newNode ip hostname roles = \<lparr>ns_role = roles, ns_ip = ip, ns_port = ''22'', ns_username = ''root'', ns_password = ''*********'', ns_hostname = hostname,
     ns_controlPlane = zero_control_plane, ns_kubelet = None, ns_labels = []\<rparr>"

(* src: common/cluster/initialize/export.go 128-137 GetDefaultNodes *)
definition GetDefaultNodes :: nodes where
  "GetDefaultNodes =
     [newNode ''[master-1-ip]'' ''master-1'' [MasterNodeRole, EtcdNodeRole], newNode ''[master-2-ip]'' ''master-2'' [MasterNodeRole, EtcdNodeRole],
      newNode ''[master-3-ip]'' ''master-3'' [MasterNodeRole, EtcdNodeRole], newNode ''[worker-1-ip]'' ''worker-1'' [WorkerNodeRole],
      newNode ''[worker-2-ip]'' ''worker-2'' [WorkerNodeRole], newNode ''[worker-3-ip]'' ''worker-3'' [WorkerNodeRole]]"

(* src: common/cluster/initialize/export.go 114-124 GetDefaultBKENodes *)
definition GetDefaultBKENodes :: "string \<Rightarrow> string \<Rightarrow> bke_node list" where
  "GetDefaultBKENodes clusterName namespace = ConvertNodesToBKENodes GetDefaultNodes namespace clusterName"

lemma Convert_nodes_roundtrip: "ConvertBKENodesToNodes (ConvertNodesToBKENodes ns namespace clusterName) = ns"
  by (simp add: ConvertBKENodesToNodes_def ConvertNodesToBKENodes_def ToNode_def FromNode_def o_def map_idI)

text \<open>The example nodes carry place holders for addresses; with addresses in their place they are valid.\<close>

lemma example_nodes: "ValidateNodesFields GetDefaultNodes \<noteq> None"
  "ValidateNodesFields (map2 (\<lambda>n ip. n\<lparr>ns_ip := ip\<rparr>) GetDefaultNodes
     [''10.0.0.1'', ''10.0.0.2'', ''10.0.0.3'', ''10.0.0.4'', ''10.0.0.5'', ''10.0.0.6'']) = None"
  by code_simp+

section \<open>Which nodes are accepted\<close>

lemma filter_unique: "(\<forall>n\<in>set ns. length (filter (\<lambda>m. f m = f n) ns) \<le> 1) \<longleftrightarrow> distinct (map f ns)"
proof (induction ns)
  case (Cons a ns)
  have none: "filter (\<lambda>m. f m = v) ns = [] \<longleftrightarrow> v \<notin> f ` set ns" for v
    by (auto simp: filter_empty_conv image_iff)
  have "(\<forall>n\<in>set ns. length (filter (\<lambda>m. f m = f n) (a # ns)) \<le> 1) \<longleftrightarrow> (\<forall>n\<in>set ns. length (filter (\<lambda>m. f m = f n) ns) \<le> 1)"
    if "f a \<notin> f ` set ns" using that by (intro ball_cong) auto
  then show ?case
    using Cons.IH none [of "f a"] by (cases "f a \<in> f ` set ns") auto
qed simp

text \<open>A node on its own, as a predicate on its fields.\<close>

definition field_ok :: "string \<Rightarrow> bool" where
  "field_ok v \<longleftrightarrow> v \<noteq> [] \<and> length v \<le> 255"

definition roles_of :: "node_spec \<Rightarrow> string set" where
  "roles_of n = strip_newlines ` set (ns_role n)"

definition node_ok :: "node_spec \<Rightarrow> bool" where
  "node_ok n \<longleftrightarrow>
     \<not> {''master'', ''node''} \<subseteq> roles_of n \<and> \<not> {''master'', ''etcd'', ''master/node''} \<subseteq> roles_of n \<and>
     \<not> {''node'', ''etcd''} \<subseteq> roles_of n \<and> (''node'' \<in> roles_of n \<longrightarrow> ns_controlPlane n = zero_control_plane) \<and>
     field_ok (ns_ip n) \<and> ParseIP (ns_ip n) \<noteq> None \<and> field_ok (ns_port n) \<and> field_ok (ns_username n) \<and> field_ok (ns_password n) \<and>
     length (ns_hostname n) \<le> 255"

definition with_role :: "string \<Rightarrow> nodes \<Rightarrow> nodes" where
  "with_role r ns = filter (\<lambda>n. r \<in> roles_of n) ns"

definition nodes_wf :: "nodes \<Rightarrow> bool" where
  "nodes_wf ns \<longleftrightarrow>
     odd (length (with_role ''master'' ns) + length (with_role ''master/node'' ns)) \<and> with_role ''etcd'' ns \<noteq> [] \<and>
     (with_role ''node'' ns \<noteq> [] \<or> with_role ''master/node'' ns \<noteq> []) \<and>
     distinct (map ns_ip ns) \<and> distinct (map ns_hostname (filter (\<lambda>n. ns_hostname n \<noteq> []) ns)) \<and> list_all node_ok ns"

lemma ContainsString_roles: "ContainsString (ns_role n) r \<longleftrightarrow> r \<in> roles_of n"
  by (auto simp: ContainsString_def roles_of_def strip_newlines_def list_ex_iff)

lemma contains_roles: "rs \<noteq> [] \<Longrightarrow> SliceContainsSlice (ns_role n) rs \<longleftrightarrow> set rs \<subseteq> roles_of n"
  by (cases rs) (auto simp: SliceContainsSlice_def ContainsString_roles list_all_iff subset_iff, auto simp: roles_of_def)

lemma contains_role: "SliceContainsString (ns_role n) r \<longleftrightarrow> strip_newlines r \<in> roles_of n"
  by (auto simp: SliceContainsString_def roles_of_def list_ex_iff image_iff) metis

lemma role_filter: "CHR '','' \<notin> set r \<Longrightarrow> nodes_Filter ns [(''Role'', r)] = with_role r ns"
  by (simp add: nodes_Filter_def with_role_def contains_roles)

lemmas role_names = MasterNodeRole_def WorkerNodeRole_def MasterWorkerNodeRole_def EtcdNodeRole_def

lemma required_nodes: "validateRequiredNodes ns = None \<longleftrightarrow>
    odd (length (with_role ''master'' ns) + length (with_role ''master/node'' ns)) \<and> with_role ''etcd'' ns \<noteq> []"
  by (auto simp: validateRequiredNodes_def nodes_Master_def nodes_Etcd_def role_names role_filter) (simp_all add: with_role_def)

lemma single_node: "ValidateSingleNode n = None \<longleftrightarrow> node_ok n"
  by (auto simp: ValidateSingleNode_def role_conflict_def field_error_def node_ok_def field_ok_def role_names contains_roles contains_role
      ValidIP_def strip_newlines_def not_less)

lemma unique_field:
  "(\<forall>n\<in>set ns. \<not> 1 < length (nodes_Filter ns [(''IP'', ns_ip n)])) \<longleftrightarrow> distinct (map ns_ip ns)"
  "(\<forall>n\<in>set ns. ns_hostname n \<noteq> [] \<longrightarrow> \<not> 1 < length (nodes_Filter ns [(''Hostname'', ns_hostname n)])) \<longleftrightarrow>
     distinct (map ns_hostname (filter (\<lambda>n. ns_hostname n \<noteq> []) ns))"
proof -
  show "(\<forall>n\<in>set ns. \<not> 1 < length (nodes_Filter ns [(''IP'', ns_ip n)])) \<longleftrightarrow> distinct (map ns_ip ns)"
    using filter_unique [of ns ns_ip] by (simp add: nodes_Filter_def node_field_def not_less)
  have eq: "length (filter (\<lambda>m. ns_hostname m = h) (filter (\<lambda>n. ns_hostname n \<noteq> []) ns)) = length (filter (\<lambda>m. ns_hostname m = h) ns)"
    if "h \<noteq> []" for h using that by (auto intro!: arg_cong [of _ _ length] filter_cong)
  have "(\<forall>n\<in>set ns. ns_hostname n \<noteq> [] \<longrightarrow> length (filter (\<lambda>m. ns_hostname m = ns_hostname n) ns) \<le> 1) \<longleftrightarrow>
      distinct (map ns_hostname (filter (\<lambda>n. ns_hostname n \<noteq> []) ns))"
    unfolding filter_unique [of "filter (\<lambda>n. ns_hostname n \<noteq> []) ns" ns_hostname, symmetric] by (auto simp: eq simp del: filter_filter)
  then show "(\<forall>n\<in>set ns. ns_hostname n \<noteq> [] \<longrightarrow> \<not> 1 < length (nodes_Filter ns [(''Hostname'', ns_hostname n)])) \<longleftrightarrow>
     distinct (map ns_hostname (filter (\<lambda>n. ns_hostname n \<noteq> []) ns))"
    by (simp add: nodes_Filter_def node_field_def not_less)
qed

text \<open>The nodes of a cluster are accepted exactly when they are well formed: the number of master
  roles is odd, some node has the etcd role, some node takes workload, addresses are distinct, host
  names are distinct where they are set, and every node is valid on its own.\<close>

theorem ValidateNodesFields_correct: "ValidateNodesFields ns = None \<longleftrightarrow> nodes_wf ns"
proof -
  have "(nodes_Worker ns = [] \<and> nodes_MasterWorker ns = []) \<longleftrightarrow> with_role ''node'' ns = [] \<and> with_role ''master/node'' ns = []"
    by (simp add: nodes_Worker_def nodes_MasterWorker_def role_names role_filter)
  then show ?thesis
    using unique_field [of ns]
    by (auto simp: ValidateNodesFields_def nodes_wf_def required_nodes single_node list_all_iff)
qed

text \<open>The etcd node need not be a master.\<close>

definition plain_node :: "string \<Rightarrow> string list \<Rightarrow> node_spec" where
  "plain_node ip roles = \<lparr>ns_role = roles, ns_ip = ip, ns_port = ''22'', ns_username = ''root'', ns_password = ''secret'', ns_hostname = [],
     ns_controlPlane = zero_control_plane, ns_kubelet = None, ns_labels = []\<rparr>"

text \<open>A node that has both the master and the combined role counts twice, so that two control plane
  nodes, an even number, are accepted; and a lone etcd node without the master role is enough.\<close>

theorem two_masters_accepted:
  "ValidateNodesFields [plain_node ''10.0.0.1'' [''master'', ''master/node''], plain_node ''10.0.0.2'' [''master''], plain_node ''10.0.0.3'' [''etcd'']] = None \<and>
   ValidateNodesFields [plain_node ''10.0.0.1'' [''master''], plain_node ''10.0.0.2'' [''master/node'', ''etcd'']] = Some MasterNodeOddError"
  by code_simp

section \<open>Defaults are accepted\<close>

text \<open>What a user has set is valid: an empty value is left to the defaults.\<close>

definition own_repo_ok :: "repo \<Rightarrow> bool" where
  "own_repo_ok r \<longleftrightarrow> (rp_domain r \<noteq> [] \<longrightarrow> IsDNS1123Subdomain (rp_domain r) = None) \<and> (rp_ip r \<noteq> [] \<longrightarrow> ValidIP (rp_ip r)) \<and>
     (rp_port r \<noteq> [] \<longrightarrow> (\<exists>v>0. Atoi (rp_port r) = Some v))"

definition own_values_ok :: "'v semver \<Rightarrow> cluster_spec \<Rightarrow> bool" where
  "own_values_ok lib c \<longleftrightarrow>
     (cs_kubernetesVersion c \<noteq> [] \<longrightarrow> ValidateK8sVersion lib (cs_kubernetesVersion c) = None) \<and>
     (nw_podSubnet (cs_networking c) \<noteq> [] \<longrightarrow> ParseCIDR (nw_podSubnet (cs_networking c)) \<noteq> None) \<and>
     (nw_serviceSubnet (cs_networking c) \<noteq> [] \<longrightarrow> ParseCIDR (nw_serviceSubnet (cs_networking c)) \<noteq> None) \<and>
     (nw_dnsDomain (cs_networking c) \<noteq> [] \<longrightarrow> IsDNS1123Subdomain (nw_dnsDomain (cs_networking c)) = None) \<and>
     rt_cri (cs_containerRuntime c) \<in> {[], ''docker'', ''containerd''} \<and> rt_runtime (cs_containerRuntime c) \<in> {[], ''kata'', ''runc'', ''richrunc''} \<and>
     own_repo_ok (cs_httpRepo c) \<and> own_repo_ok (cs_imageRepo c) \<and> own_repo_ok (cs_chartRepo c)"

lemma ValidateRepo_iff: "ValidateRepo r = None \<longleftrightarrow> own_repo_ok r \<and> (rp_domain r \<noteq> [] \<or> rp_ip r \<noteq> [])"
  by (auto simp: ValidateRepo_def own_repo_ok_def split: option.splits if_splits)

lemma default_values_ok:
  "IsDNS1123Subdomain DefaultYumRepo = None" "IsDNS1123Subdomain DefaultImageRepo = None" "IsDNS1123Subdomain DefaultChartRepo = None"
  "Atoi DefaultYumRepoPort = Some 40080" "Atoi DefaultImageRepoPort = Some 40443" "Atoi DefaultOnlineChartRepoPort = Some 443"
  "Atoi DefaultOfflineChartRepoPort = Some 40443" "IsDNS1123Subdomain ''cluster.local'' = None"
  "ParseCIDR DefaultServicesSubnet \<noteq> None" "ParseCIDR ''10.250.0.0/16'' \<noteq> None"
  by code_simp+

lemma default_repos_ok:
  assumes "own_repo_ok r"
  shows "ValidateRepo (SetDefaultHttpRepo r) = None" "ValidateRepo (SetDefaultImageRepo r) = None" "ValidateRepo (SetDefaultChartRepo r) = None"
proof -
  have "own_repo_ok (SetDefaultHttpRepo r)"
    using assms
    by (cases "rp_domain r = []"; cases "rp_port r = []"; cases "rp_domain r = DefaultYumRepo";
        simp add: SetDefaultHttpRepo_def own_repo_ok_def default_values_ok)
  then show "ValidateRepo (SetDefaultHttpRepo r) = None"
    using repos_complete(1) [of r] by (simp add: ValidateRepo_iff)
  have "own_repo_ok (SetDefaultImageRepo r)"
    using assms
    by (cases "rp_domain r = []"; cases "rp_port r = []"; cases "rp_prefix r = []"; cases "rp_domain r = DefaultImageRepo";
        simp add: SetDefaultImageRepo_def own_repo_ok_def default_values_ok)
  then show "ValidateRepo (SetDefaultImageRepo r) = None"
    using repos_complete(2) [of r] by (simp add: ValidateRepo_iff)
  have "own_repo_ok (SetDefaultChartRepo r)"
    using assms
    by (cases "rp_domain r = []"; cases "rp_ip r = []"; cases "rp_port r = []"; cases "rp_prefix r = []"; cases "rp_domain r = DefaultChartRepo";
        simp add: SetDefaultChartRepo_def own_repo_ok_def default_values_ok)
  then show "ValidateRepo (SetDefaultChartRepo r) = None"
    using chart_address [of r] by (auto simp: ValidateRepo_iff)
qed

lemma default_networking_ok:
  assumes "nw_podSubnet n \<noteq> [] \<longrightarrow> ParseCIDR (nw_podSubnet n) \<noteq> None" "nw_serviceSubnet n \<noteq> [] \<longrightarrow> ParseCIDR (nw_serviceSubnet n) \<noteq> None"
    "nw_dnsDomain n \<noteq> [] \<longrightarrow> IsDNS1123Subdomain (nw_dnsDomain n) = None"
  shows "ValidateNetworking (SetDefaultClusterNetworking n) = None"
proof -
  have ip: "ValidateIPNet (or_default s d) = None" if "s \<noteq> [] \<longrightarrow> ParseCIDR s \<noteq> None" "ParseCIDR d \<noteq> None" for s d
    using that by (cases "s = []") (simp_all add: ValidateIPNet_def split: option.splits)
  have "IsDNS1123Subdomain (or_default (nw_dnsDomain n) ''cluster.local'') = None"
    using assms(3) default_values_ok(8) by (cases "nw_dnsDomain n = []") simp_all
  then show ?thesis
    using ip [OF assms(1) default_values_ok(10)] ip [OF assms(2) default_values_ok(9)] networking_complete [of n]
    unfolding ValidateNetworking_def SetDefaultClusterNetworking_def by simp
qed

lemma default_runtime_ok:
  assumes "rt_cri r \<in> {[], ''docker'', ''containerd''}" "rt_runtime r \<in> {[], ''kata'', ''runc'', ''richrunc''}"
  shows "ValidateContainerRuntime (SetDefaultContainerRuntime r) = None"
proof -
  have "or_default (rt_cri r) ''containerd'' \<in> {''docker'', ''containerd''}" "or_default (rt_runtime r) ''runc'' \<in> {''kata'', ''runc'', ''richrunc''}"
    using assms by (auto simp: or_default_def)
  then show ?thesis
    unfolding ValidateContainerRuntime_def SetDefaultContainerRuntime_def Let_def by simp
qed

lemma defaulted_config_ok:
  assumes own: "own_values_ok (ve_semver env) c"
    and manifest: "manifest_Validate (Some m) = None" and version: "ValidateK8sVersion (ve_semver env) (vm_kubernetes m) = None"
    and charts: "IsContainChartAddon (cs_addons c) \<longrightarrow>
      (\<exists>a. ResolveReachableRepoAddress (ve_net env) (SetDefaultChartRepo (cs_chartRepo c)) = Inr a)"
  shows "ValidateCluster env (SetDefaultBKEConfig m c) = None"
proof -
  have repos: "ValidateRepo (SetDefaultHttpRepo (cs_httpRepo c)) = None" "ValidateRepo (SetDefaultImageRepo (cs_imageRepo c)) = None"
      "ValidateRepo (SetDefaultChartRepo (cs_chartRepo c)) = None"
    using own default_repos_ok unfolding own_values_ok_def by blast+
  have chart: "ValidateChartRepo (ve_net env) (SetDefaultChartRepo (cs_chartRepo c)) (cs_addons c) = None"
    using charts repos(3) chart_port [of "cs_chartRepo c"] by (auto simp: ValidateChartRepo_def zero_repo_def)
  have version': "ValidateK8sVersion (ve_semver env) (or_default (cs_kubernetesVersion c) (vm_kubernetes m)) = None"
    using own version by (simp add: own_values_ok_def or_default_def)
  have net: "ValidateNetworking (SetDefaultClusterNetworking (cs_networking c)) = None"
    using own default_networking_ok unfolding own_values_ok_def by blast
  have runtime: "ValidateContainerRuntime (SetDefaultContainerRuntime (cs_containerRuntime c)) = None"
    using own default_runtime_ok unfolding own_values_ok_def by blast
  have control: "ValidateControlPlaneComponents
      (SetDefaultScheduler (SetDefaultControllerManager (SetDefaultAPIServer (SetDefaultEtcd (cs_controlPlane c))))) = None"
    using control_plane_complete(1) [of "cs_controlPlane c"] by (auto simp: ValidateControlPlaneComponents_def)
  show ?thesis
    by (simp add: ValidateCluster_def SetDefaultBKEConfig_def default_defs repos chart version' net runtime control
        ValidateKubeletComponent_def kubelet_complete)
qed


definition dotted_semver :: "nat semver" where
  "dotted_semver = \<lparr>sem_parse = (\<lambda>s. case Split CHR ''.'' s of _ # minor # _ \<Rightarrow> map_option nat (Atoi minor) | _ \<Rightarrow> None),
     sem_compare = (\<lambda>a b. int a - int b)\<rparr>"

definition quiet_env :: "nat val_env" where
  "quiet_env = \<lparr>ve_semver = dotted_semver, ve_net = \<lparr>ne_status = (\<lambda>_ _. None), ne_dial = (\<lambda>_. False)\<rparr>\<rparr>"


text \<open>The address of an image repository, on every combination of domain, address and port: the domain
  is preferred, the port 443 is left out, and a repository with both a domain and an address but no
  port gets no address at all.\<close>

theorem GetImageRepoAddress_cases:
  "GetImageRepoAddress r =
     (if rp_domain r \<noteq> [] \<and> rp_ip r \<noteq> [] \<and> rp_port r = [] then []
      else (if rp_domain r \<noteq> [] then rp_domain r else rp_ip r) @
           (if rp_port r \<in> {[], ''443''} \<or> (rp_domain r = [] \<and> rp_ip r = []) then [] else '':'' @ rp_port r))"
  by (simp add: GetImageRepoAddress_def Let_def)

end
