(* ===== verification/Node_Fetcher.thy ===== *)
theory Node_Fetcher
  imports Cluster_Api Node_Lists Api_Retry
begin

text \<open>
  Access to the node objects of a cluster: \<^verbatim>\<open>utils/capbke/nodeutil/fetcher.go\<close>. The client is a
  parameter with a state of its own: a read may come from a cache and other writers may act during any
  call. \<open>node_api_ok\<close> states what the API server promises: an object with a given resource version
  never changes, and a write of the status is accepted only on the version it was read at.

  The results: a status update by address that reports success has changed exactly the status of one
  node, computed from the status the server had, so that no concurrent write is lost; and an update
  that meets only conflicts succeeds within the steps of the retry.
\<close>

unbundle bit_operations_syntax

section \<open>Definitions\<close>

record 'w node_api =
  na_list :: "string \<Rightarrow> string gomap \<Rightarrow> 'w \<Rightarrow> 'w \<times> (api_error + bke_node list)"
  na_updateStatus :: "bke_node \<Rightarrow> 'w \<Rightarrow> 'w \<times> api_error option"
  na_delete :: "bke_node \<Rightarrow> 'w \<Rightarrow> 'w \<times> api_error option"
  na_retry :: "'w retry_lib"

type_synonym ('w, 'a) node_read = "'w \<Rightarrow> 'w \<times> (api_error + 'a)"

definition map_read :: "('a \<Rightarrow> 'b) \<Rightarrow> ('w, 'a) node_read \<Rightarrow> ('w, 'b) node_read" where
  "map_read f r w = (case r w of (w', Inl e) \<Rightarrow> (w', Inl e) | (w', Inr x) \<Rightarrow> (w', Inr (f x)))"

(* src: utils/capbke/nodeutil/fetcher.go 31-31 ClusterNameLabel *)
definition ClusterNameLabel :: string where
  "ClusterNameLabel = ''cluster.x-k8s.io/cluster-name''"

(* src: utils/capbke/nodeutil/fetcher.go 46-51 FetchResult *)
type_synonym fetch_result = "bke_node list \<times> nodes"

(* src: utils/capbke/nodeutil/fetcher.go 56-74 NodeFetcher.FetchNodesForCluster *)
definition FetchNodesForCluster :: "'w node_api \<Rightarrow> string \<Rightarrow> string \<Rightarrow> ('w, fetch_result) node_read" where
  "FetchNodesForCluster api namespace clusterName =
     map_read (\<lambda>items. (items, SetDefaultsForNodes (ConvertBKENodeListToNodes (Some items))))
       (na_list api namespace [(ClusterNameLabel, clusterName)])"

(* src: utils/capbke/nodeutil/fetcher.go 77-79 NodeFetcher.FetchNodesForBKECluster *)
definition FetchNodesForBKECluster :: "'w node_api \<Rightarrow> bke_cluster \<Rightarrow> ('w, fetch_result) node_read" where
  "FetchNodesForBKECluster api c = FetchNodesForCluster api (bc_namespace c) (bc_name c)"

(* src: utils/capbke/nodeutil/fetcher.go 83-89 NodeFetcher.GetNodes *)
definition GetNodes :: "'w node_api \<Rightarrow> string \<Rightarrow> string \<Rightarrow> ('w, nodes) node_read" where
  "GetNodes api namespace clusterName = map_read snd (FetchNodesForCluster api namespace clusterName)"

(* src: utils/capbke/nodeutil/fetcher.go 92-94 NodeFetcher.GetNodesForBKECluster *)
definition GetNodesForBKECluster :: "'w node_api \<Rightarrow> bke_cluster \<Rightarrow> ('w, nodes) node_read" where
  "GetNodesForBKECluster api c = GetNodes api (bc_namespace c) (bc_name c)"

(* src: utils/capbke/nodeutil/fetcher.go 98-104 NodeFetcher.GetBKENodes *)
definition GetBKENodes :: "'w node_api \<Rightarrow> string \<Rightarrow> string \<Rightarrow> ('w, bke_node list) node_read" where
  "GetBKENodes api namespace clusterName = map_read fst (FetchNodesForCluster api namespace clusterName)"

(* src: utils/capbke/nodeutil/fetcher.go 107-109 NodeFetcher.GetBKENodesForBKECluster *)
definition GetBKENodesForBKECluster :: "'w node_api \<Rightarrow> bke_cluster \<Rightarrow> ('w, bke_node list) node_read" where
  "GetBKENodesForBKECluster api c = GetBKENodes api (bc_namespace c) (bc_name c)"

definition node_not_found :: "string \<Rightarrow> string \<Rightarrow> string \<Rightarrow> api_error" where
  "node_not_found namespace clusterName ip =
     ErrMsg (''node with IP '' @ ip @ '' not found in cluster '' @ namespace @ ''/'' @ clusterName)"

(* src: utils/capbke/nodeutil/fetcher.go 112-123 NodeFetcher.GetNodeByIP *)
definition fetch_NodeByIP :: "'w node_api \<Rightarrow> string \<Rightarrow> string \<Rightarrow> string \<Rightarrow> ('w, bke_node) node_read" where
  "fetch_NodeByIP api namespace clusterName ip w =
     (case GetBKENodes api namespace clusterName w of
        (w', Inl e) \<Rightarrow> (w', Inl e)
      | (w', Inr ns) \<Rightarrow> (case find (\<lambda>n. ns_ip (bn_spec n) = ip) ns of
                           None \<Rightarrow> (w', Inl (node_not_found namespace clusterName ip))
                         | Some n \<Rightarrow> (w', Inr n)))"

(* src: utils/capbke/nodeutil/fetcher.go 126-128 NodeFetcher.UpdateNodeStatus *)
definition UpdateNodeStatus :: "'w node_api \<Rightarrow> bke_node \<Rightarrow> 'w attempt" where
  "UpdateNodeStatus api n = na_updateStatus api n"

(* src: utils/capbke/nodeutil/fetcher.go 132-135 GetNodesFromClient *)
definition GetNodesFromClient :: "'w node_api \<Rightarrow> string \<Rightarrow> string \<Rightarrow> ('w, nodes) node_read" where
  "GetNodesFromClient c namespace clusterName = GetNodes c namespace clusterName"

(* src: utils/capbke/nodeutil/fetcher.go 138-140 GetNodesForBKEClusterFromClient *)
definition GetNodesForBKEClusterFromClient :: "'w node_api \<Rightarrow> bke_cluster \<Rightarrow> ('w, nodes) node_read" where
  "GetNodesForBKEClusterFromClient c bc = GetNodesFromClient c (bc_namespace bc) (bc_name bc)"

(* src: utils/capbke/nodeutil/fetcher.go 143-146 GetBKENodesFromClient *)
definition GetBKENodesFromClient :: "'w node_api \<Rightarrow> string \<Rightarrow> string \<Rightarrow> ('w, bke_node list) node_read" where
  "GetBKENodesFromClient c namespace clusterName = GetBKENodes c namespace clusterName"

subsection \<open>Views of the nodes\<close>

(* src: utils/capbke/nodeutil/fetcher.go 150-157 NodeStateInfo *)
record node_state_info =
  nsi_node :: node_spec
  nsi_bkeNode :: bke_node
  nsi_state :: string
  nsi_stateCode :: "64 word"
  nsi_message :: string
  nsi_needSkip :: bool

definition state_info :: "bke_node \<Rightarrow> node_state_info" where
  "state_info n = \<lparr>nsi_node = ToNode n, nsi_bkeNode = n, nsi_state = nst_state (bn_status n),
     nsi_stateCode = nst_stateCode (bn_status n), nsi_message = nst_message (bn_status n), nsi_needSkip = nst_needSkip (bn_status n)\<rparr>"

(* src: utils/capbke/nodeutil/fetcher.go 161-180 NodeFetcher.GetNodeStates *)
definition GetNodeStates :: "'w node_api \<Rightarrow> string \<Rightarrow> string \<Rightarrow> ('w, node_state_info list) node_read" where
  "GetNodeStates api namespace clusterName = map_read (map state_info) (GetBKENodes api namespace clusterName)"

(* src: utils/capbke/nodeutil/fetcher.go 183-185 NodeFetcher.GetNodeStatesForBKECluster *)
definition GetNodeStatesForBKECluster :: "'w node_api \<Rightarrow> bke_cluster \<Rightarrow> ('w, node_state_info list) node_read" where
  "GetNodeStatesForBKECluster api c = GetNodeStates api (bc_namespace c) (bc_name c)"

(* src: utils/capbke/nodeutil/fetcher.go 190-203 NodeFetcher.GetDeletingNodes *)
definition GetDeletingNodes :: "'w node_api \<Rightarrow> string \<Rightarrow> string \<Rightarrow> ('w, nodes) node_read" where
  "GetDeletingNodes api namespace clusterName =
     map_read (\<lambda>ns. map ToNode (filter (\<lambda>n. bn_deletionTimestamp n \<noteq> None) ns)) (GetBKENodes api namespace clusterName)"

(* src: utils/capbke/nodeutil/fetcher.go 206-208 NodeFetcher.GetDeletingNodesForBKECluster *)
definition GetDeletingNodesForBKECluster :: "'w node_api \<Rightarrow> bke_cluster \<Rightarrow> ('w, nodes) node_read" where
  "GetDeletingNodesForBKECluster api c = GetDeletingNodes api (bc_namespace c) (bc_name c)"

(* src: utils/capbke/nodeutil/fetcher.go 211-219 FilterNodesByState *)
definition FilterNodesByState :: "node_state_info list \<Rightarrow> string \<Rightarrow> node_state_info list" where
  "FilterNodesByState states target = filter (\<lambda>s. nsi_state s = target) states"

(* src: api/bkecommon/v1beta1/bkenode_types.go 37-37 NodeReady *)
definition NodeReady :: string where
  "NodeReady = ''Ready''"

(* src: utils/capbke/nodeutil/fetcher.go 222-235 NodeFetcher.GetReadyNodes *)
definition GetReadyNodes :: "'w node_api \<Rightarrow> string \<Rightarrow> string \<Rightarrow> ('w, nodes) node_read" where
  "GetReadyNodes api namespace clusterName =
     map_read (\<lambda>states. map nsi_node (filter (\<lambda>s. nsi_state s = NodeReady) states)) (GetNodeStates api namespace clusterName)"

(* src: utils/capbke/nodeutil/fetcher.go 239-252 NodeFetcher.GetNodesExcludingSkipped *)
definition GetNodesExcludingSkipped :: "'w node_api \<Rightarrow> string \<Rightarrow> string \<Rightarrow> ('w, nodes) node_read" where
  "GetNodesExcludingSkipped api namespace clusterName =
     map_read (\<lambda>states. map nsi_node (filter (\<lambda>s. \<not> nsi_needSkip s) states)) (GetNodeStates api namespace clusterName)"

(* src: utils/capbke/nodeutil/fetcher.go 256-258 NodeFetcher.GetAllNodes *)
definition GetAllNodes :: "'w node_api \<Rightarrow> string \<Rightarrow> string \<Rightarrow> ('w, nodes) node_read" where
  "GetAllNodes api namespace clusterName = GetNodes api namespace clusterName"

(* src: utils/capbke/nodeutil/fetcher.go 262-279 NodeFetcher.GetReadyBootstrapNodes *)
definition GetReadyBootstrapNodes :: "'w node_api \<Rightarrow> string \<Rightarrow> string \<Rightarrow> ('w, nodes) node_read" where
  "GetReadyBootstrapNodes api namespace clusterName =
     map_read (\<lambda>ns. map ToNode (filter (\<lambda>n. GetNodeStateFlag ns (ns_ip (bn_spec n)) NodeAgentReadyFlag \<and>
         GetNodeStateFlag ns (ns_ip (bn_spec n)) NodeEnvFlag \<and> \<not> GetNodeStateFlag ns (ns_ip (bn_spec n)) NodeBootFlag) ns))
       (GetBKENodes api namespace clusterName)"

(* src: utils/capbke/nodeutil/fetcher.go 283-318 NodeFetcher.CompareNodes *)
definition CompareNodes :: "'w node_api \<Rightarrow> string \<Rightarrow> string \<Rightarrow> nodes \<Rightarrow> ('w, nodes \<times> nodes) node_read" where
  "CompareNodes api namespace clusterName desired =
     map_read (\<lambda>current. (filter (\<lambda>d. \<not> list_ex (\<lambda>c. ns_ip c = ns_ip d) current) desired,
                          filter (\<lambda>c. \<not> list_ex (\<lambda>d. ns_ip d = ns_ip c) desired) current))
       (GetNodes api namespace clusterName)"

subsection \<open>Writing a status\<close>

text \<open>\<^verbatim>\<open>retry.RetryOnConflict(retry.DefaultRetry, fn)\<close> of client-go.\<close>

definition client_retry :: "'w node_api \<Rightarrow> 'w attempt \<Rightarrow> 'w attempt" where
  "client_retry api fn = rl_OnError (na_retry api) (rl_DefaultRetry (na_retry api)) IsConflict fn"

definition update_attempt :: "'w node_api \<Rightarrow> string \<Rightarrow> string \<Rightarrow> string \<Rightarrow> (bke_node \<Rightarrow> bke_node) \<Rightarrow> 'w attempt" where
  "update_attempt api namespace clusterName ip updater w =
     (case fetch_NodeByIP api namespace clusterName ip w of
        (w', Inl e) \<Rightarrow> (w', Some e)
      | (w', Inr n) \<Rightarrow> UpdateNodeStatus api (updater n) w')"

(* src: utils/capbke/nodeutil/fetcher.go 457-470 NodeFetcher.UpdateNodeStatusByIP *)
definition UpdateNodeStatusByIP :: "'w node_api \<Rightarrow> string \<Rightarrow> string \<Rightarrow> string \<Rightarrow> (node_status \<Rightarrow> node_status) \<Rightarrow> 'w attempt" where
  "UpdateNodeStatusByIP api namespace clusterName ip updater =
     client_retry api (update_attempt api namespace clusterName ip (upd_status updater))"

(* src: utils/capbke/nodeutil/fetcher.go 473-480 NodeFetcher.UpdateNodeStatusByIPForCluster *)
definition UpdateNodeStatusByIPForCluster :: "'w node_api \<Rightarrow> bke_cluster \<Rightarrow> string \<Rightarrow> (node_status \<Rightarrow> node_status) \<Rightarrow> 'w attempt" where
  "UpdateNodeStatusByIPForCluster api c ip updater = UpdateNodeStatusByIP api (bc_namespace c) (bc_name c) ip updater"

(* src: utils/capbke/nodeutil/fetcher.go 321-333 NodeFetcher.UpdateBKENodeState *)
definition UpdateBKENodeState :: "'w node_api \<Rightarrow> string \<Rightarrow> string \<Rightarrow> string \<Rightarrow> string \<Rightarrow> string \<Rightarrow> 'w attempt" where
  "UpdateBKENodeState api namespace clusterName ip state message =
     client_retry api (update_attempt api namespace clusterName ip (upd_status (\<lambda>s. s\<lparr>nst_state := state, nst_message := message\<rparr>)))"

(* src: utils/capbke/nodeutil/fetcher.go 336-346 NodeFetcher.SetNodeNeedSkip *)
definition SetNodeNeedSkip :: "'w node_api \<Rightarrow> string \<Rightarrow> string \<Rightarrow> string \<Rightarrow> bool \<Rightarrow> 'w attempt" where
  "SetNodeNeedSkip api namespace clusterName ip needSkip =
     client_retry api (update_attempt api namespace clusterName ip (upd_status (\<lambda>s. s\<lparr>nst_needSkip := needSkip\<rparr>)))"

(* src: utils/capbke/nodeutil/fetcher.go 349-360 NodeFetcher.MarkNodeStateFlag *)
definition fetcher_MarkNodeStateFlag :: "'w node_api \<Rightarrow> string \<Rightarrow> string \<Rightarrow> string \<Rightarrow> 64 word \<Rightarrow> 'w attempt" where
  "fetcher_MarkNodeStateFlag api namespace clusterName ip flag =
     client_retry api (update_attempt api namespace clusterName ip (upd_status (\<lambda>s. s\<lparr>nst_stateCode := nst_stateCode s OR flag\<rparr>)))"

(* src: utils/capbke/nodeutil/fetcher.go 363-374 NodeFetcher.UnmarkNodeStateFlag *)
definition fetcher_UnmarkNodeStateFlag :: "'w node_api \<Rightarrow> string \<Rightarrow> string \<Rightarrow> string \<Rightarrow> 64 word \<Rightarrow> 'w attempt" where
  "fetcher_UnmarkNodeStateFlag api namespace clusterName ip flag =
     client_retry api (update_attempt api namespace clusterName ip (upd_status (\<lambda>s. s\<lparr>nst_stateCode := nst_stateCode s AND NOT flag\<rparr>)))"

(* src: utils/capbke/nodeutil/fetcher.go 377-384 NodeFetcher.GetNodeStateNeedSkip *)
definition fetcher_GetNodeStateNeedSkip :: "'w node_api \<Rightarrow> string \<Rightarrow> string \<Rightarrow> string \<Rightarrow> ('w, bool) node_read" where
  "fetcher_GetNodeStateNeedSkip api namespace clusterName ip =
     map_read (\<lambda>n. nst_needSkip (bn_status n)) (fetch_NodeByIP api namespace clusterName ip)"

(* src: utils/capbke/nodeutil/fetcher.go 388-394 NodeFetcher.GetBKENodesWrapper *)
definition GetBKENodesWrapper :: "'w node_api \<Rightarrow> string \<Rightarrow> string \<Rightarrow> ('w, bke_node list) node_read" where
  "GetBKENodesWrapper api namespace clusterName = GetBKENodes api namespace clusterName"

(* src: utils/capbke/nodeutil/fetcher.go 397-399 NodeFetcher.GetBKENodesWrapperForCluster *)
definition GetBKENodesWrapperForCluster :: "'w node_api \<Rightarrow> bke_cluster \<Rightarrow> ('w, bke_node list) node_read" where
  "GetBKENodesWrapperForCluster api c = GetBKENodesWrapper api (bc_namespace c) (bc_name c)"

fun update_each :: "'w node_api \<Rightarrow> bke_node list \<Rightarrow> 'w attempt" where
  "update_each api [] w = (w, None)"
| "update_each api (n # ns) w =
     (case UpdateNodeStatus api n w of (w', Some e) \<Rightarrow> (w', Some e) | (w', None) \<Rightarrow> update_each api ns w')"

text \<open>The nodes in memory keep their flags when a write fails.\<close>

(* src: utils/capbke/nodeutil/fetcher.go 402-411 NodeFetcher.UpdateModifiedNodes *)
definition UpdateModifiedNodes :: "'w node_api \<Rightarrow> bke_node list \<Rightarrow> 'w \<Rightarrow> 'w \<times> bke_node list \<times> api_error option" where
  "UpdateModifiedNodes api ns w =
     (case update_each api (GetModifiedNodes ns) w of
        (w', Some e) \<Rightarrow> (w', ns, Some e)
      | (w', None) \<Rightarrow> (w', ClearRecordFlags ns, None))"

(* src: utils/capbke/nodeutil/fetcher.go 414-420 NodeFetcher.GetNodeCount *)
definition GetNodeCount :: "'w node_api \<Rightarrow> string \<Rightarrow> string \<Rightarrow> ('w, nat) node_read" where
  "GetNodeCount api namespace clusterName = map_read length (GetBKENodes api namespace clusterName)"

(* src: utils/capbke/nodeutil/fetcher.go 423-425 NodeFetcher.GetNodeCountForCluster *)
definition GetNodeCountForCluster :: "'w node_api \<Rightarrow> bke_cluster \<Rightarrow> ('w, nat) node_read" where
  "GetNodeCountForCluster api c = GetNodeCount api (bc_namespace c) (bc_name c)"

(* src: utils/capbke/nodeutil/fetcher.go 429-437 NodeFetcher.DeleteBKENode *)
definition DeleteBKENode :: "'w node_api \<Rightarrow> string \<Rightarrow> string \<Rightarrow> string \<Rightarrow> 'w attempt" where
  "DeleteBKENode api namespace clusterName ip w =
     (case fetch_NodeByIP api namespace clusterName ip w of
        (w', Inl _) \<Rightarrow> (w', None)
      | (w', Inr n) \<Rightarrow> na_delete api n w')"

(* src: utils/capbke/nodeutil/fetcher.go 440-442 NodeFetcher.DeleteBKENodeForCluster *)
definition DeleteBKENodeForCluster :: "'w node_api \<Rightarrow> bke_cluster \<Rightarrow> string \<Rightarrow> 'w attempt" where
  "DeleteBKENodeForCluster api c ip = DeleteBKENode api (bc_namespace c) (bc_name c) ip"

(* src: utils/capbke/nodeutil/fetcher.go 446-448 NodeFetcher.SetNodeStateWithMessage *)
definition fetcher_SetNodeStateWithMessage :: "'w node_api \<Rightarrow> string \<Rightarrow> string \<Rightarrow> string \<Rightarrow> string \<Rightarrow> string \<Rightarrow> 'w attempt" where
  "fetcher_SetNodeStateWithMessage api namespace clusterName ip state message = UpdateBKENodeState api namespace clusterName ip state message"

(* src: utils/capbke/nodeutil/fetcher.go 451-453 NodeFetcher.SetNodeStateWithMessageForCluster *)
definition SetNodeStateWithMessageForCluster :: "'w node_api \<Rightarrow> bke_cluster \<Rightarrow> string \<Rightarrow> string \<Rightarrow> string \<Rightarrow> 'w attempt" where
  "SetNodeStateWithMessageForCluster api c ip state message =
     fetcher_SetNodeStateWithMessage api (bc_namespace c) (bc_name c) ip state message"

(* src: utils/capbke/nodeutil/fetcher.go 483-485 NodeFetcher.MarkNodeStateFlagForCluster *)
definition MarkNodeStateFlagForCluster :: "'w node_api \<Rightarrow> bke_cluster \<Rightarrow> string \<Rightarrow> 64 word \<Rightarrow> 'w attempt" where
  "MarkNodeStateFlagForCluster api c ip flag = fetcher_MarkNodeStateFlag api (bc_namespace c) (bc_name c) ip flag"

(* src: utils/capbke/nodeutil/fetcher.go 488-490 NodeFetcher.UnmarkNodeStateFlagForCluster *)
definition UnmarkNodeStateFlagForCluster :: "'w node_api \<Rightarrow> bke_cluster \<Rightarrow> string \<Rightarrow> 64 word \<Rightarrow> 'w attempt" where
  "UnmarkNodeStateFlagForCluster api c ip flag = fetcher_UnmarkNodeStateFlag api (bc_namespace c) (bc_name c) ip flag"

(* src: utils/capbke/nodeutil/fetcher.go 493-499 NodeFetcher.GetNodeStateFlag *)
definition fetcher_GetNodeStateFlag :: "'w node_api \<Rightarrow> string \<Rightarrow> string \<Rightarrow> string \<Rightarrow> 64 word \<Rightarrow> ('w, bool) node_read" where
  "fetcher_GetNodeStateFlag api namespace clusterName ip flag =
     map_read (\<lambda>n. nst_stateCode (bn_status n) AND flag \<noteq> 0) (fetch_NodeByIP api namespace clusterName ip)"

(* src: utils/capbke/nodeutil/fetcher.go 502-504 NodeFetcher.GetNodeStateFlagForCluster *)
definition GetNodeStateFlagForCluster :: "'w node_api \<Rightarrow> bke_cluster \<Rightarrow> string \<Rightarrow> 64 word \<Rightarrow> ('w, bool) node_read" where
  "GetNodeStateFlagForCluster api c ip flag = fetcher_GetNodeStateFlag api (bc_namespace c) (bc_name c) ip flag"

(* src: utils/capbke/nodeutil/fetcher.go 507-518 NodeFetcher.SetBKENodeStateMessage *)
definition SetBKENodeStateMessage :: "'w node_api \<Rightarrow> string \<Rightarrow> string \<Rightarrow> string \<Rightarrow> string \<Rightarrow> 'w attempt" where
  "SetBKENodeStateMessage api namespace clusterName ip message =
     client_retry api (update_attempt api namespace clusterName ip (upd_status (\<lambda>s. s\<lparr>nst_message := message\<rparr>)))"

(* src: utils/capbke/nodeutil/fetcher.go 521-532 NodeFetcher.SetSkipNodeErrorForWorker *)
definition SetSkipNodeErrorForWorker :: "'w node_api \<Rightarrow> string \<Rightarrow> string \<Rightarrow> string \<Rightarrow> 'w attempt" where
  "SetSkipNodeErrorForWorker api namespace clusterName ip =
     client_retry api (update_attempt api namespace clusterName ip
       (\<lambda>n. if ContainsString (ns_role (bn_spec n)) WorkerNodeRole then upd_status (\<lambda>s. s\<lparr>nst_needSkip := True\<rparr>) n else n))"

section \<open>Results\<close>

lemma map_read_Inr: "map_read f r w = (w', Inr y) \<longleftrightarrow> (\<exists>x. r w = (w', Inr x) \<and> y = f x)"
  by (auto simp: map_read_def split: prod.splits sum.splits)

lemma map_read_Inl: "map_read f r w = (w', Inl e) \<longleftrightarrow> r w = (w', Inl e)"
  by (auto simp: map_read_def split: prod.splits sum.splits)

lemma GetBKENodes_list: "GetBKENodes api namespace clusterName w = na_list api namespace [(ClusterNameLabel, clusterName)] w"
  by (simp add: GetBKENodes_def FetchNodesForCluster_def map_read_def split: prod.splits sum.splits)

lemma fetch_NodeByIP_Inr:
  "fetch_NodeByIP api namespace clusterName ip w = (w', Inr n) \<Longrightarrow>
     \<exists>items. na_list api namespace [(ClusterNameLabel, clusterName)] w = (w', Inr items) \<and> n \<in> set items \<and> ns_ip (bn_spec n) = ip"
  by (auto simp: fetch_NodeByIP_def GetBKENodes_list find_Some_iff split: prod.splits sum.splits option.splits)

lemma client_retry_RetryOnConflict: "client_retry api fn = RetryOnConflict (na_retry api) fn"
  by (simp add: fun_eq_iff client_retry_def RetryOnConflict_def RetryOnError_def WithBackoff_def WithPredicate_def DefaultBackoff_def)

text \<open>The API server: what it stores, by namespace and name.\<close>

definition node_key :: "bke_node \<Rightarrow> string \<times> string" where
  "node_key n = (bn_namespace n, bn_name n)"

definition same_version :: "bke_node \<Rightarrow> bke_node \<Rightarrow> bool" where
  "same_version m n \<longleftrightarrow> node_key m = node_key n \<and> bn_resourceVersion m = bn_resourceVersion n"

definition with_status :: "node_status \<Rightarrow> string \<Rightarrow> bke_node \<Rightarrow> bke_node" where
  "with_status s rv n = n\<lparr>bn_status := s, bn_resourceVersion := rv\<rparr>"

definition put_status :: "bke_node \<Rightarrow> string \<Rightarrow> bke_node list \<Rightarrow> bke_node list" where
  "put_status n rv ns = map (\<lambda>m. if node_key m = node_key n then with_status (bn_status n) rv m else m) ns"

definition has_labels :: "string gomap \<Rightarrow> bke_node \<Rightarrow> bool" where
  "has_labels sel n \<longleftrightarrow> list_all (\<lambda>(k, v). map_of (bn_labels n) k = Some v) sel"

definition node_api_ok :: "'w node_api \<Rightarrow> ('w \<Rightarrow> bke_node list) \<Rightarrow> bool" where
  "node_api_ok api stored \<longleftrightarrow>
     (\<forall>ns sel w w' items. na_list api ns sel w = (w', Inr items) \<longrightarrow>
        (\<forall>n\<in>set items. bn_namespace n = ns \<and> has_labels sel n \<and> (\<forall>m\<in>set (stored w'). same_version m n \<longrightarrow> m = n))) \<and>
     (\<forall>n w w'. na_updateStatus api n w = (w', None) \<longrightarrow>
        (\<exists>m\<in>set (stored w). same_version m n) \<and> (\<exists>rv. stored w' = put_status n rv (stored w)))"

text \<open>C21. An update of a node's status by address that reports success wrote, on the state the server
  had at that moment, the new status computed from the status stored there: between the read and the
  write nobody else's change was lost, whatever cache the read came from; no other node and nothing
  else of the node changed.\<close>

theorem status_update_not_lost:
  assumes api: "node_api_ok api stored" and retry: "retry_loop_ok (na_retry api)"
    and ok: "UpdateNodeStatusByIP api namespace clusterName ip f w = (w', None)"
  shows "\<exists>v u n rv. fetch_NodeByIP api namespace clusterName ip v = (u, Inr n) \<and> n \<in> set (stored u) \<and>
    bn_namespace n = namespace \<and> map_of (bn_labels n) ClusterNameLabel = Some clusterName \<and> ns_ip (bn_spec n) = ip \<and>
    stored w' = map (\<lambda>m. if node_key m = node_key n then with_status (f (bn_status n)) rv m else m) (stored u)"
    (is "?Q w'")
proof -
  let ?fn = "update_attempt api namespace clusterName ip (upd_status f)"
  have step: "?Q u'" if "?fn v = (u', None)" for v u'
  proof -
    from that obtain u n where f: "fetch_NodeByIP api namespace clusterName ip v = (u, Inr n)"
      and up: "na_updateStatus api (upd_status f n) u = (u', None)"
      by (auto simp: update_attempt_def UpdateNodeStatus_def split: prod.splits sum.splits)
    from fetch_NodeByIP_Inr [OF f] obtain items where
      l: "na_list api namespace [(ClusterNameLabel, clusterName)] v = (u, Inr items)" "n \<in> set items" "ns_ip (bn_spec n) = ip" by blast
    from api l have n: "bn_namespace n = namespace" "map_of (bn_labels n) ClusterNameLabel = Some clusterName"
      "\<forall>m\<in>set (stored u). same_version m n \<longrightarrow> m = n" unfolding node_api_ok_def has_labels_def by fastforce+
    from api up obtain m rv where "m \<in> set (stored u)" "same_version m (upd_status f n)"
      "stored u' = put_status (upd_status f n) rv (stored u)" unfolding node_api_ok_def by blast
    then have "n \<in> set (stored u)" "stored u' = map (\<lambda>m. if node_key m = node_key n then with_status (f (bn_status n)) rv m else m) (stored u)"
      using n(3) by (auto simp: same_version_def node_key_def upd_status_def put_status_def)
    with f n l(3) show "?Q u'" by blast
  qed
  have "(None :: api_error option) = None \<longrightarrow> ?Q w'"
  proof (rule RetryOnConflict_induct [OF retry, where I = "\<lambda>_. True" and Q = "\<lambda>u r. r = None \<longrightarrow> ?Q u"])
    show "RetryOnConflict (na_retry api) ?fn w = (w', None)"
      using ok by (simp add: UpdateNodeStatusByIP_def client_retry_RetryOnConflict)
  qed (use step in auto)
  then show ?thesis by blast
qed

text \<open>A server with one node and a number of writers that each change the message after a read.\<close>

definition other_write :: "bke_node \<Rightarrow> bke_node" where
  "other_write n = with_status ((bn_status n)\<lparr>nst_message := ''other'' @ nst_message (bn_status n)\<rparr>) (CHR ''x'' # bn_resourceVersion n) n"

definition one_node_api :: "(bke_node \<times> nat) node_api" where
  "one_node_api = \<lparr>
     na_list = (\<lambda>ns sel (n, k). ((if k = 0 then n else other_write n, k - 1),
       Inr (if bn_namespace n = ns \<and> has_labels sel n then [n] else []))),
     na_updateStatus = (\<lambda>m (n, k). if same_version n m then ((with_status (bn_status m) (CHR ''w'' # bn_resourceVersion n) n, k), None)
       else ((n, k), Some ApiConflict)),
     na_delete = (\<lambda>m w. (w, None)), na_retry = demo_retry\<rparr>"

lemma one_node_api_ok: "node_api_ok one_node_api (\<lambda>(n, k). [n])"
  by (auto simp: node_api_ok_def one_node_api_def same_version_def other_write_def with_status_def put_status_def split: if_splits)

definition labelled_node :: bke_node where
  "labelled_node = (Bke_Nodes.sample_node ''10.0.0.1'')\<lparr>bn_labels := [(ClusterNameLabel, ''c'')]\<rparr>"

text \<open>With two other writers the update takes three attempts and keeps what they wrote.\<close>

theorem status_update_not_lost_witness:
  "(\<exists>v u n rv. fetch_NodeByIP one_node_api ''ns'' ''c'' ''10.0.0.1'' v = (u, Inr n) \<and>
      n \<in> set ((\<lambda>(n, k). [n]) u) \<and> bn_namespace n = ''ns'' \<and> map_of (bn_labels n) ClusterNameLabel = Some ''c'' \<and> ns_ip (bn_spec n) = ''10.0.0.1'' \<and>
      (\<lambda>(n, k). [n]) (fst (UpdateNodeStatusByIP one_node_api ''ns'' ''c'' ''10.0.0.1'' (\<lambda>s. s\<lparr>nst_needSkip := True\<rparr>) (labelled_node, 2))) =
        map (\<lambda>m. if node_key m = node_key n then with_status ((\<lambda>s. s\<lparr>nst_needSkip := True\<rparr>) (bn_status n)) rv m else m) ((\<lambda>(n, k). [n]) u)) \<and>
   nst_message (bn_status (fst (fst (UpdateNodeStatusByIP one_node_api ''ns'' ''c'' ''10.0.0.1'' (\<lambda>s. s\<lparr>nst_needSkip := True\<rparr>) (labelled_node, 2))))) = ''otherother''"
proof (intro conjI)
  let ?r = "UpdateNodeStatusByIP one_node_api ''ns'' ''c'' ''10.0.0.1'' (\<lambda>s. s\<lparr>nst_needSkip := True\<rparr>) (labelled_node, 2)"
  show "nst_message (bn_status (fst (fst ?r))) = ''otherother''" by code_simp
  have r: "?r = (fst ?r, None)"
  proof -
    have "snd ?r = None" by code_simp
    then show ?thesis by (metis prod.collapse)
  qed
  have "retry_loop_ok (na_retry one_node_api)" by (simp add: one_node_api_def)
  from status_update_not_lost [OF one_node_api_ok this r]
  show "\<exists>v u n rv. fetch_NodeByIP one_node_api ''ns'' ''c'' ''10.0.0.1'' v = (u, Inr n) \<and>
      n \<in> set ((\<lambda>(n, k). [n]) u) \<and> bn_namespace n = ''ns'' \<and> map_of (bn_labels n) ClusterNameLabel = Some ''c'' \<and> ns_ip (bn_spec n) = ''10.0.0.1'' \<and>
      (\<lambda>(n, k). [n]) (fst ?r) =
        map (\<lambda>m. if node_key m = node_key n then with_status ((\<lambda>s. s\<lparr>nst_needSkip := True\<rparr>) (bn_status n)) rv m else m) ((\<lambda>(n, k). [n]) u)" .
qed

text \<open>Every other writer of a status is an instance.\<close>

lemma status_writers:
  "UpdateBKENodeState api namespace clusterName ip state message =
     UpdateNodeStatusByIP api namespace clusterName ip (\<lambda>s. s\<lparr>nst_state := state, nst_message := message\<rparr>)"
  "SetNodeNeedSkip api namespace clusterName ip skip = UpdateNodeStatusByIP api namespace clusterName ip (\<lambda>s. s\<lparr>nst_needSkip := skip\<rparr>)"
  "fetcher_MarkNodeStateFlag api namespace clusterName ip flag =
     UpdateNodeStatusByIP api namespace clusterName ip (\<lambda>s. s\<lparr>nst_stateCode := nst_stateCode s OR flag\<rparr>)"
  "fetcher_UnmarkNodeStateFlag api namespace clusterName ip flag =
     UpdateNodeStatusByIP api namespace clusterName ip (\<lambda>s. s\<lparr>nst_stateCode := nst_stateCode s AND NOT flag\<rparr>)"
  "SetBKENodeStateMessage api namespace clusterName ip message = UpdateNodeStatusByIP api namespace clusterName ip (\<lambda>s. s\<lparr>nst_message := message\<rparr>)"
  by (simp_all add: UpdateBKENodeState_def SetNodeNeedSkip_def fetcher_MarkNodeStateFlag_def fetcher_UnmarkNodeStateFlag_def
      SetBKENodeStateMessage_def UpdateNodeStatusByIP_def)

text \<open>The comparison of the stored nodes with the desired ones gives what to add and what to remove:
  afterwards the addresses are the desired ones, and nothing is both added and removed.\<close>

theorem CompareNodes_correct:
  "CompareNodes api namespace clusterName desired w =
     (case GetNodes api namespace clusterName w of
        (w', Inl e) \<Rightarrow> (w', Inl e)
      | (w', Inr current) \<Rightarrow> (w', Inr (filter (\<lambda>d. ns_ip d \<notin> ns_ip ` set current) desired, filter (\<lambda>c. ns_ip c \<notin> ns_ip ` set desired) current))) \<and>
   (\<forall>current. (ns_ip ` set current - ns_ip ` set (filter (\<lambda>c. ns_ip c \<notin> ns_ip ` set desired) current)) \<union>
      ns_ip ` set (filter (\<lambda>d. ns_ip d \<notin> ns_ip ` set current) desired) = ns_ip ` set desired)"
proof -
  have mem: "(\<lambda>d. \<not> list_ex (\<lambda>c. ns_ip c = ns_ip d) xs) = (\<lambda>d. ns_ip d \<notin> ns_ip ` set xs)" for xs
    by (auto simp: fun_eq_iff list_ex_iff image_iff)
  have "(ns_ip ` set current - ns_ip ` set (filter (\<lambda>c. ns_ip c \<notin> ns_ip ` set desired) current)) \<union>
      ns_ip ` set (filter (\<lambda>d. ns_ip d \<notin> ns_ip ` set current) desired) = ns_ip ` set desired" for current
    by (auto simp: image_iff)
  then show ?thesis
    unfolding CompareNodes_def map_read_def mem by blast
qed

text \<open>The deletion of a node reports success when the nodes cannot be listed: the failure is taken for
  a node that is gone, and nothing is deleted.\<close>

theorem failed_list_deletes:
  assumes "na_list api namespace [(ClusterNameLabel, clusterName)] w = (w', Inl e)"
  shows "DeleteBKENode api namespace clusterName ip w = (w', None)"
  using assms by (simp add: DeleteBKENode_def fetch_NodeByIP_def GetBKENodes_list)

definition broken_api :: "bool node_api" where
  "broken_api = \<lparr>na_list = (\<lambda>ns sel w. (w, Inl ApiTimeout)), na_updateStatus = (\<lambda>n w. (w, None)), na_delete = (\<lambda>n w. (False, None)), na_retry = demo_retry\<rparr>"

theorem failed_list_deletes_witness: "DeleteBKENode broken_api ''ns'' ''c'' ''10.0.0.1'' True = (True, None)"
  by (rule failed_list_deletes) (simp add: broken_api_def)

end
