(* ===== verification/Json.thy ===== *)
theory Json
  imports Prelude
begin

text \<open>
  JSON values as Go's decoder makes them of unknown documents, what stands at a path in one, and the
  effect of a merge patch (RFC 7396) at a path. Objects are association lists; a value is only ever
  compared at a path, so that their order does not matter.
\<close>

datatype json = JNull | JBool bool | JNum string | JStr string | JArr "json list" | JObj "(string \<times> json) list"

datatype view = VObj | VLeaf json

fun is_obj :: "json \<Rightarrow> bool" where
  "is_obj (JObj _) = True"
| "is_obj _ = False"

fun members :: "json \<Rightarrow> (string \<times> json) list" where
  "members (JObj m) = m"
| "members _ = []"

definition view_of :: "json \<Rightarrow> view" where
  "view_of j = (if is_obj j then VObj else VLeaf j)"

fun json_view :: "json \<Rightarrow> string list \<Rightarrow> view option" where
  "json_view j [] = Some (view_of j)"
| "json_view j (k # q) = (case map_of (members j) k of None \<Rightarrow> None | Some v \<Rightarrow> json_view v q)"

text \<open>What stands at a path after a patch: a null removes, an object is merged member by member, and
  anything else replaces.\<close>

fun patched_view :: "json option \<Rightarrow> json \<Rightarrow> string list \<Rightarrow> view option" where
  "patched_view t p [] = (if p = JNull then None else Some (view_of p))"
| "patched_view t p (k # q) =
     (let below = (case t of None \<Rightarrow> None | Some j \<Rightarrow> map_of (members j) k) in
      if is_obj p
      then (case map_of (members p) k of
              None \<Rightarrow> (case below of None \<Rightarrow> None | Some v \<Rightarrow> json_view v q)
            | Some v \<Rightarrow> patched_view below v q)
      else None)"

definition opt_view :: "json option \<Rightarrow> string list \<Rightarrow> view option" where
  "opt_view t q = (case t of None \<Rightarrow> None | Some j \<Rightarrow> json_view j q)"

definition leaf_at :: "json \<Rightarrow> string list \<Rightarrow> json option" where
  "leaf_at j q = (case json_view j q of Some (VLeaf v) \<Rightarrow> Some v | _ \<Rightarrow> None)"

text \<open>A path at which the patch has no object leaves the document alone below it only if the patch does
  not reach it; the leaves of a patch are its members that are no objects.\<close>

fun patch_leaf :: "json \<Rightarrow> string list \<Rightarrow> bool" where
  "patch_leaf p [] = (\<not> is_obj p)"
| "patch_leaf p (k # q) = (case map_of (members p) k of None \<Rightarrow> False | Some v \<Rightarrow> patch_leaf v q)"

lemma members_not_obj [simp]: "\<not> is_obj j \<Longrightarrow> members j = []"
  by (cases j) simp_all

lemma is_obj_JObj: "is_obj j \<Longrightarrow> j = JObj (members j)"
  by (cases j) simp_all

lemma view_of_VObj [simp]: "view_of j = VObj \<longleftrightarrow> is_obj j"
  by (simp add: view_of_def)

text \<open>Where the patch has no leaf on the way to a path and none at or below it, nothing is a leaf there that was not one
  before, and every old leaf stays unless an object took its place.\<close>

lemma patched_view_unchanged:
  assumes "\<And>r. patch_leaf p r \<Longrightarrow> \<not> (\<exists>s. q = r @ s)"
  shows "patched_view t p q = opt_view t q \<or> patched_view t p q = Some VObj"
  using assms
proof (induction q arbitrary: t p)
  case Nil
  then show ?case using Nil [of "[]"] by (auto simp: view_of_def)
next
  case (Cons k q)
  have o: "is_obj p" using Cons.prems [of "[]"] by auto
  show ?case
  proof (cases "map_of (members p) k")
    case None
    with o show ?thesis by (simp add: opt_view_def Let_def split: option.splits)
  next
    case (Some v)
    have "patch_leaf v r \<Longrightarrow> \<not> (\<exists>s. q = r @ s)" for r
      using Cons.prems [of "k # r"] Some by auto
    from Cons.IH [of v "case t of None \<Rightarrow> None | Some j \<Rightarrow> map_of (members j) k", OF this] o Some show ?thesis
      by (auto simp: opt_view_def Let_def split: option.splits)
  qed
qed

end
