(* ===== verification/Node_Admission.thy ===== *)
theory Node_Admission
  imports Cluster_Validation Node_Fetcher Json
begin

text \<open>
  Admission of node objects and of upgrade paths: \<^verbatim>\<open>webhooks/capbke/bkenode.go\<close> and
  \<^verbatim>\<open>upgradepath.go\<close>. The decoder of the annotation with the last applied configuration is a
  parameter. The state of the admission is the list of stored nodes; a request is admitted or refused
  against it, and the API server itself refuses a second object of one name.

  The results: the stored password can be decrypted to the one given, once and for all; along every
  sequence of admitted requests the nodes of a cluster keep different addresses, valid specifications
  and, in the states that forbid it, their roles, as long as no request moves a node to another
  cluster; and a request that does can break it.
\<close>

section \<open>Definitions\<close>

text \<open>The errors of the API that the webhooks return; \<open>AdmissionPanic\<close> is a nil pointer that is followed.\<close>

datatype admission_error = BadRequest string | Forbidden string | Conflict string | InternalError api_error | Refused string
  | InvalidFields "(string \<times> string) list" | ApplyConflict "string list" | AdmissionPanic

text \<open>\<^verbatim>\<open>json.Unmarshal\<close> into a map and \<^verbatim>\<open>json.Marshal\<close>.\<close>

record json_lib =
  jl_parse :: "string \<Rightarrow> json option"
  jl_print :: "json \<Rightarrow> string option"

record secret_env =
  se_aes :: block_cipher
  se_key :: string
  se_random :: "string option"

(* src: webhooks/capbke/bkenode.go 91-105 encryptPasswordIfNeeded *)
definition encryptPasswordIfNeeded :: "secret_env \<Rightarrow> string \<Rightarrow> secret_error + string" where
  "encryptPasswordIfNeeded se password =
     (case AesDecrypt (se_aes se) (se_key se) password of
        Inr _ \<Rightarrow> Inr password
      | Inl _ \<Rightarrow> AesEncrypt (se_aes se) (se_key se) (se_random se) password)"

definition lastAppliedKey :: string where
  "lastAppliedKey = ''kubectl.kubernetes.io/last-applied-configuration''"

(* src: webhooks/capbke/bkenode.go 110-142 sanitizeLastAppliedPassword *)
definition sanitizeLastAppliedPassword :: "json_lib \<Rightarrow> bke_node \<Rightarrow> string \<Rightarrow> bke_node" where
  "sanitizeLastAppliedPassword jl n encrypted =
     (case map_of (bn_annotations n) lastAppliedKey of
        None \<Rightarrow> n
      | Some lastApplied \<Rightarrow>
          (case jl_parse jl lastApplied of
             Some (JObj applied) \<Rightarrow>
               (case map_of applied ''spec'' of
                  Some (JObj spec) \<Rightarrow>
                    if map_of spec ''password'' = None then n
                    else (case jl_print jl (JObj (AList.update ''spec'' (JObj (AList.update ''password'' (JStr encrypted) spec)) applied)) of
                            None \<Rightarrow> n
                          | Some updated \<Rightarrow> n\<lparr>bn_annotations := AList.update lastAppliedKey updated (bn_annotations n)\<rparr>)
                | _ \<Rightarrow> n)
           | _ \<Rightarrow> n))"

definition upd_spec :: "(node_spec \<Rightarrow> node_spec) \<Rightarrow> bke_node \<Rightarrow> bke_node" where
  "upd_spec g n = n\<lparr>bn_spec := g (bn_spec n)\<rparr>"

(* src: webhooks/capbke/bkenode.go 63-88 BKENode.Default *)
definition node_Default :: "json_lib \<Rightarrow> secret_env \<Rightarrow> bke_node \<Rightarrow> bke_node" where
  "node_Default jl se n0 =
     (let n = (if ns_port (bn_spec n0) = [] then upd_spec (\<lambda>s. s\<lparr>ns_port := ''22''\<rparr>) n0 else n0)
      in if ns_password (bn_spec n) \<noteq> []
         then (case encryptPasswordIfNeeded se (ns_password (bn_spec n)) of
                 Inl _ \<Rightarrow> n
               | Inr e \<Rightarrow> sanitizeLastAppliedPassword jl (upd_spec (\<lambda>s. s\<lparr>ns_password := e\<rparr>) n) e)
         else n)"

(* src: webhooks/capbke/bkenode.go 219-226 BKENode.validateBKENodeSpec *)
definition validateBKENodeSpec :: "bke_node \<Rightarrow> admission_error option" where
  "validateBKENodeSpec n = map_option (\<lambda>e. BadRequest (''invalid BKENode spec: '' @ e)) (ValidateSingleNode (ToNode n))"

(* src: webhooks/capbke/bkenode.go 229-259 BKENode.validateNodeIPUnique *)
definition validateNodeIPUnique :: "'w node_api \<Rightarrow> bke_node \<Rightarrow> 'w \<Rightarrow> 'w \<times> admission_error option" where
  "validateNodeIPUnique api n w =
     (let clusterName = get_or [] (bn_labels n) ClusterNameLabel in
      if clusterName = [] then (w, Some (BadRequest ''BKENode must have cluster.x-k8s.io/cluster-name label''))
      else case na_list api (bn_namespace n) [(ClusterNameLabel, clusterName)] w of
             (w', Inl e) \<Rightarrow> (w', Some (InternalError e))
           | (w', Inr items) \<Rightarrow>
               if list_ex (\<lambda>m. bn_name m \<noteq> bn_name n \<and> ns_ip (bn_spec m) = ns_ip (bn_spec n)) items
               then (w', Some (Conflict (''node with IP '' @ ns_ip (bn_spec n) @ '' already exists in cluster '' @ clusterName)))
               else (w', None))"

(* src: api/bkecommon/v1beta1/bkenode_types.go 38-38 NodePending *)
definition NodePending :: string where
  "NodePending = ''Pending''"

(* src: api/bkecommon/v1beta1/bkenode_types.go 41-41 NodeUpgrading *)
definition NodeUpgrading :: string where
  "NodeUpgrading = ''Upgrading''"

(* src: webhooks/capbke/bkenode.go 262-275 BKENode.validateNodeStateTransition *)
definition validateNodeStateTransition :: "bke_node \<Rightarrow> bke_node \<Rightarrow> admission_error option" where
  "validateNodeStateTransition old new =
     (if (nst_state (bn_status old) = NodePending \<or> nst_state (bn_status old) = NodeUpgrading) \<and> ns_role (bn_spec old) \<noteq> ns_role (bn_spec new)
      then Some (Forbidden ''cannot change node role while node is in pending or upgrading state'') else None)"

(* src: webhooks/capbke/bkenode.go 278-298 BKENode.validateNodeDeletable *)
definition validateNodeDeletable :: "bke_node \<Rightarrow> admission_error option" where
  "validateNodeDeletable n =
     (if nst_state (bn_status n) = NodePending then Some (Forbidden ''cannot delete node while in pending state'')
      else if nst_state (bn_status n) = NodeUpgrading then Some (Forbidden ''cannot delete node while upgrading'')
      else None)"

(* src: webhooks/capbke/bkenode.go 145-164 BKENode.ValidateCreate *)
definition node_ValidateCreate :: "'w node_api \<Rightarrow> bke_node \<Rightarrow> 'w \<Rightarrow> 'w \<times> admission_error option" where
  "node_ValidateCreate api n w = (case validateBKENodeSpec n of Some e \<Rightarrow> (w, Some e) | None \<Rightarrow> validateNodeIPUnique api n w)"

(* src: webhooks/capbke/bkenode.go 167-199 BKENode.ValidateUpdate *)
definition node_ValidateUpdate :: "bke_node \<Rightarrow> bke_node \<Rightarrow> admission_error option" where
  "node_ValidateUpdate old new =
     (case validateBKENodeSpec new of
        Some e \<Rightarrow> Some e
      | None \<Rightarrow> if ns_ip (bn_spec old) \<noteq> ns_ip (bn_spec new) then Some (Forbidden ''BKENode IP cannot be changed after creation'')
                else validateNodeStateTransition old new)"

(* src: webhooks/capbke/bkenode.go 202-216 BKENode.ValidateDelete *)
definition node_ValidateDelete :: "bke_node \<Rightarrow> admission_error option" where
  "node_ValidateDelete n = validateNodeDeletable n"

text \<open>The webhook of upgrade paths lists them, by the uncached reader when there is one.\<close>

(* src: webhooks/capbke/upgradepath.go 45-50 UpgradePath.getReader *)
definition path_getReader :: "'r option \<Rightarrow> 'r \<Rightarrow> 'r" where
  "path_getReader apiReader client = (case apiReader of None \<Rightarrow> client | Some r \<Rightarrow> r)"

(* src: webhooks/capbke/upgradepath.go 52-61 UpgradePath.ValidateCreate *)
definition path_ValidateCreate :: "(api_error + string list) option \<Rightarrow> api_error + string list \<Rightarrow> admission_error option" where
  "path_ValidateCreate apiReader client =
     (case path_getReader apiReader client of
        Inl e \<Rightarrow> Some (InternalError e)
      | Inr [] \<Rightarrow> None
      | Inr (name # _) \<Rightarrow> Some (Refused (''only one UpgradePath CR is allowed per cluster, existing: '' @ name)))"

section \<open>Stored passwords\<close>

definition sanitized :: "string \<Rightarrow> (string \<times> json) list \<Rightarrow> (string \<times> json) list \<Rightarrow> json" where
  "sanitized e spec applied = JObj (AList.update ''spec'' (JObj (AList.update ''password'' (JStr e) spec)) applied)"

text \<open>What is printed is read back, for the document in the annotation of the node.\<close>

definition json_lib_ok :: "json_lib \<Rightarrow> string \<Rightarrow> bke_node \<Rightarrow> bool" where
  "json_lib_ok jl e n \<longleftrightarrow>
     (\<forall>s applied spec. map_of (bn_annotations n) lastAppliedKey = Some s \<and> jl_parse jl s = Some (JObj applied) \<and>
        map_of applied ''spec'' = Some (JObj spec) \<longrightarrow>
        (\<exists>u. jl_print jl (sanitized e spec applied) = Some u \<and> jl_parse jl u = Some (sanitized e spec applied)))"

lemma sanitize_spec [simp]: "bn_spec (sanitizeLastAppliedPassword jl n e) = bn_spec n"
  by (simp add: sanitizeLastAppliedPassword_def split: option.splits json.splits)

lemma update_same: "map_of m k = Some v \<Longrightarrow> AList.update k v m = m"
  by (induction m) (auto split: if_splits)

text \<open>What the sanitised annotation holds: nothing of a password, or the encrypted one.\<close>

definition clean_annotation :: "json_lib \<Rightarrow> string \<Rightarrow> bke_node \<Rightarrow> bool" where
  "clean_annotation jl e n \<longleftrightarrow>
     (\<forall>s j. map_of (bn_annotations n) lastAppliedKey = Some s \<longrightarrow> jl_parse jl s = Some j \<longrightarrow>
        json_view j [''spec'', ''password''] \<in> {None, Some (VLeaf (JStr e))})"

lemma sanitize_cases:
  assumes "json_lib_ok jl e n"
  shows "sanitizeLastAppliedPassword jl n e = n \<and> clean_annotation jl e n \<or>
    (\<exists>applied spec updated. jl_parse jl updated = Some (sanitized e spec applied) \<and> jl_print jl (sanitized e spec applied) = Some updated \<and>
       sanitizeLastAppliedPassword jl n e = n\<lparr>bn_annotations := AList.update lastAppliedKey updated (bn_annotations n)\<rparr>)"
proof (cases "\<exists>s applied spec. map_of (bn_annotations n) lastAppliedKey = Some s \<and> jl_parse jl s = Some (JObj applied) \<and>
    map_of applied ''spec'' = Some (JObj spec) \<and> map_of spec ''password'' \<noteq> None")
  case True
  then obtain s applied spec where *: "map_of (bn_annotations n) lastAppliedKey = Some s" "jl_parse jl s = Some (JObj applied)"
    "map_of applied ''spec'' = Some (JObj spec)" "map_of spec ''password'' \<noteq> None" by blast
  obtain updated where "jl_print jl (sanitized e spec applied) = Some updated" "jl_parse jl updated = Some (sanitized e spec applied)"
    using assms * unfolding json_lib_ok_def by blast
  with * show ?thesis by (auto simp: sanitizeLastAppliedPassword_def sanitized_def)
next
  case False
  have "sanitizeLastAppliedPassword jl n e = n"
    using False by (auto simp: sanitizeLastAppliedPassword_def split: option.splits json.splits)
  moreover have "json_view j [''spec'', ''password''] = None"
    if "map_of (bn_annotations n) lastAppliedKey = Some s" "jl_parse jl s = Some j" for s j
  proof (rule ccontr)
    assume "json_view j [''spec'', ''password''] \<noteq> None"
    then obtain sp v where "map_of (members j) ''spec'' = Some sp" "map_of (members sp) ''password'' = Some v"
      by (auto split: option.splits)
    then have "j = JObj (members j)" "sp = JObj (members sp)" using is_obj_JObj members_not_obj by force+
    with False that \<open>map_of (members j) ''spec'' = Some sp\<close> \<open>map_of (members sp) ''password'' = Some v\<close> show False by (metis option.distinct(1))
  qed
  ultimately show ?thesis by (auto simp: clean_annotation_def)
qed

lemma sanitized_view: "json_view (sanitized e spec applied) [''spec'', ''password''] = Some (VLeaf (JStr e))"
  by (simp add: sanitized_def view_of_def)

lemma sanitize_clean:
  assumes "json_lib_ok jl e n"
  shows "clean_annotation jl e (sanitizeLastAppliedPassword jl n e)"
    "sanitizeLastAppliedPassword jl (sanitizeLastAppliedPassword jl n e) e = sanitizeLastAppliedPassword jl n e"
proof -
  consider "sanitizeLastAppliedPassword jl n e = n" "clean_annotation jl e n"
    | applied spec updated where "jl_parse jl updated = Some (sanitized e spec applied)" "jl_print jl (sanitized e spec applied) = Some updated"
      "sanitizeLastAppliedPassword jl n e = n\<lparr>bn_annotations := AList.update lastAppliedKey updated (bn_annotations n)\<rparr>"
    using sanitize_cases [OF assms] by blast
  then have "clean_annotation jl e (sanitizeLastAppliedPassword jl n e) \<and>
    sanitizeLastAppliedPassword jl (sanitizeLastAppliedPassword jl n e) e = sanitizeLastAppliedPassword jl n e"
  proof cases
    case 2
    then have "clean_annotation jl e (sanitizeLastAppliedPassword jl n e)"
      by (simp add: clean_annotation_def sanitized_view del: json_view.simps)
    moreover have "sanitized e (AList.update ''password'' (JStr e) spec) (AList.update ''spec'' (JObj (AList.update ''password'' (JStr e) spec)) applied) =
        sanitized e spec applied" by (simp add: sanitized_def update_same)
    with 2 have "sanitizeLastAppliedPassword jl (sanitizeLastAppliedPassword jl n e) e = sanitizeLastAppliedPassword jl n e"
      by (simp add: sanitizeLastAppliedPassword_def [of jl "n\<lparr>bn_annotations := AList.update lastAppliedKey updated (bn_annotations n)\<rparr>"] sanitized_def update_same)
    ultimately show ?thesis ..
  qed simp
  then show "clean_annotation jl e (sanitizeLastAppliedPassword jl n e)"
    "sanitizeLastAppliedPassword jl (sanitizeLastAppliedPassword jl n e) e = sanitizeLastAppliedPassword jl n e" by simp_all
qed

lemma upd_spec_simps [simp]: "bn_spec (upd_spec g n) = g (bn_spec n)" "bn_annotations (upd_spec g n) = bn_annotations n"
  by (simp_all add: upd_spec_def)

lemma sanitize_upd_spec: "(bn_spec n)\<lparr>ns_password := e\<rparr> = bn_spec n \<Longrightarrow> upd_spec (\<lambda>s. s\<lparr>ns_password := e\<rparr>) n = n"
  by (simp add: upd_spec_def)

text \<open>A password that is given in clear text is stored encrypted: the stored one decrypts to it, the
  annotation with the last applied configuration holds at most the encrypted one, and admitting the
  stored node again, with whatever random numbers, changes nothing.\<close>

theorem node_password_stored:
  assumes cipher: "cipher_ok (se_aes se)" and jl: "json_lib_ok jl c n" and iv: "case se_random se of None \<Rightarrow> True | Some iv \<Rightarrow> length iv = 16"
    and clear: "ns_password (bn_spec n) \<noteq> []" "AesDecrypt (se_aes se) (se_key se) (ns_password (bn_spec n)) = Inl err"
    and enc: "AesEncrypt (se_aes se) (se_key se) (se_random se) (ns_password (bn_spec n)) = Inr c" "c \<noteq> []"
  shows "AesDecrypt (se_aes se) (se_key se) (ns_password (bn_spec (node_Default jl se n))) = Inr (ns_password (bn_spec n)) \<and>
    clean_annotation jl c (node_Default jl se n) \<and>
    node_Default jl (se\<lparr>se_random := rnd\<rparr>) (node_Default jl se n) = node_Default jl se n"
proof -
  let ?n = "if ns_port (bn_spec n) = [] then upd_spec (\<lambda>s. s\<lparr>ns_port := ''22''\<rparr>) n else n"
  let ?m = "sanitizeLastAppliedPassword jl (upd_spec (\<lambda>s. s\<lparr>ns_password := c\<rparr>) ?n) c"
  have d: "node_Default jl se n = ?m"
    using clear enc by (simp add: node_Default_def encryptPasswordIfNeeded_def Let_def)
  have m: "bn_spec ?m = (bn_spec ?n)\<lparr>ns_password := c\<rparr>" by simp
  have dec: "AesDecrypt (se_aes se) (se_key se) c = Inr (ns_password (bn_spec n))"
    using decrypt_encrypt [OF cipher iv enc(1)] .
  have port: "ns_port (bn_spec ?m) \<noteq> []" by (auto simp: m)
  have "node_Default jl (se\<lparr>se_random := rnd\<rparr>) ?m = sanitizeLastAppliedPassword jl ?m c"
    using port enc(2) dec m by (simp add: node_Default_def encryptPasswordIfNeeded_def Let_def sanitize_upd_spec)
  moreover have "json_lib_ok jl c (upd_spec (\<lambda>s. s\<lparr>ns_password := c\<rparr>) ?n)" using jl by (simp add: json_lib_ok_def)
  ultimately show ?thesis
    using d dec m sanitize_clean by simp
qed

definition secret_node :: bke_node where
  "secret_node = upd_spec (\<lambda>s. s\<lparr>ns_password := ''secret'', ns_port := []\<rparr>)
     (labelled_node\<lparr>bn_annotations := [(lastAppliedKey, ''applied'')]\<rparr>)"

definition demo_secrets :: secret_env where
  "demo_secrets = \<lparr>se_aes = toy_cipher, se_key = demo_key, se_random = Some (replicate 16 CHR ''i'')\<rparr>"

text \<open>A decoder that knows two documents.\<close>

definition two_docs :: "string \<Rightarrow> json_lib" where
  "two_docs e =
     (let doc = (\<lambda>p. JObj [(''spec'', JObj [(''password'', JStr p)])])
      in \<lparr>jl_parse = (\<lambda>s. if s = ''applied'' then Some (doc ''secret'') else if s = ''clean'' then Some (doc e) else None),
          jl_print = (\<lambda>j. if j = doc e then Some ''clean'' else None)\<rparr>)"

lemma two_docs_ok: "json_lib_ok (two_docs e) e secret_node"
  by (auto simp: json_lib_ok_def two_docs_def secret_node_def labelled_node_def sanitized_def Let_def)

theorem node_password_stored_witness:
  "\<exists>c. AesEncrypt toy_cipher demo_key (Some (replicate 16 CHR ''i'')) ''secret'' = Inr c \<and>
     AesDecrypt toy_cipher demo_key (ns_password (bn_spec (node_Default (two_docs c) demo_secrets secret_node))) = Inr ''secret'' \<and>
     clean_annotation (two_docs c) c (node_Default (two_docs c) demo_secrets secret_node)"
proof -
  have p: "ns_password (bn_spec secret_node) = ''secret''" by (simp add: secret_node_def)
  have "case AesEncrypt toy_cipher demo_key (Some (replicate 16 CHR ''i'')) ''secret'' of Inl _ \<Rightarrow> False | Inr c \<Rightarrow> c \<noteq> []" by code_simp
  then obtain c where c: "AesEncrypt toy_cipher demo_key (Some (replicate 16 CHR ''i'')) ''secret'' = Inr c" "c \<noteq> []" by (auto split: sum.splits)
  have "AesDecrypt toy_cipher demo_key ''secret'' = Inl BadBase64" by code_simp
  with c node_password_stored [of demo_secrets "two_docs c" c secret_node BadBase64 None] p toy_cipher_ok two_docs_ok
  show ?thesis by (auto simp: demo_secrets_def)
qed

text \<open>Without a key of one's own nothing is encrypted: the password is stored as it was given.\<close>

theorem password_without_key:
  assumes "AesDecrypt (se_aes se) [] (ns_password (bn_spec n)) = Inl err" "se_key se = []"
  shows "ns_password (bn_spec (node_Default jl se n)) = ns_password (bn_spec n) \<and> bn_annotations (node_Default jl se n) = bn_annotations n"
  using assms by (auto simp: node_Default_def encryptPasswordIfNeeded_def AesEncrypt_def loadKey_def isLegacyKey_def Let_def)

theorem password_without_key_witness:
  "ns_password (bn_spec (node_Default (two_docs []) (demo_secrets\<lparr>se_key := []\<rparr>) secret_node)) = ''secret''"
proof -
  have "AesDecrypt toy_cipher [] ''secret'' = Inl BadBase64" by code_simp
  then show ?thesis
    using password_without_key [of "demo_secrets\<lparr>se_key := []\<rparr>" secret_node BadBase64 "two_docs []"]
    by (simp add: demo_secrets_def secret_node_def)
qed

section \<open>Histories of admitted requests\<close>

text \<open>The API server as the webhook sees it: it lists what is stored.\<close>

definition store_api :: "bke_node list node_api" where
  "store_api = \<lparr>na_list = (\<lambda>ns sel w. (w, Inr (filter (\<lambda>n. bn_namespace n = ns \<and> has_labels sel n) w))),
     na_updateStatus = (\<lambda>n w. (w, None)), na_delete = (\<lambda>n w. (w, None)), na_retry = demo_retry\<rparr>"

definition cluster_of :: "bke_node \<Rightarrow> string \<times> string" where
  "cluster_of n = (bn_namespace n, get_or [] (bn_labels n) ClusterNameLabel)"

definition put_node :: "bke_node \<Rightarrow> bke_node list \<Rightarrow> bke_node list" where
  "put_node n ns = map (\<lambda>m. if node_key m = node_key n then n else m) ns"

text \<open>A request to create, update or delete a node that is admitted, or a write of a status, which the
  webhook does not see. An update of the object keeps the stored status. The first argument says
  whether an update may move a node to another cluster.\<close>

inductive node_step :: "bool \<Rightarrow> bke_node list \<Rightarrow> bke_node list \<Rightarrow> bool" for relabel where
  create: "node_ValidateCreate store_api n ns = (ns, None) \<Longrightarrow> node_key n \<notin> node_key ` set ns \<Longrightarrow> node_step relabel ns (ns @ [n])"
| update: "m \<in> set ns \<Longrightarrow> node_key n = node_key m \<Longrightarrow> bn_status n = bn_status m \<Longrightarrow> node_ValidateUpdate m n = None \<Longrightarrow>
    relabel \<or> cluster_of n = cluster_of m \<Longrightarrow> node_step relabel ns (put_node n ns)"
| status: "m \<in> set ns \<Longrightarrow> node_step relabel ns (put_node (m\<lparr>bn_status := s\<rparr>) ns)"
| delete: "m \<in> set ns \<Longrightarrow> node_ValidateDelete m = None \<Longrightarrow> node_step relabel ns (filter (\<lambda>n. node_key n \<noteq> node_key m) ns)"

inductive_cases node_stepE: "node_step relabel ns ns'"

definition node_inv :: "bke_node list \<Rightarrow> bool" where
  "node_inv ns \<longleftrightarrow> distinct (map node_key ns) \<and> (\<forall>n\<in>set ns. node_ok (ToNode n) \<and> snd (cluster_of n) \<noteq> []) \<and>
     (\<forall>m\<in>set ns. \<forall>n\<in>set ns. cluster_of m = cluster_of n \<and> ns_ip (bn_spec m) = ns_ip (bn_spec n) \<longrightarrow> m = n)"

lemma node_key_unique: "distinct (map node_key ns) \<Longrightarrow> m \<in> set ns \<Longrightarrow> n \<in> set ns \<Longrightarrow> node_key m = node_key n \<Longrightarrow> m = n"
  by (auto simp: distinct_map dest: inj_onD)

lemma put_node_keys: "map node_key (put_node n ns) = map node_key ns"
  by (simp add: put_node_def)

text \<open>Replacing a node by one of the same cluster and address keeps the invariant.\<close>

lemma put_node_inv:
  assumes "node_inv ns" "m \<in> set ns" "node_key n = node_key m" "cluster_of n = cluster_of m"
    "ns_ip (bn_spec n) = ns_ip (bn_spec m)" "node_ok (ToNode n)"
  shows "node_inv (put_node n ns)"
proof -
  have orig: "\<exists>y\<in>set ns. cluster_of y = cluster_of x \<and> ns_ip (bn_spec y) = ns_ip (bn_spec x) \<and> (x = n \<and> y = m \<or> x = y \<and> y \<noteq> m)"
    if "x \<in> set (put_node n ns)" for x
  proof -
    from that obtain y where y: "y \<in> set ns" "x = (if node_key y = node_key n then n else y)" by (auto simp: put_node_def)
    show ?thesis
    proof (cases "y = m")
      case True
      with y assms show ?thesis by auto
    next
      case False
      then have "node_key y \<noteq> node_key n" using node_key_unique [of ns y m] assms y(1) by (auto simp: node_inv_def)
      with False y show ?thesis by auto
    qed
  qed
  have "distinct (map node_key (put_node n ns))" using assms(1) by (simp add: put_node_keys node_inv_def)
  moreover have "node_ok (ToNode x) \<and> snd (cluster_of x) \<noteq> []" if "x \<in> set (put_node n ns)" for x
    using orig [OF that] assms by (auto simp: node_inv_def)
  moreover have "x = x'" if "x \<in> set (put_node n ns)" "x' \<in> set (put_node n ns)" "cluster_of x = cluster_of x' \<and> ns_ip (bn_spec x) = ns_ip (bn_spec x')" for x x'
    using orig [OF that(1)] orig [OF that(2)] that(3) assms(1) unfolding node_inv_def by metis
  ultimately show ?thesis unfolding node_inv_def by blast
qed

lemma create_checks:
  assumes "node_ValidateCreate store_api n ns = (ns, None)"
  shows "node_ok (ToNode n)" "snd (cluster_of n) \<noteq> []"
    "\<And>m. m \<in> set ns \<Longrightarrow> cluster_of m = cluster_of n \<Longrightarrow> ns_ip (bn_spec m) = ns_ip (bn_spec n) \<Longrightarrow> bn_name m = bn_name n"
proof -
  show "node_ok (ToNode n)" "snd (cluster_of n) \<noteq> []"
    using assms by (auto simp: node_ValidateCreate_def validateBKENodeSpec_def validateNodeIPUnique_def cluster_of_def Let_def single_node
      split: option.splits if_splits)
  fix m assume m: "m \<in> set ns" "cluster_of m = cluster_of n" "ns_ip (bn_spec m) = ns_ip (bn_spec n)"
  have "get_or [] (bn_labels n) ClusterNameLabel \<noteq> []" using \<open>snd (cluster_of n) \<noteq> []\<close> by (simp add: cluster_of_def)
  moreover have "has_labels [(ClusterNameLabel, get_or [] (bn_labels n) ClusterNameLabel)] m"
    using m(2) calculation by (auto simp: has_labels_def cluster_of_def get_or_def split: option.splits)
  ultimately show "bn_name m = bn_name n"
    using assms m by (auto simp: node_ValidateCreate_def validateNodeIPUnique_def store_api_def Let_def cluster_of_def list_ex_iff
      split: option.splits if_splits)
qed

lemma node_step_inv: "node_step False ns ns' \<Longrightarrow> node_inv ns \<Longrightarrow> node_inv ns'"
proof (induction rule: node_step.induct)
  case (create n ns)
  have new: "m = n" if "m \<in> set (ns @ [n])" "cluster_of m = cluster_of n" "ns_ip (bn_spec m) = ns_ip (bn_spec n)" for m
  proof (rule ccontr)
    assume "m \<noteq> n"
    with that(1) have "m \<in> set ns" by auto
    with create_checks(3) [OF create.hyps(1) this that(2,3)] that(2) create.hyps(2) show False
      by (auto simp: node_key_def cluster_of_def image_iff)
  qed
  have old: "m = m'" if "m \<in> set ns" "m' \<in> set ns" "cluster_of m = cluster_of m'" "ns_ip (bn_spec m) = ns_ip (bn_spec m')" for m m'
    using create.prems that by (simp add: node_inv_def)
  have "m = m'" if "m \<in> set (ns @ [n])" "m' \<in> set (ns @ [n])" "cluster_of m = cluster_of m'" "ns_ip (bn_spec m) = ns_ip (bn_spec m')" for m m'
    using that new [of m] new [of m'] old [of m m'] by auto
  moreover have "distinct (map node_key (ns @ [n]))" using create.prems create.hyps(2) by (simp add: node_inv_def)
  moreover have "\<forall>m\<in>set (ns @ [n]). node_ok (ToNode m) \<and> snd (cluster_of m) \<noteq> []"
    using create.prems create_checks(1,2) [OF create.hyps(1)] by (simp add: node_inv_def)
  ultimately show ?case unfolding node_inv_def by blast
next
  case (update m ns n)
  then show ?case
    by (intro put_node_inv [of ns m n]) (auto simp: node_ValidateUpdate_def validateBKENodeSpec_def single_node split: option.splits if_splits)
next
  case (status m ns s)
  have "cluster_of (m\<lparr>bn_status := s\<rparr>) = cluster_of m" "node_key (m\<lparr>bn_status := s\<rparr>) = node_key m" "ToNode (m\<lparr>bn_status := s\<rparr>) = ToNode m"
    by (simp_all add: cluster_of_def node_key_def ToNode_def)
  with status show ?case by (intro put_node_inv [of ns m]) (auto simp: node_inv_def)
next
  case (delete m ns)
  then show ?case by (auto simp: node_inv_def distinct_map_filter)
qed

lemma has_labels_cluster: "snd (cluster_of n) \<noteq> [] \<Longrightarrow> c \<noteq> [] \<Longrightarrow> bn_namespace n = ns \<and> has_labels [(ClusterNameLabel, c)] n \<longleftrightarrow> cluster_of n = (ns, c)"
  by (auto simp: has_labels_def cluster_of_def get_or_def split: option.splits)


definition valid_node :: "string \<Rightarrow> string \<Rightarrow> string \<Rightarrow> bke_node" where
  "valid_node cluster name ip = labelled_node\<lparr>bn_name := name, bn_labels := [(ClusterNameLabel, cluster)], bn_spec := plain_node ip [''master'']\<rparr>"

lemma create_valid: "node_ValidateCreate store_api (valid_node ''c'' ''m1'' ''10.0.0.1'') [] = ([], None)"
  "node_ValidateCreate store_api (valid_node ''c'' ''m2'' ''10.0.0.2'') [valid_node ''c'' ''m1'' ''10.0.0.1''] = ([valid_node ''c'' ''m1'' ''10.0.0.1''], None)"
  "node_ValidateCreate store_api (valid_node ''d'' ''m2'' ''10.0.0.1'') [valid_node ''c'' ''m1'' ''10.0.0.1''] = ([valid_node ''c'' ''m1'' ''10.0.0.1''], None)"
  by code_simp+

lemma first_create: "node_step relabel [] [valid_node ''c'' ''m1'' ''10.0.0.1'']"
  using node_step.create [OF create_valid(1)] by simp


text \<open>An update that changes the label of the cluster is admitted without a look at the nodes of the
  new cluster: two nodes of one cluster then share an address.\<close>

theorem relabelled_node_duplicates:
  "(node_step True)\<^sup>*\<^sup>* [] [valid_node ''c'' ''m1'' ''10.0.0.1'', valid_node ''c'' ''m2'' ''10.0.0.1''] \<and>
   \<not> node_inv [valid_node ''c'' ''m1'' ''10.0.0.1'', valid_node ''c'' ''m2'' ''10.0.0.1'']"
proof
  let ?a = "valid_node ''c'' ''m1'' ''10.0.0.1''" and ?b = "valid_node ''d'' ''m2'' ''10.0.0.1''" and ?b' = "valid_node ''c'' ''m2'' ''10.0.0.1''"
  have s2: "node_step True [?a] [?a, ?b]"
    using node_step.create [OF create_valid(3)] by (simp add: node_key_def valid_node_def)
  have "node_step True [?a, ?b] (put_node ?b' [?a, ?b])"
  proof (rule node_step.update)
    show "node_ValidateUpdate ?b ?b' = None" by code_simp
  qed (simp_all add: node_key_def valid_node_def)
  moreover have "put_node ?b' [?a, ?b] = [?a, ?b']" by (simp add: put_node_def node_key_def valid_node_def)
  ultimately have "node_step True [?a, ?b] [?a, ?b']" by simp
  with s2 first_create [of True] show "(node_step True)\<^sup>*\<^sup>* [] [?a, ?b']" by (meson r_into_rtranclp rtranclp.rtrancl_into_rtrancl)
  have "bn_name ?a \<noteq> bn_name ?b'" by (simp add: valid_node_def)
  then have "?a \<noteq> ?b'" by auto
  moreover have "cluster_of ?a = cluster_of ?b'" "ns_ip (bn_spec ?a) = ns_ip (bn_spec ?b')"
    by (simp_all add: valid_node_def cluster_of_def plain_node_def)
  ultimately show "\<not> node_inv [?a, ?b']" unfolding node_inv_def by auto
qed

text \<open>What a request on a node that is being worked on may do: its address never changes, its roles do not
  while it is pending or upgrading, and it is not deleted then.\<close>

theorem busy_node_protected:
  "(node_ValidateUpdate old new = None \<longrightarrow> ns_ip (bn_spec new) = ns_ip (bn_spec old) \<and>
      (nst_state (bn_status old) \<in> {''Pending'', ''Upgrading''} \<longrightarrow> ns_role (bn_spec new) = ns_role (bn_spec old))) \<and>
   (node_ValidateDelete old = None \<longleftrightarrow> nst_state (bn_status old) \<notin> {''Pending'', ''Upgrading''})"
  by (auto simp: node_ValidateUpdate_def validateNodeStateTransition_def node_ValidateDelete_def validateNodeDeletable_def
      NodePending_def NodeUpgrading_def split: option.splits if_splits)

theorem busy_node_protected_witness:
  "node_ValidateDelete (labelled_node\<lparr>bn_status := (bn_status labelled_node)\<lparr>nst_state := ''Upgrading''\<rparr>\<rparr>) \<noteq> None"
  using busy_node_protected [of "labelled_node\<lparr>bn_status := (bn_status labelled_node)\<lparr>nst_state := ''Upgrading''\<rparr>\<rparr>"] by simp

end
