(* ===== verification/Admission_Defaults.thy ===== *)
theory Admission_Defaults
  imports Node_Admission Cluster_Kinds
begin

text \<open>
  The defaulting webhook of clusters: the method \<^verbatim>\<open>Default\<close> of \<^verbatim>\<open>webhooks/capbke/bkecluster.go\<close> with
  the defaults it takes from a configuration map, and \<^verbatim>\<open>utils/capbke/clusterutil/util.go\<close>. The code
  collects changes while it looks at the object as it came and applies them at the end; so does the
  model. The random source is a parameter. A write into the nil parameters of an add-on is a panic, and
  drawing a router id again may never end.

  The results: what the endpoint of a cluster becomes; that the two router ids drawn together differ,
  and that drawing ends; that a parameter of a user is never overwritten; and a panic.
\<close>

section \<open>Shared pieces\<close>

text \<open>\<^verbatim>\<open>strings.ReplaceAll\<close> with a text to replace that is not empty.\<close>

function ReplaceAll :: "string \<Rightarrow> string \<Rightarrow> string \<Rightarrow> string" where
  "ReplaceAll s old new =
     (if s = [] \<or> old = [] then s
      else if take (length old) s = old then new @ ReplaceAll (drop (length old) s) old new
      else hd s # ReplaceAll (tl s) old new)"
  by pat_completeness auto

termination ReplaceAll
  by (relation "measure (\<lambda>(s, old, new). length s)") (auto simp: neq_Nil_conv)

declare ReplaceAll.simps [simp del]

text \<open>The outcome of the webhook.\<close>

datatype 'a webhook_run = Defaulted 'a | Panics | Hangs

record 'w webhook_env =
  we_manifest :: version_manifest
  we_fetcher :: "'w node_api option"
  we_apiReader :: "'w node_api option"
  we_client :: "'w node_api"
  we_configMap :: "'w \<Rightarrow> 'w \<times> (api_error + string gomap option)"
  we_random :: "nat \<Rightarrow> int \<Rightarrow> int"

section \<open>util.go\<close>

(* src: utils/capbke/clusterutil/util.go 32-40 AvailableLoadBalancerEndPoint *)
definition AvailableLoadBalancerEndPoint :: "api_endpoint \<Rightarrow> nodes \<Rightarrow> bool" where
  "AvailableLoadBalancerEndPoint endPoint ns \<longleftrightarrow> endpoint_IsValid endPoint \<and> nodes_Filter ns [(''IP'', ep_host endPoint)] = []"

(* src: utils/capbke/clusterutil/util.go 43-60 GetIngressConfig *)
definition GetIngressConfig :: "product list \<Rightarrow> string \<times> string list" where
  "GetIngressConfig addons =
     (case find (\<lambda>p. pr_name p = ''beyondELB'') addons of
        None \<Rightarrow> ([], [])
      | Some elb \<Rightarrow> (get_or [] (or_zero (pr_param elb) []) ''lbVIP'',
                     TrimSpaceSlice (Split CHR '','' (get_or [] (or_zero (pr_param elb) []) ''lbNodes'')) []))"

(* src: utils/capbke/clusterutil/util.go 62-67 BKEConfigCmKey *)
definition BKEConfigCmKey :: "string \<times> string" where
  "BKEConfigCmKey = (''cluster-system'', ''bke-config'')"

(* src: utils/capbke/clusterutil/util.go 69-76 GetBKEConfigCMData *)
definition GetBKEConfigCMData :: "'w webhook_env \<Rightarrow> 'w \<Rightarrow> 'w \<times> (api_error + string gomap option)" where
  "GetBKEConfigCMData env w = we_configMap env w"

(* src: utils/utils.go 410-413 Random *)
definition Random :: "(nat \<Rightarrow> int \<Rightarrow> int) \<Rightarrow> nat \<Rightarrow> int \<Rightarrow> int \<Rightarrow> int" where
  "Random intn i lo hi = intn i (hi - lo) + lo"

section \<open>Changes from the configuration map\<close>

type_synonym config_patch = "cluster_spec \<Rightarrow> cluster_spec option"

(* src: webhooks/capbke/bkecluster.go 878-884 defaultConfigContext *)
record default_ctx =
  dc_cluster :: bke_cluster
  dc_config :: cluster_spec
  dc_data :: "string gomap"
  dc_nodes :: nodes

definition datum :: "default_ctx \<Rightarrow> string \<Rightarrow> string" where
  "datum c k = get_or [] (dc_data c) k"

definition extra :: "default_ctx \<Rightarrow> string gomap" where
  "extra c = or_zero (cs_customExtra (dc_config c)) []"

text \<open>A write into a map that is not nil.\<close>

definition set_extra :: "string \<Rightarrow> string \<Rightarrow> config_patch" where
  "set_extra k v cfg = Some (cfg\<lparr>cs_customExtra := map_option (AList.update k v) (cs_customExtra cfg)\<rparr>)"

definition extra_default :: "default_ctx \<Rightarrow> string \<Rightarrow> string \<Rightarrow> config_patch list" where
  "extra_default c k v = (if has_key (extra c) k then [] else [set_extra k v])"

(* src: webhooks/capbke/bkecluster.go 942-963 defaultConfigContext.setRepoDefaults *)
definition setRepoDefaults :: "default_ctx \<Rightarrow> config_patch list" where
  "setRepoDefaults c =
     (if datum c ''yumRepoPort'' \<noteq> [] \<and> rp_port (cs_httpRepo (dc_config c)) = []
      then [\<lambda>cfg. Some (cfg\<lparr>cs_httpRepo := (cs_httpRepo cfg)\<lparr>rp_port := datum c ''yumRepoPort''\<rparr>\<rparr>)] else []) @
     (if datum c ''imageRepoPort'' \<noteq> [] \<and> rp_port (cs_imageRepo (dc_config c)) = []
      then [\<lambda>cfg. Some (cfg\<lparr>cs_imageRepo := (cs_imageRepo cfg)\<lparr>rp_port := datum c ''imageRepoPort''\<rparr>\<rparr>)] else []) @
     (if datum c ''imageRepoPrefix'' \<noteq> [] \<and> rp_prefix (cs_imageRepo (dc_config c)) = []
      then [\<lambda>cfg. Some (cfg\<lparr>cs_imageRepo := (cs_imageRepo cfg)\<lparr>rp_prefix := datum c ''imageRepoPrefix''\<rparr>\<rparr>)] else [])"

(* src: webhooks/capbke/bkecluster.go 966-977 defaultConfigContext.setNTPServerDefault *)
definition setNTPServerDefault :: "default_ctx \<Rightarrow> config_patch list" where
  "setNTPServerDefault c =
     (if IsBocloudCluster (dc_cluster c) \<or> IsOtherCluster (dc_cluster c) then []
      else if datum c ''ntpServer'' \<noteq> [] \<and> cs_ntpServer (dc_config c) = []
      then [\<lambda>cfg. Some (cfg\<lparr>cs_ntpServer := datum c ''ntpServer''\<rparr>)] else [])"

(* src: webhooks/capbke/bkecluster.go 980-994 defaultConfigContext.setContainerdDefault *)
definition setContainerdDefault :: "default_ctx \<Rightarrow> config_patch list" where
  "setContainerdDefault c =
     (if datum c ''containerd'' = [] then []
      else extra_default c ''containerd'' (ReplaceAll (ReplaceAll (datum c ''containerd'') ''amd64'' ''{.arch}'') ''arm64'' ''{.arch}''))"

(* src: webhooks/capbke/bkecluster.go 1010-1022 defaultConfigContext.setRepoIPDefaults *)
definition setRepoIPDefaults :: "default_ctx \<Rightarrow> string \<Rightarrow> config_patch list" where
  "setRepoIPDefaults c host =
     (if rp_ip (cs_httpRepo (dc_config c)) = [] then [\<lambda>cfg. Some (cfg\<lparr>cs_httpRepo := (cs_httpRepo cfg)\<lparr>rp_ip := host\<rparr>\<rparr>)] else []) @
     (if rp_ip (cs_imageRepo (dc_config c)) = [] then [\<lambda>cfg. Some (cfg\<lparr>cs_imageRepo := (cs_imageRepo cfg)\<lparr>rp_ip := host\<rparr>\<rparr>)] else [])"

(* src: webhooks/capbke/bkecluster.go 1025-1031 defaultConfigContext.setCustomExtraHostDefaults *)
definition setCustomExtraHostDefaults :: "default_ctx \<Rightarrow> string \<Rightarrow> config_patch list" where
  "setCustomExtraHostDefaults c host = extra_default c ''host'' host"

(* src: webhooks/capbke/bkecluster.go 1034-1052 defaultConfigContext.setNFSDefaults *)
definition setNFSDefaults :: "default_ctx \<Rightarrow> string \<Rightarrow> config_patch list" where
  "setNFSDefaults c host = extra_default c ''nfsServer'' host @ extra_default c ''nfsRootDir'' ''/'' @ extra_default c ''nfsVersion'' ''4.1''"

definition set_param :: "nat \<Rightarrow> string \<Rightarrow> string \<Rightarrow> config_patch" where
  "set_param i k v cfg =
     (if i < length (cs_addons cfg)
      then (case pr_param (cs_addons cfg ! i) of
              None \<Rightarrow> None
            | Some m \<Rightarrow> Some (cfg\<lparr>cs_addons := (cs_addons cfg)[i := (cs_addons cfg ! i)\<lparr>pr_param := Some (AList.update k v m)\<rparr>]\<rparr>))
      else None)"

definition make_param :: "nat \<Rightarrow> config_patch" where
  "make_param i cfg =
     (if i < length (cs_addons cfg) then Some (cfg\<lparr>cs_addons := (cs_addons cfg)[i := (cs_addons cfg ! i)\<lparr>pr_param := Some []\<rparr>]\<rparr>) else None)"

definition indexed_addons :: "default_ctx \<Rightarrow> (nat \<times> product) list" where
  "indexed_addons c = enumerate 0 (cs_addons (dc_config c))"

(* src: webhooks/capbke/bkecluster.go 1055-1064 defaultConfigContext.setBocoperatorDeployServerIP *)
definition setBocoperatorDeployServerIP :: "default_ctx \<Rightarrow> string \<Rightarrow> config_patch list" where
  "setBocoperatorDeployServerIP c host =
     concat (map (\<lambda>(i, p). if pr_name p = ''bocoperator'' then [set_param i ''deployServerIp'' host] else []) (indexed_addons c))"

(* src: webhooks/capbke/bkecluster.go 997-1007 defaultConfigContext.setHostRelatedDefaults *)
definition setHostRelatedDefaults :: "default_ctx \<Rightarrow> config_patch list" where
  "setHostRelatedDefaults c =
     (let host = datum c ''host'' in
      if host = [] then []
      else setRepoIPDefaults c host @ setCustomExtraHostDefaults c host @ setNFSDefaults c host @ setBocoperatorDeployServerIP c host)"

text \<open>The passwords that \<^verbatim>\<open>Decrypt\<close> reads are not used.\<close>

(* src: webhooks/capbke/bkecluster.go 1083-1102 defaultConfigContext.setBocoperatorDefaults *)
definition setBocoperatorDefaults :: "default_ctx \<Rightarrow> config_patch list" where
  "setBocoperatorDefaults c =
     (case nodes_Master (dc_nodes c) of [] \<Rightarrow> [] | m # _ \<Rightarrow> extra_default c ''pipelineServer'' (ns_ip m)) @
     extra_default c ''pipelineServerEnableCleanImages'' ''false''"

(* src: webhooks/capbke/bkecluster.go 1105-1114 defaultConfigContext.setKubeproxyDefaults *)
definition setKubeproxyDefaults :: "product \<Rightarrow> config_patch list" where
  "setKubeproxyDefaults p =
     [set_extra ''proxyMode'' (or_default (get_or [] (or_zero (pr_param p) []) ''proxyMode'') ''iptables'')]"

(* src: webhooks/capbke/bkecluster.go 1120-1154 defaultConfigs *)
definition vm_defaults :: "string gomap" where
  "vm_defaults =
     [(''useVMSingle'', ''false''), (''vmSingleStorageSize'', ''50Gi''), (''vmAgentAllowStatefulSet'', ''true''), (''vmAgentCpuCount'', ''4''),
      (''vmAgentMemorySize'', ''8Gi''), (''vmAgentStorageSize'', ''60Gi''), (''vmAgentReplicaCount'', ''2''), (''vmAgentShareCount'', ''2''),
      (''vmAgentScrapeInterval'', ''20s''), (''vmSelectCpuCount'', ''12''), (''vmSelectMemorySize'', ''24Gi''), (''vmSelectStorageSize'', ''35Gi''),
      (''vmSelectReplicaCount'', ''2''), (''vmStorageCPUCount'', ''5''), (''vmStorageMemorySize'', ''32Gi''), (''vmStorageStorageSize'', ''720Gi''),
      (''vmStorageReplicaCount'', ''10''), (''vmInsertReplicaCount'', ''6''), (''vmInsertCpuCount'', ''4''), (''vmInsertMemorySize'', ''8Gi''),
      (''vmAlertReplicaCount'', ''2''), (''vmAlertCpuCount'', ''4''), (''vmAlertMemorySize'', ''16Gi''), (''vmAlertManagerReplicaCount'', ''2''),
      (''vmAlertManagerCpuCount'', ''4''), (''vmAlertManagerMemorySize'', ''16Gi''), (''vmClusterRetentionPeriod'', ''15d''),
      (''vmClusterReplicationFactor'', ''2''), (''grafanaNodePort'', ''30010''), (''kubeStateMetricsAutoSharding'', ''true''),
      (''kubeStateMetricsReplicaCount'', ''3''), (''kubeStateMetricsCpuCount'', ''4''), (''kubeStateMetricsMemorySize'', ''12Gi'')]"

text \<open>The loop over the map of defaults sets one key at a time; its order does not matter.\<close>

definition ensure_param :: "nat \<Rightarrow> string \<Rightarrow> string \<Rightarrow> config_patch" where
  "ensure_param i k v cfg =
     (if i < length (cs_addons cfg) \<and> pr_param (cs_addons cfg ! i) = None
      then (case make_param i cfg of None \<Rightarrow> None | Some cfg' \<Rightarrow> set_param i k v cfg')
      else set_param i k v cfg)"

(* src: webhooks/capbke/bkecluster.go 1117-1177 defaultConfigContext.setVictoriaMetricsControllerDefaultConfig *)
definition setVictoriaMetricsControllerDefaultConfig :: "product \<Rightarrow> nat \<Rightarrow> config_patch list" where
  "setVictoriaMetricsControllerDefaultConfig p i =
     (if pr_param p = None then [make_param i] else []) @
     concat (map (\<lambda>(k, v). if has_key (or_zero (pr_param p) []) k then [] else [ensure_param i k v]) vm_defaults)"

(* src: webhooks/capbke/bkecluster.go 1067-1080 defaultConfigContext.setAddonDefaults *)
definition setAddonDefaults :: "default_ctx \<Rightarrow> config_patch list" where
  "setAddonDefaults c =
     concat (map (\<lambda>(i, p). if pr_name p = ''bocoperator'' then setBocoperatorDefaults c
                           else if pr_name p = ''kubeproxy'' then setKubeproxyDefaults p
                           else if pr_name p = ''victoriametrics-controller'' then setVictoriaMetricsControllerDefaultConfig p i
                           else []) (indexed_addons c))"

(* src: webhooks/capbke/bkecluster.go 1196-1210 defaultConfigContext.setMasterVirtualRouterId *)
definition setMasterVirtualRouterId :: "(nat \<Rightarrow> int \<Rightarrow> int) \<Rightarrow> default_ctx \<Rightarrow> nat \<Rightarrow> config_patch list \<times> int option \<times> nat" where
  "setMasterVirtualRouterId intn c i =
     (if \<not> AvailableLoadBalancerEndPoint (bs_controlPlaneEndpoint (bc_spec (dc_cluster c))) (dc_nodes c) \<or> has_key (extra c) ''masterVirtualRouterId''
      then ([], None, i)
      else ([set_extra ''masterVirtualRouterId'' (Itoa (Random intn i 1 255))], Some (Random intn i 1 255), Suc i))"

(* src: webhooks/capbke/bkecluster.go 1213-1228 defaultConfigContext.setIngressVirtualRouterId *)
definition setIngressVirtualRouterId :: "(nat \<Rightarrow> int \<Rightarrow> int) \<Rightarrow> default_ctx \<Rightarrow> nat \<Rightarrow> config_patch list \<times> int option \<times> nat" where
  "setIngressVirtualRouterId intn c i =
     (if fst (GetIngressConfig (cs_addons (dc_config c))) = [] \<or> has_key (extra c) ''ingressVirtualRouterId''
      then ([], None, i)
      else ([set_extra ''ingressVirtualRouterId'' (Itoa (Random intn i 1 255))], Some (Random intn i 1 255), Suc i))"

(* src: webhooks/capbke/bkecluster.go 1186-1188 setVirtualRouterIdDefaults (loop) *)
partial_function (option) redraw :: "(nat \<Rightarrow> int \<Rightarrow> int) \<Rightarrow> int \<Rightarrow> int \<Rightarrow> nat \<Rightarrow> (int \<times> nat) option" where
  "redraw intn master ingress i = (if master = ingress then redraw intn master (Random intn i 1 255) (Suc i) else Some (ingress, i))"

(* src: webhooks/capbke/bkecluster.go 1180-1193 defaultConfigContext.setVirtualRouterIdDefaults *)
definition setVirtualRouterIdDefaults :: "(nat \<Rightarrow> int \<Rightarrow> int) \<Rightarrow> default_ctx \<Rightarrow> config_patch list option" where
  "setVirtualRouterIdDefaults intn c =
     (case setMasterVirtualRouterId intn c 0 of
        (ps1, master, i) \<Rightarrow>
          (case setIngressVirtualRouterId intn c i of
             (ps2, ingress, j) \<Rightarrow>
               (case (master, ingress) of
                  (Some m, Some g) \<Rightarrow>
                    if m = g
                    then (case redraw intn m g j of
                            None \<Rightarrow> None
                          | Some (g', _) \<Rightarrow> Some (ps1 @ ps2 @ [set_extra ''ingressVirtualRouterId'' (Itoa g')]))
                    else Some (ps1 @ ps2)
                | _ \<Rightarrow> Some (ps1 @ ps2))))"

fun apply_patches :: "config_patch list \<Rightarrow> config_patch" where
  "apply_patches [] cfg = Some cfg"
| "apply_patches (p # ps) cfg = (case p cfg of None \<Rightarrow> None | Some cfg' \<Rightarrow> apply_patches ps cfg')"

(* src: webhooks/capbke/bkecluster.go 926-938 setBKEClusterDefaultConfig (steps) *)
definition apply_defaults :: "(nat \<Rightarrow> int \<Rightarrow> int) \<Rightarrow> default_ctx \<Rightarrow> cluster_spec webhook_run" where
  "apply_defaults intn ctx =
     (case setVirtualRouterIdDefaults intn ctx of
        None \<Rightarrow> Hangs
      | Some routers \<Rightarrow>
          (case apply_patches (setRepoDefaults ctx @ setNTPServerDefault ctx @ setContainerdDefault ctx @ setHostRelatedDefaults ctx @
                               setAddonDefaults ctx @ routers) (dc_config ctx) of
             None \<Rightarrow> Panics
           | Some cfg' \<Rightarrow> Defaulted cfg'))"

definition default_nodes :: "'w node_api option \<Rightarrow> bke_cluster \<Rightarrow> 'w \<Rightarrow> 'w \<times> nodes" where
  "default_nodes fetcher c w =
     (case fetcher of
        None \<Rightarrow> (w, [])
      | Some api \<Rightarrow> (case GetNodesForBKECluster api c w of (w', Inl _) \<Rightarrow> (w', []) | (w', Inr ns) \<Rightarrow> (w', ns)))"

(* src: webhooks/capbke/bkecluster.go 886-939 setBKEClusterDefaultConfig *)
definition setBKEClusterDefaultConfig :: "'w webhook_env \<Rightarrow> bke_cluster \<Rightarrow> cluster_spec \<Rightarrow> 'w \<Rightarrow> 'w \<times> cluster_spec webhook_run" where
  "setBKEClusterDefaultConfig env c cfg w =
     (case GetBKEConfigCMData env w of
        (w1, Inl _) \<Rightarrow> (w1, Defaulted cfg)
      | (w1, Inr None) \<Rightarrow> (w1, Defaulted cfg)
      | (w1, Inr (Some data)) \<Rightarrow>
          (case default_nodes (we_fetcher env) c w1 of
             (w2, ns) \<Rightarrow>
               (w2, apply_defaults (we_random env)
                      \<lparr>dc_cluster = c, dc_config = cfg\<lparr>cs_customExtra := Some (or_zero (cs_customExtra cfg) [])\<rparr>, dc_data = data, dc_nodes = ns\<rparr>)))"

lemma apply_patches_append: "apply_patches (ps @ qs) x = (case apply_patches ps x of None \<Rightarrow> None | Some y \<Rightarrow> apply_patches qs y)"
  by (induction ps arbitrary: x) (auto split: option.splits)

lemma apply_patches_inv:
  assumes "apply_patches ps x = Some y" "I x" and step: "\<And>q x y. q \<in> set ps \<Longrightarrow> I x \<Longrightarrow> q x = Some y \<Longrightarrow> I y"
  shows "I y"
  using assms
proof (induction ps arbitrary: x)
  case (Cons p ps)
  from Cons.prems(1) obtain x' where x': "p x = Some x'" "apply_patches ps x' = Some y" by (auto split: option.splits)
  from Cons.prems(2,3) x'(1) have "I x'" by (meson list.set_intros(1))
  with Cons.IH [OF x'(2)] Cons.prems(3) show ?case by (meson list.set_intros(2))
qed simp

section \<open>Default\<close>

(* src: webhooks/capbke/bkecluster.go 1248-1253 BKECluster.getReader *)
definition cluster_getReader :: "'w webhook_env \<Rightarrow> 'w node_api" where
  "cluster_getReader env = (case we_apiReader env of None \<Rightarrow> we_client env | Some r \<Rightarrow> r)"

(* src: webhooks/capbke/bkecluster.go 1231-1245 BKECluster.getNodesForBKEClusterDirect *)
definition getNodesForBKEClusterDirect :: "'w webhook_env \<Rightarrow> bke_cluster \<Rightarrow> ('w, nodes) node_read" where
  "getNodesForBKEClusterDirect env c =
     map_read (\<lambda>items. SetDefaultsForNodes (ConvertBKENodeListToNodes (Some items)))
       (na_list (cluster_getReader env) (bc_namespace c) [(ClusterNameLabel, bc_name c)])"

(* src: utils/capbke/annotation/helper.go 28-28 AtPrecheckPhaseAnnotationKey *)
definition AtPrecheckPhaseAnnotationKey :: string where
  "AtPrecheckPhaseAnnotationKey = ''bke.bocloud.com/at-precheck-phase''"

definition at_precheck :: "bke_cluster \<Rightarrow> bool" where
  "at_precheck c \<longleftrightarrow> HasAnnotation c AtPrecheckPhaseAnnotationKey = Some ''true'' \<and> bs_pause (bc_spec c)"

(* src: webhooks/capbke/bkecluster.go 122-133 BKECluster.Default (endpoint) *)
definition default_endpoint :: "nodes \<Rightarrow> api_endpoint \<Rightarrow> api_endpoint" where
  "default_endpoint ns ep0 =
     (let ep1 = (case nodes_Master ns of
                   m # _ \<Rightarrow> if endpoint_IsZero ep0
                            then \<lparr>ep_host = (if ep_host ep0 = [] then ns_ip m else ep_host ep0), ep_port = (if ep_port ep0 = 0 then 6443 else ep_port ep0)\<rparr>
                            else ep0
                 | [] \<Rightarrow> ep0)
      in if ep_host ep1 \<noteq> [] \<and> ep_port ep1 = 0 then ep1\<lparr>ep_port := 36443\<rparr> else ep1)"

(* src: webhooks/capbke/bkecluster.go 134-146 BKECluster.Default (precheck) *)
definition precheck_endpoint :: "bke_cluster \<Rightarrow> nodes \<Rightarrow> api_endpoint \<Rightarrow> api_endpoint" where
  "precheck_endpoint c ns ep =
     (if at_precheck c \<and> endpoint_IsValid ep
      then (case nodes_Master ns of
              m # _ \<Rightarrow> if ep_port ep \<noteq> 36443 \<and> nodes_Filter ns [(''IP'', ep_host ep)] = []
                       then \<lparr>ep_host = ns_ip m, ep_port = 6443\<rparr> else ep
            | [] \<Rightarrow> ep)
      else ep)"

definition set_spec :: "(bke_spec \<Rightarrow> bke_spec) \<Rightarrow> bke_cluster \<Rightarrow> bke_cluster" where
  "set_spec f c = c\<lparr>bc_spec := f (bc_spec c)\<rparr>"

(* src: webhooks/capbke/bkecluster.go 99-154 BKECluster.Default *)
definition cluster_Default :: "'w webhook_env \<Rightarrow> bke_cluster \<Rightarrow> 'w \<Rightarrow> 'w \<times> bke_cluster webhook_run" where
  "cluster_Default env c w =
     (let cfg = SetDefaultBKEConfig (we_manifest env) (or_zero (bs_clusterConfig (bc_spec c)) zero_config);
          c0 = set_spec (\<lambda>s. s\<lparr>bs_clusterConfig := Some cfg\<rparr>) c
      in case setBKEClusterDefaultConfig env c0 cfg w of
           (w1, Panics) \<Rightarrow> (w1, Panics)
         | (w1, Hangs) \<Rightarrow> (w1, Hangs)
         | (w1, Defaulted cfg1) \<Rightarrow>
             let c1 = SetBKEClusterDefaultAnnotation (set_spec (\<lambda>s. s\<lparr>bs_clusterConfig := Some cfg1\<rparr>) c0);
                 (w2, ns) = (case getNodesForBKEClusterDirect env c1 w1 of (w2, Inl _) \<Rightarrow> (w2, []) | (w2, Inr ns) \<Rightarrow> (w2, ns));
                 ep = precheck_endpoint c1 ns (default_endpoint ns (bs_controlPlaneEndpoint (bc_spec c1)));
                 cfg2 = (if \<not> IsBKECluster c1 \<and> \<not> ClusterInfoHasCollected c1 then cfg1\<lparr>cs_kubernetesVersion := []\<rparr> else cfg1)
             in (w2, Defaulted (set_spec (\<lambda>s. s\<lparr>bs_controlPlaneEndpoint := ep, bs_clusterConfig := Some cfg2\<rparr>) c1)))"

section \<open>Router ids\<close>

declare redraw.simps [code]

lemma redraw_ends:
  assumes "Random intn (i + n) 1 255 \<noteq> m"
  shows "\<exists>g k. redraw intn m g0 i = Some (g, k) \<and> g \<noteq> m \<and> (g = g0 \<or> (\<exists>j. g = Random intn j 1 255))"
  using assms
proof (induction n arbitrary: i g0)
  case 0
  show ?case
  proof (cases "m = g0")
    case True
    with 0 show ?thesis by (subst redraw.simps) (subst redraw.simps, auto)
  next
    case False
    then show ?thesis by (subst redraw.simps) auto
  qed
next
  case (Suc n)
  show ?case
  proof (cases "m = g0")
    case True
    with Suc.IH [of "Suc i" "Random intn i 1 255"] Suc.prems show ?thesis
      by (subst redraw.simps) auto
  next
    case False
    then show ?thesis by (subst redraw.simps) auto
  qed
qed

text \<open>The random source as far as it matters: it keeps to its range and does not repeat one number
  forever.\<close>

definition fair_random :: "(nat \<Rightarrow> int \<Rightarrow> int) \<Rightarrow> bool" where
  "fair_random intn \<longleftrightarrow> (\<forall>i. 0 \<le> intn i 254 \<and> intn i 254 < 254) \<and> (\<forall>m i. \<exists>n. intn (i + n) 254 + 1 \<noteq> m)"

lemma fair_range: "fair_random intn \<Longrightarrow> 1 \<le> Random intn i 1 255 \<and> Random intn i 1 255 \<le> 254"
proof -
  assume "fair_random intn"
  then have "0 \<le> intn i 254 \<and> intn i 254 < 254" unfolding fair_random_def by blast
  then show ?thesis by (simp add: Random_def)
qed

lemma fair_redraw:
  assumes "fair_random intn"
  obtains g k where "redraw intn m (Random intn j 1 255) i = Some (g, k)" "g \<noteq> m" "1 \<le> g" "g \<le> 254"
proof -
  obtain n where "Random intn (i + n) 1 255 \<noteq> m" using assms unfolding fair_random_def Random_def by fastforce
  from redraw_ends [OF this, of "Random intn j 1 255"] obtain g k j' where
    "redraw intn m (Random intn j 1 255) i = Some (g, k)" "g \<noteq> m" "g = Random intn j' 1 255" by blast
  moreover have "1 \<le> Random intn j' 1 255" "Random intn j' 1 255 \<le> 254" using fair_range [OF assms, of j'] by simp_all
  ultimately show ?thesis using that by simp
qed

text \<open>When neither router id is given and both are needed, the webhook draws two different ids in the
  range of the protocol, and it ends, provided the random source does not repeat one number forever.\<close>

theorem router_ids_drawn:
  assumes "fair_random intn" and "AvailableLoadBalancerEndPoint (bs_controlPlaneEndpoint (bc_spec (dc_cluster c))) (dc_nodes c)"
    and "fst (GetIngressConfig (cs_addons (dc_config c))) \<noteq> []" and "cs_customExtra (dc_config c) = Some e"
    and "\<not> has_key e ''masterVirtualRouterId''" "\<not> has_key e ''ingressVirtualRouterId''"
  shows "\<exists>ps cfg m g. setVirtualRouterIdDefaults intn c = Some ps \<and> apply_patches ps (dc_config c) = Some cfg \<and>
    map_of (the (cs_customExtra cfg)) ''masterVirtualRouterId'' = Some (Itoa m) \<and>
    map_of (the (cs_customExtra cfg)) ''ingressVirtualRouterId'' = Some (Itoa g) \<and> m \<noteq> g \<and> 1 \<le> m \<and> m \<le> 254 \<and> 1 \<le> g \<and> g \<le> 254"
proof -
  let ?m = "Random intn 0 1 255" and ?g = "Random intn 1 1 255"
  have r: "1 \<le> Random intn i 1 255 \<and> Random intn i 1 255 \<le> 254" for i using fair_range [OF assms(1)] .
  obtain g k where g: "redraw intn ?m (Random intn 1 1 255) 2 = Some (g, k)" "g \<noteq> ?m" "1 \<le> g" "g \<le> 254"
    using fair_redraw [OF assms(1)] by blast
  have e: "extra c = e" using assms(4) by (simp add: extra_def)
  show ?thesis
    using assms(2-6) g r [of 0] r [of 1] e
    by (cases "?m = ?g")
      (auto simp: setVirtualRouterIdDefaults_def setMasterVirtualRouterId_def setIngressVirtualRouterId_def set_extra_def numeral_2_eq_2)
qed

text \<open>A source that gives one number three times.\<close>

definition slow_random :: "nat \<Rightarrow> int \<Rightarrow> int" where
  "slow_random i k = (if i < 3 then 50 else if even i then 0 else 1)"

lemma slow_random_fair: "fair_random slow_random"
proof -
  have "\<exists>n. slow_random (i + n) 254 + 1 \<noteq> m" for m i
  proof -
    have "slow_random (i + 3) 254 \<noteq> slow_random (i + 4) 254" by (simp add: slow_random_def)
    then show ?thesis by (metis add_right_cancel)
  qed
  then show ?thesis by (auto simp: fair_random_def slow_random_def)
qed

definition elb_config :: "string gomap \<Rightarrow> cluster_spec" where
  "elb_config e = zero_config\<lparr>cs_customExtra := Some e, cs_addons := [(hd defaultAddons)\<lparr>pr_name := ''beyondELB'', pr_param := Some [(''lbVIP'', ''10.0.0.9'')]\<rparr>]\<rparr>"

definition lb_cluster :: bke_cluster where
  "lb_cluster = set_spec (\<lambda>s. s\<lparr>bs_controlPlaneEndpoint := \<lparr>ep_host = ''10.0.0.8'', ep_port = 36443\<rparr>\<rparr>) (blank_cluster ''ns'' ''c'')"

definition elb_ctx :: "string gomap \<Rightarrow> default_ctx" where
  "elb_ctx e = \<lparr>dc_cluster = lb_cluster, dc_config = elb_config e, dc_data = [], dc_nodes = []\<rparr>"

theorem router_ids_drawn_witness:
  "\<exists>ps cfg m g. setVirtualRouterIdDefaults slow_random (elb_ctx []) = Some ps \<and> apply_patches ps (elb_config []) = Some cfg \<and>
    map_of (the (cs_customExtra cfg)) ''masterVirtualRouterId'' = Some (Itoa m) \<and>
    map_of (the (cs_customExtra cfg)) ''ingressVirtualRouterId'' = Some (Itoa g) \<and> m \<noteq> g \<and> 1 \<le> m \<and> m \<le> 254 \<and> 1 \<le> g \<and> g \<le> 254"
  using router_ids_drawn [of slow_random "elb_ctx []" "[]", OF slow_random_fair]
  by (simp add: elb_ctx_def elb_config_def lb_cluster_def set_spec_def AvailableLoadBalancerEndPoint_def endpoint_IsValid_def nodes_Filter_def
      GetIngressConfig_def get_or_def has_key_def)

text \<open>When the user gives one of the ids, the other is drawn without looking at it: the two may be the
  same.\<close>

theorem router_ids_collide:
  "\<exists>ps cfg. setVirtualRouterIdDefaults slow_random (elb_ctx [(''masterVirtualRouterId'', ''51'')]) = Some ps \<and>
     apply_patches ps (elb_config [(''masterVirtualRouterId'', ''51'')]) = Some cfg \<and>
     map_of (the (cs_customExtra cfg)) ''ingressVirtualRouterId'' = map_of (the (cs_customExtra cfg)) ''masterVirtualRouterId''"
proof -
  have i: "Itoa 51 = ''51''" by code_simp
  show ?thesis
    by (simp add: setVirtualRouterIdDefaults_def setMasterVirtualRouterId_def setIngressVirtualRouterId_def elb_ctx_def elb_config_def extra_def has_key_def
        GetIngressConfig_def get_or_def set_extra_def Random_def slow_random_def i)
qed

lemma addons_untouched:
  "q \<in> set (setRepoDefaults c) \<Longrightarrow> q x = Some y \<Longrightarrow> cs_addons y = cs_addons x"
  "q \<in> set (setNTPServerDefault c) \<Longrightarrow> q x = Some y \<Longrightarrow> cs_addons y = cs_addons x"
  "q \<in> set (setContainerdDefault c) \<Longrightarrow> q x = Some y \<Longrightarrow> cs_addons y = cs_addons x"
  "q \<in> set (setRepoIPDefaults c h) \<Longrightarrow> q x = Some y \<Longrightarrow> cs_addons y = cs_addons x"
  "q \<in> set (setCustomExtraHostDefaults c h) \<Longrightarrow> q x = Some y \<Longrightarrow> cs_addons y = cs_addons x"
  "q \<in> set (setNFSDefaults c h) \<Longrightarrow> q x = Some y \<Longrightarrow> cs_addons y = cs_addons x"
  by (auto simp: setRepoDefaults_def setNTPServerDefault_def setContainerdDefault_def setRepoIPDefaults_def setCustomExtraHostDefaults_def
      setNFSDefaults_def extra_default_def set_extra_def split: if_splits)

text \<open>A configuration map with the address of the host makes the webhook panic on every cluster with the
  add-on \<^verbatim>\<open>bocoperator\<close> that has no parameters: the address is written into a nil map.\<close>

theorem bocoperator_panics:
  assumes "we_configMap env w = (w1, Inr (Some data))" and "we_fetcher env = None" and "get_or [] data ''host'' \<noteq> []"
    and "cs_addons cfg = [p]" "pr_name p = ''bocoperator''" "pr_param p = None"
    and "endpoint_IsZero (bs_controlPlaneEndpoint (bc_spec c))"
  shows "setBKEClusterDefaultConfig env c cfg w = (w1, Panics)"
proof -
  let ?cfg = "cfg\<lparr>cs_customExtra := Some (or_zero (cs_customExtra cfg) [])\<rparr>"
  let ?ctx = "\<lparr>dc_cluster = c, dc_config = ?cfg, dc_data = data, dc_nodes = []\<rparr>"
  have "setVirtualRouterIdDefaults (we_random env) ?ctx = Some []"
    using assms(4-7) by (simp add: setVirtualRouterIdDefaults_def setMasterVirtualRouterId_def setIngressVirtualRouterId_def
      AvailableLoadBalancerEndPoint_def endpoint_IsValid_def endpoint_IsZero_def GetIngressConfig_def)
  moreover have "apply_patches (setRepoDefaults ?ctx @ setNTPServerDefault ?ctx @ setContainerdDefault ?ctx @ setHostRelatedDefaults ?ctx @ rest) ?cfg = None" for rest
  proof -
    let ?ps = "setRepoDefaults ?ctx @ setNTPServerDefault ?ctx @ setContainerdDefault ?ctx @ setRepoIPDefaults ?ctx (datum ?ctx ''host'') @
      setCustomExtraHostDefaults ?ctx (datum ?ctx ''host'') @ setNFSDefaults ?ctx (datum ?ctx ''host'')"
    have k: "cs_addons y = [p]" if "apply_patches ?ps ?cfg = Some y" for y
      using that
    proof (rule apply_patches_inv)
      show "cs_addons ?cfg = [p]" using assms(4) by simp
    qed (auto dest: addons_untouched)
    have h: "setHostRelatedDefaults ?ctx = setRepoIPDefaults ?ctx (datum ?ctx ''host'') @ setCustomExtraHostDefaults ?ctx (datum ?ctx ''host'') @
        setNFSDefaults ?ctx (datum ?ctx ''host'') @ [set_param 0 ''deployServerIp'' (datum ?ctx ''host'')]"
      using assms(3-5) by (simp add: setHostRelatedDefaults_def datum_def setBocoperatorDeployServerIP_def indexed_addons_def Let_def)
    have "set_param 0 ''deployServerIp'' v y = None" if "cs_addons y = [p]" for y v using that assms(6) by (simp add: set_param_def)
    with k have "apply_patches (?ps @ set_param 0 ''deployServerIp'' (datum ?ctx ''host'') # rest) ?cfg = None"
      unfolding apply_patches_append by (auto split: option.splits)
    with h show ?thesis by simp
  qed
  ultimately show ?thesis
    using assms(1,2) by (simp add: setBKEClusterDefaultConfig_def GetBKEConfigCMData_def default_nodes_def apply_defaults_def)
qed

definition host_env :: "unit webhook_env" where
  "host_env = \<lparr>we_manifest = embedded_manifest, we_fetcher = None, we_apiReader = None,
     we_client = \<lparr>na_list = (\<lambda>_ _ w. (w, Inr [])), na_updateStatus = (\<lambda>_ w. (w, None)), na_delete = (\<lambda>_ w. (w, None)), na_retry = demo_retry\<rparr>,
     we_configMap = (\<lambda>w. (w, Inr (Some [(''host'', ''10.0.0.1'')]))), we_random = slow_random\<rparr>"

theorem bocoperator_panics_witness:
  "setBKEClusterDefaultConfig host_env (blank_cluster ''ns'' ''c'')
     (zero_config\<lparr>cs_addons := [(hd defaultAddons)\<lparr>pr_name := ''bocoperator'', pr_param := None\<rparr>]\<rparr>) () = ((), Panics)"
  by (rule bocoperator_panics [where data = "[(''host'', ''10.0.0.1'')]" and p = "(hd defaultAddons)\<lparr>pr_name := ''bocoperator'', pr_param := None\<rparr>"])
    (simp_all add: host_env_def get_or_def endpoint_IsZero_def empty_spec_def)

section \<open>What the user gave is kept\<close>

definition kept_repo_values :: "repo \<Rightarrow> repo \<Rightarrow> bool" where
  "kept_repo_values r r' \<longleftrightarrow> kept (rp_domain r) (rp_domain r') \<and> kept (rp_ip r) (rp_ip r') \<and> kept (rp_port r) (rp_port r') \<and> kept (rp_prefix r) (rp_prefix r')"

definition kept_addon :: "product \<Rightarrow> product \<Rightarrow> bool" where
  "kept_addon p p' \<longleftrightarrow> p'\<lparr>pr_param := pr_param p\<rparr> = p \<and>
     (\<forall>k v. k \<noteq> ''deployServerIp'' \<longrightarrow> map_of (or_zero (pr_param p) []) k = Some v \<longrightarrow> map_of (or_zero (pr_param p') []) k = Some v)"

definition user_kept :: "cluster_spec \<Rightarrow> cluster_spec \<Rightarrow> bool" where
  "user_kept u c \<longleftrightarrow> kept_repo_values (cs_httpRepo u) (cs_httpRepo c) \<and> kept_repo_values (cs_imageRepo u) (cs_imageRepo c) \<and>
     kept_repo_values (cs_chartRepo u) (cs_chartRepo c) \<and> kept (cs_ntpServer u) (cs_ntpServer c) \<and> cs_networking c = cs_networking u \<and>
     cs_kubernetesVersion c = cs_kubernetesVersion u \<and> list_all2 kept_addon (cs_addons u) (cs_addons c) \<and>
     (\<forall>k v. k \<noteq> ''proxyMode'' \<longrightarrow> map_of (or_zero (cs_customExtra u) []) k = Some v \<longrightarrow> map_of (or_zero (cs_customExtra c) []) k = Some v)"

lemma kept_addon_refl [simp]: "kept_addon p p"
  by (simp add: kept_addon_def)

lemma user_kept_refl: "user_kept u u"
  by (simp add: user_kept_def kept_repo_values_def kept_def list_all2_refl)

lemma list_all2_update: "list_all2 P xs ys \<Longrightarrow> P (xs ! i) y \<Longrightarrow> list_all2 P xs (ys[i := y])"
  by (cases "i < length ys") (auto simp: list_all2_conv_all_nth nth_list_update)

text \<open>The three kinds of changes: a field that was empty, a key of the extra values, a parameter.\<close>

lemma user_kept_extra:
  "user_kept u x \<Longrightarrow> k = ''proxyMode'' \<or> \<not> has_key (or_zero (cs_customExtra u) []) k \<Longrightarrow> set_extra k v x = Some y \<Longrightarrow> user_kept u y"
  by (cases "cs_customExtra x") (auto simp: user_kept_def set_extra_def has_key_def)

lemma user_kept_param:
  assumes "user_kept u x" "set_param i k v x = Some y"
    and "k = ''deployServerIp'' \<or> (i < length (cs_addons u) \<and> \<not> has_key (or_zero (pr_param (cs_addons u ! i)) []) k)"
  shows "user_kept u y"
proof -
  obtain m where m: "i < length (cs_addons x)" "pr_param (cs_addons x ! i) = Some m"
    "y = x\<lparr>cs_addons := (cs_addons x)[i := (cs_addons x ! i)\<lparr>pr_param := Some (AList.update k v m)\<rparr>]\<rparr>"
    using assms(2) by (auto simp: set_param_def split: if_splits option.splits)
  have l: "list_all2 kept_addon (cs_addons u) (cs_addons x)" using assms(1) by (simp add: user_kept_def)
  then have "kept_addon (cs_addons u ! i) (cs_addons x ! i)" using m(1) by (simp add: list_all2_conv_all_nth)
  with m(2) assms(3) have "kept_addon (cs_addons u ! i) ((cs_addons x ! i)\<lparr>pr_param := Some (AList.update k v m)\<rparr>)"
    by (auto simp: kept_addon_def has_key_def)
  with l have "list_all2 kept_addon (cs_addons u) (cs_addons y)"
    by (simp add: m(3) list_all2_update)
  with assms(1) show ?thesis by (simp add: user_kept_def m(3))
qed

lemma user_kept_make:
  assumes "user_kept u x" "make_param i x = Some y" "i < length (cs_addons u)" "pr_param (cs_addons u ! i) = None"
  shows "user_kept u y"
proof -
  have m: "i < length (cs_addons x)" "y = x\<lparr>cs_addons := (cs_addons x)[i := (cs_addons x ! i)\<lparr>pr_param := Some []\<rparr>]\<rparr>"
    using assms(2) by (auto simp: make_param_def split: if_splits)
  have l: "list_all2 kept_addon (cs_addons u) (cs_addons x)" using assms(1) by (simp add: user_kept_def)
  then have "kept_addon (cs_addons u ! i) (cs_addons x ! i)" using m(1) by (simp add: list_all2_conv_all_nth)
  with assms(4) have "kept_addon (cs_addons u ! i) ((cs_addons x ! i)\<lparr>pr_param := Some []\<rparr>)" by (simp add: kept_addon_def)
  with l have "list_all2 kept_addon (cs_addons u) (cs_addons y)" by (simp add: m(2) list_all2_update)
  with assms(1) show ?thesis by (simp add: user_kept_def m(2))
qed

text \<open>Every change that the webhook collects is of one of these kinds, relative to the configuration it
  looked at.\<close>

definition keeps :: "default_ctx \<Rightarrow> config_patch \<Rightarrow> bool" where
  "keeps c q \<longleftrightarrow> (\<forall>x y. user_kept (dc_config c) x \<longrightarrow> q x = Some y \<longrightarrow> user_kept (dc_config c) y)"

lemma keeps_extra: "k = ''proxyMode'' \<or> \<not> has_key (extra c) k \<Longrightarrow> keeps c (set_extra k v)"
  unfolding keeps_def extra_def using user_kept_extra by blast

lemma keeps_extra_default: "\<forall>q\<in>set (extra_default c k v). keeps c q"
  by (simp add: extra_default_def keeps_extra)

lemma keeps_param: "k = ''deployServerIp'' \<or> i < length (cs_addons (dc_config c)) \<and> \<not> has_key (or_zero (pr_param (cs_addons (dc_config c) ! i)) []) k \<Longrightarrow>
    keeps c (set_param i k v)"
  unfolding keeps_def using user_kept_param by blast

lemma indexed_addons_nth: "(i, p) \<in> set (indexed_addons c) \<Longrightarrow> i < length (cs_addons (dc_config c)) \<and> cs_addons (dc_config c) ! i = p"
  by (auto simp: indexed_addons_def in_set_enumerate_eq)

lemma keeps_field:
  "cs_ntpServer (dc_config c) = [] \<Longrightarrow> keeps c (\<lambda>x. Some (x\<lparr>cs_ntpServer := v\<rparr>))"
  "rp_port (cs_httpRepo (dc_config c)) = [] \<Longrightarrow> keeps c (\<lambda>x. Some (x\<lparr>cs_httpRepo := (cs_httpRepo x)\<lparr>rp_port := v\<rparr>\<rparr>))"
  "rp_ip (cs_httpRepo (dc_config c)) = [] \<Longrightarrow> keeps c (\<lambda>x. Some (x\<lparr>cs_httpRepo := (cs_httpRepo x)\<lparr>rp_ip := v\<rparr>\<rparr>))"
  "rp_port (cs_imageRepo (dc_config c)) = [] \<Longrightarrow> keeps c (\<lambda>x. Some (x\<lparr>cs_imageRepo := (cs_imageRepo x)\<lparr>rp_port := v\<rparr>\<rparr>))"
  "rp_ip (cs_imageRepo (dc_config c)) = [] \<Longrightarrow> keeps c (\<lambda>x. Some (x\<lparr>cs_imageRepo := (cs_imageRepo x)\<lparr>rp_ip := v\<rparr>\<rparr>))"
  "rp_prefix (cs_imageRepo (dc_config c)) = [] \<Longrightarrow> keeps c (\<lambda>x. Some (x\<lparr>cs_imageRepo := (cs_imageRepo x)\<lparr>rp_prefix := v\<rparr>\<rparr>))"
  by (simp_all add: keeps_def user_kept_def kept_repo_values_def kept_def)

lemma keeps_fields:
  "q \<in> set (setRepoDefaults c) \<Longrightarrow> keeps c q" "q \<in> set (setNTPServerDefault c) \<Longrightarrow> keeps c q" "q \<in> set (setRepoIPDefaults c h) \<Longrightarrow> keeps c q"
  by (auto simp: setRepoDefaults_def setNTPServerDefault_def setRepoIPDefaults_def keeps_field split: if_splits)

lemma keeps_host: "q \<in> set (setHostRelatedDefaults c) \<Longrightarrow> keeps c q"
  using keeps_fields(3) [of q c "datum c ''host''"] keeps_extra_default
  by (auto simp: setHostRelatedDefaults_def setCustomExtraHostDefaults_def setNFSDefaults_def setBocoperatorDeployServerIP_def Let_def
      intro: keeps_param split: if_splits)

lemma keeps_ensure:
  assumes "i < length (cs_addons (dc_config c))" "\<not> has_key (or_zero (pr_param (cs_addons (dc_config c) ! i)) []) k"
  shows "keeps c (ensure_param i k v)"
  unfolding keeps_def
proof (intro allI impI)
  fix x y assume xy: "user_kept (dc_config c) x" "ensure_param i k v x = Some y"
  have p: "user_kept (dc_config c) z \<Longrightarrow> set_param i k v z = Some y \<Longrightarrow> user_kept (dc_config c) y" for z
    using user_kept_param assms by blast
  show "user_kept (dc_config c) y"
  proof (cases "i < length (cs_addons x) \<and> pr_param (cs_addons x ! i) = None")
    case True
    then obtain z where z: "make_param i x = Some z" "set_param i k v z = Some y"
      using xy(2) by (auto simp: ensure_param_def split: option.splits)
    have "kept_addon (cs_addons (dc_config c) ! i) (cs_addons x ! i)"
      using xy(1) True by (simp add: user_kept_def list_all2_conv_all_nth)
    then have "kept_addon (cs_addons (dc_config c) ! i) ((cs_addons x ! i)\<lparr>pr_param := Some []\<rparr>)" using True by (simp add: kept_addon_def)
    then have "user_kept (dc_config c) z"
      using xy(1) z(1) by (auto simp: user_kept_def make_param_def list_all2_update split: if_splits)
    with p z show ?thesis by blast
  qed (use xy p in \<open>auto simp: ensure_param_def\<close>)
qed

lemma keeps_make: "i < length (cs_addons (dc_config c)) \<Longrightarrow> pr_param (cs_addons (dc_config c) ! i) = None \<Longrightarrow> keeps c (make_param i)"
  unfolding keeps_def using user_kept_make by blast

lemma keeps_addons: "q \<in> set (setAddonDefaults c) \<Longrightarrow> keeps c q"
proof -
  assume "q \<in> set (setAddonDefaults c)"
  then obtain i p where ip: "(i, p) \<in> set (indexed_addons c)"
    and q: "q \<in> set (setBocoperatorDefaults c) \<or> q \<in> set (setKubeproxyDefaults p) \<or> q \<in> set (setVictoriaMetricsControllerDefaultConfig p i)"
    by (auto simp: setAddonDefaults_def split: if_splits)
  from q show "keeps c q"
  proof (elim disjE)
    assume "q \<in> set (setBocoperatorDefaults c)"
    then show ?thesis using keeps_extra_default by (auto simp: setBocoperatorDefaults_def split: list.splits)
  next
    assume "q \<in> set (setKubeproxyDefaults p)"
    then show ?thesis by (simp add: setKubeproxyDefaults_def keeps_extra)
  next
    assume "q \<in> set (setVictoriaMetricsControllerDefaultConfig p i)"
    then show ?thesis
      using indexed_addons_nth [OF ip] by (auto simp: setVictoriaMetricsControllerDefaultConfig_def intro: keeps_make keeps_ensure split: if_splits)
  qed
qed

lemma keeps_routers: "setVirtualRouterIdDefaults intn c = Some ps \<Longrightarrow> q \<in> set ps \<Longrightarrow> keeps c q"
  by (auto simp: setVirtualRouterIdDefaults_def setMasterVirtualRouterId_def setIngressVirtualRouterId_def
      intro!: keeps_extra split: if_splits option.splits prod.splits)

lemma config_map_keeps:
  assumes "setBKEClusterDefaultConfig env c cfg w = (w', Defaulted cfg')"
  shows "user_kept cfg cfg'"
proof (cases "\<exists>w1 data. GetBKEConfigCMData env w = (w1, Inr (Some data))")
  case False
  with assms have "cfg' = cfg" by (auto simp: setBKEClusterDefaultConfig_def split: prod.splits sum.splits option.splits)
  then show ?thesis by (simp add: user_kept_refl)
next
  case True
  let ?cfg0 = "cfg\<lparr>cs_customExtra := Some (or_zero (cs_customExtra cfg) [])\<rparr>"
  from True obtain w1 data where d: "GetBKEConfigCMData env w = (w1, Inr (Some data))" by blast
  obtain w2 ns where n: "default_nodes (we_fetcher env) c w1 = (w2, ns)" by fastforce
  define ctx where "ctx = \<lparr>dc_cluster = c, dc_config = ?cfg0, dc_data = data, dc_nodes = ns\<rparr>"
  from assms d n have "apply_defaults (we_random env) ctx = Defaulted cfg'" by (simp add: setBKEClusterDefaultConfig_def ctx_def)
  then obtain routers where ctx: "dc_config ctx = ?cfg0" "setVirtualRouterIdDefaults (we_random env) ctx = Some routers"
    and app: "apply_patches (setRepoDefaults ctx @ setNTPServerDefault ctx @ setContainerdDefault ctx @ setHostRelatedDefaults ctx @
      setAddonDefaults ctx @ routers) (dc_config ctx) = Some cfg'"
    by (auto simp: apply_defaults_def ctx_def split: option.splits)
  have "keeps ctx q" if "q \<in> set (setRepoDefaults ctx @ setNTPServerDefault ctx @ setContainerdDefault ctx @ setHostRelatedDefaults ctx @
      setAddonDefaults ctx @ routers)" for q
    using that keeps_fields(1,2) [of q ctx] keeps_host keeps_addons keeps_routers [OF ctx(2)] keeps_extra_default
    by (auto simp: setContainerdDefault_def split: if_splits)
  then have "user_kept (dc_config ctx) cfg'"
    using apply_patches_inv [OF app, of "user_kept (dc_config ctx)"] ctx(1) user_kept_refl unfolding keeps_def by metis
  then show ?thesis by (simp add: ctx(1) user_kept_def)
qed

lemma kept_trans: "kept a b \<Longrightarrow> kept b c \<Longrightarrow> kept a c"
  by (auto simp: kept_def)

lemma kept_repo_trans: "kept_repo r s \<Longrightarrow> kept_repo_values s u \<Longrightarrow> kept_repo_values r u"
  by (auto simp: kept_repo_def kept_repo_values_def kept_def)

lemma defaults_keep_config: "kept_config c (SetDefaultBKEConfig m c)"
  by (simp add: SetDefaultBKEConfig_def kept_config_def default_defs kept_repos kept_control_planes kept_kubelets kept_runtimes)
    (simp add: SetDefaultClusterNetworking_def)

text \<open>What the webhook may change of a given configuration: nothing that has a value, but for the proxy mode
  among the extra values, the address written into the add-on \<^verbatim>\<open>bocoperator\<close>, and the version of a
  cluster that is only managed.\<close>

definition given_kept :: "cluster_spec \<Rightarrow> cluster_spec \<Rightarrow> bool" where
  "given_kept u c \<longleftrightarrow> kept_repo_values (cs_httpRepo u) (cs_httpRepo c) \<and> kept_repo_values (cs_imageRepo u) (cs_imageRepo c) \<and>
     kept_repo_values (cs_chartRepo u) (cs_chartRepo c) \<and> kept (cs_ntpServer u) (cs_ntpServer c) \<and>
     kept (nw_podSubnet (cs_networking u)) (nw_podSubnet (cs_networking c)) \<and> kept (nw_serviceSubnet (cs_networking u)) (nw_serviceSubnet (cs_networking c)) \<and>
     kept (nw_dnsDomain (cs_networking u)) (nw_dnsDomain (cs_networking c)) \<and> list_all2 kept_addon (cs_addons u) (cs_addons c) \<and>
     (\<forall>k v. k \<noteq> ''proxyMode'' \<longrightarrow> map_of (or_zero (cs_customExtra u) []) k = Some v \<longrightarrow> map_of (or_zero (cs_customExtra c) []) k = Some v)"

lemma given_kept_compose:
  assumes "kept_config u c" "user_kept c d"
  shows "given_kept u d" "kept (cs_kubernetesVersion u) (cs_kubernetesVersion d)"
proof -
  have r: "kept_repo (cs_httpRepo u) (cs_httpRepo c)" "kept_repo (cs_imageRepo u) (cs_imageRepo c)" "kept_repo (cs_chartRepo u) (cs_chartRepo c)"
    using assms(1) by (simp_all add: kept_config_def)
  have s: "kept_repo_values (cs_httpRepo c) (cs_httpRepo d)" "kept_repo_values (cs_imageRepo c) (cs_imageRepo d)" "kept_repo_values (cs_chartRepo c) (cs_chartRepo d)"
    using assms(2) by (simp_all add: user_kept_def)
  show "given_kept u d"
    using assms r [THEN kept_repo_trans] s by (auto simp: given_kept_def user_kept_def kept_config_def)
  show "kept (cs_kubernetesVersion u) (cs_kubernetesVersion d)"
    using assms by (simp add: user_kept_def kept_config_def)
qed

lemma annotation_defaults_spec [simp]: "bc_spec (SetBKEClusterDefaultAnnotation c) = bc_spec c"
proof -
  have "bc_spec (fold set_default kvs c) = bc_spec c" for kvs
    by (induction kvs arbitrary: c) (auto simp: set_default_def SetAnnotation_def split: option.splits)
  then show ?thesis by (simp add: SetBKEClusterDefaultAnnotation_def)
qed

lemma set_spec_simps [simp]: "bc_spec (set_spec f c) = f (bc_spec c)" "bc_annotations (set_spec f c) = bc_annotations c"
  "bc_name (set_spec f c) = bc_name c" "bc_namespace (set_spec f c) = bc_namespace c"
  by (simp_all add: set_spec_def)

lemma kinds_set_spec [simp]: "IsBKECluster (set_spec f c) = IsBKECluster c" "ClusterInfoHasCollected (set_spec f c) = ClusterInfoHasCollected c"
  "HasAnnotation (set_spec f c) k = HasAnnotation c k"
  by (simp_all add: IsBKECluster_def ClusterInfoHasCollected_def has_collected_def HasAnnotation_def)

text \<open>The result of the webhook in its parts.\<close>

lemma cluster_Default_parts:
  assumes "cluster_Default env c w = (w', Defaulted c')"
  obtains w1 w2 cfg1 c1 ns where
    "setBKEClusterDefaultConfig env (set_spec (\<lambda>s. s\<lparr>bs_clusterConfig := Some (SetDefaultBKEConfig (we_manifest env) (or_zero (bs_clusterConfig (bc_spec c)) zero_config))\<rparr>) c)
       (SetDefaultBKEConfig (we_manifest env) (or_zero (bs_clusterConfig (bc_spec c)) zero_config)) w = (w1, Defaulted cfg1)"
    "c1 = SetBKEClusterDefaultAnnotation (set_spec (\<lambda>s. s\<lparr>bs_clusterConfig := Some cfg1\<rparr>) c)"
    "c' = set_spec (\<lambda>s. s\<lparr>bs_controlPlaneEndpoint := precheck_endpoint c1 ns (default_endpoint ns (bs_controlPlaneEndpoint (bc_spec c))),
       bs_clusterConfig := Some (if \<not> IsBKECluster c1 \<and> \<not> ClusterInfoHasCollected c1 then cfg1\<lparr>cs_kubernetesVersion := []\<rparr> else cfg1)\<rparr>) c1"
    "getNodesForBKEClusterDirect env c1 w1 = (w', Inr ns) \<or> ns = []"
proof -
  let ?cfg = "SetDefaultBKEConfig (we_manifest env) (or_zero (bs_clusterConfig (bc_spec c)) zero_config)"
  let ?c0 = "set_spec (\<lambda>s. s\<lparr>bs_clusterConfig := Some ?cfg\<rparr>) c"
  obtain w1 r where s: "setBKEClusterDefaultConfig env ?c0 ?cfg w = (w1, r)" by fastforce
  then obtain cfg1 where r: "r = Defaulted cfg1" using assms by (cases r) (auto simp: cluster_Default_def Let_def)
  let ?c1 = "SetBKEClusterDefaultAnnotation (set_spec (\<lambda>s. s\<lparr>bs_clusterConfig := Some cfg1\<rparr>) ?c0)"
  have c1: "?c1 = SetBKEClusterDefaultAnnotation (set_spec (\<lambda>s. s\<lparr>bs_clusterConfig := Some cfg1\<rparr>) c)" by (simp add: set_spec_def)
  obtain w2 ns where n: "(case getNodesForBKEClusterDirect env ?c1 w1 of (w2, Inl _) \<Rightarrow> (w2, []) | (w2, Inr ns) \<Rightarrow> (w2, ns)) = (w2, ns)" by fastforce
  have "w' = w2 \<and> c' = set_spec (\<lambda>s. s\<lparr>bs_controlPlaneEndpoint := precheck_endpoint ?c1 ns (default_endpoint ns (bs_controlPlaneEndpoint (bc_spec ?c1))),
      bs_clusterConfig := Some (if \<not> IsBKECluster ?c1 \<and> \<not> ClusterInfoHasCollected ?c1 then cfg1\<lparr>cs_kubernetesVersion := []\<rparr> else cfg1)\<rparr>) ?c1"
    using assms s r n by (simp add: cluster_Default_def Let_def)
  moreover have "getNodesForBKEClusterDirect env ?c1 w1 = (w2, Inr ns) \<or> ns = []" using n by (auto split: prod.splits sum.splits)
  ultimately show ?thesis using that [OF s [unfolded r] c1] by simp
qed

text \<open>Whatever the configuration map says, the defaulting webhook overwrites nothing the user gave: all
  values of repositories, networking, add-on parameters and extra values stay, but for the proxy
  mode and the address of the \<^verbatim>\<open>bocoperator\<close>; the version of a cluster of the provider stays too.\<close>

theorem Default_keeps_given:
  assumes "cluster_Default env c w = (w', Defaulted c')" and "bs_clusterConfig (bc_spec c) = Some u"
  shows "\<exists>d. bs_clusterConfig (bc_spec c') = Some d \<and> given_kept u d \<and>
    (IsBKECluster c' \<longrightarrow> kept (cs_kubernetesVersion u) (cs_kubernetesVersion d))"
proof -
  obtain w1 w2 cfg1 c1 ns where p: "setBKEClusterDefaultConfig env (set_spec (\<lambda>s. s\<lparr>bs_clusterConfig := Some (SetDefaultBKEConfig (we_manifest env) u)\<rparr>) c)
       (SetDefaultBKEConfig (we_manifest env) u) w = (w1, Defaulted cfg1)"
    and c': "c' = set_spec (\<lambda>s. s\<lparr>bs_controlPlaneEndpoint := precheck_endpoint c1 ns (default_endpoint ns (bs_controlPlaneEndpoint (bc_spec c))),
       bs_clusterConfig := Some (if \<not> IsBKECluster c1 \<and> \<not> ClusterInfoHasCollected c1 then cfg1\<lparr>cs_kubernetesVersion := []\<rparr> else cfg1)\<rparr>) c1"
    using cluster_Default_parts [OF assms(1)] assms(2) by (metis or_zero_simps(2))
  have k: "given_kept u cfg1" "kept (cs_kubernetesVersion u) (cs_kubernetesVersion cfg1)"
    using given_kept_compose [OF defaults_keep_config config_map_keeps [OF p]] .
  have "given_kept u (cfg1\<lparr>cs_kubernetesVersion := []\<rparr>)" using k(1) by (simp add: given_kept_def)
  with k c' show ?thesis by auto
qed

definition given_config :: cluster_spec where
  "given_config = zero_config\<lparr>cs_kubernetesVersion := ''v1.30.0'', cs_customExtra := Some [(''host'', ''10.9.9.9'')]\<rparr>"

definition given_cluster :: bke_cluster where
  "given_cluster = set_spec (\<lambda>s. s\<lparr>bs_clusterConfig := Some given_config\<rparr>) (blank_cluster ''ns'' ''c'')"

theorem Default_keeps_given_witness:
  "\<exists>c' d. cluster_Default host_env given_cluster () = ((), Defaulted c') \<and> bs_clusterConfig (bc_spec c') = Some d \<and>
     map_of (or_zero (cs_customExtra d) []) ''host'' = Some ''10.9.9.9'' \<and> map_of (or_zero (cs_customExtra d) []) ''nfsServer'' = Some ''10.0.0.1''"
proof -
  have "case snd (cluster_Default host_env given_cluster ()) of
      Defaulted c' \<Rightarrow> (case bs_clusterConfig (bc_spec c') of None \<Rightarrow> False | Some d \<Rightarrow> map_of (or_zero (cs_customExtra d) []) ''nfsServer'' = Some ''10.0.0.1'')
    | _ \<Rightarrow> False" by code_simp
  then obtain c' d where c': "cluster_Default host_env given_cluster () = ((), Defaulted c')" "bs_clusterConfig (bc_spec c') = Some d"
      "map_of (or_zero (cs_customExtra d) []) ''nfsServer'' = Some ''10.0.0.1''"
    by (cases "cluster_Default host_env given_cluster ()") (auto split: webhook_run.splits option.splits)
  have "bs_clusterConfig (bc_spec given_cluster) = Some given_config" by (simp add: given_cluster_def)
  from Default_keeps_given [OF c'(1) this] c' have "given_kept given_config d" by auto
  moreover have "map_of (or_zero (cs_customExtra given_config) []) ''host'' = Some ''10.9.9.9''" by (simp add: given_config_def)
  ultimately have "map_of (or_zero (cs_customExtra d) []) ''host'' = Some ''10.9.9.9''" unfolding given_kept_def by auto
  with c' show ?thesis by blast
qed

end
