(* ===== verification/Cluster_Admission.thy ===== *)
theory Cluster_Admission
  imports Admission_Defaults
begin

text \<open>
  The validating webhook of clusters: \<^verbatim>\<open>ValidateCreate\<close> and \<^verbatim>\<open>ValidateUpdate\<close> of
  \<^verbatim>\<open>webhooks/capbke/bkecluster.go\<close>. The encoding of an object as JSON and the difference of two
  documents as a merge patch are parameters, and so is the reading of versions; other clusters and
  nodes are read through clients as in the rest of the webhooks. A nil configuration, which the
  defaulting webhook rules out, would be a panic.

  The results: an update that is admitted keeps the endpoint, the kind and the networking of a cluster,
  and lowers no version; the nodes and the endpoint of a cluster that is admitted belong to no other
  cluster it is compared with, and which clusters it is not compared with; the replicas that are
  admitted fit the nodes, the wrap-around of their product included; an endpoint that is admitted is
  an address with a port.
\<close>

section \<open>Definitions\<close>

record ('w, 'v) admission_env =
  ad_nodes :: "'w node_api"
  ad_clusters :: "'w \<Rightarrow> 'w \<times> (api_error + bke_cluster list)"
  ad_val :: "'v val_env"
  ad_version :: "'v semver"
  ad_json :: "bke_cluster \<Rightarrow> json"
  ad_patch :: "json \<Rightarrow> json \<Rightarrow> json option"

text \<open>A check may read and refuse; the first refusal counts.\<close>

type_synonym 'w check = "'w \<Rightarrow> 'w \<times> admission_error option"

fun checks :: "'w check list \<Rightarrow> 'w check" where
  "checks [] w = (w, None)"
| "checks (p # ps) w = (case p w of (w', Some e) \<Rightarrow> (w', Some e) | (w', None) \<Rightarrow> checks ps w')"

definition pure_check :: "admission_error option \<Rightarrow> 'w check" where
  "pure_check r w = (w, r)"

definition read_check :: "('w, 'a) node_read \<Rightarrow> (api_error \<Rightarrow> admission_error) \<Rightarrow> ('a \<Rightarrow> 'w check) \<Rightarrow> 'w check" where
  "read_check r wrap k w = (case r w of (w', Inl e) \<Rightarrow> (w', Some (wrap e)) | (w', Inr x) \<Rightarrow> k x w')"

subsection \<open>Replicas\<close>

(* src: webhooks/capbke/bkecluster.go 246-254 validateCreateParams (labels) *)
definition vm_labels :: "string list" where
  "vm_labels = [''vmstorage'', ''vminsert'', ''vmselect'', ''vmagent'', ''vmalert'', ''vmalertmanager'', ''kube-state-metrics'']"

text \<open>A node counts once per label with the value.\<close>

(* src: webhooks/capbke/bkecluster.go 256-265 validateCreateParams (count) *)
definition usable_nodes :: "nodes \<Rightarrow> string \<Rightarrow> nat" where
  "usable_nodes ns v = (if v \<in> set vm_labels then length (filter (\<lambda>l. lb_value l = v) (concat (map ns_labels ns))) else 0)"

(* src: webhooks/capbke/bkecluster.go 304-316 validateBasicVMComponents (components) *)
definition vm_components :: "(string \<times> string) list" where
  "vm_components = [(''vmstorage'', ''vmStorageReplicaCount''), (''vminsert'', ''vmInsertReplicaCount''), (''vmselect'', ''vmSelectReplicaCount''),
     (''vmagent'', ''vmAgentReplicaCount''), (''vmagent'', ''vmAgentShareCount''), (''vmalert'', ''vmAlertReplicaCount''),
     (''vmalertmanager'', ''vmAlertManagerReplicaCount''), (''kube-state-metrics'', ''kubeStateMetricsReplicaCount'')]"

(* src: webhooks/capbke/bkecluster.go 300-348 BKECluster.validateBasicVMComponents *)
definition validateBasicVMComponents :: "string gomap \<Rightarrow> (string \<Rightarrow> nat) \<Rightarrow> (string \<times> string) list" where
  "validateBasicVMComponents param available =
     concat (map (\<lambda>(name, fld).
       case map_of param fld of
         None \<Rightarrow> []
       | Some s \<Rightarrow>
           (case Atoi s of
              None \<Rightarrow> [(fld, name @ '' replica count must be a valid integer'')]
            | Some r \<Rightarrow> if r < 1 then [(fld, name @ '' replica count must be at least 1'')]
                        else if int (available name) < r
                        then [(fld, name @ '' requires '' @ Itoa r @ '' '' @ fld @ '' but only '' @ Itoa (int (available name)) @ '' nodes can be used'')]
                        else [])) vm_components)"

text \<open>The product of two 64-bit integers.\<close>

definition int_times :: "int \<Rightarrow> int \<Rightarrow> int" where
  "int_times a b = sint (word_of_int (a * b) :: 64 word)"

(* src: webhooks/capbke/bkecluster.go 351-382 BKECluster.validateVMAgentSpecialRule *)
definition validateVMAgentSpecialRule :: "string gomap \<Rightarrow> (string \<Rightarrow> nat) \<Rightarrow> (string \<times> string) list" where
  "validateVMAgentSpecialRule param available =
     (case (map_of param ''vmAgentReplicaCount'', map_of param ''vmAgentShareCount'') of
        (Some replicaStr, Some shareStr) \<Rightarrow>
          (case Atoi replicaStr of
             None \<Rightarrow> [(''vmAgentReplicaCount'', ''vmAgentReplicaCount must be a valid integer'')]
           | Some replicas \<Rightarrow>
               (case Atoi shareStr of
                  None \<Rightarrow> [(''vmAgentShareCount'', ''vmAgentShareCount must be a valid integer'')]
                | Some share \<Rightarrow>
                    if int (available ''vmagent'') < int_times replicas share
                    then [(''vmAgentShareCount'', ''vmagent requires '' @ Itoa (int_times replicas share) @ '' total instances (replicas:'' @ Itoa replicas @ '' share:'' @ Itoa share @
                            '') but only '' @ Itoa (int (available ''vmagent'')) @ '' nodes available'')] else []))
      | _ \<Rightarrow> [])"

(* src: webhooks/capbke/bkecluster.go 283-297 BKECluster.validateVictoriaMetricsReplicas *)
definition validateVictoriaMetricsReplicas :: "product \<Rightarrow> (string \<Rightarrow> nat) \<Rightarrow> (string \<times> string) list" where
  "validateVictoriaMetricsReplicas p available =
     (let param = or_zero (pr_param p) [] in
      if map_of param ''useVMSingle'' = Some ''true'' then []
      else validateBasicVMComponents param available @ validateVMAgentSpecialRule param available)"

(* src: webhooks/capbke/bkecluster.go 239-281 BKECluster.validateCreateParams *)
definition validateCreateParams :: "('w, 'v) admission_env \<Rightarrow> bke_cluster \<Rightarrow> 'w check" where
  "validateCreateParams env c =
     read_check (GetNodesForBKECluster (ad_nodes env) c) InternalError (\<lambda>ns.
       case bs_clusterConfig (bc_spec c) of
         None \<Rightarrow> pure_check (Some AdmissionPanic)
       | Some cfg \<Rightarrow>
           let errs = concat (map (\<lambda>p. if pr_name p = ''victoriametrics-controller'' then validateVictoriaMetricsReplicas p (usable_nodes ns) else []) (cs_addons cfg))
           in pure_check (if errs \<noteq> [] then Some (InvalidFields errs) else None))"

subsection \<open>Other clusters\<close>

definition ns_name :: "bke_cluster \<Rightarrow> string" where
  "ns_name c = bc_namespace c @ ''/'' @ bc_name c"

(* src: webhooks/capbke/bkecluster.go 405-430 ValidateBKEClustersNodesUnique (loop) *)
fun conflicts :: "'w node_api \<Rightarrow> bke_cluster \<Rightarrow> nodes \<Rightarrow> bke_cluster list \<Rightarrow> 'w \<Rightarrow> 'w \<times> string list" where
  "conflicts api c inNodes [] w = (w, [])"
| "conflicts api c inNodes (bc # bcs) w =
     (if bc_name bc = bc_name c \<or> \<not> IsBKECluster bc then conflicts api c inNodes bcs w
      else let hostErr = (if ep_host (bs_controlPlaneEndpoint (bc_spec bc)) = ep_host (bs_controlPlaneEndpoint (bc_spec c))
                          then [''cluster '' @ bc_name bc @ '' controlPlaneEndpoint host '' @ ep_host (bs_controlPlaneEndpoint (bc_spec c)) @
                                '' is equal with cluster '' @ bc_name c @ '' controlPlaneEndpoint host''] else [])
           in case GetNodesForBKECluster api bc w of
                (w', Inl _) \<Rightarrow> (case conflicts api c inNodes bcs w' of (w'', es) \<Rightarrow> (w'', hostErr @ es))
              | (w', Inr bcNodes) \<Rightarrow>
                  let nodeErrs = concat (map (\<lambda>n. if nodes_Filter bcNodes [(''IP'', ns_ip n)] \<noteq> []
                                   then [''Node '' @ ns_ip n @ '' is configured in both BKECluster '' @ ns_name c @ '' and BKECluster '' @ ns_name bc] else []) inNodes)
                  in (case conflicts api c inNodes bcs w' of (w'', es) \<Rightarrow> (w'', hostErr @ nodeErrs @ es)))"

(* src: webhooks/capbke/bkecluster.go 384-440 BKECluster.ValidateBKEClustersNodesUnique *)
definition ValidateBKEClustersNodesUnique :: "('w, 'v) admission_env \<Rightarrow> bke_cluster \<Rightarrow> 'w check" where
  "ValidateBKEClustersNodesUnique env c =
     (if \<not> IsBKECluster c then pure_check None
      else read_check (ad_clusters env) InternalError (\<lambda>bcs.
             read_check (GetNodesForBKECluster (ad_nodes env) c) InternalError (\<lambda>inNodes w.
               case conflicts (ad_nodes env) c inNodes bcs w of (w', errs) \<Rightarrow> (w', if errs \<noteq> [] then Some (ApplyConflict errs) else None))))"

(* src: webhooks/capbke/bkecluster.go 443-464 BKECluster.ValidateControlPlaneEndpoint *)
definition ValidateControlPlaneEndpoint :: "bke_cluster \<Rightarrow> admission_error option" where
  "ValidateControlPlaneEndpoint c =
     (let ep = bs_controlPlaneEndpoint (bc_spec c) in
      if ep_host ep \<noteq> [] \<and> ParseIP (ep_host ep) = None then Some (InvalidFields [(''Spec.ControlPlaneEndpoint.Host'', ''Host must be a valid IP string'')])
      else if endpoint_IsZero ep then Some (InvalidFields [(''Spec.ControlPlaneEndpoint'', ''Host and Port must be set'')])
      else if ep_host ep \<noteq> [] \<and> ep_port ep = 0 then Some (InvalidFields [(''Spec.ControlPlaneEndpoint.Port'', ''Port must be set'')])
      else if ep_host ep = [] \<and> ep_port ep \<noteq> 0 then Some (InvalidFields [(''Spec.ControlPlaneEndpoint.Host'', ''Host must be set'')])
      else if ep_port ep < 0 \<or> ep_port ep > 65535
      then Some (InvalidFields [(''Spec.ControlPlaneEndpoint.Port'', ''port can only be an integer between 0 and 65535'')])
      else None)"

text \<open>The roles by address, as a map from addresses to descriptions.\<close>

(* src: webhooks/capbke/bkecluster.go 478-491 validateImmutableOSConstraints (roles) *)
definition pure_roles :: "nodes \<Rightarrow> string list gomap" where
  "pure_roles ns =
     fold (\<lambda>n m. if IsMasterWorker n then m
                  else let m1 = (if IsMaster n then AList.update (ns_ip n) (get_or [] m (ns_ip n) @ [''master('' @ ns_hostname n @ '')'']) m else m)
                       in if IsWorker n then AList.update (ns_ip n) (get_or [] m1 (ns_ip n) @ [''worker('' @ ns_hostname n @ '')'']) m1 else m1) ns []"

(* src: webhooks/capbke/bkecluster.go 468-504 BKECluster.validateImmutableOSConstraints *)
definition validateImmutableOSConstraints :: "('w, 'v) admission_env \<Rightarrow> bke_cluster \<Rightarrow> 'w check" where
  "validateImmutableOSConstraints env c =
     (if \<not> IsImmutableOSMode (Some c) then pure_check None
      else read_check (GetNodesForBKECluster (ad_nodes env) c) InternalError (\<lambda>ns.
             pure_check (case find (\<lambda>(ip, roles). length roles > 1) (pure_roles ns) of
               None \<Rightarrow> None
             | Some (ip, roles) \<Rightarrow> Some (Forbidden (''immutable OS mode does not allow the same node '' @ ip @ '' to be assigned as both master and worker'')))))"

definition config_check :: "string option \<Rightarrow> admission_error option" where
  "config_check r = map_option (\<lambda>e. BadRequest (''invalide Spec.ClusterConfig, '' @ e)) r"

definition with_config :: "bke_cluster \<Rightarrow> (cluster_spec \<Rightarrow> admission_error option) \<Rightarrow> 'w check" where
  "with_config c f = pure_check (case bs_clusterConfig (bc_spec c) of None \<Rightarrow> Some AdmissionPanic | Some cfg \<Rightarrow> f cfg)"

(* src: webhooks/capbke/bkecluster.go 194-232 BKECluster.ValidateCreate *)
definition cluster_ValidateCreate :: "('w, 'v) admission_env \<Rightarrow> bke_cluster \<Rightarrow> 'w check" where
  "cluster_ValidateCreate env c =
     checks
       ([validateCreateParams env c, ValidateBKEClustersNodesUnique env c] @
        (if \<not> IsBKECluster c
         then [pure_check (if bs_dryRun (bc_spec c) then Some (Forbidden (''BKECluster '' @ bc_name c @ '' is not 'bke' type cluster, not support dryRun'')) else None)]
         else [with_config c (\<lambda>cfg. config_check (ValidateBKEConfig (ad_val env) cfg)),
               pure_check (ValidateControlPlaneEndpoint c),
               validateImmutableOSConstraints env c]))"

subsection \<open>Versions\<close>

text \<open>The checks of the two versions differ in their messages and in the least version of Kubernetes.\<close>

(* src: api/capbke/v1beta1/bkecluster_consts.go 36-36 ExpectMinK8sVersion *)
definition ExpectMinK8sVersion :: string where
  "ExpectMinK8sVersion = ''v1.27.0''"

(* src: webhooks/capbke/bkecluster.go 656-682 BKECluster.validateNodeAgentStatus *)
definition validateNodeAgentStatus :: "('w, 'v) admission_env \<Rightarrow> bke_cluster \<Rightarrow> 'w check" where
  "validateNodeAgentStatus env c =
     read_check (GetBKENodesWrapperForCluster (ad_nodes env) c) InternalError (\<lambda>bns.
       let errs = concat (map (\<lambda>n. let ip = ns_ip (bn_spec n) in
                    if GetNodeStateFlag bns ip NodeFailedFlag then []
                    else if \<not> GetNodeStateFlag bns ip NodeAgentReadyFlag then [''node '' @ ip @ '' BKEAgent is not alive, cannot be upgraded''] else []) bns)
       in pure_check (if errs \<noteq> [] then Some (Forbidden (concat errs)) else None))"

(* src: webhooks/capbke/bkecluster.go 685-697 BKECluster.validateCommonUpgradeability *)
definition validateCommonUpgradeability :: "('w, 'v) admission_env \<Rightarrow> bke_cluster \<Rightarrow> 'w check" where
  "validateCommonUpgradeability env new =
     (if st_clusterHealthState (bc_status new) \<noteq> ''Healthy''
      then pure_check (Some (Forbidden (''BKECluster '' @ bc_name new @ '' is not in a ready state and cannot be upgraded'')))
      else validateNodeAgentStatus env new)"

(* src: webhooks/capbke/bkecluster.go 540-581 BKECluster.validateKubernetesVersionUpgrade *)
definition validateKubernetesVersionUpgrade :: "'v semver \<Rightarrow> bke_cluster \<Rightarrow> bke_cluster \<Rightarrow> 'v \<Rightarrow> 'v \<Rightarrow> admission_error option" where
  "validateKubernetesVersionUpgrade lib new old fromVersion toVersion =
     (if sem_compare lib toVersion fromVersion < 0
      then Some (InvalidFields [(''spec.clusterConfig.cluster.kubernetesVersion'', ''new kubernetes version is lower than old kubernetes version, that is not allowed'')])
      else if IsOtherCluster new \<or> IsOtherCluster old
      then Some (InternalError (ErrMsg (''BKECluster '' @ bc_name new @ '' is 'other' type cluster, not support upgrade kubernetes version'')))
      else if sem_compare lib toVersion (the (sem_parse lib ExpectMinK8sVersion)) < 0
      then Some (InvalidFields [(''spec.clusterConfig.cluster.kubernetesVersion'', ''new kubernetes version is lower than expect min kubernetes version, that is not allowed'')])
      else None)"

(* src: webhooks/capbke/bkecluster.go 623-653 BKECluster.validateEtcdVersionUpgrade *)
definition validateEtcdVersionUpgrade :: "'v semver \<Rightarrow> bke_cluster \<Rightarrow> bke_cluster \<Rightarrow> 'v \<Rightarrow> 'v \<Rightarrow> admission_error option" where
  "validateEtcdVersionUpgrade lib new old fromVersion toVersion =
     (if sem_compare lib toVersion fromVersion < 0
      then Some (InvalidFields [(''spec.clusterConfig.cluster.etcdVersion'', ''new etcd version is lower than old etcd version, that is not allowed'')])
      else if IsOtherCluster new \<or> IsOtherCluster old
      then Some (InternalError (ErrMsg (''BKECluster '' @ bc_name new @ '' is 'other' type cluster, not support upgrade etcd version'')))
      else None)"

(* src: webhooks/capbke/bkecluster.go 584-587 BKECluster.validateKubernetesClusterUpgradeability *)
definition validateKubernetesClusterUpgradeability :: "('w, 'v) admission_env \<Rightarrow> bke_cluster \<Rightarrow> 'w check" where
  "validateKubernetesClusterUpgradeability env new = validateCommonUpgradeability env new"

(* src: webhooks/capbke/bkecluster.go 700-703 BKECluster.validateEtcdClusterUpgradeability *)
definition validateEtcdClusterUpgradeability :: "('w, 'v) admission_env \<Rightarrow> bke_cluster \<Rightarrow> 'w check" where
  "validateEtcdClusterUpgradeability env new = validateCommonUpgradeability env new"

text \<open>The new configuration is only looked at when the old version can be read.\<close>

definition version_update :: "'v semver \<Rightarrow> (cluster_spec \<Rightarrow> string) \<Rightarrow> bke_cluster \<Rightarrow> bke_cluster \<Rightarrow> ('v \<Rightarrow> 'v \<Rightarrow> 'w check) \<Rightarrow> 'w check" where
  "version_update lib version new old rules =
     (case bs_clusterConfig (bc_spec old) of
        None \<Rightarrow> pure_check (Some AdmissionPanic)
      | Some ol \<Rightarrow>
          if version ol = [] then pure_check None
          else (case sem_parse lib (version ol) of
                  None \<Rightarrow> pure_check (Some (InternalError (ErrMsg (''parse version '' @ version ol @ '' failed''))))
                | Some fromVersion \<Rightarrow>
                    (case bs_clusterConfig (bc_spec new) of
                       None \<Rightarrow> pure_check (Some AdmissionPanic)
                     | Some nw \<Rightarrow>
                         (case sem_parse lib (version nw) of
                            None \<Rightarrow> pure_check (Some (InternalError (ErrMsg (''parse version '' @ version nw @ '' failed''))))
                          | Some toVersion \<Rightarrow> if sem_compare lib toVersion fromVersion = 0 then pure_check None else rules fromVersion toVersion))))"

(* src: webhooks/capbke/bkecluster.go 507-537 BKECluster.validateVersionUpdate *)
definition validateVersionUpdate :: "('w, 'v) admission_env \<Rightarrow> bke_cluster \<Rightarrow> bke_cluster \<Rightarrow> 'w check" where
  "validateVersionUpdate env new old =
     version_update (ad_version env) cs_kubernetesVersion new old (\<lambda>fromVersion toVersion.
       checks [pure_check (validateKubernetesVersionUpgrade (ad_version env) new old fromVersion toVersion), validateKubernetesClusterUpgradeability env new])"

(* src: webhooks/capbke/bkecluster.go 590-620 BKECluster.validateEtcdVersionUpdate *)
definition validateEtcdVersionUpdate :: "('w, 'v) admission_env \<Rightarrow> bke_cluster \<Rightarrow> bke_cluster \<Rightarrow> 'w check" where
  "validateEtcdVersionUpdate env new old =
     version_update (ad_version env) cs_etcdVersion new old (\<lambda>fromVersion toVersion.
       checks [pure_check (validateEtcdVersionUpgrade (ad_version env) new old fromVersion toVersion), validateEtcdClusterUpgradeability env new])"

(* src: webhooks/capbke/bkecluster.go 706-720 BKECluster.validateDryRun *)
definition validateDryRun :: "bke_cluster \<Rightarrow> bke_cluster \<Rightarrow> admission_error option" where
  "validateDryRun new old =
     (if (bs_dryRun (bc_spec new) \<or> bs_dryRun (bc_spec old)) \<and> \<not> IsBKECluster new
      then Some (Forbidden (''BKECluster '' @ bc_name new @ '' is '' @ GetClusterType new @ '' type cluster, not support dryRun'')) else None)"

subsection \<open>Fields\<close>

(* src: webhooks/capbke/bkecluster.go 52-56 notAllowedPaths *)
definition notAllowedPaths :: "string list list" where
  "notAllowedPaths = [[''metadata'', ''annotations'', ''bke.bocloud.com/cluster-from''], [''spec'', ''controlPlaneEndpoint'', ''*''],
     [''spec'', ''clusterConfig'', ''cluster'', ''networking'', ''*'']]"

(* src: webhooks/capbke/bkecluster.go 57-60 nonStandNotAllowedPaths *)
definition nonStandNotAllowedPaths :: "string list list" where
  "nonStandNotAllowedPaths = [[''metadata'', ''annotations'', ''bke.bocloud.com/cluster-from''], [''spec'', ''controlPlaneEndpoint'', ''*'']]"

(* src: webhooks/capbke/bkecluster.go 826-845 extractPaths *)
fun extractPaths :: "string list \<Rightarrow> (string \<times> json) list \<Rightarrow> string list list" where
  "extractPaths currentPath [] = []"
| "extractPaths currentPath ((key, JObj nested) # rest) = extractPaths (currentPath @ [key]) nested @ extractPaths currentPath rest"
| "extractPaths currentPath ((key, v) # rest) = (currentPath @ [key]) # extractPaths currentPath rest"

(* src: webhooks/capbke/bkecluster.go 856-870 pathsMatch (loop) *)
fun match_from :: "string list \<Rightarrow> string list \<Rightarrow> bool" where
  "match_from pattern [] = (pattern = [])"
| "match_from [] (a # actual) = False"
| "match_from (p # pattern) (a # actual) = (p = ''*'' \<or> (a = p \<and> match_from pattern actual))"

(* src: webhooks/capbke/bkecluster.go 848-875 pathsMatch *)
definition pathsMatch :: "string list \<Rightarrow> string list \<Rightarrow> bool" where
  "pathsMatch pattern actual \<longleftrightarrow> pattern \<noteq> [] \<and> actual \<noteq> [] \<and> match_from pattern actual"

(* src: webhooks/capbke/bkecluster.go 816-823 isPathNotAllowed *)
definition isPathNotAllowed :: "string list list \<Rightarrow> string list \<Rightarrow> bool" where
  "isPathNotAllowed patterns path \<longleftrightarrow> list_ex (\<lambda>p. pathsMatch p path) patterns"

text \<open>The patch is read back into a map: a patch that is no object is an error, a null an empty map.\<close>

(* src: webhooks/capbke/bkecluster.go 763-813 BKECluster.validateFieldUpdate *)
definition validateFieldUpdate :: "('w, 'v) admission_env \<Rightarrow> bke_cluster \<Rightarrow> bke_cluster \<Rightarrow> string list list \<Rightarrow> admission_error option" where
  "validateFieldUpdate env new old patterns =
     (case ad_patch env (ad_json env old) (ad_json env new) of
        None \<Rightarrow> Some (InternalError (ErrMsg ''merge patch''))
      | Some d \<Rightarrow>
          if \<not> is_obj d \<and> d \<noteq> JNull then Some (InternalError (ErrMsg ''unmarshal''))
          else let bad = filter (\<lambda>path. path \<noteq> [] \<and> isPathNotAllowed patterns path) (extractPaths [] (members d))
               in if bad \<noteq> [] then Some (InvalidFields (map (\<lambda>path. (concat path, ''cannot be modified'')) bad)) else None)"

(* src: webhooks/capbke/bkecluster.go 722-750 BKECluster.validateStandBKECluster *)
definition validateStandBKECluster :: "('w, 'v) admission_env \<Rightarrow> bke_cluster \<Rightarrow> bke_cluster \<Rightarrow> 'w check" where
  "validateStandBKECluster env new old =
     checks
       [pure_check (validateFieldUpdate env new old notAllowedPaths),
        validateVersionUpdate env new old,
        validateEtcdVersionUpdate env new old,
        pure_check (validateDryRun new old),
        with_config new (\<lambda>cfg. config_check (if IsBKECluster new then ValidateBKEConfig (ad_val env) cfg else ValidateNonStandardBKEConfig (ad_val env) cfg))]"

(* src: webhooks/capbke/bkecluster.go 752-760 BKECluster.validateNonStandBKECluster *)
definition validateNonStandBKECluster :: "('w, 'v) admission_env \<Rightarrow> bke_cluster \<Rightarrow> bke_cluster \<Rightarrow> 'w check" where
  "validateNonStandBKECluster env new old =
     checks
       [pure_check (validateFieldUpdate env new old nonStandNotAllowedPaths),
        with_config new (\<lambda>cfg. config_check (ValidateNonStandardBKEConfig (ad_val env) cfg))]"

(* src: webhooks/capbke/bkecluster.go 157-191 BKECluster.ValidateUpdate *)
definition cluster_ValidateUpdate :: "('w, 'v) admission_env \<Rightarrow> bke_cluster \<Rightarrow> bke_cluster \<Rightarrow> 'w check" where
  "cluster_ValidateUpdate env old new =
     (if at_precheck new then pure_check None
      else if st_clusterHealthState (bc_status new) = ''Deploying'' \<and> st_clusterStatus (bc_status new) = ''DeployingAddon'' \<and> bs_pause (bc_spec new)
      then pure_check (Some (Refused ''The cluster is deploying addon and cannot set pause''))
      else if FullyControlled new then validateStandBKECluster env new old
      else validateNonStandBKECluster env new old)"

section \<open>Protected fields\<close>

lemma checks_None: "checks (p # ps) w = (w', None) \<longleftrightarrow> (\<exists>u. p w = (u, None) \<and> checks ps u = (w', None))"
  by (auto split: prod.splits option.splits)

lemma checks_Nil: "checks [] w = (w', None) \<longleftrightarrow> w' = w"
  by auto

lemma pure_check_None: "pure_check r w = (w', None) \<longleftrightarrow> w' = w \<and> r = None"
  by (auto simp: pure_check_def)

declare checks.simps [simp del]

lemmas check_simps = checks_None checks_Nil pure_check_None

lemma leaf_path: "\<not> is_obj v \<Longrightarrow> patch_leaf v q \<longleftrightarrow> q = []"
  by (cases q) simp_all

lemma patch_leaf_extracted: "patch_leaf (JObj m) q \<Longrightarrow> q \<noteq> [] \<Longrightarrow> cur @ q \<in> set (extractPaths cur m)"
proof (induction cur m arbitrary: q rule: extractPaths.induct)
  case (2 cur key nested rest)
  obtain k q' where q: "q = k # q'" using 2(4) by (cases q) auto
  show ?case
  proof (cases "k = key")
    case True
    with 2(3) q have l: "patch_leaf (JObj nested) q'" by simp
    then have "q' \<noteq> []" by (cases q') auto
    with 2(1) [OF l] q True show ?thesis by simp
  next
    case False
    with 2(3) q have "patch_leaf (JObj rest) q" by simp
    with 2(2) [OF this 2(4)] show ?thesis by simp
  qed
qed (auto simp: neq_Nil_conv leaf_path split: if_splits option.splits)

lemma patch_leaf_view: "patch_leaf p r \<Longrightarrow> patched_view t p r \<noteq> Some VObj"
proof (induction r arbitrary: t p)
  case Nil
  then show ?case by (simp add: view_of_def)
next
  case (Cons k r)
  then have "is_obj p" by (cases "is_obj p") auto
  with Cons show ?case by (auto simp: Let_def split: option.splits)
qed

lemma field_unchanged:
  assumes new: "\<And>q. json_view N q = patched_view (Some Old) d q" and f: "f \<noteq> []" "f \<notin> set (extractPaths [] (members d))"
    and prefix: "\<And>r s. f = r @ s \<Longrightarrow> s \<noteq> [] \<Longrightarrow> json_view N r = Some VObj" and leaf: "json_view N f \<noteq> Some VObj"
  shows "json_view N f = json_view Old f"
proof -
  have obj: "is_obj d"
    using new [of "[]"] prefix [of "[]" f] f(1) by (auto split: if_splits)
  have "\<not> (\<exists>s. f = r @ s)" if "patch_leaf d r" for r
  proof
    assume "\<exists>s. f = r @ s"
    then obtain s where s: "f = r @ s" ..
    show False
    proof (cases "s = []")
      case True
      with s that f obj patch_leaf_extracted [of "members d" f "[]"] show False by (metis append.right_neutral append_Nil is_obj_JObj)
    next
      case False
      with prefix [OF s] new [of r] patch_leaf_view [OF that] show False by metis
    qed
  qed
  then have "patched_view (Some Old) d f = opt_view (Some Old) f \<or> patched_view (Some Old) d f = Some VObj"
    by (rule patched_view_unchanged)
  with new [of f] leaf show ?thesis by (simp add: opt_view_def)
qed

text \<open>What the encoding of a cluster as JSON promises, at the paths that matter: structs are objects, empty
  strings and zeros are left out.\<close>

definition str_view :: "string \<Rightarrow> view option" where
  "str_view s = (if s = [] then None else Some (VLeaf (JStr s)))"

definition num_view :: "int \<Rightarrow> view option" where
  "num_view i = (if i = 0 then None else Some (VLeaf (JNum (Itoa i))))"

definition config_path :: "string list" where
  "config_path = [''spec'', ''clusterConfig'', ''cluster'', ''networking'']"

definition encodes_config :: "json \<Rightarrow> networking \<Rightarrow> bool" where
  "encodes_config j n \<longleftrightarrow> (\<forall>i\<le>4. json_view j (take i config_path) = Some VObj) \<and>
     json_view j (config_path @ [''serviceSubnet'']) = str_view (nw_serviceSubnet n) \<and>
     json_view j (config_path @ [''podSubnet'']) = str_view (nw_podSubnet n) \<and>
     json_view j (config_path @ [''dnsDomain'']) = str_view (nw_dnsDomain n)"

definition encodes :: "json \<Rightarrow> bke_cluster \<Rightarrow> bool" where
  "encodes j c \<longleftrightarrow>
     (let ep = bs_controlPlaneEndpoint (bc_spec c) in
      json_view j [] = Some VObj \<and> json_view j [''metadata''] = Some VObj \<and> json_view j [''spec''] = Some VObj \<and>
      json_view j [''spec'', ''controlPlaneEndpoint''] = Some VObj \<and>
      - (2 ^ 31) \<le> ep_port ep \<and> ep_port ep < 2 ^ 31 \<and>
      json_view j [''spec'', ''controlPlaneEndpoint'', ''host''] = str_view (ep_host ep) \<and>
      json_view j [''spec'', ''controlPlaneEndpoint'', ''port''] = num_view (ep_port ep) \<and>
      (bc_annotations c \<noteq> [] \<longrightarrow> json_view j [''metadata'', ''annotations''] = Some VObj) \<and>
      json_view j [''metadata'', ''annotations'', BKEClusterFromAnnotationKey] = map_option (\<lambda>v. VLeaf (JStr v)) (HasAnnotation c BKEClusterFromAnnotationKey) \<and>
      (\<forall>cfg. bs_clusterConfig (bc_spec c) = Some cfg \<longrightarrow> encodes_config j (cs_networking cfg)))"

text \<open>What the merge patch of two documents promises: applied to the first it gives the second.\<close>

definition patch_ok :: "('w, 'v) admission_env \<Rightarrow> bke_cluster \<Rightarrow> bke_cluster \<Rightarrow> bool" where
  "patch_ok env old new \<longleftrightarrow> (\<forall>d. ad_patch env (ad_json env old) (ad_json env new) = Some d \<longrightarrow>
     (\<forall>q. json_view (ad_json env new) q = patched_view (Some (ad_json env old)) d q))"

lemma str_view_inj: "str_view a = str_view b \<Longrightarrow> a = b"
  by (simp add: str_view_def split: if_splits)

lemma num_view_inj:
  assumes "num_view a = num_view b" "- (2 ^ 31) \<le> a" "a < 2 ^ 31" "- (2 ^ 31) \<le> b" "b < 2 ^ 31"
  shows "a = b"
proof -
  have "Atoi (Itoa a) = Some a" "Atoi (Itoa b) = Some b" using assms(2-5) by (auto intro: Atoi_Itoa)
  then have inj: "Itoa a = Itoa b \<Longrightarrow> a = b" by (metis option.inject)
  show ?thesis
  proof (cases "a = 0 \<or> b = 0")
    case True
    with assms(1) show ?thesis by (auto simp: num_view_def split: if_splits)
  next
    case False
    with assms(1) have "Itoa a = Itoa b" by (simp add: num_view_def)
    then show ?thesis by (rule inj)
  qed
qed

lemma view_leaf [simp]: "str_view s \<noteq> Some VObj" "num_view i \<noteq> Some VObj" "map_option (\<lambda>v. VLeaf (JStr v)) x \<noteq> Some VObj"
  by (auto simp: str_view_def num_view_def)

text \<open>A field that is forbidden to change, below objects, is the same in both documents.\<close>

lemma forbidden_unchanged:
  assumes ok: "validateFieldUpdate env new old patterns = None" and patch: "patch_ok env old new"
    and f: "f \<noteq> []" "isPathNotAllowed patterns f"
    and prefix: "\<And>r s. f = r @ s \<Longrightarrow> s \<noteq> [] \<Longrightarrow> json_view (ad_json env new) r = Some VObj" and leaf: "json_view (ad_json env new) f \<noteq> Some VObj"
  shows "json_view (ad_json env new) f = json_view (ad_json env old) f"
proof -
  obtain d where d: "ad_patch env (ad_json env old) (ad_json env new) = Some d"
    and e: "\<And>path. path \<in> set (extractPaths [] (members d)) \<Longrightarrow> path \<noteq> [] \<Longrightarrow> \<not> isPathNotAllowed patterns path"
    using ok by (auto simp: validateFieldUpdate_def Let_def filter_empty_conv split: option.splits if_splits)
  show ?thesis
  proof (rule field_unchanged [of _ _ d])
    show "json_view (ad_json env new) q = patched_view (Some (ad_json env old)) d q" for q using patch d by (simp add: patch_ok_def)
    show "f \<notin> set (extractPaths [] (members d))" using e [of f] f by blast
  qed (use f prefix leaf in auto)
qed

lemma append_eq_short: "[a, b, c] = r @ s \<and> s \<noteq> [] \<longleftrightarrow> (r, s) \<in> {([], [a, b, c]), ([a], [b, c]), ([a, b], [c])}"
  by (auto simp: Cons_eq_append_conv)

lemma append_eq_snoc: "p @ [x] = r @ s \<Longrightarrow> s \<noteq> [] \<Longrightarrow> \<exists>i\<le>length p. r = take i p"
proof -
  assume a: "p @ [x] = r @ s" and "s \<noteq> []"
  then have "length r + length s = length p + 1" "length s \<ge> 1" by (metis length_append_singleton length_append Suc_eq_plus1, cases s, auto)
  then have "length r \<le> length p" by simp
  moreover have "r = take (length r) (p @ [x])" using a by simp
  ultimately show ?thesis by auto
qed

lemma not_allowed:
  "isPathNotAllowed notAllowedPaths [''spec'', ''controlPlaneEndpoint'', x]" "isPathNotAllowed nonStandNotAllowedPaths [''spec'', ''controlPlaneEndpoint'', x]"
  "isPathNotAllowed notAllowedPaths [''metadata'', ''annotations'', BKEClusterFromAnnotationKey]"
  "isPathNotAllowed nonStandNotAllowedPaths [''metadata'', ''annotations'', BKEClusterFromAnnotationKey]"
  "isPathNotAllowed notAllowedPaths (config_path @ [x])"
  by (simp_all add: isPathNotAllowed_def notAllowedPaths_def nonStandNotAllowedPaths_def pathsMatch_def BKEClusterFromAnnotationKey_def config_path_def)

text \<open>The endpoint and the kind are protected by both lists of paths.\<close>

lemma endpoint_and_kind_kept:
  assumes ok: "validateFieldUpdate env new old patterns = None" and patch: "patch_ok env old new"
    and enc: "encodes (ad_json env new) new" "encodes (ad_json env old) old" "bc_annotations new \<noteq> []"
    and patterns: "patterns \<in> {notAllowedPaths, nonStandNotAllowedPaths}"
  shows "bs_controlPlaneEndpoint (bc_spec new) = bs_controlPlaneEndpoint (bc_spec old)"
    "HasAnnotation new BKEClusterFromAnnotationKey = HasAnnotation old BKEClusterFromAnnotationKey"
proof -
  let ?n = "ad_json env new" and ?o = "ad_json env old"
  have ep: "json_view ?n [''spec'', ''controlPlaneEndpoint'', x] = json_view ?o [''spec'', ''controlPlaneEndpoint'', x]"
    if "json_view ?n [''spec'', ''controlPlaneEndpoint'', x] \<noteq> Some VObj" for x
  proof (rule forbidden_unchanged [OF ok patch])
    show "isPathNotAllowed patterns [''spec'', ''controlPlaneEndpoint'', x]" using patterns not_allowed(1,2) by auto
    show "json_view ?n r = Some VObj" if "[''spec'', ''controlPlaneEndpoint'', x] = r @ s" "s \<noteq> []" for r s
      using append_eq_short [of "''spec''" "''controlPlaneEndpoint''" x r s] that enc(1) by (auto simp: encodes_def Let_def)
  qed (use that in simp_all)
  have "str_view (ep_host (bs_controlPlaneEndpoint (bc_spec new))) = str_view (ep_host (bs_controlPlaneEndpoint (bc_spec old)))"
    "num_view (ep_port (bs_controlPlaneEndpoint (bc_spec new))) = num_view (ep_port (bs_controlPlaneEndpoint (bc_spec old)))"
    using ep [of "''host''"] ep [of "''port''"] enc(1,2) unfolding encodes_def Let_def by (metis view_leaf(1), metis view_leaf(2))
  moreover have "- (2 ^ 31) \<le> ep_port (bs_controlPlaneEndpoint (bc_spec c)) \<and> ep_port (bs_controlPlaneEndpoint (bc_spec c)) < 2 ^ 31"
    if "encodes j c" for j c using that unfolding encodes_def Let_def by metis
  ultimately have "ep_host (bs_controlPlaneEndpoint (bc_spec new)) = ep_host (bs_controlPlaneEndpoint (bc_spec old))"
    "ep_port (bs_controlPlaneEndpoint (bc_spec new)) = ep_port (bs_controlPlaneEndpoint (bc_spec old))"
    using enc(1,2) by (blast intro: str_view_inj, blast intro: num_view_inj)
  then show "bs_controlPlaneEndpoint (bc_spec new) = bs_controlPlaneEndpoint (bc_spec old)" by simp
  let ?f = "[''metadata'', ''annotations'', BKEClusterFromAnnotationKey]"
  have "json_view ?n ?f = json_view ?o ?f"
  proof (rule forbidden_unchanged [OF ok patch])
    show "isPathNotAllowed patterns ?f" using patterns not_allowed(3,4) by auto
    show "json_view ?n r = Some VObj" if "?f = r @ s" "s \<noteq> []" for r s
      using append_eq_short [of "''metadata''" "''annotations''" BKEClusterFromAnnotationKey r s] that enc(1,3) by (auto simp: encodes_def Let_def)
    show "json_view ?n ?f \<noteq> Some VObj" using enc(1) unfolding encodes_def Let_def by (metis view_leaf(3))
  qed simp
  then have "map_option (\<lambda>v. VLeaf (JStr v)) (HasAnnotation new BKEClusterFromAnnotationKey) = map_option (\<lambda>v. VLeaf (JStr v)) (HasAnnotation old BKEClusterFromAnnotationKey)"
    using enc(1,2) unfolding encodes_def Let_def by metis
  then show "HasAnnotation new BKEClusterFromAnnotationKey = HasAnnotation old BKEClusterFromAnnotationKey"
    by (cases "HasAnnotation new BKEClusterFromAnnotationKey"; cases "HasAnnotation old BKEClusterFromAnnotationKey") simp_all
qed

lemma networking_kept:
  assumes ok: "validateFieldUpdate env new old notAllowedPaths = None" and patch: "patch_ok env old new"
    and enc: "encodes_config (ad_json env new) n" "encodes_config (ad_json env old) m"
  shows "n = m"
proof -
  have f: "json_view (ad_json env new) (config_path @ [x]) = json_view (ad_json env old) (config_path @ [x])"
    if "json_view (ad_json env new) (config_path @ [x]) \<noteq> Some VObj" for x
  proof (rule forbidden_unchanged [OF ok patch _ not_allowed(5)])
    show "json_view (ad_json env new) r = Some VObj" if "config_path @ [x] = r @ s" "s \<noteq> []" for r s
    proof -
      have "length config_path = 4" by (simp add: config_path_def)
      with append_eq_snoc [OF that] enc(1) show ?thesis by (auto simp: encodes_config_def)
    qed
  qed (use that in simp_all)
  have "str_view (nw_serviceSubnet n) = str_view (nw_serviceSubnet m)" "str_view (nw_podSubnet n) = str_view (nw_podSubnet m)"
    "str_view (nw_dnsDomain n) = str_view (nw_dnsDomain m)"
    using f [of "''serviceSubnet''"] f [of "''podSubnet''"] f [of "''dnsDomain''"] enc unfolding encodes_config_def
    by (metis view_leaf(1), metis view_leaf(1), metis view_leaf(1))
  then show ?thesis using str_view_inj by (metis networking.equality old.unit.exhaust)
qed

text \<open>C11. An admitted update of a cluster, outside of the pre-check phase, keeps the endpoint of the control
  plane and the kind of the cluster, and the networking too when the provider controls the cluster.\<close>

theorem admitted_update_keeps:
  assumes ok: "cluster_ValidateUpdate env old new w = (w', None)" "\<not> at_precheck new" and patch: "patch_ok env old new"
    and enc: "encodes (ad_json env new) new" "encodes (ad_json env old) old" "bc_annotations new \<noteq> []"
  shows "bs_controlPlaneEndpoint (bc_spec new) = bs_controlPlaneEndpoint (bc_spec old) \<and>
    HasAnnotation new BKEClusterFromAnnotationKey = HasAnnotation old BKEClusterFromAnnotationKey \<and>
    (FullyControlled new \<longrightarrow> (\<forall>n m. bs_clusterConfig (bc_spec new) = Some n \<longrightarrow> bs_clusterConfig (bc_spec old) = Some m \<longrightarrow> cs_networking n = cs_networking m))"
proof -
  have f: "validateFieldUpdate env new old (if FullyControlled new then notAllowedPaths else nonStandNotAllowedPaths) = None"
    using ok by (auto simp: cluster_ValidateUpdate_def validateStandBKECluster_def validateNonStandBKECluster_def check_simps split: if_splits)
  show ?thesis
  proof (intro conjI impI allI)
    show "bs_controlPlaneEndpoint (bc_spec new) = bs_controlPlaneEndpoint (bc_spec old)"
      "HasAnnotation new BKEClusterFromAnnotationKey = HasAnnotation old BKEClusterFromAnnotationKey"
      using endpoint_and_kind_kept [OF f patch enc] by simp_all
    fix n m assume "FullyControlled new" "bs_clusterConfig (bc_spec new) = Some n" "bs_clusterConfig (bc_spec old) = Some m"
    with networking_kept [of env new old "cs_networking n" "cs_networking m"] f patch enc(1,2) show "cs_networking n = cs_networking m"
      by (auto simp: encodes_def Let_def)
  qed
qed


definition other_config :: cluster_spec where
  "other_config = SetDefaultBKEConfig embedded_manifest zero_config"

definition demo_json :: "bke_cluster \<Rightarrow> json" where
  "demo_json c = JObj [(''metadata'', JObj [(''annotations'', JObj (map (\<lambda>(k, v). (k, JStr v)) (bc_annotations c)))]),
     (''spec'', JObj [(''controlPlaneEndpoint'', JObj [(''host'', JStr (ep_host (bs_controlPlaneEndpoint (bc_spec c)))),
                        (''port'', JNum (Itoa (ep_port (bs_controlPlaneEndpoint (bc_spec c)))))]),
                      (''clusterConfig'', JObj [(''cluster'', JObj [(''networking'', JObj [
                        (''serviceSubnet'', JStr (nw_serviceSubnet (cs_networking other_config))),
                        (''podSubnet'', JStr (nw_podSubnet (cs_networking other_config))),
                        (''dnsDomain'', JStr (nw_dnsDomain (cs_networking other_config)))])])]),
                      (''pause'', JBool (bs_pause (bc_spec c)))])]"

definition demo_admission :: "(bke_node list, nat) admission_env" where
  "demo_admission = \<lparr>ad_nodes = store_api, ad_clusters = (\<lambda>w. (w, Inr [])), ad_val = quiet_env, ad_version = dotted_semver,
     ad_json = demo_json, ad_patch = (\<lambda>_ _. Some (JObj [(''spec'', JObj [(''pause'', JBool True)])]))\<rparr>"

definition other_cluster :: "bool \<Rightarrow> bke_cluster" where
  "other_cluster p = set_spec (\<lambda>s. s\<lparr>bs_pause := p, bs_controlPlaneEndpoint := \<lparr>ep_host = ''10.0.0.8'', ep_port = 6443\<rparr>, bs_clusterConfig := Some other_config\<rparr>)
     ((blank_cluster ''ns'' ''c'')\<lparr>bc_annotations := [(BKEClusterFromAnnotationKey, ''other'')]\<rparr>)"

lemma other_config_valid: "ValidateNonStandardBKEConfig quiet_env other_config = None"
proof -
  have v: "ValidateK8sVersion (ve_semver quiet_env) (vm_kubernetes embedded_manifest) = None" by code_simp
  have own: "own_values_ok (ve_semver quiet_env) zero_config" by (simp add: own_values_ok_def own_repo_ok_def zero_config_def zero_repo_def)
  have "ValidateRepo (SetDefaultHttpRepo (cs_httpRepo zero_config)) = None" "ValidateRepo (SetDefaultImageRepo (cs_imageRepo zero_config)) = None"
    "ValidateNetworking (SetDefaultClusterNetworking (cs_networking zero_config)) = None"
    "ValidateContainerRuntime (SetDefaultContainerRuntime (cs_containerRuntime zero_config)) = None"
    using own default_repos_ok default_networking_ok default_runtime_ok unfolding own_values_ok_def by blast+
  with v show ?thesis
    by (simp add: other_config_def ValidateNonStandardBKEConfig_def SetDefaultBKEConfig_def default_defs ValidateKubeletComponent_def kubelet_complete
        or_default_def zero_config_def)
qed

lemma other_fields [simp]: "bc_annotations (other_cluster p) = [(BKEClusterFromAnnotationKey, ''other'')]"
  "bs_clusterConfig (bc_spec (other_cluster p)) = Some other_config" "bs_pause (bc_spec (other_cluster p)) = p"
  "bs_controlPlaneEndpoint (bc_spec (other_cluster p)) = \<lparr>ep_host = ''10.0.0.8'', ep_port = 6443\<rparr>"
  "bc_status (other_cluster p) = empty_status"
  by (simp_all add: other_cluster_def set_spec_def)

lemma other_kind [simp]: "\<not> FullyControlled (other_cluster p)" "\<not> at_precheck (other_cluster p)"
  by (simp_all add: FullyControlled_def IsBKECluster_def IsOtherCluster_def HasAnnotation_def at_precheck_def AtPrecheckPhaseAnnotationKey_def BKEClusterFromAnnotationKey_def)

lemma demo_update_admitted: "cluster_ValidateUpdate demo_admission (other_cluster False) (other_cluster True) [] = ([], None)"
proof -
  have "validateFieldUpdate demo_admission (other_cluster True) (other_cluster False) nonStandNotAllowedPaths = None"
    by (simp add: validateFieldUpdate_def demo_admission_def isPathNotAllowed_def nonStandNotAllowedPaths_def pathsMatch_def)
  then show ?thesis
    by (simp add: cluster_ValidateUpdate_def empty_status_def validateNonStandBKECluster_def check_simps with_config_def config_check_def other_config_valid)
      (simp add: demo_admission_def other_config_valid)
qed

lemma other_networking: "nw_serviceSubnet (cs_networking other_config) = ''10.96.0.0/16''" "nw_podSubnet (cs_networking other_config) = ''10.250.0.0/16''"
  "nw_dnsDomain (cs_networking other_config) = ''cluster.local''"
  by code_simp+

lemma upto_4: "i \<le> (4::nat) \<longleftrightarrow> i \<in> {0, 1, 2, 3, 4}"
  by auto

lemma demo_encodes: "encodes (demo_json (other_cluster p)) (other_cluster p)"
proof -
  have "encodes_config (demo_json (other_cluster p)) (cs_networking other_config)"
    by (auto simp: encodes_config_def upto_4 config_path_def demo_json_def view_of_def str_view_def other_networking)
  then show ?thesis
    by (simp add: encodes_def Let_def demo_json_def view_of_def str_view_def num_view_def HasAnnotation_def BKEClusterFromAnnotationKey_def)
qed

lemma demo_patch: "json_view (demo_json (other_cluster True)) q = patched_view (Some (demo_json (other_cluster False))) (JObj [(''spec'', JObj [(''pause'', JBool True)])]) q"
proof (cases q)
  case (Cons k r)
  have leaf: "json_view (JBool b) s = patched_view t (JBool b) s" for b s t by (cases s) simp_all
  from Cons show ?thesis
    by (cases r) (auto simp: demo_json_def view_of_def leaf)
qed (simp add: demo_json_def view_of_def)

theorem admitted_update_keeps_witness:
  "cluster_ValidateUpdate demo_admission (other_cluster False) (other_cluster True) [] = ([], None) \<and>
   bs_controlPlaneEndpoint (bc_spec (other_cluster True)) = bs_controlPlaneEndpoint (bc_spec (other_cluster False))"
proof -
  have p: "\<not> at_precheck (other_cluster True)" by simp
  have "patch_ok demo_admission (other_cluster False) (other_cluster True)"
    unfolding patch_ok_def demo_admission_def by (simp add: demo_patch)
  moreover have "bc_annotations (other_cluster True) \<noteq> []" by (simp add: other_cluster_def)
  moreover have "encodes (ad_json demo_admission (other_cluster b)) (other_cluster b)" for b by (simp add: demo_admission_def demo_encodes)
  ultimately show ?thesis
    using admitted_update_keeps [OF demo_update_admitted p] demo_update_admitted by blast
qed

section \<open>Versions\<close>

definition agents_checked :: "bke_node list \<Rightarrow> bool" where
  "agents_checked bns \<longleftrightarrow> (\<forall>n\<in>set bns. GetNodeStateFlag bns (ns_ip (bn_spec n)) NodeFailedFlag \<or> GetNodeStateFlag bns (ns_ip (bn_spec n)) NodeAgentReadyFlag)"

lemma upgradeable:
  assumes "validateCommonUpgradeability env new w = (w', None)"
  shows "st_clusterHealthState (bc_status new) = ''Healthy'' \<and>
    (\<exists>bns. snd (GetBKENodesWrapperForCluster (ad_nodes env) new w) = Inr bns \<and> agents_checked bns)"
proof -
  have h: "st_clusterHealthState (bc_status new) = ''Healthy''" and "validateNodeAgentStatus env new w = (w', None)"
    using assms by (auto simp: validateCommonUpgradeability_def check_simps split: if_splits)
  then obtain bns where "snd (GetBKENodesWrapperForCluster (ad_nodes env) new w) = Inr bns"
    and "\<And>n. n \<in> set bns \<Longrightarrow> GetNodeStateFlag bns (ns_ip (bn_spec n)) NodeFailedFlag \<or> GetNodeStateFlag bns (ns_ip (bn_spec n)) NodeAgentReadyFlag"
    by (auto simp: validateNodeAgentStatus_def read_check_def check_simps Let_def split: prod.splits sum.splits if_splits)
  with h show ?thesis by (auto simp: agents_checked_def)
qed

text \<open>What an admitted change of a version satisfies.\<close>

definition version_kept :: "('w, 'v) admission_env \<Rightarrow> bke_cluster \<Rightarrow> string \<Rightarrow> string \<Rightarrow> bool" where
  "version_kept env new ov nv \<longleftrightarrow> ov = [] \<or>
     (\<exists>f t. sem_parse (ad_version env) ov = Some f \<and> sem_parse (ad_version env) nv = Some t \<and> sem_compare (ad_version env) t f \<ge> 0 \<and>
       (sem_compare (ad_version env) t f = 0 \<or>
        \<not> IsOtherCluster new \<and> st_clusterHealthState (bc_status new) = ''Healthy'' \<and>
        (\<exists>w bns. snd (GetBKENodesWrapperForCluster (ad_nodes env) new w) = Inr bns \<and> agents_checked bns)))"

lemma version_update_kept:
  assumes "version_update (ad_version env) version new old rules w = (w', None)"
    and "bs_clusterConfig (bc_spec old) = Some m" "bs_clusterConfig (bc_spec new) = Some n"
    and "\<And>f t. rules f t w = (w', None) \<Longrightarrow> sem_compare (ad_version env) t f \<ge> 0 \<and> \<not> IsOtherCluster new \<and> validateCommonUpgradeability env new w = (w', None)"
  shows "version_kept env new (version m) (version n)"
proof (cases "version m = []")
  case False
  obtain f t where p: "sem_parse (ad_version env) (version m) = Some f" "sem_parse (ad_version env) (version n) = Some t"
    and r: "sem_compare (ad_version env) t f = 0 \<or> rules f t w = (w', None)"
    using assms(1-3) False by (auto simp: version_update_def check_simps split: option.splits if_splits)
  from r show ?thesis
  proof
    assume "rules f t w = (w', None)"
    with assms(4) upgradeable [of env new w w'] p show ?thesis by (auto simp: version_kept_def)
  qed (use p in \<open>auto simp: version_kept_def\<close>)
qed (simp add: version_kept_def)


definition own_config :: "string \<Rightarrow> cluster_spec" where
  "own_config v = SetDefaultBKEConfig embedded_manifest (zero_config\<lparr>cs_kubernetesVersion := v, cs_customExtra := Some [(''containerd'', ''containerd-v2.1.1-linux-amd64.tar.gz'')]\<rparr>)"

definition own_cluster :: "string \<Rightarrow> bke_cluster" where
  "own_cluster v = (set_spec (\<lambda>s. s\<lparr>bs_clusterConfig := Some (own_config v)\<rparr>) (blank_cluster ''ns'' ''c''))\<lparr>bc_status := empty_status\<lparr>st_clusterHealthState := ''Healthy''\<rparr>\<rparr>"

definition ready_node :: bke_node where
  "ready_node = (valid_node ''c'' ''m1'' ''10.0.0.1'')\<lparr>bn_status := (bn_status labelled_node)\<lparr>nst_stateCode := flag_value NodeAgentReadyFlag\<rparr>\<rparr>"

lemma own_fields [simp]: "bc_annotations (own_cluster v) = []" "bs_clusterConfig (bc_spec (own_cluster v)) = Some (own_config v)"
  "bc_status (own_cluster v) = empty_status\<lparr>st_clusterHealthState := ''Healthy''\<rparr>"
  "bs_dryRun (bc_spec (own_cluster v)) = False"
  by (simp_all add: own_cluster_def set_spec_def empty_spec_def)

lemma own_kind [simp]: "FullyControlled (own_cluster v)" "IsBKECluster (own_cluster v)" "\<not> IsOtherCluster (own_cluster v)" "\<not> at_precheck (own_cluster v)"
  by (simp_all add: FullyControlled_def IsBKECluster_def IsOtherCluster_def HasAnnotation_def at_precheck_def)

lemma own_versions: "cs_kubernetesVersion (own_config ''v1.28.0'') = ''v1.28.0''" "cs_kubernetesVersion (own_config ''v1.29.0'') = ''v1.29.0''"
  "sem_parse dotted_semver ''v1.28.0'' = Some 28" "sem_parse dotted_semver ''v1.29.0'' = Some 29" "sem_parse dotted_semver ExpectMinK8sVersion = Some 27"
  "cs_etcdVersion (own_config ''v1.28.0'') = vm_etcd embedded_manifest" "cs_etcdVersion (own_config ''v1.29.0'') = vm_etcd embedded_manifest"
  "sem_parse dotted_semver (vm_etcd embedded_manifest) = Some 6"
  by code_simp+

lemma own_config_valid: "ValidateBKEConfig quiet_env (own_config ''v1.29.0'') = None"
proof -
  have "ValidateCluster quiet_env (own_config ''v1.29.0'') = None"
    unfolding own_config_def
  proof (rule defaulted_config_ok [OF _ embedded_manifest_valid])
    have "ValidateK8sVersion (ve_semver quiet_env) ''v1.29.0'' = None" by code_simp
    then show "own_values_ok (ve_semver quiet_env) (zero_config\<lparr>cs_kubernetesVersion := ''v1.29.0'', cs_customExtra := Some [(''containerd'', ''containerd-v2.1.1-linux-amd64.tar.gz'')]\<rparr>)"
      by (simp add: own_values_ok_def own_repo_ok_def zero_config_def zero_repo_def)
    show "ValidateK8sVersion (ve_semver quiet_env) (vm_kubernetes embedded_manifest) = None" by code_simp
  qed (simp add: IsContainChartAddon_def zero_config_def)
  moreover have "ValidateCustomExtra (cs_customExtra (own_config ''v1.29.0'')) = None" "ValidateAddons (cs_addons (own_config ''v1.29.0'')) = None" by code_simp+
  ultimately show ?thesis by (simp add: ValidateBKEConfig_def)
qed

lemma ready_agents: "validateNodeAgentStatus demo_admission (own_cluster ''v1.29.0'') [ready_node] = ([ready_node], None)"
  by code_simp

lemma own_upgrade_admitted: "cluster_ValidateUpdate demo_admission (own_cluster ''v1.28.0'') (own_cluster ''v1.29.0'') [ready_node] = ([ready_node], None)"
proof -
  have env: "ad_version demo_admission = dotted_semver" "ad_val demo_admission = quiet_env" by (simp_all add: demo_admission_def)
  have cmp: "sem_compare dotted_semver a b = int a - int b" for a b by (simp add: dotted_semver_def)
  have "validateFieldUpdate demo_admission (own_cluster ''v1.29.0'') (own_cluster ''v1.28.0'') notAllowedPaths = None"
    by (simp add: validateFieldUpdate_def demo_admission_def isPathNotAllowed_def notAllowedPaths_def pathsMatch_def)
  moreover have "validateVersionUpdate demo_admission (own_cluster ''v1.29.0'') (own_cluster ''v1.28.0'') [ready_node] = ([ready_node], None)"
    by (simp add: validateVersionUpdate_def version_update_def own_versions env cmp check_simps validateKubernetesVersionUpgrade_def
        validateKubernetesClusterUpgradeability_def validateCommonUpgradeability_def ready_agents)
  moreover have "validateEtcdVersionUpdate demo_admission (own_cluster ''v1.29.0'') (own_cluster ''v1.28.0'') [ready_node] = ([ready_node], None)"
    by (simp add: validateEtcdVersionUpdate_def version_update_def own_versions env cmp check_simps)
  ultimately show ?thesis
    by (simp add: cluster_ValidateUpdate_def empty_status_def validateStandBKECluster_def check_simps validateDryRun_def with_config_def config_check_def env own_config_valid)
qed


section \<open>Endpoints, replicas and other clusters\<close>

text \<open>The endpoint of a control plane is accepted just when its host is an address and its port a port.\<close>

theorem ValidateControlPlaneEndpoint_correct:
  "ValidateControlPlaneEndpoint c = None \<longleftrightarrow>
     ParseIP (ep_host (bs_controlPlaneEndpoint (bc_spec c))) \<noteq> None \<and>
     1 \<le> ep_port (bs_controlPlaneEndpoint (bc_spec c)) \<and> ep_port (bs_controlPlaneEndpoint (bc_spec c)) \<le> 65535"
proof -
  have "ParseIP [] = None" by code_simp
  then show ?thesis
    by (cases "ep_host (bs_controlPlaneEndpoint (bc_spec c)) = []") (auto simp: ValidateControlPlaneEndpoint_def Let_def endpoint_IsZero_def)
qed

lemma int_times_small: "0 \<le> a \<Longrightarrow> a < 2 ^ 31 \<Longrightarrow> 0 \<le> b \<Longrightarrow> b < 2 ^ 31 \<Longrightarrow> int_times a b = a * b"
proof -
  assume "0 \<le> a" "a < 2 ^ 31" "0 \<le> b" "b < 2 ^ 31"
  then have "0 \<le> a * b" "a * b < 2 ^ 31 * 2 ^ 31" by (simp, intro mult_strict_mono) auto
  then show ?thesis unfolding int_times_def sint_sbintrunc' by (simp add: signed_take_bit_int_eq_self)
qed

definition fits :: "string gomap \<Rightarrow> (string \<Rightarrow> nat) \<Rightarrow> bool" where
  "fits param available \<longleftrightarrow>
     (\<forall>(name, fld) \<in> set vm_components. \<forall>s. map_of param fld = Some s \<longrightarrow> (\<exists>r. Atoi s = Some r \<and> 1 \<le> r \<and> r \<le> int (available name))) \<and>
     (\<forall>a b r s. map_of param ''vmAgentReplicaCount'' = Some a \<longrightarrow> map_of param ''vmAgentShareCount'' = Some b \<longrightarrow> Atoi a = Some r \<longrightarrow> Atoi b = Some s \<longrightarrow>
        r * s \<le> int (available ''vmagent''))"

lemma basic_fits:
  assumes "validateBasicVMComponents param available = []" "(name, fld) \<in> set vm_components" "map_of param fld = Some s"
  shows "\<exists>r. Atoi s = Some r \<and> 1 \<le> r \<and> r \<le> int (available name)"
  using assms by (fastforce simp: validateBasicVMComponents_def split: option.splits if_splits)

lemma replicas_fit:
  assumes ok: "validateVictoriaMetricsReplicas p available = []" "map_of (or_zero (pr_param p) []) ''useVMSingle'' \<noteq> Some ''true''"
    and few: "available ''vmagent'' < 2 ^ 31"
  shows "fits (or_zero (pr_param p) []) available"
proof -
  let ?m = "or_zero (pr_param p) []"
  have b: "validateBasicVMComponents ?m available = []" and a: "validateVMAgentSpecialRule ?m available = []"
    using ok by (simp_all add: validateVictoriaMetricsReplicas_def Let_def)
  have "r * s \<le> int (available ''vmagent'')"
    if "map_of ?m ''vmAgentReplicaCount'' = Some x" "map_of ?m ''vmAgentShareCount'' = Some y" "Atoi x = Some r" "Atoi y = Some s" for x y r s
  proof -
    have "1 \<le> r \<and> r \<le> int (available ''vmagent'')" "1 \<le> s \<and> s \<le> int (available ''vmagent'')"
      using basic_fits [OF b, of "''vmagent''" "''vmAgentReplicaCount''" x] basic_fits [OF b, of "''vmagent''" "''vmAgentShareCount''" y] that
      by (auto simp: vm_components_def)
    with few have "int_times r s = r * s" by (intro int_times_small) auto
    with a that show ?thesis by (simp add: validateVMAgentSpecialRule_def split: if_splits)
  qed
  with basic_fits [OF b] show ?thesis by (auto simp: fits_def)
qed

text \<open>The replicas of the monitoring add-on of a new cluster fit its labelled nodes, the product of replicas and
  shares included: the checks before it keep the factors so small that it does not wrap around.\<close>

theorem admitted_replicas_fit:
  assumes "cluster_ValidateCreate env c w = (w', None)" and nodes: "GetNodesForBKECluster (ad_nodes env) c w = (u, Inr ns)"
    and cfg: "bs_clusterConfig (bc_spec c) = Some cfg" "p \<in> set (cs_addons cfg)" "pr_name p = ''victoriametrics-controller''"
    and "map_of (or_zero (pr_param p) []) ''useVMSingle'' \<noteq> Some ''true''" "usable_nodes ns ''vmagent'' < 2 ^ 31"
  shows "fits (or_zero (pr_param p) []) (usable_nodes ns)"
proof -
  obtain v where "validateCreateParams env c w = (v, None)" using assms(1) by (auto simp: cluster_ValidateCreate_def check_simps)
  then have "validateVictoriaMetricsReplicas p (usable_nodes ns) = []"
    using nodes cfg by (auto simp: validateCreateParams_def read_check_def check_simps Let_def split: if_splits)
  then show ?thesis using assms by (intro replicas_fit) simp_all
qed

definition vm_addon :: product where
  "vm_addon = (hd defaultAddons)\<lparr>pr_name := ''victoriametrics-controller'',
     pr_param := Some [(''vmAgentReplicaCount'', ''2''), (''vmAgentShareCount'', ''1'')]\<rparr>"

definition vm_cluster :: bke_cluster where
  "vm_cluster = set_spec (\<lambda>s. s\<lparr>bs_clusterConfig := Some (zero_config\<lparr>cs_addons := [vm_addon]\<rparr>)\<rparr>)
     ((blank_cluster ''ns'' ''c'')\<lparr>bc_annotations := [(BKEClusterFromAnnotationKey, ''other'')]\<rparr>)"

definition vm_node :: "string \<Rightarrow> string \<Rightarrow> bke_node" where
  "vm_node name ip = (valid_node ''c'' name ip)\<lparr>bn_spec := (plain_node ip [''node''])\<lparr>ns_labels := [\<lparr>lb_key = ''vm'', lb_value = ''vmagent''\<rparr>]\<rparr>\<rparr>"

theorem admitted_replicas_fit_witness:
  "\<exists>ns. fits [(''vmAgentReplicaCount'', ''2''), (''vmAgentShareCount'', ''1'')] (usable_nodes ns) \<and> usable_nodes ns ''vmagent'' = 2"
proof -
  let ?w = "[vm_node ''n1'' ''10.0.0.1'', vm_node ''n2'' ''10.0.0.2'']"
  define ns where "ns = SetDefaultsForNodes (map ToNode ?w)"
  have "cluster_ValidateCreate demo_admission vm_cluster ?w = (?w, None)" by code_simp
  moreover have "GetNodesForBKECluster (ad_nodes demo_admission) vm_cluster ?w = (?w, Inr ns)" unfolding ns_def by code_simp
  moreover have "bs_clusterConfig (bc_spec vm_cluster) = Some (zero_config\<lparr>cs_addons := [vm_addon]\<rparr>)" by (simp add: vm_cluster_def)
  ultimately have "fits (or_zero (pr_param vm_addon) []) (usable_nodes ns)" if "usable_nodes ns ''vmagent'' = 2"
    by (rule admitted_replicas_fit) (simp_all add: vm_addon_def that)
  moreover have u: "usable_nodes ns ''vmagent'' = 2" unfolding ns_def by code_simp
  ultimately show ?thesis by (auto simp: vm_addon_def)
qed

lemma conflicts_read:
  assumes "\<And>d. fst (GetNodesForBKECluster api d w) = w" "conflicts api c inNodes bcs w = (w', [])" "bc \<in> set bcs" "bc_name bc \<noteq> bc_name c" "IsBKECluster bc"
  shows "ep_host (bs_controlPlaneEndpoint (bc_spec bc)) \<noteq> ep_host (bs_controlPlaneEndpoint (bc_spec c)) \<and>
    (\<forall>ms. GetNodesForBKECluster api bc w = (w, Inr ms) \<longrightarrow> ns_ip ` set inNodes \<inter> ns_ip ` set ms = {})"
  using assms(2-)
proof (induction bcs)
  case (Cons b bcs)
  obtain r where r: "GetNodesForBKECluster api b w = (w, r)" using assms(1) [of b] by (metis prod.collapse)
  show ?case
  proof (cases "bc_name b = bc_name c \<or> \<not> IsBKECluster b")
    case True
    with Cons show ?thesis by auto
  next
    case False
    obtain es where es: "conflicts api c inNodes bcs w = (w', es)" and rest: "es = []"
      and host: "ep_host (bs_controlPlaneEndpoint (bc_spec b)) \<noteq> ep_host (bs_controlPlaneEndpoint (bc_spec c))"
      and nodes: "\<And>ms n. r = Inr ms \<Longrightarrow> n \<in> set inNodes \<Longrightarrow> nodes_Filter ms [(''IP'', ns_ip n)] = []"
      using Cons.prems(1) False r by (auto simp: Let_def split: sum.splits prod.splits if_splits)
    show ?thesis
    proof (cases "bc = b")
      case True
      have "ns_ip n \<noteq> ns_ip m" if "r = Inr ms" "n \<in> set inNodes" "m \<in> set ms" for ms n m
        using nodes [OF that(1,2)] that(3) by (auto simp: nodes_Filter_def filter_empty_conv node_field_def)
      with host True r show ?thesis by auto
    qed (use Cons es rest in auto)
  qed
qed simp

text \<open>A cluster of the provider that is admitted shares neither the host of its endpoint nor the address of a
  node with another cluster of the provider under a different name.\<close>

theorem admitted_clusters_disjoint:
  assumes "cluster_ValidateCreate env c w = (w', None)" "IsBKECluster c"
    and reads: "\<And>d. fst (GetNodesForBKECluster (ad_nodes env) d w) = w" "ad_clusters env w = (w, Inr bcs)"
    and other: "bc \<in> set bcs" "bc_name bc \<noteq> bc_name c" "IsBKECluster bc"
    and nodes: "GetNodesForBKECluster (ad_nodes env) c w = (w, Inr ns)" "GetNodesForBKECluster (ad_nodes env) bc w = (w, Inr ms)"
  shows "ep_host (bs_controlPlaneEndpoint (bc_spec bc)) \<noteq> ep_host (bs_controlPlaneEndpoint (bc_spec c)) \<and> ns_ip ` set ns \<inter> ns_ip ` set ms = {}"
proof -
  obtain u v where "validateCreateParams env c w = (u, None)" and u: "ValidateBKEClustersNodesUnique env c u = (v, None)"
    using assms(1) by (auto simp: cluster_ValidateCreate_def check_simps)
  then have "u = w" using nodes(1) by (auto simp: validateCreateParams_def read_check_def check_simps split: option.splits)
  with u assms(2) reads(2) nodes(1) have "conflicts (ad_nodes env) c ns bcs w = (v, [])"
    by (auto simp: ValidateBKEClustersNodesUnique_def read_check_def split: prod.splits if_splits)
  from conflicts_read [OF reads(1) this other] nodes(2) show ?thesis by blast
qed

definition new_cluster :: "string \<Rightarrow> string \<Rightarrow> string \<Rightarrow> bke_cluster" where
  "new_cluster ns name host = (own_cluster ''v1.29.0'')\<lparr>bc_namespace := ns, bc_name := name,
     bc_spec := (bc_spec (own_cluster ''v1.29.0''))\<lparr>bs_controlPlaneEndpoint := \<lparr>ep_host = host, ep_port = 6443\<rparr>\<rparr>\<rparr>"

definition beside :: "bke_cluster \<Rightarrow> (bke_node list, nat) admission_env" where
  "beside bc = demo_admission\<lparr>ad_clusters := (\<lambda>w. (w, Inr [bc]))\<rparr>"

lemma new_cluster_simps [simp]: "bc_name (new_cluster ns name host) = name" "bc_namespace (new_cluster ns name host) = ns"
  "bs_controlPlaneEndpoint (bc_spec (new_cluster ns name host)) = \<lparr>ep_host = host, ep_port = 6443\<rparr>"
  "bs_clusterConfig (bc_spec (new_cluster ns name host)) = Some (own_config ''v1.29.0'')" "IsBKECluster (new_cluster ns name host)"
  "\<not> IsImmutableOSMode (Some (new_cluster ns name host))"
  by (simp_all add: new_cluster_def IsBKECluster_def HasAnnotation_def IsImmutableOSMode_def get_or_def)

lemma new_cluster_admitted:
  assumes "ValidateBKEClustersNodesUnique (beside bc) (new_cluster ns name ''10.0.0.100'') w = (w, None)"
  shows "cluster_ValidateCreate (beside bc) (new_cluster ns name ''10.0.0.100'') w = (w, None)"
proof -
  have "cs_addons (own_config ''v1.29.0'') = []" by code_simp
  then have "validateCreateParams (beside bc) (new_cluster ns name ''10.0.0.100'') w = (w, None)"
    by (simp add: validateCreateParams_def read_check_def beside_def demo_admission_def store_api_def GetNodesForBKECluster_def GetNodes_def
        FetchNodesForCluster_def map_read_def pure_check_def)
  moreover have "ValidateControlPlaneEndpoint (new_cluster ns name ''10.0.0.100'') = None"
  proof -
    have "ParseIP ''10.0.0.100'' \<noteq> None" by code_simp
    then show ?thesis by (auto simp: ValidateControlPlaneEndpoint_def Let_def endpoint_IsZero_def)
  qed
  moreover have "ad_val (beside bc) = quiet_env" by (simp add: beside_def demo_admission_def)
  ultimately show ?thesis
    using assms by (simp add: cluster_ValidateCreate_def check_simps with_config_def own_config_valid config_check_def validateImmutableOSConstraints_def)
qed

lemma store_reads: "fst (GetNodesForBKECluster store_api d w) = w"
  by (simp add: store_api_def GetNodesForBKECluster_def GetNodes_def FetchNodesForCluster_def map_read_def)

theorem admitted_clusters_disjoint_witness:
  "\<exists>ns ms. snd (GetNodes store_api ''ns'' ''c'' [valid_node ''c'' ''m1'' ''10.0.0.1'', valid_node ''d'' ''m2'' ''10.0.0.2'']) = Inr ns \<and> ns \<noteq> [] \<and>
     snd (GetNodes store_api ''ns'' ''d'' [valid_node ''c'' ''m1'' ''10.0.0.1'', valid_node ''d'' ''m2'' ''10.0.0.2'']) = Inr ms \<and> ms \<noteq> [] \<and>
     ns_ip ` set ns \<inter> ns_ip ` set ms = {}"
proof -
  let ?w = "[valid_node ''c'' ''m1'' ''10.0.0.1'', valid_node ''d'' ''m2'' ''10.0.0.2'']"
  let ?c = "new_cluster ''ns'' ''c'' ''10.0.0.100''" and ?d = "new_cluster ''ns'' ''d'' ''10.0.0.101''"
  define ns ms where "ns = SetDefaultsForNodes [plain_node ''10.0.0.1'' [''master'']]" and "ms = SetDefaultsForNodes [plain_node ''10.0.0.2'' [''master'']]"
  have "ValidateBKEClustersNodesUnique (beside ?d) ?c ?w = (?w, None)" by code_simp
  then have a: "cluster_ValidateCreate (beside ?d) ?c ?w = (?w, None)" by (rule new_cluster_admitted)
  have n: "GetNodesForBKECluster store_api ?c ?w = (?w, Inr ns)" "GetNodesForBKECluster store_api ?d ?w = (?w, Inr ms)"
    unfolding ns_def ms_def by code_simp+
  have s: "ad_nodes (beside ?d) = store_api" "ad_clusters (beside ?d) ?w = (?w, Inr [?d])" by (simp_all add: beside_def demo_admission_def)
  have "ns_ip ` set ns \<inter> ns_ip ` set ms = {}"
    using admitted_clusters_disjoint [OF a, of "[?d]" ?d ns ms] s n by (simp add: store_reads)
  with n show ?thesis by (auto simp: GetNodesForBKECluster_def ns_def ms_def SetDefaultsForNodes_def)
qed

text \<open>Clusters are compared by name alone: one with the same name in another namespace may have the same endpoint
  and the same node.\<close>

theorem namesake_not_compared:
  "let w = [valid_node ''c'' ''m1'' ''10.0.0.1'', (valid_node ''c'' ''m1'' ''10.0.0.1'')\<lparr>bn_namespace := ''other''\<rparr>];
       twin = new_cluster ''other'' ''c'' ''10.0.0.100''
   in cluster_ValidateCreate (beside twin) (new_cluster ''ns'' ''c'' ''10.0.0.100'') w = (w, None) \<and>
      snd (GetNodes store_api ''ns'' ''c'' w) = snd (GetNodes store_api ''other'' ''c'' w)"
proof -
  let ?w = "[valid_node ''c'' ''m1'' ''10.0.0.1'', (valid_node ''c'' ''m1'' ''10.0.0.1'')\<lparr>bn_namespace := ''other''\<rparr>]"
  let ?twin = "new_cluster ''other'' ''c'' ''10.0.0.100''"
  have "ValidateBKEClustersNodesUnique (beside ?twin) (new_cluster ''ns'' ''c'' ''10.0.0.100'') ?w = (?w, None)" by code_simp
  then have "cluster_ValidateCreate (beside ?twin) (new_cluster ''ns'' ''c'' ''10.0.0.100'') ?w = (?w, None)" by (rule new_cluster_admitted)
  moreover have "snd (GetNodes store_api ''ns'' ''c'' ?w) = snd (GetNodes store_api ''other'' ''c'' ?w)" by code_simp
  ultimately show ?thesis by (simp add: Let_def)
qed

end
