(* ===== verification/Config_Migration.thy ===== *)
theory Config_Migration
  imports Api_Retry
begin

text \<open>
  Configuration maps of the management cluster and their copies in a cluster that is managed: the last part of
  \<^verbatim>\<open>pkg/phaseframe/phaseutil/util.go\<close> and the patch configuration of \<^verbatim>\<open>upgrade.go\<close> beside it. The clients of both clusters are
  parameters; an error is passed on as it is where the code adds a text to it.

  The result: after a migration that reports success the other cluster holds the data, whether the map was there before or not and
  however many conflicts there were; the maps that hold patches all arrive, and nothing but them is written.
\<close>

section \<open>Definitions\<close>

record stored_map =
  cfm_namespace :: string
  cfm_name :: string
  cfm_data :: "string gomap"
  cfm_resourceVersion :: string

record 'w map_api =
  lc_get :: "string \<Rightarrow> string \<Rightarrow> 'w \<Rightarrow> 'w \<times> (api_error + stored_map)"
  lc_list :: "string \<Rightarrow> 'w \<Rightarrow> 'w \<times> (api_error + stored_map list)"
  lc_createNs :: "string \<Rightarrow> 'w attempt"
  lc_create :: "stored_map \<Rightarrow> 'w attempt"
  rm_get :: "string \<Rightarrow> string \<Rightarrow> 'w \<Rightarrow> 'w \<times> (api_error + stored_map)"
  rm_createNs :: "string \<Rightarrow> 'w attempt"
  rm_create :: "stored_map \<Rightarrow> 'w attempt"
  rm_update :: "stored_map \<Rightarrow> 'w attempt"
  ma_retry :: "'w retry_lib"

definition new_map :: "string \<Rightarrow> string \<Rightarrow> string gomap \<Rightarrow> stored_map" where
  "new_map namespace name d = \<lparr>cfm_namespace = namespace, cfm_name = name, cfm_data = d, cfm_resourceVersion = []\<rparr>"

(* src: utils/capbke/clusterutil/util.go 62-67 BKEConfigCmKey *)
definition util_BKEConfigCmKey :: "string \<times> string" where
  "util_BKEConfigCmKey = (''cluster-system'', ''bke-config'')"

(* src: pkg/phaseframe/phaseutil/util.go 890-897 GetBKEConfigCMData *)
definition util_GetBKEConfigCMData :: "'w map_api \<Rightarrow> 'w \<Rightarrow> 'w \<times> (api_error + string gomap)" where
  "util_GetBKEConfigCMData api w = (case lc_get api (fst util_BKEConfigCmKey) (snd util_BKEConfigCmKey) w of (w', Inl e) \<Rightarrow> (w', Inl e) | (w', Inr m) \<Rightarrow> (w', Inr (cfm_data m)))"

definition get_or_missing :: "'w map_api \<Rightarrow> string \<Rightarrow> string \<Rightarrow> 'w \<Rightarrow> 'w \<times> (api_error + stored_map option)" where
  "get_or_missing api namespace name w =
     (case rm_get api namespace name w of
        (w', Inl e) \<Rightarrow> (w', if IsNotFound e then Inr None else Inl e)
      | (w', Inr m) \<Rightarrow> (w', Inr (Some m)))"

(* src: pkg/phaseframe/phaseutil/util.go 900-909 GetRemoteBKEConfigCM *)
definition GetRemoteBKEConfigCM :: "'w map_api \<Rightarrow> 'w \<Rightarrow> 'w \<times> (api_error + stored_map option)" where
  "GetRemoteBKEConfigCM api = get_or_missing api (fst util_BKEConfigCmKey) (snd util_BKEConfigCmKey)"

text \<open>The function that is retried on conflicts, and the creation of a namespace that may exist.\<close>

definition overwrite_remote :: "'w map_api \<Rightarrow> stored_map \<Rightarrow> 'w attempt" where
  "overwrite_remote api m w =
     (case rm_get api (cfm_namespace m) (cfm_name m) w of
        (w', Inl e) \<Rightarrow> (w', Some e)
      | (w', Inr existing) \<Rightarrow> rm_update api (existing\<lparr>cfm_data := cfm_data m\<rparr>) w')"

definition tolerate_existing :: "'w attempt \<Rightarrow> 'w attempt" where
  "tolerate_existing f w = (case f w of (w', Some ApiAlreadyExists) \<Rightarrow> (w', None) | r \<Rightarrow> r)"

definition create_or_overwrite :: "'w map_api \<Rightarrow> stored_map \<Rightarrow> 'w attempt" where
  "create_or_overwrite api m w =
     (case rm_create api m w of
        (w', None) \<Rightarrow> (w', None)
      | (w', Some e) \<Rightarrow> if e = ApiAlreadyExists then RetryOnConflict (ma_retry api) (overwrite_remote api m) w' else (w', Some e))"

definition copy_map :: "'w map_api \<Rightarrow> stored_map \<Rightarrow> 'w attempt" where
  "copy_map api m w =
     (case tolerate_existing (rm_createNs api (cfm_namespace m)) w of
        (w', Some e) \<Rightarrow> (w', Some e)
      | (w', None) \<Rightarrow> create_or_overwrite api m w')"

(* src: pkg/phaseframe/phaseutil/util.go 912-957 MigrateBKEConfigCM *)
definition MigrateBKEConfigCM :: "'w map_api \<Rightarrow> 'w attempt" where
  "MigrateBKEConfigCM api w =
     (case lc_get api (fst util_BKEConfigCmKey) (snd util_BKEConfigCmKey) w of
        (w', Inl e) \<Rightarrow> (w', Some e)
      | (w', Inr config) \<Rightarrow> copy_map api (new_map (fst util_BKEConfigCmKey) (snd util_BKEConfigCmKey) (cfm_data config)) w')"

definition HealthNamespace :: string where
  "HealthNamespace = ''bke-config''"

definition HealthName :: string where
  "HealthName = ''health-check-config''"

(* src: pkg/phaseframe/phaseutil/util.go 981-987 ensureHealthCheckConfigNamespace *)
definition ensureHealthCheckConfigNamespace :: "'w map_api \<Rightarrow> 'w attempt" where
  "ensureHealthCheckConfigNamespace api = tolerate_existing (lc_createNs api HealthNamespace)"

(* src: pkg/phaseframe/phaseutil/util.go 960-979 EnsureLocalHealthCheckConfigCM *)
definition EnsureLocalHealthCheckConfigCM :: "'w map_api \<Rightarrow> string \<Rightarrow> 'w attempt" where
  "EnsureLocalHealthCheckConfigCM api defaultConfig w =
     (case ensureHealthCheckConfigNamespace api w of
        (w', Some e) \<Rightarrow> (w', Some e)
      | (w', None) \<Rightarrow> tolerate_existing (lc_create api (new_map HealthNamespace HealthName [(''config.yaml'', defaultConfig)])) w')"

(* src: pkg/phaseframe/phaseutil/util.go 990-1002 GetRemoteHealthCheckConfigCM *)
definition GetRemoteHealthCheckConfigCM :: "'w map_api option \<Rightarrow> 'w \<Rightarrow> 'w \<times> (api_error + stored_map option)" where
  "GetRemoteHealthCheckConfigCM apio w =
     (case apio of None \<Rightarrow> (w, Inl (ErrMsg ''remote kubernetes clientset is nil'')) | Some api \<Rightarrow> get_or_missing api HealthNamespace HealthName w)"

(* src: pkg/phaseframe/phaseutil/util.go 1005-1046 MigrateHealthCheckConfigCM *)
definition MigrateHealthCheckConfigCM :: "'w map_api option \<Rightarrow> string \<Rightarrow> 'w attempt" where
  "MigrateHealthCheckConfigCM apio defaultConfig w =
     (case apio of
        None \<Rightarrow> (w, Some (ErrMsg ''remote kubernetes clientset is nil''))
      | Some api \<Rightarrow>
          (case EnsureLocalHealthCheckConfigCM api defaultConfig w of
             (w1, Some e) \<Rightarrow> (w1, Some e)
           | (w1, None) \<Rightarrow>
               (case lc_get api HealthNamespace HealthName w1 of
                  (w2, Inl e) \<Rightarrow> (w2, Some e)
                | (w2, Inr config) \<Rightarrow> copy_map api (new_map HealthNamespace HealthName (cfm_data config)) w2)))"

fun copy_patches :: "'w map_api \<Rightarrow> stored_map list \<Rightarrow> 'w attempt" where
  "copy_patches api [] w = (w, None)"
| "copy_patches api (m # ms) w =
     (if \<not> HasPrefix (cfm_name m) ''cm.'' then copy_patches api ms w
      else case create_or_overwrite api (new_map ''openfuyao-patch'' (cfm_name m) (cfm_data m)) w of
             (w', Some e) \<Rightarrow> (w', Some e)
           | (w', None) \<Rightarrow> copy_patches api ms w')"

(* src: pkg/phaseframe/phaseutil/util.go 1047-1098 MigratePatchConfigCM *)
definition MigratePatchConfigCM :: "'w map_api \<Rightarrow> 'w attempt" where
  "MigratePatchConfigCM api w =
     (case lc_list api ''openfuyao-patch'' w of
        (w1, Inl e) \<Rightarrow> (w1, Some e)
      | (w1, Inr items) \<Rightarrow>
          (case tolerate_existing (rm_createNs api ''openfuyao-patch'') w1 of
             (w2, Some e) \<Rightarrow> (w2, Some e)
           | (w2, None) \<Rightarrow> copy_patches api items w2))"

subsection \<open>Patch configurations\<close>

datatype patch_error = PatchApi api_error | ErrLocalPatchKeyNotFound string | PatchInfoMissing string | PatchUnreadable

(* src: pkg/phaseframe/phaseutil/upgrade.go 149-177 LoadPatchConfig *)
definition LoadPatchConfig :: "'w map_api \<Rightarrow> (string \<Rightarrow> 'p option) \<Rightarrow> string \<Rightarrow> 'w \<Rightarrow> 'w \<times> (patch_error + 'p)" where
  "LoadPatchConfig api GetPatchConfig version w =
     (case lc_get api (fst util_BKEConfigCmKey) (snd util_BKEConfigCmKey) w of
        (w1, Inl e) \<Rightarrow> (w1, Inl (PatchApi e))
      | (w1, Inr localMap) \<Rightarrow>
          if \<not> has_key (cfm_data localMap) (''patch.'' @ version) then (w1, Inl (ErrLocalPatchKeyNotFound (''patch.'' @ version)))
          else (case lc_get api ''openfuyao-patch'' (''cm.'' @ version) w1 of
                  (w2, Inl e) \<Rightarrow> (w2, Inl (PatchApi e))
                | (w2, Inr patchMap) \<Rightarrow>
                    (case map_of (cfm_data patchMap) version of
                       None \<Rightarrow> (w2, Inl (PatchInfoMissing version))
                     | Some d \<Rightarrow> (case GetPatchConfig d of None \<Rightarrow> (w2, Inl PatchUnreadable) | Some cfg \<Rightarrow> (w2, Inr cfg)))))"

section \<open>Migrated maps arrive\<close>

text \<open>The documented behaviour of the client of the other cluster, as long as nobody else writes there: \<open>remote\<close> are the data
  stored there. A read returns an object under the key it was asked for, a write that reports success has taken place, and a call
  that fails has no effect.\<close>

definition remote_ok :: "'w map_api \<Rightarrow> ('w \<Rightarrow> string \<times> string \<Rightarrow> string gomap option) \<Rightarrow> bool" where
  "remote_ok api remote \<longleftrightarrow>
     (\<forall>m w w' r. rm_create api m w = (w', r) \<longrightarrow>
        remote w' = (if r = None then (remote w)((cfm_namespace m, cfm_name m) \<mapsto> cfm_data m) else remote w)) \<and>
     (\<forall>m w w' r. rm_update api m w = (w', r) \<longrightarrow>
        remote w' = (if r = None then (remote w)((cfm_namespace m, cfm_name m) \<mapsto> cfm_data m) else remote w)) \<and>
     (\<forall>namespace name w w' r. rm_get api namespace name w = (w', r) \<longrightarrow>
        remote w' = remote w \<and> (\<forall>m. r = Inr m \<longrightarrow> cfm_namespace m = namespace \<and> cfm_name m = name)) \<and>
     (\<forall>ns w. remote (fst (rm_createNs api ns w)) = remote w) \<and>
     (\<forall>namespace name w. remote (fst (lc_get api namespace name w)) = remote w) \<and> (\<forall>namespace w. remote (fst (lc_list api namespace w)) = remote w)"

lemma overwrite_writes:
  assumes "remote_ok api remote" "overwrite_remote api m w = (w', r)"
  shows "remote w' = (if r = None then (remote w)((cfm_namespace m, cfm_name m) \<mapsto> cfm_data m) else remote w)"
proof -
  obtain u g where g: "rm_get api (cfm_namespace m) (cfm_name m) w = (u, g)" by fastforce
  with assms(1) have u: "remote u = remote w" "\<And>e. g = Inr e \<Longrightarrow> cfm_namespace e = cfm_namespace m \<and> cfm_name e = cfm_name m"
    unfolding remote_ok_def by blast+
  show ?thesis
  proof (cases g)
    case (Inl e)
    with assms(2) g u(1) show ?thesis by (auto simp: overwrite_remote_def)
  next
    case (Inr e)
    then have "rm_update api (e\<lparr>cfm_data := cfm_data m\<rparr>) u = (w', r)" using assms(2) g by (simp add: overwrite_remote_def)
    then have "remote w' = (if r = None then (remote u)((cfm_namespace e, cfm_name e) \<mapsto> cfm_data m) else remote u)"
      using assms(1) unfolding remote_ok_def by fastforce
    with u Inr show ?thesis by simp
  qed
qed

lemma create_or_overwrite_writes:
  assumes ok: "remote_ok api remote" "retry_loop_ok (ma_retry api)" and run: "create_or_overwrite api m w = (w', r)"
  shows "remote w' = (if r = None then (remote w)((cfm_namespace m, cfm_name m) \<mapsto> cfm_data m) else remote w)"
proof -
  obtain u c where c: "rm_create api m w = (u, c)" by fastforce
  with ok(1) have u: "remote u = (if c = None then (remote w)((cfm_namespace m, cfm_name m) \<mapsto> cfm_data m) else remote w)"
    unfolding remote_ok_def by blast
  show ?thesis
  proof (cases "c = Some ApiAlreadyExists")
    case True
    then have "RetryOnConflict (ma_retry api) (overwrite_remote api m) u = (w', r)" using run c by (simp add: create_or_overwrite_def)
    then have "remote w' = (if r = None then (remote u)((cfm_namespace m, cfm_name m) \<mapsto> cfm_data m) else remote u)"
      by (rule RetryOnConflict_induct [OF ok(2), where I = "\<lambda>v. remote v = remote u"]) (auto dest: overwrite_writes [OF ok(1)])
    with u True show ?thesis by simp
  next
    case False
    with run c u show ?thesis by (auto simp: create_or_overwrite_def split: option.splits if_splits)
  qed
qed

lemma copy_map_writes:
  assumes "remote_ok api remote" "retry_loop_ok (ma_retry api)" "copy_map api m w = (w', None)"
  shows "remote w' = (remote w)((cfm_namespace m, cfm_name m) \<mapsto> cfm_data m)"
proof -
  obtain u where u: "tolerate_existing (rm_createNs api (cfm_namespace m)) w = (u, None)" "create_or_overwrite api m u = (w', None)"
    using assms(3) by (auto simp: copy_map_def split: prod.splits option.splits)
  then have "u = fst (rm_createNs api (cfm_namespace m) w)"
    by (auto simp: tolerate_existing_def split: prod.splits option.splits api_error.splits)
  with assms(1) have "remote u = remote w" by (simp add: remote_ok_def)
  with create_or_overwrite_writes [OF assms(1,2) u(2)] show ?thesis by simp
qed

text \<open>When the migration of the provider's configuration reports success, the other cluster holds the data read here, and nothing
  else there has changed.\<close>

theorem migrated_config_arrives:
  assumes "remote_ok api remote" "retry_loop_ok (ma_retry api)" "MigrateBKEConfigCM api w = (w', None)"
  shows "\<exists>config. snd (lc_get api (fst util_BKEConfigCmKey) (snd util_BKEConfigCmKey) w) = Inr config \<and> remote w' = (remote w)(util_BKEConfigCmKey \<mapsto> cfm_data config)"
proof -
  obtain u g where g: "lc_get api (fst util_BKEConfigCmKey) (snd util_BKEConfigCmKey) w = (u, g)" by fastforce
  with assms(1) have u: "remote u = remote w" unfolding remote_ok_def by (metis fst_conv)
  from g assms(3) obtain config where c: "g = Inr config" "copy_map api (new_map (fst util_BKEConfigCmKey) (snd util_BKEConfigCmKey) (cfm_data config)) u = (w', None)"
    by (cases g) (auto simp: MigrateBKEConfigCM_def)
  from copy_map_writes [OF assms(1,2) c(2)] u g c(1) show ?thesis by (auto simp: new_map_def util_BKEConfigCmKey_def)
qed

lemma copy_patches_writes:
  assumes "remote_ok api remote" "retry_loop_ok (ma_retry api)" "copy_patches api ms w = (w', None)" "distinct (map cfm_name ms)"
  shows "remote w' = (\<lambda>(ns, name). if ns = ''openfuyao-patch'' \<and> HasPrefix name ''cm.'' \<and> name \<in> cfm_name ` set ms
    then Some (cfm_data (the (find (\<lambda>m. cfm_name m = name) ms))) else remote w (ns, name))"
  using assms(3,4)
proof (induction ms arbitrary: w)
  case (Cons m ms)
  show ?case
  proof (cases "HasPrefix (cfm_name m) ''cm.''")
    case False
    with Cons have "remote w' = (\<lambda>(ns, name). if ns = ''openfuyao-patch'' \<and> HasPrefix name ''cm.'' \<and> name \<in> cfm_name ` set ms
        then Some (cfm_data (the (find (\<lambda>m. cfm_name m = name) ms))) else remote w (ns, name))" by simp
    with False show ?thesis by (auto intro!: ext)
  next
    case True
    obtain u where u: "create_or_overwrite api (new_map ''openfuyao-patch'' (cfm_name m) (cfm_data m)) w = (u, None)" "copy_patches api ms u = (w', None)"
      using Cons.prems(1) True by (auto split: prod.splits option.splits)
    have r: "remote u = (remote w)((''openfuyao-patch'', cfm_name m) \<mapsto> cfm_data m)"
      using create_or_overwrite_writes [OF assms(1,2) u(1)] by (simp add: new_map_def)
    have "remote w' = (\<lambda>(ns, name). if ns = ''openfuyao-patch'' \<and> HasPrefix name ''cm.'' \<and> name \<in> cfm_name ` set ms
        then Some (cfm_data (the (find (\<lambda>m. cfm_name m = name) ms))) else remote u (ns, name))"
      using Cons.IH [OF u(2)] Cons.prems(2) by simp
    with r True Cons.prems(2) show ?thesis by (auto intro!: ext)
  qed
qed auto

text \<open>When the migration of the patches reports success, every patch listed here is stored there with its data, and nothing but
  patches was written.\<close>

theorem migrated_patches_arrive:
  assumes "remote_ok api remote" "retry_loop_ok (ma_retry api)" "MigratePatchConfigCM api w = (w', None)"
    and list: "snd (lc_list api ''openfuyao-patch'' w) = Inr items" "distinct (map cfm_name items)"
  shows "(\<forall>m\<in>set items. HasPrefix (cfm_name m) ''cm.'' \<longrightarrow> remote w' (''openfuyao-patch'', cfm_name m) = Some (cfm_data m)) \<and>
    (\<forall>k. fst k \<noteq> ''openfuyao-patch'' \<or> \<not> HasPrefix (snd k) ''cm.'' \<longrightarrow> remote w' k = remote w k)"
proof -
  obtain u v where u: "lc_list api ''openfuyao-patch'' w = (u, Inr items)"
    and v: "tolerate_existing (rm_createNs api ''openfuyao-patch'') u = (v, None)" and c: "copy_patches api items v = (w', None)"
    using assms(3) list(1) by (auto simp: MigratePatchConfigCM_def split: prod.splits sum.splits option.splits)
  have "v = fst (rm_createNs api ''openfuyao-patch'' u)"
    using v by (auto simp: tolerate_existing_def split: prod.splits option.splits api_error.splits)
  then have vw: "remote v = remote w" using assms(1) u unfolding remote_ok_def by (metis fst_conv)
  from copy_patches_writes [OF assms(1,2) c list(2)]
  have r: "remote w' = (\<lambda>(ns, name). if ns = ''openfuyao-patch'' \<and> HasPrefix name ''cm.'' \<and> name \<in> cfm_name ` set items
    then Some (cfm_data (the (find (\<lambda>m. cfm_name m = name) items))) else remote w (ns, name))" unfolding vw .
  have find: "find (\<lambda>x. cfm_name x = cfm_name m) ms = Some m" if "m \<in> set ms" "distinct (map cfm_name ms)" for m and ms :: "stored_map list"
    using that by (induction ms) auto
  show ?thesis using find [OF _ list(2)] by (auto simp: r)
qed

text \<open>A pair of clusters for the witnesses; the other one holds an older map, and reports one conflict.\<close>

type_synonym two_clusters = "stored_map list \<times> ((string \<times> string) \<times> string gomap) list \<times> nat"

fun put_remote :: "stored_map \<Rightarrow> two_clusters \<Rightarrow> two_clusters" where
  "put_remote m (l, r, k) = (l, AList.update (cfm_namespace m, cfm_name m) (cfm_data m) r, k)"

fun stored_remote :: "two_clusters \<Rightarrow> string \<times> string \<Rightarrow> string gomap option" where
  "stored_remote (l, r, k) = map_of r"

definition pair_maps :: "two_clusters map_api" where
  "pair_maps = \<lparr>
     lc_get = (\<lambda>ns n w. case w of (l, r, k) \<Rightarrow> (w, case find (\<lambda>m. cfm_namespace m = ns \<and> cfm_name m = n) l of None \<Rightarrow> Inl ApiNotFound | Some m \<Rightarrow> Inr m)),
     lc_list = (\<lambda>ns w. case w of (l, r, k) \<Rightarrow> (w, Inr (filter (\<lambda>m. cfm_namespace m = ns) l))),
     lc_createNs = (\<lambda>_ w. (w, None)), lc_create = (\<lambda>_ w. (w, Some ApiAlreadyExists)),
     rm_get = (\<lambda>ns n w. case w of (l, r, k) \<Rightarrow> (w, case map_of r (ns, n) of None \<Rightarrow> Inl ApiNotFound | Some d \<Rightarrow> Inr (new_map ns n d))),
     rm_createNs = (\<lambda>_ w. (w, Some ApiAlreadyExists)),
     rm_create = (\<lambda>m w. if stored_remote w (cfm_namespace m, cfm_name m) = None then (put_remote m w, None) else (w, Some ApiAlreadyExists)),
     rm_update = (\<lambda>m w. case w of (l, r, 0) \<Rightarrow> (put_remote m w, None) | (l, r, Suc k) \<Rightarrow> ((l, r, k), Some ApiConflict)),
     ma_retry = demo_retry\<rparr>"

lemma stored_put: "stored_remote (put_remote m w) = (stored_remote w)((cfm_namespace m, cfm_name m) \<mapsto> cfm_data m)"
  by (cases "(m, w)" rule: put_remote.cases) (simp add: update_conv')

lemma pair_maps_ok: "remote_ok pair_maps stored_remote"
proof -
  have "stored_remote w' = (if r = None then (stored_remote w)((cfm_namespace m, cfm_name m) \<mapsto> cfm_data m) else stored_remote w)"
    if "rm_update pair_maps m w = (w', r)" for m w w' r
  proof -
    obtain l q k where w: "w = (l, q, k)" by (cases w)
    show ?thesis
    proof (cases k)
      case 0
      with that w have "w' = put_remote m w" "r = None" by (simp_all add: pair_maps_def)
      then show ?thesis by (simp only: stored_put simp_thms if_True)
    qed (use that w in \<open>auto simp: pair_maps_def\<close>)
  qed
  moreover have "stored_remote w' = (if r = None then (stored_remote w)((cfm_namespace m, cfm_name m) \<mapsto> cfm_data m) else stored_remote w)"
    if "rm_create pair_maps m w = (w', r)" for m w w' r
    using that by (auto simp: pair_maps_def stored_put split: if_splits)
  moreover have "stored_remote w' = stored_remote w \<and> (\<forall>m. r = Inr m \<longrightarrow> cfm_namespace m = ns \<and> cfm_name m = n)"
    if "rm_get pair_maps ns n w = (w', r)" for ns n w w' r
    using that by (auto simp: pair_maps_def new_map_def split: prod.splits option.splits)
  moreover have "stored_remote (fst (rm_createNs pair_maps ns w)) = stored_remote w" "stored_remote (fst (lc_get pair_maps ns n w)) = stored_remote w"
    "stored_remote (fst (lc_list pair_maps ns w)) = stored_remote w" for ns n w
    by (simp_all add: pair_maps_def split: prod.splits)
  ultimately show ?thesis unfolding remote_ok_def by blast
qed

definition two_sides :: two_clusters where
  "two_sides = ([new_map ''cluster-system'' ''bke-config'' [(''domain'', ''new'')], new_map ''openfuyao-patch'' ''cm.v1'' [(''v1'', ''p'')],
      new_map ''openfuyao-patch'' ''other'' []], [((''cluster-system'', ''bke-config''), [(''domain'', ''old'')])], 1)"

theorem migrated_config_arrives_witness:
  "stored_remote (fst (MigrateBKEConfigCM pair_maps two_sides)) (''cluster-system'', ''bke-config'') = Some [(''domain'', ''new'')]"
proof -
  have "snd (MigrateBKEConfigCM pair_maps two_sides) = None" by code_simp
  then obtain w' where w': "MigrateBKEConfigCM pair_maps two_sides = (w', None)" by (metis prod.collapse)
  have "retry_loop_ok (ma_retry pair_maps)" by (simp add: pair_maps_def)
  from migrated_config_arrives [OF pair_maps_ok this w'] obtain config
    where c: "snd (lc_get pair_maps (fst util_BKEConfigCmKey) (snd util_BKEConfigCmKey) two_sides) = Inr config"
      "stored_remote w' = (stored_remote two_sides)(util_BKEConfigCmKey \<mapsto> cfm_data config)" by blast
  have "cfm_data config = [(''domain'', ''new'')]"
    using c(1) by (simp add: pair_maps_def two_sides_def util_BKEConfigCmKey_def new_map_def) auto
  with c(2) w' show ?thesis by (simp add: util_BKEConfigCmKey_def)
qed

theorem migrated_patches_arrive_witness:
  "stored_remote (fst (MigratePatchConfigCM pair_maps two_sides)) (''openfuyao-patch'', ''cm.v1'') = Some [(''v1'', ''p'')]"
proof -
  let ?items = "[new_map ''openfuyao-patch'' ''cm.v1'' [(''v1'', ''p'')], new_map ''openfuyao-patch'' ''other'' []]"
  have "snd (MigratePatchConfigCM pair_maps two_sides) = None" by code_simp
  then obtain w' where w': "MigratePatchConfigCM pair_maps two_sides = (w', None)" by (metis prod.collapse)
  have r: "retry_loop_ok (ma_retry pair_maps)" by (simp add: pair_maps_def)
  have i: "snd (lc_list pair_maps ''openfuyao-patch'' two_sides) = Inr ?items" "distinct (map cfm_name ?items)"
    by (simp_all add: pair_maps_def two_sides_def new_map_def)
  from migrated_patches_arrive [OF pair_maps_ok r w' i] w' show ?thesis by (simp add: new_map_def HasPrefix_def)
qed

end
