(* ===== verification/Cluster_Health.thy ===== *)
theory Cluster_Health
  imports Bke_Nodes Node_Lists "HOL-Library.Multiset"
begin

text \<open>
  The health of a target cluster: \<^verbatim>\<open>pkg/kube/health.go\<close>, \<^verbatim>\<open>pkg/kube/health_unified.go\<close> and
  \<^verbatim>\<open>pkg/kube/health_cache.go\<close>, with the labels of nodes of \<^verbatim>\<open>utils/capbke/label\<close>.

  The check looks at all nodes, then at the pods of the components of each priority. Nodes and
  components of one priority are checked by goroutines: \<open>hc_sections\<close> is the order in which they enter their
  critical sections, \<open>hc_order\<close> the order in which their errors or reads arrive. Errors are trees: the errors of the
  package, aggregates, and wrapped errors; \<^verbatim>\<open>errors.As\<close> follows wrapped errors and not the members of an
  aggregate. What the API server answers, the texts of errors, YAML and durations are parameters.

  The results: when a cluster counts as healthy, that the interleaving of the goroutines changes neither the
  recorded node states nor the interval of the next check, and which interval that is.
\<close>

section \<open>Labels\<close>

(* src: utils/capbke/label/constants.go 19-19 WorkerNodeHost *)
definition WorkerNodeHost :: string where
  "WorkerNodeHost = ''bke.bocloud.com/worker-node''"

(* src: utils/capbke/label/constants.go 23-23 MasterNodeHost *)
definition MasterNodeHost :: string where
  "MasterNodeHost = ''bke.bocloud.com/master-node''"

(* src: utils/capbke/label/constants.go 26-26 NodeRoleMasterLabel *)
definition NodeRoleMasterLabel :: string where
  "NodeRoleMasterLabel = ''node-role.kubernetes.io/master''"

(* src: utils/capbke/label/constants.go 28-28 NodeRoleNodeLabel *)
definition NodeRoleNodeLabel :: string where
  "NodeRoleNodeLabel = ''node-role.kubernetes.io/node''"

(* src: utils/capbke/label/constants.go 31-31 NodeRoleControlPlaneLabelKey *)
definition NodeRoleControlPlaneLabelKey :: string where
  "NodeRoleControlPlaneLabelKey = ''node-role.kubernetes.io/control-plane''"

(* src: utils/capbke/label/constants.go 35-35 NodeRoleWorkerLabelKey *)
definition NodeRoleWorkerLabelKey :: string where
  "NodeRoleWorkerLabelKey = ''node-role.kubernetes.io/worker''"

(* src: utils/capbke/label/constants.go 52-52 BocVersionLabelKey *)
definition BocVersionLabelKey :: string where
  "BocVersionLabelKey = ''kubernetes.customized/bocloud_custom_version''"

(* src: utils/capbke/label/helper.go 22-29 SetLabel *)
definition SetLabel :: "string gomap \<Rightarrow> string \<Rightarrow> string \<Rightarrow> string gomap" where
  "SetLabel labels key value = AList.update key value labels"

(* src: utils/capbke/label/helper.go 32-45 SetBKEMachineLabel *)
definition SetBKEMachineLabel :: "string gomap \<Rightarrow> string \<Rightarrow> string \<Rightarrow> string gomap" where
  "SetBKEMachineLabel labels role value = AList.update (if role = MasterNodeRole then MasterNodeHost else WorkerNodeHost) value labels"

(* src: utils/capbke/label/helper.go 48-62 CheckBKEMachineLabel *)
definition CheckBKEMachineLabel :: "string gomap \<Rightarrow> string option" where
  "CheckBKEMachineLabel labels = (case map_of labels WorkerNodeHost of Some v \<Rightarrow> Some v | None \<Rightarrow> map_of labels MasterNodeHost)"

(* src: utils/capbke/label/helper.go 65-77 RemoveBKEMachineLabel *)
definition RemoveBKEMachineLabel :: "string gomap \<Rightarrow> string \<Rightarrow> string gomap" where
  "RemoveBKEMachineLabel labels role = AList.delete (if role = MasterNodeRole then MasterNodeHost else WorkerNodeHost) labels"

(* src: utils/capbke/label/helper.go 140-148 HasLabel *)
definition HasLabel :: "string gomap \<Rightarrow> string \<Rightarrow> bool" where
  "HasLabel labels key = has_key labels key"

(* src: utils/capbke/label/helper.go 151-161 IsLabelEqual *)
definition IsLabelEqual :: "string gomap \<Rightarrow> string \<Rightarrow> string \<Rightarrow> bool" where
  "IsLabelEqual labels key value \<longleftrightarrow> map_of labels key = Some value"

definition set_missing :: "string \<Rightarrow> string \<Rightarrow> string gomap \<Rightarrow> string gomap" where
  "set_missing key value labels = (if has_key labels key then labels else AList.update key value labels)"

(* src: utils/capbke/label/helper.go 87-106 SetMasterRoleLabel *)
definition SetMasterRoleLabel :: "string gomap \<Rightarrow> string gomap" where
  "SetMasterRoleLabel = set_missing NodeRoleControlPlaneLabelKey ''control-plane'' \<circ> set_missing NodeRoleMasterLabel ''''"

(* src: utils/capbke/label/helper.go 108-127 SetWorkerRoleLabel *)
definition SetWorkerRoleLabel :: "string gomap \<Rightarrow> string gomap" where
  "SetWorkerRoleLabel = set_missing NodeRoleWorkerLabelKey ''worker'' \<circ> set_missing NodeRoleNodeLabel ''''"

(* src: utils/capbke/label/helper.go 129-138 SetBocVersionLabel *)
definition SetBocVersionLabel :: "string gomap \<Rightarrow> string \<Rightarrow> string gomap" where
  "SetBocVersionLabel labels version = (if map_of labels BocVersionLabelKey = Some version then labels else AList.update BocVersionLabelKey version labels)"

section \<open>Objects of the target cluster\<close>

text \<open>What the check reads of a container, a pod and a node. A terminated container has an exit code, a waiting one a
  reason; conditions and addresses are pairs of a type and a value.\<close>

record container_status =
  ct_name :: string
  ct_ready :: bool
  ct_terminated :: "int option"
  ct_waiting :: "string option"

record pod =
  po_namespace :: string
  po_name :: string
  po_phase :: string
  po_conditions :: "(string \<times> string) list"
  po_init :: "container_status list"
  po_containers :: "container_status list"

record kube_node =
  kn_name :: string
  kn_labels :: "string gomap"
  kn_conditions :: "(string \<times> string) list"
  kn_addresses :: "(string \<times> string) list"
  kn_kubelet :: string

(* src: utils/capbke/label/helper.go 79-81 IsMasterNode *)
definition label_IsMasterNode :: "kube_node \<Rightarrow> bool" where
  "label_IsMasterNode n = HasLabel (kn_labels n) NodeRoleMasterLabel"

(* src: utils/capbke/label/helper.go 83-85 IsWorkerNode *)
definition label_IsWorkerNode :: "kube_node \<Rightarrow> bool" where
  "label_IsWorkerNode n = HasLabel (kn_labels n) NodeRoleNodeLabel"

(* src: pkg/kube/collector.go 376-383 GetNodeIP *)
definition GetNodeIP :: "kube_node \<Rightarrow> string" where
  "GetNodeIP n = (case find (\<lambda>a. fst a = ''InternalIP'') (kn_addresses n) of None \<Rightarrow> '''' | Some a \<Rightarrow> snd a)"

(* src: pkg/kube/health.go 436-443 NodeReady *)
definition kube_NodeReady :: "kube_node \<Rightarrow> bool" where
  "kube_NodeReady n \<longleftrightarrow> (''Ready'', ''True'') \<in> set (kn_conditions n)"

(* src: pkg/kube/health.go 432-434 StaticPodName *)
definition StaticPodName :: "string \<Rightarrow> string \<Rightarrow> string" where
  "StaticPodName component nodeName = component @ ''-'' @ nodeName"

section \<open>Errors\<close>

(* src: pkg/kube/health_unified.go 33-39 HealthCheckPriority *)
datatype priority = PriorityCritical | PriorityImportant | PriorityOptional

(* src: pkg/kube/health_unified.go 42-53 HealthCheckPriority.String *)
fun priority_String :: "priority \<Rightarrow> string" where
  "priority_String PriorityCritical = ''critical''"
| "priority_String PriorityImportant = ''important''"
| "priority_String PriorityOptional = ''optional''"

(* src: pkg/kube/health_unified.go 68-74 ComponentInfo *)
record component_info =
  ci_name :: string
  ci_namespace :: string
  ci_prefix :: string
  ci_podName :: string
  ci_priority :: priority

(* src: pkg/kube/health_unified.go 77-88 ComponentInfo.String *)
definition ComponentInfo_String :: "component_info \<Rightarrow> string" where
  "ComponentInfo_String c =
     (if ci_namespace c = '''' then ci_name c
      else if ci_podName c \<noteq> '''' then ci_namespace c @ ''/'' @ ci_podName c
      else if ci_prefix c \<noteq> '''' then ci_namespace c @ ''/'' @ ci_prefix c @ ''('' @ ci_name c @ '')''
      else ci_namespace c @ ''/'' @ ci_name c)"

(* src: pkg/kube/health_unified.go 103-108 IntervalConfig *)
record interval_config =
  iv_critical :: int
  iv_important :: int
  iv_optional :: int
  iv_normal :: int

text \<open>\<open>Plain\<close> is an error without structure, \<open>Wrapped\<close> one of \<^verbatim>\<open>fmt.Errorf\<close> with \<^verbatim>\<open>%w\<close>.\<close>

(* src: pkg/kube/health_unified.go 89-93 HealthCheckError *)
datatype health_error =
    Plain string
  | HealthCheckError component_info string health_error
  | Aggregate "health_error list"
  | Requeue health_error interval_config
  | Wrapped string health_error

(* src: pkg/kube/health_unified.go 96-98 HealthCheckError.Error *)
definition HealthCheckError_Error :: "component_info \<Rightarrow> string \<Rightarrow> string \<Rightarrow> string" where
  "HealthCheckError_Error c reason inner =
     ''['' @ priority_String (ci_priority c) @ ''] '' @ ComponentInfo_String c @ '' ('' @ reason @ ''): '' @ inner"

definition NewAggregate :: "health_error list \<Rightarrow> health_error option" where
  "NewAggregate errs = (if errs = [] then None else Some (Aggregate errs))"

fun as_HealthCheckError :: "health_error \<Rightarrow> component_info option" where
  "as_HealthCheckError (HealthCheckError c r e) = Some c"
| "as_HealthCheckError (Requeue e i) = as_HealthCheckError e"
| "as_HealthCheckError (Wrapped s e) = as_HealthCheckError e"
| "as_HealthCheckError _ = None"

fun as_Requeue :: "health_error \<Rightarrow> (health_error \<times> interval_config) option" where
  "as_Requeue (Requeue e i) = Some (e, i)"
| "as_Requeue (HealthCheckError c r e) = as_Requeue e"
| "as_Requeue (Wrapped s e) = as_Requeue e"
| "as_Requeue _ = None"

definition found_as :: "health_error \<Rightarrow> priority \<Rightarrow> bool" where
  "found_as e p \<longleftrightarrow> (case as_HealthCheckError e of None \<Rightarrow> False | Some c \<Rightarrow> ci_priority c = p)"

(* src: pkg/kube/health_unified.go 586-618 hasPriority *)
fun hasPriority :: "health_error \<Rightarrow> priority \<Rightarrow> bool" where
  "hasPriority (Plain s) p = False"
| "hasPriority (HealthCheckError c r e) p = (found_as (HealthCheckError c r e) p \<or> hasPriority e p)"
| "hasPriority (Aggregate es) p = list_ex (\<lambda>e. hasPriority e p) es"
| "hasPriority (Requeue e i) p = (found_as (Requeue e i) p \<or> hasPriority e p)"
| "hasPriority (Wrapped s e) p = (found_as (Wrapped s e) p \<or> hasPriority e p)"

(* src: pkg/kube/health_unified.go 578-580 IsCriticalHealthCheckError *)
definition IsCriticalHealthCheckError :: "health_error \<Rightarrow> bool" where
  "IsCriticalHealthCheckError e = hasPriority e PriorityCritical"

(* src: pkg/kube/health_unified.go 582-584 IsImportantHealthCheckError *)
definition IsImportantHealthCheckError :: "health_error \<Rightarrow> bool" where
  "IsImportantHealthCheckError e = hasPriority e PriorityImportant"

(* src: pkg/kube/health_unified.go 620-635 ComponentErrorsByPriority *)
fun ComponentErrorsByPriority :: "health_error \<Rightarrow> priority \<Rightarrow> component_info list" where
  "ComponentErrorsByPriority (Aggregate es) p = concat (map (\<lambda>e. ComponentErrorsByPriority e p) es)"
| "ComponentErrorsByPriority e p = (case as_HealthCheckError e of None \<Rightarrow> [] | Some c \<Rightarrow> if ci_priority c = p then [c] else [])"

(* src: pkg/kube/health_unified.go 655-660 newHealthCheckRequeueError *)
definition newHealthCheckRequeueError :: "health_error option \<Rightarrow> interval_config \<Rightarrow> health_error option" where
  "newHealthCheckRequeueError err intervals = map_option (\<lambda>e. Requeue e intervals) err"

(* src: pkg/kube/health_unified.go 671-682 getHealthCheckRequeueInterval *)
definition getHealthCheckRequeueInterval :: "health_error option \<Rightarrow> interval_config \<Rightarrow> int" where
  "getHealthCheckRequeueInterval err i =
     (case err of None \<Rightarrow> iv_normal i
      | Some e \<Rightarrow> if IsCriticalHealthCheckError e then iv_critical i
                  else if IsImportantHealthCheckError e then iv_important i else iv_optional i)"

section \<open>Pods\<close>

(* src: pkg/kube/health.go 349-356 isPodReadyConditionTrue *)
definition isPodReadyConditionTrue :: "pod \<Rightarrow> bool" where
  "isPodReadyConditionTrue p = (case find (\<lambda>c. fst c = ''Ready'') (po_conditions p) of None \<Rightarrow> False | Some c \<Rightarrow> snd c = ''True'')"

(* src: pkg/kube/health.go 358-365 isFatalWaitingReason *)
definition isFatalWaitingReason :: "string \<Rightarrow> bool" where
  "isFatalWaitingReason r \<longleftrightarrow>
     r \<in> set [''CrashLoopBackOff'', ''ImagePullBackOff'', ''ErrImagePull'', ''CreateContainerConfigError'', ''CreateContainerError'']"

definition container_error :: "string \<Rightarrow> container_status \<Rightarrow> string option" where
  "container_error kind cs =
     (if \<not> ct_ready cs then Some (kind @ '' '' @ ct_name cs @ '' not ready'')
      else case ct_waiting cs of None \<Rightarrow> None
           | Some r \<Rightarrow> if isFatalWaitingReason r then Some (kind @ '' '' @ ct_name cs @ '' waiting reason: '' @ r) else None)"

definition init_error :: "container_status \<Rightarrow> string option" where
  "init_error cs = (if ct_terminated cs = Some 0 then None else container_error ''init container'' cs)"

fun first_error :: "('a \<Rightarrow> string option) \<Rightarrow> 'a list \<Rightarrow> string option" where
  "first_error f [] = None"
| "first_error f (x # xs) = (case f x of Some e \<Rightarrow> Some e | None \<Rightarrow> first_error f xs)"

(* src: pkg/kube/health.go 315-347 isPodHealthy *)
definition isPodHealthy :: "pod \<Rightarrow> string option" where
  "isPodHealthy p =
     (if po_phase p \<noteq> ''Running'' then Some (''status: '' @ po_phase p)
      else if \<not> isPodReadyConditionTrue p then Some ''pod condition Ready is not True''
      else case first_error init_error (po_init p) of Some e \<Rightarrow> Some e
           | None \<Rightarrow> first_error (container_error ''container'') (po_containers p))"

(* src: pkg/kube/health.go 367-375 filterPodsWithPrefix *)
definition filterPodsWithPrefix :: "pod list \<Rightarrow> string \<Rightarrow> pod list" where
  "filterPodsWithPrefix pods prefix = filter (\<lambda>p. HasPrefix (po_name p) prefix) pods"

definition fatal_reason :: "container_status \<Rightarrow> string option" where
  "fatal_reason cs = (case ct_waiting cs of None \<Rightarrow> None | Some r \<Rightarrow> if isFatalWaitingReason r then Some r else None)"

(* src: pkg/kube/health_unified.go 558-576 getPodUnhealthyReason *)
definition getPodUnhealthyReason :: "pod \<Rightarrow> string" where
  "getPodUnhealthyReason p =
     (if po_phase p \<noteq> ''Running'' then ''PodNotRunning''
      else if \<not> isPodReadyConditionTrue p then ''PodNotReady''
      else case first_error fatal_reason (po_init p @ po_containers p) of Some r \<Rightarrow> r | None \<Rightarrow> ''PodUnhealthy'')"

section \<open>Configuration of the check\<close>

(* src: pkg/kube/health.go 65-70 ComponentCheck *)
record component_check =
  cc_name :: string
  cc_namespace :: string
  cc_prefixes :: "string list"
  cc_priority :: priority

(* src: pkg/kube/health_unified.go 110-113 HealthCheckConfig *)
record health_config =
  hcf_intervals :: interval_config
  hcf_components :: "component_check list"

(* src: pkg/kube/health_unified.go 178-183 healthCheckIntervalFile *)
record interval_file =
  if_critical :: string
  if_important :: string
  if_optional :: string
  if_normal :: string

(* src: pkg/kube/health_unified.go 185-190 healthCheckComponentFile *)
record component_file =
  cf_name :: string
  cf_namespace :: string
  cf_prefixes :: "string list"
  cf_priority :: string

(* src: pkg/kube/health_unified.go 173-176 healthCheckConfigFile *)
record config_file =
  cfl_intervals :: interval_file
  cfl_components :: "component_file list"

text \<open>Durations are in nanoseconds; \<open>dur\<close> is \<^verbatim>\<open>time.ParseDuration\<close>.\<close>

(* src: pkg/kube/health_unified.go 291-300 fallbackHealthCheckConfig *)
definition fallbackHealthCheckConfig :: health_config where
  "fallbackHealthCheckConfig =
     \<lparr>hcf_intervals = \<lparr>iv_critical = 5 * 10^9, iv_important = 15 * 10^9, iv_optional = 30 * 10^9, iv_normal = 300 * 10^9\<rparr>,
      hcf_components = []\<rparr>"

(* src: pkg/kube/health_unified.go 236-241 parseDurationOrDefault *)
definition parseDurationOrDefault :: "(string \<Rightarrow> string + int) \<Rightarrow> string \<Rightarrow> int \<Rightarrow> string + int" where
  "parseDurationOrDefault dur value d = (if TrimSpace value = '''' then Inr d else dur value)"

(* src: pkg/kube/health_unified.go 215-234 parseIntervalConfig *)
definition parseIntervalConfig :: "(string \<Rightarrow> string + int) \<Rightarrow> interval_file \<Rightarrow> string + interval_config" where
  "parseIntervalConfig dur raw =
     (let d = hcf_intervals fallbackHealthCheckConfig in
      case parseDurationOrDefault dur (if_critical raw) (iv_critical d) of Inl e \<Rightarrow> Inl (''invalid critical interval: '' @ e)
      | Inr c \<Rightarrow> (case parseDurationOrDefault dur (if_important raw) (iv_important d) of Inl e \<Rightarrow> Inl (''invalid important interval: '' @ e)
      | Inr i \<Rightarrow> (case parseDurationOrDefault dur (if_optional raw) (iv_optional d) of Inl e \<Rightarrow> Inl (''invalid optional interval: '' @ e)
      | Inr p \<Rightarrow> (case parseDurationOrDefault dur (if_normal raw) (iv_normal d) of Inl e \<Rightarrow> Inl (''invalid normal interval: '' @ e)
      | Inr n \<Rightarrow> Inr \<lparr>iv_critical = c, iv_important = i, iv_optional = p, iv_normal = n\<rparr>))))"

(* src: pkg/kube/health_unified.go 278-289 parseHealthCheckPriority *)
definition parseHealthCheckPriority :: "string \<Rightarrow> string + priority" where
  "parseHealthCheckPriority value =
     (let v = ToLower (TrimSpace value) in
      if v = priority_String PriorityCritical then Inr PriorityCritical
      else if v = priority_String PriorityImportant then Inr PriorityImportant
      else if v = priority_String PriorityOptional then Inr PriorityOptional
      else Inl (''unknown priority '' @ value))"

(* src: pkg/kube/health_unified.go 243-268 parseComponentCheck *)
definition parseComponentCheck :: "component_file \<Rightarrow> string + component_check" where
  "parseComponentCheck raw =
     (let name = TrimSpace (cf_name raw); namespace = TrimSpace (cf_namespace raw) in
      if name = '''' then Inl ''component name is empty''
      else if namespace = '''' then Inl (''component '' @ name @ '' namespace is empty'')
      else if cf_prefixes raw = [] then Inl (''component '' @ name @ '' prefixes is empty'')
      else case parseHealthCheckPriority (cf_priority raw) of
             Inl e \<Rightarrow> Inl (''component '' @ name @ '' priority invalid: '' @ e)
           | Inr p \<Rightarrow> let prefixes = map TrimSpace (cf_prefixes raw) in
               if '''' \<in> set prefixes then Inl (''component '' @ name @ '' contains empty prefix'')
               else Inr \<lparr>cc_name = name, cc_namespace = namespace, cc_prefixes = prefixes, cc_priority = p\<rparr>)"

fun parse_components :: "component_file list \<Rightarrow> string + component_check list" where
  "parse_components [] = Inr []"
| "parse_components (c # cs) =
     (case parseComponentCheck c of Inl e \<Rightarrow> Inl e
      | Inr k \<Rightarrow> (case parse_components cs of Inl e \<Rightarrow> Inl e | Inr ks \<Rightarrow> Inr (k # ks)))"

(* src: pkg/kube/health_unified.go 192-213 parseHealthCheckConfigYAML *)
definition parseHealthCheckConfigYAML :: "(string \<Rightarrow> string + config_file) \<Rightarrow> (string \<Rightarrow> string + int) \<Rightarrow> string \<Rightarrow> string + health_config" where
  "parseHealthCheckConfigYAML yaml dur data =
     (case yaml data of Inl e \<Rightarrow> Inl e
      | Inr raw \<Rightarrow> (case parseIntervalConfig dur (cfl_intervals raw) of Inl e \<Rightarrow> Inl e
          | Inr i \<Rightarrow> if cfl_components raw = [] then Inl ''components is empty''
              else (case parse_components (cfl_components raw) of Inl e \<Rightarrow> Inl e
                    | Inr cs \<Rightarrow> Inr \<lparr>hcf_intervals = i, hcf_components = cs\<rparr>)))"

section \<open>The check\<close>

text \<open>\<open>he_getPod\<close> is the phase of a pod or the error of reading it; each pod is read once in a check, so a function
  of its name covers every course of the answers. The lists are read from the state of the API server.
  \<open>he_config\<close> reads the map with the configuration, \<open>he_default\<close> is the text of the embedded one.\<close>

record 'w health_env =
  he_getPod :: "string \<Rightarrow> string \<Rightarrow> string + string"
  he_listNodes :: "'w \<Rightarrow> 'w \<times> (string + kube_node list)"
  he_listPods :: "string \<Rightarrow> 'w \<Rightarrow> 'w \<times> (string + pod list)"
  he_config :: "'w \<Rightarrow> 'w \<times> (string + string gomap)"
  he_default :: string
  he_yaml :: "string \<Rightarrow> string + config_file"
  he_duration :: "string \<Rightarrow> string + int"
  he_text :: "health_error \<Rightarrow> string"
  he_sections :: "nat \<Rightarrow> nat list"
  he_reads :: "nat \<Rightarrow> nat list"
  he_arrivals :: "nat \<Rightarrow> nat list"

(* src: pkg/kube/health_unified.go 132-139 DefaultHealthCheckConfig *)
definition DefaultHealthCheckConfig :: "'w health_env \<Rightarrow> health_config" where
  "DefaultHealthCheckConfig env =
     (case parseHealthCheckConfigYAML (he_yaml env) (he_duration env) (he_default env) of Inl e \<Rightarrow> fallbackHealthCheckConfig | Inr c \<Rightarrow> c)"

(* src: pkg/kube/health_unified.go 155-171 loadHealthCheckConfig *)
definition loadHealthCheckConfig :: "'w health_env \<Rightarrow> 'w \<Rightarrow> 'w \<times> (string + health_config)" where
  "loadHealthCheckConfig env w =
     (case he_config env w of
        (w', Inl e) \<Rightarrow> (w', Inl e)
      | (w', Inr m) \<Rightarrow>
          (w', let data = TrimSpace (get_or '''' m ''config.yaml'') in
               if data = '''' then Inl ''config.yaml is empty'' else parseHealthCheckConfigYAML (he_yaml env) (he_duration env) data))"

(* src: pkg/kube/health_unified.go 142-153 LoadHealthCheckConfig *)
definition LoadHealthCheckConfig :: "'w health_env \<Rightarrow> 'w \<Rightarrow> 'w \<times> health_config" where
  "LoadHealthCheckConfig env w =
     (case loadHealthCheckConfig env w of (w', Inl e) \<Rightarrow> (w', DefaultHealthCheckConfig env) | (w', Inr c) \<Rightarrow> (w', c))"

(* src: pkg/kube/health_unified.go 663-669 GetHealthCheckRequeueInterval *)
definition GetHealthCheckRequeueInterval :: "'w health_env \<Rightarrow> health_error option \<Rightarrow> int" where
  "GetHealthCheckRequeueInterval env err =
     (case (case err of None \<Rightarrow> None | Some e \<Rightarrow> as_Requeue e) of
        Some (e, i) \<Rightarrow> getHealthCheckRequeueInterval (Some e) i
      | None \<Rightarrow> getHealthCheckRequeueInterval err (hcf_intervals (DefaultHealthCheckConfig env)))"

(* src: pkg/kube/health_unified.go 529-541 newComponentError *)
definition newComponentError :: "component_check \<Rightarrow> string \<Rightarrow> string \<Rightarrow> string \<Rightarrow> string \<Rightarrow> health_error" where
  "newComponentError check prefix podName reason err =
     HealthCheckError \<lparr>ci_name = cc_name check, ci_namespace = cc_namespace check, ci_prefix = prefix, ci_podName = podName,
       ci_priority = cc_priority check\<rparr> reason (Plain err)"

(* src: pkg/kube/health_unified.go 543-556 newNodeError *)
definition newNodeError :: "string \<Rightarrow> string \<Rightarrow> health_error \<Rightarrow> health_error" where
  "newNodeError nodeName reason err =
     HealthCheckError \<lparr>ci_name = (if nodeName = '''' then ''node'' else nodeName), ci_namespace = '''', ci_prefix = '''', ci_podName = '''',
       ci_priority = PriorityCritical\<rparr> reason err"

subsection \<open>Nodes\<close>

(* src: utils/bkeagent/mfutil/consts.go 117-123 GetControlPlaneComponents *)
definition GetControlPlaneComponents :: "string list" where
  "GetControlPlaneComponents = [''kube-apiserver'', ''kube-controller-manager'', ''kube-scheduler'']"

(* src: pkg/kube/health.go 49-62 CheckComponentHealth *)
definition CheckComponentHealth :: "(string \<Rightarrow> string \<Rightarrow> string + string) \<Rightarrow> kube_node \<Rightarrow> health_error option" where
  "CheckComponentHealth getPod node =
     NewAggregate (concat (map (\<lambda>component. let name = StaticPodName component (kn_name node) in
        case getPod ''kube-system'' name of
          Inl e \<Rightarrow> [Plain (''get pod kube-system/'' @ name @ '' failed: '' @ e)]
        | Inr phase \<Rightarrow> if phase = ''Running'' then []
            else [Plain (''pod kube-system/'' @ name @ '' is not in running phase, current phase is '' @ phase)]) GetControlPlaneComponents))"

(* src: pkg/kube/health.go 411-418 checkNodeReady *)
definition checkNodeReady :: "kube_node \<Rightarrow> health_error option" where
  "checkNodeReady node =
     (if \<exists>c\<in>set (kn_conditions node). fst c = ''Ready'' \<and> snd c \<noteq> ''True'' then Some (Plain (''node '' @ kn_name node @ '' is not ready'')) else None)"

(* src: pkg/kube/health.go 421-430 checkNodeVersion *)
definition checkNodeVersion :: "kube_node \<Rightarrow> string \<Rightarrow> health_error option" where
  "checkNodeVersion node expect =
     (if expect = '''' \<or> kn_kubelet node = expect then None
      else Some (Plain (''node '' @ kn_name node @ '' version '' @ kn_kubelet node @ '' is not match bkeCluster KubernetesVersion '' @ expect)))"

(* src: pkg/kube/health.go 383-408 nodeHealthCheck *)
definition nodeHealthCheck :: "kube_node \<Rightarrow> string \<Rightarrow> (kube_node \<Rightarrow> health_error option) \<Rightarrow> health_error option" where
  "nodeHealthCheck node expect componentCheck =
     (case checkNodeReady node of Some e \<Rightarrow> Some e
      | None \<Rightarrow> (case checkNodeVersion node expect of Some e \<Rightarrow> Some e
          | None \<Rightarrow> if label_IsMasterNode node then componentCheck node else None))"

(* src: pkg/kube/health.go 378-380 NodeHealthCheck *)
definition NodeHealthCheck :: "(string \<Rightarrow> string \<Rightarrow> string + string) \<Rightarrow> kube_node \<Rightarrow> string \<Rightarrow> health_error option" where
  "NodeHealthCheck getPod node expect = nodeHealthCheck node expect (CheckComponentHealth getPod)"

text \<open>The two critical sections of \<^verbatim>\<open>checkNode\<close>: a ready node is recorded as such before the health check, a failing
  one as not ready after it. The section of an error that is returned comes later and is ordered by \<open>he_arrivals\<close>.\<close>

definition node_skipped :: "bke_node list \<Rightarrow> kube_node \<Rightarrow> bool" where
  "node_skipped bns node = GetNodeStateNeedSkip bns (GetNodeIP node)"

definition node_section :: "'w health_env \<Rightarrow> string \<Rightarrow> kube_node \<times> bool \<Rightarrow> bke_node list \<Rightarrow> bke_node list" where
  "node_section env version = (\<lambda>(node, before) bns.
     if node_skipped bns node then bns
     else if before then (if kube_NodeReady node then SetNodeStateWithMessage bns (GetNodeIP node) ''Ready'' '''' else bns)
     else (case NodeHealthCheck (he_getPod env) node version of None \<Rightarrow> bns
           | Some e \<Rightarrow> SetNodeStateWithMessage bns (GetNodeIP node) ''NotReady'' (he_text env e)))"

(* src: pkg/kube/health_unified.go 397-423 checkNode *)
definition checkNode :: "'w health_env \<Rightarrow> string \<Rightarrow> bke_node list \<Rightarrow> kube_node \<Rightarrow> bke_node list \<times> health_error option" where
  "checkNode env version bns node =
     (if node_skipped bns node then (bns, None)
      else (node_section env version (node, False) (node_section env version (node, True) bns),
            map_option (newNodeError (kn_name node) ''NodeNotReady'') (NodeHealthCheck (he_getPod env) node version)))"

fun staged :: "nat list \<Rightarrow> nat list \<Rightarrow> (nat \<times> bool) list" where
  "staged seen [] = []"
| "staged seen (i # is) = (i, i \<notin> set seen) # staged (i # seen) is"

definition arrange :: "(nat \<Rightarrow> nat list) \<Rightarrow> 'a list \<Rightarrow> 'a list" where
  "arrange order xs = map (\<lambda>i. xs ! i) (order (length xs))"

definition sections_of :: "(nat \<Rightarrow> nat list) \<Rightarrow> 'a list \<Rightarrow> ('a \<times> bool) list" where
  "sections_of order xs = map (\<lambda>(i, before). (xs ! i, before)) (staged [] (order (length xs)))"

definition node_errors :: "'w health_env \<Rightarrow> string \<Rightarrow> bke_node list \<Rightarrow> kube_node list \<Rightarrow> health_error list" where
  "node_errors env version bns nodes = concat (map (\<lambda>n. case snd (checkNode env version bns n) of None \<Rightarrow> [] | Some e \<Rightarrow> [e]) nodes)"

(* src: pkg/kube/health_cache.go 23-28 healthCheckCache *)
record health_cache =
  hch_nodes :: "kube_node list option"
  hch_pods :: "pod list gomap"

(* src: pkg/kube/health_cache.go 38-50 GetNodes *)
definition cache_GetNodes :: "'w health_env \<Rightarrow> health_cache \<times> 'w \<Rightarrow> (health_cache \<times> 'w) \<times> (string + kube_node list)" where
  "cache_GetNodes env = (\<lambda>(c, w).
     case hch_nodes c of Some ns \<Rightarrow> ((c, w), Inr ns)
     | None \<Rightarrow> (case he_listNodes env w of (w', Inl e) \<Rightarrow> ((c, w'), Inl e) | (w', Inr ns) \<Rightarrow> ((c\<lparr>hch_nodes := Some ns\<rparr>, w'), Inr ns)))"

(* src: pkg/kube/health_cache.go 52-64 GetPods *)
definition cache_GetPods :: "'w health_env \<Rightarrow> string \<Rightarrow> health_cache \<times> 'w \<Rightarrow> (health_cache \<times> 'w) \<times> (string + pod list)" where
  "cache_GetPods env namespace = (\<lambda>(c, w).
     case map_of (hch_pods c) namespace of Some ps \<Rightarrow> ((c, w), Inr ps)
     | None \<Rightarrow> (case he_listPods env namespace w of (w', Inl e) \<Rightarrow> ((c, w'), Inl e)
                | (w', Inr ps) \<Rightarrow> ((c\<lparr>hch_pods := AList.update namespace ps (hch_pods c)\<rparr>, w'), Inr ps)))"

(* src: pkg/kube/health_unified.go 359-395 checkNodesParallel *)
definition checkNodesParallel :: "'w health_env \<Rightarrow> string \<Rightarrow> bke_node list \<Rightarrow> health_cache \<times> 'w \<Rightarrow>
    (health_cache \<times> 'w) \<times> bke_node list \<times> health_error list \<times> health_error option" where
  "checkNodesParallel env version bns s =
     (case cache_GetNodes env s of
        (s', Inl e) \<Rightarrow> (s', bns, [], Some (newNodeError '''' ''ListNodesFailed'' (Plain e)))
      | (s', Inr nodes) \<Rightarrow>
          let errs = arrange (he_arrivals env) (node_errors env version bns nodes)
          in (s', fold (node_section env version) (sections_of (he_sections env) nodes) bns, errs, NewAggregate errs))"

subsection \<open>Components\<close>

definition keep_errors :: "health_error option list \<Rightarrow> health_error list" where
  "keep_errors rs = concat (map (\<lambda>r. case r of None \<Rightarrow> [] | Some e \<Rightarrow> [e]) rs)"

definition pods_error :: "(pod \<Rightarrow> string \<Rightarrow> health_error) \<Rightarrow> health_error \<Rightarrow> pod list \<Rightarrow> string \<Rightarrow> health_error option" where
  "pods_error unhealthy missing pods prefix =
     (let matched = filterPodsWithPrefix pods prefix
      in if matched = [] then Some missing
         else if prefix = ''coredns'' \<and> (\<exists>p\<in>set matched. isPodHealthy p = None) then None
         else NewAggregate (keep_errors (map (\<lambda>p. map_option (unhealthy p) (isPodHealthy p)) matched)))"

(* src: pkg/kube/health_unified.go 482-508 UnifiedHealthChecker.verifyComponentPods *)
definition unified_verifyComponentPods :: "component_check \<Rightarrow> pod list \<Rightarrow> string \<Rightarrow> health_error option" where
  "unified_verifyComponentPods check pods prefix =
     pods_error (\<lambda>p e. newComponentError check prefix (po_name p) (getPodUnhealthyReason p) e)
       (newComponentError check prefix '''' ''PodNotFound'' (''no pods with prefix '' @ prefix @ '' in '' @ cc_namespace check)) pods prefix"

(* src: pkg/kube/health_unified.go 467-480 checkComponent *)
definition checkComponent :: "'w health_env \<Rightarrow> component_check \<Rightarrow> health_cache \<times> 'w \<Rightarrow> (health_cache \<times> 'w) \<times> health_error option" where
  "checkComponent env check s =
     (case cache_GetPods env (cc_namespace check) s of
        (s', Inl e) \<Rightarrow> (s', Some (newComponentError check '''' '''' ''ListPodsFailed'' e))
      | (s', Inr pods) \<Rightarrow> (s', NewAggregate (keep_errors (map (unified_verifyComponentPods check pods) (cc_prefixes check)))))"

fun check_each :: "('a \<Rightarrow> 's \<Rightarrow> 's \<times> health_error option) \<Rightarrow> 'a list \<Rightarrow> 's \<Rightarrow> 's \<times> health_error list" where
  "check_each f [] s = (s, [])"
| "check_each f (x # xs) s = (let (s1, r) = f x s; (s2, errs) = check_each f xs s1 in (s2, keep_errors [r] @ errs))"

(* src: pkg/kube/health_unified.go 115-120 HealthCheckResult *)
record health_result =
  hr_node :: "health_error list"
  hr_critical :: "health_error list"
  hr_important :: "health_error list"
  hr_optional :: "health_error list"

(* src: pkg/kube/health_unified.go 425-465 checkComponentsParallel *)
definition checkComponentsParallel :: "'w health_env \<Rightarrow> component_check list \<Rightarrow> health_result \<Rightarrow> health_cache \<times> 'w \<Rightarrow>
    (health_cache \<times> 'w) \<times> health_result \<times> health_error option" where
  "checkComponentsParallel env components result s =
     (case components of [] \<Rightarrow> (s, result, None)
      | c # _ \<Rightarrow>
          let (s', found) = check_each (checkComponent env) (arrange (he_reads env) components) s;
              errs = arrange (he_arrivals env) found
          in (case cc_priority c of
                PriorityCritical \<Rightarrow> (s', result\<lparr>hr_critical := hr_critical result @ errs\<rparr>, NewAggregate errs)
              | PriorityImportant \<Rightarrow> (s', result\<lparr>hr_important := hr_important result @ errs\<rparr>, None)
              | PriorityOptional \<Rightarrow> (s', result\<lparr>hr_optional := hr_optional result @ errs\<rparr>, None)))"

(* src: pkg/kube/health_unified.go 345-357 groupByPriority *)
definition groupByPriority :: "component_check list \<Rightarrow> component_check list \<times> component_check list \<times> component_check list" where
  "groupByPriority cs = (filter (\<lambda>c. cc_priority c = PriorityCritical) cs, filter (\<lambda>c. cc_priority c = PriorityImportant) cs,
     filter (\<lambda>c. cc_priority c \<noteq> PriorityCritical \<and> cc_priority c \<noteq> PriorityImportant) cs)"

(* src: pkg/kube/health_unified.go 510-527 aggregateResult *)
definition aggregateResult :: "health_result \<Rightarrow> health_error option" where
  "aggregateResult r = NewAggregate (hr_node r @ hr_critical r @ hr_important r @ hr_optional r)"

text \<open>\<open>defaultVersion\<close> is the version in the configuration of the cluster.\<close>

(* src: pkg/kube/health_unified.go 313-343 UnifiedHealthChecker.Check *)
definition unified_Check :: "'w health_env \<Rightarrow> component_check list \<Rightarrow> string \<Rightarrow> string \<Rightarrow> bke_node list \<Rightarrow> 'w \<Rightarrow> 'w \<times> bke_node list \<times> health_error option" where
  "unified_Check env components defaultVersion currentVersion bns w =
     (let version = (if currentVersion = '''' then defaultVersion else currentVersion);
          (s1, bns', nodeErrs, r1) = checkNodesParallel env version bns (\<lparr>hch_nodes = None, hch_pods = []\<rparr>, w);
          result1 = \<lparr>hr_node = nodeErrs, hr_critical = [], hr_important = [], hr_optional = []\<rparr>;
          (critical, important, optional) = groupByPriority components
      in case r1 of Some e \<Rightarrow> (snd s1, bns', Some e)
         | None \<Rightarrow>
             let (s2, result2, r2) = checkComponentsParallel env critical result1 s1
             in case r2 of Some e \<Rightarrow> (snd s2, bns', Some e)
                | None \<Rightarrow>
                    let (s3, result3, _) = checkComponentsParallel env important result2 s2;
                        (s4, result4, _) = checkComponentsParallel env optional result3 s3
                    in (snd s4, bns', aggregateResult result4))"

subsection \<open>Add-ons\<close>

(* src: pkg/kube/health.go 72-75 AddonCheck *)
record addon_check =
  ac_addon :: string
  ac_components :: "component_check list"

definition pods_check :: "string \<Rightarrow> string list \<Rightarrow> component_check" where
  "pods_check namespace prefixes = \<lparr>cc_name = '''', cc_namespace = namespace, cc_prefixes = prefixes, cc_priority = PriorityCritical\<rparr>"

(* src: pkg/kube/health.go 78-163 extraAddonComponents *)
definition extraAddonComponents :: "addon_check list" where
  "extraAddonComponents = [
     \<lparr>ac_addon = ''coredns'', ac_components = [pods_check ''kube-system'' [''coredns'']]\<rparr>,
     \<lparr>ac_addon = ''kubeproxy'', ac_components = [pods_check ''kube-system'' [''kube-proxy-'']]\<rparr>,
     \<lparr>ac_addon = ''calico'', ac_components = [pods_check ''kube-system'' [''calico-kube-controllers-'', ''calico-node-'']]\<rparr>,
     \<lparr>ac_addon = ''cluster-api'', ac_components = [pods_check ''cluster-system'' [''capi-controller-manager'', ''bke-controller-manager'']]\<rparr>,
     \<lparr>ac_addon = ''openfuyao-system-controller'', ac_components =
        [pods_check ''kube-system'' [''metrics-server-''], pods_check ''ingress-nginx'' [''ingress-nginx-controller''],
         pods_check ''monitoring'' [''alertmanager-main-'', ''blackbox-exporter-'', ''kube-state-metrics-'', ''node-exporter-'', ''prometheus-k8s-'', ''prometheus-operator-''],
         pods_check ''openfuyao-system'' [''application-management-service-'', ''console-service-'', ''console-website-'', ''local-harbor-'',
           ''marketplace-service-'', ''monitoring-service-'', ''oauth-server-'', ''oauth-webhook-'', ''plugin-management-service-'',
           ''user-management-operator-'', ''web-terminal-service-''],
         pods_check ''openfuyao-system-controller'' [''openfuyao-system-controller-'']]\<rparr>]"

(* src: pkg/kube/health.go 166-176 neededComponentChecks *)
definition neededComponentChecks :: "component_check list" where
  "neededComponentChecks = [pods_check ''kube-system'' [''etcd-'', ''kube-apiserver-'', ''kube-controller-manager-'', ''kube-scheduler-'']]"

(* src: pkg/kube/health.go 287-313 verifyComponentPods *)
definition verifyComponentPods :: "pod list \<Rightarrow> string \<Rightarrow> string \<Rightarrow> health_error option" where
  "verifyComponentPods pods prefix namespace =
     pods_error (\<lambda>p e. Wrapped (''pod '' @ po_namespace p @ ''/'' @ po_name p @ '' unhealthy: '') (Plain e))
       (Plain (''no pods with prefix '' @ prefix @ '' in '' @ namespace)) pods prefix"

(* src: pkg/kube/health.go 240-253 processComponentCheck *)
definition processComponentCheck :: "'w health_env \<Rightarrow> component_check \<Rightarrow> 'w \<Rightarrow> 'w \<times> health_error option" where
  "processComponentCheck env check w =
     (case he_listPods env (cc_namespace check) w of
        (w', Inl e) \<Rightarrow> (w', Some (Wrapped (''list pods in '' @ cc_namespace check @ '' failed: '') (Plain e)))
      | (w', Inr pods) \<Rightarrow> (w', NewAggregate (keep_errors (map (\<lambda>prefix. verifyComponentPods pods prefix (cc_namespace check)) (cc_prefixes check)))))"

(* src: pkg/kube/health.go 255-262 findAddonComponent *)
definition findAddonComponent :: "string \<Rightarrow> addon_check option" where
  "findAddonComponent addon = find (\<lambda>a. ac_addon a = addon) extraAddonComponents"

(* src: pkg/kube/health.go 264-277 processAddonComponentCheck *)
definition processAddonComponentCheck :: "'w health_env \<Rightarrow> string \<Rightarrow> 'w \<Rightarrow> 'w \<times> health_error option" where
  "processAddonComponentCheck env addon w =
     (case findAddonComponent addon of
        None \<Rightarrow> (w, Some (Plain (''addon('' @ addon @ '') not in extra addons'')))
      | Some a \<Rightarrow> (let (w', errs) = check_each (processComponentCheck env) (ac_components a) w in (w', NewAggregate errs)))"

(* src: pkg/kube/health.go 180-204 CheckAllComponentsHealth *)
definition CheckAllComponentsHealth :: "'w health_env \<Rightarrow> string list \<Rightarrow> 'w \<Rightarrow> 'w \<times> health_error option" where
  "CheckAllComponentsHealth env addons w =
     (let (w1, errs) = check_each (processComponentCheck env) neededComponentChecks w
      in if errs \<noteq> [] then (w1, NewAggregate errs)
         else let (w2, errs2) = check_each (processAddonComponentCheck env) (filter (\<lambda>a. findAddonComponent a \<noteq> None) addons) w1
              in (w2, NewAggregate errs2))"

(* src: pkg/kube/health.go 209-213 coreHealthAddons *)
definition coreHealthAddons :: "string list" where
  "coreHealthAddons = [''calico'', ''coredns'', ''kubeproxy'']"

(* src: pkg/kube/health.go 216-238 CheckAddonComponentsHealth *)
definition CheckAddonComponentsHealth :: "'w health_env \<Rightarrow> string list \<Rightarrow> 'w \<Rightarrow> 'w \<times> health_error option" where
  "CheckAddonComponentsHealth env addons w =
     (let (w', errs) = check_each (processAddonComponentCheck env)
            (filter (\<lambda>a. a \<notin> set coreHealthAddons \<and> findAddonComponent a \<noteq> None) addons) w
      in (w', NewAggregate errs))"

(* src: pkg/kube/health.go 32-47 CheckClusterHealth *)
definition CheckClusterHealth :: "'w health_env \<Rightarrow> cluster_spec \<Rightarrow> string \<Rightarrow> bke_node list \<Rightarrow> 'w \<Rightarrow> 'w \<times> bke_node list \<times> health_error option" where
  "CheckClusterHealth env conf currentVersion bns w =
     (let (w1, config) = LoadHealthCheckConfig env w;
          (w2, bns', r) = unified_Check env (hcf_components config) (cs_kubernetesVersion conf) currentVersion bns w1
      in case r of Some e \<Rightarrow> (w2, bns', newHealthCheckRequeueError (Some e) (hcf_intervals config))
         | None \<Rightarrow> let (w3, r') = CheckAddonComponentsHealth env (map pr_name (cs_addons conf)) w2 in (w3, bns', r'))"

section \<open>Lemmas\<close>

text \<open>Actions that commute unless they have the same key: the result depends only on the order of the actions of
  each key.\<close>

lemma fold_move_front:
  assumes "\<And>a b s. key a \<noteq> key b \<Longrightarrow> act a (act b s) = act b (act a s)" and "\<forall>b\<in>set ps. key b \<noteq> key a"
  shows "fold act (ps @ a # qs) s = fold act (a # ps @ qs) s"
  using assms(2) by (induction ps arbitrary: s) (auto simp: assms(1))

lemma fold_by_key:
  assumes comm: "\<And>a b s. key a \<noteq> key b \<Longrightarrow> act a (act b s) = act b (act a s)"
    and "\<And>k. filter (\<lambda>a. key a = k) xs = filter (\<lambda>a. key a = k) ys"
  shows "fold act xs s = fold act ys s"
  using assms(2)
proof (induction xs arbitrary: ys s)
  case Nil
  have "ys = []"
  proof (cases ys)
    case (Cons y zs)
    with Nil [of "key y"] show ?thesis by simp
  qed
  then show ?case by simp
next
  case (Cons x xs)
  from Cons.prems [of "key x"] have "filter (\<lambda>a. key a = key x) ys = x # filter (\<lambda>a. key a = key x) xs" by simp
  then obtain ps qs
    where ys: "ys = ps @ x # qs" "\<forall>b\<in>set ps. key b \<noteq> key x" "filter (\<lambda>a. key a = key x) qs = filter (\<lambda>a. key a = key x) xs"
    unfolding filter_eq_Cons_iff by metis
  have "filter (\<lambda>a. key a = k) xs = filter (\<lambda>a. key a = k) (ps @ qs)" for k
  proof (cases "k = key x")
    case True
    have "filter (\<lambda>a. key a = key x) ps = []" using ys(2) by (simp add: filter_empty_conv)
    with ys(3) True show ?thesis by simp
  next
    case False
    with Cons.prems [of k] ys(1) show ?thesis by simp
  qed
  from Cons.IH [OF this] have "fold act (x # xs) s = fold act (x # ps @ qs) s" by simp
  also have "\<dots> = fold act ys s" using fold_move_front [of key act ps x qs s, OF comm ys(2)] ys(1) by simp
  finally show ?case .
qed

text \<open>Permutations of goroutines.\<close>

definition permutes_all :: "(nat \<Rightarrow> nat list) \<Rightarrow> bool" where
  "permutes_all order \<longleftrightarrow> (\<forall>n. mset (order n) = mset [0..<n])"

definition interleaves :: "(nat \<Rightarrow> nat list) \<Rightarrow> bool" where
  "interleaves order \<longleftrightarrow> (\<forall>n. mset (order n) = mset ([0..<n] @ [0..<n]))"

lemma mset_arrange: "permutes_all order \<Longrightarrow> mset (arrange order xs) = mset xs"
proof -
  assume "permutes_all order"
  then have "mset (arrange order xs) = image_mset ((!) xs) (mset [0..<length xs])"
    unfolding arrange_def permutes_all_def by (metis mset_map)
  then show ?thesis by (metis map_nth mset_map)
qed

lemma arrange_set: "permutes_all order \<Longrightarrow> set (arrange order xs) = set xs"
  by (metis mset_arrange mset_eq_setD)

lemma arrange_Nil: "permutes_all order \<Longrightarrow> arrange order xs = [] \<longleftrightarrow> xs = []"
  by (metis mset_arrange mset_zero_iff)

lemma filter_staged_seen: "i \<in> set seen \<Longrightarrow> filter (\<lambda>e. fst e = i) (staged seen is) = replicate (count (mset is) i) (i, False)"
  by (induction "is" arbitrary: seen) auto

lemma filter_staged:
  "i \<notin> set seen \<Longrightarrow> count (mset is) i = Suc n \<Longrightarrow> filter (\<lambda>e. fst e = i) (staged seen is) = (i, True) # replicate n (i, False)"
  by (induction "is" arbitrary: seen) (auto simp: filter_staged_seen split: if_splits)

lemma upd_first_commute:
  assumes "ip \<noteq> ip'" "\<And>n. ns_ip (bn_spec (g n)) = ns_ip (bn_spec n)" "\<And>n. ns_ip (bn_spec (h n)) = ns_ip (bn_spec n)"
  shows "upd_first g ip (upd_first h ip' ns) = upd_first h ip' (upd_first g ip ns)"
  using assms(1) by (induction ns) (auto simp: assms(2,3))

lemma skip_kept [simp]: "GetNodeStateNeedSkip (SetNodeStateWithMessage bns ip s m) ip' = GetNodeStateNeedSkip bns ip'"
  by (simp add: GetNodeStateNeedSkip_def SetNodeStateWithMessage_def upd_first_get upd_status_def split: option.splits)

lemma set_state_commute:
  "ip \<noteq> ip' \<Longrightarrow> SetNodeStateWithMessage (SetNodeStateWithMessage bns ip' s' m') ip s m =
     SetNodeStateWithMessage (SetNodeStateWithMessage bns ip s m) ip' s' m'"
  by (simp add: SetNodeStateWithMessage_def upd_first_commute upd_status_def)

lemma section_keeps_skip [simp]: "node_skipped (node_section env v e bns) n = node_skipped bns n"
  by (cases e) (simp add: node_section_def node_skipped_def split: option.splits)

lemma sections_commute:
  assumes "GetNodeIP (fst a) \<noteq> GetNodeIP (fst b)"
  shows "node_section env v a (node_section env v b bns) = node_section env v b (node_section env v a bns)"
proof (cases a; cases b)
  fix n x n' x' assume ab: "a = (n, x)" "b = (n', x')"
  have ip: "GetNodeIP n \<noteq> GetNodeIP n'" using assms ab by simp
  show ?thesis
    unfolding ab node_section_def node_skipped_def
    by (simp add: set_state_commute [OF ip] split: option.splits)
qed

definition both_sections :: "'a list \<Rightarrow> ('a \<times> bool) list" where
  "both_sections ns = concat (map (\<lambda>n. [(n, True), (n, False)]) ns)"

lemma fold_both: "fold (node_section env v) (both_sections nodes) bns = fold (\<lambda>n bns. fst (checkNode env v bns n)) nodes bns"
proof (induction nodes arbitrary: bns)
  case (Cons n nodes)
  have "fst (checkNode env v bns n) = node_section env v (n, False) (node_section env v (n, True) bns)"
    by (simp add: checkNode_def node_section_def node_skipped_def)
  with Cons show ?case by (simp add: both_sections_def)
qed (simp add: both_sections_def)

lemma filter_both: "distinct (map f ns) \<Longrightarrow> n \<in> set ns \<Longrightarrow> filter (\<lambda>e. f (fst e) = f n) (both_sections ns) = [(n, True), (n, False)]"
proof (induction ns)
  case (Cons m ms)
  have none: "f m \<notin> f ` set ms" using Cons.prems(1) by simp
  have empty: "filter (\<lambda>e. f (fst e) = f m) (both_sections ms) = []"
    using none by (auto simp: both_sections_def filter_empty_conv) (metis imageI)
  show ?case
  proof (cases "n = m")
    case True
    with empty show ?thesis by (simp add: both_sections_def)
  next
    case False
    with Cons.prems have "n \<in> set ms" "f m \<noteq> f n" using none by auto
    with Cons show ?thesis by (simp add: both_sections_def)
  qed
qed simp

lemma set_staged: "fst ` set (staged seen is) = set is"
  by (induction "is" arbitrary: seen) auto

lemma filter_sections:
  assumes "interleaves order" "distinct (map f ns)"
  shows "filter (\<lambda>e. f (fst e) = k) (sections_of order ns) = filter (\<lambda>e. f (fst e) = k) (both_sections ns)"
proof -
  let ?is = "order (length ns)"
  have m: "mset ?is = mset ([0..<length ns] @ [0..<length ns])" using assms(1) by (simp add: interleaves_def)
  then have range: "set ?is = {0..<length ns}" using mset_eq_setD [OF m] by simp
  show ?thesis
  proof (cases "\<exists>i<length ns. f (ns ! i) = k")
    case True
    then obtain i where i: "i < length ns" "f (ns ! i) = k" by blast
    have one: "j < length ns \<Longrightarrow> (f (ns ! j) = k) = (j = i)" for j
      using assms(2) i by (metis distinct_conv_nth length_map nth_map)
    have "filter (\<lambda>e. f (fst e) = k) (sections_of order ns) =
        map (\<lambda>(i, before). (ns ! i, before)) (filter (\<lambda>e. f (ns ! fst e) = k) (staged [] ?is))"
      by (simp add: sections_of_def filter_map o_def case_prod_unfold)
    also have "filter (\<lambda>e. f (ns ! fst e) = k) (staged [] ?is) = filter (\<lambda>e. fst e = i) (staged [] ?is)"
    proof (rule filter_cong [OF refl])
      fix e assume "e \<in> set (staged [] ?is)"
      then have "fst e < length ns" using set_staged [of "[]" ?is] range by force
      then show "(f (ns ! fst e) = k) = (fst e = i)" by (rule one)
    qed
    also have "\<dots> = [(i, True), (i, False)]"
    proof -
      have "count (mset ?is) i = Suc 1" unfolding m using i(1) by (simp add: distinct_count_atmost_1)
      then show ?thesis using filter_staged [of i "[]" ?is 1] by simp
    qed
    finally have "filter (\<lambda>e. f (fst e) = k) (sections_of order ns) = [(ns ! i, True), (ns ! i, False)]" by simp
    then show ?thesis using filter_both [OF assms(2), of "ns ! i"] i by simp
  next
    case False
    have "f (fst e) \<noteq> k" if e: "e \<in> set (sections_of order ns)" for e
    proof -
      from e obtain j b where j: "(j, b) \<in> set (staged [] ?is)" "e = (ns ! j, b)" by (auto simp: sections_of_def)
      then have "j \<in> set ?is" using set_staged [of "[]" ?is] by (metis fst_conv image_eqI)
      then have "j < length ns" unfolding range by simp
      with False j(2) show ?thesis by simp
    qed
    then have "filter (\<lambda>e. f (fst e) = k) (sections_of order ns) = []" by (simp add: filter_empty_conv)
    moreover have "filter (\<lambda>e. f (fst e) = k) (both_sections ns) = []"
      using False by (auto simp: both_sections_def filter_empty_conv in_set_conv_nth)
    ultimately show ?thesis by simp
  qed
qed

text \<open>C37. The check of the nodes gives the states and the errors that checking one node after the other would give,
  however the goroutines interleave, when the nodes have different addresses.\<close>

theorem node_checks_interleave:
  assumes "interleaves (he_sections env)" "permutes_all (he_arrivals env)"
    and "cache_GetNodes env s = (s', Inr nodes)" "distinct (map GetNodeIP nodes)"
  shows "\<exists>errs. checkNodesParallel env v bns s = (s', fold (\<lambda>n ns. fst (checkNode env v ns n)) nodes bns, errs, NewAggregate errs) \<and>
    mset errs = mset (node_errors env v bns nodes)"
proof -
  have "fold (node_section env v) (sections_of (he_sections env) nodes) bns = fold (node_section env v) (both_sections nodes) bns"
    by (rule fold_by_key [where key = "\<lambda>e. GetNodeIP (fst e)"]) (simp_all add: sections_commute filter_sections assms(1,4))
  then show ?thesis using assms(2,3) by (auto simp: checkNodesParallel_def Let_def fold_both mset_arrange)
qed

section \<open>What a healthy cluster is\<close>

definition node_healthy :: "'w health_env \<Rightarrow> string \<Rightarrow> bke_node list \<Rightarrow> kube_node \<Rightarrow> bool" where
  "node_healthy env version bns n \<longleftrightarrow> node_skipped bns n \<or>
     (\<forall>c\<in>set (kn_conditions n). fst c = ''Ready'' \<longrightarrow> snd c = ''True'') \<and> (version = '''' \<or> kn_kubelet n = version) \<and>
     (HasLabel (kn_labels n) NodeRoleMasterLabel \<longrightarrow>
        (\<forall>c\<in>set GetControlPlaneComponents. he_getPod env ''kube-system'' (StaticPodName c (kn_name n)) = Inr ''Running''))"

definition prefix_healthy :: "pod list \<Rightarrow> string \<Rightarrow> bool" where
  "prefix_healthy pods prefix \<longleftrightarrow>
     (let ps = {p \<in> set pods. HasPrefix (po_name p) prefix}
      in (\<exists>p\<in>ps. isPodHealthy p = None) \<and> (prefix \<noteq> ''coredns'' \<longrightarrow> (\<forall>p\<in>ps. isPodHealthy p = None)))"

definition component_healthy :: "(string \<Rightarrow> string + pod list) \<Rightarrow> component_check \<Rightarrow> bool" where
  "component_healthy pods c \<longleftrightarrow>
     (case pods (cc_namespace c) of Inl _ \<Rightarrow> False | Inr ps \<Rightarrow> \<forall>prefix\<in>set (cc_prefixes c). prefix_healthy ps prefix)"

text \<open>The pods of a name space stay as they are during the check.\<close>

definition reads_pods :: "'w health_env \<Rightarrow> (string \<Rightarrow> string + pod list) \<Rightarrow> bool" where
  "reads_pods env pods \<longleftrightarrow> (\<forall>ns w. snd (he_listPods env ns w) = pods ns)"

lemma NewAggregate_None [simp]: "NewAggregate errs = None \<longleftrightarrow> errs = []"
  by (simp add: NewAggregate_def)

lemma keep_errors_Nil: "keep_errors rs = [] \<longleftrightarrow> (\<forall>r\<in>set rs. r = None)"
  by (auto simp: keep_errors_def split: option.splits)

lemma set_keep_errors: "e \<in> set (keep_errors rs) \<longleftrightarrow> Some e \<in> set rs"
  by (force simp: keep_errors_def split: option.splits)

lemma Some_map_option: "Some y = map_option f x \<longleftrightarrow> (\<exists>z. x = Some z \<and> y = f z)"
  by (cases x) auto

lemma pods_error_None: "pods_error f m pods prefix = None \<longleftrightarrow> prefix_healthy pods prefix"
proof -
  have "filterPodsWithPrefix pods prefix = [] \<longleftrightarrow> {p \<in> set pods. HasPrefix (po_name p) prefix} = {}"
    by (auto simp: filterPodsWithPrefix_def filter_empty_conv)
  then show ?thesis
    by (auto simp: pods_error_def prefix_healthy_def Let_def keep_errors_Nil filterPodsWithPrefix_def)
qed

lemma node_error_None: "snd (checkNode env v bns n) = None \<longleftrightarrow> node_healthy env v bns n"
proof -
  have "CheckComponentHealth (he_getPod env) n = None \<longleftrightarrow>
      (\<forall>c\<in>set GetControlPlaneComponents. he_getPod env ''kube-system'' (StaticPodName c (kn_name n)) = Inr ''Running'')"
  proof -
    have "(case x of Inl e \<Rightarrow> [f e] | Inr ph \<Rightarrow> if ph = ''Running'' then [] else [g ph]) = [] \<longleftrightarrow> x = Inr ''Running''"
      for x :: "string + string" and f g :: "string \<Rightarrow> health_error" by (cases x) auto
    then show ?thesis by (simp add: CheckComponentHealth_def Let_def)
  qed
  then show ?thesis
    by (auto simp: checkNode_def node_healthy_def NodeHealthCheck_def nodeHealthCheck_def checkNodeReady_def checkNodeVersion_def
        label_IsMasterNode_def split: option.splits)
qed

lemma node_errors_Nil: "node_errors env v bns nodes = [] \<longleftrightarrow> (\<forall>n\<in>set nodes. node_healthy env v bns n)"
  by (auto simp: node_errors_def node_error_None [symmetric] split: option.splits)

definition cache_ok :: "(string \<Rightarrow> string + pod list) \<Rightarrow> health_cache \<Rightarrow> bool" where
  "cache_ok pods c \<longleftrightarrow> (\<forall>ns ps. map_of (hch_pods c) ns = Some ps \<longrightarrow> pods ns = Inr ps)"

lemma cache_reads:
  assumes "reads_pods env pods" "cache_ok pods (fst s)" "cache_GetPods env ns s = (s', r)"
  shows "r = pods ns \<and> cache_ok pods (fst s')"
proof (cases s)
  case (Pair c w)
  show ?thesis
  proof (cases "map_of (hch_pods c) ns")
    case None
    obtain w' q where q: "he_listPods env ns w = (w', q)" by fastforce
    then have "q = pods ns" using assms(1) unfolding reads_pods_def by (metis snd_conv)
    then show ?thesis
      using assms(2,3) q None Pair by (cases "pods ns") (auto simp: cache_GetPods_def cache_ok_def update_conv split: if_splits)
  next
    case (Some ps)
    with assms Pair show ?thesis by (auto simp: cache_GetPods_def cache_ok_def)
  qed
qed

definition component_error :: "(string \<Rightarrow> string + pod list) \<Rightarrow> component_check \<Rightarrow> health_error option" where
  "component_error pods c =
     (case pods (cc_namespace c) of Inl e \<Rightarrow> Some (newComponentError c '''' '''' ''ListPodsFailed'' e)
      | Inr ps \<Rightarrow> NewAggregate (keep_errors (map (unified_verifyComponentPods c ps) (cc_prefixes c))))"

lemma component_error_None: "component_error pods c = None \<longleftrightarrow> component_healthy pods c"
  by (auto simp: component_error_def component_healthy_def keep_errors_Nil unified_verifyComponentPods_def pods_error_None split: sum.splits)

lemma check_components:
  assumes "reads_pods env pods" "cache_ok pods (fst s)" "check_each (checkComponent env) cs s = (s', errs)"
  shows "errs = keep_errors (map (component_error pods) cs) \<and> cache_ok pods (fst s')"
  using assms(2,3)
proof (induction cs arbitrary: s s' errs)
  case (Cons c cs)
  obtain t r where g: "cache_GetPods env (cc_namespace c) s = (t, r)" by fastforce
  from cache_reads [OF assms(1) Cons.prems(1) g] have r: "r = pods (cc_namespace c)" "cache_ok pods (fst t)" by auto
  from g r(1) have "checkComponent env c s = (t, component_error pods c)"
    by (simp add: checkComponent_def component_error_def split: sum.splits)
  with Cons.prems(2) Cons.IH [OF r(2)] show ?case
    by (auto simp: keep_errors_def split: prod.splits)
qed (simp add: keep_errors_def)

definition of_priority :: "priority \<Rightarrow> health_error \<Rightarrow> bool" where
  "of_priority q e \<longleftrightarrow> (\<forall>p. hasPriority e p \<longleftrightarrow> p = q)"

lemma of_priority_aggregate: "NewAggregate errs = Some e \<Longrightarrow> \<forall>x\<in>set errs. of_priority q x \<Longrightarrow> of_priority q e"
  by (cases errs) (auto simp: NewAggregate_def of_priority_def list_ex_iff)

lemma of_priority_component: "of_priority (cc_priority c) (newComponentError c pr po re er)"
  by (auto simp: of_priority_def newComponentError_def found_as_def)

lemma of_priority_pods:
  assumes "pods_error f m pods prefix = Some e" "of_priority q m" "\<And>p er. of_priority q (f p er)"
  shows "of_priority q e"
proof (cases "filterPodsWithPrefix pods prefix = []")
  case False
  with assms(1) have "NewAggregate (keep_errors (map (\<lambda>p. map_option (f p) (isPodHealthy p)) (filterPodsWithPrefix pods prefix))) = Some e"
    by (simp add: pods_error_def Let_def split: if_splits)
  then show ?thesis 
    by (rule of_priority_aggregate) (auto simp: set_keep_errors assms(3) Some_map_option)
qed (use assms in \<open>simp add: pods_error_def\<close>)

lemma component_error_priority:
  assumes "component_error pods c = Some e"
  shows "of_priority (cc_priority c) e"
proof (cases "pods (cc_namespace c)")
  case (Inl x)
  with assms show ?thesis by (auto simp: component_error_def of_priority_component)
next
  case (Inr ps)
  with assms have "NewAggregate (keep_errors (map (unified_verifyComponentPods c ps) (cc_prefixes c))) = Some e"
    by (simp add: component_error_def)
  then show ?thesis
  proof (rule of_priority_aggregate)
    show "\<forall>x\<in>set (keep_errors (map (unified_verifyComponentPods c ps) (cc_prefixes c))). of_priority (cc_priority c) x"
    proof
      fix x assume "x \<in> set (keep_errors (map (unified_verifyComponentPods c ps) (cc_prefixes c)))"
      then obtain prefix where "unified_verifyComponentPods c ps prefix = Some x" by (auto simp: set_keep_errors dest: sym)
      then show "of_priority (cc_priority c) x"
        unfolding unified_verifyComponentPods_def by (rule of_priority_pods) (rule of_priority_component)+
    qed
  qed
qed

lemma node_errors_critical: "e \<in> set (node_errors env v bns nodes) \<Longrightarrow> hasPriority e PriorityCritical"
  by (auto simp: node_errors_def checkNode_def newNodeError_def found_as_def Some_map_option split: option.splits if_splits)

lemma components_checked:
  assumes "reads_pods env pods" "permutes_all (he_reads env)" "permutes_all (he_arrivals env)"
    and "cache_ok pods (fst s)" "\<forall>c\<in>set cs. cc_priority c = q"
    and "checkComponentsParallel env cs result s = (s', result', r)"
  shows "cache_ok pods (fst s') \<and> (\<exists>errs. set errs = {e. \<exists>c\<in>set cs. component_error pods c = Some e} \<and>
    r = (if q = PriorityCritical then NewAggregate errs else None) \<and>
    result' = (case q of PriorityCritical \<Rightarrow> result\<lparr>hr_critical := hr_critical result @ errs\<rparr>
      | PriorityImportant \<Rightarrow> result\<lparr>hr_important := hr_important result @ errs\<rparr>
      | PriorityOptional \<Rightarrow> result\<lparr>hr_optional := hr_optional result @ errs\<rparr>))"
proof (cases cs)
  case Nil
  with assms(4,6) show ?thesis by (auto simp: checkComponentsParallel_def NewAggregate_def split: priority.splits intro!: exI [of _ "[]"])
next
  case (Cons c cs')
  obtain t found where f: "check_each (checkComponent env) (arrange (he_reads env) cs) s = (t, found)" by fastforce
  from check_components [OF assms(1,4) f] have t: "found = keep_errors (map (component_error pods) (arrange (he_reads env) cs))" "cache_ok pods (fst t)" by auto
  then have "set (arrange (he_arrivals env) found) = {e. \<exists>c\<in>set cs. component_error pods c = Some e}"
    using arrange_set [OF assms(2), of cs] by (auto simp: arrange_set [OF assms(3)] set_keep_errors image_iff) (metis)+
  with t(2) f Cons assms(5,6) show ?thesis
    by (cases q) (auto simp: checkComponentsParallel_def Let_def intro!: exI [of _ "arrange (he_arrivals env) found"])
qed

lemma nodes_checked:
  assumes "permutes_all (he_arrivals env)" "he_listNodes env w = (w2, nodes)"
    and "checkNodesParallel env v bns (\<lparr>hch_nodes = None, hch_pods = []\<rparr>, w) = (s, bns', errs, r)"
  shows "hch_pods (fst s) = [] \<and> (r = None \<longleftrightarrow> (\<exists>ns. nodes = Inr ns \<and> (\<forall>n\<in>set ns. node_healthy env v bns n))) \<and>
    (r = None \<longrightarrow> errs = []) \<and> (\<forall>e. r = Some e \<longrightarrow> hasPriority e PriorityCritical)"
proof (cases nodes)
  case (Inl x)
  with assms(2,3) show ?thesis
    by (auto simp: checkNodesParallel_def cache_GetNodes_def newNodeError_def found_as_def)
next
  case (Inr ns)
  with assms(2,3) have e: "errs = arrange (he_arrivals env) (node_errors env v bns ns)" "r = NewAggregate errs" "hch_pods (fst s) = []"
    by (auto simp: checkNodesParallel_def cache_GetNodes_def Let_def)
  have "\<forall>x\<in>set errs. hasPriority x PriorityCritical"
    using node_errors_critical arrange_set [OF assms(1)] e(1) by metis
  moreover have "errs = [] \<longleftrightarrow> (\<forall>n\<in>set ns. node_healthy env v bns n)"
    using arrange_Nil [OF assms(1)] e(1) node_errors_Nil by metis
  ultimately show ?thesis using e(2,3) Inr by (auto simp: NewAggregate_def list_ex_iff neq_Nil_conv)
qed

definition all_nodes_healthy :: "'w health_env \<Rightarrow> string \<Rightarrow> bke_node list \<Rightarrow> string + kube_node list \<Rightarrow> bool" where
  "all_nodes_healthy env version bns nodes \<longleftrightarrow> (\<exists>ns. nodes = Inr ns \<and> (\<forall>n\<in>set ns. node_healthy env version bns n))"

definition checked_version :: "cluster_spec \<Rightarrow> string \<Rightarrow> string" where
  "checked_version conf current = (if current = '''' then cs_kubernetesVersion conf else current)"

lemma unified_outcome:
  assumes "reads_pods env pods" "permutes_all (he_reads env)" "permutes_all (he_arrivals env)"
    and "he_listNodes env w = (w2, nodes)" "unified_Check env cs dv cv bns w = (w', bns', r)"
  defines "bad \<equiv> \<not> all_nodes_healthy env (if cv = '''' then dv else cv) bns nodes \<or>
    (\<exists>c\<in>set cs. cc_priority c = PriorityCritical \<and> \<not> component_healthy pods c)"
  shows "if bad then \<exists>e. r = Some e \<and> hasPriority e PriorityCritical
    else \<exists>errs. r = NewAggregate errs \<and> set errs = {e. \<exists>c\<in>set cs. component_error pods c = Some e}"
proof -
  let ?v = "if cv = '''' then dv else cv"
  obtain s1 b1 errs1 r1 where n: "checkNodesParallel env ?v bns (\<lparr>hch_nodes = None, hch_pods = []\<rparr>, w) = (s1, b1, errs1, r1)"
    by (metis prod_cases4)
  let ?res = "\<lparr>hr_node = errs1, hr_critical = [], hr_important = [], hr_optional = []\<rparr>"
  let ?crit = "filter (\<lambda>c. cc_priority c = PriorityCritical) cs" and ?imp = "filter (\<lambda>c. cc_priority c = PriorityImportant) cs"
    and ?opt = "filter (\<lambda>c. cc_priority c \<noteq> PriorityCritical \<and> cc_priority c \<noteq> PriorityImportant) cs"
  note nodes = nodes_checked [OF assms(3,4) n]
  have c1: "cache_ok pods (fst s1)" using nodes by (simp add: cache_ok_def)
  have nodes_ok: "r1 = None \<longleftrightarrow> (\<exists>ns. nodes = Inr ns \<and> (\<forall>n\<in>set ns. node_healthy env ?v bns n))" "r1 = None \<Longrightarrow> errs1 = []"
    and nodes_bad: "\<And>e. r1 = Some e \<Longrightarrow> hasPriority e PriorityCritical"
    using nodes by blast+
  note nodes_ok = nodes_ok [folded all_nodes_healthy_def]
  obtain s2 res2 r2 where k2: "checkComponentsParallel env ?crit ?res s1 = (s2, res2, r2)" by (metis prod_cases3)
  obtain errs2 where e2: "cache_ok pods (fst s2)" "set errs2 = {e. \<exists>c\<in>set ?crit. component_error pods c = Some e}"
    "r2 = NewAggregate errs2" "res2 = ?res\<lparr>hr_critical := errs2\<rparr>"
    using components_checked [OF assms(1-3) c1 _ k2, of PriorityCritical] by auto
  obtain s3 res3 r3 where k3: "checkComponentsParallel env ?imp res2 s2 = (s3, res3, r3)" by (metis prod_cases3)
  obtain errs3 where e3: "cache_ok pods (fst s3)" "set errs3 = {e. \<exists>c\<in>set ?imp. component_error pods c = Some e}"
    "res3 = res2\<lparr>hr_important := errs3\<rparr>"
    using components_checked [OF assms(1-3) e2(1) _ k3, of PriorityImportant] e2(4) by auto
  obtain s4 res4 r4 where k4: "checkComponentsParallel env ?opt res3 s3 = (s4, res4, r4)" by (metis prod_cases3)
  have opt: "\<forall>c\<in>set ?opt. cc_priority c = PriorityOptional" using priority.exhaust by auto
  obtain errs4 where e4: "set errs4 = {e. \<exists>c\<in>set ?opt. component_error pods c = Some e}" "res4 = res3\<lparr>hr_optional := errs4\<rparr>"
    using components_checked [OF assms(1-3) e3(1) opt k4] e3(3) e2(4) by auto
  have r: "r = (case r1 of Some e \<Rightarrow> Some e | None \<Rightarrow> (case r2 of Some e \<Rightarrow> Some e | None \<Rightarrow> aggregateResult res4))"
    using assms(5) n k2 k3 k4 by (auto simp: unified_Check_def groupByPriority_def Let_def split: option.splits)
  have crit: "r2 = None \<longleftrightarrow> \<not> (\<exists>c\<in>set cs. cc_priority c = PriorityCritical \<and> \<not> component_healthy pods c)"
    using e2(2,3) by (auto simp: component_error_None [symmetric] set_empty [symmetric] simp del: set_empty)
  show ?thesis
  proof (cases bad)
    case True
    show ?thesis
    proof (cases r1)
      case None
      with True nodes_ok(1) crit obtain e where e: "r2 = Some e" unfolding bad_def by auto
      then have "errs2 \<noteq> []" "e = Aggregate errs2" using e2(3) by (auto simp: NewAggregate_def split: if_splits)
      moreover have "\<forall>x\<in>set errs2. hasPriority x PriorityCritical"
        using e2(2) component_error_priority by (fastforce simp: of_priority_def)
      ultimately have "hasPriority e PriorityCritical" by (auto simp: list_ex_iff neq_Nil_conv)
      with True None r e show ?thesis by simp
    qed (use True r nodes_bad in simp)
  next
    case False
    then have none: "r1 = None" "r2 = None" using nodes_ok(1) crit unfolding bad_def by auto
    have "set (errs2 @ errs3 @ errs4) = {e. \<exists>c\<in>set cs. component_error pods c = Some e}"
      using e2(2) e3(2) e4(1) by auto
    moreover have "r = NewAggregate (errs2 @ errs3 @ errs4)"
      using r none e2(4) e3(3) e4(2) nodes_ok(2) by (simp add: aggregateResult_def)
    ultimately show ?thesis unfolding if_not_P [OF False] by blast
  qed
qed

lemma process_check:
  assumes "reads_pods env pods" "processComponentCheck env c w = (w', r)"
  shows "(r = None \<longleftrightarrow> component_healthy pods c) \<and> (\<forall>e p. r = Some e \<longrightarrow> \<not> hasPriority e p)"
proof -
  obtain u where q: "he_listPods env (cc_namespace c) w = (u, pods (cc_namespace c))"
    using assms(1) unfolding reads_pods_def by (metis prod.collapse)
  have plain: "\<not> hasPriority e p" if "verifyComponentPods ps prefix ns = Some e" for ps prefix ns e p
    using that by (auto simp: verifyComponentPods_def pods_error_def Let_def NewAggregate_def list_ex_iff set_keep_errors Some_map_option found_as_def
        split: if_splits)
  show ?thesis
  proof (cases "pods (cc_namespace c)")
    case (Inl x)
    with assms(2) q show ?thesis by (auto simp: processComponentCheck_def component_healthy_def found_as_def)
  next
    case (Inr ps)
    with assms(2) q have "r = NewAggregate (keep_errors (map (\<lambda>prefix. verifyComponentPods ps prefix (cc_namespace c)) (cc_prefixes c)))"
      by (simp add: processComponentCheck_def)
    moreover have "verifyComponentPods ps prefix ns = None \<longleftrightarrow> prefix_healthy ps prefix" for prefix ns
      by (simp add: verifyComponentPods_def pods_error_None)
    ultimately show ?thesis
      using Inr plain
      by (auto simp: component_healthy_def keep_errors_Nil NewAggregate_def list_ex_iff set_keep_errors image_iff split: if_splits)
  qed
qed

lemma each_plain:
  assumes "\<And>x w w' r. f x w = (w', r) \<Longrightarrow> (r = None \<longleftrightarrow> ok x) \<and> (\<forall>e p. r = Some e \<longrightarrow> \<not> hasPriority e p)"
    and "check_each f xs w = (w', errs)"
  shows "(errs = [] \<longleftrightarrow> (\<forall>x\<in>set xs. ok x)) \<and> (\<forall>e\<in>set errs. \<forall>p. \<not> hasPriority e p)"
  using assms(2)
proof (induction xs arbitrary: w w' errs)
  case (Cons x xs)
  obtain w1 r where 1: "f x w = (w1, r)" by fastforce
  obtain w2 es where 2: "check_each f xs w1 = (w2, es)" by fastforce
  from assms(1) [OF 1] Cons.IH [OF 2] Cons.prems 1 2 show ?case
    by (cases r) (auto simp: keep_errors_def)
qed simp

lemma addon_check:
  assumes "reads_pods env pods" "processAddonComponentCheck env a w = (w', r)" "findAddonComponent a = Some k"
  shows "(r = None \<longleftrightarrow> (\<forall>c\<in>set (ac_components k). component_healthy pods c)) \<and> (\<forall>e p. r = Some e \<longrightarrow> \<not> hasPriority e p)"
proof -
  obtain u errs where u: "check_each (processComponentCheck env) (ac_components k) w = (u, errs)" by fastforce
  have "(errs = [] \<longleftrightarrow> (\<forall>c\<in>set (ac_components k). component_healthy pods c)) \<and> (\<forall>e\<in>set errs. \<forall>p. \<not> hasPriority e p)"
    using process_check [OF assms(1)] u by (rule each_plain)
  with assms(2,3) u show ?thesis
    by (auto simp: processAddonComponentCheck_def NewAggregate_def list_ex_iff split: if_splits)
qed

definition addons_healthy :: "(string \<Rightarrow> string + pod list) \<Rightarrow> cluster_spec \<Rightarrow> bool" where
  "addons_healthy pods conf \<longleftrightarrow>
     (\<forall>k\<in>set extraAddonComponents. ac_addon k \<in> pr_name ` set (cs_addons conf) - set coreHealthAddons \<longrightarrow>
        (\<forall>c\<in>set (ac_components k). component_healthy pods c))"

lemma find_addon: "findAddonComponent a = Some k \<longleftrightarrow> k \<in> set extraAddonComponents \<and> ac_addon k = a"
proof -
  have find: "distinct (map f xs) \<Longrightarrow> find (\<lambda>x. f x = b) xs = Some x \<longleftrightarrow> x \<in> set xs \<and> f x = b" for f :: "addon_check \<Rightarrow> string" and xs x b
    by (induction xs) auto
  have "distinct (map ac_addon extraAddonComponents)" by (simp add: extraAddonComponents_def)
  then show ?thesis unfolding findAddonComponent_def by (rule find)
qed

lemma addons_checked:
  assumes "reads_pods env pods" "CheckAddonComponentsHealth env (map pr_name (cs_addons conf)) w = (w', r)"
  shows "(r = None \<longleftrightarrow> addons_healthy pods conf) \<and> (\<forall>e. r = Some e \<longrightarrow> (\<forall>p. \<not> hasPriority e p) \<and> as_Requeue e = None)"
proof -
  let ?as = "filter (\<lambda>a. a \<notin> set coreHealthAddons \<and> findAddonComponent a \<noteq> None) (map pr_name (cs_addons conf))"
  let ?check = "\<lambda>a w. if findAddonComponent a = None then (w, None) else processAddonComponentCheck env a w"
  obtain u errs where u: "check_each (processAddonComponentCheck env) ?as w = (u, errs)" by fastforce
  have same: "check_each (processAddonComponentCheck env) as w = check_each ?check as w" if "\<forall>a\<in>set as. findAddonComponent a \<noteq> None" for as w
    using that by (induction as arbitrary: w) (auto simp: Let_def)
  let ?ok = "\<lambda>a. \<forall>k. findAddonComponent a = Some k \<longrightarrow> (\<forall>c\<in>set (ac_components k). component_healthy pods c)"
  have "(errs = [] \<longleftrightarrow> (\<forall>a\<in>set ?as. ?ok a)) \<and> (\<forall>e\<in>set errs. \<forall>p. \<not> hasPriority e p)"
  proof (rule each_plain)
    show "check_each ?check ?as w = (u, errs)" using u same [of ?as w] by simp
    show "(r = None \<longleftrightarrow> ?ok a) \<and> (\<forall>e p. r = Some e \<longrightarrow> \<not> hasPriority e p)" if "?check a v = (v', r)" for a v v' r
      using that addon_check [OF assms(1)] by (cases "findAddonComponent a") force+
  qed
  moreover have "(\<forall>a\<in>set ?as. ?ok a) \<longleftrightarrow> addons_healthy pods conf"
    by (auto simp: addons_healthy_def find_addon)
  ultimately show ?thesis
    using assms(2) u by (auto simp: CheckAddonComponentsHealth_def NewAggregate_def list_ex_iff split: if_splits)
qed

lemma unhealthy_error: "\<not> component_healthy pods c \<longleftrightarrow> (\<exists>e. component_error pods c = Some e)"
  using component_error_None [of pods c] by (cases "component_error pods c") auto

lemma errors_of_components:
  assumes "set errs = {e. \<exists>c\<in>S. component_error pods c = Some e}"
  shows "(\<exists>e\<in>set errs. hasPriority e p) \<longleftrightarrow> (\<exists>c\<in>S. cc_priority c = p \<and> \<not> component_healthy pods c)"
    and "errs = [] \<longleftrightarrow> (\<forall>c\<in>S. component_healthy pods c)"
proof -
  have "hasPriority e p \<longleftrightarrow> cc_priority c = p" if "component_error pods c = Some e" for c e
    using component_error_priority [OF that] by (auto simp: of_priority_def)
  then show "(\<exists>e\<in>set errs. hasPriority e p) \<longleftrightarrow> (\<exists>c\<in>S. cc_priority c = p \<and> \<not> component_healthy pods c)"
    unfolding assms unhealthy_error by blast
  have "set errs = {} \<longleftrightarrow> (\<forall>c\<in>S. component_healthy pods c)" unfolding assms using unhealthy_error by blast
  then show "errs = [] \<longleftrightarrow> (\<forall>c\<in>S. component_healthy pods c)" by simp
qed

lemma checked_outcome:
  assumes "reads_pods env pods" "permutes_all (he_reads env)" "permutes_all (he_arrivals env)"
    and "LoadHealthCheckConfig env w = (w1, config)" "he_listNodes env w1 = (w2, nodes)"
  obtains (critical) e where "\<not> all_nodes_healthy env (checked_version conf version) bns nodes \<or>
        (\<exists>c\<in>set (hcf_components config). cc_priority c = PriorityCritical \<and> \<not> component_healthy pods c)"
      "snd (snd (CheckClusterHealth env conf version bns w)) = Some (Requeue e (hcf_intervals config))" "hasPriority e PriorityCritical"
  | (other) errs where "all_nodes_healthy env (checked_version conf version) bns nodes"
      "\<not> (\<exists>c\<in>set (hcf_components config). cc_priority c = PriorityCritical \<and> \<not> component_healthy pods c)"
      "set errs = {e. \<exists>c\<in>set (hcf_components config). component_error pods c = Some e}" "errs \<noteq> []"
      "snd (snd (CheckClusterHealth env conf version bns w)) = Some (Requeue (Aggregate errs) (hcf_intervals config))"
  | (addons) r where "all_nodes_healthy env (checked_version conf version) bns nodes" "\<forall>c\<in>set (hcf_components config). component_healthy pods c"
      "snd (snd (CheckClusterHealth env conf version bns w)) = r" "r = None \<longleftrightarrow> addons_healthy pods conf"
      "\<forall>e. r = Some e \<longrightarrow> (\<forall>p. \<not> hasPriority e p) \<and> as_Requeue e = None"
proof -
  obtain w3 b r where u: "unified_Check env (hcf_components config) (cs_kubernetesVersion conf) version bns w1 = (w3, b, r)" by (metis prod_cases3)
  obtain w4 r' where a: "CheckAddonComponentsHealth env (map pr_name (cs_addons conf)) w3 = (w4, r')" by fastforce
  have res: "snd (snd (CheckClusterHealth env conf version bns w)) = (case r of Some e \<Rightarrow> Some (Requeue e (hcf_intervals config)) | None \<Rightarrow> r')"
    using assms(4) u a by (auto simp: CheckClusterHealth_def newHealthCheckRequeueError_def split: option.splits)
  let ?bad = "\<not> all_nodes_healthy env (checked_version conf version) bns nodes \<or>
    (\<exists>c\<in>set (hcf_components config). cc_priority c = PriorityCritical \<and> \<not> component_healthy pods c)"
  note out = unified_outcome [OF assms(1-3,5) u, folded checked_version_def]
  show thesis
  proof (cases ?bad)
    case True
    with out obtain e where "r = Some e" "hasPriority e PriorityCritical" by auto
    with True res show thesis using critical by simp
  next
    case False
    from out obtain errs where e: "r = NewAggregate errs" "set errs = {e. \<exists>c\<in>set (hcf_components config). component_error pods c = Some e}"
      unfolding if_not_P [OF False] by blast
    show thesis
    proof (cases "errs = []")
      case True
      then have "\<forall>c\<in>set (hcf_components config). component_healthy pods c" using errors_of_components(2) [OF e(2)] by blast
      moreover have "snd (snd (CheckClusterHealth env conf version bns w)) = r'" using res e(1) True by (simp add: NewAggregate_def)
      ultimately show thesis using False addons_checked [OF assms(1) a] addons by blast
    next
      case nonempty: False
      then have "snd (snd (CheckClusterHealth env conf version bns w)) = Some (Requeue (Aggregate errs) (hcf_intervals config))"
        using res e(1) by (simp add: NewAggregate_def)
      with False nonempty e(2) show thesis using other by blast
    qed
  qed
qed

text \<open>C36. A cluster counts as healthy just when its nodes can be listed and each of them is skipped or ready, of the
  wanted version and, on the control plane, with running components; when every component of the
  configuration has pods and all of them are healthy, of the name service at least one; and when the same
  holds of the add-ons that are not among these components.\<close>

theorem cluster_healthy_iff:
  assumes "reads_pods env pods" "permutes_all (he_reads env)" "permutes_all (he_arrivals env)"
    and "LoadHealthCheckConfig env w = (w1, config)" "he_listNodes env w1 = (w2, nodes)"
  shows "snd (snd (CheckClusterHealth env conf version bns w)) = None \<longleftrightarrow>
    all_nodes_healthy env (checked_version conf version) bns nodes \<and> (\<forall>c\<in>set (hcf_components config). component_healthy pods c) \<and>
    addons_healthy pods conf"
proof (cases rule: checked_outcome [OF assms, of conf version bns, case_names critical other addons])
  case (other errs)
  then show ?thesis using errors_of_components(2) [OF other(3)] by auto
qed auto

lemma interval_requeue:
  "GetHealthCheckRequeueInterval env (Some (Requeue e i)) =
     (if hasPriority e PriorityCritical then iv_critical i else if hasPriority e PriorityImportant then iv_important i else iv_optional i)"
  by (simp add: GetHealthCheckRequeueInterval_def getHealthCheckRequeueInterval_def IsCriticalHealthCheckError_def IsImportantHealthCheckError_def)

lemma interval_default:
  "GetHealthCheckRequeueInterval env None = iv_normal (hcf_intervals (DefaultHealthCheckConfig env))"
  "as_Requeue e = None \<Longrightarrow> \<forall>p. \<not> hasPriority e p \<Longrightarrow> GetHealthCheckRequeueInterval env (Some e) = iv_optional (hcf_intervals (DefaultHealthCheckConfig env))"
  by (simp_all add: GetHealthCheckRequeueInterval_def getHealthCheckRequeueInterval_def IsCriticalHealthCheckError_def IsImportantHealthCheckError_def)

definition failing :: "(string \<Rightarrow> string + pod list) \<Rightarrow> health_config \<Rightarrow> priority \<Rightarrow> bool" where
  "failing pods config p \<longleftrightarrow> (\<exists>c\<in>set (hcf_components config). cc_priority c = p \<and> \<not> component_healthy pods c)"

text \<open>The next check comes after the interval of the most severe failure: of the nodes and critical components first, then
  of the important and of the optional ones, all from the configuration of the check; a failure of add-ons alone
  counts as optional and, like success, takes the interval of the embedded configuration.\<close>

theorem requeue_by_severity:
  assumes "reads_pods env pods" "permutes_all (he_reads env)" "permutes_all (he_arrivals env)"
    and "LoadHealthCheckConfig env w = (w1, config)" "he_listNodes env w1 = (w2, nodes)"
  shows "GetHealthCheckRequeueInterval env (snd (snd (CheckClusterHealth env conf version bns w))) =
    (if \<not> all_nodes_healthy env (checked_version conf version) bns nodes \<or> failing pods config PriorityCritical then iv_critical (hcf_intervals config)
     else if failing pods config PriorityImportant then iv_important (hcf_intervals config)
     else if failing pods config PriorityOptional then iv_optional (hcf_intervals config)
     else if \<not> addons_healthy pods conf then iv_optional (hcf_intervals (DefaultHealthCheckConfig env))
     else iv_normal (hcf_intervals (DefaultHealthCheckConfig env)))"
proof (cases rule: checked_outcome [OF assms, of conf version bns, case_names critical other addons])
  case (critical e)
  then show ?thesis by (simp add: interval_requeue failing_def)
next
  case (other errs)
  have fail: "hasPriority (Aggregate errs) p \<longleftrightarrow> failing pods config p" for p
    using errors_of_components(1) [OF other(3)] by (simp add: failing_def list_ex_iff)
  have "failing pods config PriorityCritical \<or> failing pods config PriorityImportant \<or> failing pods config PriorityOptional"
    using other(4) errors_of_components(2) [OF other(3)] unfolding failing_def by (metis priority.exhaust)
  with other(1,2,5) show ?thesis by (auto simp: interval_requeue fail failing_def [symmetric] simp del: hasPriority.simps)
next
  case (addons r)
  then have "\<not> failing pods config p" for p by (auto simp: failing_def)
  with addons show ?thesis by (cases r) (simp_all add: interval_default)
qed

text \<open>A node without the condition that it is ready passes the check, yet is not recorded as ready.\<close>

theorem silent_node_passes:
  assumes "\<forall>c\<in>set (kn_conditions n). fst c \<noteq> ''Ready''" "\<not> HasLabel (kn_labels n) NodeRoleMasterLabel" "kn_kubelet n = v"
  shows "checkNode env v bns n = (bns, None)"
proof -
  have "\<not> kube_NodeReady n" using assms(1) by (auto simp: kube_NodeReady_def)
  moreover have "NodeHealthCheck (he_getPod env) n v = None"
    using assms by (auto simp: NodeHealthCheck_def nodeHealthCheck_def checkNodeReady_def checkNodeVersion_def label_IsMasterNode_def)
  ultimately show ?thesis by (simp add: checkNode_def node_section_def)
qed

definition healthy_pod :: "string \<Rightarrow> string \<Rightarrow> pod" where
  "healthy_pod name ready = \<lparr>po_namespace = ''kube-system'', po_name = name, po_phase = ''Running'', po_conditions = [(''Ready'', ready)],
     po_init = [], po_containers = []\<rparr>"

definition worker_node :: "string \<Rightarrow> (string \<times> string) list \<Rightarrow> kube_node" where
  "worker_node ip conds = \<lparr>kn_name = ip, kn_labels = [], kn_conditions = conds, kn_addresses = [(''InternalIP'', ip)], kn_kubelet = ''v1.29.1''\<rparr>"

definition demo_health :: "string \<Rightarrow> unit health_env" where
  "demo_health ready =
     \<lparr>he_getPod = \<lambda>_ _. Inr ''Running'',
      he_listNodes = \<lambda>w. (w, Inr [worker_node ''10.0.0.1'' [(''Ready'', ''True'')], worker_node ''10.0.0.2'' [(''Ready'', ''True'')]]),
      he_listPods = \<lambda>_ w. (w, Inr [healthy_pod ''etcd-a'' ''True'', healthy_pod ''kube-proxy-a'' ready]), he_config = \<lambda>w. (w, Inl ''not found''),
      he_default = ''default'',
      he_yaml = \<lambda>_. Inr \<lparr>cfl_intervals = \<lparr>if_critical = '''', if_important = '''', if_optional = '''', if_normal = ''''\<rparr>,
        cfl_components = [\<lparr>cf_name = ''etcd'', cf_namespace = ''kube-system'', cf_prefixes = [''etcd-''], cf_priority = ''critical''\<rparr>,
          \<lparr>cf_name = ''kube-proxy'', cf_namespace = ''kube-system'', cf_prefixes = [''kube-proxy-''], cf_priority = ''Important''\<rparr>]\<rparr>,
      he_duration = \<lambda>_. Inl ''bad'', he_text = \<lambda>_. '''',
      he_sections = \<lambda>n. rev [0..<n] @ [0..<n], he_reads = \<lambda>n. rev [0..<n], he_arrivals = \<lambda>n. rev [0..<n]\<rparr>"

lemma demo_health_ok:
  "interleaves (he_sections (demo_health ready))" "permutes_all (he_reads (demo_health ready))" "permutes_all (he_arrivals (demo_health ready))"
  "reads_pods (demo_health ready) (\<lambda>_. Inr [healthy_pod ''etcd-a'' ''True'', healthy_pod ''kube-proxy-a'' ready])"
  by (simp_all add: demo_health_def interleaves_def permutes_all_def reads_pods_def)

definition demo_checks :: health_config where
  "demo_checks = \<lparr>hcf_intervals = hcf_intervals fallbackHealthCheckConfig,
     hcf_components = [\<lparr>cc_name = ''etcd'', cc_namespace = ''kube-system'', cc_prefixes = [''etcd-''], cc_priority = PriorityCritical\<rparr>,
       \<lparr>cc_name = ''kube-proxy'', cc_namespace = ''kube-system'', cc_prefixes = [''kube-proxy-''], cc_priority = PriorityImportant\<rparr>]\<rparr>"

lemma demo_health_config: "LoadHealthCheckConfig (demo_health ready) () = ((), demo_checks)"
  by code_simp

lemma demo_health_nodes: "he_listNodes (demo_health ready) () = ((), Inr [worker_node ''10.0.0.1'' [(''Ready'', ''True'')], worker_node ''10.0.0.2'' [(''Ready'', ''True'')]])"
  by (simp add: demo_health_def)

theorem node_checks_interleave_witness:
  "\<exists>errs. checkNodesParallel (demo_health ''True'') ''v1.30.0'' [] (\<lparr>hch_nodes = None, hch_pods = []\<rparr>, ()) =
     ((\<lparr>hch_nodes = Some [worker_node ''10.0.0.1'' [(''Ready'', ''True'')], worker_node ''10.0.0.2'' [(''Ready'', ''True'')]], hch_pods = []\<rparr>, ()), [], errs, NewAggregate errs) \<and>
   length errs = 2"
proof -
  let ?nodes = "[worker_node ''10.0.0.1'' [(''Ready'', ''True'')], worker_node ''10.0.0.2'' [(''Ready'', ''True'')]]"
  have c: "cache_GetNodes (demo_health ''True'') (\<lparr>hch_nodes = None, hch_pods = []\<rparr>, ()) = ((\<lparr>hch_nodes = Some ?nodes, hch_pods = []\<rparr>, ()), Inr ?nodes)"
    by code_simp
  have d: "distinct (map GetNodeIP ?nodes)" by code_simp
  have f: "fold (\<lambda>n ns. fst (checkNode (demo_health ''True'') ''v1.30.0'' ns n)) ?nodes [] = []" by code_simp
  have l: "length (node_errors (demo_health ''True'') ''v1.30.0'' [] ?nodes) = 2" by code_simp
  show ?thesis
    using node_checks_interleave [OF demo_health_ok(1,3) c d, of "''v1.30.0''" "[]"] l unfolding f by (metis size_mset)
qed

theorem cluster_healthy_iff_witness:
  "snd (snd (CheckClusterHealth (demo_health ''True'') zero_config ''v1.29.1'' [] ())) = None"
proof -
  let ?pods = "\<lambda>_::string. Inr [healthy_pod ''etcd-a'' ''True'', healthy_pod ''kube-proxy-a'' ''True''] :: string + pod list"
  have "all_nodes_healthy (demo_health ''True'') (checked_version zero_config ''v1.29.1'') []
      (Inr [worker_node ''10.0.0.1'' [(''Ready'', ''True'')], worker_node ''10.0.0.2'' [(''Ready'', ''True'')]])"
    by (simp add: all_nodes_healthy_def checked_version_def node_healthy_def worker_node_def HasLabel_def has_key_def)
  moreover have "\<forall>c\<in>set (hcf_components demo_checks). component_healthy ?pods c" by code_simp
  moreover have "addons_healthy ?pods zero_config" by (simp add: addons_healthy_def zero_config_def)
  ultimately show ?thesis
    using cluster_healthy_iff [OF demo_health_ok(4,2,3) demo_health_config demo_health_nodes] by blast
qed

theorem requeue_by_severity_witness:
  "GetHealthCheckRequeueInterval (demo_health ''False'') (snd (snd (CheckClusterHealth (demo_health ''False'') zero_config ''v1.29.1'' [] ()))) = 15 * 10^9"
proof -
  let ?pods = "\<lambda>_::string. Inr [healthy_pod ''etcd-a'' ''True'', healthy_pod ''kube-proxy-a'' ''False''] :: string + pod list"
  have "all_nodes_healthy (demo_health ''False'') (checked_version zero_config ''v1.29.1'') []
      (Inr [worker_node ''10.0.0.1'' [(''Ready'', ''True'')], worker_node ''10.0.0.2'' [(''Ready'', ''True'')]])"
    by (simp add: all_nodes_healthy_def checked_version_def node_healthy_def worker_node_def HasLabel_def has_key_def)
  moreover have "\<not> failing ?pods demo_checks PriorityCritical" by code_simp
  moreover have "failing ?pods demo_checks PriorityImportant" by code_simp
  moreover have "iv_important (hcf_intervals demo_checks) = 15 * 10^9" by code_simp
  ultimately show ?thesis
    using requeue_by_severity [OF demo_health_ok(4,2,3) demo_health_config demo_health_nodes, where conf = zero_config and version = "''v1.29.1''" and bns = "[]"] by simp
qed

theorem silent_node_passes_witness: "checkNode (demo_health ''True'') ''v1.29.1'' [] (worker_node ''10.0.0.3'' []) = ([], None)"
proof (rule silent_node_passes)
  show "\<not> HasLabel (kn_labels (worker_node ''10.0.0.3'' [])) NodeRoleMasterLabel" by code_simp
qed (simp_all add: worker_node_def)

end
