(* ===== verification/Agent_Ping.thy ===== *)
theory Agent_Ping
  imports Command_Client Node_Fetcher
begin

text \<open>
  What the management side learns from commands: \<^verbatim>\<open>pkg/phaseframe/phaseutil/command.go\<close> and
  \<^verbatim>\<open>pkg/phaseframe/phaseutil/agent.go\<close>, with \<^verbatim>\<open>GenerateBKEAgentStatus\<close> of
  \<^verbatim>\<open>bkecluster.go\<close>. Errors of commands are collected by node, agents are pinged and counted, and
  host names are read from the output of the ping.

  Maps are lists in the order of iteration; a slice expression out of range is a panic, the value \<open>None\<close>.
  The results: the counts of available agents fit their total, pinging asks exactly the pushed agents
  that are not ready, messages taken from failed commands never reach the stored nodes, and reading the host
  names of two nodes can panic.
\<close>

section \<open>Errors of commands\<close>

definition command_NS :: "command \<Rightarrow> string" where
  "command_NS c = cmd_namespace c @ ''/'' @ cmd_name c"

(* src: pkg/phaseframe/phaseutil/command.go 84-101 processNodeConditionsWithParams *)
definition processNodeConditionsWithParams :: "agent_condition list \<Rightarrow> string \<Rightarrow> command \<Rightarrow> string list \<times> string option" where
  "processNodeConditionsWithParams conditions node cmd =
     (let errs = map (\<lambda>c. ''Node '' @ node @ '', Command '' @ command_NS cmd @ '', sub ID '' @ ac_id c @ '', err: '' @ last (ac_stdErr c))
                   (filter (\<lambda>c. ac_status c = ConditionFalse \<and> ac_stdErr c \<noteq> []) conditions)
      in (errs, if errs = [] then None else Some (last errs)))"

(* src: pkg/phaseframe/phaseutil/command.go 72-81 processNodeConditions *)
definition processNodeConditions :: "agent_condition list \<Rightarrow> string \<Rightarrow> command \<Rightarrow> string list \<times> string option" where
  "processNodeConditions conditions node cmd = processNodeConditionsWithParams conditions node cmd"

fun collect_errors :: "command \<Rightarrow> command_status gomap \<Rightarrow> string list \<Rightarrow> string list gomap \<Rightarrow> string list \<Rightarrow> string list gomap \<times> string list" where
  "collect_errors cmd st [] m errs = (m, errs)"
| "collect_errors cmd st (node # nodes) m errs =
     (case map_of st node of None \<Rightarrow> collect_errors cmd st nodes m errs
      | Some v \<Rightarrow>
          (let (nodeErrs, nodeErr) = processNodeConditions (cst_conditions v) node cmd
           in collect_errors cmd st nodes
                (if nodeErrs \<noteq> [] then AList.update node (get_or [] m node @ nodeErrs) m else m)
                (case nodeErr of None \<Rightarrow> errs | Some e \<Rightarrow> errs @ [e])))"

text \<open>The messages by node and the aggregated error, which is nil without any error.\<close>

(* src: pkg/phaseframe/phaseutil/command.go 41-60 LogCommandFailed *)
definition LogCommandFailed :: "command \<Rightarrow> string list \<Rightarrow> string list gomap \<times> string list option" where
  "LogCommandFailed cmd failed =
     (if failed = [] then ([], None)
      else let (m, errs) = collect_errors cmd (case cmd_status cmd of None \<Rightarrow> [] | Some st \<Rightarrow> st) failed [] []
           in (m, if errs = [] then None else Some errs))"

text \<open>The list that the function changes is its own copy: it is the second component and nobody reads it.\<close>

(* src: pkg/phaseframe/phaseutil/command.go 103-115 MarkNodeStatusByCommandErrs *)
definition MarkNodeStatusByCommandErrs :: "'w node_api \<Rightarrow> bke_cluster \<Rightarrow> (string \<times> string) list \<Rightarrow> 'w \<Rightarrow> 'w \<times> bke_node list" where
  "MarkNodeStatusByCommandErrs api c errs w =
     (if errs = [] then (w, [])
      else case GetBKENodesFromClient api (bc_namespace c) (bc_name c) w of
             (w', Inl _) \<Rightarrow> (w', [])
           | (w', Inr nodes) \<Rightarrow> (w', fold (\<lambda>(ip, msg) ns. SetNodeStateMessage ns ip msg) errs nodes))"

definition command_with_label :: "string \<Rightarrow> string \<Rightarrow> api_error + command list \<Rightarrow> api_error + command" where
  "command_with_label label missing r =
     (case r of Inl e \<Rightarrow> Inl e
      | Inr cmds \<Rightarrow> (case find (\<lambda>c. has_key (cmd_labels c) label) cmds of None \<Rightarrow> Inl (ErrMsg missing) | Some c \<Rightarrow> Inr c))"

text \<open>The commands of a cluster: those of its name space with the label of its name.\<close>

definition list_commands :: "'w command_api \<Rightarrow> bke_cluster \<Rightarrow> 'w \<Rightarrow> 'w \<times> (api_error + command list)" where
  "list_commands api c w =
     (case ca_list api (bc_namespace c) w of (w', Inl e) \<Rightarrow> (w', Inl e)
      | (w', Inr cmds) \<Rightarrow> (w', Inr (filter (\<lambda>k. map_of (cmd_labels k) ClusterNameLabel = Some (bc_name c)) cmds)))"

(* src: pkg/phaseframe/phaseutil/command.go 127-141 GetMasterInitCommand *)
definition GetMasterInitCommand :: "'w command_api \<Rightarrow> bke_cluster \<Rightarrow> 'w \<Rightarrow> 'w \<times> (api_error + command)" where
  "GetMasterInitCommand api c w = map_prod id (command_with_label ''bke.bocloud.com/master-init-command'' ''master init command not found'') (list_commands api c w)"

(* src: pkg/phaseframe/phaseutil/command.go 143-157 GetMasterJoinCommand *)
definition GetMasterJoinCommand :: "'w command_api \<Rightarrow> bke_cluster \<Rightarrow> 'w \<Rightarrow> 'w \<times> (api_error + command)" where
  "GetMasterJoinCommand api c w = map_prod id (command_with_label ''bke.bocloud.com/master-join-command'' ''master join command not found'') (list_commands api c w)"

(* src: pkg/phaseframe/phaseutil/command.go 159-173 GetWorkerJoinCommand *)
definition GetWorkerJoinCommand :: "'w command_api \<Rightarrow> bke_cluster \<Rightarrow> 'w \<Rightarrow> 'w \<times> (api_error + command)" where
  "GetWorkerJoinCommand api c w = map_prod id (command_with_label ''bke.bocloud.com/worker-join-command'' ''worker join command not found'') (list_commands api c w)"

text \<open>In a map of the nodes by address the last one with an address wins.\<close>

(* src: pkg/phaseframe/phaseutil/command.go 188-208 GetNotSkipFailedNodeWithBKENodes *)
definition GetNotSkipFailedNodeWithBKENodes :: "bke_node list \<Rightarrow> string list \<Rightarrow> nat" where
  "GetNotSkipFailedNodeWithBKENodes bns failed =
     (let byIP = rev (filter (\<lambda>n. ns_ip (bn_spec n) \<noteq> []) bns)
      in length (filter (\<lambda>node. case find (\<lambda>n. ns_ip (bn_spec n) = GetNodeIPFromCommandWaitResult node) byIP of
                                  None \<Rightarrow> False | Some n \<Rightarrow> \<not> nst_needSkip (bn_status n)) failed))"

section \<open>Pinging agents\<close>

(* src: pkg/phaseframe/phaseutil/agent.go 42-66 countAvailableAgentNodes *)
definition countAvailableAgentNodes :: "bke_node list \<Rightarrow> nodes \<Rightarrow> string list \<Rightarrow> nat" where
  "countAvailableAgentNodes bns pinged succeeded =
     length (filter (\<lambda>bn. let ip = ns_ip (bn_spec bn)
                          in if ip \<in> ns_ip ` set pinged then ip \<in> GetNodeIPFromCommandWaitResult ` set succeeded
                             else GetNodeStateFlag bns ip NodeAgentReadyFlag) bns)"

(* src: pkg/phaseframe/phaseutil/bkecluster.go 48-63 GenerateBKEAgentStatus *)
definition GenerateBKEAgentStatus :: "string list \<Rightarrow> bke_cluster \<Rightarrow> nodes \<Rightarrow> bke_node list option \<Rightarrow> nodes \<Rightarrow> bke_cluster" where
  "GenerateBKEAgentStatus succeeded c nodes bns pinged =
     (let available = (case bns of None \<Rightarrow> length succeeded | Some ns \<Rightarrow> countAvailableAgentNodes ns pinged succeeded);
          total = length nodes
      in c\<lparr>bc_status := (bc_status c)\<lparr>st_agentStatus := \<lparr>as_replies = word_of_nat total,
           as_unavailableReplies = word_of_int (int total - int available),
           as_status = Itoa (int available) @ ''/'' @ Itoa (int total)\<rparr>\<rparr>\<rparr>)"

text \<open>The nodes to ping: pushed and not yet ready.\<close>

(* src: pkg/phaseframe/phaseutil/agent.go 76-85 PingBKEAgent (choice of the nodes) *)
definition ping_nodes :: "bke_node list \<Rightarrow> nodes" where
  "ping_nodes bns =
     map ToNode (filter (\<lambda>n. \<not> GetNodeStateFlag bns (ns_ip (bn_spec n)) NodeAgentReadyFlag \<and>
                             GetNodeStateFlag bns (ns_ip (bn_spec n)) NodeAgentPushedFlag) bns)"

subsection \<open>Host names\<close>

(* src: pkg/phaseframe/phaseutil/agent.go 337-358 GetCommandStdOut *)
definition GetCommandStdOut :: "command option \<Rightarrow> string list \<Rightarrow> string list gomap gomap" where
  "GetCommandStdOut cmd cmdId =
     (case cmd of None \<Rightarrow> []
      | Some c \<Rightarrow> filter (\<lambda>kv. snd kv \<noteq> [])
          (map (\<lambda>(k, status). (k, fold (\<lambda>cond m. if ContainsString cmdId (ac_id cond) \<or> ac_stdOut cond \<noteq> []
                                             then AList.update (ac_id cond) (ac_stdOut cond) m else m) (cst_conditions status) []))
            (case cmd_status c of None \<Rightarrow> [] | Some st \<Rightarrow> st)))"

(* src: pkg/phaseframe/phaseutil/agent.go 172-178 removeNodesWithHostname *)
definition removeNodesWithHostname :: "bke_node list \<Rightarrow> string list gomap gomap \<Rightarrow> string list gomap gomap" where
  "removeNodesWithHostname bns out =
     fold (\<lambda>n m. if ns_hostname (bn_spec n) \<noteq> [] then AList.delete (ns_hostname (bn_spec n) @ ''/'' @ ns_ip (bn_spec n)) m else m) bns out"

(* src: pkg/phaseframe/phaseutil/agent.go 181-187 getStdOutKeys *)
definition getStdOutKeys :: "string list gomap gomap \<Rightarrow> string list" where
  "getStdOutKeys out = map fst out"

(* src: pkg/phaseframe/phaseutil/agent.go 227-251 shouldUpdateHostname *)
definition shouldUpdateHostname :: "bke_node list \<Rightarrow> nat \<Rightarrow> string \<Rightarrow> (bke_node list) option" where
  "shouldUpdateHostname bns index key =
     (case Split CHR ''/'' key of
        [name, ip] \<Rightarrow>
          if ip = [] \<or> ns_ip (bn_spec (bns ! index)) \<noteq> ip then None
          else if ns_hostname (bn_spec (bns ! index)) \<noteq> [] then None
          else Some (bns[index := (bns ! index)\<lparr>bn_spec := (bn_spec (bns ! index))\<lparr>ns_hostname := name\<rparr>\<rparr>])
      | _ \<Rightarrow> None)"

(* src: pkg/phaseframe/phaseutil/agent.go 216-224 processNodeHostnameUpdate *)
fun processNodeHostnameUpdate :: "string list \<Rightarrow> nat \<Rightarrow> nat \<Rightarrow> bke_node list \<times> nat list \<Rightarrow> bke_node list \<times> nat list" where
  "processNodeHostnameUpdate [] i index s = s"
| "processNodeHostnameUpdate (key # keys) i index (bns, removed) =
     (case shouldUpdateHostname bns index key of
        Some bns' \<Rightarrow> (bns', removed @ [i])
      | None \<Rightarrow> processNodeHostnameUpdate keys (i + 1) index (bns, removed))"

(* src: pkg/phaseframe/phaseutil/agent.go 190-203 updateNodeHostnames *)
definition updateNodeHostnames :: "bke_node list \<Rightarrow> string list \<Rightarrow> bke_node list \<times> nat list" where
  "updateNodeHostnames bns keys = fold (\<lambda>index. processNodeHostnameUpdate keys 0 index) [0..<length bns] (bns, [])"

text \<open>The indices are removed from the last to the first; \<^verbatim>\<open>keys[idx+1:]\<close> panics beyond the length.\<close>

fun remove_keys :: "string list \<Rightarrow> nat list \<Rightarrow> string list option" where
  "remove_keys keys [] = Some keys"
| "remove_keys keys (i # is) = (if length keys < i + 1 then None else remove_keys (take i keys @ drop (i + 1) keys) is)"

(* src: pkg/phaseframe/phaseutil/agent.go 274-280 cleanupKeys *)
definition cleanupKeys :: "string list \<Rightarrow> nat list \<Rightarrow> string list option" where
  "cleanupKeys keys indices = remove_keys keys (rev indices)"

(* src: pkg/phaseframe/phaseutil/agent.go 153-169 processCommandOutput *)
definition processCommandOutput :: "bke_node list \<Rightarrow> command option \<Rightarrow> bke_node list option" where
  "processCommandOutput bns cmd =
     (let keys = getStdOutKeys (removeNodesWithHostname bns (GetCommandStdOut cmd [''ping'']));
          (bns', indices) = updateNodeHostnames bns keys
      in map_option (\<lambda>_. bns') (cleanupKeys keys indices))"

text \<open>\<open>polls\<close> is the number of polls before the timeout, five seconds per node and at least five minutes. The error of a
  timed out wait does not count; it is not among the errors of \<open>waitCommandComplete\<close>. \<open>None\<close> is a panic.\<close>

(* src: pkg/phaseframe/phaseutil/agent.go 107-150 pingBKEAgentOnNodes *)
definition pingBKEAgentOnNodes :: "'w command_api \<Rightarrow> bool \<Rightarrow> (nat \<Rightarrow> nat) \<Rightarrow> int \<Rightarrow> bke_cluster \<Rightarrow> bke_node list \<Rightarrow> nodes \<Rightarrow> 'w \<Rightarrow>
    ('w \<times> bke_cluster \<times> api_error option \<times> string list \<times> string list) option" where
  "pingBKEAgentOnNodes api hasScheme polls now c bns pinged w =
     (let b = \<lparr>bcm_hasClient = True, bcm_hasScheme = hasScheme, bcm_nameSpace = bc_namespace c, bcm_clusterName = bc_name c,
               bcm_removeAfterWait = True, bcm_unique = False, bcm_forceRemove = False, bcm_commandName = [], bcm_command = None\<rparr>
      in case Ping_New api b pinged now w of
           (b1, w1, Some e) \<Rightarrow> Some (w1, c, Some e, [], [])
         | (b1, w1, None) \<Rightarrow>
             (case waitCommandComplete api (polls (max 300 (length pinged * 5))) b1 w1 of
                None \<Rightarrow> None
              | Some (b2, w2, res, err) \<Rightarrow>
                  (let (succ, fail) = Ping_Wait pinged res;
                       c' = GenerateBKEAgentStatus succ c (ConvertBKENodeListToNodes (Some bns)) (Some bns) pinged
                   in map_option (\<lambda>_. (w2, c', err, succ, fail)) (processCommandOutput bns (bcm_command b2)))))"

(* src: pkg/phaseframe/phaseutil/agent.go 70-90 PingBKEAgent *)
definition PingBKEAgent :: "'w node_api \<Rightarrow> 'w command_api \<Rightarrow> bool \<Rightarrow> (nat \<Rightarrow> nat) \<Rightarrow> int \<Rightarrow> bke_cluster \<Rightarrow> 'w \<Rightarrow>
    ('w \<times> bke_cluster \<times> api_error option \<times> string list \<times> string list) option" where
  "PingBKEAgent napi api hasScheme polls now c w =
     (case GetBKENodesFromClient napi (bc_namespace c) (bc_name c) w of
        (w1, Inl e) \<Rightarrow> Some (w1, c, Some e, [], [])
      | (w1, Inr bns) \<Rightarrow>
          if ping_nodes bns = [] then Some (w1, c, None, [], [])
          else pingBKEAgentOnNodes api hasScheme polls now c bns (ping_nodes bns) w1)"

(* src: pkg/phaseframe/phaseutil/agent.go 93-105 PingBKEAgentOnNodes *)
definition PingBKEAgentOnNodes :: "'w node_api \<Rightarrow> 'w command_api \<Rightarrow> bool \<Rightarrow> (nat \<Rightarrow> nat) \<Rightarrow> int \<Rightarrow> bke_cluster \<Rightarrow> nodes \<Rightarrow> 'w \<Rightarrow>
    ('w \<times> bke_cluster \<times> api_error option \<times> string list \<times> string list) option" where
  "PingBKEAgentOnNodes napi api hasScheme polls now c nodes w =
     (case GetBKENodesFromClient napi (bc_namespace c) (bc_name c) w of
        (w1, Inl e) \<Rightarrow> Some (w1, c, Some e, [], [])
      | (w1, Inr bns) \<Rightarrow> pingBKEAgentOnNodes api hasScheme polls now c bns nodes w1)"

section \<open>Results\<close>

lemma length_ToNodes: "length (ConvertBKENodeListToNodes (Some bns)) = length bns"
  by (simp add: ConvertBKENodeListToNodes_def)

lemma available_le: "countAvailableAgentNodes bns pinged succeeded \<le> length bns"
  by (simp add: countAvailableAgentNodes_def)

definition agent_answers :: "bke_node list \<Rightarrow> nodes \<Rightarrow> string list \<Rightarrow> bke_node \<Rightarrow> bool" where
  "agent_answers bns pinged succeeded n \<longleftrightarrow>
     (if ns_ip (bn_spec n) \<in> ns_ip ` set pinged then ns_ip (bn_spec n) \<in> GetNodeIPFromCommandWaitResult ` set succeeded
      else GetNodeStateFlag bns (ns_ip (bn_spec n)) NodeAgentReadyFlag)"

lemma sint_of_small: "n < 2 ^ 31 \<Longrightarrow> sint (word_of_int (int n) :: 32 word) = int n"
  by (simp add: signed_of_nat signed_take_bit_int_eq_self_iff)

text \<open>The status of the agents after a ping counts every node of the cluster: the number of missing answers lies between
  zero and the number of nodes, and the agents are ready just when each pinged node answered and each other one
  was known to be ready.\<close>

theorem agent_counts_fit:
  assumes "length bns < 2 ^ 31"
    and "a = st_agentStatus (bc_status (GenerateBKEAgentStatus succeeded c (ConvertBKENodeListToNodes (Some bns)) (Some bns) pinged))"
  shows "sint (as_replies a) = int (length bns) \<and> 0 \<le> sint (as_unavailableReplies a) \<and> sint (as_unavailableReplies a) \<le> sint (as_replies a) \<and>
    (AgentStatus_Ready a \<longleftrightarrow> (\<forall>n\<in>set bns. agent_answers bns pinged succeeded n))"
proof -
  let ?k = "countAvailableAgentNodes bns pinged succeeded"
  have k: "?k \<le> length bns" by (rule available_le)
  have a: "as_replies a = word_of_int (int (length bns))" "as_unavailableReplies a = word_of_int (int (length bns - ?k))"
    using k by (simp_all add: assms(2) GenerateBKEAgentStatus_def length_ToNodes Let_def of_nat_diff)
  have s: "sint (as_replies a) = int (length bns)" "sint (as_unavailableReplies a) = int (length bns - ?k)"
    unfolding a using assms(1) by (simp_all only: sint_of_small less_imp_diff_less)
  have "AgentStatus_Ready a \<longleftrightarrow> length bns - ?k = 0"
    using s(2) by (metis AgentStatus_Ready_def of_nat_eq_0_iff signed_0 signed_eq_0_iff)
  also have "\<dots> \<longleftrightarrow> ?k = length bns" using k by auto
  also have "\<dots> \<longleftrightarrow> (\<forall>n\<in>set bns. agent_answers bns pinged succeeded n)"
    by (simp add: countAvailableAgentNodes_def agent_answers_def Let_def) (metis (mono_tags, lifting) filter_True length_filter_less not_less_iff_gr_or_eq)
  finally show ?thesis using s by simp
qed

text \<open>The messages of failed commands go into a copy of the list of nodes that is dropped: nothing is stored.\<close>

theorem command_errors_not_stored:
  assumes "\<And>ns sel w. stored (fst (na_list api ns sel w)) = stored w"
  shows "stored (fst (MarkNodeStatusByCommandErrs api c errs w)) = stored w"
proof (cases "na_list api (bc_namespace c) [(ClusterNameLabel, bc_name c)] w")
  case (Pair w' r)
  then have "stored w' = stored w" using assms by (metis fst_conv)
  with Pair show ?thesis
    by (auto simp: MarkNodeStatusByCommandErrs_def GetBKENodesFromClient_def GetBKENodes_def FetchNodesForCluster_def map_read_def split: sum.splits)
qed

definition ping_reply :: "string list \<Rightarrow> command" where
  "ping_reply keys = (demo_reported \<lparr>cst_conditions = [], cst_lastStartTime = None, cst_completionTime = None, cst_succeeded = 0, cst_failed = 0,
     cst_phase = CommandComplete, cst_status = ConditionTrue\<rparr>)\<lparr>cmd_status := Some (map (\<lambda>k. (k,
       \<lparr>cst_conditions = [\<lparr>ac_id = ''ping'', ac_status = ConditionTrue, ac_phase = CommandComplete, ac_lastStartTime = None,
          ac_stdOut = [''pong''], ac_stdErr = [], ac_count = 0\<rparr>], cst_lastStartTime = None, cst_completionTime = None, cst_succeeded = 1, cst_failed = 0,
        cst_phase = CommandComplete, cst_status = ConditionTrue\<rparr>)) keys)\<rparr>"

text \<open>Two nodes without host names answer a ping: whether the names are read or the controller panics depends on the
  order in which Go walks through the map of the answers.\<close>

theorem host_names_panic:
  "processCommandOutput [sample_node ''10.0.0.1'', sample_node ''10.0.0.2''] (Some (ping_reply [''b/10.0.0.2'', ''a/10.0.0.1''])) = None \<and>
   map_option (map (\<lambda>n. ns_hostname (bn_spec n)))
     (processCommandOutput [sample_node ''10.0.0.1'', sample_node ''10.0.0.2''] (Some (ping_reply [''a/10.0.0.1'', ''b/10.0.0.2'']))) = Some [''a'', ''b'']"
  by code_simp

theorem agent_counts_fit_witness:
  "sint (as_unavailableReplies (st_agentStatus (bc_status (GenerateBKEAgentStatus [''a/10.0.0.1''] (blank_cluster ''ns'' ''c'')
     (ConvertBKENodeListToNodes (Some [sample_node ''10.0.0.1'', sample_node ''10.0.0.2''])) (Some [sample_node ''10.0.0.1'', sample_node ''10.0.0.2''])
     [ToNode (sample_node ''10.0.0.1'')])))) \<le> 2"
proof -
  have "length [sample_node ''10.0.0.1'', sample_node ''10.0.0.2''] < 2 ^ 31" by simp
  from agent_counts_fit [OF this refl, of "[''a/10.0.0.1'']" "blank_cluster ''ns'' ''c''" "[ToNode (sample_node ''10.0.0.1'')]"]
  show ?thesis by simp
qed

theorem command_errors_not_stored_witness:
  "fst (MarkNodeStatusByCommandErrs (\<lparr>na_list = \<lambda>_ _ w. (w, Inr w), na_updateStatus = \<lambda>_ w. (w, None), na_delete = \<lambda>_ w. (w, None), na_retry = demo_retry\<rparr>)
     (blank_cluster ''ns'' ''c'') [(''10.0.0.1'', ''broken'')] [sample_node ''10.0.0.1'']) = [sample_node ''10.0.0.1'']"
  by (rule command_errors_not_stored [where stored = "\<lambda>w. w"]) simp

end
