(* ===== verification/Machine_Objects.thy ===== *)
theory Machine_Objects
  imports Node_Fetcher Cluster_Kinds Password
begin

text \<open>
  The machines of a cluster: \<^verbatim>\<open>pkg/phaseframe/phaseutil/clusterapi.go\<close>, \<^verbatim>\<open>bkemachine.go\<close> and the lists of
  \<^verbatim>\<open>bkecluster.go\<close>. The objects of cluster-api are records of the fields the code reads and writes; a control plane
  or a deployment of machines is a \<open>capi_object\<close> with replicas. The client is the record \<open>'w capi\<close>. A function
  that fetches into the object it was given runs on the pair of that object and the state, because the object keeps what
  was fetched.

  The results: a machine is found by an identifier that differs for different addresses; pausing, resuming and scaling an
  object lose no concurrent change; and when the deployment of a cluster counts as finished.
\<close>

section \<open>Objects\<close>

(* src: api/capbke/v1beta1/bkemachine_types.go 41-101 BKEMachineSpec, BKEMachineStatus, MachineAddress, BKEMachine *)
record bke_machine =
  bm_namespace :: string
  bm_name :: string
  bm_uid :: string
  bm_labels :: "string gomap"
  bm_annotations :: "string gomap"
  bm_finalizers :: "string list"
  bm_deletionTimestamp :: "gotime option"
  bm_creation :: gotime
  bm_providerID :: "string option"
  bm_pause :: bool
  bm_dryRun :: bool
  bm_ready :: bool
  bm_bootstrapped :: bool
  bm_addresses :: "(string \<times> string) list"
  bm_conditions :: "(string \<times> string \<times> string) list"
  bm_node :: "node_spec option"

text \<open>\<open>ma_nodeRef\<close> tells whether a machine has a node of the cluster.\<close>

record capi_machine =
  ma_namespace :: string
  ma_name :: string
  ma_resourceVersion :: string
  ma_labels :: "string gomap"
  ma_annotations :: "string gomap"
  ma_providerID :: "string option"
  ma_infrastructureRef :: "string \<times> string"
  ma_configRef :: "(string \<times> string) option"
  ma_bootstrapReady :: bool
  ma_phase :: string
  ma_nodeRef :: bool

text \<open>The parts of a configuration of kubeadm that are copied are not looked into.\<close>

record kubeadm_config =
  kc_namespace :: string
  kc_name :: string
  kc_annotations :: "string gomap"
  kc_cluster :: "string option"
  kc_init :: "string option"
  kc_join :: "string option"

type_synonym capi_key = "string \<times> string \<times> string"

record capi_object =
  co_key :: capi_key
  co_resourceVersion :: string
  co_annotations :: "string gomap"
  co_replicas :: "32 word option"
  co_owners :: "(string \<times> string \<times> string) list"

text \<open>\<open>cp_initialized\<close> is the status of the condition that the control plane is initialized, if there is one.\<close>

record capi_cluster =
  cp_namespace :: string
  cp_name :: string
  cp_kind :: string
  cp_uid :: string
  cp_controlPlane :: "(string \<times> string) option"
  cp_initialized :: "string option"
  cp_infrastructureReady :: bool
  cp_infrastructureRef :: string

record 'w capi =
  ca_machines :: "string \<Rightarrow> string gomap \<Rightarrow> 'w \<Rightarrow> 'w \<times> (api_error + capi_machine list)"
  ca_bkeMachines :: "string \<Rightarrow> string gomap \<Rightarrow> 'w \<Rightarrow> 'w \<times> (api_error + bke_machine list)"
  ca_deployments :: "string \<Rightarrow> string gomap \<Rightarrow> 'w \<Rightarrow> 'w \<times> (api_error + capi_object list)"
  ca_getObject :: "capi_key \<Rightarrow> 'w \<Rightarrow> 'w \<times> (api_error + capi_object)"
  ca_updateObject :: "capi_object \<Rightarrow> 'w attempt"
  ca_getMachine :: "string \<Rightarrow> string \<Rightarrow> 'w \<Rightarrow> 'w \<times> (api_error + capi_machine)"
  ca_updateMachine :: "capi_machine \<Rightarrow> 'w attempt"
  ca_getBke :: "string \<Rightarrow> string \<Rightarrow> 'w \<Rightarrow> 'w \<times> (api_error + bke_machine)"
  ca_getConfig :: "string \<Rightarrow> string \<Rightarrow> 'w \<Rightarrow> 'w \<times> (api_error + kubeadm_config)"
  ca_retryObject :: "(capi_object \<times> 'w) retry_lib"
  ca_retry :: "'w retry_lib"

definition MachineControlPlaneLabel :: string where
  "MachineControlPlaneLabel = ''cluster.x-k8s.io/control-plane''"

definition PausedAnnotation :: string where
  "PausedAnnotation = ''cluster.x-k8s.io/paused''"

definition DeleteMachineAnnotation :: string where
  "DeleteMachineAnnotation = ''cluster.x-k8s.io/delete-machine''"

section \<open>Lists\<close>

(* src: pkg/phaseframe/phaseutil/bkecluster.go 147-154 GetListFiltersByBKECluster *)
definition GetListFiltersByBKECluster :: "bke_cluster \<Rightarrow> string \<times> string gomap" where
  "GetListFiltersByBKECluster c = (bc_namespace c, [(ClusterNameLabel, bc_name c)])"

(* src: pkg/phaseframe/phaseutil/bkecluster.go 66-75 GetBKEClusterAssociateMachines *)
definition GetBKEClusterAssociateMachines :: "'w capi \<Rightarrow> bke_cluster \<Rightarrow> ('w, capi_machine list) node_read" where
  "GetBKEClusterAssociateMachines api c = (case GetListFiltersByBKECluster c of (ns, labels) \<Rightarrow> ca_machines api ns labels)"

definition IsControlPlaneMachine :: "capi_machine \<Rightarrow> bool" where
  "IsControlPlaneMachine m = has_key (ma_labels m) MachineControlPlaneLabel"

(* src: pkg/phaseframe/phaseutil/bkecluster.go 78-90 GetBKEClusterAssociateMasterMachines *)
definition GetBKEClusterAssociateMasterMachines :: "'w capi \<Rightarrow> bke_cluster \<Rightarrow> ('w, capi_machine list) node_read" where
  "GetBKEClusterAssociateMasterMachines api c = map_read (filter IsControlPlaneMachine) (GetBKEClusterAssociateMachines api c)"

(* src: pkg/phaseframe/phaseutil/bkecluster.go 93-105 GetBKEClusterAssociateWorkerMachines *)
definition GetBKEClusterAssociateWorkerMachines :: "'w capi \<Rightarrow> bke_cluster \<Rightarrow> ('w, capi_machine list) node_read" where
  "GetBKEClusterAssociateWorkerMachines api c = map_read (filter (\<lambda>m. \<not> IsControlPlaneMachine m)) (GetBKEClusterAssociateMachines api c)"

(* src: pkg/phaseframe/phaseutil/bkecluster.go 108-115 GetBKEClusterAssociateBKEMachines *)
definition GetBKEClusterAssociateBKEMachines :: "'w capi \<Rightarrow> bke_cluster \<Rightarrow> ('w, bke_machine list) node_read" where
  "GetBKEClusterAssociateBKEMachines api c = (case GetListFiltersByBKECluster c of (ns, labels) \<Rightarrow> ca_bkeMachines api ns labels)"

text \<open>\<^verbatim>\<open>conditions.Get\<close> gives the first condition of a type.\<close>

definition get_condition :: "(string \<times> string \<times> string) list \<Rightarrow> string \<Rightarrow> (string \<times> string) option" where
  "get_condition cs t = map_of cs t"

(* src: pkg/phaseframe/phaseutil/bkemachine.go 32-49 CalculateBKEMachineBootNum *)
definition CalculateBKEMachineBootNum :: "bke_machine list \<Rightarrow> nat \<times> nat" where
  "CalculateBKEMachineBootNum ms =
     (let cond = (\<lambda>m. get_condition (bm_conditions m) ''BootstrapSucceeded'')
      in (length (filter (\<lambda>m. cond m = Some (''False'', ''NodeBootStrapFailed'')) ms),
          length (filter (\<lambda>m. (case cond m of None \<Rightarrow> False | Some (s, _) \<Rightarrow> s = ''True'') \<and> bm_bootstrapped m) ms)))"

(* src: pkg/phaseframe/phaseutil/bkemachine.go 52-57 GenerateProviderID *)
definition GenerateProviderID :: "bke_cluster \<Rightarrow> node_spec \<Rightarrow> string" where
  "GenerateProviderID c node = ''bke://'' @ bc_name c @ ''/'' @ EncodeToString (ns_ip node)"

(* src: pkg/phaseframe/phaseutil/bkemachine.go 59-62 IsControlPlaneBKEMachine *)
definition IsControlPlaneBKEMachine :: "bke_machine \<Rightarrow> bool" where
  "IsControlPlaneBKEMachine m = has_key (bm_labels m) MachineControlPlaneLabel"

(* src: pkg/phaseframe/phaseutil/bkemachine.go 64-83 GetControlPlaneBKEMachines *)
definition GetControlPlaneBKEMachines :: "'w capi \<Rightarrow> bke_cluster \<Rightarrow> ('w, bke_machine list) node_read" where
  "GetControlPlaneBKEMachines api c w =
     (case GetBKEClusterAssociateBKEMachines api c w of
        (w', Inl e) \<Rightarrow> (w', Inl e)
      | (w', Inr ms) \<Rightarrow> (w', let cps = filter IsControlPlaneBKEMachine ms
                           in if cps = [] then Inl (ErrMsg ''not found any control plane BKEMachine'') else Inr cps))"

text \<open>The zero time is 0.\<close>

fun oldest_machine :: "gotime \<Rightarrow> bke_machine option \<Rightarrow> bke_machine list \<Rightarrow> bke_machine option" where
  "oldest_machine t found [] = found"
| "oldest_machine t found (m # ms) =
     (if t = 0 \<or> bm_creation m < t then oldest_machine (bm_creation m) (Some m) ms else oldest_machine t found ms)"

(* src: pkg/phaseframe/phaseutil/bkemachine.go 85-105 GetControlPlaneInitBKEMachine *)
definition GetControlPlaneInitBKEMachine :: "'w capi \<Rightarrow> bke_cluster \<Rightarrow> ('w, bke_machine) node_read" where
  "GetControlPlaneInitBKEMachine api c w =
     (case GetControlPlaneBKEMachines api c w of
        (w', Inl e) \<Rightarrow> (w', Inl e)
      | (w', Inr ms) \<Rightarrow> (w', case oldest_machine 0 None ms of None \<Rightarrow> Inl (ErrMsg ''not found init BKEMachine'') | Some m \<Rightarrow> Inr m))"

section \<open>Objects of cluster-api\<close>

text \<open>A control plane reference that is nil is a panic.\<close>

(* src: pkg/phaseframe/phaseutil/clusterapi.go 60-74 GetClusterAPIKubeadmControlPlane *)
definition GetClusterAPIKubeadmControlPlane :: "'w capi \<Rightarrow> capi_cluster option \<Rightarrow> 'w \<Rightarrow> 'w \<times> (api_error + capi_object) option" where
  "GetClusterAPIKubeadmControlPlane api clo w =
     (case clo of None \<Rightarrow> (w, Some (Inl (ErrMsg ''cluster is nil'')))
      | Some cl \<Rightarrow> (case cp_controlPlane cl of None \<Rightarrow> (w, None)
          | Some (ns, name) \<Rightarrow> map_prod id Some (ca_getObject api (''KubeadmControlPlane'', ns, name) w)))"

definition blank_object :: capi_object where
  "blank_object = \<lparr>co_key = ('''', '''', ''''), co_resourceVersion = '''', co_annotations = [], co_replicas = None, co_owners = []\<rparr>"

text \<open>The variable starts as an empty object, and \<^verbatim>\<open>break\<close> leaves the loop over the owners only: the last owned deployment
  wins, and without any the empty object is returned.\<close>

(* src: pkg/phaseframe/phaseutil/clusterapi.go 77-105 GetClusterAPIMachineDeployment *)
definition GetClusterAPIMachineDeployment :: "'w capi \<Rightarrow> capi_cluster option \<Rightarrow> 'w \<Rightarrow> 'w \<times> (api_error + capi_object option)" where
  "GetClusterAPIMachineDeployment api clo w =
     (case clo of None \<Rightarrow> (w, Inl (ErrMsg ''client is nil''))
      | Some cl \<Rightarrow>
          (case ca_deployments api (cp_namespace cl) [(ClusterNameLabel, cp_name cl)] w of
             (w', Inl e) \<Rightarrow> (w', Inl e)
           | (w', Inr []) \<Rightarrow> (w', Inr None)
           | (w', Inr items) \<Rightarrow>
               (w', Inr (Some (fold (\<lambda>md found. if (cp_kind cl, cp_name cl, cp_uid cl) \<in> set (co_owners md) then md else found) items blank_object)))))"

(* src: pkg/phaseframe/phaseutil/clusterapi.go 33-38 ClusterAPIObjs *)
record capi_objs =
  cao_controlPlane :: capi_object
  cao_deployment :: capi_object

(* src: pkg/phaseframe/phaseutil/clusterapi.go 108-127 GetClusterAPIAssociateObjs *)
definition GetClusterAPIAssociateObjs :: "'w capi \<Rightarrow> capi_cluster option \<Rightarrow> 'w \<Rightarrow> 'w \<times> (api_error + capi_objs) option" where
  "GetClusterAPIAssociateObjs api clo w =
     (case clo of None \<Rightarrow> (w, Some (Inl (ErrMsg ''cluster is nil'')))
      | Some cl \<Rightarrow>
          (case GetClusterAPIKubeadmControlPlane api clo w of
             (w1, None) \<Rightarrow> (w1, None)
           | (w1, Some (Inl e)) \<Rightarrow> (w1, Some (Inl e))
           | (w1, Some (Inr kcp)) \<Rightarrow>
               (case GetClusterAPIMachineDeployment api clo w1 of
                  (w2, Inl e) \<Rightarrow> (w2, Some (Inl e))
                | (w2, Inr None) \<Rightarrow> (w2, Some (Inl (ErrMsg ''get machine deployment failed.'')))
                | (w2, Inr (Some md)) \<Rightarrow> (w2, Some (Inr \<lparr>cao_controlPlane = kcp, cao_deployment = md\<rparr>)))))"

subsection \<open>Writing objects\<close>

definition change_object :: "'w capi \<Rightarrow> (capi_object \<Rightarrow> capi_object) \<Rightarrow> (capi_object \<times> 'w) attempt" where
  "change_object api f = (\<lambda>(obj, w).
     case ca_getObject api (co_key obj) w of
       (w1, Inl e) \<Rightarrow> ((obj, w1), Some e)
     | (w1, Inr latest) \<Rightarrow> (case ca_updateObject api (f latest) w1 of (w2, r) \<Rightarrow> ((f latest, w2), r)))"

definition set_annotations :: "string list \<Rightarrow> capi_object \<Rightarrow> capi_object" where
  "set_annotations keys obj = obj\<lparr>co_annotations := fold (\<lambda>k. AList.update k []) keys (co_annotations obj)\<rparr>"

definition drop_annotations :: "string list \<Rightarrow> capi_object \<Rightarrow> capi_object" where
  "drop_annotations keys obj = obj\<lparr>co_annotations := fold AList.delete keys (co_annotations obj)\<rparr>"

(* src: pkg/phaseframe/phaseutil/clusterapi.go 130-150 PauseClusterAPIObj *)
definition PauseClusterAPIObj :: "'w capi \<Rightarrow> string list \<Rightarrow> (capi_object \<times> 'w) attempt" where
  "PauseClusterAPIObj api extra = RetryOnConflict (ca_retryObject api) (change_object api (set_annotations (PausedAnnotation # extra)))"

(* src: pkg/phaseframe/phaseutil/clusterapi.go 153-173 ResumeClusterAPIObj *)
definition ResumeClusterAPIObj :: "'w capi \<Rightarrow> string list \<Rightarrow> (capi_object \<times> 'w) attempt" where
  "ResumeClusterAPIObj api extra = RetryOnConflict (ca_retryObject api) (change_object api (drop_annotations (PausedAnnotation # extra)))"

definition set_replicas :: "32 word \<Rightarrow> capi_object \<Rightarrow> capi_object" where
  "set_replicas n obj = obj\<lparr>co_replicas := Some n\<rparr>"

(* src: pkg/phaseframe/phaseutil/clusterapi.go 176-188 UpdateMachineDeploymentReplicas *)
definition UpdateMachineDeploymentReplicas :: "'w capi \<Rightarrow> 32 word \<Rightarrow> (capi_object \<times> 'w) attempt" where
  "UpdateMachineDeploymentReplicas api n = RetryOnConflict (ca_retryObject api) (change_object api (set_replicas n))"

(* src: pkg/phaseframe/phaseutil/clusterapi.go 191-203 UpdateKubeadmControlPlaneReplicas *)
definition UpdateKubeadmControlPlaneReplicas :: "'w capi \<Rightarrow> 32 word \<Rightarrow> (capi_object \<times> 'w) attempt" where
  "UpdateKubeadmControlPlaneReplicas api n = RetryOnConflict (ca_retryObject api) (change_object api (set_replicas n))"

(* src: pkg/phaseframe/phaseutil/clusterapi.go 207-225 ResumeAndUpdateMachineDeploymentReplicas *)
definition ResumeAndUpdateMachineDeploymentReplicas :: "'w capi \<Rightarrow> 32 word \<Rightarrow> (capi_object \<times> 'w) attempt" where
  "ResumeAndUpdateMachineDeploymentReplicas api n =
     RetryOnConflict (ca_retryObject api) (change_object api (set_replicas n \<circ> drop_annotations [PausedAnnotation]))"

(* src: pkg/phaseframe/phaseutil/clusterapi.go 229-247 ResumeAndUpdateKubeadmControlPlaneReplicas *)
definition ResumeAndUpdateKubeadmControlPlaneReplicas :: "'w capi \<Rightarrow> 32 word \<Rightarrow> (capi_object \<times> 'w) attempt" where
  "ResumeAndUpdateKubeadmControlPlaneReplicas api n =
     RetryOnConflict (ca_retryObject api) (change_object api (set_replicas n \<circ> drop_annotations [PausedAnnotation]))"

section \<open>Machines and nodes\<close>

(* src: pkg/phaseframe/phaseutil/clusterapi.go 40-43 MachineAndNode *)
record machine_and_node =
  mn_machine :: capi_machine
  mn_node :: node_spec

(* src: pkg/phaseframe/phaseutil/clusterapi.go 250-262 GetMachineAssociateBKEMachine *)
definition GetMachineAssociateBKEMachine :: "'w capi \<Rightarrow> capi_machine \<Rightarrow> ('w, bke_machine) node_read" where
  "GetMachineAssociateBKEMachine api m = ca_getBke api (fst (ma_infrastructureRef m)) (snd (ma_infrastructureRef m))"

definition machine_provider :: "bke_cluster \<Rightarrow> capi_machine \<Rightarrow> string option" where
  "machine_provider c m =
     (if IsBocloudCluster c
      then (case map_of (ma_annotations m) ''bke.bocloud.com/providerID'' of Some v \<Rightarrow> if v \<noteq> [] then Some v else ma_providerID m | None \<Rightarrow> ma_providerID m)
      else ma_providerID m)"

(* src: pkg/phaseframe/phaseutil/clusterapi.go 265-292 NodeToMachine *)
definition NodeToMachine :: "'w capi \<Rightarrow> bke_cluster \<Rightarrow> node_spec \<Rightarrow> ('w, capi_machine) node_read" where
  "NodeToMachine api c node w =
     (case GetBKEClusterAssociateMachines api c w of
        (w', Inl e) \<Rightarrow> (w', Inl e)
      | (w', Inr ms) \<Rightarrow>
          (w', case find (\<lambda>m. machine_provider c m = Some (GenerateProviderID c node)) ms of
                 None \<Rightarrow> Inl (ErrMsg (''machine not found, providerID: '' @ GenerateProviderID c node))
               | Some m \<Rightarrow> Inr m))"

(* src: pkg/phaseframe/phaseutil/clusterapi.go 295-309 MarkMachineForDeletion *)
definition MarkMachineForDeletion :: "'w capi \<Rightarrow> capi_machine \<Rightarrow> 'w attempt" where
  "MarkMachineForDeletion api machine = RetryOnConflict (ca_retry api) (\<lambda>w.
     case ca_getMachine api (ma_namespace machine) (ma_name machine) w of
       (w1, Inl e) \<Rightarrow> (w1, Some e)
     | (w1, Inr latest) \<Rightarrow> ca_updateMachine api (latest\<lparr>ma_annotations := AList.update DeleteMachineAnnotation [] (ma_annotations latest)\<rparr>) w1)"

(* src: pkg/phaseframe/phaseutil/clusterapi.go 312-325 GetMachineAssociateKubeadmConfig *)
definition GetMachineAssociateKubeadmConfig :: "'w capi \<Rightarrow> capi_machine \<Rightarrow> ('w, kubeadm_config option) node_read" where
  "GetMachineAssociateKubeadmConfig api m w =
     (case ma_configRef m of
        None \<Rightarrow> (w, Inl (ErrMsg (''failed to retrieve bootstrap config for machine '' @ ma_name m @ '': missing configRef'')))
      | Some (ns, name) \<Rightarrow>
          (case ca_getConfig api ns name w of
             (w', Inl e) \<Rightarrow> (w', if IsNotFound e then Inr None else Inl e)
           | (w', Inr c) \<Rightarrow> (w', Inr (Some c))))"

section \<open>The end of a deployment\<close>

(* src: pkg/phaseframe/phaseutil/clusterapi.go 358-377 ClusterEndDeployedWithBKENodes *)
definition ClusterEndDeployedWithBKENodes :: "bke_machine list \<Rightarrow> bke_node list \<Rightarrow> bool" where
  "ClusterEndDeployedWithBKENodes ms bns =
     (let skip = length (filter (\<lambda>n. nst_needSkip (bn_status n)) bns);
          (failed, succ) = CalculateBKEMachineBootNum ms
      in length bns - skip \<le> succ + failed)"

(* src: pkg/phaseframe/phaseutil/clusterapi.go 344-354 ClusterEndDeployedWithContext *)
definition ClusterEndDeployedWithContext :: "'w capi \<Rightarrow> capi_cluster option \<Rightarrow> bke_cluster \<Rightarrow> bke_node list \<Rightarrow> 'w \<Rightarrow> 'w \<times> bool" where
  "ClusterEndDeployedWithContext api clo c bns w =
     (case clo of None \<Rightarrow> (w, False)
      | Some _ \<Rightarrow> (case GetBKEClusterAssociateBKEMachines api c w of
                    (w', Inl e) \<Rightarrow> (w', False) | (w', Inr ms) \<Rightarrow> (w', ClusterEndDeployedWithBKENodes ms bns)))"

(* src: pkg/phaseframe/phaseutil/clusterapi.go 389-405 IsNodeBootFlagSetWithBKENodes *)
definition IsNodeBootFlagSetWithBKENodes :: "bke_node list \<Rightarrow> bool" where
  "IsNodeBootFlagSetWithBKENodes bns =
     (let ns = ConvertBKENodeListToNodes (Some bns)
      in \<exists>n\<in>set (nodes_Worker ns @ nodes_MasterWorker ns). GetNodeStateFlag bns (ns_ip n) NodeBootFlag)"

(* src: pkg/phaseframe/phaseutil/clusterapi.go 418-425 ClusterAllowTrackerWithBKENodes *)
definition ClusterAllowTrackerWithBKENodes :: "bke_node list \<Rightarrow> capi_cluster \<Rightarrow> bool" where
  "ClusterAllowTrackerWithBKENodes bns cl = (cp_initialized cl = Some ''True'' \<and> IsNodeBootFlagSetWithBKENodes bns)"

section \<open>A machine belongs to one node\<close>

lemma EncodeToString_inj: "EncodeToString s = EncodeToString t \<longleftrightarrow> s = t"
  using DecodeString_EncodeToString by (metis option.inject)

lemma GenerateProviderID_inj: "GenerateProviderID c n1 = GenerateProviderID c n2 \<longleftrightarrow> ns_ip n1 = ns_ip n2"
  by (simp add: GenerateProviderID_def EncodeToString_inj)

lemma NodeToMachine_provider:
  "NodeToMachine api c n w = (w', Inr m) \<Longrightarrow> machine_provider c m = Some (GenerateProviderID c n)"
  by (auto simp: NodeToMachine_def find_Some_iff split: prod.splits sum.splits option.splits)

text \<open>The machine found for a node is never the machine of another address: whatever the lists of machines at the two
  times were, one machine that is found for two nodes shows that the nodes have one address. So the mark for deletion of
  one node never reaches the machine of another.\<close>

theorem machine_of_one_node:
  assumes "NodeToMachine api c n1 w1 = (w1', Inr m)" "NodeToMachine api c n2 w2 = (w2', Inr m)"
  shows "ns_ip n1 = ns_ip n2"
  using assms[THEN NodeToMachine_provider] by (simp add: GenerateProviderID_inj)

definition demo_capi :: "capi_machine list \<Rightarrow> unit capi" where
  "demo_capi ms = \<lparr>ca_machines = (\<lambda>_ _ w. (w, Inr ms)), ca_bkeMachines = (\<lambda>_ _ w. (w, Inr [])), ca_deployments = (\<lambda>_ _ w. (w, Inr [])),
     ca_getObject = (\<lambda>_ w. (w, Inl ApiNotFound)), ca_updateObject = (\<lambda>_ w. (w, None)), ca_getMachine = (\<lambda>_ _ w. (w, Inl ApiNotFound)),
     ca_updateMachine = (\<lambda>_ w. (w, None)), ca_getBke = (\<lambda>_ _ w. (w, Inl ApiNotFound)), ca_getConfig = (\<lambda>_ _ w. (w, Inl ApiNotFound)),
     ca_retryObject = \<lparr>rl_DefaultRetry = ReadBackoff, rl_OnError = (\<lambda>b. retry_loop (bo_steps b))\<rparr>,
     ca_retry = \<lparr>rl_DefaultRetry = ReadBackoff, rl_OnError = (\<lambda>b. retry_loop (bo_steps b))\<rparr>\<rparr>"

definition demo_machine :: capi_machine where
  "demo_machine = \<lparr>ma_namespace = ''ns'', ma_name = ''m1'', ma_resourceVersion = ''1'', ma_labels = [], ma_annotations = [],
     ma_providerID = Some ''bke://c/MTAuMC4wLjE='', ma_infrastructureRef = (''ns'', ''b1''), ma_configRef = None, ma_bootstrapReady = True, ma_phase = ''Running'', ma_nodeRef = True\<rparr>"

section \<open>When a deployment has ended\<close>

definition boot_failed :: "bke_machine \<Rightarrow> bool" where
  "boot_failed m \<longleftrightarrow> get_condition (bm_conditions m) ''BootstrapSucceeded'' = Some (''False'', ''NodeBootStrapFailed'')"

definition boot_succeeded :: "bke_machine \<Rightarrow> bool" where
  "boot_succeeded m \<longleftrightarrow> bm_bootstrapped m \<and> (\<exists>r. get_condition (bm_conditions m) ''BootstrapSucceeded'' = Some (''True'', r))"

lemma CalculateBKEMachineBootNum_alt:
  "CalculateBKEMachineBootNum ms = (length (filter boot_failed ms), length (filter boot_succeeded ms))"
proof -
  have "((case x of None \<Rightarrow> False | Some (s, _) \<Rightarrow> s = ''True'') \<and> b) = (b \<and> (\<exists>r. x = Some (''True'', r)))"
    for x :: "(string \<times> string) option" and b
    by (cases x) auto
  then show ?thesis
    by (simp add: CalculateBKEMachineBootNum_def boot_failed_def [abs_def] boot_succeeded_def [abs_def] Let_def)
qed

definition boot_finished :: "bke_machine \<Rightarrow> bool" where
  "boot_finished m \<longleftrightarrow> boot_failed m \<or> boot_succeeded m"

lemma finished_count:
  "length (filter boot_failed ms) + length (filter boot_succeeded ms) = length (filter boot_finished ms)"
  by (induction ms) (auto simp: boot_finished_def boot_failed_def boot_succeeded_def)

lemma ClusterEndDeployed_count:
  "ClusterEndDeployedWithBKENodes ms bns \<longleftrightarrow>
     length (filter (\<lambda>n. \<not> nst_needSkip (bn_status n)) bns) \<le> length (filter boot_finished ms)"
  using finished_count [of ms] sum_length_filter_compl [of "\<lambda>n. nst_needSkip (bn_status n)" bns]
  by (auto simp: ClusterEndDeployedWithBKENodes_def CalculateBKEMachineBootNum_alt Let_def)

text \<open>The addresses the deployment waits for, and the addresses of the machines that have finished, for a function that tells
  the address of the node of a machine.\<close>

definition awaited :: "bke_node list \<Rightarrow> string set" where
  "awaited bns = (ns_ip \<circ> bn_spec) ` {n \<in> set bns. \<not> nst_needSkip (bn_status n)}"

definition finished_at :: "(bke_machine \<Rightarrow> string) \<Rightarrow> bke_machine list \<Rightarrow> string set" where
  "finished_at node_of ms = node_of ` {m \<in> set ms. boot_finished m}"

lemma awaited_code: "awaited bns = set (map (ns_ip \<circ> bn_spec) (filter (\<lambda>n. \<not> nst_needSkip (bn_status n)) bns))"
  by (auto simp: awaited_def)

lemma finished_at_code: "finished_at node_of ms = set (map node_of (filter boot_finished ms))"
  by (auto simp: finished_at_def)

text \<open>With one machine for a node, one object for an address and no finished machine on a node that is skipped, the
  deployment counts as ended exactly when every node that is not skipped has a machine that failed or succeeded.\<close>

theorem deployment_ends_iff:
  assumes "distinct (map (ns_ip \<circ> bn_spec) bns)" "distinct (map node_of (filter boot_finished ms))" "finished_at node_of ms \<subseteq> awaited bns"
  shows "ClusterEndDeployedWithBKENodes ms bns \<longleftrightarrow> awaited bns \<subseteq> finished_at node_of ms"
proof -
  let ?w = "filter (\<lambda>n. \<not> nst_needSkip (bn_status n)) bns"
  have w: "card (awaited bns) = length ?w" "finite (awaited bns)"
    using distinct_card [of "map (ns_ip \<circ> bn_spec) ?w"] assms(1) by (auto simp: awaited_def distinct_map_filter)
  have f: "card (finished_at node_of ms) = length (filter boot_finished ms)"
    using distinct_card [OF assms(2)] by (simp add: finished_at_def)
  have fin: "finite (finished_at node_of ms)"
    using assms(3) w(2) by (rule finite_subset)
  show ?thesis
    using card_seteq [OF w(2) assms(3)] card_mono [OF fin, of "awaited bns"] unfolding ClusterEndDeployed_count w(1) f by blast
qed

theorem machine_of_one_node_witness:
  "snd (NodeToMachine (demo_capi [demo_machine]) (blank_cluster ''ns'' ''c'') (ToNode (sample_node ''10.0.0.1'')) ()) = Inr demo_machine \<and>
   ns_ip (ToNode (sample_node ''10.0.0.1'')) = ''10.0.0.1''"
proof -
  have a: "NodeToMachine (demo_capi [demo_machine]) (blank_cluster ''ns'' ''c'') (ToNode (sample_node ''10.0.0.1'')) () = ((), Inr demo_machine)"
    by code_simp
  have b: "NodeToMachine (demo_capi [demo_machine]) (blank_cluster ''ns'' ''c'') (demo_spec_node ''10.0.0.1'' []) () = ((), Inr demo_machine)"
    by code_simp
  have "ns_ip (demo_spec_node ''10.0.0.1'' []) = ''10.0.0.1''" by (simp add: demo_spec_node_def)
  with machine_of_one_node [OF a b] a show ?thesis by simp
qed

definition demo_boot :: "string \<Rightarrow> bool \<Rightarrow> bke_machine" where
  "demo_boot ip ok = \<lparr>bm_namespace = ''ns'', bm_name = ip, bm_uid = ip, bm_labels = [], bm_annotations = [], bm_finalizers = [],
     bm_deletionTimestamp = None, bm_creation = 0, bm_providerID = None, bm_pause = False, bm_dryRun = False, bm_ready = ok, bm_bootstrapped = ok,
     bm_addresses = [], bm_conditions = [(''BootstrapSucceeded'', if ok then (''True'', '''') else (''False'', ''NodeBootStrapFailed''))],
     bm_node = None\<rparr>"

theorem deployment_ends_iff_witness:
  "\<not> ClusterEndDeployedWithBKENodes [demo_boot ''10.0.0.1'' True] [sample_node ''10.0.0.1'', sample_node ''10.0.0.2''] \<and>
   ClusterEndDeployedWithBKENodes [demo_boot ''10.0.0.1'' True, demo_boot ''10.0.0.2'' False] [sample_node ''10.0.0.1'', sample_node ''10.0.0.2'']"
proof -
  let ?n = "[sample_node ''10.0.0.1'', sample_node ''10.0.0.2'']"
  have d: "distinct (map (ns_ip \<circ> bn_spec) ?n)" by code_simp
  have fin: "boot_finished (demo_boot ip ok)" for ip ok
    by (simp add: boot_finished_def boot_failed_def boot_succeeded_def demo_boot_def get_condition_def)
  have name: "bm_name (demo_boot ip ok) = ip" for ip ok by (simp add: demo_boot_def)
  have aw: "awaited ?n = {''10.0.0.1'', ''10.0.0.2''}" by (simp add: awaited_code sample_node_def)
  have "ClusterEndDeployedWithBKENodes [demo_boot ''10.0.0.1'' True] ?n \<longleftrightarrow> awaited ?n \<subseteq> finished_at bm_name [demo_boot ''10.0.0.1'' True]"
    by (rule deployment_ends_iff [OF d]) (simp_all add: finished_at_code fin name aw)
  moreover have "ClusterEndDeployedWithBKENodes [demo_boot ''10.0.0.1'' True, demo_boot ''10.0.0.2'' False] ?n \<longleftrightarrow>
      awaited ?n \<subseteq> finished_at bm_name [demo_boot ''10.0.0.1'' True, demo_boot ''10.0.0.2'' False]"
    by (rule deployment_ends_iff [OF d]) (simp_all add: finished_at_code fin name aw)
  ultimately show ?thesis by (simp add: finished_at_code fin name aw)
qed

text \<open>The failed machine of a node that is skipped counts although the node itself is no longer waited for: the
  deployment of two nodes counts as ended while the node that is waited for has no machine at all.\<close>

theorem deployment_ends_early:
  "ClusterEndDeployedWithBKENodes [demo_boot ''10.0.0.1'' False]
     [(sample_node ''10.0.0.1'')\<lparr>bn_status := bn_status (sample_node ''10.0.0.1'')\<lparr>nst_needSkip := True\<rparr>\<rparr>, sample_node ''10.0.0.2'']"
  by code_simp

text \<open>The check for a missing deployment is dead: when the cluster owns none of the deployments that are listed, an
  empty object is given instead of nil.\<close>

theorem deployment_never_missing:
  assumes "ca_deployments api (cp_namespace cl) [(ClusterNameLabel, cp_name cl)] w = (w', Inr items)" "items \<noteq> []"
    and "list_all (\<lambda>md. (cp_kind cl, cp_name cl, cp_uid cl) \<notin> set (co_owners md)) items"
  shows "GetClusterAPIMachineDeployment api (Some cl) w = (w', Inr (Some blank_object))"
proof -
  have "fold (\<lambda>md found. if (cp_kind cl, cp_name cl, cp_uid cl) \<in> set (co_owners md) then md else found) items o0 = o0" for o0
    using assms(3) by (induction items) auto
  moreover obtain x xs where "items = x # xs" using assms(2) by (cases items) auto
  ultimately show ?thesis using assms(1) by (simp only: GetClusterAPIMachineDeployment_def option.case prod.case sum.case list.case)
qed

theorem deployment_never_missing_witness:
  "GetClusterAPIMachineDeployment (demo_capi []\<lparr>ca_deployments := \<lambda>_ _ w. (w, Inr [blank_object\<lparr>co_key := (''MachineDeployment'', ''ns'', ''other'')\<rparr>])\<rparr>)
     (Some \<lparr>cp_namespace = ''ns'', cp_name = ''c'', cp_kind = ''Cluster'', cp_uid = ''u'', cp_controlPlane = None, cp_initialized = Some ''True'', cp_infrastructureReady = True, cp_infrastructureRef = ''c''\<rparr>) ()
   = ((), Inr (Some blank_object))"
  by (rule deployment_never_missing [where items = "[blank_object\<lparr>co_key := (''MachineDeployment'', ''ns'', ''other'')\<rparr>]"])
    (simp_all add: blank_object_def)

section \<open>No concurrent change is lost\<close>

text \<open>The documented behaviour of the server: an update is refused unless the object carries the version the server holds, and a
  version names one content. Other clients may write at any time. \<open>writes\<close> lists the successful updates as pairs of the object
  that was replaced and the object that was stored; \<open>content\<close> gives the object of a key and a version.\<close>

definition optimistic :: "'w capi \<Rightarrow> (capi_key \<Rightarrow> string \<Rightarrow> capi_object) \<Rightarrow> ('w \<Rightarrow> (capi_object \<times> capi_object) list) \<Rightarrow> bool" where
  "optimistic api content writes \<longleftrightarrow>
     (\<forall>k w w' obj. ca_getObject api k w = (w', Inr obj) \<longrightarrow> co_key obj = k \<and> content k (co_resourceVersion obj) = obj) \<and>
     (\<forall>obj w w'. ca_updateObject api obj w = (w', None) \<longrightarrow>
        (\<exists>ws. writes w' = ws @ [(content (co_key obj) (co_resourceVersion obj), obj)]))"

definition keeps_identity :: "(capi_object \<Rightarrow> capi_object) \<Rightarrow> bool" where
  "keeps_identity f \<longleftrightarrow> (\<forall>obj. co_key (f obj) = co_key obj \<and> co_resourceVersion (f obj) = co_resourceVersion obj)"

text \<open>Whatever conflicts came before, the update that succeeds replaces exactly the object it was computed from.\<close>

lemma change_object_atomic:
  assumes opt: "optimistic api content writes" and lib: "retry_loop_ok (ca_retryObject api)" and f: "keeps_identity f"
    and run: "RetryOnConflict (ca_retryObject api) (change_object api f) (obj, w) = ((obj', w'), None)"
  shows "\<exists>ws replaced. writes w' = ws @ [(replaced, f replaced)] \<and> co_key replaced = co_key obj"
proof -
  have get: "co_key latest = k \<and> content k (co_resourceVersion latest) = latest" if "ca_getObject api k v = (v', Inr latest)" for k v v' latest
    using opt that unfolding optimistic_def by blast
  have put: "\<exists>ws. writes v' = ws @ [(content (co_key o1) (co_resourceVersion o1), o1)]" if "ca_updateObject api o1 v = (v', None)" for o1 v v'
    using opt that unfolding optimistic_def by blast
  have key: "co_key (fst u') = co_key obj \<and> (r = None \<longrightarrow> (\<exists>ws replaced. writes (snd u') = ws @ [(replaced, f replaced)] \<and> co_key replaced = co_key obj))"
    if k: "co_key (fst u) = co_key obj" and c: "change_object api f u = (u', r)" for u u' r
  proof -
    obtain o1 v where u: "u = (o1, v)" by fastforce
    obtain v1 a where g: "ca_getObject api (co_key o1) v = (v1, a)" by fastforce
    show ?thesis
    proof (cases a)
      case (Inl e)
      with c g k show ?thesis by (auto simp: change_object_def u)
    next
      case (Inr latest)
      obtain v2 r2 where p: "ca_updateObject api (f latest) v1 = (v2, r2)" by fastforce
      have l: "co_key latest = co_key o1" "content (co_key o1) (co_resourceVersion latest) = latest" using get g Inr by auto
      have fl: "co_key (f latest) = co_key latest" "co_resourceVersion (f latest) = co_resourceVersion latest" using f by (simp_all add: keeps_identity_def)
      from c g Inr p have "u' = (f latest, v2)" "r = r2" by (auto simp: change_object_def u)
      with put [of "f latest" v1 v2] p l fl k show ?thesis by (auto simp: u)
    qed
  qed
  show ?thesis
    using RetryOnConflict_induct [OF lib run,
        where I = "\<lambda>u. co_key (fst u) = co_key obj" and Q = "\<lambda>u r. r = None \<longrightarrow> (\<exists>ws replaced. writes (snd u) = ws @ [(replaced, f replaced)] \<and> co_key replaced = co_key obj)"]
      key by simp
qed

lemma keeps_identity_intros [simp, intro]:
  "keeps_identity (set_replicas n)" "keeps_identity (drop_annotations ks)" "keeps_identity (set_annotations ks)"
  "keeps_identity f \<Longrightarrow> keeps_identity g \<Longrightarrow> keeps_identity (f \<circ> g)"
  by (simp_all add: keeps_identity_def set_replicas_def drop_annotations_def set_annotations_def)

text \<open>Resuming and scaling a deployment of machines in one write: when it succeeds, the object that was stored last is the
  object it replaced but for the pause and the replicas, however many conflicting writes of others there were before. A
  change of another client is never overwritten.\<close>

theorem resume_loses_no_change:
  assumes "optimistic api content writes" "retry_loop_ok (ca_retryObject api)"
    and "ResumeAndUpdateMachineDeploymentReplicas api n (md, w) = ((md', w'), None)"
  shows "\<exists>ws replaced stored. writes w' = ws @ [(replaced, stored)] \<and> co_key replaced = co_key md \<and>
    co_replicas stored = Some n \<and> co_owners stored = co_owners replaced \<and>
    (\<forall>k. map_of (co_annotations stored) k = (if k = PausedAnnotation then None else map_of (co_annotations replaced) k))"
proof -
  from change_object_atomic [OF assms(1,2) _ assms(3) [unfolded ResumeAndUpdateMachineDeploymentReplicas_def]]
  obtain ws replaced where "writes w' = ws @ [(replaced, set_replicas n (drop_annotations [PausedAnnotation] replaced))]" "co_key replaced = co_key md"
    by auto
  then show ?thesis
    by (auto simp: set_replicas_def drop_annotations_def delete_conv intro!: exI [of _ ws] exI [of _ replaced])
qed

definition demo_deployment :: capi_object where
  "demo_deployment = \<lparr>co_key = (''MachineDeployment'', ''ns'', ''md''), co_resourceVersion = ''1'',
     co_annotations = [(PausedAnnotation, ''''), (''owner'', ''team'')], co_replicas = Some 3, co_owners = []\<rparr>"

text \<open>A server that answers a number of conflicts first and takes one write of the deployment.\<close>

definition demo_server :: "(nat \<times> (capi_object \<times> capi_object) list) capi" where
  "demo_server = \<lparr>ca_machines = (\<lambda>_ _ w. (w, Inr [])), ca_bkeMachines = (\<lambda>_ _ w. (w, Inr [])), ca_deployments = (\<lambda>_ _ w. (w, Inr [])),
     ca_getObject = (\<lambda>k w. (w, if k = co_key demo_deployment \<and> snd w = [] then Inr demo_deployment else Inl ApiNotFound)),
     ca_updateObject = (\<lambda>obj (n, ws). if n \<noteq> 0 then ((n - 1, ws), Some ApiConflict)
        else if ws = [] \<and> co_key obj = co_key demo_deployment \<and> co_resourceVersion obj = ''1'' then ((0, [(demo_deployment, obj)]), None)
        else ((n, ws), Some ApiConflict)),
     ca_getMachine = (\<lambda>_ _ w. (w, Inl ApiNotFound)), ca_updateMachine = (\<lambda>_ w. (w, None)), ca_getBke = (\<lambda>_ _ w. (w, Inl ApiNotFound)), ca_getConfig = (\<lambda>_ _ w. (w, Inl ApiNotFound)),
     ca_retryObject = \<lparr>rl_DefaultRetry = ReadBackoff, rl_OnError = (\<lambda>b. retry_loop (bo_steps b))\<rparr>,
     ca_retry = \<lparr>rl_DefaultRetry = ReadBackoff, rl_OnError = (\<lambda>b. retry_loop (bo_steps b))\<rparr>\<rparr>"

theorem resume_loses_no_change_witness:
  "let w' = snd (fst (ResumeAndUpdateMachineDeploymentReplicas demo_server 2 (demo_deployment, (2, []))))
   in \<exists>ws replaced stored. snd w' = ws @ [(replaced, stored)] \<and> co_key replaced = co_key demo_deployment \<and> co_replicas stored = Some 2 \<and>
        co_owners stored = co_owners replaced \<and>
        (\<forall>k. map_of (co_annotations stored) k = (if k = PausedAnnotation then None else map_of (co_annotations replaced) k))"
proof -
  have o: "optimistic demo_server (\<lambda>_ _. demo_deployment) snd"
    by (auto simp: optimistic_def demo_server_def demo_deployment_def split: if_splits)
  have l: "retry_loop_ok (ca_retryObject demo_server)"
    by (simp add: retry_loop_ok_def demo_server_def ReadBackoff_def)
  have "snd (ResumeAndUpdateMachineDeploymentReplicas demo_server 2 (demo_deployment, (2, []))) = None" by code_simp
  then have run: "ResumeAndUpdateMachineDeploymentReplicas demo_server 2 (demo_deployment, (2, [])) =
      ((fst (fst (ResumeAndUpdateMachineDeploymentReplicas demo_server 2 (demo_deployment, (2, [])))),
        snd (fst (ResumeAndUpdateMachineDeploymentReplicas demo_server 2 (demo_deployment, (2, []))))), None)"
    by (simp add: prod_eq_iff)
  show ?thesis using resume_loses_no_change [OF o l run] by (simp only: Let_def)
qed

end
