(* ===== verification/Machine_Controller.thy ===== *)
theory Machine_Controller
  imports Machine_Objects Node_Selection Cluster_Health Phase_Flow Command_Client Admission_Defaults
begin

text \<open>
  The controller of machines: \<^verbatim>\<open>controllers/capbke/bkemachine_controller.go\<close> and
  \<^verbatim>\<open>bkemachine_controller_phases.go\<close>. A machine of cluster-api is bound to a node of the cluster, the node is
  bootstrapped by a command to its agent, and at the end the node is reset and released.

  The state \<open>'w mc_state\<close> holds what a reconcile shares by pointer: the machine object, the machine of cluster-api and
  the cluster as they are in memory, the record of nodes that are being bootstrapped, and the world behind the clients.
  The clients and libraries are fields of \<open>mc_env\<close>: what the patch helper and the helpers of cluster-api give, the
  lock of the control plane, versions and the target cluster. Deferred calls run after the body on every path, so they are
  applied to its result. Errors that are only logged are dropped by \<open>mc_quiet\<close>. Logging, events and metrics are not modelled.

  The results: no node is given to two machines that join; a node whose bootstrap could not be started is never given out
  again; a bootstrapped or labelled machine is left alone; when the status of a whole cluster is written, and which
  of the states of a booting cluster can never be reached.
\<close>

section \<open>State and environment\<close>

record target_node =
  tn_name :: string
  tn_labels :: "string gomap"
  tn_providerID :: string
  tn_resourceVersion :: string

record target_map =
  tm_namespace :: string
  tm_name :: string
  tm_data :: "string gomap"

record 'w target_api =
  tg_connect :: "bke_cluster \<Rightarrow> 'w attempt"
  tg_nodes :: "string \<Rightarrow> 'w \<Rightarrow> 'w \<times> (api_error + target_node list \<times> string)"
  tg_getNode :: "string \<Rightarrow> 'w \<Rightarrow> 'w \<times> (api_error + target_node)"
  tg_updateNode :: "target_node \<Rightarrow> 'w attempt"
  tg_patchNode :: "target_node \<Rightarrow> target_node \<Rightarrow> 'w \<Rightarrow> 'w \<times> (api_error + target_node)"
  tg_deleteNode :: "string \<Rightarrow> 'w attempt"
  tg_cordon :: "target_node \<Rightarrow> 'w attempt"
  tg_createMap :: "target_map \<Rightarrow> 'w attempt"
  tg_getMap :: "string \<Rightarrow> string \<Rightarrow> 'w \<Rightarrow> 'w \<times> (api_error + target_map)"
  tg_updateMap :: "target_map \<Rightarrow> 'w attempt"

text \<open>A command with what the controller reads of its metadata.\<close>

record owned_command = command +
  oc_annotations :: "string gomap"
  oc_owners :: "string list"

record ('w, 'o, 'p) mc_env =
  mv_merge :: "('w, 'o, 'p) merge_env"
  mv_clock :: "'w \<Rightarrow> nat"
  mv_lowest :: "ctrl_outcome \<Rightarrow> ctrl_outcome \<Rightarrow> ctrl_outcome"
  mv_nodes :: "'w node_api"
  mv_capi :: "'w capi"
  mv_cmd :: "string \<Rightarrow> 'w command_api"
  mv_commands :: "string \<Rightarrow> string gomap \<Rightarrow> 'w \<Rightarrow> 'w \<times> (api_error + owned_command list)"
  mv_getCommand :: "string \<Rightarrow> string \<Rightarrow> 'w \<Rightarrow> 'w \<times> (api_error + owned_command)"
  mv_updateCommand :: "owned_command \<Rightarrow> 'w attempt"
  mv_polls :: nat
  mv_connectTries :: nat
  mv_pages :: nat
  mv_newHelper :: "bke_machine \<Rightarrow> api_error option"
  mv_patch :: "bke_machine \<Rightarrow> bke_machine \<Rightarrow> 'w attempt"
  mv_newMachineHelper :: "capi_machine \<Rightarrow> api_error option"
  mv_patchMachine :: "capi_machine \<Rightarrow> capi_machine \<Rightarrow> 'w attempt"
  mv_newConfigHelper :: "kubeadm_config \<Rightarrow> api_error option"
  mv_patchConfig :: "kubeadm_config \<Rightarrow> kubeadm_config \<Rightarrow> 'w attempt"
  mv_planeConfig :: "capi_object \<Rightarrow> string option \<times> string option \<times> string option"
  mv_ownerMachine :: "bke_machine \<Rightarrow> 'w \<Rightarrow> 'w \<times> capi_machine option \<times> api_error option"
  mv_ownerCluster :: "capi_machine \<Rightarrow> 'w \<Rightarrow> 'w \<times> (api_error + capi_cluster option)"
  mv_clusterOwner :: "bke_cluster \<Rightarrow> 'w \<Rightarrow> 'w \<times> (api_error + capi_cluster option)"
  mv_isPaused :: "capi_cluster \<Rightarrow> bke_machine \<Rightarrow> bool"
  mv_lock :: "string \<Rightarrow> string \<Rightarrow> 'w \<Rightarrow> 'w \<times> (api_error + string gomap option)"
  mv_parseLock :: "string \<Rightarrow> api_error + string"
  mv_parseVersion :: "string \<Rightarrow> api_error + nat \<times> nat"
  mv_bocVersion :: "string option"
  mv_target :: "'w target_api"
  mv_expiry :: "gotime \<Rightarrow> string"
  mv_errorText :: "api_error \<Rightarrow> string"

(* src: controllers/capbke/bkemachine_controller.go 58-66 BKEMachineReconciler *)
record 'w mc_state =
  ms_world :: "status_manager \<times> 'w"
  ms_bm :: bke_machine
  ms_machine :: capi_machine
  ms_cluster :: bke_cluster
  ms_record :: "string list"

definition mc_run :: "('w \<Rightarrow> 'w \<times> 'r) \<Rightarrow> 'w mc_state \<Rightarrow> 'w mc_state \<times> 'r" where
  "mc_run f s = (case f (snd (ms_world s)) of (w, r) \<Rightarrow> (s\<lparr>ms_world := (fst (ms_world s), w)\<rparr>, r))"

definition mc_quiet :: "'w attempt \<Rightarrow> 'w mc_state \<Rightarrow> 'w mc_state" where
  "mc_quiet f s = fst (mc_run f s)"

text \<open>The result of a handler: what to do next and the errors, of which \<^const>\<open>Panicked\<close> ends the reconcile.\<close>

type_synonym mc_result = "ctrl_outcome \<times> merge_error list"

definition mc_done :: "mc_result" where
  "mc_done = (no_requeue, [])"

definition mc_fail :: "api_error \<Rightarrow> mc_result" where
  "mc_fail err = (no_requeue, [Failed_with err])"

definition DefaultRequeueAfterDuration :: nat where
  "DefaultRequeueAfterDuration = 5"

definition requeue_later :: ctrl_outcome where
  "requeue_later = no_requeue\<lparr>co_requeueAfter := DefaultRequeueAfterDuration\<rparr>"

definition mc_sync :: "('w, 'o, 'p) mc_env \<Rightarrow> patch_func list \<Rightarrow> 'w mc_state \<Rightarrow> 'w mc_state \<times> merge_error option" where
  "mc_sync e patchs s =
     (case SyncStatusUntilComplete (mv_merge e) (mv_clock e) patchs (ms_cluster s) (ms_world s) of
        None \<Rightarrow> (s, None)
      | Some (mw, c, r) \<Rightarrow>
          (s\<lparr>ms_world := mw, ms_cluster := c\<rparr>,
           case r of Sync_done \<Rightarrow> None | Sync_error err \<Rightarrow> Some (Failed_with err)
           | Sync_timeout \<Rightarrow> Some (Failed_with (ErrMsg ''The update failed to complete after 2 minutes. '')) | Sync_panic \<Rightarrow> Some Panicked))"

definition upd_bm :: "(bke_machine \<Rightarrow> bke_machine) \<Rightarrow> 'w mc_state \<Rightarrow> 'w mc_state" where
  "upd_bm f s = s\<lparr>ms_bm := f (ms_bm s)\<rparr>"

definition upd_cluster :: "(bke_cluster \<Rightarrow> bke_cluster) \<Rightarrow> 'w mc_state \<Rightarrow> 'w mc_state" where
  "upd_cluster f s = s\<lparr>ms_cluster := f (ms_cluster s)\<rparr>"

definition forget_node :: "string \<Rightarrow> 'w mc_state \<Rightarrow> 'w mc_state" where
  "forget_node ip s = s\<lparr>ms_record := filter (\<lambda>r. r \<noteq> ip) (ms_record s)\<rparr>"

definition mc_now :: "('w, 'o, 'p) mc_env \<Rightarrow> 'w mc_state \<Rightarrow> gotime" where
  "mc_now e s = me_now (mv_merge e) (snd (ms_world s))"

definition mark_cluster :: "('w, 'o, 'p) mc_env \<Rightarrow> string \<Rightarrow> string \<Rightarrow> string \<Rightarrow> 'w mc_state \<Rightarrow> 'w mc_state" where
  "mark_cluster e st reason msg s = upd_cluster (\<lambda>c. ConditionMark c ''TargetClusterBoot'' st reason msg (mc_now e s)) s"

definition set_node_state :: "('w, 'o, 'p) mc_env \<Rightarrow> string \<Rightarrow> string \<Rightarrow> string \<Rightarrow> 'w mc_state \<Rightarrow> 'w mc_state" where
  "set_node_state e ip st msg s = mc_quiet (SetNodeStateWithMessageForCluster (mv_nodes e) (ms_cluster s) ip st msg) s"

definition mark_node_flag :: "('w, 'o, 'p) mc_env \<Rightarrow> string \<Rightarrow> node_flag \<Rightarrow> 'w mc_state \<Rightarrow> 'w mc_state" where
  "mark_node_flag e ip flag s = mc_quiet (MarkNodeStateFlagForCluster (mv_nodes e) (ms_cluster s) ip (flag_value flag)) s"

subsection \<open>Finalizer and conditions of a machine\<close>

definition BKEMachineFinalizer :: string where
  "BKEMachineFinalizer = ''bkemachine.infrastructure.cluster.x-k8s.io''"

definition has_finalizer :: "bke_machine \<Rightarrow> bool" where
  "has_finalizer m \<longleftrightarrow> BKEMachineFinalizer \<in> set (bm_finalizers m)"

definition drop_finalizer :: "bke_machine \<Rightarrow> bke_machine" where
  "drop_finalizer m = m\<lparr>bm_finalizers := filter (\<lambda>f. f \<noteq> BKEMachineFinalizer) (bm_finalizers m)\<rparr>"

definition mark_boot :: "string \<Rightarrow> string \<Rightarrow> bke_machine \<Rightarrow> bke_machine" where
  "mark_boot st reason m = m\<lparr>bm_conditions := AList.update ''BootstrapSucceeded'' (st, reason) (bm_conditions m)\<rparr>"

definition boot_reason :: "bke_machine \<Rightarrow> string" where
  "boot_reason m = (case get_condition (bm_conditions m) ''BootstrapSucceeded'' of None \<Rightarrow> [] | Some (_, r) \<Rightarrow> r)"

(* src: controllers/capbke/bkemachine_controller.go 552-554 patchBKEMachine *)
definition patchBKEMachine :: "('w, 'o, 'p) mc_env \<Rightarrow> bke_machine \<Rightarrow> 'w mc_state \<Rightarrow> 'w mc_state \<times> api_error option" where
  "patchBKEMachine e before s = mc_run (mv_patch e before (ms_bm s)) s"

section \<open>Choosing a node\<close>

(* src: controllers/capbke/bkemachine_controller_phases.go 310-316 BKEMachineReconciler.getMachineRole *)
definition getMachineRole :: "capi_machine \<Rightarrow> string" where
  "getMachineRole m = (if IsControlPlaneMachine m then MasterNodeRole else WorkerNodeRole)"

(* src: controllers/capbke/bkemachine_controller_phases.go 319-334 BKEMachineReconciler.getRoleNodes *)
definition getRoleNodes :: "('w, 'o, 'p) mc_env \<Rightarrow> bke_cluster \<Rightarrow> string \<Rightarrow> ('w, nodes) node_read" where
  "getRoleNodes e c role w =
     (case GetReadyBootstrapNodes (mv_nodes e) (bc_namespace c) (bc_name c) w of
        (w', Inl err) \<Rightarrow> (w', Inl err)
      | (w', Inr ns) \<Rightarrow>
          (w', let rs = (if role = MasterNodeRole then nodes_Master ns else nodes_Worker ns)
               in if rs = [] then Inl (ErrMsg ''no role nodes available'') else Inr rs))"

definition prefer_ip :: "string \<Rightarrow> nodes \<Rightarrow> node_spec" where
  "prefer_ip ip ns = (case (if ip = [] then None else find (\<lambda>n. ns_ip n = ip) ns) of Some n \<Rightarrow> n | None \<Rightarrow> hd ns)"

definition available_nodes :: "string list \<Rightarrow> bke_machine list \<Rightarrow> nodes \<Rightarrow> nodes" where
  "available_nodes booted ms ns =
     filter (\<lambda>n. ns_ip n \<notin> set booted \<and> \<not> list_ex (\<lambda>m. CheckBKEMachineLabel (bm_labels m) = Some (ns_ip n)) ms) ns"

text \<open>The nodes that are asked for are never empty here, see \<open>getRoleNodes\<close>; an empty list would be a panic.\<close>

(* src: controllers/capbke/bkemachine_controller_phases.go 1041-1112 BKEMachineReconciler.filterAvailableNode *)
definition filterAvailableNode :: "('w, 'o, 'p) mc_env \<Rightarrow> nodes \<Rightarrow> string \<Rightarrow> 'w mc_state \<Rightarrow> 'w mc_state \<times> (merge_error + node_spec)" where
  "filterAvailableNode e roleNodes phase s =
     (let preferIP = ep_host (bs_controlPlaneEndpoint (bc_spec (ms_cluster s)));
          give = (\<lambda>s n. (s\<lparr>ms_record := List.insert (ns_ip n) (ms_record s)\<rparr>, Inr n))
      in if phase = ''InitControlPlane''
         then (if roleNodes = [] then (s, Inl Panicked) else give s (prefer_ip preferIP roleNodes))
         else case mc_run (GetBKEClusterAssociateBKEMachines (mv_capi e) (ms_cluster s)) s of
                (s1, Inl err) \<Rightarrow> (s1, Inl (Failed_with err))
              | (s1, Inr ms) \<Rightarrow>
                  (let av = available_nodes (ms_record s1) ms roleNodes
                   in if av = [] then (s1, Inl (Failed_with (ErrMsg ''no available node''))) else give s1 (prefer_ip preferIP av)))"

subsection \<open>The phase of a machine\<close>

(* src: controllers/capbke/bkemachine_controller_phases.go 1481-1487 BKEMachineReconciler.parseLockInfo *)
definition parseLockInfo :: "('w, 'o, 'p) mc_env \<Rightarrow> string gomap \<Rightarrow> api_error + string" where
  "parseLockInfo e data = mv_parseLock e (get_or [] data ''lock-information'')"

(* src: controllers/capbke/bkemachine_controller_phases.go 1447-1478 BKEMachineReconciler.handleLockConfigMap *)
definition handleLockConfigMap :: "('w, 'o, 'p) mc_env \<Rightarrow> capi_machine \<Rightarrow> capi_cluster \<Rightarrow> ('w, string) node_read" where
  "handleLockConfigMap e m cl w =
     (case mv_lock e (cp_namespace cl) (cp_name cl @ ''-lock'') w of
        (w', Inl err) \<Rightarrow> (w', if IsNotFound err then Inr ''JoinControlPlane'' else Inl (ErrMsg ''failed to get the lock configmap''))
      | (w', Inr None) \<Rightarrow> (w', Inl (ErrMsg ''lock data is nil''))
      | (w', Inr (Some data)) \<Rightarrow>
          (w', case parseLockInfo e data of Inl err \<Rightarrow> Inl err
               | Inr name \<Rightarrow> Inr (if name = ma_name m then ''InitControlPlane'' else ''JoinControlPlane'')))"

(* src: controllers/capbke/bkemachine_controller_phases.go 1430-1444 BKEMachineReconciler.getBootstrapPhase *)
definition getBootstrapPhase :: "('w, 'o, 'p) mc_env \<Rightarrow> capi_machine \<Rightarrow> capi_cluster \<Rightarrow> ('w, string) node_read" where
  "getBootstrapPhase e m cl w =
     (if \<not> IsControlPlaneMachine m then (w, Inr ''JoinWorker'')
      else if cp_initialized cl = Some ''False'' then (w, Inr ''InitControlPlane'')
      else handleLockConfigMap e m cl w)"

text \<open>The phase is only logged.\<close>

(* src: controllers/capbke/bkemachine_controller_phases.go 1391-1419 BKEMachineReconciler.recordBootstrapPhaseEvent *)
definition event_phase :: "bke_cluster \<Rightarrow> string \<Rightarrow> string" where
  "event_phase c phase =
     (if phase = ''JoinWorker'' then (if \<not> FullyControlled c then ''FakeJoinWorker'' else phase)
      else if phase = ''JoinControlPlane'' then (if \<not> FullyControlled c then ''FakeJoinControlPlan'' else phase)
      else if phase = ''InitControlPlane'' then (if \<not> FullyControlled c then ''FakeInitControlPlan'' else phase)
      else phase)"

section \<open>The target cluster\<close>

text \<open>The library that parses versions gives the major and minor number.\<close>

(* src: controllers/capbke/bkemachine_controller_phases.go 1591-1597 generateKubeletConfigName *)
definition generateKubeletConfigName :: "nat \<times> nat \<Rightarrow> string" where
  "generateKubeletConfigName v =
     (case v of (major, minor) \<Rightarrow>
        if 1 < major \<or> major = 1 \<and> 24 \<le> minor then ''kubelet-config''
        else ''kubelet-config-'' @ Itoa (int major) @ ''.'' @ Itoa (int minor))"

(* src: controllers/capbke/bkemachine_controller_phases.go 1531-1554 createOrUpdateConfigMap *)
definition createOrUpdateConfigMap :: "('w, 'o, 'p) mc_env \<Rightarrow> string \<Rightarrow> string \<Rightarrow> string gomap \<Rightarrow> 'w attempt" where
  "createOrUpdateConfigMap e name ns data w =
     (case tg_createMap (mv_target e) \<lparr>tm_namespace = ns, tm_name = name, tm_data = data\<rparr> w of
        (w1, None) \<Rightarrow> (w1, None)
      | (w1, Some err) \<Rightarrow>
          if err = ApiAlreadyExists
          then RetryOnConflict (ca_retry (mv_capi e)) (\<lambda>u.
                 case tg_getMap (mv_target e) ns name u of
                   (u1, Inl err') \<Rightarrow> (u1, Some err')
                 | (u1, Inr cm) \<Rightarrow> tg_updateMap (mv_target e) (cm\<lparr>tm_data := data\<rparr>) u1) w1
          else (w1, Some err))"

(* src: controllers/capbke/bkemachine_controller_phases.go 1558-1563 MockKubeadmConfigConfigmap *)
definition MockKubeadmConfigConfigmap :: "('w, 'o, 'p) mc_env \<Rightarrow> 'w attempt" where
  "MockKubeadmConfigConfigmap e = createOrUpdateConfigMap e ''kubeadm-config'' ''kube-system'' [(''ClusterStatus'', []), (''ClusterConfiguration'', [])]"

(* src: controllers/capbke/bkemachine_controller_phases.go 1567-1577 MockKubeletConfigConfigmap *)
definition MockKubeletConfigConfigmap :: "('w, 'o, 'p) mc_env \<Rightarrow> string \<Rightarrow> 'w attempt" where
  "MockKubeletConfigConfigmap e current w =
     (case mv_parseVersion e current of Inl err \<Rightarrow> (w, Some err)
      | Inr v \<Rightarrow> createOrUpdateConfigMap e (generateKubeletConfigName v) ''kube-system'' [(''kubelet'', [])] w)"

definition boc_version :: "('w, 'o, 'p) mc_env \<Rightarrow> string" where
  "boc_version e = (case mv_bocVersion e of Some v \<Rightarrow> v | None \<Rightarrow> ''boc4.0'')"

definition role_labels :: "string \<Rightarrow> string gomap \<Rightarrow> string gomap" where
  "role_labels role labels =
     (if role = WorkerNodeRole then SetWorkerRoleLabel labels
      else if role = MasterNodeRole then SetMasterRoleLabel labels
      else if role = MasterWorkerNodeRole then SetWorkerRoleLabel (SetMasterRoleLabel labels) else labels)"

(* src: controllers/capbke/bkemachine_controller_phases.go 1504-1528 setTargetClusterNodeRole *)
definition setTargetClusterNodeRole :: "('w, 'o, 'p) mc_env \<Rightarrow> target_node \<Rightarrow> string \<Rightarrow> 'w attempt" where
  "setTargetClusterNodeRole e node role =
     RetryOnConflict (ca_retry (mv_capi e)) (\<lambda>u.
       case tg_getNode (mv_target e) (tn_name node) u of
         (u1, Inl err) \<Rightarrow> (u1, Some err)
       | (u1, Inr latest) \<Rightarrow>
           tg_updateNode (mv_target e) (latest\<lparr>tn_labels := SetBocVersionLabel (role_labels role (tn_labels latest)) (boc_version e)\<rparr>) u1)"

(* src: controllers/capbke/bkemachine_controller_phases.go 1182-1187 nodeInformation *)
record node_information =
  ni_node :: node_spec
  ni_cordon :: bool
  ni_cordonFlag :: bool
  ni_role :: string

definition MasterSchedulableAnnotationKey :: string where
  "MasterSchedulableAnnotationKey = ''bke.bocloud.com/master-schedulable''"

text \<open>A node without roles is a panic.\<close>

(* src: controllers/capbke/bkemachine_controller_phases.go 1155-1183 BKEMachineReconciler.getNodeInfo *)
definition getNodeInfo :: "node_spec \<Rightarrow> bke_cluster \<Rightarrow> node_information option" where
  "getNodeInfo node c =
     (case ns_role node of [] \<Rightarrow> None
      | r # _ \<Rightarrow>
          (let (r1, k1) = (if IsMasterWorker node then (MasterWorkerNodeRole, False) else (r, False));
               (r2, k2) = (if IsMaster node then (MasterNodeRole, True) else (r1, k1));
               r3 = (if IsWorker node then WorkerNodeRole else r2)
           in Some \<lparr>ni_node = node, ni_cordon = k2,
                ni_cordonFlag = (HasAnnotation c MasterSchedulableAnnotationKey \<noteq> Some ''true''), ni_role = r3\<rparr>))"

(* src: controllers/capbke/bkemachine_controller_phases.go 1490-1501 BKEMachineReconciler.cordonMasterNode *)
definition cordonMasterNode :: "('w, 'o, 'p) mc_env \<Rightarrow> bke_cluster \<Rightarrow> target_node \<Rightarrow> 'w attempt" where
  "cordonMasterNode e c node w =
     (case tg_connect (mv_target e) c w of (w1, Some err) \<Rightarrow> (w1, Some err) | (w1, None) \<Rightarrow> tg_cordon (mv_target e) node w1)"

text \<open>A cluster without a configuration is a panic where its version is read.\<close>

definition spec_version :: "bke_cluster \<Rightarrow> string option" where
  "spec_version c = map_option cs_kubernetesVersion (bs_clusterConfig (bc_spec c))"

type_synonym 'w step = "'w \<Rightarrow> 'w \<times> merge_error option"

definition pass :: "'w attempt \<Rightarrow> 'w step" where
  "pass f w = map_prod id (map_option Failed_with) (f w)"

definition mock_kubelet :: "('w, 'o, 'p) mc_env \<Rightarrow> bke_cluster \<Rightarrow> 'w step" where
  "mock_kubelet e c w = (case spec_version c of None \<Rightarrow> (w, Some Panicked) | Some v \<Rightarrow> pass (MockKubeletConfigConfigmap e v) w)"

(* src: controllers/capbke/bkemachine_controller_phases.go 1239-1261 BKEMachineReconciler.applyNodeConfiguration *)
definition applyNodeConfiguration :: "('w, 'o, 'p) mc_env \<Rightarrow> bke_cluster \<Rightarrow> target_node \<Rightarrow> node_information \<Rightarrow> 'w step" where
  "applyNodeConfiguration e c node info w =
     (let w1 = (if ni_cordon info \<and> ni_cordonFlag info then fst (cordonMasterNode e c node w) else w)
      in case setTargetClusterNodeRole e node (ni_role info) w1 of
           (w2, Some err) \<Rightarrow> (w2, Some (Failed_with err))
         | (w2, None) \<Rightarrow>
             (case MockKubeadmConfigConfigmap e w2 of
                (w3, Some err) \<Rightarrow> (w3, Some (Failed_with err))
              | (w3, None) \<Rightarrow> mock_kubelet e c w3))"

(* src: controllers/capbke/bkemachine_controller_phases.go 1221-1236 BKEMachineReconciler.checkNodesForProviderID *)
fun checkNodesForProviderID :: "('w, 'o, 'p) mc_env \<Rightarrow> bke_cluster \<Rightarrow> target_node list \<Rightarrow> string \<Rightarrow> node_information \<Rightarrow> 'w \<Rightarrow> 'w \<times> (merge_error + bool)" where
  "checkNodesForProviderID e c [] pid info w = (w, Inr False)"
| "checkNodesForProviderID e c (n # ns) pid info w =
     (if tn_providerID n = [] then checkNodesForProviderID e c ns pid info w
      else if pid = tn_providerID n
      then (case applyNodeConfiguration e c n info w of (w', Some err) \<Rightarrow> (w', Inl err) | (w', None) \<Rightarrow> (w', Inr True))
      else checkNodesForProviderID e c ns pid info w)"

text \<open>The list calls set no limit, so that the server answers in one page; \<open>mv_pages\<close> bounds the pages that are read.\<close>

fun page_loop :: "('w, 'o, 'p) mc_env \<Rightarrow> nat \<Rightarrow> string \<Rightarrow> bke_cluster \<Rightarrow> string \<Rightarrow> node_information \<Rightarrow> 'w step" where
  "page_loop e 0 token c pid info w = (w, Some (Failed_with (ErrMsg ''too many pages'')))"
| "page_loop e (Suc k) token c pid info w =
     (case tg_nodes (mv_target e) token w of
        (w1, Inl err) \<Rightarrow> (w1, Some (Failed_with err))
      | (w1, Inr (items, next_token)) \<Rightarrow>
          (case checkNodesForProviderID e c items pid info w1 of
             (w2, Inl err) \<Rightarrow> (w2, Some err)
           | (w2, Inr True) \<Rightarrow> (w2, None)
           | (w2, Inr False) \<Rightarrow>
               if next_token = [] then (w2, Some (Failed_with (ErrMsg (''could not find node with providerID '' @ pid))))
               else page_loop e k next_token c pid info w2))"

(* src: controllers/capbke/bkemachine_controller_phases.go 1194-1218 BKEMachineReconciler.handleEmptyNodeList *)
definition handleEmptyNodeList :: "('w, 'o, 'p) mc_env \<Rightarrow> bke_cluster \<Rightarrow> string \<Rightarrow> node_information \<Rightarrow> 'w step" where
  "handleEmptyNodeList e = page_loop e (mv_pages e) []"

(* src: controllers/capbke/bkemachine_controller_phases.go 1264-1283 BKEMachineReconciler.handleNonEmptyNodeList *)
definition handleNonEmptyNodeList :: "('w, 'o, 'p) mc_env \<Rightarrow> bke_cluster \<Rightarrow> string \<Rightarrow> node_information \<Rightarrow> target_node list \<Rightarrow> 'w step" where
  "handleNonEmptyNodeList e c pid info items w =
     (case filter (\<lambda>n. tn_providerID n \<noteq> [] \<and> pid = tn_providerID n) items of
        [n] \<Rightarrow> applyNodeConfiguration e c n info w
      | _ \<Rightarrow> (w, Some (Failed_with (ErrMsg (''unexpectedly found more than one Node matching the providerID '' @ pid)))))"

(* src: controllers/capbke/bkemachine_controller_phases.go 1128-1152 BKEMachineReconciler.checkTargetClusterNode *)
definition checkTargetClusterNode :: "('w, 'o, 'p) mc_env \<Rightarrow> bke_cluster \<Rightarrow> node_spec \<Rightarrow> 'w \<Rightarrow> 'w \<times> merge_error option" where
  "checkTargetClusterNode e c node w =
     (case tg_connect (mv_target e) c w of
        (w1, Some err) \<Rightarrow> (w1, Some (Failed_with err))
      | (w1, None) \<Rightarrow>
          (case tg_nodes (mv_target e) [] w1 of
             (w2, Inl err) \<Rightarrow> (w2, Some (Failed_with err))
           | (w2, Inr (items, _)) \<Rightarrow>
               (case getNodeInfo node c of None \<Rightarrow> (w2, Some Panicked)
                | Some info \<Rightarrow>
                    (let pid = GenerateProviderID c node
                     in if items = [] then handleEmptyNodeList e c pid info w2 else handleNonEmptyNodeList e c pid info items w2))))"

section \<open>The state of the booting cluster\<close>

(* src: controllers/capbke/bkemachine_controller_phases.go 909-923 BKEMachineReconciler.getClusterInfo *)
definition getClusterInfo :: "('w, 'o, 'p) mc_env \<Rightarrow> bke_cluster \<Rightarrow> ('w, bke_machine list \<times> nodes) node_read" where
  "getClusterInfo e c w =
     (case GetNodesForBKECluster (mv_nodes e) c w of
        (w1, Inl err) \<Rightarrow> (w1, Inl err)
      | (w1, Inr ns) \<Rightarrow> map_read (\<lambda>ms. (ms, ns)) (GetBKEClusterAssociateBKEMachines (mv_capi e) c) w1)"

text \<open>The loop replaces the entry of the current machine in the list, and stops at the first machine that is not bootstrapped.\<close>

(* src: controllers/capbke/bkemachine_controller_phases.go 936-949 BKEMachineReconciler.checkBootstrapStatus (loop) *)
fun check_machines :: "bke_machine \<Rightarrow> bke_machine list \<Rightarrow> bool \<Rightarrow> bool \<Rightarrow> bke_machine list \<times> bool \<times> bool" where
  "check_machines cur [] ready fail = ([], ready, fail)"
| "check_machines cur (m # ms) ready fail =
     (let bm = (if bm_name m = bm_name cur then cur else m);
          fail' = (if boot_reason bm = ''NodeBootStrapFailed'' then True else fail)
      in if \<not> bm_bootstrapped bm then (bm # ms, False, fail')
         else case check_machines cur ms ready fail' of (ms', ready', fail'') \<Rightarrow> (bm # ms', ready', fail''))"

(* src: controllers/capbke/bkemachine_controller_phases.go 926-952 BKEMachineReconciler.checkBootstrapStatus *)
definition checkBootstrapStatus :: "bke_machine list \<Rightarrow> bke_machine \<Rightarrow> nodes \<Rightarrow> bke_machine list \<times> bool \<times> bool" where
  "checkBootstrapStatus ms cur ns = check_machines cur ms (ms \<noteq> [] \<and> length ms = length ns) False"

(* src: controllers/capbke/bkemachine_controller_phases.go 984-993 BKEMachineReconciler.handleAllNodesBootstrapped *)
definition handleAllNodesBootstrapped :: "('w, 'o, 'p) mc_env \<Rightarrow> 'w mc_state \<Rightarrow> 'w mc_state \<times> merge_error option" where
  "handleAllNodesBootstrapped e s =
     (case spec_version (ms_cluster s) of None \<Rightarrow> (s, Some Panicked)
      | Some v \<Rightarrow> mc_sync e [] (upd_cluster (upd_clusterStatus (\<lambda>st. st\<lparr>st_kubernetesVersion := v\<rparr>)) s))"

(* src: controllers/capbke/bkemachine_controller_phases.go 996-1004 BKEMachineReconciler.handleBootstrapFailure *)
definition handleBootstrapFailure :: "('w, 'o, 'p) mc_env \<Rightarrow> 'w mc_state \<Rightarrow> 'w mc_state \<times> merge_error option" where
  "handleBootstrapFailure e s = (mark_cluster e ''False'' ''NodeBootStrapFailed'' [] s, None)"

(* src: controllers/capbke/bkemachine_controller_phases.go 1007-1024 BKEMachineReconciler.handleClusterReady *)
definition handleClusterReady :: "('w, 'o, 'p) mc_env \<Rightarrow> 'w mc_state \<Rightarrow> 'w mc_state \<times> merge_error option" where
  "handleClusterReady e s = mc_sync e [] (mark_cluster e ''True'' ''TargetClusterBootReady'' [] s)"

(* src: controllers/capbke/bkemachine_controller_phases.go 1027-1038 BKEMachineReconciler.handleClusterBooting *)
definition handleClusterBooting :: "('w, 'o, 'p) mc_env \<Rightarrow> node_spec \<Rightarrow> 'w mc_state \<Rightarrow> 'w mc_state \<times> merge_error option" where
  "handleClusterBooting e n s = mc_sync e [] (mark_cluster e ''False'' ''TargetClusterBooting'' (''bootstrap node '' @ NodeInfo n) s)"

(* src: controllers/capbke/bkemachine_controller_phases.go 955-981 BKEMachineReconciler.handleClusterState *)
definition handleClusterState :: "('w, 'o, 'p) mc_env \<Rightarrow> node_spec \<Rightarrow> bke_machine list \<Rightarrow> nodes \<Rightarrow> bool \<Rightarrow> bool \<Rightarrow>
    'w mc_state \<Rightarrow> 'w mc_state \<times> merge_error option" where
  "handleClusterState e n ms ns clusterReady bootstrapNodeFailed s =
     (let (failNum, succNum) = CalculateBKEMachineBootNum ms;
          allBootFlag = (failNum + succNum = length ns)
      in if allBootFlag then handleAllNodesBootstrapped e s
         else if bootstrapNodeFailed \<and> allBootFlag then handleBootstrapFailure e s
         else if clusterReady \<and> allBootFlag then handleClusterReady e s
         else handleClusterBooting e n s)"

(* src: controllers/capbke/bkemachine_controller_phases.go 875-906 BKEMachineReconciler.reconcileBKEMachine *)
definition reconcileBKEMachine :: "('w, 'o, 'p) mc_env \<Rightarrow> node_spec \<Rightarrow> 'w mc_state \<Rightarrow> 'w mc_state \<times> merge_error option" where
  "reconcileBKEMachine e n s =
     (if HasConditionStatus ''TargetClusterBoot'' (ms_cluster s) ''True'' then (s, None)
      else case mc_run (getClusterInfo e (ms_cluster s)) s of
             (s1, Inl err) \<Rightarrow> (s1, Some (Failed_with err))
           | (s1, Inr (ms, ns)) \<Rightarrow>
               (case checkBootstrapStatus ms (ms_bm s1) ns of
                  (ms', clusterReady, bootstrapNodeFailed) \<Rightarrow> handleClusterState e n ms' ns clusterReady bootstrapNodeFailed s1))"

section \<open>Bootstrapping\<close>

(* src: controllers/capbke/bkemachine_controller_phases.go 1368-1383 setMachineAddress *)
definition setMachineAddress :: "node_spec \<Rightarrow> bke_machine \<Rightarrow> bke_machine" where
  "setMachineAddress n m = m\<lparr>bm_addresses := [(''Hostname'', ns_hostname n), (''InternalIP'', ns_ip n), (''ExternalIP'', ns_ip n)]\<rparr>"

(* src: controllers/capbke/bkemachine_controller_phases.go 1386-1388 setProviderID *)
definition setProviderID :: "string \<Rightarrow> bke_machine \<Rightarrow> bke_machine" where
  "setProviderID pid m = m\<lparr>bm_providerID := Some pid\<rparr>"

(* src: controllers/capbke/bkemachine_controller_phases.go 1298-1325 BKEMachineReconciler.markBKEMachineBootstrapReady *)
definition markBKEMachineBootstrapReady :: "('w, 'o, 'p) mc_env \<Rightarrow> node_spec \<Rightarrow> string \<Rightarrow> 'w mc_state \<Rightarrow> 'w mc_state \<times> merge_error option" where
  "markBKEMachineBootstrapReady e n pid s =
     (let s1 = upd_bm (\<lambda>m. mark_boot ''True'' [] ((setProviderID pid (setMachineAddress n m))\<lparr>bm_ready := True, bm_bootstrapped := True\<rparr>)) s
      in mc_sync e [] (set_node_state e (ns_ip n) ''NotReady'' ''Bootstrap Succeeded'' (mark_node_flag e (ns_ip n) NodeBootFlag s1)))"

(* src: controllers/capbke/bkemachine_controller_phases.go 1329-1365 BKEMachineReconciler.patchOrGetRemoteNodeProviderID *)
definition patchOrGetRemoteNodeProviderID :: "('w, 'o, 'p) mc_env \<Rightarrow> bke_cluster \<Rightarrow> node_spec \<Rightarrow> string \<Rightarrow> 'w \<Rightarrow> 'w \<times> (merge_error + string)" where
  "patchOrGetRemoteNodeProviderID e c node pid w =
     (case tg_connect (mv_target e) c w of
        (w1, Some err) \<Rightarrow> (w1, Inl (Failed_with err))
      | (w1, None) \<Rightarrow>
          (case MockKubeadmConfigConfigmap e w1 of
             (w2, Some err) \<Rightarrow> (w2, Inl (Failed_with err))
           | (w2, None) \<Rightarrow>
               (case mock_kubelet e c w2 of
                  (w3, Some err) \<Rightarrow> (w3, Inl err)
                | (w3, None) \<Rightarrow>
                    (case tg_getNode (mv_target e) (ns_hostname node) w3 of
                       (w4, Inl err) \<Rightarrow> (w4, Inl (Failed_with (ErrMsg (''failed to get remote node '' @ NodeInfo node))))
                     | (w4, Inr remote) \<Rightarrow>
                         (case tg_patchNode (mv_target e) remote
                                 (remote\<lparr>tn_labels := SetBocVersionLabel (tn_labels remote) (boc_version e),
                                         tn_providerID := (if tn_providerID remote = [] then pid else tn_providerID remote)\<rparr>) w4 of
                            (w5, Inl err) \<Rightarrow> (w5, Inl (Failed_with err))
                          | (w5, Inr stored) \<Rightarrow> (w5, Inr (tn_providerID stored)))))))"

(* src: controllers/capbke/bkemachine_controller_phases.go 393-426 BKEMachineReconciler.handleMasterMachineCertificates *)
definition handleMasterMachineCertificates :: "('w, 'o, 'p) mc_env \<Rightarrow> capi_machine \<Rightarrow> 'w attempt" where
  "handleMasterMachineCertificates e m w =
     (case GetMachineAssociateKubeadmConfig (mv_capi e) m w of
        (w1, Inl err) \<Rightarrow> (w1, Some err)
      | (w1, Inr None) \<Rightarrow> (w1, None)
      | (w1, Inr (Some config)) \<Rightarrow>
          (case mv_newConfigHelper e config of
             Some err \<Rightarrow> (w1, Some err)
           | None \<Rightarrow> mv_patchConfig e config
                       (config\<lparr>kc_annotations := AList.update ''machine.cluster.x-k8s.io/certificates-expiry''
                          (mv_expiry e (me_now (mv_merge e) w1)) (kc_annotations config)\<rparr>) w1))"

text \<open>A machine without a reference to its configuration is a panic.\<close>

(* src: controllers/capbke/bkemachine_controller_phases.go 289-307 BKEMachineReconciler.syncKubeadmConfig *)
definition syncKubeadmConfig :: "('w, 'o, 'p) mc_env \<Rightarrow> capi_machine \<Rightarrow> capi_cluster \<Rightarrow> 'w step" where
  "syncKubeadmConfig e m cl w =
     (case ma_configRef m of None \<Rightarrow> (w, Some Panicked)
      | Some (_, name) \<Rightarrow>
          (case ca_getConfig (mv_capi e) (ma_namespace m) name w of
             (w1, Inl _) \<Rightarrow> (w1, None)
           | (w1, Inr config) \<Rightarrow>
               (if mv_newConfigHelper e config \<noteq> None then (w1, None)
                else case GetClusterAPIKubeadmControlPlane (mv_capi e) (Some cl) w1 of
                       (w2, None) \<Rightarrow> (w2, Some Panicked)
                     | (w2, Some (Inl _)) \<Rightarrow> (w2, None)
                     | (w2, Some (Inr kcp)) \<Rightarrow>
                         (case mv_planeConfig e kcp of (cc, ic, jc) \<Rightarrow>
                            (fst (mv_patchConfig e config (config\<lparr>kc_cluster := cc, kc_init := ic, kc_join := jc\<rparr>) w2), None)))))"

definition BKEMachineProviderIDAnnotationKey :: string where
  "BKEMachineProviderIDAnnotationKey = ''bke.bocloud.com/providerID''"

definition bind_node :: "string \<Rightarrow> node_spec \<Rightarrow> bke_machine \<Rightarrow> bke_machine" where
  "bind_node role n m = m\<lparr>bm_labels := SetBKEMachineLabel (bm_labels m) role (ns_ip n), bm_node := Some n\<rparr>"

text \<open>The body of \<^verbatim>\<open>handleFakeBootstrap\<close> after its patch helper; the machine is patched and the node is forgotten on every path.\<close>

definition fake_body :: "('w, 'o, 'p) mc_env \<Rightarrow> node_spec \<Rightarrow> string \<Rightarrow> 'w mc_state \<Rightarrow> 'w mc_state \<times> mc_result" where
  "fake_body e node role s =
     (let pid = GenerateProviderID (ms_cluster s) node
      in case mc_run (patchOrGetRemoteNodeProviderID e (ms_cluster s) node pid) s of
           (s1, Inl Panicked) \<Rightarrow> (s1, (no_requeue, [Panicked]))
         | (s1, Inl (Failed_with _)) \<Rightarrow> (s1, (requeue_later, []))
         | (s1, Inr real) \<Rightarrow>
             (let s2 = (if IsControlPlaneMachine (ms_machine s1) then mc_quiet (handleMasterMachineCertificates e (ms_machine s1)) s1 else s1)
              in case markBKEMachineBootstrapReady e node real s2 of
                   (s3, Some Panicked) \<Rightarrow> (s3, (no_requeue, [Panicked]))
                 | (s3, Some (Failed_with _)) \<Rightarrow> (s3, mc_done)
                 | (s3, None) \<Rightarrow>
                     (case reconcileBKEMachine e node s3 of
                        (s4, Some Panicked) \<Rightarrow> (s4, (no_requeue, [Panicked]))
                      | (s4, Some (Failed_with _)) \<Rightarrow> (s4, mc_done)
                      | (s4, None) \<Rightarrow>
                          (upd_bm (\<lambda>m. bind_node role node (m\<lparr>bm_annotations := AList.update BKEMachineProviderIDAnnotationKey pid (bm_annotations m)\<rparr>))
                             (s4\<lparr>ms_machine := (ms_machine s4)\<lparr>ma_annotations := AList.update BKEMachineProviderIDAnnotationKey pid (ma_annotations (ms_machine s4))\<rparr>\<rparr>),
                           mc_done))))"

(* src: controllers/capbke/bkemachine_controller_phases.go 337-390 BKEMachineReconciler.handleFakeBootstrap *)
definition handleFakeBootstrap :: "('w, 'o, 'p) mc_env \<Rightarrow> node_spec \<Rightarrow> string \<Rightarrow> 'w mc_state \<Rightarrow> 'w mc_state \<times> mc_result" where
  "handleFakeBootstrap e node role s =
     (case mv_newMachineHelper e (ms_machine s) of
        Some err \<Rightarrow> (forget_node (ns_ip node) s, mc_fail err)
      | None \<Rightarrow> (case fake_body e node role s of
                  (s1, r) \<Rightarrow> (forget_node (ns_ip node) (mc_quiet (mv_patchMachine e (ms_machine s) (ms_machine s1)) s1), r)))"

definition machine_base :: "string \<Rightarrow> string \<Rightarrow> bool \<Rightarrow> bool \<Rightarrow> base_command" where
  "machine_base ns cluster removeAfterWait forceRemove =
     \<lparr>bcm_hasClient = True, bcm_hasScheme = True, bcm_nameSpace = ns, bcm_clusterName = cluster, bcm_removeAfterWait = removeAfterWait,
      bcm_unique = True, bcm_forceRemove = forceRemove, bcm_commandName = [], bcm_command = None\<rparr>"

(* src: controllers/capbke/bkemachine_controller_phases.go 429-478 BKEMachineReconciler.handleRealBootstrap *)
definition handleRealBootstrap :: "('w, 'o, 'p) mc_env \<Rightarrow> node_spec \<Rightarrow> string \<Rightarrow> string \<Rightarrow> 'w mc_state \<Rightarrow> 'w mc_state \<times> mc_result" where
  "handleRealBootstrap e node role phase s =
     (case mc_run (\<lambda>w. case Bootstrap_New (mv_cmd e (bm_uid (ms_bm s))) (machine_base (bm_namespace (ms_bm s)) (bc_name (ms_cluster s)) False False)
                          node (bc_name (ms_cluster s)) phase (int (me_now (mv_merge e) w)) w of (_, w', r) \<Rightarrow> (w', r)) s of
        (s1, Some err) \<Rightarrow>
          (let errInfo = ''Failed to create bootstrap command'';
               s2 = set_node_state e (ns_ip node) ''BootStrapFailed'' errInfo (mark_cluster e ''False'' ''CommandCreateFailed'' errInfo s1)
           in case mc_sync e [] s2 of
                (s3, Some err') \<Rightarrow> (s3, (no_requeue, [err']))
              | (s3, None) \<Rightarrow> (s3, mc_fail err))
      | (s1, None) \<Rightarrow> (upd_bm (bind_node role node) s1, mc_done))"

(* src: controllers/capbke/bkemachine_controller_phases.go 210-286 BKEMachineReconciler.handleFirstTimeReconciliation *)
definition handleFirstTimeReconciliation :: "('w, 'o, 'p) mc_env \<Rightarrow> capi_cluster \<Rightarrow> 'w mc_state \<Rightarrow> 'w mc_state \<times> mc_result" where
  "handleFirstTimeReconciliation e cl s =
     (if \<not> IsControlPlaneMachine (ms_machine s) \<and> cp_initialized cl \<noteq> Some ''True''
      then (upd_bm (mark_boot ''False'' ''WaitingForControlPlaneAvailable'') s, mc_done)
      else case (if IsControlPlaneMachine (ms_machine s) then mc_run (syncKubeadmConfig e (ms_machine s) cl) s else (s, None)) of
             (s1, Some err) \<Rightarrow> (s1, (no_requeue, [err]))
           | (s1, None) \<Rightarrow>
      (let role = getMachineRole (ms_machine s1)
       in case mc_run (getRoleNodes e (ms_cluster s1) role) s1 of
            (s2, Inl _) \<Rightarrow> (s2, mc_done)
          | (s2, Inr roleNodes) \<Rightarrow>
      (case mc_run (getBootstrapPhase e (ms_machine s2) cl) s2 of
         (s3, Inl _) \<Rightarrow> (s3, (requeue_later, []))
       | (s3, Inr phase) \<Rightarrow>
      (case filterAvailableNode e roleNodes phase s3 of
         (s4, Inl Panicked) \<Rightarrow> (s4, (no_requeue, [Panicked]))
       | (s4, Inl (Failed_with _)) \<Rightarrow> (s4, mc_done)
       | (s4, Inr node) \<Rightarrow>
      (let s5 = (if phase = ''InitControlPlane'' then mark_node_flag e (ns_ip node) MasterInitFlag s4 else s4)
       in case mc_sync e [] (set_node_state e (ns_ip node) ''BootStrapping'' ''Start bootstrap'' s5) of
            (s6, Some err) \<Rightarrow> (s6, (no_requeue, [err]))
          | (s6, None) \<Rightarrow>
              (if \<not> FullyControlled (ms_cluster s6) then handleFakeBootstrap e node role s6
               else handleRealBootstrap e node role phase s6))))))"

(* src: controllers/capbke/bkemachine_controller_phases.go 181-207 BKEMachineReconciler.reconcileBootstrap *)
definition reconcileBootstrap :: "('w, 'o, 'p) mc_env \<Rightarrow> capi_cluster \<Rightarrow> 'w mc_state \<Rightarrow> 'w mc_state \<times> mc_result" where
  "reconcileBootstrap e cl s =
     (if bm_bootstrapped (ms_bm s) then (s, mc_done)
      else case mv_newHelper e (ms_bm s) of
             Some err \<Rightarrow> (s, mc_fail err)
           | None \<Rightarrow>
               (case (if CheckBKEMachineLabel (bm_labels (ms_bm s)) \<noteq> None then (s, mc_done) else handleFirstTimeReconciliation e cl s) of
                  (s1, r) \<Rightarrow> (fst (patchBKEMachine e (ms_bm s) s1), r)))"

section \<open>Commands of a machine\<close>

text \<open>The text of a selector is never empty: \<^verbatim>\<open>nil\<close> for a missing one; what stands in the braces is left out.\<close>

definition selector_text :: "string gomap option \<Rightarrow> string" where
  "selector_text sel = (case sel of None \<Rightarrow> ''nil'' | Some _ \<Rightarrow> ''&LabelSelector{}'')"

(* src: pkg/command/command.go 482-488 ValidateCommand *)
definition ValidateCommand :: "command \<Rightarrow> string option" where
  "ValidateCommand c =
     (if csp_nodeName (cmd_spec c) = [] \<and> selector_text (csp_nodeSelector (cmd_spec c)) = []
      then Some ''not a valid command,at least provide a node name or NodeSelector'' else None)"

(* src: pkg/command/command.go 537-544 IsOwnerRefCommand *)
definition IsOwnerRefCommand :: "string \<Rightarrow> owned_command \<Rightarrow> bool" where
  "IsOwnerRefCommand uid c \<longleftrightarrow> uid \<in> set (oc_owners c)"

definition CommandReconciledAnnotationKey :: string where
  "CommandReconciledAnnotationKey = ''bke.bocloud.com/command-reconciled''"

(* src: controllers/capbke/bkemachine_controller.go 746-769 getBKEMachineAssociateCommands *)
definition getBKEMachineAssociateCommands :: "('w, 'o, 'p) mc_env \<Rightarrow> bke_cluster \<Rightarrow> bke_machine \<Rightarrow> ('w, owned_command list) node_read" where
  "getBKEMachineAssociateCommands e c m =
     (case GetListFiltersByBKECluster c of (ns, labels) \<Rightarrow>
        map_read (filter (\<lambda>cmd. IsOwnerRefCommand (bm_uid m) cmd \<and> \<not> has_key (oc_annotations cmd) CommandReconciledAnnotationKey \<and>
            ValidateCommand (command.truncate cmd) = None)) (mv_commands e ns labels))"

(* src: controllers/capbke/bkemachine_controller_phases.go 680-692 BKEMachineReconciler.markCommandReconciled *)
definition markCommandReconciled :: "('w, 'o, 'p) mc_env \<Rightarrow> owned_command \<Rightarrow> 'w mc_state \<Rightarrow> 'w mc_state \<times> merge_error list" where
  "markCommandReconciled e cmd s =
     (case mc_run (RetryOnConflict (ca_retry (mv_capi e)) (\<lambda>u.
             case mv_getCommand e (cmd_namespace cmd) (cmd_name cmd) u of
               (u1, Inl err) \<Rightarrow> (u1, Some err)
             | (u1, Inr latest) \<Rightarrow>
                 mv_updateCommand e (latest\<lparr>oc_annotations := AList.update CommandReconciledAnnotationKey ''true'' (oc_annotations latest)\<rparr>) u1)) s of
        (s1, None) \<Rightarrow> (s1, []) | (s1, Some err) \<Rightarrow> (s1, [Failed_with err]))"

text \<open>A list of error lines that is empty but not nil is taken as nil.\<close>

(* src: controllers/capbke/bkemachine_controller.go 627-645 BKEMachineReconciler.LogCommandFailed *)
definition machine_LogCommandFailed :: "owned_command \<Rightarrow> string list \<Rightarrow> string" where
  "machine_LogCommandFailed cmd nodes =
     (let conditions = concat (map (\<lambda>n. case map_of (status_map (command.truncate cmd)) n of None \<Rightarrow> [] | Some st \<Rightarrow> cst_conditions st) nodes)
      in case find (\<lambda>c. ac_status c = ConditionFalse \<and> ac_stdErr c \<noteq> []) conditions of None \<Rightarrow> [] | Some c \<Rightarrow> last (ac_stdErr c))"

type_synonym command_result = "bool \<times> string list \<times> string list"

definition end_sync :: "('w, 'o, 'p) mc_env \<Rightarrow> merge_error list \<Rightarrow> 'w mc_state \<Rightarrow> 'w mc_state \<times> mc_result" where
  "end_sync e errs s = (case mc_sync e [] s of (s1, err) \<Rightarrow> (s1, (no_requeue, errs @ errors_of err)))"

(* src: controllers/capbke/bkemachine_controller_phases.go 695-754 BKEMachineReconciler.processBootstrapFailure *)
definition processBootstrapFailure :: "('w, 'o, 'p) mc_env \<Rightarrow> capi_cluster \<Rightarrow> node_spec \<Rightarrow> owned_command \<Rightarrow> string list \<Rightarrow> string \<Rightarrow>
    merge_error list \<Rightarrow> 'w mc_state \<Rightarrow> 'w mc_state \<times> mc_result" where
  "processBootstrapFailure e cl node cmd failedNodes role errs s =
     (let output = machine_LogCommandFailed cmd failedNodes;
          s1 = upd_bm (mark_boot ''False'' ''NodeBootStrapFailed'') (set_node_state e (ns_ip node) ''BootStrapFailed'' output s)
      in case reconcileBKEMachine e node s1 of
           (s2, Some Panicked) \<Rightarrow> (s2, (no_requeue, [Panicked]))
         | (s2, _) \<Rightarrow>
             (case markCommandReconciled e cmd s2 of
                (s3, errs') \<Rightarrow>
                  (if cp_initialized cl \<noteq> Some ''True'' then end_sync e (errs @ errs') s3
                   else end_sync e (errs @ errs') (upd_bm (\<lambda>m. m\<lparr>bm_labels := RemoveBKEMachineLabel (bm_labels m) role\<rparr>) s3))))"

text \<open>The poll of \<^verbatim>\<open>connectToTargetClusterNode\<close>: at once and every five seconds for four minutes, \<open>mv_connectTries\<close> times.\<close>

(* src: controllers/capbke/bkemachine_controller_phases.go 758-780 BKEMachineReconciler.connectToTargetClusterNode (poll) *)
fun connect_loop :: "('w, 'o, 'p) mc_env \<Rightarrow> nat \<Rightarrow> string \<Rightarrow> string \<Rightarrow> node_spec \<Rightarrow> 'w step" where
  "connect_loop e 0 ns name node w = (w, Some (Failed_with (ErrMsg ''timed out waiting for the condition'')))"
| "connect_loop e (Suc k) ns name node w =
     (case GetCombinedBKECluster (mv_merge e) ns name w of
        (w1, Inl err) \<Rightarrow> (w1, Some err)
      | (w1, Inr c) \<Rightarrow>
          (if st_clusterStatus (bc_status c) = ''Deleting'' then (w1, None)
           else case checkTargetClusterNode e c node w1 of
                  (w2, None) \<Rightarrow> (w2, None)
                | (w2, Some Panicked) \<Rightarrow> (w2, Some Panicked)
                | (w2, Some (Failed_with _)) \<Rightarrow> connect_loop e k ns name node w2))"

(* src: controllers/capbke/bkemachine_controller_phases.go 757-781 BKEMachineReconciler.connectToTargetClusterNode *)
definition connectToTargetClusterNode :: "('w, 'o, 'p) mc_env \<Rightarrow> node_spec \<Rightarrow> 'w mc_state \<Rightarrow> 'w mc_state \<times> merge_error option" where
  "connectToTargetClusterNode e node s =
     mc_run (connect_loop e (mv_connectTries e) (bc_namespace (ms_cluster s)) (bc_name (ms_cluster s)) node) s"

(* src: controllers/capbke/bkemachine_controller_phases.go 784-802 BKEMachineReconciler.handleBootstrapSuccessFailure *)
definition handleBootstrapSuccessFailure :: "('w, 'o, 'p) mc_env \<Rightarrow> node_spec \<Rightarrow> api_error \<Rightarrow> ctrl_outcome \<Rightarrow> merge_error list \<Rightarrow>
    'w mc_state \<Rightarrow> 'w mc_state \<times> mc_result" where
  "handleBootstrapSuccessFailure e node err res errs s =
     (let errInfo = ''4 Minute after, the target cluster node '' @ NodeInfo node @ '' is still unavailable,err: '' @ mv_errorText e err;
          res1 = mv_lowest e res requeue_later
      in case mc_sync e [] (mark_cluster e ''False'' ''NodeBootStrapFailed'' errInfo (set_node_state e (ns_ip node) ''BootStrapFailed'' errInfo s)) of
           (s1, None) \<Rightarrow> (s1, (res1, errs))
         | (s1, Some Panicked) \<Rightarrow> (s1, (no_requeue, [Panicked]))
         | (s1, Some (Failed_with _)) \<Rightarrow> (s1, (mv_lowest e res1 requeue_later, errs)))"

(* src: controllers/capbke/bkemachine_controller_phases.go 805-834 BKEMachineReconciler.processBootstrapSuccess *)
definition processBootstrapSuccess :: "('w, 'o, 'p) mc_env \<Rightarrow> node_spec \<Rightarrow> owned_command \<Rightarrow> ctrl_outcome \<Rightarrow> merge_error list \<Rightarrow>
    'w mc_state \<Rightarrow> 'w mc_state \<times> mc_result" where
  "processBootstrapSuccess e node cmd res errs s =
     (case connectToTargetClusterNode e node s of
        (s1, Some Panicked) \<Rightarrow> (s1, (no_requeue, [Panicked]))
      | (s1, Some (Failed_with err)) \<Rightarrow> handleBootstrapSuccessFailure e node err res errs s1
      | (s1, None) \<Rightarrow>
          (if st_clusterStatus (bc_status (ms_cluster s1)) = ''Deleting'' then (s1, mc_done)
           else case markBKEMachineBootstrapReady e node (GenerateProviderID (ms_cluster s1) node) s1 of
                  (s2, Some Panicked) \<Rightarrow> (s2, (no_requeue, [Panicked]))
                | (s2, err2) \<Rightarrow>
                    (case markCommandReconciled e cmd s2 of
                       (s3, errs3) \<Rightarrow>
                         (case reconcileBKEMachine e node s3 of
                            (s4, err4) \<Rightarrow> (s4, (res, errs @ errors_of err2 @ errs3 @ errors_of err4))))))"

(* src: controllers/capbke/bkemachine_controller_phases.go 622-677 BKEMachineReconciler.processBootstrapCommand *)
definition processBootstrapCommand :: "('w, 'o, 'p) mc_env \<Rightarrow> capi_cluster \<Rightarrow> node_spec \<Rightarrow> owned_command \<Rightarrow> command_result \<Rightarrow>
    ctrl_outcome \<Rightarrow> merge_error list \<Rightarrow> 'w mc_state \<Rightarrow> 'w mc_state \<times> mc_result" where
  "processBootstrapCommand e cl node cmd cr res errs s0 =
     (let s = forget_node (ns_ip node) s0
      in case cr of (complete, succNodes, failedNodes) \<Rightarrow>
           if bm_bootstrapped (ms_bm s) then (s, (res, errs))
           else if st_clusterStatus (bc_status (ms_cluster s)) = ''Deleting'' then (s, (res, errs))
           else if complete \<and> failedNodes \<noteq> []
           then processBootstrapFailure e cl node cmd failedNodes (getMachineRole (ms_machine s)) errs s
           else if complete \<and> failedNodes = [] \<and> length succNodes = 1
           then processBootstrapSuccess e node cmd res errs s
           else (s, (res, errs)))"

(* src: pkg/phaseframe/phases/common.go 237-249 DeleteTargetClusterNode *)
definition DeleteTargetClusterNode :: "'w target_api \<Rightarrow> bke_cluster \<Rightarrow> string \<Rightarrow> 'w attempt" where
  "DeleteTargetClusterNode t c name w =
     (if name = [] then (w, None)
      else case tg_connect t c w of
             (w1, Some err) \<Rightarrow> (w1, Some err)
           | (w1, None) \<Rightarrow>
               (case tg_deleteNode t name w1 of
                  (w2, None) \<Rightarrow> (w2, None)
                | (w2, Some err) \<Rightarrow> (w2, if IsNotFound err then None else Some err)))"

(* src: controllers/capbke/bkemachine_controller_phases.go 837-872 BKEMachineReconciler.processResetCommand *)
definition processResetCommand :: "('w, 'o, 'p) mc_env \<Rightarrow> bke_machine \<Rightarrow> node_spec \<Rightarrow> command_result \<Rightarrow> ctrl_outcome \<Rightarrow> merge_error list \<Rightarrow>
    'w mc_state \<Rightarrow> 'w mc_state \<times> mc_result" where
  "processResetCommand e before node cr res errs s =
     (let release = (\<lambda>s. (fst (patchBKEMachine e before (upd_bm drop_finalizer s)), (no_requeue\<lparr>co_requeue := True\<rparr>, errs)))
      in case cr of (complete, succNodes, failedNodes) \<Rightarrow>
           if succNodes = [] then release s
           else if complete \<and> failedNodes = [] \<and> length succNodes = 1
           then (let s1 = mc_quiet (DeleteBKENodeForCluster (mv_nodes e) (ms_cluster s) (ns_ip node)) s;
                     s2 = (if ns_hostname node \<noteq> [] then mc_quiet (DeleteTargetClusterNode (mv_target e) (ms_cluster s1) (ns_hostname node)) s1 else s1)
                 in case mc_sync e [] s2 of
                      (s3, None) \<Rightarrow> release s3
                    | (s3, Some Panicked) \<Rightarrow> (s3, (no_requeue, [Panicked]))
                    | (s3, Some (Failed_with _)) \<Rightarrow> (s3, (mv_lowest e res requeue_later, errs)))
           else (s, (res, errs)))"

(* src: controllers/capbke/bkemachine_controller_phases.go 554-619 BKEMachineReconciler.processCommand *)
definition processCommand :: "('w, 'o, 'p) mc_env \<Rightarrow> capi_cluster \<Rightarrow> bke_machine \<Rightarrow> nodes \<Rightarrow> string \<Rightarrow> owned_command \<Rightarrow>
    ctrl_outcome \<Rightarrow> merge_error list \<Rightarrow> 'w mc_state \<Rightarrow> 'w mc_state \<times> mc_result" where
  "processCommand e cl before ns hostIp cmd res errs s =
     (case nodes_Filter ns [(''IP'', hostIp)] of
        [] \<Rightarrow> (s, (res, errs))
      | node # _ \<Rightarrow>
          (case CheckCommandStatus (command.truncate cmd) of
             None \<Rightarrow> (s, (no_requeue, [Panicked]))
           | Some cr \<Rightarrow>
               (if HasPrefix (cmd_name cmd) ''bootstrap-'' then processBootstrapCommand e cl node cmd cr res errs s
                else if HasPrefix (cmd_name cmd) ''reset-node-'' then processResetCommand e before node cr res errs s
                else (s, (res, errs)))))"

fun process_commands :: "('w, 'o, 'p) mc_env \<Rightarrow> capi_cluster \<Rightarrow> bke_machine \<Rightarrow> nodes \<Rightarrow> string \<Rightarrow> owned_command list \<Rightarrow>
    ctrl_outcome \<Rightarrow> merge_error list \<Rightarrow> 'w mc_state \<Rightarrow> 'w mc_state \<times> mc_result" where
  "process_commands e cl before ns hostIp [] res errs s = (s, (res, errs))"
| "process_commands e cl before ns hostIp (cmd # cmds) res errs s =
     (case processCommand e cl before ns hostIp cmd res errs s of
        (s', (res', errs')) \<Rightarrow> if Panicked \<in> set errs' then (s', (res', errs')) else process_commands e cl before ns hostIp cmds res' errs' s')"

(* src: controllers/capbke/bkemachine_controller_phases.go 544-551 BKEMachineReconciler.selectAppropriateNodes *)
definition selectAppropriateNodes :: "('w, 'o, 'p) mc_env \<Rightarrow> bke_cluster \<Rightarrow> ('w, nodes) node_read" where
  "selectAppropriateNodes e c = GetNodesForBKECluster (mv_nodes e) c"

definition command_body :: "('w, 'o, 'p) mc_env \<Rightarrow> capi_cluster \<Rightarrow> 'w mc_state \<Rightarrow> 'w mc_state \<times> mc_result" where
  "command_body e cl s =
     (case mc_run (getBKEMachineAssociateCommands e (ms_cluster s) (ms_bm s)) s of
        (s1, Inl err) \<Rightarrow> (s1, mc_fail err)
      | (s1, Inr []) \<Rightarrow> (s1, mc_done)
      | (s1, Inr cmds) \<Rightarrow>
          (case mc_run (selectAppropriateNodes e (ms_cluster s1)) s1 of
             (s2, Inl err) \<Rightarrow> (s2, mc_fail err)
           | (s2, Inr ns) \<Rightarrow>
               (case CheckBKEMachineLabel (bm_labels (ms_bm s2)) of
                  None \<Rightarrow> (s2, mc_done)
                | Some hostIp \<Rightarrow> process_commands e cl (ms_bm s) ns hostIp cmds no_requeue [] s2)))"

(* src: controllers/capbke/bkemachine_controller_phases.go 481-541 BKEMachineReconciler.reconcileCommand *)
definition reconcileCommand :: "('w, 'o, 'p) mc_env \<Rightarrow> capi_cluster \<Rightarrow> 'w mc_state \<Rightarrow> 'w mc_state \<times> mc_result" where
  "reconcileCommand e cl s =
     (case mv_newHelper e (ms_bm s) of
        Some err \<Rightarrow> (s, mc_fail err)
      | None \<Rightarrow>
          (case command_body e cl s of
             (s1, r) \<Rightarrow> ((if has_finalizer (ms_bm s1) then fst (patchBKEMachine e (ms_bm s) s1) else s1), r)))"

section \<open>Deleting a machine\<close>

(* src: controllers/capbke/bkemachine_controller.go 78-85 buildResetExtraCleanupArgsForNode *)
definition buildResetExtraCleanupArgsForNode :: "node_spec option \<Rightarrow> string list \<Rightarrow> string list" where
  "buildResetExtraCleanupArgsForNode node extras =
     extras @ [''/root/.kube/config''] @
     (case node of None \<Rightarrow> []
      | Some n \<Rightarrow> if ns_username n \<noteq> [] \<and> ns_username n \<noteq> ''root'' then [''/home/'' @ ns_username n @ ''/.kube/config''] else [])"

(* src: controllers/capbke/bkemachine_controller.go 704-722 bkeMachineToNode *)
definition bkeMachineToNode :: "bke_machine \<Rightarrow> nodes \<Rightarrow> string + node_spec" where
  "bkeMachineToNode m ns =
     (case bm_node m of Some n \<Rightarrow> Inr n
      | None \<Rightarrow>
          (case CheckBKEMachineLabel (bm_labels m) of
             None \<Rightarrow> Inl (''bke machine '' @ bm_name m @ '' label is not found'')
           | Some hostIP \<Rightarrow>
               (case nodes_Filter ns [(''IP'', hostIP)] of
                  [] \<Rightarrow> Inr \<lparr>ns_role = [], ns_ip = hostIP, ns_port = [], ns_username = [], ns_password = [], ns_hostname = [],
                          ns_controlPlane = zero_control_plane, ns_kubelet = None, ns_labels = []\<rparr>
                | n # _ \<Rightarrow> Inr n)))"

(* src: controllers/capbke/bkemachine_controller.go 736-743 isMarkDeletion *)
definition isMarkDeletion :: "bke_machine \<Rightarrow> bool" where
  "isMarkDeletion m = has_key (bm_annotations m) DeleteMachineAnnotation"

(* src: controllers/capbke/bkemachine_controller.go 725-733 markBKEMachineDeletion *)
definition markBKEMachineDeletion :: "('w, 'o, 'p) mc_env \<Rightarrow> bke_machine \<Rightarrow> 'w mc_state \<Rightarrow> 'w mc_state \<times> api_error option" where
  "markBKEMachineDeletion e before s =
     patchBKEMachine e before (upd_bm (\<lambda>m. m\<lparr>bm_annotations := AList.update DeleteMachineAnnotation [] (bm_annotations m)\<rparr>) s)"

definition release_node :: "('w, 'o, 'p) mc_env \<Rightarrow> string \<Rightarrow> 'w mc_state \<Rightarrow> 'w mc_state" where
  "release_node e ip s =
     (let s1 = forget_node ip s
      in fst (mc_sync e [\<lambda>c. RemoveAppointmentDeletedNodes c ip] (mc_quiet (DeleteBKENodeForCluster (mv_nodes e) (ms_cluster s1) ip) s1)))"

(* src: controllers/capbke/bkemachine_controller.go 342-361 BKEMachineReconciler.handlePreDeletionCleanup *)
definition handlePreDeletionCleanup :: "('w, 'o, 'p) mc_env \<Rightarrow> 'w mc_state \<Rightarrow> 'w mc_state" where
  "handlePreDeletionCleanup e s =
     (if has_finalizer (ms_bm s) then s
      else case CheckBKEMachineLabel (bm_labels (ms_bm s)) of
             None \<Rightarrow> s | Some ip \<Rightarrow> if ip = [] then s else release_node e ip s)"

(* src: controllers/capbke/bkemachine_controller.go 364-370 BKEMachineReconciler.handleAlreadyMarkedDeletion *)
definition handleAlreadyMarkedDeletion :: "('w, 'o, 'p) mc_env \<Rightarrow> capi_cluster \<Rightarrow> 'w mc_state \<Rightarrow> 'w mc_state \<times> mc_result" where
  "handleAlreadyMarkedDeletion e cl s = (if \<not> has_finalizer (ms_bm s) then (s, mc_done) else reconcileCommand e cl s)"

(* src: controllers/capbke/bkemachine_controller.go 373-388 BKEMachineReconciler.setupDeletionProcess *)
definition setupDeletionProcess :: "('w, 'o, 'p) mc_env \<Rightarrow> 'w mc_state \<Rightarrow> 'w mc_state \<times> api_error option" where
  "setupDeletionProcess e s =
     (case mv_newHelper e (ms_bm s) of Some err \<Rightarrow> (s, Some err) | None \<Rightarrow> markBKEMachineDeletion e (ms_bm s) s)"

(* src: controllers/capbke/bkemachine_controller.go 391-407 BKEMachineReconciler.getNodeForDeletion *)
definition getNodeForDeletion :: "('w, 'o, 'p) mc_env \<Rightarrow> 'w mc_state \<Rightarrow> 'w mc_state \<times> (api_error + node_spec)" where
  "getNodeForDeletion e s =
     (case mc_run (GetNodesForBKECluster (mv_nodes e) (ms_cluster s)) s of
        (s1, Inl err) \<Rightarrow> (upd_bm drop_finalizer s1, Inl err)
      | (s1, Inr ns) \<Rightarrow>
          (case bkeMachineToNode (ms_bm s1) ns of
             Inl err \<Rightarrow> (upd_bm drop_finalizer s1, Inl (ErrMsg err))
           | Inr n \<Rightarrow> (s1, Inr n)))"

(* src: controllers/capbke/bkemachine_controller.go 410-426 BKEMachineReconciler.handlePostNodeSetupCleanup *)
definition handlePostNodeSetupCleanup :: "('w, 'o, 'p) mc_env \<Rightarrow> node_spec \<Rightarrow> 'w mc_state \<Rightarrow> 'w mc_state" where
  "handlePostNodeSetupCleanup e n s = (if has_finalizer (ms_bm s) then s else release_node e (ns_ip n) s)"

definition DeleteIgnoreTargetClusterAnnotationKey :: string where
  "DeleteIgnoreTargetClusterAnnotationKey = ''bke.bocloud.com/ignore-target-cluster-delete''"

(* src: controllers/capbke/bkemachine_controller.go 429-459 BKEMachineReconciler.shouldSkipDeletion *)
definition shouldSkipDeletion :: "('w, 'o, 'p) mc_env \<Rightarrow> node_spec \<Rightarrow> 'w mc_state \<Rightarrow> 'w mc_state \<times> bool" where
  "shouldSkipDeletion e n s =
     (let c = ms_cluster s; v = HasAnnotation c DeleteIgnoreTargetClusterAnnotationKey
      in if HasConditionStatus ''SwitchBKEAgent'' c ''True'' then (s, True)
         else if st_clusterStatus (bc_status c) = ''Deleting'' \<and> (v = Some ''true'' \<or> v = None) then (s, True)
         else case mc_run (GetNodeStateFlagForCluster (mv_nodes e) c (ns_ip n) (flag_value NodeAgentReadyFlag)) s of
                (s1, Inl _) \<Rightarrow> (s1, False)
              | (s1, Inr ready) \<Rightarrow> (s1, \<not> ready))"

(* src: pkg/phaseframe/phases/ensure_delete_or_reset.go 470-483 createShutdownAgentCommandSpec *)
definition createShutdownAgentCommandSpec :: command_spec where
  "createShutdownAgentCommandSpec =
     GenerateDefaultCommandSpec\<lparr>csp_commands := [builtin_command ''Shutdown agent'' [''Shutdown''] False 0]\<rparr>"

(* src: pkg/phaseframe/phases/ensure_delete_or_reset.go 519-548 ShutdownAgentOnSingleNodeWithParams *)
definition ShutdownAgentOnSingleNodeWithParams :: "('w, 'o, 'p) mc_env \<Rightarrow> bke_cluster \<Rightarrow> node_spec \<Rightarrow> 'w attempt" where
  "ShutdownAgentOnSingleNodeWithParams e c node w =
     (let api = mv_cmd e (bc_uid c)
      in case Custom_New api (machine_base (bc_namespace c) (bc_name c) True True) [node] (''shutdown-bkeagent-'' @ ns_ip node)
                (Some createShutdownAgentCommandSpec) BKEClusterLabel w of
           (_, w1, Some err) \<Rightarrow> (w1, Some err)
         | (b, w1, None) \<Rightarrow> (case waitCommandComplete api (mv_polls e) b w1 of None \<Rightarrow> (w1, None) | Some (_, w2, _) \<Rightarrow> (w2, None)))"

(* src: controllers/capbke/bkemachine_controller.go 532-549 BKEMachineReconciler.shutdownAgent *)
definition shutdownAgent :: "('w, 'o, 'p) mc_env \<Rightarrow> node_spec \<Rightarrow> 'w mc_state \<Rightarrow> 'w mc_state \<times> api_error option" where
  "shutdownAgent e node s =
     (case mc_run (ShutdownAgentOnSingleNodeWithParams e (ms_cluster s) node) s of
        (s1, Some err) \<Rightarrow> (s1, Some err) | (s1, None) \<Rightarrow> (upd_bm drop_finalizer s1, None))"

text \<open>What is cleaned up beside the node itself: the address of a load balancer and the one of the ingress.\<close>

definition reset_extra :: "bke_cluster \<Rightarrow> nodes option \<Rightarrow> product list \<Rightarrow> string list" where
  "reset_extra c ns addons =
     (let host = ep_host (bs_controlPlaneEndpoint (bc_spec c)); vip = fst (GetIngressConfig addons)
      in (case ns of None \<Rightarrow> [] | Some l \<Rightarrow> if AvailableLoadBalancerEndPoint (bs_controlPlaneEndpoint (bc_spec c)) l then [host] else [])
         @ (if vip \<noteq> [] \<and> vip \<noteq> host then [vip] else []))"

(* src: controllers/capbke/bkemachine_controller.go 462-529 BKEMachineReconciler.executeResetCommand *)
definition executeResetCommand :: "('w, 'o, 'p) mc_env \<Rightarrow> node_spec \<Rightarrow> 'w mc_state \<Rightarrow> 'w mc_state \<times> mc_result" where
  "executeResetCommand e node s =
     (case mc_run (GetNodesForBKECluster (mv_nodes e) (ms_cluster s)) s of
        (s1, r) \<Rightarrow>
          (case bs_clusterConfig (bc_spec (ms_cluster s1)) of
             None \<Rightarrow> (s1, (no_requeue, [Panicked]))
           | Some config \<Rightarrow>
               (let c = ms_cluster s1; api = mv_cmd e (bm_uid (ms_bm s1));
                    extras = buildResetExtraCleanupArgsForNode (Some node)
                              (reset_extra c (case r of Inl _ \<Rightarrow> None | Inr ns \<Rightarrow> Some ns) (cs_addons config));
                    w = snd (ms_world s1)
                in case Reset_New api (machine_base (bc_namespace c) (bc_name c) True False) (Some node) (bc_name c) extras (int (me_now (mv_merge e) w)) w of
                     (_, w2, Some err) \<Rightarrow>
                       (let s2 = s1\<lparr>ms_world := (fst (ms_world s1), w2)\<rparr>
                        in (if err = ApiNamespaceTerminating then upd_bm drop_finalizer s2 else s2, mc_done))
                   | (b, w2, None) \<Rightarrow>
                       (case waitCommandComplete api (mv_polls e) b w2 of
                          None \<Rightarrow> (s1\<lparr>ms_world := (fst (ms_world s1), w2)\<rparr>, (no_requeue, [Panicked]))
                        | Some (_, w3, (_, _, failedNodes), err) \<Rightarrow>
                            (let s3 = s1\<lparr>ms_world := (fst (ms_world s1), w3)\<rparr>
                             in if err \<noteq> None \<or> failedNodes \<noteq> [] then (upd_bm drop_finalizer s3, mc_done)
                                else case shutdownAgent e node s3 of
                                       (s4, Some _) \<Rightarrow> (upd_bm drop_finalizer s4, mc_done)
                                     | (s4, None) \<Rightarrow> (s4, mc_done))))))"

definition delete_node :: "('w, 'o, 'p) mc_env \<Rightarrow> node_spec \<Rightarrow> 'w mc_state \<Rightarrow> 'w mc_state \<times> mc_result" where
  "delete_node e node s =
     (case shouldSkipDeletion e node s of
        (s1, True) \<Rightarrow> (upd_bm drop_finalizer s1, mc_done)
      | (s1, False) \<Rightarrow> executeResetCommand e node s1)"

text \<open>The body of a first deletion after it was set up: its patch is deferred by the caller.\<close>

definition delete_body :: "('w, 'o, 'p) mc_env \<Rightarrow> 'w mc_state \<Rightarrow> 'w mc_state \<times> mc_result" where
  "delete_body e s =
     (case getNodeForDeletion e s of
        (s1, Inl err) \<Rightarrow> (s1, mc_fail err)
      | (s1, Inr node) \<Rightarrow>
          (case mc_sync e [] (set_node_state e (ns_ip node) ''Deleting'' ''Deleting'' s1) of
             (s2, Some err) \<Rightarrow> (s2, (no_requeue, [err]))
           | (s2, None) \<Rightarrow> (case delete_node e node s2 of (s3, r) \<Rightarrow> (handlePostNodeSetupCleanup e node s3, r))))"

(* src: controllers/capbke/bkemachine_controller.go 296-339 BKEMachineReconciler.reconcileDelete *)
definition machine_reconcileDelete :: "('w, 'o, 'p) mc_env \<Rightarrow> capi_cluster \<Rightarrow> 'w mc_state \<Rightarrow> 'w mc_state \<times> mc_result" where
  "machine_reconcileDelete e cl s =
     (case (if isMarkDeletion (ms_bm s) then handleAlreadyMarkedDeletion e cl s
            else case setupDeletionProcess e s of
                   (s1, Some err) \<Rightarrow> (s1, mc_fail err)
                 | (s1, None) \<Rightarrow> (case delete_body e s1 of (s2, r) \<Rightarrow> (fst (patchBKEMachine e (ms_bm s) s2), r))) of
        (s', r) \<Rightarrow> (handlePreDeletionCleanup e s', r))"

section \<open>The reconciler\<close>

(* src: controllers/capbke/bkemachine_controller.go 263-292 BKEMachineReconciler.reconcile *)
definition machine_reconcile :: "('w, 'o, 'p) mc_env \<Rightarrow> capi_cluster \<Rightarrow> 'w mc_state \<Rightarrow> 'w mc_state \<times> mc_result" where
  "machine_reconcile e cl s =
     (if st_clusterStatus (bc_status (ms_cluster s)) = ''Deleting'' then (s, mc_done)
      else case reconcileCommand e cl s of
             (s1, (r1, errs)) \<Rightarrow>
               if errs \<noteq> [] then (s1, (no_requeue, errs))
               else let r = mv_lowest e no_requeue r1
                    in case reconcileBootstrap e cl s1 of
                         (s2, (r2, errs2)) \<Rightarrow> (s2, if errs2 \<noteq> [] then (r, errs2) else (mv_lowest e r r2, [])))"

definition main_body :: "('w, 'o, 'p) mc_env \<Rightarrow> capi_cluster \<Rightarrow> 'w mc_state \<Rightarrow> 'w mc_state \<times> mc_result" where
  "main_body e cl s =
     (if bm_deletionTimestamp (ms_bm s) \<noteq> None then machine_reconcileDelete e cl s
      else if \<not> cp_infrastructureReady cl then (s, mc_done)
      else case CheckBKEMachineLabel (bm_labels (ms_bm s)) of
             None \<Rightarrow> machine_reconcile e cl s
           | Some hostIp \<Rightarrow>
               (case mc_run (GetNodeStateFlagForCluster (mv_nodes e) (ms_cluster s) hostIp (flag_value NodeFailedFlag)) s of
                  (s1, Inr True) \<Rightarrow> (s1, mc_done)
                | (s1, _) \<Rightarrow> machine_reconcile e cl s1))"

(* src: controllers/capbke/bkemachine_controller.go 223-261 BKEMachineReconciler.handleMainReconcile *)
definition handleMainReconcile :: "('w, 'o, 'p) mc_env \<Rightarrow> capi_cluster \<Rightarrow> 'w mc_state \<Rightarrow> 'w mc_state \<times> mc_result" where
  "handleMainReconcile e cl s =
     (case mv_newHelper e (ms_bm s) of
        Some err \<Rightarrow> (s, mc_fail err)
      | None \<Rightarrow> (case main_body e cl s of (s1, r) \<Rightarrow> (fst (patchBKEMachine e (ms_bm s) s1), r)))"

(* src: controllers/capbke/bkemachine_controller.go 163-167 RequiredObjects *)
record required_objects =
  ro_bm :: bke_machine
  ro_machine :: capi_machine
  ro_cluster :: capi_cluster

text \<open>The owner is looked at before the error of its read.\<close>

(* src: controllers/capbke/bkemachine_controller.go 170-209 BKEMachineReconciler.fetchRequiredObjects *)
definition fetchRequiredObjects :: "('w, 'o, 'p) mc_env \<Rightarrow> string \<Rightarrow> string \<Rightarrow> ('w, required_objects option) node_read" where
  "fetchRequiredObjects e ns name w =
     (case ca_getBke (mv_capi e) ns name w of
        (w1, Inl err) \<Rightarrow> (w1, if IsNotFound err then Inr None else Inl err)
      | (w1, Inr bm) \<Rightarrow>
          (case mv_ownerMachine e bm w1 of
             (w2, None, _) \<Rightarrow> (w2, Inr None)
           | (w2, Some m, Some err) \<Rightarrow> (w2, Inl err)
           | (w2, Some m, None) \<Rightarrow>
               (case mv_ownerCluster e m w2 of
                  (w3, Inl err) \<Rightarrow> (w3, Inl err)
                | (w3, Inr None) \<Rightarrow> (w3, Inr None)
                | (w3, Inr (Some cl)) \<Rightarrow> (w3, Inr (Some \<lparr>ro_bm = bm, ro_machine = m, ro_cluster = cl\<rparr>)))))"

text \<open>The process keeps the status manager, the world and the record of nodes.\<close>

type_synonym 'w controller = "(status_manager \<times> 'w) \<times> string list"

definition at_world :: "'w controller \<Rightarrow> 'w \<Rightarrow> 'w controller" where
  "at_world k w = ((fst (fst k), w), snd k)"

definition start_main :: "('w, 'o, 'p) mc_env \<Rightarrow> required_objects \<Rightarrow> bke_machine \<Rightarrow> 'w controller \<Rightarrow> 'w controller \<times> mc_result" where
  "start_main e ro bm k =
     (case GetCombinedBKECluster (mv_merge e) (bm_namespace bm) (cp_infrastructureRef (ro_cluster ro)) (snd (fst k)) of
        (w, Inl Panicked) \<Rightarrow> (at_world k w, (no_requeue, [Panicked]))
      | (w, Inl (Failed_with _)) \<Rightarrow> (at_world k w, mc_done)
      | (w, Inr c) \<Rightarrow>
          (case handleMainReconcile e (ro_cluster ro) \<lparr>ms_world = (fst (fst k), w), ms_bm = bm, ms_machine = ro_machine ro, ms_cluster = c, ms_record = snd k\<rparr> of
             (s, r) \<Rightarrow> ((ms_world s, ms_record s), r)))"

(* src: controllers/capbke/bkemachine_controller.go 97-160 BKEMachineReconciler.Reconcile *)
definition machine_Reconcile :: "('w, 'o, 'p) mc_env \<Rightarrow> string \<Rightarrow> string \<Rightarrow> 'w controller \<Rightarrow> 'w controller \<times> mc_result" where
  "machine_Reconcile e ns name k =
     (case fetchRequiredObjects e ns name (snd (fst k)) of
        (w, Inl err) \<Rightarrow> (at_world k w, mc_fail err)
      | (w, Inr None) \<Rightarrow> (at_world k w, mc_done)
      | (w, Inr (Some ro)) \<Rightarrow>
          (if mv_isPaused e (ro_cluster ro) (ro_bm ro) then (at_world k w, mc_done)
           else case mv_newHelper e (ro_bm ro) of
                  Some err \<Rightarrow> (at_world k w, mc_fail err)
                | None \<Rightarrow>
                    (if has_finalizer (ro_bm ro) then start_main e ro (ro_bm ro) (at_world k w)
                     else let bm = (ro_bm ro)\<lparr>bm_finalizers := bm_finalizers (ro_bm ro) @ [BKEMachineFinalizer]\<rparr>
                          in case mv_patch e (ro_bm ro) bm w of
                               (w1, None) \<Rightarrow> start_main e ro bm (at_world k w1)
                             | (w1, Some err) \<Rightarrow> (at_world k w1, if IsNotFound err then mc_done else mc_fail err))))"

(* src: controllers/capbke/bkemachine_controller.go 594-624 BKEMachineReconciler.BKEClusterToBKEMachines *)
definition BKEClusterToBKEMachines :: "('w, 'o, 'p) mc_env \<Rightarrow> bke_cluster \<Rightarrow> 'w \<Rightarrow> 'w \<times> (string \<times> string) list" where
  "BKEClusterToBKEMachines e c w =
     (case mv_clusterOwner e c w of
        (w1, Inr (Some cl)) \<Rightarrow>
          (case ca_machines (mv_capi e) (bc_namespace c) [(ClusterNameLabel, cp_name cl)] w1 of
             (w2, Inl _) \<Rightarrow> (w2, [])
           | (w2, Inr ms) \<Rightarrow>
               (w2, map ma_infrastructureRef (filter (\<lambda>m. snd (ma_infrastructureRef m) \<noteq> [] \<and> \<not> ma_bootstrapReady m) ms)))
      | (w1, _) \<Rightarrow> (w1, []))"

section \<open>Results\<close>

lemma mc_run_simps [simp]:
  "mc_run f s = (s', r) \<Longrightarrow> ms_bm s' = ms_bm s" "mc_run f s = (s', r) \<Longrightarrow> ms_record s' = ms_record s"
  "mc_run f s = (s', r) \<Longrightarrow> ms_cluster s' = ms_cluster s" "mc_run f s = (s', r) \<Longrightarrow> ms_machine s' = ms_machine s"
  by (auto simp: mc_run_def split: prod.splits)

lemma mc_quiet_simps [simp]:
  "ms_bm (mc_quiet f s) = ms_bm s" "ms_record (mc_quiet f s) = ms_record s" "ms_cluster (mc_quiet f s) = ms_cluster s"
  by (auto simp: mc_quiet_def mc_run_def split: prod.splits)

lemma mc_sync_simps [simp]:
  "mc_sync e ps s = (s', r) \<Longrightarrow> ms_bm s' = ms_bm s" "mc_sync e ps s = (s', r) \<Longrightarrow> ms_record s' = ms_record s"
  by (auto simp: mc_sync_def split: option.splits prod.splits)

lemma state_update_simps [simp]:
  "ms_bm (upd_bm f s) = f (ms_bm s)" "ms_record (upd_bm f s) = ms_record s" "ms_cluster (upd_bm f s) = ms_cluster s"
  "ms_bm (upd_cluster g s) = ms_bm s" "ms_record (upd_cluster g s) = ms_record s"
  "ms_bm (forget_node ip s) = ms_bm s" "ms_bm (mark_cluster e st reason msg s) = ms_bm s" "ms_record (mark_cluster e st reason msg s) = ms_record s"
  "ms_bm (set_node_state e ip st msg s) = ms_bm s" "ms_record (set_node_state e ip st msg s) = ms_record s"
  "ms_bm (mark_node_flag e ip flag s) = ms_bm s" "ms_record (mark_node_flag e ip flag s) = ms_record s"
  by (simp_all add: upd_bm_def upd_cluster_def forget_node_def mark_cluster_def set_node_state_def mark_node_flag_def)

lemma patchBKEMachine_bm [simp]: "ms_bm (fst (patchBKEMachine e before s)) = ms_bm s"
  by (auto simp: patchBKEMachine_def mc_run_def split: prod.splits)

subsection \<open>Which node a machine gets\<close>

definition free_node :: "string list \<Rightarrow> bke_machine list \<Rightarrow> node_spec \<Rightarrow> bool" where
  "free_node booted ms n \<longleftrightarrow> ns_ip n \<notin> set booted \<and> (\<forall>m \<in> set ms. CheckBKEMachineLabel (bm_labels m) \<noteq> Some (ns_ip n))"

lemma available_nodes_set: "set (available_nodes booted ms ns) = {n \<in> set ns. free_node booted ms n}"
  by (auto simp: available_nodes_def free_node_def list_ex_iff)

lemma prefer_ip_mem: "ns \<noteq> [] \<Longrightarrow> prefer_ip ip ns \<in> set ns"
  by (auto simp: prefer_ip_def find_Some_iff split: option.splits)

lemma prefer_ip_found: "ip \<noteq> [] \<Longrightarrow> n \<in> set ns \<Longrightarrow> ns_ip n = ip \<Longrightarrow> ns_ip (prefer_ip ip ns) = ip"
  by (auto simp: prefer_ip_def find_None_iff find_Some_iff split: option.splits)

text \<open>C39. A machine that joins gets a node that is neither being bootstrapped nor bound to a machine, the one of the control
  plane endpoint if it is among them, and from then on the node counts as being bootstrapped; it fails only when there is no
  such node, and then it changes nothing.\<close>

theorem joining_machine_gets_free_node:
  assumes "phase \<noteq> ''InitControlPlane''" "filterAvailableNode e ns phase s = (s', r)"
    and "GetBKEClusterAssociateBKEMachines (mv_capi e) (ms_cluster s) (snd (ms_world s)) = (w', Inr ms)"
  shows "(case r of
      Inr n \<Rightarrow> n \<in> set ns \<and> free_node (ms_record s) ms n \<and> ms_record s' = ns_ip n # ms_record s \<and>
        ((\<exists>p \<in> set ns. free_node (ms_record s) ms p \<and> ns_ip p = ep_host (bs_controlPlaneEndpoint (bc_spec (ms_cluster s))) \<and> ns_ip p \<noteq> []) \<longrightarrow>
          ns_ip n = ep_host (bs_controlPlaneEndpoint (bc_spec (ms_cluster s))))
    | Inl _ \<Rightarrow> (\<forall>n \<in> set ns. \<not> free_node (ms_record s) ms n) \<and> ms_record s' = ms_record s)"
proof -
  let ?ip = "ep_host (bs_controlPlaneEndpoint (bc_spec (ms_cluster s)))" and ?av = "available_nodes (ms_record s) ms ns"
  have run: "mc_run (GetBKEClusterAssociateBKEMachines (mv_capi e) (ms_cluster s)) s = (s\<lparr>ms_world := (fst (ms_world s), w')\<rparr>, Inr ms)"
    using assms(3) by (simp add: mc_run_def)
  show ?thesis
  proof (cases "?av = []")
    case True
    with assms(1,2) run have "r = Inl (Failed_with (ErrMsg ''no available node''))" "ms_record s' = ms_record s"
      by (auto simp: filterAvailableNode_def Let_def)
    moreover from True have "{n \<in> set ns. free_node (ms_record s) ms n} = {}" using available_nodes_set by (metis list.set(1))
    ultimately show ?thesis by auto
  next
    case False
    with assms(1,2) run have r: "r = Inr (prefer_ip ?ip ?av)" "ms_record s' = List.insert (ns_ip (prefer_ip ?ip ?av)) (ms_record s)"
      by (auto simp: filterAvailableNode_def Let_def)
    from prefer_ip_mem [OF False] have m: "prefer_ip ?ip ?av \<in> set ns" "free_node (ms_record s) ms (prefer_ip ?ip ?av)"
      using available_nodes_set by auto
    moreover have "ms_record s' = ns_ip (prefer_ip ?ip ?av) # ms_record s" using r(2) m(2) by (simp add: free_node_def)
    moreover have "ns_ip (prefer_ip ?ip ?av) = ?ip" if "p \<in> set ns" "free_node (ms_record s) ms p" "ns_ip p = ?ip" "ns_ip p \<noteq> []" for p
      using prefer_ip_found [of ?ip p ?av] that available_nodes_set [of "ms_record s" ms ns] by auto
    ultimately show ?thesis using r(1) by auto
  qed
qed

lemma no_free_node:
  assumes "phase \<noteq> ''InitControlPlane''" "list_all (\<lambda>n. ns_ip n \<in> set (ms_record s)) ns"
  shows "\<exists>err. snd (filterAvailableNode e ns phase s) = Inl err"
proof -
  have "available_nodes (ms_record s) ms ns = []" for ms
    using assms(2) by (auto simp: available_nodes_def list_all_iff filter_empty_conv)
  with assms(1) show ?thesis
    by (auto simp: filterAvailableNode_def Let_def split: prod.splits sum.splits)
qed

lemma handleRealBootstrap_failed:
  "handleRealBootstrap e n role phase s = (s', (out, errs)) \<Longrightarrow> errs \<noteq> [] \<Longrightarrow> ms_record s' = ms_record s \<and> ms_bm s' = ms_bm s"
  by (auto simp: handleRealBootstrap_def mc_done_def Let_def split: prod.splits option.splits)

text \<open>A node whose bootstrap command could not be created is never given to a joining machine again: it stays in the record of
  the nodes that are being bootstrapped, from which only its bootstrap command would take it.\<close>

theorem failed_start_blocks_node:
  assumes "phase \<noteq> ''InitControlPlane''" "filterAvailableNode e ns phase s = (s1, Inr n)"
    and "handleRealBootstrap e n role phase s1 = (s2, (out, errs))" "errs \<noteq> []" "ms_record s2 = ms_record s3"
  shows "\<exists>err. snd (filterAvailableNode e [n] phase s3) = Inl err"
proof -
  have "ns_ip n \<in> set (ms_record s1)"
    using assms(1,2) by (auto simp: filterAvailableNode_def Let_def split: prod.splits sum.splits if_splits)
  with handleRealBootstrap_failed [OF assms(3,4)] assms(5) show ?thesis
    by (intro no_free_node [OF assms(1)]) simp
qed

subsection \<open>The first control plane\<close>

text \<open>The lock names one machine: of two control plane machines that read the same lock, while the control plane is not known
  to be missing, at most one is told to initialise the control plane.\<close>

theorem one_initializer:
  assumes "cp_initialized cl \<noteq> Some ''False''" "IsControlPlaneMachine m1" "IsControlPlaneMachine m2"
    and "getBootstrapPhase e m1 cl w = (w1, Inr ''InitControlPlane'')" "getBootstrapPhase e m2 cl w = (w2, Inr ''InitControlPlane'')"
  shows "ma_name m1 = ma_name m2"
  using assms by (auto simp: getBootstrapPhase_def handleLockConfigMap_def split: prod.splits sum.splits option.splits if_splits)

text \<open>The roles master and worker in one list make a worker: the node is cordoned like a master and labelled as a worker
  only.\<close>

theorem mixed_roles_lose_master:
  "getNodeInfo (demo_spec_node ''10.0.0.1'' [''master'', ''node'']) (blank_cluster ''ns'' ''c'') =
     Some \<lparr>ni_node = demo_spec_node ''10.0.0.1'' [''master'', ''node''], ni_cordon = True, ni_cordonFlag = True, ni_role = WorkerNodeRole\<rparr>"
  by code_simp

subsection \<open>The state of the booting cluster\<close>

lemma handleClusterState_alt:
  "handleClusterState e n ms ns clusterReady bootstrapNodeFailed s =
     (if fst (CalculateBKEMachineBootNum ms) + snd (CalculateBKEMachineBootNum ms) = length ns
      then handleAllNodesBootstrapped e s else handleClusterBooting e n s)"
  by (simp add: handleClusterState_def Let_def split: prod.splits)

text \<open>Two of the four branches are never taken: a boot that is over, with failures or without, only records the version. The
  cluster is never marked as having finished or failed its boot.\<close>

theorem boot_end_not_marked:
  "handleClusterState e n ms ns clusterReady bootstrapNodeFailed s =
     (if fst (CalculateBKEMachineBootNum ms) + snd (CalculateBKEMachineBootNum ms) = length ns
      then handleAllNodesBootstrapped e s else handleClusterBooting e n s)"
  by (rule handleClusterState_alt)

text \<open>The numbers are counted over a list in which the current machine is not yet replaced when a machine before it is not
  bootstrapped: the last of two nodes boots after the first one failed, and the boot does not count as over.\<close>

theorem current_machine_not_counted:
  "let failed = demo_boot ''10.0.0.1'' False;
       before = (demo_boot ''10.0.0.2'' False)\<lparr>bm_conditions := []\<rparr>; now = demo_boot ''10.0.0.2'' True
   in CalculateBKEMachineBootNum [failed, now] = (1, 1) \<and>
      CalculateBKEMachineBootNum (fst (checkBootstrapStatus [failed, before] now [demo_spec_node ''10.0.0.1'' [], demo_spec_node ''10.0.0.2'' []])) = (1, 0)"
  by code_simp

subsection \<open>What holds of a bootstrapped machine\<close>

definition machine_ok :: "bke_machine \<Rightarrow> bool" where
  "machine_ok m \<longleftrightarrow> (bm_bootstrapped m \<longrightarrow> bm_ready m \<and> bm_providerID m \<noteq> None \<and> bm_addresses m \<noteq> [] \<and>
     get_condition (bm_conditions m) ''BootstrapSucceeded'' = Some (''True'', []))"

lemma machine_ok_unbooted: "\<not> bm_bootstrapped m \<Longrightarrow> machine_ok m"
  by (simp add: machine_ok_def)

lemma mark_boot_simps [simp]:
  "bm_bootstrapped (mark_boot st r m) = bm_bootstrapped m" "bm_finalizers (mark_boot st r m) = bm_finalizers m"
  "bm_annotations (mark_boot st r m) = bm_annotations m" "bm_labels (mark_boot st r m) = bm_labels m"
  by (simp_all add: mark_boot_def)

lemma mark_boot_condition: "get_condition (bm_conditions (mark_boot st r m)) ''BootstrapSucceeded'' = Some (st, r)"
  by (simp add: mark_boot_def get_condition_def update_conv)

lemma machine_ok_same [simp]:
  "machine_ok (drop_finalizer m) = machine_ok m" "machine_ok (bind_node role n m) = machine_ok m"
  "machine_ok (m\<lparr>bm_labels := l\<rparr>) = machine_ok m" "machine_ok (m\<lparr>bm_annotations := a\<rparr>) = machine_ok m"
  "machine_ok (m\<lparr>bm_finalizers := fs\<rparr>) = machine_ok m"
  by (simp_all add: machine_ok_def drop_finalizer_def bind_node_def)

lemma machine_ok_marked:
  "machine_ok (mark_boot ''True'' [] ((setProviderID pid (setMachineAddress n m))\<lparr>bm_ready := True, bm_bootstrapped := True\<rparr>))"
  unfolding machine_ok_def by (simp add: mark_boot_condition) (simp add: mark_boot_def setProviderID_def setMachineAddress_def)

lemma handleClusterState_bm: "handleClusterState e n ms ns a b s = (s', r) \<Longrightarrow> ms_bm s' = ms_bm s"
  by (auto simp: handleClusterState_alt handleAllNodesBootstrapped_def handleClusterBooting_def split: if_splits option.splits)

lemma reconcileBKEMachine_bm: "reconcileBKEMachine e n s = (s', r) \<Longrightarrow> ms_bm s' = ms_bm s"
  by (auto simp: reconcileBKEMachine_def split: if_splits prod.splits sum.splits dest!: handleClusterState_bm)

lemma markReady_ok: "markBKEMachineBootstrapReady e n pid s = (s', r) \<Longrightarrow> machine_ok (ms_bm s') \<and> bm_finalizers (ms_bm s') = bm_finalizers (ms_bm s)"
  by (auto simp: markBKEMachineBootstrapReady_def Let_def machine_ok_marked) (simp_all add: mark_boot_def setProviderID_def setMachineAddress_def)

lemma markCommandReconciled_bm: "markCommandReconciled e cmd s = (s', r) \<Longrightarrow> ms_bm s' = ms_bm s"
  by (auto simp: markCommandReconciled_def split: prod.splits option.splits)

lemma end_sync_bm: "end_sync e errs s = (s', r) \<Longrightarrow> ms_bm s' = ms_bm s"
  by (auto simp: end_sync_def split: prod.splits)

lemmas mc_bm [simp] = handleClusterState_bm reconcileBKEMachine_bm markCommandReconciled_bm end_sync_bm

lemma fake_body_ok: "fake_body e n role s = (s', r) \<Longrightarrow> machine_ok (ms_bm s) \<Longrightarrow> machine_ok (ms_bm s')"
  by (auto simp: fake_body_def Let_def split: prod.splits sum.splits option.splits merge_error.splits if_splits dest: markReady_ok)

lemma handleFakeBootstrap_ok: "handleFakeBootstrap e n role s = (s', r) \<Longrightarrow> machine_ok (ms_bm s) \<Longrightarrow> machine_ok (ms_bm s')"
  by (auto simp: handleFakeBootstrap_def split: prod.splits option.splits dest: fake_body_ok)

lemma handleRealBootstrap_ok: "handleRealBootstrap e n role phase s = (s', r) \<Longrightarrow> machine_ok (ms_bm s) \<Longrightarrow> machine_ok (ms_bm s')"
  by (auto simp: handleRealBootstrap_def Let_def split: prod.splits option.splits)

lemma filterAvailableNode_bm [simp]: "filterAvailableNode e ns phase s = (s', r) \<Longrightarrow> ms_bm s' = ms_bm s"
  by (auto simp: filterAvailableNode_def Let_def split: if_splits prod.splits sum.splits)

lemma handleFirstTimeReconciliation_ok:
  assumes "handleFirstTimeReconciliation e cl s = (s', r)" "\<not> bm_bootstrapped (ms_bm s)"
  shows "machine_ok (ms_bm s')"
proof -
  have ok: "machine_ok (ms_bm s)" using assms(2) by (rule machine_ok_unbooted)
  have w: "machine_ok (mark_boot st r (ms_bm s))" for st r using assms(2) by (simp add: machine_ok_unbooted)
  show ?thesis
    using assms(1) ok w unfolding handleFirstTimeReconciliation_def Let_def
    by (auto split: if_splits prod.splits sum.splits option.splits merge_error.splits dest!: handleFakeBootstrap_ok handleRealBootstrap_ok)
qed

lemma reconcileBootstrap_ok: "reconcileBootstrap e cl s = (s', r) \<Longrightarrow> machine_ok (ms_bm s) \<Longrightarrow> machine_ok (ms_bm s')"
  by (auto simp: reconcileBootstrap_def split: if_splits option.splits prod.splits dest: handleFirstTimeReconciliation_ok)

lemma processBootstrapFailure_ok:
  "processBootstrapFailure e cl n cmd fs role errs s = (s', r) \<Longrightarrow> \<not> bm_bootstrapped (ms_bm s) \<Longrightarrow> machine_ok (ms_bm s')"
  by (auto simp: processBootstrapFailure_def Let_def machine_ok_unbooted split: if_splits option.splits prod.splits merge_error.splits)

lemma connectToTargetClusterNode_bm [simp]: "connectToTargetClusterNode e n s = (s', r) \<Longrightarrow> ms_bm s' = ms_bm s"
  by (simp add: connectToTargetClusterNode_def)

lemma processBootstrapSuccess_ok:
  "processBootstrapSuccess e n cmd res errs s = (s', r) \<Longrightarrow> machine_ok (ms_bm s) \<Longrightarrow> machine_ok (ms_bm s')"
  by (auto simp: processBootstrapSuccess_def handleBootstrapSuccessFailure_def Let_def
      split: if_splits option.splits prod.splits merge_error.splits dest: markReady_ok)

lemma processBootstrapCommand_ok:
  "processBootstrapCommand e cl n cmd cr res errs s = (s', r) \<Longrightarrow> machine_ok (ms_bm s) \<Longrightarrow> machine_ok (ms_bm s')"
  by (auto simp: processBootstrapCommand_def Let_def split: if_splits prod.splits
      dest: processBootstrapFailure_ok processBootstrapSuccess_ok)

lemma processResetCommand_ok:
  "processResetCommand e before n cr res errs s = (s', r) \<Longrightarrow> machine_ok (ms_bm s) \<Longrightarrow> machine_ok (ms_bm s')"
  by (auto simp: processResetCommand_def Let_def split: if_splits prod.splits option.splits merge_error.splits)

lemma processCommand_ok:
  "processCommand e cl before ns ip cmd res errs s = (s', r) \<Longrightarrow> machine_ok (ms_bm s) \<Longrightarrow> machine_ok (ms_bm s')"
  by (auto simp: processCommand_def split: list.splits option.splits if_splits dest: processBootstrapCommand_ok processResetCommand_ok)

lemma process_commands_ok:
  "process_commands e cl before ns ip cmds res errs s = (s', r) \<Longrightarrow> machine_ok (ms_bm s) \<Longrightarrow> machine_ok (ms_bm s')"
proof (induction cmds arbitrary: res errs s)
  case (Cons cmd cmds)
  obtain s1 out errs1 where p: "processCommand e cl before ns ip cmd res errs s = (s1, (out, errs1))" by (metis prod_cases3)
  with processCommand_ok [OF p Cons.prems(2)] Cons show ?case by (auto split: if_splits)
qed simp

lemma reconcileCommand_ok: "reconcileCommand e cl s = (s', r) \<Longrightarrow> machine_ok (ms_bm s) \<Longrightarrow> machine_ok (ms_bm s')"
  by (auto simp: reconcileCommand_def command_body_def simp del: process_commands.simps split: option.splits prod.splits sum.splits list.splits if_splits dest!: process_commands_ok)

lemma machine_reconcile_ok: "machine_reconcile e cl s = (s', r) \<Longrightarrow> machine_ok (ms_bm s) \<Longrightarrow> machine_ok (ms_bm s')"
  by (auto simp: machine_reconcile_def Let_def split: if_splits prod.splits dest: reconcileCommand_ok reconcileBootstrap_ok)

lemma machine_ok_mark_deleted: "markBKEMachineDeletion e before s = (s', r) \<Longrightarrow> machine_ok (ms_bm s) \<Longrightarrow> machine_ok (ms_bm s')"
  by (auto simp: markBKEMachineDeletion_def patchBKEMachine_def)

lemma release_node_bm [simp]: "ms_bm (release_node e ip s) = ms_bm s"
  unfolding release_node_def Let_def by (metis mc_quiet_simps(1) mc_sync_simps(1) prod.collapse state_update_simps(6))

lemma cleanup_bm [simp]: "ms_bm (handlePreDeletionCleanup e s) = ms_bm s" "ms_bm (handlePostNodeSetupCleanup e n s) = ms_bm s"
  by (auto simp: handlePreDeletionCleanup_def handlePostNodeSetupCleanup_def split: option.splits)

lemma shouldSkipDeletion_bm [simp]: "shouldSkipDeletion e n s = (s', r) \<Longrightarrow> ms_bm s' = ms_bm s"
  by (auto simp: shouldSkipDeletion_def Let_def split: if_splits prod.splits sum.splits)

lemma shutdownAgent_ok: "shutdownAgent e n s = (s', r) \<Longrightarrow> machine_ok (ms_bm s) \<Longrightarrow> machine_ok (ms_bm s')"
  by (auto simp: shutdownAgent_def split: prod.splits option.splits)

lemma executeResetCommand_ok: "executeResetCommand e n s = (s', r) \<Longrightarrow> machine_ok (ms_bm s) \<Longrightarrow> machine_ok (ms_bm s')"
  by (auto simp: executeResetCommand_def Let_def split: prod.splits sum.splits option.splits if_splits dest!: shutdownAgent_ok)

lemma delete_body_ok: "delete_body e s = (s', r) \<Longrightarrow> machine_ok (ms_bm s) \<Longrightarrow> machine_ok (ms_bm s')"
  by (auto simp: delete_body_def delete_node_def getNodeForDeletion_def split: prod.splits sum.splits option.splits bool.splits
      dest!: executeResetCommand_ok)

lemma machine_reconcileDelete_ok: "machine_reconcileDelete e cl s = (s', r) \<Longrightarrow> machine_ok (ms_bm s) \<Longrightarrow> machine_ok (ms_bm s')"
  by (auto simp: machine_reconcileDelete_def handleAlreadyMarkedDeletion_def setupDeletionProcess_def split: if_splits prod.splits option.splits
      dest!: delete_body_ok reconcileCommand_ok machine_ok_mark_deleted)

lemma main_body_ok: "main_body e cl s = (s', r) \<Longrightarrow> machine_ok (ms_bm s) \<Longrightarrow> machine_ok (ms_bm s')"
  by (auto simp: main_body_def split: if_splits option.splits prod.splits sum.splits bool.splits dest: machine_reconcile_ok machine_reconcileDelete_ok)


subsection \<open>The end of a machine\<close>

text \<open>A deletion that was begun and has no command of its own, because the reset could not be created or a write between
  failed, is never taken up again: every later reconcile leaves the machine as it is, with its finalizer.\<close>

theorem deletion_not_resumed:
  assumes "bm_deletionTimestamp (ms_bm s) \<noteq> None" "isMarkDeletion (ms_bm s)" "has_finalizer (ms_bm s)"
    and "snd (getBKEMachineAssociateCommands e (ms_cluster s) (ms_bm s) (snd (ms_world s))) = Inr []"
    and "handleMainReconcile e cl s = (s', r)"
  shows "ms_bm s' = ms_bm s"
proof -
  obtain w where g: "getBKEMachineAssociateCommands e (ms_cluster s) (ms_bm s) (snd (ms_world s)) = (w, Inr [])"
    using assms(4) by (metis prod.collapse)
  have "ms_bm (fst (reconcileCommand e cl s)) = ms_bm s"
    using g by (auto simp: reconcileCommand_def command_body_def mc_run_def split: option.splits)
  then have "ms_bm (fst (machine_reconcileDelete e cl s)) = ms_bm s"
    using assms(2,3) by (auto simp: machine_reconcileDelete_def handleAlreadyMarkedDeletion_def split: prod.splits)
  with assms(1,5) show ?thesis
    by (auto simp: handleMainReconcile_def main_body_def split: option.splits prod.splits)
qed

text \<open>A reset that has not reported anything yet releases the machine: when the controller looks at the command itself, after a
  restart for example, it drops the finalizer although the reset is not over.\<close>

theorem unfinished_reset_releases:
  assumes "cmd_name cmd = ''reset-node-'' @ x" "cmd_status cmd = None" "nodes_Filter ns [(''IP'', ip)] = n # ns'"
    and "processCommand e cl before ns ip cmd res errs s = (s', r)"
  shows "\<not> has_finalizer (ms_bm s')"
proof -
  have "CheckCommandStatus (command.truncate cmd) = Some (False, [], [])"
    using assms(2) by (simp add: CheckCommandStatus_def status_map_def command.defs)
  moreover have "HasPrefix (cmd_name cmd) ''reset-node-''" "\<not> HasPrefix (cmd_name cmd) ''bootstrap-''"
    unfolding assms(1) by (rule HasPrefix_append) (simp add: HasPrefix_def)
  ultimately have "s' = fst (patchBKEMachine e before (upd_bm drop_finalizer s))"
    using assms(3,4) by (auto simp: processCommand_def processResetCommand_def Let_def)
  then show ?thesis by (simp add: has_finalizer_def drop_finalizer_def)
qed

text \<open>An error while the owner of a machine is read is taken for a missing owner: the reconcile ends well and asks for no other
  one.\<close>

theorem owner_error_lost:
  assumes "ca_getBke (mv_capi e) ns name (snd (fst k)) = (w1, Inr bm)" "mv_ownerMachine e bm w1 = (w2, None, Some err)"
  shows "machine_Reconcile e ns name k = (at_world k w2, mc_done)"
  using assms by (simp add: machine_Reconcile_def fetchRequiredObjects_def)

section \<open>Concrete inputs\<close>

text \<open>A controller with the cluster of \<^const>\<open>demo_cluster_world\<close> whose calls all fail, but for the lists of nodes and machines.\<close>

definition demo_target :: "'w target_api" where
  "demo_target = \<lparr>tg_connect = (\<lambda>_ w. (w, Some ApiTimeout)), tg_nodes = (\<lambda>_ w. (w, Inl ApiTimeout)), tg_getNode = (\<lambda>_ w. (w, Inl ApiTimeout)),
     tg_updateNode = (\<lambda>_ w. (w, Some ApiTimeout)), tg_patchNode = (\<lambda>_ _ w. (w, Inl ApiTimeout)), tg_deleteNode = (\<lambda>_ w. (w, Some ApiTimeout)),
     tg_cordon = (\<lambda>_ w. (w, Some ApiTimeout)), tg_createMap = (\<lambda>_ w. (w, Some ApiTimeout)), tg_getMap = (\<lambda>_ _ w. (w, Inl ApiTimeout)),
     tg_updateMap = (\<lambda>_ w. (w, Some ApiTimeout))\<rparr>"

definition demo_machines :: "bke_machine list \<Rightarrow> Merge_Cluster.demo_world capi" where
  "demo_machines ms = \<lparr>ca_machines = (\<lambda>_ _ w. (w, Inr [])), ca_bkeMachines = (\<lambda>_ _ w. (w, Inr ms)), ca_deployments = (\<lambda>_ _ w. (w, Inr [])),
     ca_getObject = (\<lambda>_ w. (w, Inl ApiNotFound)), ca_updateObject = (\<lambda>_ w. (w, None)), ca_getMachine = (\<lambda>_ _ w. (w, Inl ApiNotFound)),
     ca_updateMachine = (\<lambda>_ w. (w, None)), ca_getBke = (\<lambda>_ _ w. (w, case ms of [] \<Rightarrow> Inl ApiNotFound | m # _ \<Rightarrow> Inr m)),
     ca_getConfig = (\<lambda>_ _ w. (w, Inl ApiNotFound)),
     ca_retryObject = \<lparr>rl_DefaultRetry = ReadBackoff, rl_OnError = (\<lambda>b. retry_loop (bo_steps b))\<rparr>,
     ca_retry = \<lparr>rl_DefaultRetry = ReadBackoff, rl_OnError = (\<lambda>b. retry_loop (bo_steps b))\<rparr>\<rparr>"

definition demo_mc :: "bke_machine list \<Rightarrow> (Merge_Cluster.demo_world, string, string) mc_env" where
  "demo_mc ms = \<lparr>mv_merge = demo_merge, mv_clock = dw_time, mv_lowest = (\<lambda>a b. b),
     mv_nodes = \<lparr>na_list = (\<lambda>_ _ w. (w, Inr [])), na_updateStatus = (\<lambda>_ w. (w, None)), na_delete = (\<lambda>_ w. (w, None)), na_retry = demo_retry\<rparr>,
     mv_capi = demo_machines ms,
     mv_cmd = (\<lambda>_. \<lparr>ca_list = (\<lambda>_ w. (w, Inl ApiTimeout)), ca_get = (\<lambda>_ _ w. (w, Inl ApiTimeout)), ca_create = (\<lambda>_ w. (w, Some ApiTimeout)),
        ca_delete = (\<lambda>_ w. (w, Some ApiTimeout)), ca_patch = (\<lambda>_ w. (w, Some ApiTimeout)), ca_setOwner = Inr\<rparr>),
     mv_commands = (\<lambda>_ _ w. (w, Inr [])), mv_getCommand = (\<lambda>_ _ w. (w, Inl ApiTimeout)), mv_updateCommand = (\<lambda>_ w. (w, Some ApiTimeout)),
     mv_polls = 3, mv_connectTries = 3, mv_pages = 1, mv_newHelper = (\<lambda>_. None), mv_patch = (\<lambda>_ _ w. (w, None)),
     mv_newMachineHelper = (\<lambda>_. None), mv_patchMachine = (\<lambda>_ _ w. (w, None)), mv_newConfigHelper = (\<lambda>_. None), mv_patchConfig = (\<lambda>_ _ w. (w, None)),
     mv_planeConfig = (\<lambda>_. (None, None, None)), mv_ownerMachine = (\<lambda>_ w. (w, None, Some ApiTimeout)), mv_ownerCluster = (\<lambda>_ w. (w, Inr None)),
     mv_clusterOwner = (\<lambda>_ w. (w, Inr None)), mv_isPaused = (\<lambda>_ _. False), mv_lock = (\<lambda>_ _ w. (w, Inr (Some [(''lock-information'', ''m1'')]))),
     mv_parseLock = Inr, mv_parseVersion = (\<lambda>_. Inr (1, 28)), mv_bocVersion = None, mv_target = demo_target, mv_expiry = (\<lambda>_. []),
     mv_errorText = (\<lambda>_. [])\<rparr>"

definition demo_mc_state :: "string list \<Rightarrow> Merge_Cluster.demo_world mc_state" where
  "demo_mc_state booted = \<lparr>ms_world = (NewStatusManager, demo_cluster_world), ms_bm = demo_boot ''m1'' False, ms_machine = demo_machine,
     ms_cluster = demo_copy, ms_record = booted\<rparr>"

definition demo_capi_cluster :: capi_cluster where
  "demo_capi_cluster = \<lparr>cp_namespace = ''ns'', cp_name = ''c1'', cp_kind = ''Cluster'', cp_uid = ''u'', cp_controlPlane = None,
     cp_initialized = Some ''True'', cp_infrastructureReady = True, cp_infrastructureRef = ''c1''\<rparr>"

text \<open>Three nodes, of which the first is being bootstrapped and the second is bound.\<close>

theorem joining_machine_gets_free_node_witness:
  "snd (filterAvailableNode (demo_mc [bind_node WorkerNodeRole (demo_spec_node ''10.0.0.2'' [WorkerNodeRole]) (demo_boot ''m0'' True)])
          (map (\<lambda>ip. demo_spec_node ip [WorkerNodeRole]) [''10.0.0.1'', ''10.0.0.2'', ''10.0.0.3'']) ''JoinWorker'' (demo_mc_state [''10.0.0.1'']))
   = Inr (demo_spec_node ''10.0.0.3'' [WorkerNodeRole])"
  (is "snd (filterAvailableNode ?e ?ns _ ?s) = _")
proof -
  let ?ms = "[bind_node WorkerNodeRole (demo_spec_node ''10.0.0.2'' [WorkerNodeRole]) (demo_boot ''m0'' True)]"
  have list: "GetBKEClusterAssociateBKEMachines (mv_capi ?e) (ms_cluster ?s) (snd (ms_world ?s)) = (demo_cluster_world, Inr ?ms)"
    by (simp add: GetBKEClusterAssociateBKEMachines_def GetListFiltersByBKECluster_def demo_mc_def demo_machines_def demo_mc_state_def)
  have ip: "ns_ip (demo_spec_node i r) = i" for i r by (simp add: demo_spec_node_def)
  have label: "CheckBKEMachineLabel (bm_labels (hd ?ms)) = Some ''10.0.0.2''" by code_simp
  have rec: "ms_record ?s = [''10.0.0.1'']" by (simp add: demo_mc_state_def)
  have free: "free_node (ms_record ?s) ?ms n \<longleftrightarrow> n = demo_spec_node ''10.0.0.3'' [WorkerNodeRole]" if "n \<in> set ?ns" for n
    using that label unfolding free_node_def rec by (auto simp: ip)
  have "(''JoinWorker'' :: string) \<noteq> ''InitControlPlane''" by simp
  note spec = joining_machine_gets_free_node [OF this surjective_pairing list, of ?ns]
  have last: "demo_spec_node ''10.0.0.3'' [WorkerNodeRole] \<in> set ?ns" by simp
  show ?thesis
  proof (cases "snd (filterAvailableNode ?e ?ns ''JoinWorker'' ?s)")
    case (Inl x)
    with spec free [OF last] last show ?thesis by fastforce
  next
    case (Inr n)
    with spec have "n \<in> set ?ns" "free_node (ms_record ?s) ?ms n" by simp_all
    with free Inr show ?thesis by simp
  qed
qed

theorem failed_start_blocks_node_witness:
  "\<exists>err. snd (filterAvailableNode (demo_mc []) [demo_spec_node ''10.0.0.1'' [WorkerNodeRole]] ''JoinWorker''
     (fst (handleRealBootstrap (demo_mc []) (demo_spec_node ''10.0.0.1'' [WorkerNodeRole]) WorkerNodeRole ''JoinWorker''
        (fst (filterAvailableNode (demo_mc []) [demo_spec_node ''10.0.0.1'' [WorkerNodeRole]] ''JoinWorker'' (demo_mc_state [])))))) = Inl err"
proof -
  let ?n = "demo_spec_node ''10.0.0.1'' [WorkerNodeRole]"
  let ?p = "filterAvailableNode (demo_mc []) [?n] ''JoinWorker'' (demo_mc_state [])"
  let ?r = "handleRealBootstrap (demo_mc []) ?n WorkerNodeRole ''JoinWorker'' (fst ?p)"
  have j: "(''JoinWorker'' :: string) \<noteq> ''InitControlPlane''" by simp
  have "snd ?p = Inr ?n" by code_simp
  then have p: "?p = (fst ?p, Inr ?n)" by (simp add: prod_eq_iff)
  have r: "?r = (fst ?r, (fst (snd ?r), snd (snd ?r)))" by simp
  have "snd (snd ?r) \<noteq> []" by code_simp
  from failed_start_blocks_node [OF j p r this refl] show ?thesis .
qed

theorem one_initializer_witness:
  "ma_name (demo_machine\<lparr>ma_labels := [(MachineControlPlaneLabel, '''')]\<rparr>) =
   ma_name (demo_machine\<lparr>ma_labels := [(MachineControlPlaneLabel, ''x'')], ma_resourceVersion := ''2''\<rparr>)"
  by (rule one_initializer [where e = "demo_mc []" and cl = demo_capi_cluster and w = demo_cluster_world and ?w1.0 = demo_cluster_world and ?w2.0 = demo_cluster_world])
    (simp_all add: IsControlPlaneMachine_def has_key_def demo_capi_cluster_def getBootstrapPhase_def handleLockConfigMap_def parseLockInfo_def
      demo_mc_def demo_machine_def get_or_def)


theorem deletion_not_resumed_witness:
  "let m = (demo_boot ''m1'' False)\<lparr>bm_deletionTimestamp := Some 1, bm_finalizers := [BKEMachineFinalizer], bm_annotations := [(DeleteMachineAnnotation, '''')]\<rparr>
   in ms_bm (fst (handleMainReconcile (demo_mc []) demo_capi_cluster (demo_mc_state []\<lparr>ms_bm := m\<rparr>))) = m"
proof -
  let ?m = "(demo_boot ''m1'' False)\<lparr>bm_deletionTimestamp := Some 1, bm_finalizers := [BKEMachineFinalizer], bm_annotations := [(DeleteMachineAnnotation, '''')]\<rparr>"
  let ?s = "demo_mc_state []\<lparr>ms_bm := ?m\<rparr>"
  have "ms_bm (fst (handleMainReconcile (demo_mc []) demo_capi_cluster ?s)) = ms_bm ?s"
    by (rule deletion_not_resumed [OF _ _ _ _ surjective_pairing])
      (simp_all add: isMarkDeletion_def has_key_def has_finalizer_def getBKEMachineAssociateCommands_def GetListFiltersByBKECluster_def demo_mc_def map_read_def)
  then show ?thesis by (simp add: Let_def)
qed

definition demo_reset :: owned_command where
  "demo_reset = command.extend (named_command ''reset-node-10.0.0.1-7'' [] None) \<lparr>oc_annotations = [], oc_owners = [''m1'']\<rparr>"

theorem unfinished_reset_releases_witness:
  "\<not> has_finalizer (ms_bm (fst (processCommand (demo_mc []) demo_capi_cluster (demo_boot ''m1'' False) [demo_spec_node ''10.0.0.1'' []] ''10.0.0.1''
     (demo_reset\<lparr>cmd_name := ''reset-node-'' @ ''10.0.0.1-7'', cmd_status := None\<rparr>) no_requeue [] (demo_mc_state []))))"
  by (rule unfinished_reset_releases [OF _ _ _ surjective_pairing, where x = "''10.0.0.1-7''" and n = "demo_spec_node ''10.0.0.1'' []" and ns' = "[]"])
    (simp_all add: nodes_Filter_def node_field_def demo_spec_node_def)

theorem owner_error_lost_witness:
  "machine_Reconcile (demo_mc [demo_boot ''m1'' False]) ''ns'' ''m1'' ((NewStatusManager, demo_cluster_world), [])
   = (((NewStatusManager, demo_cluster_world), []), mc_done)"
  by (subst owner_error_lost [where ?w1.0 = demo_cluster_world and ?w2.0 = demo_cluster_world and bm = "demo_boot ''m1'' False" and err = ApiTimeout])
    (simp_all add: demo_mc_def demo_machines_def at_world_def)

end
