(* ===== verification/Intervention.thy ===== *)
theory Intervention
  imports Phase_Flow
begin

text \<open>
  Asking for help: \<^verbatim>\<open>utils/capbke/intervention\<close>. A failure that no retry can mend sets a condition on the cluster, with what to
  do about it, and the next attempt takes it back. Events and logs are not modelled; whether there is a recorder and a client is a flag.
\<close>

section \<open>Guidance\<close>

(* src: utils/capbke/intervention/intervention.go 34-43 Category *)
datatype category = CategoryMasterInit | CategoryNodeFailure | CategoryRetryExhausted

(* src: utils/capbke/intervention/intervention.go 47-56 Guidance *)
record guidance =
  gu_category :: category
  gu_reason :: string
  gu_message :: string
  gu_actions :: "string list"

text \<open>How Go prints a list of strings, and a duration, is a matter of its library; the duration comes in as text.\<close>

definition fmt_strings :: "string list \<Rightarrow> string" where
  "fmt_strings xs = ''['' @ Join xs '' '' @ '']''"

(* src: utils/capbke/intervention/guidance.go 24-40 MasterInitTimeout *)
definition MasterInitTimeout :: "string \<Rightarrow> guidance" where
  "MasterInitTimeout timeout = \<lparr>gu_category = CategoryMasterInit, gu_reason = ''MasterInitTimeout'',
     gu_message = ''Master node initialization timed out after '' @ timeout @ ''. Automatic retry will continue, but if failures persist, manual intervention is required.'',
     gu_actions = [''Check BKEAgent logs on the master node: /var/log/openFuyao/bkeagent.log'',
       ''Verify the master node is reachable and has sufficient resources (CPU, memory, disk)'',
       ''Check for port conflicts (6443, 10250, 2379, 2380) or residual processes'',
       ''If the issue is resolved, the controller will automatically retry on the next reconcile'']\<rparr>"

(* src: utils/capbke/intervention/guidance.go 44-61 NodeBootstrapTerminal *)
definition NodeBootstrapTerminal :: "string \<Rightarrow> string list \<Rightarrow> guidance" where
  "NodeBootstrapTerminal nodeIP failedNodes = \<lparr>gu_category = CategoryNodeFailure, gu_reason = ''NodeBootstrapTerminal'',
     gu_message = ''Node '' @ nodeIP @ '' bootstrap failed permanently (failed nodes: '' @ fmt_strings failedNodes @
       ''). The node has been marked as failed and will be skipped in subsequent reconciles.'',
     gu_actions = [''Check BKEAgent logs on the failed node: /var/log/openFuyao/bkeagent.log'',
       ''Manually resolve the issue (e.g., clean residual processes, fix certificates, free disk space)'',
       ''After resolving, restart BKEAgent on the node to trigger a new bootstrap command'',
       ''If the problem cannot be resolved, delete the BKECluster resource to clean up'']\<rparr>"

(* src: utils/capbke/intervention/guidance.go 65-82 RetryExhausted *)
definition RetryExhausted :: "string \<Rightarrow> int \<Rightarrow> guidance" where
  "RetryExhausted healthState retryCount = \<lparr>gu_category = CategoryRetryExhausted, gu_reason = ''RetryExhausted'',
     gu_message = ''Cluster health state transitioned to '' @ healthState @ '' after '' @ Itoa retryCount @
       '' consecutive failures. Automatic retries have been stopped. All phases are skipped until manual recovery.'',
     gu_actions = [''Review the BKECluster status and identify which phase failed'',
       ''Check controller logs for detailed error information'',
       ''Resolve the root cause on the affected nodes'',
       ''After fixing, add the retry annotation to the BKECluster resource to reset cluster status and resume reconciliation'']\<rparr>"

fun numbered :: "int \<Rightarrow> string list \<Rightarrow> string" where
  "numbered i [] = []"
| "numbered i (a # as) = CHR 0x0A # ''  '' @ Itoa i @ ''. '' @ a @ numbered (i + 1) as"

(* src: utils/capbke/intervention/intervention.go 207-217 buildMessage *)
definition buildMessage :: "guidance \<Rightarrow> string" where
  "buildMessage g = gu_message g @ (if gu_actions g \<noteq> [] then CHR 0x0A # ''Recommended actions:'' @ numbered 1 (gu_actions g) else [])"

section \<open>The condition\<close>

(* src: api/capbke/v1beta1/bkecluster_consts.go 157-161 ManualInterventionRequiredCondition *)
definition ManualInterventionRequiredCondition :: string where
  "ManualInterventionRequiredCondition = ''ManualInterventionRequired''"

definition upd_pc_cluster :: "(bke_cluster \<Rightarrow> bke_cluster) \<Rightarrow> 'w phase_ctx \<Rightarrow> 'w phase_ctx" where
  "upd_pc_cluster f ctx = ctx\<lparr>pc_cluster := f (pc_cluster ctx)\<rparr>"

definition pc_now :: "('w, 'o, 'p) flow_env \<Rightarrow> 'w phase_ctx \<Rightarrow> gotime" where
  "pc_now fl ctx = me_now (fe_merge fl) (snd (pc_world ctx))"

definition mark_condition :: "('w, 'o, 'p) flow_env \<Rightarrow> string \<Rightarrow> string \<Rightarrow> string \<Rightarrow> string \<Rightarrow> 'w phase_ctx \<Rightarrow> 'w phase_ctx" where
  "mark_condition fl ty st reason msg ctx = upd_pc_cluster (\<lambda>c. ConditionMark c ty st reason msg (pc_now fl ctx)) ctx"

(* src: utils/capbke/intervention/intervention.go 220-226 isAlreadyMarked *)
definition isAlreadyMarked :: "bke_cluster \<Rightarrow> string \<Rightarrow> bool" where
  "isAlreadyMarked c reason =
     (case HasCondition ManualInterventionRequiredCondition c of
        None \<Rightarrow> False | Some x \<Rightarrow> cc_status x = ''True'' \<and> cc_reason x = reason)"

(* src: utils/capbke/intervention/intervention.go 197-203 IsRequired *)
definition IsRequired :: "bke_cluster \<Rightarrow> bool" where
  "IsRequired c = HasConditionStatus ManualInterventionRequiredCondition c ''True''"

(* src: utils/capbke/intervention/intervention.go 91-139 Require *)
definition Require :: "('w, 'o, 'p) flow_env \<Rightarrow> bool \<Rightarrow> bool \<Rightarrow> guidance \<Rightarrow> 'w phase_ctx \<Rightarrow> 'w phase_ctx \<times> merge_error option" where
  "Require fl recorder client g ctx =
     (if \<not> recorder then (ctx, None)
      else if isAlreadyMarked (pc_cluster ctx) (gu_reason g) then (ctx, None)
      else let ctx1 = mark_condition fl ManualInterventionRequiredCondition ''True'' (gu_reason g) (buildMessage g) ctx in
           if client then sync_cluster fl [] ctx1 else (ctx1, None))"

(* src: utils/capbke/intervention/intervention.go 176-193 ClearInMemory *)
definition ClearInMemory :: "('w, 'o, 'p) flow_env \<Rightarrow> 'w phase_ctx \<Rightarrow> 'w phase_ctx" where
  "ClearInMemory fl ctx =
     (case HasCondition ManualInterventionRequiredCondition (pc_cluster ctx) of
        None \<Rightarrow> ctx
      | Some x \<Rightarrow>
          if cc_status x \<noteq> ''True'' then ctx
          else mark_condition fl ManualInterventionRequiredCondition ''False'' [] ''Manual intervention resolved'' ctx)"

(* src: utils/capbke/intervention/intervention.go 144-170 Clear *)
definition Clear :: "('w, 'o, 'p) flow_env \<Rightarrow> bool \<Rightarrow> 'w phase_ctx \<Rightarrow> 'w phase_ctx \<times> merge_error option" where
  "Clear fl client ctx =
     (if \<not> IsRequired (pc_cluster ctx) then (ctx, None)
      else let ctx1 = mark_condition fl ManualInterventionRequiredCondition ''False'' [] ''Manual intervention resolved'' ctx in
           if client then sync_cluster fl [] ctx1 else (ctx1, None))"

section \<open>Results\<close>

lemma HasCondition_mark [simp]:
  "HasCondition ty' (ConditionMark c ty st reason msg now) =
     (if ty' = ty then Some \<lparr>cc_type = ty, cc_addonName = [], cc_status = st, cc_lastTransitionTime = Some now, cc_reason = reason, cc_message = msg\<rparr>
      else HasCondition ty' c)"
proof -
  let ?x = "\<lparr>cc_type = ty, cc_addonName = [], cc_status = st, cc_lastTransitionTime = Some now, cc_reason = reason, cc_message = msg\<rparr>"
  show ?thesis unfolding ConditionMark_def
  proof (cases rule: AddonConditionMark_cases [of ty "[]" st reason msg now c])
    case (over x)
    then have "x = ?x" by simp
    with over show "HasCondition ty' (AddonConditionMark c ty st reason msg [] now) = (if ty' = ty then Some ?x else HasCondition ty' c)"
      by (simp add: HasCondition_def overwrite_find)
  next
    case (new x)
    then have "x = ?x" by simp
    moreover have "find (\<lambda>x. cc_type x = ty) (conds c) = None" using new(7) by (simp add: find_type_None)
    ultimately show "HasCondition ty' (AddonConditionMark c ty st reason msg [] now) = (if ty' = ty then Some ?x else HasCondition ty' c)"
      using new(8) by (simp add: HasCondition_def find_append_or option.case_eq_if)
  qed
qed

lemma HasCondition_mark_condition [simp]:
  "HasCondition ty' (pc_cluster (mark_condition fl ty st reason msg ctx)) =
     (if ty' = ty then Some \<lparr>cc_type = ty, cc_addonName = [], cc_status = st, cc_lastTransitionTime = Some (pc_now fl ctx), cc_reason = reason, cc_message = msg\<rparr>
      else HasCondition ty' (pc_cluster ctx))"
  by (simp add: mark_condition_def upd_pc_cluster_def)

lemma mark_condition_world [simp]: "pc_world (mark_condition fl ty st reason msg ctx) = pc_world ctx"
  by (simp add: mark_condition_def upd_pc_cluster_def)

text \<open>A request for help is seen afterwards, is made once for a reason, leaves every other condition as it is, and is taken back by the
  next attempt. Without a client nothing is written.\<close>

theorem intervention_asked_once:
  "let ctx1 = fst (Require fl True False g ctx); ctx2 = ClearInMemory fl ctx1 in
     IsRequired (pc_cluster ctx1) \<and> Require fl True client g ctx1 = (ctx1, None) \<and>
     \<not> IsRequired (pc_cluster ctx2) \<and> pc_world ctx2 = pc_world ctx \<and>
     (ty = ManualInterventionRequiredCondition \<or> HasCondition ty (pc_cluster ctx2) = HasCondition ty (pc_cluster ctx))"
  by (auto simp: Require_def IsRequired_def HasConditionStatus_def isAlreadyMarked_def ClearInMemory_def Let_def
      split: option.splits)

text \<open>Writing the request goes through the same retried write as every status: its error is the error of that write.\<close>

theorem intervention_written:
  "\<not> isAlreadyMarked (pc_cluster ctx) (gu_reason g) \<Longrightarrow>
   Require fl True True g ctx =
     sync_cluster fl [] (mark_condition fl ManualInterventionRequiredCondition ''True'' (gu_reason g) (buildMessage g) ctx)"
  by (simp add: Require_def)

theorem guidance_numbers_actions:
  "buildMessage \<lparr>gu_category = CategoryNodeFailure, gu_reason = ''r'', gu_message = ''m'', gu_actions = [''a'', ''b'']\<rparr> =
     ''m'' @ CHR 0x0A # ''Recommended actions:'' @ CHR 0x0A # ''  1. a'' @ CHR 0x0A # ''  2. b''"
  by code_simp

end
