(* ===== verification/Node_Removal.thy ===== *)
theory Node_Removal
  imports Machine_Controller Intervention
begin

text \<open>
  Taking nodes out of a cluster: \<^verbatim>\<open>pkg/phaseframe/phases/common.go\<close>, \<^verbatim>\<open>phase_helpers.go\<close>, \<^verbatim>\<open>ensure_worker_delete.go\<close>
  and \<^verbatim>\<open>ensure_master_delete.go\<close>. A phase finds the nodes that are no longer wanted, their machines, and makes cluster-api delete
  just these: it pauses the deployment of machines (or the control plane), marks the machines, lowers the replicas, resumes,
  and waits until the machines are gone.

  The state is the context of the phase with the two maps the phase keeps. The target cluster is read and changed through the
  fields of \<open>removal_env\<close>; a client that could not be made is nil, and using it is a panic. Machines are polled \<open>nv_polls\<close> times
  before the time is over. The client for tests that a phase may carry is not modelled.

  The results: draining and marking split the nodes into those that go and those that stay; the replicas stay in their bounds;
  a wait that ends well has seen every machine gone; and where the code takes away too much or leaves the cluster paused.
\<close>

section \<open>State and environment\<close>

text \<open>\<open>nv_cluster\<close> is the object of cluster-api behind the owner of a context. \<open>nv_getNode\<close> gives the name of the node with its error,
  because the client returns an object in either case; \<open>nv_drainPods\<close> the pods to evict, a list that may be nil, and the errors;
  \<open>nv_drain\<close> is the trial run of a drain. \<open>nv_remote\<close> makes a client for the cleaning.\<close>

record ('w, 'o, 'p) removal_env =
  nv_flow :: "('w, 'o, 'p) flow_env"
  nv_nodes :: "'w node_api"
  nv_capi :: "'w capi"
  nv_local :: local_nodes
  nv_cluster :: "string \<Rightarrow> capi_cluster"
  nv_target :: "'w target_api"
  nv_listNodes :: "'w \<Rightarrow> 'w \<times> (api_error + kube_node list)"
  nv_getNode :: "string \<Rightarrow> 'w \<Rightarrow> 'w \<times> string \<times> api_error option"
  nv_drainPods :: "string \<Rightarrow> 'w \<Rightarrow> 'w \<times> string list option \<times> api_error list"
  nv_drain :: "string \<Rightarrow> 'w attempt"
  nv_remote :: "bke_cluster \<Rightarrow> 'w attempt"
  nv_pods :: "string \<Rightarrow> 'w \<Rightarrow> 'w \<times> (api_error + (string \<times> string) list)"
  nv_deletePod :: "string \<times> string \<Rightarrow> 'w attempt"
  nv_deleteCommand :: "string \<Rightarrow> string \<Rightarrow> 'w attempt"
  nv_updateBke :: "bke_machine \<Rightarrow> 'w attempt"
  nv_polls :: nat

definition rm_run :: "('w \<Rightarrow> 'w \<times> 'r) \<Rightarrow> 'w phase_ctx \<Rightarrow> 'w phase_ctx \<times> 'r" where
  "rm_run f ctx = (case f (snd (pc_world ctx)) of (w, r) \<Rightarrow> (pc_upd_w w ctx, r))"

definition rm_quiet :: "'w attempt \<Rightarrow> 'w phase_ctx \<Rightarrow> 'w phase_ctx" where
  "rm_quiet f ctx = fst (rm_run f ctx)"

definition rm_api :: "api_error option \<Rightarrow> merge_error option" where
  "rm_api = map_option Failed_with"

definition owner_cluster :: "('w, 'o, 'p) removal_env \<Rightarrow> 'w phase_ctx \<Rightarrow> capi_cluster option" where
  "owner_cluster e ctx = map_option (nv_cluster e) (pc_owner ctx)"

definition drop_node_records :: "string \<Rightarrow> 'w phase_ctx \<Rightarrow> 'w phase_ctx" where
  "drop_node_records ip ctx =
     ctx\<lparr>pc_world := (RemoveSingleNodeStatusCache (fst (pc_world ctx)) (pc_cluster ctx) ip, snd (pc_world ctx))\<rparr>"

type_synonym machine_map = "(string \<times> machine_and_node) list"

text \<open>The phases keep what they have marked and what they wait for.\<close>

(* src: pkg/phaseframe/phases/ensure_worker_delete.go 55-60 EnsureWorkerDelete *)
record 'w removal =
  rm_ctx :: "'w phase_ctx"
  rm_toDelete :: machine_map
  rm_toWait :: machine_map

definition on_ctx :: "('w phase_ctx \<Rightarrow> 'w phase_ctx) \<Rightarrow> 'w removal \<Rightarrow> 'w removal" where
  "on_ctx f s = s\<lparr>rm_ctx := f (rm_ctx s)\<rparr>"

definition on_world :: "('w \<Rightarrow> 'w \<times> 'r) \<Rightarrow> 'w removal \<Rightarrow> 'w removal \<times> 'r" where
  "on_world f s = (case rm_run f (rm_ctx s) of (ctx, r) \<Rightarrow> (s\<lparr>rm_ctx := ctx\<rparr>, r))"

section \<open>Nodes of the target cluster\<close>

definition spec_of_kube :: "kube_node \<Rightarrow> node_spec" where
  "spec_of_kube n = \<lparr>ns_role = GetNodeRolesFromK8sNode (kn_labels n), ns_ip = GetNodeIP n, ns_port = [], ns_username = [], ns_password = [],
     ns_hostname = kn_name n, ns_controlPlane = zero_control_plane, ns_kubelet = None, ns_labels = []\<rparr>"

text \<open>Without nodes the slice stays nil, like after an error, so that the callers cannot tell these apart.\<close>

(* src: pkg/phaseframe/phases/common.go 212-233 GetTargetClusterNodes *)
definition GetTargetClusterNodes :: "('w, 'o, 'p) removal_env \<Rightarrow> bke_cluster \<Rightarrow> ('w, nodes) node_read" where
  "GetTargetClusterNodes e c w =
     (case tg_connect (nv_target e) c w of
        (w1, Some err) \<Rightarrow> (w1, Inl err)
      | (w1, None) \<Rightarrow> map_read (map spec_of_kube) (nv_listNodes e) w1)"

definition nodes_or_nil :: "api_error + nodes \<Rightarrow> nodes" where
  "nodes_or_nil r = (case r of Inl _ \<Rightarrow> [] | Inr ns \<Rightarrow> ns)"

text \<open>The outer option is \<^const>\<open>None\<close> when the refresh panics.\<close>

(* src: pkg/phaseframe/phases/phase_helpers.go 24-35 fetchBKENodesIfCPInitialized *)
definition fetchBKENodesIfCPInitialized :: "('w, 'o, 'p) removal_env \<Rightarrow> bke_cluster \<Rightarrow> 'w phase_ctx \<Rightarrow> 'w phase_ctx \<times> bke_node list option option" where
  "fetchBKENodesIfCPInitialized e c ctx =
     (case RefreshCtxCluster (nv_flow e) ctx of
        (ctx1, Some Panicked) \<Rightarrow> (ctx1, None)
      | (ctx1, r) \<Rightarrow>
          if r = None \<and> (case owner_cluster e ctx1 of None \<Rightarrow> True | Some cl \<Rightarrow> cp_initialized cl \<noteq> Some ''True'') then (ctx1, Some None)
          else (case rm_run (GetBKENodesWrapperForCluster (nv_nodes e) c) ctx1 of
                  (ctx2, Inl _) \<Rightarrow> (ctx2, Some None) | (ctx2, Inr bns) \<Rightarrow> (ctx2, Some (Some bns))))"

(* src: pkg/phaseframe/phases/phase_helpers.go 37-48 getDeleteTargetNodesIfDeployed *)
definition getDeleteTargetNodesIfDeployed :: "('w, 'o, 'p) removal_env \<Rightarrow> bke_cluster \<Rightarrow> 'w phase_ctx \<Rightarrow> 'w phase_ctx \<times> nodes option" where
  "getDeleteTargetNodesIfDeployed e c ctx =
     (case rm_run (GetBKENodesWrapperForCluster (nv_nodes e) c) ctx of
        (ctx1, r) \<Rightarrow>
          (case rm_run (ClusterEndDeployedWithContext (nv_capi e) (owner_cluster e ctx1) c (case r of Inl _ \<Rightarrow> [] | Inr bns \<Rightarrow> bns)) ctx1 of
             (ctx2, False) \<Rightarrow> (ctx2, None)
           | (ctx2, True) \<Rightarrow>
               (case rm_run (GetTargetClusterNodes e c) ctx2 of
                  (ctx3, Inl _) \<Rightarrow> (ctx3, None) | (ctx3, Inr ns) \<Rightarrow> (ctx3, Some ns))))"

section \<open>Nodes and machines\<close>

(* src: pkg/phaseframe/phases/common.go 44-49 ProcessNodeMachineMappingResult *)
record node_mapping =
  nm_delete :: machine_map
  nm_wait :: machine_map
  nm_infos :: "string list"
  nm_count :: nat

text \<open>Every error of the search counts as a node without a machine. The fetcher may be nil.\<close>

(* src: pkg/phaseframe/phases/common.go 77-104 ProcessNodeMachineMapping *)
definition forget_unbound :: "('w, 'o, 'p) removal_env \<Rightarrow> 'w node_api option \<Rightarrow> node_spec \<Rightarrow> 'w phase_ctx \<Rightarrow> 'w phase_ctx \<times> merge_error option" where
  "forget_unbound e fetcher node ctx =
     (let ctx1 = (if ns_hostname node \<noteq> [] then rm_quiet (DeleteTargetClusterNode (nv_target e) (pc_cluster ctx) (ns_hostname node)) ctx else ctx);
          ctx2 = (case fetcher of None \<Rightarrow> ctx1 | Some api \<Rightarrow> rm_quiet (DeleteBKENodeForCluster api (pc_cluster ctx1) (ns_ip node)) ctx1)
      in sync_cluster (nv_flow e) [\<lambda>c. RemoveAppointmentDeletedNodes c (ns_ip node)] (drop_node_records (ns_ip node) ctx2))"

definition add_machine :: "capi_machine \<Rightarrow> node_spec \<Rightarrow> node_mapping \<Rightarrow> node_mapping" where
  "add_machine m node acc =
     (let entry = \<lparr>mn_machine = m, mn_node = node\<rparr> in
      if ma_phase m = ''Deleting'' then acc\<lparr>nm_wait := AList.update (ma_name m) entry (nm_wait acc)\<rparr>
      else if ma_phase m = ''Deleted'' then acc
      else acc\<lparr>nm_infos := nm_infos acc @ [util_NodeInfo node], nm_count := Suc (nm_count acc),
               nm_delete := AList.update (ma_name m) entry (nm_delete acc)\<rparr>)"

fun map_machines :: "('w, 'o, 'p) removal_env \<Rightarrow> 'w node_api option \<Rightarrow> nodes \<Rightarrow> node_mapping \<Rightarrow> 'w phase_ctx \<Rightarrow> 'w phase_ctx \<times> (merge_error + node_mapping)" where
  "map_machines e fetcher [] acc ctx = (ctx, Inr acc)"
| "map_machines e fetcher (node # ns) acc ctx =
     (case rm_run (NodeToMachine (nv_capi e) (pc_cluster ctx) node) ctx of
        (ctx1, Inr m) \<Rightarrow> map_machines e fetcher ns (add_machine m node acc) ctx1
      | (ctx1, Inl _) \<Rightarrow>
          (case forget_unbound e fetcher node ctx1 of
             (ctx2, Some err) \<Rightarrow> (ctx2, Inl err)
           | (ctx2, None) \<Rightarrow> map_machines e fetcher ns acc ctx2))"

(* src: pkg/phaseframe/phases/common.go 64-130 ProcessNodeMachineMapping *)
definition ProcessNodeMachineMapping :: "('w, 'o, 'p) removal_env \<Rightarrow> 'w node_api option \<Rightarrow> nodes \<Rightarrow> 'w phase_ctx \<Rightarrow> 'w phase_ctx \<times> (merge_error + node_mapping)" where
  "ProcessNodeMachineMapping e fetcher ns = map_machines e fetcher ns \<lparr>nm_delete = [], nm_wait = [], nm_infos = [], nm_count = 0\<rparr>"

section \<open>A control plane node that could not be initialised\<close>

(* src: pkg/phaseframe/phases/common.go 186-206 ProcessCommandFailure (update) *)
definition release_initializer :: "('w, 'o, 'p) removal_env \<Rightarrow> string \<Rightarrow> string \<Rightarrow> 'w attempt" where
  "release_initializer e namespace name = RetryOnConflict (ca_retry (nv_capi e)) (\<lambda>w.
     case ca_getBke (nv_capi e) namespace name w of
       (w1, Inl err) \<Rightarrow> (w1, Some err)
     | (w1, Inr m) \<Rightarrow> nv_updateBke e (m\<lparr>bm_labels := RemoveBKEMachineLabel (bm_labels m) MasterNodeRole\<rparr>) w1)"

text \<open>Help is asked for on the object the caller had, which the refreshed context does not hold any more.\<close>

definition require_for :: "('w, 'o, 'p) removal_env \<Rightarrow> bool \<Rightarrow> guidance \<Rightarrow> bke_cluster \<Rightarrow> 'w phase_ctx \<Rightarrow> 'w phase_ctx" where
  "require_for e recorder g c ctx = (fst (Require (nv_flow e) recorder True g (ctx\<lparr>pc_cluster := c\<rparr>)))\<lparr>pc_cluster := pc_cluster ctx\<rparr>"

text \<open>The result is whether the waiting is over, and the error. An owner that is missing is a panic. \<open>recorder\<close> tells whether there
  is a recorder of events.\<close>

(* src: pkg/phaseframe/phases/common.go 153-208 ProcessCommandFailure *)
definition ProcessCommandFailure :: "('w, 'o, 'p) removal_env \<Rightarrow> string \<Rightarrow> string \<Rightarrow> string list \<Rightarrow> string \<Rightarrow> string list \<Rightarrow> bool \<Rightarrow>
    'w phase_ctx \<Rightarrow> 'w phase_ctx \<times> bool \<times> merge_error option" where
  "ProcessCommandFailure e cmdNamespace cmdName owners ip failedNodes recorder ctx =
     (case RefreshCtxBKECluster (nv_flow e) ctx of
        (ctx1, Some err) \<Rightarrow> (ctx1, False, Some err)
      | (ctx1, None) \<Rightarrow>
          (case rm_run (GetNodeStateFlagForCluster (nv_nodes e) (pc_cluster ctx) ip (flag_value NodeFailedFlag)) ctx1 of
             (ctx2, Inr True) \<Rightarrow>
               (let ctx3 = rm_quiet (SetNodeStateWithMessageForCluster (nv_nodes e) (pc_cluster ctx) ip ''BootStrapFailed'' []) ctx2 in
                case rm_run (nv_deleteCommand e cmdNamespace cmdName) ctx3 of
                  (ctx4, Some _) \<Rightarrow> (ctx4, False, None)
                | (ctx4, None) \<Rightarrow>
                    (require_for e recorder (NodeBootstrapTerminal ip failedNodes) (pc_cluster ctx) ctx4, True,
                     Some (Failed_with (ErrMsg ''master node init failed''))))
           | (ctx2, _) \<Rightarrow>
               (case owners of
                  [] \<Rightarrow> (ctx2, False, Some Panicked)
                | name # _ \<Rightarrow>
                    (case rm_run (release_initializer e cmdNamespace name) ctx2 of
                       (ctx3, Some err) \<Rightarrow> (ctx3, False, Some (Failed_with err))
                     | (ctx3, None) \<Rightarrow> (ctx3, False, Some (Failed_with (ErrMsg ''master node init command run failed'')))))))"

section \<open>Removing workers\<close>

definition fail_node :: "('w, 'o, 'p) removal_env \<Rightarrow> node_spec \<Rightarrow> string \<Rightarrow> 'w phase_ctx \<Rightarrow> 'w phase_ctx" where
  "fail_node e node msg ctx = rm_quiet (SetNodeStateWithMessageForCluster (nv_nodes e) (pc_cluster ctx) (ns_ip node) ''DeleteFailed'' msg) ctx"

text \<open>The machines that go and those that cannot be deleted.\<close>

(* src: pkg/phaseframe/phases/ensure_worker_delete.go 131-134 DrainNodesResult *)
record drain_split =
  dp_delete :: machine_map
  dp_cannot :: machine_map

definition keep_machine :: "string \<Rightarrow> machine_and_node \<Rightarrow> drain_split \<Rightarrow> drain_split" where
  "keep_machine name mn sp = sp\<lparr>dp_cannot := AList.update name mn (dp_cannot sp), dp_delete := AList.delete name (dp_delete sp)\<rparr>"

text \<open>A failure does not end the turn of a node: what follows is tried as well, with the name that came with the error. A list of pods
  that is nil is a panic, and so is a client that is nil: \<open>drainer\<close> and \<open>client\<close> tell whether there are such.\<close>

definition drain_pods :: "('w, 'o, 'p) removal_env \<Rightarrow> string \<Rightarrow> machine_and_node \<Rightarrow> string \<Rightarrow> 'w phase_ctx \<times> drain_split \<Rightarrow> ('w phase_ctx \<times> drain_split) \<times> bool" where
  "drain_pods e name mn remote = (\<lambda>(ctx, sp).
     case rm_run (nv_drainPods e remote) ctx of
       (ctx1, pods, errs) \<Rightarrow>
         (let st = (if errs \<noteq> [] then (fail_node e (mn_node mn) ''Failed to get need evict pods'' ctx1, keep_machine name mn sp) else (ctx1, sp)) in
          case pods of
            None \<Rightarrow> (st, True)
          | Some _ \<Rightarrow>
              (case rm_run (nv_drain e remote) (fst st) of
                 (ctx2, None) \<Rightarrow> ((ctx2, snd st), False)
               | (ctx2, Some _) \<Rightarrow> ((fail_node e (mn_node mn) ''Failed to drain remote node'' ctx2, keep_machine name mn (snd st)), False))))"

definition drain_node :: "('w, 'o, 'p) removal_env \<Rightarrow> bool \<Rightarrow> bool \<Rightarrow> string \<times> machine_and_node \<Rightarrow> 'w phase_ctx \<times> drain_split \<Rightarrow> ('w phase_ctx \<times> drain_split) \<times> bool" where
  "drain_node e drainer client = (\<lambda>(name, mn) (ctx, sp).
     if \<not> client then ((ctx, sp), True)
     else case rm_run (nv_getNode e (ns_hostname (mn_node mn))) ctx of
            (ctx1, remote, err) \<Rightarrow>
              if err = Some ApiNotFound then ((ctx1, sp), False)
              else let st = (if err \<noteq> None then (fail_node e (mn_node mn) ''Failed to get node from remote cluster'' ctx1, keep_machine name mn sp)
                             else (ctx1, sp))
                   in if \<not> drainer then (st, True) else drain_pods e name mn remote st)"

fun drain_all :: "('w, 'o, 'p) removal_env \<Rightarrow> bool \<Rightarrow> bool \<Rightarrow> machine_map \<Rightarrow> 'w phase_ctx \<times> drain_split \<Rightarrow> ('w phase_ctx \<times> drain_split) \<times> bool" where
  "drain_all e drainer client [] st = (st, False)"
| "drain_all e drainer client (entry # entries) st =
     (case drain_node e drainer client entry st of
        (st1, True) \<Rightarrow> (st1, True) | (st1, False) \<Rightarrow> drain_all e drainer client entries st1)"

text \<open>The flag tells of a panic. The client of the drainer was made before.\<close>

(* src: pkg/phaseframe/phases/ensure_worker_delete.go 137-189 EnsureWorkerDelete.drainNodes *)
definition drainNodes :: "('w, 'o, 'p) removal_env \<Rightarrow> bool \<Rightarrow> machine_map \<Rightarrow> 'w phase_ctx \<Rightarrow> ('w phase_ctx \<times> drain_split) \<times> bool" where
  "drainNodes e drainer deletes ctx =
     (case rm_run (tg_connect (nv_target e) (pc_cluster ctx)) ctx of
        (ctx1, r) \<Rightarrow> drain_all e drainer (r = None) deletes (ctx1, \<lparr>dp_delete = deletes, dp_cannot = []\<rparr>))"

definition mark_machine :: "('w, 'o, 'p) removal_env \<Rightarrow> string \<times> machine_and_node \<Rightarrow> 'w phase_ctx \<times> drain_split \<Rightarrow> 'w phase_ctx \<times> drain_split" where
  "mark_machine e = (\<lambda>(name, mn) (ctx, sp).
     case rm_run (MarkMachineForDeletion (nv_capi e) (mn_machine mn)) ctx of
       (ctx1, None) \<Rightarrow> (ctx1, sp)
     | (ctx1, Some _) \<Rightarrow> (fail_node e (mn_node mn) ''Failed to mark acssociated machine for deletion'' ctx1, keep_machine name mn sp))"

(* src: pkg/phaseframe/phases/ensure_worker_delete.go 208-229 EnsureWorkerDelete.markMachinesForDeletion *)
definition markMachinesForDeletion :: "('w, 'o, 'p) removal_env \<Rightarrow> 'w phase_ctx \<times> drain_split \<Rightarrow> 'w phase_ctx \<times> drain_split" where
  "markMachinesForDeletion e st = fold (mark_machine e) (dp_delete (snd st)) st"

(* src: pkg/phaseframe/phases/ensure_worker_delete.go 331-360 EnsureWorkerDelete.processDrainAndMark *)
definition processDrainAndMark :: "('w, 'o, 'p) removal_env \<Rightarrow> machine_map \<Rightarrow> 'w phase_ctx \<Rightarrow> ('w phase_ctx \<times> drain_split) \<times> bool" where
  "processDrainAndMark e deletes ctx =
     (case rm_run (tg_connect (nv_target e) (pc_cluster ctx)) ctx of
        (ctx1, r) \<Rightarrow>
          (case drainNodes e (r = None) deletes ctx1 of
             (st, True) \<Rightarrow> (st, True)
           | (st, False) \<Rightarrow> (markMachinesForDeletion e st, False)))"

subsection \<open>The first part\<close>

text \<open>Nodes of an appointment come first, then the nodes of the target cluster without an object.\<close>

definition worker_nodes :: "('w, 'o, 'p) removal_env \<Rightarrow> nodes \<Rightarrow> 'w phase_ctx \<Rightarrow> 'w phase_ctx \<times> nodes" where
  "worker_nodes e targetNodes ctx =
     (case rm_run (GetNeedDeleteWorkerNodes (nv_nodes e) (nv_local e) (pc_cluster ctx)) ctx of
        (ctx1, ns) \<Rightarrow>
          if ns = [] \<and> targetNodes \<noteq> []
          then rm_run (GetNeedDeleteWorkerNodesWithTargetNodes (nv_nodes e) (nv_local e) (pc_cluster ctx1) targetNodes) ctx1
          else (ctx1, ns))"

text \<open>The objects of cluster-api, of which \<open>pick\<close> is paused; the result holds that object as it was stored.\<close>

definition pause_object :: "('w, 'o, 'p) removal_env \<Rightarrow> (capi_objs \<Rightarrow> capi_object) \<Rightarrow> 'w phase_ctx \<Rightarrow> 'w phase_ctx \<times> (merge_error + capi_object)" where
  "pause_object e pick ctx =
     (case rm_run (GetClusterAPIAssociateObjs (nv_capi e) (owner_cluster e ctx)) ctx of
        (ctx1, None) \<Rightarrow> (ctx1, Inl Panicked)
      | (ctx1, Some (Inl err)) \<Rightarrow> (ctx1, Inl (Failed_with err))
      | (ctx1, Some (Inr objs)) \<Rightarrow>
          (case rm_run (\<lambda>w. case PauseClusterAPIObj (nv_capi e) [] (pick objs, w) of ((obj, w'), r) \<Rightarrow> (w', obj, r)) ctx1 of
             (ctx2, obj, Some err) \<Rightarrow> (ctx2, Inl (Failed_with err))
           | (ctx2, obj, None) \<Rightarrow> (ctx2, Inr obj)))"

text \<open>Without nodes to delete the result holds no deployment.\<close>

(* src: pkg/phaseframe/phases/ensure_worker_delete.go 250-312 EnsureWorkerDelete.initialSetup *)
definition initialSetup :: "('w, 'o, 'p) removal_env \<Rightarrow> nodes \<Rightarrow> 'w removal \<Rightarrow> 'w removal \<times> (merge_error + (node_mapping \<times> capi_object) option)" where
  "initialSetup e targetNodes s =
     (case worker_nodes e targetNodes (rm_ctx s) of
        (ctx1, ns) \<Rightarrow>
          (case ProcessNodeMachineMapping e None ns ctx1 of
             (ctx2, Inl err) \<Rightarrow> (s\<lparr>rm_ctx := ctx2\<rparr>, Inl err)
           | (ctx2, Inr nm) \<Rightarrow>
               (let s1 = s\<lparr>rm_ctx := ctx2, rm_toWait := nm_wait nm\<rparr> in
                if nm_count nm = 0 then (s1, Inr None)
                else (case pause_object e cao_deployment ctx2 of
                        (ctx3, Inl err) \<Rightarrow> (s1\<lparr>rm_ctx := ctx3\<rparr>, Inl err)
                      | (ctx3, Inr md) \<Rightarrow> (s1\<lparr>rm_ctx := ctx3\<rparr>, Inr (Some (nm, md)))))))"

subsection \<open>The last part\<close>

text \<open>The replicas that are left, at least \<open>least\<close>, in 32 bits.\<close>

definition replicas_left :: "32 word \<Rightarrow> 32 word \<Rightarrow> nat \<Rightarrow> 32 word" where
  "replicas_left least current n = (let r = current - of_nat n in if sint r < sint least then least else r)"

definition scale_object :: "('w, 'o, 'p) removal_env \<Rightarrow> 32 word \<Rightarrow> capi_object \<Rightarrow> 'w phase_ctx \<Rightarrow> 'w phase_ctx \<times> capi_object \<times> merge_error option" where
  "scale_object e n obj ctx =
     (case rm_run (\<lambda>w. case UpdateMachineDeploymentReplicas (nv_capi e) n (obj, w) of ((obj', w'), r) \<Rightarrow> (w', obj', r)) ctx of
        (ctx1, obj1, Some err) \<Rightarrow> (ctx1, obj1, Some (Failed_with err))
      | (ctx1, obj1, None) \<Rightarrow>
          (case rm_run (\<lambda>w. case ResumeClusterAPIObj (nv_capi e) [] (obj1, w) of ((obj', w'), r) \<Rightarrow> (w', obj', r)) ctx1 of
             (ctx2, obj2, r) \<Rightarrow> (ctx2, obj2, rm_api r)))"

(* src: pkg/phaseframe/phases/ensure_worker_delete.go 380-427 EnsureWorkerDelete.finalizeDeletion *)
definition finalizeDeletion :: "('w, 'o, 'p) removal_env \<Rightarrow> capi_object \<Rightarrow> drain_split \<Rightarrow> 'w removal \<Rightarrow> 'w removal \<times> ctrl_outcome \<times> merge_error option" where
  "finalizeDeletion e md sp s =
     (let req = (if dp_cannot sp \<noteq> [] then no_requeue\<lparr>co_requeueAfter := 10\<rparr> else no_requeue) in
      if dp_delete sp = [] then (s, req, Some (Failed_with (ErrMsg ''some nodes cannot be completely deleted'')))
      else let s1 = s\<lparr>rm_toDelete := dp_delete sp\<rparr> in
           case co_replicas md of
             None \<Rightarrow> (s1, req, Some Panicked)
           | Some current \<Rightarrow>
               (case scale_object e (replicas_left 0 current (length (dp_delete sp))) md (rm_ctx s1) of
                  (ctx, _, r) \<Rightarrow> (s1\<lparr>rm_ctx := ctx\<rparr>, req, r)))"

text \<open>The deferred part looks at an error that is never set, so it does nothing and is left out.\<close>

(* src: pkg/phaseframe/phases/ensure_worker_delete.go 429-496 EnsureWorkerDelete.reconcileWorkerDelete *)
definition reconcileWorkerDelete :: "('w, 'o, 'p) removal_env \<Rightarrow> 'w removal \<Rightarrow> 'w removal \<times> ctrl_outcome \<times> merge_error option" where
  "reconcileWorkerDelete e s =
     (case on_world (GetTargetClusterNodes e (pc_cluster (rm_ctx s))) s of
        (s1, targets) \<Rightarrow>
          (case initialSetup e (nodes_or_nil targets) s1 of
             (s2, Inl err) \<Rightarrow> (s2, no_requeue, Some err)
           | (s2, Inr None) \<Rightarrow> (s2, no_requeue, None)
           | (s2, Inr (Some (nm, md))) \<Rightarrow>
               (case processDrainAndMark e (nm_delete nm) (rm_ctx s2) of
                  ((ctx, sp), True) \<Rightarrow> (s2\<lparr>rm_ctx := ctx\<rparr>, no_requeue, Some Panicked)
                | ((ctx, sp), False) \<Rightarrow> finalizeDeletion e md sp (s2\<lparr>rm_ctx := ctx\<rparr>))))"

section \<open>Waiting for machines\<close>

(* src: pkg/phaseframe/phases/ensure_worker_delete.go 505-513 prepareMachinesAndNodesToWaitDelete *)
definition prepareMachinesAndNodesToWaitDelete :: "machine_map \<Rightarrow> machine_map \<Rightarrow> machine_map" where
  "prepareMachinesAndNodesToWaitDelete toWait toDelete = fold (\<lambda>(k, v). AList.update k v) toDelete toWait"

text \<open>One poll: machines that were seen to be gone are not asked for again; any other error than a missing machine ends the waiting.\<close>

fun poll_machines :: "'w capi \<Rightarrow> machine_map \<Rightarrow> (string \<times> node_spec) list \<Rightarrow> 'w \<Rightarrow> 'w \<times> (string \<times> node_spec) list \<times> api_error option" where
  "poll_machines api [] gone w = (w, gone, None)"
| "poll_machines api ((name, mn) # ms) gone w =
     (if has_key gone name then poll_machines api ms gone w
      else case ca_getMachine api (ma_namespace (mn_machine mn)) (ma_name (mn_machine mn)) w of
             (w1, Inr _) \<Rightarrow> poll_machines api ms gone w1
           | (w1, Inl err) \<Rightarrow>
               if IsNotFound err then poll_machines api ms (AList.update name (mn_node mn) gone) w1 else (w1, gone, Some err))"

text \<open>The polls that fit into the time are counted; the result is \<^const>\<open>None\<close> when the time is over.\<close>

fun poll_until :: "'w capi \<Rightarrow> nat \<Rightarrow> machine_map \<Rightarrow> (string \<times> node_spec) list \<Rightarrow> 'w \<Rightarrow> 'w \<times> (string \<times> node_spec) list \<times> api_error option option" where
  "poll_until api 0 ms gone w = (w, gone, None)"
| "poll_until api (Suc n) ms gone w =
     (case poll_machines api ms gone w of
        (w1, gone1, Some err) \<Rightarrow> (w1, gone1, Some (Some err))
      | (w1, gone1, None) \<Rightarrow> if length gone1 \<noteq> length ms then poll_until api n ms gone1 w1 else (w1, gone1, Some None))"

definition wait_machines :: "('w, 'o, 'p) removal_env \<Rightarrow> string \<Rightarrow> machine_map \<Rightarrow> 'w phase_ctx \<Rightarrow> 'w phase_ctx \<times> (merge_error + (string \<times> node_spec) list)" where
  "wait_machines e timeoutText ms ctx =
     (case rm_run (poll_until (nv_capi e) (nv_polls e) ms []) ctx of
        (ctx1, gone, None) \<Rightarrow> (ctx1, Inl (Failed_with (ErrMsg timeoutText)))
      | (ctx1, gone, Some (Some err)) \<Rightarrow> (ctx1, Inl (Failed_with err))
      | (ctx1, gone, Some None) \<Rightarrow> (ctx1, Inr gone))"

(* src: pkg/phaseframe/phases/ensure_worker_delete.go 572-637 EnsureWorkerDelete.waitForMachinesDelete *)
definition worker_waitForMachinesDelete :: "('w, 'o, 'p) removal_env \<Rightarrow> machine_map \<Rightarrow> 'w phase_ctx \<Rightarrow> 'w phase_ctx \<times> (merge_error + (string \<times> node_spec) list)" where
  "worker_waitForMachinesDelete e = wait_machines e ''Wait worker node delete failed''"

subsection \<open>What a worker leaves\<close>

definition forget_node_object :: "('w, 'o, 'p) removal_env \<Rightarrow> node_spec \<Rightarrow> 'w phase_ctx \<Rightarrow> 'w phase_ctx" where
  "forget_node_object e node ctx = drop_node_records (ns_ip node) (rm_quiet (DeleteBKENodeForCluster (nv_nodes e) (pc_cluster ctx) (ns_ip node)) ctx)"

fun delete_pods :: "('w, 'o, 'p) removal_env \<Rightarrow> (string \<times> string) list \<Rightarrow> 'w attempt" where
  "delete_pods e [] w = (w, None)"
| "delete_pods e (p # ps) w = (case nv_deletePod e p w of (w1, Some err) \<Rightarrow> (w1, Some err) | (w1, None) \<Rightarrow> delete_pods e ps w1)"

(* src: pkg/phaseframe/phases/ensure_worker_delete.go 686-710 EnsureWorkerDelete.cleanupNodePods *)
definition cleanupNodePods :: "('w, 'o, 'p) removal_env \<Rightarrow> node_spec \<Rightarrow> 'w phase_ctx \<Rightarrow> 'w phase_ctx" where
  "cleanupNodePods e node ctx =
     rm_quiet (\<lambda>w. case nv_pods e (ns_hostname node) w of (w1, Inl err) \<Rightarrow> (w1, Some err) | (w1, Inr ps) \<Rightarrow> delete_pods e ps w1)
       (forget_node_object e node ctx)"

definition clean_nodes :: "('w, 'o, 'p) removal_env \<Rightarrow> (node_spec \<Rightarrow> 'w phase_ctx \<Rightarrow> 'w phase_ctx) \<Rightarrow> (string \<times> node_spec) list \<Rightarrow> 'w phase_ctx \<Rightarrow> 'w phase_ctx \<times> merge_error option" where
  "clean_nodes e clean gone ctx =
     (case rm_run (nv_remote e (pc_cluster ctx)) ctx of
        (ctx1, Some _) \<Rightarrow> (ctx1, None)
      | (ctx1, None) \<Rightarrow> sync_cluster (nv_flow e) [] (fold (\<lambda>(_, node). clean node) gone ctx1))"

(* src: pkg/phaseframe/phases/ensure_worker_delete.go 649-674 EnsureWorkerDelete.processSuccessfulDeletions *)
definition processSuccessfulDeletions :: "('w, 'o, 'p) removal_env \<Rightarrow> (string \<times> node_spec) list \<Rightarrow> 'w phase_ctx \<Rightarrow> 'w phase_ctx \<times> merge_error option" where
  "processSuccessfulDeletions e gone ctx = (if gone \<noteq> [] then clean_nodes e (cleanupNodePods e) gone ctx else (ctx, None))"

text \<open>The map of awaited machines is extended in place.\<close>

(* src: pkg/phaseframe/phases/ensure_worker_delete.go 524-554 EnsureWorkerDelete.waitWorkerDelete *)
definition waitWorkerDelete :: "('w, 'o, 'p) removal_env \<Rightarrow> 'w removal \<Rightarrow> 'w removal \<times> merge_error option" where
  "waitWorkerDelete e s =
     (let ms = prepareMachinesAndNodesToWaitDelete (rm_toWait s) (rm_toDelete s); s1 = s\<lparr>rm_toWait := ms\<rparr> in
      if ms = [] then (s1, None)
      else case worker_waitForMachinesDelete e ms (rm_ctx s1) of
             (ctx, Inl err) \<Rightarrow> (s1\<lparr>rm_ctx := ctx\<rparr>, Some err)
           | (ctx, Inr gone) \<Rightarrow> (case processSuccessfulDeletions e gone ctx of (ctx', r) \<Rightarrow> (s1\<lparr>rm_ctx := ctx'\<rparr>, r)))"

(* src: pkg/phaseframe/phases/ensure_worker_delete.go 62-69 NewEnsureWorkerDelete *)
definition NewEnsureWorkerDelete :: "'w phase_ctx \<Rightarrow> 'w removal" where
  "NewEnsureWorkerDelete ctx = \<lparr>rm_ctx = ctx, rm_toDelete = [], rm_toWait = []\<rparr>"

(* src: pkg/phaseframe/phases/ensure_worker_delete.go 71-77 EnsureWorkerDelete.Execute *)
definition worker_Execute :: "('w, 'o, 'p) removal_env \<Rightarrow> 'w removal \<Rightarrow> 'w removal \<times> ctrl_outcome \<times> merge_error option" where
  "worker_Execute e s =
     (case reconcileWorkerDelete e s of
        (s1, res, Some err) \<Rightarrow> (s1, res, Some err)
      | (s1, res, None) \<Rightarrow> (case waitWorkerDelete e s1 of (s2, r) \<Rightarrow> (s2, res, r)))"

text \<open>The result tells whether the phase waits to be run.\<close>

definition deletion_needed :: "('w, 'o, 'p) removal_env \<Rightarrow> ('w node_api \<Rightarrow> local_nodes \<Rightarrow> bke_cluster \<Rightarrow> 'w \<Rightarrow> 'w \<times> nodes) \<Rightarrow>
    ('w node_api \<Rightarrow> local_nodes \<Rightarrow> bke_cluster \<Rightarrow> nodes \<Rightarrow> 'w \<Rightarrow> 'w \<times> nodes) \<Rightarrow> bke_cluster \<Rightarrow> 'w phase_ctx \<Rightarrow> 'w phase_ctx \<times> bool" where
  "deletion_needed e appointed fromTarget new ctx =
     (if \<not> DefaultNeedExecute (nv_flow e) new then (ctx, False)
      else case rm_run (appointed (nv_nodes e) (nv_local e) new) ctx of
             (ctx1, ns) \<Rightarrow>
               if ns \<noteq> [] then (ctx1, True)
               else case getDeleteTargetNodesIfDeployed e new ctx1 of
                      (ctx2, None) \<Rightarrow> (ctx2, False)
                    | (ctx2, Some targets) \<Rightarrow>
                        (case rm_run (fromTarget (nv_nodes e) (nv_local e) new targets) ctx2 of (ctx3, ns') \<Rightarrow> (ctx3, ns' \<noteq> [])))"

(* src: pkg/phaseframe/phases/ensure_worker_delete.go 79-102 EnsureWorkerDelete.NeedExecute *)
definition worker_delete_NeedExecute :: "('w, 'o, 'p) removal_env \<Rightarrow> bke_cluster \<Rightarrow> 'w phase_ctx \<Rightarrow> 'w phase_ctx \<times> bool" where
  "worker_delete_NeedExecute e = deletion_needed e GetNeedDeleteWorkerNodes GetNeedDeleteWorkerNodesWithTargetNodes"

section \<open>Removing control plane nodes\<close>

definition master_nodes :: "('w, 'o, 'p) removal_env \<Rightarrow> nodes \<Rightarrow> 'w phase_ctx \<Rightarrow> 'w phase_ctx \<times> nodes" where
  "master_nodes e targetNodes ctx =
     (case rm_run (GetNeedDeleteMasterNodes (nv_nodes e) (nv_local e) (pc_cluster ctx)) ctx of
        (ctx1, ns) \<Rightarrow>
          if ns = [] \<and> targetNodes \<noteq> []
          then rm_run (GetNeedDeleteMasterNodesWithTargetNodes (nv_nodes e) (nv_local e) (pc_cluster ctx1) targetNodes) ctx1
          else (ctx1, ns))"

text \<open>Marking gives the machines that were marked and the error of the last one.\<close>

fun mark_masters :: "('w, 'o, 'p) removal_env \<Rightarrow> machine_map \<Rightarrow> 'w phase_ctx \<times> machine_map \<times> api_error option \<Rightarrow> 'w phase_ctx \<times> machine_map \<times> api_error option" where
  "mark_masters e [] st = st"
| "mark_masters e ((_, mn) # ms) (ctx, deletes, _) =
     (case rm_run (MarkMachineForDeletion (nv_capi e) (mn_machine mn)) ctx of
        (ctx1, r) \<Rightarrow> mark_masters e ms (ctx1, if r = None then deletes else AList.delete (ma_name (mn_machine mn)) deletes, r))"

text \<open>The deferred part: after an error the replicas are set back and the control plane is resumed, whatever becomes of the first.\<close>

(* src: pkg/phaseframe/phases/ensure_master_delete.go 203-213 EnsureMasterDelete.pauseAndScaleDownControlPlane *)
definition restore_plane :: "('w, 'o, 'p) removal_env \<Rightarrow> 32 word option \<Rightarrow> capi_object \<Rightarrow> 'w phase_ctx \<Rightarrow> 'w phase_ctx \<times> capi_object \<times> bool" where
  "restore_plane e current obj ctx =
     (case current of
        None \<Rightarrow> (ctx, obj, True)
      | Some n \<Rightarrow>
          (case rm_run (\<lambda>w. case UpdateKubeadmControlPlaneReplicas (nv_capi e) n (obj, w) of ((obj', w'), _) \<Rightarrow> (w', obj')) ctx of
             (ctx1, obj1) \<Rightarrow>
               (case rm_run (\<lambda>w. case ResumeClusterAPIObj (nv_capi e) [] (obj1, w) of ((obj', w'), _) \<Rightarrow> (w', obj')) ctx1 of
                  (ctx2, obj2) \<Rightarrow> (ctx2, obj2, False))))"

text \<open>Lowering the replicas and resuming.\<close>

definition scale_plane :: "('w, 'o, 'p) removal_env \<Rightarrow> 32 word \<Rightarrow> capi_object \<Rightarrow> 'w phase_ctx \<Rightarrow> 'w phase_ctx \<times> capi_object \<times> merge_error option" where
  "scale_plane e n obj ctx =
     (case rm_run (\<lambda>w. case UpdateKubeadmControlPlaneReplicas (nv_capi e) n (obj, w) of ((obj', w'), r) \<Rightarrow> (w', obj', r)) ctx of
        (ctx1, obj1, Some err) \<Rightarrow> (ctx1, obj1, Some (Failed_with err))
      | (ctx1, obj1, None) \<Rightarrow>
          (case rm_run (\<lambda>w. case ResumeClusterAPIObj (nv_capi e) [] (obj1, w) of ((obj', w'), r) \<Rightarrow> (w', obj', r)) ctx1 of
             (ctx2, obj2, r) \<Rightarrow> (ctx2, obj2, rm_api r)))"

definition with_restore :: "('w, 'o, 'p) removal_env \<Rightarrow> 32 word option \<Rightarrow> bool \<Rightarrow> capi_object \<Rightarrow> merge_error option \<Rightarrow> 'w removal \<Rightarrow> 'w removal \<times> merge_error option" where
  "with_restore e current failed obj r s =
     (if \<not> failed then (s, r)
      else case restore_plane e current obj (rm_ctx s) of (ctx, _, panics) \<Rightarrow> (s\<lparr>rm_ctx := ctx\<rparr>, if panics then Some Panicked else r))"

(* src: pkg/phaseframe/phases/ensure_master_delete.go 177-252 EnsureMasterDelete.pauseAndScaleDownControlPlane *)
definition pauseAndScaleDownControlPlane :: "('w, 'o, 'p) removal_env \<Rightarrow> machine_map \<Rightarrow> 'w removal \<Rightarrow> 'w removal \<times> merge_error option" where
  "pauseAndScaleDownControlPlane e deletes s =
     (case pause_object e cao_controlPlane (rm_ctx s) of
        (ctx1, Inl err) \<Rightarrow> (s\<lparr>rm_ctx := ctx1\<rparr>, Some err)
      | (ctx1, Inr kcp) \<Rightarrow>
          (case mark_masters e deletes (ctx1, deletes, None) of
             (ctx2, left, lastErr) \<Rightarrow>
               if left = [] then with_restore e (co_replicas kcp) (lastErr \<noteq> None) kcp None (s\<lparr>rm_ctx := ctx2\<rparr>)
               else let s2 = s\<lparr>rm_ctx := ctx2, rm_toDelete := left\<rparr> in
                    case co_replicas kcp of
                      None \<Rightarrow> (s2, Some Panicked)
                    | Some current \<Rightarrow>
                        (case scale_plane e (replicas_left 1 current (length left)) kcp ctx2 of
                           (ctx3, kcp', r) \<Rightarrow> with_restore e (Some current) (r \<noteq> None) kcp' r (s2\<lparr>rm_ctx := ctx3\<rparr>))))"

text \<open>The machines that are being deleted already are kept only when others are to be deleted as well.\<close>

(* src: pkg/phaseframe/phases/ensure_master_delete.go 112-165 EnsureMasterDelete.reconcileMasterDelete *)
definition reconcileMasterDelete :: "('w, 'o, 'p) removal_env \<Rightarrow> 'w removal \<Rightarrow> 'w removal \<times> merge_error option" where
  "reconcileMasterDelete e s =
     (case on_world (GetTargetClusterNodes e (pc_cluster (rm_ctx s))) s of
        (s1, targets) \<Rightarrow>
          (case master_nodes e (nodes_or_nil targets) (rm_ctx s1) of
             (ctx1, ns) \<Rightarrow>
               (case ProcessNodeMachineMapping e None ns ctx1 of
                  (ctx2, Inl err) \<Rightarrow> (s1\<lparr>rm_ctx := ctx2\<rparr>, Some err)
                | (ctx2, Inr nm) \<Rightarrow>
                    if nm_count nm = 0 then (s1\<lparr>rm_ctx := ctx2\<rparr>, None)
                    else pauseAndScaleDownControlPlane e (nm_delete nm) (s1\<lparr>rm_ctx := ctx2, rm_toWait := nm_wait nm\<rparr>))))"

(* src: pkg/phaseframe/phases/ensure_master_delete.go 255-263 EnsureMasterDelete.prepareMachinesAndNodesToWaitDelete *)
definition master_machines_to_wait :: "'w removal \<Rightarrow> machine_map" where
  "master_machines_to_wait s = fold (\<lambda>(k, v). AList.update k v) (rm_toDelete s) (rm_toWait s)"

(* src: pkg/phaseframe/phases/ensure_master_delete.go 274-304 EnsureMasterDelete.waitForMachinesDelete *)
definition master_waitForMachinesDelete :: "('w, 'o, 'p) removal_env \<Rightarrow> machine_map \<Rightarrow> 'w phase_ctx \<Rightarrow> 'w phase_ctx \<times> (merge_error + (string \<times> node_spec) list)" where
  "master_waitForMachinesDelete e = wait_machines e ''Wait master node delete failed''"

definition clean_master :: "('w, 'o, 'p) removal_env \<Rightarrow> node_spec \<Rightarrow> 'w phase_ctx \<Rightarrow> 'w phase_ctx" where
  "clean_master e node ctx =
     (case rm_run (nv_pods e (ns_hostname node)) (forget_node_object e node ctx) of
        (ctx1, Inl _) \<Rightarrow> ctx1
      | (ctx1, Inr ps) \<Rightarrow> fold (\<lambda>p. rm_quiet (nv_deletePod e p)) ps ctx1)"

(* src: pkg/phaseframe/phases/ensure_master_delete.go 355-401 EnsureMasterDelete.cleanupDeletedNodePods *)
definition cleanupDeletedNodePods :: "('w, 'o, 'p) removal_env \<Rightarrow> (string \<times> node_spec) list \<Rightarrow> 'w phase_ctx \<Rightarrow> 'w phase_ctx \<times> merge_error option" where
  "cleanupDeletedNodePods e = clean_nodes e (clean_master e)"

(* src: pkg/phaseframe/phases/ensure_master_delete.go 308-344 EnsureMasterDelete.waitMasterDelete *)
definition waitMasterDelete :: "('w, 'o, 'p) removal_env \<Rightarrow> 'w removal \<Rightarrow> 'w removal \<times> merge_error option" where
  "waitMasterDelete e s =
     (let ms = master_machines_to_wait s; s1 = s\<lparr>rm_toWait := ms\<rparr> in
      if ms = [] then (s1, None)
      else case master_waitForMachinesDelete e ms (rm_ctx s1) of
             (ctx, Inl err) \<Rightarrow> (s1\<lparr>rm_ctx := ctx\<rparr>, Some err)
           | (ctx, Inr gone) \<Rightarrow>
               if gone = [] then (s1\<lparr>rm_ctx := ctx\<rparr>, None)
               else (case cleanupDeletedNodePods e gone ctx of (ctx', r) \<Rightarrow> (s1\<lparr>rm_ctx := ctx'\<rparr>, r)))"

(* src: pkg/phaseframe/phases/ensure_master_delete.go 65-70 EnsureMasterDelete.Execute *)
definition master_Execute :: "('w, 'o, 'p) removal_env \<Rightarrow> 'w removal \<Rightarrow> 'w removal \<times> ctrl_outcome \<times> merge_error option" where
  "master_Execute e s =
     (case reconcileMasterDelete e s of
        (s1, Some err) \<Rightarrow> (s1, no_requeue, Some err)
      | (s1, None) \<Rightarrow> (case waitMasterDelete e s1 of (s2, r) \<Rightarrow> (s2, no_requeue, r)))"

(* src: pkg/phaseframe/phases/ensure_master_delete.go 72-95 EnsureMasterDelete.NeedExecute *)
definition master_delete_NeedExecute :: "('w, 'o, 'p) removal_env \<Rightarrow> bke_cluster \<Rightarrow> 'w phase_ctx \<Rightarrow> 'w phase_ctx \<times> bool" where
  "master_delete_NeedExecute e = deletion_needed e GetNeedDeleteMasterNodes GetNeedDeleteMasterNodesWithTargetNodes"

section \<open>What is shown\<close>

subsection \<open>Which machines go\<close>

text \<open>What holds while nodes are drained and machines are marked: every machine is in one of the two maps.\<close>

definition splits :: "machine_map \<Rightarrow> drain_split \<Rightarrow> bool" where
  "splits deletes sp \<longleftrightarrow> map_of deletes = map_of (dp_cannot sp) ++ map_of (dp_delete sp) \<and>
     dom (map_of (dp_delete sp)) \<inter> dom (map_of (dp_cannot sp)) = {}"

lemma splits_keep [simp]:
  assumes "splits deletes sp" "map_of deletes name = Some mn"
  shows "splits deletes (keep_machine name mn sp)"
proof -
  have m: "map_of deletes k = (map_of (dp_cannot sp) ++ map_of (dp_delete sp)) k" for k using assms(1) by (simp add: splits_def)
  have "map_of deletes = (map_of (dp_cannot sp))(name \<mapsto> mn) ++ (map_of (dp_delete sp))(name := None)"
    using assms(2) m by (auto simp: fun_eq_iff map_add_def split: option.splits)
  with assms(1) show ?thesis by (auto simp: splits_def keep_machine_def update_conv' delete_conv')
qed

lemma splits_drain_pods:
  "drain_pods e name mn remote (ctx, sp) = ((ctx', sp'), p) \<Longrightarrow> splits deletes sp \<Longrightarrow> map_of deletes name = Some mn \<Longrightarrow> splits deletes sp'"
  by (auto simp: drain_pods_def Let_def split: prod.splits option.splits if_splits)

lemma splits_drain_node:
  "drain_node e d cl (name, mn) (ctx, sp) = ((ctx', sp'), p) \<Longrightarrow> splits deletes sp \<Longrightarrow> map_of deletes name = Some mn \<Longrightarrow> splits deletes sp'"
  by (auto simp: drain_node_def Let_def split: prod.splits if_splits intro: splits_drain_pods)

lemma splits_drain_all:
  "drain_all e d cl entries (ctx, sp) = ((ctx', sp'), p) \<Longrightarrow> splits deletes sp \<Longrightarrow> \<forall>(k, v) \<in> set entries. map_of deletes k = Some v \<Longrightarrow>
     splits deletes sp'"
proof (induction entries arbitrary: ctx sp)
  case (Cons x entries)
  obtain ctx1 sp1 q where d: "drain_node e d cl x (ctx, sp) = ((ctx1, sp1), q)" by (metis surj_pair)
  with Cons.prems have "splits deletes sp1" by (cases x) (auto intro: splits_drain_node)
  with Cons d show ?case by (cases q) auto
qed auto

lemma splits_mark:
  "mark_machine e (name, mn) (ctx, sp) = (ctx', sp') \<Longrightarrow> splits deletes sp \<Longrightarrow> map_of deletes name = Some mn \<Longrightarrow> splits deletes sp'"
  by (auto simp: mark_machine_def split: prod.splits option.splits)

lemma splits_marks:
  "fold (mark_machine e) ms (ctx, sp) = (ctx', sp') \<Longrightarrow> splits deletes sp \<Longrightarrow> \<forall>(k, v) \<in> set ms. map_of deletes k = Some v \<Longrightarrow> splits deletes sp'"
proof (induction ms arbitrary: ctx sp)
  case (Cons x ms)
  obtain ctx1 sp1 where m: "mark_machine e x (ctx, sp) = (ctx1, sp1)" by (metis surj_pair)
  with Cons.prems have "splits deletes sp1" by (cases x) (auto intro: splits_mark)
  with Cons m show ?case by auto
qed auto

definition part_of :: "machine_map \<Rightarrow> drain_split \<Rightarrow> bool" where
  "part_of deletes sp \<longleftrightarrow> set (dp_delete sp) \<subseteq> set deletes"

lemma part_of_keep [simp]: "part_of deletes sp \<Longrightarrow> part_of deletes (keep_machine name mn sp)"
  by (auto simp: part_of_def keep_machine_def AList.delete_eq)

lemma part_of_drain_node: "drain_node e d cl x (ctx, sp) = ((ctx', sp'), p) \<Longrightarrow> part_of deletes sp \<Longrightarrow> part_of deletes sp'"
  by (cases x) (auto simp: drain_node_def drain_pods_def Let_def split: prod.splits if_splits option.splits)

lemma part_of_drain_all: "drain_all e d cl entries (ctx, sp) = ((ctx', sp'), p) \<Longrightarrow> part_of deletes sp \<Longrightarrow> part_of deletes sp'"
  by (induction entries arbitrary: ctx sp) (auto split: prod.splits bool.splits dest!: part_of_drain_node)

text \<open>C25. Draining and marking lose no machine and keep none twice: a machine either goes or cannot be deleted.\<close>

theorem drain_splits_machines:
  assumes "distinct (map fst deletes)" "processDrainAndMark e deletes ctx = ((ctx', sp), panics)"
  shows "map_of deletes = map_of (dp_cannot sp) ++ map_of (dp_delete sp) \<and>
     dom (map_of (dp_delete sp)) \<inter> dom (map_of (dp_cannot sp)) = {}"
proof -
  let ?sp = "\<lparr>dp_delete = deletes, dp_cannot = []\<rparr>"
  have all: "\<forall>(k, v) \<in> set deletes. map_of deletes k = Some v" using assms(1) by auto
  have s0: "splits deletes ?sp" "part_of deletes ?sp" by (auto simp: splits_def part_of_def)
  obtain ctx1 r where c: "rm_run (tg_connect (nv_target e) (pc_cluster ctx)) ctx = (ctx1, r)" by (metis surj_pair)
  obtain ctx2 sp2 p where d: "drainNodes e (r = None) deletes ctx1 = ((ctx2, sp2), p)" by (metis surj_pair)
  have s2: "splits deletes sp2" "part_of deletes sp2"
    using d s0 by (auto simp: drainNodes_def split: prod.splits intro: splits_drain_all [OF _ _ all] part_of_drain_all)
  have "splits deletes sp"
  proof (cases p)
    case True
    with assms(2) c d s2 show ?thesis by (simp add: processDrainAndMark_def)
  next
    case False
    with assms(2) c d have "fold (mark_machine e) (dp_delete sp2) (ctx2, sp2) = (ctx', sp)"
      by (simp add: processDrainAndMark_def markMachinesForDeletion_def)
    from splits_marks [OF this s2(1)] s2(2) all show ?thesis by (auto simp: part_of_def)
  qed
  then show ?thesis by (simp add: splits_def)
qed

subsection \<open>Replicas\<close>

lemma replicas_left_bounds:
  assumes "0 \<le> sint least" "sint least \<le> sint current" "n < 2 ^ 31"
  shows "sint (replicas_left least current n) = max (sint least) (sint current - int n)"
proof -
  have c: "sint current < 2 ^ 31" using sint_lt [of current] by simp
  have n: "sint (of_nat n :: 32 word) = int n" using assms(3) by (simp add: signed_of_nat signed_take_bit_int_eq_self)
  have "sint (current - of_nat n) = sint current - int n"
    using assms(1-3) c n by (simp add: sint_word_ariths signed_take_bit_int_eq_self)
  then show ?thesis by (simp add: replicas_left_def Let_def max_def)
qed

text \<open>When the last part of a removal of workers ends well, the deployment was given its replicas less the machines that go, but
  not less than none and without a wrap-around of the 32 bits, and it was resumed after that.\<close>

theorem worker_replicas:
  assumes "finalizeDeletion e md sp s = (s', res, None)" "co_replicas md = Some current" "0 \<le> sint current"
    and "length (dp_delete sp) < 2 ^ 31"
  shows "\<exists>n obj. sint n = max 0 (sint current - int (length (dp_delete sp))) \<and>
     scale_object e n md (rm_ctx s) = (rm_ctx s', obj, None) \<and> rm_toDelete s' = dp_delete sp"
proof -
  have "sint (replicas_left 0 current (length (dp_delete sp))) = max 0 (sint current - int (length (dp_delete sp)))"
    using replicas_left_bounds [of 0 current "length (dp_delete sp)"] assms(3,4) by simp
  with assms(1,2) show ?thesis
    by (auto simp: finalizeDeletion_def Let_def split: if_splits prod.splits)
qed

subsection \<open>The control plane is not left paused\<close>

text \<open>A client that keeps the object \<open>k\<close>: reading gives it, a write of it is taken, and machines are other objects. The resource
  version is left to the server.\<close>

definition same_plane :: "capi_object \<Rightarrow> capi_object \<Rightarrow> bool" where
  "same_plane a b \<longleftrightarrow> co_key a = co_key b \<and> co_annotations a = co_annotations b \<and> co_replicas a = co_replicas b"

definition keeps_object :: "'w capi \<Rightarrow> capi_key \<Rightarrow> ('w \<Rightarrow> capi_object) \<Rightarrow> bool" where
  "keeps_object api k cell \<longleftrightarrow> retry_loop_ok (ca_retryObject api) \<and> retry_loop_ok (ca_retry api) \<and>
     (\<forall>w. co_key (cell w) = k) \<and>
     (\<forall>w. \<exists>w'. ca_getObject api k w = (w', Inr (cell w)) \<and> cell w' = cell w) \<and>
     (\<forall>obj w. co_key obj = k \<longrightarrow> (\<exists>w'. ca_updateObject api obj w = (w', None) \<and> same_plane (cell w') obj)) \<and>
     (\<forall>ns name w. cell (fst (ca_getMachine api ns name w)) = cell w) \<and>
     (\<forall>m w. cell (fst (ca_updateMachine api m w)) = cell w)"

lemma RetryOnConflict_first:
  assumes "retry_loop_ok lib" "fn w = (w', None)"
  shows "RetryOnConflict lib fn w = (w', None)"
proof -
  obtain n where "bo_steps (rl_DefaultRetry lib) = Suc n" using assms(1) by (metis gr0_conv_Suc retry_loop_ok_def)
  with assms show ?thesis by (simp add: RetryOnConflict_loop)
qed

lemma RetryOnConflict_keeps:
  assumes "retry_loop_ok lib" "\<And>u. cell (fst (fn u)) = cell u"
  shows "cell (fst (RetryOnConflict lib fn w)) = cell w"
  using RetryOnConflict_induct [OF assms(1), of fn w "fst (RetryOnConflict lib fn w)" "snd (RetryOnConflict lib fn w)"
      "\<lambda>u. cell u = cell w" "\<lambda>u _. cell u = cell w"] assms(2) by (metis fst_conv prod.collapse)

definition keeps_key :: "(capi_object \<Rightarrow> capi_object) \<Rightarrow> bool" where
  "keeps_key f \<longleftrightarrow> (\<forall>obj. co_key (f obj) = co_key obj)"

lemma change_object_kept:
  assumes "keeps_object api k cell" "keeps_key f" "co_key obj = k"
  shows "\<exists>w' obj'. RetryOnConflict (ca_retryObject api) (change_object api f) (obj, w) = ((obj', w'), None) \<and>
     co_key obj' = k \<and> same_plane (cell w') (f (cell w))"
proof -
  obtain w1 where g: "ca_getObject api k w = (w1, Inr (cell w))" "cell w1 = cell w" using assms(1) unfolding keeps_object_def by blast
  have "co_key (f (cell w)) = k" using assms(1,2) by (simp add: keeps_object_def keeps_key_def)
  with assms(1) obtain w2 where u: "ca_updateObject api (f (cell w)) w1 = (w2, None)" "same_plane (cell w2) (f (cell w))"
    unfolding keeps_object_def by blast
  have "change_object api f (obj, w) = ((f (cell w), w2), None)" using g u assms(3) by (simp add: change_object_def)
  moreover have "retry_loop_ok (ca_retryObject api)" using assms(1) by (simp add: keeps_object_def)
  ultimately have "RetryOnConflict (ca_retryObject api) (change_object api f) (obj, w) = ((f (cell w), w2), None)"
    by (intro RetryOnConflict_first)
  with u(2) \<open>co_key (f (cell w)) = k\<close> show ?thesis by (intro exI conjI)
qed

lemma MarkMachineForDeletion_keeps:
  assumes "keeps_object api k cell"
  shows "cell (fst (MarkMachineForDeletion api m w)) = cell w"
  unfolding MarkMachineForDeletion_def
proof (rule RetryOnConflict_keeps)
  show "retry_loop_ok (ca_retry api)" using assms by (simp add: keeps_object_def)
  show "cell (fst (case ca_getMachine api (ma_namespace m) (ma_name m) u of (w1, Inl e) \<Rightarrow> (w1, Some e)
      | (w1, Inr latest) \<Rightarrow> ca_updateMachine api (latest\<lparr>ma_annotations := AList.update DeleteMachineAnnotation [] (ma_annotations latest)\<rparr>) w1)) = cell u" for u
  proof -
    have k: "cell (fst (ca_getMachine api ns name w)) = cell w" "cell (fst (ca_updateMachine api m' w)) = cell w" for ns name m' w
      using assms by (simp_all add: keeps_object_def)
    obtain w1 r where g: "ca_getMachine api (ma_namespace m) (ma_name m) u = (w1, r)" by force
    then have "cell w1 = cell u" using k(1) by (metis fst_conv)
    with g k(2) show ?thesis by (cases r) simp_all
  qed
qed

abbreviation ctx_cell :: "('w \<Rightarrow> capi_object) \<Rightarrow> 'w phase_ctx \<Rightarrow> capi_object" where
  "ctx_cell cell ctx \<equiv> cell (snd (pc_world ctx))"

lemma pc_upd_w_world [simp]: "snd (pc_world (pc_upd_w w ctx)) = w"
  by (simp add: pc_upd_w_def)

lemma rm_run_world: "rm_run f ctx = (ctx', r) \<Longrightarrow> f (snd (pc_world ctx)) = (snd (pc_world ctx'), r)"
  by (auto simp: rm_run_def split: prod.splits)

lemma mark_masters_keeps:
  assumes "keeps_object (nv_capi e) k cell" "mark_masters e ms (ctx, D, r) = (ctx', L, r')"
  shows "ctx_cell cell ctx' = ctx_cell cell ctx"
  using assms(2)
proof (induction ms arbitrary: ctx D r)
  case (Cons x ms)
  obtain name mn where x: "x = (name, mn)" by force
  obtain ctx1 r1 where m: "rm_run (MarkMachineForDeletion (nv_capi e) (mn_machine mn)) ctx = (ctx1, r1)" by force
  have "ctx_cell cell ctx1 = ctx_cell cell ctx"
    using MarkMachineForDeletion_keeps [OF assms(1)] rm_run_world [OF m] by (metis fst_conv)
  with Cons x m show ?case by auto
qed simp

text \<open>The entries of a map of machines stand under the names of the machines.\<close>

definition by_name :: "machine_map \<Rightarrow> bool" where
  "by_name ms \<longleftrightarrow> distinct (map fst ms) \<and> (\<forall>(k, mn) \<in> set ms. k = ma_name (mn_machine mn))"

lemma keys_delete: "fst ` set (AList.delete k al) = fst ` set al - {k}"
  by (simp add: dom_map_of_conv_image_fst [symmetric] delete_conv')

lemma mark_masters_left:
  assumes "mark_masters e ms (ctx, D, r) = (ctx', L, None)" "by_name ms" "ms \<noteq> []" "fst ` set ms \<subseteq> fst ` set D"
  shows "L \<noteq> []"
  using assms
proof (induction ms arbitrary: ctx D r)
  case (Cons x ms)
  obtain name mn where x: "x = (name, mn)" by force
  obtain ctx1 r1 where m: "rm_run (MarkMachineForDeletion (nv_capi e) (mn_machine mn)) ctx = (ctx1, r1)" by force
  show ?case
  proof (cases "ms = []")
    case True
    with Cons.prems x m show ?thesis by (cases r1) auto
  next
    case False
    have k: "name = ma_name (mn_machine mn)" "name \<notin> fst ` set ms" "by_name ms" using Cons.prems(2) x by (auto simp: by_name_def)
    let ?D = "if r1 = None then D else AList.delete (ma_name (mn_machine mn)) D"
    have "fst ` set ms \<subseteq> fst ` set ?D" using Cons.prems(4) k(1,2) x by (simp add: keys_delete subset_Diff_insert)
    with Cons.IH [of ctx1 ?D r1] Cons.prems(1) x m k(3) False show ?thesis by auto
  qed
qed simp

lemma keeps_key_ops [simp]: "keeps_key (set_replicas n)" "keeps_key (drop_annotations ks)"
  by (simp_all add: keeps_key_def set_replicas_def drop_annotations_def)

definition resumed :: "32 word \<Rightarrow> capi_object \<Rightarrow> capi_object \<Rightarrow> bool" where
  "resumed n before obj \<longleftrightarrow> co_replicas obj = Some n \<and> co_annotations obj = AList.delete PausedAnnotation (co_annotations before)"

lemma scale_then_resume:
  assumes "keeps_object api k cell" "co_key obj = k"
  shows "\<exists>w1 obj1 w2 obj2. UpdateKubeadmControlPlaneReplicas api n (obj, w) = ((obj1, w1), None) \<and>
     ResumeClusterAPIObj api [] (obj1, w1) = ((obj2, w2), None) \<and> resumed n (cell w) (cell w2)"
proof -
  obtain w1 obj1 where u: "UpdateKubeadmControlPlaneReplicas api n (obj, w) = ((obj1, w1), None)" "co_key obj1 = k" "same_plane (cell w1) (set_replicas n (cell w))"
    using change_object_kept [OF assms(1) keeps_key_ops(1) assms(2)] unfolding UpdateKubeadmControlPlaneReplicas_def by blast
  obtain w2 obj2 where r: "ResumeClusterAPIObj api [] (obj1, w1) = ((obj2, w2), None)" "same_plane (cell w2) (drop_annotations [PausedAnnotation] (cell w1))"
    using change_object_kept [OF assms(1) keeps_key_ops(2) u(2)] unfolding ResumeClusterAPIObj_def by blast
  have "resumed n (cell w) (cell w2)"
    using u(3) r(2) by (simp add: resumed_def same_plane_def set_replicas_def drop_annotations_def)
  with u r show ?thesis by blast
qed

lemma rm_run_eq: "f (snd (pc_world ctx)) = (w, r) \<Longrightarrow> rm_run f ctx = (pc_upd_w w ctx, r)"
  by (simp add: rm_run_def)

lemma scale_plane_resumes:
  assumes "keeps_object (nv_capi e) k cell" "co_key obj = k"
  shows "\<exists>ctx' obj'. scale_plane e n obj ctx = (ctx', obj', None) \<and> resumed n (ctx_cell cell ctx) (ctx_cell cell ctx')"
proof -
  from scale_then_resume [OF assms, of n "snd (pc_world ctx)"] obtain w1 obj1 w2 obj2 where
    "UpdateKubeadmControlPlaneReplicas (nv_capi e) n (obj, snd (pc_world ctx)) = ((obj1, w1), None)"
    "ResumeClusterAPIObj (nv_capi e) [] (obj1, w1) = ((obj2, w2), None)" "resumed n (ctx_cell cell ctx) (cell w2)" by blast
  then show ?thesis by (simp add: scale_plane_def rm_run_def rm_api_def)
qed

lemma restore_plane_resumes:
  assumes "keeps_object (nv_capi e) k cell" "co_key obj = k"
  shows "\<exists>ctx' obj'. restore_plane e (Some n) obj ctx = (ctx', obj', False) \<and> resumed n (ctx_cell cell ctx) (ctx_cell cell ctx')"
proof -
  from scale_then_resume [OF assms, of n "snd (pc_world ctx)"] obtain w1 obj1 w2 obj2 where
    "UpdateKubeadmControlPlaneReplicas (nv_capi e) n (obj, snd (pc_world ctx)) = ((obj1, w1), None)"
    "ResumeClusterAPIObj (nv_capi e) [] (obj1, w1) = ((obj2, w2), None)" "resumed n (ctx_cell cell ctx) (cell w2)" by blast
  then show ?thesis by (simp add: restore_plane_def rm_run_def)
qed


subsection \<open>Waiting\<close>

lemma poll_machines_gone:
  assumes "poll_machines api ms gone w = (w', gone', r)" "set ms \<subseteq> set all" "distinct (map fst all)"
    and "\<And>k n. map_of gone k = Some n \<Longrightarrow> P k n" "distinct (map fst gone)"
    and "\<And>k mn u u'. (k, mn) \<in> set all \<Longrightarrow> ca_getMachine api (ma_namespace (mn_machine mn)) (ma_name (mn_machine mn)) u = (u', Inl ApiNotFound) \<Longrightarrow> P k (mn_node mn)"
  shows "(\<forall>k n. map_of gone' k = Some n \<longrightarrow> P k n) \<and> distinct (map fst gone')"
  using assms(1,2,4,5)
proof (induction ms arbitrary: gone w)
  case (Cons x ms)
  obtain k mn where x: "x = (k, mn)" by force
  obtain w1 q where g: "ca_getMachine api (ma_namespace (mn_machine mn)) (ma_name (mn_machine mn)) w = (w1, q)" by force
  let ?gone = "AList.update k (mn_node mn) gone"
  have all: "(k, mn) \<in> set all" "set ms \<subseteq> set all" using Cons.prems(2) x by auto
  show ?case
  proof (cases "\<not> has_key gone k \<and> q = Inl ApiNotFound")
    case True
    have "P k' n" if "map_of ?gone k' = Some n" for k' n
      using that Cons.prems(3) assms(6) [OF all(1)] True g by (auto simp: update_conv' split: if_splits)
    moreover have "distinct (map fst ?gone)" using Cons.prems(4) by (rule distinct_update)
    ultimately show ?thesis using Cons.IH [of ?gone w1] Cons.prems(1) x g True all(2) by (auto simp: IsNotFound_def)
  next
    case False
    with Cons x g all(2) show ?thesis by (cases q) (auto simp: IsNotFound_def split: if_splits)
  qed
qed auto

lemma poll_until_gone:
  assumes "poll_until api n ms gone w = (w', gone', Some None)" "distinct (map fst ms)"
    and "\<And>k x. map_of gone k = Some x \<Longrightarrow> P k x" "distinct (map fst gone)"
    and "\<And>k mn u u'. (k, mn) \<in> set ms \<Longrightarrow> ca_getMachine api (ma_namespace (mn_machine mn)) (ma_name (mn_machine mn)) u = (u', Inl ApiNotFound) \<Longrightarrow> P k (mn_node mn)"
  shows "(\<forall>k x. map_of gone' k = Some x \<longrightarrow> P k x) \<and> distinct (map fst gone') \<and> length gone' = length ms"
  using assms(1,3,4)
proof (induction n arbitrary: gone w)
  case (Suc n)
  obtain w1 gone1 q where p: "poll_machines api ms gone w = (w1, gone1, q)" by (metis surj_pair)
  have "(\<forall>k x. map_of gone1 k = Some x \<longrightarrow> P k x) \<and> distinct (map fst gone1)"
    by (rule poll_machines_gone [OF p order_refl assms(2), where P = P]) (fact Suc.prems(2) Suc.prems(3) assms(5))+
  then have g: "\<And>k x. map_of gone1 k = Some x \<Longrightarrow> P k x" "distinct (map fst gone1)" by simp_all
  show ?case
  proof (cases "q = None \<and> length gone1 \<noteq> length ms")
    case True
    with Suc.prems(1) p show ?thesis by (intro Suc.IH [OF _ g]) simp_all
  next
    case False
    with Suc.prems(1) p g show ?thesis by (cases q) simp_all
  qed
qed simp

lemma same_keys:
  assumes "distinct (map fst a)" "distinct (map fst b)" "length a = length b" "fst ` set a \<subseteq> fst ` set b"
  shows "fst ` set a = fst ` set b"
proof (rule card_subset_eq)
  show "card (fst ` set a) = card (fst ` set b)"
    using assms(1-3) by (metis distinct_card length_map list.set_map)
qed (use assms(4) in auto)

text \<open>C35. A wait for workers that ends well has seen every machine that goes missing: it answers for just these machines, each with
  its node, and each was not found at some time.\<close>

theorem wait_sees_all_gone:
  assumes "worker_waitForMachinesDelete e ms ctx = (ctx', Inr gone)" "distinct (map fst ms)"
  shows "fst ` set gone = fst ` set ms \<and>
     (\<forall>k mn. (k, mn) \<in> set ms \<longrightarrow> map_of gone k = Some (mn_node mn) \<and>
        (\<exists>u u'. ca_getMachine (nv_capi e) (ma_namespace (mn_machine mn)) (ma_name (mn_machine mn)) u = (u', Inl ApiNotFound)))"
proof -
  let ?P = "\<lambda>k x. \<exists>mn u u'. (k, mn) \<in> set ms \<and> x = mn_node mn \<and>
     ca_getMachine (nv_capi e) (ma_namespace (mn_machine mn)) (ma_name (mn_machine mn)) u = (u', Inl ApiNotFound)"
  obtain w where "poll_until (nv_capi e) (nv_polls e) ms [] (snd (pc_world ctx)) = (w, gone, Some None)"
    using assms(1) by (auto simp: worker_waitForMachinesDelete_def wait_machines_def dest!: rm_run_world split: prod.splits option.splits)
  from poll_until_gone [OF this assms(2), of ?P]
  have p: "\<And>k x. map_of gone k = Some x \<Longrightarrow> ?P k x" and d: "distinct (map fst gone)" "length gone = length ms" by auto
  have "fst ` set gone \<subseteq> fst ` set ms" using p d(1) by force
  with same_keys [OF d(1) assms(2) d(2)] have keys: "fst ` set gone = fst ` set ms" .
  show ?thesis
  proof (intro conjI allI impI keys)
    fix k mn assume k: "(k, mn) \<in> set ms"
    then have "k \<in> fst ` set gone" using keys by force
    then obtain x where x: "map_of gone k = Some x" by (metis domD dom_map_of_conv_image_fst)
    from p [OF this] obtain mn' u u' where "(k, mn') \<in> set ms" "x = mn_node mn'"
      "ca_getMachine (nv_capi e) (ma_namespace (mn_machine mn')) (ma_name (mn_machine mn')) u = (u', Inl ApiNotFound)" by blast
    moreover have "mn' = mn" using calculation(1) k assms(2) by (simp add: eq_key_imp_eq_value)
    ultimately show "map_of gone k = Some (mn_node mn)"
      "\<exists>u u'. ca_getMachine (nv_capi e) (ma_namespace (mn_machine mn)) (ma_name (mn_machine mn)) u = (u', Inl ApiNotFound)"
      using x by auto
  qed
qed

subsection \<open>What is taken away too much\<close>

text \<open>A control plane node that is removed is also taken for a worker, because every node of the target cluster gets the role of a
  worker: the removal of workers, which runs first, marks its machine and lowers the replicas of the deployment by one.\<close>

theorem removed_master_is_worker:
  assumes "GetTargetClusterNodes e c w = (w', Inr targets)" "tg_connect (nv_target e) c w = (w1, None)"
    and "nv_listNodes e w1 = (w2, Inr kns)" "n \<in> set kns" "has_key (kn_labels n) ''node-role.kubernetes.io/control-plane''"
    and "GetAppointmentDeletedNodes (nv_local e) c = []" "GetNodes (nv_nodes e) (bc_namespace c) (bc_name c) u = (u', Inr specs)"
    and "\<forall>s \<in> set specs. ns_ip s \<noteq> GetNodeIP n"
  shows "spec_of_kube n \<in> set (snd (GetNeedDeleteMasterNodesWithTargetNodes (nv_nodes e) (nv_local e) c targets u)) \<and>
     spec_of_kube n \<in> set (snd (GetNeedDeleteWorkerNodesWithTargetNodes (nv_nodes e) (nv_local e) c targets u))"
proof -
  have t: "targets = map spec_of_kube kns" using assms(1-3) by (simp add: GetTargetClusterNodes_def map_read_def)
  then have "targets \<noteq> []" "spec_of_kube n \<in> set targets" using assms(4) by auto
  then have mem: "spec_of_kube n \<in> set (snd (GetNeedDeleteNodesFromTargetNodes (nv_nodes e) c targets u))"
    using assms(7,8) by (auto simp: GetNeedDeleteNodesFromTargetNodes_def spec_of_kube_def list_ex_iff)
  have roles: "MasterNodeRole \<in> set (ns_role (spec_of_kube n))" "WorkerNodeRole \<in> set (ns_role (spec_of_kube n))"
    using assms(5) by (simp_all add: spec_of_kube_def GetNodeRolesFromK8sNode_def Let_def)
  have opts: "matchesOptions (spec_of_kube n) [(''Role'', MasterNodeRole)]" "matchesOptions (spec_of_kube n) [(''Role'', WorkerNodeRole)]"
    using roles by (force simp: SliceContainsSlice_def ContainsString_def MasterNodeRole_def WorkerNodeRole_def list_ex_iff)+
  show ?thesis
    using mem opts assms(6)
    by (auto simp: GetNeedDeleteMasterNodesWithTargetNodes_def GetNeedDeleteWorkerNodesWithTargetNodes_def nodes_Master_def nodes_Worker_def
        nodes_Filter_def map_prod_def split: prod.splits)
qed

text \<open>An error while the machines are listed counts as a node without a machine: its object in the target cluster is deleted, and
  nothing is drained.\<close>

theorem list_error_deletes_node:
  assumes "ca_machines (nv_capi e) (bc_namespace (pc_cluster ctx)) [(ClusterNameLabel, bc_name (pc_cluster ctx))] (snd (pc_world ctx)) = (w1, Inl err)"
    and "ns_hostname node \<noteq> []" "tg_connect (nv_target e) (pc_cluster ctx) w1 = (w2, None)"
    and "tg_deleteNode (nv_target e) (ns_hostname node) w2 = (w3, None)"
  shows "forget_unbound e None node (pc_upd_w w1 ctx) =
       sync_cluster (nv_flow e) [\<lambda>c. RemoveAppointmentDeletedNodes c (ns_ip node)] (drop_node_records (ns_ip node) (pc_upd_w w3 ctx)) \<and>
     ProcessNodeMachineMapping e None [node] ctx =
       (case forget_unbound e None node (pc_upd_w w1 ctx) of
          (ctx2, Some x) \<Rightarrow> (ctx2, Inl x) | (ctx2, None) \<Rightarrow> (ctx2, Inr \<lparr>nm_delete = [], nm_wait = [], nm_infos = [], nm_count = 0\<rparr>))"
  using assms
  by (auto simp: ProcessNodeMachineMapping_def forget_unbound_def NodeToMachine_def GetBKEClusterAssociateMachines_def GetListFiltersByBKECluster_def
      rm_run_def rm_quiet_def DeleteTargetClusterNode_def pc_upd_w_def split: prod.splits option.splits)

section \<open>Concrete inputs\<close>

text \<open>A flow all of whose calls fail.\<close>

definition failing_flow :: "('w, unit, unit) flow_env" where
  "failing_flow = \<lparr>fe_merge = \<lparr>me_get = (\<lambda>_ _ w. (w, Inl ApiTimeout)), me_list = (\<lambda>w. (w, Inl ApiTimeout)), me_delete = (\<lambda>_ _ w. (w, Some ApiTimeout)),
       me_getCM = (\<lambda>_ _ w. (w, Inl ApiTimeout)), me_createCM = (\<lambda>_ w. (w, Some ApiTimeout)), me_updateCM = (\<lambda>_ w. (w, Some ApiTimeout)),
       me_deleteCM = (\<lambda>_ _ w. (w, Some ApiTimeout)), me_setOwner = (\<lambda>_ _. Inl ApiTimeout), me_newHelper = (\<lambda>_. Some ApiTimeout),
       me_patch = (\<lambda>_ _ w. (w, Some ApiTimeout)), me_listNodes = (\<lambda>_ _ w. (w, Inl ApiTimeout)), me_getNode = (\<lambda>_ _ w. (w, Inl ApiTimeout)),
       me_updateNodeStatus = (\<lambda>_ w. (w, Some ApiTimeout)), me_now = (\<lambda>_. 0),
       me_retry = \<lparr>rl_DefaultRetry = ReadBackoff, rl_OnError = (\<lambda>b. retry_loop (bo_steps b))\<rparr>,
       me_marshal = (\<lambda>_. Inl ApiTimeout), me_unmarshal = (\<lambda>_ c. (c, Some ApiTimeout)), me_marshalCM = (\<lambda>_. Inl ApiTimeout), me_unmarshalCM = (\<lambda>_. Inl ApiTimeout),
       me_marshalNodes = (\<lambda>_. Inl ApiTimeout), me_unmarshalNodes = (\<lambda>_. Inl ApiTimeout), me_createPatch = (\<lambda>_ _. Inl ApiTimeout),
       me_decodePatch = (\<lambda>_. Inl ApiTimeout), me_apply = (\<lambda>_ _. Inl ApiTimeout), me_internalUpdate = False, me_allowedFailed = 10\<rparr>,
     fe_clock = (\<lambda>_. 0), fe_owner = (\<lambda>_ w. (w, Inl ApiTimeout)), fe_hasPaused = (\<lambda>_. False), fe_clusterVersion = (\<lambda>_ w. (w, Inl ErrNotFound)),
     fe_lowest = (\<lambda>a b. a), fe_errorText = (\<lambda>_. ''failed'')\<rparr>"

text \<open>No evaluation below looks into it.\<close>

declare failing_flow_def [code del]

text \<open>A server with one object and one machine. Machines can be marked as long as there are marks left; the machine is gone when
  the object was resumed with fewer replicas.\<close>

record plane_world =
  pw_object :: capi_object
  pw_marks :: nat
  pw_deleted :: "string list"

definition demo_plane :: capi_object where
  "demo_plane = \<lparr>co_key = (''KubeadmControlPlane'', ''ns'', ''cp''), co_resourceVersion = ''1'', co_annotations = [], co_replicas = Some 3,
     co_owners = [(''Cluster'', ''c'', ''u'')]\<rparr>"

definition demo_api :: "plane_world capi" where
  "demo_api = \<lparr>ca_machines = (\<lambda>_ _ w. (w, Inr [demo_machine])), ca_bkeMachines = (\<lambda>_ _ w. (w, Inr [])),
     ca_deployments = (\<lambda>_ _ w. (w, Inr [pw_object w])), ca_getObject = (\<lambda>_ w. (w, Inr (pw_object w))),
     ca_updateObject = (\<lambda>obj w. (w\<lparr>pw_object := obj\<lparr>co_key := co_key demo_plane\<rparr>\<rparr>, None)),
     ca_getMachine = (\<lambda>_ _ w. (w, if co_replicas (pw_object w) = Some 2 then Inl ApiNotFound else Inr demo_machine)),
     ca_updateMachine = (\<lambda>_ w. if pw_marks w = 0 then (w, Some ApiForbidden) else (w\<lparr>pw_marks := pw_marks w - 1\<rparr>, None)),
     ca_getBke = (\<lambda>_ _ w. (w, Inl ApiNotFound)), ca_getConfig = (\<lambda>_ _ w. (w, Inl ApiNotFound)),
     ca_retryObject = \<lparr>rl_DefaultRetry = ReadBackoff, rl_OnError = (\<lambda>b. retry_loop (bo_steps b))\<rparr>,
     ca_retry = \<lparr>rl_DefaultRetry = ReadBackoff, rl_OnError = (\<lambda>b. retry_loop (bo_steps b))\<rparr>\<rparr>"

definition demo_nodes_api :: "plane_world node_api" where
  "demo_nodes_api = \<lparr>na_list = (\<lambda>_ _ w. (w, Inr [])), na_updateStatus = (\<lambda>_ w. (w, None)), na_delete = (\<lambda>_ w. (w, None)),
     na_retry = \<lparr>rl_DefaultRetry = ReadBackoff, rl_OnError = (\<lambda>b. retry_loop (bo_steps b))\<rparr>\<rparr>"

definition demo_kube :: kube_node where
  "demo_kube = \<lparr>kn_name = ''host1'', kn_labels = [(''node-role.kubernetes.io/control-plane'', '''')], kn_conditions = [],
     kn_addresses = [(''InternalIP'', ''10.0.0.1'')], kn_kubelet = ''v1.25''\<rparr>"

definition demo_kube_target :: "plane_world target_api" where
  "demo_kube_target = demo_target\<lparr>tg_connect := (\<lambda>_ w. (w, None)), tg_deleteNode := (\<lambda>n w. (w\<lparr>pw_deleted := n # pw_deleted w\<rparr>, None))\<rparr>"

definition demo_owner :: capi_cluster where
  "demo_owner = \<lparr>cp_namespace = ''ns'', cp_name = ''c'', cp_kind = ''Cluster'', cp_uid = ''u'', cp_controlPlane = Some (''ns'', ''cp''),
     cp_initialized = Some ''True'', cp_infrastructureReady = True, cp_infrastructureRef = ''c''\<rparr>"

definition demo_removal :: "(plane_world, unit, unit) removal_env" where
  "demo_removal = \<lparr>nv_flow = failing_flow, nv_nodes = demo_nodes_api, nv_capi = demo_api, nv_local = (\<lambda>_ _. None), nv_cluster = (\<lambda>_. demo_owner),
     nv_target = demo_kube_target, nv_listNodes = (\<lambda>w. (w, Inr [demo_kube])), nv_getNode = (\<lambda>n w. (w, n, None)),
     nv_drainPods = (\<lambda>_ w. (w, Some [], [])), nv_drain = (\<lambda>_ w. (w, None)), nv_remote = (\<lambda>_ w. (w, Some ApiTimeout)),
     nv_pods = (\<lambda>_ w. (w, Inr [])), nv_deletePod = (\<lambda>_ w. (w, None)), nv_deleteCommand = (\<lambda>_ _ w. (w, None)),
     nv_updateBke = (\<lambda>_ w. (w, None)), nv_polls = 3\<rparr>"

definition demo_removal_ctx :: "nat \<Rightarrow> plane_world phase_ctx" where
  "demo_removal_ctx n = \<lparr>pc_world = (NewStatusManager, \<lparr>pw_object = demo_plane, pw_marks = n, pw_deleted = []\<rparr>),
     pc_cluster = blank_cluster ''ns'' ''c'', pc_owner = Some ''c'', pc_hasClient = True, pc_versionContext = None, pc_dagCompleted = False,
     pc_cancelled = False\<rparr>"

definition demo_gone :: machine_map where
  "demo_gone = [(''m1'', \<lparr>mn_machine = demo_machine, mn_node = (demo_spec_node ''10.0.0.1'' [])\<lparr>ns_hostname := ''host1''\<rparr>\<rparr>)]"

text \<open>When the only worker that is to go cannot be marked, the phase fails and the deployment stays paused: what should set it back
  never runs.\<close>

theorem undeletable_stays_paused:
  "case worker_Execute demo_removal (NewEnsureWorkerDelete (demo_removal_ctx 0)) of
     (s, res, r) \<Rightarrow> r = Some (Failed_with (ErrMsg ''some nodes cannot be completely deleted'')) \<and> co_requeueAfter res = 10 \<and>
       has_key (co_annotations (pw_object (snd (pc_world (rm_ctx s))))) PausedAnnotation"
  by code_simp

theorem drain_splits_machines_witness:
  "\<exists>ctx' sp p. processDrainAndMark demo_removal demo_gone (demo_removal_ctx 0) = ((ctx', sp), p) \<and>
     map_of demo_gone = map_of (dp_cannot sp) ++ map_of (dp_delete sp) \<and> dom (map_of (dp_delete sp)) \<inter> dom (map_of (dp_cannot sp)) = {}"
proof -
  obtain ctx' sp p where r: "processDrainAndMark demo_removal demo_gone (demo_removal_ctx 0) = ((ctx', sp), p)" by (metis surj_pair)
  have "distinct (map fst demo_gone)" by (simp add: demo_gone_def)
  from drain_splits_machines [OF this r] r show ?thesis by blast
qed

theorem worker_replicas_witness:
  "\<exists>s' obj n. finalizeDeletion demo_removal demo_plane \<lparr>dp_delete = demo_gone, dp_cannot = []\<rparr> (NewEnsureWorkerDelete (demo_removal_ctx 1)) = (s', no_requeue, None) \<and>
     sint n = 2 \<and> scale_object demo_removal n demo_plane (demo_removal_ctx 1) = (rm_ctx s', obj, None) \<and> rm_toDelete s' = demo_gone"
proof -
  let ?sp = "\<lparr>dp_delete = demo_gone, dp_cannot = []\<rparr>" and ?s = "NewEnsureWorkerDelete (demo_removal_ctx 1)"
  have "snd (finalizeDeletion demo_removal demo_plane ?sp ?s) = (no_requeue, None)" by code_simp
  then obtain s' where r: "finalizeDeletion demo_removal demo_plane ?sp ?s = (s', no_requeue, None)" by (metis prod.collapse)
  have h: "co_replicas demo_plane = Some 3" "0 \<le> sint (3 :: 32 word)" "length (dp_delete ?sp) < 2 ^ 31"
    by (simp_all add: demo_plane_def demo_gone_def)
  from worker_replicas [OF r h] show ?thesis using r by (auto simp: demo_gone_def NewEnsureWorkerDelete_def)
qed

definition demo_store :: "plane_world capi" where
  "demo_store = demo_api\<lparr>ca_getObject := (\<lambda>k w. (w, Inr ((pw_object w)\<lparr>co_key := co_key demo_plane\<rparr>)))\<rparr>"

lemma demo_store_keeps: "keeps_object demo_store (co_key demo_plane) (\<lambda>w. (pw_object w)\<lparr>co_key := co_key demo_plane\<rparr>)"
  by (auto simp: keeps_object_def demo_store_def demo_api_def same_plane_def retry_loop_ok_def ReadBackoff_def)


theorem wait_sees_all_gone_witness:
  "\<exists>ctx' gone. worker_waitForMachinesDelete demo_removal demo_gone
       ((demo_removal_ctx 0)\<lparr>pc_world := (NewStatusManager, \<lparr>pw_object = demo_plane\<lparr>co_replicas := Some 2\<rparr>, pw_marks = 0, pw_deleted = []\<rparr>)\<rparr>) = (ctx', Inr gone) \<and>
     fst ` set gone = {''m1''}"
proof -
  let ?ctx = "(demo_removal_ctx 0)\<lparr>pc_world := (NewStatusManager, \<lparr>pw_object = demo_plane\<lparr>co_replicas := Some 2\<rparr>, pw_marks = 0, pw_deleted = []\<rparr>)\<rparr>"
  have "\<not> isl (snd (worker_waitForMachinesDelete demo_removal demo_gone ?ctx))" by code_simp
  then obtain ctx' gone where r: "worker_waitForMachinesDelete demo_removal demo_gone ?ctx = (ctx', Inr gone)"
    by (metis prod.collapse sum.collapse(2))
  have "distinct (map fst demo_gone)" by (simp add: demo_gone_def)
  from wait_sees_all_gone [OF r this] r show ?thesis by (auto simp: demo_gone_def)
qed

theorem removed_master_is_worker_witness:
  "let w = snd (pc_world (demo_removal_ctx 0)); c = pc_cluster (demo_removal_ctx 0); e = demo_removal
   in spec_of_kube demo_kube \<in> set (snd (GetNeedDeleteMasterNodesWithTargetNodes (nv_nodes e) (nv_local e) c [spec_of_kube demo_kube] w)) \<and>
      spec_of_kube demo_kube \<in> set (snd (GetNeedDeleteWorkerNodesWithTargetNodes (nv_nodes e) (nv_local e) c [spec_of_kube demo_kube] w))"
proof -
  let ?w = "snd (pc_world (demo_removal_ctx 0))" and ?c = "pc_cluster (demo_removal_ctx 0)" and ?e = "demo_removal"
  have "GetTargetClusterNodes ?e ?c ?w = (?w, Inr [spec_of_kube demo_kube])" by code_simp
  moreover have "tg_connect (nv_target ?e) ?c ?w = (?w, None)" "nv_listNodes ?e ?w = (?w, Inr [demo_kube])"
      "GetAppointmentDeletedNodes (nv_local ?e) ?c = []" "GetNodes (nv_nodes ?e) (bc_namespace ?c) (bc_name ?c) ?w = (?w, Inr [])"
      "has_key (kn_labels demo_kube) ''node-role.kubernetes.io/control-plane''" by code_simp+
  ultimately show ?thesis
    using removed_master_is_worker [of ?e ?c ?w ?w "[spec_of_kube demo_kube]" ?w ?w "[demo_kube]" demo_kube ?w ?w "[]"] by (simp add: Let_def)
qed

theorem list_error_deletes_node_witness:
  "let e = demo_removal\<lparr>nv_capi := demo_api\<lparr>ca_machines := (\<lambda>_ _ w. (w, Inl ApiTimeout))\<rparr>\<rparr>;
       node = (demo_spec_node ''10.0.0.1'' [])\<lparr>ns_hostname := ''host1''\<rparr>; ctx = demo_removal_ctx 0
   in forget_unbound e None node (pc_upd_w (snd (pc_world ctx)) ctx) =
       sync_cluster failing_flow [\<lambda>c. RemoveAppointmentDeletedNodes c ''10.0.0.1''] (drop_node_records ''10.0.0.1''
         (pc_upd_w \<lparr>pw_object = demo_plane, pw_marks = 0, pw_deleted = [''host1'']\<rparr> ctx))"
proof -
  let ?e = "demo_removal\<lparr>nv_capi := demo_api\<lparr>ca_machines := (\<lambda>_ _ w. (w, Inl ApiTimeout))\<rparr>\<rparr>"
  let ?node = "(demo_spec_node ''10.0.0.1'' [])\<lparr>ns_hostname := ''host1''\<rparr>" and ?ctx = "demo_removal_ctx 0"
  let ?w = "snd (pc_world ?ctx)" and ?w' = "\<lparr>pw_object = demo_plane, pw_marks = 0, pw_deleted = [''host1'']\<rparr>"
  have "ca_machines (nv_capi ?e) (bc_namespace (pc_cluster ?ctx)) [(ClusterNameLabel, bc_name (pc_cluster ?ctx))] ?w = (?w, Inl ApiTimeout)" by simp
  moreover have "ns_hostname ?node \<noteq> []" by simp
  moreover have "tg_connect (nv_target ?e) (pc_cluster ?ctx) ?w = (?w, None)" "tg_deleteNode (nv_target ?e) (ns_hostname ?node) ?w = (?w', None)" by code_simp+
  ultimately show ?thesis
    using list_error_deletes_node [of ?e ?ctx ?w ApiTimeout ?node ?w ?w'] by (simp add: Let_def demo_removal_def demo_spec_node_def)
qed

end
