(* ===== verification/Rolling_Upgrade.thy ===== *)
theory Rolling_Upgrade
  imports Node_Removal Agent_Ping
begin

text \<open>
  The upgrade of nodes one by one: \<^verbatim>\<open>pkg/phaseframe/phases/ensure_master_upgrade.go\<close>, \<^verbatim>\<open>ensure_worker_upgrade.go\<close> and
  \<^verbatim>\<open>ensure_etcd_upgrade.go\<close>. Each node is marked, upgraded by a command to its agent and watched until it is healthy at the new
  version. A control plane or etcd node that fails ends the run, a worker that fails is passed over and reported at the end.

  The state is the context of the phase; the environment adds to the one of \<open>Node_Removal\<close> the commands, the nodes and pods of
  the target cluster and the library of versions. Waits are counted in polls. What only the tests call is not modelled: the
  clients they inject and the upgrade of \<^verbatim>\<open>kube-proxy\<close>, which a manifest does now.

  The results: a run that ends well has seen every node it chose at the wanted version; a failing control plane node stops the run
  before the next one; and that the nodes whose agent is not ready are left out but count as upgraded afterwards.
\<close>

section \<open>Environment\<close>

record etcd_pod =
  ep_phase :: string
  ep_conditions :: "(string \<times> string) list"
  ep_containers :: "(string \<times> string) list"

text \<open>\<open>uv_retryPod\<close> is the retry of a call that may panic: the flag tells of a panic. Annotations of a pod may be nil.\<close>

record ('w, 'o, 'p, 'v) upgrade_env =
  uv_base :: "('w, 'o, 'p) removal_env"
  uv_kube :: "string \<Rightarrow> 'w \<Rightarrow> 'w \<times> (api_error + kube_node)"
  uv_getPod :: "'w \<Rightarrow> string \<Rightarrow> string \<Rightarrow> string + string"
  uv_cmd :: "string \<Rightarrow> 'w command_api"
  uv_semver :: "'v semver"
  uv_cmdPolls :: nat
  uv_healthPolls :: nat
  uv_podPolls :: nat
  uv_retryPod :: "(bool \<times> 'w) retry_lib"
  uv_podAnnotations :: "string \<Rightarrow> 'w \<Rightarrow> 'w \<times> (api_error + string gomap option)"
  uv_setPodAnnotations :: "string \<Rightarrow> string gomap \<Rightarrow> 'w attempt"
  uv_etcdPod :: "string \<Rightarrow> 'w \<Rightarrow> 'w \<times> (api_error + etcd_pod)"

abbreviation uv_flow :: "('w, 'o, 'p, 'v) upgrade_env \<Rightarrow> ('w, 'o, 'p) flow_env" where
  "uv_flow e \<equiv> nv_flow (uv_base e)"

abbreviation uv_nodes :: "('w, 'o, 'p, 'v) upgrade_env \<Rightarrow> 'w node_api" where
  "uv_nodes e \<equiv> nv_nodes (uv_base e)"

definition uv_now :: "('w, 'o, 'p, 'v) upgrade_env \<Rightarrow> 'w \<Rightarrow> int" where
  "uv_now e w = int (me_now (fe_merge (uv_flow e)) w)"

section \<open>Versions\<close>

definition first_set :: "(string \<Rightarrow> string) \<Rightarrow> string list \<Rightarrow> string \<Rightarrow> string" where
  "first_set f names d = (case filter (\<lambda>v. v \<noteq> []) (map (\<lambda>n. TrimSpace (f n)) names) of [] \<Rightarrow> d | v # _ \<Rightarrow> v)"

definition context_version :: "(version_context option \<Rightarrow> string \<Rightarrow> string) \<Rightarrow> string list \<Rightarrow> string \<Rightarrow> 'w phase_ctx \<Rightarrow> string" where
  "context_version get names d ctx =
     (case pc_versionContext ctx of None \<Rightarrow> d | Some vc \<Rightarrow> first_set (get (Some vc)) names d)"

definition master_names :: "string list" where
  "master_names = [ComponentKubernetesMaster, ComponentKubernetesWorker, ''kubernetes'']"

definition worker_names :: "string list" where
  "worker_names = [ComponentKubernetesWorker, ComponentKubernetesMaster, ''kubernetes'']"

(* src: pkg/phaseframe/phases/ensure_master_upgrade.go 137-142 EnsureMasterUpgrade.deprecatedSpecKubernetesVersion *)
definition deprecatedSpecKubernetesVersion :: "'w phase_ctx \<Rightarrow> string" where
  "deprecatedSpecKubernetesVersion ctx =
     (case bs_clusterConfig (bc_spec (pc_cluster ctx)) of None \<Rightarrow> [] | Some cfg \<Rightarrow> TrimSpace (cs_kubernetesVersion cfg))"

(* src: pkg/phaseframe/phases/ensure_master_upgrade.go 100-117 EnsureMasterUpgrade.currentKubernetesVersion *)
definition master_currentKubernetesVersion :: "'w phase_ctx \<Rightarrow> string" where
  "master_currentKubernetesVersion ctx = context_version GetCurrent master_names (TrimSpace (st_kubernetesVersion (bc_status (pc_cluster ctx)))) ctx"

(* src: pkg/phaseframe/phases/ensure_master_upgrade.go 119-133 EnsureMasterUpgrade.desiredKubernetesVersion *)
definition master_desiredKubernetesVersion :: "'w phase_ctx \<Rightarrow> string" where
  "master_desiredKubernetesVersion ctx = context_version GetTarget master_names (deprecatedSpecKubernetesVersion ctx) ctx"

(* src: pkg/phaseframe/phases/ensure_worker_upgrade.go 117-134 EnsureWorkerUpgrade.currentKubernetesVersion *)
definition worker_currentKubernetesVersion :: "'w phase_ctx \<Rightarrow> string" where
  "worker_currentKubernetesVersion ctx = context_version GetCurrent worker_names (TrimSpace (st_kubernetesVersion (bc_status (pc_cluster ctx)))) ctx"

(* src: pkg/phaseframe/phases/ensure_worker_upgrade.go 136-150 EnsureWorkerUpgrade.desiredKubernetesVersion *)
definition worker_desiredKubernetesVersion :: "'w phase_ctx \<Rightarrow> string" where
  "worker_desiredKubernetesVersion ctx = context_version GetTarget worker_names (deprecatedSpecKubernetesVersion ctx) ctx"

(* src: pkg/phaseframe/phases/ensure_etcd_upgrade.go 344-357 EnsureEtcdUpgrade.resolveEtcdUpgradeVersion *)
definition resolveEtcdUpgradeVersion :: "'w phase_ctx \<Rightarrow> string" where
  "resolveEtcdUpgradeVersion ctx =
     (let spec = (case bs_clusterConfig (bc_spec (pc_cluster ctx)) of None \<Rightarrow> [] | Some cfg \<Rightarrow> cs_etcdVersion cfg) in
      case pc_versionContext ctx of
        None \<Rightarrow> spec
      | Some vc \<Rightarrow> if GetTarget (Some vc) ComponentEtcd \<noteq> [] then GetTarget (Some vc) ComponentEtcd else spec)"

definition set_spec_version :: "string \<Rightarrow> bke_cluster \<Rightarrow> bke_cluster" where
  "set_spec_version v c = c\<lparr>bc_spec := (bc_spec c)\<lparr>bs_clusterConfig := map_option (\<lambda>cfg. cfg\<lparr>cs_kubernetesVersion := v\<rparr>) (bs_clusterConfig (bc_spec c))\<rparr>\<rparr>"

text \<open>A configuration that is missing after the status was written is a panic.\<close>

(* src: pkg/phaseframe/phases/ensure_master_upgrade.go 144-167 EnsureMasterUpgrade.syncLegacyTargetKubernetesVersion *)
definition syncLegacyTargetKubernetesVersion :: "('w, 'o, 'p) flow_env \<Rightarrow> string \<Rightarrow> 'w phase_ctx \<Rightarrow> 'w phase_ctx \<times> merge_error option" where
  "syncLegacyTargetKubernetesVersion fl target0 ctx =
     (let target = TrimSpace target0 in
      if target = [] then (ctx, None)
      else case bs_clusterConfig (bc_spec (pc_cluster ctx)) of
             None \<Rightarrow> (ctx, Some (Failed_with (ErrMsg ''cluster config is nil'')))
           | Some cfg \<Rightarrow>
               if TrimSpace (cs_kubernetesVersion cfg) = target then (ctx, None)
               else (case sync_cluster fl [set_spec_version target] ctx of
                       (ctx1, Some err) \<Rightarrow> (ctx1, Some err)
                     | (ctx1, None) \<Rightarrow>
                         if bs_clusterConfig (bc_spec (pc_cluster ctx1)) = None then (ctx1, Some Panicked)
                         else (upd_pc_cluster (set_spec_version target) ctx1, None)))"

(* src: pkg/phaseframe/phases/ensure_master_upgrade.go 170-179 EnsureMasterUpgrade.isKubernetesMasterNeedUpgrade *)
definition version_pending :: "string \<Rightarrow> string \<Rightarrow> bke_cluster \<Rightarrow> bool" where
  "version_pending target current new \<longleftrightarrow> bs_clusterConfig (bc_spec new) \<noteq> None \<and>
     TrimSpace target \<noteq> TrimSpace current \<and> TrimSpace target \<noteq> [] \<and> TrimSpace current \<noteq> []"

text \<open>The result tells whether the phase waits to be run, and is \<^const>\<open>None\<close> for a panic.\<close>

definition upgrade_needed :: "('w, 'o, 'p, 'v) upgrade_env \<Rightarrow> string \<Rightarrow> ('w phase_ctx \<Rightarrow> string \<times> string) \<Rightarrow> (nodes \<Rightarrow> nodes) \<Rightarrow> bke_cluster \<Rightarrow>
    'w phase_ctx \<Rightarrow> 'w phase_ctx \<times> bool option" where
  "upgrade_needed e component versions role new ctx =
     (if \<not> DefaultNeedExecute (uv_flow e) new then (ctx, Some False)
      else if st_clusterStatus (bc_status new) = ''Unhealthy'' \<or> st_clusterStatus (bc_status new) = ''Unknown'' then (ctx, Some False)
      else if \<not> NeedExecuteWithVersionContext (pc_versionContext ctx) component new new
                 (Some (\<lambda>_ n. version_pending (fst (versions ctx)) (snd (versions ctx)) n)) then (ctx, Some False)
      else case fetchBKENodesIfCPInitialized (uv_base e) new ctx of
             (ctx1, None) \<Rightarrow> (ctx1, None)
           | (ctx1, Some None) \<Rightarrow> (ctx1, Some False)
           | (ctx1, Some (Some bns)) \<Rightarrow>
               (ctx1, map_option (\<lambda>ns. role ns \<noteq> []) (GetNeedUpgradeK8sNodesWithBKENodes (uv_semver e) new bns)))"

(* src: pkg/phaseframe/phases/ensure_master_upgrade.go 182-205 EnsureMasterUpgrade.NeedExecute *)
definition master_upgrade_NeedExecute :: "('w, 'o, 'p, 'v) upgrade_env \<Rightarrow> bke_cluster \<Rightarrow> 'w phase_ctx \<Rightarrow> 'w phase_ctx \<times> bool option" where
  "master_upgrade_NeedExecute e =
     upgrade_needed e ComponentKubernetesMaster (\<lambda>ctx. (master_desiredKubernetesVersion ctx, master_currentKubernetesVersion ctx)) nodes_Master"

(* src: pkg/phaseframe/phases/ensure_worker_upgrade.go 199-222 EnsureWorkerUpgrade.NeedExecute *)
definition worker_upgrade_NeedExecute :: "('w, 'o, 'p, 'v) upgrade_env \<Rightarrow> bke_cluster \<Rightarrow> 'w phase_ctx \<Rightarrow> 'w phase_ctx \<times> bool option" where
  "worker_upgrade_NeedExecute e =
     upgrade_needed e ComponentKubernetesWorker (\<lambda>ctx. (worker_desiredKubernetesVersion ctx, worker_currentKubernetesVersion ctx)) nodes_Worker"

(* src: pkg/phaseframe/phases/ensure_etcd_upgrade.go 170-189 EnsureEtcdUpgrade.isEtcdNeedUpgrade, NeedExecute *)
definition etcd_upgrade_NeedExecute :: "('w, 'o, 'p, 'v) upgrade_env \<Rightarrow> bke_cluster \<Rightarrow> 'w phase_ctx \<Rightarrow> bool" where
  "etcd_upgrade_NeedExecute e new ctx \<longleftrightarrow>
     DefaultNeedExecute (uv_flow e) new \<and>
     NeedExecuteWithVersionContext (pc_versionContext ctx) ComponentEtcd new new
       (Some (\<lambda>_ n. bs_clusterConfig (bc_spec n) \<noteq> None \<and> resolveEtcdUpgradeVersion ctx \<noteq> st_etcdVersion (bc_status n) \<and>
          resolveEtcdUpgradeVersion ctx \<noteq> [] \<and> st_etcdVersion (bc_status n) \<noteq> []))"

section \<open>One node\<close>

text \<open>Only nodes whose agent is ready are worked on; an error of the read counts as not ready.\<close>

fun agents_ready :: "('w, 'o, 'p, 'v) upgrade_env \<Rightarrow> nodes \<Rightarrow> 'w phase_ctx \<Rightarrow> 'w phase_ctx \<times> nodes" where
  "agents_ready e [] ctx = (ctx, [])"
| "agents_ready e (n # ns) ctx =
     (case rm_run (GetNodeStateFlagForCluster (uv_nodes e) (pc_cluster ctx) (ns_ip n) (flag_value NodeAgentReadyFlag)) ctx of
        (ctx1, r) \<Rightarrow> (case agents_ready e ns ctx1 of (ctx2, rs) \<Rightarrow> (ctx2, if r = Inr True then n # rs else rs)))"

(* src: pkg/phaseframe/phases/ensure_worker_upgrade.go 69-84 createUpgradeCommand *)
definition createUpgradeCommand :: "bke_cluster \<Rightarrow> base_command" where
  "createUpgradeCommand c = machine_base (bc_namespace c) (bc_name c) False False"

text \<open>The messages of a failed command are collected for nobody: only the list of nodes is read. A command that was never read is
  a panic.\<close>

definition command_failed :: "('w, 'o, 'p, 'v) upgrade_env \<Rightarrow> bke_cluster \<Rightarrow> command option \<Rightarrow> string list \<Rightarrow> 'w \<Rightarrow> 'w \<times> merge_error option" where
  "command_failed e c cmd failed w =
     (case cmd of
        None \<Rightarrow> (w, Some Panicked)
      | Some command \<Rightarrow>
          (let errs = fst (LogCommandFailed command failed)
           in (fst (MarkNodeStatusByCommandErrs (uv_nodes e) c (map (\<lambda>(n, es). (n, ''['' @ Join es '' '' @ '']'')) errs) w),
               Some (Failed_with (ErrMsg ''upgrade node failed'')))))"

(* src: pkg/phaseframe/phases/ensure_etcd_upgrade.go 419-472 EnsureEtcdUpgrade.createUpgradeCommand, executeUpgradeCommand, waitForUpgradeComplete *)
definition run_upgrade :: "('w, 'o, 'p, 'v) upgrade_env \<Rightarrow> bke_cluster \<Rightarrow> string \<Rightarrow> bool \<Rightarrow> string \<Rightarrow> node_spec \<Rightarrow> 'w \<Rightarrow> 'w \<times> merge_error option" where
  "run_upgrade e c phase backUp etcdVersion node w =
     (let api = uv_cmd e (bc_uid c) in
      case Upgrade_New api (createUpgradeCommand c) (Some node) (bc_name c) [] phase backUp etcdVersion (uv_now e w) w of
        (_, w1, Some err) \<Rightarrow> (w1, Some (Failed_with err))
      | (b, w1, None) \<Rightarrow>
          (case waitCommandComplete api (uv_cmdPolls e) b w1 of
             None \<Rightarrow> (w1, Some Panicked)
           | Some (_, w2, _, Some err) \<Rightarrow> (w2, Some (Failed_with err))
           | Some (b2, w2, (_, _, failed), None) \<Rightarrow> if failed \<noteq> [] then command_failed e c (bcm_command b2) failed w2 else (w2, None)))"

(* src: pkg/phaseframe/phases/ensure_master_upgrade.go 570-603 EnsureMasterUpgrade.executeNodeUpgradeWithParams *)
definition master_executeNodeUpgrade :: "('w, 'o, 'p, 'v) upgrade_env \<Rightarrow> bke_cluster \<Rightarrow> node_spec option \<Rightarrow> node_spec \<Rightarrow> 'w \<Rightarrow> 'w \<times> merge_error option" where
  "master_executeNodeUpgrade e c backup node =
     run_upgrade e c ''UpgradeControlPlane'' (case backup of None \<Rightarrow> False | Some b \<Rightarrow> ns_ip node = ns_ip b) [] node"

(* src: pkg/phaseframe/phases/ensure_worker_upgrade.go 405-436 EnsureWorkerUpgrade.executeNodeUpgrade *)
definition worker_executeNodeUpgrade :: "('w, 'o, 'p, 'v) upgrade_env \<Rightarrow> bke_cluster \<Rightarrow> node_spec \<Rightarrow> 'w \<Rightarrow> 'w \<times> merge_error option" where
  "worker_executeNodeUpgrade e c node = run_upgrade e c ''UpgradeWorker'' False [] node"

text \<open>Polling ends well when the node passes the check of \<open>Cluster_Health\<close> at the version.\<close>

(* src: pkg/phaseframe/phases/ensure_worker_upgrade.go 388-402 waitForWorkerNodeHealthCheck *)
fun waitForWorkerNodeHealthCheck :: "('w, 'o, 'p, 'v) upgrade_env \<Rightarrow> nat \<Rightarrow> string \<Rightarrow> string \<Rightarrow> 'w \<Rightarrow> 'w \<times> bool" where
  "waitForWorkerNodeHealthCheck e 0 hostname version w = (w, False)"
| "waitForWorkerNodeHealthCheck e (Suc n) hostname version w =
     (case uv_kube e hostname w of
        (w1, Inr node) \<Rightarrow>
          if NodeHealthCheck (uv_getPod e w1) node version = None then (w1, True)
          else waitForWorkerNodeHealthCheck e n hostname version w1
      | (w1, Inl _) \<Rightarrow> waitForWorkerNodeHealthCheck e n hostname version w1)"

(* src: pkg/phaseframe/phases/ensure_worker_upgrade.go 448-471 EnsureWorkerUpgrade.waitForNodeHealth *)
definition waitForNodeHealth :: "('w, 'o, 'p, 'v) upgrade_env \<Rightarrow> bke_cluster \<Rightarrow> string \<Rightarrow> node_spec \<Rightarrow> 'w \<Rightarrow> 'w \<times> merge_error option" where
  "waitForNodeHealth e c version node w =
     (case nv_remote (uv_base e) c w of
        (w1, Some err) \<Rightarrow> (w1, Some (Failed_with err))
      | (w1, None) \<Rightarrow>
          (case waitForWorkerNodeHealthCheck e (uv_healthPolls e) (ns_hostname node) version w1 of
             (w2, True) \<Rightarrow> (w2, None)
           | (w2, False) \<Rightarrow> (w2, Some (Failed_with (ErrMsg ''wait for node pass healthy check failed'')))))"

text \<open>A node is marked before, upgraded, and marked after; the error of a failed upgrade is kept apart from the one of a write.\<close>

datatype node_outcome = Node_done | Node_failed merge_error | Node_aborted merge_error

(* src: pkg/phaseframe/phases/ensure_etcd_upgrade.go 326-342 EnsureEtcdUpgrade.markNodeUpgrading, markNodeUpgradeSuccess, handleUpgradeFailure *)
definition mark_node :: "('w, 'o, 'p, 'v) upgrade_env \<Rightarrow> node_spec \<Rightarrow> string \<Rightarrow> string \<Rightarrow> 'w phase_ctx \<Rightarrow> 'w phase_ctx \<times> merge_error option" where
  "mark_node e node st msg ctx =
     sync_cluster (uv_flow e) [] (rm_quiet (SetNodeStateWithMessageForCluster (uv_nodes e) (pc_cluster ctx) (ns_ip node) st msg) ctx)"

definition marked_run :: "('w, 'o, 'p, 'v) upgrade_env \<Rightarrow> (bke_cluster \<Rightarrow> 'w \<Rightarrow> 'w \<times> merge_error option) \<Rightarrow> string \<Rightarrow> node_spec \<Rightarrow> 'w phase_ctx \<Rightarrow> 'w phase_ctx \<times> node_outcome" where
  "marked_run e run after node ctx =
     (case mark_node e node ''Upgrading'' ''Upgrading'' ctx of
        (ctx1, Some err) \<Rightarrow> (ctx1, Node_aborted err)
      | (ctx1, None) \<Rightarrow>
          (case rm_run (run (pc_cluster ctx1)) ctx1 of
             (ctx2, Some Panicked) \<Rightarrow> (ctx2, Node_aborted Panicked)
           | (ctx2, Some err) \<Rightarrow>
               (case mark_node e node ''UpgradeFailed'' (error_message (uv_flow e) (Some err)) ctx2 of
                  (ctx3, Some err') \<Rightarrow> (ctx3, Node_aborted err')
                | (ctx3, None) \<Rightarrow> (ctx3, Node_failed err))
           | (ctx2, None) \<Rightarrow>
               (case mark_node e node after ''Upgrading success'' ctx2 of
                  (ctx3, Some err') \<Rightarrow> (ctx3, Node_aborted err')
                | (ctx3, None) \<Rightarrow> (ctx3, Node_done))))"

section \<open>Control plane nodes\<close>

(* src: pkg/phaseframe/phases/ensure_master_upgrade.go 511-540 EnsureMasterUpgrade.upgradeNode *)
definition master_upgradeNode :: "('w, 'o, 'p, 'v) upgrade_env \<Rightarrow> node_spec option \<Rightarrow> node_spec \<Rightarrow> bke_cluster \<Rightarrow> 'w \<Rightarrow> 'w \<times> merge_error option" where
  "master_upgradeNode e backup node c w =
     (case master_executeNodeUpgrade e c backup node w of
        (w1, Some err) \<Rightarrow> (w1, Some err)
      | (w1, None) \<Rightarrow>
          (case bs_clusterConfig (bc_spec c) of
             None \<Rightarrow> (fst (nv_remote (uv_base e) c w1), Some (case snd (nv_remote (uv_base e) c w1) of Some err \<Rightarrow> Failed_with err | None \<Rightarrow> Panicked))
           | Some cfg \<Rightarrow> waitForNodeHealth e c (cs_kubernetesVersion cfg) node w1))"

text \<open>A client of the target cluster that could not be made is nil: \<open>client\<close> tells whether there is one. The wanted version is read from the
  specification.\<close>

(* src: pkg/phaseframe/phases/ensure_master_upgrade.go 327-358 EnsureMasterUpgrade.upgradeMasterNodesWithParams *)
fun upgrade_masters :: "('w, 'o, 'p, 'v) upgrade_env \<Rightarrow> bool \<Rightarrow> node_spec option \<Rightarrow> nodes \<Rightarrow> 'w phase_ctx \<Rightarrow> 'w phase_ctx \<times> merge_error option" where
  "upgrade_masters e client backup [] ctx = (ctx, None)"
| "upgrade_masters e client backup (node # ns) ctx =
     (if \<not> client then (ctx, Some Panicked)
      else case rm_run (uv_kube e (ns_hostname node)) ctx of
             (ctx1, Inl err) \<Rightarrow> (ctx1, Some (Failed_with err))
           | (ctx1, Inr remote) \<Rightarrow>
               (case bs_clusterConfig (bc_spec (pc_cluster ctx1)) of
                  None \<Rightarrow> (ctx1, Some Panicked)
                | Some cfg \<Rightarrow>
                    if kn_kubelet remote = cs_kubernetesVersion cfg then upgrade_masters e client backup ns ctx1
                    else (case marked_run e (master_upgradeNode e backup node) ''NotReady'' node ctx1 of
                            (ctx2, Node_done) \<Rightarrow> upgrade_masters e client backup ns ctx2
                          | (ctx2, Node_failed err) \<Rightarrow> (ctx2, Some err)
                          | (ctx2, Node_aborted err) \<Rightarrow> (ctx2, Some err))))"

(* src: pkg/phaseframe/phases/ensure_master_upgrade.go 322-359 EnsureMasterUpgrade.upgradeMasterNodesWithParams *)
definition upgradeMasterNodes :: "('w, 'o, 'p, 'v) upgrade_env \<Rightarrow> node_spec option \<Rightarrow> nodes \<Rightarrow> 'w phase_ctx \<Rightarrow> 'w phase_ctx \<times> merge_error option" where
  "upgradeMasterNodes e backup ns ctx =
     (case rm_run (tg_connect (nv_target (uv_base e)) (pc_cluster ctx)) ctx of (ctx1, r) \<Rightarrow> upgrade_masters e (r = None) backup ns ctx1)"

definition chosen_nodes :: "('w, 'o, 'p, 'v) upgrade_env \<Rightarrow> (nodes \<Rightarrow> nodes) \<Rightarrow> string \<Rightarrow> 'w phase_ctx \<Rightarrow> 'w phase_ctx \<times> (merge_error + nodes)" where
  "chosen_nodes e role none ctx =
     (case rm_run (GetBKENodesWrapperForCluster (uv_nodes e) (pc_cluster ctx)) ctx of
        (ctx1, Inl err) \<Rightarrow> (ctx1, Inl (Failed_with err))
      | (ctx1, Inr bns) \<Rightarrow>
          (case GetNeedUpgradeK8sNodesWithBKENodes (uv_semver e) (pc_cluster ctx1) bns of
             None \<Rightarrow> (ctx1, Inl Panicked)
           | Some ns \<Rightarrow>
               (case agents_ready e (role ns) ctx1 of
                  (ctx2, rs) \<Rightarrow> (ctx2, if rs = [] then Inl (Failed_with (ErrMsg none)) else Inr rs))))"

(* src: pkg/phaseframe/phases/ensure_master_upgrade.go 270-294 EnsureMasterUpgrade.getNeedUpgradeNodes *)
definition getNeedUpgradeNodes :: "('w, 'o, 'p, 'v) upgrade_env \<Rightarrow> 'w phase_ctx \<Rightarrow> 'w phase_ctx \<times> (merge_error + nodes)" where
  "getNeedUpgradeNodes e = chosen_nodes e nodes_Master ''all the master node BKEAgent is not ready''"

definition EtcdAdvertiseClientUrls :: string where
  "EtcdAdvertiseClientUrls = ''kubeadm.kubernetes.io/etcd.advertise-client-urls''"

definition annotate_etcd :: "('w, 'o, 'p, 'v) upgrade_env \<Rightarrow> node_spec \<Rightarrow> (bool \<times> 'w) attempt" where
  "annotate_etcd e n = RetryOnConflict (uv_retryPod e) (\<lambda>(p, w).
     let pod = StaticPodName ''etcd'' (ns_hostname n) in
     case uv_podAnnotations e pod w of
       (w1, Inl err) \<Rightarrow> ((p, w1), Some err)
     | (w1, Inr None) \<Rightarrow> ((True, w1), None)
     | (w1, Inr (Some m)) \<Rightarrow>
         (case map_of m EtcdAdvertiseClientUrls of
            Some (_ # _) \<Rightarrow> ((p, w1), None)
          | _ \<Rightarrow> (case uv_setPodAnnotations e pod (AList.update EtcdAdvertiseClientUrls (GetClientURLByIP (ns_ip n)) m) w1 of (w2, r) \<Rightarrow> ((p, w2), r))))"

fun annotate_all :: "('w, 'o, 'p, 'v) upgrade_env \<Rightarrow> nodes \<Rightarrow> 'w \<Rightarrow> 'w \<times> merge_error option" where
  "annotate_all e [] w = (w, None)"
| "annotate_all e (n # ns) w =
     (case annotate_etcd e n (False, w) of
        ((_, w1), Some err) \<Rightarrow> (w1, Some (Failed_with err))
      | ((True, w1), None) \<Rightarrow> (w1, Some Panicked)
      | ((False, w1), None) \<Rightarrow> annotate_all e ns w1)"

(* src: pkg/phaseframe/phases/ensure_master_upgrade.go 693-720 EnsureMasterUpgrade.ensureEtcdAdvertiseClientUrlsAnnotation *)
definition ensureEtcdAdvertiseClientUrlsAnnotation :: "('w, 'o, 'p, 'v) upgrade_env \<Rightarrow> nodes \<Rightarrow> 'w phase_ctx \<Rightarrow> 'w phase_ctx \<times> merge_error option" where
  "ensureEtcdAdvertiseClientUrlsAnnotation e ns ctx =
     (case rm_run (tg_connect (nv_target (uv_base e)) (pc_cluster ctx)) ctx of
        (ctx1, Some err) \<Rightarrow> (ctx1, Some (Failed_with err))
      | (ctx1, None) \<Rightarrow> rm_run (annotate_all e ns) ctx1)"

subsection \<open>Add-ons\<close>

(* src: pkg/phaseframe/phases/ensure_master_upgrade.go 413-428 scanKubeproxyKubectlUpgradeFromAddons *)
definition scanKubeproxyKubectlUpgradeFromAddons :: "product list \<Rightarrow> string \<Rightarrow> bool \<times> bool \<times> bool" where
  "scanKubeproxyKubectlUpgradeFromAddons addons k8sVer =
     (list_ex (\<lambda>a. pr_name a = ''kubeproxy'') addons, list_ex (\<lambda>a. pr_name a = ''kubeproxy'' \<and> pr_version a \<noteq> k8sVer) addons,
      list_ex (\<lambda>a. pr_name a = ''kubectl'' \<and> pr_version a \<noteq> ''v1.25'') addons)"

definition kubectl_product :: product where
  "kubectl_product = \<lparr>pr_name = ''kubectl'', pr_version = ''v1.25'', pr_type = [], pr_releaseName = [], pr_namespace = [],
     pr_valuesConfigMapRef = None, pr_timeout = 0, pr_param = None, pr_block = False\<rparr>"

text \<open>The configuration is there whenever the function is called; without one it would panic.\<close>

(* src: pkg/phaseframe/phases/ensure_master_upgrade.go 474-490 patchKubectlAddonToV125 *)
definition patchKubectlAddonToV125 :: patch_func where
  "patchKubectlAddonToV125 c = c\<lparr>bc_spec := (bc_spec c)\<lparr>bs_clusterConfig := map_option (\<lambda>cfg.
     cfg\<lparr>cs_addons := (let as = cs_addons cfg in
           if list_ex (\<lambda>a. pr_name a = ''kubectl'') as then map (\<lambda>a. if pr_name a = ''kubectl'' then a\<lparr>pr_version := ''v1.25''\<rparr> else a) as
           else as @ [kubectl_product])\<rparr>) (bs_clusterConfig (bc_spec c))\<rparr>\<rparr>"

(* src: pkg/phaseframe/phases/ensure_master_upgrade.go 494-509 EnsureMasterUpgrade.updateAddonVersions *)
definition updateAddonVersions :: "('w, 'o, 'p, 'v) upgrade_env \<Rightarrow> 'w phase_ctx \<Rightarrow> 'w phase_ctx \<times> merge_error option" where
  "updateAddonVersions e ctx =
     (case bs_clusterConfig (bc_spec (pc_cluster ctx)) of
        None \<Rightarrow> (ctx, Some Panicked)
      | Some cfg \<Rightarrow>
          if snd (snd (scanKubeproxyKubectlUpgradeFromAddons (cs_addons cfg) (cs_kubernetesVersion cfg)))
          then sync_cluster (uv_flow e) [patchKubectlAddonToV125] ctx else (ctx, None))"

subsection \<open>The phase\<close>

definition set_k8s_version :: "string \<Rightarrow> bke_cluster \<Rightarrow> bke_cluster" where
  "set_k8s_version v c = c\<lparr>bc_status := (bc_status c)\<lparr>st_kubernetesVersion := v\<rparr>\<rparr>"

definition requeue_now :: ctrl_outcome where
  "requeue_now = no_requeue\<lparr>co_requeue := True\<rparr>"

(* src: pkg/phaseframe/phases/ensure_master_upgrade.go 224-267 EnsureMasterUpgrade.rolloutUpgrade *)
definition master_rolloutUpgrade :: "('w, 'o, 'p, 'v) upgrade_env \<Rightarrow> 'w phase_ctx \<Rightarrow> 'w phase_ctx \<times> ctrl_outcome \<times> merge_error option" where
  "master_rolloutUpgrade e ctx =
     (case getNeedUpgradeNodes e ctx of
        (ctx1, Inl err) \<Rightarrow> (ctx1, requeue_now, Some err)
      | (ctx1, Inr need) \<Rightarrow>
          (case rm_run (GetNodesForBKECluster (uv_nodes e) (pc_cluster ctx1)) ctx1 of
             (ctx2, specs) \<Rightarrow>
               (let etcds = nodes_Etcd (nodes_or_nil specs); backup = (case etcds of [] \<Rightarrow> None | n # _ \<Rightarrow> Some n) in
                case ensureEtcdAdvertiseClientUrlsAnnotation e etcds ctx2 of
                  (ctx3, Some err) \<Rightarrow> (ctx3, no_requeue, Some err)
                | (ctx3, None) \<Rightarrow>
                    (case upgradeMasterNodes e backup need ctx3 of
                       (ctx4, Some err) \<Rightarrow> (ctx4, no_requeue, Some err)
                     | (ctx4, None) \<Rightarrow>
                         (case updateAddonVersions e (upd_pc_cluster (set_k8s_version (master_desiredKubernetesVersion ctx4)) ctx4) of
                            (ctx5, r) \<Rightarrow> (ctx5, no_requeue, r))))))"

definition upgrade_to :: "('w, 'o, 'p, 'v) upgrade_env \<Rightarrow> string \<Rightarrow> string \<Rightarrow> ('w phase_ctx \<Rightarrow> 'w phase_ctx \<times> ctrl_outcome \<times> merge_error option) \<Rightarrow>
    'w phase_ctx \<Rightarrow> 'w phase_ctx \<times> ctrl_outcome \<times> merge_error option" where
  "upgrade_to e target current roll ctx =
     (if target \<noteq> [] \<and> target \<noteq> current
      then (case syncLegacyTargetKubernetesVersion (uv_flow e) target ctx of
              (ctx1, Some err) \<Rightarrow> (ctx1, no_requeue, Some err)
            | (ctx1, None) \<Rightarrow> (case roll ctx1 of (ctx2, ret, Some err) \<Rightarrow> (ctx2, ret, Some err) | (ctx2, _, None) \<Rightarrow> (ctx2, no_requeue, None)))
      else (ctx, no_requeue, None))"

(* src: pkg/phaseframe/phases/ensure_master_upgrade.go 207-222 EnsureMasterUpgrade.reconcileMasterUpgrade *)
definition reconcileMasterUpgrade :: "('w, 'o, 'p, 'v) upgrade_env \<Rightarrow> 'w phase_ctx \<Rightarrow> 'w phase_ctx \<times> ctrl_outcome \<times> merge_error option" where
  "reconcileMasterUpgrade e ctx =
     upgrade_to e (master_desiredKubernetesVersion ctx) (master_currentKubernetesVersion ctx) (master_rolloutUpgrade e) ctx"

text \<open>The action is written to the annotations first, if it is not there yet.\<close>

definition announce_upgrade :: "('w, 'o, 'p, 'v) upgrade_env \<Rightarrow> 'w phase_ctx \<Rightarrow> 'w phase_ctx \<times> merge_error option" where
  "announce_upgrade e ctx =
     (if HasAnnotation (pc_cluster ctx) ''deployAction'' \<noteq> Some ''k8s_upgrade''
      then sync_cluster (uv_flow e) [\<lambda>c. SetAnnotation c ''deployAction'' ''k8s_upgrade''] ctx else (ctx, None))"

(* src: pkg/phaseframe/phases/ensure_master_upgrade.go 78-90 EnsureMasterUpgrade.Execute *)
definition master_upgrade_Execute :: "('w, 'o, 'p, 'v) upgrade_env \<Rightarrow> 'w phase_ctx \<Rightarrow> 'w phase_ctx \<times> ctrl_outcome \<times> merge_error option" where
  "master_upgrade_Execute e ctx =
     (case announce_upgrade e ctx of (ctx1, Some err) \<Rightarrow> (ctx1, no_requeue, Some err) | (ctx1, None) \<Rightarrow> reconcileMasterUpgrade e ctx1)"

section \<open>Workers\<close>

(* src: pkg/phaseframe/phases/ensure_worker_upgrade.go 473-498 EnsureWorkerUpgrade.upgradeNode *)
definition worker_upgradeNode :: "('w, 'o, 'p, 'v) upgrade_env \<Rightarrow> string \<Rightarrow> node_spec \<Rightarrow> bke_cluster \<Rightarrow> 'w \<Rightarrow> 'w \<times> merge_error option" where
  "worker_upgradeNode e version node c w =
     (case worker_executeNodeUpgrade e c node w of
        (w1, Some err) \<Rightarrow> (w1, Some err)
      | (w1, None) \<Rightarrow> waitForNodeHealth e c version node w1)"

text \<open>A worker that failed is kept for the report and the others are tried.\<close>

(* src: pkg/phaseframe/phases/ensure_worker_upgrade.go 294-328 EnsureWorkerUpgrade.processNodeUpgrade *)
fun upgrade_workers :: "('w, 'o, 'p, 'v) upgrade_env \<Rightarrow> bool \<Rightarrow> nodes \<Rightarrow> string list \<Rightarrow> 'w phase_ctx \<Rightarrow> 'w phase_ctx \<times> (merge_error + string list)" where
  "upgrade_workers e client [] failed ctx = (ctx, Inr failed)"
| "upgrade_workers e client (node # ns) failed ctx =
     (if \<not> client then (ctx, Inl Panicked)
      else case rm_run (uv_kube e (ns_hostname node)) ctx of
             (ctx1, Inl err) \<Rightarrow> (ctx1, Inl (Failed_with err))
           | (ctx1, Inr remote) \<Rightarrow>
               (let version = worker_desiredKubernetesVersion ctx1 in
                if kn_kubelet remote = version then upgrade_workers e client ns failed ctx1
                else (case marked_run e (\<lambda>c. worker_upgradeNode e (worker_desiredKubernetesVersion (upd_pc_cluster (\<lambda>_. c) ctx1)) node c) ''NotReady'' node ctx1 of
                        (ctx2, Node_done) \<Rightarrow> upgrade_workers e client ns failed ctx2
                      | (ctx2, Node_failed err) \<Rightarrow> upgrade_workers e client ns (failed @ [util_NodeInfo node]) ctx2
                      | (ctx2, Node_aborted err) \<Rightarrow> (ctx2, Inl err))))"

(* src: pkg/phaseframe/phases/ensure_worker_upgrade.go 289-330 EnsureWorkerUpgrade.processNodeUpgrade *)
definition processNodeUpgrade :: "('w, 'o, 'p, 'v) upgrade_env \<Rightarrow> nodes \<Rightarrow> 'w phase_ctx \<Rightarrow> 'w phase_ctx \<times> (merge_error + string list)" where
  "processNodeUpgrade e ns ctx =
     (case rm_run (tg_connect (nv_target (uv_base e)) (pc_cluster ctx)) ctx of (ctx1, r) \<Rightarrow> upgrade_workers e (r = None) ns [] ctx1)"

(* src: pkg/phaseframe/phases/ensure_worker_upgrade.go 250-275 EnsureWorkerUpgrade.prepareUpgradeNodes *)
definition prepareUpgradeNodes :: "('w, 'o, 'p, 'v) upgrade_env \<Rightarrow> 'w phase_ctx \<Rightarrow> 'w phase_ctx \<times> (merge_error + nodes)" where
  "prepareUpgradeNodes e = chosen_nodes e nodes_Worker ''all the master node BKEAgent is not ready''"

text \<open>The drainer that is made here is used by nobody.\<close>

(* src: pkg/phaseframe/phases/ensure_worker_upgrade.go 332-375 EnsureWorkerUpgrade.rolloutUpgrade *)
definition worker_rolloutUpgrade :: "('w, 'o, 'p, 'v) upgrade_env \<Rightarrow> 'w phase_ctx \<Rightarrow> 'w phase_ctx \<times> ctrl_outcome \<times> merge_error option" where
  "worker_rolloutUpgrade e ctx =
     (case prepareUpgradeNodes e ctx of
        (ctx1, Inl err) \<Rightarrow> (ctx1, requeue_now, Some err)
      | (ctx1, Inr need) \<Rightarrow>
          (case rm_run (tg_connect (nv_target (uv_base e)) (pc_cluster ctx1)) ctx1 of
             (ctx2, _) \<Rightarrow>
               (case processNodeUpgrade e need ctx2 of
                  (ctx3, Inl err) \<Rightarrow> (ctx3, no_requeue, Some err)
                | (ctx3, Inr failed) \<Rightarrow>
                    (ctx3, no_requeue, if failed = [] then None else Some (Failed_with (ErrMsg ''upgrade worker process finished, but some nodes upgrade failed''))))))"

(* src: pkg/phaseframe/phases/ensure_worker_upgrade.go 224-239 EnsureWorkerUpgrade.reconcileWorkerUpgrade *)
definition reconcileWorkerUpgrade :: "('w, 'o, 'p, 'v) upgrade_env \<Rightarrow> 'w phase_ctx \<Rightarrow> 'w phase_ctx \<times> ctrl_outcome \<times> merge_error option" where
  "reconcileWorkerUpgrade e ctx =
     upgrade_to e (worker_desiredKubernetesVersion ctx) (worker_currentKubernetesVersion ctx) (worker_rolloutUpgrade e) ctx"

(* src: pkg/phaseframe/phases/ensure_worker_upgrade.go 95-107 EnsureWorkerUpgrade.Execute *)
definition worker_upgrade_Execute :: "('w, 'o, 'p, 'v) upgrade_env \<Rightarrow> 'w phase_ctx \<Rightarrow> 'w phase_ctx \<times> ctrl_outcome \<times> merge_error option" where
  "worker_upgrade_Execute e ctx =
     (case announce_upgrade e ctx of (ctx1, Some err) \<Rightarrow> (ctx1, no_requeue, Some err) | (ctx1, None) \<Rightarrow> reconcileWorkerUpgrade e ctx1)"

section \<open>Etcd\<close>

(* src: pkg/phaseframe/phases/ensure_etcd_upgrade.go 230-260 EnsureEtcdUpgrade.filterUpgradeableNodes *)
definition filterUpgradeableNodes :: "('w, 'o, 'p, 'v) upgrade_env \<Rightarrow> 'w phase_ctx \<Rightarrow> 'w phase_ctx \<times> (merge_error + nodes)" where
  "filterUpgradeableNodes e ctx =
     (case rm_run (GetNodesForBKECluster (uv_nodes e) (pc_cluster ctx)) ctx of
        (ctx1, Inl err) \<Rightarrow> (ctx1, Inl (Failed_with err))
      | (ctx1, Inr specs) \<Rightarrow>
          if nodes_Etcd specs = [] then (ctx1, Inl (Failed_with (ErrMsg ''no etcd role nodes in cluster spec'')))
          else (case agents_ready e (nodes_Etcd specs) ctx1 of
                  (ctx2, rs) \<Rightarrow> (ctx2, if rs = [] then Inl (Failed_with (ErrMsg ''all etcd nodes BKEAgent is not ready'')) else Inr rs)))"

text \<open>The data is kept by the first etcd node, ready or not.\<close>

(* src: pkg/phaseframe/phases/ensure_etcd_upgrade.go 262-276 EnsureEtcdUpgrade.determineBackupNode *)
definition determineBackupNode :: "('w, 'o, 'p, 'v) upgrade_env \<Rightarrow> 'w phase_ctx \<Rightarrow> 'w phase_ctx \<times> node_spec option" where
  "determineBackupNode e ctx =
     (case rm_run (GetNodesForBKECluster (uv_nodes e) (pc_cluster ctx)) ctx of
        (ctx1, r) \<Rightarrow> (ctx1, case nodes_Etcd (nodes_or_nil r) of [] \<Rightarrow> None | n # _ \<Rightarrow> Some n))"

(* src: pkg/phaseframe/phases/ensure_etcd_upgrade.go 564-573 extractVersionFromImage *)
definition extractVersionFromImage :: "string \<Rightarrow> string" where
  "extractVersionFromImage img = (let parts = Split CHR '':'' img in if 1 < length parts then last parts else ''unknown'')"

(* src: pkg/phaseframe/phases/ensure_etcd_upgrade.go 575-582 etcdVersionsMatch *)
definition etcdVersionsMatch :: "string \<Rightarrow> string \<Rightarrow> bool" where
  "etcdVersionsMatch want0 current0 =
     (let want = TrimPrefix (TrimSpace want0) ''v''; current = TrimPrefix (TrimSpace current0) ''v''
      in if want = [] \<or> current = [] \<or> current = ''unknown'' then False else want = current)"

definition etcd_pod_ready :: "etcd_pod \<Rightarrow> bool" where
  "etcd_pod_ready p \<longleftrightarrow> ep_phase p = ''Running'' \<and> (''Ready'', ''True'') \<in> set (ep_conditions p)"

text \<open>Waiting for the pod: a pod that is not there is waited for, any other error ends the waiting, and so does the end of the time.\<close>

(* src: pkg/phaseframe/phases/ensure_etcd_upgrade.go 524-544 EnsureEtcdUpgrade.getEtcdImageVersion (poll) *)
fun wait_etcd_pod :: "('w, 'o, 'p, 'v) upgrade_env \<Rightarrow> nat \<Rightarrow> string \<Rightarrow> 'w \<Rightarrow> 'w \<times> api_error option" where
  "wait_etcd_pod e 0 pod w = (w, Some (ErrMsg ''timed out waiting for the condition''))"
| "wait_etcd_pod e (Suc n) pod w =
     (case uv_etcdPod e pod w of
        (w1, Inl err) \<Rightarrow> if IsNotFound err then wait_etcd_pod e n pod w1 else (w1, Some err)
      | (w1, Inr p) \<Rightarrow> if etcd_pod_ready p then (w1, None) else wait_etcd_pod e n pod w1)"

(* src: pkg/phaseframe/phases/ensure_etcd_upgrade.go 514-561 EnsureEtcdUpgrade.getEtcdImageVersion *)
definition getEtcdImageVersion :: "('w, 'o, 'p, 'v) upgrade_env \<Rightarrow> bke_cluster \<Rightarrow> node_spec \<Rightarrow> 'w \<Rightarrow> 'w \<times> (api_error + string)" where
  "getEtcdImageVersion e c node w =
     (case tg_connect (nv_target (uv_base e)) c w of
        (w1, Some err) \<Rightarrow> (w1, Inl err)
      | (w1, None) \<Rightarrow>
          (let pod = StaticPodName ''etcd'' (ns_hostname node) in
           case wait_etcd_pod e (uv_podPolls e) pod w1 of
             (w2, Some err) \<Rightarrow> (w2, Inl err)
           | (w2, None) \<Rightarrow>
               (case uv_etcdPod e pod w2 of
                  (w3, Inl err) \<Rightarrow> (w3, Inl err)
                | (w3, Inr p) \<Rightarrow>
                    (w3, case find (\<lambda>ct. fst ct = ''etcd'') (ep_containers p) of
                           None \<Rightarrow> Inl (ErrMsg (''etcd container not found in pod '' @ pod))
                         | Some ct \<Rightarrow> Inr (extractVersionFromImage (snd ct))))))"

(* src: pkg/phaseframe/phases/ensure_etcd_upgrade.go 474-500 EnsureEtcdUpgrade.waitForEtcdHealthCheck *)
fun waitForEtcdHealthCheck :: "('w, 'o, 'p, 'v) upgrade_env \<Rightarrow> nat \<Rightarrow> bke_cluster \<Rightarrow> node_spec \<Rightarrow> string \<Rightarrow> 'w \<Rightarrow> 'w \<times> merge_error option" where
  "waitForEtcdHealthCheck e 0 c node version w = (w, Some (Failed_with (ErrMsg ''wait for etcd pass healthy check failed'')))"
| "waitForEtcdHealthCheck e (Suc n) c node version w =
     (case getEtcdImageVersion e c node w of
        (w1, Inr current) \<Rightarrow> if etcdVersionsMatch version current then (w1, None) else waitForEtcdHealthCheck e n c node version w1
      | (w1, Inl _) \<Rightarrow> waitForEtcdHealthCheck e n c node version w1)"

text \<open>The specification is brought up to the wanted versions before the command is made, and the version of the command is read again.\<close>

(* src: pkg/phaseframe/phases/ensure_etcd_upgrade.go 374-417 EnsureEtcdUpgrade.upgradeEtcd *)
definition upgradeEtcd :: "('w, 'o, 'p, 'v) upgrade_env \<Rightarrow> node_spec option \<Rightarrow> node_spec \<Rightarrow> string \<Rightarrow> 'w phase_ctx \<Rightarrow> 'w phase_ctx \<times> merge_error option" where
  "upgradeEtcd e backup node version ctx =
     (case SyncUpgradeTargetsToClusterSpec (uv_flow e) ctx of
        (ctx1, Some err) \<Rightarrow> (ctx1, Some err)
      | (ctx1, None) \<Rightarrow>
          (let c = pc_cluster ctx1; back = (case backup of None \<Rightarrow> False | Some b \<Rightarrow> ns_ip node = ns_ip b) in
           case rm_run (run_upgrade e c ''UpgradeEtcd'' back (resolveEtcdUpgradeVersion ctx1) node) ctx1 of
             (ctx2, Some err) \<Rightarrow> (ctx2, Some err)
           | (ctx2, None) \<Rightarrow> rm_run (waitForEtcdHealthCheck e (uv_healthPolls e) c node version) ctx2))"

(* src: pkg/phaseframe/phases/ensure_etcd_upgrade.go 296-324 EnsureEtcdUpgrade.upgradeSingleNode *)
definition upgradeSingleNode :: "('w, 'o, 'p, 'v) upgrade_env \<Rightarrow> node_spec option \<Rightarrow> node_spec \<Rightarrow> 'w phase_ctx \<Rightarrow> 'w phase_ctx \<times> merge_error option" where
  "upgradeSingleNode e backup node ctx =
     (case mark_node e node ''Upgrading'' ''Upgrading'' ctx of
        (ctx1, Some err) \<Rightarrow> (ctx1, Some err)
      | (ctx1, None) \<Rightarrow>
          (case upgradeEtcd e backup node (resolveEtcdUpgradeVersion ctx1) ctx1 of
             (ctx2, Some Panicked) \<Rightarrow> (ctx2, Some Panicked)
           | (ctx2, Some err) \<Rightarrow>
               (case mark_node e node ''UpgradeFailed'' (error_message (uv_flow e) (Some err)) ctx2 of
                  (ctx3, Some err') \<Rightarrow> (ctx3, Some err') | (ctx3, None) \<Rightarrow> (ctx3, Some err))
           | (ctx2, None) \<Rightarrow> mark_node e node ''Upgrading'' ''Upgrading success'' ctx2))"

(* src: pkg/phaseframe/phases/ensure_etcd_upgrade.go 278-294 EnsureEtcdUpgrade.upgradeNodes *)
fun upgradeNodes :: "('w, 'o, 'p, 'v) upgrade_env \<Rightarrow> node_spec option \<Rightarrow> nodes \<Rightarrow> 'w phase_ctx \<Rightarrow> 'w phase_ctx \<times> merge_error option" where
  "upgradeNodes e backup [] ctx = (ctx, None)"
| "upgradeNodes e backup (node # ns) ctx =
     (case upgradeSingleNode e backup node ctx of (ctx1, Some err) \<Rightarrow> (ctx1, Some err) | (ctx1, None) \<Rightarrow> upgradeNodes e backup ns ctx1)"

(* src: pkg/phaseframe/phases/ensure_etcd_upgrade.go 359-372 EnsureEtcdUpgrade.finalizeUpgrade *)
definition finalizeUpgrade :: "('w, 'o, 'p, 'v) upgrade_env \<Rightarrow> 'w phase_ctx \<Rightarrow> 'w phase_ctx \<times> ctrl_outcome \<times> merge_error option" where
  "finalizeUpgrade e ctx =
     (case sync_cluster (uv_flow e) []
             (upd_pc_cluster (\<lambda>c. c\<lparr>bc_status := (bc_status c)\<lparr>st_etcdVersion := resolveEtcdUpgradeVersion ctx\<rparr>\<rparr>) ctx) of
        (ctx1, r) \<Rightarrow> (ctx1, no_requeue, r))"

(* src: pkg/phaseframe/phases/ensure_etcd_upgrade.go 203-228 EnsureEtcdUpgrade.rolloutUpgrade *)
definition etcd_rolloutUpgrade :: "('w, 'o, 'p, 'v) upgrade_env \<Rightarrow> 'w phase_ctx \<Rightarrow> 'w phase_ctx \<times> ctrl_outcome \<times> merge_error option" where
  "etcd_rolloutUpgrade e ctx =
     (case filterUpgradeableNodes e ctx of
        (ctx1, Inl err) \<Rightarrow> (ctx1, requeue_now, Some err)
      | (ctx1, Inr need) \<Rightarrow>
          (case determineBackupNode e ctx1 of
             (ctx2, backup) \<Rightarrow>
               (case upgradeNodes e backup need ctx2 of
                  (ctx3, Some err) \<Rightarrow> (ctx3, no_requeue, Some err)
                | (ctx3, None) \<Rightarrow> finalizeUpgrade e ctx3)))"

(* src: pkg/phaseframe/phases/ensure_etcd_upgrade.go 191-201 EnsureEtcdUpgrade.reconcileEtcdUpgrade *)
definition reconcileEtcdUpgrade :: "('w, 'o, 'p, 'v) upgrade_env \<Rightarrow> 'w phase_ctx \<Rightarrow> 'w phase_ctx \<times> ctrl_outcome \<times> merge_error option" where
  "reconcileEtcdUpgrade e ctx =
     (case etcd_rolloutUpgrade e ctx of (ctx1, ret, Some err) \<Rightarrow> (ctx1, ret, Some err) | (ctx1, _, None) \<Rightarrow> (ctx1, no_requeue, None))"

section \<open>What is shown\<close>

lemma sync_cluster_context [simp]: "pc_versionContext (fst (sync_cluster fl ps ctx)) = pc_versionContext ctx"
  by (auto simp: sync_cluster_def split: option.splits prod.splits)

lemma rm_run_context [simp]: "pc_versionContext (fst (rm_run f ctx)) = pc_versionContext ctx"
  by (auto simp: rm_run_def pc_upd_w_def split: prod.splits)

lemma mark_node_context: "mark_node e n st msg ctx = (ctx', r) \<Longrightarrow> pc_versionContext ctx' = pc_versionContext ctx"
  using sync_cluster_context [of "uv_flow e" "[]" "rm_quiet (SetNodeStateWithMessageForCluster (uv_nodes e) (pc_cluster ctx) (ns_ip n) st msg) ctx"]
  by (simp add: mark_node_def rm_quiet_def)

lemma run_context: "rm_run f ctx = (ctx', r) \<Longrightarrow> pc_versionContext ctx' = pc_versionContext ctx"
  using rm_run_context [of f ctx] by simp

lemma marked_run_context:
  assumes "marked_run e run after n ctx = (ctx', out)"
  shows "pc_versionContext ctx' = pc_versionContext ctx"
  using assms unfolding marked_run_def
  by (auto split: prod.splits option.splits merge_error.splits dest!: mark_node_context run_context)

lemma marked_run_done:
  assumes "marked_run e run after n ctx = (ctx', Node_done)"
  shows "\<exists>c w w'. run c w = (w', None)"
  using assms unfolding marked_run_def rm_run_def by (auto split: prod.splits option.splits merge_error.splits)

text \<open>At some time the node reported the version.\<close>

definition seen_at :: "('w, 'o, 'p, 'v) upgrade_env \<Rightarrow> string \<Rightarrow> node_spec \<Rightarrow> bool" where
  "seen_at e version n \<longleftrightarrow> (\<exists>w w' node. uv_kube e (ns_hostname n) w = (w', Inr node) \<and> kn_kubelet node = version)"

lemma health_version: "NodeHealthCheck p node v = None \<Longrightarrow> v \<noteq> [] \<Longrightarrow> kn_kubelet node = v"
  by (auto simp: NodeHealthCheck_def nodeHealthCheck_def checkNodeVersion_def split: option.splits if_splits)

lemma health_seen:
  assumes "waitForWorkerNodeHealthCheck e k (ns_hostname n) v w = (w', True)" "v \<noteq> []"
  shows "seen_at e v n"
  using assms
proof (induction k arbitrary: w)
  case (Suc k)
  then show ?case
    by (auto simp: seen_at_def split: prod.splits sum.splits if_splits) (use health_version in blast)+
qed simp

lemma worker_upgradeNode_seen:
  "worker_upgradeNode e v n c w = (w', None) \<Longrightarrow> v \<noteq> [] \<Longrightarrow> seen_at e v n"
  by (auto simp: worker_upgradeNode_def waitForNodeHealth_def split: prod.splits option.splits bool.splits dest: health_seen)

text \<open>The version context fixes the version of the workers when it names one.\<close>

definition worker_target :: "version_context option \<Rightarrow> string" where
  "worker_target vco = (case vco of None \<Rightarrow> [] | Some vc \<Rightarrow> first_set (GetTarget (Some vc)) worker_names [])"

lemma worker_target_desired:
  "worker_target (pc_versionContext ctx) = v \<Longrightarrow> v \<noteq> [] \<Longrightarrow> worker_desiredKubernetesVersion ctx = v"
  by (auto simp: worker_target_def worker_desiredKubernetesVersion_def context_version_def first_set_def split: option.splits list.splits)

lemma upgrade_workers_seen:
  assumes "upgrade_workers e cl ns failed ctx = (ctx', Inr failed')" "worker_target (pc_versionContext ctx) = v" "v \<noteq> []"
  shows "\<exists>g. failed' = failed @ g \<and> (\<forall>n \<in> set ns. util_NodeInfo n \<in> set g \<or> seen_at e v n)"
  using assms(1,2)
proof (induction ns arbitrary: failed ctx)
  case (Cons n ns)
  obtain ctx1 r where k: "rm_run (uv_kube e (ns_hostname n)) ctx = (ctx1, r)" by (metis surj_pair)
  with Cons.prems(1) obtain remote where r: "r = Inr remote" "cl" by (cases r) (auto split: if_splits)
  have c1: "worker_target (pc_versionContext ctx1) = v" using run_context [OF k] Cons.prems(2) by simp
  then have d: "worker_desiredKubernetesVersion ctx1 = v" using assms(3) by (rule worker_target_desired)
  have d': "worker_desiredKubernetesVersion (upd_pc_cluster (\<lambda>_. c) ctx1) = v" for c
    using c1 assms(3) by (intro worker_target_desired) (simp_all add: upd_pc_cluster_def)
  show ?case
  proof (cases "kn_kubelet remote = v")
    case True
    have "seen_at e v n" using rm_run_world [OF k] r(1) True unfolding seen_at_def by blast
    with Cons.IH [of failed ctx1] Cons.prems(1) c1 k r d True show ?thesis by auto
  next
    case False
    obtain ctx2 out where m: "marked_run e (\<lambda>c. worker_upgradeNode e v n c) ''NotReady'' n ctx1 = (ctx2, out)" by (metis surj_pair)
    have c2: "worker_target (pc_versionContext ctx2) = v" using marked_run_context [OF m] c1 by simp
    show ?thesis
    proof (cases out)
      case Node_done
      then have "seen_at e v n" using marked_run_done [of e _ _ _ _ ctx2] m worker_upgradeNode_seen assms(3) by metis
      with Cons.IH [of failed ctx2] Cons.prems(1) c2 k r d d' False m Node_done show ?thesis by auto
    next
      case (Node_failed x)
      with Cons.IH [of "failed @ [util_NodeInfo n]" ctx2] Cons.prems(1) c2 k r d d' False m show ?thesis by auto
    next
      case (Node_aborted x)
      with Cons.prems(1) k r d d' False m show ?thesis by auto
    qed
  qed
qed simp

text \<open>C22. When an upgrade of workers to the version of its context reports no failure, every node it chose was seen at this version; and
  of the others just the reported ones may be missing.\<close>

theorem workers_upgraded:
  assumes "processNodeUpgrade e ns ctx = (ctx', Inr failed)" "worker_target (pc_versionContext ctx) = v" "v \<noteq> []"
  shows "\<forall>n \<in> set ns. util_NodeInfo n \<in> set failed \<or> seen_at e v n"
proof -
  obtain ctx1 r where t: "rm_run (tg_connect (nv_target (uv_base e)) (pc_cluster ctx)) ctx = (ctx1, r)" by (metis surj_pair)
  then have "upgrade_workers e (r = None) ns [] ctx1 = (ctx', Inr failed)" using assms(1) by (simp add: processNodeUpgrade_def)
  from upgrade_workers_seen [OF this _ assms(3)] run_context [OF t] assms(2) show ?thesis by auto
qed

subsection \<open>Control plane nodes\<close>

text \<open>A control plane node that fails ends the run: the nodes after it are not looked at, whatever they are.\<close>

theorem failing_master_stops:
  assumes "upgradeMasterNodes e backup ns ctx = (ctx', Some err)"
  shows "upgradeMasterNodes e backup (ns @ rest) ctx = (ctx', Some err)"
proof -
  have "upgrade_masters e cl backup ns c = (ctx', Some err) \<Longrightarrow> upgrade_masters e cl backup (ns @ rest) c = (ctx', Some err)" for cl c
    by (induction ns arbitrary: c) (auto split: prod.splits sum.splits option.splits node_outcome.splits if_splits)
  with assms show ?thesis by (auto simp: upgradeMasterNodes_def split: prod.splits)
qed

lemma NeedUpgrade_irrefl: "(\<And>x. sem_compare lib x x = 0) \<Longrightarrow> \<not> NeedUpgrade lib v v"
  by (auto simp: NeedUpgrade_def split: prod.splits option.splits)

lemma agents_ready_context: "agents_ready e ns ctx = (ctx', rs) \<Longrightarrow> pc_versionContext ctx' = pc_versionContext ctx"
  by (induction ns arbitrary: ctx rs) (auto split: prod.splits dest!: run_context)

lemma chosen_nodes_context: "chosen_nodes e role none ctx = (ctx', r) \<Longrightarrow> pc_versionContext ctx' = pc_versionContext ctx"
  by (auto simp: chosen_nodes_def split: prod.splits sum.splits option.splits dest!: run_context agents_ready_context)

lemma annotation_context: "ensureEtcdAdvertiseClientUrlsAnnotation e ns ctx = (ctx', r) \<Longrightarrow> pc_versionContext ctx' = pc_versionContext ctx"
  by (auto simp: ensureEtcdAdvertiseClientUrlsAnnotation_def split: prod.splits option.splits dest!: run_context)

lemma upgrade_masters_context: "upgrade_masters e cl b ns ctx = (ctx', r) \<Longrightarrow> pc_versionContext ctx' = pc_versionContext ctx"
proof (induction ns arbitrary: ctx)
  case (Cons n ns)
  obtain ctx1 q where k: "rm_run (uv_kube e (ns_hostname n)) ctx = (ctx1, q)" by (metis surj_pair)
  obtain ctx2 out where m: "marked_run e (master_upgradeNode e b n) ''NotReady'' n ctx1 = (ctx2, out)" by (metis surj_pair)
  from Cons.prems k m Cons.IH [of ctx1] Cons.IH [of ctx2] run_context [OF k] marked_run_context [OF m] show ?case
    by (auto split: if_splits sum.splits option.splits node_outcome.splits)
qed simp

lemma upgradeMasterNodes_context: "upgradeMasterNodes e b ns ctx = (ctx', r) \<Longrightarrow> pc_versionContext ctx' = pc_versionContext ctx"
  by (auto simp: upgradeMasterNodes_def split: prod.splits dest!: run_context upgrade_masters_context)

definition master_target :: "version_context option \<Rightarrow> string" where
  "master_target vco = (case vco of None \<Rightarrow> [] | Some vc \<Rightarrow> first_set (GetTarget (Some vc)) master_names [])"

lemma master_target_desired:
  "master_target (pc_versionContext ctx) = v \<Longrightarrow> v \<noteq> [] \<Longrightarrow> master_desiredKubernetesVersion ctx = v"
  by (auto simp: master_target_def master_desiredKubernetesVersion_def context_version_def first_set_def split: option.splits list.splits)

definition k8s_version :: "'w phase_ctx \<Rightarrow> string" where
  "k8s_version ctx = st_kubernetesVersion (bc_status (pc_cluster ctx))"

lemma master_rolloutUpgrade_version:
  assumes "master_rolloutUpgrade e ctx = (ctx', res, None)" "master_target (pc_versionContext ctx) = v" "v \<noteq> []"
    and "\<And>c. k8s_version (fst (sync_cluster (uv_flow e) [patchKubectlAddonToV125] c)) = k8s_version c"
  shows "k8s_version ctx' = v"
proof -
  obtain ctx1 q where g: "getNeedUpgradeNodes e ctx = (ctx1, q)" by (metis surj_pair)
  with assms(1) obtain need where q: "q = Inr need" by (cases q) (auto simp: master_rolloutUpgrade_def)
  obtain ctx2 specs where s: "rm_run (GetNodesForBKECluster (uv_nodes e) (pc_cluster ctx1)) ctx1 = (ctx2, specs)" by (metis surj_pair)
  let ?etcds = "nodes_Etcd (nodes_or_nil specs)" and ?backup = "case nodes_Etcd (nodes_or_nil specs) of [] \<Rightarrow> None | n # _ \<Rightarrow> Some n"
  obtain ctx3 r3 where a: "ensureEtcdAdvertiseClientUrlsAnnotation e ?etcds ctx2 = (ctx3, r3)" by (metis surj_pair)
  obtain ctx4 r4 where u: "upgradeMasterNodes e ?backup need ctx3 = (ctx4, r4)" by (metis surj_pair)
  have "pc_versionContext ctx4 = pc_versionContext ctx"
    using upgradeMasterNodes_context [OF u] annotation_context [OF a] run_context [OF s] chosen_nodes_context g
    by (metis getNeedUpgradeNodes_def)
  then have d: "master_desiredKubernetesVersion ctx4 = v" using assms(2,3) by (intro master_target_desired) simp_all
  let ?c = "upd_pc_cluster (set_k8s_version v) ctx4"
  obtain r5 where f: "updateAddonVersions e ?c = (ctx', r5)"
    using assms(1) g q s a u d by (auto simp: master_rolloutUpgrade_def Let_def split: option.splits prod.splits)
  have "k8s_version ?c = v" by (simp add: k8s_version_def upd_pc_cluster_def set_k8s_version_def)
  then show ?thesis using f assms(4) [of ?c] by (auto simp: updateAddonVersions_def split: option.splits if_splits)
qed

text \<open>After an upgrade of the control plane to the version of its context has ended well, that version counts as the version of the cluster,
  and once the specification holds it no control plane node is ever chosen again: not those either that were left out because their agent
  was not ready.\<close>

theorem skipped_master_counts_as_upgraded:
  assumes "master_rolloutUpgrade e ctx = (ctx', res, None)" "master_target (pc_versionContext ctx) = v" "v \<noteq> []"
    and "\<And>c. k8s_version (fst (sync_cluster (uv_flow e) [patchKubectlAddonToV125] c)) = k8s_version c"
    and "bs_clusterConfig (bc_spec (pc_cluster ctx')) = Some cfg" "cs_kubernetesVersion cfg = v" "\<And>x. sem_compare (uv_semver e) x x = 0"
  shows "k8s_version ctx' = v \<and> GetNeedUpgradeMasterNodesWithBKENodes (uv_semver e) (pc_cluster ctx') bns = Some []"
  using master_rolloutUpgrade_version [OF assms(1-4)] NeedUpgrade_irrefl [OF assms(7)] assms(5,6)
  by (simp add: GetNeedUpgradeMasterNodesWithBKENodes_def GetNeedUpgradeK8sNodesWithBKENodes_def wanted_def k8s_version_def
      compareVersionAndGetNodesWithBKENodes_def nodes_Master_def nodes_Filter_def)

subsection \<open>Etcd\<close>

text \<open>The backup is made by the first etcd node only. When its agent is not ready the others are upgraded as if no backup were wanted.\<close>

theorem backup_skipped:
  assumes "\<forall>n \<in> set need. ns_ip n \<noteq> ns_ip b"
  shows "upgradeNodes e (Some b) need ctx = upgradeNodes e None need ctx"
  using assms
proof (induction need arbitrary: ctx)
  case (Cons n ns)
  then have "upgradeEtcd e (Some b) n v c = upgradeEtcd e None n v c" for v c
    by (auto simp: upgradeEtcd_def Let_def split: prod.split option.split)
  then have "upgradeSingleNode e (Some b) n ctx = upgradeSingleNode e None n ctx"
    by (auto simp: upgradeSingleNode_def split: prod.split option.split)
  with Cons show ?case by (auto split: prod.splits option.splits)
qed simp

text \<open>The version of the pod of a node was read and matches.\<close>

definition etcd_seen :: "('w, 'o, 'p, 'v) upgrade_env \<Rightarrow> string \<Rightarrow> node_spec \<Rightarrow> bool" where
  "etcd_seen e v n \<longleftrightarrow> (\<exists>c w w' current. getEtcdImageVersion e c n w = (w', Inr current) \<and> etcdVersionsMatch v current)"

lemma etcd_health_seen: "waitForEtcdHealthCheck e k c n v w = (w', None) \<Longrightarrow> etcd_seen e v n"
proof (induction k arbitrary: w)
  case (Suc k)
  obtain w1 r where g: "getEtcdImageVersion e c n w = (w1, r)" by (metis surj_pair)
  with Suc show ?case by (cases r) (auto simp: etcd_seen_def split: if_splits)
qed simp

definition etcd_target :: "version_context option \<Rightarrow> string" where
  "etcd_target vco = (case vco of None \<Rightarrow> [] | Some vc \<Rightarrow> GetTarget (Some vc) ComponentEtcd)"

lemma etcd_target_resolved: "etcd_target (pc_versionContext ctx) = v \<Longrightarrow> v \<noteq> [] \<Longrightarrow> resolveEtcdUpgradeVersion ctx = v"
  by (auto simp: etcd_target_def resolveEtcdUpgradeVersion_def Let_def split: option.splits)

lemma sync_targets_context:
  assumes "SyncUpgradeTargetsToClusterSpec fl ctx = (ctx', r)" "pc_versionContext ctx \<noteq> None"
  shows "pc_versionContext ctx' = pc_versionContext ctx"
proof -
  have b: "BuildAndSetVersionContext ctx = ctx" using assms(2) by (simp add: BuildAndSetVersionContext_def)
  have s: "sync_cluster fl ps ctx = (ctx', r) \<Longrightarrow> pc_versionContext ctx' = pc_versionContext ctx" for ps
    using sync_cluster_context [of fl ps ctx] by simp
  from assms(1) show ?thesis
    unfolding SyncUpgradeTargetsToClusterSpec_def b Let_def by (auto split: option.splits if_splits dest: s)
qed

lemma upgradeEtcd_seen:
  assumes "upgradeEtcd e b n v ctx = (ctx', r)" "pc_versionContext ctx \<noteq> None"
  shows "pc_versionContext ctx' = pc_versionContext ctx \<and> (r = None \<longrightarrow> etcd_seen e v n)"
proof -
  obtain ctx1 r1 where s: "SyncUpgradeTargetsToClusterSpec (uv_flow e) ctx = (ctx1, r1)" by (metis surj_pair)
  let ?run = "run_upgrade e (pc_cluster ctx1) ''UpgradeEtcd'' (case b of None \<Rightarrow> False | Some b \<Rightarrow> ns_ip n = ns_ip b) (resolveEtcdUpgradeVersion ctx1) n"
  obtain ctx2 r2 where u: "rm_run ?run ctx1 = (ctx2, r2)" by (metis surj_pair)
  obtain ctx3 r3 where h: "rm_run (waitForEtcdHealthCheck e (uv_healthPolls e) (pc_cluster ctx1) n v) ctx2 = (ctx3, r3)" by (metis surj_pair)
  have "r3 = None \<Longrightarrow> etcd_seen e v n" using rm_run_world [OF h] etcd_health_seen by metis
  with assms s u h sync_targets_context [OF s assms(2)] run_context [OF u] run_context [OF h] show ?thesis
    by (auto simp: upgradeEtcd_def Let_def split: option.splits)
qed

lemma upgradeSingleNode_seen:
  assumes "upgradeSingleNode e b n ctx = (ctx', None)" "etcd_target (pc_versionContext ctx) = v" "v \<noteq> []"
  shows "pc_versionContext ctx' = pc_versionContext ctx \<and> etcd_seen e v n"
proof -
  obtain ctx1 r1 where m: "mark_node e n ''Upgrading'' ''Upgrading'' ctx = (ctx1, r1)" by (metis surj_pair)
  have c1: "pc_versionContext ctx1 = pc_versionContext ctx" by (rule mark_node_context [OF m])
  then have v: "resolveEtcdUpgradeVersion ctx1 = v" "pc_versionContext ctx1 \<noteq> None"
    using assms(2,3) by (auto intro: etcd_target_resolved simp: etcd_target_def split: option.splits)
  obtain ctx2 r2 where u: "upgradeEtcd e b n v ctx1 = (ctx2, r2)" by (metis surj_pair)
  have "r1 = None \<and> r2 = None \<and> mark_node e n ''Upgrading'' ''Upgrading success'' ctx2 = (ctx', None)"
    using assms(1) m u v(1) unfolding upgradeSingleNode_def by (auto split: option.splits prod.splits merge_error.splits)
  with upgradeEtcd_seen [OF u v(2)] c1 mark_node_context show ?thesis by metis
qed

text \<open>C24. When the etcd nodes were upgraded to the version of the context without an error, the pod of each was seen to run it.\<close>

theorem etcd_nodes_upgraded:
  assumes "upgradeNodes e b ns ctx = (ctx', None)" "etcd_target (pc_versionContext ctx) = v" "v \<noteq> []"
  shows "\<forall>n \<in> set ns. etcd_seen e v n"
  using assms(1,2)
proof (induction ns arbitrary: ctx)
  case (Cons n ns)
  obtain ctx1 r1 where u: "upgradeSingleNode e b n ctx = (ctx1, r1)" by (metis surj_pair)
  with Cons.prems(1) have r: "r1 = None" "upgradeNodes e b ns ctx1 = (ctx', None)" by (auto split: option.splits)
  with upgradeSingleNode_seen [of e b n ctx ctx1 v] u Cons.prems(2) assms(3) Cons.IH [of ctx1] show ?case by auto
qed simp

section \<open>Concrete inputs\<close>

text \<open>A cluster whose nodes all report the version \<^verbatim>\<open>v1.29\<close> and whose commands cannot be created.\<close>

definition up_node :: "string \<Rightarrow> kube_node" where
  "up_node name = \<lparr>kn_name = name, kn_labels = [], kn_conditions = [(''Ready'', ''True'')], kn_addresses = [], kn_kubelet = ''v1.29''\<rparr>"

definition up_spec_node :: "string \<Rightarrow> node_spec" where
  "up_spec_node name = (demo_spec_node ''10.0.0.1'' [])\<lparr>ns_hostname := name\<rparr>"

definition up_bke :: bke_node where
  "up_bke = (sample_node ''a'')\<lparr>bn_spec := demo_spec_node ''10.0.0.1'' [''master'', ''etcd''], bn_status := (bn_status (sample_node ''a''))\<lparr>nst_stateCode := flag_value NodeAgentReadyFlag\<rparr>\<rparr>"

definition up_base :: "(Merge_Cluster.demo_world, string, string) removal_env" where
  "up_base = \<lparr>nv_flow = demo_flow_env, nv_nodes = \<lparr>na_list = (\<lambda>_ _ w. (w, Inr [up_bke])), na_updateStatus = (\<lambda>_ w. (w, None)), na_delete = (\<lambda>_ w. (w, None)), na_retry = demo_retry\<rparr>,
     nv_capi = demo_machines [], nv_local = (\<lambda>_ _. None), nv_cluster = (\<lambda>_. demo_owner), nv_target = demo_target\<lparr>tg_connect := (\<lambda>_ w. (w, None))\<rparr>,
     nv_listNodes = (\<lambda>w. (w, Inr [])), nv_getNode = (\<lambda>n w. (w, n, None)), nv_drainPods = (\<lambda>_ w. (w, Some [], [])), nv_drain = (\<lambda>_ w. (w, None)),
     nv_remote = (\<lambda>_ w. (w, None)), nv_pods = (\<lambda>_ w. (w, Inr [])), nv_deletePod = (\<lambda>_ w. (w, None)), nv_deleteCommand = (\<lambda>_ _ w. (w, None)),
     nv_updateBke = (\<lambda>_ w. (w, None)), nv_polls = 3\<rparr>"

definition up_semver :: "nat semver" where
  "up_semver = \<lparr>sem_parse = (\<lambda>s. Some (length s)), sem_compare = (\<lambda>a b. if a < b then -1 else if b < a then 1 else 0)\<rparr>"

definition up_env :: "(Merge_Cluster.demo_world, string, string, nat) upgrade_env" where
  "up_env = \<lparr>uv_base = up_base, uv_kube = (\<lambda>n w. (w, if n = ''gone'' then Inl ApiTimeout else Inr (up_node n))), uv_getPod = (\<lambda>_ _ _. Inr ''Running''),
     uv_cmd = (\<lambda>_. \<lparr>ca_list = (\<lambda>_ w. (w, Inl ApiTimeout)), ca_get = (\<lambda>_ _ w. (w, Inl ApiTimeout)), ca_create = (\<lambda>_ w. (w, Some ApiTimeout)),
        ca_delete = (\<lambda>_ w. (w, Some ApiTimeout)), ca_patch = (\<lambda>_ w. (w, Some ApiTimeout)), ca_setOwner = Inr\<rparr>),
     uv_semver = up_semver, uv_cmdPolls = 2, uv_healthPolls = 2, uv_podPolls = 2,
     uv_retryPod = \<lparr>rl_DefaultRetry = ReadBackoff, rl_OnError = (\<lambda>b. retry_loop (bo_steps b))\<rparr>,
     uv_podAnnotations = (\<lambda>_ w. (w, Inr (Some []))), uv_setPodAnnotations = (\<lambda>_ _ w. (w, None)), uv_etcdPod = (\<lambda>_ w. (w, Inl ApiNotFound))\<rparr>"

definition up_context :: version_context where
  "up_context = SetTarget ComponentKubernetesMaster ''v1.29'' (SetTarget ComponentKubernetesWorker ''v1.29'' (SetTarget ComponentEtcd ''v3.5'' NewVersionContext))"

definition up_cluster :: bke_cluster where
  "up_cluster = (blank_cluster ''ns'' ''c1'')\<lparr>bc_spec := empty_spec\<lparr>bs_clusterConfig := Some (zero_config\<lparr>cs_kubernetesVersion := ''v1.29''\<rparr>)\<rparr>,
     bc_status := empty_status\<lparr>st_kubernetesVersion := ''v1.2''\<rparr>\<rparr>"

definition up_ctx :: "Merge_Cluster.demo_world phase_ctx" where
  "up_ctx = (demo_ctx up_cluster)\<lparr>pc_versionContext := Some up_context\<rparr>"

theorem workers_upgraded_witness:
  "\<exists>ctx'. processNodeUpgrade up_env [up_spec_node ''h1''] up_ctx = (ctx', Inr []) \<and> seen_at up_env ''v1.29'' (up_spec_node ''h1'')"
proof -
  have "snd (processNodeUpgrade up_env [up_spec_node ''h1''] up_ctx) = Inr []" by code_simp
  then obtain ctx' where r: "processNodeUpgrade up_env [up_spec_node ''h1''] up_ctx = (ctx', Inr [])" by (metis prod.collapse)
  have "worker_target (pc_versionContext up_ctx) = ''v1.29''" by code_simp
  from workers_upgraded [OF r this] r show ?thesis by simp
qed

theorem failing_master_stops_witness:
  "\<exists>ctx'. upgradeMasterNodes up_env None ([up_spec_node ''gone''] @ [up_spec_node ''h1'']) up_ctx = (ctx', Some (Failed_with ApiTimeout))"
proof -
  have "snd (upgradeMasterNodes up_env None [up_spec_node ''gone''] up_ctx) = Some (Failed_with ApiTimeout)" by code_simp
  then obtain ctx' where "upgradeMasterNodes up_env None [up_spec_node ''gone''] up_ctx = (ctx', Some (Failed_with ApiTimeout))" by (metis prod.collapse)
  from failing_master_stops [OF this, of "[up_spec_node ''h1'']"] show ?thesis by blast
qed

theorem backup_skipped_witness:
  "upgradeNodes up_env (Some (demo_spec_node ''10.0.0.9'' [])) [up_spec_node ''h1''] up_ctx = upgradeNodes up_env None [up_spec_node ''h1''] up_ctx"
  by (rule backup_skipped) (simp add: up_spec_node_def demo_spec_node_def)

definition up_etcd_env :: "(Merge_Cluster.demo_world, string, string, nat) upgrade_env" where
  "up_etcd_env = up_env\<lparr>
     uv_etcdPod := (\<lambda>_ w. (w, Inr \<lparr>ep_phase = ''Running'', ep_conditions = [(''Ready'', ''True'')], ep_containers = [(''etcd'', ''hub/etcd:v3.5'')]\<rparr>)),
     uv_cmd := (\<lambda>_. \<lparr>ca_list = (\<lambda>_ w. (w, Inr [])), ca_get = (\<lambda>_ _ w. (w, Inr (ping_reply [''h1/10.0.0.1'']))), ca_create = (\<lambda>_ w. (w, None)),
        ca_delete = (\<lambda>_ w. (w, None)), ca_patch = (\<lambda>_ w. (w, None)), ca_setOwner = Inr\<rparr>)\<rparr>"

theorem etcd_nodes_upgraded_witness:
  "\<exists>ctx'. upgradeNodes up_etcd_env None [up_spec_node ''h1''] up_ctx = (ctx', None) \<and> etcd_seen up_etcd_env ''v3.5'' (up_spec_node ''h1'')"
proof -
  have "snd (upgradeNodes up_etcd_env None [up_spec_node ''h1''] up_ctx) = None" by code_simp
  then obtain ctx' where r: "upgradeNodes up_etcd_env None [up_spec_node ''h1''] up_ctx = (ctx', None)" by (metis prod.collapse)
  have "etcd_target (pc_versionContext up_ctx) = ''v3.5''" by code_simp
  from etcd_nodes_upgraded [OF r this] r show ?thesis by simp
qed

end
